(* ===== verification/AS_Prelude.thy ===== *)
theory AS_Prelude
  imports Main "HOL-Library.Char_ord" "HOL-Library.List_Lexorder" "HOL-Library.Sublist"
begin

text \<open>
  Shared vocabulary of the development.

  \<^item> \<open>exn\<close> and \<open>'a res\<close>: a Python call that may raise is a value of the sum type
    \<open>exn + 'a\<close>, \<open>Inl\<close> being the exception with its class and its message.
  \<^item> \<open>first_error\<close>: the shape of every \<open>__post_init__\<close> of the repository, a sequence of
    checks of which the first failing one raises.
  \<^item> \<open>append_reason\<close>, \<open>reason_set\<close>: the reason-code lists that every gate of the runtime
    collects, and the \<open>tuple(sorted(set(...)))\<close> it publishes.
  \<^item> \<open>str_strip\<close>, \<open>str_upper\<close>, \<open>str_lower\<close>: the string methods the source uses. Text is ASCII
    (one \<open>char\<close> per code point); the source's identifiers, symbols, hashes and state names are.
\<close>

named_theorems res_simps \<open>unfolding rules for computations that may raise\<close>
named_theorems reason_simps \<open>membership rules for reason-code lists\<close>
named_theorems text_simps \<open>rules for the text operations\<close>

section \<open>Exceptions and results\<close>

datatype exn =
    TypeError string
  | ValueError string
  | KeyError string
  | PermissionError string
  | OverflowError string
  | AssertionError string
  | ZeroDivisionError string
  | DecimalInvalidOperation string
  | JournalError string
  | DuplicateIntentError string
  | InvalidTransitionError string
  | ExecutorFenceError string
  | KillSwitchLatchedError string
  | SubmissionLimitError string
  | IntegrityError string
  | MT5AdapterError string
  | RiskLedgerError string
  | RiskLedgerBindingError string
  | RiskLedgerIntegrityError string
  | RiskLedgerDuplicateError string
  | RiskLedgerRollbackError string
  | RiskLedgerSourceError string
  | RuntimeFactCollectionError string
  | RuntimeFactVerificationError "string list"
  | RiskContextVerificationError "string list"
  | AttributeError string
  | OSError string
  | RuntimeError string
  | MT5UnavailableError string
  | AccountBindingError string
  | PreflightRejectedError string
  | ExecutionLockedError string
  | SubmissionUncertainError string
  | AccountRuntimeFenceError string
  | LiveCanaryOrderAuthorizationError string

type_synonym 'a res = "exn + 'a"

fun res_bind :: "'a res \<Rightarrow> ('a \<Rightarrow> 'b res) \<Rightarrow> 'b res" where
  "res_bind (Inl e) f = Inl e"
| "res_bind (Inr x) f = f x"

fun err_of :: "'a res \<Rightarrow> exn option" where
  "err_of (Inl e) = Some e"
| "err_of (Inr x) = None"

definition raise_if :: "bool \<Rightarrow> exn \<Rightarrow> exn option" where
  "raise_if c e = (if c then Some e else None)"

fun first_error :: "exn option list \<Rightarrow> exn option" where
  "first_error [] = None"
| "first_error (None # cs) = first_error cs"
| "first_error (Some e # cs) = Some e"

definition checked :: "exn option list \<Rightarrow> 'a \<Rightarrow> 'a res" where
  "checked cs x = (case first_error cs of Some e \<Rightarrow> Inl e | None \<Rightarrow> Inr x)"

lemma res_bind_Inr_iff [res_simps]: "res_bind m f = Inr y \<longleftrightarrow> (\<exists>x. m = Inr x \<and> f x = Inr y)"
  by (cases m) auto

lemma res_bind_assoc: "res_bind (res_bind m f) g = res_bind m (\<lambda>x. res_bind (f x) g)"
  by (cases m) auto

lemma err_of_None_iff: "err_of m = None \<longleftrightarrow> (\<exists>x. m = Inr x)"
  by (cases m) auto

lemma raise_if_None_iff [simp]: "raise_if c e = None \<longleftrightarrow> \<not> c"
  by (simp add: raise_if_def)

lemma first_error_None_iff: "first_error cs = None \<longleftrightarrow> list_all (\<lambda>c. c = None) cs"
  by (induction cs rule: first_error.induct) auto

lemma first_error_Cons: "first_error (c # cs) = (case c of None \<Rightarrow> first_error cs | Some e \<Rightarrow> Some e)"
  by (cases c) auto

lemma first_error_append:
  "first_error (xs @ ys) = (case first_error xs of None \<Rightarrow> first_error ys | Some e \<Rightarrow> Some e)"
  by (induction xs rule: first_error.induct) auto

lemma checked_Inr_iff [res_simps]:
  "checked cs x = Inr y \<longleftrightarrow> list_all (\<lambda>c. c = None) cs \<and> y = x"
  by (auto simp: checked_def first_error_None_iff [symmetric] split: option.splits)

lemma checked_Inl_iff: "checked cs x = Inl e \<longleftrightarrow> first_error cs = Some e"
  by (auto simp: checked_def split: option.splits)

section \<open>Reason codes\<close>

definition append_reason :: "string list \<Rightarrow> bool \<Rightarrow> string \<Rightarrow> string list" where
  "append_reason reasons condition code =
     (if condition \<and> code \<notin> set reasons then reasons @ [code] else reasons)"

fun append_reasons :: "string list \<Rightarrow> (bool \<times> string) list \<Rightarrow> string list" where
  "append_reasons reasons [] = reasons"
| "append_reasons reasons ((c, code) # cs) = append_reasons (append_reason reasons c code) cs"

definition reason_set :: "string list \<Rightarrow> string list" where
  "reason_set reasons = sort (remdups reasons)"

text \<open>The codes of the gates that fired, in the order of the gates.\<close>

definition fired :: "(bool \<times> string) list \<Rightarrow> string list" where
  "fired gates = map snd (filter fst gates)"

lemma set_append_reason [reason_simps]:
  "set (append_reason reasons c code) = set reasons \<union> (if c then {code} else {})"
  by (auto simp: append_reason_def)

lemma set_append_reasons [reason_simps]:
  "set (append_reasons reasons cs) = set reasons \<union> {code. (True, code) \<in> set cs}"
  by (induction reasons cs rule: append_reasons.induct) (auto simp: reason_simps)

lemma set_reason_set [simp]: "set (reason_set reasons) = set reasons"
  by (simp add: reason_set_def)

lemma distinct_reason_set [simp]: "distinct (reason_set reasons)"
  by (simp add: reason_set_def)

lemma sorted_reason_set [simp]: "sorted (reason_set reasons)"
  by (simp add: reason_set_def)

lemma reason_set_Nil_iff [simp]: "reason_set reasons = [] \<longleftrightarrow> reasons = []"
  using set_reason_set [of reasons] by (metis set_empty)

lemma reason_set_Nil [simp]: "reason_set [] = []"
  by (simp add: reason_set_def)

lemma reason_set_idem [simp]: "reason_set (reason_set reasons) = reason_set reasons"
  by (simp add: reason_set_def distinct_remdups_id sorted_sort_id)

lemma append_reason_Nil_iff [simp]: "append_reason reasons c code = [] \<longleftrightarrow> reasons = [] \<and> \<not> c"
  by (auto simp: append_reason_def)

lemma append_reasons_Nil_iff [simp]:
  "append_reasons reasons cs = [] \<longleftrightarrow> reasons = [] \<and> list_all (\<lambda>(c, code). \<not> c) cs"
  by (induction reasons cs rule: append_reasons.induct) auto

lemma append_reasons_clear: "list_all (\<lambda>(c, code). \<not> c) cs \<Longrightarrow> append_reasons reasons cs = reasons"
  by (induction reasons cs rule: append_reasons.induct) (auto simp: append_reason_def)

lemma append_reasons_append:
  "append_reasons reasons (cs @ ds) = append_reasons (append_reasons reasons cs) ds"
  by (induction reasons cs rule: append_reasons.induct) auto

lemma fired_Nil_iff [simp]: "fired gates = [] \<longleftrightarrow> list_all (\<lambda>(c, code). \<not> c) gates"
  by (auto simp: fired_def filter_empty_conv list.pred_set)

lemma fired_codes: "set (fired gates) \<subseteq> set (map snd gates)"
  by (auto simp: fired_def)

lemma fired_mem [reason_simps]: "code \<in> set (fired gates) \<longleftrightarrow> (True, code) \<in> set gates"
  by (force simp: fired_def)

lemma fired_append [simp]: "fired (gates @ more) = fired gates @ fired more"
  by (simp add: fired_def)

lemma distinct_fired: "distinct (map snd gates) \<Longrightarrow> distinct (fired gates)"
  by (simp add: fired_def distinct_map_filter)

section \<open>Text\<close>

definition is_space :: "char \<Rightarrow> bool" where
  "is_space c = (let n = of_char c :: nat in (9 \<le> n \<and> n \<le> 13) \<or> (28 \<le> n \<and> n \<le> 32))"

definition str_strip :: "string \<Rightarrow> string" where
  "str_strip s = rev (dropWhile is_space (rev (dropWhile is_space s)))"

definition upper_char :: "char \<Rightarrow> char" where
  "upper_char c = (let n = of_char c :: nat in
     if 97 \<le> n \<and> n \<le> 122 then char_of (n - 32) else c)"

definition lower_char :: "char \<Rightarrow> char" where
  "lower_char c = (let n = of_char c :: nat in
     if 65 \<le> n \<and> n \<le> 90 then char_of (n + 32) else c)"

definition str_upper :: "string \<Rightarrow> string" where
  "str_upper s = map upper_char s"

definition str_lower :: "string \<Rightarrow> string" where
  "str_lower s = map lower_char s"

definition str_startswith :: "string \<Rightarrow> string \<Rightarrow> bool" where
  "str_startswith s p = prefix p s"

definition str_contains :: "string \<Rightarrow> string \<Rightarrow> bool" where
  "str_contains p s = sublist p s"

definition is_hex_lower :: "char \<Rightarrow> bool" where
  "is_hex_lower c = (let n = of_char c :: nat in (48 \<le> n \<and> n \<le> 57) \<or> (97 \<le> n \<and> n \<le> 102))"

definition is_hex :: "char \<Rightarrow> bool" where
  "is_hex c = (let n = of_char c :: nat in
     (48 \<le> n \<and> n \<le> 57) \<or> (65 \<le> n \<and> n \<le> 70) \<or> (97 \<le> n \<and> n \<le> 102))"

definition is_upper_letter :: "char \<Rightarrow> bool" where
  "is_upper_letter c = (let n = of_char c :: nat in 65 \<le> n \<and> n \<le> 90)"

lemma upper_char_idem [simp]: "upper_char (upper_char c) = upper_char c"
  by (auto simp: upper_char_def Let_def)

lemma lower_char_idem [simp]: "lower_char (lower_char c) = lower_char c"
  by (auto simp: lower_char_def Let_def)

lemma str_upper_idem [simp]: "str_upper (str_upper s) = str_upper s"
  by (simp add: str_upper_def)

lemma str_lower_idem [simp]: "str_lower (str_lower s) = str_lower s"
  by (simp add: str_lower_def)

lemma length_str_lower [simp]: "length (str_lower s) = length s"
  by (simp add: str_lower_def)

lemma str_upper_Nil_iff [simp]: "str_upper s = [] \<longleftrightarrow> s = []"
  by (simp add: str_upper_def)

lemma is_space_upper_char [simp]: "is_space (upper_char c) = is_space c"
  by (auto simp: upper_char_def is_space_def Let_def)

lemma is_space_lower_char [simp]: "is_space (lower_char c) = is_space c"
  by (auto simp: lower_char_def is_space_def Let_def)

lemma hex_lower_not_space: "is_hex_lower c \<Longrightarrow> \<not> is_space c"
  by (auto simp: is_hex_lower_def is_space_def Let_def)

lemma hex_lower_is_hex: "is_hex_lower c \<Longrightarrow> is_hex c"
  by (auto simp: is_hex_lower_def is_hex_def Let_def)

lemma lower_char_hex_lower: "is_hex_lower c \<Longrightarrow> lower_char c = c"
  by (auto simp: is_hex_lower_def lower_char_def Let_def)

lemma lower_char_hex: "is_hex c \<Longrightarrow> is_hex_lower (lower_char c)"
  by (auto simp: is_hex_def is_hex_lower_def lower_char_def Let_def)

lemma is_hex_lower_char [simp]: "is_hex (lower_char c) = is_hex c"
  by (auto simp: is_hex_def lower_char_def Let_def)

lemma dropWhile_map_space:
  assumes "\<And>c. is_space (f c) = is_space c"
  shows "dropWhile is_space (map f s) = map f (dropWhile is_space s)"
  using assms by (induction s) auto

lemma str_strip_map:
  assumes "\<And>c. is_space (f c) = is_space c"
  shows "str_strip (map f s) = map f (str_strip s)"
  by (simp add: str_strip_def dropWhile_map_space [OF assms] rev_map)

lemma str_strip_upper: "str_strip (str_upper s) = str_upper (str_strip s)"
  by (simp add: str_upper_def str_strip_map)

lemma str_strip_lower: "str_strip (str_lower s) = str_lower (str_strip s)"
  by (simp add: str_lower_def str_strip_map)

lemma dropWhile_rev_dropWhile:
  "dropWhile P (rev (dropWhile P (rev (dropWhile P s)))) = rev (dropWhile P (rev (dropWhile P s)))"
proof (cases "dropWhile P s")
  case Nil
  show ?thesis unfolding Nil by simp
next
  case (Cons a t)
  then have "\<not> P a" by (metis dropWhile_eq_Cons_conv)
  then have "dropWhile P (rev t @ [a]) = dropWhile P (rev t) @ [a]"
    by (induction "rev t") (auto simp: dropWhile_append)
  then show ?thesis using Cons \<open>\<not> P a\<close> by simp
qed

lemma str_strip_idem [simp]: "str_strip (str_strip s) = str_strip s"
  by (simp add: str_strip_def dropWhile_rev_dropWhile dropWhile_idem)

lemma str_strip_no_space:
  assumes "list_all (\<lambda>c. \<not> is_space c) s"
  shows "str_strip s = s"
proof -
  have "dropWhile is_space t = t" if "list_all (\<lambda>c. \<not> is_space c) t" for t
    using that by (cases t) auto
  then show ?thesis using assms by (simp add: str_strip_def)
qed

lemma str_strip_Nil_iff: "str_strip s = [] \<longleftrightarrow> list_all is_space s"
proof -
  have "list_all is_space s" if "dropWhile is_space (rev (dropWhile is_space s)) = []"
  proof -
    from that have "\<forall>c\<in>set (dropWhile is_space s). is_space c" by simp
    moreover have "\<forall>c\<in>set (takeWhile is_space s). is_space c" by (auto dest: set_takeWhileD)
    ultimately show ?thesis by (metis Un_iff list.pred_set set_append takeWhile_dropWhile_id)
  qed
  moreover have "dropWhile is_space s = []" if "list_all is_space s"
    using that by (simp add: list.pred_set)
  ultimately show ?thesis unfolding str_strip_def by (metis dropWhile.simps(1) rev.simps(1) rev_is_Nil_conv)
qed

lemma str_contains_code [code]:
  "str_contains p s = (case s of [] \<Rightarrow> p = [] | c # cs \<Rightarrow> prefix p s \<or> str_contains p cs)"
  by (cases s) (auto simp: str_contains_def sublist_Cons_right)

end
