(* ===== verification/Py_Float.thy ===== *)
theory Py_Float
  imports AS_Prelude Complex_Main
begin

text \<open>
  Python's numbers as the source uses them.

  \<^item> A \<open>float\<close> is an IEEE 754 binary64 value: \<open>Fin q\<close> for the finite ones (an exact rational),
    the two infinities and NaN. Every operation computes the exact result and rounds it to
    the nearest representable number, ties to even (\<open>fl_of_rat\<close>), with gradual underflow and
    overflow to infinity. The sign of zero is not kept: no expression of the modelled code
    observes it (a division by zero raises in Python whatever the sign).
  \<^item> A \<open>Decimal\<close> is an exact rational; the arithmetic of the default context rounds to 28
    significant digits, ties to even (\<open>dec_round\<close>). \<open>dec_of_float\<close> is \<open>Decimal(str(x))\<close>: the
    shortest decimal that reads back as \<open>x\<close>.
  Both roundings are instances of \<open>round_sig\<close>. The lemmas of the theory are its bounds, that it
  leaves representable numbers unchanged and that it is monotone.
\<close>

section \<open>Rounding to a number of significant digits\<close>

definition round_half_even :: "rat \<Rightarrow> int" where
  "round_half_even q =
     (let f = \<lfloor>q\<rfloor>; d = q - of_int f in
      if d < 1 / 2 then f else if 1 / 2 < d then f + 1 else if even f then f else f + 1)"

function ilog :: "nat \<Rightarrow> nat \<Rightarrow> nat" where
  "ilog b n = (if b < 2 \<or> n < b then 0 else Suc (ilog b (n div b)))"
  by pat_completeness auto
termination
  by (relation "measure (\<lambda>(b, n). n)") auto

declare ilog.simps [simp del]

definition pow_rat :: "nat \<Rightarrow> int \<Rightarrow> rat" where
  "pow_rat b e = (if 0 \<le> e then of_nat b ^ nat e else 1 / of_nat b ^ nat (- e))"

definition exponent :: "nat \<Rightarrow> rat \<Rightarrow> int" where
  "exponent b q =
     (if 1 \<le> q then int (ilog b (nat \<lfloor>q\<rfloor>))
      else let k = int (ilog b (nat \<lfloor>1 / q\<rfloor>)) in if pow_rat b (- k) \<le> q then - k else - k - 1)"

definition round_to :: "nat \<Rightarrow> int \<Rightarrow> rat \<Rightarrow> rat" where
  "round_to b u q = of_int (round_half_even (q * pow_rat b (- u))) * pow_rat b u"

definition round_sig :: "nat \<Rightarrow> int \<Rightarrow> int \<Rightarrow> rat \<Rightarrow> rat" where
  "round_sig b p emin q =
     (if q = 0 then 0
      else if q < 0 then - round_to b (max (exponent b (- q)) emin - p + 1) (- q)
      else round_to b (max (exponent b q) emin - p + 1) q)"

section \<open>Python floats\<close>

datatype pyfloat = Fin rat | PInf | NInf | NaN

definition bin_round :: "rat \<Rightarrow> rat" where
  "bin_round q = round_sig 2 53 (- 1022) q"

definition fl_overflow :: rat where
  "fl_overflow = 2 ^ 1024"

definition fl_of_rat :: "rat \<Rightarrow> pyfloat" where
  "fl_of_rat q =
     (let r = bin_round q in
      if fl_overflow \<le> r then PInf else if r \<le> - fl_overflow then NInf else Fin r)"

definition representable :: "rat \<Rightarrow> bool" where
  "representable q = (bin_round q = q \<and> \<bar>q\<bar> < fl_overflow)"

fun fl_wf :: "pyfloat \<Rightarrow> bool" where
  "fl_wf (Fin q) = representable q"
| "fl_wf x = True"

fun is_finite :: "pyfloat \<Rightarrow> bool" where
  "is_finite (Fin q) = True"
| "is_finite x = False"

fun fl_value :: "pyfloat \<Rightarrow> rat" where
  "fl_value (Fin q) = q"
| "fl_value x = 0"

fun fl_neg :: "pyfloat \<Rightarrow> pyfloat" where
  "fl_neg (Fin q) = Fin (- q)"
| "fl_neg PInf = NInf"
| "fl_neg NInf = PInf"
| "fl_neg NaN = NaN"

fun fl_abs :: "pyfloat \<Rightarrow> pyfloat" where
  "fl_abs (Fin q) = Fin \<bar>q\<bar>"
| "fl_abs NaN = NaN"
| "fl_abs x = PInf"

fun fl_add :: "pyfloat \<Rightarrow> pyfloat \<Rightarrow> pyfloat" where
  "fl_add (Fin a) (Fin b) = fl_of_rat (a + b)"
| "fl_add NaN y = NaN"
| "fl_add x NaN = NaN"
| "fl_add PInf NInf = NaN"
| "fl_add NInf PInf = NaN"
| "fl_add PInf y = PInf"
| "fl_add NInf y = NInf"
| "fl_add x PInf = PInf"
| "fl_add x NInf = NInf"

definition fl_sub :: "pyfloat \<Rightarrow> pyfloat \<Rightarrow> pyfloat" where
  "fl_sub x y = fl_add x (fl_neg y)"

definition fl_inf_of_sign :: "rat \<Rightarrow> pyfloat" where
  "fl_inf_of_sign s = (if 0 < s then PInf else if s < 0 then NInf else NaN)"

fun fl_sign :: "pyfloat \<Rightarrow> rat" where
  "fl_sign (Fin q) = sgn q"
| "fl_sign PInf = 1"
| "fl_sign NInf = - 1"
| "fl_sign NaN = 0"

fun fl_mul :: "pyfloat \<Rightarrow> pyfloat \<Rightarrow> pyfloat" where
  "fl_mul (Fin a) (Fin b) = fl_of_rat (a * b)"
| "fl_mul NaN y = NaN"
| "fl_mul x NaN = NaN"
| "fl_mul x y = fl_inf_of_sign (fl_sign x * fl_sign y)"

fun fl_div :: "pyfloat \<Rightarrow> pyfloat \<Rightarrow> pyfloat res" where
  "fl_div x (Fin b) =
     (if b = 0 then Inl (ZeroDivisionError ''float division by zero'')
      else case x of Fin a \<Rightarrow> Inr (fl_of_rat (a / b)) | NaN \<Rightarrow> Inr NaN
           | _ \<Rightarrow> Inr (fl_inf_of_sign (fl_sign x * sgn b)))"
| "fl_div x NaN = Inr NaN"
| "fl_div x y = (case x of Fin a \<Rightarrow> Inr (Fin 0) | _ \<Rightarrow> Inr NaN)"

fun fl_lt :: "pyfloat \<Rightarrow> pyfloat \<Rightarrow> bool" where
  "fl_lt (Fin a) (Fin b) = (a < b)"
| "fl_lt NaN y = False"
| "fl_lt x NaN = False"
| "fl_lt PInf y = False"
| "fl_lt x PInf = True"
| "fl_lt x NInf = False"
| "fl_lt NInf y = True"

fun fl_eq :: "pyfloat \<Rightarrow> pyfloat \<Rightarrow> bool" where
  "fl_eq NaN y = False"
| "fl_eq x NaN = False"
| "fl_eq x y = (x = y)"

definition fl_le :: "pyfloat \<Rightarrow> pyfloat \<Rightarrow> bool" where
  "fl_le x y = (fl_lt x y \<or> fl_eq x y)"

definition fl_min :: "pyfloat \<Rightarrow> pyfloat \<Rightarrow> pyfloat" where
  "fl_min x y = (if fl_lt y x then y else x)"

definition fl_max :: "pyfloat \<Rightarrow> pyfloat \<Rightarrow> pyfloat" where
  "fl_max x y = (if fl_lt x y then y else x)"

section \<open>Python decimals\<close>

definition dec_round :: "rat \<Rightarrow> rat" where
  "dec_round q = round_sig 10 28 (- 999999) q"

definition dec_candidates :: "rat \<Rightarrow> nat \<Rightarrow> rat list" where
  "dec_candidates q n =
     (let s = pow_rat 10 (exponent 10 q - int n + 1); m = \<lfloor>q / s\<rfloor>;
          near = [of_int m * s, of_int (m + 1) * s]
      in filter (\<lambda>c. fl_of_rat c = Fin q) near)"

definition closest :: "rat \<Rightarrow> rat list \<Rightarrow> rat" where
  "closest q cs = (case cs of [] \<Rightarrow> q | [c] \<Rightarrow> c
     | c # d # _ \<Rightarrow> if \<bar>d - q\<bar> < \<bar>c - q\<bar> then d else c)"

fun shortest_decimal :: "rat \<Rightarrow> nat list \<Rightarrow> rat" where
  "shortest_decimal q [] = q"
| "shortest_decimal q (n # ns) =
     (let cs = dec_candidates q n in if cs = [] then shortest_decimal q ns else closest q cs)"

definition dec_of_float :: "rat \<Rightarrow> rat" where
  "dec_of_float q =
     (if q = 0 then 0
      else if q < 0 then - shortest_decimal (- q) [1..<18]
      else shortest_decimal q [1..<18])"

section \<open>Rounding: bounds, monotonicity, idempotence\<close>

lemma ilog_bounds:
  assumes "2 \<le> b" and "0 < n"
  shows "b ^ ilog b n \<le> n \<and> n < b ^ Suc (ilog b n)"
  using assms
proof (induction b n rule: ilog.induct)
  case (1 b n)
  show ?case
  proof (cases "n < b")
    case True
    with "1.prems" show ?thesis by (simp add: ilog.simps [of b n])
  next
    case False
    with "1.prems" have pos: "0 < n div b" by (simp add: div_greater_zero_iff)
    with False "1.prems" "1.IH" have ih: "b ^ ilog b (n div b) \<le> n div b"
      and ih2: "n div b < b * b ^ ilog b (n div b)" by simp_all
    from ih have "b ^ ilog b (n div b) * b \<le> n div b * b" by (rule mult_le_mono1)
    also have "\<dots> \<le> n" by simp
    finally have lo: "b * b ^ ilog b (n div b) \<le> n" by (simp add: mult.commute)
    have "n < b * (b * b ^ ilog b (n div b))"
      using ih2 "1.prems" by (simp add: div_less_iff_less_mult mult.commute)
    with lo False "1.prems" show ?thesis by (simp add: ilog.simps [of b n])
  qed
qed

lemma pow_rat_powi: "pow_rat b e = of_nat b powi e"
  by (simp add: pow_rat_def power_int_def field_simps)

lemma pow_rat_pos [simp]: "2 \<le> b \<Longrightarrow> 0 < pow_rat b e"
  by (simp add: pow_rat_powi)

lemma pow_rat_add: "2 \<le> b \<Longrightarrow> pow_rat b (i + j) = pow_rat b i * pow_rat b j"
  by (simp add: pow_rat_powi power_int_add)

lemma pow_rat_minus: "2 \<le> b \<Longrightarrow> pow_rat b (- i) = 1 / pow_rat b i"
  by (simp add: pow_rat_powi power_int_minus field_simps)

lemma pow_rat_0 [simp]: "pow_rat b 0 = 1"
  by (simp add: pow_rat_def)

lemma pow_rat_nat [simp]: "pow_rat b (int n) = of_nat (b ^ n)"
  by (simp add: pow_rat_def)

lemma pow_rat_mono: "2 \<le> b \<Longrightarrow> i \<le> j \<Longrightarrow> pow_rat b i \<le> pow_rat b j"
  by (simp add: pow_rat_powi power_int_increasing)

lemma pow_rat_strict_mono_iff: "2 \<le> b \<Longrightarrow> pow_rat b i < pow_rat b j \<longleftrightarrow> i < j"
  using pow_rat_mono [of b j i]
  by (cases "i < j") (auto simp: pow_rat_powi not_less intro: power_int_strict_increasing)

lemma exponent_bounds:
  assumes b: "2 \<le> b" and q: "0 < q"
  shows "pow_rat b (exponent b q) \<le> q \<and> q < pow_rat b (exponent b q + 1)"
proof (cases "1 \<le> q")
  case True
  define n where "n = nat \<lfloor>q\<rfloor>"
  have n: "0 < n" and fl: "of_nat n \<le> q" "q < of_nat n + 1"
    using True by (auto simp: n_def) linarith+
  from ilog_bounds [OF b n] have "b ^ ilog b n \<le> n" "n + 1 \<le> b ^ Suc (ilog b n)" by auto
  then have "of_nat b ^ ilog b n \<le> (of_nat n :: rat)"
    "(of_nat n + 1 :: rat) \<le> of_nat b ^ Suc (ilog b n)"
    by (metis of_nat_le_iff of_nat_power, metis of_nat_le_iff of_nat_power of_nat_add of_nat_1)
  then have "of_nat b ^ ilog b n \<le> q" "q < of_nat b ^ Suc (ilog b n)"
    using fl by linarith+
  then show ?thesis using True b
    by (simp add: exponent_def n_def [symmetric] pow_rat_add) (simp add: pow_rat_def mult.commute)
next
  case False
  define k where "k = ilog b (nat \<lfloor>1 / q\<rfloor>)"
  define n where "n = nat \<lfloor>1 / q\<rfloor>"
  have "1 < 1 / q" using False q by (simp add: field_simps)
  then have n: "0 < n" and fl: "of_nat n \<le> 1 / q" "1 / q < of_nat n + 1"
    by (auto simp: n_def) linarith+
  from ilog_bounds [OF b n] have "b ^ k \<le> n" "n + 1 \<le> b ^ Suc k" by (auto simp: k_def n_def)
  then have "of_nat b ^ k \<le> (of_nat n :: rat)" "(of_nat n + 1 :: rat) \<le> of_nat b ^ Suc k"
    by (metis of_nat_le_iff of_nat_power, metis of_nat_le_iff of_nat_power of_nat_add of_nat_1)
  then have lo: "of_nat b ^ k \<le> 1 / q" and hi: "1 / q < of_nat b ^ Suc k"
    using fl by linarith+
  have bk: "(0::rat) < of_nat b ^ k" using b by simp
  from lo bk q have "q \<le> pow_rat b (- int k)"
    using b by (simp add: pow_rat_minus field_simps)
  moreover from hi bk q b have "pow_rat b (- int k - 1) < q"
  proof -
    have "pow_rat b (- int k - 1) = 1 / of_nat b ^ Suc k"
      using b pow_rat_minus [of b "int k + 1"] pow_rat_add [of b "int k" 1]
      by (simp add: pow_rat_def mult.commute algebra_simps)
    also have "\<dots> < q" using hi bk q b by (simp add: field_simps)
    finally show ?thesis .
  qed
  moreover have "pow_rat b (- int k) < pow_rat b (- int k + 1)"
    using b by (simp add: pow_rat_strict_mono_iff)
  ultimately show ?thesis using False
    by (auto simp: exponent_def k_def [symmetric] Let_def)
qed

lemma exponent_unique:
  assumes b: "2 \<le> b" and "pow_rat b e \<le> q" and "q < pow_rat b (e + 1)"
  shows "exponent b q = e"
proof -
  have q: "0 < q" using assms pow_rat_pos [OF b, of e] by linarith
  note eb = exponent_bounds [OF b q]
  have "pow_rat b e < pow_rat b (exponent b q + 1)" "pow_rat b (exponent b q) < pow_rat b (e + 1)"
    using assms eb by linarith+
  then show ?thesis using b by (simp add: pow_rat_strict_mono_iff)
qed

lemma exponent_mono:
  assumes b: "2 \<le> b" and "0 < x" and "x \<le> y"
  shows "exponent b x \<le> exponent b y"
proof -
  have "pow_rat b (exponent b x) < pow_rat b (exponent b y + 1)"
    using exponent_bounds [OF b, of x] exponent_bounds [OF b, of y] assms by linarith
  then show ?thesis using b by (simp add: pow_rat_strict_mono_iff)
qed

lemma round_half_even_of_int [simp]: "round_half_even (of_int n) = n"
  by (simp add: round_half_even_def)

lemma round_half_even_mono: "x \<le> y \<Longrightarrow> round_half_even x \<le> round_half_even y"
proof -
  assume xy: "x \<le> y"
  then have "\<lfloor>x\<rfloor> \<le> \<lfloor>y\<rfloor>" by (rule floor_mono)
  then consider "\<lfloor>x\<rfloor> = \<lfloor>y\<rfloor>" | "\<lfloor>x\<rfloor> + 1 \<le> \<lfloor>y\<rfloor>" by linarith
  then show ?thesis
  proof cases
    case 1
    with xy show ?thesis by (auto simp: round_half_even_def Let_def)
  next
    case 2
    have "round_half_even x \<le> \<lfloor>x\<rfloor> + 1" "\<lfloor>y\<rfloor> \<le> round_half_even y"
      by (auto simp: round_half_even_def Let_def)
    with 2 show ?thesis by linarith
  qed
qed

lemma round_half_even_nearest: "\<bar>of_int (round_half_even q) - q\<bar> \<le> 1 / 2"
proof -
  have "of_int \<lfloor>q\<rfloor> \<le> q" "q < of_int \<lfloor>q\<rfloor> + 1" by linarith+
  then show ?thesis by (auto simp: round_half_even_def Let_def abs_le_iff)
qed

lemma round_half_even_unique:
  assumes "\<bar>of_int m - q\<bar> < 1 / 2"
  shows "round_half_even q = m"
proof -
  have "\<bar>(of_int (round_half_even q) :: rat) - of_int m\<bar> < 1"
    using round_half_even_nearest [of q] assms by linarith
  then have "\<bar>round_half_even q - m\<bar> < 1"
    by (metis of_int_abs of_int_diff of_int_less_1_iff)
  then show ?thesis by simp
qed

lemma round_to_mono: "2 \<le> b \<Longrightarrow> x \<le> y \<Longrightarrow> round_to b u x \<le> round_to b u y"
  by (simp add: round_to_def round_half_even_mono less_imp_le)

lemma round_to_grid: "2 \<le> b \<Longrightarrow> round_to b u (of_int m * pow_rat b u) = of_int m * pow_rat b u"
  using pow_rat_pos [of b u] by (simp add: round_to_def pow_rat_minus)

lemma round_to_power:
  assumes "2 \<le> b" and "u \<le> e"
  shows "round_to b u (pow_rat b e) = pow_rat b e"
proof -
  have "pow_rat b e = of_int (int (b ^ nat (e - u))) * pow_rat b u"
    using assms pow_rat_add [of b "e - u" u] by (simp add: pow_rat_def)
  then show ?thesis using round_to_grid [OF assms(1)] by metis
qed


lemma round_sig_minus: "round_sig b p k (- q) = - round_sig b p k q"
  by (simp add: round_sig_def)

lemma round_sig_0 [simp]: "round_sig b p k 0 = 0"
  by (simp add: round_sig_def)

lemma round_sig_nonneg: "2 \<le> b \<Longrightarrow> 0 \<le> q \<Longrightarrow> 0 \<le> round_sig b p k q"
  using round_half_even_mono [of 0 "q * pow_rat b (- (max (exponent b q) k - p + 1))"]
    round_half_even_of_int [of 0]
  by (simp add: round_sig_def round_to_def less_imp_le)

lemma round_sig_mono_pos:
  assumes b: "2 \<le> b" and p: "1 \<le> p" and x: "0 < x" and xy: "x \<le> y"
  shows "round_sig b p k x \<le> round_sig b p k y"
proof -
  let ?ex = "exponent b x" and ?ey = "exponent b y"
  have le: "?ex \<le> ?ey" by (rule exponent_mono [OF b x xy])
  have rx: "round_sig b p k x = round_to b (max ?ex k - p + 1) x"
    and ry: "round_sig b p k y = round_to b (max ?ey k - p + 1) y"
    using x xy by (simp_all add: round_sig_def)
  consider "max ?ex k = max ?ey k" | "max ?ex k < ?ey" "k < ?ey" using le by linarith
  then show ?thesis
  proof cases
    case 1
    with round_to_mono [OF b xy] show ?thesis by (simp add: rx ry)
  next
    case 2
    let ?m = "pow_rat b ?ey"
    have "x \<le> ?m" using exponent_bounds [OF b x] 2 pow_rat_mono [OF b, of "?ex + 1" ?ey] by linarith
    then have "round_to b (max ?ex k - p + 1) x \<le> round_to b (max ?ex k - p + 1) ?m"
      by (rule round_to_mono [OF b])
    also have "\<dots> = ?m" using 2 p by (intro round_to_power [OF b]) linarith
    also have "\<dots> = round_to b (max ?ey k - p + 1) ?m"
      using 2 p by (intro round_to_power [OF b, symmetric]) linarith
    also have "\<dots> \<le> round_to b (max ?ey k - p + 1) y"
      using exponent_bounds [OF b, of y] x xy by (intro round_to_mono [OF b]) linarith
    finally show ?thesis by (simp add: rx ry)
  qed
qed

lemma round_sig_mono:
  assumes b: "2 \<le> b" and p: "1 \<le> p" and xy: "x \<le> y"
  shows "round_sig b p k x \<le> round_sig b p k y"
proof -
  consider "0 < x" | "x \<le> 0" "0 \<le> y" | "y < 0" by linarith
  then show ?thesis
  proof cases
    case 1
    then show ?thesis by (rule round_sig_mono_pos [OF b p _ xy])
  next
    case 2
    then show ?thesis
      using round_sig_nonneg [OF b, of "- x" p k] round_sig_nonneg [OF b, of y p k]
      by (simp add: round_sig_minus)
  next
    case 3
    then show ?thesis
      using round_sig_mono_pos [OF b p, of "- y" "- x" k] xy by (simp add: round_sig_minus)
  qed
qed

text \<open>A number with at most \<open>p\<close> digits at or above the grid is left alone.\<close>

lemma round_sig_eqI:
  assumes b: "2 \<le> b" and e: "pow_rat b e \<le> q" "q < pow_rat b (e + 1)"
    and m: "round_half_even (q * pow_rat b (p - 1 - max e k)) = m"
  shows "round_sig b p k q = of_int m * pow_rat b (max e k - p + 1)"
proof -
  have "0 < q" using e(1) pow_rat_pos [OF b, of e] by linarith
  with exponent_unique [OF b e] m show ?thesis
    by (simp add: round_sig_def round_to_def algebra_simps)
qed

lemma round_sig_grid_pos:
  assumes b: "2 \<le> b" and q: "q = of_int m * pow_rat b u" "0 < q" and u: "max (exponent b q) k - p + 1 \<le> u"
  shows "round_sig b p k q = q"
proof -
  let ?v = "max (exponent b q) k - p + 1"
  have "pow_rat b u = of_int (int (b ^ nat (u - ?v))) * pow_rat b ?v"
    using u pow_rat_add [OF b, of "u - ?v" ?v] by (simp add: pow_rat_def)
  then have "q = of_int (m * int (b ^ nat (u - ?v))) * pow_rat b ?v" using q(1) by simp
  then have "round_to b ?v q = q" by (metis round_to_grid [OF b])
  with q(2) show ?thesis by (simp add: round_sig_def)
qed

lemma round_sig_idem_pos:
  fixes k :: int
  assumes b: "2 \<le> b" and q: "0 < q" and p: "1 \<le> p" and r_def: "r = round_sig b p k q"
  shows "round_sig b p k r = r"
proof (cases "r = 0")
  case True
  then show ?thesis by simp
next
  case False
  let ?v = "max (exponent b q) k - p + 1"
  have r: "r = round_to b ?v q" using q by (simp add: r_def round_sig_def)
  have rpos: "0 < r" using False round_sig_nonneg [OF b, of q p k] q by (simp add: r_def less_le)
  have up: "r \<le> pow_rat b (max (exponent b q) k + 1)"
  proof -
    have "q \<le> pow_rat b (max (exponent b q) k + 1)"
      using exponent_bounds [OF b q] pow_rat_mono [OF b, of "exponent b q + 1" "max (exponent b q) k + 1"]
      by linarith
    then have "r \<le> round_to b ?v (pow_rat b (max (exponent b q) k + 1))"
      unfolding r by (rule round_to_mono [OF b])
    also have "\<dots> = pow_rat b (max (exponent b q) k + 1)"
      using p by (intro round_to_power [OF b]) linarith
    finally show ?thesis .
  qed
  show ?thesis
  proof (cases "r = pow_rat b (max (exponent b q) k + 1)")
    case True
    have "exponent b r = max (exponent b q) k + 1"
      unfolding True using pow_rat_strict_mono_iff [OF b] by (intro exponent_unique [OF b]) auto
    with True p show ?thesis
      by (intro round_sig_grid_pos [OF b, of r 1 "max (exponent b q) k + 1"]) (auto simp: b)
  next
    case False
    then have "r < pow_rat b (max (exponent b q) k + 1)" using up by linarith
    then have "exponent b r < max (exponent b q) k + 1"
      using exponent_bounds [OF b rpos] pow_rat_strict_mono_iff [OF b]
      by (metis le_less_trans)
    then have u: "max (exponent b r) k - p + 1 \<le> ?v" by linarith
    have rr: "r = of_int (round_half_even (q * pow_rat b (- ?v))) * pow_rat b ?v"
      by (simp add: r round_to_def)
    show ?thesis by (rule round_sig_grid_pos [OF b rr rpos u])
  qed
qed

lemma round_sig_idem:
  assumes b: "2 \<le> b" and p: "1 \<le> p"
  shows "round_sig b p k (round_sig b p k q) = round_sig b p k q"
proof -
  consider "q = 0" | "0 < q" | "0 < - q" by linarith
  then show ?thesis
  proof cases
    case 3
    then show ?thesis using round_sig_idem_pos [OF b 3 p refl, of k] by (simp add: round_sig_minus)
  qed (use round_sig_idem_pos [OF b _ p refl] in simp_all)
qed


subsection \<open>Floats\<close>

lemma bin_round_mono: "x \<le> y \<Longrightarrow> bin_round x \<le> bin_round y"
  by (simp add: bin_round_def round_sig_mono)

lemma bin_round_minus [simp]: "bin_round (- q) = - bin_round q"
  by (simp add: bin_round_def round_sig_minus)

lemma bin_round_0 [simp]: "bin_round 0 = 0"
  by (simp add: bin_round_def)

lemma bin_round_idem [simp]: "bin_round (bin_round q) = bin_round q"
  by (simp add: bin_round_def round_sig_idem)

lemma fl_overflow_pos [simp]: "0 < fl_overflow"
  by (simp add: fl_overflow_def)

lemma fl_of_rat_Fin_iff: "fl_of_rat q = Fin r \<longleftrightarrow> bin_round q = r \<and> \<bar>r\<bar> < fl_overflow"
  by (auto simp: fl_of_rat_def Let_def abs_less_iff)

lemma fl_of_rat_representable: "representable q \<Longrightarrow> fl_of_rat q = Fin q"
  by (simp add: representable_def fl_of_rat_Fin_iff)

lemma fl_wf_of_rat [simp]: "fl_wf (fl_of_rat q)"
proof (cases "fl_of_rat q")
  case (Fin r)
  then have "bin_round q = r" and "\<bar>r\<bar> < fl_overflow" by (simp_all add: fl_of_rat_Fin_iff)
  then show ?thesis unfolding Fin by (auto simp: representable_def)
qed simp_all

lemma representable_0 [simp]: "representable 0"
  by (simp add: representable_def)

lemma fl_of_rat_0 [simp]: "fl_of_rat 0 = Fin 0"
  by (simp add: fl_of_rat_representable)

lemma fl_of_rat_mono: "x \<le> y \<Longrightarrow> fl_of_rat x = Fin a \<Longrightarrow> fl_of_rat y = Fin b \<Longrightarrow> a \<le> b"
  using bin_round_mono [of x y] by (auto simp: fl_of_rat_Fin_iff)

lemma fl_of_rat_between:
  assumes "lo \<le> q" and "q \<le> hi" and "fl_of_rat lo = Fin a" and "fl_of_rat hi = Fin c"
  obtains r where "fl_of_rat q = Fin r" and "a \<le> r" and "r \<le> c"
proof -
  have "a \<le> bin_round q" "bin_round q \<le> c"
    using assms bin_round_mono [of lo q] bin_round_mono [of q hi] by (auto simp: fl_of_rat_Fin_iff)
  moreover from this assms have "\<bar>bin_round q\<bar> < fl_overflow"
    by (auto simp: fl_of_rat_Fin_iff)
  ultimately show ?thesis using that by (auto simp: fl_of_rat_Fin_iff)
qed

text \<open>Evaluating one rounding: give the binary exponent and the rounded mantissa.\<close>

lemma bin_round_eval:
  assumes "pow_rat 2 e \<le> q" and "q < pow_rat 2 (e + 1)" and "- 1022 \<le> e"
    and "\<bar>of_int m - q * pow_rat 2 (52 - e)\<bar> < 1 / 2"
  shows "bin_round q = of_int m * pow_rat 2 (e - 52)"
  using round_sig_eqI [of 2 e q 53 "- 1022" m] round_half_even_unique [OF assms(4)] assms
  by (simp add: bin_round_def max_def)

lemma fl_of_rat_eval:
  assumes "pow_rat 2 e \<le> q" and "q < pow_rat 2 (e + 1)" and "- 1022 \<le> e" and "e < 1023"
    and "\<bar>of_int m - q * pow_rat 2 (52 - e)\<bar> < 1 / 2"
    and "r = of_int m * pow_rat 2 (e - 52)" and "0 \<le> m" and "m \<le> 2 ^ 53"
  shows "fl_of_rat q = Fin r"
proof -
  have "r \<le> of_int (2 ^ 53) * pow_rat 2 (e - 52)"
    using assms(6,8) by (simp del: of_int_power add: mult_right_mono less_imp_le)
  also have "\<dots> = pow_rat 2 (e + 1)"
    using pow_rat_add [of 2 53 "e - 52"] pow_rat_nat [of 2 53] by (simp add: add.commute)
  also have "\<dots> < pow_rat 2 1024" using assms(4) by (simp add: pow_rat_strict_mono_iff)
  also have "pow_rat 2 1024 = fl_overflow"
    unfolding fl_overflow_def using pow_rat_nat [of 2 1024] by simp
  finally have "r < fl_overflow" .
  moreover have "0 \<le> r" using assms(6,7) by (simp add: less_imp_le)
  ultimately show ?thesis
    using bin_round_eval [OF assms(1,2,3,5)] assms(6) by (simp add: fl_of_rat_Fin_iff)
qed

lemma representableI:
  assumes "q = of_int m / 2 ^ n" and "\<bar>m\<bar> < 2 ^ 53" and "n \<le> 1000"
  shows "representable q"
proof -
  have pos: "representable (of_int m / 2 ^ n)" if m: "0 < m" "m < 2 ^ 53" for m
  proof -
    let ?q = "of_int m / 2 ^ n :: rat"
    have q: "?q = of_int m * pow_rat 2 (- int n)" "0 < ?q"
      using m by (simp_all add: pow_rat_minus)
    have "?q < pow_rat 2 (53 - int n)"
    proof -
      have "(of_int m :: rat) < of_int (2 ^ 53)" using m(2) by (simp only: of_int_less_iff)
      then have "?q < of_int (2 ^ 53) * pow_rat 2 (- int n)"
        unfolding q(1) by (intro mult_strict_right_mono) auto
      also have "\<dots> = pow_rat 2 (53 - int n)"
        using pow_rat_add [of 2 53 "- int n"] pow_rat_nat [of 2 53] by simp
      finally show ?thesis .
    qed
    moreover have "pow_rat 2 (53 - int n) \<le> pow_rat 2 53" by (rule pow_rat_mono) auto
    ultimately have bnd: "?q < 2 ^ 53" by (simp add: pow_rat_def)
    have "pow_rat 2 (exponent 2 ?q) < pow_rat 2 (53 - int n)"
      using exponent_bounds [of 2 ?q] q(2) \<open>?q < pow_rat 2 (53 - int n)\<close> by linarith
    then have "exponent 2 ?q < 53 - int n" by (simp add: pow_rat_strict_mono_iff)
    then have "max (exponent 2 ?q) (- 1022) - 53 + 1 \<le> - int n" using assms(3) by linarith
    from round_sig_grid_pos [OF _ q this] have "bin_round ?q = ?q" by (simp add: bin_round_def)
    moreover have "(2 ^ 53 :: rat) \<le> fl_overflow"
      unfolding fl_overflow_def by (intro power_increasing) auto
    ultimately show ?thesis using bnd q(2) by (simp add: representable_def)
  qed
  consider "m = 0" | "0 < m" | "0 < - m" by linarith
  then show ?thesis
  proof cases
    case 3
    then show ?thesis using pos [of "- m"] assms(1,2) by (simp add: representable_def)
  qed (use pos [of m] assms(1,2) in simp_all)
qed

lemma representable_int: "\<bar>m\<bar> < 2 ^ 53 \<Longrightarrow> representable (of_int m)"
  using representableI [of "of_int m" m 0] by simp

subsection \<open>The decimal of a float reads back\<close>

lemma closest_in: "cs \<noteq> [] \<Longrightarrow> closest q cs \<in> set cs"
  by (auto simp: closest_def split: list.splits)

lemma dec_candidates_read_back: "c \<in> set (dec_candidates q n) \<Longrightarrow> fl_of_rat c = Fin q"
  by (simp only: dec_candidates_def Let_def set_filter mem_Collect_eq)

lemma shortest_decimal_reads_back:
  "fl_of_rat q = Fin q \<Longrightarrow> fl_of_rat (shortest_decimal q ns) = Fin q"
proof (induction ns)
  case (Cons n ns)
  then show ?case
    using closest_in [of "dec_candidates q n" q] dec_candidates_read_back [of _ q n]
    by (auto simp: Let_def)
qed simp

lemma fl_of_rat_minus: "fl_of_rat (- q) = fl_neg (fl_of_rat q)"
  by (auto simp: fl_of_rat_def Let_def fl_overflow_def)

lemma dec_of_float_reads_back:
  assumes "representable q"
  shows "fl_of_rat (dec_of_float q) = Fin q"
proof -
  have r: "fl_of_rat q = Fin q" "fl_of_rat (- q) = Fin (- q)"
    using fl_of_rat_representable [OF assms] by (simp_all add: fl_of_rat_minus)
  show ?thesis
    using shortest_decimal_reads_back [OF r(1)] shortest_decimal_reads_back [OF r(2)]
    by (simp add: dec_of_float_def fl_of_rat_minus)
qed

lemma dec_of_float_0 [simp]: "dec_of_float 0 = 0"
  by (simp add: dec_of_float_def)


lemma fl_001: "fl_of_rat (1 / 100) = Fin (5764607523034235 / 576460752303423488)"
  by (rule fl_of_rat_eval [where e = "- 7" and m = 5764607523034235]) (simp_all add: pow_rat_def)

lemma fl_002: "fl_of_rat (2 / 100) = Fin (5764607523034235 / 288230376151711744)"
  by (rule fl_of_rat_eval [where e = "- 6" and m = 5764607523034235]) (simp_all add: pow_rat_def)

lemma representable_001: "representable (5764607523034235 / 576460752303423488)"
  by (rule representableI [of _ 5764607523034235 59]) simp_all

lemma dec_of_float_001 [simp]:
  "dec_of_float (5764607523034235 / 576460752303423488) = 1 / 100"
proof -
  have e: "exponent 10 (5764607523034235 / 576460752303423488) = - 2"
    by (rule exponent_unique) (simp_all add: pow_rat_def)
  have m: "\<lfloor>(144115188075855875 / 144115188075855872 :: rat)\<rfloor> = 1" by (simp add: floor_eq_iff)
  have "dec_candidates (5764607523034235 / 576460752303423488) 1 = [1 / 100]"
    using fl_001 fl_002 by (simp add: dec_candidates_def e pow_rat_def m Let_def)
  then show ?thesis by (simp add: dec_of_float_def upt_conv_Cons closest_def)
qed

subsection \<open>Comparisons\<close>

lemma fl_lt_irrefl [simp]: "\<not> fl_lt x x"
  by (cases x) simp_all

lemma fl_lt_asym: "fl_lt x y \<Longrightarrow> \<not> fl_lt y x"
  by (cases x; cases y) simp_all

lemma fl_not_lt_Fin [simp]: "\<not> fl_lt (Fin a) (Fin b) \<longleftrightarrow> b \<le> a"
  by auto

lemma fl_le_Fin [simp]: "fl_le (Fin a) (Fin b) \<longleftrightarrow> a \<le> b"
  by (auto simp: fl_le_def)

lemma fl_min_Fin [simp]: "fl_min (Fin a) (Fin b) = Fin (min a b)"
  by (simp add: fl_min_def min_def)

lemma fl_max_Fin [simp]: "fl_max (Fin a) (Fin b) = Fin (max a b)"
  by (simp add: fl_max_def max_def)

lemma fl_sub_Fin [simp]: "fl_sub (Fin a) (Fin b) = fl_of_rat (a - b)"
  by (simp add: fl_sub_def)

end
