(* ===== verification/Py_Time.thy ===== *)
theory Py_Time
  imports Py_Float
begin

text \<open>
  Python's \<open>datetime\<close> and \<open>timedelta\<close>.

  A \<open>datetime\<close> holds the microseconds of its wall-clock reading since 0001-01-01 00:00:00 and its
  UTC offset in microseconds, \<open>None\<close> for a naive value. Aware values compare by their instant.
  A \<open>timedelta\<close> is its number of microseconds. \<open>ord2ymd\<close> is the proleptic Gregorian
  calendar, \<open>isoformat\<close> its text. The bound of year 9999, at which Python's arithmetic
  raises \<open>OverflowError\<close>, is not modelled.
\<close>

section \<open>Instants\<close>

datatype datetime = DT (dt_us: int) (dt_off: "int option")

definition instant :: "datetime \<Rightarrow> int" where
  "instant d = dt_us d - (case dt_off d of None \<Rightarrow> 0 | Some off \<Rightarrow> off)"

definition utc_at :: "int \<Rightarrow> datetime" where
  "utc_at us = DT us (Some 0)"

definition is_utc :: "datetime \<Rightarrow> bool" where
  "is_utc d = (dt_off d = Some 0)"

definition dt_add :: "datetime \<Rightarrow> int \<Rightarrow> datetime" where
  "dt_add d delta = DT (dt_us d + delta) (dt_off d)"

definition dt_sub :: "datetime \<Rightarrow> datetime \<Rightarrow> int" where
  "dt_sub a b = instant a - instant b"

definition dt_lt :: "datetime \<Rightarrow> datetime \<Rightarrow> bool" where
  "dt_lt a b = (instant a < instant b)"

definition dt_le :: "datetime \<Rightarrow> datetime \<Rightarrow> bool" where
  "dt_le a b = (instant a \<le> instant b)"

definition dt_eq :: "datetime \<Rightarrow> datetime \<Rightarrow> bool" where
  "dt_eq a b = (instant a = instant b)"

abbreviation microseconds_per_second :: int where
  "microseconds_per_second \<equiv> 1000000"

definition seconds :: "int \<Rightarrow> int" where
  "seconds n = n * 1000000"

definition minutes :: "int \<Rightarrow> int" where
  "minutes n = n * 60000000"

definition total_seconds :: "int \<Rightarrow> pyfloat" where
  "total_seconds delta = fl_of_rat (of_int delta / 1000000)"

definition day_us :: int where
  "day_us = 86400000000"

definition start_of_day :: "datetime \<Rightarrow> datetime" where
  "start_of_day d = DT (dt_us d - dt_us d mod day_us) (dt_off d)"

text \<open>Seconds from 0001-01-01 to 1970-01-01, the epoch of \<open>timestamp()\<close>.\<close>

definition epoch_seconds :: int where
  "epoch_seconds = 719162 * 86400"

definition timestamp_us :: "datetime \<Rightarrow> int" where
  "timestamp_us d = instant d - epoch_seconds * 1000000"

section \<open>Calendar and text\<close>

definition is_leap :: "int \<Rightarrow> bool" where
  "is_leap y = (y mod 4 = 0 \<and> (y mod 100 \<noteq> 0 \<or> y mod 400 = 0))"

definition days_before_month :: "int \<Rightarrow> int \<Rightarrow> int" where
  "days_before_month y m =
     [0, 0, 31, 59, 90, 120, 151, 181, 212, 243, 273, 304, 334] ! nat m
       + (if 2 < m \<and> is_leap y then 1 else 0)"

definition ord2ymd :: "int \<Rightarrow> int \<times> int \<times> int" where
  "ord2ymd days =
     (let n400 = days div 146097; r = days mod 146097;
          n100 = r div 36524; r100 = r mod 36524;
          n4 = r100 div 1461; r4 = r100 mod 1461;
          n1 = r4 div 365; r1 = r4 mod 365;
          y = n400 * 400 + 1 + n100 * 100 + n4 * 4 + n1
      in if n1 = 4 \<or> n100 = 4 then (y - 1, 12, 31)
         else let m = int (length (takeWhile (\<lambda>k. days_before_month y k \<le> r1)
                                      [1, 2, 3, 4, 5, 6, 7, 8, 9, 10, 11, 12]))
              in (y, m, r1 - days_before_month y m + 1))"

fun digits_of :: "nat \<Rightarrow> int \<Rightarrow> string" where
  "digits_of 0 n = []"
| "digits_of (Suc k) n = digits_of k (n div 10) @ [char_of (nat (48 + n mod 10))]"

definition iso_date_time :: "datetime \<Rightarrow> string" where
  "iso_date_time d =
     (case ord2ymd (dt_us d div day_us) of (y, m, dd) \<Rightarrow>
        let us = dt_us d mod day_us; s = us div 1000000 in
        digits_of 4 y @ ''-'' @ digits_of 2 m @ ''-'' @ digits_of 2 dd @ ''T''
          @ digits_of 2 (s div 3600) @ '':'' @ digits_of 2 (s div 60 mod 60) @ '':''
          @ digits_of 2 (s mod 60))"

definition canonical_datetime :: "datetime \<Rightarrow> string" where
  "canonical_datetime d = iso_date_time d @ ''.'' @ digits_of 6 (dt_us d mod 1000000) @ ''Z''"

section \<open>Facts\<close>

lemma instant_utc [simp]: "is_utc d \<Longrightarrow> instant d = dt_us d"
  by (simp add: is_utc_def instant_def)

lemma is_utc_utc_at [simp]: "is_utc (utc_at us)"
  by (simp add: is_utc_def utc_at_def)

lemma instant_utc_at [simp]: "instant (utc_at us) = us"
  by (simp add: instant_def utc_at_def)

lemma instant_dt_add [simp]: "instant (dt_add d x) = instant d + x"
  by (simp add: instant_def dt_add_def)

lemma is_utc_dt_add [simp]: "is_utc (dt_add d x) = is_utc d"
  by (simp add: is_utc_def dt_add_def)

lemma is_utc_start_of_day [simp]: "is_utc (start_of_day d) = is_utc d"
  by (simp add: is_utc_def start_of_day_def)

lemma utc_eq_iff: "is_utc a \<Longrightarrow> is_utc b \<Longrightarrow> dt_eq a b \<longleftrightarrow> a = b"
  by (cases a; cases b) (auto simp: is_utc_def dt_eq_def instant_def)

text \<open>
  Comparing \<open>total_seconds()\<close> with a whole number of seconds is exact: the rounding of the
  division by one million never moves a duration across the bound.
\<close>

lemma representable_step:
  assumes "\<bar>n\<bar> < 2 ^ 32"
  shows "representable (of_int n + 1 / 2 ^ 20)" and "representable (of_int n - 1 / 2 ^ 20)"
    and "representable (of_int n)"
  using assms by (intro representableI [of _ "n * 2 ^ 20 + 1" 20] representableI [of _ "n * 2 ^ 20 - 1" 20]
      representable_int; simp add: field_simps)+

lemma fl_of_rat_gt:
  assumes "representable c" and "c \<le> q" and "n < c"
  shows "fl_lt (Fin n) (fl_of_rat q)"
proof -
  have "c \<le> bin_round q" "\<bar>c\<bar> < fl_overflow"
    using bin_round_mono [OF assms(2)] assms(1) by (simp_all add: representable_def)
  with assms(3) show ?thesis by (auto simp: fl_of_rat_def Let_def)
qed

lemma fl_of_rat_lt:
  assumes "representable c" and "q \<le> c" and "c < n"
  shows "fl_lt (fl_of_rat q) (Fin n)"
proof -
  have "bin_round q \<le> c" "\<bar>c\<bar> < fl_overflow"
    using bin_round_mono [OF assms(2)] assms(1) by (simp_all add: representable_def)
  with assms(3) show ?thesis by (auto simp: fl_of_rat_def Let_def)
qed

lemma fl_of_rat_not_gt:
  assumes "representable c" and "q \<le> c"
  shows "\<not> fl_lt (Fin c) (fl_of_rat q)"
proof -
  have "bin_round q \<le> c" "\<bar>c\<bar> < fl_overflow"
    using bin_round_mono [OF assms(2)] assms(1) by (simp_all add: representable_def)
  then show ?thesis by (auto simp: fl_of_rat_def Let_def)
qed

lemma fl_of_rat_not_lt:
  assumes "representable c" and "c \<le> q"
  shows "\<not> fl_lt (fl_of_rat q) (Fin c)"
proof -
  have "c \<le> bin_round q" "\<bar>c\<bar> < fl_overflow"
    using bin_round_mono [OF assms(2)] assms(1) by (simp_all add: representable_def)
  then show ?thesis by (auto simp: fl_of_rat_def Let_def)
qed

lemma total_seconds_gt_iff:
  assumes "\<bar>n\<bar> < 2 ^ 32"
  shows "fl_lt (Fin (of_int n)) (total_seconds delta) \<longleftrightarrow> n * 1000000 < delta"
proof (cases "n * 1000000 < delta")
  case True
  then have "of_int (n * 1000000 + 1) \<le> (of_int delta :: rat)" by (simp only: of_int_le_iff)
  then have "of_int n + 1 / 2 ^ 20 \<le> (of_int delta / 1000000 :: rat)" by (simp add: field_simps)
  with True fl_of_rat_gt [OF representable_step(1) [OF assms]] show ?thesis
    by (simp add: total_seconds_def)
next
  case False
  then have "of_int delta \<le> (of_int (n * 1000000) :: rat)" by (simp only: of_int_le_iff)
  then have "of_int delta / 1000000 \<le> (of_int n :: rat)" by (simp add: field_simps)
  with False fl_of_rat_not_gt [OF representable_step(3) [OF assms]] show ?thesis
    by (simp add: total_seconds_def)
qed

lemma total_seconds_lt_iff:
  assumes "\<bar>n\<bar> < 2 ^ 32"
  shows "fl_lt (total_seconds delta) (Fin (of_int n)) \<longleftrightarrow> delta < n * 1000000"
proof (cases "delta < n * 1000000")
  case True
  then have "(of_int delta :: rat) \<le> of_int (n * 1000000 - 1)" by (simp only: of_int_le_iff)
  then have "(of_int delta / 1000000 :: rat) \<le> of_int n - 1 / 2 ^ 20" by (simp add: field_simps)
  with True fl_of_rat_lt [OF representable_step(2) [OF assms]] show ?thesis
    by (simp add: total_seconds_def)
next
  case False
  then have "(of_int (n * 1000000) :: rat) \<le> of_int delta" by (simp only: of_int_le_iff)
  then have "(of_int n :: rat) \<le> of_int delta / 1000000" by (simp add: field_simps)
  with False fl_of_rat_not_lt [OF representable_step(3) [OF assms]] show ?thesis
    by (simp add: total_seconds_def)
qed

lemma age_negative_iff [simp]: "fl_lt (total_seconds delta) (Fin 0) \<longleftrightarrow> delta < 0"
  using total_seconds_lt_iff [of 0 delta] by simp

lemma age_above_one_iff [simp]: "fl_lt (Fin 1) (total_seconds delta) \<longleftrightarrow> 1000000 < delta"
  using total_seconds_gt_iff [of 1 delta] by simp

lemma length_digits_of [simp]: "length (digits_of k n) = k"
  by (induction k arbitrary: n) auto

end
