(* ===== verification/Py_Json.thy ===== *)
theory Py_Json
  imports Py_Float
begin

text \<open>
  JSON values and the text \<open>json.dumps(value, sort_keys=True, separators=(',', ':'),
  ensure_ascii=False)\<close> gives for them. A dictionary is the list of its items in insertion
  order. \<open>float_repr\<close> is \<open>float.__repr__\<close> on finite values: the shortest digits that read back
  as the same float, in positional notation between 1e-4 and 1e16 and in scientific notation
  outside. Texts are ASCII.
\<close>

datatype json =
    JNull
  | JBool bool
  | JInt int
  | JFloat pyfloat
  | JStr string
  | JList "json list"
  | JDict "(string \<times> json) list"

section \<open>Numbers\<close>

function nat_repr :: "nat \<Rightarrow> string" where
  "nat_repr n = (if n < 10 then [char_of (48 + n)] else nat_repr (n div 10) @ [char_of (48 + n mod 10)])"
  by pat_completeness auto
termination
  by (relation "measure id") auto

declare nat_repr.simps [simp del]

definition int_repr :: "int \<Rightarrow> string" where
  "int_repr i = (if i < 0 then ''-'' @ nat_repr (nat (- i)) else nat_repr (nat i))"

fun significand :: "rat \<Rightarrow> int \<Rightarrow> nat list \<Rightarrow> int" where
  "significand d e [] = \<lfloor>d * pow_rat 10 (16 - e)\<rfloor>"
| "significand d e (n # ns) =
     (let m = d * pow_rat 10 (int n - 1 - e) in if m = of_int \<lfloor>m\<rfloor> then \<lfloor>m\<rfloor> else significand d e ns)"

definition positional :: "string \<Rightarrow> int \<Rightarrow> string" where
  "positional ds decpt =
     (if decpt \<le> 0 then ''0.'' @ replicate (nat (- decpt)) CHR ''0'' @ ds
      else if int (length ds) \<le> decpt
      then ds @ replicate (nat decpt - length ds) CHR ''0'' @ ''.0''
      else take (nat decpt) ds @ ''.'' @ drop (nat decpt) ds)"

definition scientific :: "string \<Rightarrow> int \<Rightarrow> string" where
  "scientific ds x =
     take 1 ds @ (if 1 < length ds then ''.'' @ drop 1 ds else []) @ ''e''
       @ (if x < 0 then ''-'' else ''+'')
       @ (if \<bar>x\<bar> < 10 then ''0'' else []) @ nat_repr (nat \<bar>x\<bar>)"

definition pos_float_repr :: "rat \<Rightarrow> string" where
  "pos_float_repr q =
     (let d = dec_of_float q; e = exponent 10 d; ds = nat_repr (nat (significand d e [1..<18]))
      in if e < - 4 \<or> 16 \<le> e then scientific ds e else positional ds (e + 1))"

fun float_repr :: "pyfloat \<Rightarrow> string" where
  "float_repr (Fin q) =
     (if q = 0 then ''0.0'' else if q < 0 then ''-'' @ pos_float_repr (- q) else pos_float_repr q)"
| "float_repr PInf = ''inf''"
| "float_repr NInf = ''-inf''"
| "float_repr NaN = ''nan''"

section \<open>Text\<close>

definition hex4 :: "nat \<Rightarrow> string" where
  "hex4 n = map (\<lambda>i. let k = n div 16 ^ (3 - i) mod 16 in
                   if k < 10 then char_of (48 + k) else char_of (87 + k)) [0, 1, 2, 3]"

definition escape_char :: "char \<Rightarrow> string" where
  "escape_char c =
     (let n = of_char c :: nat; bs = char_of (92::nat) in
      if n = 34 then [bs, c] else if n = 92 then [bs, bs]
      else if n = 10 then [bs, CHR ''n''] else if n = 13 then [bs, CHR ''r'']
      else if n = 9 then [bs, CHR ''t''] else if n = 12 then [bs, CHR ''f'']
      else if n = 8 then [bs, CHR ''b'']
      else if n < 32 then [bs, CHR ''u''] @ hex4 n else [c])"

definition quote :: "string \<Rightarrow> string" where
  "quote s = [char_of (34::nat)] @ concat (map escape_char s) @ [char_of (34::nat)]"

fun comma_sep :: "string list \<Rightarrow> string" where
  "comma_sep [] = []"
| "comma_sep [x] = x"
| "comma_sep (x # y # zs) = x @ '','' @ comma_sep (y # zs)"

fun json_dumps :: "json \<Rightarrow> string" where
  "json_dumps JNull = ''null''"
| "json_dumps (JBool b) = (if b then ''true'' else ''false'')"
| "json_dumps (JInt i) = int_repr i"
| "json_dumps (JFloat x) = float_repr x"
| "json_dumps (JStr s) = quote s"
| "json_dumps (JList js) = ''['' @ comma_sep (map json_dumps js) @ '']''"
| "json_dumps (JDict kvs) =
     ''{'' @ comma_sep (map (\<lambda>(k, text). quote k @ '':'' @ text)
                          (sort_key fst (map (\<lambda>(k, v). (k, json_dumps v)) kvs))) @ ''}''"

fun json_get :: "json \<Rightarrow> string \<Rightarrow> json option" where
  "json_get (JDict kvs) k = map_of kvs k"
| "json_get j k = None"

definition jopt :: "('a \<Rightarrow> json) \<Rightarrow> 'a option \<Rightarrow> json" where
  "jopt f x = (case x of None \<Rightarrow> JNull | Some v \<Rightarrow> f v)"

definition jstrs :: "string list \<Rightarrow> json" where
  "jstrs xs = JList (map JStr xs)"

lemma jopt_simps [simp]: "jopt f None = JNull" "jopt f (Some v) = f v"
  by (simp_all add: jopt_def)

end
