(* ===== verification/Py_Hash.thy ===== *)
theory Py_Hash
  imports AS_Prelude "HOL-Library.Word"
begin

unbundle bit_operations_syntax

text \<open>
  \<open>hashlib.sha256(...).hexdigest()\<close> and \<open>hmac.new(key, message, hashlib.sha256).hexdigest()\<close>
  (FIPS 180-4 and RFC 2104), on byte strings (\<open>char\<close> lists). The facts proved are the ones the
  runtime relies on without a cryptographic assumption: the shape of a digest. Nothing in the
  development assumes that the functions have no collisions; where the repository relies on
  that, a theorem names the colliding pair as the other possibility.
\<close>

type_synonym w32 = "32 word"

section \<open>SHA-256\<close>

text \<open>
  The constants of FIPS 180-4 from their definition: the first 32 bits of the fractional parts of
  the cube roots of the first 64 primes, and of the square roots of the first 8.
\<close>

definition first_primes :: "nat \<Rightarrow> nat list" where
  "first_primes k =
     take k (filter (\<lambda>n. list_all (\<lambda>d. n mod d \<noteq> 0) [2..<n]) [2..<312])"

definition int_root :: "nat \<Rightarrow> nat \<Rightarrow> nat" where
  "int_root k n =
     fold (\<lambda>b r. if (r + 2 ^ b) ^ k \<le> n then r + 2 ^ b else r) (rev [0..<40]) 0"

definition root_fraction :: "nat \<Rightarrow> nat \<Rightarrow> w32" where
  "root_fraction k p = of_nat (int_root k (p * 2 ^ (32 * k)) mod 2 ^ 32)"

definition sha_K :: "w32 list" where
  "sha_K = map (root_fraction 3) (first_primes 64)"

definition sha_H0 :: "w32 list" where
  "sha_H0 = map (root_fraction 2) [2, 3, 5, 7, 11, 13, 17, 19]"

definition be_bytes :: "nat \<Rightarrow> nat \<Rightarrow> string" where
  "be_bytes k n = map (\<lambda>i. char_of (n div 256 ^ (k - 1 - i) mod 256)) [0..<k]"

definition sha_pad :: "string \<Rightarrow> string" where
  "sha_pad msg =
     msg @ [char_of (128::nat)] @ replicate ((119 - length msg mod 64) mod 64) (char_of (0::nat))
       @ be_bytes 8 (8 * length msg)"

fun chunks :: "nat \<Rightarrow> nat \<Rightarrow> 'a list \<Rightarrow> 'a list list" where
  "chunks 0 k xs = []"
| "chunks (Suc n) k xs = take k xs # chunks n k (drop k xs)"

definition word_of_bytes :: "string \<Rightarrow> w32" where
  "word_of_bytes cs = fold (\<lambda>c w. push_bit 8 w OR of_nat (of_char c)) cs 0"

definition bytes_of_word :: "w32 \<Rightarrow> string" where
  "bytes_of_word w = be_bytes 4 (unat w)"

definition sha_sched_step :: "w32 list \<Rightarrow> w32 list" where
  "sha_sched_step ws =
     (let t = length ws; w15 = ws ! (t - 15); w2 = ws ! (t - 2);
          s0 = word_rotr 7 w15 XOR word_rotr 18 w15 XOR drop_bit 3 w15;
          s1 = word_rotr 17 w2 XOR word_rotr 19 w2 XOR drop_bit 10 w2
      in ws @ [ws ! (t - 16) + s0 + ws ! (t - 7) + s1])"

definition sha_schedule :: "string \<Rightarrow> w32 list" where
  "sha_schedule block = (sha_sched_step ^^ 48) (map word_of_bytes (chunks 16 4 block))"

fun sha_round :: "w32 list \<Rightarrow> w32 \<times> w32 \<Rightarrow> w32 list" where
  "sha_round [a, b, c, d, e, f, g, h] (k, w) =
     (let s1 = word_rotr 6 e XOR word_rotr 11 e XOR word_rotr 25 e;
          ch = (e AND f) XOR (NOT e AND g);
          t1 = h + s1 + ch + k + w;
          s0 = word_rotr 2 a XOR word_rotr 13 a XOR word_rotr 22 a;
          maj = (a AND b) XOR (a AND c) XOR (b AND c)
      in [t1 + (s0 + maj), a, b, c, d + t1, e, f, g])"
| "sha_round st kw = st"

definition sha_compress :: "w32 list \<Rightarrow> string \<Rightarrow> w32 list" where
  "sha_compress hs block =
     map2 (+) hs (foldl sha_round hs (zip sha_K (sha_schedule block)))"

definition sha_state :: "string \<Rightarrow> w32 list" where
  "sha_state msg =
     (let m = sha_pad msg in foldl sha_compress sha_H0 (chunks (length m div 64) 64 m))"

definition sha_digest :: "string \<Rightarrow> string" where
  "sha_digest msg = concat (map bytes_of_word (sha_state msg))"

definition hex_char :: "nat \<Rightarrow> char" where
  "hex_char n = (if n < 10 then char_of (48 + n) else char_of (87 + n))"

definition hex_byte :: "char \<Rightarrow> string" where
  "hex_byte c = (let n = of_char c :: nat in [hex_char (n div 16), hex_char (n mod 16)])"

definition sha256_hex :: "string \<Rightarrow> string" where
  "sha256_hex msg = concat (map hex_byte (sha_digest msg))"

section \<open>HMAC\<close>

definition xor_byte :: "nat \<Rightarrow> char \<Rightarrow> char" where
  "xor_byte k c = char_of (of_char c XOR k)"

definition hmac_key :: "string \<Rightarrow> string" where
  "hmac_key key =
     (let k = (if 64 < length key then sha_digest key else key)
      in k @ replicate (64 - length k) (char_of (0::nat)))"

definition hmac_sha256_hex :: "string \<Rightarrow> string \<Rightarrow> string" where
  "hmac_sha256_hex key msg =
     (let k = hmac_key key
      in sha256_hex (map (xor_byte 92) k @ sha_digest (map (xor_byte 54) k @ msg)))"

section \<open>The shape of a digest\<close>

lemma length_sha_round: "length hs = 8 \<Longrightarrow> length (sha_round hs kw) = 8"
  by (induction hs kw rule: sha_round.induct) (simp_all add: Let_def)

lemma length_sha_rounds: "length hs = 8 \<Longrightarrow> length (foldl sha_round hs kws) = 8"
  by (induction kws arbitrary: hs) (simp_all add: length_sha_round)

lemma length_sha_compress: "length hs = 8 \<Longrightarrow> length (sha_compress hs block) = 8"
  by (simp add: sha_compress_def length_sha_rounds)

lemma length_sha_blocks: "length hs = 8 \<Longrightarrow> length (foldl sha_compress hs bs) = 8"
  by (induction bs arbitrary: hs) (simp_all add: length_sha_compress)

lemma length_sha_digest: "length (sha_digest msg) = 32"
proof -
  have "length (sha_state msg) = 8"
    by (simp add: sha_state_def Let_def length_sha_blocks sha_H0_def)
  moreover have "length (concat (map bytes_of_word ws)) = 4 * length ws" for ws
    by (induction ws) (simp_all add: bytes_of_word_def be_bytes_def)
  ultimately show ?thesis by (simp add: sha_digest_def)
qed

lemma hex_char_lower: "n < 16 \<Longrightarrow> is_hex_lower (hex_char n)"
  by (auto simp: hex_char_def is_hex_lower_def Let_def)

lemma hex_bytes_lower: "list_all is_hex_lower (concat (map hex_byte cs))"
proof (induction cs)
  case (Cons c cs)
  have "(of_char c :: nat) < 256" by simp
  then have "of_char c div 16 < (16 :: nat)" by (simp add: div_less_iff_less_mult)
  then show ?case using Cons by (simp add: hex_byte_def Let_def hex_char_lower)
qed simp

lemma length_hex_bytes: "length (concat (map hex_byte cs)) = 2 * length cs"
  by (induction cs) (simp_all add: hex_byte_def Let_def)

lemma length_sha256_hex [simp]: "length (sha256_hex msg) = 64"
  by (simp add: sha256_hex_def length_hex_bytes length_sha_digest)

lemma sha256_hex_lower [simp]: "list_all is_hex_lower (sha256_hex msg)"
  by (simp add: sha256_hex_def hex_bytes_lower)

lemma length_hmac_sha256_hex [simp]: "length (hmac_sha256_hex key msg) = 64"
  by (simp add: hmac_sha256_hex_def Let_def)

lemma hmac_sha256_hex_lower [simp]: "list_all is_hex_lower (hmac_sha256_hex key msg)"
  by (simp add: hmac_sha256_hex_def Let_def)

end
