(* ===== verification/Contracts.thy ===== *)
theory Contracts
  imports Py_Time Py_Json Py_Hash
begin

text \<open>
  \<open>live_runtime/contracts.py\<close>: the value validators, the canonical JSON and its hash, and the
  immutable contracts \<open>BrokerSpec\<close>, \<open>DecisionSnapshot\<close>, \<open>TradeIntent\<close>,
  \<open>SubmissionConsumptionProof\<close> and \<open>ExecutionReceipt\<close>.

  A frozen dataclass is a record; its \<open>__post_init__\<close> is a function \<open>C_init\<close> that raises or
  returns the normalised record. A field has the type its annotation gives, so a check of an
  annotated type (\<open>type(x) is not bool\<close>) has no counterpart, except in the validators
  themselves, which take any number. The seal argument of the sealed contracts is a boolean:
  whether the caller presented the module's private seal object.
\<close>

section \<open>Validators\<close>

datatype pynum = NBool bool | NInt int | NFloat pyfloat | NOther

definition require_utc :: "string \<Rightarrow> datetime \<Rightarrow> datetime res" where
  "require_utc name v =
     (case dt_off v of None \<Rightarrow> Inl (ValueError (name @ '' must be timezone-aware UTC''))
      | Some off \<Rightarrow> if off \<noteq> 0 then Inl (ValueError (name @ '' must use UTC, not a non-zero offset''))
                     else Inr v)"

definition finite_bounds :: "string \<Rightarrow> pyfloat \<Rightarrow> bool \<Rightarrow> bool \<Rightarrow> pyfloat res" where
  "finite_bounds name x positive nonnegative =
     (if \<not> is_finite x then Inl (ValueError (name @ '' must be finite''))
      else if positive \<and> fl_le x (Fin 0) then Inl (ValueError (name @ '' must be > 0''))
      else if nonnegative \<and> fl_lt x (Fin 0) then Inl (ValueError (name @ '' must be >= 0''))
      else Inr x)"

fun require_finite :: "string \<Rightarrow> pynum \<Rightarrow> bool \<Rightarrow> bool \<Rightarrow> pyfloat res" where
  "require_finite name (NBool b) positive nonnegative =
     Inl (TypeError (name @ '' must be numeric, not bool''))"
| "require_finite name NOther positive nonnegative = Inl (TypeError (name @ '' must be numeric''))"
| "require_finite name (NInt i) positive nonnegative =
     (if is_finite (fl_of_rat (of_int i)) then finite_bounds name (fl_of_rat (of_int i)) positive nonnegative
      else Inl (OverflowError ''int too large to convert to float''))"
| "require_finite name (NFloat x) positive nonnegative = finite_bounds name x positive nonnegative"

fun require_int :: "string \<Rightarrow> pynum \<Rightarrow> int \<Rightarrow> int option \<Rightarrow> int res" where
  "require_int name (NInt i) lo hi =
     (if i < lo then Inl (ValueError (name @ '' must be >= '' @ int_repr lo))
      else case hi of Some h \<Rightarrow>
             if h < i then Inl (ValueError (name @ '' must be <= '' @ int_repr h)) else Inr i
           | None \<Rightarrow> Inr i)"
| "require_int name v lo hi = Inl (TypeError (name @ '' must be an integer''))"

definition norm_text :: "bool \<Rightarrow> string \<Rightarrow> string" where
  "norm_text upper v = (if upper then str_upper (str_strip v) else str_strip v)"

definition require_text :: "string \<Rightarrow> string \<Rightarrow> bool \<Rightarrow> string res" where
  "require_text name v upper =
     (if str_strip v = [] then Inl (ValueError (name @ '' is required'')) else Inr (norm_text upper v))"

definition require_currency :: "string \<Rightarrow> string \<Rightarrow> string res" where
  "require_currency name v =
     res_bind (require_text name v True) (\<lambda>normalized.
       if length normalized = 3 \<and> list_all is_upper_letter normalized then Inr normalized
       else Inl (ValueError (name @ '' must be a three-letter currency code'')))"

definition decision_timeframe_seconds :: "string \<Rightarrow> int option" where
  "decision_timeframe_seconds tf =
     (if tf = ''M5'' then Some (5 * 60) else if tf = ''M15'' then Some (15 * 60) else None)"

definition require_decision_timeframe :: "string \<Rightarrow> string \<Rightarrow> string res" where
  "require_decision_timeframe name v =
     res_bind (require_text name v True) (\<lambda>normalized.
       if decision_timeframe_seconds normalized = None
       then Inl (ValueError (name @ '' must be M5 or M15'')) else Inr normalized)"

definition norm_hash :: "string \<Rightarrow> string" where
  "norm_hash v = str_lower (str_strip v)"

definition require_hash :: "string \<Rightarrow> string \<Rightarrow> nat \<Rightarrow> string res" where
  "require_hash name v minimum_length =
     res_bind (require_text name v False) (\<lambda>t.
       let normalized = str_lower t in
       if length normalized < minimum_length \<or> 64 < length normalized \<or> \<not> list_all is_hex normalized
       then Inl (ValueError (name @ '' must be a hexadecimal hash'')) else Inr normalized)"

definition is_control_word_end :: "string \<Rightarrow> bool" where
  "is_control_word_end rest =
     (rest = [] \<or> rest = [char_of (10::nat)] \<or> hd rest \<in> {CHR ''.'', CHR ''_'', CHR ''-''})"

definition is_operator_control_token :: "string \<Rightarrow> bool" where
  "is_operator_control_token v =
     (let s = str_lower (str_strip v) in
      list_ex (\<lambda>w. str_startswith s w \<and> is_control_word_end (drop (length w) s))
        [''approve'', ''confirm'', ''reject'', ''cancel''])"

section \<open>Canonical JSON\<close>

definition jtime :: "datetime \<Rightarrow> json" where
  "jtime d = JStr (canonical_datetime d)"

fun json_finite :: "json \<Rightarrow> bool" where
  "json_finite (JFloat x) = is_finite x"
| "json_finite (JList js) = list_all json_finite js"
| "json_finite (JDict kvs) = list_all (\<lambda>(k, v). json_finite v) kvs"
| "json_finite j = True"

definition canonicalize :: "json \<Rightarrow> json res" where
  "canonicalize v =
     (if json_finite v then Inr v else Inl (ValueError ''canonical floats must be finite''))"

text \<open>
  The text and the hash of the values \<open>canonicalize\<close> accepts. Every contract below passes it once
  its constructor has returned (\<open>TradeIntent_canonical\<close>), so its identifiers are total.
\<close>

definition canonical_json :: "json \<Rightarrow> string" where
  "canonical_json v = json_dumps v"

definition canonical_sha256 :: "json \<Rightarrow> string" where
  "canonical_sha256 v = sha256_hex (canonical_json v)"

definition json_pop :: "string \<Rightarrow> json \<Rightarrow> json" where
  "json_pop k j = (case j of JDict kvs \<Rightarrow> JDict (filter (\<lambda>(k', v). k' \<noteq> k) kvs) | _ \<Rightarrow> j)"

section \<open>BrokerSpec\<close>

record BrokerSpec =
  bs_account_id :: string
  bs_broker_legal_name :: string
  bs_server :: string
  bs_environment :: string
  bs_symbol :: string
  bs_broker_symbol :: string
  bs_account_currency :: string
  bs_digits :: int
  bs_point :: pyfloat
  bs_tick_size :: pyfloat
  bs_tick_value :: pyfloat
  bs_contract_size :: pyfloat
  bs_volume_min :: pyfloat
  bs_volume_max :: pyfloat
  bs_volume_step :: pyfloat
  bs_stops_level_points :: int
  bs_freeze_level_points :: int
  bs_margin_per_lot :: pyfloat
  bs_session_calendar_sha256 :: string
  bs_captured_at :: datetime
  bs_schema_version :: string

definition BrokerSpec_init :: "BrokerSpec \<Rightarrow> BrokerSpec res" where
  "BrokerSpec_init b =
     checked
       [err_of (require_text ''account_id'' (bs_account_id b) False),
        err_of (require_text ''broker_legal_name'' (bs_broker_legal_name b) False),
        err_of (require_text ''server'' (bs_server b) False),
        err_of (require_text ''environment'' (bs_environment b) True),
        raise_if (norm_text True (bs_environment b) \<notin> {''DEMO'', ''LIVE'', ''LIVE_READ_ONLY''})
          (ValueError ''environment must be DEMO, LIVE, or LIVE_READ_ONLY''),
        err_of (require_text ''symbol'' (bs_symbol b) True),
        err_of (require_text ''broker_symbol'' (bs_broker_symbol b) False),
        err_of (require_currency ''account_currency'' (bs_account_currency b)),
        err_of (require_int ''digits'' (NInt (bs_digits b)) 0 (Some 12)),
        err_of (require_finite ''point'' (NFloat (bs_point b)) True False),
        err_of (require_finite ''tick_size'' (NFloat (bs_tick_size b)) True False),
        err_of (require_finite ''tick_value'' (NFloat (bs_tick_value b)) True False),
        err_of (require_finite ''contract_size'' (NFloat (bs_contract_size b)) True False),
        err_of (require_finite ''volume_min'' (NFloat (bs_volume_min b)) True False),
        err_of (require_finite ''volume_max'' (NFloat (bs_volume_max b)) True False),
        err_of (require_finite ''volume_step'' (NFloat (bs_volume_step b)) True False),
        err_of (require_finite ''margin_per_lot'' (NFloat (bs_margin_per_lot b)) True False),
        err_of (require_int ''stops_level_points'' (NInt (bs_stops_level_points b)) 0 None),
        err_of (require_int ''freeze_level_points'' (NInt (bs_freeze_level_points b)) 0 None),
        raise_if (fl_lt (bs_volume_max b) (bs_volume_min b))
          (ValueError ''volume_min cannot exceed volume_max''),
        raise_if (fl_lt (bs_volume_max b) (bs_volume_step b))
          (ValueError ''volume_step cannot exceed volume_max''),
        err_of (require_hash ''session_calendar_sha256'' (bs_session_calendar_sha256 b) 64),
        err_of (require_utc ''captured_at'' (bs_captured_at b)),
        err_of (require_text ''schema_version'' (bs_schema_version b) False)]
       (b\<lparr>bs_account_id := norm_text False (bs_account_id b),
          bs_broker_legal_name := norm_text False (bs_broker_legal_name b),
          bs_server := norm_text False (bs_server b),
          bs_environment := norm_text True (bs_environment b),
          bs_symbol := norm_text True (bs_symbol b),
          bs_broker_symbol := norm_text False (bs_broker_symbol b),
          bs_account_currency := norm_text True (bs_account_currency b),
          bs_session_calendar_sha256 := norm_hash (bs_session_calendar_sha256 b),
          bs_schema_version := norm_text False (bs_schema_version b)\<rparr>)"

definition BrokerSpec_dict :: "BrokerSpec \<Rightarrow> json" where
  "BrokerSpec_dict b = JDict
     [(''account_id'', JStr (bs_account_id b)),
      (''broker_legal_name'', JStr (bs_broker_legal_name b)),
      (''server'', JStr (bs_server b)),
      (''environment'', JStr (bs_environment b)),
      (''symbol'', JStr (bs_symbol b)),
      (''broker_symbol'', JStr (bs_broker_symbol b)),
      (''account_currency'', JStr (bs_account_currency b)),
      (''digits'', JInt (bs_digits b)),
      (''point'', JFloat (bs_point b)),
      (''tick_size'', JFloat (bs_tick_size b)),
      (''tick_value'', JFloat (bs_tick_value b)),
      (''contract_size'', JFloat (bs_contract_size b)),
      (''volume_min'', JFloat (bs_volume_min b)),
      (''volume_max'', JFloat (bs_volume_max b)),
      (''volume_step'', JFloat (bs_volume_step b)),
      (''stops_level_points'', JInt (bs_stops_level_points b)),
      (''freeze_level_points'', JInt (bs_freeze_level_points b)),
      (''margin_per_lot'', JFloat (bs_margin_per_lot b)),
      (''session_calendar_sha256'', JStr (bs_session_calendar_sha256 b)),
      (''captured_at'', jtime (bs_captured_at b)),
      (''schema_version'', JStr (bs_schema_version b))]"

definition BrokerSpec_content_sha256 :: "BrokerSpec \<Rightarrow> string" where
  "BrokerSpec_content_sha256 b = canonical_sha256 (json_pop ''captured_at'' (BrokerSpec_dict b))"

section \<open>DecisionSnapshot\<close>

datatype score_value = ScorePoints int | ScoreCheck bool "int option"

fun score_points :: "score_value \<Rightarrow> int" where
  "score_points (ScorePoints p) = p"
| "score_points (ScoreCheck passed points) =
     (if passed then (case points of None \<Rightarrow> 0 | Some p \<Rightarrow> p) else 0)"

fun normalize_components ::
  "(string \<times> score_value) list \<Rightarrow> string list \<Rightarrow> (string \<times> int) list \<Rightarrow> (string \<times> int) list res" where
  "normalize_components [] seen acc = Inr (sort_key fst acc)"
| "normalize_components ((raw_name, raw_value) # items) seen acc =
     res_bind (require_text ''score component name'' raw_name False) (\<lambda>name.
       if name \<in> set seen then Inl (ValueError (''duplicate score component: '' @ name))
       else res_bind (require_int (''score component '' @ name) (NInt (score_points raw_value)) 0 None)
              (\<lambda>points. normalize_components items (name # seen) (acc @ [(name, points)])))"

definition normalize_score_components :: "(string \<times> score_value) list \<Rightarrow> (string \<times> int) list res" where
  "normalize_score_components items = normalize_components items [] []"

record DecisionSnapshot =
  ds_decision_run_id :: string
  ds_symbol :: string
  ds_side :: string
  ds_strategy :: string
  ds_score :: int
  ds_score_components :: "(string \<times> int) list"
  ds_entry_reference :: "pyfloat option"
  ds_stop_loss :: "pyfloat option"
  ds_take_profit :: "pyfloat option"
  ds_model_version :: string
  ds_model_artifact_sha256 :: string
  ds_commit_sha :: string
  ds_config_sha256 :: string
  ds_data_sha256 :: string
  ds_source_name :: string
  ds_source_aligned :: bool
  ds_data_fresh :: bool
  ds_bar_closed_at :: datetime
  ds_created_at :: datetime
  ds_timeframe :: string
  ds_schema_version :: string

definition entry_window_seconds :: int where
  "entry_window_seconds = 10"

text \<open>The price conditions of a BUY or SELL: stop, entry and target are ordered.\<close>

definition prices_ordered :: "string \<Rightarrow> pyfloat \<Rightarrow> pyfloat \<Rightarrow> pyfloat \<Rightarrow> bool" where
  "prices_ordered side stop entry target =
     ((side = ''BUY'' \<longrightarrow> fl_lt stop entry \<and> fl_lt entry target) \<and>
      (side = ''SELL'' \<longrightarrow> fl_lt target entry \<and> fl_lt entry stop))"

definition decision_price_checks ::
  "string \<Rightarrow> pyfloat option \<Rightarrow> pyfloat option \<Rightarrow> pyfloat option \<Rightarrow> exn option list" where
  "decision_price_checks side entry stop target =
     (if side = ''WAIT''
      then [raise_if (entry \<noteq> None \<or> stop \<noteq> None \<or> target \<noteq> None)
              (ValueError ''WAIT decisions cannot contain entry, SL, or TP'')]
      else case (entry, stop, target) of
        (Some en, Some sl, Some tp) \<Rightarrow>
          [err_of (require_finite ''entry_reference'' (NFloat en) True False),
           err_of (require_finite ''stop_loss'' (NFloat sl) True False),
           err_of (require_finite ''take_profit'' (NFloat tp) True False),
           raise_if (side = ''BUY'' \<and> \<not> prices_ordered ''BUY'' sl en tp)
             (ValueError ''BUY decision requires stop_loss < entry < take_profit''),
           raise_if (side = ''SELL'' \<and> \<not> prices_ordered ''SELL'' sl en tp)
             (ValueError ''SELL decision requires take_profit < entry < stop_loss'')]
      | _ \<Rightarrow> [Some (ValueError ''BUY/SELL decisions require entry, SL, and TP'')])"

definition decision_time_checks :: "string \<Rightarrow> datetime \<Rightarrow> datetime \<Rightarrow> exn option list" where
  "decision_time_checks timeframe bar_closed_at created_at =
     [err_of (require_utc ''bar_closed_at'' bar_closed_at),
      err_of (require_utc ''created_at'' created_at),
      err_of (require_decision_timeframe ''timeframe'' timeframe),
      (case decision_timeframe_seconds (norm_text True timeframe) of
         None \<Rightarrow> None
       | Some tf \<Rightarrow> raise_if (timestamp_us bar_closed_at mod 1000000 \<noteq> 0
                               \<or> timestamp_us bar_closed_at div 1000000 mod tf \<noteq> 0)
           (ValueError (''bar_closed_at must align to a finalized '' @ norm_text True timeframe @ '' boundary''))),
      raise_if (\<not> (dt_lt bar_closed_at created_at
                   \<and> dt_le created_at (dt_add bar_closed_at (seconds entry_window_seconds))))
        (ValueError ''decision creation is outside the post-candle entry window'')]"

definition DecisionSnapshot_init ::
  "bool \<Rightarrow> DecisionSnapshot \<Rightarrow> (string \<times> score_value) list \<Rightarrow> DecisionSnapshot res" where
  "DecisionSnapshot_init sealed d raw_components =
     (let side = norm_text True (ds_side d) in
      res_bind (checked
        [raise_if (\<not> sealed)
           (TypeError ''DecisionSnapshot can only be created by the shared decision core''),
         err_of (require_text ''decision_run_id'' (ds_decision_run_id d) False),
         err_of (require_text ''symbol'' (ds_symbol d) True),
         err_of (require_text ''side'' (ds_side d) True),
         raise_if (side \<notin> {''BUY'', ''SELL'', ''WAIT''}) (ValueError ''side must be BUY, SELL, or WAIT''),
         err_of (require_text ''strategy'' (ds_strategy d) True),
         err_of (require_int ''score'' (NInt (ds_score d)) 0 None)] ())
      (\<lambda>_. res_bind (normalize_score_components raw_components) (\<lambda>components.
        checked
          ([raise_if (sum_list (map snd components) \<noteq> ds_score d)
              (ValueError ''score must equal the sum of score_components'')]
           @ decision_price_checks side (ds_entry_reference d) (ds_stop_loss d) (ds_take_profit d)
           @ [err_of (require_text ''model_version'' (ds_model_version d) False),
              err_of (require_hash ''model_artifact_sha256'' (ds_model_artifact_sha256 d) 64),
              err_of (require_hash ''commit_sha'' (ds_commit_sha d) 7),
              err_of (require_hash ''config_sha256'' (ds_config_sha256 d) 64),
              err_of (require_hash ''data_sha256'' (ds_data_sha256 d) 64),
              err_of (require_text ''source_name'' (ds_source_name d) False)]
           @ decision_time_checks (ds_timeframe d) (ds_bar_closed_at d) (ds_created_at d)
           @ [err_of (require_text ''schema_version'' (ds_schema_version d) False)])
          (d\<lparr>ds_decision_run_id := norm_text False (ds_decision_run_id d),
             ds_symbol := norm_text True (ds_symbol d),
             ds_side := side,
             ds_strategy := norm_text True (ds_strategy d),
             ds_score_components := components,
             ds_model_version := norm_text False (ds_model_version d),
             ds_model_artifact_sha256 := norm_hash (ds_model_artifact_sha256 d),
             ds_commit_sha := norm_hash (ds_commit_sha d),
             ds_config_sha256 := norm_hash (ds_config_sha256 d),
             ds_data_sha256 := norm_hash (ds_data_sha256 d),
             ds_source_name := norm_text False (ds_source_name d),
             ds_timeframe := norm_text True (ds_timeframe d),
             ds_schema_version := norm_text False (ds_schema_version d)\<rparr>))))"

definition mint_decision_snapshot ::
  "DecisionSnapshot \<Rightarrow> (string \<times> score_value) list \<Rightarrow> DecisionSnapshot res" where
  "mint_decision_snapshot values components = DecisionSnapshot_init True values components"

definition DecisionSnapshot_dict :: "DecisionSnapshot \<Rightarrow> json" where
  "DecisionSnapshot_dict d =
     (let payload = JDict
       [(''decision_run_id'', JStr (ds_decision_run_id d)),
        (''symbol'', JStr (ds_symbol d)),
        (''side'', JStr (ds_side d)),
        (''strategy'', JStr (ds_strategy d)),
        (''score'', JInt (ds_score d)),
        (''score_components'', JList (map (\<lambda>(n, p). JList [JStr n, JInt p]) (ds_score_components d))),
        (''entry_reference'', jopt JFloat (ds_entry_reference d)),
        (''stop_loss'', jopt JFloat (ds_stop_loss d)),
        (''take_profit'', jopt JFloat (ds_take_profit d)),
        (''model_version'', JStr (ds_model_version d)),
        (''model_artifact_sha256'', JStr (ds_model_artifact_sha256 d)),
        (''commit_sha'', JStr (ds_commit_sha d)),
        (''config_sha256'', JStr (ds_config_sha256 d)),
        (''data_sha256'', JStr (ds_data_sha256 d)),
        (''source_name'', JStr (ds_source_name d)),
        (''source_aligned'', JBool (ds_source_aligned d)),
        (''data_fresh'', JBool (ds_data_fresh d)),
        (''bar_closed_at'', jtime (ds_bar_closed_at d)),
        (''created_at'', jtime (ds_created_at d)),
        (''timeframe'', JStr (ds_timeframe d)),
        (''schema_version'', JStr (ds_schema_version d))]
      in if ds_timeframe d = ''M15'' then json_pop ''timeframe'' payload else payload)"

definition DecisionSnapshot_content_sha256 :: "DecisionSnapshot \<Rightarrow> string" where
  "DecisionSnapshot_content_sha256 d = canonical_sha256 (DecisionSnapshot_dict d)"

definition snapshot_id :: "DecisionSnapshot \<Rightarrow> string" where
  "snapshot_id d = ''decision_'' @ take 32 (DecisionSnapshot_content_sha256 d)"

section \<open>TradeIntent\<close>

record TradeIntent =
  ti_mode :: string
  ti_account_id :: string
  ti_server :: string
  ti_symbol :: string
  ti_side :: string
  ti_requested_lot :: pyfloat
  ti_entry_reference :: pyfloat
  ti_stop_loss :: pyfloat
  ti_take_profit :: pyfloat
  ti_created_at :: datetime
  ti_expires_at :: datetime
  ti_decision :: DecisionSnapshot
  ti_permit_id :: string
  ti_schema_version :: string

definition execution_modes :: "string list" where
  "execution_modes = [''DRY_RUN'', ''PAPER'', ''DEMO'', ''DEMO_AUTO'', ''LIVE'']"

definition fl_eq_opt :: "pyfloat \<Rightarrow> pyfloat option \<Rightarrow> bool" where
  "fl_eq_opt x y = (case y of None \<Rightarrow> False | Some v \<Rightarrow> fl_eq x v)"

definition entry_deadline :: "DecisionSnapshot \<Rightarrow> pyfloat" where
  "entry_deadline d =
     fl_add (total_seconds (timestamp_us (ds_bar_closed_at d))) (Fin (of_int entry_window_seconds))"

definition TradeIntent_init :: "TradeIntent \<Rightarrow> TradeIntent res" where
  "TradeIntent_init t =
     (let mode = norm_text True (ti_mode t); symbol = norm_text True (ti_symbol t);
          side = norm_text True (ti_side t); d = ti_decision t in
      checked
        [err_of (require_text ''mode'' (ti_mode t) True),
         raise_if (mode \<notin> set execution_modes) (ValueError ''unsupported execution mode''),
         err_of (require_text ''account_id'' (ti_account_id t) False),
         err_of (require_text ''server'' (ti_server t) False),
         err_of (require_text ''symbol'' (ti_symbol t) True),
         err_of (require_text ''side'' (ti_side t) True),
         raise_if (side \<notin> {''BUY'', ''SELL''}) (ValueError ''TradeIntent side must be BUY or SELL''),
         err_of (require_finite ''requested_lot'' (NFloat (ti_requested_lot t)) True False),
         err_of (require_finite ''entry_reference'' (NFloat (ti_entry_reference t)) True False),
         err_of (require_finite ''stop_loss'' (NFloat (ti_stop_loss t)) True False),
         err_of (require_finite ''take_profit'' (NFloat (ti_take_profit t)) True False),
         err_of (require_utc ''created_at'' (ti_created_at t)),
         err_of (require_utc ''expires_at'' (ti_expires_at t)),
         raise_if (dt_le (ti_expires_at t) (ti_created_at t))
           (ValueError ''expires_at must be after created_at''),
         raise_if (ds_timeframe d \<noteq> ''M15'')
           (ValueError ''TradeIntent accepts only M15 decision snapshots''),
         raise_if (symbol \<noteq> ds_symbol d \<or> side \<noteq> ds_side d)
           (ValueError ''intent symbol/side must match the decision snapshot''),
         raise_if (dt_lt (ti_created_at t) (ds_created_at d))
           (ValueError ''intent cannot predate its decision''),
         raise_if (fl_lt (entry_deadline d) (total_seconds (timestamp_us (ti_created_at t))))
           (ValueError ''intent was created outside the post-candle entry window''),
         raise_if (fl_lt (entry_deadline d) (total_seconds (timestamp_us (ti_expires_at t))))
           (ValueError ''intent expiry exceeds the post-candle entry window''),
         raise_if (\<not> fl_eq_opt (ti_entry_reference t) (ds_entry_reference d)
                   \<or> \<not> fl_eq_opt (ti_stop_loss t) (ds_stop_loss d)
                   \<or> \<not> fl_eq_opt (ti_take_profit t) (ds_take_profit d))
           (ValueError ''intent entry/SL/TP must match the decision snapshot''),
         raise_if (side = ''BUY'' \<and>
             \<not> prices_ordered ''BUY'' (ti_stop_loss t) (ti_entry_reference t) (ti_take_profit t))
           (ValueError ''BUY requires stop_loss < entry_reference < take_profit''),
         raise_if (side = ''SELL'' \<and>
             \<not> prices_ordered ''SELL'' (ti_stop_loss t) (ti_entry_reference t) (ti_take_profit t))
           (ValueError ''SELL requires take_profit < entry_reference < stop_loss''),
         err_of (require_text ''permit_id'' (ti_permit_id t) False),
         err_of (require_text ''schema_version'' (ti_schema_version t) False)]
        (t\<lparr>ti_mode := mode,
           ti_account_id := norm_text False (ti_account_id t),
           ti_server := norm_text False (ti_server t),
           ti_symbol := symbol,
           ti_side := side,
           ti_permit_id := norm_text False (ti_permit_id t),
           ti_schema_version := norm_text False (ti_schema_version t)\<rparr>))"

definition stop_distance :: "TradeIntent \<Rightarrow> pyfloat" where
  "stop_distance t = fl_abs (fl_sub (ti_entry_reference t) (ti_stop_loss t))"

definition target_distance :: "TradeIntent \<Rightarrow> pyfloat" where
  "target_distance t = fl_abs (fl_sub (ti_take_profit t) (ti_entry_reference t))"

definition TradeIntent_dict :: "TradeIntent \<Rightarrow> json" where
  "TradeIntent_dict t = JDict
     [(''mode'', JStr (ti_mode t)),
      (''account_id'', JStr (ti_account_id t)),
      (''server'', JStr (ti_server t)),
      (''symbol'', JStr (ti_symbol t)),
      (''side'', JStr (ti_side t)),
      (''requested_lot'', JFloat (ti_requested_lot t)),
      (''entry_reference'', JFloat (ti_entry_reference t)),
      (''stop_loss'', JFloat (ti_stop_loss t)),
      (''take_profit'', JFloat (ti_take_profit t)),
      (''created_at'', jtime (ti_created_at t)),
      (''expires_at'', jtime (ti_expires_at t)),
      (''decision'', DecisionSnapshot_dict (ti_decision t)),
      (''permit_id'', JStr (ti_permit_id t)),
      (''schema_version'', JStr (ti_schema_version t))]"

definition TradeIntent_content_sha256 :: "TradeIntent \<Rightarrow> string" where
  "TradeIntent_content_sha256 t = canonical_sha256 (TradeIntent_dict t)"

definition intent_id :: "TradeIntent \<Rightarrow> string" where
  "intent_id t = ''intent_'' @ take 32 (TradeIntent_content_sha256 t)"

section \<open>SubmissionConsumptionProof and ExecutionReceipt\<close>

record SubmissionConsumptionProof =
  sp_journal_sha256 :: string
  sp_intent_id :: string
  sp_execution_gate_sha256 :: string
  sp_authorization_sha256 :: string
  sp_broker_request_sha256 :: string
  sp_consumed_at :: datetime

definition SubmissionConsumptionProof_init ::
  "bool \<Rightarrow> SubmissionConsumptionProof \<Rightarrow> SubmissionConsumptionProof res" where
  "SubmissionConsumptionProof_init sealed p =
     checked
       [raise_if (\<not> sealed)
          (TypeError ''submission consumption proofs can only be minted by ExecutionJournal''),
        err_of (require_text ''intent_id'' (sp_intent_id p) False),
        err_of (require_hash ''journal_sha256'' (sp_journal_sha256 p) 64),
        err_of (require_hash ''execution_gate_sha256'' (sp_execution_gate_sha256 p) 64),
        err_of (require_hash ''authorization_sha256'' (sp_authorization_sha256 p) 64),
        err_of (require_hash ''broker_request_sha256'' (sp_broker_request_sha256 p) 64),
        err_of (require_utc ''consumed_at'' (sp_consumed_at p))]
       (p\<lparr>sp_intent_id := norm_text False (sp_intent_id p),
          sp_journal_sha256 := norm_hash (sp_journal_sha256 p),
          sp_execution_gate_sha256 := norm_hash (sp_execution_gate_sha256 p),
          sp_authorization_sha256 := norm_hash (sp_authorization_sha256 p),
          sp_broker_request_sha256 := norm_hash (sp_broker_request_sha256 p)\<rparr>)"

definition mint_submission_consumption_proof ::
  "SubmissionConsumptionProof \<Rightarrow> SubmissionConsumptionProof res" where
  "mint_submission_consumption_proof values = SubmissionConsumptionProof_init True values"

record ExecutionReceipt =
  er_intent_id :: string
  er_state :: string
  er_account_id :: string
  er_server :: string
  er_symbol :: string
  er_requested_volume :: pyfloat
  er_filled_volume :: pyfloat
  er_received_at :: datetime
  er_broker_retcode :: string
  er_message :: string
  er_journal_sha256 :: string
  er_execution_gate_sha256 :: string
  er_authorization_sha256 :: string
  er_broker_request_sha256 :: string
  er_submission_consumed_at :: datetime
  er_order_ticket :: "string option"
  er_deal_ticket :: "string option"
  er_requested_price :: "pyfloat option"
  er_fill_price :: "pyfloat option"
  er_slippage_price :: "pyfloat option"
  er_broker_time_msc :: "int option"
  er_stop_loss :: "pyfloat option"
  er_take_profit :: "pyfloat option"
  er_actual_risk_cash :: "pyfloat option"
  er_schema_version :: string

definition receipt_states :: "string list" where
  "receipt_states =
     [''CLAIMED'', ''PREFLIGHT_PASSED'', ''PREFLIGHT_REJECTED'', ''SUBMITTED'', ''ACKNOWLEDGED'',
      ''PARTIAL'', ''FILLED'', ''REJECTED'', ''CANCELLED'', ''UNCERTAIN'', ''CLOSED'', ''RECONCILED'']"

definition optional_finite :: "string \<Rightarrow> pyfloat option \<Rightarrow> bool \<Rightarrow> exn option" where
  "optional_finite name v nonnegative =
     (case v of None \<Rightarrow> None | Some x \<Rightarrow> err_of (require_finite name (NFloat x) False nonnegative))"

text \<open>A Python \<open>str | None\<close> is truthy when it is a non-empty string.\<close>

definition truthy_text :: "string option \<Rightarrow> bool" where
  "truthy_text v = (case v of None \<Rightarrow> False | Some s \<Rightarrow> s \<noteq> [])"

definition fill_evidence_checks :: "ExecutionReceipt \<Rightarrow> string \<Rightarrow> exn option list" where
  "fill_evidence_checks r state =
     (if state \<in> {''PARTIAL'', ''FILLED'', ''RECONCILED''}
      then [raise_if (fl_le (er_filled_volume r) (Fin 0) \<or>
                (case er_fill_price r of None \<Rightarrow> True | Some p \<Rightarrow> fl_le p (Fin 0)))
              (ValueError ''partial/filled/reconciled receipts require volume and fill_price''),
            raise_if (\<not> (truthy_text (er_order_ticket r) \<or> truthy_text (er_deal_ticket r)))
              (ValueError ''partial/filled/reconciled receipts require a broker ticket'')]
      else [])"

definition ExecutionReceipt_init :: "bool \<Rightarrow> ExecutionReceipt \<Rightarrow> ExecutionReceipt res" where
  "ExecutionReceipt_init sealed r =
     (let state = norm_text True (er_state r) in
      checked
        ([raise_if (\<not> sealed) (TypeError ''ExecutionReceipt can only be created by the broker adapter''),
          err_of (require_text ''intent_id'' (er_intent_id r) False),
          err_of (require_text ''state'' (er_state r) True),
          raise_if (state \<notin> set receipt_states) (ValueError (''unsupported receipt state: '' @ state)),
          err_of (require_text ''account_id'' (er_account_id r) False),
          err_of (require_text ''server'' (er_server r) False),
          err_of (require_text ''symbol'' (er_symbol r) True),
          err_of (require_finite ''requested_volume'' (NFloat (er_requested_volume r)) True False),
          err_of (require_finite ''filled_volume'' (NFloat (er_filled_volume r)) False True),
          raise_if (fl_lt (er_requested_volume r) (er_filled_volume r))
            (ValueError ''filled_volume cannot exceed requested_volume''),
          err_of (require_utc ''received_at'' (er_received_at r)),
          err_of (require_text ''broker_retcode'' (er_broker_retcode r) False),
          err_of (require_hash ''journal_sha256'' (er_journal_sha256 r) 64),
          err_of (require_hash ''execution_gate_sha256'' (er_execution_gate_sha256 r) 64),
          err_of (require_hash ''authorization_sha256'' (er_authorization_sha256 r) 64),
          err_of (require_hash ''broker_request_sha256'' (er_broker_request_sha256 r) 64),
          err_of (require_utc ''submission_consumed_at'' (er_submission_consumed_at r)),
          raise_if (dt_lt (er_received_at r) (er_submission_consumed_at r))
            (ValueError ''submission consumption cannot occur after broker receipt''),
          optional_finite ''requested_price'' (er_requested_price r) True,
          optional_finite ''fill_price'' (er_fill_price r) True,
          optional_finite ''stop_loss'' (er_stop_loss r) True,
          optional_finite ''take_profit'' (er_take_profit r) True,
          optional_finite ''actual_risk_cash'' (er_actual_risk_cash r) True,
          optional_finite ''slippage_price'' (er_slippage_price r) False,
          (case er_broker_time_msc r of None \<Rightarrow> None
           | Some v \<Rightarrow> err_of (require_int ''broker_time_msc'' (NInt v) 0 None))]
         @ fill_evidence_checks r state
         @ [err_of (require_text ''schema_version'' (er_schema_version r) False)])
        (r\<lparr>er_intent_id := norm_text False (er_intent_id r),
           er_state := state,
           er_account_id := norm_text False (er_account_id r),
           er_server := norm_text False (er_server r),
           er_symbol := norm_text True (er_symbol r),
           er_broker_retcode := norm_text False (er_broker_retcode r),
           er_message := str_strip (er_message r),
           er_journal_sha256 := norm_hash (er_journal_sha256 r),
           er_execution_gate_sha256 := norm_hash (er_execution_gate_sha256 r),
           er_authorization_sha256 := norm_hash (er_authorization_sha256 r),
           er_broker_request_sha256 := norm_hash (er_broker_request_sha256 r),
           er_schema_version := norm_text False (er_schema_version r)\<rparr>))"

text \<open>
  The five fields that the proof binds always come from the proof. \<open>supplied\<close> holds the keywords
  of that group the caller passed as well: one with another value conflicts, and one with the
  same value is a repeated keyword argument of the constructor call.
\<close>

definition proof_bound_fields :: "SubmissionConsumptionProof \<Rightarrow> (string \<times> json) list" where
  "proof_bound_fields proof =
     [(''journal_sha256'', JStr (sp_journal_sha256 proof)),
      (''execution_gate_sha256'', JStr (sp_execution_gate_sha256 proof)),
      (''authorization_sha256'', JStr (sp_authorization_sha256 proof)),
      (''broker_request_sha256'', JStr (sp_broker_request_sha256 proof)),
      (''submission_consumed_at'', jtime (sp_consumed_at proof))]"

definition mint_execution_receipt ::
  "SubmissionConsumptionProof \<Rightarrow> (string \<times> json) list \<Rightarrow> ExecutionReceipt \<Rightarrow> ExecutionReceipt res" where
  "mint_execution_receipt proof supplied r =
     res_bind (checked
       ([raise_if (er_intent_id r \<noteq> sp_intent_id proof)
           (ValueError ''submission proof intent does not match execution receipt'')]
        @ map (\<lambda>(name, expected).
             raise_if (case map_of supplied name of None \<Rightarrow> False | Some v \<Rightarrow> v \<noteq> expected)
               (ValueError (name @ '' conflicts with sealed submission proof'')))
            (proof_bound_fields proof)
        @ [raise_if (supplied \<noteq> [])
             (TypeError ''ExecutionReceipt() got multiple values for keyword argument'')]) ())
     (\<lambda>_. ExecutionReceipt_init True
       (r\<lparr>er_journal_sha256 := sp_journal_sha256 proof,
          er_execution_gate_sha256 := sp_execution_gate_sha256 proof,
          er_authorization_sha256 := sp_authorization_sha256 proof,
          er_broker_request_sha256 := sp_broker_request_sha256 proof,
          er_submission_consumed_at := sp_consumed_at proof\<rparr>))"

definition ExecutionReceipt_dict :: "ExecutionReceipt \<Rightarrow> json" where
  "ExecutionReceipt_dict r = JDict
     [(''intent_id'', JStr (er_intent_id r)),
      (''state'', JStr (er_state r)),
      (''account_id'', JStr (er_account_id r)),
      (''server'', JStr (er_server r)),
      (''symbol'', JStr (er_symbol r)),
      (''requested_volume'', JFloat (er_requested_volume r)),
      (''filled_volume'', JFloat (er_filled_volume r)),
      (''received_at'', jtime (er_received_at r)),
      (''broker_retcode'', JStr (er_broker_retcode r)),
      (''message'', JStr (er_message r)),
      (''journal_sha256'', JStr (er_journal_sha256 r)),
      (''execution_gate_sha256'', JStr (er_execution_gate_sha256 r)),
      (''authorization_sha256'', JStr (er_authorization_sha256 r)),
      (''broker_request_sha256'', JStr (er_broker_request_sha256 r)),
      (''submission_consumed_at'', jtime (er_submission_consumed_at r)),
      (''order_ticket'', jopt JStr (er_order_ticket r)),
      (''deal_ticket'', jopt JStr (er_deal_ticket r)),
      (''requested_price'', jopt JFloat (er_requested_price r)),
      (''fill_price'', jopt JFloat (er_fill_price r)),
      (''slippage_price'', jopt JFloat (er_slippage_price r)),
      (''broker_time_msc'', jopt JInt (er_broker_time_msc r)),
      (''stop_loss'', jopt JFloat (er_stop_loss r)),
      (''take_profit'', jopt JFloat (er_take_profit r)),
      (''actual_risk_cash'', jopt JFloat (er_actual_risk_cash r)),
      (''schema_version'', JStr (er_schema_version r))]"

definition ExecutionReceipt_content_sha256 :: "ExecutionReceipt \<Rightarrow> string" where
  "ExecutionReceipt_content_sha256 r = canonical_sha256 (ExecutionReceipt_dict r)"

definition receipt_id :: "ExecutionReceipt \<Rightarrow> string" where
  "receipt_id r = ''receipt_'' @ take 32 (ExecutionReceipt_content_sha256 r)"

section \<open>Facts\<close>

lemma is_utc_require [res_simps]: "err_of (require_utc name v) = None \<longleftrightarrow> is_utc v"
  by (auto simp: require_utc_def is_utc_def split: option.splits)

lemma require_utc_Inr: "require_utc name v = Inr w \<longleftrightarrow> is_utc v \<and> w = v"
  by (auto simp: require_utc_def is_utc_def split: option.splits)

lemma require_text_ok [res_simps]: "err_of (require_text name v u) = None \<longleftrightarrow> str_strip v \<noteq> []"
  by (simp add: require_text_def)

lemma require_text_Inr: "require_text name v u = Inr w \<longleftrightarrow> str_strip v \<noteq> [] \<and> w = norm_text u v"
  by (auto simp: require_text_def)

lemma require_finite_ok [res_simps]:
  "err_of (require_finite name (NFloat x) p n) = None \<longleftrightarrow>
     is_finite x \<and> (p \<longrightarrow> \<not> fl_le x (Fin 0)) \<and> (n \<longrightarrow> \<not> fl_lt x (Fin 0))"
  by (simp add: finite_bounds_def)

lemma require_int_ok [res_simps]:
  "err_of (require_int name (NInt i) lo hi) = None \<longleftrightarrow> lo \<le> i \<and> (\<forall>h. hi = Some h \<longrightarrow> i \<le> h)"
  by (auto split: option.splits)

declare require_finite.simps [simp del] require_int.simps [simp del]

lemma norm_text_idem [simp]: "norm_text u (norm_text u v) = norm_text u v"
  by (simp add: norm_text_def str_strip_upper)

lemma str_strip_norm_text [simp]: "str_strip (norm_text u v) = norm_text u v"
  by (simp add: norm_text_def str_strip_upper)

lemma norm_text_Nil [simp]: "norm_text u v = [] \<longleftrightarrow> str_strip v = []"
  by (simp add: norm_text_def)

lemma norm_hash_idem [simp]: "norm_hash (norm_hash v) = norm_hash v"
  by (simp add: norm_hash_def str_strip_lower)

lemma str_strip_norm_hash [simp]: "str_strip (norm_hash v) = norm_hash v"
  by (simp add: norm_hash_def str_strip_lower)

lemma norm_hash_Nil [simp]: "norm_hash v = [] \<longleftrightarrow> str_strip v = []"
  by (simp add: norm_hash_def str_lower_def)

lemma require_hash_ok [res_simps]:
  "err_of (require_hash name v n) = None \<longleftrightarrow> str_strip v \<noteq> [] \<and>
     n \<le> length (norm_hash v) \<and> length (norm_hash v) \<le> 64 \<and> list_all is_hex (norm_hash v)"
  by (auto simp: require_hash_def require_text_def norm_text_def norm_hash_def Let_def)

lemma require_hash_Inr:
  "require_hash name v n = Inr w \<longleftrightarrow> err_of (require_hash name v n) = None \<and> w = norm_hash v"
  by (auto simp: require_hash_def require_text_def norm_text_def norm_hash_def Let_def)

lemma norm_hash_hex: "list_all is_hex_lower v \<Longrightarrow> norm_hash v = v"
proof -
  assume v: "list_all is_hex_lower v"
  then have "list_all (\<lambda>c. \<not> is_space c) v" and "str_lower v = v"
    by (induction v) (auto simp: hex_lower_not_space lower_char_hex_lower str_lower_def)
  then show ?thesis by (simp add: norm_hash_def str_strip_no_space)
qed

lemma require_hash_hex:
  assumes "list_all is_hex_lower v" and "n \<le> length v" and "length v \<le> 64" and "v \<noteq> []"
  shows "require_hash name v n = Inr v"
proof -
  have "str_strip v = v" using assms(1)
    by (intro str_strip_no_space) (auto simp: list.pred_set hex_lower_not_space)
  moreover have "list_all is_hex v" using assms(1) by (auto simp: list.pred_set hex_lower_is_hex)
  ultimately show ?thesis
    using assms norm_hash_hex [OF assms(1)] require_hash_Inr [of name v n] by (simp add: require_hash_ok)
qed

lemma require_currency_ok [res_simps]:
  "err_of (require_currency name v) = None \<longleftrightarrow>
     length (norm_text True v) = 3 \<and> list_all is_upper_letter (norm_text True v)"
  by (cases "str_strip v = []") (auto simp: require_currency_def require_text_def norm_text_def
      str_upper_def)

lemma require_timeframe_ok [res_simps]:
  "err_of (require_decision_timeframe name v) = None \<longleftrightarrow> norm_text True v \<in> {''M5'', ''M15''}"
  by (cases "str_strip v = []") (auto simp: require_decision_timeframe_def require_text_def
      decision_timeframe_seconds_def norm_text_def str_upper_def)

lemma optional_finite_ok [res_simps]:
  "optional_finite name v n = None \<longleftrightarrow>
     (\<forall>x. v = Some x \<longrightarrow> is_finite x \<and> (n \<longrightarrow> \<not> fl_lt x (Fin 0)))"
  by (auto simp: optional_finite_def res_simps split: option.splits)

lemma TradeIntent_init_idem:
  "TradeIntent_init t = Inr t' \<Longrightarrow> TradeIntent_init t' = Inr t'"
  using norm_text_idem [of True "ti_symbol t"] str_strip_norm_text [of True "ti_symbol t"]
    norm_text_idem [of True "ti_side t"] str_strip_norm_text [of True "ti_side t"]
  by (auto simp: TradeIntent_init_def Let_def res_simps)

lemma BrokerSpec_init_idem:
  "BrokerSpec_init b = Inr b' \<Longrightarrow> BrokerSpec_init b' = Inr b'"
  by (auto simp: BrokerSpec_init_def Let_def res_simps)

lemma SubmissionConsumptionProof_init_idem:
  "SubmissionConsumptionProof_init True p = Inr p' \<Longrightarrow> SubmissionConsumptionProof_init True p' = Inr p'"
  by (auto simp: SubmissionConsumptionProof_init_def Let_def res_simps)

lemma ExecutionReceipt_init_idem:
  "ExecutionReceipt_init True r = Inr r' \<Longrightarrow> ExecutionReceipt_init True r' = Inr r'"
  by (auto simp: ExecutionReceipt_init_def fill_evidence_checks_def Let_def res_simps)

text \<open>What a returned intent guarantees.\<close>

definition intent_wf :: "TradeIntent \<Rightarrow> bool" where
  "intent_wf t =
     (ti_mode t \<in> set execution_modes \<and> ti_side t \<in> {''BUY'', ''SELL''} \<and>
      is_finite (ti_requested_lot t) \<and> is_finite (ti_entry_reference t) \<and>
      is_finite (ti_stop_loss t) \<and> is_finite (ti_take_profit t) \<and>
      is_utc (ti_created_at t) \<and> is_utc (ti_expires_at t) \<and>
      prices_ordered (ti_side t) (ti_stop_loss t) (ti_entry_reference t) (ti_take_profit t) \<and>
      dt_le (ds_created_at (ti_decision t)) (ti_created_at t) \<and>
      dt_lt (ti_created_at t) (ti_expires_at t))"

lemma TradeIntent_init_wf: "TradeIntent_init t = Inr t' \<Longrightarrow> intent_wf t'"
  by (auto simp: TradeIntent_init_def intent_wf_def Let_def res_simps prices_ordered_def dt_lt_def dt_le_def)

text \<open>What a returned decision guarantees.\<close>

definition bar_aligned :: "DecisionSnapshot \<Rightarrow> bool" where
  "bar_aligned d = (timestamp_us (ds_bar_closed_at d) mod 1000000 = 0)"

definition decision_wf :: "DecisionSnapshot \<Rightarrow> bool" where
  "decision_wf d =
     (ds_side d \<in> {''BUY'', ''SELL'', ''WAIT''} \<and> 0 \<le> ds_score d \<and>
      sum_list (map snd (ds_score_components d)) = ds_score d \<and>
      (\<forall>x. ds_entry_reference d = Some x \<longrightarrow> is_finite x) \<and>
      (\<forall>x. ds_stop_loss d = Some x \<longrightarrow> is_finite x) \<and>
      (\<forall>x. ds_take_profit d = Some x \<longrightarrow> is_finite x) \<and>
      is_utc (ds_bar_closed_at d) \<and> is_utc (ds_created_at d) \<and> bar_aligned d \<and>
      dt_lt (ds_bar_closed_at d) (ds_created_at d) \<and>
      dt_le (ds_created_at d) (dt_add (ds_bar_closed_at d) (seconds entry_window_seconds)))"

lemma decision_price_checks_finite:
  assumes "list_all (\<lambda>c. c = None) (decision_price_checks side en sl tp)"
  shows "(\<forall>x. en = Some x \<longrightarrow> is_finite x) \<and> (\<forall>x. sl = Some x \<longrightarrow> is_finite x) \<and>
    (\<forall>x. tp = Some x \<longrightarrow> is_finite x)"
  using assms by (auto simp: decision_price_checks_def res_simps split: if_splits option.splits)

lemma decision_time_checks_ok:
  assumes "list_all (\<lambda>c. c = None) (decision_time_checks tf bar created)"
  shows "is_utc bar \<and> is_utc created \<and> timestamp_us bar mod 1000000 = 0 \<and> dt_lt bar created \<and>
    dt_le created (dt_add bar (seconds entry_window_seconds))"
  using assms
  by (auto simp: decision_time_checks_def res_simps decision_timeframe_seconds_def split: option.splits)

lemma DecisionSnapshot_init_wf:
  assumes "DecisionSnapshot_init sealed d raw = Inr d'"
  shows "sealed \<and> decision_wf d'"
proof -
  have prices: "list_all (\<lambda>c. c = None) (decision_price_checks (norm_text True (ds_side d))
      (ds_entry_reference d) (ds_stop_loss d) (ds_take_profit d))"
    and times: "list_all (\<lambda>c. c = None) (decision_time_checks (ds_timeframe d) (ds_bar_closed_at d)
      (ds_created_at d))"
    using assms by (auto simp: DecisionSnapshot_init_def Let_def res_simps)
  then show ?thesis
    using assms decision_price_checks_finite [OF prices] decision_time_checks_ok [OF times]
    by (auto simp: DecisionSnapshot_init_def decision_wf_def bar_aligned_def Let_def res_simps)
qed

text \<open>
  The entry window is compared in floating point. For bars closed within 136 years of the
  epoch the comparison is exact to the microsecond.
\<close>

lemma entry_deadline_exact:
  assumes "bar_aligned d" and "\<bar>timestamp_us (ds_bar_closed_at d)\<bar> < 4294967000 * 1000000"
  shows "fl_lt (entry_deadline d) (total_seconds us) \<longleftrightarrow>
    timestamp_us (ds_bar_closed_at d) + 10 * 1000000 < us"
proof -
  obtain n where n: "timestamp_us (ds_bar_closed_at d) = n * 1000000"
    using assms(1) unfolding bar_aligned_def by (metis dvd_div_mult_self dvd_eq_mod_eq_0)
  have bound: "\<bar>n\<bar> < 4294967000" using assms(2) n by linarith
  have "total_seconds (n * 1000000) = Fin (of_int n)"
    using bound by (simp add: total_seconds_def fl_of_rat_representable representable_int)
  moreover have "fl_of_rat (of_int n + 10) = Fin (of_int (n + 10))"
    using fl_of_rat_representable [OF representable_int [of "n + 10"]] bound by simp
  ultimately have "entry_deadline d = Fin (of_int (n + 10))"
    by (simp add: entry_deadline_def n entry_window_seconds_def)
  moreover have "\<bar>n + 10\<bar> < 2 ^ 32" using bound by simp
  ultimately show ?thesis using total_seconds_gt_iff [of "n + 10" us] n by (simp add: algebra_simps)
qed

lemma TradeIntent_in_window:
  assumes "TradeIntent_init t = Inr t'" and "decision_wf (ti_decision t)"
    and "\<bar>timestamp_us (ds_bar_closed_at (ti_decision t))\<bar> < 4294967000 * 1000000"
  shows "dt_lt (ds_bar_closed_at (ti_decision t')) (ti_created_at t') \<and>
    dt_lt (ti_created_at t') (ti_expires_at t') \<and>
    dt_le (ti_expires_at t') (dt_add (ds_bar_closed_at (ti_decision t')) (seconds 10))"
proof -
  have "\<not> fl_lt (entry_deadline (ti_decision t)) (total_seconds (timestamp_us (ti_expires_at t)))"
    using assms(1) by (auto simp: TradeIntent_init_def Let_def res_simps)
  then have "\<not> timestamp_us (ds_bar_closed_at (ti_decision t)) + 10 * 1000000
      < timestamp_us (ti_expires_at t)"
    using entry_deadline_exact assms(2,3) by (simp add: decision_wf_def)
  moreover have "ti_decision t' = ti_decision t" "ti_expires_at t' = ti_expires_at t"
    using assms(1) by (auto simp: TradeIntent_init_def Let_def res_simps)
  moreover have "dt_le (ds_created_at (ti_decision t')) (ti_created_at t')"
    "dt_lt (ti_created_at t') (ti_expires_at t')"
    using TradeIntent_init_wf [OF assms(1)] by (auto simp: intent_wf_def)
  ultimately show ?thesis using assms(2)
    by (auto simp: decision_wf_def dt_lt_def dt_le_def timestamp_us_def seconds_def)
qed

lemma DecisionSnapshot_dict_finite: "decision_wf d \<Longrightarrow> json_finite (DecisionSnapshot_dict d)"
  by (auto simp: DecisionSnapshot_dict_def decision_wf_def Let_def jtime_def json_pop_def jopt_def
      list.pred_set split: option.splits)

lemma TradeIntent_canonical:
  "intent_wf t \<Longrightarrow> decision_wf (ti_decision t) \<Longrightarrow> canonicalize (TradeIntent_dict t) = Inr (TradeIntent_dict t)"
  by (auto simp: canonicalize_def TradeIntent_dict_def intent_wf_def jtime_def DecisionSnapshot_dict_finite)

end
