(* ===== verification/Permit.thy ===== *)
theory Permit
  imports Contracts "HOL-Library.Product_Lexorder"
begin

text \<open>
  \<open>live_runtime/permit.py\<close>: the signed promotion permit and its validation, the two-person
  kill-switch reset permit and the sealed authorization minted from it. Signatures are real
  HMAC-SHA256 values. A secret is a byte string; the model's secrets are ASCII text. The
  credentials of \<open>authorize_kill_switch_reset\<close> are an association list from approver to key
  identifier and secret, so a malformed credential is an absent one.
\<close>

section \<open>Constants and helpers\<close>

definition PROMOTION_PERMIT_MAX_TTL :: int where
  "PROMOTION_PERMIT_MAX_TTL = minutes 5"

definition PERMIT_SCHEMA_VERSION :: string where
  "PERMIT_SCHEMA_VERSION = ''1.0''"

definition RESET_PERMIT_SCHEMA_VERSION :: string where
  "RESET_PERMIT_SCHEMA_VERSION = ''2.0''"

definition RESET_CLOCK_ASSERTION_TOLERANCE_SECONDS :: pyfloat where
  "RESET_CLOCK_ASSERTION_TOLERANCE_SECONDS = fl_of_rat (50 / 1000)"

definition NO_SHA256 :: string where
  "NO_SHA256 = replicate 64 CHR ''0''"

definition trusted_reset_now :: "datetime \<Rightarrow> datetime option \<Rightarrow> datetime res" where
  "trusted_reset_now clock requested =
     res_bind (require_utc ''trusted reset clock'' clock) (\<lambda>trusted.
       case requested of None \<Rightarrow> Inr trusted
       | Some r \<Rightarrow> res_bind (require_utc ''now'' r) (\<lambda>asserted.
           if fl_lt RESET_CLOCK_ASSERTION_TOLERANCE_SECONDS
                (fl_abs (total_seconds (dt_sub asserted trusted)))
           then Inl (ValueError ''caller reset timestamp disagrees with trusted clock'')
           else Inr trusted))"

definition secret_bytes :: "string \<Rightarrow> string res" where
  "secret_bytes secret =
     (if length secret < 32
      then Inl (ValueError ''permit HMAC secret must contain at least 32 bytes'') else Inr secret)"

definition account_alias_sha256 :: "string \<Rightarrow> string res" where
  "account_alias_sha256 alias =
     res_bind (require_text ''account_alias'' alias False) (\<lambda>normalized. Inr (sha256_hex normalized))"

definition reset_reason_sha256 :: "string \<Rightarrow> string res" where
  "reset_reason_sha256 reason =
     res_bind (require_text ''reset reason'' reason False) (\<lambda>normalized. Inr (sha256_hex normalized))"

definition permit_symbols_checks :: "string list \<Rightarrow> exn option list" where
  "permit_symbols_checks symbols =
     map (\<lambda>s. err_of (require_text ''symbol'' s True)) symbols
     @ [raise_if (symbols = []) (ValueError ''symbols cannot be empty''),
        raise_if (\<not> distinct (map (norm_text True) symbols))
          (ValueError ''symbols cannot contain duplicates'')]"

definition permit_symbols :: "string list \<Rightarrow> string list" where
  "permit_symbols symbols = sort (map (norm_text True) symbols)"

definition promotion_window_checks :: "datetime \<Rightarrow> datetime \<Rightarrow> exn option list" where
  "promotion_window_checks issued_at expires_at =
     [err_of (require_utc ''issued_at'' issued_at),
      err_of (require_utc ''expires_at'' expires_at),
      raise_if (dt_sub expires_at issued_at \<le> 0) (ValueError ''expires_at must be after issued_at''),
      raise_if (PROMOTION_PERMIT_MAX_TTL < dt_sub expires_at issued_at)
        (ValueError ''promotion permit validity window exceeds maximum lifetime of 5 minutes'')]"

section \<open>PromotionPermit\<close>

record PromotionPermit =
  pp_mode :: string
  pp_account_alias_sha256 :: string
  pp_server :: string
  pp_symbols :: "string list"
  pp_commit_sha :: string
  pp_config_sha256 :: string
  pp_model_artifact_sha256 :: string
  pp_issued_at :: datetime
  pp_expires_at :: datetime
  pp_nonce :: string
  pp_journal_sha256 :: string
  pp_promotion_evidence_sha256 :: string
  pp_signature :: string
  pp_live_allowed :: bool
  pp_safe_to_demo_auto_order :: bool
  pp_schema_version :: string

definition PromotionPermit_init :: "PromotionPermit \<Rightarrow> PromotionPermit res" where
  "PromotionPermit_init p =
     (let mode = norm_text True (pp_mode p); signature = norm_hash (pp_signature p) in
      checked
        ([err_of (require_text ''mode'' (pp_mode p) True),
          raise_if (mode \<notin> set execution_modes) (ValueError ''unsupported permit mode''),
          err_of (require_hash ''account_alias_sha256'' (pp_account_alias_sha256 p) 64),
          err_of (require_text ''server'' (pp_server p) False)]
         @ permit_symbols_checks (pp_symbols p)
         @ [err_of (require_hash ''commit_sha'' (pp_commit_sha p) 7),
            err_of (require_hash ''config_sha256'' (pp_config_sha256 p) 64),
            err_of (require_hash ''model_artifact_sha256'' (pp_model_artifact_sha256 p) 64)]
         @ promotion_window_checks (pp_issued_at p) (pp_expires_at p)
         @ [err_of (require_text ''nonce'' (pp_nonce p) False),
            err_of (require_hash ''journal_sha256'' (pp_journal_sha256 p) 64),
            err_of (require_hash ''promotion_evidence_sha256'' (pp_promotion_evidence_sha256 p) 64),
            (if signature = [] then None else err_of (require_hash ''signature'' signature 64)),
            raise_if (pp_live_allowed p \<or> pp_safe_to_demo_auto_order p)
              (ValueError ''promotion permits cannot enable live or demo auto-order''),
            err_of (require_text ''schema_version'' (pp_schema_version p) False)])
        (p\<lparr>pp_mode := mode,
           pp_account_alias_sha256 := norm_hash (pp_account_alias_sha256 p),
           pp_server := norm_text False (pp_server p),
           pp_symbols := permit_symbols (pp_symbols p),
           pp_commit_sha := norm_hash (pp_commit_sha p),
           pp_config_sha256 := norm_hash (pp_config_sha256 p),
           pp_model_artifact_sha256 := norm_hash (pp_model_artifact_sha256 p),
           pp_nonce := norm_text False (pp_nonce p),
           pp_journal_sha256 := norm_hash (pp_journal_sha256 p),
           pp_promotion_evidence_sha256 := norm_hash (pp_promotion_evidence_sha256 p),
           pp_signature := signature,
           pp_schema_version := norm_text False (pp_schema_version p)\<rparr>))"

definition permit_signing_dict :: "PromotionPermit \<Rightarrow> json" where
  "permit_signing_dict p = json_pop ''signature'' (JDict
     [(''mode'', JStr (pp_mode p)),
      (''account_alias_sha256'', JStr (pp_account_alias_sha256 p)),
      (''server'', JStr (pp_server p)),
      (''symbols'', jstrs (pp_symbols p)),
      (''commit_sha'', JStr (pp_commit_sha p)),
      (''config_sha256'', JStr (pp_config_sha256 p)),
      (''model_artifact_sha256'', JStr (pp_model_artifact_sha256 p)),
      (''issued_at'', jtime (pp_issued_at p)),
      (''expires_at'', jtime (pp_expires_at p)),
      (''nonce'', JStr (pp_nonce p)),
      (''journal_sha256'', JStr (pp_journal_sha256 p)),
      (''promotion_evidence_sha256'', JStr (pp_promotion_evidence_sha256 p)),
      (''signature'', JStr (pp_signature p)),
      (''live_allowed'', JBool (pp_live_allowed p)),
      (''safe_to_demo_auto_order'', JBool (pp_safe_to_demo_auto_order p)),
      (''schema_version'', JStr (pp_schema_version p))])"

definition permit_signing_payload :: "PromotionPermit \<Rightarrow> string" where
  "permit_signing_payload p = canonical_json (permit_signing_dict p)"

definition permit_id :: "PromotionPermit \<Rightarrow> string" where
  "permit_id p = ''permit_'' @ take 32 (sha256_hex (permit_signing_payload p))"

definition permit_sign :: "PromotionPermit \<Rightarrow> string \<Rightarrow> PromotionPermit res" where
  "permit_sign p secret =
     res_bind (checked (promotion_window_checks (pp_issued_at p) (pp_expires_at p)) ()) (\<lambda>_.
     res_bind (secret_bytes secret) (\<lambda>key.
       PromotionPermit_init (p\<lparr>pp_signature := hmac_sha256_hex key (permit_signing_payload p)\<rparr>)))"

definition permit_verify_signature :: "PromotionPermit \<Rightarrow> string \<Rightarrow> bool res" where
  "permit_verify_signature p secret =
     (if pp_signature p = [] then Inr False
      else res_bind (secret_bytes secret) (\<lambda>key.
             Inr (pp_signature p = hmac_sha256_hex key (permit_signing_payload p))))"

section \<open>PermitValidation\<close>

record PermitValidation =
  pv_valid :: bool
  pv_reason_codes :: "string list"
  pv_checked_at :: datetime
  pv_permit_id :: string
  pv_signature_valid :: bool
  pv_binding_valid :: bool
  pv_time_valid :: bool
  pv_mode :: string
  pv_account_alias_sha256 :: string
  pv_server :: string
  pv_symbols :: "string list"
  pv_commit_sha :: string
  pv_config_sha256 :: string
  pv_model_artifact_sha256 :: string
  pv_journal_sha256 :: string
  pv_promotion_evidence_sha256 :: string
  pv_schema_version :: string
  pv_issued_at :: datetime
  pv_expires_at :: datetime
  pv_execution_authorized :: bool
  pv_can_unlock :: bool
  pv_live_allowed :: bool
  pv_safe_to_demo_auto_order :: bool

definition permit_verdict_checks :: "PermitValidation \<Rightarrow> exn option list" where
  "permit_verdict_checks v =
     map (\<lambda>r. err_of (require_text ''reason code'' r True)) (pv_reason_codes v)
     @ [raise_if (pv_valid v \<noteq> (pv_signature_valid v \<and> pv_binding_valid v \<and> pv_time_valid v))
          (ValueError ''valid must equal the signature, binding, and time result''),
        raise_if (pv_valid v \<and> pv_reason_codes v \<noteq> [])
          (ValueError ''a valid permit cannot contain reason codes''),
        raise_if (\<not> pv_valid v \<and> pv_reason_codes v = [])
          (ValueError ''an invalid permit requires reason codes''),
        raise_if (pv_execution_authorized v \<or> pv_can_unlock v \<or> pv_live_allowed v
                  \<or> pv_safe_to_demo_auto_order v)
          (ValueError ''permit validation cannot unlock execution'')]"

definition permit_field_checks :: "PermitValidation \<Rightarrow> exn option list" where
  "permit_field_checks v =
     [err_of (require_utc ''checked_at'' (pv_checked_at v)),
      err_of (require_utc ''issued_at'' (pv_issued_at v)),
      err_of (require_utc ''expires_at'' (pv_expires_at v)),
      raise_if (\<not> (dt_le (pv_issued_at v) (pv_checked_at v) \<and> dt_lt (pv_checked_at v) (pv_expires_at v))
                \<and> pv_time_valid v)
        (ValueError ''time_valid conflicts with the signed permit validity window''),
      err_of (require_text ''permit_id'' (pv_permit_id v) False),
      err_of (require_text ''mode'' (pv_mode v) True),
      raise_if (norm_text True (pv_mode v) \<notin> set execution_modes)
        (ValueError ''unsupported permit validation mode''),
      err_of (require_hash ''account_alias_sha256'' (pv_account_alias_sha256 v) 64),
      err_of (require_text ''server'' (pv_server v) False)]
     @ permit_symbols_checks (pv_symbols v)
     @ [err_of (require_hash ''commit_sha'' (pv_commit_sha v) 7),
        err_of (require_hash ''config_sha256'' (pv_config_sha256 v) 64),
        err_of (require_hash ''model_artifact_sha256'' (pv_model_artifact_sha256 v) 64),
        err_of (require_hash ''journal_sha256'' (pv_journal_sha256 v) 64),
        err_of (require_hash ''promotion_evidence_sha256'' (pv_promotion_evidence_sha256 v) 64),
        err_of (require_text ''schema_version'' (pv_schema_version v) False)]"

definition PermitValidation_init :: "bool \<Rightarrow> PermitValidation \<Rightarrow> PermitValidation res" where
  "PermitValidation_init sealed v =
     (let mode = norm_text True (pv_mode v) in
      checked
        ([raise_if (\<not> sealed) (TypeError ''PermitValidation can only be created by validate_permit'')]
         @ permit_field_checks v @ permit_verdict_checks v)
        (v\<lparr>pv_permit_id := norm_text False (pv_permit_id v),
           pv_mode := mode,
           pv_account_alias_sha256 := norm_hash (pv_account_alias_sha256 v),
           pv_server := norm_text False (pv_server v),
           pv_symbols := permit_symbols (pv_symbols v),
           pv_commit_sha := norm_hash (pv_commit_sha v),
           pv_config_sha256 := norm_hash (pv_config_sha256 v),
           pv_model_artifact_sha256 := norm_hash (pv_model_artifact_sha256 v),
           pv_journal_sha256 := norm_hash (pv_journal_sha256 v),
           pv_promotion_evidence_sha256 := norm_hash (pv_promotion_evidence_sha256 v),
           pv_schema_version := norm_text False (pv_schema_version v),
           pv_reason_codes := reason_set (map (norm_text True) (pv_reason_codes v))\<rparr>))"

section \<open>validate_permit\<close>

text \<open>The keyword arguments of \<open>validate_permit\<close>.\<close>

record PermitExpectation =
  px_now :: datetime
  px_mode :: string
  px_account_alias :: string
  px_server :: string
  px_symbols :: "string list"
  px_commit_sha :: string
  px_config_sha256 :: string
  px_model_artifact_sha256 :: string
  px_journal_sha256 :: "string option"
  px_promotion_evidence_sha256 :: "string option"

definition expectation_checks :: "PermitExpectation \<Rightarrow> exn option list" where
  "expectation_checks x =
     [err_of (require_utc ''now'' (px_now x)),
      err_of (require_text ''expected_mode'' (px_mode x) True),
      err_of (account_alias_sha256 (px_account_alias x)),
      err_of (require_text ''expected_server'' (px_server x) False)]
     @ permit_symbols_checks (px_symbols x)
     @ [err_of (require_hash ''expected_commit_sha'' (px_commit_sha x) 7),
        err_of (require_hash ''expected_config_sha256'' (px_config_sha256 x) 64),
        err_of (require_hash ''expected_model_artifact_sha256'' (px_model_artifact_sha256 x) 64),
        (case px_promotion_evidence_sha256 x of None \<Rightarrow> None
         | Some h \<Rightarrow> err_of (require_hash ''expected_promotion_evidence_sha256'' h 64)),
        (case px_journal_sha256 x of None \<Rightarrow> None
         | Some h \<Rightarrow> err_of (require_hash ''expected_journal_sha256'' h 64))]"

definition expected_sha :: "string option \<Rightarrow> string" where
  "expected_sha h = (case h of None \<Rightarrow> NO_SHA256 | Some v \<Rightarrow> norm_hash v)"

definition permit_time_gates :: "PromotionPermit \<Rightarrow> datetime \<Rightarrow> (bool \<times> string) list" where
  "permit_time_gates p now =
     (let lifetime = dt_sub (pp_expires_at p) (pp_issued_at p) in
      [(dt_lt now (pp_issued_at p), ''PERMIT_NOT_YET_VALID''),
       (dt_le (pp_expires_at p) now, ''PERMIT_EXPIRED''),
       (PROMOTION_PERMIT_MAX_TTL < lifetime, ''PERMIT_TTL_EXCEEDED''),
       (\<not> PROMOTION_PERMIT_MAX_TTL < lifetime \<and> lifetime \<le> 0, ''PERMIT_TIME_WINDOW_INVALID'')])"

definition permit_time_valid :: "PromotionPermit \<Rightarrow> datetime \<Rightarrow> bool" where
  "permit_time_valid p now =
     (let lifetime = dt_sub (pp_expires_at p) (pp_issued_at p) in
      0 < lifetime \<and> lifetime \<le> PROMOTION_PERMIT_MAX_TTL
      \<and> dt_le (pp_issued_at p) now \<and> dt_lt now (pp_expires_at p))"

definition permit_binding_gates :: "PromotionPermit \<Rightarrow> PermitExpectation \<Rightarrow> (bool \<times> string) list" where
  "permit_binding_gates p x =
     (let mode = norm_text True (px_mode x); journal_sha = expected_sha (px_journal_sha256 x);
          evidence_sha = expected_sha (px_promotion_evidence_sha256 x) in
      [(pp_mode p \<noteq> mode, ''MODE_BINDING_MISMATCH''),
       (pp_account_alias_sha256 p \<noteq> sha256_hex (norm_text False (px_account_alias x)),
        ''ACCOUNT_BINDING_MISMATCH''),
       (pp_server p \<noteq> norm_text False (px_server x), ''SERVER_BINDING_MISMATCH''),
       (pp_symbols p \<noteq> permit_symbols (px_symbols x), ''SYMBOL_BINDING_MISMATCH''),
       (pp_commit_sha p \<noteq> norm_hash (px_commit_sha x), ''COMMIT_BINDING_MISMATCH''),
       (pp_config_sha256 p \<noteq> norm_hash (px_config_sha256 x), ''CONFIG_BINDING_MISMATCH''),
       (pp_model_artifact_sha256 p \<noteq> norm_hash (px_model_artifact_sha256 x),
        ''MODEL_ARTIFACT_BINDING_MISMATCH''),
       (\<not> (px_journal_sha256 x = None
           \<or> journal_sha \<noteq> NO_SHA256 \<and> pp_journal_sha256 p = journal_sha),
        ''JOURNAL_BINDING_MISMATCH''),
       (\<not> (mode \<notin> {''DEMO_AUTO'', ''LIVE''} \<and> px_promotion_evidence_sha256 x = None
           \<or> evidence_sha \<noteq> NO_SHA256 \<and> pp_promotion_evidence_sha256 p = evidence_sha),
        ''PROMOTION_EVIDENCE_BINDING_MISMATCH''),
       (pp_schema_version p \<noteq> PERMIT_SCHEMA_VERSION, ''SCHEMA_VERSION_MISMATCH'')])"

definition permit_reasons :: "PromotionPermit \<Rightarrow> PermitExpectation \<Rightarrow> bool \<Rightarrow> string list" where
  "permit_reasons p x signature_valid =
     (if signature_valid then [] else [''INVALID_SIGNATURE''])
       @ fired (permit_time_gates p (px_now x)) @ fired (permit_binding_gates p x)"

definition permit_validation_of :: "PromotionPermit \<Rightarrow> PermitExpectation \<Rightarrow> bool \<Rightarrow> PermitValidation" where
  "permit_validation_of p x signature_valid =
     (let time_valid = permit_time_valid p (px_now x);
          binding_valid = list_all (\<lambda>(c, code). \<not> c) (permit_binding_gates p x)
      in \<lparr>pv_valid = (signature_valid \<and> time_valid \<and> binding_valid),
           pv_reason_codes = reason_set (permit_reasons p x signature_valid),
           pv_checked_at = px_now x,
           pv_permit_id = permit_id p,
           pv_signature_valid = signature_valid,
           pv_binding_valid = binding_valid,
           pv_time_valid = time_valid,
           pv_mode = pp_mode p,
           pv_account_alias_sha256 = pp_account_alias_sha256 p,
           pv_server = pp_server p,
           pv_symbols = pp_symbols p,
           pv_commit_sha = pp_commit_sha p,
           pv_config_sha256 = pp_config_sha256 p,
           pv_model_artifact_sha256 = pp_model_artifact_sha256 p,
           pv_journal_sha256 = pp_journal_sha256 p,
           pv_promotion_evidence_sha256 = pp_promotion_evidence_sha256 p,
           pv_schema_version = pp_schema_version p,
           pv_issued_at = pp_issued_at p,
           pv_expires_at = pp_expires_at p,
           pv_execution_authorized = False,
           pv_can_unlock = False,
           pv_live_allowed = False,
           pv_safe_to_demo_auto_order = False\<rparr>)"

definition validate_permit :: "PromotionPermit \<Rightarrow> string \<Rightarrow> PermitExpectation \<Rightarrow> PermitValidation res" where
  "validate_permit p secret x =
     res_bind (checked (expectation_checks x) ()) (\<lambda>_.
     res_bind (permit_verify_signature p secret) (\<lambda>signature_valid.
       PermitValidation_init True (permit_validation_of p x signature_valid)))"

section \<open>KillSwitchResetPermit\<close>

record KillSwitchResetPermit =
  kp_journal_sha256 :: string
  kp_latched_at_utc :: datetime
  kp_reset_reason_sha256 :: string
  kp_approver_ids :: "string list"
  kp_approver_key_ids :: "(string \<times> string) list"
  kp_issued_at :: datetime
  kp_expires_at :: datetime
  kp_nonce :: string
  kp_signatures :: "(string \<times> string \<times> string) list"
  kp_schema_version :: string

definition norm_approvers :: "string list \<Rightarrow> string list" where
  "norm_approvers ids = sort (map (norm_text False) ids)"

definition norm_key_ids :: "(string \<times> string) list \<Rightarrow> (string \<times> string) list" where
  "norm_key_ids ks = sort (map (\<lambda>(a, k). (norm_text False a, norm_text False k)) ks)"

definition norm_signatures ::
  "(string \<times> string \<times> string) list \<Rightarrow> (string \<times> string \<times> string) list" where
  "norm_signatures sigs =
     sort (map (\<lambda>(a, k, s). (norm_text False a, norm_text False k, norm_hash s)) sigs)"

definition reset_approver_checks :: "string list \<Rightarrow> (string \<times> string) list \<Rightarrow> exn option list" where
  "reset_approver_checks ids ks =
     map (\<lambda>a. err_of (require_text ''approver_id'' a False)) ids
     @ [raise_if (length ids \<noteq> 2 \<or> \<not> distinct (norm_approvers ids))
          (ValueError ''exactly two distinct reset approvers are required'')]
     @ concat (map (\<lambda>(a, k). [err_of (require_text ''key approver_id'' a False),
                              err_of (require_text ''approver key_id'' k False)]) ks)
     @ [raise_if (length ks \<noteq> 2 \<or> map fst (norm_key_ids ks) \<noteq> norm_approvers ids
                  \<or> \<not> distinct (map snd (norm_key_ids ks)))
          (ValueError ''reset approval requires one distinct key_id per approver'')]"

definition reset_signature_checks ::
  "string list \<Rightarrow> (string \<times> string) list \<Rightarrow> (string \<times> string \<times> string) list \<Rightarrow> exn option list" where
  "reset_signature_checks approvers key_ids sigs =
     (let ns = norm_signatures sigs in
      concat (map (\<lambda>(a, k, s). [err_of (require_text ''signature approver_id'' a False),
                                err_of (require_text ''signature key_id'' k False),
                                err_of (require_hash ''reset signature'' s 64)]) sigs)
      @ [raise_if (\<not> distinct (map fst ns)) (ValueError ''an approver may sign a reset permit only once''),
         raise_if (list_ex (\<lambda>(a, k, s). a \<notin> set approvers) ns)
           (ValueError ''reset signature comes from an unlisted approver''),
         raise_if (list_ex (\<lambda>(a, k, s). map_of key_ids a \<noteq> Some k) ns)
           (ValueError ''reset signature key_id does not match the signed permit''),
         raise_if (\<not> distinct (map (snd \<circ> snd) ns))
           (ValueError ''reset approvers must use independent HMAC secrets'')])"

definition KillSwitchResetPermit_init :: "KillSwitchResetPermit \<Rightarrow> KillSwitchResetPermit res" where
  "KillSwitchResetPermit_init p =
     (let approvers = norm_approvers (kp_approver_ids p); key_ids = norm_key_ids (kp_approver_key_ids p) in
      checked
        ([err_of (require_hash ''journal_sha256'' (kp_journal_sha256 p) 64),
          err_of (require_utc ''latched_at_utc'' (kp_latched_at_utc p)),
          err_of (require_hash ''reset_reason_sha256'' (kp_reset_reason_sha256 p) 64)]
         @ reset_approver_checks (kp_approver_ids p) (kp_approver_key_ids p)
         @ [err_of (require_utc ''issued_at'' (kp_issued_at p)),
            err_of (require_utc ''expires_at'' (kp_expires_at p)),
            raise_if (dt_le (kp_expires_at p) (kp_issued_at p))
              (ValueError ''expires_at must be after issued_at''),
            err_of (require_text ''nonce'' (kp_nonce p) False)]
         @ reset_signature_checks approvers key_ids (kp_signatures p)
         @ [err_of (require_text ''schema_version'' (kp_schema_version p) False)])
        (p\<lparr>kp_journal_sha256 := norm_hash (kp_journal_sha256 p),
           kp_reset_reason_sha256 := norm_hash (kp_reset_reason_sha256 p),
           kp_approver_ids := approvers,
           kp_approver_key_ids := key_ids,
           kp_nonce := norm_text False (kp_nonce p),
           kp_signatures := norm_signatures (kp_signatures p),
           kp_schema_version := norm_text False (kp_schema_version p)\<rparr>))"

definition reset_signing_dict :: "KillSwitchResetPermit \<Rightarrow> json" where
  "reset_signing_dict p = json_pop ''signatures'' (JDict
     [(''journal_sha256'', JStr (kp_journal_sha256 p)),
      (''latched_at_utc'', jtime (kp_latched_at_utc p)),
      (''reset_reason_sha256'', JStr (kp_reset_reason_sha256 p)),
      (''approver_ids'', jstrs (kp_approver_ids p)),
      (''approver_key_ids'', JList (map (\<lambda>(a, k). jstrs [a, k]) (kp_approver_key_ids p))),
      (''issued_at'', jtime (kp_issued_at p)),
      (''expires_at'', jtime (kp_expires_at p)),
      (''nonce'', JStr (kp_nonce p)),
      (''signatures'', JList (map (\<lambda>(a, k, s). jstrs [a, k, s]) (kp_signatures p))),
      (''schema_version'', JStr (kp_schema_version p))])"

definition reset_signing_payload :: "KillSwitchResetPermit \<Rightarrow> string" where
  "reset_signing_payload p = canonical_json (reset_signing_dict p)"

definition reset_permit_id :: "KillSwitchResetPermit \<Rightarrow> string" where
  "reset_permit_id p = ''kill_reset_'' @ take 32 (sha256_hex (reset_signing_payload p))"

definition reset_sign ::
  "KillSwitchResetPermit \<Rightarrow> string \<Rightarrow> string \<Rightarrow> string \<Rightarrow> KillSwitchResetPermit res" where
  "reset_sign p approver_id key_id secret =
     res_bind (require_text ''approver_id'' approver_id False) (\<lambda>approver.
     if approver \<notin> set (kp_approver_ids p)
     then Inl (ValueError ''approver is not listed on this reset permit'')
     else res_bind (require_text ''key_id'' key_id False) (\<lambda>key.
       case map_of (kp_approver_key_ids p) approver of
         None \<Rightarrow> Inl (KeyError approver)
       | Some bound \<Rightarrow>
           if bound \<noteq> key then Inl (ValueError ''key_id does not match the approver permit binding'')
           else if approver \<in> set (map fst (kp_signatures p))
           then Inl (ValueError ''approver already signed this reset permit'')
           else res_bind (secret_bytes secret) (\<lambda>k.
             KillSwitchResetPermit_init (p\<lparr>kp_signatures := kp_signatures p
               @ [(approver, key, hmac_sha256_hex k (reset_signing_payload p))]\<rparr>))))"

section \<open>KillSwitchResetAuthorization\<close>

record KillSwitchResetAuthorization =
  ka_authorization_id :: string
  ka_journal_sha256 :: string
  ka_latched_at_utc :: datetime
  ka_reset_reason_sha256 :: string
  ka_approver_ids :: "string list"
  ka_approver_key_ids :: "(string \<times> string) list"
  ka_checked_at_utc :: datetime
  ka_valid_until_utc :: datetime

definition KillSwitchResetAuthorization_init ::
  "bool \<Rightarrow> KillSwitchResetAuthorization \<Rightarrow> KillSwitchResetAuthorization res" where
  "KillSwitchResetAuthorization_init sealed a =
     (let key_bindings = sort (ka_approver_key_ids a) in
      checked
        [raise_if (\<not> sealed) (TypeError
           ''KillSwitchResetAuthorization can only be created by authorize_kill_switch_reset''),
         err_of (require_text ''authorization_id'' (ka_authorization_id a) False),
         err_of (require_hash ''journal_sha256'' (ka_journal_sha256 a) 64),
         err_of (require_utc ''latched_at_utc'' (ka_latched_at_utc a)),
         err_of (require_hash ''reset_reason_sha256'' (ka_reset_reason_sha256 a) 64),
         raise_if (length (ka_approver_ids a) \<noteq> 2 \<or> \<not> distinct (ka_approver_ids a))
           (ValueError ''reset authorization requires two distinct approvers''),
         raise_if (length key_bindings \<noteq> 2 \<or> map fst key_bindings \<noteq> sort (ka_approver_ids a)
                   \<or> \<not> distinct (map snd key_bindings))
           (ValueError ''reset authorization requires two independent approver keys''),
         err_of (require_utc ''checked_at_utc'' (ka_checked_at_utc a)),
         err_of (require_utc ''valid_until_utc'' (ka_valid_until_utc a)),
         raise_if (dt_le (ka_valid_until_utc a) (ka_checked_at_utc a))
           (ValueError ''reset authorization validity window is empty'')]
        (a\<lparr>ka_authorization_id := norm_text False (ka_authorization_id a),
           ka_journal_sha256 := norm_hash (ka_journal_sha256 a),
           ka_reset_reason_sha256 := norm_hash (ka_reset_reason_sha256 a),
           ka_approver_key_ids := key_bindings\<rparr>))"

section \<open>authorize_kill_switch_reset\<close>

type_synonym credentials = "(string \<times> string \<times> string) list"

text \<open>
  One round of the loop over the permit's approvers: the running verdict, the key identifiers
  presented so far and the fingerprints of the secrets.
\<close>

definition reset_round ::
  "KillSwitchResetPermit \<Rightarrow> credentials \<Rightarrow> string \<Rightarrow> bool \<times> string list \<times> string list
   \<Rightarrow> bool \<times> string list \<times> string list" where
  "reset_round p keys approver st =
     (case st of (ok, key_ids, prints) \<Rightarrow>
      case (map_of keys approver, map_of (kp_signatures p) approver) of
        (Some (key_id, secret), Some (signed_key_id, signature)) \<Rightarrow>
          (case (require_text ''approver key_id'' key_id False, secret_bytes secret) of
             (Inr key, Inr bytes) \<Rightarrow>
               (ok \<and> map_of (kp_approver_key_ids p) approver = Some key \<and> signed_key_id = key
                   \<and> signature = hmac_sha256_hex bytes (reset_signing_payload p),
                key_ids @ [key], prints @ [sha256_hex bytes])
           | _ \<Rightarrow> (False, key_ids, prints))
      | _ \<Rightarrow> (False, key_ids, prints))"

definition reset_signatures_valid :: "KillSwitchResetPermit \<Rightarrow> credentials \<Rightarrow> bool" where
  "reset_signatures_valid p keys =
     (case fold (reset_round p keys) (kp_approver_ids p)
             (set (map fst keys) = set (kp_approver_ids p), [], []) of
        (ok, key_ids, prints) \<Rightarrow> ok \<and> card (set key_ids) = 2 \<and> card (set prints) = 2)"

definition authorize_kill_switch_reset ::
  "KillSwitchResetPermit \<Rightarrow> credentials \<Rightarrow> datetime option \<Rightarrow> string \<Rightarrow> datetime \<Rightarrow> string \<Rightarrow> datetime
   \<Rightarrow> KillSwitchResetAuthorization res" where
  "authorize_kill_switch_reset p keys now expected_journal expected_latched_at expected_reason clock =
     res_bind (trusted_reset_now clock now) (\<lambda>trusted.
     res_bind (require_hash ''expected_journal_sha256'' expected_journal 64) (\<lambda>journal.
     res_bind (require_utc ''expected_latched_at_utc'' expected_latched_at) (\<lambda>_.
     res_bind (reset_reason_sha256 expected_reason) (\<lambda>reason_hash.
     if \<not> (reset_signatures_valid p keys
            \<and> kp_schema_version p = RESET_PERMIT_SCHEMA_VERSION
            \<and> kp_journal_sha256 p = journal
            \<and> dt_eq (kp_latched_at_utc p) expected_latched_at
            \<and> kp_reset_reason_sha256 p = reason_hash
            \<and> dt_le (kp_issued_at p) trusted \<and> dt_lt trusted (kp_expires_at p))
     then Inl (PermissionError ''kill-switch reset permit is invalid, stale, or mismatched'')
     else KillSwitchResetAuthorization_init True
       \<lparr>ka_authorization_id = reset_permit_id p,
        ka_journal_sha256 = kp_journal_sha256 p,
        ka_latched_at_utc = kp_latched_at_utc p,
        ka_reset_reason_sha256 = kp_reset_reason_sha256 p,
        ka_approver_ids = kp_approver_ids p,
        ka_approver_key_ids = kp_approver_key_ids p,
        ka_checked_at_utc = trusted,
        ka_valid_until_utc = kp_expires_at p\<rparr>))))"

section \<open>Facts\<close>

lemma norm_hash_hmac [simp]: "norm_hash (hmac_sha256_hex k m) = hmac_sha256_hex k m"
  by (rule norm_hash_hex) simp

lemma norm_hash_sha256 [simp]: "norm_hash (sha256_hex m) = sha256_hex m"
  by (rule norm_hash_hex) simp

lemma hmac_nonempty [simp]: "hmac_sha256_hex k m \<noteq> []"
  using length_hmac_sha256_hex [of k m] by (metis list.size(3) zero_neq_numeral)

lemma permit_symbols_idem [simp]: "permit_symbols (permit_symbols xs) = permit_symbols xs"
proof -
  have "map (norm_text True) (permit_symbols xs) = permit_symbols xs"
    by (rule map_idI) (auto simp: permit_symbols_def)
  then show ?thesis by (simp add: permit_symbols_def sorted_sort_id)
qed

lemma json_pop_signature:
  "permit_signing_payload (p\<lparr>pp_signature := s\<rparr>) = permit_signing_payload p"
  by (simp add: permit_signing_payload_def permit_signing_dict_def json_pop_def)

text \<open>The fields \<open>PromotionPermit_init\<close> normalises are in normal form in a built permit.\<close>

lemma PromotionPermit_init_fields:
  assumes "PromotionPermit_init p = Inr p'"
  shows "pp_mode p' = norm_text True (pp_mode p)"
    "pp_account_alias_sha256 p' = norm_hash (pp_account_alias_sha256 p)"
    "pp_server p' = norm_text False (pp_server p)"
    "pp_symbols p' = permit_symbols (pp_symbols p)"
    "pp_commit_sha p' = norm_hash (pp_commit_sha p)"
    "pp_config_sha256 p' = norm_hash (pp_config_sha256 p)"
    "pp_model_artifact_sha256 p' = norm_hash (pp_model_artifact_sha256 p)"
    "pp_nonce p' = norm_text False (pp_nonce p)"
    "pp_journal_sha256 p' = norm_hash (pp_journal_sha256 p)"
    "pp_promotion_evidence_sha256 p' = norm_hash (pp_promotion_evidence_sha256 p)"
    "pp_signature p' = norm_hash (pp_signature p)"
    "pp_schema_version p' = norm_text False (pp_schema_version p)"
  using assms by (auto simp: PromotionPermit_init_def Let_def checked_Inr_iff)

lemma PromotionPermit_init_facts:
  assumes "PromotionPermit_init p = Inr p'"
  shows "0 < dt_sub (pp_expires_at p') (pp_issued_at p')"
    "dt_sub (pp_expires_at p') (pp_issued_at p') \<le> minutes 5"
    "pp_issued_at p' = pp_issued_at p" "pp_expires_at p' = pp_expires_at p"
    "\<not> pp_live_allowed p'" "\<not> pp_safe_to_demo_auto_order p'"
    "pp_live_allowed p' = pp_live_allowed p"
    "pp_safe_to_demo_auto_order p' = pp_safe_to_demo_auto_order p"
  using assms by (auto simp: PromotionPermit_init_def Let_def checked_Inr_iff promotion_window_checks_def
      PROMOTION_PERMIT_MAX_TTL_def)

definition permit_built :: "PromotionPermit \<Rightarrow> bool" where
  "permit_built p = (PromotionPermit_init p = Inr p)"

lemma permit_sign_cases:
  assumes "permit_sign p secret = Inr p'"
  shows "secret_bytes secret = Inr secret"
    and "PromotionPermit_init (p\<lparr>pp_signature := hmac_sha256_hex secret (permit_signing_payload p)\<rparr>) = Inr p'"
  using assms by (auto simp: permit_sign_def res_bind_Inr_iff secret_bytes_def split: if_splits)

lemma permit_init_payload:
  assumes "PromotionPermit_init p = Inr p" and "PromotionPermit_init (p\<lparr>pp_signature := hmac_sha256_hex k m\<rparr>) = Inr p'"
  shows "permit_signing_payload p' = permit_signing_payload p" and "pp_signature p' = hmac_sha256_hex k m"
proof -
  note fields = PromotionPermit_init_fields [OF assms(2)] PromotionPermit_init_facts(3,4,7,8) [OF assms(2)]
  show "pp_signature p' = hmac_sha256_hex k m"
    using fields(11) by simp
  show "permit_signing_payload p' = permit_signing_payload p"
    using fields PromotionPermit_init_fields [OF assms(1)]
    by (simp add: permit_signing_payload_def permit_signing_dict_def json_pop_def)
qed

section \<open>Verdicts\<close>

lemma permit_time_gates_clear:
  "list_all (\<lambda>(c, code). \<not> c) (permit_time_gates p now) \<longleftrightarrow> permit_time_valid p now"
  by (auto simp: permit_time_gates_def permit_time_valid_def Let_def dt_lt_def dt_le_def dt_sub_def
      PROMOTION_PERMIT_MAX_TTL_def minutes_def)

lemma validate_permit_verdict:
  assumes "validate_permit p secret x = Inr v"
  shows "pv_valid v \<longleftrightarrow> permit_verify_signature p secret = Inr True \<and> permit_time_valid p (px_now x)
      \<and> list_all (\<lambda>(c, code). \<not> c) (permit_binding_gates p x)"
    and "pv_valid v \<longleftrightarrow> pv_reason_codes v = []"
    and "\<not> pv_execution_authorized v" "\<not> pv_can_unlock v" "\<not> pv_live_allowed v"
    and "\<not> pv_safe_to_demo_auto_order v"
proof -
  obtain ok where ok: "permit_verify_signature p secret = Inr ok"
    and init: "PermitValidation_init True (permit_validation_of p x ok) = Inr v"
    using assms by (auto simp: validate_permit_def res_bind_Inr_iff)
  from init have checks: "list_all (\<lambda>c. c = None) (permit_verdict_checks (permit_validation_of p x ok))"
    by (simp add: PermitValidation_init_def checked_Inr_iff Let_def)
  from init ok show "pv_valid v \<longleftrightarrow> permit_verify_signature p secret = Inr True
      \<and> permit_time_valid p (px_now x) \<and> list_all (\<lambda>(c, code). \<not> c) (permit_binding_gates p x)"
    and "\<not> pv_execution_authorized v" "\<not> pv_can_unlock v" "\<not> pv_live_allowed v"
    "\<not> pv_safe_to_demo_auto_order v"
    by (simp_all add: PermitValidation_init_def checked_Inr_iff Let_def permit_validation_of_def)
  from init checks show "pv_valid v \<longleftrightarrow> pv_reason_codes v = []"
    by (auto simp: PermitValidation_init_def checked_Inr_iff Let_def permit_validation_of_def
        permit_verdict_checks_def)
qed

lemma permit_id_text [simp]: "str_strip (permit_id p) \<noteq> []"
  by (simp add: permit_id_def str_strip_Nil_iff is_space_def)

lemma permit_codes_text:
  "r \<in> set (fired (permit_time_gates p now)) \<union> set (fired (permit_binding_gates p x)) \<Longrightarrow> str_strip r \<noteq> []"
proof -
  assume "r \<in> set (fired (permit_time_gates p now)) \<union> set (fired (permit_binding_gates p x))"
  then have "r \<in> set (map snd (permit_time_gates p now)) \<union> set (map snd (permit_binding_gates p x))"
    using fired_codes by blast
  moreover have "list_all (\<lambda>r. str_strip r \<noteq> []) (map snd (permit_time_gates p now))"
    "list_all (\<lambda>r. str_strip r \<noteq> []) (map snd (permit_binding_gates p x))"
    by (simp_all add: permit_time_gates_def permit_binding_gates_def Let_def str_strip_Nil_iff is_space_def)
  ultimately show ?thesis by (auto simp: list.pred_set)
qed

lemma permit_verdict_checks_ok:
  "list_all (\<lambda>c. c = None) (permit_verdict_checks (permit_validation_of p x ok))"
proof -
  have "str_strip ''INVALID_SIGNATURE'' \<noteq> []" by (simp add: str_strip_Nil_iff is_space_def)
  then have "\<forall>r \<in> set (permit_reasons p x ok). str_strip r \<noteq> []"
    using permit_codes_text [of _ p "px_now x" x] by (auto simp: permit_reasons_def)
  moreover have "permit_reasons p x ok = [] \<longleftrightarrow> ok \<and> permit_time_valid p (px_now x)
      \<and> list_all (\<lambda>(c, code). \<not> c) (permit_binding_gates p x)"
    by (simp add: permit_reasons_def permit_time_gates_clear)
  ultimately show ?thesis
    by (auto simp: permit_verdict_checks_def permit_validation_of_def Let_def list.pred_set require_text_ok)
qed

lemma validate_permit_total:
  assumes "permit_built p" and "list_all (\<lambda>c. c = None) (expectation_checks x)" and "32 \<le> length secret"
  shows "\<exists>v. validate_permit p secret x = Inr v"
proof -
  have same: "PromotionPermit_init p = Inr p" using assms(1) by (simp add: permit_built_def)
  have "\<exists>ok. permit_verify_signature p secret = Inr ok"
    using assms(3) by (auto simp: permit_verify_signature_def secret_bytes_def)
  then obtain ok where ok: "permit_verify_signature p secret = Inr ok" by blast
  have "permit_time_valid p (px_now x) \<Longrightarrow>
      dt_le (pp_issued_at p) (px_now x) \<and> dt_lt (px_now x) (pp_expires_at p)"
    by (simp add: permit_time_valid_def Let_def)
  moreover have "is_utc (px_now x)" "is_utc (pp_issued_at p)" "is_utc (pp_expires_at p)"
    using assms(2) same by (simp_all add: expectation_checks_def PromotionPermit_init_def checked_Inr_iff Let_def
        promotion_window_checks_def res_simps)
  moreover have "list_all (\<lambda>c. c = None) (permit_symbols_checks (pp_symbols p))"
    "str_strip (pp_mode p) \<noteq> []" "norm_text True (pp_mode p) \<in> set execution_modes"
    "str_strip (pp_server p) \<noteq> []" "str_strip (pp_schema_version p) \<noteq> []"
    "err_of (require_hash ''account_alias_sha256'' (pp_account_alias_sha256 p) 64) = None"
    "err_of (require_hash ''commit_sha'' (pp_commit_sha p) 7) = None"
    "err_of (require_hash ''config_sha256'' (pp_config_sha256 p) 64) = None"
    "err_of (require_hash ''model_artifact_sha256'' (pp_model_artifact_sha256 p) 64) = None"
    "err_of (require_hash ''journal_sha256'' (pp_journal_sha256 p) 64) = None"
    "err_of (require_hash ''promotion_evidence_sha256'' (pp_promotion_evidence_sha256 p) 64) = None"
    using same by (simp_all add: PromotionPermit_init_def checked_Inr_iff Let_def require_text_ok)
  ultimately have "list_all (\<lambda>c. c = None) (permit_field_checks (permit_validation_of p x ok))"
    by (auto simp: permit_field_checks_def permit_validation_of_def Let_def is_utc_require require_text_ok)
  then show ?thesis
    using assms(2) ok permit_verdict_checks_ok [of p x ok]
    by (simp add: validate_permit_def PermitValidation_init_def checked_def first_error_None_iff [THEN iffD2] Let_def)
qed

section \<open>Dual control\<close>

text \<open>An approver whose signature a round accepts.\<close>

definition signed_by :: "KillSwitchResetPermit \<Rightarrow> credentials \<Rightarrow> string \<Rightarrow> string \<Rightarrow> string \<Rightarrow> bool" where
  "signed_by p keys approver key secret =
     (\<exists>raw_key. map_of keys approver = Some (raw_key, secret) \<and> key = norm_text False raw_key
        \<and> str_strip raw_key \<noteq> []
        \<and> 32 \<le> length secret \<and> map_of (kp_approver_key_ids p) approver = Some key
        \<and> map_of (kp_signatures p) approver
            = Some (key, hmac_sha256_hex secret (reset_signing_payload p)))"

lemma reset_round_ok:
  assumes "reset_round p keys approver (ok, ks, prints) = (True, ks', prints')"
  shows "ok \<and> (\<exists>key secret. signed_by p keys approver key secret
    \<and> ks' = ks @ [key] \<and> prints' = prints @ [sha256_hex secret])"
  using assms
  by (auto simp: reset_round_def signed_by_def require_text_def secret_bytes_def
      split: option.splits if_splits prod.splits)

lemma reset_round_signed:
  "signed_by p keys approver key secret \<Longrightarrow>
   reset_round p keys approver (ok, ks, prints) = (ok, ks @ [key], prints @ [sha256_hex secret])"
  by (auto simp: reset_round_def signed_by_def require_text_def secret_bytes_def)

lemma reset_round_cases:
  obtains ok' ks' prints' where "reset_round p keys approver st = (ok', ks', prints')"
  by (cases "reset_round p keys approver st") auto

lemma reset_signatures_dual:
  assumes "kp_approver_ids p = [a, b]"
  shows "reset_signatures_valid p keys \<longleftrightarrow>
    (\<exists>ka sa kb sb. signed_by p keys a ka sa \<and> signed_by p keys b kb sb \<and> ka \<noteq> kb
       \<and> sha256_hex sa \<noteq> sha256_hex sb) \<and> set (map fst keys) = {a, b}"
proof
  assume valid: "reset_signatures_valid p keys"
  obtain ok1 k1 f1 where one: "reset_round p keys a (set (map fst keys) = {a, b}, [], []) = (ok1, k1, f1)"
    by (rule reset_round_cases)
  obtain ok2 k2 f2 where two: "reset_round p keys b (ok1, k1, f1) = (ok2, k2, f2)"
    by (rule reset_round_cases)
  have res: "ok2" "card (set k2) = 2" "card (set f2) = 2"
    using assms valid one two by (simp_all add: reset_signatures_valid_def)
  have "reset_round p keys b (ok1, k1, f1) = (True, k2, f2)" using two res(1) by simp
  from reset_round_ok [OF this] obtain kb sb where b: "ok1" "signed_by p keys b kb sb"
    "k2 = k1 @ [kb]" "f2 = f1 @ [sha256_hex sb]" by blast
  have "reset_round p keys a (set (map fst keys) = {a, b}, [], []) = (True, k1, f1)" using one b(1) by simp
  from reset_round_ok [OF this] obtain ka sa where a: "set (map fst keys) = {a, b}" "signed_by p keys a ka sa"
    "k1 = [] @ [ka]" "f1 = [] @ [sha256_hex sa]" by blast
  have "ka \<noteq> kb" "sha256_hex sa \<noteq> sha256_hex sb" using res b a by auto
  with a b show "(\<exists>ka sa kb sb. signed_by p keys a ka sa \<and> signed_by p keys b kb sb \<and> ka \<noteq> kb
       \<and> sha256_hex sa \<noteq> sha256_hex sb) \<and> set (map fst keys) = {a, b}" by blast
next
  assume "(\<exists>ka sa kb sb. signed_by p keys a ka sa \<and> signed_by p keys b kb sb \<and> ka \<noteq> kb
       \<and> sha256_hex sa \<noteq> sha256_hex sb) \<and> set (map fst keys) = {a, b}"
  then show "reset_signatures_valid p keys"
    using assms by (auto simp: reset_signatures_valid_def reset_round_signed)
qed

lemma two_distinct: "length xs = 2 \<Longrightarrow> distinct xs \<Longrightarrow> \<exists>a b. xs = [a, b] \<and> a \<noteq> b"
  by (auto simp: length_Suc_conv numeral_2_eq_2)

lemma trusted_reset_now_Inr: "trusted_reset_now clock now = Inr t \<Longrightarrow> t = clock"
  by (cases now) (auto simp: trusted_reset_now_def res_bind_Inr_iff require_utc_Inr split: if_splits)

lemma reset_reason_sha256_Inr: "reset_reason_sha256 r = Inr h \<longleftrightarrow> str_strip r \<noteq> [] \<and> h = sha256_hex (norm_text False r)"
  by (auto simp: reset_reason_sha256_def res_bind_Inr_iff require_text_Inr)

lemma reset_authorization_init:
  assumes "KillSwitchResetAuthorization_init sealed b = Inr a"
  shows "ka_checked_at_utc a = ka_checked_at_utc b" "ka_valid_until_utc a = ka_valid_until_utc b"
    "ka_approver_ids a = ka_approver_ids b" "length (ka_approver_ids b) = 2" "distinct (ka_approver_ids b)"
    "ka_authorization_id a = norm_text False (ka_authorization_id b)"
    "ka_journal_sha256 a = norm_hash (ka_journal_sha256 b)" "ka_latched_at_utc a = ka_latched_at_utc b"
    "ka_reset_reason_sha256 a = norm_hash (ka_reset_reason_sha256 b)"
  using assms by (simp_all add: KillSwitchResetAuthorization_init_def Let_def checked_Inr_iff)

lemma authorize_reset_cases:
  assumes "authorize_kill_switch_reset p keys now j l r clock = Inr a"
  shows "reset_signatures_valid p keys \<and> kp_schema_version p = RESET_PERMIT_SCHEMA_VERSION
    \<and> kp_journal_sha256 p = norm_hash j \<and> dt_eq (kp_latched_at_utc p) l
    \<and> kp_reset_reason_sha256 p = sha256_hex (norm_text False r)
    \<and> dt_le (kp_issued_at p) clock \<and> dt_lt clock (kp_expires_at p)"
    and "KillSwitchResetAuthorization_init True
       \<lparr>ka_authorization_id = reset_permit_id p, ka_journal_sha256 = kp_journal_sha256 p,
        ka_latched_at_utc = kp_latched_at_utc p, ka_reset_reason_sha256 = kp_reset_reason_sha256 p,
        ka_approver_ids = kp_approver_ids p, ka_approver_key_ids = kp_approver_key_ids p,
        ka_checked_at_utc = clock, ka_valid_until_utc = kp_expires_at p\<rparr> = Inr a"
  using assms unfolding authorize_kill_switch_reset_def res_bind_Inr_iff
  by (auto simp: require_hash_Inr reset_reason_sha256_Inr dest!: trusted_reset_now_Inr split: if_splits)

lemma reset_permit_id_text [simp]: "str_strip (reset_permit_id p) \<noteq> []"
  by (simp add: reset_permit_id_def str_strip_Nil_iff is_space_def)

text \<open>The conditions under which the authorization record itself can be built from a permit.\<close>

definition reset_bindings_ok :: "KillSwitchResetPermit \<Rightarrow> bool" where
  "reset_bindings_ok p =
     (is_utc (kp_latched_at_utc p) \<and> is_utc (kp_expires_at p) \<and>
      length (kp_approver_key_ids p) = 2 \<and>
      map fst (sort (kp_approver_key_ids p)) = sort (kp_approver_ids p) \<and>
      distinct (map snd (sort (kp_approver_key_ids p))))"

lemma reset_authorization_exists:
  "(\<exists>a. KillSwitchResetAuthorization_init True
       \<lparr>ka_authorization_id = reset_permit_id p, ka_journal_sha256 = kp_journal_sha256 p,
        ka_latched_at_utc = kp_latched_at_utc p, ka_reset_reason_sha256 = kp_reset_reason_sha256 p,
        ka_approver_ids = kp_approver_ids p, ka_approver_key_ids = kp_approver_key_ids p,
        ka_checked_at_utc = clock, ka_valid_until_utc = kp_expires_at p\<rparr> = Inr a) \<longleftrightarrow>
   err_of (require_hash ''journal_sha256'' (kp_journal_sha256 p) 64) = None \<and>
   err_of (require_hash ''reset_reason_sha256'' (kp_reset_reason_sha256 p) 64) = None \<and>
   reset_bindings_ok p \<and> length (kp_approver_ids p) = 2 \<and> distinct (kp_approver_ids p) \<and>
   is_utc clock \<and> dt_lt clock (kp_expires_at p)"
  by (simp add: KillSwitchResetAuthorization_init_def Let_def checked_Inr_iff reset_bindings_ok_def
      require_text_ok is_utc_require dt_le_def dt_lt_def not_le) blast

lemma authorize_reset_iff:
  "(\<exists>a. authorize_kill_switch_reset p keys now j l r clock = Inr a) \<longleftrightarrow>
     trusted_reset_now clock now = Inr clock
     \<and> require_hash ''expected_journal_sha256'' j 64 = Inr (kp_journal_sha256 p)
     \<and> is_utc l \<and> dt_eq (kp_latched_at_utc p) l
     \<and> reset_reason_sha256 r = Inr (kp_reset_reason_sha256 p)
     \<and> kp_schema_version p = RESET_PERMIT_SCHEMA_VERSION
     \<and> dt_le (kp_issued_at p) clock \<and> dt_lt clock (kp_expires_at p)
     \<and> reset_bindings_ok p
     \<and> (\<exists>a b. kp_approver_ids p = [a, b] \<and> a \<noteq> b \<and> reset_signatures_valid p keys)"
  (is "_ \<longleftrightarrow> ?C")
proof -
  let ?A = "authorize_kill_switch_reset p keys now j l r clock"
  have utc: "trusted_reset_now clock now = Inr clock \<Longrightarrow> is_utc clock"
    by (auto simp: trusted_reset_now_def res_bind_Inr_iff require_utc_Inr)
  have journal: "require_hash ''expected_journal_sha256'' j 64 = Inr (kp_journal_sha256 p) \<Longrightarrow>
      err_of (require_hash ''journal_sha256'' (kp_journal_sha256 p) 64) = None"
    by (auto simp: require_hash_Inr require_hash_ok)
  have "list_all is_hex (sha256_hex m)" for m
    using sha256_hex_lower [of m] by (auto simp: list.pred_set hex_lower_is_hex)
  moreover have "str_strip (sha256_hex m) \<noteq> []" for m
    using norm_hash_sha256 [of m] length_sha256_hex [of m] by (metis list.size(3) norm_hash_Nil zero_neq_numeral)
  ultimately have reason: "reset_reason_sha256 r = Inr (kp_reset_reason_sha256 p) \<Longrightarrow>
      err_of (require_hash ''reset_reason_sha256'' (kp_reset_reason_sha256 p) 64) = None"
    by (auto simp: reset_reason_sha256_Inr require_hash_ok)
  show ?thesis
  proof
    assume "\<exists>a. ?A = Inr a"
    then obtain a where A: "?A = Inr a" by blast
    note c = authorize_reset_cases [OF A]
    have "trusted_reset_now clock now = Inr clock" "require_hash ''expected_journal_sha256'' j 64 = Inr (norm_hash j)"
      "is_utc l" "reset_reason_sha256 r = Inr (sha256_hex (norm_text False r))"
      using A by (auto simp: authorize_kill_switch_reset_def res_bind_Inr_iff require_hash_Inr require_utc_Inr
          reset_reason_sha256_Inr dest: trusted_reset_now_Inr)
    with c(1) iffD1 [OF reset_authorization_exists, OF exI, OF c(2)] two_distinct [of "kp_approver_ids p"]
    show ?C by simp
  next
    assume h: ?C
    then have "length (kp_approver_ids p) = 2" "distinct (kp_approver_ids p)" by auto
    with h utc journal reason iffD2 [OF reset_authorization_exists [of p clock]]
    have "\<exists>a. KillSwitchResetAuthorization_init True
       \<lparr>ka_authorization_id = reset_permit_id p, ka_journal_sha256 = kp_journal_sha256 p,
        ka_latched_at_utc = kp_latched_at_utc p, ka_reset_reason_sha256 = kp_reset_reason_sha256 p,
        ka_approver_ids = kp_approver_ids p, ka_approver_key_ids = kp_approver_key_ids p,
        ka_checked_at_utc = clock, ka_valid_until_utc = kp_expires_at p\<rparr> = Inr a" by blast
    moreover have "require_utc ''expected_latched_at_utc'' l = Inr l" "reset_signatures_valid p keys"
      using h by (auto simp: require_utc_Inr)
    ultimately show "\<exists>a. ?A = Inr a"
      using h by (simp add: authorize_kill_switch_reset_def)
  qed
qed

end
