(* ===== verification/Execution_Policy.thy ===== *)
theory Execution_Policy
  imports Contracts
begin

text \<open>
  \<open>execution_policy.py\<close>: the release locks, the symbol scope of every execution mode and the
  lot policy. \<open>pymode\<close> is the \<open>mode\<close> argument of the symbol check: absent, a string or a value
  of another type. A number given as a lot is a \<open>pynum\<close>; \<open>NOther\<close> is a value \<open>float()\<close> rejects.
\<close>

section \<open>Constants\<close>

definition EXECUTION_APPROVED_SYMBOLS :: "string list" where
  "EXECUTION_APPROVED_SYMBOLS = [''EURUSD'']"

definition MANUAL_DEMO_EXECUTION_APPROVED_SYMBOLS :: "string list" where
  "MANUAL_DEMO_EXECUTION_APPROVED_SYMBOLS = [''EURUSD'', ''XAUUSD'']"

definition DEMO_AUTO_EXECUTION_APPROVED_SYMBOLS :: "string list" where
  "DEMO_AUTO_EXECUTION_APPROVED_SYMBOLS = [''XAUUSD'']"

definition LIVE_CANARY_EXECUTION_APPROVED_SYMBOLS :: "string list" where
  "LIVE_CANARY_EXECUTION_APPROVED_SYMBOLS = [''XAUUSD'']"

definition EXECUTION_BLOCKED_SYMBOLS :: "string list" where
  "EXECUTION_BLOCKED_SYMBOLS = [''GBPUSD'']"

definition SHADOW_ONLY_SYMBOLS :: "string list" where
  "SHADOW_ONLY_SYMBOLS = [''BTCUSD'']"

definition EXECUTION_MIN_LOT :: pyfloat where
  "EXECUTION_MIN_LOT = fl_of_rat (1 / 100)"

definition EXECUTION_MAX_LOT :: pyfloat where
  "EXECUTION_MAX_LOT = fl_of_rat (1 / 100)"

definition LIVE_ALLOWED :: bool where
  "LIVE_ALLOWED = False"

definition SAFE_TO_DEMO_AUTO_ORDER :: bool where
  "SAFE_TO_DEMO_AUTO_ORDER = False"

definition EXECUTION_MODES :: "string list" where
  "EXECUTION_MODES = [''DRY_RUN'', ''PAPER'', ''DEMO'', ''DEMO_AUTO'', ''LIVE'']"

definition EXECUTION_APPROVED_SYMBOLS_BY_MODE :: "string \<rightharpoonup> string list" where
  "EXECUTION_APPROVED_SYMBOLS_BY_MODE = map_of
     [(''DRY_RUN'', EXECUTION_APPROVED_SYMBOLS),
      (''PAPER'', EXECUTION_APPROVED_SYMBOLS),
      (''DEMO'', MANUAL_DEMO_EXECUTION_APPROVED_SYMBOLS),
      (''DEMO_AUTO'', DEMO_AUTO_EXECUTION_APPROVED_SYMBOLS),
      (''LIVE'', LIVE_CANARY_EXECUTION_APPROVED_SYMBOLS)]"

section \<open>Mode policy\<close>

definition demo_auto_execution_policy_enabled :: bool where
  "demo_auto_execution_policy_enabled = (SAFE_TO_DEMO_AUTO_ORDER \<and> \<not> LIVE_ALLOWED)"

definition execution_mode_policy_decision :: "string \<Rightarrow> bool \<times> string list" where
  "execution_mode_policy_decision mode =
     (let normalized = str_upper (str_strip mode) in
      if normalized \<notin> set EXECUTION_MODES then (False, [''EXECUTION_MODE_UNSUPPORTED''])
      else if normalized = ''LIVE''
      then (LIVE_ALLOWED, if LIVE_ALLOWED then [] else [''LIVE_MODE_LOCKED''])
      else if normalized = ''DEMO_AUTO''
      then (demo_auto_execution_policy_enabled,
            if demo_auto_execution_policy_enabled then [] else [''DEMO_AUTO_ORDER_LOCKED''])
      else (True, []))"

section \<open>Symbol policy\<close>

datatype pymode = ModeNone | ModeStr string | ModeOther

definition normalize_symbol :: "string option \<Rightarrow> string" where
  "normalize_symbol v = (case v of None \<Rightarrow> [] | Some s \<Rightarrow> str_upper (str_strip s))"

fun execution_approved_symbols_for_mode :: "pymode \<Rightarrow> string list" where
  "execution_approved_symbols_for_mode ModeNone = EXECUTION_APPROVED_SYMBOLS"
| "execution_approved_symbols_for_mode ModeOther = []"
| "execution_approved_symbols_for_mode (ModeStr mode) =
     (case EXECUTION_APPROVED_SYMBOLS_BY_MODE (str_upper (str_strip mode)) of
        None \<Rightarrow> [] | Some symbols \<Rightarrow> symbols)"

fun mode_unsupported :: "pymode \<Rightarrow> bool" where
  "mode_unsupported ModeNone = False"
| "mode_unsupported ModeOther = True"
| "mode_unsupported (ModeStr mode) = (str_upper (str_strip mode) \<notin> set EXECUTION_MODES)"

fun mode_label :: "pymode \<Rightarrow> string" where
  "mode_label (ModeStr mode) = str_upper (str_strip mode)"
| "mode_label mode = ''legacy''"

definition validate_execution_symbol ::
  "string option \<Rightarrow> string option \<Rightarrow> bool \<Rightarrow> pymode \<Rightarrow> bool \<times> string" where
  "validate_execution_symbol symbol symbol_mt5 require_mt5_match mode =
     (let sym = normalize_symbol symbol; mt5 = normalize_symbol symbol_mt5 in
      if sym = [] then (False, ''Execution symbol is missing.'')
      else if mode_unsupported mode then (False, ''Execution mode is unsupported.'')
      else if require_mt5_match \<and> mt5 = []
      then (False, ''symbol_mt5 is required at the execution boundary.'')
      else if require_mt5_match \<and> sym \<noteq> mt5
      then (False, ''Symbol mismatch: symbol='' @ sym @ '', symbol_mt5='' @ mt5 @ ''.'')
      else if sym \<in> set EXECUTION_BLOCKED_SYMBOLS
      then (False, sym @ '' is blocked by execution policy.'')
      else if sym \<in> set SHADOW_ONLY_SYMBOLS then (False, sym @ '' is shadow-only.'')
      else if sym \<notin> set (execution_approved_symbols_for_mode mode)
      then (False, sym @ '' is not execution-approved for '' @ mode_label mode @ '' mode.'')
      else (True, sym @ '' passed execution symbol policy.''))"

definition is_execution_symbol_allowed :: "string option \<Rightarrow> pymode \<Rightarrow> bool" where
  "is_execution_symbol_allowed symbol mode = fst (validate_execution_symbol symbol None False mode)"

section \<open>Lot policy\<close>

fun to_finite_float :: "pynum \<Rightarrow> pyfloat option res" where
  "to_finite_float NOther = Inr None"
| "to_finite_float (NBool b) = Inr (Some (Fin (if b then 1 else 0)))"
| "to_finite_float (NInt i) =
     (if is_finite (fl_of_rat (of_int i)) then Inr (Some (fl_of_rat (of_int i)))
      else Inl (OverflowError ''int too large to convert to float''))"
| "to_finite_float (NFloat x) = Inr (if is_finite x then Some x else None)"

definition validate_execution_lot :: "pynum \<Rightarrow> (bool \<times> string) res" where
  "validate_execution_lot lot =
     res_bind (to_finite_float lot) (\<lambda>normalized.
       case normalized of None \<Rightarrow> Inr (False, ''Lot must be a finite number.'')
       | Some l \<Rightarrow>
           if fl_lt l EXECUTION_MIN_LOT \<or> fl_lt EXECUTION_MAX_LOT l
           then Inr (False, ''Lot '' @ float_repr l @ '' is outside the allowed range ''
                      @ float_repr EXECUTION_MIN_LOT @ ''-'' @ float_repr EXECUTION_MAX_LOT @ ''.'')
           else Inr (True, ''Lot passed execution policy.''))"

definition is_execution_lot_allowed :: "pynum \<Rightarrow> bool res" where
  "is_execution_lot_allowed lot = res_bind (validate_execution_lot lot) (\<lambda>r. Inr (fst r))"

section \<open>Facts\<close>

lemma mode_policy_allowed_iff:
  "fst (execution_mode_policy_decision mode) \<longleftrightarrow>
     str_upper (str_strip mode) \<in> {''DRY_RUN'', ''PAPER'', ''DEMO''}"
  by (auto simp: execution_mode_policy_decision_def Let_def EXECUTION_MODES_def LIVE_ALLOWED_def
      demo_auto_execution_policy_enabled_def SAFE_TO_DEMO_AUTO_ORDER_def)

lemma mode_policy_reasons:
  "fst (execution_mode_policy_decision mode) \<longleftrightarrow> snd (execution_mode_policy_decision mode) = []"
  by (auto simp: execution_mode_policy_decision_def Let_def)

lemma locked_mode_policy:
  "str_upper (str_strip mode) = ''LIVE'' \<Longrightarrow> execution_mode_policy_decision mode = (False, [''LIVE_MODE_LOCKED''])"
  "str_upper (str_strip mode) = ''DEMO_AUTO'' \<Longrightarrow>
     execution_mode_policy_decision mode = (False, [''DEMO_AUTO_ORDER_LOCKED''])"
  by (simp_all add: execution_mode_policy_decision_def EXECUTION_MODES_def LIVE_ALLOWED_def
      demo_auto_execution_policy_enabled_def SAFE_TO_DEMO_AUTO_ORDER_def Let_def)

lemma approved_symbols_scope:
  "set (execution_approved_symbols_for_mode mode) \<subseteq> {''EURUSD'', ''XAUUSD''}"
  by (cases mode) (auto simp: EXECUTION_APPROVED_SYMBOLS_BY_MODE_def EXECUTION_APPROVED_SYMBOLS_def
      MANUAL_DEMO_EXECUTION_APPROVED_SYMBOLS_def DEMO_AUTO_EXECUTION_APPROVED_SYMBOLS_def
      LIVE_CANARY_EXECUTION_APPROVED_SYMBOLS_def split: if_splits)

lemma validate_symbol_allowed_iff:
  "fst (validate_execution_symbol symbol symbol_mt5 must_match mode) \<longleftrightarrow>
     \<not> mode_unsupported mode \<and> normalize_symbol symbol \<in> set (execution_approved_symbols_for_mode mode)
     \<and> (must_match \<longrightarrow> normalize_symbol symbol_mt5 = normalize_symbol symbol)"
proof -
  have "normalize_symbol symbol \<noteq> []" "normalize_symbol symbol \<notin> set EXECUTION_BLOCKED_SYMBOLS"
    "normalize_symbol symbol \<notin> set SHADOW_ONLY_SYMBOLS"
    if "normalize_symbol symbol \<in> set (execution_approved_symbols_for_mode mode)"
    using that approved_symbols_scope [of mode]
    by (auto simp: EXECUTION_BLOCKED_SYMBOLS_def SHADOW_ONLY_SYMBOLS_def)
  then show ?thesis by (auto simp: validate_execution_symbol_def Let_def)
qed

lemma lot_at_limit_iff:
  "is_finite l \<Longrightarrow> \<not> fl_lt l EXECUTION_MIN_LOT \<and> \<not> fl_lt EXECUTION_MAX_LOT l \<longleftrightarrow> l = fl_of_rat (1 / 100)"
  by (cases l) (auto simp: EXECUTION_MIN_LOT_def EXECUTION_MAX_LOT_def fl_001)

lemma to_finite_float_finite: "to_finite_float lot = Inr (Some l) \<Longrightarrow> is_finite l"
  by (cases lot) (auto split: if_splits)

lemma lot_allowed_iff:
  "is_execution_lot_allowed lot = Inr True \<longleftrightarrow> to_finite_float lot = Inr (Some (fl_of_rat (1 / 100)))"
proof (cases "to_finite_float lot")
  case (Inl e)
  then show ?thesis by (simp add: is_execution_lot_allowed_def validate_execution_lot_def)
next
  case (Inr r)
  then show ?thesis
    using to_finite_float_finite lot_at_limit_iff
    by (cases r) (auto simp: is_execution_lot_allowed_def validate_execution_lot_def)
qed

end
