(* ===== verification/Risk.thy ===== *)
theory Risk
  imports Execution_Policy
begin

text \<open>
  \<open>live_runtime/risk.py\<close>: the deterministic risk governor. \<open>evaluate_risk\<close> is the composition of
  the gate groups of the source, in its order: policy and identity, session and clock, loss
  limits, market geometry, risk-cap conversion and lot sizing. All numbers are binary64 values
  and every operation rounds; \<open>_volume_floor\<close> works in \<open>Decimal\<close> with 28 digits.
\<close>

section \<open>Constants\<close>

definition GLOBAL_MAX_LOT :: pyfloat where
  "GLOBAL_MAX_LOT = fl_of_rat (1 / 100)"

definition RISK_PERCENT_CAP :: pyfloat where
  "RISK_PERCENT_CAP = fl_of_rat (25 / 10000)"

definition XAU_ABSOLUTE_RISK_CAP :: pyfloat where
  "XAU_ABSOLUTE_RISK_CAP = fl_of_rat (20 / 100)"

definition FX_ABSOLUTE_RISK_CAP :: pyfloat where
  "FX_ABSOLUTE_RISK_CAP = fl_of_rat (25 / 100)"

definition MAX_OPEN_POSITIONS :: int where
  "MAX_OPEN_POSITIONS = 1"

definition MAX_ENTRIES_PER_DAY :: int where
  "MAX_ENTRIES_PER_DAY = 4"

definition DAILY_LOSS_LIMIT :: pyfloat where
  "DAILY_LOSS_LIMIT = fl_of_rat (1 / 100)"

definition WEEKLY_LOSS_LIMIT :: pyfloat where
  "WEEKLY_LOSS_LIMIT = fl_of_rat (25 / 1000)"

definition DRAWDOWN_LIMIT :: pyfloat where
  "DRAWDOWN_LIMIT = fl_of_rat (5 / 100)"

definition LOSS_LATCH_COUNT :: int where
  "LOSS_LATCH_COUNT = 2"

definition MAX_MARGIN_FRACTION :: pyfloat where
  "MAX_MARGIN_FRACTION = fl_of_rat (10 / 100)"

definition SPREAD_MEDIAN_MULTIPLIER :: pyfloat where
  "SPREAD_MEDIAN_MULTIPLIER = fl_of_rat (15 / 10)"

definition MAX_SLIPPAGE_STOP_FRACTION :: pyfloat where
  "MAX_SLIPPAGE_STOP_FRACTION = fl_of_rat (10 / 100)"

definition MAX_RISK_CONVERSION_AGE_SECONDS :: pyfloat where
  "MAX_RISK_CONVERSION_AGE_SECONDS = Fin 1"

definition MAX_BROKER_SPEC_AGE_SECONDS :: pyfloat where
  "MAX_BROKER_SPEC_AGE_SECONDS = Fin 1"

definition IDENTITY_CONVERSION_SHA256 :: string where
  "IDENTITY_CONVERSION_SHA256 = replicate 64 CHR ''0''"

text \<open>The tolerance literal \<open>1e-12\<close> of the cash comparisons.\<close>

definition cash_tolerance :: pyfloat where
  "cash_tolerance = fl_of_rat (1 / 10 ^ 12)"

section \<open>USDRiskCapConversion\<close>

text \<open>\<open>math.isclose(a, b, rel_tol=0.0, abs_tol=tol)\<close>.\<close>

definition isclose_abs :: "pyfloat \<Rightarrow> pyfloat \<Rightarrow> pyfloat \<Rightarrow> bool" where
  "isclose_abs tol a b =
     (fl_eq a b \<or> is_finite a \<and> is_finite b \<and> fl_le (fl_abs (fl_sub b a)) tol)"

record USDRiskCapConversion =
  uc_account_id :: string
  uc_server :: string
  uc_account_currency :: string
  uc_account_currency_per_usd :: pyfloat
  uc_source :: string
  uc_broker_symbol :: string
  uc_direction :: string
  uc_bid :: pyfloat
  uc_ask :: pyfloat
  uc_captured_at_utc :: datetime

definition conversion_rate_checks :: "USDRiskCapConversion \<Rightarrow> exn option list" where
  "conversion_rate_checks c =
     (let src = norm_text True (uc_source c); direction = norm_text True (uc_direction c);
          rate = uc_account_currency_per_usd c in
      if norm_text True (uc_account_currency c) = ''USD''
      then [raise_if (src \<noteq> ''ACCOUNT_CURRENCY_IDENTITY'' \<or> direction \<noteq> ''IDENTITY''
                \<or> norm_text False (uc_broker_symbol c) \<noteq> ''USD'' \<or> \<not> fl_eq rate (Fin 1)
                \<or> \<not> fl_eq (uc_bid c) (Fin 1) \<or> \<not> fl_eq (uc_ask c) (Fin 1))
              (ValueError ''USD conversion must be exact identity'')]
      else [raise_if (src \<noteq> ''MT5_BID_ASK'') (ValueError ''non-USD conversion must use MT5 bid/ask''),
            raise_if (direction \<notin> {''DIRECT'', ''INVERSE''})
              (ValueError ''non-USD conversion direction is invalid''),
            (case (if direction = ''DIRECT'' then Inr (uc_bid c) else fl_div (Fin 1) (uc_ask c)) of
               Inl e \<Rightarrow> Some e
             | Inr expected \<Rightarrow> raise_if (\<not> isclose_abs (fl_of_rat (1 / 10 ^ 15)) rate expected)
                 (ValueError ''conversion rate does not match conservative quote side''))])"

definition USDRiskCapConversion_init :: "bool \<Rightarrow> USDRiskCapConversion \<Rightarrow> USDRiskCapConversion res" where
  "USDRiskCapConversion_init sealed c =
     checked
       ([raise_if (\<not> sealed) (TypeError ''USDRiskCapConversion can only be created from broker facts''),
         err_of (require_text ''account_id'' (uc_account_id c) False),
         err_of (require_text ''server'' (uc_server c) False),
         err_of (require_currency ''account_currency'' (uc_account_currency c)),
         err_of (require_finite ''account_currency_per_usd'' (NFloat (uc_account_currency_per_usd c)) True False),
         err_of (require_text ''source'' (uc_source c) True),
         err_of (require_text ''direction'' (uc_direction c) True),
         err_of (require_text ''broker_symbol'' (uc_broker_symbol c) False),
         err_of (require_finite ''bid'' (NFloat (uc_bid c)) True False),
         err_of (require_finite ''ask'' (NFloat (uc_ask c)) True False),
         raise_if (fl_lt (uc_ask c) (uc_bid c)) (ValueError ''conversion ask cannot be below bid''),
         err_of (require_utc ''captured_at_utc'' (uc_captured_at_utc c))]
        @ conversion_rate_checks c)
       (c\<lparr>uc_account_id := norm_text False (uc_account_id c),
          uc_server := norm_text False (uc_server c),
          uc_account_currency := norm_text True (uc_account_currency c),
          uc_source := norm_text True (uc_source c),
          uc_broker_symbol := norm_text False (uc_broker_symbol c),
          uc_direction := norm_text True (uc_direction c)\<rparr>)"

definition mint_usd_risk_cap_conversion :: "USDRiskCapConversion \<Rightarrow> USDRiskCapConversion res" where
  "mint_usd_risk_cap_conversion values = USDRiskCapConversion_init True values"

definition USDRiskCapConversion_dict :: "USDRiskCapConversion \<Rightarrow> json" where
  "USDRiskCapConversion_dict c = JDict
     [(''account_id'', JStr (uc_account_id c)),
      (''server'', JStr (uc_server c)),
      (''account_currency'', JStr (uc_account_currency c)),
      (''account_currency_per_usd'', JFloat (uc_account_currency_per_usd c)),
      (''source'', JStr (uc_source c)),
      (''broker_symbol'', JStr (uc_broker_symbol c)),
      (''direction'', JStr (uc_direction c)),
      (''bid'', JFloat (uc_bid c)),
      (''ask'', JFloat (uc_ask c)),
      (''captured_at_utc'', jtime (uc_captured_at_utc c))]"

definition USDRiskCapConversion_content_sha256 :: "USDRiskCapConversion \<Rightarrow> string" where
  "USDRiskCapConversion_content_sha256 c = canonical_sha256 (USDRiskCapConversion_dict c)"

section \<open>RiskContext\<close>

record RiskContext =
  rc_evaluated_at :: datetime
  rc_mode :: string
  rc_account_id :: string
  rc_server :: string
  rc_equity :: pyfloat
  rc_daily_start_equity :: pyfloat
  rc_weekly_start_equity :: pyfloat
  rc_high_water_equity :: pyfloat
  rc_daily_pnl_cash :: pyfloat
  rc_weekly_pnl_cash :: pyfloat
  rc_open_position_count :: int
  rc_entries_today :: int
  rc_consecutive_losses :: int
  rc_loss_latch_active :: bool
  rc_reserved_symbols :: "string list"
  rc_current_spread_points :: pyfloat
  rc_median_spread_points :: pyfloat
  rc_p95_spread_points :: pyfloat
  rc_estimated_slippage_points :: pyfloat
  rc_p95_slippage_points :: pyfloat
  rc_news_clear :: bool
  rc_rollover_clear :: bool
  rc_data_fresh :: bool
  rc_source_aligned :: bool
  rc_permit_valid :: bool
  rc_usd_risk_cap_conversion :: "USDRiskCapConversion option"

definition normalize_symbols_checks :: "string list \<Rightarrow> exn option list" where
  "normalize_symbols_checks symbols =
     map (\<lambda>s. err_of (require_text ''reserved symbol'' s True)) symbols
     @ [raise_if (\<not> distinct (map (norm_text True) symbols))
          (ValueError ''reserved_symbols cannot contain duplicates'')]"

definition normalize_symbols :: "string list \<Rightarrow> string list" where
  "normalize_symbols symbols = sort (map (norm_text True) symbols)"

definition RiskContext_init :: "RiskContext \<Rightarrow> RiskContext res" where
  "RiskContext_init c =
     (let mode = norm_text True (rc_mode c) in
      checked
        ([err_of (require_utc ''evaluated_at'' (rc_evaluated_at c)),
          err_of (require_text ''mode'' (rc_mode c) True),
          raise_if (mode \<notin> set execution_modes) (ValueError ''unsupported execution mode''),
          err_of (require_text ''account_id'' (rc_account_id c) False),
          err_of (require_text ''server'' (rc_server c) False),
          err_of (require_finite ''equity'' (NFloat (rc_equity c)) True False),
          err_of (require_finite ''daily_start_equity'' (NFloat (rc_daily_start_equity c)) True False),
          err_of (require_finite ''weekly_start_equity'' (NFloat (rc_weekly_start_equity c)) True False),
          err_of (require_finite ''high_water_equity'' (NFloat (rc_high_water_equity c)) True False),
          raise_if (fl_lt (rc_high_water_equity c) (rc_equity c))
            (ValueError ''high_water_equity cannot be below current equity''),
          err_of (require_finite ''daily_pnl_cash'' (NFloat (rc_daily_pnl_cash c)) False False),
          err_of (require_finite ''weekly_pnl_cash'' (NFloat (rc_weekly_pnl_cash c)) False False),
          err_of (require_int ''open_position_count'' (NInt (rc_open_position_count c)) 0 None),
          err_of (require_int ''entries_today'' (NInt (rc_entries_today c)) 0 None),
          err_of (require_int ''consecutive_losses'' (NInt (rc_consecutive_losses c)) 0 None)]
         @ normalize_symbols_checks (rc_reserved_symbols c)
         @ [err_of (require_finite ''current_spread_points'' (NFloat (rc_current_spread_points c)) False True),
            err_of (require_finite ''estimated_slippage_points'' (NFloat (rc_estimated_slippage_points c)) False True),
            err_of (require_finite ''p95_slippage_points'' (NFloat (rc_p95_slippage_points c)) False True),
            err_of (require_finite ''median_spread_points'' (NFloat (rc_median_spread_points c)) True False),
            err_of (require_finite ''p95_spread_points'' (NFloat (rc_p95_spread_points c)) True False),
            raise_if (fl_lt (rc_p95_spread_points c) (rc_median_spread_points c))
              (ValueError ''p95_spread_points cannot be below median_spread_points'')])
        (c\<lparr>rc_mode := mode,
           rc_account_id := norm_text False (rc_account_id c),
           rc_server := norm_text False (rc_server c),
           rc_reserved_symbols := normalize_symbols (rc_reserved_symbols c)\<rparr>))"

section \<open>RiskDecision\<close>

record RiskDecision =
  rd_allowed :: bool
  rd_reason_codes :: "string list"
  rd_evaluated_at :: datetime
  rd_symbol :: string
  rd_max_risk_cash :: pyfloat
  rd_normalized_lot :: pyfloat
  rd_estimated_risk_cash :: pyfloat
  rd_estimated_margin_cash :: pyfloat
  rd_margin_limit_cash :: pyfloat
  rd_spread_points :: pyfloat
  rd_spread_limit_points :: pyfloat
  rd_spread_p95_points :: pyfloat
  rd_spread_median_multiple_limit_points :: pyfloat
  rd_slippage_points :: pyfloat
  rd_slippage_limit_points :: pyfloat
  rd_open_position_count :: int
  rd_exposure_symbols :: "string list"
  rd_news_clear :: bool
  rd_rollover_clear :: bool
  rd_data_fresh :: bool
  rd_source_aligned :: bool
  rd_account_currency :: string
  rd_absolute_risk_cap_usd :: pyfloat
  rd_usd_to_account_currency_rate :: pyfloat
  rd_absolute_risk_cap_account_currency :: pyfloat
  rd_conversion_quote_sha256 :: string

definition decision_reason_checks :: "RiskDecision \<Rightarrow> exn option list" where
  "decision_reason_checks d =
     map (\<lambda>r. err_of (require_text ''reason code'' r True)) (rd_reason_codes d)
     @ [raise_if (rd_allowed d \<and> rd_reason_codes d \<noteq> [])
          (ValueError ''an allowed decision cannot contain reason codes''),
        raise_if (\<not> rd_allowed d \<and> rd_reason_codes d = [])
          (ValueError ''a rejected decision requires at least one reason code'')]"

definition decision_number_checks :: "RiskDecision \<Rightarrow> exn option list" where
  "decision_number_checks d =
     map (\<lambda>(name, v). err_of (require_finite name (NFloat v) False True))
       [(''max_risk_cash'', rd_max_risk_cash d),
        (''normalized_lot'', rd_normalized_lot d),
        (''estimated_risk_cash'', rd_estimated_risk_cash d),
        (''estimated_margin_cash'', rd_estimated_margin_cash d),
        (''margin_limit_cash'', rd_margin_limit_cash d),
        (''spread_points'', rd_spread_points d),
        (''spread_limit_points'', rd_spread_limit_points d),
        (''spread_p95_points'', rd_spread_p95_points d),
        (''spread_median_multiple_limit_points'', rd_spread_median_multiple_limit_points d),
        (''slippage_points'', rd_slippage_points d),
        (''slippage_limit_points'', rd_slippage_limit_points d)]
     @ [raise_if (fl_lt GLOBAL_MAX_LOT (rd_normalized_lot d))
          (ValueError ''normalized_lot exceeds the global maximum''),
        raise_if (fl_lt (fl_add (rd_max_risk_cash d) cash_tolerance) (rd_estimated_risk_cash d))
          (ValueError ''estimated_risk_cash exceeds max_risk_cash''),
        raise_if (rd_allowed d \<and>
            fl_lt (fl_add (rd_margin_limit_cash d) cash_tolerance) (rd_estimated_margin_cash d))
          (ValueError ''estimated_margin_cash exceeds margin_limit_cash''),
        err_of (require_int ''open_position_count'' (NInt (rd_open_position_count d)) 0 None)]"

definition RiskDecision_init :: "bool \<Rightarrow> RiskDecision \<Rightarrow> RiskDecision res" where
  "RiskDecision_init sealed d =
     checked
       ([raise_if (\<not> sealed) (TypeError ''RiskDecision can only be created by evaluate_risk''),
         err_of (require_utc ''evaluated_at'' (rd_evaluated_at d)),
         err_of (require_text ''symbol'' (rd_symbol d) True)]
        @ decision_reason_checks d
        @ decision_number_checks d
        @ normalize_symbols_checks (rd_exposure_symbols d)
        @ [err_of (require_currency ''account_currency'' (rd_account_currency d)),
           err_of (require_finite ''absolute_risk_cap_usd'' (NFloat (rd_absolute_risk_cap_usd d)) True False),
           err_of (require_finite ''usd_to_account_currency_rate''
             (NFloat (rd_usd_to_account_currency_rate d)) False True),
           err_of (require_finite ''absolute_risk_cap_account_currency''
             (NFloat (rd_absolute_risk_cap_account_currency d)) False True),
           err_of (require_hash ''conversion_quote_sha256'' (rd_conversion_quote_sha256 d) 64)])
       (d\<lparr>rd_symbol := norm_text True (rd_symbol d),
          rd_reason_codes := reason_set (map (norm_text True) (rd_reason_codes d)),
          rd_exposure_symbols := normalize_symbols (rd_exposure_symbols d),
          rd_account_currency := norm_text True (rd_account_currency d),
          rd_conversion_quote_sha256 := norm_hash (rd_conversion_quote_sha256 d)\<rparr>)"

definition RiskDecision_dict :: "RiskDecision \<Rightarrow> json" where
  "RiskDecision_dict d = JDict
     [(''allowed'', JBool (rd_allowed d)),
      (''reason_codes'', jstrs (rd_reason_codes d)),
      (''evaluated_at'', jtime (rd_evaluated_at d)),
      (''symbol'', JStr (rd_symbol d)),
      (''max_risk_cash'', JFloat (rd_max_risk_cash d)),
      (''normalized_lot'', JFloat (rd_normalized_lot d)),
      (''estimated_risk_cash'', JFloat (rd_estimated_risk_cash d)),
      (''estimated_margin_cash'', JFloat (rd_estimated_margin_cash d)),
      (''margin_limit_cash'', JFloat (rd_margin_limit_cash d)),
      (''spread_points'', JFloat (rd_spread_points d)),
      (''spread_limit_points'', JFloat (rd_spread_limit_points d)),
      (''spread_p95_points'', JFloat (rd_spread_p95_points d)),
      (''spread_median_multiple_limit_points'', JFloat (rd_spread_median_multiple_limit_points d)),
      (''slippage_points'', JFloat (rd_slippage_points d)),
      (''slippage_limit_points'', JFloat (rd_slippage_limit_points d)),
      (''open_position_count'', JInt (rd_open_position_count d)),
      (''exposure_symbols'', jstrs (rd_exposure_symbols d)),
      (''news_clear'', JBool (rd_news_clear d)),
      (''rollover_clear'', JBool (rd_rollover_clear d)),
      (''data_fresh'', JBool (rd_data_fresh d)),
      (''source_aligned'', JBool (rd_source_aligned d)),
      (''account_currency'', JStr (rd_account_currency d)),
      (''absolute_risk_cap_usd'', JFloat (rd_absolute_risk_cap_usd d)),
      (''usd_to_account_currency_rate'', JFloat (rd_usd_to_account_currency_rate d)),
      (''absolute_risk_cap_account_currency'', JFloat (rd_absolute_risk_cap_account_currency d)),
      (''conversion_quote_sha256'', JStr (rd_conversion_quote_sha256 d))]"

definition RiskDecision_content_sha256 :: "RiskDecision \<Rightarrow> string" where
  "RiskDecision_content_sha256 d = canonical_sha256 (RiskDecision_dict d)"

definition decision_id :: "RiskDecision \<Rightarrow> string" where
  "decision_id d = ''risk_'' @ take 32 (RiskDecision_content_sha256 d)"

section \<open>Sizing\<close>

text \<open>
  \<open>Decimal(str(x))\<close> of a finite float. The broker's volumes are finite and positive once
  \<open>BrokerSpec\<close> is built; the quotient by a zero step, which \<open>Decimal\<close> refuses, is kept as an error.
\<close>

definition dec_str :: "pyfloat \<Rightarrow> rat" where
  "dec_str x = dec_of_float (fl_value x)"

definition volume_grid :: "rat \<Rightarrow> rat \<Rightarrow> rat \<Rightarrow> rat" where
  "volume_grid limit_d minimum_d step_d =
     (let steps = \<lfloor>dec_round (dec_round (limit_d - minimum_d) / step_d)\<rfloor>
      in dec_round (minimum_d + dec_round (of_int steps * step_d)))"

definition volume_floor :: "pyfloat \<Rightarrow> BrokerSpec \<Rightarrow> pyfloat res" where
  "volume_floor limit broker =
     (let minimum_d = dec_str (bs_volume_min broker); step_d = dec_str (bs_volume_step broker) in
      case fl_min (fl_min limit (bs_volume_max broker)) GLOBAL_MAX_LOT of
        NaN \<Rightarrow> Inl (DecimalInvalidOperation ''comparison involving NaN'')
      | NInf \<Rightarrow> Inr (Fin 0)
      | PInf \<Rightarrow> Inr (fl_of_rat (dec_str GLOBAL_MAX_LOT))
      | Fin q \<Rightarrow>
          if dec_of_float q < minimum_d then Inr (Fin 0)
          else if step_d = 0 then Inl (ZeroDivisionError ''decimal division by zero'')
          else Inr (fl_of_rat (min (volume_grid (dec_of_float q) minimum_d step_d)
                                   (dec_str GLOBAL_MAX_LOT))))"

definition uses_usd :: "string \<Rightarrow> bool" where
  "uses_usd symbol = str_contains ''USD'' (str_upper symbol)"

definition is_xau :: "string \<Rightarrow> bool" where
  "is_xau symbol =
     (str_startswith (str_upper symbol) ''XAU'' \<or> str_contains ''GOLD'' (str_upper symbol))"

definition absolute_risk_cap_usd :: "string \<Rightarrow> pyfloat res" where
  "absolute_risk_cap_usd symbol =
     res_bind (require_text ''symbol'' symbol True) (\<lambda>normalized.
       Inr (if is_xau normalized then XAU_ABSOLUTE_RISK_CAP else FX_ABSOLUTE_RISK_CAP))"

section \<open>Risk-cap conversion\<close>

definition conversion_mismatch :: "BrokerSpec \<Rightarrow> string \<Rightarrow> USDRiskCapConversion \<Rightarrow> bool" where
  "conversion_mismatch broker account_currency c =
     (uc_account_id c \<noteq> bs_account_id broker \<or> uc_server c \<noteq> bs_server broker
      \<or> uc_account_currency c \<noteq> account_currency
      \<or> (if account_currency = ''USD''
          then \<not> (uc_source c = ''ACCOUNT_CURRENCY_IDENTITY'' \<and> uc_direction c = ''IDENTITY''
                   \<and> fl_eq (uc_account_currency_per_usd c) (Fin 1))
          else \<not> (uc_source c = ''MT5_BID_ASK'' \<and> uc_direction c \<in> {''DIRECT'', ''INVERSE''})))"

definition resolve_risk_cap_conversion ::
  "BrokerSpec \<Rightarrow> RiskContext \<Rightarrow> string list \<Rightarrow> (pyfloat \<times> string \<times> string list) res" where
  "resolve_risk_cap_conversion broker context reasons =
     res_bind (require_currency ''account_currency'' (bs_account_currency broker)) (\<lambda>account_currency.
       case rc_usd_risk_cap_conversion context of
         None \<Rightarrow>
           if account_currency = ''USD'' then Inr (Fin 1, IDENTITY_CONVERSION_SHA256, reasons)
           else Inr (Fin 0, IDENTITY_CONVERSION_SHA256,
                     append_reason reasons True ''USD_RISK_CAP_CONVERSION_UNAVAILABLE'')
       | Some c \<Rightarrow>
           let conversion_hash = USDRiskCapConversion_content_sha256 c;
               mismatch = conversion_mismatch broker account_currency c;
               age = total_seconds (dt_sub (rc_evaluated_at context) (uc_captured_at_utc c));
               reasons' = append_reasons reasons
                 [(mismatch, ''USD_RISK_CAP_CONVERSION_MISMATCH''),
                  (fl_lt age (Fin 0), ''USD_RISK_CAP_CONVERSION_FUTURE''),
                  (fl_lt MAX_RISK_CONVERSION_AGE_SECONDS age, ''USD_RISK_CAP_CONVERSION_STALE'')]
           in if mismatch \<or> fl_lt age (Fin 0) \<or> fl_lt MAX_RISK_CONVERSION_AGE_SECONDS age
              then Inr (Fin 0, conversion_hash, reasons')
              else Inr (uc_account_currency_per_usd c, conversion_hash, reasons'))"

section \<open>The gates of evaluate_risk\<close>

definition symbol_policy_reasons :: "TradeIntent \<Rightarrow> string list" where
  "symbol_policy_reasons intent =
     (if fst (validate_execution_symbol (Some (ti_symbol intent)) None False (ModeStr (ti_mode intent)))
      then []
      else if ti_symbol intent \<in> set EXECUTION_BLOCKED_SYMBOLS then [''SYMBOL_BLOCKED'']
      else if ti_symbol intent \<in> set SHADOW_ONLY_SYMBOLS then [''SYMBOL_SHADOW_ONLY'']
      else [''SYMBOL_NOT_EXECUTION_APPROVED''])"

definition expected_broker_environment :: "string \<Rightarrow> string option" where
  "expected_broker_environment mode =
     map_of [(''DEMO'', ''DEMO''), (''DEMO_AUTO'', ''DEMO''), (''LIVE'', ''LIVE'')] mode"

definition policy_reasons :: "TradeIntent \<Rightarrow> RiskContext \<Rightarrow> string list" where
  "policy_reasons intent context =
     (let reasons = append_reason (symbol_policy_reasons intent)
            (rc_mode context \<noteq> ti_mode intent) ''MODE_MISMATCH'';
          (mode_allowed, mode_reasons) = execution_mode_policy_decision (ti_mode intent)
      in append_reason (if mode_allowed then reasons else reasons @ mode_reasons)
           (\<not> rc_permit_valid context) ''PERMIT_INVALID'')"

definition identity_gates :: "TradeIntent \<Rightarrow> BrokerSpec \<Rightarrow> RiskContext \<Rightarrow> (bool \<times> string) list" where
  "identity_gates intent broker context =
     (let age = total_seconds (dt_sub (rc_evaluated_at context) (bs_captured_at broker)) in
      [(\<not> (ti_account_id intent = bs_account_id broker \<and> bs_account_id broker = rc_account_id context),
        ''ACCOUNT_MISMATCH''),
       (\<not> (ti_server intent = bs_server broker \<and> bs_server broker = rc_server context),
        ''SERVER_MISMATCH''),
       (ti_symbol intent \<noteq> bs_symbol broker, ''BROKER_SYMBOL_MISMATCH''),
       (fl_lt age (Fin 0), ''BROKER_SPEC_FUTURE''),
       (fl_lt MAX_BROKER_SPEC_AGE_SECONDS age, ''BROKER_SPEC_STALE''),
       ((case expected_broker_environment (ti_mode intent) of
           None \<Rightarrow> False | Some env \<Rightarrow> bs_environment broker \<noteq> env), ''BROKER_ENVIRONMENT_MISMATCH'')])"

definition session_gates :: "TradeIntent \<Rightarrow> RiskContext \<Rightarrow> (bool \<times> string) list" where
  "session_gates intent context =
     [(\<not> rc_news_clear context, ''NEWS_WINDOW_BLOCKED''),
      (\<not> rc_rollover_clear context, ''ROLLOVER_WINDOW_BLOCKED''),
      (\<not> rc_data_fresh context \<or> \<not> ds_data_fresh (ti_decision intent), ''DATA_NOT_FRESH''),
      (\<not> rc_source_aligned context \<or> \<not> ds_source_aligned (ti_decision intent), ''SOURCE_NOT_ALIGNED''),
      (dt_lt (rc_evaluated_at context) (ti_created_at intent), ''CLOCK_BEFORE_INTENT''),
      (dt_le (ti_expires_at intent) (rc_evaluated_at context), ''INTENT_EXPIRED''),
      (MAX_OPEN_POSITIONS \<le> rc_open_position_count context, ''GLOBAL_POSITION_LIMIT''),
      (MAX_ENTRIES_PER_DAY \<le> rc_entries_today context, ''DAILY_ENTRY_LIMIT'')]"

definition daily_loss :: "RiskContext \<Rightarrow> pyfloat" where
  "daily_loss context = fl_max (fl_neg (rc_daily_pnl_cash context))
     (fl_sub (rc_daily_start_equity context) (rc_equity context))"

definition weekly_loss :: "RiskContext \<Rightarrow> pyfloat" where
  "weekly_loss context = fl_max (fl_neg (rc_weekly_pnl_cash context))
     (fl_sub (rc_weekly_start_equity context) (rc_equity context))"

definition loss_gates :: "TradeIntent \<Rightarrow> RiskContext \<Rightarrow> pyfloat \<Rightarrow> (bool \<times> string) list" where
  "loss_gates intent context drawdown =
     [(fl_le (fl_mul DAILY_LOSS_LIMIT (rc_daily_start_equity context)) (daily_loss context),
       ''DAILY_LOSS_LIMIT''),
      (fl_le (fl_mul WEEKLY_LOSS_LIMIT (rc_weekly_start_equity context)) (weekly_loss context),
       ''WEEKLY_LOSS_LIMIT''),
      (fl_le DRAWDOWN_LIMIT drawdown, ''DRAWDOWN_LIMIT''),
      (rc_loss_latch_active context \<or> LOSS_LATCH_COUNT \<le> rc_consecutive_losses context,
       ''LOSS_LATCH_ACTIVE''),
      (uses_usd (ti_symbol intent) \<and> list_ex uses_usd (rc_reserved_symbols context),
       ''USD_CORRELATION_LIMIT''),
      (fl_lt GLOBAL_MAX_LOT (ti_requested_lot intent), ''LOT_ABOVE_GLOBAL_MAX'')]"

definition spread_median_limit :: "RiskContext \<Rightarrow> pyfloat" where
  "spread_median_limit context = fl_mul SPREAD_MEDIAN_MULTIPLIER (rc_median_spread_points context)"

definition spread_limit :: "RiskContext \<Rightarrow> pyfloat" where
  "spread_limit context = fl_min (rc_p95_spread_points context) (spread_median_limit context)"

definition slippage_limit :: "RiskContext \<Rightarrow> pyfloat \<Rightarrow> pyfloat" where
  "slippage_limit context stop_points =
     fl_min (rc_p95_slippage_points context) (fl_mul MAX_SLIPPAGE_STOP_FRACTION stop_points)"

definition market_gates :: "BrokerSpec \<Rightarrow> RiskContext \<Rightarrow> pyfloat \<Rightarrow> (bool \<times> string) list" where
  "market_gates broker context stop_points =
     [(fl_le (rc_p95_spread_points context) (rc_current_spread_points context), ''SPREAD_ABOVE_P95''),
      (fl_lt (spread_median_limit context) (rc_current_spread_points context),
       ''SPREAD_ABOVE_MEDIAN_MULTIPLE''),
      (fl_lt stop_points
         (Fin (of_int (max (bs_stops_level_points broker) (bs_freeze_level_points broker)))),
       ''STOP_DISTANCE_BELOW_BROKER_MINIMUM''),
      (fl_lt (slippage_limit context stop_points) (rc_estimated_slippage_points context),
       ''SLIPPAGE_LIMIT'')]"

definition size_lot ::
  "TradeIntent \<Rightarrow> BrokerSpec \<Rightarrow> pyfloat \<Rightarrow> pyfloat \<Rightarrow> string list \<Rightarrow> (pyfloat \<times> pyfloat \<times> string list) res" where
  "size_lot intent broker max_risk_cash risk_per_lot reasons =
     (if fl_le risk_per_lot (Fin 0) then Inr (Fin 0, Fin 0, reasons @ [''INVALID_RISK_GEOMETRY''])
      else res_bind (fl_div max_risk_cash risk_per_lot) (\<lambda>risk_limited_lot.
             res_bind (volume_floor (fl_min (ti_requested_lot intent) risk_limited_lot) broker) (\<lambda>lot.
               Inr (lot, fl_mul lot risk_per_lot, reasons))))"

definition sizing_gates ::
  "TradeIntent \<Rightarrow> BrokerSpec \<Rightarrow> RiskContext \<Rightarrow> pyfloat \<Rightarrow> pyfloat \<Rightarrow> pyfloat \<Rightarrow> (bool \<times> string) list" where
  "sizing_gates intent broker context max_risk_cash lot risk =
     [(fl_lt lot (bs_volume_min broker), ''RISK_CAP_BELOW_BROKER_MIN_LOT''),
      (fl_lt (Fin 0) lot \<and> fl_lt cash_tolerance (fl_abs (fl_sub lot (ti_requested_lot intent))),
       ''INTENT_LOT_NOT_RISK_SIZED''),
      (fl_lt (fl_add max_risk_cash cash_tolerance) risk, ''RISK_CAP_EXCEEDED''),
      (fl_lt (fl_mul MAX_MARGIN_FRACTION (rc_equity context)) (fl_mul lot (bs_margin_per_lot broker)),
       ''MARGIN_LIMIT'')]"

definition risk_decision_of ::
  "TradeIntent \<Rightarrow> BrokerSpec \<Rightarrow> RiskContext \<Rightarrow> string list \<Rightarrow> pyfloat \<Rightarrow> pyfloat \<Rightarrow> pyfloat \<Rightarrow> pyfloat
   \<Rightarrow> pyfloat \<Rightarrow> pyfloat \<Rightarrow> string \<Rightarrow> RiskDecision" where
  "risk_decision_of intent broker context reasons max_risk_cash lot risk stop_points cap_usd rate quote_sha =
     (let unique_reasons = reason_set reasons in
      \<lparr>rd_allowed = (unique_reasons = []),
       rd_reason_codes = unique_reasons,
       rd_evaluated_at = rc_evaluated_at context,
       rd_symbol = ti_symbol intent,
       rd_max_risk_cash = max_risk_cash,
       rd_normalized_lot = lot,
       rd_estimated_risk_cash = risk,
       rd_estimated_margin_cash = fl_mul lot (bs_margin_per_lot broker),
       rd_margin_limit_cash = fl_mul MAX_MARGIN_FRACTION (rc_equity context),
       rd_spread_points = rc_current_spread_points context,
       rd_spread_limit_points = spread_limit context,
       rd_spread_p95_points = rc_p95_spread_points context,
       rd_spread_median_multiple_limit_points = spread_median_limit context,
       rd_slippage_points = rc_estimated_slippage_points context,
       rd_slippage_limit_points = slippage_limit context stop_points,
       rd_open_position_count = rc_open_position_count context,
       rd_exposure_symbols = rc_reserved_symbols context,
       rd_news_clear = rc_news_clear context,
       rd_rollover_clear = rc_rollover_clear context,
       rd_data_fresh = (rc_data_fresh context \<and> ds_data_fresh (ti_decision intent)),
       rd_source_aligned = (rc_source_aligned context \<and> ds_source_aligned (ti_decision intent)),
       rd_account_currency = bs_account_currency broker,
       rd_absolute_risk_cap_usd = cap_usd,
       rd_usd_to_account_currency_rate = rate,
       rd_absolute_risk_cap_account_currency = fl_mul cap_usd rate,
       rd_conversion_quote_sha256 = quote_sha\<rparr>)"

definition evaluate_risk :: "TradeIntent \<Rightarrow> BrokerSpec \<Rightarrow> RiskContext \<Rightarrow> RiskDecision res" where
  "evaluate_risk intent broker context =
     res_bind (fl_div (fl_sub (rc_high_water_equity context) (rc_equity context))
                 (rc_high_water_equity context)) (\<lambda>drawdown.
     res_bind (fl_div (stop_distance intent) (bs_point broker)) (\<lambda>stop_points.
     res_bind (absolute_risk_cap_usd (ti_symbol intent)) (\<lambda>cap_usd.
     let gate_reasons = append_reasons (policy_reasons intent context)
           (identity_gates intent broker context @ session_gates intent context
            @ loss_gates intent context drawdown @ market_gates broker context stop_points) in
     res_bind (resolve_risk_cap_conversion broker context gate_reasons) (\<lambda>(rate, quote_sha, reasons1).
     let max_risk_cash = fl_min (fl_mul RISK_PERCENT_CAP (rc_equity context)) (fl_mul cap_usd rate);
         effective_stop = fl_add (stop_distance intent)
           (fl_mul (slippage_limit context stop_points) (bs_point broker)) in
     res_bind (fl_div effective_stop (bs_tick_size broker)) (\<lambda>ticks.
     let risk_per_lot = fl_mul ticks (bs_tick_value broker) in
     res_bind (size_lot intent broker max_risk_cash risk_per_lot reasons1) (\<lambda>(lot, risk, reasons2).
     let reasons = append_reasons reasons2
           (sizing_gates intent broker context max_risk_cash lot risk) in
     RiskDecision_init True
       (risk_decision_of intent broker context reasons max_risk_cash lot risk stop_points cap_usd
          rate quote_sha)))))))"

section \<open>Sizing facts\<close>

lemma fl_of_rat_le_GLOBAL_MAX_LOT:
  "q \<le> 1 / 100 \<Longrightarrow> fl_lt (fl_of_rat q) GLOBAL_MAX_LOT \<or> fl_of_rat q = GLOBAL_MAX_LOT"
  unfolding GLOBAL_MAX_LOT_def fl_001
  using bin_round_mono [of q "1 / 100"] fl_001
  by (auto simp: fl_of_rat_def Let_def split: if_splits)

lemma dec_str_GLOBAL_MAX_LOT [simp]: "dec_str GLOBAL_MAX_LOT = 1 / 100"
  by (simp add: dec_str_def GLOBAL_MAX_LOT_def fl_001)

lemma volume_floor_le_max:
  assumes "volume_floor limit broker = Inr v"
  shows "\<not> fl_lt GLOBAL_MAX_LOT v"
proof -
  have "\<not> fl_lt GLOBAL_MAX_LOT (fl_of_rat q)" if "q \<le> 1 / 100" for q
    using fl_of_rat_le_GLOBAL_MAX_LOT [OF that]
    by (cases "fl_of_rat q") (auto simp: GLOBAL_MAX_LOT_def fl_001)
  moreover have "\<not> fl_lt GLOBAL_MAX_LOT (Fin 0)"
    by (simp add: GLOBAL_MAX_LOT_def fl_001)
  ultimately show ?thesis using assms
    by (auto simp: volume_floor_def Let_def split: pyfloat.splits if_splits)
qed

lemma size_lot_le_max:
  assumes "size_lot intent broker cash per_lot reasons = Inr (lot, risk, reasons')"
  shows "\<not> fl_lt GLOBAL_MAX_LOT lot" and "set reasons \<subseteq> set reasons'"
  using assms volume_floor_le_max
  by (auto simp: size_lot_def res_bind_Inr_iff GLOBAL_MAX_LOT_def fl_001 split: if_splits)

section \<open>Decision facts\<close>

lemma RiskDecision_init_facts:
  assumes "RiskDecision_init sealed d = Inr d'"
  shows "sealed" and "rd_allowed d' = rd_allowed d" and "rd_allowed d \<longleftrightarrow> rd_reason_codes d = []"
    and "rd_reason_codes d' = reason_set (map (norm_text True) (rd_reason_codes d))"
    and "rd_normalized_lot d' = rd_normalized_lot d"
    and "rd_max_risk_cash d' = rd_max_risk_cash d"
    and "rd_estimated_risk_cash d' = rd_estimated_risk_cash d"
    and "rd_estimated_margin_cash d' = rd_estimated_margin_cash d"
    and "rd_margin_limit_cash d' = rd_margin_limit_cash d"
    and "\<not> fl_lt (fl_add (rd_max_risk_cash d) cash_tolerance) (rd_estimated_risk_cash d)"
  using assms
  by (auto simp: RiskDecision_init_def decision_reason_checks_def decision_number_checks_def res_simps)

lemma resolve_conversion_reasons:
  assumes "resolve_risk_cap_conversion broker context reasons = Inr (rate, h, reasons')"
  shows "set reasons \<subseteq> set reasons'"
  using assms by (auto simp: resolve_risk_cap_conversion_def res_bind_Inr_iff Let_def reason_simps
      split: option.splits if_splits)

lemma resolve_conversion_clear:
  assumes "resolve_risk_cap_conversion broker context reasons = Inr (rate, h, [])"
  shows "norm_text True (bs_account_currency broker) = ''USD'' \<and> rc_usd_risk_cap_conversion context = None
      \<and> rate = Fin 1
    \<or> (\<exists>c. rc_usd_risk_cap_conversion context = Some c \<and> rate = uc_account_currency_per_usd c
          \<and> \<not> conversion_mismatch broker (norm_text True (bs_account_currency broker)) c
          \<and> 0 \<le> dt_sub (rc_evaluated_at context) (uc_captured_at_utc c)
          \<and> dt_sub (rc_evaluated_at context) (uc_captured_at_utc c) \<le> seconds 1)"
proof (cases "rc_usd_risk_cap_conversion context")
  case None
  with assms show ?thesis
    by (auto simp: resolve_risk_cap_conversion_def res_bind_Inr_iff require_currency_def require_text_Inr
        split: if_splits)
next
  case (Some c)
  with assms show ?thesis
    by (auto simp: resolve_risk_cap_conversion_def res_bind_Inr_iff require_currency_def require_text_Inr
        Let_def MAX_RISK_CONVERSION_AGE_SECONDS_def seconds_def split: if_splits)
qed

text \<open>
  The intermediate values of an evaluation that returned, and the conditions under which it
  allows the trade: none of the gates holds.
\<close>

definition risk_gates ::
  "TradeIntent \<Rightarrow> BrokerSpec \<Rightarrow> RiskContext \<Rightarrow> pyfloat \<Rightarrow> pyfloat \<Rightarrow> (bool \<times> string) list" where
  "risk_gates intent broker context drawdown stop_points =
     identity_gates intent broker context @ session_gates intent context
       @ loss_gates intent context drawdown @ market_gates broker context stop_points"

lemma evaluate_risk_cases:
  assumes "evaluate_risk intent broker context = Inr d"
  obtains drawdown stop_points cap_usd rate quote_sha reasons1 ticks lot risk reasons2 where
    "fl_div (fl_sub (rc_high_water_equity context) (rc_equity context)) (rc_high_water_equity context)
       = Inr drawdown"
    "fl_div (stop_distance intent) (bs_point broker) = Inr stop_points"
    "absolute_risk_cap_usd (ti_symbol intent) = Inr cap_usd"
    "resolve_risk_cap_conversion broker context
       (append_reasons (policy_reasons intent context)
          (risk_gates intent broker context drawdown stop_points)) = Inr (rate, quote_sha, reasons1)"
    "size_lot intent broker
       (fl_min (fl_mul RISK_PERCENT_CAP (rc_equity context)) (fl_mul cap_usd rate))
       (fl_mul ticks (bs_tick_value broker)) reasons1 = Inr (lot, risk, reasons2)"
    "RiskDecision_init True (risk_decision_of intent broker context
       (append_reasons reasons2 (sizing_gates intent broker context
          (fl_min (fl_mul RISK_PERCENT_CAP (rc_equity context)) (fl_mul cap_usd rate)) lot risk))
       (fl_min (fl_mul RISK_PERCENT_CAP (rc_equity context)) (fl_mul cap_usd rate)) lot risk
       stop_points cap_usd rate quote_sha) = Inr d"
  using assms
  by (auto simp: evaluate_risk_def risk_gates_def res_bind_Inr_iff Let_def split: prod.splits)

lemma policy_reasons_Nil:
  "policy_reasons intent context = [] \<longleftrightarrow>
     symbol_policy_reasons intent = [] \<and> rc_mode context = ti_mode intent
     \<and> str_upper (str_strip (ti_mode intent)) \<in> {''DRY_RUN'', ''PAPER'', ''DEMO''}
     \<and> rc_permit_valid context"
  using mode_policy_allowed_iff [of "ti_mode intent"] mode_policy_reasons [of "ti_mode intent"]
  by (cases "execution_mode_policy_decision (ti_mode intent)")
    (auto simp: policy_reasons_def Let_def split: if_splits)

lemma evaluate_risk_allowed:
  assumes "evaluate_risk intent broker context = Inr d" and "rd_allowed d"
  obtains drawdown stop_points cap_usd rate where
    "fl_div (fl_sub (rc_high_water_equity context) (rc_equity context)) (rc_high_water_equity context)
       = Inr drawdown"
    "fl_div (stop_distance intent) (bs_point broker) = Inr stop_points"
    "absolute_risk_cap_usd (ti_symbol intent) = Inr cap_usd"
    "rd_max_risk_cash d = fl_min (fl_mul RISK_PERCENT_CAP (rc_equity context)) (fl_mul cap_usd rate)"
    "policy_reasons intent context = []"
    "list_all (\<lambda>(c, code). \<not> c) (risk_gates intent broker context drawdown stop_points)"
    "list_all (\<lambda>(c, code). \<not> c) (sizing_gates intent broker context (rd_max_risk_cash d)
       (rd_normalized_lot d) (rd_estimated_risk_cash d))"
    "\<not> fl_lt GLOBAL_MAX_LOT (rd_normalized_lot d)"
    "\<exists>h. resolve_risk_cap_conversion broker context [] = Inr (rate, h, [])"
proof (rule evaluate_risk_cases [OF assms(1)])
  fix drawdown stop_points cap_usd rate quote_sha reasons1 ticks lot risk reasons2
  let ?cash = "fl_min (fl_mul RISK_PERCENT_CAP (rc_equity context)) (fl_mul cap_usd rate)"
  assume h: "fl_div (fl_sub (rc_high_water_equity context) (rc_equity context))
       (rc_high_water_equity context) = Inr drawdown"
    "fl_div (stop_distance intent) (bs_point broker) = Inr stop_points"
    "absolute_risk_cap_usd (ti_symbol intent) = Inr cap_usd"
    and conv: "resolve_risk_cap_conversion broker context
       (append_reasons (policy_reasons intent context)
          (risk_gates intent broker context drawdown stop_points)) = Inr (rate, quote_sha, reasons1)"
    and size: "size_lot intent broker ?cash (fl_mul ticks (bs_tick_value broker)) reasons1
       = Inr (lot, risk, reasons2)"
    and init: "RiskDecision_init True (risk_decision_of intent broker context
       (append_reasons reasons2 (sizing_gates intent broker context ?cash lot risk))
       ?cash lot risk stop_points cap_usd rate quote_sha) = Inr d"
  note facts = RiskDecision_init_facts [OF init]
  have "reasons2 = []" and gates: "list_all (\<lambda>(c, code). \<not> c)
      (sizing_gates intent broker context ?cash lot risk)"
    using facts assms(2) by (simp_all add: risk_decision_of_def Let_def)
  moreover have "set reasons1 \<subseteq> set reasons2" using size_lot_le_max(2) [OF size] .
  ultimately have "reasons1 = []" by simp
  with conv resolve_conversion_reasons [OF conv]
  have nil: "append_reasons (policy_reasons intent context)
      (risk_gates intent broker context drawdown stop_points) = []" by simp
  have "resolve_risk_cap_conversion broker context [] = Inr (rate, quote_sha, [])"
    using conv unfolding nil \<open>reasons1 = []\<close> .
  then show thesis
    using that [OF h, of rate] nil gates size_lot_le_max(1) [OF size] facts
    by (auto simp: risk_decision_of_def Let_def)
qed

end
