(* ===== verification/Interfaces.thy ===== *)
theory Interfaces
  imports Py_Hash
begin

text \<open>
  The contracts several components are held to, as locales, with the lemmas a client of the
  contract may use.

  \<^item> \<open>reason_gate\<close>: a decision procedure that publishes reason codes. The risk governor, the
    permit validator, the market guard and the health monitor are interpretations.
  \<^item> \<open>signed_artifact\<close>: a record signed with an HMAC over its canonical bytes. Promotion permits,
    news feeds and manual demo approvals are interpretations.
  \<^item> \<open>authenticated_log\<close>: a list of rows, each authenticated together with its position and its
    predecessor's tag. The event table of the risk ledger is an interpretation.
  \<^item> \<open>transition_system\<close>: states, steps and invariants of reachable states. The runtime around
    the journal is an interpretation, through the life cycle contract that extends it.
\<close>

section \<open>Decision procedures with reason codes\<close>

locale reason_gate =
  fixes run :: "'i \<Rightarrow> 'd res" and verdict :: "'d \<Rightarrow> bool" and reasons :: "'d \<Rightarrow> string list"
  assumes verdict_iff: "run i = Inr d \<Longrightarrow> verdict d \<longleftrightarrow> reasons d = []"
    and reasons_canonical: "run i = Inr d \<Longrightarrow> sorted (reasons d) \<and> distinct (reasons d)"
begin

lemma refusal_explained: "run i = Inr d \<Longrightarrow> \<not> verdict d \<Longrightarrow> \<exists>code. code \<in> set (reasons d)"
  using verdict_iff [of i d] by (cases "reasons d") auto

lemma approval_silent: "run i = Inr d \<Longrightarrow> verdict d \<Longrightarrow> code \<notin> set (reasons d)"
  using verdict_iff [of i d] by simp

lemma reasons_determined:
  "run i = Inr d \<Longrightarrow> run k = Inr e \<Longrightarrow> set (reasons d) = set (reasons e) \<Longrightarrow> reasons d = reasons e"
  using reasons_canonical [of i d] reasons_canonical [of k e] sorted_distinct_set_unique by blast

end

section \<open>Signed records\<close>

text \<open>
  \<open>init\<close> is the constructor (it normalises and raises), \<open>with_sig\<close> the \<open>replace(self, signature=...)\<close>
  before the constructor runs again, \<open>ready\<close> what the verifier asks of the record besides a
  signature. The laws say that signing keeps the signed bytes and that the verifier compares the
  stored signature with the HMAC of those bytes.
\<close>

locale signed_artifact =
  fixes init :: "'a \<Rightarrow> 'a res" and payload :: "'a \<Rightarrow> string" and sig :: "'a \<Rightarrow> string"
    and with_sig :: "string \<Rightarrow> 'a \<Rightarrow> 'a" and sign :: "'a \<Rightarrow> string \<Rightarrow> 'a res"
    and verify :: "'a \<Rightarrow> string \<Rightarrow> bool res" and ready :: "'a \<Rightarrow> bool"
  assumes sign_cases: "sign a k = Inr b \<Longrightarrow>
      32 \<le> length k \<and> init (with_sig (hmac_sha256_hex k (payload a)) a) = Inr b"
    and init_keeps: "init a = Inr a \<Longrightarrow> init (with_sig (hmac_sha256_hex k m) a) = Inr b \<Longrightarrow>
      payload b = payload a \<and> sig b = hmac_sha256_hex k m \<and> (ready a \<longrightarrow> ready b)"
    and verify_compares: "ready a \<Longrightarrow> 32 \<le> length k \<Longrightarrow>
      verify a k = Inr (sig a = hmac_sha256_hex k (payload a))"
begin

lemma sign_keeps_payload: "init a = Inr a \<Longrightarrow> sign a k = Inr b \<Longrightarrow> payload b = payload a"
  using sign_cases [of a k b] init_keeps [of a k "payload a" b] by blast

lemma roundtrip:
  assumes "init a = Inr a" and "ready a" and "sign a k = Inr b"
  shows "verify b k = Inr True"
proof -
  have "32 \<le> length k" and b: "init (with_sig (hmac_sha256_hex k (payload a)) a) = Inr b"
    using sign_cases [OF assms(3)] by auto
  with init_keeps [OF assms(1) b] assms(2) show ?thesis by (simp add: verify_compares)
qed

text \<open>
  A signature taken from one record verifies on another only when the HMACs of the two byte
  strings agree.
\<close>

lemma transplant:
  assumes "init a = Inr a" and "sign a k = Inr b"
    and "ready c" and "sig c = sig b" and "verify c k = Inr True"
  shows "hmac_sha256_hex k (payload c) = hmac_sha256_hex k (payload a)"
proof -
  have k: "32 \<le> length k" and b: "init (with_sig (hmac_sha256_hex k (payload a)) a) = Inr b"
    using sign_cases [OF assms(2)] by auto
  have "sig b = hmac_sha256_hex k (payload a)" using init_keeps [OF assms(1) b] by simp
  with assms(3-5) k show ?thesis by (auto simp: verify_compares)
qed

end

section \<open>Authenticated logs\<close>

text \<open>
  Row \<open>r\<close> at position \<open>n\<close> after a row with tag \<open>p\<close> carries the tag \<open>mac (body n p r)\<close>; \<open>good\<close> is what
  the reader checks of the row besides.
\<close>

fun chained ::
  "('b \<Rightarrow> string) \<Rightarrow> (int \<Rightarrow> string \<Rightarrow> 'r \<Rightarrow> 'b) \<Rightarrow> ('r \<Rightarrow> string) \<Rightarrow> (int \<Rightarrow> string \<Rightarrow> 'r \<Rightarrow> bool)
   \<Rightarrow> int \<Rightarrow> string \<Rightarrow> 'r list \<Rightarrow> bool" where
  "chained mac body tag good n p [] = True"
| "chained mac body tag good n p (r # rs) =
     (good n p r \<and> tag r = mac (body n p r) \<and> chained mac body tag good (n + 1) (tag r) rs)"

fun log_bodies :: "(int \<Rightarrow> string \<Rightarrow> 'r \<Rightarrow> 'b) \<Rightarrow> ('r \<Rightarrow> string) \<Rightarrow> int \<Rightarrow> string \<Rightarrow> 'r list \<Rightarrow> 'b list" where
  "log_bodies body tag n p [] = []"
| "log_bodies body tag n p (r # rs) = body n p r # log_bodies body tag (n + 1) (tag r) rs"

definition log_head :: "('r \<Rightarrow> string) \<Rightarrow> string \<Rightarrow> 'r list \<Rightarrow> string" where
  "log_head tag p rs = (if rs = [] then p else tag (last rs))"

text \<open>Two different authenticated bodies of two logs with the same tag.\<close>

definition tag_collision :: "('b \<Rightarrow> string) \<Rightarrow> 'b list \<Rightarrow> 'b list \<Rightarrow> bool" where
  "tag_collision mac xs ys = (\<exists>x \<in> set xs. \<exists>y \<in> set ys. x \<noteq> y \<and> mac x = mac y)"

lemma log_head_simps [simp]:
  "log_head tag p [] = p" "log_head tag p (rs @ [r]) = tag r" "log_head tag p (r # rs) = log_head tag (tag r) rs"
  by (simp_all add: log_head_def)

lemma log_bodies_append:
  "log_bodies body tag n p (xs @ ys)
     = log_bodies body tag n p xs @ log_bodies body tag (n + int (length xs)) (log_head tag p xs) ys"
  by (induction xs arbitrary: n p) (simp_all add: algebra_simps)

locale authenticated_log =
  fixes mac :: "'b \<Rightarrow> string" and body :: "int \<Rightarrow> string \<Rightarrow> 'r \<Rightarrow> 'b" and tag :: "'r \<Rightarrow> string"
    and good :: "int \<Rightarrow> string \<Rightarrow> 'r \<Rightarrow> bool"
  assumes body_binds: "body n p r = body m q s \<Longrightarrow> n = m \<and> p = q"
    and body_determines: "good n p r \<Longrightarrow> good n p s \<Longrightarrow> tag r = tag s \<Longrightarrow> body n p r = body n p s \<Longrightarrow> r = s"
begin

lemma chained_append:
  "chained mac body tag good n p (xs @ ys) \<longleftrightarrow>
     chained mac body tag good n p xs \<and> chained mac body tag good (n + int (length xs)) (log_head tag p xs) ys"
  by (induction xs arbitrary: n p) (auto simp: algebra_simps)

text \<open>Logs with the same head are the same log, or exhibit a collision.\<close>

lemma same_head_same_log:
  assumes "chained mac body tag good n p xs" and "chained mac body tag good n p ys"
    and "xs \<noteq> []" and "ys \<noteq> []" and "log_head tag p xs = log_head tag p ys"
  shows "xs = ys \<or> tag_collision mac (log_bodies body tag n p xs) (log_bodies body tag n p ys)"
  using assms
proof (induction xs arbitrary: ys rule: rev_induct)
  case (snoc x xs)
  obtain y zs where ys: "ys = zs @ [y]" using snoc.prems(4) by (metis rev_exhaust)
  let ?bx = "body (n + int (length xs)) (log_head tag p xs) x"
  let ?by = "body (n + int (length zs)) (log_head tag p zs) y"
  have x: "good (n + int (length xs)) (log_head tag p xs) x" "tag x = mac ?bx"
    and y: "good (n + int (length zs)) (log_head tag p zs) y" "tag y = mac ?by"
    and chains: "chained mac body tag good n p xs" "chained mac body tag good n p zs"
    using snoc.prems(1,2) by (simp_all add: ys chained_append)
  have tags: "tag x = tag y" using snoc.prems(5) by (simp add: ys)
  show ?case
  proof (cases "?bx = ?by")
    case False
    then have "tag_collision mac (log_bodies body tag n p (xs @ [x])) (log_bodies body tag n p ys)"
      using tags x(2) y(2) by (auto simp: tag_collision_def log_bodies_append ys)
    then show ?thesis ..
  next
    case True
    then have len: "length xs = length zs" and prev: "log_head tag p xs = log_head tag p zs"
      using body_binds [OF True] by auto
    have "x = y" using body_determines [of _ _ x y] x(1) y(1) tags True len prev by simp
    moreover have "xs = zs \<or> tag_collision mac (log_bodies body tag n p xs) (log_bodies body tag n p zs)"
      using snoc.IH [OF chains] len prev by (cases "xs = []"; cases "zs = []") auto
    ultimately show ?thesis
      by (auto simp: ys tag_collision_def log_bodies_append)
  qed
qed simp

text \<open>A log that continues past a known head extends the log with that head, or exhibits a collision.\<close>

lemma known_head_prefix:
  assumes "chained mac body tag good n p xs" and "chained mac body tag good n p ys"
    and "xs \<noteq> []" and "length xs \<le> length ys" and "tag (ys ! (length xs - 1)) = log_head tag p xs"
  shows "prefix xs ys \<or> tag_collision mac (log_bodies body tag n p xs) (log_bodies body tag n p ys)"
proof -
  let ?zs = "take (length xs) ys" and ?rest = "drop (length xs) ys"
  have ys: "ys = ?zs @ ?rest" by simp
  have "chained mac body tag good n p ?zs" using assms(2) chained_append ys by metis
  moreover have "?zs \<noteq> []" using assms(3,4) by auto
  moreover have "log_head tag p ?zs = log_head tag p xs"
    using assms(3,4,5) by (auto simp: log_head_def last_conv_nth min_def)
  ultimately have "xs = ?zs \<or> tag_collision mac (log_bodies body tag n p xs) (log_bodies body tag n p ?zs)"
    using same_head_same_log [OF assms(1), of ?zs] assms(3) by simp
  moreover have "set (log_bodies body tag n p ?zs) \<subseteq> set (log_bodies body tag n p ys)"
    using log_bodies_append [of body tag n p ?zs ?rest] ys by simp
  ultimately show ?thesis
    by (auto simp: tag_collision_def take_is_prefix) (metis take_is_prefix)
qed

end

section \<open>Transition systems\<close>

locale transition_system =
  fixes start :: "'s \<Rightarrow> bool" and step :: "'s \<Rightarrow> 's \<Rightarrow> bool"
begin

lemma reachable_invariant:
  assumes "start s0" and "step\<^sup>*\<^sup>* s0 s"
    and "\<And>s. start s \<Longrightarrow> Q s" and "\<And>s s'. Q s \<Longrightarrow> step s s' \<Longrightarrow> Q s'"
  shows "Q s"
  using assms(2,1) by (induction rule: rtranclp_induct) (auto intro: assms(3,4))

lemma steps_preserve:
  assumes "step\<^sup>*\<^sup>* s s'" and "\<And>s s'. P s \<Longrightarrow> step s s' \<Longrightarrow> P s'" and "P s"
  shows "P s'"
  using assms(1,3) by (induction rule: rtranclp_induct) (auto intro: assms(2))

end

end
