(* ===== verification/Risk_Safety.thy ===== *)
theory Risk_Safety
  imports Risk Interfaces
begin

text \<open>
  What the risk governor guarantees, and a worked evaluation: a EURUSD paper trade of 0.01 lot
  with a stop of 64 points, which every gate accepts.
\<close>

section \<open>Sample data\<close>

definition sample_hash :: string where
  "sample_hash = replicate 64 CHR ''a''"

definition sample_bar :: datetime where
  "sample_bar = utc_at ((epoch_seconds + 1767607200) * 1000000)"

definition sample_decision :: DecisionSnapshot where
  "sample_decision =
     \<lparr>ds_decision_run_id = ''run-1'', ds_symbol = ''EURUSD'', ds_side = ''BUY'',
      ds_strategy = ''BREAKOUT'', ds_score = 7, ds_score_components = [(''trend'', 7)],
      ds_entry_reference = Some (Fin (5 / 4)), ds_stop_loss = Some (Fin (19 / 16)),
      ds_take_profit = Some (Fin (11 / 8)), ds_model_version = ''m1'',
      ds_model_artifact_sha256 = sample_hash, ds_commit_sha = sample_hash,
      ds_config_sha256 = sample_hash, ds_data_sha256 = sample_hash, ds_source_name = ''mt5'',
      ds_source_aligned = True, ds_data_fresh = True, ds_bar_closed_at = sample_bar,
      ds_created_at = dt_add sample_bar (seconds 1), ds_timeframe = ''M15'',
      ds_schema_version = ''1.0''\<rparr>"

definition sample_intent :: "string \<Rightarrow> TradeIntent" where
  "sample_intent mode =
     \<lparr>ti_mode = mode, ti_account_id = ''acct'', ti_server = ''srv'', ti_symbol = ''EURUSD'',
      ti_side = ''BUY'', ti_requested_lot = fl_of_rat (1 / 100), ti_entry_reference = Fin (5 / 4),
      ti_stop_loss = Fin (19 / 16), ti_take_profit = Fin (11 / 8),
      ti_created_at = dt_add sample_bar (seconds 2), ti_expires_at = dt_add sample_bar (seconds 9),
      ti_decision = sample_decision, ti_permit_id = ''permit'', ti_schema_version = ''1.0''\<rparr>"

definition sample_broker :: BrokerSpec where
  "sample_broker =
     \<lparr>bs_account_id = ''acct'', bs_broker_legal_name = ''Broker'', bs_server = ''srv'',
      bs_environment = ''DEMO'', bs_symbol = ''EURUSD'', bs_broker_symbol = ''EURUSD'',
      bs_account_currency = ''USD'', bs_digits = 5, bs_point = Fin (1 / 1024),
      bs_tick_size = Fin (1 / 1024), bs_tick_value = Fin (1 / 4), bs_contract_size = Fin 100000,
      bs_volume_min = fl_of_rat (1 / 100), bs_volume_max = Fin 8,
      bs_volume_step = fl_of_rat (1 / 100), bs_stops_level_points = 10,
      bs_freeze_level_points = 0, bs_margin_per_lot = Fin 1024,
      bs_session_calendar_sha256 = sample_hash,
      bs_captured_at = dt_add sample_bar (seconds 2), bs_schema_version = ''1.0''\<rparr>"

definition sample_context :: "string \<Rightarrow> RiskContext" where
  "sample_context mode =
     \<lparr>rc_evaluated_at = dt_add sample_bar (seconds 2), rc_mode = mode, rc_account_id = ''acct'',
      rc_server = ''srv'', rc_equity = Fin 10000, rc_daily_start_equity = Fin 10000,
      rc_weekly_start_equity = Fin 10000, rc_high_water_equity = Fin 10000,
      rc_daily_pnl_cash = Fin 0, rc_weekly_pnl_cash = Fin 0, rc_open_position_count = 0,
      rc_entries_today = 0, rc_consecutive_losses = 0, rc_loss_latch_active = False,
      rc_reserved_symbols = [], rc_current_spread_points = Fin 0, rc_median_spread_points = Fin 8,
      rc_p95_spread_points = Fin 16, rc_estimated_slippage_points = Fin 0,
      rc_p95_slippage_points = Fin 0, rc_news_clear = True, rc_rollover_clear = True,
      rc_data_fresh = True, rc_source_aligned = True, rc_permit_valid = True,
      rc_usd_risk_cap_conversion = None\<rparr>"

section \<open>Evaluating the sample\<close>

lemma fl_of_dyadic: "q = of_int m / 2 ^ n \<Longrightarrow> \<bar>m\<bar> < 2 ^ 53 \<Longrightarrow> n \<le> 1000 \<Longrightarrow> fl_of_rat q = Fin q"
  by (rule fl_of_rat_representable) (rule representableI)

lemma fl_0025: "fl_of_rat (1 / 400) = Fin (5764607523034235 / 2305843009213693952)"
  by (rule fl_of_rat_eval [where e = "- 9" and m = 5764607523034235]) (simp_all add: pow_rat_def)

lemma fl_0025_equity: "fl_of_rat (3602879701896396875 / 144115188075855872) = Fin (25)"
  by (rule fl_of_rat_eval [where e = "4" and m = 7036874417766400]) (simp_all add: pow_rat_def)

lemma fl_025: "fl_of_rat (1 / 40) = Fin (3602879701896397 / 144115188075855872)"
  by (rule fl_of_rat_eval [where e = "- 6" and m = 7205759403792794]) (simp_all add: pow_rat_def)

lemma fl_025_equity: "fl_of_rat (2251799813685248125 / 9007199254740992) = Fin (250)"
  by (rule fl_of_rat_eval [where e = "7" and m = 8796093022208000]) (simp_all add: pow_rat_def)

lemma fl_05: "fl_of_rat (1 / 20) = Fin (3602879701896397 / 72057594037927936)"
  by (rule fl_of_rat_eval [where e = "- 5" and m = 7205759403792794]) (simp_all add: pow_rat_def)

lemma fl_1: "fl_of_rat (1 / 10) = Fin (3602879701896397 / 36028797018963968)"
  by (rule fl_of_rat_eval [where e = "- 4" and m = 7205759403792794]) (simp_all add: pow_rat_def)

lemma fl_1_equity: "fl_of_rat (2251799813685248125 / 2251799813685248) = Fin (1000)"
  by (rule fl_of_rat_eval [where e = "9" and m = 8796093022208000]) (simp_all add: pow_rat_def)

lemma fl_1_stop: "fl_of_rat (3602879701896397 / 562949953421312) = Fin (3602879701896397 / 562949953421312)"
  by (rule fl_of_rat_eval [where e = "2" and m = 7205759403792794]) (simp_all add: pow_rat_def)

lemma fl_01_equity: "fl_of_rat (3602879701896396875 / 36028797018963968) = Fin (100)"
  by (rule fl_of_rat_eval [where e = "6" and m = 7036874417766400]) (simp_all add: pow_rat_def)

lemma fl_tolerance: "fl_of_rat (1 / 1000000000000) = Fin (4951760157141521 / 4951760157141521099596496896)"
  by (rule fl_of_rat_eval [where e = "- 40" and m = 4951760157141521]) (simp_all add: pow_rat_def)

lemma fl_lot_risk: "fl_of_rat (5764607523034235 / 36028797018963968) = Fin (5764607523034235 / 36028797018963968)"
  by (rule fl_of_rat_eval [where e = "- 3" and m = 5764607523034235]) (simp_all add: pow_rat_def)

lemma fl_cap_tolerance: "fl_of_rat (1237940039290332035056265745 / 4951760157141521099596496896) = Fin (2251799813694255 / 9007199254740992)"
  by (rule fl_of_rat_eval [where e = "- 2" and m = 4503599627388510]) (simp_all add: pow_rat_def)

lemma fl_lot_margin: "fl_of_rat (5764607523034235 / 562949953421312) = Fin (5764607523034235 / 562949953421312)"
  by (rule fl_of_rat_eval [where e = "3" and m = 5764607523034235]) (simp_all add: pow_rat_def)

lemma fl_margin_tolerance:
  "fl_of_rat (4951760157141526051356654037521 / 4951760157141521099596496896) =
     Fin (8796093022208009 / 8796093022208)"
  by (rule fl_of_rat_eval [where e = "9" and m = 8796093022208009]) (simp_all add: pow_rat_def)

lemma dec_round_001: "dec_round (1 / 100) = 1 / 100"
proof -
  have "exponent 10 (1 / 100) = - 2" by (rule exponent_unique) (simp_all add: pow_rat_def)
  then show ?thesis unfolding dec_round_def
    by (intro round_sig_grid_pos [where m = 1 and u = "- 2"]) (simp_all add: pow_rat_def)
qed

lemma sample_volume:
  "volume_floor (fl_of_rat (1 / 100)) sample_broker = Inr (fl_of_rat (1 / 100))"
  by (simp add: volume_floor_def volume_grid_def sample_broker_def Let_def dec_str_def
      GLOBAL_MAX_LOT_def fl_001 dec_round_def)
    (simp add: dec_round_def [symmetric] dec_round_001 fl_001)

lemma sample_size:
  "size_lot (sample_intent mode) sample_broker (Fin (1 / 4)) (Fin 16) reasons =
     Inr (fl_of_rat (1 / 100), Fin (5764607523034235 / 36028797018963968), reasons)"
proof -
  have "fl_of_rat (1 / 64) = Fin (1 / 64)" by (rule fl_of_dyadic [of _ 1 6]) simp_all
  then have "fl_div (Fin (1 / 4)) (Fin 16) = Inr (Fin (1 / 64))" by simp
  moreover have "fl_min (fl_of_rat (1 / 100)) (Fin (1 / 64)) = fl_of_rat (1 / 100)"
    by (simp add: fl_001)
  ultimately show ?thesis
    by (simp add: size_lot_def sample_intent_def sample_volume [unfolded fl_001] fl_lot_risk fl_001)
qed

lemmas sample_defs = sample_intent_def sample_broker_def sample_context_def sample_decision_def
  sample_bar_def

lemmas risk_constants = GLOBAL_MAX_LOT_def RISK_PERCENT_CAP_def FX_ABSOLUTE_RISK_CAP_def
  MAX_OPEN_POSITIONS_def MAX_ENTRIES_PER_DAY_def DAILY_LOSS_LIMIT_def WEEKLY_LOSS_LIMIT_def
  DRAWDOWN_LIMIT_def LOSS_LATCH_COUNT_def MAX_MARGIN_FRACTION_def SPREAD_MEDIAN_MULTIPLIER_def
  MAX_SLIPPAGE_STOP_FRACTION_def MAX_BROKER_SPEC_AGE_SECONDS_def

lemmas sample_floats = fl_001 fl_0025 fl_0025_equity fl_025 fl_025_equity fl_05 fl_1 fl_1_equity
  fl_1_stop fl_01_equity fl_tolerance fl_lot_risk fl_cap_tolerance fl_lot_margin fl_margin_tolerance

lemma sample_dyadic:
  "fl_of_rat (1 / 16) = Fin (1 / 16)" "fl_of_rat 64 = Fin 64" "fl_of_rat 16 = Fin 16"
  "fl_of_rat (1 / 4) = Fin (1 / 4)" "fl_of_rat (3 / 2) = Fin (3 / 2)" "fl_of_rat 12 = Fin 12"
  "fl_of_rat (- (1 / 16)) = Fin (- (1 / 16))"
  by (rule fl_of_dyadic [of _ 1 4], simp_all, rule fl_of_dyadic [of _ 64 0], simp_all,
      rule fl_of_dyadic [of _ 16 0], simp_all, rule fl_of_dyadic [of _ 1 2], simp_all,
      rule fl_of_dyadic [of _ 3 1], simp_all, rule fl_of_dyadic [of _ 12 0], simp_all,
      rule fl_of_dyadic [of _ "- 1" 4], simp_all)

lemmas upper_evals = norm_text_def str_strip_def str_upper_def upper_char_def is_space_def Let_def

lemmas text_evals = upper_evals norm_hash_def str_lower_def lower_char_def is_hex_def is_upper_letter_def

lemma sample_policy:
  "mode \<in> {''PAPER'', ''DEMO''} \<Longrightarrow> policy_reasons (sample_intent mode) (sample_context mode) = []"
  by (auto simp: policy_reasons_Nil symbol_policy_reasons_def validate_symbol_allowed_iff
      EXECUTION_MODES_def EXECUTION_APPROVED_SYMBOLS_BY_MODE_def EXECUTION_APPROVED_SYMBOLS_def
      MANUAL_DEMO_EXECUTION_APPROVED_SYMBOLS_def normalize_symbol_def sample_defs text_evals)

lemma sample_gates:
  "mode \<in> {''PAPER'', ''DEMO''} \<Longrightarrow> list_all (\<lambda>(c, code). \<not> c)
     (risk_gates (sample_intent mode) sample_broker (sample_context mode) (Fin 0) (Fin 64))"
  by (auto simp: risk_gates_def identity_gates_def session_gates_def loss_gates_def market_gates_def
      sample_defs risk_constants sample_floats sample_dyadic expected_broker_environment_def Let_def dt_sub_def
      seconds_def daily_loss_def weekly_loss_def spread_median_limit_def slippage_limit_def
      dt_lt_def dt_le_def)

lemma sample_text:
  "require_text ''symbol'' ''EURUSD'' True = Inr ''EURUSD''" "is_xau ''EURUSD'' = False"
  "require_currency ''account_currency'' ''USD'' = Inr ''USD''"
  by (simp_all add: text_evals require_text_def require_currency_def is_xau_def str_startswith_def
      str_contains_code)

lemma sample_steps:
  "fl_div (fl_sub (rc_high_water_equity (sample_context mode)) (rc_equity (sample_context mode)))
     (rc_high_water_equity (sample_context mode)) = Inr (Fin 0)"
  "fl_div (stop_distance (sample_intent mode)) (bs_point sample_broker) = Inr (Fin 64)"
  "absolute_risk_cap_usd (ti_symbol (sample_intent mode)) = Inr (Fin (1 / 4))"
  "resolve_risk_cap_conversion sample_broker (sample_context mode) reasons =
     Inr (Fin 1, IDENTITY_CONVERSION_SHA256, reasons)"
  "fl_min (fl_mul RISK_PERCENT_CAP (rc_equity (sample_context mode))) (Fin (1 / 4)) = Fin (1 / 4)"
  "fl_mul (Fin (1 / 4)) (Fin 1) = Fin (1 / 4)"
  "fl_div (fl_add (stop_distance (sample_intent mode))
     (fl_mul (slippage_limit (sample_context mode) (Fin 64)) (bs_point sample_broker)))
     (bs_tick_size sample_broker) = Inr (Fin 64)"
  "fl_mul (Fin 64) (bs_tick_value sample_broker) = Fin 16"
  by (simp_all add: sample_defs sample_text resolve_risk_cap_conversion_def absolute_risk_cap_usd_def
      risk_constants sample_floats sample_dyadic slippage_limit_def stop_distance_def)

definition sample_risk_decision :: "string \<Rightarrow> string list \<Rightarrow> RiskDecision" where
  "sample_risk_decision mode reasons =
     risk_decision_of (sample_intent mode) sample_broker (sample_context mode) reasons
       (Fin (1 / 4)) (fl_of_rat (1 / 100)) (Fin (5764607523034235 / 36028797018963968)) (Fin 64)
       (Fin (1 / 4)) (Fin 1) IDENTITY_CONVERSION_SHA256"

lemma sample_sizing_gates:
  "append_reasons reasons
     (sizing_gates (sample_intent mode) sample_broker (sample_context mode) (Fin (1 / 4))
        (fl_of_rat (1 / 100)) (Fin (5764607523034235 / 36028797018963968))) = reasons"
  by (rule append_reasons_clear)
    (simp add: sizing_gates_def sample_defs risk_constants sample_floats cash_tolerance_def)

lemma sample_decision_init:
  assumes "list_all (\<lambda>r. str_strip r \<noteq> [] \<and> norm_text True r = r) reasons"
  shows "RiskDecision_init True (sample_risk_decision mode reasons) = Inr (sample_risk_decision mode reasons)"
proof -
  have "err_of (require_hash ''conversion_quote_sha256'' IDENTITY_CONVERSION_SHA256 64) = None"
    "norm_hash IDENTITY_CONVERSION_SHA256 = IDENTITY_CONVERSION_SHA256"
    "err_of (require_text ''symbol'' ''EURUSD'' True) = None" "norm_text True ''EURUSD'' = ''EURUSD''"
    "err_of (require_currency ''account_currency'' ''USD'') = None" "norm_text True ''USD'' = ''USD''"
    by (simp_all add: IDENTITY_CONVERSION_SHA256_def require_hash_hex norm_hash_hex list.pred_set is_hex_lower_def)
      (simp_all add: require_text_def require_currency_def text_evals)
  moreover have "map (norm_text True) (reason_set reasons) = reason_set reasons"
    using assms by (auto simp: list.pred_set intro: map_idI)
  moreover have "list_all (\<lambda>c. c = None)
      (map (\<lambda>r. err_of (require_text ''reason code'' r True)) (reason_set reasons))"
    using assms by (auto simp: list.pred_set res_simps)
  ultimately show ?thesis
    by (simp add: RiskDecision_init_def checked_Inr_iff sample_risk_decision_def risk_decision_of_def
        decision_reason_checks_def decision_number_checks_def normalize_symbols_checks_def
        normalize_symbols_def Let_def sample_defs risk_constants sample_floats sample_dyadic cash_tolerance_def
        spread_limit_def spread_median_limit_def slippage_limit_def
        require_finite.simps require_int.simps finite_bounds_def require_utc_def utc_at_def dt_add_def)
qed

lemma sample_evaluation:
  assumes "append_reasons (policy_reasons (sample_intent mode) (sample_context mode))
      (risk_gates (sample_intent mode) sample_broker (sample_context mode) (Fin 0) (Fin 64)) = reasons"
    and "list_all (\<lambda>r. str_strip r \<noteq> [] \<and> norm_text True r = r) reasons"
  shows "evaluate_risk (sample_intent mode) sample_broker (sample_context mode)
    = Inr (sample_risk_decision mode reasons)"
  using assms(1) sample_decision_init [OF assms(2)]
  by (simp add: evaluate_risk_def sample_steps sample_dyadic sample_size sample_sizing_gates Let_def
      risk_gates_def sample_risk_decision_def)

lemma sample_risk:
  "mode \<in> {''PAPER'', ''DEMO''} \<Longrightarrow>
     evaluate_risk (sample_intent mode) sample_broker (sample_context mode) = Inr (sample_risk_decision mode [])"
  by (rule sample_evaluation) (use sample_policy sample_gates in simp_all)

lemma sample_risk_live:
  "evaluate_risk (sample_intent ''LIVE'') sample_broker (sample_context ''LIVE'')
     = Inr (sample_risk_decision ''LIVE''
         [''SYMBOL_NOT_EXECUTION_APPROVED'', ''LIVE_MODE_LOCKED'', ''BROKER_ENVIRONMENT_MISMATCH''])"
proof (rule sample_evaluation)
  have "policy_reasons (sample_intent ''LIVE'') (sample_context ''LIVE'')
      = [''SYMBOL_NOT_EXECUTION_APPROVED'', ''LIVE_MODE_LOCKED'']"
    by (simp add: policy_reasons_def symbol_policy_reasons_def validate_symbol_allowed_iff
      EXECUTION_MODES_def EXECUTION_APPROVED_SYMBOLS_BY_MODE_def LIVE_CANARY_EXECUTION_APPROVED_SYMBOLS_def
      EXECUTION_BLOCKED_SYMBOLS_def SHADOW_ONLY_SYMBOLS_def execution_mode_policy_decision_def LIVE_ALLOWED_def
      normalize_symbol_def sample_defs append_reason_def text_evals)
  then show "append_reasons (policy_reasons (sample_intent ''LIVE'') (sample_context ''LIVE''))
      (risk_gates (sample_intent ''LIVE'') sample_broker (sample_context ''LIVE'') (Fin 0) (Fin 64))
      = [''SYMBOL_NOT_EXECUTION_APPROVED'', ''LIVE_MODE_LOCKED'', ''BROKER_ENVIRONMENT_MISMATCH'']"
    by (simp add: risk_gates_def identity_gates_def session_gates_def loss_gates_def market_gates_def
      sample_defs risk_constants sample_floats sample_dyadic expected_broker_environment_def Let_def dt_sub_def
      seconds_def daily_loss_def weekly_loss_def spread_median_limit_def slippage_limit_def
      dt_lt_def dt_le_def append_reason_def)
qed (simp add: text_evals)

section \<open>Properties\<close>

lemma policy_reasons_mode:
  "\<not> fst (execution_mode_policy_decision (ti_mode intent)) \<Longrightarrow>
   set (snd (execution_mode_policy_decision (ti_mode intent))) \<subseteq> set (policy_reasons intent context)"
  by (cases "execution_mode_policy_decision (ti_mode intent)")
    (simp add: policy_reasons_def Let_def set_append_reason subset_iff)

lemma norm_text_reason_mem:
  "code \<in> set codes \<Longrightarrow> norm_text True code = code \<Longrightarrow> code \<in> set (reason_set (map (norm_text True) codes))"
  by force

lemma decision_of_reasons:
  assumes "evaluate_risk intent broker context = Inr d"
    and "code \<in> set (policy_reasons intent context)" and "norm_text True code = code"
  shows "code \<in> set (rd_reason_codes d)"
proof (rule evaluate_risk_cases [OF assms(1)])
  fix drawdown stop_points cap_usd rate quote_sha reasons1 ticks lot risk reasons2
  let ?cash = "fl_min (fl_mul RISK_PERCENT_CAP (rc_equity context)) (fl_mul cap_usd rate)"
  assume "resolve_risk_cap_conversion broker context
       (append_reasons (policy_reasons intent context)
          (risk_gates intent broker context drawdown stop_points)) = Inr (rate, quote_sha, reasons1)"
    and "size_lot intent broker ?cash (fl_mul ticks (bs_tick_value broker)) reasons1
       = Inr (lot, risk, reasons2)"
    and init: "RiskDecision_init True (risk_decision_of intent broker context
       (append_reasons reasons2 (sizing_gates intent broker context ?cash lot risk))
       ?cash lot risk stop_points cap_usd rate quote_sha) = Inr d"
  then have "code \<in> set reasons2"
    using assms(2) resolve_conversion_reasons size_lot_le_max(2) by (fastforce simp: reason_simps)
  then have "code \<in> set (reason_set (append_reasons reasons2
      (sizing_gates intent broker context ?cash lot risk)))" by (simp add: reason_simps)
  from norm_text_reason_mem [OF this assms(3)] RiskDecision_init_facts(4) [OF init]
  show ?thesis by (simp only: risk_decision_of_def Let_def RiskDecision.simps)
qed

text \<open>The limits of the policy, in figures.\<close>

definition symbol_in_scope :: "TradeIntent \<Rightarrow> bool" where
  "symbol_in_scope intent =
     (let mode = str_upper (str_strip (ti_mode intent)); symbol = str_upper (str_strip (ti_symbol intent)) in
      mode \<in> {''DRY_RUN'', ''PAPER''} \<and> symbol = ''EURUSD'' \<or> mode = ''DEMO'' \<and> symbol \<in> {''EURUSD'', ''XAUUSD''})"

definition lane_agrees :: "TradeIntent \<Rightarrow> BrokerSpec \<Rightarrow> RiskContext \<Rightarrow> bool" where
  "lane_agrees intent broker context =
     (ti_account_id intent = bs_account_id broker \<and> bs_account_id broker = rc_account_id context
      \<and> ti_server intent = bs_server broker \<and> bs_server broker = rc_server context
      \<and> ti_symbol intent = bs_symbol broker \<and> rc_mode context = ti_mode intent \<and> rc_permit_valid context
      \<and> (ti_mode intent = ''DEMO'' \<longrightarrow> bs_environment broker = ''DEMO'')
      \<and> 0 \<le> dt_sub (rc_evaluated_at context) (bs_captured_at broker)
      \<and> dt_sub (rc_evaluated_at context) (bs_captured_at broker) \<le> seconds 1)"

definition session_open :: "TradeIntent \<Rightarrow> RiskContext \<Rightarrow> bool" where
  "session_open intent context =
     (rc_news_clear context \<and> rc_rollover_clear context
      \<and> rc_data_fresh context \<and> ds_data_fresh (ti_decision intent)
      \<and> rc_source_aligned context \<and> ds_source_aligned (ti_decision intent)
      \<and> dt_le (ti_created_at intent) (rc_evaluated_at context) \<and> dt_lt (rc_evaluated_at context) (ti_expires_at intent)
      \<and> rc_open_position_count context < 1 \<and> rc_entries_today context < 4)"

definition losses_within :: "TradeIntent \<Rightarrow> RiskContext \<Rightarrow> bool" where
  "losses_within intent context =
     (\<not> fl_le (fl_mul (fl_of_rat (1 / 100)) (rc_daily_start_equity context))
          (fl_max (fl_neg (rc_daily_pnl_cash context)) (fl_sub (rc_daily_start_equity context) (rc_equity context)))
      \<and> \<not> fl_le (fl_mul (fl_of_rat (25 / 1000)) (rc_weekly_start_equity context))
          (fl_max (fl_neg (rc_weekly_pnl_cash context)) (fl_sub (rc_weekly_start_equity context) (rc_equity context)))
      \<and> (\<exists>drawdown. fl_div (fl_sub (rc_high_water_equity context) (rc_equity context)) (rc_high_water_equity context)
             = Inr drawdown \<and> \<not> fl_le (fl_of_rat (5 / 100)) drawdown)
      \<and> \<not> rc_loss_latch_active context \<and> rc_consecutive_losses context < 2
      \<and> \<not> (str_contains ''USD'' (str_upper (ti_symbol intent))
            \<and> (\<exists>reserved \<in> set (rc_reserved_symbols context). str_contains ''USD'' (str_upper reserved))))"

definition stop_slippage_cap :: "RiskContext \<Rightarrow> pyfloat \<Rightarrow> pyfloat" where
  "stop_slippage_cap context stop_points =
     fl_min (rc_p95_slippage_points context) (fl_mul (fl_of_rat (10 / 100)) stop_points)"

definition market_within :: "TradeIntent \<Rightarrow> BrokerSpec \<Rightarrow> RiskContext \<Rightarrow> bool" where
  "market_within intent broker context =
     (\<exists>stop_points. fl_div (stop_distance intent) (bs_point broker) = Inr stop_points
      \<and> \<not> fl_le (rc_p95_spread_points context) (rc_current_spread_points context)
      \<and> \<not> fl_lt (fl_mul (fl_of_rat (15 / 10)) (rc_median_spread_points context)) (rc_current_spread_points context)
      \<and> \<not> fl_lt stop_points (Fin (of_int (max (bs_stops_level_points broker) (bs_freeze_level_points broker))))
      \<and> \<not> fl_lt (stop_slippage_cap context stop_points) (rc_estimated_slippage_points context))"

text \<open>The cap in USD, and the rate that turns it into the account's currency.\<close>

definition usd_cap :: "string \<Rightarrow> pyfloat" where
  "usd_cap symbol =
     (if str_startswith (str_upper (str_strip symbol)) ''XAU'' \<or> str_contains ''GOLD'' (str_upper (str_strip symbol))
      then fl_of_rat (20 / 100) else fl_of_rat (25 / 100))"

definition conversion_within :: "BrokerSpec \<Rightarrow> RiskContext \<Rightarrow> pyfloat \<Rightarrow> bool" where
  "conversion_within broker context rate =
     (let currency = str_upper (str_strip (bs_account_currency broker)) in
      case rc_usd_risk_cap_conversion context of
        None \<Rightarrow> currency = ''USD'' \<and> rate = Fin 1
      | Some c \<Rightarrow> rate = uc_account_currency_per_usd c
          \<and> uc_account_id c = bs_account_id broker \<and> uc_server c = bs_server broker \<and> uc_account_currency c = currency
          \<and> (currency = ''USD'' \<longrightarrow> uc_source c = ''ACCOUNT_CURRENCY_IDENTITY'' \<and> uc_direction c = ''IDENTITY''
                \<and> fl_eq rate (Fin 1))
          \<and> (currency \<noteq> ''USD'' \<longrightarrow> uc_source c = ''MT5_BID_ASK'' \<and> uc_direction c \<in> {''DIRECT'', ''INVERSE''})
          \<and> 0 \<le> dt_sub (rc_evaluated_at context) (uc_captured_at_utc c)
          \<and> dt_sub (rc_evaluated_at context) (uc_captured_at_utc c) \<le> seconds 1)"

text \<open>
  The lot is the requested one, on the broker's side of the limits, and its risk is what the stop, worsened by the admitted
  slippage, costs.
\<close>

definition size_within :: "TradeIntent \<Rightarrow> BrokerSpec \<Rightarrow> RiskContext \<Rightarrow> RiskDecision \<Rightarrow> bool" where
  "size_within intent broker context d =
     (\<not> fl_lt (rd_normalized_lot d) (bs_volume_min broker)
      \<and> \<not> fl_lt (fl_of_rat (1 / 100)) (rd_normalized_lot d) \<and> \<not> fl_lt (fl_of_rat (1 / 100)) (ti_requested_lot intent)
      \<and> (fl_lt (Fin 0) (rd_normalized_lot d) \<longrightarrow>
           \<not> fl_lt (fl_of_rat (1 / 10 ^ 12)) (fl_abs (fl_sub (rd_normalized_lot d) (ti_requested_lot intent))))
      \<and> \<not> fl_lt (fl_mul (fl_of_rat (25 / 10000)) (rc_equity context)) (rd_max_risk_cash d)
      \<and> (\<exists>rate. conversion_within broker context rate
           \<and> \<not> fl_lt (fl_mul (usd_cap (ti_symbol intent)) rate) (rd_max_risk_cash d))
      \<and> (\<exists>stop_points ticks. fl_div (stop_distance intent) (bs_point broker) = Inr stop_points
           \<and> fl_div (fl_add (stop_distance intent) (fl_mul (stop_slippage_cap context stop_points) (bs_point broker)))
               (bs_tick_size broker) = Inr ticks
           \<and> rd_estimated_risk_cash d = fl_mul (rd_normalized_lot d) (fl_mul ticks (bs_tick_value broker)))
      \<and> \<not> fl_lt (fl_add (rd_max_risk_cash d) (fl_of_rat (1 / 10 ^ 12))) (rd_estimated_risk_cash d)
      \<and> \<not> fl_lt (fl_mul (fl_of_rat (10 / 100)) (rc_equity context))
            (fl_mul (rd_normalized_lot d) (bs_margin_per_lot broker)))"

lemma symbol_in_scope_iff: "policy_reasons intent context = [] \<Longrightarrow> symbol_in_scope intent"
  by (auto simp: policy_reasons_Nil symbol_policy_reasons_def validate_symbol_allowed_iff symbol_in_scope_def Let_def
      normalize_symbol_def EXECUTION_APPROVED_SYMBOLS_BY_MODE_def EXECUTION_APPROVED_SYMBOLS_def
      MANUAL_DEMO_EXECUTION_APPROVED_SYMBOLS_def split: if_splits)

lemma usd_cap_eq: "absolute_risk_cap_usd symbol = Inr cap \<Longrightarrow> cap = usd_cap symbol"
  by (auto simp: absolute_risk_cap_usd_def usd_cap_def is_xau_def res_bind_Inr_iff require_text_Inr norm_text_def
      XAU_ABSOLUTE_RISK_CAP_def FX_ABSOLUTE_RISK_CAP_def)

lemma conversion_within_iff:
  assumes "resolve_risk_cap_conversion broker context [] = Inr (rate, h, [])"
  shows "conversion_within broker context rate"
  using resolve_conversion_clear [OF assms]
  by (auto simp: conversion_within_def conversion_mismatch_def norm_text_def Let_def split: if_splits)

lemma estimated_risk_eq:
  assumes "evaluate_risk intent broker context = Inr d" and "fl_div (stop_distance intent) (bs_point broker) = Inr stop_points"
    and "rd_allowed d"
  shows "\<exists>ticks. fl_div (fl_add (stop_distance intent) (fl_mul (stop_slippage_cap context stop_points) (bs_point broker)))
        (bs_tick_size broker) = Inr ticks
      \<and> rd_estimated_risk_cash d = fl_mul (rd_normalized_lot d) (fl_mul ticks (bs_tick_value broker))"
proof -
  have cap: "slippage_limit context stop_points = stop_slippage_cap context stop_points"
    by (simp add: slippage_limit_def stop_slippage_cap_def MAX_SLIPPAGE_STOP_FRACTION_def)
  obtain ticks cash lot risk reasons1 reasons2 cap_usd rate sha where
    ticks: "fl_div (fl_add (stop_distance intent) (fl_mul (stop_slippage_cap context stop_points) (bs_point broker)))
        (bs_tick_size broker) = Inr ticks"
    and size: "size_lot intent broker cash (fl_mul ticks (bs_tick_value broker)) reasons1 = Inr (lot, risk, reasons2)"
    and init: "RiskDecision_init True (risk_decision_of intent broker context
        (append_reasons reasons2 (sizing_gates intent broker context cash lot risk)) cash lot risk stop_points cap_usd rate sha) = Inr d"
    using assms(1) unfolding evaluate_risk_def by (auto simp: res_bind_Inr_iff Let_def assms(2) cap split: prod.splits)
  note facts = RiskDecision_init_facts [OF init]
  have "reasons2 = []" "rd_normalized_lot d = lot" "rd_estimated_risk_cash d = risk"
    using facts assms(3) by (simp_all add: risk_decision_of_def Let_def)
  with size ticks show ?thesis by (auto simp: size_lot_def res_bind_Inr_iff split: if_splits)
qed

text \<open>
  (C26) A trade the risk governor allows is within every limit of the policy. Its symbol is in the
  scope of its mode: EURUSD in DRY_RUN and PAPER, EURUSD or XAUUSD in DEMO, none in any other mode.
  Intent, broker specification and context name one account, server, symbol and mode, the permit
  is valid, and the specification is at most one second old. The news, rollover, data and source
  gates are clear, the clock is inside the intent's lifetime, no position is open and fewer than
  four entries were made today. The daily loss is under 1 percent, the weekly loss under 2.5
  percent and the drawdown under 5 percent of the respective equities; fewer than two losses in a
  row, no loss latch and no second reserved USD symbol. The spread is under its p95 and at most 1.5
  medians, the stop is no closer than the broker's stop and freeze levels, and the slippage is
  within the smaller of its p95 and a tenth of the stop. The lot is the requested one, at least the
  broker's minimum and at most 0.01; its cap on the risk is at most 0.25 percent of the equity and at
  most 0.20 USD (gold) or 0.25 USD (others) at a bound, fresh conversion rate; its estimated risk,
  which is the lot times the value of the stop worsened by the slippage allowance, is within that cap;
  and its margin is at most a tenth of the equity.
\<close>

theorem risk_allowed_is_safe:
  assumes "evaluate_risk intent broker context = Inr d" and "rd_allowed d"
  shows "symbol_in_scope intent \<and> lane_agrees intent broker context \<and> session_open intent context
    \<and> losses_within intent context \<and> market_within intent broker context \<and> size_within intent broker context d"
proof (rule evaluate_risk_allowed [OF assms])
  fix drawdown stop_points cap_usd rate
  assume drawdown: "fl_div (fl_sub (rc_high_water_equity context) (rc_equity context)) (rc_high_water_equity context) = Inr drawdown"
    and stop: "fl_div (stop_distance intent) (bs_point broker) = Inr stop_points"
    and cap: "absolute_risk_cap_usd (ti_symbol intent) = Inr cap_usd"
    and cash: "rd_max_risk_cash d =
      fl_min (fl_mul RISK_PERCENT_CAP (rc_equity context)) (fl_mul cap_usd rate)"
    and policy: "policy_reasons intent context = []"
    and gates: "list_all (\<lambda>(c, code). \<not> c) (risk_gates intent broker context drawdown stop_points)"
    and sizing: "list_all (\<lambda>(c, code). \<not> c) (sizing_gates intent broker context (rd_max_risk_cash d)
      (rd_normalized_lot d) (rd_estimated_risk_cash d))"
    and lot: "\<not> fl_lt GLOBAL_MAX_LOT (rd_normalized_lot d)"
    and rate: "\<exists>h. resolve_risk_cap_conversion broker context [] = Inr (rate, h, [])"
  note gate_defs = risk_gates_def identity_gates_def session_gates_def loss_gates_def market_gates_def sizing_gates_def Let_def
  show ?thesis
  proof (intro conjI)
    show "symbol_in_scope intent" by (rule symbol_in_scope_iff [OF policy])
    show "lane_agrees intent broker context" using policy gates
      by (auto simp: lane_agrees_def policy_reasons_Nil gate_defs MAX_BROKER_SPEC_AGE_SECONDS_def expected_broker_environment_def seconds_def)
    show "session_open intent context" using gates
      by (simp add: session_open_def gate_defs MAX_OPEN_POSITIONS_def MAX_ENTRIES_PER_DAY_def dt_le_def dt_lt_def not_le not_less)
    show "losses_within intent context" using gates drawdown
      by (auto simp: losses_within_def gate_defs DAILY_LOSS_LIMIT_def WEEKLY_LOSS_LIMIT_def DRAWDOWN_LIMIT_def LOSS_LATCH_COUNT_def
          daily_loss_def weekly_loss_def uses_usd_def list_ex_iff)
    show "market_within intent broker context" using gates stop
      by (auto simp: market_within_def gate_defs spread_median_limit_def SPREAD_MEDIAN_MULTIPLIER_def slippage_limit_def
          stop_slippage_cap_def MAX_SLIPPAGE_STOP_FRACTION_def)
    have "\<not> fl_lt (fl_mul RISK_PERCENT_CAP (rc_equity context)) (rd_max_risk_cash d)"
      "\<not> fl_lt (fl_mul (usd_cap (ti_symbol intent)) rate) (rd_max_risk_cash d)"
      unfolding cash usd_cap_eq [OF cap, symmetric] by (simp_all add: fl_min_def fl_lt_asym)
    moreover have "conversion_within broker context rate" using rate conversion_within_iff by blast
    ultimately show "size_within intent broker context d"
      using gates sizing lot stop estimated_risk_eq [OF assms(1) stop assms(2)]
      by (auto simp: size_within_def gate_defs GLOBAL_MAX_LOT_def RISK_PERCENT_CAP_def MAX_MARGIN_FRACTION_def cash_tolerance_def)
  qed
qed

theorem risk_allowed_is_safe_witness:
  "losses_within (sample_intent ''DEMO'') (sample_context ''DEMO'')
   \<and> market_within (sample_intent ''DEMO'') sample_broker (sample_context ''DEMO'')
   \<and> size_within (sample_intent ''DEMO'') sample_broker (sample_context ''DEMO'') (sample_risk_decision ''DEMO'' [])"
proof -
  have "rd_allowed (sample_risk_decision ''DEMO'' [])"
    by (simp add: sample_risk_decision_def risk_decision_of_def Let_def)
  then show ?thesis using risk_allowed_is_safe [OF sample_risk [of "''DEMO''"]] by blast
qed

text \<open>
  (C27) The release locks hold through the governor: an intent in LIVE or DEMO_AUTO mode is never
  allowed, whatever the broker and account facts are, and its decision names the lock.
\<close>

theorem risk_locked_modes:
  assumes "evaluate_risk intent broker context = Inr d"
    and "str_upper (str_strip (ti_mode intent)) \<in> {''LIVE'', ''DEMO_AUTO''}"
  shows "\<not> rd_allowed d \<and> (''LIVE_MODE_LOCKED'' \<in> set (rd_reason_codes d)
    \<or> ''DEMO_AUTO_ORDER_LOCKED'' \<in> set (rd_reason_codes d))"
proof -
  have "\<not> rd_allowed d"
  proof
    assume "rd_allowed d"
    then have "policy_reasons intent context = []"
      by (rule evaluate_risk_allowed [OF assms(1)])
    with assms(2) show False by (auto simp: policy_reasons_Nil)
  qed
  moreover have "''LIVE_MODE_LOCKED'' \<in> set (policy_reasons intent context)
      \<or> ''DEMO_AUTO_ORDER_LOCKED'' \<in> set (policy_reasons intent context)"
    using policy_reasons_mode [of intent] locked_mode_policy [of "ti_mode intent"] assms(2) by fastforce
  moreover have "norm_text True ''LIVE_MODE_LOCKED'' = ''LIVE_MODE_LOCKED''"
    "norm_text True ''DEMO_AUTO_ORDER_LOCKED'' = ''DEMO_AUTO_ORDER_LOCKED''"
    by (simp_all add: text_evals)
  ultimately show ?thesis using decision_of_reasons [OF assms(1)] by blast
qed

theorem risk_locked_modes_witness:
  "\<not> rd_allowed (sample_risk_decision ''LIVE''
     [''SYMBOL_NOT_EXECUTION_APPROVED'', ''LIVE_MODE_LOCKED'', ''BROKER_ENVIRONMENT_MISMATCH''])"
  using risk_locked_modes [OF sample_risk_live] by (simp add: sample_intent_def text_evals)

text \<open>
  The lot the governor sizes never exceeds the global maximum of 0.01, whatever the
  requested limit and the broker's grid are, and a limit below the broker's minimum sizes to zero.
\<close>

theorem volume_floor_bounded:
  assumes "volume_floor limit broker = Inr v"
  shows "\<not> fl_lt (fl_of_rat (1 / 100)) v
    \<and> (\<forall>q. fl_min (fl_min limit (bs_volume_max broker)) GLOBAL_MAX_LOT = Fin q
          \<and> dec_of_float q < dec_str (bs_volume_min broker) \<longrightarrow> v = Fin 0)"
  using volume_floor_le_max [OF assms] assms by (auto simp: GLOBAL_MAX_LOT_def volume_floor_def Let_def)

theorem volume_floor_bounded_witness:
  "\<not> fl_lt (fl_of_rat (1 / 100)) (fl_of_rat (1 / 100 :: rat)) \<and>
   volume_floor (fl_of_rat (1 / 100)) sample_broker = Inr (fl_of_rat (1 / 100))"
  using volume_floor_bounded [OF sample_volume] sample_volume by simp

definition gate_codes :: "string list" where
  "gate_codes =
     [''SYMBOL_BLOCKED'', ''SYMBOL_SHADOW_ONLY'', ''SYMBOL_NOT_EXECUTION_APPROVED'', ''MODE_MISMATCH'',
      ''EXECUTION_MODE_UNSUPPORTED'', ''LIVE_MODE_LOCKED'', ''DEMO_AUTO_ORDER_LOCKED'', ''PERMIT_INVALID'',
      ''ACCOUNT_MISMATCH'', ''SERVER_MISMATCH'', ''BROKER_SYMBOL_MISMATCH'', ''BROKER_SPEC_FUTURE'',
      ''BROKER_SPEC_STALE'', ''BROKER_ENVIRONMENT_MISMATCH'', ''NEWS_WINDOW_BLOCKED'',
      ''ROLLOVER_WINDOW_BLOCKED'', ''DATA_NOT_FRESH'', ''SOURCE_NOT_ALIGNED'', ''CLOCK_BEFORE_INTENT'',
      ''INTENT_EXPIRED'', ''GLOBAL_POSITION_LIMIT'', ''DAILY_ENTRY_LIMIT'', ''DAILY_LOSS_LIMIT'',
      ''WEEKLY_LOSS_LIMIT'', ''DRAWDOWN_LIMIT'', ''LOSS_LATCH_ACTIVE'', ''USD_CORRELATION_LIMIT'',
      ''LOT_ABOVE_GLOBAL_MAX'', ''SPREAD_ABOVE_P95'', ''SPREAD_ABOVE_MEDIAN_MULTIPLE'',
      ''STOP_DISTANCE_BELOW_BROKER_MINIMUM'', ''SLIPPAGE_LIMIT'', ''USD_RISK_CAP_CONVERSION_UNAVAILABLE'',
      ''USD_RISK_CAP_CONVERSION_MISMATCH'', ''USD_RISK_CAP_CONVERSION_FUTURE'',
      ''USD_RISK_CAP_CONVERSION_STALE'', ''INVALID_RISK_GEOMETRY'', ''RISK_CAP_BELOW_BROKER_MIN_LOT'',
      ''INTENT_LOT_NOT_RISK_SIZED'', ''MARGIN_LIMIT'']"

lemma gate_codes_norm: "list_all (\<lambda>c. norm_text True c = c) gate_codes"
  by (simp add: gate_codes_def text_evals)

lemma cap_code_not_gate: "''RISK_CAP_EXCEEDED'' \<notin> set gate_codes"
  by (simp add: gate_codes_def)

lemma symbol_policy_codes: "set (symbol_policy_reasons intent) \<subseteq> set gate_codes"
  by (simp add: symbol_policy_reasons_def gate_codes_def)

lemma mode_policy_codes: "set (snd (execution_mode_policy_decision mode)) \<subseteq> set gate_codes"
  by (simp add: execution_mode_policy_decision_def Let_def gate_codes_def)

lemma policy_codes: "set (policy_reasons intent context) \<subseteq> set gate_codes"
proof -
  have "''MODE_MISMATCH'' \<in> set gate_codes" "''PERMIT_INVALID'' \<in> set gate_codes"
    by (simp_all add: gate_codes_def)
  then show ?thesis
    using symbol_policy_codes [of intent] mode_policy_codes [of "ti_mode intent"]
    by (cases "execution_mode_policy_decision (ti_mode intent)")
      (auto simp: policy_reasons_def Let_def set_append_reason)
qed

lemma risk_gates_codes:
  "set (map snd (risk_gates intent broker context drawdown stop_points)) \<subseteq> set gate_codes"
  by (simp add: risk_gates_def identity_gates_def session_gates_def loss_gates_def market_gates_def
      Let_def gate_codes_def)

lemma append_reasons_codes: "set (append_reasons reasons cs) \<subseteq> set reasons \<union> set (map snd cs)"
  by (force simp: set_append_reasons)

lemma conversion_codes:
  assumes "resolve_risk_cap_conversion broker context reasons = Inr (rate, h, reasons')"
  shows "set reasons' \<subseteq> set reasons \<union> set gate_codes"
proof -
  have "''USD_RISK_CAP_CONVERSION_UNAVAILABLE'' \<in> set gate_codes"
    "''USD_RISK_CAP_CONVERSION_MISMATCH'' \<in> set gate_codes"
    "''USD_RISK_CAP_CONVERSION_FUTURE'' \<in> set gate_codes"
    "''USD_RISK_CAP_CONVERSION_STALE'' \<in> set gate_codes" by (simp_all add: gate_codes_def)
  with assms show ?thesis
    by (auto simp: resolve_risk_cap_conversion_def res_bind_Inr_iff Let_def set_append_reason
        split: option.splits if_splits)
qed

lemma size_lot_codes:
  assumes "size_lot intent broker cash per_lot reasons = Inr (lot, risk, reasons')"
  shows "set reasons' \<subseteq> set reasons \<union> {''INVALID_RISK_GEOMETRY''}"
  using assms by (auto simp: size_lot_def res_bind_Inr_iff split: if_splits)

lemma sizing_codes:
  "''INVALID_RISK_GEOMETRY'' \<in> set gate_codes" "''RISK_CAP_BELOW_BROKER_MIN_LOT'' \<in> set gate_codes"
  "''INTENT_LOT_NOT_RISK_SIZED'' \<in> set gate_codes" "''MARGIN_LIMIT'' \<in> set gate_codes"
  by (simp_all add: gate_codes_def)

text \<open>
  The reason code RISK_CAP_EXCEEDED is never part of a returned decision: the constructor of
  the decision raises on the condition that would append it.
\<close>

theorem risk_cap_exceeded_never_reported:
  assumes "evaluate_risk intent broker context = Inr d"
  shows "''RISK_CAP_EXCEEDED'' \<notin> set (rd_reason_codes d)"
proof (rule evaluate_risk_cases [OF assms])
  fix drawdown stop_points cap_usd rate quote_sha reasons1 ticks lot risk reasons2
  let ?cash = "fl_min (fl_mul RISK_PERCENT_CAP (rc_equity context)) (fl_mul cap_usd rate)"
  let ?reasons = "append_reasons reasons2 (sizing_gates intent broker context ?cash lot risk)"
  assume conv: "resolve_risk_cap_conversion broker context
       (append_reasons (policy_reasons intent context)
          (risk_gates intent broker context drawdown stop_points)) = Inr (rate, quote_sha, reasons1)"
    and size: "size_lot intent broker ?cash (fl_mul ticks (bs_tick_value broker)) reasons1
       = Inr (lot, risk, reasons2)"
    and init: "RiskDecision_init True (risk_decision_of intent broker context ?reasons
       ?cash lot risk stop_points cap_usd rate quote_sha) = Inr d"
  have "set (append_reasons (policy_reasons intent context)
      (risk_gates intent broker context drawdown stop_points)) \<subseteq> set gate_codes"
    using append_reasons_codes policy_codes risk_gates_codes by (meson Un_least subset_trans)
  then have "set reasons2 \<subseteq> set gate_codes"
    using conversion_codes [OF conv] size_lot_codes [OF size] sizing_codes(1) by blast
  moreover have "\<not> fl_lt (fl_add ?cash cash_tolerance) risk"
    using RiskDecision_init_facts(10) [OF init] by (simp add: risk_decision_of_def Let_def)
  ultimately have "set ?reasons \<subseteq> set gate_codes"
    using sizing_codes by (auto simp: set_append_reason sizing_gates_def split: if_splits)
  then have "set (map (norm_text True) (reason_set ?reasons)) \<subseteq> set gate_codes"
    using gate_codes_norm by (auto simp: list.pred_set)
  then show ?thesis
    using RiskDecision_init_facts(4) [OF init] cap_code_not_gate
    by (auto simp: risk_decision_of_def Let_def)
qed

theorem risk_cap_exceeded_never_reported_witness:
  "''RISK_CAP_EXCEEDED'' \<notin> set (rd_reason_codes (sample_risk_decision ''LIVE''
     [''SYMBOL_NOT_EXECUTION_APPROVED'', ''LIVE_MODE_LOCKED'', ''BROKER_ENVIRONMENT_MISMATCH'']))"
  by (rule risk_cap_exceeded_never_reported [OF sample_risk_live])

section \<open>The governor as a reason gate\<close>

lemma evaluate_risk_reasons:
  assumes "evaluate_risk intent broker context = Inr d"
  shows "rd_allowed d \<longleftrightarrow> rd_reason_codes d = []" "\<exists>codes. rd_reason_codes d = reason_set codes"
proof -
  obtain d0 where init: "RiskDecision_init True d0 = Inr d"
    using assms by (rule evaluate_risk_cases)
  show "rd_allowed d \<longleftrightarrow> rd_reason_codes d = []" "\<exists>codes. rd_reason_codes d = reason_set codes"
    using RiskDecision_init_facts(2-4) [OF init] by auto
qed

interpretation governor: reason_gate "\<lambda>(intent, broker, context). evaluate_risk intent broker context"
  rd_allowed rd_reason_codes
proof unfold_locales
  fix i d assume "(\<lambda>(intent, broker, context). evaluate_risk intent broker context) i = Inr d"
  then obtain intent broker ctx where r: "evaluate_risk intent broker ctx = Inr d" by (cases i) auto
  show "rd_allowed d \<longleftrightarrow> rd_reason_codes d = []" by (rule evaluate_risk_reasons(1) [OF r])
  show "sorted (rd_reason_codes d) \<and> distinct (rd_reason_codes d)" using evaluate_risk_reasons(2) [OF r] by auto
qed

text \<open>
  A refusal of the governor names at least one reason, an approval
  none, and the codes are sorted without repetition, so equal sets of reasons are published as
  the same list.
\<close>

theorem risk_refusal_explained:
  assumes "evaluate_risk intent broker context = Inr d"
  shows "(\<not> rd_allowed d \<longrightarrow> (\<exists>code. code \<in> set (rd_reason_codes d)))
    \<and> (rd_allowed d \<longrightarrow> rd_reason_codes d = []) \<and> sorted (rd_reason_codes d) \<and> distinct (rd_reason_codes d)"
  using governor.refusal_explained [of "(intent, broker, context)" d] governor.verdict_iff [of "(intent, broker, context)" d]
    governor.reasons_canonical [of "(intent, broker, context)" d] assms by auto

theorem risk_refusal_explained_witness:
  "\<exists>code. code \<in> set (rd_reason_codes (sample_risk_decision ''LIVE''
     [''SYMBOL_NOT_EXECUTION_APPROVED'', ''LIVE_MODE_LOCKED'', ''BROKER_ENVIRONMENT_MISMATCH'']))"
  using risk_refusal_explained [OF sample_risk_live]
  by (simp add: sample_risk_decision_def risk_decision_of_def)

end
