(* ===== verification/Permit_Safety.thy ===== *)
theory Permit_Safety
  imports Permit Risk_Safety Interfaces
begin

text \<open>
  What permits guarantee: signing and verifying round-trip, a permit is valid exactly when its
  signature, window and bindings hold and never unlocks execution, and a kill-switch reset needs
  two approvers with independent keys and secrets.
\<close>

section \<open>Permits as signed records\<close>

interpretation permit_signing: signed_artifact PromotionPermit_init permit_signing_payload pp_signature
  "\<lambda>s p. p\<lparr>pp_signature := s\<rparr>" permit_sign permit_verify_signature "\<lambda>p. True"
proof unfold_locales
  fix p p' :: PromotionPermit and k m
  show "permit_sign p k = Inr p' \<Longrightarrow> 32 \<le> length k \<and>
      PromotionPermit_init (p\<lparr>pp_signature := hmac_sha256_hex k (permit_signing_payload p)\<rparr>) = Inr p'"
    using permit_sign_cases [of p k p'] by (auto simp: secret_bytes_def split: if_splits)
  show "permit_verify_signature p k = Inr (pp_signature p = hmac_sha256_hex k (permit_signing_payload p))"
    if "32 \<le> length k"
    using that hmac_nonempty [THEN not_sym] by (auto simp: permit_verify_signature_def secret_bytes_def)
  assume "PromotionPermit_init p = Inr p" "PromotionPermit_init (p\<lparr>pp_signature := hmac_sha256_hex k m\<rparr>) = Inr p'"
  then show "permit_signing_payload p' = permit_signing_payload p \<and> pp_signature p' = hmac_sha256_hex k m
      \<and> (True \<longrightarrow> True)"
    by (simp add: permit_init_payload)
qed

lemmas permit_sign_verify = permit_signing.roundtrip [OF _ TrueI, folded permit_built_def]
lemmas permit_sign_same_payload = permit_signing.sign_keeps_payload [folded permit_built_def]

section \<open>Sample permits\<close>

definition sample_secret :: string where
  "sample_secret = replicate 32 CHR ''s''"

definition sample_permit :: PromotionPermit where
  "sample_permit =
     \<lparr>pp_mode = ''PAPER'', pp_account_alias_sha256 = sha256_hex ''desk'', pp_server = ''srv'',
      pp_symbols = [''EURUSD''], pp_commit_sha = sample_hash, pp_config_sha256 = sample_hash,
      pp_model_artifact_sha256 = sample_hash, pp_issued_at = sample_bar,
      pp_expires_at = dt_add sample_bar (minutes 4), pp_nonce = ''n1'', pp_journal_sha256 = sample_hash,
      pp_promotion_evidence_sha256 = NO_SHA256, pp_signature = [], pp_live_allowed = False,
      pp_safe_to_demo_auto_order = False, pp_schema_version = ''1.0''\<rparr>"

definition sample_signed :: PromotionPermit where
  "sample_signed = sample_permit
     \<lparr>pp_signature := hmac_sha256_hex sample_secret (permit_signing_payload sample_permit)\<rparr>"

definition sample_expectation :: PermitExpectation where
  "sample_expectation =
     \<lparr>px_now = dt_add sample_bar (minutes 1), px_mode = ''PAPER'', px_account_alias = ''desk'',
      px_server = ''srv'', px_symbols = [''EURUSD''], px_commit_sha = sample_hash,
      px_config_sha256 = sample_hash, px_model_artifact_sha256 = sample_hash,
      px_journal_sha256 = Some sample_hash, px_promotion_evidence_sha256 = None\<rparr>"

lemma sample_hash_facts [simp]:
  "norm_hash sample_hash = sample_hash" "sample_hash \<noteq> []" "n \<le> 64 \<Longrightarrow> require_hash name sample_hash n = Inr sample_hash"
  "norm_hash NO_SHA256 = NO_SHA256" "n \<le> 64 \<Longrightarrow> require_hash name NO_SHA256 n = Inr NO_SHA256"
  "sample_hash \<noteq> NO_SHA256"
proof -
  have "list_all is_hex_lower sample_hash" "list_all is_hex_lower NO_SHA256"
    by (simp_all add: sample_hash_def NO_SHA256_def list.pred_set is_hex_lower_def)
  then show "norm_hash sample_hash = sample_hash" "sample_hash \<noteq> []"
    "n \<le> 64 \<Longrightarrow> require_hash name sample_hash n = Inr sample_hash"
    "norm_hash NO_SHA256 = NO_SHA256" "n \<le> 64 \<Longrightarrow> require_hash name NO_SHA256 n = Inr NO_SHA256"
    by (simp_all add: norm_hash_hex require_hash_hex) (simp_all add: sample_hash_def NO_SHA256_def
        require_hash_hex list.pred_set is_hex_lower_def)
  show "sample_hash \<noteq> NO_SHA256" by (simp add: sample_hash_def NO_SHA256_def)
qed

lemma require_hash_digest [simp]:
  "n \<le> 64 \<Longrightarrow> require_hash name (sha256_hex m) n = Inr (sha256_hex m)"
  "n \<le> 64 \<Longrightarrow> require_hash name (hmac_sha256_hex k m) n = Inr (hmac_sha256_hex k m)"
proof -
  have "sha256_hex m \<noteq> []" using length_sha256_hex [of m] by (metis list.size(3) zero_neq_numeral)
  then show "n \<le> 64 \<Longrightarrow> require_hash name (sha256_hex m) n = Inr (sha256_hex m)"
    "n \<le> 64 \<Longrightarrow> require_hash name (hmac_sha256_hex k m) n = Inr (hmac_sha256_hex k m)"
    by (simp_all add: require_hash_hex)
qed

lemma sample_permit_built: "permit_built sample_permit"
  by (simp add: permit_built_def PromotionPermit_init_def sample_permit_def checked_def raise_if_def Let_def
      permit_symbols_checks_def permit_symbols_def promotion_window_checks_def require_text_def require_utc_def
      sample_bar_def utc_at_def dt_add_def dt_sub_def instant_def minutes_def PROMOTION_PERMIT_MAX_TTL_def
      execution_modes_def upper_evals)

lemma sample_permit_sign: "permit_sign sample_permit sample_secret = Inr sample_signed"
proof -
  have "PromotionPermit_init sample_signed = Inr sample_signed"
    by (simp add: PromotionPermit_init_def sample_signed_def sample_permit_def checked_def raise_if_def Let_def
      permit_symbols_checks_def permit_symbols_def promotion_window_checks_def require_text_def require_utc_def
      sample_bar_def utc_at_def dt_add_def dt_sub_def instant_def minutes_def PROMOTION_PERMIT_MAX_TTL_def
      execution_modes_def upper_evals)
  moreover have "checked (promotion_window_checks (pp_issued_at sample_permit) (pp_expires_at sample_permit)) ()
      = Inr ()"
    by (simp add: sample_permit_def checked_def raise_if_def promotion_window_checks_def require_utc_def
      sample_bar_def utc_at_def dt_add_def dt_sub_def instant_def minutes_def PROMOTION_PERMIT_MAX_TTL_def)
  moreover have "secret_bytes sample_secret = Inr sample_secret"
    by (simp add: secret_bytes_def sample_secret_def)
  ultimately show ?thesis by (simp add: permit_sign_def sample_signed_def)
qed

lemma sample_signed_built: "permit_built sample_signed"
  using permit_sign_cases(2) [OF sample_permit_sign] by (simp add: permit_built_def sample_signed_def)

lemma sample_expectation_ok: "list_all (\<lambda>c. c = None) (expectation_checks sample_expectation)"
  by (simp add: expectation_checks_def sample_expectation_def require_text_def require_utc_def
      account_alias_sha256_def permit_symbols_checks_def sample_bar_def utc_at_def dt_add_def upper_evals)

lemma sample_permit_valid:
  "permit_verify_signature sample_signed sample_secret = Inr True"
  "permit_time_valid sample_signed (px_now sample_expectation)"
  "list_all (\<lambda>(c, code). \<not> c) (permit_binding_gates sample_signed sample_expectation)"
proof -
  show "permit_verify_signature sample_signed sample_secret = Inr True"
    using permit_sign_verify [OF sample_permit_built sample_permit_sign] .
  show "permit_time_valid sample_signed (px_now sample_expectation)"
    by (simp add: permit_time_valid_def sample_signed_def sample_permit_def sample_expectation_def Let_def
        sample_bar_def dt_sub_def dt_le_def dt_lt_def minutes_def PROMOTION_PERMIT_MAX_TTL_def)
  show "list_all (\<lambda>(c, code). \<not> c) (permit_binding_gates sample_signed sample_expectation)"
    by (simp add: permit_binding_gates_def sample_signed_def sample_permit_def sample_expectation_def
        expected_sha_def permit_symbols_def PERMIT_SCHEMA_VERSION_def upper_evals)
qed

section \<open>Properties\<close>

text \<open>
  Signing a permit and verifying the result with the same secret succeeds: normalising the signed
  permit does not change the bytes that were signed.
\<close>

theorem permit_roundtrip:
  assumes "permit_built p" and "permit_sign p secret = Inr p'"
  shows "permit_verify_signature p' secret = Inr True \<and> permit_id p' = permit_id p"
  using permit_sign_verify [OF assms] permit_sign_same_payload [OF assms] by (simp add: permit_id_def)

theorem permit_roundtrip_witness:
  "permit_verify_signature sample_signed sample_secret = Inr True \<and> permit_id sample_signed = permit_id sample_permit"
  by (rule permit_roundtrip [OF sample_permit_built sample_permit_sign])

text \<open>
  What it means that a permit is bound to what the caller expects, field by field. A journal hash is compared when the
  caller states one, and then it is not the zero hash; promotion evidence may be missing only outside DEMO_AUTO and LIVE.
\<close>

definition permit_binds :: "PromotionPermit \<Rightarrow> PermitExpectation \<Rightarrow> bool" where
  "permit_binds p x =
     (pp_mode p = norm_text True (px_mode x)
      \<and> pp_account_alias_sha256 p = sha256_hex (norm_text False (px_account_alias x))
      \<and> pp_server p = norm_text False (px_server x)
      \<and> pp_symbols p = permit_symbols (px_symbols x)
      \<and> pp_commit_sha p = norm_hash (px_commit_sha x)
      \<and> pp_config_sha256 p = norm_hash (px_config_sha256 x)
      \<and> pp_model_artifact_sha256 p = norm_hash (px_model_artifact_sha256 x)
      \<and> (case px_journal_sha256 x of None \<Rightarrow> True
         | Some j \<Rightarrow> pp_journal_sha256 p = norm_hash j \<and> norm_hash j \<noteq> replicate 64 CHR ''0'')
      \<and> (case px_promotion_evidence_sha256 x of None \<Rightarrow> norm_text True (px_mode x) \<notin> {''DEMO_AUTO'', ''LIVE''}
         | Some e \<Rightarrow> pp_promotion_evidence_sha256 p = norm_hash e \<and> norm_hash e \<noteq> replicate 64 CHR ''0'')
      \<and> pp_schema_version p = ''1.0'')"

lemma permit_binds_iff: "list_all (\<lambda>(c, code). \<not> c) (permit_binding_gates p x) \<longleftrightarrow> permit_binds p x"
  by (auto simp: permit_binding_gates_def permit_binds_def expected_sha_def NO_SHA256_def PERMIT_SCHEMA_VERSION_def Let_def
      split: option.splits)



text \<open>
  A kill-switch reset authorization is minted exactly when the permit is current and bound to the
  expected journal, latch time and reason, and its two listed approvers are different, are the
  only ones presenting credentials, and each signed the permit's bytes with a registered key and
  a secret of its own: different key identifiers and secrets with different fingerprints.
\<close>

theorem reset_needs_dual_control:
  "(\<exists>auth. authorize_kill_switch_reset p keys now j l r clock = Inr auth) \<longleftrightarrow>
     trusted_reset_now clock now = Inr clock
     \<and> require_hash ''expected_journal_sha256'' j 64 = Inr (kp_journal_sha256 p)
     \<and> is_utc l \<and> dt_eq (kp_latched_at_utc p) l
     \<and> reset_reason_sha256 r = Inr (kp_reset_reason_sha256 p)
     \<and> kp_schema_version p = RESET_PERMIT_SCHEMA_VERSION
     \<and> dt_le (kp_issued_at p) clock \<and> dt_lt clock (kp_expires_at p)
     \<and> reset_bindings_ok p
     \<and> (\<exists>a b ka sa kb sb. kp_approver_ids p = [a, b] \<and> a \<noteq> b \<and> set (map fst keys) = {a, b}
          \<and> signed_by p keys a ka sa \<and> signed_by p keys b kb sb \<and> ka \<noteq> kb
          \<and> sha256_hex sa \<noteq> sha256_hex sb)"
proof -
  have "(\<exists>a b. kp_approver_ids p = [a, b] \<and> a \<noteq> b \<and> reset_signatures_valid p keys) \<longleftrightarrow>
      (\<exists>a b ka sa kb sb. kp_approver_ids p = [a, b] \<and> a \<noteq> b \<and> set (map fst keys) = {a, b}
          \<and> signed_by p keys a ka sa \<and> signed_by p keys b kb sb \<and> ka \<noteq> kb
          \<and> sha256_hex sa \<noteq> sha256_hex sb)"
    using reset_signatures_dual [of p _ _ keys] by blast
  then show ?thesis unfolding authorize_reset_iff by simp
qed

section \<open>The validator as a reason gate\<close>

lemma validate_permit_reasons:
  "validate_permit p secret x = Inr v \<Longrightarrow> \<exists>codes. pv_reason_codes v = reason_set codes"
  by (auto simp: validate_permit_def PermitValidation_init_def res_simps permit_validation_of_def Let_def)

interpretation permit_gate: reason_gate "\<lambda>(p, secret, x). validate_permit p secret x" pv_valid pv_reason_codes
proof unfold_locales
  fix i v assume "(\<lambda>(p, secret, x). validate_permit p secret x) i = Inr v"
  then obtain p secret x where r: "validate_permit p secret x = Inr v" by (cases i) auto
  show "pv_valid v \<longleftrightarrow> pv_reason_codes v = []" by (rule validate_permit_verdict(2) [OF r])
  show "sorted (pv_reason_codes v) \<and> distinct (pv_reason_codes v)" using validate_permit_reasons [OF r] by auto
qed

end
