(* ===== verification/Mt5_Contracts.thy ===== *)
theory Mt5_Contracts
  imports Contracts
begin

text \<open>
  The two sealed broker observations of \<open>live_runtime/mt5_adapter.py\<close> that the journal stores:
  the pre-trade check \<open>MT5Preflight\<close> and the last-moment exposure guard \<open>MT5SubmissionGuard\<close>.
  The broker itself is outside the repository; both records are arguments of the operations
  that use them.
\<close>

record MT5Preflight =
  mp_intent_id :: string
  mp_passed :: bool
  mp_reason :: string
  mp_broker_symbol :: string
  mp_intent_sha256 :: string
  mp_broker_spec_sha256 :: string
  mp_request :: json
  mp_request_sha256 :: string
  mp_broker_retcode :: string
  mp_checked_at_utc :: datetime
  mp_valid_until_utc :: datetime
  mp_current_bid :: pyfloat
  mp_current_ask :: pyfloat
  mp_tick_time_utc :: datetime
  mp_allowed_deviation_points :: int
  mp_estimated_stop_risk_cash :: pyfloat
  mp_estimated_margin_cash :: pyfloat

definition MT5Preflight_init :: "bool \<Rightarrow> MT5Preflight \<Rightarrow> MT5Preflight res" where
  "MT5Preflight_init sealed p =
     checked
       [raise_if (\<not> sealed) (TypeError ''MT5Preflight can only be created by MT5Adapter.preflight''),
        err_of (require_utc ''checked_at_utc'' (mp_checked_at_utc p)),
        err_of (require_utc ''valid_until_utc'' (mp_valid_until_utc p)),
        err_of (require_utc ''tick_time_utc'' (mp_tick_time_utc p)),
        raise_if (dt_le (mp_valid_until_utc p) (mp_checked_at_utc p))
          (ValueError ''preflight validity window is empty''),
        raise_if (mp_allowed_deviation_points p < 0)
          (ValueError ''allowed_deviation_points must be a nonnegative integer''),
        raise_if (canonical_sha256 (mp_request p) \<noteq> mp_request_sha256 p)
          (ValueError ''request_sha256 does not match the preflight request'')]
       p"

definition mint_mt5_preflight :: "MT5Preflight \<Rightarrow> MT5Preflight res" where
  "mint_mt5_preflight values = MT5Preflight_init True values"

definition MT5Preflight_dict :: "MT5Preflight \<Rightarrow> json" where
  "MT5Preflight_dict p = JDict
     [(''intent_id'', JStr (mp_intent_id p)),
      (''passed'', JBool (mp_passed p)),
      (''reason'', JStr (mp_reason p)),
      (''broker_symbol'', JStr (mp_broker_symbol p)),
      (''intent_sha256'', JStr (mp_intent_sha256 p)),
      (''broker_spec_sha256'', JStr (mp_broker_spec_sha256 p)),
      (''request'', mp_request p),
      (''request_sha256'', JStr (mp_request_sha256 p)),
      (''broker_retcode'', JStr (mp_broker_retcode p)),
      (''checked_at_utc'', jtime (mp_checked_at_utc p)),
      (''valid_until_utc'', jtime (mp_valid_until_utc p)),
      (''current_bid'', JFloat (mp_current_bid p)),
      (''current_ask'', JFloat (mp_current_ask p)),
      (''tick_time_utc'', jtime (mp_tick_time_utc p)),
      (''allowed_deviation_points'', JInt (mp_allowed_deviation_points p)),
      (''estimated_stop_risk_cash'', JFloat (mp_estimated_stop_risk_cash p)),
      (''estimated_margin_cash'', JFloat (mp_estimated_margin_cash p))]"

definition MT5Preflight_content_sha256 :: "MT5Preflight \<Rightarrow> string" where
  "MT5Preflight_content_sha256 p = canonical_sha256 (MT5Preflight_dict p)"

record MT5SubmissionGuard =
  mg_intent_id :: string
  mg_account_id :: string
  mg_server :: string
  mg_symbol :: string
  mg_account_equity :: pyfloat
  mg_active_order_count :: int
  mg_active_position_count :: int
  mg_broker_spec_sha256 :: string
  mg_checked_at_utc :: datetime

text \<open>The exact shape of a SHA-256 digest that several constructors require.\<close>

definition is_sha256_hex :: "string \<Rightarrow> bool" where
  "is_sha256_hex v = (length v = 64 \<and> list_all is_hex_lower v)"

definition MT5SubmissionGuard_init :: "bool \<Rightarrow> MT5SubmissionGuard \<Rightarrow> MT5SubmissionGuard res" where
  "MT5SubmissionGuard_init sealed g =
     checked
       [raise_if (\<not> sealed) (TypeError ''MT5SubmissionGuard can only be created by MT5Adapter''),
        raise_if (str_strip (mg_intent_id g) = []) (ValueError ''submission guard intent_id is required''),
        raise_if (str_strip (mg_account_id g) = [] \<or> str_strip (mg_server g) = [])
          (ValueError ''submission guard account binding is required''),
        raise_if (str_strip (mg_symbol g) = []) (ValueError ''submission guard symbol is required''),
        raise_if (\<not> is_finite (mg_account_equity g) \<or> fl_le (mg_account_equity g) (Fin 0))
          (MT5AdapterError ''account_equity is invalid''),
        raise_if (mg_active_order_count g < 0)
          (ValueError ''active_order_count must be a nonnegative integer''),
        raise_if (mg_active_position_count g < 0)
          (ValueError ''active_position_count must be a nonnegative integer''),
        raise_if (\<not> is_sha256_hex (str_lower (mg_broker_spec_sha256 g)))
          (ValueError ''broker_spec_sha256 must be a SHA-256 hash''),
        err_of (require_utc ''checked_at_utc'' (mg_checked_at_utc g))]
       (g\<lparr>mg_symbol := str_upper (str_strip (mg_symbol g)),
          mg_broker_spec_sha256 := str_lower (mg_broker_spec_sha256 g)\<rparr>)"

definition mint_mt5_submission_guard :: "MT5SubmissionGuard \<Rightarrow> MT5SubmissionGuard res" where
  "mint_mt5_submission_guard values = MT5SubmissionGuard_init True values"

definition MT5SubmissionGuard_dict :: "MT5SubmissionGuard \<Rightarrow> json" where
  "MT5SubmissionGuard_dict g = JDict
     [(''intent_id'', JStr (mg_intent_id g)),
      (''account_id'', JStr (mg_account_id g)),
      (''server'', JStr (mg_server g)),
      (''symbol'', JStr (mg_symbol g)),
      (''account_equity'', JFloat (mg_account_equity g)),
      (''active_order_count'', JInt (mg_active_order_count g)),
      (''active_position_count'', JInt (mg_active_position_count g)),
      (''broker_spec_sha256'', JStr (mg_broker_spec_sha256 g)),
      (''checked_at_utc'', jtime (mg_checked_at_utc g))]"

definition MT5SubmissionGuard_content_sha256 :: "MT5SubmissionGuard \<Rightarrow> string" where
  "MT5SubmissionGuard_content_sha256 g = canonical_sha256 (MT5SubmissionGuard_dict g)"

end
