(* ===== verification/Journal_State.thy ===== *)
theory Journal_State
  imports Permit Mt5_Contracts Risk
begin

text \<open>
  The state of \<open>live_runtime/journal.py\<close>: the execution states and their transition table, the
  rows of the SQLite tables and the sealed values the journal mints.

  A table is the list of its rows in insertion order, so an \<open>AUTOINCREMENT\<close> key is a position.
  Timestamps are stored as the datetimes they denote: the ISO texts of UTC values order as
  their instants. A \<open>payload_json\<close> column holds the JSON value whose canonical text the source
  stores, and two columns are equal when those texts are. Every operation of the journal is one
  \<open>BEGIN IMMEDIATE\<close> transaction: an exception rolls back, so an operation returns either the
  error or the new state.
\<close>

section \<open>Execution states\<close>

datatype execution_state =
    CREATED | RISK_REJECTED | RISK_APPROVED | PREFLIGHT_PASSED | SUBMITTING | ACKNOWLEDGED
  | PARTIAL | FILLED | REJECTED | EXPIRED | UNCERTAIN | CLOSED

definition EXECUTION_STATES :: "execution_state list" where
  "EXECUTION_STATES =
     [CREATED, RISK_REJECTED, RISK_APPROVED, PREFLIGHT_PASSED, SUBMITTING, ACKNOWLEDGED,
      PARTIAL, FILLED, REJECTED, EXPIRED, UNCERTAIN, CLOSED]"

fun state_name :: "execution_state \<Rightarrow> string" where
  "state_name CREATED = ''CREATED''"
| "state_name RISK_REJECTED = ''RISK_REJECTED''"
| "state_name RISK_APPROVED = ''RISK_APPROVED''"
| "state_name PREFLIGHT_PASSED = ''PREFLIGHT_PASSED''"
| "state_name SUBMITTING = ''SUBMITTING''"
| "state_name ACKNOWLEDGED = ''ACKNOWLEDGED''"
| "state_name PARTIAL = ''PARTIAL''"
| "state_name FILLED = ''FILLED''"
| "state_name REJECTED = ''REJECTED''"
| "state_name EXPIRED = ''EXPIRED''"
| "state_name UNCERTAIN = ''UNCERTAIN''"
| "state_name CLOSED = ''CLOSED''"

definition state_of :: "string \<Rightarrow> execution_state option" where
  "state_of name = find (\<lambda>s. state_name s = name) EXECUTION_STATES"

definition GLOBAL_EXPOSURE_STATES :: "execution_state list" where
  "GLOBAL_EXPOSURE_STATES = [SUBMITTING, ACKNOWLEDGED, PARTIAL, FILLED, UNCERTAIN]"

definition TERMINAL_STATES :: "execution_state list" where
  "TERMINAL_STATES = [RISK_REJECTED, REJECTED, EXPIRED, CLOSED]"

fun ALLOWED_TRANSITIONS :: "execution_state \<Rightarrow> execution_state list" where
  "ALLOWED_TRANSITIONS CREATED = [RISK_APPROVED, RISK_REJECTED, EXPIRED]"
| "ALLOWED_TRANSITIONS RISK_APPROVED = [PREFLIGHT_PASSED, REJECTED, EXPIRED]"
| "ALLOWED_TRANSITIONS PREFLIGHT_PASSED = [SUBMITTING, REJECTED, EXPIRED]"
| "ALLOWED_TRANSITIONS SUBMITTING = [ACKNOWLEDGED, PARTIAL, FILLED, REJECTED, UNCERTAIN]"
| "ALLOWED_TRANSITIONS ACKNOWLEDGED = [PARTIAL, FILLED, REJECTED, UNCERTAIN]"
| "ALLOWED_TRANSITIONS PARTIAL = [FILLED, CLOSED, UNCERTAIN]"
| "ALLOWED_TRANSITIONS FILLED = [CLOSED, UNCERTAIN]"
| "ALLOWED_TRANSITIONS UNCERTAIN = [ACKNOWLEDGED, PARTIAL, FILLED, REJECTED, CLOSED]"
| "ALLOWED_TRANSITIONS RISK_REJECTED = []"
| "ALLOWED_TRANSITIONS REJECTED = []"
| "ALLOWED_TRANSITIONS EXPIRED = []"
| "ALLOWED_TRANSITIONS CLOSED = []"

definition RESERVE_ONLY_TRANSITION_TARGETS :: "execution_state list" where
  "RESERVE_ONLY_TRANSITION_TARGETS = [SUBMITTING]"

definition BROKER_CONCLUSIVE_TRANSITION_TARGETS :: "execution_state list" where
  "BROKER_CONCLUSIVE_TRANSITION_TARGETS = [ACKNOWLEDGED, PARTIAL, FILLED, CLOSED]"

definition PRIVILEGED_RECEIPT_TYPES :: "string list" where
  "PRIVILEGED_RECEIPT_TYPES =
     [''RISK_DECISION'', ''MT5_PREFLIGHT'', ''SUBMISSION_GUARD'', ''EXECUTION_RECEIPT'',
      ''RECONCILIATION_RECEIPT'', ''SUBMISSION_LEASE_NOT_CONSUMED'', ''SUBMISSION_NOT_SENT'']"

definition MAX_DAILY_SUBMISSIONS :: nat where
  "MAX_DAILY_SUBMISSIONS = 4"

definition MAX_JOURNAL_CALLER_RECORDING_DELAY_SECONDS :: pyfloat where
  "MAX_JOURNAL_CALLER_RECORDING_DELAY_SECONDS = Fin 5"

definition MAX_EXECUTION_RECEIPT_RECORDING_DELAY_SECONDS :: pyfloat where
  "MAX_EXECUTION_RECEIPT_RECORDING_DELAY_SECONDS = Fin 5"

section \<open>Rows\<close>

record IntentRecord =
  ir_intent_id :: string
  ir_decision_id :: string
  ir_symbol :: string
  ir_state :: execution_state
  ir_payload :: json
  ir_broker_order_ticket :: "string option"
  ir_broker_position_ticket :: "string option"
  ir_filled_volume :: pyfloat
  ir_protective_sl_tp_confirmed :: bool
  ir_created_at_utc :: datetime
  ir_updated_at_utc :: datetime
  ir_last_error :: "string option"

record TransitionRow =
  tr_intent_id :: string
  tr_from_state :: "execution_state option"
  tr_to_state :: execution_state
  tr_occurred_at_utc :: datetime
  tr_details :: json

record ReceiptRow =
  rr_intent_id :: string
  rr_receipt_type :: string
  rr_occurred_at_utc :: datetime
  rr_payload :: json

record ExecutorLease =
  el_owner_id :: string
  el_fence_token :: int
  el_expires_at_utc :: datetime
  el_updated_at_utc :: datetime

record KillSwitch =
  ks_latched :: bool
  ks_reason :: string
  ks_latched_at_utc :: "datetime option"
  ks_source :: string
  ks_reset_at_utc :: "datetime option"
  ks_reset_reason :: "string option"

record KillSwitchEvent =
  ke_action :: string
  ke_reason :: string
  ke_source :: string
  ke_occurred_at_utc :: datetime

record AuthorizationConsumption =
  ac_execution_gate_sha256 :: string
  ac_authorization_sha256 :: string
  ac_broker_request_sha256 :: string
  ac_intent_id :: string
  ac_occurred_at_utc :: datetime
  ac_journal_sha256 :: string

record journal =
  j_sha256 :: string
  j_intents :: "IntentRecord list"
  j_transitions :: "TransitionRow list"
  j_receipts :: "ReceiptRow list"
  j_lease :: "ExecutorLease option"
  j_kill_switch :: KillSwitch
  j_kill_events :: "KillSwitchEvent list"
  j_consumptions :: "AuthorizationConsumption list"

text \<open>
  \<open>_initialize\<close> on a new database: empty tables, the kill switch not latched. The identity of
  the journal is the hash of its path and its random instance identifier.
\<close>

definition journal_sha256 :: "string \<Rightarrow> string \<Rightarrow> string" where
  "journal_sha256 path instance_id = sha256_hex (path @ [char_of (0::nat)] @ instance_id)"

definition initialize :: "string \<Rightarrow> string \<Rightarrow> journal res" where
  "initialize path raw_instance_id =
     (let instance_id = str_lower (str_strip raw_instance_id) in
      if length instance_id \<noteq> 64 \<or> \<not> list_all is_hex_lower instance_id
      then Inl (JournalError ''journal instance identity is corrupt'')
      else Inr \<lparr>j_sha256 = journal_sha256 path instance_id, j_intents = [], j_transitions = [],
                j_receipts = [], j_lease = None,
                j_kill_switch = \<lparr>ks_latched = False, ks_reason = [], ks_latched_at_utc = None,
                  ks_source = ''INITIAL'', ks_reset_at_utc = None, ks_reset_reason = None\<rparr>,
                j_kill_events = [], j_consumptions = []\<rparr>)"

section \<open>Queries and updates\<close>

definition find_intent :: "string \<Rightarrow> journal \<Rightarrow> IntentRecord option" where
  "find_intent iid st = find (\<lambda>r. ir_intent_id r = iid) (j_intents st)"

definition find_decision :: "string \<Rightarrow> journal \<Rightarrow> IntentRecord option" where
  "find_decision did st = find (\<lambda>r. ir_decision_id r = did) (j_intents st)"

definition update_intent :: "string \<Rightarrow> (IntentRecord \<Rightarrow> IntentRecord) \<Rightarrow> journal \<Rightarrow> journal" where
  "update_intent iid f st =
     st\<lparr>j_intents := map (\<lambda>r. if ir_intent_id r = iid then f r else r) (j_intents st)\<rparr>"

definition add_transition :: "TransitionRow \<Rightarrow> journal \<Rightarrow> journal" where
  "add_transition row st = st\<lparr>j_transitions := j_transitions st @ [row]\<rparr>"

definition add_receipt :: "string \<Rightarrow> string \<Rightarrow> datetime \<Rightarrow> json \<Rightarrow> journal \<Rightarrow> journal" where
  "add_receipt iid receipt_type ts payload st =
     st\<lparr>j_receipts := j_receipts st
          @ [\<lparr>rr_intent_id = iid, rr_receipt_type = receipt_type,
              rr_occurred_at_utc = ts, rr_payload = payload\<rparr>]\<rparr>"

definition receipts_of :: "string \<Rightarrow> string \<Rightarrow> journal \<Rightarrow> ReceiptRow list" where
  "receipts_of iid receipt_type st =
     filter (\<lambda>r. rr_intent_id r = iid \<and> rr_receipt_type r = receipt_type) (j_receipts st)"

definition latest_receipt :: "string \<Rightarrow> string \<Rightarrow> journal \<Rightarrow> json option" where
  "latest_receipt iid receipt_type st =
     (case receipts_of iid receipt_type st of [] \<Rightarrow> None | rs \<Rightarrow> Some (rr_payload (last rs)))"

definition has_receipt :: "string \<Rightarrow> string \<Rightarrow> journal \<Rightarrow> bool" where
  "has_receipt iid receipt_type st = (receipts_of iid receipt_type st \<noteq> [])"

definition consumptions_of :: "string \<Rightarrow> journal \<Rightarrow> AuthorizationConsumption list" where
  "consumptions_of iid st = filter (\<lambda>c. ac_intent_id c = iid) (j_consumptions st)"

definition find_consumption :: "string \<Rightarrow> journal \<Rightarrow> AuthorizationConsumption option" where
  "find_consumption gate st = find (\<lambda>c. ac_execution_gate_sha256 c = gate) (j_consumptions st)"

definition other_exposure :: "string \<Rightarrow> journal \<Rightarrow> bool" where
  "other_exposure iid st =
     list_ex (\<lambda>r. ir_intent_id r \<noteq> iid \<and> ir_state r \<in> set GLOBAL_EXPOSURE_STATES) (j_intents st)"

definition daily_submissions :: "datetime \<Rightarrow> journal \<Rightarrow> nat" where
  "daily_submissions now st =
     (let day_start = start_of_day now; day_end = dt_add day_start day_us in
      length (filter (\<lambda>t. tr_to_state t = SUBMITTING \<and> dt_le day_start (tr_occurred_at_utc t)
                \<and> dt_lt (tr_occurred_at_utc t) day_end) (j_transitions st)))"

definition json_same :: "json \<Rightarrow> json \<Rightarrow> bool" where
  "json_same a b = (json_dumps a = json_dumps b)"

text \<open>\<open>_canonical_json\<close> refuses values that are not JSON.\<close>

definition json_text :: "json \<Rightarrow> json res" where
  "json_text v =
     (if json_finite v then Inr v
      else Inl (ValueError ''Out of range float values are not JSON compliant''))"

text \<open>\<open>_iso\<close>: the text of a UTC timestamp, with a fraction only when it is not zero.\<close>

definition iso_text :: "datetime \<Rightarrow> string" where
  "iso_text d =
     iso_date_time d @ (if dt_us d mod 1000000 = 0 then [] else ''.'' @ digits_of 6 (dt_us d mod 1000000))
       @ ''+00:00''"

definition quoted :: "string \<Rightarrow> string" where
  "quoted s = [char_of (39::nat)] @ s @ [char_of (39::nat)]"

section \<open>Sealed values the journal mints\<close>

record SubmissionEvidenceCapability =
  se_journal_sha256 :: string
  se_intent_id :: string
  se_risk_decision_sha256 :: string
  se_preflight_sha256 :: string
  se_submission_guard_sha256 :: string
  se_broker_spec_sha256 :: string
  se_issued_at :: datetime
  se_valid_until :: datetime

definition SubmissionEvidenceCapability_init ::
  "bool \<Rightarrow> SubmissionEvidenceCapability \<Rightarrow> SubmissionEvidenceCapability res" where
  "SubmissionEvidenceCapability_init sealed c =
     checked
       [raise_if (\<not> sealed)
          (TypeError ''SubmissionEvidenceCapability can only be minted by ExecutionJournal''),
        raise_if (\<not> is_utc (se_issued_at c))
          (ValueError ''submission evidence issued_at must be timezone-aware UTC''),
        raise_if (\<not> is_utc (se_valid_until c))
          (ValueError ''submission evidence valid_until must be timezone-aware UTC''),
        raise_if (dt_le (se_valid_until c) (se_issued_at c))
          (ValueError ''submission evidence validity window is empty''),
        raise_if (\<not> is_sha256_hex (str_lower (se_journal_sha256 c)))
          (ValueError ''journal_sha256 must be a lowercase SHA-256 hash''),
        raise_if (\<not> is_sha256_hex (str_lower (se_risk_decision_sha256 c)))
          (ValueError ''risk_decision_sha256 must be a lowercase SHA-256 hash''),
        raise_if (\<not> is_sha256_hex (str_lower (se_preflight_sha256 c)))
          (ValueError ''preflight_sha256 must be a lowercase SHA-256 hash''),
        raise_if (\<not> is_sha256_hex (str_lower (se_submission_guard_sha256 c)))
          (ValueError ''submission_guard_sha256 must be a lowercase SHA-256 hash''),
        raise_if (\<not> is_sha256_hex (str_lower (se_broker_spec_sha256 c)))
          (ValueError ''broker_spec_sha256 must be a lowercase SHA-256 hash''),
        raise_if (str_strip (se_intent_id c) = [])
          (ValueError ''submission evidence intent_id is required'')]
       (c\<lparr>se_journal_sha256 := str_lower (se_journal_sha256 c),
          se_risk_decision_sha256 := str_lower (se_risk_decision_sha256 c),
          se_preflight_sha256 := str_lower (se_preflight_sha256 c),
          se_submission_guard_sha256 := str_lower (se_submission_guard_sha256 c),
          se_broker_spec_sha256 := str_lower (se_broker_spec_sha256 c)\<rparr>)"

record DurableSubmissionLease =
  dl_journal_sha256 :: string
  dl_intent_id :: string
  dl_execution_gate_sha256 :: string
  dl_authorization_sha256 :: string
  dl_broker_request_sha256 :: string
  dl_issued_at :: datetime
  dl_owner_id :: string
  dl_fence_token :: int
  dl_active :: bool
  dl_used :: bool

record DemoAutoDispatchJournalSettlement =
  st_journal_sha256 :: string
  st_intent_id :: string
  st_dispatch_verification_sha256 :: string
  st_journal_state :: execution_state
  st_settlement_state :: string
  st_evidence_sha256 :: string
  st_broker_submit_called :: bool
  st_final_submission_guard_present :: bool
  st_execution_receipt_present :: bool
  st_reconciliation_receipt_present :: bool
  st_submission_lease_not_consumed_receipt_present :: bool
  st_submission_not_sent_receipt_present :: bool
  st_issued_at_utc :: datetime

definition Settlement_init ::
  "bool \<Rightarrow> DemoAutoDispatchJournalSettlement \<Rightarrow> DemoAutoDispatchJournalSettlement res" where
  "Settlement_init sealed s =
     (let settlement_state = str_upper (str_strip (st_settlement_state s)) in
      checked
        [raise_if (\<not> sealed) (TypeError ''dispatch settlements can only be minted by ExecutionJournal''),
         raise_if (\<not> is_sha256_hex (norm_hash (st_journal_sha256 s)))
           (ValueError ''journal_sha256 must be a lowercase SHA-256 hash''),
         raise_if (\<not> is_sha256_hex (norm_hash (st_dispatch_verification_sha256 s)))
           (ValueError ''dispatch_verification_sha256 must be a lowercase SHA-256 hash''),
         raise_if (\<not> is_sha256_hex (norm_hash (st_evidence_sha256 s)))
           (ValueError ''evidence_sha256 must be a lowercase SHA-256 hash''),
         raise_if (str_strip (st_intent_id s) = []) (ValueError ''dispatch settlement intent_id is required''),
         raise_if (settlement_state \<notin> {''ABORTED_BEFORE_SEND'', ''COMPLETED'', ''RECONCILIATION_REQUIRED'',
                     ''RECONCILED''}) (ValueError ''dispatch settlement state is invalid''),
         raise_if (settlement_state = ''ABORTED_BEFORE_SEND''
                   \<and> (st_broker_submit_called s \<or> st_execution_receipt_present s))
           (ValueError ''before-send abort cannot contain broker evidence''),
         raise_if (settlement_state = ''COMPLETED'' \<and> \<not> st_execution_receipt_present s)
           (ValueError ''completed dispatch requires an execution receipt''),
         raise_if (settlement_state = ''RECONCILED'' \<and> \<not> st_reconciliation_receipt_present s)
           (ValueError ''reconciled dispatch requires reconciliation evidence''),
         raise_if (\<not> is_utc (st_issued_at_utc s))
           (ValueError ''dispatch settlement issued_at_utc must be timezone-aware UTC'')]
        (s\<lparr>st_journal_sha256 := norm_hash (st_journal_sha256 s),
           st_dispatch_verification_sha256 := norm_hash (st_dispatch_verification_sha256 s),
           st_evidence_sha256 := norm_hash (st_evidence_sha256 s),
           st_settlement_state := settlement_state\<rparr>))"

section \<open>Reconciliation evidence\<close>

text \<open>\<open>_BrokerReconciliationEvidence\<close> of \<open>live_runtime/reconciliation.py\<close>.\<close>

record ReconciliationEvidence =
  re_intent_id :: string
  re_expected_state :: execution_state
  re_target_state :: execution_state
  re_observed_at :: datetime
  re_details :: json
  re_broker_order_ticket :: "string option"
  re_broker_position_ticket :: "string option"
  re_filled_volume :: "pyfloat option"
  re_protective_sl_tp_confirmed :: "bool option"
  re_last_error :: "string option"

definition json_str :: "json option \<Rightarrow> string" where
  "json_str v = (case v of Some (JStr s) \<Rightarrow> s | _ \<Rightarrow> [])"

definition ReconciliationEvidence_init ::
  "bool \<Rightarrow> ReconciliationEvidence \<Rightarrow> string \<Rightarrow> string \<Rightarrow> ReconciliationEvidence res" where
  "ReconciliationEvidence_init sealed e expected_name target_name =
     (let expected = state_of (str_upper (str_strip expected_name));
          target = state_of (str_upper (str_strip target_name)) in
      if \<not> sealed then Inl (TypeError ''broker reconciliation evidence is internal to the reconciler'')
      else if str_strip (re_intent_id e) = [] then Inl (ValueError ''reconciliation intent_id is required'')
      else case (expected, target) of
        (Some ex, Some ta) \<Rightarrow>
          checked
            [raise_if (ta \<notin> set (ALLOWED_TRANSITIONS ex) \<and> ta \<noteq> ex)
               (ValueError ''reconciliation transition is invalid''),
             err_of (require_utc ''reconciliation observed_at'' (re_observed_at e)),
             raise_if (\<not> str_startswith
                 (str_upper (str_strip (json_str (json_get (re_details e) ''source'')))) ''BROKER_'')
               (ValueError ''reconciliation evidence source must be broker-derived''),
             (case re_filled_volume e of None \<Rightarrow> None
              | Some v \<Rightarrow> raise_if (\<not> is_finite v \<or> fl_lt v (Fin 0))
                  (ValueError ''reconciliation filled_volume must be finite and nonnegative''))]
            (e\<lparr>re_intent_id := str_strip (re_intent_id e), re_expected_state := ex, re_target_state := ta\<rparr>)
      | _ \<Rightarrow> Inl (ValueError ''reconciliation state is invalid''))"

end
