(* ===== verification/Py_Values.thy ===== *)
theory Py_Values
  imports Py_Json
begin

text \<open>
  The untyped values of the source, \<open>Mapping[str, Any]\<close> items and decoded JSON, and what Python's
  conversions make of them: truth, equality with a number, \<open>str\<close>, \<open>int\<close>, \<open>float\<close>, and the
  error of an unhashable key. A value is a \<open>json\<close>; \<open>JNull\<close> is \<open>None\<close>, a dictionary lists its items.
  The second part is the effect of a procedure: it may change a state and then raise, and the
  change stays.
\<close>

section \<open>Truth, equality and hashing\<close>

fun py_truthy :: "json \<Rightarrow> bool" where
  "py_truthy JNull = False"
| "py_truthy (JBool b) = b"
| "py_truthy (JInt i) = (i \<noteq> 0)"
| "py_truthy (JFloat x) = (x \<noteq> Fin 0)"
| "py_truthy (JStr s) = (s \<noteq> [])"
| "py_truthy (JList js) = (js \<noteq> [])"
| "py_truthy (JDict kvs) = (kvs \<noteq> [])"

definition py_or :: "json \<Rightarrow> json \<Rightarrow> json" where
  "py_or v d = (if py_truthy v then v else d)"

fun py_eq_int :: "json \<Rightarrow> int \<Rightarrow> bool" where
  "py_eq_int (JInt i) n = (i = n)"
| "py_eq_int (JBool b) n = ((if b then 1 else 0) = n)"
| "py_eq_int (JFloat (Fin q)) n = (q = of_int n)"
| "py_eq_int v n = False"

fun py_hashable :: "json \<Rightarrow> bool" where
  "py_hashable (JList js) = False"
| "py_hashable (JDict kvs) = False"
| "py_hashable v = True"

section \<open>Text\<close>

definition hex2 :: "nat \<Rightarrow> string" where
  "hex2 n = map (\<lambda>k. if k < 10 then char_of (48 + k) else char_of (87 + k)) [n div 16, n mod 16]"

definition repr_char :: "char \<Rightarrow> char \<Rightarrow> string" where
  "repr_char q c =
     (let n = of_char c :: nat; bs = char_of (92::nat) in
      if c = q \<or> n = 92 then [bs, c]
      else if n = 9 then [bs, CHR ''t''] else if n = 10 then [bs, CHR ''n'']
      else if n = 13 then [bs, CHR ''r'']
      else if n < 32 \<or> n = 127 then [bs, CHR ''x''] @ hex2 n else [c])"

definition str_repr :: "string \<Rightarrow> string" where
  "str_repr s =
     (let single = char_of (39::nat); double = char_of (34::nat);
          q = (if single \<in> set s \<and> double \<notin> set s then double else single)
      in [q] @ concat (map (repr_char q) s) @ [q])"

fun comma_space :: "string list \<Rightarrow> string" where
  "comma_space [] = []"
| "comma_space [x] = x"
| "comma_space (x # y # zs) = x @ '', '' @ comma_space (y # zs)"

fun py_repr :: "json \<Rightarrow> string" where
  "py_repr JNull = ''None''"
| "py_repr (JBool b) = (if b then ''True'' else ''False'')"
| "py_repr (JInt i) = int_repr i"
| "py_repr (JFloat x) = float_repr x"
| "py_repr (JStr s) = str_repr s"
| "py_repr (JList js) = ''['' @ comma_space (map py_repr js) @ '']''"
| "py_repr (JDict kvs) = ''{'' @ comma_space (map (\<lambda>(k, v). str_repr k @ '': '' @ py_repr v) kvs) @ ''}''"

fun py_str :: "json \<Rightarrow> string" where
  "py_str (JStr s) = s"
| "py_str v = py_repr v"

definition py_text :: "json \<Rightarrow> string" where
  "py_text v = py_str (py_or v (JStr []))"

section \<open>Numbers from text\<close>

definition is_digit :: "char \<Rightarrow> bool" where
  "is_digit c = (let n = of_char c :: nat in 48 \<le> n \<and> n \<le> 57)"

text \<open>Digits of a literal; an underscore may stand between two digits.\<close>

fun more_digits :: "string \<Rightarrow> nat list \<times> string" where
  "more_digits [] = ([], [])"
| "more_digits (c # cs) =
     (if is_digit c then (case more_digits cs of (ds, rest) \<Rightarrow> ((of_char c - 48) # ds, rest))
      else if c = CHR ''_'' \<and> cs \<noteq> [] \<and> is_digit (hd cs) then more_digits cs
      else ([], c # cs))"

definition scan_digits :: "string \<Rightarrow> nat list \<times> string" where
  "scan_digits s = (if s \<noteq> [] \<and> is_digit (hd s) then more_digits s else ([], s))"

definition digits_value :: "nat list \<Rightarrow> int" where
  "digits_value ds = fold (\<lambda>d n. 10 * n + int d) ds 0"

definition scan_sign :: "string \<Rightarrow> int \<times> string" where
  "scan_sign s =
     (if s \<noteq> [] \<and> hd s = CHR ''-'' then (- 1, tl s)
      else if s \<noteq> [] \<and> hd s = CHR ''+'' then (1, tl s) else (1, s))"

definition parse_int :: "string \<Rightarrow> int option" where
  "parse_int s =
     (case scan_sign (str_strip s) of (sg, r) \<Rightarrow>
      case scan_digits r of (ds, rest) \<Rightarrow>
        if ds = [] \<or> rest \<noteq> [] \<or> 4300 < length ds then None else Some (sg * digits_value ds))"

definition scan_exponent :: "string \<Rightarrow> int option" where
  "scan_exponent s =
     (if s = [] then Some 0
      else if hd s = CHR ''e'' \<or> hd s = CHR ''E''
      then (case scan_sign (tl s) of (sg, r) \<Rightarrow>
            case scan_digits r of (ds, rest) \<Rightarrow>
              if ds = [] \<or> rest \<noteq> [] then None else Some (sg * digits_value ds))
      else None)"

definition parse_float :: "string \<Rightarrow> pyfloat option" where
  "parse_float s =
     (case scan_sign (str_strip s) of (sg, r) \<Rightarrow>
      if str_lower r \<in> {''inf'', ''infinity''} then Some (if sg = 1 then PInf else NInf)
      else if str_lower r = ''nan'' then Some NaN
      else case scan_digits r of (ds, r1) \<Rightarrow>
           case (if r1 \<noteq> [] \<and> hd r1 = CHR ''.'' then scan_digits (tl r1) else ([], r1)) of (fs, r2) \<Rightarrow>
             if ds = [] \<and> fs = [] then None
             else case scan_exponent r2 of None \<Rightarrow> None
             | Some e \<Rightarrow> Some (fl_of_rat (of_int (sg * digits_value (ds @ fs)) * pow_rat 10 (e - int (length fs)))))"

section \<open>Conversions\<close>

fun py_int :: "json \<Rightarrow> int res" where
  "py_int (JInt i) = Inr i"
| "py_int (JBool b) = Inr (if b then 1 else 0)"
| "py_int (JFloat (Fin q)) = Inr (if q < 0 then - \<lfloor>- q\<rfloor> else \<lfloor>q\<rfloor>)"
| "py_int (JFloat NaN) = Inl (ValueError ''cannot convert float NaN to integer'')"
| "py_int (JFloat x) = Inl (OverflowError ''cannot convert float infinity to integer'')"
| "py_int (JStr s) =
     (case parse_int s of Some i \<Rightarrow> Inr i | None \<Rightarrow> Inl (ValueError ''invalid literal for int() with base 10''))"
| "py_int v = Inl (TypeError ''int() argument must be a string, a bytes-like object or a real number'')"

fun py_float :: "json \<Rightarrow> pyfloat res" where
  "py_float (JFloat x) = Inr x"
| "py_float (JInt i) =
     (if is_finite (fl_of_rat (of_int i)) then Inr (fl_of_rat (of_int i))
      else Inl (OverflowError ''int too large to convert to float''))"
| "py_float (JBool b) = Inr (Fin (if b then 1 else 0))"
| "py_float (JStr s) =
     (case parse_float s of Some x \<Rightarrow> Inr x | None \<Rightarrow> Inl (ValueError ''could not convert string to float''))"
| "py_float v = Inl (TypeError ''float() argument must be a string or a real number'')"

section \<open>Dictionaries\<close>

type_synonym item = "(string \<times> json) list"

definition dict_get :: "item \<Rightarrow> string \<Rightarrow> json" where
  "dict_get d k = (case map_of d k of None \<Rightarrow> JNull | Some v \<Rightarrow> v)"

definition dict_item :: "item \<Rightarrow> string \<Rightarrow> json res" where
  "dict_item d k = (case map_of d k of None \<Rightarrow> Inl (KeyError k) | Some v \<Rightarrow> Inr v)"

section \<open>Handled exceptions\<close>

text \<open>The classes \<open>except\<close> clauses of the source name; \<open>OSError\<close> does not occur in the model.\<close>

fun type_or_value_error :: "exn \<Rightarrow> bool" where
  "type_or_value_error (TypeError m) = True"
| "type_or_value_error (ValueError m) = True"
| "type_or_value_error e = False"

fun key_type_or_value_error :: "exn \<Rightarrow> bool" where
  "key_type_or_value_error (KeyError k) = True"
| "key_type_or_value_error e = type_or_value_error e"

fun timestamp_error :: "exn \<Rightarrow> bool" where
  "timestamp_error (OverflowError m) = True"
| "timestamp_error e = type_or_value_error e"

section \<open>Procedures\<close>

type_synonym ('s, 'a) act = "'s \<Rightarrow> 'a res \<times> 's"

definition act_return :: "'a \<Rightarrow> ('s, 'a) act" where
  "act_return x s = (Inr x, s)"

definition act_lift :: "'a res \<Rightarrow> ('s, 'a) act" where
  "act_lift r s = (r, s)"

definition act_bind :: "('s, 'a) act \<Rightarrow> ('a \<Rightarrow> ('s, 'b) act) \<Rightarrow> ('s, 'b) act" where
  "act_bind m f s = (case m s of (Inl e, s') \<Rightarrow> (Inl e, s') | (Inr x, s') \<Rightarrow> f x s')"

definition act_catch :: "(exn \<Rightarrow> bool) \<Rightarrow> ('s, 'a) act \<Rightarrow> ('s, 'a) act \<Rightarrow> ('s, 'a) act" where
  "act_catch handles m h s = (case m s of (Inl e, s') \<Rightarrow> (if handles e then h s' else (Inl e, s')) | r \<Rightarrow> r)"

definition act_modify :: "('s \<Rightarrow> 's) \<Rightarrow> ('s, unit) act" where
  "act_modify f s = (Inr (), f s)"

definition act_when :: "bool \<Rightarrow> ('s, unit) act \<Rightarrow> ('s, unit) act" where
  "act_when c m = (if c then m else act_return ())"

fun act_each :: "('a \<Rightarrow> ('s, unit) act) \<Rightarrow> 'a list \<Rightarrow> ('s, unit) act" where
  "act_each f [] = act_return ()"
| "act_each f (x # xs) = act_bind (f x) (\<lambda>_. act_each f xs)"

text \<open>Handling a pure value: \<open>try: return v except handled: return d\<close>.\<close>

definition res_catch :: "(exn \<Rightarrow> bool) \<Rightarrow> 'a res \<Rightarrow> 'a \<Rightarrow> 'a res" where
  "res_catch handles r d = (case r of Inl e \<Rightarrow> if handles e then Inr d else Inl e | Inr x \<Rightarrow> Inr x)"

text \<open>Translating an exception: \<open>try: return v except handled: raise e\<close>.\<close>

definition res_reraise :: "(exn \<Rightarrow> bool) \<Rightarrow> exn \<Rightarrow> 'a res \<Rightarrow> 'a res" where
  "res_reraise handles e r = (case r of Inl x \<Rightarrow> if handles x then Inl e else Inl x | Inr x \<Rightarrow> Inr x)"

lemma res_reraise_Inr [simp]: "res_reraise h e r = Inr x \<longleftrightarrow> r = Inr x"
  by (auto simp: res_reraise_def split: sum.splits if_splits)

text \<open>
  A property of the state that every elementary change keeps is kept by a procedure, also when it
  raises.
\<close>

definition act_keeps :: "('s \<Rightarrow> 's \<Rightarrow> bool) \<Rightarrow> ('s, 'a) act \<Rightarrow> bool" where
  "act_keeps R m = (\<forall>s. R s (snd (m s)))"

named_theorems keeps_intros \<open>rules for \<open>act_keeps\<close>\<close>

lemma keeps_return [keeps_intros]: "reflp R \<Longrightarrow> act_keeps R (act_return x)"
  by (simp add: act_keeps_def act_return_def reflp_def)

lemma keeps_lift [keeps_intros]: "reflp R \<Longrightarrow> act_keeps R (act_lift r)"
  by (simp add: act_keeps_def act_lift_def reflp_def)

lemma keeps_bind [keeps_intros]:
  assumes "transp R" and "act_keeps R m" and "\<And>x. act_keeps R (f x)"
  shows "act_keeps R (act_bind m f)"
  unfolding act_keeps_def
proof
  fix s
  obtain r s' where m: "m s = (r, s')" by (cases "m s")
  have s': "R s s'" using assms(2) m by (metis act_keeps_def snd_conv)
  show "R s (snd (act_bind m f s))"
  proof (cases r)
    case (Inl e)
    then show ?thesis using s' m by (simp add: act_bind_def)
  next
    case (Inr x)
    have "R s' (snd (f x s'))" using assms(3) by (simp add: act_keeps_def)
    then show ?thesis using s' m Inr assms(1) by (simp add: act_bind_def) (metis transpD)
  qed
qed

lemma keeps_lift_bind:
  assumes "reflp R" and "\<And>x. r = Inr x \<Longrightarrow> act_keeps R (f x)"
  shows "act_keeps R (act_bind (act_lift r) f)"
  using assms by (cases r) (simp_all add: act_keeps_def act_bind_def act_lift_def reflp_def)

lemma keeps_catch [keeps_intros]:
  assumes "transp R" and "act_keeps R m" and "act_keeps R h"
  shows "act_keeps R (act_catch handles m h)"
  unfolding act_keeps_def
proof
  fix s
  obtain r s' where m: "m s = (r, s')" by (cases "m s")
  have s': "R s s'" using assms(2) m by (metis act_keeps_def snd_conv)
  have "R s' (snd (h s'))" using assms(3) by (simp add: act_keeps_def)
  then have "R s (snd (h s'))" using s' assms(1) by (metis transpD)
  with s' m show "R s (snd (act_catch handles m h s))"
    by (cases r) (simp_all add: act_catch_def)
qed

lemma keeps_when [keeps_intros]: "reflp R \<Longrightarrow> act_keeps R m \<Longrightarrow> act_keeps R (act_when c m)"
  by (simp add: act_when_def keeps_return)

lemma keeps_each [keeps_intros]:
  assumes "reflp R" and "transp R" and "\<And>x. act_keeps R (f x)"
  shows "act_keeps R (act_each f xs)"
  using assms by (induction xs) (simp_all add: keeps_return keeps_bind)

lemma act_bind_return [simp]: "act_bind (act_return x) f = f x"
  by (rule ext) (simp add: act_bind_def act_return_def)

lemma act_bind_modify [simp]: "act_bind (act_modify g) f s = f () (g s)"
  by (simp add: act_bind_def act_modify_def)

lemma act_bind_Inr: "act_bind m f s = (Inr y, t) \<longleftrightarrow> (\<exists>x u. m s = (Inr x, u) \<and> f x u = (Inr y, t))"
  by (auto simp: act_bind_def split: prod.splits sum.splits)

lemma act_each_Inr_Cons:
  "act_each f (x # xs) s = (Inr (), t) \<longleftrightarrow> (\<exists>u. f x s = (Inr (), u) \<and> act_each f xs u = (Inr (), t))"
  by (simp add: act_bind_Inr)

end
