(* ===== verification/Journal.thy ===== *)
theory Journal
  imports Journal_State Py_Values
begin

text \<open>
  The operations of \<open>ExecutionJournal\<close>. Each takes its arguments, the reading of the journal's
  trusted clock and the state, and returns the error the source raises or the new state with
  the value the source returns. \<open>json.loads(payload_json)\<close> is the stored JSON value.
\<close>

section \<open>Clock and payload helpers\<close>

definition require_aware_utc :: "datetime \<Rightarrow> string \<Rightarrow> datetime res" where
  "require_aware_utc v field =
     (if is_utc v then Inr v else Inl (ValueError (field @ '' must be timezone-aware UTC'')))"

definition trusted_now :: "datetime \<Rightarrow> datetime option \<Rightarrow> datetime res" where
  "trusted_now clock requested =
     res_bind (require_aware_utc clock ''trusted journal clock'') (\<lambda>trusted.
     case requested of None \<Rightarrow> Inr trusted
     | Some r \<Rightarrow> res_bind (require_aware_utc r ''occurred_at'') (\<lambda>asserted.
         let age = total_seconds (dt_sub trusted asserted) in
         if fl_lt age (fl_neg RESET_CLOCK_ASSERTION_TOLERANCE_SECONDS)
         then Inl (ValueError ''caller timestamp is ahead of trusted journal clock'')
         else if fl_lt MAX_JOURNAL_CALLER_RECORDING_DELAY_SECONDS age
         then Inl (ValueError ''caller timestamp is stale relative to trusted journal clock'')
         else Inr trusted))"

text \<open>\<open>float(v)\<close> of the value a dictionary gives for a key, \<open>None\<close> when the key is absent.\<close>

definition json_float :: "json option \<Rightarrow> pyfloat res" where
  "json_float v = py_float (case v of None \<Rightarrow> JNull | Some j \<Rightarrow> j)"

fun json_is_dict :: "json option \<Rightarrow> bool" where
  "json_is_dict (Some (JDict kvs)) = True"
| "json_is_dict v = False"

definition sub_get :: "json option \<Rightarrow> string \<Rightarrow> json option" where
  "sub_get v k = (case v of None \<Rightarrow> None | Some j \<Rightarrow> json_get j k)"

definition with_intent :: "string \<Rightarrow> journal \<Rightarrow> (IntentRecord \<Rightarrow> 'a res) \<Rightarrow> 'a res" where
  "with_intent iid st f = (case find_intent iid st of None \<Rightarrow> Inl (KeyError iid) | Some row \<Rightarrow> f row)"

definition lot_differs :: "pyfloat \<Rightarrow> json option \<Rightarrow> bool res" where
  "lot_differs x v = res_bind (json_float v) (\<lambda>y. Inr (fl_lt cash_tolerance (fl_abs (fl_sub x y))))"

definition lot_within :: "pyfloat \<Rightarrow> json option \<Rightarrow> bool res" where
  "lot_within x v = res_bind (json_float v) (\<lambda>y. Inr (fl_le (fl_abs (fl_sub x y)) cash_tolerance))"

section \<open>Creating intents\<close>

definition new_row :: "string \<Rightarrow> string \<Rightarrow> string \<Rightarrow> execution_state \<Rightarrow> json \<Rightarrow> datetime \<Rightarrow> string option \<Rightarrow> IntentRecord" where
  "new_row iid did symbol state payload ts err =
     \<lparr>ir_intent_id = iid, ir_decision_id = did, ir_symbol = symbol, ir_state = state, ir_payload = payload,
      ir_broker_order_ticket = None, ir_broker_position_ticket = None, ir_filled_volume = Fin 0,
      ir_protective_sl_tp_confirmed = False, ir_created_at_utc = ts, ir_updated_at_utc = ts,
      ir_last_error = err\<rparr>"

definition transition_row ::
  "string \<Rightarrow> execution_state option \<Rightarrow> execution_state \<Rightarrow> datetime \<Rightarrow> json \<Rightarrow> TransitionRow" where
  "transition_row iid from_state to_state ts details =
     \<lparr>tr_intent_id = iid, tr_from_state = from_state, tr_to_state = to_state, tr_occurred_at_utc = ts,
      tr_details = details\<rparr>"

definition add_intent :: "IntentRecord \<Rightarrow> journal \<Rightarrow> journal" where
  "add_intent row st = st\<lparr>j_intents := j_intents st @ [row]\<rparr>"

definition create_intent ::
  "string \<Rightarrow> string \<Rightarrow> string \<Rightarrow> json \<Rightarrow> datetime option \<Rightarrow> datetime \<Rightarrow> journal \<Rightarrow> (journal \<times> IntentRecord) res" where
  "create_intent iid did raw_symbol payload created_at clock st =
     (if str_strip iid = [] \<or> str_strip did = [] \<or> str_strip raw_symbol = []
      then Inl (ValueError ''intent_id, decision_id, and symbol are required'')
      else res_bind (trusted_now clock created_at) (\<lambda>now.
           res_bind (json_text payload) (\<lambda>payload_json.
           let symbol = str_upper (str_strip raw_symbol) in
           case find_intent iid st of
             Some existing \<Rightarrow>
               if ir_decision_id existing = did \<and> ir_symbol existing = symbol
                  \<and> json_same (ir_payload existing) payload_json
               then Inr (st, existing)
               else Inl (DuplicateIntentError
                      (''intent_id '' @ quoted iid @ '' already exists with different payload''))
           | None \<Rightarrow>
               (case find_decision did st of
                  Some existing \<Rightarrow> Inr (st, existing)
                | None \<Rightarrow>
                    let row = new_row iid did symbol CREATED payload_json now None in
                    Inr (add_transition (transition_row iid None CREATED now (JDict [])) (add_intent row st),
                         row)))))"

subsection \<open>Locked DEMO_AUTO preparation\<close>

record PreparationHashes =
  ph_ipc_input_sha256 :: string
  ph_broker_spec_sha256 :: string
  ph_verified_risk_context_sha256 :: string
  ph_health_facts_sha256 :: string
  ph_market_guard_decision_sha256 :: string
  ph_model_binding_sha256 :: string

definition expected_provenance_fields :: "string list" where
  "expected_provenance_fields =
     [''schema_version'', ''verified_risk_context_sha256'', ''account_id'', ''server'', ''environment'',
      ''symbol'', ''broker_symbol'', ''mode'', ''account_runtime_identity_sha256'', ''journal_sha256'',
      ''broker_spec_sha256'', ''health_facts_sha256'', ''health_decision_sha256'', ''permit_id'',
      ''permit_symbols'', ''evaluated_at_utc'', ''valid_until_utc'', ''risk_state_receipt_sha256'',
      ''runtime_fact_receipt_sha256'', ''exposure_receipt_sha256'', ''calibration_receipt_sha256'',
      ''market_guard_decision_sha256'', ''permit_validation_sha256'', ''conversion_sha256'',
      ''live_allowed'', ''safe_to_demo_auto_order'']"

definition provenance_matches ::
  "journal \<Rightarrow> TradeIntent \<Rightarrow> PreparationHashes \<Rightarrow> (string \<times> json) list \<Rightarrow> bool" where
  "provenance_matches st intent h prov =
     (set (map fst prov) = set expected_provenance_fields
      \<and> map_of prov ''schema_version'' = Some (JStr ''verified-risk-context-v1'')
      \<and> map_of prov ''verified_risk_context_sha256'' = Some (JStr (ph_verified_risk_context_sha256 h))
      \<and> map_of prov ''broker_spec_sha256'' = Some (JStr (ph_broker_spec_sha256 h))
      \<and> map_of prov ''health_facts_sha256'' = Some (JStr (ph_health_facts_sha256 h))
      \<and> map_of prov ''market_guard_decision_sha256'' = Some (JStr (ph_market_guard_decision_sha256 h))
      \<and> map_of prov ''journal_sha256'' = Some (JStr (j_sha256 st))
      \<and> map_of prov ''account_id'' = Some (JStr (ti_account_id intent))
      \<and> map_of prov ''server'' = Some (JStr (ti_server intent))
      \<and> map_of prov ''environment'' = Some (JStr ''DEMO'')
      \<and> map_of prov ''symbol'' = Some (JStr (ti_symbol intent))
      \<and> map_of prov ''mode'' = Some (JStr ''DEMO_AUTO'')
      \<and> map_of prov ''permit_id'' = Some (JStr (ti_permit_id intent))
      \<and> (case map_of prov ''permit_symbols'' of
           Some (JList syms) \<Rightarrow> JStr (ti_symbol intent) \<in> set syms | _ \<Rightarrow> False)
      \<and> map_of prov ''live_allowed'' = Some (JBool False)
      \<and> map_of prov ''safe_to_demo_auto_order'' = Some (JBool False))"

definition locked_result :: "TradeIntent \<Rightarrow> RiskDecision \<Rightarrow> bool" where
  "locked_result intent d =
     (ti_mode intent = ''DEMO_AUTO'' \<and> \<not> rd_allowed d
      \<and> rd_reason_codes d = [''DEMO_AUTO_ORDER_LOCKED''] \<and> rd_symbol d = ti_symbol intent
      \<and> \<not> fl_lt cash_tolerance (fl_abs (fl_sub (rd_normalized_lot d) (ti_requested_lot intent)))
      \<and> \<not> fl_lt (fl_of_rat (1 / 100)) (ti_requested_lot intent)
      \<and> ds_timeframe (ti_decision intent) = ''M15'')"

definition preparation_payload ::
  "TradeIntent \<Rightarrow> RiskDecision \<Rightarrow> PreparationHashes \<Rightarrow> (string \<times> json) list \<Rightarrow> json" where
  "preparation_payload intent d h prov = JDict
     [(''schema_version'', JStr ''demo-auto-locked-intent-journal-v1''),
      (''kind'', JStr ''LOCKED_DEMO_AUTO_INTENT_PREPARATION''),
      (''non_executable'', JBool True),
      (''execution_authorized'', JBool False),
      (''activation_authorized'', JBool False),
      (''order_capability'', JStr ''DISABLED''),
      (''live_allowed'', JBool False),
      (''safe_to_demo_auto_order'', JBool False),
      (''ipc_input_sha256'', JStr (ph_ipc_input_sha256 h)),
      (''decision_snapshot_sha256'', JStr (DecisionSnapshot_content_sha256 (ti_decision intent))),
      (''prepared_intent_sha256'', JStr (TradeIntent_content_sha256 intent)),
      (''intent'', TradeIntent_dict intent),
      (''risk_decision_sha256'', JStr (RiskDecision_content_sha256 d)),
      (''risk_decision'', RiskDecision_dict d),
      (''broker_spec_sha256'', JStr (ph_broker_spec_sha256 h)),
      (''verified_risk_context_sha256'', JStr (ph_verified_risk_context_sha256 h)),
      (''verified_risk_provenance'', JDict prov),
      (''health_facts_sha256'', JStr (ph_health_facts_sha256 h)),
      (''market_guard_decision_sha256'', JStr (ph_market_guard_decision_sha256 h)),
      (''model_binding_sha256'', JStr (ph_model_binding_sha256 h)),
      (''risk_basis'', JStr ''BROKER_SPEC_ESTIMATE_REQUIRES_FRESH_BROKER_RESIZING'')]"

definition insert_preparation :: "TradeIntent \<Rightarrow> json \<Rightarrow> datetime \<Rightarrow> journal \<Rightarrow> (journal \<times> IntentRecord \<times> bool) res" where
  "insert_preparation intent payload now st =
     (let iid = intent_id intent; did = snapshot_id (ti_decision intent) in
      case find_decision did st of
        Some existing \<Rightarrow> Inr (st, existing, False)
      | None \<Rightarrow>
          (case find_intent iid st of
             Some existing \<Rightarrow>
               if ir_decision_id existing \<noteq> did \<or> \<not> json_same (ir_payload existing) payload
               then Inl (DuplicateIntentError (''intent_id '' @ quoted iid @ '' already has another binding''))
               else Inr (st, existing, False)
           | None \<Rightarrow>
               let row = new_row iid did (ti_symbol intent) RISK_REJECTED payload now
                           (Some ''DEMO_AUTO_ORDER_LOCKED'') in
               Inr (add_transition (transition_row iid (Some CREATED) RISK_REJECTED now
                      (JDict [(''locked_preparation'', JBool True),
                              (''reason_codes'', jstrs [''DEMO_AUTO_ORDER_LOCKED''])]))
                    (add_transition (transition_row iid None CREATED now (JDict [])) (add_intent row st)),
                    row, True)))"

definition record_locked_demo_auto_preparation ::
  "TradeIntent \<Rightarrow> RiskDecision \<Rightarrow> PreparationHashes \<Rightarrow> (string \<times> json) list \<Rightarrow> datetime \<Rightarrow> datetime
   \<Rightarrow> journal \<Rightarrow> (journal \<times> IntentRecord \<times> bool) res" where
  "record_locked_demo_auto_preparation intent d h prov occurred_at clock st =
     res_bind (checked
       [raise_if (LIVE_ALLOWED \<or> SAFE_TO_DEMO_AUTO_ORDER)
          (JournalError ''locked DEMO_AUTO preparation requires closed policy locks''),
        raise_if (\<not> locked_result intent d)
          (ValueError ''risk decision is not an exact locked DEMO_AUTO result''),
        err_of (require_hash ''ipc_input_sha256'' (ph_ipc_input_sha256 h) 64),
        err_of (require_hash ''broker_spec_sha256'' (ph_broker_spec_sha256 h) 64),
        err_of (require_hash ''verified_risk_context_sha256'' (ph_verified_risk_context_sha256 h) 64),
        err_of (require_hash ''health_facts_sha256'' (ph_health_facts_sha256 h) 64),
        err_of (require_hash ''market_guard_decision_sha256'' (ph_market_guard_decision_sha256 h) 64),
        err_of (require_hash ''model_binding_sha256'' (ph_model_binding_sha256 h) 64),
        raise_if (\<not> provenance_matches st intent h prov)
          (ValueError ''verified risk provenance does not match locked intent'')] ()) (\<lambda>_.
     res_bind (trusted_now clock (Some occurred_at)) (\<lambda>now.
     if \<not> dt_eq now (ti_created_at intent) \<or> dt_lt (dt_add now (seconds 1)) (ti_expires_at intent)
     then Inl (ValueError ''locked preparation timing is invalid'')
     else res_bind (json_text (preparation_payload intent d h prov)) (\<lambda>payload.
            insert_preparation intent payload now st)))"

subsection \<open>Safe loss of a consumed candidate\<close>

definition tombstone_id :: "DecisionSnapshot \<Rightarrow> string \<Rightarrow> string" where
  "tombstone_id d ipc_input_sha256 =
     ''demo_auto_loss_'' @ take 32 (canonical_sha256 (JDict
       [(''decision_snapshot_id'', JStr (snapshot_id d)), (''ipc_input_sha256'', JStr ipc_input_sha256)]))"

fun joined :: "string list \<Rightarrow> string" where
  "joined [] = []"
| "joined [x] = x"
| "joined (x # y # zs) = x @ '','' @ joined (y # zs)"

definition safe_loss_payload :: "DecisionSnapshot \<Rightarrow> string \<Rightarrow> string list \<Rightarrow> json" where
  "safe_loss_payload d ipc_input_sha256 reasons = JDict
     [(''schema_version'', JStr ''demo-auto-safe-loss-journal-v1''),
      (''kind'', JStr ''DEMO_AUTO_SAFE_LOSS''),
      (''non_executable'', JBool True),
      (''execution_authorized'', JBool False),
      (''activation_authorized'', JBool False),
      (''order_capability'', JStr ''DISABLED''),
      (''live_allowed'', JBool False),
      (''safe_to_demo_auto_order'', JBool False),
      (''ipc_input_sha256'', JStr ipc_input_sha256),
      (''decision_snapshot_sha256'', JStr (DecisionSnapshot_content_sha256 d)),
      (''decision'', DecisionSnapshot_dict d),
      (''prepared_intent_sha256'', JNull),
      (''intent'', JNull),
      (''reason_codes'', jstrs reasons)]"

definition insert_safe_loss ::
  "DecisionSnapshot \<Rightarrow> string \<Rightarrow> string list \<Rightarrow> json \<Rightarrow> datetime \<Rightarrow> journal \<Rightarrow> (journal \<times> IntentRecord \<times> bool) res" where
  "insert_safe_loss d ipc_input_sha256 reasons payload now st =
     (let iid = tombstone_id d ipc_input_sha256; did = snapshot_id d in
      case find_decision did st of
        Some existing \<Rightarrow> Inr (st, existing, False)
      | None \<Rightarrow>
          if find_intent iid st \<noteq> None
          then Inl (IntegrityError ''UNIQUE constraint failed: intents.intent_id'')
          else let row = new_row iid did (ds_symbol d) EXPIRED payload now (Some (joined reasons)) in
               Inr (add_transition (transition_row iid (Some CREATED) EXPIRED now
                      (JDict [(''safe_loss'', JBool True), (''reason_codes'', jstrs reasons)]))
                    (add_transition (transition_row iid None CREATED now (JDict [])) (add_intent row st)),
                    row, True))"

definition record_demo_auto_safe_loss ::
  "DecisionSnapshot \<Rightarrow> string \<Rightarrow> string list \<Rightarrow> datetime \<Rightarrow> datetime \<Rightarrow> journal
   \<Rightarrow> (journal \<times> IntentRecord \<times> bool) res" where
  "record_demo_auto_safe_loss d ipc_input_sha256 reason_codes occurred_at clock st =
     (let reasons = reason_set (map (norm_text True) reason_codes) in
      res_bind (checked
        ([raise_if (LIVE_ALLOWED \<or> SAFE_TO_DEMO_AUTO_ORDER)
            (JournalError ''DEMO_AUTO safe loss requires closed policy locks''),
          err_of (require_hash ''ipc_input_sha256'' ipc_input_sha256 64)]
         @ map (\<lambda>r. err_of (require_text ''reason_code'' r True)) reason_codes
         @ [raise_if (reasons = []) (ValueError ''safe loss requires at least one reason code'')]) ()) (\<lambda>_.
      res_bind (trusted_now clock (Some occurred_at)) (\<lambda>now.
      res_bind (json_text (safe_loss_payload d ipc_input_sha256 reasons)) (\<lambda>payload.
        insert_safe_loss d ipc_input_sha256 reasons payload now st))))"

section \<open>Transitions\<close>

text \<open>The optional arguments of \<open>_transition_locked\<close>.\<close>

record BrokerFacts =
  bf_details :: json
  bf_order_ticket :: "string option"
  bf_position_ticket :: "string option"
  bf_filled_volume :: "pyfloat option"
  bf_protective :: "bool option"
  bf_last_error :: "string option"

definition no_facts :: "json \<Rightarrow> string option \<Rightarrow> BrokerFacts" where
  "no_facts details err =
     \<lparr>bf_details = details, bf_order_ticket = None, bf_position_ticket = None, bf_filled_volume = None,
      bf_protective = None, bf_last_error = err\<rparr>"

definition or_else :: "string option \<Rightarrow> string option \<Rightarrow> string option" where
  "or_else v current = (if truthy_text v then v else current)"

definition next_filled :: "pyfloat \<Rightarrow> pyfloat option \<Rightarrow> pyfloat" where
  "next_filled current v = (case v of None \<Rightarrow> current | Some x \<Rightarrow> fl_max current x)"

definition apply_facts :: "execution_state \<Rightarrow> datetime \<Rightarrow> BrokerFacts \<Rightarrow> IntentRecord \<Rightarrow> IntentRecord" where
  "apply_facts to_state ts f row =
     row\<lparr>ir_state := to_state,
         ir_updated_at_utc := ts,
         ir_broker_order_ticket := or_else (bf_order_ticket f) (ir_broker_order_ticket row),
         ir_broker_position_ticket := or_else (bf_position_ticket f) (ir_broker_position_ticket row),
         ir_filled_volume := next_filled (ir_filled_volume row) (bf_filled_volume f),
         ir_protective_sl_tp_confirmed :=
           (case bf_protective f of None \<Rightarrow> ir_protective_sl_tp_confirmed row | Some b \<Rightarrow> b),
         ir_last_error := bf_last_error f\<rparr>"

definition transition_locked ::
  "IntentRecord \<Rightarrow> execution_state \<Rightarrow> datetime \<Rightarrow> BrokerFacts \<Rightarrow> journal \<Rightarrow> (journal \<times> IntentRecord) res" where
  "transition_locked row to_state ts f st =
     (if to_state = ir_state row then Inr (st, row)
      else if to_state \<notin> set (ALLOWED_TRANSITIONS (ir_state row))
      then Inl (InvalidTransitionError
             (''cannot transition '' @ state_name (ir_state row) @ '' -> '' @ state_name to_state))
      else if (case bf_filled_volume f of None \<Rightarrow> False
               | Some v \<Rightarrow> \<not> is_finite v \<or> fl_lt v (Fin 0))
      then Inl (ValueError ''filled_volume must be finite and nonnegative'')
      else res_bind (json_text (bf_details f)) (\<lambda>details.
             Inr (add_transition
                    (transition_row (ir_intent_id row) (Some (ir_state row)) to_state ts details)
                    (update_intent (ir_intent_id row) (apply_facts to_state ts f) st),
                  apply_facts to_state ts f row)))"

definition transition_request_checks :: "execution_state \<Rightarrow> BrokerFacts \<Rightarrow> exn option list" where
  "transition_request_checks to_state f =
     [raise_if (to_state \<in> set RESERVE_ONLY_TRANSITION_TARGETS)
        (InvalidTransitionError (state_name to_state @ '' is reserve-only; use reserve_submission()'')),
      raise_if (to_state \<in> set BROKER_CONCLUSIVE_TRANSITION_TARGETS)
        (InvalidTransitionError
           (state_name to_state @ '' requires typed broker execution or reconciliation evidence'')),
      raise_if (bf_order_ticket f \<noteq> None \<or> bf_position_ticket f \<noteq> None \<or> bf_filled_volume f \<noteq> None
                \<or> bf_protective f \<noteq> None)
        (InvalidTransitionError ''broker facts require typed execution or reconciliation evidence'')]"

definition transition_row_checks ::
  "string \<Rightarrow> execution_state \<Rightarrow> string option \<Rightarrow> IntentRecord \<Rightarrow> exn option list" where
  "transition_row_checks iid to_state expected_state row =
     [(case expected_state of None \<Rightarrow> None
       | Some e \<Rightarrow> raise_if (state_name (ir_state row) \<noteq> e)
           (InvalidTransitionError (''expected '' @ e @ '', found '' @ state_name (ir_state row)
              @ '' for '' @ iid))),
      raise_if (to_state = REJECTED \<and> ir_state row \<in> set GLOBAL_EXPOSURE_STATES)
        (InvalidTransitionError ''broker-exposed intent cannot be released without typed broker evidence'')]"

definition transition ::
  "string \<Rightarrow> string \<Rightarrow> string option \<Rightarrow> BrokerFacts \<Rightarrow> datetime option \<Rightarrow> datetime \<Rightarrow> journal
   \<Rightarrow> (journal \<times> IntentRecord) res" where
  "transition iid raw_to expected_state f occurred_at clock st =
     (case state_of (str_upper raw_to) of
        None \<Rightarrow> Inl (InvalidTransitionError (''unknown execution state: '' @ str_upper raw_to))
      | Some to_state \<Rightarrow>
          res_bind (checked (transition_request_checks to_state f) ()) (\<lambda>_.
          res_bind (trusted_now clock occurred_at) (\<lambda>now.
          with_intent iid st (\<lambda>row.
          res_bind (checked (transition_row_checks iid to_state expected_state row) ()) (\<lambda>_.
            transition_locked row to_state now (no_facts (bf_details f) (bf_last_error f)) st)))))"

section \<open>The final submission boundary\<close>

definition lease_stale :: "journal \<Rightarrow> string \<Rightarrow> int \<Rightarrow> datetime \<Rightarrow> exn option" where
  "lease_stale st owner_id fence_token now =
     (case j_lease st of
        None \<Rightarrow> Some (ExecutorFenceError ''no executor lease exists'')
      | Some l \<Rightarrow> raise_if (el_owner_id l \<noteq> owner_id \<or> el_fence_token l \<noteq> fence_token
                           \<or> dt_le (el_expires_at_utc l) now)
          (ExecutorFenceError ''executor lease is stale or owned by another process''))"

definition assert_final_submission_state ::
  "string \<Rightarrow> string \<Rightarrow> int \<Rightarrow> datetime \<Rightarrow> journal \<Rightarrow> nat res" where
  "assert_final_submission_state iid owner_id fence_token now st =
     checked
       [lease_stale st owner_id fence_token now,
        raise_if (ks_latched (j_kill_switch st))
          (KillSwitchLatchedError ''kill switch is latched at final submission boundary''),
        (case find_intent iid st of
           None \<Rightarrow> Some (KeyError iid)
         | Some row \<Rightarrow> raise_if (ir_state row \<noteq> SUBMITTING)
             (InvalidTransitionError (''expected SUBMITTING, found '' @ state_name (ir_state row)
                @ '' for '' @ iid))),
        raise_if (other_exposure iid st) (SubmissionLimitError ''GLOBAL_ACTIVE_EXECUTION_EXISTS''),
        raise_if (MAX_DAILY_SUBMISSIONS < daily_submissions now st) (SubmissionLimitError ''DAILY_ENTRY_LIMIT'')]
       (daily_submissions now st)"

record SubmissionBinding =
  sb_execution_gate_sha256 :: string
  sb_authorization_sha256 :: string
  sb_broker_request_sha256 :: string

definition guard_payload :: "string \<Rightarrow> int \<Rightarrow> nat \<Rightarrow> SubmissionBinding \<Rightarrow> json" where
  "guard_payload owner_id fence_token daily_count b = JDict
     [(''owner_id'', JStr owner_id),
      (''fence_token'', JInt fence_token),
      (''active_other_execution_count'', JInt 0),
      (''daily_submission_count'', JInt (int daily_count)),
      (''execution_gate_sha256'', JStr (sb_execution_gate_sha256 b)),
      (''authorization_sha256'', JStr (sb_authorization_sha256 b)),
      (''broker_request_sha256'', JStr (sb_broker_request_sha256 b))]"

text \<open>
  \<open>final_submission_guard\<close> is a context manager. Entering it commits the one-use consumption row
  and the guard receipt and yields the in-process lease; leaving it deactivates the lease and,
  when it was not consumed, records that it was not.
\<close>

definition final_submission_guard_enter ::
  "string \<Rightarrow> string \<Rightarrow> int \<Rightarrow> SubmissionBinding \<Rightarrow> datetime \<Rightarrow> datetime \<Rightarrow> journal
   \<Rightarrow> (journal \<times> DurableSubmissionLease) res" where
  "final_submission_guard_enter iid owner_id fence_token b occurred_at clock st =
     res_bind (trusted_now clock (Some occurred_at)) (\<lambda>now.
     res_bind (checked
       [raise_if (\<not> is_sha256_hex (sb_execution_gate_sha256 b))
          (ValueError ''execution_gate_sha256 must be a lowercase SHA-256 hash''),
        raise_if (\<not> is_sha256_hex (sb_authorization_sha256 b))
          (ValueError ''authorization_sha256 must be a lowercase SHA-256 hash''),
        raise_if (\<not> is_sha256_hex (sb_broker_request_sha256 b))
          (ValueError ''broker_request_sha256 must be a lowercase SHA-256 hash'')] ()) (\<lambda>_.
     res_bind (assert_final_submission_state iid owner_id fence_token now st) (\<lambda>daily_count.
     if find_consumption (sb_execution_gate_sha256 b) st \<noteq> None \<or> consumptions_of iid st \<noteq> []
     then Inl (SubmissionLimitError ''AUTHORIZATION_ALREADY_CONSUMED'')
     else Inr (add_receipt iid ''FINAL_SUBMISSION_GUARD'' now (guard_payload owner_id fence_token daily_count b)
                 (st\<lparr>j_consumptions := j_consumptions st
                    @ [\<lparr>ac_execution_gate_sha256 = sb_execution_gate_sha256 b,
                        ac_authorization_sha256 = sb_authorization_sha256 b,
                        ac_broker_request_sha256 = sb_broker_request_sha256 b,
                        ac_intent_id = iid, ac_occurred_at_utc = now,
                        ac_journal_sha256 = j_sha256 st\<rparr>]\<rparr>),
               \<lparr>dl_journal_sha256 = j_sha256 st, dl_intent_id = iid,
                dl_execution_gate_sha256 = sb_execution_gate_sha256 b,
                dl_authorization_sha256 = sb_authorization_sha256 b,
                dl_broker_request_sha256 = sb_broker_request_sha256 b,
                dl_issued_at = now, dl_owner_id = owner_id, dl_fence_token = fence_token,
                dl_active = True, dl_used = False\<rparr>))))"

definition final_validator :: "DurableSubmissionLease \<Rightarrow> datetime \<Rightarrow> journal \<Rightarrow> datetime res" where
  "final_validator l clock st =
     res_bind (trusted_now clock None) (\<lambda>final_now.
     res_bind (assert_final_submission_state (dl_intent_id l) (dl_owner_id l) (dl_fence_token l) final_now st)
       (\<lambda>_.
        if (case find_consumption (dl_execution_gate_sha256 l) st of
              None \<Rightarrow> True
            | Some c \<Rightarrow> ac_authorization_sha256 c \<noteq> dl_authorization_sha256 l
                \<or> ac_broker_request_sha256 c \<noteq> dl_broker_request_sha256 l
                \<or> ac_intent_id c \<noteq> dl_intent_id l \<or> ac_journal_sha256 c \<noteq> j_sha256 st)
        then Inl (SubmissionLimitError ''AUTHORIZATION_CONSUMPTION_MISMATCH'')
        else Inr final_now))"

definition lease_consume ::
  "DurableSubmissionLease \<Rightarrow> string \<Rightarrow> string \<Rightarrow> SubmissionBinding \<Rightarrow> datetime \<Rightarrow> journal
   \<Rightarrow> DurableSubmissionLease \<times> SubmissionConsumptionProof res" where
  "lease_consume l journal_sha iid b clock st =
     (if \<not> dl_active l \<or> dl_used l \<or> journal_sha \<noteq> dl_journal_sha256 l \<or> iid \<noteq> dl_intent_id l
         \<or> sb_execution_gate_sha256 b \<noteq> dl_execution_gate_sha256 l
         \<or> sb_authorization_sha256 b \<noteq> dl_authorization_sha256 l
         \<or> sb_broker_request_sha256 b \<noteq> dl_broker_request_sha256 l
      then (l, Inl (SubmissionLimitError ''AUTHORIZATION_ALREADY_CONSUMED''))
      else case final_validator l clock st of
        Inl e \<Rightarrow> (l, Inl e)
      | Inr consumed_at \<Rightarrow>
          (l\<lparr>dl_used := True\<rparr>,
           mint_submission_consumption_proof
             \<lparr>sp_journal_sha256 = dl_journal_sha256 l, sp_intent_id = dl_intent_id l,
              sp_execution_gate_sha256 = dl_execution_gate_sha256 l,
              sp_authorization_sha256 = dl_authorization_sha256 l,
              sp_broker_request_sha256 = dl_broker_request_sha256 l,
              sp_consumed_at = consumed_at\<rparr>))"

definition store_privileged_receipt_locked ::
  "string \<Rightarrow> string \<Rightarrow> datetime \<Rightarrow> json \<Rightarrow> journal \<Rightarrow> journal res" where
  "store_privileged_receipt_locked iid receipt_type ts payload st =
     res_bind (json_text payload) (\<lambda>payload_json.
       case latest_receipt iid receipt_type st of
         Some prior \<Rightarrow>
           if json_same prior payload_json then Inr st
           else Inl (InvalidTransitionError (receipt_type @ '' already exists with different evidence''))
       | None \<Rightarrow> Inr (add_receipt iid receipt_type ts payload_json st))"

definition lease_deactivate :: "DurableSubmissionLease \<Rightarrow> DurableSubmissionLease \<times> bool" where
  "lease_deactivate l = (l\<lparr>dl_active := False\<rparr>, dl_used l)"

definition not_consumed_payload :: "DurableSubmissionLease \<Rightarrow> json" where
  "not_consumed_payload l = JDict
     [(''intent_id'', JStr (dl_intent_id l)),
      (''execution_gate_sha256'', JStr (dl_execution_gate_sha256 l)),
      (''authorization_sha256'', JStr (dl_authorization_sha256 l)),
      (''broker_request_sha256'', JStr (dl_broker_request_sha256 l)),
      (''broker_submit_called'', JBool False)]"

definition final_submission_guard_exit ::
  "DurableSubmissionLease \<Rightarrow> datetime \<Rightarrow> journal \<Rightarrow> journal res" where
  "final_submission_guard_exit l clock st =
     (case lease_deactivate l of (l', consumed) \<Rightarrow>
        if consumed then Inr st
        else res_bind (trusted_now clock None) (\<lambda>unused_at.
          let iid = dl_intent_id l' in
          if (case find_intent iid st of None \<Rightarrow> True | Some row \<Rightarrow> ir_state row \<noteq> SUBMITTING)
          then Inl (InvalidTransitionError ''unused submission lease lost its journal binding'')
          else if has_receipt iid ''EXECUTION_RECEIPT'' st
          then Inl (InvalidTransitionError ''unused submission lease conflicts with broker receipt'')
          else store_privileged_receipt_locked iid ''SUBMISSION_LEASE_NOT_CONSUMED'' unused_at
                 (not_consumed_payload l') st))"

section \<open>Typed receipts\<close>

definition clock_disagrees :: "datetime \<Rightarrow> datetime \<Rightarrow> bool" where
  "clock_disagrees obs now =
     fl_lt RESET_CLOCK_ASSERTION_TOLERANCE_SECONDS (fl_abs (total_seconds (dt_sub obs now)))"

definition record_risk_decision ::
  "string \<Rightarrow> RiskDecision \<Rightarrow> datetime option \<Rightarrow> datetime \<Rightarrow> journal \<Rightarrow> journal res" where
  "record_risk_decision iid d occurred_at clock st =
     res_bind (trusted_now clock (Some (case occurred_at of None \<Rightarrow> rd_evaluated_at d | Some t \<Rightarrow> t))) (\<lambda>now.
     if clock_disagrees (rd_evaluated_at d) now
     then Inl (ValueError ''risk decision timestamp disagrees with trusted clock'')
     else with_intent iid st (\<lambda>row.
       let intent_payload = json_get (ir_payload row) ''intent'' in
       if rd_symbol d \<noteq> ir_symbol row
       then Inl (InvalidTransitionError ''risk decision does not bind the journal symbol'')
       else if \<not> json_is_dict intent_payload
       then Inl (InvalidTransitionError ''risk decision cannot bind a journal intent payload'')
       else res_bind (if rd_allowed d
                      then lot_differs (rd_normalized_lot d) (sub_get intent_payload ''requested_lot'')
                      else Inr False) (\<lambda>differs.
         if differs
         then Inl (InvalidTransitionError ''approved risk decision lot does not bind the immutable intent'')
         else store_privileged_receipt_locked iid ''RISK_DECISION'' now (RiskDecision_dict d) st)))"

definition record_mt5_preflight ::
  "string \<Rightarrow> MT5Preflight \<Rightarrow> datetime option \<Rightarrow> datetime \<Rightarrow> journal \<Rightarrow> journal res" where
  "record_mt5_preflight iid p occurred_at clock st =
     res_bind (trusted_now clock (Some (case occurred_at of None \<Rightarrow> mp_checked_at_utc p | Some t \<Rightarrow> t))) (\<lambda>now.
     if clock_disagrees (mp_checked_at_utc p) now
     then Inl (ValueError ''preflight timestamp disagrees with trusted clock'')
     else with_intent iid st (\<lambda>row.
       if mp_intent_id p \<noteq> iid
          \<or> json_get (ir_payload row) ''broker_spec_sha256'' \<noteq> Some (JStr (mp_broker_spec_sha256 p))
       then Inl (InvalidTransitionError ''MT5 preflight does not bind the immutable intent'')
       else store_privileged_receipt_locked iid ''MT5_PREFLIGHT'' now (MT5Preflight_dict p) st))"

section \<open>Submission evidence\<close>

definition fact_stale :: "datetime \<Rightarrow> datetime \<Rightarrow> bool" where
  "fact_stale now obs =
     (let age = total_seconds (dt_sub now obs) in fl_lt age (Fin 0) \<or> fl_lt (Fin 1) age)"

definition evidence_bindings ::
  "string \<Rightarrow> IntentRecord \<Rightarrow> RiskDecision \<Rightarrow> MT5Preflight \<Rightarrow> MT5SubmissionGuard \<Rightarrow> BrokerSpec \<Rightarrow> bool res" where
  "evidence_bindings iid row d p g broker =
     (let intent_payload = json_get (ir_payload row) ''intent'';
          spec = json_get (ir_payload row) ''broker_spec_sha256'' in
      if rd_symbol d \<noteq> ir_symbol row then Inr False
      else res_bind (lot_within (rd_normalized_lot d) (sub_get intent_payload ''requested_lot'')) (\<lambda>lot_ok.
        Inr (lot_ok \<and> mp_intent_id p = iid \<and> spec = Some (JStr (mp_broker_spec_sha256 p))
          \<and> mg_intent_id g = iid
          \<and> sub_get intent_payload ''account_id'' = Some (JStr (mg_account_id g))
          \<and> sub_get intent_payload ''server'' = Some (JStr (mg_server g))
          \<and> mg_symbol g = ir_symbol row
          \<and> mg_active_order_count g = 0 \<and> mg_active_position_count g = 0
          \<and> spec = Some (JStr (mg_broker_spec_sha256 g))
          \<and> spec = Some (JStr (BrokerSpec_content_sha256 broker)))))"

definition receipt_missing :: "string \<Rightarrow> string \<Rightarrow> json \<Rightarrow> journal \<Rightarrow> exn option" where
  "receipt_missing iid receipt_type expected st =
     raise_if (case latest_receipt iid receipt_type st of None \<Rightarrow> True
               | Some prior \<Rightarrow> canonical_sha256 prior \<noteq> canonical_sha256 expected)
       (InvalidTransitionError (''trusted '' @ receipt_type @ '' is missing or mismatched''))"

definition dt_min :: "datetime \<Rightarrow> datetime \<Rightarrow> datetime" where
  "dt_min a b = (if dt_lt b a then b else a)"

definition authorize_submission_evidence ::
  "string \<Rightarrow> RiskDecision \<Rightarrow> MT5Preflight \<Rightarrow> MT5SubmissionGuard \<Rightarrow> BrokerSpec \<Rightarrow> datetime option \<Rightarrow> datetime
   \<Rightarrow> journal \<Rightarrow> (journal \<times> SubmissionEvidenceCapability) res" where
  "authorize_submission_evidence iid d p g broker occurred_at clock st =
     res_bind (checked
       [raise_if (\<not> rd_allowed d) (TypeError ''sealed approved RiskDecision is required''),
        raise_if (\<not> mp_passed p) (TypeError ''sealed passed MT5Preflight is required'')] ()) (\<lambda>_.
     res_bind (trusted_now clock occurred_at) (\<lambda>now.
     res_bind (checked
       [raise_if (list_ex (fact_stale now)
            [rd_evaluated_at d, mp_checked_at_utc p, mg_checked_at_utc g, bs_captured_at broker])
          (InvalidTransitionError ''submission evidence is stale or future-dated''),
        raise_if (dt_le (mp_valid_until_utc p) now)
          (InvalidTransitionError ''MT5 preflight expired before reservation'')] ()) (\<lambda>_.
     with_intent iid st (\<lambda>row.
       if ir_state row \<noteq> PREFLIGHT_PASSED
       then Inl (InvalidTransitionError (''expected PREFLIGHT_PASSED, found '' @ state_name (ir_state row)
              @ '' for '' @ iid))
       else if \<not> json_is_dict (json_get (ir_payload row) ''intent'')
       then Inl (InvalidTransitionError ''submission evidence cannot bind a journal intent payload'')
       else res_bind (evidence_bindings iid row d p g broker) (\<lambda>bindings_match.
         if \<not> bindings_match
         then Inl (InvalidTransitionError ''submission evidence does not bind the immutable intent'')
         else res_bind (checked [receipt_missing iid ''RISK_DECISION'' (RiskDecision_dict d) st,
                                 receipt_missing iid ''MT5_PREFLIGHT'' (MT5Preflight_dict p) st] ()) (\<lambda>_.
           res_bind (store_privileged_receipt_locked iid ''SUBMISSION_GUARD'' now (MT5SubmissionGuard_dict g) st)
             (\<lambda>st'. res_bind (SubmissionEvidenceCapability_init True
               \<lparr>se_journal_sha256 = j_sha256 st, se_intent_id = iid,
                se_risk_decision_sha256 = RiskDecision_content_sha256 d,
                se_preflight_sha256 = MT5Preflight_content_sha256 p,
                se_submission_guard_sha256 = MT5SubmissionGuard_content_sha256 g,
                se_broker_spec_sha256 = BrokerSpec_content_sha256 broker,
                se_issued_at = now,
                se_valid_until = dt_min (mp_valid_until_utc p) (dt_add now (seconds 1))\<rparr>)
               (\<lambda>capability. Inr (st', capability)))))))))"

section \<open>Reserving a submission\<close>

definition receipt_contract_valid ::
  "string \<Rightarrow> IntentRecord \<Rightarrow> SubmissionEvidenceCapability \<Rightarrow> json \<Rightarrow> json \<Rightarrow> json \<Rightarrow> bool" where
  "receipt_contract_valid iid row ev risk preflight guard =
     (json_get risk ''allowed'' = Some (JBool True)
      \<and> json_get risk ''symbol'' = Some (JStr (ir_symbol row))
      \<and> json_get preflight ''passed'' = Some (JBool True)
      \<and> json_get preflight ''intent_id'' = Some (JStr iid)
      \<and> json_get guard ''active_order_count'' = Some (JInt 0)
      \<and> json_get guard ''active_position_count'' = Some (JInt 0)
      \<and> json_get guard ''broker_spec_sha256'' = json_get (ir_payload row) ''broker_spec_sha256''
      \<and> canonical_sha256 risk = se_risk_decision_sha256 ev
      \<and> canonical_sha256 preflight = se_preflight_sha256 ev
      \<and> canonical_sha256 guard = se_submission_guard_sha256 ev
      \<and> json_get (ir_payload row) ''broker_spec_sha256'' = Some (JStr (se_broker_spec_sha256 ev)))"

definition reservation_checks ::
  "string \<Rightarrow> string \<Rightarrow> int \<Rightarrow> SubmissionEvidenceCapability \<Rightarrow> datetime \<Rightarrow> IntentRecord \<Rightarrow> journal \<Rightarrow> exn option list" where
  "reservation_checks iid owner_id fence_token ev now row st =
     [raise_if (ir_state row \<noteq> PREFLIGHT_PASSED)
        (InvalidTransitionError (''expected PREFLIGHT_PASSED, found '' @ state_name (ir_state row)
           @ '' for '' @ iid)),
      raise_if (other_exposure iid st) (SubmissionLimitError ''GLOBAL_ACTIVE_EXECUTION_EXISTS''),
      raise_if (MAX_DAILY_SUBMISSIONS \<le> daily_submissions now st) (SubmissionLimitError ''DAILY_ENTRY_LIMIT''),
      (case (latest_receipt iid ''RISK_DECISION'' st, latest_receipt iid ''MT5_PREFLIGHT'' st,
             latest_receipt iid ''SUBMISSION_GUARD'' st) of
         (Some risk, Some preflight, Some guard) \<Rightarrow>
           raise_if (\<not> receipt_contract_valid iid row ev risk preflight guard)
             (InvalidTransitionError ''submission evidence receipts do not bind the immutable intent'')
       | _ \<Rightarrow> Some (InvalidTransitionError
                  ''submission reservation lacks risk, preflight, or guard receipt''))]"

definition reserve_submission ::
  "string \<Rightarrow> string \<Rightarrow> int \<Rightarrow> SubmissionEvidenceCapability \<Rightarrow> datetime option \<Rightarrow> json \<Rightarrow> datetime \<Rightarrow> journal
   \<Rightarrow> (journal \<times> IntentRecord) res" where
  "reserve_submission iid owner_id fence_token ev occurred_at details clock st =
     res_bind (trusted_now clock occurred_at) (\<lambda>now.
     res_bind (checked
       [raise_if (se_journal_sha256 ev \<noteq> j_sha256 st \<or> se_intent_id ev \<noteq> iid
            \<or> \<not> (dt_le (se_issued_at ev) now \<and> dt_lt now (se_valid_until ev)))
          (InvalidTransitionError ''submission evidence capability is stale or mismatched''),
        lease_stale st owner_id fence_token now,
        raise_if (ks_latched (j_kill_switch st))
          (KillSwitchLatchedError ''kill switch is latched at submission boundary'')] ()) (\<lambda>_.
     with_intent iid st (\<lambda>row.
     res_bind (checked (reservation_checks iid owner_id fence_token ev now row st) ()) (\<lambda>_.
     res_bind (json_text details) (\<lambda>details_json.
       Inr (add_transition (transition_row iid (Some PREFLIGHT_PASSED) SUBMITTING now details_json)
              (update_intent iid (\<lambda>r. r\<lparr>ir_state := SUBMITTING, ir_updated_at_utc := now\<rparr>) st),
            row\<lparr>ir_state := SUBMITTING, ir_updated_at_utc := now\<rparr>))))))"

section \<open>Broker outcomes\<close>

definition receipt_binds :: "IntentRecord \<Rightarrow> ExecutionReceipt \<Rightarrow> journal \<Rightarrow> bool res" where
  "receipt_binds row r st =
     (let intent_payload = json_get (ir_payload row) ''intent'' in
      if \<not> (sub_get intent_payload ''account_id'' = Some (JStr (er_account_id r))
             \<and> sub_get intent_payload ''server'' = Some (JStr (er_server r))
             \<and> er_symbol r = ir_symbol row
             \<and> sub_get intent_payload ''symbol'' = Some (JStr (er_symbol r)))
      then Inr False
      else res_bind (lot_within (er_requested_volume r) (sub_get intent_payload ''requested_lot''))
             (\<lambda>lot_ok. Inr (lot_ok \<and> er_journal_sha256 r = j_sha256 st)))"

definition consumption_check :: "ExecutionReceipt \<Rightarrow> journal \<Rightarrow> exn option" where
  "consumption_check r st =
     raise_if (case find_consumption (er_execution_gate_sha256 r) st of
                 None \<Rightarrow> True
               | Some c \<Rightarrow> ac_intent_id c \<noteq> er_intent_id r \<or> ac_journal_sha256 c \<noteq> er_journal_sha256 r
                   \<or> ac_authorization_sha256 c \<noteq> er_authorization_sha256 r
                   \<or> ac_broker_request_sha256 c \<noteq> er_broker_request_sha256 r)
       (InvalidTransitionError ''execution receipt has no matching authorization consumption'')"

definition final_guard_check :: "ExecutionReceipt \<Rightarrow> journal \<Rightarrow> exn option" where
  "final_guard_check r st =
     (case latest_receipt (er_intent_id r) ''FINAL_SUBMISSION_GUARD'' st of
        None \<Rightarrow> Some (InvalidTransitionError ''execution receipt has no committed final submission guard'')
      | Some g \<Rightarrow>
          raise_if (json_get g ''execution_gate_sha256'' \<noteq> Some (JStr (er_execution_gate_sha256 r))
              \<or> json_get g ''authorization_sha256'' \<noteq> Some (JStr (er_authorization_sha256 r))
              \<or> json_get g ''broker_request_sha256'' \<noteq> Some (JStr (er_broker_request_sha256 r)))
            (InvalidTransitionError ''execution receipt does not match final submission guard''))"

definition receipt_targets :: "execution_state list" where
  "receipt_targets = [ACKNOWLEDGED, PARTIAL, FILLED, REJECTED, UNCERTAIN]"

definition receipt_target :: "ExecutionReceipt \<Rightarrow> execution_state res" where
  "receipt_target r =
     (case state_of (str_upper (er_state r)) of
        Some t \<Rightarrow> if t \<in> set receipt_targets then Inr t
                  else Inl (InvalidTransitionError ''execution receipt does not describe a journal broker outcome'')
      | None \<Rightarrow> Inl (InvalidTransitionError ''execution receipt does not describe a journal broker outcome''))"

definition record_execution_receipt ::
  "ExecutionReceipt \<Rightarrow> datetime option \<Rightarrow> datetime \<Rightarrow> journal \<Rightarrow> (journal \<times> IntentRecord) res" where
  "record_execution_receipt r occurred_at clock st =
     res_bind (trusted_now clock occurred_at) (\<lambda>now.
     let age = total_seconds (dt_sub now (er_received_at r)) in
     res_bind (checked
       [raise_if (fl_lt age (fl_neg RESET_CLOCK_ASSERTION_TOLERANCE_SECONDS))
          (ValueError ''execution receipt timestamp is in the future''),
        raise_if (fl_lt MAX_EXECUTION_RECEIPT_RECORDING_DELAY_SECONDS age)
          (ValueError ''execution receipt was not journaled promptly'')] ()) (\<lambda>_.
     res_bind (receipt_target r) (\<lambda>target.
     with_intent (er_intent_id r) st (\<lambda>row.
       if ir_state row \<noteq> SUBMITTING
       then Inl (InvalidTransitionError (''expected SUBMITTING, found '' @ state_name (ir_state row)
              @ '' for '' @ er_intent_id r))
       else if \<not> json_is_dict (json_get (ir_payload row) ''intent'')
       then Inl (InvalidTransitionError ''execution receipt cannot bind a journal intent payload'')
       else res_bind (receipt_binds row r st) (\<lambda>matches.
         if \<not> matches
         then Inl (InvalidTransitionError ''execution receipt does not bind the immutable intent'')
         else res_bind (checked [consumption_check r st, final_guard_check r st] ()) (\<lambda>_.
           res_bind (json_text (ExecutionReceipt_dict r)) (\<lambda>payload.
             transition_locked row target now
               \<lparr>bf_details = JDict [(''receipt_id'', JStr (receipt_id r))],
                bf_order_ticket = er_order_ticket r, bf_position_ticket = None,
                bf_filled_volume = Some (er_filled_volume r), bf_protective = Some False,
                bf_last_error = None\<rparr>
               (add_receipt (er_intent_id r) ''EXECUTION_RECEIPT'' now payload st))))))))"

definition not_sent_details :: "string \<Rightarrow> json" where
  "not_sent_details reason = JDict
     [(''reason_codes'', jstrs [reason]), (''broker_submit_called'', JBool False),
      (''reconciliation_required'', JBool False), (''retry_allowed'', JBool False)]"

definition not_sent_payload :: "string \<Rightarrow> string \<Rightarrow> string \<Rightarrow> json \<Rightarrow> json" where
  "not_sent_payload iid verification_sha256 reason payload = JDict
     [(''intent_id'', JStr iid), (''dispatch_verification_sha256'', JStr verification_sha256),
      (''reason_code'', JStr reason), (''broker_submit_called'', JBool False),
      (''journal_payload_sha256'', JStr (canonical_sha256 payload))]"

definition unused_lease_proved :: "string \<Rightarrow> journal \<Rightarrow> bool" where
  "unused_lease_proved iid st =
     (let guard_count = length (receipts_of iid ''FINAL_SUBMISSION_GUARD'' st);
          authorization_count = length (consumptions_of iid st);
          unused_lease_count = length (receipts_of iid ''SUBMISSION_LEASE_NOT_CONSUMED'' st) in
      \<not> (1 < guard_count \<or> 1 < authorization_count \<or> 1 < unused_lease_count
         \<or> (guard_count \<noteq> 0 \<or> authorization_count \<noteq> 0) \<and> unused_lease_count \<noteq> 1))"

definition record_submission_not_sent ::
  "string \<Rightarrow> string \<Rightarrow> string \<Rightarrow> datetime option \<Rightarrow> datetime \<Rightarrow> journal \<Rightarrow> (journal \<times> IntentRecord) res" where
  "record_submission_not_sent iid dispatch_verification_sha256 reason_code occurred_at clock st =
     (let verification_sha256 = str_lower dispatch_verification_sha256;
          reason = str_upper (str_strip reason_code) in
      res_bind (checked
        [raise_if (\<not> is_sha256_hex verification_sha256)
           (ValueError ''dispatch_verification_sha256 must be SHA-256''),
         raise_if (reason = []) (ValueError ''reason_code is required'')] ()) (\<lambda>_.
      res_bind (trusted_now clock occurred_at) (\<lambda>now.
      with_intent iid st (\<lambda>row.
      res_bind (checked
        [raise_if (json_get (ir_payload row) ''demo_auto_session_dispatch_verification_sha256''
                     \<noteq> Some (JStr verification_sha256))
           (InvalidTransitionError ''dispatch verification does not bind the journal intent''),
         raise_if (ir_state row \<notin> {SUBMITTING, UNCERTAIN})
           (InvalidTransitionError ''submission-not-sent requires SUBMITTING or UNCERTAIN''),
         raise_if (has_receipt iid ''EXECUTION_RECEIPT'' st \<or> has_receipt iid ''RECONCILIATION_RECEIPT'' st)
           (InvalidTransitionError ''broker evidence prevents a before-send terminal proof''),
         raise_if (\<not> unused_lease_proved iid st)
           (InvalidTransitionError ''journal cannot prove that the final submission lease was unused'')] ()) (\<lambda>_.
      transition_locked row REJECTED now (no_facts (not_sent_details reason) (Some reason))
        (add_receipt iid ''SUBMISSION_NOT_SENT'' now
           (not_sent_payload iid verification_sha256 reason (ir_payload row)) st))))))"

section \<open>Dispatch settlement\<close>

text \<open>
  The verdict of \<open>demo_auto_dispatch_settlement\<close>: the state, the row after a possible terminal
  transition, the settlement state and whether the broker may have been called.
\<close>

definition settlement_verdict ::
  "string \<Rightarrow> IntentRecord \<Rightarrow> datetime \<Rightarrow> journal \<Rightarrow> (journal \<times> IntentRecord \<times> string \<times> bool) res" where
  "settlement_verdict iid row now st =
     (let final_guard = has_receipt iid ''FINAL_SUBMISSION_GUARD'' st;
          execution_receipt = has_receipt iid ''EXECUTION_RECEIPT'' st;
          reconciliation_receipt = has_receipt iid ''RECONCILIATION_RECEIPT'' st;
          lease_not_consumed = has_receipt iid ''SUBMISSION_LEASE_NOT_CONSUMED'' st;
          not_sent = has_receipt iid ''SUBMISSION_NOT_SENT'' st;
          no_send_boundary = (\<not> final_guard \<and> consumptions_of iid st = [] \<or> lease_not_consumed) in
      if not_sent
      then if execution_receipt \<or> reconciliation_receipt
           then Inl (InvalidTransitionError ''submission-not-sent conflicts with broker evidence'')
           else if ir_state row \<noteq> REJECTED
           then Inl (InvalidTransitionError ''submission-not-sent intent is not terminal'')
           else Inr (st, row, ''ABORTED_BEFORE_SEND'', False)
      else if no_send_boundary
      then if execution_receipt \<or> reconciliation_receipt
           then Inl (InvalidTransitionError ''unused submission boundary conflicts with broker evidence'')
           else if ir_state row \<in> {PREFLIGHT_PASSED, SUBMITTING, UNCERTAIN}
           then res_bind (transition_locked row REJECTED now
                  (no_facts (not_sent_details ''DEMO_AUTO_RECOVERY_ABORTED_BEFORE_SEND'')
                     (Some ''DEMO_AUTO_RECOVERY_ABORTED_BEFORE_SEND'')) st)
                  (\<lambda>(st', row'). Inr (st', row', ''ABORTED_BEFORE_SEND'', False))
           else if ir_state row \<notin> {RISK_REJECTED, REJECTED, EXPIRED}
           then Inl (InvalidTransitionError ''journal state cannot prove a before-send abort'')
           else Inr (st, row, ''ABORTED_BEFORE_SEND'', False)
      else if reconciliation_receipt \<and> ir_state row \<notin> {SUBMITTING, UNCERTAIN}
      then Inr (st, row, ''RECONCILED'', True)
      else if execution_receipt \<and> ir_state row \<notin> {SUBMITTING, UNCERTAIN}
      then Inr (st, row, ''COMPLETED'', True)
      else Inr (st, row, ''RECONCILIATION_REQUIRED'', True))"

definition settlement_evidence ::
  "string \<Rightarrow> string \<Rightarrow> IntentRecord \<Rightarrow> json \<Rightarrow> string \<Rightarrow> datetime \<Rightarrow> journal \<Rightarrow> json" where
  "settlement_evidence iid verification_sha256 row payload settlement_state now st = JDict
     [(''journal_sha256'', JStr (j_sha256 st)),
      (''intent_id'', JStr iid),
      (''dispatch_verification_sha256'', JStr verification_sha256),
      (''journal_state'', JStr (state_name (ir_state row))),
      (''settlement_state'', JStr settlement_state),
      (''immutable_payload_sha256'', JStr (canonical_sha256 payload)),
      (''receipt_hashes'', JList (map (\<lambda>r. jstrs [rr_receipt_type r, canonical_sha256 (rr_payload r)])
         (filter (\<lambda>r. rr_intent_id r = iid) (j_receipts st)))),
      (''authorization_consumption_count'', JInt (int (length (consumptions_of iid st)))),
      (''issued_at_utc'', JStr (iso_text now))]"

definition demo_auto_dispatch_settlement ::
  "string \<Rightarrow> string \<Rightarrow> datetime option \<Rightarrow> datetime \<Rightarrow> journal
   \<Rightarrow> (journal \<times> DemoAutoDispatchJournalSettlement) res" where
  "demo_auto_dispatch_settlement iid dispatch_verification_sha256 occurred_at clock st =
     (let verification_sha256 = str_lower dispatch_verification_sha256 in
      if \<not> is_sha256_hex verification_sha256
      then Inl (ValueError ''dispatch_verification_sha256 must be SHA-256'')
      else res_bind (trusted_now clock occurred_at) (\<lambda>now.
      with_intent iid st (\<lambda>row.
        if json_get (ir_payload row) ''demo_auto_session_dispatch_verification_sha256''
             \<noteq> Some (JStr verification_sha256)
        then Inl (InvalidTransitionError ''dispatch verification does not bind the journal intent'')
        else res_bind (settlement_verdict iid row now st) (\<lambda>(st', row', settlement_state, submit_called).
          res_bind (Settlement_init True
            \<lparr>st_journal_sha256 = j_sha256 st, st_intent_id = iid,
             st_dispatch_verification_sha256 = verification_sha256,
             st_journal_state = ir_state row',
             st_settlement_state = settlement_state,
             st_evidence_sha256 = canonical_sha256
               (settlement_evidence iid verification_sha256 row' (ir_payload row) settlement_state now st),
             st_broker_submit_called = submit_called,
             st_final_submission_guard_present = has_receipt iid ''FINAL_SUBMISSION_GUARD'' st,
             st_execution_receipt_present = has_receipt iid ''EXECUTION_RECEIPT'' st,
             st_reconciliation_receipt_present = has_receipt iid ''RECONCILIATION_RECEIPT'' st,
             st_submission_lease_not_consumed_receipt_present =
               has_receipt iid ''SUBMISSION_LEASE_NOT_CONSUMED'' st,
             st_submission_not_sent_receipt_present = has_receipt iid ''SUBMISSION_NOT_SENT'' st,
             st_issued_at_utc = now\<rparr>)
            (\<lambda>settlement. Inr (st', settlement))))))"

section \<open>Reconciliation\<close>

definition close_mismatch :: "IntentRecord \<Rightarrow> ReconciliationEvidence \<Rightarrow> bool res" where
  "close_mismatch row e =
     (let closed = json_get (re_details e) ''closed_volume'' in
      if json_get (re_details e) ''source'' \<noteq> Some (JStr ''BROKER_EXIT_DEAL_RECONCILIATION'')
         \<or> (\<exists>b \<in> {True, False}. closed = Some (JBool b))
      then Inr True
      else res_bind (json_float closed) (\<lambda>v.
        Inr (\<not> is_finite v \<or> fl_lt cash_tolerance (fl_abs (fl_sub v (ir_filled_volume row)))
             \<or> fl_le (ir_filled_volume row) (Fin 0))))"

definition reconciliation_check :: "IntentRecord \<Rightarrow> ReconciliationEvidence \<Rightarrow> unit res" where
  "reconciliation_check row e =
     (let target = re_target_state e in
      if ir_state row \<noteq> re_expected_state e
      then Inl (InvalidTransitionError (''expected '' @ state_name (re_expected_state e) @ '', found ''
             @ state_name (ir_state row) @ '' for '' @ re_intent_id e))
      else if target \<in> {PARTIAL, FILLED}
              \<and> (\<not> truthy_text (re_broker_position_ticket e)
                  \<or> (case re_filled_volume e of None \<Rightarrow> True | Some v \<Rightarrow> fl_le v (Fin 0)))
      then Inl (InvalidTransitionError ''position reconciliation requires ticket and positive volume'')
      else if target = ACKNOWLEDGED \<and> \<not> truthy_text (re_broker_order_ticket e)
      then Inl (InvalidTransitionError ''order reconciliation requires a broker order ticket'')
      else if target = CLOSED
      then res_bind (close_mismatch row e) (\<lambda>mismatch.
             if mismatch
             then Inl (InvalidTransitionError ''close reconciliation must bind the observed filled volume'')
             else Inr ())
      else Inr ())"

definition reconciliation_payload :: "ReconciliationEvidence \<Rightarrow> datetime \<Rightarrow> json" where
  "reconciliation_payload e now = JDict
     [(''intent_id'', JStr (re_intent_id e)),
      (''expected_state'', JStr (state_name (re_expected_state e))),
      (''target_state'', JStr (state_name (re_target_state e))),
      (''observed_at_utc'', JStr (iso_text now)),
      (''details'', re_details e),
      (''broker_order_ticket'', jopt JStr (re_broker_order_ticket e)),
      (''broker_position_ticket'', jopt JStr (re_broker_position_ticket e)),
      (''filled_volume'', jopt JFloat (re_filled_volume e)),
      (''protective_sl_tp_confirmed'', jopt JBool (re_protective_sl_tp_confirmed e)),
      (''last_error'', jopt JStr (re_last_error e))]"

definition evidence_facts :: "ReconciliationEvidence \<Rightarrow> BrokerFacts" where
  "evidence_facts e =
     \<lparr>bf_details = re_details e, bf_order_ticket = re_broker_order_ticket e,
      bf_position_ticket = re_broker_position_ticket e, bf_filled_volume = re_filled_volume e,
      bf_protective = re_protective_sl_tp_confirmed e, bf_last_error = re_last_error e\<rparr>"

definition apply_reconciliation ::
  "ReconciliationEvidence \<Rightarrow> datetime \<Rightarrow> journal \<Rightarrow> (journal \<times> IntentRecord) res" where
  "apply_reconciliation e clock st =
     res_bind (trusted_now clock (Some (re_observed_at e))) (\<lambda>now.
     with_intent (re_intent_id e) st (\<lambda>row.
     res_bind (reconciliation_check row e) (\<lambda>_.
     res_bind (json_text (reconciliation_payload e now)) (\<lambda>payload.
     let st1 = add_receipt (re_intent_id e) ''RECONCILIATION_RECEIPT'' now payload st;
         target = re_target_state e in
     if target = re_expected_state e
     then Inr (add_transition (transition_row (re_intent_id e) (Some target) target now (re_details e))
                 (update_intent (re_intent_id e) (apply_facts target now (evidence_facts e)) st1),
               apply_facts target now (evidence_facts e) row)
     else transition_locked row target now (evidence_facts e) st1))))"

section \<open>Generic receipts and readers\<close>

definition append_receipt ::
  "string \<Rightarrow> string \<Rightarrow> json \<Rightarrow> datetime option \<Rightarrow> datetime \<Rightarrow> journal \<Rightarrow> journal res" where
  "append_receipt iid receipt_type payload occurred_at clock st =
     (let normalized_type = str_upper (str_strip receipt_type) in
      if normalized_type \<in> set PRIVILEGED_RECEIPT_TYPES
      then Inl (PermissionError (normalized_type @ '' requires the typed journal receipt API''))
      else if normalized_type = [] then Inl (ValueError ''receipt_type is required'')
      else with_intent iid st (\<lambda>row.
           res_bind (trusted_now clock occurred_at) (\<lambda>now.
           res_bind (json_text payload) (\<lambda>payload_json.
             Inr (add_receipt iid normalized_type now payload_json st)))))"

definition get_intent :: "string \<Rightarrow> journal \<Rightarrow> IntentRecord option" where
  "get_intent iid st = find_intent iid st"

definition get_intent_by_decision :: "string \<Rightarrow> journal \<Rightarrow> IntentRecord option res" where
  "get_intent_by_decision did st =
     (let normalized = str_strip did in
      if normalized = [] then Inl (ValueError ''decision_id is required'')
      else Inr (find_decision normalized st))"

definition active_intents :: "journal \<Rightarrow> IntentRecord list" where
  "active_intents st =
     sort_key (\<lambda>r. instant (ir_created_at_utc r))
       (filter (\<lambda>r. ir_state r \<notin> set TERMINAL_STATES) (j_intents st))"

definition transition_history :: "string \<Rightarrow> journal \<Rightarrow> TransitionRow list" where
  "transition_history iid st = filter (\<lambda>t. tr_intent_id t = iid) (j_transitions st)"

section \<open>Executor lease\<close>

definition claim_executor ::
  "string \<Rightarrow> int \<Rightarrow> datetime option \<Rightarrow> datetime \<Rightarrow> journal \<Rightarrow> (journal \<times> int) res" where
  "claim_executor owner_id lease_seconds requested clock st =
     (if str_strip owner_id = [] \<or> lease_seconds \<le> 0
      then Inl (ValueError ''owner_id and positive lease_seconds are required'')
      else res_bind (trusted_now clock requested) (\<lambda>now.
        let claim = (\<lambda>token. Inr (st\<lparr>j_lease := Some \<lparr>el_owner_id = owner_id, el_fence_token = token,
              el_expires_at_utc = dt_add now (seconds lease_seconds), el_updated_at_utc = now\<rparr>\<rparr>, token)) in
        case j_lease st of
          None \<Rightarrow> claim 1
        | Some l \<Rightarrow>
            if dt_lt now (el_expires_at_utc l) \<and> el_owner_id l \<noteq> owner_id
            then Inl (ExecutorFenceError (''executor lease is owned by '' @ el_owner_id l @ '' until ''
                   @ iso_text (el_expires_at_utc l)))
            else claim (el_fence_token l + 1)))"

definition assert_executor_fence :: "string \<Rightarrow> int \<Rightarrow> datetime option \<Rightarrow> datetime \<Rightarrow> journal \<Rightarrow> unit res" where
  "assert_executor_fence owner_id fence_token requested clock st =
     res_bind (trusted_now clock requested) (\<lambda>now. checked [lease_stale st owner_id fence_token now] ())"

section \<open>Kill switch\<close>

definition latch_kill_switch ::
  "string \<Rightarrow> string \<Rightarrow> datetime option \<Rightarrow> datetime \<Rightarrow> journal \<Rightarrow> journal res" where
  "latch_kill_switch reason source occurred_at clock st =
     (if str_strip reason = [] \<or> str_strip source = []
      then Inl (ValueError ''kill-switch reason and source are required'')
      else res_bind (trusted_now clock occurred_at) (\<lambda>now.
        Inr (st\<lparr>j_kill_switch := \<lparr>ks_latched = True, ks_reason = str_strip reason,
                   ks_latched_at_utc = Some now, ks_source = str_upper (str_strip source),
                   ks_reset_at_utc = None, ks_reset_reason = None\<rparr>,
                j_kill_events := j_kill_events st
                  @ [\<lparr>ke_action = ''LATCH'', ke_reason = str_strip reason,
                      ke_source = str_upper (str_strip source), ke_occurred_at_utc = now\<rparr>]\<rparr>)))"

definition kill_switch_status :: "journal \<Rightarrow> KillSwitch" where
  "kill_switch_status st = j_kill_switch st"

text \<open>The dictionary its caller receives.\<close>

definition kill_switch_mapping :: "KillSwitch \<Rightarrow> json" where
  "kill_switch_mapping k = JDict
     [(''latched'', JBool (ks_latched k)), (''reason'', JStr (ks_reason k)),
      (''latched_at_utc'', jopt jtime (ks_latched_at_utc k)), (''source'', JStr (ks_source k)),
      (''reset_at_utc'', jopt jtime (ks_reset_at_utc k)), (''reset_reason'', jopt JStr (ks_reset_reason k))]"

definition reset_source :: "KillSwitchResetAuthorization \<Rightarrow> string" where
  "reset_source a = ''DUAL_CONTROL:'' @ ka_authorization_id a"

definition reset_replayed :: "KillSwitchResetAuthorization \<Rightarrow> journal \<Rightarrow> bool" where
  "reset_replayed a st =
     list_ex (\<lambda>e. ke_action e = ''RESET'' \<and> ke_source e = reset_source a) (j_kill_events st)"

definition reset_kill_switch ::
  "KillSwitchResetAuthorization \<Rightarrow> string \<Rightarrow> datetime option \<Rightarrow> datetime \<Rightarrow> journal \<Rightarrow> journal res" where
  "reset_kill_switch a reason occurred_at clock st =
     (if str_strip reason = [] then Inl (ValueError ''reset reason is required'')
      else res_bind (trusted_now clock occurred_at) (\<lambda>now.
      if \<not> ks_latched (j_kill_switch st) then Inl (PermissionError ''kill switch is not currently latched'')
      else case ks_latched_at_utc (j_kill_switch st) of
        None \<Rightarrow> Inl (TypeError ''fromisoformat: argument must be str'')
      | Some latched_at \<Rightarrow>
          res_bind (reset_reason_sha256 reason) (\<lambda>reason_hash.
          if reset_replayed a st \<or> ka_journal_sha256 a \<noteq> j_sha256 st
             \<or> \<not> dt_eq (ka_latched_at_utc a) latched_at
             \<or> ka_reset_reason_sha256 a \<noteq> reason_hash
             \<or> \<not> dt_le (ka_checked_at_utc a) now \<or> \<not> dt_lt now (ka_valid_until_utc a)
          then Inl (PermissionError ''dual-control reset authorization is stale, replayed, or mismatched'')
          else Inr (st\<lparr>j_kill_switch := (j_kill_switch st)\<lparr>ks_latched := False, ks_reset_at_utc := Some now,
                         ks_reset_reason := Some (str_strip reason)\<rparr>,
                       j_kill_events := j_kill_events st
                         @ [\<lparr>ke_action = ''RESET'', ke_reason = str_strip reason,
                             ke_source = reset_source a, ke_occurred_at_utc = now\<rparr>]\<rparr>))))"

definition kill_switch_history :: "journal \<Rightarrow> KillSwitchEvent list" where
  "kill_switch_history st = j_kill_events st"

end
