(* ===== verification/Journal_Effects.thy ===== *)
theory Journal_Effects
  imports Journal
begin

text \<open>
  What the operations of the journal do to the intents and their transitions. Every operation
  that returns leaves them alone, opens one fresh intent or moves one intent along the
  transition table (\<open>effect\<close>); receipts, consumptions, the lease and the kill switch are tracked
  by frame lemmas.
\<close>

named_theorems journal_defs \<open>the table updates\<close>

declare add_transition_def [journal_defs] add_intent_def [journal_defs] add_receipt_def [journal_defs]
  update_intent_def [journal_defs]

section \<open>Lookups\<close>

lemma find_intent_Some:
  "find_intent iid st = Some row \<Longrightarrow> row \<in> set (j_intents st) \<and> ir_intent_id row = iid"
  by (auto simp: find_intent_def find_Some_iff)

lemma find_intent_None: "find_intent iid st = None \<longleftrightarrow> iid \<notin> ir_intent_id ` set (j_intents st)"
  by (auto simp: find_intent_def find_None_iff)

lemma find_decision_None: "find_decision did st = None \<longleftrightarrow> did \<notin> ir_decision_id ` set (j_intents st)"
  by (auto simp: find_decision_def find_None_iff)

lemma find_consumption_None:
  "find_consumption g st = None \<longleftrightarrow> g \<notin> ac_execution_gate_sha256 ` set (j_consumptions st)"
  by (auto simp: find_consumption_def find_None_iff)

lemma find_consumption_Some:
  "find_consumption g st = Some c \<Longrightarrow> c \<in> set (j_consumptions st) \<and> ac_execution_gate_sha256 c = g"
  by (auto simp: find_consumption_def find_Some_iff)

lemma consumptions_of_Nil:
  "consumptions_of iid st = [] \<longleftrightarrow> iid \<notin> ac_intent_id ` set (j_consumptions st)"
  by (auto simp: consumptions_of_def filter_empty_conv)

lemma with_intent_Inr:
  "with_intent iid st f = Inr y \<longleftrightarrow> (\<exists>row. find_intent iid st = Some row \<and> f row = Inr y)"
  by (auto simp: with_intent_def split: option.splits)

lemma json_text_Inr: "json_text v = Inr w \<longleftrightarrow> json_finite v \<and> w = v"
  by (auto simp: json_text_def)

lemma trusted_now_Inr: "trusted_now clock requested = Inr now \<Longrightarrow> now = clock \<and> is_utc clock"
  by (cases requested)
    (auto simp: trusted_now_def res_bind_Inr_iff require_aware_utc_def Let_def split: if_splits)

lemmas op_simps = res_bind_Inr_iff with_intent_Inr json_text_Inr checked_Inr_iff Let_def

section \<open>Effects on intents and transitions\<close>

definition fresh_states :: "execution_state list" where
  "fresh_states = [CREATED, RISK_REJECTED, EXPIRED]"

text \<open>The condition under which the move of an intent may reserve a submission.\<close>

definition reservable :: "string \<Rightarrow> IntentRecord \<Rightarrow> datetime \<Rightarrow> journal \<Rightarrow> bool" where
  "reservable iid row ts st =
     (ir_state row = PREFLIGHT_PASSED \<and> \<not> other_exposure iid st \<and> is_utc ts
      \<and> daily_submissions ts st < MAX_DAILY_SUBMISSIONS)"

inductive effect :: "journal \<Rightarrow> journal \<Rightarrow> bool" where
  eff_same: "j_intents st' = j_intents st \<Longrightarrow> j_transitions st' = j_transitions st \<Longrightarrow> effect st st'"
| eff_new: "find_intent (ir_intent_id row) st = None \<Longrightarrow> find_decision (ir_decision_id row) st = None
    \<Longrightarrow> ir_state row \<in> set fresh_states \<Longrightarrow> ir_filled_volume row = Fin 0
    \<Longrightarrow> j_intents st' = j_intents st @ [row]
    \<Longrightarrow> j_transitions st' = j_transitions st @ transition_row (ir_intent_id row) None CREATED ts (JDict [])
          # (if ir_state row = CREATED then []
             else [transition_row (ir_intent_id row) (Some CREATED) (ir_state row) ts details])
    \<Longrightarrow> effect st st'"
| eff_move: "find_intent iid st = Some row
    \<Longrightarrow> to_state \<in> set (ALLOWED_TRANSITIONS (ir_state row)) \<or> to_state = ir_state row \<and> to_state \<noteq> SUBMITTING
    \<Longrightarrow> (to_state = SUBMITTING \<longrightarrow> reservable iid row ts st)
    \<Longrightarrow> (\<And>r. ir_intent_id (f r) = ir_intent_id r \<and> ir_decision_id (f r) = ir_decision_id r
          \<and> ir_state (f r) = to_state \<and> (fl_le (ir_filled_volume r) (ir_filled_volume (f r))
                                       \<or> ir_filled_volume (f r) = ir_filled_volume r)
          \<and> ir_payload (f r) = ir_payload r \<and> ir_symbol (f r) = ir_symbol r)
    \<Longrightarrow> j_intents st' = map (\<lambda>r. if ir_intent_id r = iid then f r else r) (j_intents st)
    \<Longrightarrow> j_transitions st' = j_transitions st @ [transition_row iid (Some (ir_state row)) to_state ts details]
    \<Longrightarrow> effect st st'"

lemma effect_frame:
  assumes "effect st st'" and "j_intents st1 = j_intents st" and "j_transitions st1 = j_transitions st"
  shows "effect st1 st'"
proof -
  have same: "find_intent iid st1 = find_intent iid st" "find_decision did st1 = find_decision did st"
    "other_exposure iid st1 = other_exposure iid st" "daily_submissions ts st1 = daily_submissions ts st"
    "reservable iid row ts st1 = reservable iid row ts st" for iid did ts row
    using assms(2,3)
    by (simp_all add: find_intent_def find_decision_def other_exposure_def daily_submissions_def reservable_def)
  from assms(1) show ?thesis
  proof cases
    case eff_same
    then show ?thesis using assms(2,3) by (intro effect.eff_same) simp_all
  next
    case (eff_new row ts details)
    then show ?thesis using assms(2,3) same by (intro effect.eff_new [of row st1 st' ts details]) simp_all
  next
    case (eff_move iid row to_state ts f details)
    then show ?thesis
      using assms(2,3) same by (intro effect.eff_move [of iid st1 row to_state ts f st' details]) simp_all
  qed
qed

lemma next_filled_mono:
  "fl_le x (next_filled x v) \<or> next_filled x v = x"
  by (auto simp: next_filled_def fl_max_def fl_le_def split: option.splits)

lemma effect_apply_facts:
  assumes "find_intent iid st = Some row"
    and "to_state \<in> set (ALLOWED_TRANSITIONS (ir_state row)) \<or> to_state = ir_state row"
    and "to_state \<noteq> SUBMITTING"
    and "j_intents st' = map (\<lambda>r. if ir_intent_id r = iid then apply_facts to_state ts f r else r) (j_intents st)"
    and "j_transitions st' = j_transitions st @ [transition_row iid (Some (ir_state row)) to_state ts details]"
  shows "effect st st'"
  using assms next_filled_mono
  by (intro effect.eff_move [of iid st row to_state ts "apply_facts to_state ts f" st' details])
    (auto simp: apply_facts_def)

lemma transition_locked_effect:
  assumes "transition_locked row to_state ts f st = Inr (st', row')"
    and "find_intent iid st = Some row" and "to_state \<noteq> SUBMITTING"
  shows "effect st st'"
proof (cases "to_state = ir_state row")
  case True
  then show ?thesis using assms(1) by (intro effect.eff_same) (simp_all add: transition_locked_def)
next
  case False
  have id: "ir_intent_id row = iid" using find_intent_Some [OF assms(2)] by simp
  have allowed: "to_state \<in> set (ALLOWED_TRANSITIONS (ir_state row))"
    and st': "st' = add_transition (transition_row (ir_intent_id row) (Some (ir_state row)) to_state ts (bf_details f))
        (update_intent (ir_intent_id row) (apply_facts to_state ts f) st)"
    using assms(1) False by (auto simp: transition_locked_def op_simps split: if_splits)
  show ?thesis unfolding st' id
    by (rule effect_apply_facts [where f = f, OF assms(2) _ assms(3)]) (use allowed in \<open>auto simp: journal_defs\<close>)
qed

subsection \<open>The operations\<close>

lemma effect_refl [simp, intro]: "effect st st"
  by (rule effect.eff_same) simp_all

lemma effect_open:
  assumes "find_intent iid st = None" and "find_decision did st = None"
  shows "effect st (add_transition (transition_row iid None CREATED ts (JDict []))
      (add_intent (new_row iid did symb CREATED payload ts err) st))"
    and "state \<in> {RISK_REJECTED, EXPIRED} \<Longrightarrow>
      effect st (add_transition (transition_row iid (Some CREATED) state ts details)
        (add_transition (transition_row iid None CREATED ts (JDict []))
          (add_intent (new_row iid did symb state payload ts err) st)))"
  using assms
  by (rule_tac effect.eff_new [where ts = ts and details = details
        and row = "new_row iid did symb CREATED payload ts err"];
      simp add: new_row_def fresh_states_def journal_defs)
    (rule effect.eff_new [where ts = ts and details = details
        and row = "new_row iid did symb state payload ts err"];
      use assms in \<open>auto simp: new_row_def fresh_states_def journal_defs\<close>)

lemma create_intent_effect:
  "create_intent iid did symb payload created clock st = Inr (st', row) \<Longrightarrow> effect st st'"
  by (cases "find_intent iid st"; cases "find_decision did st")
    (auto simp: create_intent_def op_simps effect_open split: if_splits)

lemma insert_preparation_effect:
  "insert_preparation intent payload now st = Inr (st', row, created) \<Longrightarrow> effect st st'"
  by (auto simp: insert_preparation_def op_simps effect_open split: if_splits option.splits)

lemma preparation_effect:
  "record_locked_demo_auto_preparation intent d h prov t clock st = Inr (st', row, created) \<Longrightarrow> effect st st'"
  by (auto simp: record_locked_demo_auto_preparation_def op_simps split: if_splits
      dest: insert_preparation_effect)

lemma insert_safe_loss_effect:
  "insert_safe_loss d ipc reasons payload now st = Inr (st', row, created) \<Longrightarrow> effect st st'"
  by (auto simp: insert_safe_loss_def op_simps effect_open split: if_splits option.splits)

lemma safe_loss_effect:
  "record_demo_auto_safe_loss d ipc reasons t clock st = Inr (st', row, created) \<Longrightarrow> effect st st'"
  by (auto simp: record_demo_auto_safe_loss_def op_simps dest: insert_safe_loss_effect)

lemma transition_effect:
  assumes "transition iid to_name expected f t clock st = Inr (st', row')"
  shows "effect st st'"
proof -
  obtain to_state now row where "to_state \<noteq> SUBMITTING" "find_intent iid st = Some row"
    "transition_locked row to_state now (no_facts (bf_details f) (bf_last_error f)) st = Inr (st', row')"
    using assms by (cases "state_of (str_upper to_name)")
      (auto simp: transition_def op_simps transition_request_checks_def RESERVE_ONLY_TRANSITION_TARGETS_def)
  then show ?thesis by (auto intro: transition_locked_effect)
qed

lemma store_privileged_frame:
  assumes "store_privileged_receipt_locked iid ty ts payload st = Inr st'"
  shows "j_intents st' = j_intents st" "j_transitions st' = j_transitions st"
    "j_consumptions st' = j_consumptions st" "j_lease st' = j_lease st" "j_kill_switch st' = j_kill_switch st"
    "j_kill_events st' = j_kill_events st" "j_sha256 st' = j_sha256 st"
  using assms
  by (auto simp: store_privileged_receipt_locked_def op_simps add_receipt_def split: option.splits if_splits)

lemma risk_decision_effect: "record_risk_decision iid d t clock st = Inr st' \<Longrightarrow> effect st st'"
  by (auto simp: record_risk_decision_def op_simps split: if_splits
      intro!: effect.eff_same dest: store_privileged_frame(1,2))

lemma preflight_effect: "record_mt5_preflight iid p t clock st = Inr st' \<Longrightarrow> effect st st'"
  by (auto simp: record_mt5_preflight_def op_simps split: if_splits
      intro!: effect.eff_same dest: store_privileged_frame(1,2))

lemma evidence_effect:
  "authorize_submission_evidence iid d p g broker t clock st = Inr (st', ev) \<Longrightarrow> effect st st'"
  by (auto simp: authorize_submission_evidence_def op_simps split: if_splits
      intro!: effect.eff_same dest: store_privileged_frame(1,2))

lemma reserve_submission_effect:
  assumes "reserve_submission iid owner fence ev t details clock st = Inr (st', row')"
  shows "effect st st'"
proof -
  obtain row now where row: "find_intent iid st = Some row" and now: "trusted_now clock t = Inr now"
    and checks: "list_all (\<lambda>c. c = None) (reservation_checks iid owner fence ev now row st)"
    and st': "st' = add_transition (transition_row iid (Some PREFLIGHT_PASSED) SUBMITTING now details)
              (update_intent iid (\<lambda>r. r\<lparr>ir_state := SUBMITTING, ir_updated_at_utc := now\<rparr>) st)"
    using assms by (auto simp: reserve_submission_def op_simps)
  have r: "reservable iid row now st"
    using checks trusted_now_Inr [OF now]
    by (auto simp: reservation_checks_def reservable_def not_le)
  show ?thesis
    by (rule effect.eff_move [of iid st row SUBMITTING now
          "\<lambda>r. r\<lparr>ir_state := SUBMITTING, ir_updated_at_utc := now\<rparr>" st' details, OF row])
      (use r in \<open>auto simp: st' journal_defs reservable_def\<close>)
qed

lemma execution_receipt_effect:
  assumes "record_execution_receipt r t clock st = Inr (st', row')"
  shows "effect st st'"
proof -
  obtain row now target f payload where "find_intent (er_intent_id r) st = Some row"
    "receipt_target r = Inr target"
    "transition_locked row target now f (add_receipt (er_intent_id r) ''EXECUTION_RECEIPT'' now payload st)
       = Inr (st', row')"
    using assms by (auto simp: record_execution_receipt_def op_simps split: if_splits)
  moreover from this have "target \<noteq> SUBMITTING"
    by (auto simp: receipt_target_def receipt_targets_def split: option.splits if_splits)
  ultimately have "effect (add_receipt (er_intent_id r) ''EXECUTION_RECEIPT'' now payload st) st'"
    by (intro transition_locked_effect [of row target now f]) (simp_all add: find_intent_def add_receipt_def)
  then show ?thesis by (rule effect_frame) (simp_all add: add_receipt_def)
qed

lemma not_sent_effect:
  assumes "record_submission_not_sent iid v reason t clock st = Inr (st', row')"
  shows "effect st st'"
proof -
  obtain row now f payload where "find_intent iid st = Some row"
    "transition_locked row REJECTED now f (add_receipt iid ''SUBMISSION_NOT_SENT'' now payload st)
       = Inr (st', row')"
    using assms by (auto simp: record_submission_not_sent_def op_simps split: if_splits)
  then have "effect (add_receipt iid ''SUBMISSION_NOT_SENT'' now payload st) st'"
    by (intro transition_locked_effect [of row REJECTED now f]) (simp_all add: find_intent_def add_receipt_def)
  then show ?thesis by (rule effect_frame) (simp_all add: add_receipt_def)
qed

lemma settlement_verdict_effect:
  assumes "settlement_verdict iid row now st = Inr (st', row', verdict, called)"
    and "find_intent iid st = Some row"
  shows "effect st st'"
  using assms transition_locked_effect [of row REJECTED now _ st st' row' iid]
  by (auto simp: settlement_verdict_def op_simps split: if_splits)

lemma settlement_effect:
  "demo_auto_dispatch_settlement iid v t clock st = Inr (st', settlement) \<Longrightarrow> effect st st'"
  by (auto simp: demo_auto_dispatch_settlement_def op_simps split: if_splits prod.splits
      dest: settlement_verdict_effect)

text \<open>
  The reconciler (\<open>reconcile_broker_state\<close>, the only holder of the evidence seal) builds evidence
  for these targets.
\<close>

definition reconciler_targets :: "execution_state list" where
  "reconciler_targets = [ACKNOWLEDGED, PARTIAL, FILLED, UNCERTAIN, CLOSED]"

lemma reconciliation_effect:
  assumes "apply_reconciliation e clock st = Inr (st', row')" and "re_target_state e \<in> set reconciler_targets"
  shows "effect st st'"
proof -
  let ?st1 = "\<lambda>now payload. add_receipt (re_intent_id e) ''RECONCILIATION_RECEIPT'' now payload st"
  obtain row now payload where row: "find_intent (re_intent_id e) st = Some row"
    and check: "reconciliation_check row e = Inr ()"
    and res: "(if re_target_state e = re_expected_state e
       then Inr (add_transition (transition_row (re_intent_id e) (Some (re_target_state e)) (re_target_state e) now (re_details e))
                   (update_intent (re_intent_id e) (apply_facts (re_target_state e) now (evidence_facts e)) (?st1 now payload)),
                 apply_facts (re_target_state e) now (evidence_facts e) row)
       else transition_locked row (re_target_state e) now (evidence_facts e) (?st1 now payload)) = Inr (st', row')"
    using assms(1) by (auto simp: apply_reconciliation_def op_simps)
  have sub: "re_target_state e \<noteq> SUBMITTING" using assms(2) by (auto simp: reconciler_targets_def)
  have state: "ir_state row = re_expected_state e"
    using check by (auto simp: reconciliation_check_def Let_def split: if_splits)
  have find: "find_intent (re_intent_id e) (?st1 now payload) = Some row"
    using row by (simp add: find_intent_def add_receipt_def)
  have "effect (?st1 now payload) st'"
  proof (cases "re_target_state e = re_expected_state e")
    case True
    then show ?thesis
      using res sub state
      by (intro effect_apply_facts [where f = "evidence_facts e", OF find]) (auto simp: journal_defs)
  next
    case False
    then show ?thesis using transition_locked_effect [OF _ find sub] res by simp
  qed
  then show ?thesis by (rule effect_frame) (simp_all add: add_receipt_def)
qed

end
