(* ===== verification/Lifecycle.thy ===== *)
theory Lifecycle
  imports Journal_Effects Interfaces
begin

text \<open>
  The abstract specification of the journal: a partial map from intents to execution states and
  the steps it may take (\<open>lifecycle_step\<close>), with the contract \<open>exposure_lifecycle\<close> of a system
  that refines it. The lemmas of the contract need nothing but the refinement.
\<close>

section \<open>The abstract life cycle of intents\<close>

type_synonym lifecycle = "string \<rightharpoonup> execution_state"

definition exposed :: "execution_state option \<Rightarrow> bool" where
  "exposed s = (\<exists>a. s = Some a \<and> a \<in> set GLOBAL_EXPOSURE_STATES)"

definition terminal :: "execution_state option \<Rightarrow> bool" where
  "terminal s = (\<exists>a. s = Some a \<and> a \<in> set TERMINAL_STATES)"

inductive lifecycle_step :: "lifecycle \<Rightarrow> lifecycle \<Rightarrow> bool" where
  ls_stay: "lifecycle_step m m"
| ls_open: "m i = None \<Longrightarrow> a \<in> set fresh_states \<Longrightarrow> lifecycle_step m (m(i \<mapsto> a))"
| ls_move: "m i = Some a \<Longrightarrow> b \<in> set (ALLOWED_TRANSITIONS a)
    \<Longrightarrow> (b = SUBMITTING \<longrightarrow> (\<forall>k. k \<noteq> i \<longrightarrow> \<not> exposed (m k)))
    \<Longrightarrow> lifecycle_step m (m(i \<mapsto> b))"

inductive_cases lifecycle_stepE: "lifecycle_step m m'"

lemma fresh_not_exposed: "a \<in> set fresh_states \<Longrightarrow> a \<notin> set GLOBAL_EXPOSURE_STATES"
  by (auto simp: fresh_states_def GLOBAL_EXPOSURE_STATES_def)

lemma only_submitting_exposes:
  "b \<in> set (ALLOWED_TRANSITIONS a) \<Longrightarrow> b \<in> set GLOBAL_EXPOSURE_STATES \<Longrightarrow>
   a \<in> set GLOBAL_EXPOSURE_STATES \<or> b = SUBMITTING"
  by (cases a) (auto simp: GLOBAL_EXPOSURE_STATES_def)

lemma terminal_no_exit: "a \<in> set TERMINAL_STATES \<Longrightarrow> ALLOWED_TRANSITIONS a = []"
  by (auto simp: TERMINAL_STATES_def)

definition one_exposed :: "lifecycle \<Rightarrow> bool" where
  "one_exposed m = (\<forall>i k. exposed (m i) \<and> exposed (m k) \<longrightarrow> i = k)"

lemma one_exposed_step:
  assumes "one_exposed m" and "lifecycle_step m m'"
  shows "one_exposed m'"
  using assms(2)
proof cases
  case ls_stay
  then show ?thesis using assms(1) by simp
next
  case (ls_open i a)
  then show ?thesis using assms(1) fresh_not_exposed by (auto simp: one_exposed_def exposed_def)
next
  case (ls_move i a b)
  show ?thesis
  proof (cases "exposed (m i)")
    case True
    then show ?thesis
      using assms(1) unfolding ls_move(1) one_exposed_def by (metis fun_upd_apply)
  next
    case False
    then have "b \<in> set GLOBAL_EXPOSURE_STATES \<Longrightarrow> b = SUBMITTING"
      using ls_move(2,3) only_submitting_exposes by (auto simp: exposed_def)
    then have "exposed (m' k) \<Longrightarrow> exposed (m' j) \<Longrightarrow> k \<noteq> i \<Longrightarrow> j \<noteq> i" for k j
      using ls_move(1,4) by (auto simp: exposed_def)
    then show ?thesis
      using assms(1) unfolding ls_move(1) one_exposed_def by (metis fun_upd_apply)
  qed
qed

lemma terminal_step:
  assumes "lifecycle_step m m'" and "terminal (m i)"
  shows "m' i = m i"
  using assms by cases (auto simp: terminal_def dest: terminal_no_exit)

locale exposure_lifecycle = transition_system start step
  for start :: "'s \<Rightarrow> bool" and step :: "'s \<Rightarrow> 's \<Rightarrow> bool" +
  fixes status :: "'s \<Rightarrow> lifecycle"
  assumes start_empty: "start s \<Longrightarrow> status s = Map.empty"
    and step_refines: "step s s' \<Longrightarrow> lifecycle_step (status s) (status s')"
begin

lemma reachable_one_exposed:
  assumes "start s0" and "step\<^sup>*\<^sup>* s0 s"
  shows "one_exposed (status s)"
proof (rule reachable_invariant [OF assms])
  show "one_exposed (status s)" if "start s" for s
    using start_empty [OF that] by (simp add: one_exposed_def exposed_def)
qed (blast intro: one_exposed_step step_refines)

lemma terminal_absorbing:
  assumes "step\<^sup>*\<^sup>* s s'" and "terminal (status s i)"
  shows "status s' i = status s i"
proof -
  have "terminal (status s' i) \<and> status s' i = status s i"
    using assms
  proof (induction rule: rtranclp_induct)
    case (step y z)
    then show ?case using terminal_step [OF step_refines] by metis
  qed simp
  then show ?thesis by simp
qed

lemma known_forever:
  assumes "step\<^sup>*\<^sup>* s s'" and "status s i \<noteq> None"
  shows "status s' i \<noteq> None"
  using assms(1) assms(2)
proof (induction rule: rtranclp_induct)
  case (step y z)
  then show ?case using step_refines [OF step(2)] by (auto elim!: lifecycle_stepE split: if_splits)
qed

end

end
