(* ===== verification/Journal_Runtime.thy ===== *)
theory Journal_Runtime
  imports Lifecycle
begin

text \<open>
  The journal as the processes of the runtime use it. \<open>run_op\<close> is one committed transaction of
  any operation but the final submission guard; \<open>rt_step\<close> interleaves such transactions with the
  guard: entering it, consuming its lease, leaving it, and a crash of the process that holds the
  lease. \<open>rt_sent\<close> records every consumption proof a lease has minted: the broker adapter sends
  an order only against such a proof. The reconciler is the only holder of the evidence seal, so
  reconciliation evidence has one of its targets (\<open>sealed_op\<close>).
\<close>

section \<open>Operations\<close>

datatype journal_op =
    CreateIntent string string string json "datetime option"
  | LockedPreparation TradeIntent RiskDecision PreparationHashes "(string \<times> json) list" datetime
  | SafeLoss DecisionSnapshot string "string list" datetime
  | Transition string string "string option" BrokerFacts "datetime option"
  | RecordRisk string RiskDecision "datetime option"
  | RecordPreflight string MT5Preflight "datetime option"
  | AuthorizeEvidence string RiskDecision MT5Preflight MT5SubmissionGuard BrokerSpec "datetime option"
  | Reserve string string int SubmissionEvidenceCapability "datetime option" json
  | RecordReceipt ExecutionReceipt "datetime option"
  | NotSent string string string "datetime option"
  | Settle string string "datetime option"
  | Reconcile ReconciliationEvidence
  | AppendReceipt string string json "datetime option"
  | ClaimExecutor string int "datetime option"
  | LatchKillSwitch string string "datetime option"
  | ResetKillSwitch KillSwitchResetAuthorization string "datetime option"

definition state_after :: "(journal \<times> 'a) res \<Rightarrow> journal res" where
  "state_after r = res_bind r (\<lambda>(st, _). Inr st)"

fun run_op :: "journal_op \<Rightarrow> datetime \<Rightarrow> journal \<Rightarrow> journal res" where
  "run_op (CreateIntent iid did symb payload t) clock st = state_after (create_intent iid did symb payload t clock st)"
| "run_op (LockedPreparation intent d h prov t) clock st =
     state_after (record_locked_demo_auto_preparation intent d h prov t clock st)"
| "run_op (SafeLoss d ipc reasons t) clock st = state_after (record_demo_auto_safe_loss d ipc reasons t clock st)"
| "run_op (Transition iid target expected f t) clock st = state_after (transition iid target expected f t clock st)"
| "run_op (RecordRisk iid d t) clock st = record_risk_decision iid d t clock st"
| "run_op (RecordPreflight iid p t) clock st = record_mt5_preflight iid p t clock st"
| "run_op (AuthorizeEvidence iid d p g broker t) clock st =
     state_after (authorize_submission_evidence iid d p g broker t clock st)"
| "run_op (Reserve iid owner fence ev t details) clock st =
     state_after (reserve_submission iid owner fence ev t details clock st)"
| "run_op (RecordReceipt r t) clock st = state_after (record_execution_receipt r t clock st)"
| "run_op (NotSent iid v reason t) clock st = state_after (record_submission_not_sent iid v reason t clock st)"
| "run_op (Settle iid v t) clock st = state_after (demo_auto_dispatch_settlement iid v t clock st)"
| "run_op (Reconcile e) clock st = state_after (apply_reconciliation e clock st)"
| "run_op (AppendReceipt iid ty payload t) clock st = append_receipt iid ty payload t clock st"
| "run_op (ClaimExecutor owner secs t) clock st = state_after (claim_executor owner secs t clock st)"
| "run_op (LatchKillSwitch reason source t) clock st = latch_kill_switch reason source t clock st"
| "run_op (ResetKillSwitch a reason t) clock st = reset_kill_switch a reason t clock st"

fun sealed_op :: "journal_op \<Rightarrow> bool" where
  "sealed_op (Reconcile e) = (re_target_state e \<in> set reconciler_targets)"
| "sealed_op op = True"

lemma state_after_Inr [simp]: "state_after r = Inr st \<longleftrightarrow> (\<exists>x. r = Inr (st, x))"
  by (cases r) (auto simp: state_after_def)

lemma run_op_effect:
  assumes "run_op op clock st = Inr st'" and "sealed_op op"
  shows "effect st st'"
  using assms
proof (cases op)
  case (AppendReceipt iid ty payload t)
  with assms show ?thesis
    by (auto simp: append_receipt_def op_simps add_receipt_def split: if_splits intro!: effect.eff_same)
next
  case (ClaimExecutor owner secs t)
  with assms show ?thesis
    by (auto simp: claim_executor_def op_simps split: if_splits option.splits intro!: effect.eff_same)
next
  case (LatchKillSwitch reason source t)
  with assms show ?thesis by (auto simp: latch_kill_switch_def op_simps split: if_splits intro!: effect.eff_same)
next
  case (ResetKillSwitch a reason t)
  with assms show ?thesis
    by (auto simp: reset_kill_switch_def op_simps split: if_splits option.splits intro!: effect.eff_same)
qed (auto dest: create_intent_effect preparation_effect safe_loss_effect transition_effect risk_decision_effect
    preflight_effect evidence_effect reserve_submission_effect execution_receipt_effect not_sent_effect
    settlement_effect reconciliation_effect)

section \<open>What an operation leaves alone\<close>

text \<open>The tables outside an operation's reach, in one relation.\<close>

definition same_control :: "journal \<Rightarrow> journal \<Rightarrow> bool" where
  "same_control st st' =
     (j_sha256 st' = j_sha256 st \<and> j_consumptions st' = j_consumptions st \<and> j_lease st' = j_lease st
      \<and> j_kill_switch st' = j_kill_switch st \<and> j_kill_events st' = j_kill_events st)"

lemma same_control_updates [simp]:
  "same_control st (add_transition t st1) = same_control st st1"
  "same_control st (add_receipt iid ty ts payload st1) = same_control st st1"
  "same_control st (add_intent row st1) = same_control st st1"
  "same_control st (update_intent iid f st1) = same_control st st1"
  "same_control (add_receipt iid ty ts payload st) st1 = same_control st st1"
  "same_control st st"
  by (simp_all add: same_control_def journal_defs)

lemma transition_locked_control:
  "transition_locked row to_state ts f st = Inr (st', row') \<Longrightarrow> same_control st st'"
  by (auto simp: transition_locked_def op_simps split: if_splits)

lemma store_privileged_control:
  "store_privileged_receipt_locked iid ty ts payload st = Inr st' \<Longrightarrow> same_control st st'"
  using store_privileged_frame by (simp add: same_control_def)

lemma settlement_verdict_control:
  "settlement_verdict iid row now st = Inr (st', row', verdict, called) \<Longrightarrow> same_control st st'"
  by (auto simp: settlement_verdict_def op_simps split: if_splits dest: transition_locked_control)

lemmas control_dests = transition_locked_control store_privileged_control settlement_verdict_control

lemma insert_control:
  "insert_preparation intent payload ts st = Inr (st', row, new) \<Longrightarrow> same_control st st'"
  "insert_safe_loss d ipc reasons payload ts st = Inr (st', row, new) \<Longrightarrow> same_control st st'"
  by (auto simp: insert_preparation_def insert_safe_loss_def Let_def split: if_splits option.splits)

lemma op_control_create:
  "create_intent iid did symb payload t clock st = Inr (st', row) \<Longrightarrow> same_control st st'"
  "record_locked_demo_auto_preparation intent d h prov ts clock st = Inr (st', row, new) \<Longrightarrow> same_control st st'"
  "record_demo_auto_safe_loss dd ipc reasons ts clock st = Inr (st', row, new) \<Longrightarrow> same_control st st'"
  subgoal by (cases "find_intent iid st"; cases "find_decision did st")
    (auto simp: create_intent_def op_simps split: if_splits)
  subgoal by (auto simp: record_locked_demo_auto_preparation_def op_simps split: if_splits dest: insert_control)
  subgoal by (auto simp: record_demo_auto_safe_loss_def op_simps dest: insert_control)
  done

lemma op_control_receipts:
  "record_risk_decision iid d t clock st = Inr st' \<Longrightarrow> same_control st st'"
  "record_mt5_preflight iid p t clock st = Inr st' \<Longrightarrow> same_control st st'"
  "authorize_submission_evidence iid d p g broker t clock st = Inr (st', ev) \<Longrightarrow> same_control st st'"
  "append_receipt iid ty payload t clock st = Inr st' \<Longrightarrow> same_control st st'"
  by (auto simp: record_risk_decision_def record_mt5_preflight_def authorize_submission_evidence_def
      append_receipt_def op_simps split: if_splits dest: control_dests)

lemma op_control_moves:
  "transition iid target expected f t clock st = Inr (st', row) \<Longrightarrow> same_control st st'"
  "reserve_submission iid owner fence ev t details clock st = Inr (st', row) \<Longrightarrow> same_control st st'"
  "record_execution_receipt r t clock st = Inr (st', row) \<Longrightarrow> same_control st st'"
  "record_submission_not_sent iid v reason t clock st = Inr (st', row) \<Longrightarrow> same_control st st'"
  "demo_auto_dispatch_settlement iid v t clock st = Inr (st', settlement) \<Longrightarrow> same_control st st'"
  "apply_reconciliation e clock st = Inr (st', row) \<Longrightarrow> same_control st st'"
  by (auto simp: transition_def reserve_submission_def record_execution_receipt_def record_submission_not_sent_def
      demo_auto_dispatch_settlement_def apply_reconciliation_def op_simps
      split: if_splits option.splits prod.splits dest: control_dests)

fun control_op :: "journal_op \<Rightarrow> bool" where
  "control_op (ClaimExecutor owner secs t) = True"
| "control_op (LatchKillSwitch reason source t) = True"
| "control_op (ResetKillSwitch a reason t) = True"
| "control_op op = False"

lemma run_op_control: "run_op op clock st = Inr st' \<Longrightarrow> \<not> control_op op \<Longrightarrow> same_control st st'"
  by (cases op) (auto dest: op_control_create op_control_receipts op_control_moves)

lemma claim_executor_Inr:
  assumes "claim_executor owner secs t clock st = Inr (st', token)"
  shows "st' = st\<lparr>j_lease := Some \<lparr>el_owner_id = owner, el_fence_token = token,
              el_expires_at_utc = dt_add clock (seconds secs), el_updated_at_utc = clock\<rparr>\<rparr>"
    and "token = (case j_lease st of None \<Rightarrow> 1 | Some l \<Rightarrow> el_fence_token l + 1)"
    and "j_lease st = Some l \<Longrightarrow> el_owner_id l = owner \<or> dt_le (el_expires_at_utc l) clock"
  using assms
  by (auto simp: claim_executor_def op_simps dt_lt_def dt_le_def split: if_splits option.splits
      dest!: trusted_now_Inr)

lemma latch_Inr:
  assumes "latch_kill_switch reason source t clock st = Inr st'"
  shows "ks_latched (j_kill_switch st')" "j_lease st' = j_lease st" "j_consumptions st' = j_consumptions st"
    "j_sha256 st' = j_sha256 st" "j_receipts st' = j_receipts st"
  using assms by (auto simp: latch_kill_switch_def op_simps split: if_splits)

lemma reset_Inr:
  assumes "reset_kill_switch a reason t clock st = Inr st'"
  shows "j_lease st' = j_lease st" "j_consumptions st' = j_consumptions st"
    "j_sha256 st' = j_sha256 st" "j_receipts st' = j_receipts st"
  using assms by (auto simp: reset_kill_switch_def op_simps split: if_splits option.splits)

lemma run_op_consumptions:
  assumes "run_op op clock st = Inr st'"
  shows "j_consumptions st' = j_consumptions st \<and> j_sha256 st' = j_sha256 st"
proof (cases "control_op op")
  case False
  then show ?thesis using run_op_control [OF assms] by (simp add: same_control_def)
next
  case True
  then show ?thesis using assms
    by (cases op) (auto simp: latch_Inr reset_Inr dest!: claim_executor_Inr(1))
qed

section \<open>Receipts an operation writes\<close>

fun op_writes :: "journal_op \<Rightarrow> (string \<times> string) list" where
  "op_writes (RecordRisk iid d t) = [(iid, ''RISK_DECISION'')]"
| "op_writes (RecordPreflight iid p t) = [(iid, ''MT5_PREFLIGHT'')]"
| "op_writes (AuthorizeEvidence iid d p g broker t) = [(iid, ''SUBMISSION_GUARD'')]"
| "op_writes (RecordReceipt r t) = [(er_intent_id r, ''EXECUTION_RECEIPT'')]"
| "op_writes (NotSent iid v reason t) = [(iid, ''SUBMISSION_NOT_SENT'')]"
| "op_writes (Reconcile e) = [(re_intent_id e, ''RECONCILIATION_RECEIPT'')]"
| "op_writes (AppendReceipt iid ty payload t) =
     (if str_upper (str_strip ty) \<in> set PRIVILEGED_RECEIPT_TYPES then [] else [(iid, str_upper (str_strip ty))])"
| "op_writes op = []"

lemma receipts_of_updates [simp]:
  "receipts_of k ty (add_transition t st) = receipts_of k ty st"
  "receipts_of k ty (add_intent row st) = receipts_of k ty st"
  "receipts_of k ty (update_intent iid f st) = receipts_of k ty st"
  by (simp_all add: receipts_of_def journal_defs)

lemma receipts_of_add:
  "receipts_of k ty (add_receipt iid ty' ts payload st) =
     (if k = iid \<and> ty = ty'
      then receipts_of k ty st @ [\<lparr>rr_intent_id = iid, rr_receipt_type = ty', rr_occurred_at_utc = ts,
                                  rr_payload = payload\<rparr>]
      else receipts_of k ty st)"
  by (auto simp: receipts_of_def add_receipt_def)

lemma transition_locked_receipts:
  "transition_locked row to_state ts f st = Inr (st', row') \<Longrightarrow> receipts_of k ty st' = receipts_of k ty st"
  by (auto simp: transition_locked_def op_simps split: if_splits)

lemma store_privileged_receipts:
  "store_privileged_receipt_locked iid ty' ts payload st = Inr st' \<Longrightarrow> (k, ty) \<noteq> (iid, ty') \<Longrightarrow>
   receipts_of k ty st' = receipts_of k ty st"
  by (auto simp: store_privileged_receipt_locked_def op_simps receipts_of_add split: option.splits if_splits)

lemma settlement_verdict_receipts:
  "settlement_verdict iid row now st = Inr (st', row', verdict, called) \<Longrightarrow>
   receipts_of k ty st' = receipts_of k ty st"
  by (auto simp: settlement_verdict_def op_simps split: if_splits dest: transition_locked_receipts)

lemma insert_receipts:
  "insert_preparation intent payload ts st = Inr (st', row, new) \<Longrightarrow> receipts_of k ty st' = receipts_of k ty st"
  "insert_safe_loss d ipc reasons payload ts st = Inr (st', row, new) \<Longrightarrow> receipts_of k ty st' = receipts_of k ty st"
  by (auto simp: insert_preparation_def insert_safe_loss_def Let_def split: if_splits option.splits)

lemma op_receipts_create:
  "create_intent iid did symb payload t clock st = Inr (st', row) \<Longrightarrow> receipts_of k ty st' = receipts_of k ty st"
  "record_locked_demo_auto_preparation intent d h prov ts clock st = Inr (st', row, new) \<Longrightarrow>
   receipts_of k ty st' = receipts_of k ty st"
  "record_demo_auto_safe_loss dd ipc reasons ts clock st = Inr (st', row, new) \<Longrightarrow>
   receipts_of k ty st' = receipts_of k ty st"
  subgoal by (cases "find_intent iid st"; cases "find_decision did st")
    (auto simp: create_intent_def op_simps split: if_splits)
  subgoal by (auto simp: record_locked_demo_auto_preparation_def op_simps split: if_splits dest: insert_receipts)
  subgoal by (auto simp: record_demo_auto_safe_loss_def op_simps dest: insert_receipts)
  done

lemma op_receipts_typed:
  "record_risk_decision iid d t clock st = Inr st' \<Longrightarrow> (k, ty) \<noteq> (iid, ''RISK_DECISION'') \<Longrightarrow>
   receipts_of k ty st' = receipts_of k ty st"
  "record_mt5_preflight iid p t clock st = Inr st' \<Longrightarrow> (k, ty) \<noteq> (iid, ''MT5_PREFLIGHT'') \<Longrightarrow>
   receipts_of k ty st' = receipts_of k ty st"
  "authorize_submission_evidence iid d p g broker t clock st = Inr (st', ev) \<Longrightarrow>
   (k, ty) \<noteq> (iid, ''SUBMISSION_GUARD'') \<Longrightarrow> receipts_of k ty st' = receipts_of k ty st"
  "append_receipt iid ty' payload t clock st = Inr st' \<Longrightarrow> (k, ty) \<noteq> (iid, str_upper (str_strip ty')) \<Longrightarrow>
   receipts_of k ty st' = receipts_of k ty st"
  by (auto simp: record_risk_decision_def record_mt5_preflight_def authorize_submission_evidence_def
      append_receipt_def op_simps receipts_of_add split: if_splits dest: store_privileged_receipts)

lemma op_receipts_moves:
  "transition iid target expected f t clock st = Inr (st', row) \<Longrightarrow> receipts_of k ty st' = receipts_of k ty st"
  "reserve_submission iid owner fence ev t details clock st = Inr (st', row) \<Longrightarrow>
   receipts_of k ty st' = receipts_of k ty st"
  "demo_auto_dispatch_settlement iid v t clock st = Inr (st', settlement) \<Longrightarrow>
   receipts_of k ty st' = receipts_of k ty st"
  by (auto simp: transition_def reserve_submission_def demo_auto_dispatch_settlement_def op_simps
      split: if_splits option.splits prod.splits dest: transition_locked_receipts settlement_verdict_receipts)

lemma op_receipts_outcomes:
  "record_execution_receipt r t clock st = Inr (st', row) \<Longrightarrow> (k, ty) \<noteq> (er_intent_id r, ''EXECUTION_RECEIPT'') \<Longrightarrow>
   receipts_of k ty st' = receipts_of k ty st"
  "record_submission_not_sent iid v reason t clock st = Inr (st', row) \<Longrightarrow>
   (k, ty) \<noteq> (iid, ''SUBMISSION_NOT_SENT'') \<Longrightarrow> receipts_of k ty st' = receipts_of k ty st"
  "apply_reconciliation e clock st = Inr (st', row) \<Longrightarrow>
   (k, ty) \<noteq> (re_intent_id e, ''RECONCILIATION_RECEIPT'') \<Longrightarrow> receipts_of k ty st' = receipts_of k ty st"
  by (auto simp: record_execution_receipt_def record_submission_not_sent_def apply_reconciliation_def op_simps
      receipts_of_add split: if_splits prod.splits dest!: transition_locked_receipts [where k = k and ty = ty])

lemma run_op_receipts:
  assumes "run_op op clock st = Inr st'" and "(k, ty) \<notin> set (op_writes op)"
  shows "receipts_of k ty st' = receipts_of k ty st"
  using assms
proof (cases op)
  case (AppendReceipt iid ty' payload t)
  with assms show ?thesis
    by (cases "str_upper (str_strip ty') \<in> set PRIVILEGED_RECEIPT_TYPES")
      (auto simp: append_receipt_def op_simps receipts_of_add split: if_splits)
next
  case (ClaimExecutor owner secs t)
  with assms show ?thesis by (auto simp: receipts_of_def dest!: claim_executor_Inr(1))
next
  case (LatchKillSwitch reason source t)
  with assms show ?thesis by (simp add: latch_Inr receipts_of_def)
next
  case (ResetKillSwitch a reason t)
  with assms show ?thesis by (simp add: reset_Inr receipts_of_def)
qed (auto dest: op_receipts_create op_receipts_typed(1-3) [where k = k and ty = ty] op_receipts_moves
    op_receipts_outcomes [where k = k and ty = ty])

end
