(* ===== verification/Submission_Runtime.thy ===== *)
theory Submission_Runtime
  imports Journal_Runtime
begin

text \<open>
  The runtime: the journal, the submission leases the processes hold in memory and the
  consumption proofs minted so far, with the step relation that interleaves journal transactions,
  the final submission guard and crashes. The theory proves the invariants behind the
  properties of submissions: the tables stay consistent, every proof belongs to a committed
  consumption, and a recorded absence of a send is never contradicted.
\<close>

section \<open>Steps\<close>

record runtime =
  rt_journal :: journal
  rt_leases :: "DurableSubmissionLease list"
  rt_sent :: "(string \<times> SubmissionConsumptionProof) list"

definition status :: "journal \<Rightarrow> lifecycle" where
  "status st iid = map_option ir_state (find_intent iid st)"

inductive rt_step :: "runtime \<Rightarrow> runtime \<Rightarrow> bool" where
  rt_op: "run_op op clock (rt_journal rt) = Inr st' \<Longrightarrow> sealed_op op \<Longrightarrow> rt_step rt (rt\<lparr>rt_journal := st'\<rparr>)"
| rt_enter: "final_submission_guard_enter iid owner fence b t clock (rt_journal rt) = Inr (st', l)
    \<Longrightarrow> rt_step rt (rt\<lparr>rt_journal := st', rt_leases := rt_leases rt @ [l]\<rparr>)"
| rt_consume: "i < length (rt_leases rt)
    \<Longrightarrow> lease_consume (rt_leases rt ! i) jsha iid b clock (rt_journal rt) = (l', Inr proof)
    \<Longrightarrow> rt_step rt (rt\<lparr>rt_leases := (rt_leases rt)[i := l'], rt_sent := rt_sent rt @ [(iid, proof)]\<rparr>)"
| rt_consume_failed: "i < length (rt_leases rt)
    \<Longrightarrow> lease_consume (rt_leases rt ! i) jsha iid b clock (rt_journal rt) = (l', Inl err)
    \<Longrightarrow> rt_step rt (rt\<lparr>rt_leases := (rt_leases rt)[i := l']\<rparr>)"
| rt_exit: "i < length (rt_leases rt)
    \<Longrightarrow> final_submission_guard_exit (rt_leases rt ! i) clock (rt_journal rt) = Inr st'
    \<Longrightarrow> rt_step rt (rt\<lparr>rt_journal := st',
          rt_leases := (rt_leases rt)[i := fst (lease_deactivate (rt_leases rt ! i))]\<rparr>)"
| rt_exit_failed: "i < length (rt_leases rt)
    \<Longrightarrow> final_submission_guard_exit (rt_leases rt ! i) clock (rt_journal rt) = Inl err
    \<Longrightarrow> rt_step rt (rt\<lparr>rt_leases := (rt_leases rt)[i := fst (lease_deactivate (rt_leases rt ! i))]\<rparr>)"
| rt_crash: "rt_step rt (rt\<lparr>rt_leases := filter keep (rt_leases rt)\<rparr>)"

inductive_cases rt_stepE: "rt_step rt rt'"

text \<open>The runtime starts on a new journal, with no lease and nothing sent.\<close>

definition rt_start :: "runtime \<Rightarrow> bool" where
  "rt_start rt =
     ((\<exists>path raw. initialize path raw = Inr (rt_journal rt)) \<and> rt_leases rt = [] \<and> rt_sent rt = [])"

definition sent :: "runtime \<Rightarrow> string set" where
  "sent rt = fst ` set (rt_sent rt)"

section \<open>The guard\<close>

lemma guard_enter_Inr:
  assumes "final_submission_guard_enter iid owner fence b t clock st = Inr (st', l)"
  shows "\<exists>payload. st' = add_receipt iid ''FINAL_SUBMISSION_GUARD'' clock payload
           (st\<lparr>j_consumptions := j_consumptions st
                    @ [\<lparr>ac_execution_gate_sha256 = sb_execution_gate_sha256 b,
                        ac_authorization_sha256 = sb_authorization_sha256 b,
                        ac_broker_request_sha256 = sb_broker_request_sha256 b,
                        ac_intent_id = iid, ac_occurred_at_utc = clock,
                        ac_journal_sha256 = j_sha256 st\<rparr>]\<rparr>)"
    and "dl_intent_id l = iid" "dl_execution_gate_sha256 l = sb_execution_gate_sha256 b"
    and "dl_active l" "\<not> dl_used l"
    and "sb_execution_gate_sha256 b \<notin> ac_execution_gate_sha256 ` set (j_consumptions st)"
    and "iid \<notin> ac_intent_id ` set (j_consumptions st)"
    and "status st iid = Some SUBMITTING" and "\<not> ks_latched (j_kill_switch st)"
    and "lease_stale st owner fence clock = None"
  using assms
  by (auto simp: final_submission_guard_enter_def assert_final_submission_state_def op_simps status_def
      find_consumption_None consumptions_of_Nil split: if_splits option.splits dest!: trusted_now_Inr)

lemma final_validator_Inr:
  assumes "final_validator l clock st = Inr now"
  shows "now = clock" "status st (dl_intent_id l) = Some SUBMITTING" "\<not> ks_latched (j_kill_switch st)"
    and "lease_stale st (dl_owner_id l) (dl_fence_token l) clock = None"
    and "\<exists>c. find_consumption (dl_execution_gate_sha256 l) st = Some c \<and> ac_intent_id c = dl_intent_id l
           \<and> ac_authorization_sha256 c = dl_authorization_sha256 l
           \<and> ac_broker_request_sha256 c = dl_broker_request_sha256 l \<and> ac_journal_sha256 c = j_sha256 st"
    and "\<not> other_exposure (dl_intent_id l) st" and "daily_submissions clock st \<le> MAX_DAILY_SUBMISSIONS"
  using assms
  by (auto simp: final_validator_def assert_final_submission_state_def op_simps status_def not_less
      split: if_splits option.splits dest!: trusted_now_Inr)

lemma lease_consume_Inr:
  assumes "lease_consume l jsha iid b clock st = (l', Inr proof)"
  shows "dl_active l" "\<not> dl_used l" "iid = dl_intent_id l" "l' = l\<lparr>dl_used := True\<rparr>"
    and "final_validator l clock st = Inr clock"
    and "sp_execution_gate_sha256 proof = norm_hash (dl_execution_gate_sha256 l)"
  using assms
  by (auto simp: lease_consume_def op_simps mint_submission_consumption_proof_def
      SubmissionConsumptionProof_init_def split: if_splits sum.splits dest: final_validator_Inr(1))

lemma lease_consume_failed:
  "lease_consume l jsha iid b clock st = (l', Inl err) \<Longrightarrow> l' = l \<or> l' = l\<lparr>dl_used := True\<rparr>"
  by (auto simp: lease_consume_def split: if_splits sum.splits)

lemma guard_exit_frame:
  assumes "final_submission_guard_exit l clock st = Inr st'"
  shows "j_intents st' = j_intents st" "j_transitions st' = j_transitions st" "same_control st st'"
    and "(k, ty) \<noteq> (dl_intent_id l, ''SUBMISSION_LEASE_NOT_CONSUMED'') \<Longrightarrow>
         receipts_of k ty st' = receipts_of k ty st"
    and "dl_used l \<Longrightarrow> st' = st"
  using assms
  by (auto simp: final_submission_guard_exit_def lease_deactivate_def op_simps split: if_splits
      dest: store_privileged_frame(1,2) store_privileged_control
        store_privileged_receipts [where k = k and ty = ty])

section \<open>Refinement of the life cycle\<close>

lemma find_map_same:
  assumes "\<And>r. P (g r) = P r"
  shows "find P (map g xs) = map_option g (find P xs)"
  using assms by (induction xs) auto

lemma find_append: "find P (xs @ ys) = (case find P xs of None \<Rightarrow> find P ys | Some x \<Rightarrow> Some x)"
  by (induction xs) auto

lemma status_open:
  assumes "find_intent (ir_intent_id row) st = None" and "j_intents st' = j_intents st @ [row]"
  shows "status st' = (status st)(ir_intent_id row \<mapsto> ir_state row)"
  using assms by (intro ext) (auto simp: status_def find_intent_def find_append split: option.splits)

lemma status_move:
  assumes "find_intent iid st = Some row" and "\<And>r. ir_intent_id (f r) = ir_intent_id r \<and> ir_state (f r) = b"
    and "j_intents st' = map (\<lambda>r. if ir_intent_id r = iid then f r else r) (j_intents st)"
  shows "status st' = (status st)(iid \<mapsto> b)"
proof
  fix k
  have "find (\<lambda>r. ir_intent_id r = k) (j_intents st') =
      map_option (\<lambda>r. if ir_intent_id r = iid then f r else r) (find (\<lambda>r. ir_intent_id r = k) (j_intents st))"
    unfolding assms(3) by (rule find_map_same) (simp add: assms(2))
  then have "find_intent k st' = map_option (\<lambda>r. if ir_intent_id r = iid then f r else r) (find_intent k st)"
    by (simp add: find_intent_def)
  then show "status st' k = ((status st)(iid \<mapsto> b)) k"
    using assms(1,2) by (cases "find_intent k st") (auto simp: status_def dest: find_intent_Some)
qed

lemma status_frame: "j_intents st' = j_intents st \<Longrightarrow> status st' = status st"
  by (intro ext) (simp add: status_def find_intent_def)

lemma other_exposure_status:
  assumes "\<not> other_exposure iid st" and "k \<noteq> iid"
  shows "\<not> exposed (status st k)"
  using assms find_intent_Some [of k st]
  by (auto simp: other_exposure_def list_ex_iff exposed_def status_def)

lemma effect_refines: "effect st st' \<Longrightarrow> lifecycle_step (status st) (status st')"
proof (induction rule: effect.induct)
  case (eff_same st' st)
  then show ?case using status_frame lifecycle_step.ls_stay by metis
next
  case (eff_new row st st' ts details)
  have "status st (ir_intent_id row) = None" using eff_new(1) by (simp add: status_def)
  then show ?case using eff_new(3) status_open [OF eff_new(1,5)] lifecycle_step.ls_open by metis
next
  case (eff_move iid st row to_state ts f st' details)
  have m: "status st' = (status st)(iid \<mapsto> to_state)" and a: "status st iid = Some (ir_state row)"
    using status_move [OF eff_move(1) _ eff_move(5)] eff_move(1,4) by (simp_all add: status_def)
  show ?case
  proof (cases "to_state \<in> set (ALLOWED_TRANSITIONS (ir_state row))")
    case True
    then show ?thesis unfolding m
      using eff_move(3) by (intro lifecycle_step.ls_move [where a = "ir_state row"])
        (auto simp: a reservable_def dest: other_exposure_status)
  next
    case False
    then have "status st' = status st" using eff_move(2) a m by (simp add: fun_upd_idem)
    then show ?thesis by (simp add: lifecycle_step.ls_stay)
  qed
qed

lemma rt_effect: "rt_step rt rt' \<Longrightarrow> effect (rt_journal rt) (rt_journal rt')"
proof (induction rule: rt_step.induct)
  case (rt_op op clock rt st')
  then show ?case by (auto intro: run_op_effect)
next
  case (rt_enter iid owner fence b t clock rt st' l)
  from guard_enter_Inr(1) [OF this] show ?case by (auto simp: add_receipt_def intro!: effect.eff_same)
next
  case (rt_exit i rt clock st')
  then show ?case using guard_exit_frame(1,2) by (auto intro!: effect.eff_same)
qed auto

lemma initialize_empty:
  assumes "initialize path raw = Inr st"
  shows "j_intents st = []" "j_transitions st = []" "j_receipts st = []" "j_consumptions st = []"
    "j_lease st = None" "\<not> ks_latched (j_kill_switch st)" "j_kill_events st = []"
  using assms by (auto simp: initialize_def Let_def split: if_splits)

lemma rt_start_empty:
  assumes "rt_start rt"
  shows "j_intents (rt_journal rt) = []" "j_transitions (rt_journal rt) = []" "j_receipts (rt_journal rt) = []"
    "j_consumptions (rt_journal rt) = []" "rt_leases rt = []" "rt_sent rt = []" "j_lease (rt_journal rt) = None"
    "\<not> ks_latched (j_kill_switch (rt_journal rt))" "j_kill_events (rt_journal rt) = []"
  using assms initialize_empty by (auto simp: rt_start_def)

interpretation life: exposure_lifecycle rt_start rt_step "\<lambda>rt. status (rt_journal rt)"
proof unfold_locales
  show "status (rt_journal s) = Map.empty" if "rt_start s" for s
    using rt_start_empty(1) [OF that] by (intro ext) (simp add: status_def find_intent_def)
  show "lifecycle_step (status (rt_journal s)) (status (rt_journal s'))" if "rt_step s s'" for s s'
    using effect_refines [OF rt_effect [OF that]] .
qed

section \<open>The transition log\<close>

text \<open>A log of one intent is legal when it starts at \<open>CREATED\<close> and each row continues from the last.\<close>

fun legal_log :: "execution_state option \<Rightarrow> TransitionRow list \<Rightarrow> bool" where
  "legal_log s [] = True"
| "legal_log s (t # ts) =
     (tr_from_state t = s
      \<and> (case s of None \<Rightarrow> tr_to_state t = CREATED
         | Some a \<Rightarrow> tr_to_state t \<in> set (ALLOWED_TRANSITIONS a) \<or> tr_to_state t = a)
      \<and> legal_log (Some (tr_to_state t)) ts)"

definition log_end :: "TransitionRow list \<Rightarrow> execution_state option" where
  "log_end ts = (if ts = [] then None else Some (tr_to_state (last ts)))"

definition log_matches :: "journal \<Rightarrow> bool" where
  "log_matches st =
     (\<forall>iid. legal_log None (transition_history iid st) \<and> status st iid = log_end (transition_history iid st))"

lemma legal_log_append:
  "legal_log s (ts @ us) = (legal_log s ts \<and> legal_log (if ts = [] then s else log_end ts) us)"
  by (induction ts arbitrary: s) (auto simp: log_end_def)

lemma log_end_append: "log_end (ts @ us) = (if us = [] then log_end ts else log_end us)"
  by (simp add: log_end_def)

lemma effect_log: "effect st st' \<Longrightarrow> log_matches st \<Longrightarrow> log_matches st'"
proof (induction rule: effect.induct)
  case (eff_same st' st)
  then show ?case using status_frame [OF eff_same(1)] by (simp add: log_matches_def transition_history_def)
next
  case (eff_new row st st' ts details)
  have s: "status st' = (status st)(ir_intent_id row \<mapsto> ir_state row)" using status_open eff_new by simp
  have "status st (ir_intent_id row) = None" using eff_new(1) by (simp add: status_def)
  then have "transition_history (ir_intent_id row) st = []"
    using eff_new(7) by (auto simp: log_matches_def log_end_def split: if_splits)
  then show ?case
    using eff_new(3,6,7)
    by (auto simp: log_matches_def s transition_history_def legal_log_append log_end_append transition_row_def
        log_end_def fresh_states_def)
next
  case (eff_move iid st row to_state ts f st' details)
  have m: "status st' = (status st)(iid \<mapsto> to_state)" and a: "status st iid = Some (ir_state row)"
    using status_move [OF eff_move(1) _ eff_move(5)] eff_move(1,4) by (simp_all add: status_def)
  have "legal_log None (transition_history iid st)" "log_end (transition_history iid st) = Some (ir_state row)"
    using eff_move(7) a by (auto simp: log_matches_def)
  moreover from this have "transition_history iid st \<noteq> []" by (auto simp: log_end_def)
  ultimately show ?case
    using eff_move(2,6,7)
    by (auto simp: log_matches_def m transition_history_def legal_log_append log_end_append transition_row_def
        log_end_def)
qed

section \<open>The daily limit\<close>

lemma start_of_day_unique:
  assumes "is_utc a" and "is_utc b" and "dt_le (start_of_day a) b" and "dt_lt b (dt_add (start_of_day a) day_us)"
  shows "start_of_day b = start_of_day a"
proof -
  have "dt_us a - dt_us a mod day_us \<le> dt_us b" "dt_us b < dt_us a - dt_us a mod day_us + day_us"
    using assms by (simp_all add: dt_le_def dt_lt_def start_of_day_def instant_def is_utc_def dt_add_def)
  then have "dt_us b div day_us = dt_us a div day_us"
    unfolding minus_mod_eq_mult_div
    by (intro int_div_pos_eq [where r = "dt_us b - day_us * (dt_us a div day_us)"]) simp_all
  then show ?thesis
    using assms by (cases a; cases b) (simp add: start_of_day_def is_utc_def minus_mod_eq_mult_div)
qed

definition within_daily_limit :: "journal \<Rightarrow> bool" where
  "within_daily_limit st = (\<forall>now. is_utc now \<longrightarrow> daily_submissions now st \<le> MAX_DAILY_SUBMISSIONS)"

lemma daily_submissions_other:
  "j_transitions st' = j_transitions st @ rows \<Longrightarrow> (\<And>t. t \<in> set rows \<Longrightarrow> tr_to_state t \<noteq> SUBMITTING)
   \<Longrightarrow> daily_submissions now st' = daily_submissions now st"
  by (auto simp: daily_submissions_def Let_def filter_empty_conv)

lemma effect_daily_limit: "effect st st' \<Longrightarrow> within_daily_limit st \<Longrightarrow> within_daily_limit st'"
proof (induction rule: effect.induct)
  case (eff_same st' st)
  then show ?case by (simp add: within_daily_limit_def daily_submissions_def)
next
  case (eff_new row st st' ts details)
  have "daily_submissions now st' = daily_submissions now st" for now
    by (rule daily_submissions_other [OF eff_new(6)])
      (use eff_new(3) in \<open>auto simp: transition_row_def fresh_states_def split: if_splits\<close>)
  with eff_new(7) show ?case by (simp add: within_daily_limit_def)
next
  case (eff_move iid st row to_state ts f st' details)
  show ?case
  proof (cases "to_state = SUBMITTING")
    case False
    have "daily_submissions now st' = daily_submissions now st" for now
      by (rule daily_submissions_other [OF eff_move(6)]) (use False in \<open>auto simp: transition_row_def\<close>)
    with eff_move(7) show ?thesis by (simp add: within_daily_limit_def)
  next
    case True
    then have ts: "is_utc ts" "daily_submissions ts st < MAX_DAILY_SUBMISSIONS"
      using eff_move(3) by (simp_all add: reservable_def)
    have "daily_submissions now st' \<le> MAX_DAILY_SUBMISSIONS" if "is_utc now" for now
    proof (cases "dt_le (start_of_day now) ts \<and> dt_lt ts (dt_add (start_of_day now) day_us)")
      case True
      then have "start_of_day now = start_of_day ts" using start_of_day_unique [OF that ts(1)] by simp
      then have "daily_submissions now st' \<le> Suc (daily_submissions ts st)"
        by (auto simp: daily_submissions_def Let_def eff_move(6))
      with ts(2) show ?thesis by simp
    next
      case False
      then have "daily_submissions now st' = daily_submissions now st"
        by (auto simp: daily_submissions_def Let_def eff_move(6) transition_row_def)
      with eff_move(7) that show ?thesis by (simp add: within_daily_limit_def)
    qed
    then show ?thesis by (simp add: within_daily_limit_def)
  qed
qed

section \<open>Rows are unique and immutable\<close>

definition unique_rows :: "journal \<Rightarrow> bool" where
  "unique_rows st = (distinct (map ir_intent_id (j_intents st)) \<and> distinct (map ir_decision_id (j_intents st)))"

lemma effect_unique_rows: "effect st st' \<Longrightarrow> unique_rows st \<Longrightarrow> unique_rows st'"
proof (induction rule: effect.induct)
  case (eff_new row st st' ts details)
  then show ?case by (auto simp: unique_rows_def find_intent_None find_decision_None)
next
  case (eff_move iid st row to_state ts f st' details)
  have "map ir_intent_id (j_intents st') = map ir_intent_id (j_intents st)"
    "map ir_decision_id (j_intents st') = map ir_decision_id (j_intents st)"
    using eff_move(4) by (auto simp: eff_move(5))
  with eff_move(7) show ?case by (simp add: unique_rows_def)
qed (simp add: unique_rows_def)

text \<open>What later steps keep of a row: its bindings, and the filled volume from below.\<close>

definition extends_row :: "IntentRecord \<Rightarrow> IntentRecord \<Rightarrow> bool" where
  "extends_row r r' =
     (ir_intent_id r' = ir_intent_id r \<and> ir_decision_id r' = ir_decision_id r \<and> ir_symbol r' = ir_symbol r
      \<and> ir_payload r' = ir_payload r
      \<and> (fl_le (ir_filled_volume r) (ir_filled_volume r') \<or> ir_filled_volume r' = ir_filled_volume r))"

lemma fl_le_trans: "fl_le a b \<Longrightarrow> fl_le b c \<Longrightarrow> fl_le a c"
  by (cases a; cases b; cases c) (auto simp: fl_le_def)

lemma extends_row_trans: "extends_row a b \<Longrightarrow> extends_row b c \<Longrightarrow> extends_row a c"
  by (auto simp: extends_row_def intro: fl_le_trans)

lemma effect_extends:
  "effect st st' \<Longrightarrow> find_intent k st = Some r \<Longrightarrow> \<exists>r'. find_intent k st' = Some r' \<and> extends_row r r'"
proof (induction rule: effect.induct)
  case (eff_move iid st row to_state ts f st' details)
  have "find (\<lambda>r. ir_intent_id r = k) (j_intents st') =
      map_option (\<lambda>r. if ir_intent_id r = iid then f r else r) (find (\<lambda>r. ir_intent_id r = k) (j_intents st))"
    unfolding eff_move(5) by (rule find_map_same) (simp add: eff_move(4))
  then have "find_intent k st' = Some (if ir_intent_id r = iid then f r else r)"
    using eff_move(7) by (simp add: find_intent_def)
  then show ?case using eff_move(4) by (auto simp: extends_row_def)
qed (auto simp: find_intent_def find_append extends_row_def)

section \<open>Sending at most once\<close>

text \<open>An intent on which no broker send can happen any more, nor has happened.\<close>

definition never_sends :: "runtime \<Rightarrow> string \<Rightarrow> bool" where
  "never_sends rt k =
     (k \<notin> sent rt \<and> (\<forall>l \<in> set (rt_leases rt). dl_intent_id l = k \<longrightarrow> \<not> dl_active l)
      \<and> (k \<in> ac_intent_id ` set (j_consumptions (rt_journal rt)) \<or> terminal (status (rt_journal rt) k)))"

lemma set_list_updateE: "x \<in> set (xs[i := y]) \<Longrightarrow> x = y \<or> x \<in> set xs"
  by (metis insertE set_update_subset_insert subsetD)

lemma terminal_stable: "rt_step rt rt' \<Longrightarrow> terminal (status (rt_journal rt) k) \<Longrightarrow> terminal (status (rt_journal rt') k)"
  using terminal_step [OF effect_refines [OF rt_effect]] by metis

lemma guard_enter_consumptions:
  assumes "final_submission_guard_enter iid owner fence b t clock st = Inr (st', l)"
  shows "\<exists>c. j_consumptions st' = j_consumptions st @ [c] \<and> ac_intent_id c = iid
           \<and> ac_execution_gate_sha256 c = sb_execution_gate_sha256 b"
    and "(k, ty) \<noteq> (iid, ''FINAL_SUBMISSION_GUARD'') \<Longrightarrow> receipts_of k ty st' = receipts_of k ty st"
  using guard_enter_Inr(1) [OF assms] by (auto simp: add_receipt_def receipts_of_def)

lemma never_sends_step:
  assumes "rt_step rt rt'" and "never_sends rt k"
  shows "never_sends rt' k"
  using assms(1)
proof cases
  case (rt_op op clock st')
  then show ?thesis
    using assms run_op_consumptions [OF rt_op(2)] terminal_stable [OF assms(1)]
    by (auto simp: never_sends_def sent_def)
next
  case (rt_enter iid owner fence b t clock st' l)
  have "k \<noteq> iid"
    using assms(2) guard_enter_Inr(7,8) [OF rt_enter(2)] by (auto simp: never_sends_def terminal_def TERMINAL_STATES_def)
  with rt_enter assms(2) show ?thesis
    using guard_enter_Inr(2) [OF rt_enter(2)] guard_enter_consumptions(1) [OF rt_enter(2)] terminal_stable [OF assms(1)]
    by (auto simp: never_sends_def sent_def)
next
  case (rt_consume i jsha iid b clock l' pr)
  have "dl_active (rt_leases rt ! i)" "rt_leases rt ! i \<in> set (rt_leases rt)"
    "iid = dl_intent_id (rt_leases rt ! i)" "dl_intent_id l' = iid"
    using lease_consume_Inr [OF rt_consume(3)] rt_consume(2) by auto
  with rt_consume assms(2) show ?thesis
    by (auto simp: never_sends_def sent_def dest!: set_list_updateE)
next
  case (rt_consume_failed i jsha iid b clock l' err)
  have "dl_intent_id l' = dl_intent_id (rt_leases rt ! i) \<and> dl_active l' = dl_active (rt_leases rt ! i)"
    using lease_consume_failed [OF rt_consume_failed(3)] by auto
  with rt_consume_failed assms(2) show ?thesis
    by (auto simp: never_sends_def sent_def dest!: set_list_updateE)
next
  case (rt_exit i clock st')
  then show ?thesis
    using assms(2) guard_exit_frame(3) [OF rt_exit(3)] terminal_stable [OF assms(1)]
    by (auto simp: never_sends_def sent_def same_control_def lease_deactivate_def dest!: set_list_updateE)
next
  case (rt_exit_failed i clock err)
  then show ?thesis
    using assms(2) by (auto simp: never_sends_def sent_def lease_deactivate_def dest!: set_list_updateE)
next
  case (rt_crash keep)
  then show ?thesis using assms(2) by (auto simp: never_sends_def sent_def)
qed

text \<open>The bookkeeping of consumptions, leases and proofs.\<close>

definition no_send_recorded :: "journal \<Rightarrow> string \<Rightarrow> bool" where
  "no_send_recorded st k =
     (has_receipt k ''SUBMISSION_LEASE_NOT_CONSUMED'' st \<or> has_receipt k ''SUBMISSION_NOT_SENT'' st)"

definition consistent :: "runtime \<Rightarrow> bool" where
  "consistent rt =
     (let consumed = j_consumptions (rt_journal rt) in
      distinct (map ac_intent_id consumed) \<and> distinct (map ac_execution_gate_sha256 consumed)
      \<and> distinct (map dl_intent_id (rt_leases rt)) \<and> distinct (map fst (rt_sent rt))
      \<and> (\<forall>l \<in> set (rt_leases rt). dl_intent_id l \<in> ac_intent_id ` set consumed)
      \<and> sent rt \<subseteq> ac_intent_id ` set consumed
      \<and> (\<forall>l \<in> set (rt_leases rt). dl_intent_id l \<in> sent rt \<longrightarrow> dl_used l)
      \<and> (\<forall>k. no_send_recorded (rt_journal rt) k \<longrightarrow> never_sends rt k))"

lemma consistent_quiet:
  assumes "consistent rt" and "k \<notin> ac_intent_id ` set (j_consumptions (rt_journal rt))"
  shows "k \<notin> sent rt" and "l \<in> set (rt_leases rt) \<Longrightarrow> dl_intent_id l \<noteq> k"
  using assms by (auto simp: consistent_def Let_def)

lemma not_sent_result:
  assumes "record_submission_not_sent iid v reason t clock st = Inr (st', row)"
  shows "unused_lease_proved iid st" and "status st' iid = Some REJECTED"
proof -
  obtain now payload row0 f where r: "find_intent iid st = Some row0" "unused_lease_proved iid st"
    "ir_state row0 \<in> {SUBMITTING, UNCERTAIN}"
    "transition_locked row0 REJECTED now f (add_receipt iid ''SUBMISSION_NOT_SENT'' now payload st) = Inr (st', row)"
    using assms by (auto simp: record_submission_not_sent_def op_simps)
  then show "unused_lease_proved iid st" by simp
  have "find_intent iid (add_receipt iid ''SUBMISSION_NOT_SENT'' now payload st) = Some row0"
    using r(1) by (simp add: find_intent_def add_receipt_def)
  with r(3,4) show "status st' iid = Some REJECTED"
    using find_intent_Some [OF r(1)]
    by (auto simp: transition_locked_def op_simps status_move [where b = REJECTED and f = "apply_facts REJECTED now f"]
        journal_defs apply_facts_def split: if_splits)
qed

lemma has_receipt_op:
  assumes "run_op op clock st = Inr st'" and "(k, ty) \<notin> set (op_writes op)"
  shows "has_receipt k ty st' = has_receipt k ty st"
  using run_op_receipts [OF assms] by (simp add: has_receipt_def)

lemma lease_receipt_not_written: "(k, ''SUBMISSION_LEASE_NOT_CONSUMED'') \<notin> set (op_writes op)"
  by (cases op) (auto simp: PRIVILEGED_RECEIPT_TYPES_def)

lemma not_sent_receipt_written:
  "(k, ''SUBMISSION_NOT_SENT'') \<in> set (op_writes op) \<Longrightarrow> \<exists>v reason t. op = NotSent k v reason t"
  by (cases op) (auto simp: PRIVILEGED_RECEIPT_TYPES_def split: if_splits)

text \<open>Once nothing was consumed for an intent, a terminal state closes it for good.\<close>

lemma never_sends_closed:
  assumes "consistent rt" and "rt_step rt (rt\<lparr>rt_journal := st'\<rparr>)"
    and "j_consumptions st' = j_consumptions (rt_journal rt)"
    and "never_sends rt k \<or> consumptions_of k (rt_journal rt) = [] \<and> terminal (status st' k)"
  shows "never_sends (rt\<lparr>rt_journal := st'\<rparr>) k"
  using assms(4)
proof
  assume "never_sends rt k"
  then show ?thesis by (rule never_sends_step [OF assms(2)])
next
  assume "consumptions_of k (rt_journal rt) = [] \<and> terminal (status st' k)"
  then show ?thesis
    using consistent_quiet [OF assms(1)] by (auto simp: never_sends_def consumptions_of_Nil sent_def)
qed

lemma unused_lease_cases:
  "unused_lease_proved k st \<Longrightarrow>
   has_receipt k ''SUBMISSION_LEASE_NOT_CONSUMED'' st \<or> consumptions_of k st = []"
  by (auto simp: unused_lease_proved_def Let_def has_receipt_def split: if_splits)

lemma consistent_op:
  assumes "consistent rt" and "run_op op clock (rt_journal rt) = Inr st'" and "sealed_op op"
    and "no_send_recorded st' k"
  shows "never_sends (rt\<lparr>rt_journal := st'\<rparr>) k"
proof (rule never_sends_closed [OF assms(1)])
  show "rt_step rt (rt\<lparr>rt_journal := st'\<rparr>)" using assms(2,3) by (rule rt_step.rt_op)
  show "j_consumptions st' = j_consumptions (rt_journal rt)" using run_op_consumptions [OF assms(2)] by simp
  have recorded: "never_sends rt k" if "no_send_recorded (rt_journal rt) k"
    using assms(1) that by (simp add: consistent_def Let_def)
  show "never_sends rt k \<or> consumptions_of k (rt_journal rt) = [] \<and> terminal (status st' k)"
  proof (cases "(k, ''SUBMISSION_NOT_SENT'') \<in> set (op_writes op)")
    case False
    then have "no_send_recorded (rt_journal rt) k"
      using assms(4) has_receipt_op [OF assms(2) lease_receipt_not_written] has_receipt_op [OF assms(2) False]
      by (simp add: no_send_recorded_def)
    then show ?thesis using recorded by simp
  next
    case True
    then obtain v reason t where "op = NotSent k v reason t" using not_sent_receipt_written by blast
    then obtain row where r: "record_submission_not_sent k v reason t clock (rt_journal rt) = Inr (st', row)"
      using assms(2) by auto
    show ?thesis
      using unused_lease_cases [OF not_sent_result(1) [OF r]] not_sent_result(2) [OF r] recorded
      by (auto simp: no_send_recorded_def terminal_def TERMINAL_STATES_def)
  qed
qed

lemma map_update_same: "i < length xs \<Longrightarrow> f y = f (xs ! i) \<Longrightarrow> map f (xs[i := y]) = map f xs"
  by (simp add: map_update) (metis list_update_id nth_map)

lemma update_unique:
  assumes "distinct (map f xs)" and "i < length xs" and "f y = f (xs ! i)" and "x \<in> set (xs[i := y])" and "f x = f y"
  shows "x = y"
proof -
  have "inj_on f (set (xs[i := y]))" and "y \<in> set (xs[i := y])"
    using assms(1) map_update_same [of i xs f y, OF assms(2,3)] assms(2)
    by (metis distinct_map, simp add: set_update_memI)
  with assms(4,5) show ?thesis by (meson inj_onD)
qed

lemma consistent_lease_update:
  assumes "consistent rt" and "i < length (rt_leases rt)"
    and l': "dl_intent_id l' = dl_intent_id (rt_leases rt ! i)" "dl_used (rt_leases rt ! i) \<longrightarrow> dl_used l'"
    and "rt_leases rt' = (rt_leases rt)[i := l']" and "j_consumptions (rt_journal rt') = j_consumptions (rt_journal rt)"
    and sends: "rt_sent rt' = rt_sent rt \<or>
      (\<exists>pr. rt_sent rt' = rt_sent rt @ [(dl_intent_id l', pr)]) \<and> \<not> dl_used (rt_leases rt ! i) \<and> dl_used l'"
    and "\<And>k. no_send_recorded (rt_journal rt') k \<Longrightarrow> never_sends rt' k"
  shows "consistent rt'"
proof -
  let ?ids = "ac_intent_id ` set (j_consumptions (rt_journal rt))"
  note c = assms(1) [unfolded consistent_def Let_def]
  have mem: "rt_leases rt ! i \<in> set (rt_leases rt)" using assms(2) by simp
  have fresh: "dl_intent_id l' \<notin> sent rt" if "\<not> dl_used (rt_leases rt ! i)"
    using c mem l'(1) that by auto
  have used: "dl_used l" if "l \<in> set (rt_leases rt')" "dl_intent_id l \<in> sent rt'" for l
  proof (cases "dl_intent_id l = dl_intent_id l'")
    case True
    then have "l = l'" using update_unique [OF _ assms(2) l'(1)] c that(1) assms(5) by metis
    moreover have "dl_used (rt_leases rt ! i)" if "dl_intent_id l' \<in> sent rt"
      using c mem l'(1) that by simp
    moreover have "dl_intent_id l' \<in> sent rt \<or> dl_used l'" using sends that(2) True by (auto simp: sent_def)
    ultimately show ?thesis using l'(2) by blast
  next
    case False
    then have "l \<in> set (rt_leases rt)" "dl_intent_id l \<in> sent rt"
      using that sends unfolding assms(5) by (auto simp: sent_def dest!: set_list_updateE)
    then show ?thesis using c by auto
  qed
  have "dl_intent_id l \<in> ?ids" if "l \<in> set (rt_leases rt')" for l
    using that c mem l'(1) unfolding assms(5) by (auto dest!: set_list_updateE)
  moreover have "distinct (map dl_intent_id (rt_leases rt'))"
    unfolding assms(5) map_update_same [where f = dl_intent_id, OF assms(2) l'(1)] using c by simp
  moreover have "distinct (map fst (rt_sent rt'))" using sends fresh c by (auto simp: sent_def)
  moreover have "sent rt' \<subseteq> ?ids"
  proof -
    have "sent rt' \<subseteq> insert (dl_intent_id l') (sent rt)" using sends by (auto simp: sent_def)
    moreover have "dl_intent_id l' \<in> ?ids" "sent rt \<subseteq> ?ids" using c mem l'(1) by simp_all
    ultimately show ?thesis by blast
  qed
  ultimately show ?thesis
    unfolding consistent_def Let_def assms(6) using c used assms(8) by blast
qed

lemma exit_never_sends:
  assumes "consistent rt" and "i < length (rt_leases rt)"
    and "final_submission_guard_exit (rt_leases rt ! i) clock (rt_journal rt) = Inr st'"
    and "rt' = rt\<lparr>rt_journal := st', rt_leases := (rt_leases rt)[i := fst (lease_deactivate (rt_leases rt ! i))]\<rparr>"
    and "no_send_recorded st' k"
  shows "never_sends rt' k"
proof (cases "no_send_recorded (rt_journal rt) k")
  case True
  then have "never_sends rt k" using assms(1) by (simp add: consistent_def Let_def)
  then show ?thesis using rt_step.rt_exit [OF assms(2,3)] never_sends_step assms(4) by simp
next
  case False
  let ?l = "rt_leases rt ! i"
  note c = assms(1) [unfolded consistent_def Let_def]
  note frame = guard_exit_frame [OF assms(3)]
  have mem: "?l \<in> set (rt_leases rt)" using assms(2) by simp
  have k: "k = dl_intent_id ?l"
    using frame(4) [of k "''SUBMISSION_LEASE_NOT_CONSUMED''"] frame(4) [of k "''SUBMISSION_NOT_SENT''"] False assms(5)
    by (auto simp: no_send_recorded_def has_receipt_def)
  have "\<not> dl_used ?l" using frame(5) False assms(5) by auto
  then have "k \<notin> sent rt" "k \<in> ac_intent_id ` set (j_consumptions (rt_journal rt))"
    using c mem k by auto
  moreover have "\<not> dl_active l" if "l \<in> set (rt_leases rt')" "dl_intent_id l = k" for l
    using update_unique [of dl_intent_id "rt_leases rt" i "fst (lease_deactivate ?l)" l] that c k assms(2,4)
    by (simp add: lease_deactivate_def)
  ultimately show ?thesis
    using frame(3) assms(4) by (simp add: never_sends_def sent_def same_control_def)
qed

lemma consistent_step:
  assumes "consistent rt" and "rt_step rt rt'"
  shows "consistent rt'"
  using assms(2)
proof cases
  case (rt_op op clock st')
  have never: "never_sends rt' k" if "no_send_recorded st' k" for k
    using consistent_op [OF assms(1) rt_op(2,3) that] rt_op(1) by simp
  from rt_op(1) never show ?thesis
    using assms(1) run_op_consumptions [OF rt_op(2)] by (simp add: consistent_def Let_def sent_def)
next
  case (rt_enter iid owner fence b t clock st' l)
  have same: "no_send_recorded st' k = no_send_recorded (rt_journal rt) k" for k
    using guard_enter_consumptions(2) [OF rt_enter(2)] by (simp add: no_send_recorded_def has_receipt_def)
  have "never_sends rt' k" if "no_send_recorded st' k" for k
    using assms that same never_sends_step by (simp add: consistent_def Let_def)
  then show ?thesis
    using assms(1) rt_enter(1) guard_enter_Inr(2,5,6,7) [OF rt_enter(2)]
      guard_enter_consumptions(1) [OF rt_enter(2)] consistent_quiet [OF assms(1), of iid]
    by (auto simp: consistent_def Let_def sent_def)
next
  case (rt_consume i jsha iid b clock l' pr)
  have "never_sends rt' k" if "no_send_recorded (rt_journal rt') k" for k
    using assms that rt_consume(1) never_sends_step by (simp add: consistent_def Let_def)
  then show ?thesis
    using rt_consume(1,2) lease_consume_Inr(2-4) [OF rt_consume(3)]
    by (intro consistent_lease_update [OF assms(1), of i l']) auto
next
  case (rt_consume_failed i jsha iid b clock l' err)
  have "never_sends rt' k" if "no_send_recorded (rt_journal rt') k" for k
    using assms that rt_consume_failed(1) never_sends_step by (simp add: consistent_def Let_def)
  then show ?thesis
    using rt_consume_failed(1,2) lease_consume_failed [OF rt_consume_failed(3)]
    by (intro consistent_lease_update [OF assms(1), of i l']) auto
next
  case (rt_exit i clock st')
  then show ?thesis
    using guard_exit_frame(3) [OF rt_exit(3)] exit_never_sends [OF assms(1) rt_exit(2,3,1)]
    by (intro consistent_lease_update [OF assms(1), of i "fst (lease_deactivate (rt_leases rt ! i))"])
      (auto simp: lease_deactivate_def same_control_def)
next
  case (rt_exit_failed i clock err)
  have "never_sends rt' k" if "no_send_recorded (rt_journal rt') k" for k
    using assms that rt_exit_failed(1) never_sends_step by (simp add: consistent_def Let_def)
  then show ?thesis
    using rt_exit_failed
    by (intro consistent_lease_update [OF assms(1), of i "fst (lease_deactivate (rt_leases rt ! i))"])
      (auto simp: lease_deactivate_def)
next
  case (rt_crash keep)
  then show ?thesis
    using assms never_sends_step [OF assms(2)]
    by (auto simp: consistent_def Let_def sent_def distinct_map_filter)
qed

lemma consistent_start: "rt_start rt \<Longrightarrow> consistent rt"
  by (simp add: consistent_def rt_start_empty sent_def no_send_recorded_def has_receipt_def receipts_of_def)

lemma start_invariants:
  assumes "rt_start rt"
  shows "log_matches (rt_journal rt)" "within_daily_limit (rt_journal rt)" "unique_rows (rt_journal rt)"
  using assms
  by (auto simp: log_matches_def within_daily_limit_def unique_rows_def transition_history_def log_end_def status_def
      find_intent_def daily_submissions_def rt_start_empty)

end
