(* ===== verification/Journal_Sample.thy ===== *)
theory Journal_Sample
  imports Submission_Runtime Risk_Safety
begin

text \<open>
  A concrete run of the runtime, from a new journal to a broker send: one intent is created,
  approved, checked, authorized and reserved, the final guard is entered and its lease consumed.
  The run shows that the hypotheses of the properties about reachable states can hold; digests
  stay symbolic.
\<close>

section \<open>Data of the run\<close>

definition run_time :: datetime where
  "run_time = utc_at 0"

definition run_broker :: BrokerSpec where
  "run_broker = sample_broker\<lparr>bs_captured_at := run_time\<rparr>"

definition run_payload :: json where
  "run_payload = JDict
     [(''broker_spec_sha256'', JStr (BrokerSpec_content_sha256 run_broker)),
      (''demo_auto_session_dispatch_verification_sha256'', JStr sample_hash),
      (''intent'', JDict [(''account_id'', JStr ''acct''), (''requested_lot'', JFloat (Fin (1 / 4))),
                         (''server'', JStr ''demo''), (''symbol'', JStr ''XAUUSD'')])]"

definition run_decision :: RiskDecision where
  "run_decision =
     \<lparr>rd_allowed = True, rd_reason_codes = [], rd_evaluated_at = run_time, rd_symbol = ''XAUUSD'',
      rd_max_risk_cash = Fin 1, rd_normalized_lot = Fin (1 / 4), rd_estimated_risk_cash = Fin 0,
      rd_estimated_margin_cash = Fin 0, rd_margin_limit_cash = Fin 0, rd_spread_points = Fin 0,
      rd_spread_limit_points = Fin 1, rd_spread_p95_points = Fin 1,
      rd_spread_median_multiple_limit_points = Fin 1, rd_slippage_points = Fin 0,
      rd_slippage_limit_points = Fin 0, rd_open_position_count = 0, rd_exposure_symbols = [],
      rd_news_clear = True, rd_rollover_clear = True, rd_data_fresh = True, rd_source_aligned = True,
      rd_account_currency = ''USD'', rd_absolute_risk_cap_usd = Fin 1,
      rd_usd_to_account_currency_rate = Fin 1, rd_absolute_risk_cap_account_currency = Fin 1,
      rd_conversion_quote_sha256 = sample_hash\<rparr>"

definition run_preflight :: MT5Preflight where
  "run_preflight =
     \<lparr>mp_intent_id = ''i1'', mp_passed = True, mp_reason = ''OK'', mp_broker_symbol = ''XAUUSD'',
      mp_intent_sha256 = sample_hash, mp_broker_spec_sha256 = BrokerSpec_content_sha256 run_broker,
      mp_request = JDict [], mp_request_sha256 = canonical_sha256 (JDict []), mp_broker_retcode = ''0'',
      mp_checked_at_utc = run_time, mp_valid_until_utc = dt_add run_time (seconds 5),
      mp_current_bid = Fin 1, mp_current_ask = Fin 1, mp_tick_time_utc = run_time,
      mp_allowed_deviation_points = 0, mp_estimated_stop_risk_cash = Fin 0, mp_estimated_margin_cash = Fin 0\<rparr>"

definition run_guard :: MT5SubmissionGuard where
  "run_guard =
     \<lparr>mg_intent_id = ''i1'', mg_account_id = ''acct'', mg_server = ''demo'', mg_symbol = ''XAUUSD'',
      mg_account_equity = Fin 1, mg_active_order_count = 0, mg_active_position_count = 0,
      mg_broker_spec_sha256 = BrokerSpec_content_sha256 run_broker, mg_checked_at_utc = run_time\<rparr>"

definition run_binding :: SubmissionBinding where
  "run_binding =
     \<lparr>sb_execution_gate_sha256 = sample_hash, sb_authorization_sha256 = sample_hash,
      sb_broker_request_sha256 = sample_hash\<rparr>"

section \<open>States of the run\<close>

definition run_start :: journal where
  "run_start =
     \<lparr>j_sha256 = journal_sha256 ''j'' sample_hash, j_intents = [], j_transitions = [], j_receipts = [],
      j_lease = None,
      j_kill_switch = \<lparr>ks_latched = False, ks_reason = [], ks_latched_at_utc = None,
        ks_source = ''INITIAL'', ks_reset_at_utc = None, ks_reset_reason = None\<rparr>,
      j_kill_events = [], j_consumptions = []\<rparr>"

definition run_log :: "execution_state option \<Rightarrow> execution_state \<Rightarrow> TransitionRow" where
  "run_log a b = transition_row ''i1'' a b run_time (JDict [])"

definition run_journal :: "execution_state \<Rightarrow> TransitionRow list \<Rightarrow> journal" where
  "run_journal s rows =
     run_start\<lparr>j_intents := [new_row ''i1'' ''d1'' ''XAUUSD'' s run_payload run_time None],
               j_transitions := rows\<rparr>"

definition run_log3 :: "TransitionRow list" where
  "run_log3 = [run_log None CREATED, run_log (Some CREATED) RISK_APPROVED,
     run_log (Some RISK_APPROVED) PREFLIGHT_PASSED]"

definition run_receipt :: "string \<Rightarrow> json \<Rightarrow> ReceiptRow" where
  "run_receipt ty payload =
     \<lparr>rr_intent_id = ''i1'', rr_receipt_type = ty, rr_occurred_at_utc = run_time, rr_payload = payload\<rparr>"

definition run_receipts :: "ReceiptRow list" where
  "run_receipts =
     [run_receipt ''RISK_DECISION'' (RiskDecision_dict run_decision),
      run_receipt ''MT5_PREFLIGHT'' (MT5Preflight_dict run_preflight),
      run_receipt ''SUBMISSION_GUARD'' (MT5SubmissionGuard_dict run_guard)]"

definition run_checked :: journal where
  "run_checked = (run_journal PREFLIGHT_PASSED run_log3)\<lparr>j_receipts := run_receipts\<rparr>"

definition run_lease :: ExecutorLease where
  "run_lease = \<lparr>el_owner_id = ''exec'', el_fence_token = 1,
     el_expires_at_utc = dt_add run_time (seconds 15), el_updated_at_utc = run_time\<rparr>"

definition run_capability :: SubmissionEvidenceCapability where
  "run_capability =
     \<lparr>se_journal_sha256 = j_sha256 run_start, se_intent_id = ''i1'',
      se_risk_decision_sha256 = RiskDecision_content_sha256 run_decision,
      se_preflight_sha256 = MT5Preflight_content_sha256 run_preflight,
      se_submission_guard_sha256 = MT5SubmissionGuard_content_sha256 run_guard,
      se_broker_spec_sha256 = BrokerSpec_content_sha256 run_broker,
      se_issued_at = run_time, se_valid_until = dt_add run_time (seconds 1)\<rparr>"

definition run_reserved :: journal where
  "run_reserved = (run_journal SUBMITTING (run_log3 @ [run_log (Some PREFLIGHT_PASSED) SUBMITTING]))
     \<lparr>j_receipts := run_receipts, j_lease := Some run_lease\<rparr>"

lemmas run_defs = run_payload_def run_decision_def run_preflight_def run_guard_def run_start_def
  run_journal_def run_log_def run_log3_def run_receipt_def run_receipts_def run_checked_def run_reserved_def
  run_capability_def run_lease_def new_row_def transition_row_def

section \<open>Steps of the run\<close>

lemma sample_hash_hex [simp]: "is_sha256_hex sample_hash"
  by (simp add: is_sha256_hex_def sample_hash_def list.pred_set is_hex_lower_def)

lemma str_lower_hex: "list_all is_hex_lower v \<Longrightarrow> str_lower v = v"
  by (induction v) (auto simp: lower_char_hex_lower str_lower_def)

lemma digest_hex [simp]:
  "is_sha256_hex (sha256_hex v)" "str_lower (sha256_hex v) = sha256_hex v"
  "is_sha256_hex (canonical_sha256 j)" "str_lower (canonical_sha256 j) = canonical_sha256 j"
  "is_sha256_hex (BrokerSpec_content_sha256 b)"
  "str_lower (BrokerSpec_content_sha256 b) = BrokerSpec_content_sha256 b"
  by (simp_all add: is_sha256_hex_def canonical_sha256_def BrokerSpec_content_sha256_def str_lower_hex)

lemma run_clock [simp]: "is_utc run_time" "instant run_time = 0" "dt_lt run_time run_time = False"
  by (simp_all add: run_time_def dt_lt_def)

lemma total_seconds_0 [simp]: "total_seconds 0 = Fin 0"
  by (simp add: total_seconds_def)

lemma of_rat_nonneg:
  assumes "0 \<le> q"
  shows "fl_le (Fin 0) (fl_of_rat q)" "\<not> fl_lt (fl_of_rat q) (Fin 0)" "\<not> fl_lt (Fin 0) (fl_neg (fl_of_rat q))"
proof -
  have "0 \<le> bin_round q"
    using bin_round_mono [OF assms] representable_int [of 0] by (simp add: representable_def)
  then show "fl_le (Fin 0) (fl_of_rat q)" "\<not> fl_lt (fl_of_rat q) (Fin 0)"
      "\<not> fl_lt (Fin 0) (fl_neg (fl_of_rat q))"
    by (auto simp: fl_of_rat_def Let_def fl_le_def fl_overflow_def)
qed

lemma run_ages [simp]: "clock_disagrees run_time run_time = False" "fact_stale run_time run_time = False"
  using of_rat_nonneg(2) [of "50 / 1000"]
  by (simp_all add: clock_disagrees_def fact_stale_def dt_sub_def RESET_CLOCK_ASSERTION_TOLERANCE_SECONDS_def)

lemma run_now [simp]: "trusted_now run_time None = Inr run_time" "trusted_now run_time (Some run_time) = Inr run_time"
  using of_rat_nonneg(3) [of "50 / 1000"]
  by (simp_all add: trusted_now_def require_aware_utc_def dt_sub_def RESET_CLOCK_ASSERTION_TOLERANCE_SECONDS_def
      MAX_JOURNAL_CALLER_RECORDING_DELAY_SECONDS_def)

lemma run_initialize: "initialize ''j'' sample_hash = Inr run_start"
  by (simp add: initialize_def run_start_def Let_def sample_hash_def text_evals list.pred_set is_hex_lower_def)

lemma run_create:
  "run_op (CreateIntent ''i1'' ''d1'' ''XAUUSD'' run_payload None) run_time run_start
     = Inr (run_journal CREATED [run_log None CREATED])"
  by (simp add: create_intent_def state_after_def text_evals json_text_def find_intent_def find_decision_def
      journal_defs run_defs)

lemma run_transition:
  "run_op (Transition ''i1'' ''RISK_APPROVED'' None (no_facts (JDict []) None) None) run_time
     (run_journal CREATED [run_log None CREATED])
     = Inr (run_journal RISK_APPROVED [run_log None CREATED, run_log (Some CREATED) RISK_APPROVED])"
  "run_op (Transition ''i1'' ''PREFLIGHT_PASSED'' None (no_facts (JDict []) None) None) run_time
     (run_journal RISK_APPROVED [run_log None CREATED, run_log (Some CREATED) RISK_APPROVED])
     = Inr (run_journal PREFLIGHT_PASSED run_log3)"
  by (simp_all add: transition_def state_after_def state_of_def EXECUTION_STATES_def text_evals
      transition_request_checks_def transition_row_checks_def RESERVE_ONLY_TRANSITION_TARGETS_def
      BROKER_CONCLUSIVE_TRANSITION_TARGETS_def GLOBAL_EXPOSURE_STATES_def no_facts_def with_intent_def
      find_intent_def transition_locked_def json_text_def journal_defs apply_facts_def or_else_def
      next_filled_def checked_def raise_if_def run_defs)

lemma run_lot [simp]:
  "lot_differs (Fin (1 / 4)) (Some (JFloat (Fin (1 / 4)))) = Inr False"
  "lot_within (Fin (1 / 4)) (Some (JFloat (Fin (1 / 4)))) = Inr True"
  using of_rat_nonneg [of "1 / 10 ^ 12"]
  by (simp_all add: fl_sub_def lot_differs_def lot_within_def json_float_def cash_tolerance_def)

lemma run_finite [simp]: "json_finite (jtime d)" "json_finite (jstrs xs)"
  by (simp_all add: jtime_def jstrs_def list.pred_set)

lemma run_windows [simp]:
  "dt_le (dt_add run_time (seconds 5)) run_time = False" "dt_le (dt_add run_time (seconds 1)) run_time = False"
  "dt_min (dt_add run_time (seconds 5)) (dt_add run_time (seconds 1)) = dt_add run_time (seconds 1)"
  "bs_captured_at run_broker = run_time" "is_sha256_hex (journal_sha256 p i)"
  "str_lower (journal_sha256 p i) = journal_sha256 p i"
  by (simp_all add: dt_le_def dt_lt_def dt_min_def seconds_def run_broker_def journal_sha256_def)

definition run_prepared :: "nat \<Rightarrow> journal" where
  "run_prepared n = (run_journal PREFLIGHT_PASSED run_log3)\<lparr>j_receipts := take n run_receipts\<rparr>"

lemmas run_lookup_defs = with_intent_def find_intent_def json_get.simps sub_get_def
  store_privileged_receipt_locked_def latest_receipt_def receipts_of_def json_text_def add_receipt_def

lemma run_risk:
  "run_op (RecordRisk ''i1'' run_decision None) run_time (run_prepared 0) = Inr (run_prepared 1)"
  by (simp add: record_risk_decision_def run_prepared_def run_lookup_defs run_defs RiskDecision_dict_def)

lemma run_preflight_step:
  "run_op (RecordPreflight ''i1'' run_preflight None) run_time (run_prepared 1) = Inr (run_prepared 2)"
  by (simp add: record_mt5_preflight_def run_prepared_def run_lookup_defs run_defs MT5Preflight_dict_def)


lemma run_authorize:
  "run_op (AuthorizeEvidence ''i1'' run_decision run_preflight run_guard run_broker None) run_time (run_prepared 2)
     = Inr run_checked"
  by (simp add: authorize_submission_evidence_def state_after_def raise_if_def upper_evals
      RiskDecision_dict_def MT5Preflight_dict_def MT5SubmissionGuard_dict_def run_prepared_def run_lookup_defs run_defs
      evidence_bindings_def receipt_missing_def SubmissionEvidenceCapability_init_def
      RiskDecision_content_sha256_def MT5Preflight_content_sha256_def MT5SubmissionGuard_content_sha256_def
      checked_def)

lemma run_claim:
  "run_op (ClaimExecutor ''exec'' 15 None) run_time run_checked = Inr (run_checked\<lparr>j_lease := Some run_lease\<rparr>)"
  by (simp add: claim_executor_def state_after_def run_defs text_evals)

lemma run_fence [simp]: "dt_le (dt_add run_time (seconds 15)) run_time = False"
    "dt_le run_time run_time" "dt_lt run_time (dt_add run_time (seconds 1))"
  by (simp_all add: dt_le_def dt_lt_def seconds_def)

lemma run_reserve:
  "run_op (Reserve ''i1'' ''exec'' 1 run_capability None (JDict [])) run_time
     (run_checked\<lparr>j_lease := Some run_lease\<rparr>) = Inr run_reserved"
  by (simp add: reserve_submission_def state_after_def checked_def raise_if_def lease_stale_def reservation_checks_def
      run_lookup_defs run_defs other_exposure_def daily_submissions_def MAX_DAILY_SUBMISSIONS_def
      receipt_contract_valid_def RiskDecision_content_sha256_def MT5Preflight_content_sha256_def
      MT5SubmissionGuard_content_sha256_def RiskDecision_dict_def MT5Preflight_dict_def MT5SubmissionGuard_dict_def
      journal_defs Let_def)

section \<open>The guard and the send\<close>

definition run_lease_held :: "bool \<Rightarrow> bool \<Rightarrow> DurableSubmissionLease" where
  "run_lease_held active used =
     \<lparr>dl_journal_sha256 = j_sha256 run_start, dl_intent_id = ''i1'', dl_execution_gate_sha256 = sample_hash,
      dl_authorization_sha256 = sample_hash, dl_broker_request_sha256 = sample_hash, dl_issued_at = run_time,
      dl_owner_id = ''exec'', dl_fence_token = 1, dl_active = active, dl_used = used\<rparr>"

definition run_entered :: journal where
  "run_entered = add_receipt ''i1'' ''FINAL_SUBMISSION_GUARD'' run_time (guard_payload ''exec'' 1 1 run_binding)
     (run_reserved\<lparr>j_consumptions :=
        [\<lparr>ac_execution_gate_sha256 = sample_hash, ac_authorization_sha256 = sample_hash,
          ac_broker_request_sha256 = sample_hash, ac_intent_id = ''i1'', ac_occurred_at_utc = run_time,
          ac_journal_sha256 = j_sha256 run_start\<rparr>]\<rparr>)"

definition run_proof :: SubmissionConsumptionProof where
  "run_proof =
     \<lparr>sp_journal_sha256 = j_sha256 run_start, sp_intent_id = ''i1'', sp_execution_gate_sha256 = sample_hash,
      sp_authorization_sha256 = sample_hash, sp_broker_request_sha256 = sample_hash, sp_consumed_at = run_time\<rparr>"

lemma run_day: "start_of_day run_time = run_time" "dt_lt run_time (dt_add run_time day_us)"
  by (simp_all add: run_time_def start_of_day_def utc_at_def dt_lt_def day_us_def)

lemma run_final_state:
  "assert_final_submission_state ''i1'' ''exec'' 1 run_time run_reserved = Inr 1"
  "assert_final_submission_state ''i1'' ''exec'' 1 run_time run_entered = Inr 1"
  by (simp_all add: assert_final_submission_state_def checked_def raise_if_def lease_stale_def find_intent_def
      other_exposure_def daily_submissions_def MAX_DAILY_SUBMISSIONS_def run_defs run_entered_def add_receipt_def
      Let_def run_day)

lemma run_enter:
  "final_submission_guard_enter ''i1'' ''exec'' 1 run_binding run_time run_time run_reserved
     = Inr (run_entered, run_lease_held True False)"
  by (simp add: final_submission_guard_enter_def run_final_state checked_def raise_if_def run_binding_def
      find_consumption_def consumptions_of_def run_entered_def run_lease_held_def)
    (simp add: run_defs)

lemma run_mint:
  "mint_submission_consumption_proof run_proof = Inr run_proof"
proof -
  have "list_all is_hex_lower sample_hash" "length sample_hash = 64"
    "list_all is_hex_lower (j_sha256 run_start)" "length (j_sha256 run_start) = 64"
    using sample_hash_hex by (simp_all add: is_sha256_hex_def run_start_def journal_sha256_def)
  moreover have "require_hash name v 64 = Inr v" if "list_all is_hex_lower v" "length v = 64" for name v
    using that by (intro require_hash_hex) auto
  moreover have "require_utc name run_time = Inr run_time" for name
    by (simp add: require_utc_def run_time_def utc_at_def)
  ultimately show ?thesis
    by (simp add: mint_submission_consumption_proof_def SubmissionConsumptionProof_init_def run_proof_def
        norm_hash_hex checked_def raise_if_def require_text_def upper_evals)
qed

lemma run_consume:
  "lease_consume (run_lease_held True False) (j_sha256 run_start) ''i1'' run_binding run_time run_entered
     = (run_lease_held True True, Inr run_proof)"
proof -
  have "final_validator (run_lease_held True False) run_time run_entered = Inr run_time"
    using run_final_state(2)
    by (simp add: final_validator_def run_lease_held_def find_consumption_def)
      (simp add: run_entered_def add_receipt_def run_reserved_def run_journal_def)
  then show ?thesis
    using run_mint by (simp add: lease_consume_def run_lease_held_def run_binding_def run_proof_def)
qed

section \<open>The run as steps of the runtime\<close>

definition run_rt :: "journal \<Rightarrow> runtime" where
  "run_rt st = \<lparr>rt_journal = st, rt_leases = [], rt_sent = []\<rparr>"

definition run_held :: runtime where
  "run_held = \<lparr>rt_journal = run_entered, rt_leases = [run_lease_held True False], rt_sent = []\<rparr>"

definition run_sent :: runtime where
  "run_sent = \<lparr>rt_journal = run_entered, rt_leases = [run_lease_held True True],
     rt_sent = [(''i1'', run_proof)]\<rparr>"

lemma run_op_step: "run_op op clock st = Inr st' \<Longrightarrow> sealed_op op \<Longrightarrow> rt_step (run_rt st) (run_rt st')"
  using rt_step.rt_op [of op clock "run_rt st" st'] by (simp add: run_rt_def)

lemma run_rt_start: "rt_start (run_rt run_start)"
  using run_initialize by (auto simp: rt_start_def run_rt_def)

lemma run_reaches_reserved: "rt_step\<^sup>*\<^sup>* (run_rt run_start) (run_rt run_reserved)"
proof -
  have p: "run_prepared 0 = run_journal PREFLIGHT_PASSED run_log3"
    by (simp add: run_prepared_def run_journal_def run_start_def)
  note steps = run_op_step [OF run_create] run_op_step [OF run_transition(1)]
    run_op_step [OF run_transition(2), folded p] run_op_step [OF run_risk] run_op_step [OF run_preflight_step]
    run_op_step [OF run_authorize] run_op_step [OF run_claim] run_op_step [OF run_reserve]
  show ?thesis
    by (rule converse_rtranclp_into_rtranclp, rule steps, simp)+ simp
qed

lemma run_reaches_held: "rt_step\<^sup>*\<^sup>* (run_rt run_start) run_held"
proof -
  have "rt_step (run_rt run_reserved) run_held"
    using rt_step.rt_enter [of _ _ _ _ _ _ "run_rt run_reserved"] run_enter
    by (fastforce simp: run_rt_def run_held_def)
  with run_reaches_reserved show ?thesis by simp
qed

lemma run_sends: "rt_step run_held run_sent"
  using rt_step.rt_consume [of 0 run_held "j_sha256 run_start" "''i1''" run_binding run_time] run_consume
  by (simp add: run_held_def run_sent_def)

lemma run_reaches_sent: "rt_step\<^sup>*\<^sup>* (run_rt run_start) run_sent"
  using run_reaches_held run_sends by simp

end
