(* ===== verification/Journal_Safety.thy ===== *)
theory Journal_Safety
  imports Journal_Sample
begin

text \<open>
  The properties of the journal and of the runtime around it, over all interleavings of
  operations, guards and crashes, with the run of \<open>Journal_Sample\<close> as their witness.
\<close>

section \<open>Invariants of reachable states\<close>

lemma reachable_effect:
  assumes "rt_start rt0" and "rt_step\<^sup>*\<^sup>* rt0 rt"
    and "\<And>rt. rt_start rt \<Longrightarrow> P (rt_journal rt)" and "\<And>st st'. effect st st' \<Longrightarrow> P st \<Longrightarrow> P st'"
  shows "P (rt_journal rt)"
  using assms by (intro life.reachable_invariant [of rt0 rt "\<lambda>rt. P (rt_journal rt)"]) (auto dest: rt_effect)

lemma reachable_consistent: "rt_start rt0 \<Longrightarrow> rt_step\<^sup>*\<^sup>* rt0 rt \<Longrightarrow> consistent rt"
  by (rule life.reachable_invariant) (auto intro: consistent_start consistent_step)

text \<open>
  (C1) In every reachable state at most one intent is in a state that may
  carry broker exposure (\<open>SUBMITTING\<close>, \<open>ACKNOWLEDGED\<close>, \<open>PARTIAL\<close>, \<open>FILLED\<close>, \<open>UNCERTAIN\<close>), whatever
  operations, guards and crashes led there.
\<close>

theorem one_broker_exposure:
  assumes "rt_start rt0" and "rt_step\<^sup>*\<^sup>* rt0 rt"
    and "exposed (status (rt_journal rt) i)" and "exposed (status (rt_journal rt) k)"
  shows "i = k"
  using life.reachable_one_exposed [OF assms(1,2)] assms(3,4) by (simp add: one_exposed_def)

lemma run_exposed: "exposed (status (rt_journal run_sent) ''i1'')"
  by (simp add: exposed_def status_def find_intent_def run_sent_def run_entered_def add_receipt_def run_defs
      GLOBAL_EXPOSURE_STATES_def)

theorem one_broker_exposure_witness:
  "\<forall>k. exposed (status (rt_journal run_sent) k) = (k = ''i1'')"
  using one_broker_exposure [OF run_rt_start run_reaches_sent] run_exposed by blast

text \<open>
  An intent in a terminal state (\<open>RISK_REJECTED\<close>, \<open>REJECTED\<close>, \<open>EXPIRED\<close>,
  \<open>CLOSED\<close>) stays in it under every further step.
\<close>

theorem terminal_states_final:
  assumes "rt_step\<^sup>*\<^sup>* rt rt'" and "status (rt_journal rt) i = Some a" and "a \<in> set TERMINAL_STATES"
  shows "status (rt_journal rt') i = Some a"
  using life.terminal_absorbing [OF assms(1)] assms(2,3) by (auto simp: terminal_def)

lemma run_claim_any:
  "rt_step (run_rt (run_journal a rows)) (run_rt ((run_journal a rows)\<lparr>j_lease := Some run_lease\<rparr>))"
  by (rule run_op_step [of "ClaimExecutor ''exec'' 15 None" run_time])
    (simp_all add: claim_executor_def state_after_def run_defs text_evals)

theorem terminal_states_final_witness:
  "status (rt_journal (run_rt ((run_journal EXPIRED [])\<lparr>j_lease := Some run_lease\<rparr>))) ''i1'' = Some EXPIRED"
  by (rule terminal_states_final [OF r_into_rtranclp, OF run_claim_any])
    (simp_all add: status_def find_intent_def run_rt_def run_defs TERMINAL_STATES_def)

text \<open>
  (C11) In every reachable state at most four transitions to \<open>SUBMITTING\<close>
  fall on any one UTC day.
\<close>

theorem daily_submission_limit:
  assumes "rt_start rt0" and "rt_step\<^sup>*\<^sup>* rt0 rt" and "is_utc now"
  shows "daily_submissions now (rt_journal rt) \<le> MAX_DAILY_SUBMISSIONS"
proof -
  have "within_daily_limit (rt_journal rt)"
    by (rule reachable_effect [where P = within_daily_limit, OF assms(1,2) start_invariants(2) effect_daily_limit])
  with assms(3) show ?thesis by (simp add: within_daily_limit_def)
qed

theorem daily_submission_limit_witness:
  "daily_submissions run_time (rt_journal run_sent) = 1 \<and> 1 \<le> MAX_DAILY_SUBMISSIONS"
proof -
  have "daily_submissions run_time (rt_journal run_sent) = 1"
    by (simp add: daily_submissions_def run_sent_def run_entered_def add_receipt_def run_defs run_day)
  then show ?thesis using daily_submission_limit [OF run_rt_start run_reaches_sent, of run_time] by simp
qed

text \<open>
  In every reachable state the transition log of each intent starts
  at \<open>CREATED\<close>, continues row by row along the table of allowed transitions (a reconciliation
  may repeat a state) and ends in the stored state; an intent without rows is unknown.
\<close>

theorem transition_log_replays:
  assumes "rt_start rt0" and "rt_step\<^sup>*\<^sup>* rt0 rt"
  shows "legal_log None (transition_history iid (rt_journal rt))
    \<and> status (rt_journal rt) iid = log_end (transition_history iid (rt_journal rt))"
proof -
  have "log_matches (rt_journal rt)"
    by (rule reachable_effect [where P = log_matches, OF assms start_invariants(1) effect_log])
  then show ?thesis by (simp add: log_matches_def)
qed

theorem transition_log_replays_witness:
  "status (rt_journal run_sent) ''i1'' = log_end (transition_history ''i1'' (rt_journal run_sent))
   \<and> map tr_to_state (transition_history ''i1'' (rt_journal run_sent))
      = [CREATED, RISK_APPROVED, PREFLIGHT_PASSED, SUBMITTING]"
  using transition_log_replays [OF run_rt_start run_reaches_sent, of "''i1''"]
  by (simp add: transition_history_def run_sent_def run_entered_def add_receipt_def run_defs)

text \<open>
  (C9) Every step of the runtime is a step of the abstract life cycle:
  the intents' states stay, one unknown intent opens in a fresh state, or one intent moves along
  the table, to \<open>SUBMITTING\<close> only while no other intent is exposed.
\<close>

theorem runtime_refines_lifecycle:
  assumes "rt_step rt rt'"
  shows "lifecycle_step (status (rt_journal rt)) (status (rt_journal rt'))"
  using life.step_refines [OF assms] .

theorem runtime_refines_lifecycle_witness:
  "lifecycle_step (status (rt_journal run_held)) (status (rt_journal run_sent))"
  by (rule runtime_refines_lifecycle [OF run_sends])

section \<open>Sending\<close>

text \<open>
  (C7) In every reachable state each intent has at most one consumption proof,
  even across crashes and new leases, and each proof belongs to a committed one-use
  consumption of its intent, whose gates are pairwise different.
\<close>

theorem sent_at_most_once:
  assumes "rt_start rt0" and "rt_step\<^sup>*\<^sup>* rt0 rt"
  shows "distinct (map fst (rt_sent rt))
    \<and> sent rt \<subseteq> ac_intent_id ` set (j_consumptions (rt_journal rt))
    \<and> distinct (map ac_intent_id (j_consumptions (rt_journal rt)))
    \<and> distinct (map ac_execution_gate_sha256 (j_consumptions (rt_journal rt)))"
  using reachable_consistent [OF assms] by (simp add: consistent_def Let_def)

theorem sent_at_most_once_witness:
  "distinct (map fst (rt_sent run_sent)) \<and> sent run_sent = {''i1''}"
  using sent_at_most_once [OF run_rt_start run_reaches_sent] by (simp add: sent_def run_sent_def)

text \<open>
  (C10) A lease yields a consumption proof only while it is active and
  unused, the intent is \<open>SUBMITTING\<close> with no other exposure, the kill switch is not latched, the
  executor's fence is current and the committed consumption matches; the lease is used up.
\<close>

theorem send_requires_live_guard:
  assumes "lease_consume l jsha iid b clock st = (l', Inr proof)"
  shows "dl_active l \<and> \<not> dl_used l \<and> dl_used l' \<and> iid = dl_intent_id l
    \<and> status st iid = Some SUBMITTING \<and> \<not> other_exposure iid st
    \<and> \<not> ks_latched (j_kill_switch st)
    \<and> lease_stale st (dl_owner_id l) (dl_fence_token l) clock = None
    \<and> (\<exists>c. find_consumption (dl_execution_gate_sha256 l) st = Some c \<and> ac_intent_id c = iid
          \<and> ac_authorization_sha256 c = dl_authorization_sha256 l
          \<and> ac_broker_request_sha256 c = dl_broker_request_sha256 l)"
  using lease_consume_Inr [OF assms] final_validator_Inr [OF lease_consume_Inr(5) [OF assms]] by auto

theorem send_requires_live_guard_witness:
  "status run_entered ''i1'' = Some SUBMITTING \<and> \<not> ks_latched (j_kill_switch run_entered)"
  using send_requires_live_guard [OF run_consume] by blast

section \<open>Settlement\<close>

lemma transition_locked_status:
  assumes "transition_locked row b ts f st = Inr (st', row')" and "find_intent iid st = Some row"
  shows "status st' iid = Some b"
proof (cases "b = ir_state row")
  case True
  then show ?thesis using assms by (auto simp: transition_locked_def status_def)
next
  case False
  have id: "ir_intent_id row = iid" using find_intent_Some [OF assms(2)] by simp
  have "j_intents st' = map (\<lambda>r. if ir_intent_id r = iid then apply_facts b ts f r else r) (j_intents st)"
    using assms(1) False id by (auto simp: transition_locked_def op_simps journal_defs split: if_splits)
  then show ?thesis
    by (subst status_move [OF assms(2), where f = "apply_facts b ts f" and b = b]) (simp_all add: apply_facts_def)
qed

lemma verdict_aborted:
  assumes "settlement_verdict iid row now st = Inr (st', row', ''ABORTED_BEFORE_SEND'', called)"
    and "find_intent iid st = Some row"
  shows "no_send_recorded st iid \<or> consumptions_of iid st = [] \<and> terminal (status st' iid)"
proof (cases "no_send_recorded st iid")
  case False
  then have "consumptions_of iid st = []" and
    "(\<exists>f. transition_locked row REJECTED now f st = Inr (st', row'))
       \<or> st' = st \<and> ir_state row \<in> {RISK_REJECTED, REJECTED, EXPIRED}"
    using assms(1) by (auto simp: settlement_verdict_def no_send_recorded_def op_simps split: if_splits)
  with assms(2) transition_locked_status [OF _ assms(2)] show ?thesis
    by (fastforce simp: terminal_def TERMINAL_STATES_def status_def)
qed simp

lemma settlement_names:
  "str_upper (str_strip ''ABORTED_BEFORE_SEND'') = ''ABORTED_BEFORE_SEND''"
  "str_upper (str_strip ''RECONCILED'') = ''RECONCILED''" "str_upper (str_strip ''COMPLETED'') = ''COMPLETED''"
  "str_upper (str_strip ''RECONCILIATION_REQUIRED'') = ''RECONCILIATION_REQUIRED''"
  by (simp_all add: upper_evals)

lemma settlement_aborted:
  assumes "demo_auto_dispatch_settlement iid v t clock st = Inr (st', s)"
    and "st_settlement_state s = ''ABORTED_BEFORE_SEND''"
  shows "no_send_recorded st iid \<or> consumptions_of iid st = [] \<and> terminal (status st' iid)"
proof -
  obtain row now row' verdict called where v: "find_intent iid st = Some row"
    "settlement_verdict iid row now st = Inr (st', row', verdict, called)"
    "st_settlement_state s = str_upper (str_strip verdict)"
    using assms(1)
    by (auto simp: demo_auto_dispatch_settlement_def op_simps Settlement_init_def split: if_splits prod.splits)
  have "verdict \<in> {''ABORTED_BEFORE_SEND'', ''RECONCILED'', ''COMPLETED'', ''RECONCILIATION_REQUIRED''}"
    using v(2) by (auto simp: settlement_verdict_def op_simps split: if_splits)
  then have "verdict = ''ABORTED_BEFORE_SEND''" using v(3) assms(2) settlement_names by auto
  then show ?thesis using verdict_aborted v by simp
qed

text \<open>
  (C8) When the recovery settles a dispatch as \<open>ABORTED_BEFORE_SEND\<close>, no
  order was sent for the intent, and none is sent by any later step of any process.
\<close>

theorem settlement_abort_is_final:
  assumes "rt_start rt0" and "rt_step\<^sup>*\<^sup>* rt0 rt"
    and "demo_auto_dispatch_settlement iid v t clock (rt_journal rt) = Inr (st', s)"
    and "st_settlement_state s = ''ABORTED_BEFORE_SEND''"
    and "rt_step\<^sup>*\<^sup>* (rt\<lparr>rt_journal := st'\<rparr>) rt'"
  shows "iid \<notin> sent rt'"
proof -
  have op: "run_op (Settle iid v t) clock (rt_journal rt) = Inr st'" using assms(3) by simp
  have "never_sends (rt\<lparr>rt_journal := st'\<rparr>) iid"
  proof (rule never_sends_closed [OF reachable_consistent [OF assms(1,2)] rt_step.rt_op [OF op]])
    show "j_consumptions st' = j_consumptions (rt_journal rt)" using run_op_consumptions [OF op] by simp
    show "never_sends rt iid \<or> consumptions_of iid (rt_journal rt) = [] \<and> terminal (status st' iid)"
      using settlement_aborted [OF assms(3,4)] reachable_consistent [OF assms(1,2)]
      by (auto simp: consistent_def Let_def)
  qed simp
  then have "never_sends rt' iid"
    using life.steps_preserve [OF assms(5), of "\<lambda>rt. never_sends rt iid"] never_sends_step by blast
  then show ?thesis by (simp add: never_sends_def)
qed

definition run_row :: "execution_state \<Rightarrow> IntentRecord" where
  "run_row a = new_row ''i1'' ''d1'' ''XAUUSD'' a run_payload run_time None"

lemma run_found: "find_intent ''i1'' run_reserved = Some (run_row SUBMITTING)"
  by (simp add: find_intent_def run_defs run_row_def)

lemma run_unsent:
  "ty \<notin> {''RISK_DECISION'', ''MT5_PREFLIGHT'', ''SUBMISSION_GUARD''} \<Longrightarrow> has_receipt ''i1'' ty run_reserved = False"
  "consumptions_of ''i1'' run_reserved = []"
  by (auto simp: has_receipt_def receipts_of_def consumptions_of_def run_defs)

lemma run_verdict:
  "\<exists>st' row'. settlement_verdict ''i1'' (run_row SUBMITTING) run_time run_reserved
     = Inr (st', row', ''ABORTED_BEFORE_SEND'', False)"
  by (simp add: settlement_verdict_def run_unsent transition_locked_def no_facts_def not_sent_details_def
      json_text_def run_row_def new_row_def)

lemma run_settles:
  "\<exists>st' s. demo_auto_dispatch_settlement ''i1'' sample_hash None run_time run_reserved = Inr (st', s)
      \<and> st_settlement_state s = ''ABORTED_BEFORE_SEND''"
proof -
  obtain st' row' where v: "settlement_verdict ''i1'' (run_row SUBMITTING) run_time run_reserved
     = Inr (st', row', ''ABORTED_BEFORE_SEND'', False)" using run_verdict by blast
  have "str_lower sample_hash = sample_hash" "norm_hash sample_hash = sample_hash"
    using sample_hash_hex by (simp_all add: is_sha256_hex_def str_lower_hex norm_hash_hex)
  moreover have "norm_hash (canonical_sha256 j) = canonical_sha256 j" for j
    by (simp add: canonical_sha256_def norm_hash_hex)
  moreover have "norm_hash (j_sha256 run_reserved) = j_sha256 run_reserved" "is_sha256_hex (j_sha256 run_reserved)"
    by (simp_all add: run_reserved_def run_journal_def run_start_def journal_sha256_def norm_hash_hex)
  moreover have "json_get (ir_payload (run_row SUBMITTING)) ''demo_auto_session_dispatch_verification_sha256''
      = Some (JStr sample_hash)" "str_strip ''i1'' \<noteq> []"
    by (simp_all add: run_row_def new_row_def run_payload_def upper_evals)
  ultimately show ?thesis
    by (simp add: demo_auto_dispatch_settlement_def with_intent_def run_found v run_unsent Settlement_init_def
        settlement_names checked_def raise_if_def Let_def)
qed

theorem settlement_abort_is_final_witness:
  "\<exists>st' s. demo_auto_dispatch_settlement ''i1'' sample_hash None run_time (rt_journal (run_rt run_reserved)) = Inr (st', s)
      \<and> st_settlement_state s = ''ABORTED_BEFORE_SEND'' \<and> ''i1'' \<notin> sent ((run_rt run_reserved)\<lparr>rt_journal := st'\<rparr>)"
proof -
  obtain st' s where r: "demo_auto_dispatch_settlement ''i1'' sample_hash None run_time (rt_journal (run_rt run_reserved))
      = Inr (st', s)" "st_settlement_state s = ''ABORTED_BEFORE_SEND''"
    using run_settles by (auto simp: run_rt_def)
  then show ?thesis
    using settlement_abort_is_final [OF run_rt_start run_reaches_reserved r rtranclp.rtrancl_refl] by blast
qed

end
