(* ===== verification/Journal_Controls.thy ===== *)
theory Journal_Controls
  imports Journal_Safety
begin

text \<open>
  The controls of the runtime: the kill switch with its dual-control reset, the executor's
  fence, and what the operations outside the typed broker interfaces can and cannot do.
\<close>

section \<open>Kill switch\<close>

text \<open>
  (C12) While the kill switch is latched no submission can be
  reserved, no final guard entered and no lease consumed: each call raises.
\<close>

theorem latched_switch_blocks_submission:
  assumes "ks_latched (j_kill_switch st)"
  shows "(\<exists>e. reserve_submission iid owner fence ev t details clock st = Inl e)
    \<and> (\<exists>e. final_submission_guard_enter iid owner fence b ts clock st = Inl e)
    \<and> (\<exists>e. snd (lease_consume l jsha iid b clock st) = Inl e)"
proof (intro conjI)
  show "\<exists>e. reserve_submission iid owner fence ev t details clock st = Inl e"
    using assms by (cases "reserve_submission iid owner fence ev t details clock st")
      (auto simp: reserve_submission_def op_simps)
  show "\<exists>e. final_submission_guard_enter iid owner fence b ts clock st = Inl e"
    using assms guard_enter_Inr(9) by (cases "final_submission_guard_enter iid owner fence b ts clock st") auto
  show "\<exists>e. snd (lease_consume l jsha iid b clock st) = Inl e"
    using assms final_validator_Inr(3)
    by (cases "final_validator l clock st") (auto simp: lease_consume_def)
qed

lemma run_latched:
  "latch_kill_switch ''DRIFT'' ''OPS'' None run_time run_reserved
     = Inr (run_reserved\<lparr>j_kill_switch := \<lparr>ks_latched = True, ks_reason = ''DRIFT'',
         ks_latched_at_utc = Some run_time, ks_source = ''OPS'', ks_reset_at_utc = None, ks_reset_reason = None\<rparr>,
         j_kill_events := [\<lparr>ke_action = ''LATCH'', ke_reason = ''DRIFT'', ke_source = ''OPS'',
           ke_occurred_at_utc = run_time\<rparr>]\<rparr>)"
  by (simp add: latch_kill_switch_def upper_evals) (simp add: run_reserved_def run_journal_def run_start_def)

theorem latched_switch_blocks_submission_witness:
  "\<exists>st'. latch_kill_switch ''DRIFT'' ''OPS'' None run_time run_reserved = Inr st'
     \<and> (\<exists>e. final_submission_guard_enter ''i1'' ''exec'' 1 run_binding run_time run_time st' = Inl e)
     \<and> (\<exists>l. final_submission_guard_enter ''i1'' ''exec'' 1 run_binding run_time run_time run_reserved = Inr l)"
  using latched_switch_blocks_submission [OF latch_Inr(1) [OF run_latched]] run_latched run_enter by blast

text \<open>What a successful reset implies of the authorization.\<close>

lemma reset_kill_switch_Inr:
  assumes "reset_kill_switch a reason t clock st = Inr st'"
  shows "ks_latched (j_kill_switch st)" "\<not> ks_latched (j_kill_switch st')"
    and "\<not> reset_replayed a st" "reset_replayed a st'" "ka_journal_sha256 a = j_sha256 st"
    and "\<exists>latched_at. ks_latched_at_utc (j_kill_switch st) = Some latched_at
           \<and> dt_eq (ka_latched_at_utc a) latched_at"
    and "reset_reason_sha256 reason = Inr (ka_reset_reason_sha256 a)"
    and "dt_le (ka_checked_at_utc a) clock" "dt_lt clock (ka_valid_until_utc a)"
    and "j_kill_events st' = j_kill_events st @ [\<lparr>ke_action = ''RESET'', ke_reason = str_strip reason,
           ke_source = reset_source a, ke_occurred_at_utc = clock\<rparr>]"
  using assms
  by (auto simp: reset_kill_switch_def op_simps reset_replayed_def split: if_splits option.splits
      dest!: trusted_now_Inr)

lemma rt_kill_switch:
  assumes "rt_step rt rt'"
  shows "j_kill_switch (rt_journal rt') = j_kill_switch (rt_journal rt)
      \<and> j_kill_events (rt_journal rt') = j_kill_events (rt_journal rt)
    \<or> (\<exists>reason source t clock. latch_kill_switch reason source t clock (rt_journal rt) = Inr (rt_journal rt'))
    \<or> (\<exists>a reason t clock. reset_kill_switch a reason t clock (rt_journal rt) = Inr (rt_journal rt'))"
  using assms
proof cases
  case (rt_op op clock st')
  show ?thesis
  proof (cases "control_op op")
    case False
    then show ?thesis using run_op_control [OF rt_op(2)] rt_op(1) by (simp add: same_control_def)
  next
    case True
    then show ?thesis using rt_op
      by (cases op) (auto dest!: claim_executor_Inr(1))
  qed
next
  case (rt_enter iid owner fence b t clock st' l)
  then show ?thesis using guard_enter_Inr(1) [OF rt_enter(2)] by (auto simp: add_receipt_def)
next
  case (rt_exit i clock st')
  then show ?thesis using guard_exit_frame(3) [OF rt_exit(3)] by (simp add: same_control_def)
qed auto

text \<open>
  (C13) A step that releases a latched kill switch is a reset with an
  authorization for this journal and this latch, for the stated reason, inside its validity
  window and never used before.
\<close>

theorem latch_needs_dual_control:
  assumes "rt_step rt rt'" and "ks_latched (j_kill_switch (rt_journal rt))"
    and "\<not> ks_latched (j_kill_switch (rt_journal rt'))"
  shows "\<exists>a reason t clock. reset_kill_switch a reason t clock (rt_journal rt) = Inr (rt_journal rt')
    \<and> ka_journal_sha256 a = j_sha256 (rt_journal rt) \<and> \<not> reset_replayed a (rt_journal rt)
    \<and> reset_reason_sha256 reason = Inr (ka_reset_reason_sha256 a)
    \<and> (\<exists>latched_at. ks_latched_at_utc (j_kill_switch (rt_journal rt)) = Some latched_at
          \<and> dt_eq (ka_latched_at_utc a) latched_at)
    \<and> dt_le (ka_checked_at_utc a) clock \<and> dt_lt clock (ka_valid_until_utc a)"
proof -
  obtain a reason t clock where r: "reset_kill_switch a reason t clock (rt_journal rt) = Inr (rt_journal rt')"
    using rt_kill_switch [OF assms(1)] assms(2,3) latch_Inr(1) by metis
  then show ?thesis using reset_kill_switch_Inr [OF r] by blast
qed

definition run_authorization :: KillSwitchResetAuthorization where
  "run_authorization =
     \<lparr>ka_authorization_id = ''AUTH'', ka_journal_sha256 = j_sha256 run_reserved, ka_latched_at_utc = run_time,
      ka_reset_reason_sha256 = sha256_hex (norm_text False ''RESOLVED''),
      ka_approver_ids = [''A'', ''B''], ka_approver_key_ids = [(''A'', ''K1''), (''B'', ''K2'')],
      ka_checked_at_utc = run_time, ka_valid_until_utc = dt_add run_time (seconds 1)\<rparr>"

definition run_stopped :: journal where
  "run_stopped = run_reserved\<lparr>j_kill_switch := \<lparr>ks_latched = True, ks_reason = ''DRIFT'',
         ks_latched_at_utc = Some run_time, ks_source = ''OPS'', ks_reset_at_utc = None, ks_reset_reason = None\<rparr>,
         j_kill_events := [\<lparr>ke_action = ''LATCH'', ke_reason = ''DRIFT'', ke_source = ''OPS'',
           ke_occurred_at_utc = run_time\<rparr>]\<rparr>"

lemma run_reset: "\<exists>st'. reset_kill_switch run_authorization ''RESOLVED'' None run_time run_stopped = Inr st'"
proof -
  have "reset_reason_sha256 ''RESOLVED'' = Inr (sha256_hex (norm_text False ''RESOLVED''))" "str_strip ''RESOLVED'' \<noteq> []"
    by (simp_all add: reset_reason_sha256_Inr upper_evals)
  then show ?thesis
    by (simp add: reset_kill_switch_def run_stopped_def run_authorization_def reset_replayed_def dt_eq_def
        run_reserved_def run_journal_def)
qed

theorem latch_needs_dual_control_witness:
  "\<exists>st' a. ka_journal_sha256 a = j_sha256 run_stopped
     \<and> (\<exists>reason t clock. reset_kill_switch a reason t clock run_stopped = Inr st')"
proof -
  obtain st' where r: "reset_kill_switch run_authorization ''RESOLVED'' None run_time run_stopped = Inr st'"
    using run_reset by blast
  then have "rt_step (run_rt run_stopped) (run_rt st')"
    by (intro run_op_step [of "ResetKillSwitch run_authorization ''RESOLVED'' None" run_time]) simp_all
  then show ?thesis
    using latch_needs_dual_control reset_kill_switch_Inr(1,2) [OF r] by (fastforce simp: run_rt_def)
qed

lemma latch_events:
  "latch_kill_switch reason source t clock st = Inr st' \<Longrightarrow> \<exists>e. j_kill_events st' = j_kill_events st @ [e]"
  by (auto simp: latch_kill_switch_def op_simps split: if_splits)

lemma replay_stable:
  assumes "rt_step rt rt'" and "reset_replayed a (rt_journal rt)"
  shows "reset_replayed a (rt_journal rt')"
  using rt_kill_switch [OF assms(1)]
proof (elim disjE exE)
  fix reason source t clock
  assume "latch_kill_switch reason source t clock (rt_journal rt) = Inr (rt_journal rt')"
  from latch_events [OF this] show ?thesis using assms(2) by (auto simp: reset_replayed_def)
next
  fix b reason t clock
  assume "reset_kill_switch b reason t clock (rt_journal rt) = Inr (rt_journal rt')"
  then show ?thesis using assms(2) reset_kill_switch_Inr(10) by (auto simp: reset_replayed_def)
qed (use assms(2) in \<open>simp add: reset_replayed_def\<close>)

text \<open>
  (C14) A reset authorization works once: after a reset with it, no later state
  accepts it again, however often the switch is latched.
\<close>

theorem reset_single_use:
  assumes "reset_kill_switch a reason t clock (rt_journal rt) = Inr st'"
    and "rt_step\<^sup>*\<^sup>* (rt\<lparr>rt_journal := st'\<rparr>) rt'"
  shows "\<exists>e. reset_kill_switch a reason' t' clock' (rt_journal rt') = Inl e"
proof -
  have "reset_replayed a (rt_journal rt')"
    using life.steps_preserve [OF assms(2), of "\<lambda>rt. reset_replayed a (rt_journal rt)"]
      reset_kill_switch_Inr(4) [OF assms(1)] replay_stable by simp
  then show ?thesis
    using reset_kill_switch_Inr(3) by (cases "reset_kill_switch a reason' t' clock' (rt_journal rt')") blast+
qed

theorem reset_single_use_witness:
  "\<exists>st'. reset_kill_switch run_authorization ''RESOLVED'' None run_time run_stopped = Inr st'
     \<and> (\<exists>e. reset_kill_switch run_authorization ''RESOLVED'' None run_time st' = Inl e)"
proof -
  obtain st' where r: "reset_kill_switch run_authorization ''RESOLVED'' None run_time (rt_journal (run_rt run_stopped))
      = Inr st'" using run_reset by (auto simp: run_rt_def)
  from reset_single_use [OF r rtranclp.rtrancl_refl] r show ?thesis by (auto simp: run_rt_def)
qed

section \<open>Executor fence\<close>

definition current_token :: "journal \<Rightarrow> int" where
  "current_token st = (case j_lease st of None \<Rightarrow> 0 | Some l \<Rightarrow> el_fence_token l)"

lemma rt_lease:
  assumes "rt_step rt rt'"
  shows "j_lease (rt_journal rt') = j_lease (rt_journal rt)
    \<or> (\<exists>owner secs t clock token. claim_executor owner secs t clock (rt_journal rt) = Inr (rt_journal rt', token))"
  using assms
proof cases
  case (rt_op op clock st')
  show ?thesis
  proof (cases "control_op op")
    case False
    then show ?thesis using run_op_control [OF rt_op(2)] rt_op(1) by (simp add: same_control_def)
  next
    case True
    then show ?thesis using rt_op by (cases op) (auto simp: latch_Inr reset_Inr)
  qed
next
  case (rt_enter iid owner fence b t clock st' l)
  then show ?thesis using guard_enter_Inr(1) [OF rt_enter(2)] by (auto simp: add_receipt_def)
next
  case (rt_exit i clock st')
  then show ?thesis using guard_exit_frame(3) [OF rt_exit(3)] by (simp add: same_control_def)
qed auto

lemma claim_token:
  assumes "claim_executor owner secs t clock st = Inr (st', token)"
  shows "current_token st' = token" and "token = current_token st + 1"
  using claim_executor_Inr [OF assms] by (auto simp: current_token_def split: option.splits)

lemma token_mono: "rt_step rt rt' \<Longrightarrow> current_token (rt_journal rt) \<le> current_token (rt_journal rt')"
  using rt_lease [of rt rt'] claim_token by (auto simp: current_token_def [of "rt_journal rt"] split: option.splits)
    (fastforce simp: current_token_def)+

text \<open>
  (C15) Once an executor has claimed a token, every older token is refused in
  every later state, whoever presents it and whenever: a process that lost the lease can neither
  pass the fence check nor reserve, enter the guard or consume with it.
\<close>

theorem stale_fence_rejected:
  assumes "claim_executor owner secs t clock (rt_journal rt) = Inr (st', token)"
    and "rt_step\<^sup>*\<^sup>* (rt\<lparr>rt_journal := st'\<rparr>) rt'" and "old < token"
  shows "lease_stale (rt_journal rt') anyone old now \<noteq> None
    \<and> (\<exists>e. reserve_submission iid anyone old ev t' details now (rt_journal rt') = Inl e)
    \<and> (\<exists>e. snd (lease_consume (l\<lparr>dl_fence_token := old\<rparr>) jsha iid b now (rt_journal rt')) = Inl e)"
proof -
  have "token \<le> current_token (rt_journal rt')"
    using life.steps_preserve [OF assms(2), of "\<lambda>rt. token \<le> current_token (rt_journal rt)"] token_mono
      claim_token(1) [OF assms(1)] by fastforce
  then have stale: "lease_stale (rt_journal rt') anyone old now \<noteq> None" for anyone now
    using assms(3) by (auto simp: lease_stale_def current_token_def raise_if_def split: option.splits)
  moreover have "\<exists>e. reserve_submission iid anyone old ev t' details now (rt_journal rt') = Inl e"
    by (cases "reserve_submission iid anyone old ev t' details now (rt_journal rt')")
      (auto simp: reserve_submission_def op_simps stale)
  moreover have "\<exists>e. snd (lease_consume (l\<lparr>dl_fence_token := old\<rparr>) jsha iid b now (rt_journal rt')) = Inl e"
    using final_validator_Inr(4) [of "l\<lparr>dl_fence_token := old\<rparr>" now "rt_journal rt'"]
    by (cases "final_validator (l\<lparr>dl_fence_token := old\<rparr>) now (rt_journal rt')")
      (auto simp: lease_consume_def stale)
  ultimately show ?thesis by blast
qed

theorem stale_fence_rejected_witness:
  "\<exists>e. snd (lease_consume ((run_lease_held True False)\<lparr>dl_fence_token := 1\<rparr>) (j_sha256 run_start) ''i1'' run_binding
       run_time (run_entered\<lparr>j_lease := Some \<lparr>el_owner_id = ''exec'', el_fence_token = 2,
         el_expires_at_utc = dt_add run_time (seconds 15), el_updated_at_utc = run_time\<rparr>\<rparr>)) = Inl e"
proof -
  let ?st = "run_entered\<lparr>j_lease := Some \<lparr>el_owner_id = ''exec'', el_fence_token = 2,
      el_expires_at_utc = dt_add run_time (seconds 15), el_updated_at_utc = run_time\<rparr>\<rparr>"
  have "claim_executor ''exec'' 15 None run_time (rt_journal run_sent) = Inr (?st, 2)"
    by (simp add: claim_executor_def run_sent_def run_entered_def add_receipt_def run_defs upper_evals)
  from stale_fence_rejected [OF this rtranclp.rtrancl_refl, of 1] show ?thesis by simp
qed

section \<open>Rows\<close>

text \<open>
  Once an intent is in the journal, its decision, symbol and payload never
  change and its filled volume never decreases, over any sequence of steps.
\<close>

theorem bindings_immutable:
  assumes "rt_step\<^sup>*\<^sup>* rt rt'" and "find_intent k (rt_journal rt) = Some r"
  shows "\<exists>r'. find_intent k (rt_journal rt') = Some r' \<and> ir_decision_id r' = ir_decision_id r
    \<and> ir_symbol r' = ir_symbol r \<and> ir_payload r' = ir_payload r
    \<and> (fl_le (ir_filled_volume r) (ir_filled_volume r') \<or> ir_filled_volume r' = ir_filled_volume r)"
proof -
  have "\<exists>r'. find_intent k (rt_journal rt') = Some r' \<and> extends_row r r'"
    using assms
  proof (induction rule: rtranclp_induct)
    case base
    then show ?case by (auto simp: extends_row_def)
  next
    case (step y z)
    then show ?case using effect_extends [OF rt_effect [OF step(2)]] extends_row_trans by metis
  qed
  then show ?thesis by (auto simp: extends_row_def)
qed

theorem bindings_immutable_witness:
  "\<exists>r'. find_intent ''i1'' (rt_journal run_held) = Some r' \<and> ir_payload r' = run_payload"
proof -
  have "rt_step\<^sup>*\<^sup>* (run_rt run_reserved) run_held"
    using rt_step.rt_enter [of _ _ _ _ _ _ "run_rt run_reserved"] run_enter
    by (intro r_into_rtranclp) (fastforce simp: run_rt_def run_held_def)
  from bindings_immutable [OF this, of "''i1''" "run_row SUBMITTING"] run_found show ?thesis
    by (auto simp: run_rt_def run_row_def new_row_def)
qed

text \<open>
  (C36) In every reachable state intents have pairwise different
  identifiers and pairwise different decisions: a decision snapshot is spent by its first intent.
\<close>

theorem one_intent_per_decision:
  assumes "rt_start rt0" and "rt_step\<^sup>*\<^sup>* rt0 rt"
  shows "distinct (map ir_intent_id (j_intents (rt_journal rt)))
    \<and> distinct (map ir_decision_id (j_intents (rt_journal rt)))"
  using reachable_effect [where P = unique_rows, OF assms start_invariants(3) effect_unique_rows]
  by (simp add: unique_rows_def)

theorem one_intent_per_decision_witness:
  "distinct (map ir_decision_id (j_intents (rt_journal run_sent))) \<and> j_intents (rt_journal run_sent) \<noteq> []"
  using one_intent_per_decision [OF run_rt_start run_reaches_sent]
  by (simp add: run_sent_def run_entered_def add_receipt_def run_defs)

lemma create_intent_row:
  assumes "create_intent iid did symb payload t clock st = Inr (st1, row)" and "ir_intent_id row = iid"
  shows "find_intent iid st1 = Some row \<and> ir_decision_id row = did \<and> ir_symbol row = str_upper (str_strip symb)
    \<and> json_same (ir_payload row) payload"
proof (cases "find_intent iid st")
  case (Some existing)
  then show ?thesis using assms(1) by (auto simp: create_intent_def op_simps split: if_splits)
next
  case None
  have "find_decision did st = None"
  proof (rule ccontr)
    assume "find_decision did st \<noteq> None"
    then have "find_decision did st = Some row" using assms(1) None
      by (auto simp: create_intent_def op_simps split: if_splits)
    then show False using None assms(2) by (auto simp: find_decision_def find_Some_iff find_intent_None)
  qed
  with None show ?thesis using assms(1)
    by (auto simp: create_intent_def op_simps find_intent_def find_append journal_defs new_row_def json_same_def
        split: if_splits)
qed

text \<open>
  Creating an intent again with the same arguments returns the
  stored row and changes nothing, at whatever later clock reading the journal accepts; another
  payload under the same identifier is refused.
\<close>

theorem create_intent_idempotent:
  assumes "create_intent iid did symb payload t clock st = Inr (st1, row)" and "ir_intent_id row = iid"
    and "trusted_now clock' t' = Inr now"
  shows "create_intent iid did symb payload t' clock' st1 = Inr (st1, row)
    \<and> (json_finite payload' \<and> \<not> json_same payload payload' \<longrightarrow>
         create_intent iid did symb payload' t' clock' st1 =
           Inl (DuplicateIntentError (''intent_id '' @ quoted iid @ '' already exists with different payload'')))"
proof -
  have args: "str_strip iid \<noteq> []" "str_strip did \<noteq> []" "str_strip symb \<noteq> []" "json_finite payload"
    using assms(1) by (auto simp: create_intent_def op_simps split: if_splits)
  have row: "find_intent iid st1 = Some row" "ir_decision_id row = did" "ir_symbol row = str_upper (str_strip symb)"
    "json_same (ir_payload row) payload"
    using create_intent_row [OF assms(1,2)] by simp_all
  have "json_same (ir_payload row) payload' = json_same payload payload'" for payload'
    using row(4) by (auto simp: json_same_def)
  with row args assms(3) show ?thesis by (simp add: create_intent_def json_text_def)
qed

section \<open>Operations without broker evidence\<close>

text \<open>
  The generic \<open>transition\<close> never moves an intent out of broker
  exposure: from an exposed state it can only reach \<open>UNCERTAIN\<close> or leave the state as it is.
\<close>

theorem exposure_needs_broker_evidence:
  assumes "transition iid target expected f t clock st = Inr (st', row)" and "exposed (status st iid)"
  shows "exposed (status st' iid)"
proof -
  obtain b now row0 where r: "find_intent iid st = Some row0" "b \<notin> set RESERVE_ONLY_TRANSITION_TARGETS"
    "b \<notin> set BROKER_CONCLUSIVE_TRANSITION_TARGETS" "\<not> (b = REJECTED \<and> ir_state row0 \<in> set GLOBAL_EXPOSURE_STATES)"
    "transition_locked row0 b now (no_facts (bf_details f) (bf_last_error f)) st = Inr (st', row)"
    using assms(1) by (cases "state_of (str_upper target)")
      (auto simp: transition_def op_simps transition_request_checks_def transition_row_checks_def)
  have a: "ir_state row0 \<in> set GLOBAL_EXPOSURE_STATES" using assms(2) r(1) by (auto simp: exposed_def status_def)
  have "b = ir_state row0 \<or> b \<in> set (ALLOWED_TRANSITIONS (ir_state row0))"
    using r(5) by (auto simp: transition_locked_def split: if_splits)
  then have "b \<in> set GLOBAL_EXPOSURE_STATES"
    using a r(3,4) by (cases "ir_state row0") (auto simp: GLOBAL_EXPOSURE_STATES_def BROKER_CONCLUSIVE_TRANSITION_TARGETS_def)
  then show ?thesis using transition_locked_status [OF r(5,1)] by (simp add: exposed_def)
qed

theorem exposure_needs_broker_evidence_witness:
  "exposed (status (run_journal UNCERTAIN (run_log3 @ [run_log (Some SUBMITTING) UNCERTAIN])) ''i1'')"
proof (rule exposure_needs_broker_evidence)
  show "transition ''i1'' ''UNCERTAIN'' None (no_facts (JDict []) None) None run_time (run_journal SUBMITTING run_log3)
      = Inr (run_journal UNCERTAIN (run_log3 @ [run_log (Some SUBMITTING) UNCERTAIN]), run_row UNCERTAIN)"
    by (simp add: transition_def state_of_def EXECUTION_STATES_def text_evals
      transition_request_checks_def transition_row_checks_def RESERVE_ONLY_TRANSITION_TARGETS_def
      BROKER_CONCLUSIVE_TRANSITION_TARGETS_def GLOBAL_EXPOSURE_STATES_def no_facts_def with_intent_def
      find_intent_def transition_locked_def json_text_def journal_defs apply_facts_def or_else_def
      next_filled_def checked_def raise_if_def run_defs run_row_def)
  show "exposed (status (run_journal SUBMITTING run_log3) ''i1'')"
    by (simp add: exposed_def status_def find_intent_def run_defs GLOBAL_EXPOSURE_STATES_def)
qed

theorem create_intent_idempotent_witness:
  "create_intent ''i1'' ''d1'' ''XAUUSD'' run_payload None run_time (run_journal CREATED [run_log None CREATED])
     = Inr (run_journal CREATED [run_log None CREATED], run_row CREATED)"
proof -
  have "create_intent ''i1'' ''d1'' ''XAUUSD'' run_payload None run_time run_start
      = Inr (run_journal CREATED [run_log None CREATED], run_row CREATED)"
    by (simp add: create_intent_def text_evals json_text_def find_intent_def find_decision_def
      journal_defs run_defs run_row_def)
  from create_intent_idempotent [OF this, of run_time None run_time] show ?thesis
    by (simp add: run_row_def new_row_def)
qed

text \<open>
  An execution receipt is recorded only for an intent in
  \<open>SUBMITTING\<close> whose committed consumption and latest final guard carry the receipt's gate,
  authorization and request digests.
\<close>

theorem execution_receipt_needs_send:
  assumes "record_execution_receipt r t clock st = Inr (st', row)"
  shows "status st (er_intent_id r) = Some SUBMITTING
    \<and> (\<exists>c. find_consumption (er_execution_gate_sha256 r) st = Some c \<and> ac_intent_id c = er_intent_id r
         \<and> ac_authorization_sha256 c = er_authorization_sha256 r
         \<and> ac_broker_request_sha256 c = er_broker_request_sha256 r)
    \<and> (\<exists>g. latest_receipt (er_intent_id r) ''FINAL_SUBMISSION_GUARD'' st = Some g
         \<and> json_get g ''execution_gate_sha256'' = Some (JStr (er_execution_gate_sha256 r)))
    \<and> status st' (er_intent_id r) \<in> Some ` set receipt_targets"
proof -
  obtain row0 now target f payload where r: "find_intent (er_intent_id r) st = Some row0" "ir_state row0 = SUBMITTING"
    "consumption_check r st = None" "final_guard_check r st = None" "target \<in> set receipt_targets"
    "transition_locked row0 target now f (add_receipt (er_intent_id r) ''EXECUTION_RECEIPT'' now payload st)
       = Inr (st', row)"
    using assms by (auto simp: record_execution_receipt_def op_simps receipt_target_def split: if_splits option.splits)
  have find: "find_intent (er_intent_id r) (add_receipt (er_intent_id r) ''EXECUTION_RECEIPT'' now payload st) = Some row0"
    using r(1) by (simp add: find_intent_def add_receipt_def)
  have "status st' (er_intent_id r) = Some target"
    by (rule transition_locked_status [OF r(6) find])
  with r show ?thesis
    by (auto simp: status_def consumption_check_def final_guard_check_def split: option.splits)
qed

definition run_outcome :: ExecutionReceipt where
  "run_outcome =
     \<lparr>er_intent_id = ''i1'', er_state = ''ACKNOWLEDGED'', er_account_id = ''acct'', er_server = ''demo'',
      er_symbol = ''XAUUSD'', er_requested_volume = Fin (1 / 4), er_filled_volume = Fin 0,
      er_received_at = run_time, er_broker_retcode = ''10008'', er_message = ''PLACED'',
      er_journal_sha256 = j_sha256 run_start, er_execution_gate_sha256 = sample_hash,
      er_authorization_sha256 = sample_hash, er_broker_request_sha256 = sample_hash,
      er_submission_consumed_at = run_time, er_order_ticket = Some ''7'', er_deal_ticket = None,
      er_requested_price = None, er_fill_price = None, er_slippage_price = None, er_broker_time_msc = None,
      er_stop_loss = None, er_take_profit = None, er_actual_risk_cash = None, er_schema_version = ''1.0''\<rparr>"

lemma run_entered_row: "find_intent ''i1'' run_entered = Some (run_row SUBMITTING)"
  by (simp add: find_intent_def run_entered_def add_receipt_def run_defs run_row_def)

lemma run_outcome_checks:
  "receipt_target run_outcome = Inr ACKNOWLEDGED" "receipt_binds (run_row SUBMITTING) run_outcome run_entered = Inr True"
  "consumption_check run_outcome run_entered = None" "final_guard_check run_outcome run_entered = None"
  "json_finite (ExecutionReceipt_dict run_outcome)"
  subgoal by (simp add: receipt_target_def run_outcome_def state_of_def EXECUTION_STATES_def text_evals
        receipt_targets_def)
  subgoal by (simp add: receipt_binds_def run_outcome_def run_row_def new_row_def run_payload_def sub_get_def
        run_entered_def add_receipt_def run_reserved_def run_journal_def)
  subgoal by (simp add: consumption_check_def run_outcome_def find_consumption_def run_entered_def add_receipt_def)
  subgoal by (simp add: final_guard_check_def run_outcome_def latest_receipt_def receipts_of_def run_entered_def
        add_receipt_def run_defs guard_payload_def run_binding_def)
  subgoal by (simp add: ExecutionReceipt_dict_def run_outcome_def jopt_def)
  done

lemma run_acknowledged: "\<exists>st' row. record_execution_receipt run_outcome None run_time run_entered = Inr (st', row)"
proof -
  have "er_intent_id run_outcome = ''i1''" "er_received_at run_outcome = run_time"
    "er_filled_volume run_outcome = Fin 0" "er_order_ticket run_outcome = Some ''7''"
    by (simp_all add: run_outcome_def)
  moreover have "json_is_dict (json_get (ir_payload (run_row SUBMITTING)) ''intent'')" "ir_state (run_row SUBMITTING) = SUBMITTING"
    by (simp_all add: run_row_def new_row_def run_payload_def)
  ultimately show ?thesis
    using of_rat_nonneg(3) [of "50 / 1000"]
    by (simp add: record_execution_receipt_def with_intent_def run_entered_row run_outcome_checks dt_sub_def
        checked_def raise_if_def RESET_CLOCK_ASSERTION_TOLERANCE_SECONDS_def json_text_def
        MAX_EXECUTION_RECEIPT_RECORDING_DELAY_SECONDS_def transition_locked_def Let_def)
qed

theorem execution_receipt_needs_send_witness:
  "\<exists>st' row. record_execution_receipt run_outcome None run_time run_entered = Inr (st', row)
     \<and> status run_entered ''i1'' = Some SUBMITTING"
proof -
  obtain st' row where r: "record_execution_receipt run_outcome None run_time run_entered = Inr (st', row)"
    using run_acknowledged by blast
  from execution_receipt_needs_send [OF r] r show ?thesis by (auto simp: run_outcome_def)
qed

lemma latest_receipt_last:
  "latest_receipt iid ty st =
     (if receipts_of iid ty st = [] then None else Some (rr_payload (last (receipts_of iid ty st))))"
  by (auto simp: latest_receipt_def split: list.splits)

text \<open>
  (C37) \<open>FINAL_SUBMISSION_GUARD\<close> is not among the privileged receipt
  types, so the generic \<open>append_receipt\<close> accepts it. A forged guard that does not carry the gate
  of the real submission becomes the latest guard, and the genuine execution receipt is then
  refused.
\<close>

theorem forged_guard_blocks_receipt:
  assumes "append_receipt iid ty payload t clock st = Inr st'"
    and "str_upper (str_strip ty) = ''FINAL_SUBMISSION_GUARD''"
    and "er_intent_id r = iid" and "json_get payload ''execution_gate_sha256'' \<noteq> Some (JStr (er_execution_gate_sha256 r))"
  shows "\<exists>e. record_execution_receipt r t' clock' st' = Inl e"
proof -
  obtain ts where st': "st' = add_receipt iid ''FINAL_SUBMISSION_GUARD'' ts payload st"
    using assms(1,2) by (auto simp: append_receipt_def op_simps split: if_splits)
  have "latest_receipt iid ''FINAL_SUBMISSION_GUARD'' st' = Some payload"
    by (simp add: st' latest_receipt_last receipts_of_add)
  then have "final_guard_check r st' \<noteq> None" using assms(3,4) by (simp add: final_guard_check_def)
  then show ?thesis
    by (cases "record_execution_receipt r t' clock' st'")
      (auto simp: record_execution_receipt_def op_simps split: if_splits)
qed

theorem forged_guard_blocks_receipt_witness:
  "\<exists>st'. append_receipt ''i1'' ''FINAL_SUBMISSION_GUARD'' (JDict []) None run_time run_entered = Inr st'
     \<and> (\<exists>e. record_execution_receipt run_outcome None run_time st' = Inl e)"
proof -
  have name: "str_upper (str_strip ''FINAL_SUBMISSION_GUARD'') = ''FINAL_SUBMISSION_GUARD''" by (simp add: upper_evals)
  then obtain st' where r: "append_receipt ''i1'' ''FINAL_SUBMISSION_GUARD'' (JDict []) None run_time run_entered = Inr st'"
    using run_entered_row
    by (auto simp: append_receipt_def PRIVILEGED_RECEIPT_TYPES_def with_intent_def json_text_def Let_def)
  from forged_guard_blocks_receipt [OF r name, of run_outcome None run_time] r show ?thesis
    by (auto simp: run_outcome_def)
qed

end
