(* ===== verification/Health.thy ===== *)
theory Health
  imports Risk_Safety Interfaces
begin

text \<open>
  \<open>live_runtime/health.py\<close>: the facts an adapter collects about the host, and the evaluator that
  turns them into a health decision. The decision is deny-only: it can add a reason to refuse,
  never a right to execute.
\<close>

section \<open>Facts and decision\<close>

definition MAX_CLOCK_DRIFT_SECONDS :: pyfloat where
  "MAX_CLOCK_DRIFT_SECONDS = Fin 1"

definition MAX_HEARTBEAT_AGE_SECONDS :: pyfloat where
  "MAX_HEARTBEAT_AGE_SECONDS = Fin 30"

definition MIN_FREE_DISK_BYTES :: int where
  "MIN_FREE_DISK_BYTES = 1073741824"

record RuntimeHealthFacts =
  hf_observed_at :: datetime
  hf_heartbeat_at :: datetime
  hf_clock_drift_seconds :: pyfloat
  hf_free_disk_bytes :: int
  hf_database_integrity_ok :: bool
  hf_broker_connected :: bool
  hf_data_feed_fresh :: bool
  hf_audit_export_healthy :: bool
  hf_backup_recent :: bool
  hf_kill_switch_latched :: bool

definition RuntimeHealthFacts_init :: "RuntimeHealthFacts \<Rightarrow> RuntimeHealthFacts res" where
  "RuntimeHealthFacts_init f =
     checked
       [err_of (require_utc ''observed_at'' (hf_observed_at f)),
        err_of (require_utc ''heartbeat_at'' (hf_heartbeat_at f)),
        raise_if (dt_lt (hf_observed_at f) (hf_heartbeat_at f))
          (ValueError ''heartbeat_at cannot be in the future''),
        err_of (require_finite ''clock_drift_seconds'' (NFloat (hf_clock_drift_seconds f)) False True),
        err_of (require_int ''free_disk_bytes'' (NInt (hf_free_disk_bytes f)) 0 None)]
       f"

record RuntimeHealthDecision =
  hd_healthy :: bool
  hd_reason_codes :: "string list"
  hd_observed_at :: datetime
  hd_live_allowed :: bool
  hd_safe_to_demo_auto_order :: bool

definition RuntimeHealthDecision_init :: "bool \<Rightarrow> RuntimeHealthDecision \<Rightarrow> RuntimeHealthDecision res" where
  "RuntimeHealthDecision_init sealed d =
     (let reasons = reason_set (hd_reason_codes d) in
      checked
        [raise_if (\<not> sealed)
           (TypeError ''RuntimeHealthDecision can only be created by evaluate_runtime_health''),
         err_of (require_utc ''observed_at'' (hd_observed_at d)),
         raise_if (hd_healthy d \<and> reasons \<noteq> [])
           (ValueError ''a healthy decision cannot contain reason codes''),
         raise_if (\<not> hd_healthy d \<and> reasons = [])
           (ValueError ''an unhealthy decision requires reason codes''),
         raise_if (hd_live_allowed d \<or> hd_safe_to_demo_auto_order d)
           (ValueError ''health decisions cannot unlock execution'')]
        (d\<lparr>hd_reason_codes := reasons\<rparr>))"

section \<open>evaluate_runtime_health\<close>

definition health_checks :: "RuntimeHealthFacts \<Rightarrow> (bool \<times> string) list" where
  "health_checks f =
     (let heartbeat_age = total_seconds (dt_sub (hf_observed_at f) (hf_heartbeat_at f)) in
      [(fl_lt MAX_CLOCK_DRIFT_SECONDS (hf_clock_drift_seconds f), ''CLOCK_DRIFT_EXCEEDED''),
       (fl_lt MAX_HEARTBEAT_AGE_SECONDS heartbeat_age, ''OFF_HOST_HEARTBEAT_STALE''),
       (hf_free_disk_bytes f < MIN_FREE_DISK_BYTES, ''DISK_SPACE_LOW''),
       (\<not> hf_database_integrity_ok f, ''DATABASE_INTEGRITY_FAILED''),
       (\<not> hf_broker_connected f, ''BROKER_DISCONNECTED''),
       (\<not> hf_data_feed_fresh f, ''DATA_FEED_STALE''),
       (\<not> hf_audit_export_healthy f, ''AUDIT_EXPORT_FAILED''),
       (\<not> hf_backup_recent f, ''BACKUP_STALE''),
       (hf_kill_switch_latched f, ''KILL_SWITCH_LATCHED'')])"

definition evaluate_runtime_health :: "RuntimeHealthFacts \<Rightarrow> RuntimeHealthDecision res" where
  "evaluate_runtime_health f =
     (let reasons = fired (health_checks f) in
      RuntimeHealthDecision_init True
        \<lparr>hd_healthy = (reasons = []), hd_reason_codes = reasons, hd_observed_at = hf_observed_at f,
         hd_live_allowed = False, hd_safe_to_demo_auto_order = False\<rparr>)"

section \<open>Behaviour\<close>

definition health_facts_built :: "RuntimeHealthFacts \<Rightarrow> bool" where
  "health_facts_built f = (RuntimeHealthFacts_init f = Inr f)"

lemma evaluate_health_cases:
  "evaluate_runtime_health f = Inr d \<longleftrightarrow> is_utc (hf_observed_at f) \<and>
     d = \<lparr>hd_healthy = list_all (\<lambda>(c, code). \<not> c) (health_checks f),
          hd_reason_codes = reason_set (fired (health_checks f)),
          hd_observed_at = hf_observed_at f, hd_live_allowed = False, hd_safe_to_demo_auto_order = False\<rparr>"
  by (auto simp: evaluate_runtime_health_def RuntimeHealthDecision_init_def Let_def checked_Inr_iff
      is_utc_require)

lemma health_clear_iff:
  "list_all (\<lambda>(c, code). \<not> c) (health_checks f) \<longleftrightarrow>
     \<not> fl_lt (Fin 1) (hf_clock_drift_seconds f)
     \<and> dt_sub (hf_observed_at f) (hf_heartbeat_at f) \<le> seconds 30
     \<and> 1073741824 \<le> hf_free_disk_bytes f
     \<and> hf_database_integrity_ok f \<and> hf_broker_connected f \<and> hf_data_feed_fresh f
     \<and> hf_audit_export_healthy f \<and> hf_backup_recent f \<and> \<not> hf_kill_switch_latched f"
  using total_seconds_gt_iff [of 30 "dt_sub (hf_observed_at f) (hf_heartbeat_at f)"]
  by (auto simp: health_checks_def Let_def MAX_CLOCK_DRIFT_SECONDS_def MAX_HEARTBEAT_AGE_SECONDS_def
      MIN_FREE_DISK_BYTES_def seconds_def)

lemma built_facts_utc: "health_facts_built f \<Longrightarrow> is_utc (hf_observed_at f)"
  by (simp add: health_facts_built_def RuntimeHealthFacts_init_def checked_Inr_iff is_utc_require)

interpretation health_gate: reason_gate evaluate_runtime_health hd_healthy hd_reason_codes
  by unfold_locales (auto simp: evaluate_health_cases)

section \<open>Properties\<close>

definition sample_health :: RuntimeHealthFacts where
  "sample_health =
     \<lparr>hf_observed_at = sample_bar, hf_heartbeat_at = dt_add sample_bar (- seconds 30),
      hf_clock_drift_seconds = Fin 1, hf_free_disk_bytes = 1073741824,
      hf_database_integrity_ok = True, hf_broker_connected = True, hf_data_feed_fresh = True,
      hf_audit_export_healthy = True, hf_backup_recent = True, hf_kill_switch_latched = False\<rparr>"

text \<open>
  The evaluator returns a decision for every set of facts its constructor accepts. The
  decision is healthy exactly when the clock drift is at most one second, the heartbeat at most
  thirty seconds old (to the microsecond, in spite of the floating-point age), a gibibyte of disk
  is free, the five status flags hold and the kill switch is released; otherwise it names at least one reason. It never
  carries an execution right.
\<close>

theorem health_verdict_exact:
  assumes "health_facts_built f"
  shows "\<exists>d. evaluate_runtime_health f = Inr d
    \<and> (hd_healthy d \<longleftrightarrow>
         \<not> fl_lt (Fin 1) (hf_clock_drift_seconds f)
         \<and> dt_sub (hf_observed_at f) (hf_heartbeat_at f) \<le> seconds 30
         \<and> 1073741824 \<le> hf_free_disk_bytes f
         \<and> hf_database_integrity_ok f \<and> hf_broker_connected f \<and> hf_data_feed_fresh f
         \<and> hf_audit_export_healthy f \<and> hf_backup_recent f \<and> \<not> hf_kill_switch_latched f)
    \<and> (hd_healthy d \<longleftrightarrow> hd_reason_codes d = [])
    \<and> \<not> hd_live_allowed d \<and> \<not> hd_safe_to_demo_auto_order d"
proof -
  obtain d where d: "evaluate_runtime_health f = Inr d"
    using built_facts_utc [OF assms] by (simp add: evaluate_health_cases)
  moreover have "hd_healthy d \<longleftrightarrow> list_all (\<lambda>(c, code). \<not> c) (health_checks f)"
    "\<not> hd_live_allowed d" "\<not> hd_safe_to_demo_auto_order d"
    using d by (simp_all add: evaluate_health_cases)
  ultimately show ?thesis using health_gate.verdict_iff [OF d] by (simp add: health_clear_iff)
qed

theorem health_verdict_exact_witness:
  "\<exists>d. evaluate_runtime_health sample_health = Inr d \<and> hd_healthy d"
proof -
  have "health_facts_built sample_health"
    by (simp add: health_facts_built_def RuntimeHealthFacts_init_def checked_Inr_iff is_utc_require
        sample_health_def sample_bar_def dt_lt_def seconds_def finite_bounds_def require_finite.simps
        require_int.simps)
  from health_verdict_exact [OF this] show ?thesis
    by (auto simp: sample_health_def dt_sub_def sample_bar_def seconds_def)
qed

end
