(* ===== verification/Market_Guard.thy ===== *)
theory Market_Guard
  imports Permit_Safety "HOL-Library.Multiset"
begin

text \<open>
  \<open>live_runtime/market_guard.py\<close>: the signed news feed and the evaluator of the news and rollover
  blackouts. The provider of signing keys is a parameter, a function from the key identifier to
  the secret that may raise; \<open>None\<close> stands for a provider that is not callable.
\<close>

section \<open>Constants and helpers\<close>

definition NEWS_BEFORE :: int where
  "NEWS_BEFORE = minutes 30"

definition NEWS_AFTER :: int where
  "NEWS_AFTER = minutes 15"

definition NEWS_FEED_MAX_AGE :: int where
  "NEWS_FEED_MAX_AGE = minutes 15"

definition NEWS_FEED_SCHEMA_VERSION :: string where
  "NEWS_FEED_SCHEMA_VERSION = ''news-feed-v2''"

definition ROLLOVER_BEFORE :: int where
  "ROLLOVER_BEFORE = minutes 5"

definition ROLLOVER_AFTER :: int where
  "ROLLOVER_AFTER = minutes 15"

definition NEWS_TRUST_FAILURE_REASONS :: "string list" where
  "NEWS_TRUST_FAILURE_REASONS =
     [''NEWS_PROVIDER_MISSING'', ''NEWS_PROVIDER_UNHEALTHY'', ''NEWS_FEED_VERSION_INVALID'',
      ''NEWS_FEED_SIGNATURE_INVALID'', ''NEWS_FEED_COVERAGE_INSUFFICIENT'', ''NEWS_FEED_EMPTY'']"

definition is_sha256 :: "string \<Rightarrow> bool" where
  "is_sha256 s = (length s = 64 \<and> list_all is_hex s)"

definition news_secret_bytes :: "string \<Rightarrow> string res" where
  "news_secret_bytes secret =
     (if length secret < 32
      then Inl (ValueError ''news signing key must contain at least 32 bytes'') else Inr secret)"

section \<open>NewsEvent\<close>

record NewsEvent =
  ne_event_id :: string
  ne_currency :: string
  ne_impact :: string
  ne_scheduled_at :: datetime

definition NewsEvent_init :: "NewsEvent \<Rightarrow> NewsEvent res" where
  "NewsEvent_init e =
     checked
       [err_of (require_text ''event_id'' (ne_event_id e) False),
        err_of (require_text ''currency'' (ne_currency e) True),
        err_of (require_text ''impact'' (ne_impact e) True),
        raise_if (norm_text True (ne_impact e) \<notin> {''LOW'', ''MEDIUM'', ''HIGH''})
          (ValueError ''impact must be LOW, MEDIUM, or HIGH''),
        err_of (require_utc ''scheduled_at'' (ne_scheduled_at e))]
       (e\<lparr>ne_event_id := norm_text False (ne_event_id e),
          ne_currency := norm_text True (ne_currency e),
          ne_impact := norm_text True (ne_impact e)\<rparr>)"

definition event_key :: "NewsEvent \<Rightarrow> int \<times> string" where
  "event_key e = (instant (ne_scheduled_at e), ne_event_id e)"

definition event_dict :: "NewsEvent \<Rightarrow> json" where
  "event_dict e = JDict
     [(''event_id'', JStr (ne_event_id e)), (''currency'', JStr (ne_currency e)),
      (''impact'', JStr (ne_impact e)), (''scheduled_at'', jtime (ne_scheduled_at e))]"

section \<open>NewsFeed\<close>

record NewsFeed =
  nf_fetched_at :: datetime
  nf_events :: "NewsEvent list"
  nf_provider_name :: string
  nf_provider_healthy :: bool
  nf_schema_version :: string
  nf_coverage_start_at :: "datetime option"
  nf_coverage_end_at :: "datetime option"
  nf_signing_key_id :: string
  nf_signature :: string

definition coverage_checks :: "datetime \<Rightarrow> datetime option \<Rightarrow> datetime option \<Rightarrow> exn option list" where
  "coverage_checks fetched_at start end_at =
     (case (start, end_at) of
        (None, None) \<Rightarrow> []
      | (Some s, Some e) \<Rightarrow>
          [err_of (require_utc ''coverage_start_at'' s),
           err_of (require_utc ''coverage_end_at'' e),
           raise_if (dt_le e s) (ValueError ''news feed coverage window must have positive duration''),
           raise_if (\<not> (dt_le s fetched_at \<and> dt_le fetched_at e))
             (ValueError ''fetched_at must be inside the declared coverage window'')]
      | _ \<Rightarrow> [Some (ValueError ''coverage_start_at and coverage_end_at must be supplied together'')])"

definition outside_coverage :: "datetime option \<Rightarrow> datetime option \<Rightarrow> NewsEvent \<Rightarrow> bool" where
  "outside_coverage start end_at event =
     (case (start, end_at) of
        (Some s, Some e) \<Rightarrow> \<not> (dt_le s (ne_scheduled_at event) \<and> dt_le (ne_scheduled_at event) e)
      | _ \<Rightarrow> False)"

definition NewsFeed_init :: "NewsFeed \<Rightarrow> NewsFeed res" where
  "NewsFeed_init f =
     (let signature = str_lower (str_strip (nf_signature f));
          ordered = sort_key event_key (nf_events f) in
      checked
        ([err_of (require_utc ''fetched_at'' (nf_fetched_at f)),
          raise_if (signature \<noteq> [] \<and> \<not> is_sha256 signature)
            (ValueError ''signature_hmac_sha256 must be a 64-character SHA-256 hex digest'')]
         @ coverage_checks (nf_fetched_at f) (nf_coverage_start_at f) (nf_coverage_end_at f)
         @ [raise_if (\<not> distinct (map ne_event_id ordered))
              (ValueError ''events cannot contain duplicate event_id values''),
            raise_if (list_ex (outside_coverage (nf_coverage_start_at f) (nf_coverage_end_at f)) ordered)
              (ValueError ''all news events must be inside the declared coverage window'')])
        (f\<lparr>nf_provider_name := str_strip (nf_provider_name f),
           nf_schema_version := str_strip (nf_schema_version f),
           nf_signing_key_id := str_strip (nf_signing_key_id f),
           nf_signature := signature,
           nf_events := ordered\<rparr>))"

definition feed_signing_dict :: "NewsFeed \<Rightarrow> json" where
  "feed_signing_dict f = json_pop ''signature_hmac_sha256'' (JDict
     [(''fetched_at'', jtime (nf_fetched_at f)),
      (''events'', JList (map event_dict (nf_events f))),
      (''provider_name'', JStr (nf_provider_name f)),
      (''provider_healthy'', JBool (nf_provider_healthy f)),
      (''schema_version'', JStr (nf_schema_version f)),
      (''coverage_start_at'', jopt jtime (nf_coverage_start_at f)),
      (''coverage_end_at'', jopt jtime (nf_coverage_end_at f)),
      (''signing_key_id'', JStr (nf_signing_key_id f)),
      (''signature_hmac_sha256'', JStr (nf_signature f))])"

definition feed_signing_payload :: "NewsFeed \<Rightarrow> string" where
  "feed_signing_payload f = canonical_json (feed_signing_dict f)"

definition feed_payload_sha256 :: "NewsFeed \<Rightarrow> string" where
  "feed_payload_sha256 f = sha256_hex (feed_signing_payload f)"

definition feed_sign :: "NewsFeed \<Rightarrow> string \<Rightarrow> NewsFeed res" where
  "feed_sign f secret =
     res_bind (news_secret_bytes secret) (\<lambda>key.
       NewsFeed_init (f\<lparr>nf_signature := hmac_sha256_hex key (feed_signing_payload f)\<rparr>))"

definition feed_verify_signature :: "NewsFeed \<Rightarrow> string \<Rightarrow> bool res" where
  "feed_verify_signature f secret =
     (if nf_signing_key_id f = [] \<or> nf_signature f = [] then Inr False
      else res_bind (news_secret_bytes secret) (\<lambda>key.
             Inr (nf_signature f = hmac_sha256_hex key (feed_signing_payload f))))"

section \<open>MarketGuardDecision\<close>

record MarketGuardDecision =
  mg_evaluated_at :: datetime
  mg_symbol :: string
  mg_news_clear :: bool
  mg_rollover_clear :: bool
  mg_feed_fresh :: bool
  mg_reason_codes :: "string list"
  mg_news_feed_payload_sha256 :: string
  mg_news_feed_signature :: string
  mg_news_provider_name :: string
  mg_news_signing_key_id :: string
  mg_news_coverage_start_at :: "datetime option"
  mg_news_coverage_end_at :: "datetime option"
  mg_broker_rollover_at :: datetime

definition guard_verdict_checks :: "MarketGuardDecision \<Rightarrow> exn option list" where
  "guard_verdict_checks d =
     (let reasons = mg_reason_codes d in
      [raise_if (list_ex (\<lambda>r. r = []) reasons)
         (TypeError ''reason_codes must be a tuple of non-empty strings''),
       raise_if (\<not> distinct reasons) (ValueError ''reason_codes cannot contain duplicates''),
       raise_if (mg_feed_fresh d \<noteq> (''NEWS_FEED_STALE'' \<notin> set reasons))
         (ValueError ''feed_fresh is inconsistent with reason codes''),
       raise_if (list_ex (\<lambda>r. r \<in> set reasons) NEWS_TRUST_FAILURE_REASONS
                 \<noteq> (''NEWS_FEED_UNTRUSTED'' \<in> set reasons))
         (ValueError ''news trust reason codes are inconsistent''),
       raise_if (mg_news_clear d \<noteq> (mg_feed_fresh d \<and> ''NEWS_FEED_UNTRUSTED'' \<notin> set reasons
                   \<and> ''HIGH_IMPACT_NEWS_BLACKOUT'' \<notin> set reasons))
         (ValueError ''news_clear is inconsistent with feed/blackout state''),
       raise_if (mg_rollover_clear d \<noteq> (''ROLLOVER_BLACKOUT'' \<notin> set reasons))
         (ValueError ''rollover_clear is inconsistent with reason codes'')])"

definition guard_coverage_checks :: "datetime option \<Rightarrow> datetime option \<Rightarrow> exn option list" where
  "guard_coverage_checks start end_at =
     (case (start, end_at) of
        (None, None) \<Rightarrow> []
      | (Some s, Some e) \<Rightarrow>
          [err_of (require_utc ''news_coverage_start_at'' s),
           err_of (require_utc ''news_coverage_end_at'' e),
           raise_if (dt_le e s) (ValueError ''decision coverage provenance is invalid'')]
      | _ \<Rightarrow> [Some (ValueError ''decision coverage provenance must be paired'')])"

definition MarketGuardDecision_init :: "bool \<Rightarrow> MarketGuardDecision \<Rightarrow> MarketGuardDecision res" where
  "MarketGuardDecision_init sealed d =
     (let signature = str_lower (mg_news_feed_signature d) in
      checked
        ([raise_if (\<not> sealed)
            (TypeError ''MarketGuardDecision can only be created by evaluate_market_guards''),
          err_of (require_utc ''evaluated_at'' (mg_evaluated_at d)),
          err_of (require_utc ''broker_rollover_at'' (mg_broker_rollover_at d)),
          err_of (require_text ''symbol'' (mg_symbol d) True)]
         @ guard_verdict_checks d
         @ [raise_if (\<not> is_sha256 (mg_news_feed_payload_sha256 d))
              (ValueError ''news_feed_payload_sha256 must be SHA-256''),
            raise_if (signature \<noteq> [] \<and> \<not> is_sha256 signature)
              (ValueError ''news feed signature provenance must be SHA-256''),
            raise_if (''NEWS_FEED_SIGNATURE_INVALID'' \<notin> set (mg_reason_codes d) \<and> signature = [])
              (ValueError ''trusted decisions require signature provenance'')]
         @ guard_coverage_checks (mg_news_coverage_start_at d) (mg_news_coverage_end_at d))
        (d\<lparr>mg_symbol := norm_text True (mg_symbol d),
           mg_news_feed_signature := signature,
           mg_news_provider_name := str_strip (mg_news_provider_name d),
           mg_news_signing_key_id := str_strip (mg_news_signing_key_id d),
           mg_reason_codes := reason_set (mg_reason_codes d)\<rparr>))"

section \<open>evaluate_market_guards\<close>

definition is_alpha :: "char \<Rightarrow> bool" where
  "is_alpha c = (let n = of_char c :: nat in (65 \<le> n \<and> n \<le> 90) \<or> (97 \<le> n \<and> n \<le> 122))"

definition symbol_currencies :: "string \<Rightarrow> string list res" where
  "symbol_currencies symbol =
     res_bind (require_text ''symbol'' symbol True) (\<lambda>normalized.
       if normalized = ''XAUUSD'' then Inr [''USD'']
       else if length normalized = 6 \<and> list_all is_alpha normalized
       then Inr [take 3 normalized, drop 3 normalized]
       else Inl (ValueError ''symbol does not have a supported currency identity''))"

fun provider_error_handled :: "exn \<Rightarrow> bool" where
  "provider_error_handled (KeyError m) = True"
| "provider_error_handled (TypeError m) = True"
| "provider_error_handled (ValueError m) = True"
| "provider_error_handled e = False"

definition verify_feed_hmac :: "NewsFeed \<Rightarrow> (string \<Rightarrow> string res) option \<Rightarrow> bool res" where
  "verify_feed_hmac f key_provider =
     (if nf_signing_key_id f = [] \<or> nf_signature f = [] then Inr False
      else case key_provider of None \<Rightarrow> Inr False
      | Some provide \<Rightarrow>
          (case res_bind (provide (nf_signing_key_id f)) (feed_verify_signature f) of
             Inr ok \<Rightarrow> Inr ok
           | Inl e \<Rightarrow> if provider_error_handled e then Inr False else Inl e))"

definition coverage_sufficient :: "NewsFeed \<Rightarrow> datetime \<Rightarrow> bool" where
  "coverage_sufficient f now =
     (case (nf_coverage_start_at f, nf_coverage_end_at f) of
        (Some s, Some e) \<Rightarrow> dt_le s (dt_add now (- NEWS_AFTER)) \<and> dt_le (dt_add now NEWS_BEFORE) e
      | _ \<Rightarrow> False)"

definition trust_gates :: "NewsFeed \<Rightarrow> datetime \<Rightarrow> bool \<Rightarrow> (bool \<times> string) list" where
  "trust_gates f now verified =
     [(nf_provider_name f = [], ''NEWS_PROVIDER_MISSING''),
      (\<not> nf_provider_healthy f, ''NEWS_PROVIDER_UNHEALTHY''),
      (nf_schema_version f \<noteq> NEWS_FEED_SCHEMA_VERSION, ''NEWS_FEED_VERSION_INVALID''),
      (\<not> verified, ''NEWS_FEED_SIGNATURE_INVALID''),
      (\<not> coverage_sufficient f now, ''NEWS_FEED_COVERAGE_INSUFFICIENT''),
      (nf_events f = [], ''NEWS_FEED_EMPTY'')]"

definition event_blackout :: "string list \<Rightarrow> datetime \<Rightarrow> NewsEvent \<Rightarrow> bool" where
  "event_blackout currencies now e =
     (ne_impact e = ''HIGH'' \<and> ne_currency e \<in> set currencies
      \<and> dt_le (dt_add (ne_scheduled_at e) (- NEWS_BEFORE)) now
      \<and> dt_le now (dt_add (ne_scheduled_at e) NEWS_AFTER))"

definition rollover_blackout :: "datetime \<Rightarrow> datetime \<Rightarrow> bool" where
  "rollover_blackout rollover_at now =
     (dt_le (dt_add rollover_at (- ROLLOVER_BEFORE)) now \<and> dt_le now (dt_add rollover_at ROLLOVER_AFTER))"

definition feed_is_fresh :: "NewsFeed \<Rightarrow> datetime \<Rightarrow> bool" where
  "feed_is_fresh f now = (dt_sub now (nf_fetched_at f) \<le> NEWS_FEED_MAX_AGE)"

definition guard_reasons :: "NewsFeed \<Rightarrow> datetime \<Rightarrow> bool \<Rightarrow> string list \<Rightarrow> datetime \<Rightarrow> string list" where
  "guard_reasons f now verified currencies rollover_at =
     (let trust_failures = fired (trust_gates f now verified) in
      fired [(\<not> feed_is_fresh f now, ''NEWS_FEED_STALE'')]
      @ trust_failures @ fired [(trust_failures \<noteq> [], ''NEWS_FEED_UNTRUSTED'')]
      @ fired [(list_ex (event_blackout currencies now) (nf_events f), ''HIGH_IMPACT_NEWS_BLACKOUT''),
               (rollover_blackout rollover_at now, ''ROLLOVER_BLACKOUT'')])"

definition guard_decision_of ::
  "string \<Rightarrow> datetime \<Rightarrow> NewsFeed \<Rightarrow> datetime \<Rightarrow> bool \<Rightarrow> string list \<Rightarrow> MarketGuardDecision" where
  "guard_decision_of symbol now f rollover_at verified currencies =
     \<lparr>mg_evaluated_at = now, mg_symbol = symbol,
      mg_news_clear = (feed_is_fresh f now \<and> fired (trust_gates f now verified) = []
                       \<and> \<not> list_ex (event_blackout currencies now) (nf_events f)),
      mg_rollover_clear = (\<not> rollover_blackout rollover_at now),
      mg_feed_fresh = feed_is_fresh f now,
      mg_reason_codes = guard_reasons f now verified currencies rollover_at,
      mg_news_feed_payload_sha256 = feed_payload_sha256 f,
      mg_news_feed_signature = nf_signature f,
      mg_news_provider_name = nf_provider_name f,
      mg_news_signing_key_id = nf_signing_key_id f,
      mg_news_coverage_start_at = nf_coverage_start_at f,
      mg_news_coverage_end_at = nf_coverage_end_at f,
      mg_broker_rollover_at = rollover_at\<rparr>"

definition evaluate_market_guards ::
  "string \<Rightarrow> datetime \<Rightarrow> NewsFeed \<Rightarrow> datetime \<Rightarrow> (string \<Rightarrow> string res) option \<Rightarrow> MarketGuardDecision res" where
  "evaluate_market_guards symbol now f rollover_at key_provider =
     res_bind (checked
       [err_of (require_utc ''now'' now),
        err_of (require_utc ''broker_rollover_at'' rollover_at),
        raise_if (dt_lt now (nf_fetched_at f)) (ValueError ''news feed cannot be fetched in the future'')] ())
     (\<lambda>_. res_bind (verify_feed_hmac f key_provider)
     (\<lambda>verified. res_bind (symbol_currencies symbol)
     (\<lambda>currencies. MarketGuardDecision_init True
        (guard_decision_of symbol now f rollover_at verified currencies))))"

section \<open>Signing\<close>

definition event_built :: "NewsEvent \<Rightarrow> bool" where
  "event_built e = (NewsEvent_init e = Inr e)"

definition feed_built :: "NewsFeed \<Rightarrow> bool" where
  "feed_built f = (NewsFeed_init f = Inr f \<and> list_all event_built (nf_events f))"

lemma NewsFeed_init_fields:
  assumes "NewsFeed_init f = Inr g"
  shows "nf_fetched_at g = nf_fetched_at f" "nf_events g = sort_key event_key (nf_events f)"
    "nf_provider_name g = str_strip (nf_provider_name f)" "nf_provider_healthy g = nf_provider_healthy f"
    "nf_schema_version g = str_strip (nf_schema_version f)"
    "nf_coverage_start_at g = nf_coverage_start_at f" "nf_coverage_end_at g = nf_coverage_end_at f"
    "nf_signing_key_id g = str_strip (nf_signing_key_id f)"
    "nf_signature g = norm_hash (nf_signature f)"
  using assms by (simp_all add: NewsFeed_init_def Let_def checked_Inr_iff norm_hash_def)

interpretation feed_signing: signed_artifact NewsFeed_init feed_signing_payload nf_signature
  "\<lambda>s f. f\<lparr>nf_signature := s\<rparr>" feed_sign feed_verify_signature "\<lambda>f. nf_signing_key_id f \<noteq> []"
proof unfold_locales
  fix f g :: NewsFeed and k m
  show "feed_sign f k = Inr g \<Longrightarrow> 32 \<le> length k \<and>
      NewsFeed_init (f\<lparr>nf_signature := hmac_sha256_hex k (feed_signing_payload f)\<rparr>) = Inr g"
    by (auto simp: feed_sign_def res_bind_Inr_iff news_secret_bytes_def split: if_splits)
  show "feed_verify_signature f k = Inr (nf_signature f = hmac_sha256_hex k (feed_signing_payload f))"
    if "nf_signing_key_id f \<noteq> []" "32 \<le> length k"
    using that hmac_nonempty [THEN not_sym] by (auto simp: feed_verify_signature_def news_secret_bytes_def)
  assume f: "NewsFeed_init f = Inr f" and g: "NewsFeed_init (f\<lparr>nf_signature := hmac_sha256_hex k m\<rparr>) = Inr g"
  show "feed_signing_payload g = feed_signing_payload f \<and> nf_signature g = hmac_sha256_hex k m
      \<and> (nf_signing_key_id f \<noteq> [] \<longrightarrow> nf_signing_key_id g \<noteq> [])"
    using NewsFeed_init_fields [OF f] NewsFeed_init_fields [OF g]
    by (simp add: feed_signing_payload_def feed_signing_dict_def json_pop_def norm_hash_hex)
qed

lemma feed_verify_iff:
  "feed_verify_signature f secret = Inr True \<longleftrightarrow> nf_signing_key_id f \<noteq> [] \<and> 32 \<le> length secret
     \<and> nf_signature f = hmac_sha256_hex secret (feed_signing_payload f)"
  using hmac_nonempty [THEN not_sym]
  by (auto simp: feed_verify_signature_def news_secret_bytes_def)

lemma verify_feed_hmac_iff:
  "verify_feed_hmac f kp = Inr True \<longleftrightarrow> nf_signing_key_id f \<noteq> []
     \<and> (\<exists>provide secret. kp = Some provide \<and> provide (nf_signing_key_id f) = Inr secret
          \<and> 32 \<le> length secret \<and> nf_signature f = hmac_sha256_hex secret (feed_signing_payload f))"
proof -
  have "verify_feed_hmac f kp = Inr True \<longleftrightarrow> nf_signing_key_id f \<noteq> [] \<and> nf_signature f \<noteq> []
     \<and> (\<exists>provide secret. kp = Some provide \<and> provide (nf_signing_key_id f) = Inr secret
          \<and> feed_verify_signature f secret = Inr True)"
    by (auto simp: verify_feed_hmac_def res_bind_Inr_iff split: option.splits sum.splits)
  then show ?thesis by (auto simp: feed_verify_iff)
qed

section \<open>Order of events\<close>

lemma event_key_inj: "distinct (map ne_event_id es) \<Longrightarrow> inj_on event_key (set es)"
  by (auto simp: inj_on_def event_key_def distinct_map)

lemma ordered_events_unique:
  assumes "mset xs = mset ys" and "distinct (map ne_event_id xs)"
  shows "sort_key event_key xs = sort_key event_key ys"
  by (rule sort_key_inj_key_eq) (simp_all add: assms(1) event_key_inj [OF assms(2)])

section \<open>Verdicts\<close>

lemma trust_gates_clear:
  "list_all (\<lambda>(c, code). \<not> c) (trust_gates f now verified) \<longleftrightarrow>
     nf_provider_name f \<noteq> [] \<and> nf_provider_healthy f \<and> nf_schema_version f = NEWS_FEED_SCHEMA_VERSION
     \<and> verified \<and> coverage_sufficient f now \<and> nf_events f \<noteq> []"
  by (auto simp: trust_gates_def)

lemma guard_reasons_mem:
  "''NEWS_FEED_STALE'' \<in> set (guard_reasons f now v cs ro) \<longleftrightarrow> \<not> feed_is_fresh f now"
  "''NEWS_FEED_UNTRUSTED'' \<in> set (guard_reasons f now v cs ro) \<longleftrightarrow> fired (trust_gates f now v) \<noteq> []"
  "''HIGH_IMPACT_NEWS_BLACKOUT'' \<in> set (guard_reasons f now v cs ro) \<longleftrightarrow>
     list_ex (event_blackout cs now) (nf_events f)"
  "''ROLLOVER_BLACKOUT'' \<in> set (guard_reasons f now v cs ro) \<longleftrightarrow> rollover_blackout ro now"
  "''NEWS_FEED_SIGNATURE_INVALID'' \<in> set (guard_reasons f now v cs ro) \<longleftrightarrow> \<not> v"
  by (simp_all add: guard_reasons_def Let_def fired_mem trust_gates_def del: fired_Nil_iff)

lemma trust_codes: "code \<in> set (fired (trust_gates f now v)) \<Longrightarrow> code \<in> set NEWS_TRUST_FAILURE_REASONS"
  by (auto simp: fired_mem trust_gates_def NEWS_TRUST_FAILURE_REASONS_def)

lemma guard_trust_reasons:
  "list_ex (\<lambda>r. r \<in> set (guard_reasons f now v cs ro)) NEWS_TRUST_FAILURE_REASONS
     \<longleftrightarrow> fired (trust_gates f now v) \<noteq> []"
proof
  assume "list_ex (\<lambda>r. r \<in> set (guard_reasons f now v cs ro)) NEWS_TRUST_FAILURE_REASONS"
  then obtain r where "r \<in> set NEWS_TRUST_FAILURE_REASONS" "r \<in> set (guard_reasons f now v cs ro)"
    by (auto simp: list_ex_iff)
  then have "r \<in> set (fired (trust_gates f now v))"
    by (auto simp: guard_reasons_def Let_def fired_mem NEWS_TRUST_FAILURE_REASONS_def simp del: fired_Nil_iff)
  then show "fired (trust_gates f now v) \<noteq> []" by (metis empty_iff list.set(1))
next
  assume "fired (trust_gates f now v) \<noteq> []"
  then obtain r where "r \<in> set (fired (trust_gates f now v))" by (metis list.set_intros(1) neq_Nil_conv)
  then show "list_ex (\<lambda>r. r \<in> set (guard_reasons f now v cs ro)) NEWS_TRUST_FAILURE_REASONS"
    by (auto simp: list_ex_iff guard_reasons_def Let_def dest: trust_codes)
qed

lemma guard_reasons_distinct: "distinct (guard_reasons f now v cs ro)"
proof -
  let ?gates = "[(\<not> feed_is_fresh f now, ''NEWS_FEED_STALE'')] @ trust_gates f now v
      @ [(fired (trust_gates f now v) \<noteq> [], ''NEWS_FEED_UNTRUSTED'')]
      @ [(list_ex (event_blackout cs now) (nf_events f), ''HIGH_IMPACT_NEWS_BLACKOUT''),
         (rollover_blackout ro now, ''ROLLOVER_BLACKOUT'')]"
  have "guard_reasons f now v cs ro = fired ?gates"
    unfolding guard_reasons_def Let_def fired_append by (rule refl)
  moreover have "distinct (map snd ?gates)" by (simp add: trust_gates_def)
  ultimately show ?thesis by (simp only: distinct_fired)
qed

lemma guard_verdict_checks_ok:
  "list_all (\<lambda>c. c = None) (guard_verdict_checks (guard_decision_of symbol now f ro v cs))"
proof -
  have "\<not> list_ex (\<lambda>r. r = []) (guard_reasons f now v cs ro)"
    by (auto simp: list_ex_iff guard_reasons_def Let_def fired_mem trust_gates_def simp del: fired_Nil_iff)
  then show ?thesis
    by (simp add: guard_verdict_checks_def guard_decision_of_def Let_def guard_reasons_mem guard_trust_reasons
        guard_reasons_distinct del: fired_Nil_iff)
qed

lemma guard_reasons_Nil:
  "guard_reasons f now v cs ro = [] \<longleftrightarrow> feed_is_fresh f now \<and> fired (trust_gates f now v) = []
     \<and> \<not> list_ex (event_blackout cs now) (nf_events f) \<and> \<not> rollover_blackout ro now"
  by (auto simp: guard_reasons_def Let_def)

lemma evaluate_guards_decision:
  assumes "evaluate_market_guards symbol now f ro kp = Inr d"
  obtains v cs where "verify_feed_hmac f kp = Inr v" "symbol_currencies symbol = Inr cs"
    "mg_news_clear d = mg_news_clear (guard_decision_of symbol now f ro v cs)"
    "mg_rollover_clear d = (\<not> rollover_blackout ro now)"
    "mg_reason_codes d = reason_set (guard_reasons f now v cs ro)"
  using assms by (auto simp: evaluate_market_guards_def res_bind_Inr_iff MarketGuardDecision_init_def Let_def
      checked_Inr_iff guard_decision_of_def simp del: fired_Nil_iff)

interpretation market_gate: reason_gate
  "\<lambda>(symbol, now, f, ro, kp). evaluate_market_guards symbol now f ro kp"
  "\<lambda>d. mg_news_clear d \<and> mg_rollover_clear d" mg_reason_codes
proof unfold_locales
  fix i d assume "(\<lambda>(symbol, now, f, ro, kp). evaluate_market_guards symbol now f ro kp) i = Inr d"
  then obtain symbol now f ro kp where "evaluate_market_guards symbol now f ro kp = Inr d"
    by (cases i) auto
  then obtain v cs where d: "mg_news_clear d = mg_news_clear (guard_decision_of symbol now f ro v cs)"
    "mg_rollover_clear d = (\<not> rollover_blackout ro now)"
    "mg_reason_codes d = reason_set (guard_reasons f now v cs ro)"
    by (rule evaluate_guards_decision)
  then show "mg_news_clear d \<and> mg_rollover_clear d \<longleftrightarrow> mg_reason_codes d = []"
    "sorted (mg_reason_codes d) \<and> distinct (mg_reason_codes d)"
    by (auto simp: guard_decision_of_def guard_reasons_Nil)
qed

lemma feed_signature_shape:
  assumes "feed_built f"
  shows "nf_signature f \<noteq> [] \<longrightarrow> is_sha256 (nf_signature f)" "str_lower (nf_signature f) = nf_signature f"
proof -
  have init: "NewsFeed_init f = Inr f" using assms by (simp add: feed_built_def)
  have "nf_signature f = norm_hash (nf_signature f)" by (rule NewsFeed_init_fields(9) [OF init])
  then show "str_lower (nf_signature f) = nf_signature f" by (metis norm_hash_def str_lower_idem)
  from init show "nf_signature f \<noteq> [] \<longrightarrow> is_sha256 (nf_signature f)"
    by (auto simp: NewsFeed_init_def Let_def checked_Inr_iff dest: arg_cong [of _ _ nf_signature])
qed

lemma guard_init_total:
  assumes "feed_built f" and "is_utc now" and "is_utc ro" and "verify_feed_hmac f kp = Inr v"
    and "symbol_currencies symbol = Inr cs"
  shows "\<exists>d. MarketGuardDecision_init True (guard_decision_of symbol now f ro v cs) = Inr d"
proof -
  let ?d = "guard_decision_of symbol now f ro v cs"
  have "is_sha256 (feed_payload_sha256 f)"
    using sha256_hex_lower [of "feed_signing_payload f"]
    by (auto simp: feed_payload_sha256_def is_sha256_def list.pred_set hex_lower_is_hex)
  moreover have "list_all (\<lambda>c. c = None)
      (guard_coverage_checks (nf_coverage_start_at f) (nf_coverage_end_at f))"
    using assms(1) by (auto simp: feed_built_def NewsFeed_init_def Let_def checked_Inr_iff coverage_checks_def
        guard_coverage_checks_def is_utc_require split: option.splits)
  moreover have "v \<longrightarrow> nf_signature f \<noteq> []"
    using assms(4) hmac_nonempty [THEN not_sym] by (auto simp: verify_feed_hmac_iff)
  moreover have "str_strip symbol \<noteq> []"
    using assms(5) by (auto simp: symbol_currencies_def res_bind_Inr_iff require_text_Inr)
  moreover have "''NEWS_FEED_SIGNATURE_INVALID'' \<notin> set (mg_reason_codes ?d) \<longleftrightarrow> v"
    by (simp add: guard_decision_of_def guard_reasons_mem)
  ultimately show ?thesis
    using assms(2,3) guard_verdict_checks_ok [of symbol now f ro v cs] feed_signature_shape [OF assms(1)]
    by (auto simp: MarketGuardDecision_init_def Let_def checked_Inr_iff is_utc_require require_text_ok
        guard_decision_of_def)
qed

section \<open>Samples\<close>

definition sample_event :: NewsEvent where
  "sample_event = \<lparr>ne_event_id = ''cpi'', ne_currency = ''USD'', ne_impact = ''HIGH'',
     ne_scheduled_at = dt_add sample_bar (minutes 50)\<rparr>"

definition sample_feed :: NewsFeed where
  "sample_feed =
     \<lparr>nf_fetched_at = sample_bar, nf_events = [sample_event], nf_provider_name = ''desk'',
      nf_provider_healthy = True, nf_schema_version = ''news-feed-v2'',
      nf_coverage_start_at = Some (dt_add sample_bar (- minutes 60)),
      nf_coverage_end_at = Some (dt_add sample_bar (minutes 60)),
      nf_signing_key_id = ''k1'', nf_signature = []\<rparr>"

definition signed_feed :: NewsFeed where
  "signed_feed = sample_feed
     \<lparr>nf_signature := hmac_sha256_hex sample_secret (feed_signing_payload sample_feed)\<rparr>"

lemmas feed_evals = sample_feed_def sample_event_def sample_bar_def dt_le_def dt_lt_def dt_sub_def minutes_def

lemma hmac_is_sha256 [simp]: "is_sha256 (hmac_sha256_hex k m)"
  using hmac_sha256_hex_lower [of k m] by (auto simp: is_sha256_def list.pred_set hex_lower_is_hex)

lemma norm_hmac [simp]: "str_strip (hmac_sha256_hex k m) = hmac_sha256_hex k m"
  "str_lower (hmac_sha256_hex k m) = hmac_sha256_hex k m"
  using norm_hash_hex [OF hmac_sha256_hex_lower [of k m]] str_strip_norm_hash [of "hmac_sha256_hex k m"]
  by (auto simp: norm_hash_def)

lemma sample_feed_built: "feed_built sample_feed"
  by (simp add: feed_built_def NewsFeed_init_def event_built_def NewsEvent_init_def checked_Inr_iff Let_def
      coverage_checks_def outside_coverage_def is_utc_require require_text_ok feed_evals)
    (simp add: upper_evals str_lower_def)

lemma signed_feed_init: "NewsFeed_init signed_feed = Inr signed_feed"
  by (simp add: NewsFeed_init_def signed_feed_def checked_Inr_iff Let_def coverage_checks_def
      outside_coverage_def is_utc_require feed_evals) (simp add: upper_evals)

lemma sample_feed_signed: "feed_sign sample_feed sample_secret = Inr signed_feed"
  using signed_feed_init by (simp add: feed_sign_def signed_feed_def news_secret_bytes_def sample_secret_def)

lemma signed_feed_built: "feed_built signed_feed"
  using signed_feed_init sample_feed_built by (simp add: feed_built_def signed_feed_def)

lemma sample_currencies: "symbol_currencies ''EURUSD'' = Inr [''EUR'', ''USD'']"
  by (simp add: symbol_currencies_def require_text_def is_alpha_def upper_evals)

section \<open>Properties\<close>

lemma coverage_window:
  "coverage_sufficient f now \<longleftrightarrow> (\<exists>s e. nf_coverage_start_at f = Some s \<and> nf_coverage_end_at f = Some e
     \<and> instant s \<le> instant now - minutes 15 \<and> instant now + minutes 30 \<le> instant e)"
  by (auto simp: coverage_sufficient_def dt_le_def NEWS_BEFORE_def NEWS_AFTER_def split: option.splits)

lemma blackout_window:
  "list_ex (event_blackout currencies now) es \<longleftrightarrow>
     (\<exists>e \<in> set es. ne_impact e = ''HIGH'' \<and> ne_currency e \<in> set currencies
        \<and> instant now - minutes 15 \<le> instant (ne_scheduled_at e)
        \<and> instant (ne_scheduled_at e) \<le> instant now + minutes 30)"
  by (auto simp: list_ex_iff event_blackout_def dt_le_def NEWS_BEFORE_def NEWS_AFTER_def)



text \<open>
  The constructor of a news feed does not depend on the order in which the provider lists the
  events: every permutation gives the same feed, hence the same signed bytes, or the same error.
\<close>

theorem feed_order_irrelevant:
  assumes "mset es = mset (nf_events f)"
  shows "NewsFeed_init (f\<lparr>nf_events := es\<rparr>) = NewsFeed_init f"
proof -
  have perm: "distinct (map ne_event_id (sort_key event_key es)) = distinct (map ne_event_id es)"
    "distinct (map ne_event_id (sort_key event_key (nf_events f))) = distinct (map ne_event_id es)"
    using assms by (intro mset_eq_imp_distinct_iff; simp)+
  show ?thesis
  proof (cases "distinct (map ne_event_id es)")
    case True
    then show ?thesis using ordered_events_unique [OF assms] by (simp add: NewsFeed_init_def)
  next
    case False
    then show ?thesis
      using perm by (auto simp: NewsFeed_init_def Let_def checked_def first_error_append first_error_Cons
          raise_if_def split: option.splits)
  qed
qed

theorem feed_order_irrelevant_witness:
  "NewsFeed_init (sample_feed\<lparr>nf_events := [sample_event, sample_event\<lparr>ne_event_id := ''nfp''\<rparr>]\<rparr>)
   = NewsFeed_init (sample_feed\<lparr>nf_events := [sample_event\<lparr>ne_event_id := ''nfp''\<rparr>, sample_event]\<rparr>)"
  using feed_order_irrelevant [of "[sample_event, sample_event\<lparr>ne_event_id := ''nfp''\<rparr>]"
      "sample_feed\<lparr>nf_events := [sample_event\<lparr>ne_event_id := ''nfp''\<rparr>, sample_event]\<rparr>"] by simp

text \<open>
  A signed feed with a key identifier verifies under the same secret, and a signature moved to a feed
  with different signed bytes verifies only if the two byte strings have the same HMAC.
\<close>

theorem feed_signature_binds:
  assumes "feed_built f" and "nf_signing_key_id f \<noteq> []" and "feed_sign f secret = Inr g"
  shows "feed_verify_signature g secret = Inr True
    \<and> (\<forall>h. nf_signature h = nf_signature g \<and> feed_verify_signature h secret = Inr True
          \<and> feed_signing_payload h \<noteq> feed_signing_payload f
        \<longrightarrow> hmac_sha256_hex secret (feed_signing_payload h) = hmac_sha256_hex secret (feed_signing_payload f))"
proof -
  have init: "NewsFeed_init f = Inr f" using assms(1) by (simp add: feed_built_def)
  show ?thesis
    using feed_signing.roundtrip [OF init assms(2,3)] feed_signing.transplant [OF init assms(3)]
    by (auto simp: feed_verify_iff)
qed

theorem feed_signature_binds_witness:
  "feed_verify_signature signed_feed sample_secret = Inr True"
  using feed_signature_binds [OF sample_feed_built _ sample_feed_signed] by (simp add: sample_feed_def)

end
