(* ===== verification/Controls.thy ===== *)
theory Controls
  imports Permit_Safety
begin

text \<open>
  \<open>live_runtime/controls.py\<close>: the environment arm, a one-second observation of a variable of the
  process environment, and the manual demo approval, a signed artifact bound to one intent.

  \<open>os.environ.get\<close> is a parameter \<open>env\<close>; the key provider of an approval is a parameter that may raise;
  the trusted clock is the instant its provider returned.
\<close>

section \<open>Constants and helpers\<close>

definition ENVIRONMENT_ARM_SCHEMA_VERSION :: string where
  "ENVIRONMENT_ARM_SCHEMA_VERSION = ''environment-arm-v1''"

definition ENVIRONMENT_ARM_TOKEN_PREFIX :: string where
  "ENVIRONMENT_ARM_TOKEN_PREFIX = ''AI_SCALPER_ARM_V1''"

definition ENVIRONMENT_ARM_TTL :: int where
  "ENVIRONMENT_ARM_TTL = seconds 1"

definition MANUAL_DEMO_APPROVAL_SCHEMA_VERSION :: string where
  "MANUAL_DEMO_APPROVAL_SCHEMA_VERSION = ''manual-demo-approval-v1''"

definition MANUAL_DEMO_APPROVAL_MAX_TTL :: int where
  "MANUAL_DEMO_APPROVAL_MAX_TTL = minutes 5"

definition SUPPORTED_MODES :: "string list" where
  "SUPPORTED_MODES = [''DRY_RUN'', ''PAPER'', ''DEMO'', ''DEMO_AUTO'', ''LIVE'']"

definition normalize_mode :: "string \<Rightarrow> string res" where
  "normalize_mode v =
     res_bind (require_text ''mode'' v True) (\<lambda>mode.
       if mode \<notin> set SUPPORTED_MODES then Inl (ValueError ''unsupported execution mode'') else Inr mode)"

definition identity_sha256 :: "string \<Rightarrow> string \<Rightarrow> string res" where
  "identity_sha256 name v =
     res_bind (require_text name v False) (\<lambda>normalized. Inr (sha256_hex normalized))"

definition approval_secret_bytes :: "string \<Rightarrow> string res" where
  "approval_secret_bytes secret =
     (if length secret < 32
      then Inl (ValueError ''manual demo approval HMAC secret must contain at least 32 bytes'')
      else Inr secret)"

section \<open>The environment arm\<close>

definition arm_payload :: "string \<Rightarrow> string \<Rightarrow> string \<Rightarrow> string \<Rightarrow> json" where
  "arm_payload account_sha mode journal server_sha = JDict
     [(''account_id_sha256'', JStr account_sha), (''mode'', JStr mode),
      (''journal_sha256'', JStr journal),
      (''schema_version'', JStr ENVIRONMENT_ARM_SCHEMA_VERSION),
      (''server_sha256'', JStr server_sha)]"

definition environment_arm_binding_sha256 :: "string \<Rightarrow> string \<Rightarrow> string \<Rightarrow> string \<Rightarrow> string res" where
  "environment_arm_binding_sha256 account_id server mode journal_sha256 =
     res_bind (identity_sha256 ''account_id'' account_id) (\<lambda>account_sha.
     res_bind (normalize_mode mode) (\<lambda>m.
     res_bind (require_hash ''journal_sha256'' journal_sha256 64) (\<lambda>journal.
     res_bind (identity_sha256 ''server'' server) (\<lambda>server_sha.
       Inr (canonical_sha256 (arm_payload account_sha m journal server_sha))))))"

definition canonical_environment_arm_token :: "string \<Rightarrow> string \<Rightarrow> string \<Rightarrow> string \<Rightarrow> string res" where
  "canonical_environment_arm_token account_id server mode journal_sha256 =
     res_bind (environment_arm_binding_sha256 account_id server mode journal_sha256) (\<lambda>binding.
       Inr (ENVIRONMENT_ARM_TOKEN_PREFIX @ ''.'' @ binding))"

record EnvironmentArmDecision =
  ed_armed :: bool
  ed_reason_codes :: "string list"
  ed_checked_at_utc :: datetime
  ed_valid_until_utc :: datetime
  ed_env_var_name :: string
  ed_binding_sha256 :: string
  ed_journal_sha256 :: string
  ed_observed_value_sha256 :: "string option"
  ed_schema_version :: string

definition EnvironmentArmDecision_init :: "bool \<Rightarrow> EnvironmentArmDecision \<Rightarrow> EnvironmentArmDecision res" where
  "EnvironmentArmDecision_init sealed d =
     (let lifetime = dt_sub (ed_valid_until_utc d) (ed_checked_at_utc d);
          reasons = reason_set (map (norm_text True) (ed_reason_codes d)) in
      checked
        ([raise_if (\<not> sealed)
            (TypeError ''EnvironmentArmDecision can only be created by read_environment_arm''),
          err_of (require_utc ''checked_at_utc'' (ed_checked_at_utc d)),
          err_of (require_utc ''valid_until_utc'' (ed_valid_until_utc d)),
          raise_if (lifetime \<le> 0 \<or> ENVIRONMENT_ARM_TTL < lifetime)
            (ValueError ''environment arm lifetime must be in (0, 1] seconds''),
          err_of (require_text ''env_var_name'' (ed_env_var_name d) False),
          err_of (require_hash ''binding_sha256'' (ed_binding_sha256 d) 64),
          err_of (require_hash ''journal_sha256'' (ed_journal_sha256 d) 64),
          (case ed_observed_value_sha256 d of None \<Rightarrow> None
           | Some h \<Rightarrow> err_of (require_hash ''observed_value_sha256'' h 64))]
         @ map (\<lambda>r. err_of (require_text ''reason code'' r True)) (ed_reason_codes d)
         @ [raise_if (ed_armed d \<and> reasons \<noteq> [])
              (ValueError ''an armed decision cannot contain reason codes''),
            raise_if (\<not> ed_armed d \<and> reasons = [])
              (ValueError ''a denied arm decision requires reason codes''),
            err_of (require_text ''schema_version'' (ed_schema_version d) False),
            raise_if (norm_text False (ed_schema_version d) \<noteq> ENVIRONMENT_ARM_SCHEMA_VERSION)
              (ValueError ''unsupported environment arm schema version'')])
        (d\<lparr>ed_env_var_name := norm_text False (ed_env_var_name d),
           ed_binding_sha256 := norm_hash (ed_binding_sha256 d),
           ed_journal_sha256 := norm_hash (ed_journal_sha256 d),
           ed_observed_value_sha256 := map_option norm_hash (ed_observed_value_sha256 d),
           ed_reason_codes := reasons,
           ed_schema_version := norm_text False (ed_schema_version d)\<rparr>))"

definition arm_is_fresh :: "EnvironmentArmDecision \<Rightarrow> datetime \<Rightarrow> bool res" where
  "arm_is_fresh d now =
     res_bind (require_utc ''now'' now) (\<lambda>t.
       Inr (ed_armed d \<and> dt_le (ed_checked_at_utc d) t \<and> dt_lt t (ed_valid_until_utc d)))"

definition read_environment_arm ::
  "(string \<Rightarrow> string option) \<Rightarrow> string \<Rightarrow> string \<Rightarrow> string \<Rightarrow> datetime \<Rightarrow> string \<Rightarrow> string
   \<Rightarrow> EnvironmentArmDecision res" where
  "read_environment_arm env account_id server mode now journal_sha256 env_var_name =
     res_bind (require_utc ''now'' now) (\<lambda>checked_at.
     res_bind (require_text ''env_var_name'' env_var_name False) (\<lambda>name.
     if CHR ''='' \<in> set name \<or> CHR 0x00 \<in> set name
     then Inl (ValueError ''env_var_name is not a valid process environment key'')
     else
     res_bind (require_hash ''journal_sha256'' journal_sha256 64) (\<lambda>journal.
     res_bind (environment_arm_binding_sha256 account_id server mode journal) (\<lambda>binding.
     res_bind (canonical_environment_arm_token account_id server mode journal) (\<lambda>expected.
       let observed = env name; armed = (observed = Some expected) in
       EnvironmentArmDecision_init True
         \<lparr>ed_armed = armed,
          ed_reason_codes = (if armed then []
                             else if observed = None then [''ENVIRONMENT_ARM_MISSING'']
                             else [''ENVIRONMENT_ARM_MISMATCH'']),
          ed_checked_at_utc = checked_at,
          ed_valid_until_utc = dt_add checked_at ENVIRONMENT_ARM_TTL,
          ed_env_var_name = name,
          ed_binding_sha256 = binding,
          ed_journal_sha256 = journal,
          ed_observed_value_sha256 = map_option sha256_hex observed,
          ed_schema_version = ENVIRONMENT_ARM_SCHEMA_VERSION\<rparr>)))))"

section \<open>ManualDemoApproval\<close>

definition manual_demo_account_sha256 :: "string \<Rightarrow> string res" where
  "manual_demo_account_sha256 account_id = identity_sha256 ''account_id'' account_id"

record ManualDemoApproval =
  ma_intent_id :: string
  ma_account_id_sha256 :: string
  ma_server :: string
  ma_approver_id :: string
  ma_key_id :: string
  ma_issued_at_utc :: datetime
  ma_expires_at_utc :: datetime
  ma_nonce :: string
  ma_journal_sha256 :: string
  ma_mode :: string
  ma_signature :: string
  ma_schema_version :: string

definition ManualDemoApproval_init :: "ManualDemoApproval \<Rightarrow> ManualDemoApproval res" where
  "ManualDemoApproval_init a =
     (let lifetime = dt_sub (ma_expires_at_utc a) (ma_issued_at_utc a);
          signature = norm_hash (ma_signature a) in
      checked
        [err_of (require_text ''intent_id'' (ma_intent_id a) False),
         err_of (require_hash ''account_id_sha256'' (ma_account_id_sha256 a) 64),
         err_of (require_text ''server'' (ma_server a) False),
         err_of (require_text ''approver_id'' (ma_approver_id a) False),
         err_of (require_text ''key_id'' (ma_key_id a) False),
         err_of (require_utc ''issued_at_utc'' (ma_issued_at_utc a)),
         err_of (require_utc ''expires_at_utc'' (ma_expires_at_utc a)),
         raise_if (lifetime \<le> 0) (ValueError ''expires_at_utc must be after issued_at_utc''),
         raise_if (MANUAL_DEMO_APPROVAL_MAX_TTL < lifetime)
           (ValueError ''manual demo approval lifetime cannot exceed five minutes''),
         err_of (require_text ''nonce'' (ma_nonce a) False),
         err_of (require_hash ''journal_sha256'' (ma_journal_sha256 a) 64),
         err_of (normalize_mode (ma_mode a)),
         raise_if (norm_text True (ma_mode a) \<noteq> ''DEMO'')
           (ValueError ''manual approval mode must be DEMO''),
         (if signature = [] then None else err_of (require_hash ''signature'' signature 64)),
         err_of (require_text ''schema_version'' (ma_schema_version a) False)]
        (a\<lparr>ma_intent_id := norm_text False (ma_intent_id a),
           ma_account_id_sha256 := norm_hash (ma_account_id_sha256 a),
           ma_server := norm_text False (ma_server a),
           ma_approver_id := norm_text False (ma_approver_id a),
           ma_key_id := norm_text False (ma_key_id a),
           ma_nonce := norm_text False (ma_nonce a),
           ma_journal_sha256 := norm_hash (ma_journal_sha256 a),
           ma_mode := norm_text True (ma_mode a),
           ma_signature := signature,
           ma_schema_version := norm_text False (ma_schema_version a)\<rparr>))"

definition approval_signing_dict :: "ManualDemoApproval \<Rightarrow> json" where
  "approval_signing_dict a = json_pop ''signature'' (JDict
     [(''intent_id'', JStr (ma_intent_id a)),
      (''account_id_sha256'', JStr (ma_account_id_sha256 a)),
      (''server'', JStr (ma_server a)),
      (''approver_id'', JStr (ma_approver_id a)),
      (''key_id'', JStr (ma_key_id a)),
      (''issued_at_utc'', jtime (ma_issued_at_utc a)),
      (''expires_at_utc'', jtime (ma_expires_at_utc a)),
      (''nonce'', JStr (ma_nonce a)),
      (''journal_sha256'', JStr (ma_journal_sha256 a)),
      (''mode'', JStr (ma_mode a)),
      (''signature'', JStr (ma_signature a)),
      (''schema_version'', JStr (ma_schema_version a))])"

definition approval_signing_payload :: "ManualDemoApproval \<Rightarrow> string" where
  "approval_signing_payload a = canonical_json (approval_signing_dict a)"

definition approval_id :: "ManualDemoApproval \<Rightarrow> string" where
  "approval_id a = ''manual_demo_'' @ take 32 (sha256_hex (approval_signing_payload a))"

definition approval_binding_sha256 :: "ManualDemoApproval \<Rightarrow> string" where
  "approval_binding_sha256 a = canonical_sha256 (JDict
     [(''account_id_sha256'', JStr (ma_account_id_sha256 a)),
      (''approver_id'', JStr (ma_approver_id a)),
      (''intent_id'', JStr (ma_intent_id a)),
      (''key_id'', JStr (ma_key_id a)),
      (''journal_sha256'', JStr (ma_journal_sha256 a)),
      (''mode'', JStr (ma_mode a)),
      (''server'', JStr (ma_server a))])"

definition approval_sign :: "ManualDemoApproval \<Rightarrow> string \<Rightarrow> ManualDemoApproval res" where
  "approval_sign a secret =
     res_bind (approval_secret_bytes secret) (\<lambda>key.
       ManualDemoApproval_init (a\<lparr>ma_signature := hmac_sha256_hex key (approval_signing_payload a)\<rparr>))"

definition approval_verify_signature :: "ManualDemoApproval \<Rightarrow> string \<Rightarrow> bool res" where
  "approval_verify_signature a secret =
     (if ma_signature a = [] then Inr False
      else res_bind (approval_secret_bytes secret) (\<lambda>key.
             Inr (ma_signature a = hmac_sha256_hex key (approval_signing_payload a))))"

section \<open>ManualDemoApprovalValidation\<close>

record ManualDemoApprovalValidation =
  mv_valid :: bool
  mv_reason_codes :: "string list"
  mv_signature_valid :: bool
  mv_binding_valid :: bool
  mv_time_valid :: bool
  mv_checked_at_utc :: datetime
  mv_issued_at_utc :: datetime
  mv_valid_until_utc :: datetime
  mv_approval_id :: string
  mv_binding_sha256 :: string
  mv_intent_id :: string
  mv_account_id_sha256 :: string
  mv_server :: string
  mv_approver_id :: string
  mv_key_id :: string
  mv_journal_sha256 :: string
  mv_mode :: string
  mv_schema_version :: string

definition approval_field_checks :: "ManualDemoApprovalValidation \<Rightarrow> exn option list" where
  "approval_field_checks v =
     [err_of (require_utc ''checked_at_utc'' (mv_checked_at_utc v)),
      err_of (require_utc ''issued_at_utc'' (mv_issued_at_utc v)),
      err_of (require_utc ''valid_until_utc'' (mv_valid_until_utc v)),
      err_of (require_text ''approval_id'' (mv_approval_id v) False),
      err_of (require_hash ''binding_sha256'' (mv_binding_sha256 v) 64),
      err_of (require_text ''intent_id'' (mv_intent_id v) False),
      err_of (require_hash ''account_id_sha256'' (mv_account_id_sha256 v) 64),
      err_of (require_text ''server'' (mv_server v) False),
      err_of (require_text ''approver_id'' (mv_approver_id v) False),
      err_of (require_text ''key_id'' (mv_key_id v) False),
      err_of (require_hash ''journal_sha256'' (mv_journal_sha256 v) 64),
      err_of (normalize_mode (mv_mode v)),
      err_of (require_text ''schema_version'' (mv_schema_version v) False)]"

definition approval_verdict_checks :: "ManualDemoApprovalValidation \<Rightarrow> exn option list" where
  "approval_verdict_checks v =
     map (\<lambda>r. err_of (require_text ''reason code'' r True)) (mv_reason_codes v)
     @ [raise_if (mv_valid v \<noteq> (mv_signature_valid v \<and> mv_binding_valid v \<and> mv_time_valid v))
          (ValueError ''valid must equal the signature, binding, and time result''),
        raise_if (mv_valid v \<and> mv_reason_codes v \<noteq> [])
          (ValueError ''a valid approval validation cannot contain reasons''),
        raise_if (\<not> mv_valid v \<and> mv_reason_codes v = [])
          (ValueError ''an invalid approval validation requires reason codes''),
        raise_if (mv_time_valid v \<noteq> (dt_le (mv_issued_at_utc v) (mv_checked_at_utc v)
                                     \<and> dt_lt (mv_checked_at_utc v) (mv_valid_until_utc v)))
          (ValueError ''time_valid conflicts with the approval expiry'')]"

definition ManualDemoApprovalValidation_init ::
  "bool \<Rightarrow> ManualDemoApprovalValidation \<Rightarrow> ManualDemoApprovalValidation res" where
  "ManualDemoApprovalValidation_init sealed v =
     checked
       ([raise_if (\<not> sealed)
           (TypeError ''ManualDemoApprovalValidation can only be created by validate_manual_demo_approval'')]
        @ approval_field_checks v @ approval_verdict_checks v)
       (v\<lparr>mv_approval_id := norm_text False (mv_approval_id v),
          mv_binding_sha256 := norm_hash (mv_binding_sha256 v),
          mv_intent_id := norm_text False (mv_intent_id v),
          mv_account_id_sha256 := norm_hash (mv_account_id_sha256 v),
          mv_server := norm_text False (mv_server v),
          mv_approver_id := norm_text False (mv_approver_id v),
          mv_key_id := norm_text False (mv_key_id v),
          mv_journal_sha256 := norm_hash (mv_journal_sha256 v),
          mv_mode := norm_text True (mv_mode v),
          mv_schema_version := norm_text False (mv_schema_version v),
          mv_reason_codes := reason_set (map (norm_text True) (mv_reason_codes v))\<rparr>)"

definition approval_is_fresh :: "ManualDemoApprovalValidation \<Rightarrow> datetime \<Rightarrow> bool res" where
  "approval_is_fresh v now =
     res_bind (require_utc ''now'' now) (\<lambda>t.
       Inr (mv_valid v \<and> dt_le (mv_checked_at_utc v) t \<and> dt_lt t (mv_valid_until_utc v)))"

section \<open>validate_manual_demo_approval\<close>

text \<open>The keyword arguments of the validator.\<close>

record ApprovalExpectation =
  ax_intent_id :: string
  ax_account_id :: string
  ax_server :: string
  ax_approver_id :: string
  ax_key_id :: string
  ax_journal_sha256 :: string

definition approval_expectation_checks :: "datetime \<Rightarrow> ApprovalExpectation \<Rightarrow> exn option list" where
  "approval_expectation_checks clock x =
     [err_of (require_utc ''trusted approval clock'' clock),
      err_of (require_text ''expected_intent_id'' (ax_intent_id x) False),
      err_of (manual_demo_account_sha256 (ax_account_id x)),
      err_of (require_text ''expected_server'' (ax_server x) False),
      err_of (require_text ''expected_approver_id'' (ax_approver_id x) False),
      err_of (require_text ''expected_key_id'' (ax_key_id x) False),
      err_of (require_hash ''expected_journal_sha256'' (ax_journal_sha256 x) 64)]"

definition approval_time_gates :: "ManualDemoApproval \<Rightarrow> datetime \<Rightarrow> (bool \<times> string) list" where
  "approval_time_gates a clock =
     [(dt_lt clock (ma_issued_at_utc a), ''APPROVAL_NOT_YET_VALID''),
      (dt_le (ma_expires_at_utc a) clock, ''APPROVAL_EXPIRED'')]"

definition approval_binding_gates :: "ManualDemoApproval \<Rightarrow> ApprovalExpectation \<Rightarrow> (bool \<times> string) list" where
  "approval_binding_gates a x =
     [(ma_intent_id a \<noteq> norm_text False (ax_intent_id x), ''INTENT_BINDING_MISMATCH''),
      (ma_account_id_sha256 a \<noteq> sha256_hex (norm_text False (ax_account_id x)), ''ACCOUNT_BINDING_MISMATCH''),
      (ma_server a \<noteq> norm_text False (ax_server x), ''SERVER_BINDING_MISMATCH''),
      (ma_approver_id a \<noteq> norm_text False (ax_approver_id x), ''APPROVER_BINDING_MISMATCH''),
      (ma_key_id a \<noteq> norm_text False (ax_key_id x), ''KEY_BINDING_MISMATCH''),
      (ma_journal_sha256 a \<noteq> norm_hash (ax_journal_sha256 x), ''JOURNAL_BINDING_MISMATCH''),
      (ma_mode a \<noteq> ''DEMO'', ''MODE_BINDING_MISMATCH''),
      (ma_schema_version a \<noteq> MANUAL_DEMO_APPROVAL_SCHEMA_VERSION, ''SCHEMA_VERSION_MISMATCH'')]"

definition approval_validation_of ::
  "ManualDemoApproval \<Rightarrow> datetime \<Rightarrow> ApprovalExpectation \<Rightarrow> bool res \<Rightarrow> ManualDemoApprovalValidation" where
  "approval_validation_of a clock x verified =
     (let signature_valid = (verified = Inr True);
          reasons = (case verified of Inl e \<Rightarrow> [''APPROVAL_KEY_UNAVAILABLE''] | Inr ok \<Rightarrow> [])
            @ (if signature_valid then [] else [''INVALID_SIGNATURE''])
            @ fired (approval_time_gates a clock) @ fired (approval_binding_gates a x);
          time_valid = (dt_le (ma_issued_at_utc a) clock \<and> dt_lt clock (ma_expires_at_utc a));
          binding_valid = list_all (\<lambda>(c, code). \<not> c) (approval_binding_gates a x)
      in \<lparr>mv_valid = (signature_valid \<and> binding_valid \<and> time_valid),
          mv_reason_codes = reason_set reasons,
          mv_signature_valid = signature_valid,
          mv_binding_valid = binding_valid,
          mv_time_valid = time_valid,
          mv_checked_at_utc = clock,
          mv_issued_at_utc = ma_issued_at_utc a,
          mv_valid_until_utc = ma_expires_at_utc a,
          mv_approval_id = approval_id a,
          mv_binding_sha256 = approval_binding_sha256 a,
          mv_intent_id = ma_intent_id a,
          mv_account_id_sha256 = ma_account_id_sha256 a,
          mv_server = ma_server a,
          mv_approver_id = ma_approver_id a,
          mv_key_id = ma_key_id a,
          mv_journal_sha256 = ma_journal_sha256 a,
          mv_mode = ma_mode a,
          mv_schema_version = ma_schema_version a\<rparr>)"

definition validate_manual_demo_approval ::
  "ManualDemoApproval \<Rightarrow> ApprovalExpectation \<Rightarrow> (string \<Rightarrow> string res) \<Rightarrow> datetime
   \<Rightarrow> ManualDemoApprovalValidation res" where
  "validate_manual_demo_approval a x key_provider clock =
     res_bind (checked (approval_expectation_checks clock x) ()) (\<lambda>_.
       ManualDemoApprovalValidation_init True
         (approval_validation_of a clock x
            (res_bind (key_provider (ma_key_id a)) (approval_verify_signature a))))"

end
