(* ===== verification/Controls_Safety.thy ===== *)
theory Controls_Safety
  imports Controls
begin

text \<open>
  What the controls guarantee: the arm is the exact token and lasts one second, a token binds one
  deployment, and a manual approval is valid exactly when it is genuine, current and bound.
\<close>

section \<open>Canonical text of an arm\<close>

definition plain_char :: "char \<Rightarrow> bool" where
  "plain_char c = (let n = of_char c :: nat in 32 \<le> n \<and> n \<noteq> 34 \<and> n \<noteq> 92)"

lemma escape_plain: "plain_char c \<Longrightarrow> escape_char c = [c]"
  by (auto simp: plain_char_def escape_char_def Let_def)

lemma quote_plain: "list_all plain_char s \<Longrightarrow> quote s = [char_of (34::nat)] @ s @ [char_of (34::nat)]"
proof -
  assume "list_all plain_char s"
  then have "concat (map escape_char s) = s" by (induction s) (auto simp: escape_plain)
  then show ?thesis by (simp add: quote_def)
qed

lemma hex_plain: "list_all is_hex_lower s \<Longrightarrow> list_all plain_char s"
  by (auto simp: list.pred_set is_hex_lower_def plain_char_def Let_def)

lemma mode_plain: "m \<in> set SUPPORTED_MODES \<Longrightarrow> list_all plain_char m"
  by (auto simp: SUPPORTED_MODES_def plain_char_def)

lemma arm_text:
  "canonical_json (arm_payload a m j s) =
     ''{'' @ quote ''account_id_sha256'' @ '':'' @ quote a @ '','' @ quote ''journal_sha256'' @ '':'' @ quote j
     @ '','' @ quote ''mode'' @ '':'' @ quote m @ '','' @ quote ''schema_version'' @ '':''
     @ quote ENVIRONMENT_ARM_SCHEMA_VERSION @ '','' @ quote ''server_sha256'' @ '':'' @ quote s @ ''}''"
  by (simp add: canonical_json_def arm_payload_def)

lemma arm_text_inject:
  assumes "canonical_json (arm_payload a m j s) = canonical_json (arm_payload a' m' j' s')"
    and "list_all is_hex_lower a" "list_all is_hex_lower a'" "length a = length a'"
    and "list_all is_hex_lower j" "list_all is_hex_lower j'" "length j = length j'"
    and "list_all is_hex_lower s" "list_all is_hex_lower s'" "length s = length s'"
    and "m \<in> set SUPPORTED_MODES" "m' \<in> set SUPPORTED_MODES"
  shows "a = a' \<and> m = m' \<and> j = j' \<and> s = s'"
proof -
  have q: "quote x = [char_of (34::nat)] @ x @ [char_of (34::nat)]" if "x \<in> {a, a', j, j', s, s', m, m'}" for x
    using that assms by (auto simp: quote_plain hex_plain mode_plain)
  then have len: "length (quote a) = length (quote a')" "length (quote j) = length (quote j')"
    "length (quote s) = length (quote s')" using assms by simp_all
  show ?thesis using assms(1) len q unfolding arm_text
    by (simp add: append_eq_append_conv)
qed

section \<open>The environment arm\<close>

definition collide :: "string \<Rightarrow> string \<Rightarrow> bool" where
  "collide x y = (x \<noteq> y \<and> sha256_hex x = sha256_hex y)"

definition deployment_payload :: "string \<Rightarrow> string \<Rightarrow> string \<Rightarrow> string \<Rightarrow> json" where
  "deployment_payload account server mode journal =
     arm_payload (sha256_hex (norm_text False account)) (norm_text True mode) (norm_hash journal)
       (sha256_hex (norm_text False server))"

lemma identity_sha256_Inr:
  "identity_sha256 name v = Inr h \<longleftrightarrow> str_strip v \<noteq> [] \<and> h = sha256_hex (norm_text False v)"
  by (auto simp: identity_sha256_def res_bind_Inr_iff require_text_Inr)

lemma normalize_mode_Inr:
  "normalize_mode v = Inr m \<longleftrightarrow> str_strip v \<noteq> [] \<and> m = norm_text True v \<and> m \<in> set SUPPORTED_MODES"
  by (auto simp: normalize_mode_def res_bind_Inr_iff require_text_Inr)

lemma arm_token_Inr:
  "canonical_environment_arm_token account server mode journal = Inr t \<longleftrightarrow>
     str_strip account \<noteq> [] \<and> str_strip server \<noteq> [] \<and> str_strip mode \<noteq> []
     \<and> norm_text True mode \<in> set SUPPORTED_MODES
     \<and> err_of (require_hash ''journal_sha256'' journal 64) = None
     \<and> t = ''AI_SCALPER_ARM_V1.'' @ canonical_sha256 (deployment_payload account server mode journal)"
  by (auto simp: canonical_environment_arm_token_def environment_arm_binding_sha256_def res_bind_Inr_iff
      identity_sha256_Inr normalize_mode_Inr require_hash_Inr deployment_payload_def ENVIRONMENT_ARM_TOKEN_PREFIX_def)

lemma norm_hash_lower:
  "err_of (require_hash name v 64) = None \<Longrightarrow> list_all is_hex_lower (norm_hash v) \<and> length (norm_hash v) = 64"
  by (auto simp: require_hash_ok norm_hash_def list.pred_set str_lower_def lower_char_hex)

lemma require_hash_norm:
  "err_of (require_hash name v 64) = None \<Longrightarrow> err_of (require_hash name' (norm_hash v) 64) = None"
  by (simp add: require_hash_ok)

lemma read_arm_total:
  assumes "is_utc now" and "str_strip name \<noteq> []"
    and "CHR ''='' \<notin> set (str_strip name)" and "CHR 0x00 \<notin> set (str_strip name)"
    and "canonical_environment_arm_token account server mode journal = Inr token"
  shows "\<exists>d. read_environment_arm env account server mode now journal name = Inr d
    \<and> (ed_armed d \<longleftrightarrow> env (str_strip name) = Some token) \<and> ed_checked_at_utc d = now
    \<and> ed_valid_until_utc d = dt_add now (seconds 1)
    \<and> (ed_armed d \<longleftrightarrow> ed_reason_codes d = [])"
proof -
  note t = assms(5) [unfolded arm_token_Inr]
  have j: "require_hash ''journal_sha256'' journal 64 = Inr (norm_hash journal)"
    using t by (simp add: require_hash_Inr)
  have b: "environment_arm_binding_sha256 account server mode (norm_hash journal)
      = Inr (canonical_sha256 (deployment_payload account server mode journal))"
    using t require_hash_norm [of "''journal_sha256''" journal]
    by (auto simp: environment_arm_binding_sha256_def res_bind_Inr_iff identity_sha256_Inr normalize_mode_Inr
        require_hash_Inr deployment_payload_def)
  have e: "canonical_environment_arm_token account server mode (norm_hash journal) = Inr token"
    using b t by (simp add: canonical_environment_arm_token_def ENVIRONMENT_ARM_TOKEN_PREFIX_def)
  have codes: "str_strip ''ENVIRONMENT_ARM_MISSING'' \<noteq> []" "str_strip ''ENVIRONMENT_ARM_MISMATCH'' \<noteq> []"
    "str_strip ''environment-arm-v1'' = ''environment-arm-v1''"
    by (simp_all add: upper_evals)
  have "err_of (require_hash ''journal_sha256'' (norm_hash journal) 64) = None"
    using t require_hash_norm by blast
  then show ?thesis
    using assms(1-4) j b e codes
    by (auto simp: read_environment_arm_def require_utc_def is_utc_def require_text_def norm_text_def Let_def
        EnvironmentArmDecision_init_def checked_def raise_if_def ENVIRONMENT_ARM_TTL_def dt_sub_def dt_add_def
        instant_def seconds_def ENVIRONMENT_ARM_SCHEMA_VERSION_def canonical_sha256_def first_error_append
        split: option.splits)
qed

text \<open>
  Reading the arm of a well-formed deployment always returns. It is armed exactly when the variable
  holds the deployment's token character for character, gives reasons exactly when it is not, and
  is fresh only at instants of the one second that starts with the reading.
\<close>

theorem environment_arm_exact:
  assumes "is_utc now" and "str_strip name \<noteq> []"
    and "CHR ''='' \<notin> set (str_strip name)" and "CHR 0x00 \<notin> set (str_strip name)"
    and "canonical_environment_arm_token account server mode journal = Inr token"
  shows "\<exists>d. read_environment_arm env account server mode now journal name = Inr d
    \<and> (ed_armed d \<longleftrightarrow> env (str_strip name) = Some token)
    \<and> (ed_armed d \<longleftrightarrow> ed_reason_codes d = [])
    \<and> (\<forall>t. arm_is_fresh d t = Inr True \<longleftrightarrow>
          is_utc t \<and> env (str_strip name) = Some token
          \<and> instant now \<le> instant t \<and> instant t < instant now + seconds 1)"
proof -
  obtain d where d: "read_environment_arm env account server mode now journal name = Inr d"
    "ed_armed d \<longleftrightarrow> env (str_strip name) = Some token" "ed_checked_at_utc d = now"
    "ed_valid_until_utc d = dt_add now (seconds 1)" "ed_armed d \<longleftrightarrow> ed_reason_codes d = []"
    using read_arm_total [OF assms, of env] by blast
  have "arm_is_fresh d t = Inr True \<longleftrightarrow> is_utc t \<and> env (str_strip name) = Some token
          \<and> instant now \<le> instant t \<and> instant t < instant now + seconds 1" for t
    unfolding arm_is_fresh_def res_bind_Inr_iff require_utc_Inr d(2-4) dt_le_def dt_lt_def instant_dt_add
    by auto
  with d show ?thesis by blast
qed

text \<open>
  A token binds one deployment: if two deployments have the same token, they agree on account,
  server, mode and journal up to surrounding blanks and letter case of mode and hash, or two named
  texts (the accounts, the servers or the canonical payloads) have the same SHA-256 digest.
\<close>

theorem arm_token_binds:
  assumes "canonical_environment_arm_token a s m j = Inr t"
    and "canonical_environment_arm_token a' s' m' j' = Inr t"
  shows "(norm_text False a = norm_text False a' \<and> norm_text False s = norm_text False s'
       \<and> norm_text True m = norm_text True m' \<and> norm_hash j = norm_hash j')
    \<or> collide (norm_text False a) (norm_text False a') \<or> collide (norm_text False s) (norm_text False s')
    \<or> collide (canonical_json (deployment_payload a s m j)) (canonical_json (deployment_payload a' s' m' j'))"
proof -
  note t = assms [unfolded arm_token_Inr]
  have hash: "list_all is_hex_lower (norm_hash j) \<and> length (norm_hash j) = 64"
    "list_all is_hex_lower (norm_hash j') \<and> length (norm_hash j') = 64"
    using t norm_hash_lower by blast+
  show ?thesis
  proof (cases "canonical_json (deployment_payload a s m j) = canonical_json (deployment_payload a' s' m' j')")
    case True
    then have "sha256_hex (norm_text False a) = sha256_hex (norm_text False a')
        \<and> norm_text True m = norm_text True m' \<and> norm_hash j = norm_hash j'
        \<and> sha256_hex (norm_text False s) = sha256_hex (norm_text False s')"
      unfolding deployment_payload_def using t hash by (intro arm_text_inject) auto
    then show ?thesis by (auto simp: collide_def)
  next
    case False
    then show ?thesis using t by (auto simp: collide_def canonical_sha256_def)
  qed
qed

interpretation arm_gate: reason_gate
  "\<lambda>(env, account, server, mode, now, journal, name). read_environment_arm env account server mode now journal name"
  ed_armed ed_reason_codes
proof unfold_locales
  fix i d
  assume "(\<lambda>(env, account, server, mode, now, journal, name).
      read_environment_arm env account server mode now journal name) i = Inr d"
  then obtain b where "EnvironmentArmDecision_init True b = Inr d"
    by (cases i) (auto simp: read_environment_arm_def res_bind_Inr_iff Let_def split: if_splits)
  then show "ed_armed d \<longleftrightarrow> ed_reason_codes d = []" "sorted (ed_reason_codes d) \<and> distinct (ed_reason_codes d)"
    by (auto simp: EnvironmentArmDecision_init_def Let_def checked_Inr_iff)
qed

lemma sample_arm_token:
  "canonical_environment_arm_token ''desk'' ''srv'' ''DEMO'' sample_hash
     = Inr (''AI_SCALPER_ARM_V1.'' @ canonical_sha256 (deployment_payload ''desk'' ''srv'' ''DEMO'' sample_hash))"
  by (simp add: arm_token_Inr) (simp add: upper_evals SUPPORTED_MODES_def)

theorem environment_arm_exact_witness:
  "\<exists>d. read_environment_arm
         (\<lambda>name. Some (''AI_SCALPER_ARM_V1.'' @ canonical_sha256 (deployment_payload ''desk'' ''srv'' ''DEMO'' sample_hash)))
         ''desk'' ''srv'' ''DEMO'' sample_bar sample_hash ''ARM'' = Inr d
     \<and> ed_armed d \<and> arm_is_fresh d sample_bar = Inr True"
proof -
  have "is_utc sample_bar" "str_strip ''ARM'' \<noteq> []" "CHR ''='' \<notin> set (str_strip ''ARM'')"
    "CHR 0x00 \<notin> set (str_strip ''ARM'')"
    by (simp_all add: sample_bar_def upper_evals)
  from environment_arm_exact [OF this sample_arm_token] obtain d where
    "read_environment_arm
         (\<lambda>name. Some (''AI_SCALPER_ARM_V1.'' @ canonical_sha256 (deployment_payload ''desk'' ''srv'' ''DEMO'' sample_hash)))
         ''desk'' ''srv'' ''DEMO'' sample_bar sample_hash ''ARM'' = Inr d" "ed_armed d"
    "arm_is_fresh d sample_bar = Inr True \<longleftrightarrow> is_utc sample_bar \<and> instant sample_bar < instant sample_bar + seconds 1"
    by (metis (lifting) order.refl)
  then show ?thesis using \<open>is_utc sample_bar\<close> by (auto simp: seconds_def)
qed

theorem arm_token_binds_witness:
  "norm_text False ''desk'' = norm_text False '' desk'' \<or> collide (norm_text False ''desk'') (norm_text False '' desk'')
    \<or> collide (canonical_json (deployment_payload ''desk'' ''srv'' ''DEMO'' sample_hash))
        (canonical_json (deployment_payload '' desk'' ''srv'' ''DEMO'' sample_hash))"
proof -
  have "canonical_environment_arm_token '' desk'' ''srv'' ''DEMO'' sample_hash
     = Inr (''AI_SCALPER_ARM_V1.'' @ canonical_sha256 (deployment_payload ''desk'' ''srv'' ''DEMO'' sample_hash))"
    by (simp add: arm_token_Inr deployment_payload_def) (simp add: upper_evals SUPPORTED_MODES_def)
  from arm_token_binds [OF sample_arm_token this] show ?thesis by (auto simp: collide_def)
qed

section \<open>Manual approvals\<close>

definition approval_built :: "ManualDemoApproval \<Rightarrow> bool" where
  "approval_built a = (ManualDemoApproval_init a = Inr a)"

lemma approval_init_fields:
  assumes "ManualDemoApproval_init a = Inr b"
  shows "ma_intent_id b = norm_text False (ma_intent_id a)"
    "ma_account_id_sha256 b = norm_hash (ma_account_id_sha256 a)"
    "ma_server b = norm_text False (ma_server a)" "ma_approver_id b = norm_text False (ma_approver_id a)"
    "ma_key_id b = norm_text False (ma_key_id a)" "ma_issued_at_utc b = ma_issued_at_utc a"
    "ma_expires_at_utc b = ma_expires_at_utc a" "ma_nonce b = norm_text False (ma_nonce a)"
    "ma_journal_sha256 b = norm_hash (ma_journal_sha256 a)" "ma_mode b = norm_text True (ma_mode a)"
    "ma_signature b = norm_hash (ma_signature a)" "ma_schema_version b = norm_text False (ma_schema_version a)"
  using assms by (simp_all add: ManualDemoApproval_init_def Let_def checked_Inr_iff)

lemma approval_init_facts:
  assumes "ManualDemoApproval_init a = Inr b"
  shows "str_strip (ma_intent_id a) \<noteq> []" "str_strip (ma_server a) \<noteq> []" "str_strip (ma_approver_id a) \<noteq> []"
    "str_strip (ma_key_id a) \<noteq> []" "is_utc (ma_issued_at_utc a)" "is_utc (ma_expires_at_utc a)"
    "0 < dt_sub (ma_expires_at_utc a) (ma_issued_at_utc a)"
    "dt_sub (ma_expires_at_utc a) (ma_issued_at_utc a) \<le> minutes 5"
    "err_of (require_hash name (ma_account_id_sha256 a) 64) = None"
    "err_of (require_hash name (ma_journal_sha256 a) 64) = None"
    "err_of (normalize_mode (ma_mode a)) = None" "norm_text True (ma_mode a) = ''DEMO''"
    "str_strip (ma_schema_version a) \<noteq> []"
  using assms by (simp_all add: ManualDemoApproval_init_def Let_def checked_Inr_iff is_utc_require require_text_ok
      require_hash_ok MANUAL_DEMO_APPROVAL_MAX_TTL_def)

interpretation approval_signing: signed_artifact ManualDemoApproval_init approval_signing_payload ma_signature
  "\<lambda>s a. a\<lparr>ma_signature := s\<rparr>" approval_sign approval_verify_signature "\<lambda>a. True"
proof unfold_locales
  fix a b :: ManualDemoApproval and k m
  show "approval_sign a k = Inr b \<Longrightarrow> 32 \<le> length k \<and>
      ManualDemoApproval_init (a\<lparr>ma_signature := hmac_sha256_hex k (approval_signing_payload a)\<rparr>) = Inr b"
    by (auto simp: approval_sign_def res_bind_Inr_iff approval_secret_bytes_def split: if_splits)
  show "approval_verify_signature a k = Inr (ma_signature a = hmac_sha256_hex k (approval_signing_payload a))"
    if "32 \<le> length k"
    using that hmac_nonempty [THEN not_sym] by (auto simp: approval_verify_signature_def approval_secret_bytes_def)
  assume a: "ManualDemoApproval_init a = Inr a"
    and b: "ManualDemoApproval_init (a\<lparr>ma_signature := hmac_sha256_hex k m\<rparr>) = Inr b"
  show "approval_signing_payload b = approval_signing_payload a \<and> ma_signature b = hmac_sha256_hex k m \<and> (True \<longrightarrow> True)"
    using approval_init_fields [OF a] approval_init_fields [OF b]
    by (simp add: approval_signing_payload_def approval_signing_dict_def json_pop_def norm_hash_hex)
qed

lemma approval_verify_iff:
  "approval_verify_signature a secret = Inr True \<longleftrightarrow>
     32 \<le> length secret \<and> ma_signature a = hmac_sha256_hex secret (approval_signing_payload a)"
  using hmac_nonempty [THEN not_sym] by (auto simp: approval_verify_signature_def approval_secret_bytes_def)

lemma approval_codes_text:
  assumes "r \<in> set (mv_reason_codes (approval_validation_of a clock x verified))"
  shows "str_strip r \<noteq> []"
proof -
  have "r \<in> set ([''APPROVAL_KEY_UNAVAILABLE'', ''INVALID_SIGNATURE''] @ map snd (approval_time_gates a clock)
      @ map snd (approval_binding_gates a x))"
    using assms fired_codes [of "approval_time_gates a clock"] fired_codes [of "approval_binding_gates a x"]
    by (auto simp: approval_validation_of_def Let_def split: sum.splits if_splits)
  moreover have "list_all (\<lambda>r. str_strip r \<noteq> []) ([''APPROVAL_KEY_UNAVAILABLE'', ''INVALID_SIGNATURE'']
      @ map snd (approval_time_gates a clock) @ map snd (approval_binding_gates a x))"
    by (simp add: approval_time_gates_def approval_binding_gates_def str_strip_Nil_iff is_space_def)
  ultimately show ?thesis unfolding list.pred_set by blast
qed

lemma approval_time_gates_clear:
  "list_all (\<lambda>(c, code). \<not> c) (approval_time_gates a clock) \<longleftrightarrow>
     dt_le (ma_issued_at_utc a) clock \<and> dt_lt clock (ma_expires_at_utc a)"
  by (auto simp: approval_time_gates_def dt_le_def dt_lt_def)

lemma approval_reasons_Nil:
  "mv_reason_codes (approval_validation_of a clock x verified) = [] \<longleftrightarrow>
     mv_valid (approval_validation_of a clock x verified)"
  by (auto simp: approval_validation_of_def Let_def approval_time_gates_clear split: sum.splits)

lemma approval_verdict_checks_ok:
  "list_all (\<lambda>c. c = None) (approval_verdict_checks (approval_validation_of a clock x verified))"
proof -
  let ?v = "approval_validation_of a clock x verified"
  have "mv_valid ?v = (mv_signature_valid ?v \<and> mv_binding_valid ?v \<and> mv_time_valid ?v)"
    "mv_time_valid ?v = (dt_le (mv_issued_at_utc ?v) (mv_checked_at_utc ?v)
        \<and> dt_lt (mv_checked_at_utc ?v) (mv_valid_until_utc ?v))"
    by (simp_all add: approval_validation_of_def Let_def)
  moreover have "list_all (\<lambda>r. str_strip r \<noteq> []) (mv_reason_codes ?v)"
    using approval_codes_text by (auto simp: list.pred_set)
  ultimately show ?thesis
    using approval_reasons_Nil [of a clock x verified]
    by (auto simp: approval_verdict_checks_def list.pred_set require_text_ok)
qed

lemma approval_field_checks_ok:
  assumes "approval_built a" and "is_utc clock"
  shows "list_all (\<lambda>c. c = None) (approval_field_checks (approval_validation_of a clock x verified))"
proof -
  have init: "ManualDemoApproval_init a = Inr a" using assms(1) by (simp add: approval_built_def)
  have "str_strip (approval_id a) \<noteq> []" by (simp add: approval_id_def str_strip_Nil_iff is_space_def)
  then show ?thesis
    using approval_init_facts [OF init] assms(2)
    by (simp add: approval_field_checks_def approval_validation_of_def Let_def is_utc_require require_text_ok
        approval_binding_sha256_def canonical_sha256_def)
qed

lemma approval_gate_cases:
  assumes "validate_manual_demo_approval a x kp clock = Inr v"
  defines "b \<equiv> approval_validation_of a clock x (res_bind (kp (ma_key_id a)) (approval_verify_signature a))"
  shows "mv_valid v = mv_valid b" "mv_reason_codes v = reason_set (map (norm_text True) (mv_reason_codes b))"
    "mv_checked_at_utc v = clock" "mv_valid_until_utc v = ma_expires_at_utc a"
  using assms by (auto simp: validate_manual_demo_approval_def res_bind_Inr_iff checked_Inr_iff
      ManualDemoApprovalValidation_init_def approval_validation_of_def Let_def)

interpretation approval_gate: reason_gate
  "\<lambda>(a, x, kp, clock). validate_manual_demo_approval a x kp clock" mv_valid mv_reason_codes
proof unfold_locales
  fix i v assume "(\<lambda>(a, x, kp, clock). validate_manual_demo_approval a x kp clock) i = Inr v"
  then obtain a x kp clock where "validate_manual_demo_approval a x kp clock = Inr v" by (cases i) auto
  note c = approval_gate_cases [OF this]
  show "mv_valid v \<longleftrightarrow> mv_reason_codes v = []" using c by (simp add: approval_reasons_Nil)
  show "sorted (mv_reason_codes v) \<and> distinct (mv_reason_codes v)" using c(2) by simp
qed

text \<open>
  Validating a constructed approval against well-formed expectations always returns, whatever the
  key provider does. The verdict is positive exactly when the provider gives a secret of at least
  32 bytes whose HMAC of the approval's bytes is the signature, the trusted clock is inside the
  approval's window, and intent, account, server, approver, key, journal and schema are the
  expected ones; reasons are given exactly otherwise. A validation is never fresh five minutes or more after the
  approval was issued.
\<close>

theorem manual_approval_exact:
  assumes "approval_built a" and "list_all (\<lambda>c. c = None) (approval_expectation_checks clock x)"
  shows "\<exists>v. validate_manual_demo_approval a x kp clock = Inr v
    \<and> (mv_valid v \<longleftrightarrow>
         (\<exists>secret. kp (ma_key_id a) = Inr secret \<and> 32 \<le> length secret
            \<and> ma_signature a = hmac_sha256_hex secret (approval_signing_payload a))
         \<and> dt_le (ma_issued_at_utc a) clock \<and> dt_lt clock (ma_expires_at_utc a)
         \<and> ma_intent_id a = str_strip (ax_intent_id x)
         \<and> ma_account_id_sha256 a = sha256_hex (str_strip (ax_account_id x))
         \<and> ma_server a = str_strip (ax_server x) \<and> ma_approver_id a = str_strip (ax_approver_id x)
         \<and> ma_key_id a = str_strip (ax_key_id x) \<and> ma_journal_sha256 a = norm_hash (ax_journal_sha256 x)
         \<and> ma_schema_version a = ''manual-demo-approval-v1'')
    \<and> (mv_valid v \<longleftrightarrow> mv_reason_codes v = [])
    \<and> (\<forall>t. approval_is_fresh v t = Inr True \<longrightarrow>
          mv_valid v \<and> instant clock \<le> instant t \<and> instant t < instant (ma_issued_at_utc a) + minutes 5)"
proof -
  have init: "ManualDemoApproval_init a = Inr a" using assms(1) by (simp add: approval_built_def)
  have "is_utc clock" using assms(2) by (simp add: approval_expectation_checks_def is_utc_require)
  then obtain v where v: "validate_manual_demo_approval a x kp clock = Inr v"
    using assms(2) approval_field_checks_ok [OF assms(1)] approval_verdict_checks_ok
    by (simp add: validate_manual_demo_approval_def ManualDemoApprovalValidation_init_def checked_def
        first_error_None_iff [THEN iffD2])
  note c = approval_gate_cases [OF v]
  have demo: "ma_mode a = ''DEMO''"
    using approval_init_facts(12) [OF init] approval_init_fields(10) [OF init] by simp
  have valid: "mv_valid v \<longleftrightarrow> (\<exists>secret. kp (ma_key_id a) = Inr secret \<and> 32 \<le> length secret
            \<and> ma_signature a = hmac_sha256_hex secret (approval_signing_payload a))
         \<and> dt_le (ma_issued_at_utc a) clock \<and> dt_lt clock (ma_expires_at_utc a)
         \<and> ma_intent_id a = str_strip (ax_intent_id x)
         \<and> ma_account_id_sha256 a = sha256_hex (str_strip (ax_account_id x))
         \<and> ma_server a = str_strip (ax_server x) \<and> ma_approver_id a = str_strip (ax_approver_id x)
         \<and> ma_key_id a = str_strip (ax_key_id x) \<and> ma_journal_sha256 a = norm_hash (ax_journal_sha256 x)
         \<and> ma_schema_version a = ''manual-demo-approval-v1''"
    unfolding c(1) using demo
    by (auto simp: approval_validation_of_def Let_def res_bind_Inr_iff approval_verify_iff approval_binding_gates_def
        norm_text_def MANUAL_DEMO_APPROVAL_SCHEMA_VERSION_def)
  have "mv_valid v \<longleftrightarrow> mv_reason_codes v = []"
    using approval_gate.verdict_iff [of "(a, x, kp, clock)" v] v by simp
  moreover have "approval_is_fresh v t = Inr True \<longrightarrow>
      mv_valid v \<and> instant clock \<le> instant t \<and> instant t < instant (ma_issued_at_utc a) + minutes 5" for t
    using approval_init_facts(8) [OF init] c(3,4)
    by (auto simp: approval_is_fresh_def res_bind_Inr_iff dt_le_def dt_lt_def dt_sub_def require_utc_Inr)
  ultimately show ?thesis using v valid by blast
qed

definition sample_approval :: ManualDemoApproval where
  "sample_approval =
     \<lparr>ma_intent_id = ''intent_1'', ma_account_id_sha256 = sha256_hex ''desk'', ma_server = ''srv'',
      ma_approver_id = ''alice'', ma_key_id = ''k1'', ma_issued_at_utc = sample_bar,
      ma_expires_at_utc = dt_add sample_bar (minutes 5), ma_nonce = ''n1'', ma_journal_sha256 = sample_hash,
      ma_mode = ''DEMO'', ma_signature = [], ma_schema_version = ''manual-demo-approval-v1''\<rparr>"

definition signed_approval :: ManualDemoApproval where
  "signed_approval = sample_approval
     \<lparr>ma_signature := hmac_sha256_hex sample_secret (approval_signing_payload sample_approval)\<rparr>"

definition sample_approval_expectation :: ApprovalExpectation where
  "sample_approval_expectation =
     \<lparr>ax_intent_id = ''intent_1'', ax_account_id = ''desk'', ax_server = ''srv'', ax_approver_id = ''alice'',
      ax_key_id = ''k1'', ax_journal_sha256 = sample_hash\<rparr>"

lemma sample_approval_built: "approval_built sample_approval" "approval_built signed_approval"
  by (simp_all add: approval_built_def ManualDemoApproval_init_def signed_approval_def sample_approval_def checked_def
      raise_if_def Let_def require_text_def require_utc_def normalize_mode_def SUPPORTED_MODES_def sample_bar_def
      utc_at_def dt_add_def dt_sub_def instant_def minutes_def MANUAL_DEMO_APPROVAL_MAX_TTL_def upper_evals)

lemma sample_approval_signed: "approval_sign sample_approval sample_secret = Inr signed_approval"
  using sample_approval_built(2)
  by (simp add: approval_sign_def approval_secret_bytes_def sample_secret_def approval_built_def signed_approval_def)

lemma signed_approval_payload: "approval_signing_payload signed_approval = approval_signing_payload sample_approval"
  using approval_signing.sign_keeps_payload [OF _ sample_approval_signed] sample_approval_built(1)
  by (simp add: approval_built_def)

theorem manual_approval_exact_witness:
  "\<exists>v. validate_manual_demo_approval signed_approval sample_approval_expectation (\<lambda>k. Inr sample_secret) sample_bar = Inr v
     \<and> mv_valid v"
proof -
  have ok: "list_all (\<lambda>c. c = None) (approval_expectation_checks sample_bar sample_approval_expectation)"
    by (simp add: approval_expectation_checks_def sample_approval_expectation_def require_text_def require_utc_def
        manual_demo_account_sha256_def identity_sha256_def sample_bar_def utc_at_def upper_evals)
  have sig: "32 \<le> length sample_secret
      \<and> ma_signature signed_approval = hmac_sha256_hex sample_secret (approval_signing_payload signed_approval)"
    by (simp add: signed_approval_payload) (simp add: signed_approval_def sample_secret_def)
  have bind: "dt_le (ma_issued_at_utc signed_approval) sample_bar \<and> dt_lt sample_bar (ma_expires_at_utc signed_approval)
      \<and> ma_intent_id signed_approval = str_strip (ax_intent_id sample_approval_expectation)
      \<and> ma_account_id_sha256 signed_approval = sha256_hex (str_strip (ax_account_id sample_approval_expectation))
      \<and> ma_server signed_approval = str_strip (ax_server sample_approval_expectation)
      \<and> ma_approver_id signed_approval = str_strip (ax_approver_id sample_approval_expectation)
      \<and> ma_key_id signed_approval = str_strip (ax_key_id sample_approval_expectation)
      \<and> ma_journal_sha256 signed_approval = norm_hash (ax_journal_sha256 sample_approval_expectation)
      \<and> ma_schema_version signed_approval = ''manual-demo-approval-v1''"
    by (simp add: signed_approval_def sample_approval_def sample_approval_expectation_def dt_le_def dt_lt_def
        minutes_def upper_evals)
  show ?thesis
    using manual_approval_exact [OF sample_approval_built(2) ok, of "\<lambda>k. Inr sample_secret"] sig bind by auto
qed

text \<open>
  A signed approval verifies under the same secret and keeps its identifier, and its signature verifies
  on another approval only if the HMACs of the two byte strings agree.
\<close>

theorem approval_signature_binds:
  assumes "approval_built a" and "approval_sign a secret = Inr b"
  shows "approval_verify_signature b secret = Inr True \<and> approval_id b = approval_id a
    \<and> (\<forall>c. ma_signature c = ma_signature b \<and> approval_verify_signature c secret = Inr True
         \<longrightarrow> hmac_sha256_hex secret (approval_signing_payload c)
             = hmac_sha256_hex secret (approval_signing_payload a))"
proof -
  have init: "ManualDemoApproval_init a = Inr a" using assms(1) by (simp add: approval_built_def)
  show ?thesis
    using approval_signing.roundtrip [OF init TrueI assms(2)] approval_signing.sign_keeps_payload [OF init assms(2)]
      approval_signing.transplant [OF init assms(2) TrueI]
    by (auto simp: approval_id_def)
qed

theorem approval_signature_binds_witness:
  "approval_verify_signature signed_approval sample_secret = Inr True
    \<and> approval_id signed_approval = approval_id sample_approval"
  using approval_signature_binds [OF sample_approval_built(1) sample_approval_signed] by blast

end
