(* ===== verification/Reconciliation.thy ===== *)
theory Reconciliation
  imports Journal
begin

text \<open>
  \<open>reconcile_broker_state\<close> of \<open>live_runtime/reconciliation.py\<close>: the broker's orders, positions and
  deals are matched with the active intents of the journal, checked against the immutable payload
  of the intent and, when they agree, written to the journal; anything unexplained latches the
  kill switch.

  A broker object is an \<open>item\<close>, a dictionary of untyped values. The journal is read and written
  through the operations of the journal theory; the trusted clock of the \<open>n\<close>-th write of a cycle is \<open>clock n\<close>. A cycle that
  raises keeps what it had written before (\<open>act\<close>). \<open>datetime.fromtimestamp\<close> is POSIX's.
\<close>

section \<open>Reading broker objects\<close>

definition VOLUME_EPSILON :: pyfloat where
  "VOLUME_EPSILON = fl_of_rat (1 / 10 ^ 12)"

definition is_deal_entry_out :: "json \<Rightarrow> bool res" where
  "is_deal_entry_out v =
     (if \<not> py_hashable v then Inl (TypeError ''unhashable type'')
      else Inr (py_eq_int v 1 \<or> py_eq_int v 3
                \<or> v \<in> {JStr ''OUT'', JStr ''OUT_BY'', JStr ''DEAL_ENTRY_OUT'', JStr ''DEAL_ENTRY_OUT_BY''}))"

fun item_value :: "item \<Rightarrow> string list \<Rightarrow> json \<Rightarrow> json" where
  "item_value it [] d = d"
| "item_value it (k # ks) d =
     (case map_of it k of
        Some v \<Rightarrow> if v \<noteq> JNull then v else item_value it ks d
      | None \<Rightarrow> item_value it ks d)"

definition ticket :: "item \<Rightarrow> string list \<Rightarrow> string option" where
  "ticket it ks =
     (let v = item_value it ks JNull in
      if v = JNull \<or> v = JStr [] \<or> py_eq_int v 0 \<or> v = JStr ''0'' then None else Some (py_str v))"

definition comment :: "item \<Rightarrow> string" where
  "comment it = py_text (item_value it [''comment'', ''external_id''] (JStr []))"

definition magic :: "item \<Rightarrow> int res" where
  "magic it =
     res_catch type_or_value_error
       (py_int (py_or (item_value it [''magic'', ''magic_number''] (JInt 0)) (JInt 0))) 0"

definition side_of :: "json \<Rightarrow> string option res" where
  "side_of v =
     (if \<not> py_hashable v then Inl (TypeError ''unhashable type'')
      else Inr (if py_eq_int v 0 \<or> v = JStr ''0'' \<or> v = JStr ''BUY'' then Some ''BUY''
                else if py_eq_int v 1 \<or> v = JStr ''1'' \<or> v = JStr ''SELL'' then Some ''SELL''
                else None))"

definition field_float :: "item \<Rightarrow> string \<Rightarrow> pyfloat res" where
  "field_float d k = res_bind (dict_item d k) py_float"

definition matches :: "IntentRecord \<Rightarrow> item \<Rightarrow> bool" where
  "matches r it =
     (let item_position = ticket it [''position'', ''position_id'', ''ticket''];
          item_order = ticket it [''order'', ''order_id'', ''ticket''];
          expected_comment = py_text (case json_get (ir_payload r) ''broker_comment'' of
                                        None \<Rightarrow> JStr [] | Some v \<Rightarrow> v) in
      truthy_text (ir_broker_position_ticket r) \<and> item_position = ir_broker_position_ticket r
      \<or> truthy_text (ir_broker_order_ticket r) \<and> item_order = ir_broker_order_ticket r
      \<or> expected_comment \<noteq> [] \<and> comment it = expected_comment)"

definition expected_payload :: "IntentRecord \<Rightarrow> (item \<times> item) res" where
  "expected_payload r =
     (case (json_get (ir_payload r) ''intent'', json_get (ir_payload r) ''broker_spec'') of
        (Some (JDict intent), Some (JDict broker_spec)) \<Rightarrow> Inr (intent, broker_spec)
      | _ \<Rightarrow> Inl (ValueError ''journal intent is missing immutable intent/broker_spec payload''))"

section \<open>Positions\<close>

definition has_server_protection :: "item \<Rightarrow> pyfloat \<Rightarrow> pyfloat \<Rightarrow> pyfloat \<Rightarrow> bool res" where
  "has_server_protection pos expected_sl expected_tp tolerance =
     res_catch type_or_value_error
       (res_bind (py_float (py_or (item_value pos [''sl'', ''stop_loss''] (JInt 0)) (JInt 0))) (\<lambda>sl.
        res_bind (py_float (py_or (item_value pos [''tp'', ''take_profit''] (JInt 0)) (JInt 0))) (\<lambda>tp.
          Inr (fl_lt (Fin 0) sl \<and> fl_lt (Fin 0) tp
               \<and> fl_le (fl_abs (fl_sub sl expected_sl)) tolerance
               \<and> fl_le (fl_abs (fl_sub tp expected_tp)) tolerance)))) False"

definition position_volumes :: "item \<Rightarrow> item \<Rightarrow> (pyfloat \<times> pyfloat) res" where
  "position_volumes intent pos =
     res_catch key_type_or_value_error
       (res_bind (field_float intent ''requested_lot'') (\<lambda>expected.
        res_bind (py_float (item_value pos [''volume'', ''volume_current''] JNull)) (\<lambda>actual.
          Inr (expected, actual)))) (Fin 0, Fin (- 1))"

definition volume_target :: "pyfloat \<Rightarrow> pyfloat \<Rightarrow> string list \<times> execution_state" where
  "volume_target expected actual =
     (if \<not> is_finite expected \<or> \<not> is_finite actual \<or> fl_le expected (Fin 0) \<or> fl_le actual (Fin 0)
      then ([''POSITION_VOLUME_MISSING''], PARTIAL)
      else if fl_lt (fl_add expected VOLUME_EPSILON) actual
      then ([''POSITION_VOLUME_EXCEEDS_INTENT''], FILLED)
      else if fl_lt actual (fl_sub expected VOLUME_EPSILON) then ([], PARTIAL)
      else ([], FILLED))"

definition protection_of :: "item \<Rightarrow> item \<Rightarrow> item \<Rightarrow> (bool \<times> string list) res" where
  "protection_of intent broker_spec pos =
     res_catch key_type_or_value_error
       (res_bind (field_float intent ''stop_loss'') (\<lambda>expected_sl.
        res_bind (field_float intent ''take_profit'') (\<lambda>expected_tp.
        res_bind (field_float broker_spec ''point'') (\<lambda>point.
        res_bind (field_float broker_spec ''tick_size'') (\<lambda>tick_size.
        res_bind (fl_div (fl_max point tick_size) (Fin 2)) (\<lambda>half.
        res_bind (has_server_protection pos expected_sl expected_tp (fl_add half VOLUME_EPSILON)) (\<lambda>ok.
          Inr (ok, []))))))))
       (False, [''PROTECTION_REFERENCE_MISSING''])"

definition position_facts ::
  "IntentRecord \<Rightarrow> item \<Rightarrow> int \<Rightarrow> (execution_state \<times> bool \<times> string list \<times> pyfloat) res" where
  "position_facts r pos magic_number =
     res_bind (expected_payload r) (\<lambda>(intent, broker_spec).
     let expected_symbol = py_text (dict_get broker_spec ''broker_symbol'');
         actual_symbol = py_text (item_value pos [''symbol''] (JStr []));
         expected_side = str_upper (py_text (dict_get intent ''side'')) in
     res_bind (side_of (item_value pos [''type'', ''position_type''] JNull)) (\<lambda>side.
     res_bind (magic pos) (\<lambda>m.
     res_bind (position_volumes intent pos) (\<lambda>(expected, actual).
     case volume_target expected actual of (volume_failures, target) \<Rightarrow>
     res_bind (protection_of intent broker_spec pos) (\<lambda>(protected, protection_failures).
       Inr (target, protected,
            reason_set
              (fired [(expected_symbol = [] \<or> actual_symbol \<noteq> expected_symbol, ''BROKER_SYMBOL_MISMATCH''),
                      (side \<noteq> Some expected_side, ''POSITION_SIDE_MISMATCH''),
                      (m \<noteq> magic_number, ''MAGIC_NUMBER_MISMATCH'')]
               @ volume_failures @ protection_failures),
            if is_finite actual \<and> fl_lt (Fin 0) actual then actual else Fin 0))))))"

section \<open>Orders\<close>

definition order_volume_failures :: "item \<Rightarrow> item \<Rightarrow> string list res" where
  "order_volume_failures intent order =
     res_catch key_type_or_value_error
       (res_bind (py_float (item_value order [''volume_current'', ''volume''] JNull)) (\<lambda>remaining.
        res_bind (field_float intent ''requested_lot'') (\<lambda>requested.
          Inr (if \<not> is_finite remaining \<or> fl_le remaining (Fin 0)
                  \<or> fl_lt (fl_add requested VOLUME_EPSILON) remaining
               then [''ORDER_VOLUME_MISMATCH''] else []))))
       [''ORDER_VOLUME_MISSING'']"

definition order_failures :: "IntentRecord \<Rightarrow> item \<Rightarrow> int \<Rightarrow> string list res" where
  "order_failures r order magic_number =
     res_bind (expected_payload r) (\<lambda>(intent, broker_spec).
     res_bind (side_of (item_value order [''type'', ''order_type''] JNull)) (\<lambda>side.
     res_bind (magic order) (\<lambda>m.
     res_bind (order_volume_failures intent order) (\<lambda>volume_failures.
       Inr (reason_set
              (fired [(py_text (item_value order [''symbol''] (JStr [])) \<noteq> py_text (dict_get broker_spec ''broker_symbol''),
                       ''ORDER_SYMBOL_MISMATCH''),
                      (side \<noteq> Some (str_upper (py_text (dict_get intent ''side''))), ''ORDER_SIDE_MISMATCH''),
                      (m \<noteq> magic_number, ''ORDER_MAGIC_MISMATCH'')]
               @ volume_failures))))))"

section \<open>Exit deals\<close>

definition from_seconds :: "int \<Rightarrow> int \<Rightarrow> datetime res" where
  "from_seconds whole us =
     (if 0 \<le> epoch_seconds + whole \<and> epoch_seconds + whole < 3652059 * 86400
      then Inr (utc_at ((epoch_seconds + whole) * 1000000 + us))
      else Inl (ValueError ''year is out of range''))"

fun from_timestamp :: "pyfloat \<Rightarrow> datetime res" where
  "from_timestamp (Fin q) =
     (let whole = (if q < 0 then - \<lfloor>- q\<rfloor> else \<lfloor>q\<rfloor>);
          us = round_half_even (fl_value (fl_mul (Fin (q - of_int whole)) (Fin 1000000))) in
      if 1000000 \<le> us then from_seconds (whole + 1) (us - 1000000)
      else if us < 0 then from_seconds (whole - 1) (us + 1000000)
      else from_seconds whole us)"
| "from_timestamp NaN = Inl (ValueError ''Invalid value NaN (not a number)'')"
| "from_timestamp x = Inl (OverflowError ''cannot convert float infinity to integer'')"

definition deal_time :: "item \<Rightarrow> datetime res" where
  "deal_time deal =
     (let time_msc = item_value deal [''time_msc''] JNull; time_seconds = item_value deal [''time''] JNull in
      if time_msc \<noteq> JNull
      then res_bind (py_int time_msc) (\<lambda>i. res_bind (py_float (JInt i)) (\<lambda>x.
             res_bind (fl_div x (Fin 1000)) from_timestamp))
      else if time_seconds \<noteq> JNull
      then res_bind (py_int time_seconds) (\<lambda>i. from_seconds i 0)
      else Inl (ValueError ''missing deal timestamp''))"

definition deal_time_failures :: "IntentRecord \<Rightarrow> item \<Rightarrow> string list res" where
  "deal_time_failures r deal =
     res_catch timestamp_error
       (res_bind (deal_time deal) (\<lambda>deal_at.
          Inr (if dt_lt deal_at (ir_created_at_utc r) then [''EXIT_DEAL_PRECEDES_INTENT''] else [])))
       [''EXIT_DEAL_TIMESTAMP_INVALID'']"

definition exit_deal_failures :: "IntentRecord \<Rightarrow> item \<Rightarrow> int \<Rightarrow> (string list \<times> pyfloat) res" where
  "exit_deal_failures r deal magic_number =
     res_bind (expected_payload r) (\<lambda>(intent, broker_spec).
     res_bind (is_deal_entry_out (item_value deal [''entry'', ''deal_entry''] JNull)) (\<lambda>entry_out.
     res_bind (magic deal) (\<lambda>m.
     let expected_side = str_upper (py_text (dict_get intent ''side''));
         expected_exit_side = (if expected_side = ''BUY'' then ''SELL'' else ''BUY'') in
     res_bind (side_of (item_value deal [''type'', ''deal_type''] JNull)) (\<lambda>side.
     res_bind (res_catch type_or_value_error (py_float (item_value deal [''volume''] JNull)) (Fin (- 1))) (\<lambda>volume.
     res_bind (res_catch key_type_or_value_error (field_float intent ''requested_lot'') (Fin (- 1))) (\<lambda>requested.
     res_bind (deal_time_failures r deal) (\<lambda>time_failures.
       Inr (reason_set
              (fired [(\<not> entry_out, ''EXIT_DEAL_ENTRY_MISMATCH''),
                      (py_text (item_value deal [''symbol''] (JStr [])) \<noteq> py_text (dict_get broker_spec ''broker_symbol''),
                       ''EXIT_DEAL_SYMBOL_MISMATCH''),
                      (m \<noteq> magic_number, ''EXIT_DEAL_MAGIC_MISMATCH''),
                      (side \<noteq> Some expected_exit_side, ''EXIT_DEAL_SIDE_MISMATCH''),
                      (truthy_text (ir_broker_position_ticket r)
                         \<and> ticket deal [''position'', ''position_id''] \<noteq> ir_broker_position_ticket r,
                       ''EXIT_DEAL_POSITION_MISMATCH''),
                      (ticket deal [''ticket'', ''deal'', ''deal_id''] = None, ''EXIT_DEAL_TICKET_MISSING''),
                      (\<not> is_finite volume \<or> \<not> is_finite requested \<or> fl_le volume (Fin 0)
                         \<or> fl_le requested (Fin 0) \<or> fl_lt (fl_add requested VOLUME_EPSILON) volume,
                       ''EXIT_DEAL_VOLUME_MISMATCH'')]
               @ time_failures),
            fl_max (Fin 0) volume))))))))"

section \<open>The cycle\<close>

record ReconciliationResult =
  rn_status :: string
  rn_matched_intents :: "string list"
  rn_uncertain_intents :: "string list"
  rn_closed_intents :: "string list"
  rn_orphan_position_tickets :: "string list"
  rn_orphan_order_tickets :: "string list"
  rn_protection_failures :: "string list"
  rn_volume_failures :: "string list"
  rn_binding_failures :: "string list"
  rn_kill_switch_latched :: bool

text \<open>The arguments of a cycle, and the clock of its journal writes.\<close>

record ReconcileInput =
  rq_orders :: "item list"
  rq_positions :: "item list"
  rq_deals :: "item list"
  rq_magic_number :: int
  rq_occurred_at :: datetime
  rq_clock :: "nat \<Rightarrow> datetime"

text \<open>The journal, the number of writes so far and the lists the cycle collects.\<close>

record ReconcileState =
  rs_journal :: journal
  rs_writes :: nat
  rs_matched :: "string list"
  rs_uncertain :: "string list"
  rs_closed :: "string list"
  rs_protection :: "string list"
  rs_volume :: "string list"
  rs_binding :: "string list"

type_synonym 'a cycle = "(ReconcileState, 'a) act"

definition journal_write :: "ReconcileInput \<Rightarrow> (datetime \<Rightarrow> journal \<Rightarrow> journal res) \<Rightarrow> unit cycle" where
  "journal_write q w s =
     (case w (rq_clock q (rs_writes s)) (rs_journal s) of
        Inl e \<Rightarrow> (Inl e, s\<lparr>rs_writes := rs_writes s + 1\<rparr>)
      | Inr j \<Rightarrow> (Inr (), s\<lparr>rs_journal := j, rs_writes := rs_writes s + 1\<rparr>))"

definition latch :: "ReconcileInput \<Rightarrow> string \<Rightarrow> unit cycle" where
  "latch q reason =
     journal_write q (\<lambda>clock. latch_kill_switch reason ''RECONCILIATION'' (Some (rq_occurred_at q)) clock)"

text \<open>The broker facts a call of \<open>_apply_broker_evidence\<close> passes on.\<close>

definition evidence_of ::
  "ReconcileInput \<Rightarrow> IntentRecord \<Rightarrow> execution_state \<Rightarrow> BrokerFacts \<Rightarrow> ReconciliationEvidence res" where
  "evidence_of q r target f =
     ReconciliationEvidence_init True
       \<lparr>re_intent_id = ir_intent_id r, re_expected_state = ir_state r, re_target_state = target,
        re_observed_at = rq_occurred_at q, re_details = bf_details f,
        re_broker_order_ticket = bf_order_ticket f, re_broker_position_ticket = bf_position_ticket f,
        re_filled_volume = bf_filled_volume f, re_protective_sl_tp_confirmed = bf_protective f,
        re_last_error = bf_last_error f\<rparr>
       (state_name (ir_state r)) (state_name target)"

definition apply_broker_evidence ::
  "ReconcileInput \<Rightarrow> IntentRecord \<Rightarrow> execution_state \<Rightarrow> BrokerFacts \<Rightarrow> unit cycle" where
  "apply_broker_evidence q r target f =
     act_bind (act_lift (evidence_of q r target f)) (\<lambda>e.
       journal_write q (\<lambda>clock st. res_bind (apply_reconciliation e clock st) (\<lambda>(st', row). Inr st')))"

definition broker_facts :: "json \<Rightarrow> BrokerFacts" where
  "broker_facts details =
     \<lparr>bf_details = details, bf_order_ticket = None, bf_position_ticket = None, bf_filled_volume = None,
      bf_protective = None, bf_last_error = None\<rparr>"

definition add_failures :: "string \<Rightarrow> string list \<Rightarrow> ReconcileState \<Rightarrow> ReconcileState" where
  "add_failures iid failures s =
     fold (\<lambda>failure s. if str_contains ''VOLUME'' failure then s\<lparr>rs_volume := rs_volume s @ [iid]\<rparr>
                        else s\<lparr>rs_binding := rs_binding s @ [iid]\<rparr>) failures s"

definition add_uncertain :: "string \<Rightarrow> ReconcileState \<Rightarrow> ReconcileState" where
  "add_uncertain iid s = s\<lparr>rs_uncertain := rs_uncertain s @ [iid]\<rparr>"

fun is_value_error :: "exn \<Rightarrow> bool" where
  "is_value_error (ValueError m) = True"
| "is_value_error e = False"

fun is_invalid_transition :: "exn \<Rightarrow> bool" where
  "is_invalid_transition (InvalidTransitionError m) = True"
| "is_invalid_transition e = False"

definition position_evidence :: "item \<Rightarrow> pyfloat \<Rightarrow> bool \<Rightarrow> BrokerFacts" where
  "position_evidence pos volume protected =
     (broker_facts (JDict [(''source'', JStr ''BROKER_POSITION_RECONCILIATION'')]))
       \<lparr>bf_position_ticket := ticket pos [''ticket'', ''position'', ''position_id''],
        bf_filled_volume := Some volume, bf_protective := Some protected\<rparr>"

definition settle_position ::
  "ReconcileInput \<Rightarrow> IntentRecord \<Rightarrow> item list \<Rightarrow> item \<Rightarrow> execution_state \<Rightarrow> bool \<Rightarrow> string list \<Rightarrow> pyfloat
   \<Rightarrow> unit cycle" where
  "settle_position q r matched_orders pos target protected facts volume =
     (let iid = ir_intent_id r;
          leftover = (matched_orders \<noteq> [] \<and> target = FILLED);
          failures = (if leftover then reason_set (facts @ [''REMAINING_ORDER_AFTER_FULL_FILL'']) else facts) in
      act_bind (act_modify (add_failures iid facts)) (\<lambda>_.
      act_bind (act_when leftover (act_modify (\<lambda>s. s\<lparr>rs_binding := rs_binding s @ [iid]\<rparr>))) (\<lambda>_.
      act_bind (act_when (failures \<noteq> [])
                 (latch q (''broker position mismatch for '' @ iid @ '': '' @ comma_sep failures))) (\<lambda>_.
      act_bind (act_when (\<not> protected)
                 (act_bind (act_modify (\<lambda>s. s\<lparr>rs_protection := rs_protection s @ [iid]\<rparr>)) (\<lambda>_.
                    latch q (''server-side SL/TP missing for intent '' @ iid)))) (\<lambda>_.
      if failures \<noteq> [] \<or> \<not> protected then act_modify (add_uncertain iid)
      else act_bind
        (act_catch is_invalid_transition
          (act_bind (apply_broker_evidence q r target (position_evidence pos volume protected)) (\<lambda>_. act_return True))
          (act_bind (latch q (''position exists in invalid state '' @ state_name (ir_state r) @ '' for '' @ iid))
            (\<lambda>_. act_bind (act_modify (add_uncertain iid)) (\<lambda>_. act_return False))))
        (\<lambda>applied. act_when applied (act_modify (\<lambda>s. s\<lparr>rs_matched := rs_matched s @ [iid]\<rparr>))))))))"

definition observed_position ::
  "IntentRecord \<Rightarrow> item \<Rightarrow> int \<Rightarrow> (execution_state \<times> bool \<times> string list \<times> pyfloat) res" where
  "observed_position r pos magic_number =
     res_catch is_value_error (position_facts r pos magic_number)
       (PARTIAL, False, [''IMMUTABLE_RECONCILIATION_PAYLOAD_MISSING''], Fin 0)"

definition reconcile_position :: "ReconcileInput \<Rightarrow> IntentRecord \<Rightarrow> item list \<Rightarrow> item \<Rightarrow> unit cycle" where
  "reconcile_position q r matched_orders pos =
     act_bind (act_lift (observed_position r pos (rq_magic_number q)))
       (\<lambda>(target, protected, facts, volume). settle_position q r matched_orders pos target protected facts volume)"

fun filter_res :: "('a \<Rightarrow> bool res) \<Rightarrow> 'a list \<Rightarrow> 'a list res" where
  "filter_res p [] = Inr []"
| "filter_res p (x # xs) =
     res_bind (p x) (\<lambda>keep. res_bind (filter_res p xs) (\<lambda>ys. Inr (if keep then x # ys else ys)))"

fun exit_deals_failures ::
  "IntentRecord \<Rightarrow> int \<Rightarrow> item list \<Rightarrow> string list \<times> pyfloat \<Rightarrow> (string list \<times> pyfloat) res" where
  "exit_deals_failures r magic_number [] acc = Inr acc"
| "exit_deals_failures r magic_number (deal # deals) (failures, closed_volume) =
     res_bind (exit_deal_failures r deal magic_number) (\<lambda>(fs, volume).
       exit_deals_failures r magic_number deals (failures @ fs, fl_add closed_volume volume))"

definition expected_closed_volume :: "IntentRecord \<Rightarrow> string list \<times> pyfloat" where
  "expected_closed_volume r =
     (case expected_payload r of
        Inr p \<Rightarrow> ([], ir_filled_volume r)
      | Inl e \<Rightarrow> ([''EXIT_DEAL_EXPECTED_VOLUME_MISSING''], Fin (- 1)))"

definition exit_verdict :: "IntentRecord \<Rightarrow> int \<Rightarrow> item list \<Rightarrow> (string list \<times> pyfloat) res" where
  "exit_verdict r magic_number exit_deals =
     (case expected_closed_volume r of (missing, expected) \<Rightarrow>
      res_bind (exit_deals_failures r magic_number exit_deals (missing, Fin 0)) (\<lambda>(failures, closed_volume).
        Inr (failures
             @ (if \<not> is_finite expected \<or> fl_le expected (Fin 0)
                   \<or> fl_lt VOLUME_EPSILON (fl_abs (fl_sub closed_volume expected))
                then [''EXIT_DEAL_CLOSED_VOLUME_MISMATCH''] else []), closed_volume)))"

definition settle_exit :: "ReconcileInput \<Rightarrow> IntentRecord \<Rightarrow> item list \<Rightarrow> string list \<Rightarrow> pyfloat \<Rightarrow> unit cycle" where
  "settle_exit q r exit_deals failures closed_volume =
     (let iid = ir_intent_id r in
      if failures \<noteq> []
      then act_bind (act_modify (add_failures iid failures)) (\<lambda>_.
           act_bind (latch q (''exit deal mismatch for '' @ iid @ '': '' @ comma_sep (reason_set failures))) (\<lambda>_.
           act_modify (add_uncertain iid)))
      else act_bind (apply_broker_evidence q r CLOSED (broker_facts (JDict
             [(''source'', JStr ''BROKER_EXIT_DEAL_RECONCILIATION''),
              (''closed_volume'', JFloat closed_volume),
              (''exit_deal_count'', JInt (int (length exit_deals)))]))) (\<lambda>_.
           act_modify (\<lambda>s. s\<lparr>rs_closed := rs_closed s @ [iid]\<rparr>)))"

definition reconcile_exit :: "ReconcileInput \<Rightarrow> IntentRecord \<Rightarrow> item list \<Rightarrow> unit cycle" where
  "reconcile_exit q r exit_deals =
     act_bind (act_lift (exit_verdict r (rq_magic_number q) exit_deals))
       (\<lambda>(failures, closed_volume). settle_exit q r exit_deals failures closed_volume)"

definition reconcile_unseen :: "ReconcileInput \<Rightarrow> IntentRecord \<Rightarrow> item list \<Rightarrow> unit cycle" where
  "reconcile_unseen q r matched_orders =
     (let iid = ir_intent_id r in
      if matched_orders \<noteq> [] \<and> ir_state r \<in> {SUBMITTING, ACKNOWLEDGED, UNCERTAIN}
      then act_bind (apply_broker_evidence q r ACKNOWLEDGED
             ((broker_facts (JDict [(''source'', JStr ''BROKER_ORDER_RECONCILIATION'')]))
                \<lparr>bf_order_ticket := ticket (hd matched_orders) [''ticket'', ''order'', ''order_id'']\<rparr>)) (\<lambda>_.
           act_modify (\<lambda>s. s\<lparr>rs_matched := rs_matched s @ [iid]\<rparr>))
      else if ir_state r \<in> {SUBMITTING, ACKNOWLEDGED, PARTIAL, FILLED}
      then act_bind (apply_broker_evidence q r UNCERTAIN (broker_facts (JDict
             [(''source'', JStr ''BROKER_OBJECT_OR_EXIT_DEAL_NOT_YET_FOUND''),
              (''previous_state'', JStr (state_name (ir_state r)))]))) (\<lambda>_.
           act_modify (add_uncertain iid))
      else act_when (ir_state r = UNCERTAIN) (act_modify (add_uncertain iid)))"

definition observed_order_failures :: "IntentRecord \<Rightarrow> item list \<Rightarrow> int \<Rightarrow> string list res" where
  "observed_order_failures r matched_orders magic_number =
     (if matched_orders = [] then Inr []
      else res_catch is_value_error (order_failures r (hd matched_orders) magic_number)
             [''IMMUTABLE_RECONCILIATION_PAYLOAD_MISSING''])"

definition reconcile_objects :: "ReconcileInput \<Rightarrow> IntentRecord \<Rightarrow> item list \<Rightarrow> item list \<Rightarrow> item list \<Rightarrow> unit cycle" where
  "reconcile_objects q r matched_positions matched_orders matched_deals =
     (if matched_positions \<noteq> [] then reconcile_position q r matched_orders (hd matched_positions)
      else act_bind (act_lift (filter_res (\<lambda>d. is_deal_entry_out (item_value d [''entry'', ''deal_entry''] JNull))
                       matched_deals)) (\<lambda>exit_deals.
           if exit_deals \<noteq> [] \<and> ir_state r \<in> {ACKNOWLEDGED, PARTIAL, FILLED, UNCERTAIN}
           then reconcile_exit q r exit_deals
           else reconcile_unseen q r matched_orders))"

definition reconcile_record :: "ReconcileInput \<Rightarrow> IntentRecord \<Rightarrow> unit cycle" where
  "reconcile_record q r =
     (let iid = ir_intent_id r;
          matched_positions = filter (matches r) (rq_positions q);
          matched_orders = filter (matches r) (rq_orders q);
          matched_deals = filter (matches r) (rq_deals q) in
      if 1 < length matched_positions \<or> 1 < length matched_orders
      then act_bind (latch q (''multiple broker objects matched intent '' @ iid)) (\<lambda>_.
           act_modify (add_uncertain iid))
      else act_bind (act_lift (observed_order_failures r matched_orders (rq_magic_number q))) (\<lambda>failures.
        if failures \<noteq> []
        then act_bind (act_modify (add_failures iid failures)) (\<lambda>_.
             act_bind (latch q (''broker order mismatch for '' @ iid @ '': '' @ comma_sep failures)) (\<lambda>_.
             act_modify (add_uncertain iid)))
        else reconcile_objects q r matched_positions matched_orders matched_deals))"

definition orphans :: "IntentRecord list \<Rightarrow> string list \<Rightarrow> item list \<Rightarrow> string list" where
  "orphans active ks items =
     map (\<lambda>it. case ticket it ks of None \<Rightarrow> ''UNKNOWN'' | Some t \<Rightarrow> t)
       (filter (\<lambda>it. \<not> list_ex (\<lambda>r. matches r it) active) items)"

definition reconcile_cycle :: "ReconcileInput \<Rightarrow> IntentRecord list \<Rightarrow> string list \<Rightarrow> string list \<Rightarrow> unit cycle" where
  "reconcile_cycle q active orphan_positions orphan_orders =
     act_bind (act_when (orphan_positions \<noteq> [] \<or> orphan_orders \<noteq> [])
       (latch q (''unexplained broker exposure: positions='' @ comma_sep orphan_positions
                   @ '' orders='' @ comma_sep orphan_orders)))
     (\<lambda>_. act_each (reconcile_record q) active)"

definition cycle_start :: "journal \<Rightarrow> ReconcileState" where
  "cycle_start st =
     \<lparr>rs_journal = st, rs_writes = 0, rs_matched = [], rs_uncertain = [], rs_closed = [],
      rs_protection = [], rs_volume = [], rs_binding = []\<rparr>"

definition cycle_result :: "string list \<Rightarrow> string list \<Rightarrow> ReconcileState \<Rightarrow> ReconciliationResult" where
  "cycle_result orphan_positions orphan_orders s =
     \<lparr>rn_status = (if orphan_positions \<noteq> [] \<or> orphan_orders \<noteq> [] \<or> rs_protection s \<noteq> []
                      \<or> rs_volume s \<noteq> [] \<or> rs_binding s \<noteq> []
                   then ''RECONCILIATION_CRITICAL_HOLD''
                   else if rs_uncertain s \<noteq> [] then ''RECONCILIATION_PENDING''
                   else ''RECONCILIATION_COMPLETE''),
      rn_matched_intents = reason_set (rs_matched s),
      rn_uncertain_intents = reason_set (rs_uncertain s),
      rn_closed_intents = reason_set (rs_closed s),
      rn_orphan_position_tickets = orphan_positions,
      rn_orphan_order_tickets = orphan_orders,
      rn_protection_failures = reason_set (rs_protection s),
      rn_volume_failures = reason_set (rs_volume s),
      rn_binding_failures = reason_set (rs_binding s),
      rn_kill_switch_latched = ks_latched (kill_switch_status (rs_journal s))\<rparr>"

definition reconcile_broker_state :: "ReconcileInput \<Rightarrow> journal \<Rightarrow> ReconciliationResult res \<times> journal" where
  "reconcile_broker_state q st =
     (case require_utc ''occurred_at'' (rq_occurred_at q) of
        Inl e \<Rightarrow> (Inl e, st)
      | Inr _ \<Rightarrow>
          let active = active_intents st;
              orphan_positions = orphans active [''ticket'', ''position'', ''position_id''] (rq_positions q);
              orphan_orders = orphans active [''ticket'', ''order'', ''order_id''] (rq_orders q) in
          case reconcile_cycle q active orphan_positions orphan_orders (cycle_start st) of
            (Inl e, s) \<Rightarrow> (Inl e, rs_journal s)
          | (Inr _, s) \<Rightarrow> (Inr (cycle_result orphan_positions orphan_orders s), rs_journal s))"

end
