(* ===== verification/Reconciliation_Outcomes.thy ===== *)
theory Reconciliation_Outcomes
  imports Reconciliation Journal_Sample
begin

text \<open>
  Lemmas on the reconciliation cycle: every write is a step of the runtime (\<open>runs_to\<close>), and a record that
  is processed without an exception is either held (latched, its row kept) or advanced. Both
  relations are carried over the loop of the cycle.
\<close>

section \<open>Every write is a runtime step\<close>

definition runs_to :: "journal \<Rightarrow> journal \<Rightarrow> bool" where
  "runs_to st st' = (\<forall>rt. rt_step\<^sup>*\<^sup>* (rt\<lparr>rt_journal := st\<rparr>) (rt\<lparr>rt_journal := st'\<rparr>))"

definition state_runs :: "ReconcileState \<Rightarrow> ReconcileState \<Rightarrow> bool" where
  "state_runs s s' = runs_to (rs_journal s) (rs_journal s')"

lemma state_runs_refl: "reflp state_runs"
  by (simp add: reflp_def state_runs_def runs_to_def)

lemma state_runs_trans: "transp state_runs"
  by (auto simp: transp_def state_runs_def runs_to_def intro: rtranclp_trans)

lemma runs_to_op: "run_op op clock st = Inr st' \<Longrightarrow> sealed_op op \<Longrightarrow> runs_to st st'"
  unfolding runs_to_def
proof
  fix rt :: runtime
  assume "run_op op clock st = Inr st'" "sealed_op op"
  then have "rt_step (rt\<lparr>rt_journal := st\<rparr>) (rt\<lparr>rt_journal := st, rt_journal := st'\<rparr>)"
    by (intro rt_step.rt_op [of op clock "rt\<lparr>rt_journal := st\<rparr>"]) simp_all
  then show "rt_step\<^sup>*\<^sup>* (rt\<lparr>rt_journal := st\<rparr>) (rt\<lparr>rt_journal := st'\<rparr>)" by simp
qed

lemma latch_runs: "act_keeps state_runs (latch q reason)"
  using runs_to_op [of "LatchKillSwitch reason ''RECONCILIATION'' (Some (rq_occurred_at q))"] state_runs_refl
  by (auto simp: act_keeps_def latch_def journal_write_def state_runs_def reflp_def split: sum.splits)

lemma state_of_name [simp]: "state_of (str_upper (str_strip (state_name a))) = Some a"
  by (cases a) (simp_all add: state_of_def EXECUTION_STATES_def upper_evals)

lemma evidence_of_Inr:
  assumes "evidence_of q r target f = Inr e"
  shows "re_intent_id e = str_strip (ir_intent_id r)" "re_expected_state e = ir_state r"
    "re_target_state e = target" "target = ir_state r \<or> target \<in> set (ALLOWED_TRANSITIONS (ir_state r))"
    "re_details e = bf_details f" "re_broker_order_ticket e = bf_order_ticket f"
    "re_broker_position_ticket e = bf_position_ticket f" "re_filled_volume e = bf_filled_volume f"
    "re_protective_sl_tp_confirmed e = bf_protective f"
  using assms by (auto simp: evidence_of_def ReconciliationEvidence_init_def Let_def checked_Inr_iff state_of_name
      split: if_splits option.splits)

lemma apply_evidence_runs:
  assumes "target \<in> set reconciler_targets"
  shows "act_keeps state_runs (apply_broker_evidence q r target f)"
proof (cases "evidence_of q r target f")
  case (Inl e)
  then show ?thesis using state_runs_refl
    by (simp add: act_keeps_def apply_broker_evidence_def act_bind_def act_lift_def reflp_def)
next
  case (Inr e)
  have "re_target_state e \<in> set reconciler_targets" using evidence_of_Inr(3) [OF Inr] assms by simp
  then have "runs_to st st'" if "apply_reconciliation e clock st = Inr (st', row)" for clock st st' row
    using that by (intro runs_to_op [of "Reconcile e" clock]) (auto simp: state_after_def)
  then show ?thesis using Inr state_runs_refl
    by (auto simp: act_keeps_def apply_broker_evidence_def act_bind_def act_lift_def journal_write_def
        state_runs_def reflp_def res_bind_Inr_iff split: sum.splits prod.splits)
qed

text \<open>A change of the collected lists is no change of the journal.\<close>

lemma modify_runs: "(\<And>s. rs_journal (f s) = rs_journal s) \<Longrightarrow> act_keeps state_runs (act_modify f)"
  using state_runs_refl by (simp add: act_keeps_def act_modify_def state_runs_def reflp_def)

lemma add_failures_journal [simp]:
  "rs_journal (add_failures iid fs s) = rs_journal s" "rs_writes (add_failures iid fs s) = rs_writes s"
  "rs_matched (add_failures iid fs s) = rs_matched s" "rs_uncertain (add_failures iid fs s) = rs_uncertain s"
  "rs_closed (add_failures iid fs s) = rs_closed s" "rs_protection (add_failures iid fs s) = rs_protection s"
  unfolding add_failures_def by (induction fs arbitrary: s) (simp_all split: if_splits)

lemma position_target: "position_facts r pos m = Inr (target, rest) \<Longrightarrow> target \<in> {PARTIAL, FILLED}"
  by (auto simp: position_facts_def res_bind_Inr_iff Let_def volume_target_def split: prod.splits if_splits)

lemmas run_intros = keeps_bind [OF state_runs_trans] keeps_catch [OF state_runs_trans]
  keeps_when [OF state_runs_refl] keeps_return [OF state_runs_refl] keeps_lift [OF state_runs_refl]
  latch_runs apply_evidence_runs modify_runs

lemma add_uncertain_journal [simp]: "rs_journal (add_uncertain iid s) = rs_journal s"
  by (simp add: add_uncertain_def)

lemma settle_position_runs:
  "target \<in> set reconciler_targets \<Longrightarrow> act_keeps state_runs (settle_position q r orders pos target protected facts volume)"
  unfolding settle_position_def Let_def by (auto intro!: run_intros)

lemma observed_position_target:
  "observed_position r pos m = Inr (target, rest) \<Longrightarrow> target \<in> set reconciler_targets"
  using position_target [of r pos m target]
  by (auto simp: observed_position_def res_catch_def reconciler_targets_def split: sum.splits if_splits)

lemma reconcile_position_runs: "act_keeps state_runs (reconcile_position q r orders pos)"
  unfolding reconcile_position_def
  by (rule keeps_lift_bind [OF state_runs_refl])
    (auto intro!: settle_position_runs split: prod.splits dest: observed_position_target)

lemma reconcile_exit_runs: "act_keeps state_runs (reconcile_exit q r deals)"
  unfolding reconcile_exit_def settle_exit_def Let_def
  by (auto intro!: run_intros split: prod.splits simp: reconciler_targets_def)

lemma reconcile_unseen_runs: "act_keeps state_runs (reconcile_unseen q r orders)"
  unfolding reconcile_unseen_def Let_def
  by (auto intro!: run_intros simp: reconciler_targets_def)

lemma reconcile_record_runs: "act_keeps state_runs (reconcile_record q r)"
  unfolding reconcile_record_def reconcile_objects_def Let_def
  by (auto intro!: run_intros reconcile_position_runs reconcile_exit_runs reconcile_unseen_runs)

lemma reconcile_cycle_runs: "act_keeps state_runs (reconcile_cycle q active ps os)"
  unfolding reconcile_cycle_def
  by (intro run_intros keeps_each [OF state_runs_refl state_runs_trans] reconcile_record_runs)

lemma reconcile_runs: "runs_to st (snd (reconcile_broker_state q st))"
proof -
  have "runs_to st (rs_journal (snd (reconcile_cycle q active ps os (cycle_start st))))" for active ps os
    using reconcile_cycle_runs [of q active ps os]
    by (auto simp: act_keeps_def state_runs_def cycle_start_def dest: spec [of _ "cycle_start st"])
  then show ?thesis
    unfolding reconcile_broker_state_def Let_def
    by (auto simp: runs_to_def split: sum.splits prod.splits) (metis snd_conv)+
qed

section \<open>Outcomes\<close>

text \<open>Only the kill switch and its log differ.\<close>

definition only_switch :: "journal \<Rightarrow> journal \<Rightarrow> bool" where
  "only_switch st st' = (st' = st\<lparr>j_kill_switch := j_kill_switch st', j_kill_events := j_kill_events st'\<rparr>)"

lemma only_switch_refl [simp]: "only_switch st st"
  by (simp add: only_switch_def)

lemma only_switch_trans [trans]: "only_switch a b \<Longrightarrow> only_switch b c \<Longrightarrow> only_switch a c"
  by (cases a; cases b; cases c) (simp add: only_switch_def)

lemma only_switch_intent: "only_switch st st' \<Longrightarrow> find_intent k st' = find_intent k st"
  by (cases st; cases st') (simp add: only_switch_def find_intent_def)

lemma latched_Inr:
  assumes "latch q reason s = (Inr u, s')"
  shows "only_switch (rs_journal s) (rs_journal s')" "ks_latched (j_kill_switch (rs_journal s'))"
    "rs_matched s' = rs_matched s" "rs_uncertain s' = rs_uncertain s" "rs_closed s' = rs_closed s"
    "rs_protection s' = rs_protection s" "rs_volume s' = rs_volume s" "rs_binding s' = rs_binding s"
  using assms
  by (auto simp: latch_def journal_write_def latch_kill_switch_def only_switch_def res_bind_Inr_iff
      split: sum.splits if_splits)

text \<open>A record whose objects were refused: latched, its row kept, the intent uncertain.\<close>

definition held :: "string \<Rightarrow> ReconcileState \<Rightarrow> ReconcileState \<Rightarrow> bool" where
  "held iid s s' =
     (only_switch (rs_journal s) (rs_journal s') \<and> ks_latched (j_kill_switch (rs_journal s'))
      \<and> rs_matched s' = rs_matched s \<and> rs_closed s' = rs_closed s \<and> rs_uncertain s' = rs_uncertain s @ [iid]
      \<and> set (rs_protection s') \<subseteq> set (rs_protection s) \<union> {iid}
      \<and> set (rs_volume s') \<subseteq> set (rs_volume s) \<union> {iid}
      \<and> set (rs_binding s') \<subseteq> set (rs_binding s) \<union> {iid})"

text \<open>A record whose objects were accepted, or that has none: the journal of another intent is untouched.\<close>

definition advanced :: "IntentRecord \<Rightarrow> ReconcileState \<Rightarrow> ReconcileState \<Rightarrow> bool" where
  "advanced r s s' =
     (rs_protection s' = rs_protection s \<and> rs_volume s' = rs_volume s \<and> rs_binding s' = rs_binding s
      \<and> j_kill_switch (rs_journal s') = j_kill_switch (rs_journal s)
      \<and> (\<forall>k. k \<noteq> str_strip (ir_intent_id r) \<longrightarrow> find_intent k (rs_journal s') = find_intent k (rs_journal s))
      \<and> (let iid = ir_intent_id r in
         rs_matched s' = rs_matched s @ [iid] \<and> rs_closed s' = rs_closed s \<and> rs_uncertain s' = rs_uncertain s
         \<or> rs_closed s' = rs_closed s @ [iid] \<and> rs_matched s' = rs_matched s \<and> rs_uncertain s' = rs_uncertain s
         \<or> rs_uncertain s' = rs_uncertain s @ [iid] \<and> rs_matched s' = rs_matched s \<and> rs_closed s' = rs_closed s
         \<or> s' = s \<and> ir_state r \<notin> set GLOBAL_EXPOSURE_STATES))"

lemma add_failures_sets:
  "set (rs_volume (add_failures iid fs s)) \<subseteq> set (rs_volume s) \<union> {iid}"
  "set (rs_binding (add_failures iid fs s)) \<subseteq> set (rs_binding s) \<union> {iid}"
  "add_failures iid [] s = s"
  unfolding add_failures_def
  by (induction fs arbitrary: s) (fastforce split: if_splits)+

lemma find_update_other:
  assumes "k \<noteq> iid" and "\<And>r. ir_intent_id (f r) = ir_intent_id r"
  shows "find_intent k (update_intent iid f st) = find_intent k st"
proof -
  have "find (\<lambda>r. ir_intent_id r = k) (map (\<lambda>r. if ir_intent_id r = iid then f r else r) xs)
      = find (\<lambda>r. ir_intent_id r = k) xs" for xs
    using assms by (induction xs) auto
  then show ?thesis by (simp add: find_intent_def update_intent_def)
qed

lemma apply_reconciliation_frame:
  assumes "apply_reconciliation e clock st = Inr (st', row)"
  shows "j_kill_switch st' = j_kill_switch st"
    and "k \<noteq> re_intent_id e \<Longrightarrow> find_intent k st' = find_intent k st"
proof -
  show "j_kill_switch st' = j_kill_switch st"
    using run_op_control [of "Reconcile e" clock st st'] assms by (simp add: same_control_def)
  assume k: "k \<noteq> re_intent_id e"
  have other: "find_intent k (add_transition t (update_intent (re_intent_id e) (apply_facts target now f) st1))
      = find_intent k st1" for t target now f st1
    using find_update_other [OF k, of "apply_facts target now f" st1]
    by (simp add: add_transition_def find_intent_def apply_facts_def)
  have receipt: "find_intent k (add_receipt i ty ts p st1) = find_intent k st1" for i ty ts p st1
    by (simp add: find_intent_def add_receipt_def)
  show "find_intent k st' = find_intent k st"
    using assms k other receipt find_intent_Some [of "re_intent_id e" st]
    by (auto simp: apply_reconciliation_def op_simps transition_locked_def split: if_splits)
qed

lemma find_update_same:
  assumes "find_intent iid st = Some row" and "\<And>r. ir_intent_id (f r) = ir_intent_id r"
  shows "find_intent iid (update_intent iid f st) = Some (f row)"
proof -
  have "find (\<lambda>r. ir_intent_id r = iid) (map (\<lambda>r. if ir_intent_id r = iid then f r else r) xs)
      = map_option f (find (\<lambda>r. ir_intent_id r = iid) xs)" for xs
    using assms(2) by (induction xs) auto
  then show ?thesis using assms(1) by (simp add: find_intent_def update_intent_def)
qed

lemma apply_reconciliation_row:
  assumes "apply_reconciliation e clock st = Inr (st', row)"
  obtains row0 now where "find_intent (re_intent_id e) st = Some row0"
    "row = apply_facts (re_target_state e) now (evidence_facts e) row0"
    "find_intent (re_intent_id e) st' = Some row" "reconciliation_check row0 e = Inr ()"
proof -
  from assms obtain now row0 where row0: "find_intent (re_intent_id e) st = Some row0"
    and check: "reconciliation_check row0 e = Inr ()"
    and run: "(let st1 = add_receipt (re_intent_id e) ''RECONCILIATION_RECEIPT'' now (reconciliation_payload e now) st;
                   target = re_target_state e in
       if target = re_expected_state e
       then Inr (add_transition (transition_row (re_intent_id e) (Some target) target now (re_details e))
                   (update_intent (re_intent_id e) (apply_facts target now (evidence_facts e)) st1),
                 apply_facts target now (evidence_facts e) row0)
       else transition_locked row0 target now (evidence_facts e) st1) = Inr (st', row)"
    by (auto simp: apply_reconciliation_def with_intent_def res_bind_Inr_iff json_text_def simp del: Let_def
        split: option.splits if_splits)
  have expected: "ir_state row0 = re_expected_state e"
    using check by (simp add: reconciliation_check_def Let_def split: if_splits)
  have id: "ir_intent_id row0 = re_intent_id e" using row0 find_intent_Some by blast
  have row: "row = apply_facts (re_target_state e) now (evidence_facts e) row0"
    and st': "\<exists>t ty p. st' = add_transition t (update_intent (re_intent_id e)
      (apply_facts (re_target_state e) now (evidence_facts e)) (add_receipt (re_intent_id e) ty now p st))"
    using run expected id
    by (auto simp: Let_def transition_locked_def res_bind_Inr_iff split: if_splits)
  have f: "ir_intent_id (apply_facts t n g r) = ir_intent_id r" for t n g r by (simp add: apply_facts_def)
  have "find_intent (re_intent_id e) (add_receipt i ty n p st) = Some row0" for i ty n p
    using row0 by (simp add: find_intent_def add_receipt_def)
  from find_update_same [OF this f] have "find_intent (re_intent_id e) st' = Some row"
    using st' row by (auto simp: add_transition_def find_intent_def)
  with row0 row check show thesis by (intro that)
qed

lemma journal_write_Inr:
  "journal_write q w s = (Inr u, s') \<longleftrightarrow>
     (\<exists>j. w (rq_clock q (rs_writes s)) (rs_journal s) = Inr j
        \<and> s' = s\<lparr>rs_journal := j, rs_writes := rs_writes s + 1\<rparr>)"
  by (cases "w (rq_clock q (rs_writes s)) (rs_journal s)") (auto simp: journal_write_def)

lemma apply_evidence_cases:
  assumes "apply_broker_evidence q r target f s = (Inr u, s')"
  obtains e j row where "evidence_of q r target f = Inr e"
    "apply_reconciliation e (rq_clock q (rs_writes s)) (rs_journal s) = Inr (j, row)"
    "s' = s\<lparr>rs_journal := j, rs_writes := rs_writes s + 1\<rparr>"
  using assms by (auto simp: apply_broker_evidence_def act_bind_Inr act_lift_def journal_write_Inr res_bind_Inr_iff)

lemma apply_evidence_Inr:
  assumes "apply_broker_evidence q r target f s = (Inr u, s')"
  shows "j_kill_switch (rs_journal s') = j_kill_switch (rs_journal s)"
    "k \<noteq> str_strip (ir_intent_id r) \<Longrightarrow> find_intent k (rs_journal s') = find_intent k (rs_journal s)"
    "rs_matched s' = rs_matched s" "rs_uncertain s' = rs_uncertain s" "rs_closed s' = rs_closed s"
    "rs_protection s' = rs_protection s" "rs_volume s' = rs_volume s" "rs_binding s' = rs_binding s"
proof -
  obtain e j row where e: "evidence_of q r target f = Inr e"
    and j: "apply_reconciliation e (rq_clock q (rs_writes s)) (rs_journal s) = Inr (j, row)"
    and s': "s' = s\<lparr>rs_journal := j, rs_writes := rs_writes s + 1\<rparr>"
    using assms by (rule apply_evidence_cases)
  note frame = apply_reconciliation_frame [OF j]
  show "j_kill_switch (rs_journal s') = j_kill_switch (rs_journal s)"
    "k \<noteq> str_strip (ir_intent_id r) \<Longrightarrow> find_intent k (rs_journal s') = find_intent k (rs_journal s)"
    using frame evidence_of_Inr(1) [OF e] by (simp_all add: s')
qed (use assms in \<open>auto elim!: apply_evidence_cases\<close>)

lemma apply_evidence_Inl:
  assumes "apply_broker_evidence q r target f s = (Inl e, s')"
  shows "rs_journal s' = rs_journal s" "rs_matched s' = rs_matched s" "rs_uncertain s' = rs_uncertain s"
    "rs_closed s' = rs_closed s" "rs_protection s' = rs_protection s" "rs_volume s' = rs_volume s"
    "rs_binding s' = rs_binding s"
  using assms
  by (auto simp: apply_broker_evidence_def act_bind_def act_lift_def journal_write_def split: sum.splits prod.splits)

lemma latched_held:
  assumes "latch q reason t = (Inr u, t')" and "only_switch (rs_journal s) (rs_journal t)"
    and "rs_matched t = rs_matched s" "rs_closed t = rs_closed s" "rs_uncertain t = rs_uncertain s"
    and "set (rs_protection t) \<subseteq> set (rs_protection s) \<union> {iid}" "set (rs_volume t) \<subseteq> set (rs_volume s) \<union> {iid}"
    and "set (rs_binding t) \<subseteq> set (rs_binding s) \<union> {iid}"
  shows "held iid s (add_uncertain iid t')"
  using latched_Inr [OF assms(1)] assms(2-) only_switch_trans [OF assms(2)]
  by (simp add: held_def add_uncertain_def)

lemma failures_held:
  assumes "latch q reason (add_failures iid fs s) = (Inr u, t')"
  shows "held iid s (add_uncertain iid t')"
  by (rule latched_held [OF assms]) (use add_failures_sets in auto)

definition noted :: "string \<Rightarrow> bool \<Rightarrow> string list \<Rightarrow> ReconcileState \<Rightarrow> ReconcileState" where
  "noted iid leftover facts s =
     (let t = add_failures iid facts s in if leftover then t\<lparr>rs_binding := rs_binding t @ [iid]\<rparr> else t)"

lemma noted_fields:
  "rs_journal (noted iid l fs s) = rs_journal s" "rs_matched (noted iid l fs s) = rs_matched s"
  "rs_closed (noted iid l fs s) = rs_closed s" "rs_uncertain (noted iid l fs s) = rs_uncertain s"
  "rs_protection (noted iid l fs s) = rs_protection s"
  "set (rs_volume (noted iid l fs s)) \<subseteq> set (rs_volume s) \<union> {iid}"
  "set (rs_binding (noted iid l fs s)) \<subseteq> set (rs_binding s) \<union> {iid}"
  using add_failures_sets(1,2) [of iid fs s] by (auto simp: noted_def Let_def)

lemma settle_position_held:
  assumes "settle_position q r orders pos target protected facts volume s = (Inr (), s')"
    and "facts \<noteq> [] \<or> orders \<noteq> [] \<and> target = FILLED \<or> \<not> protected"
  shows "held (ir_intent_id r) s s'"
proof -
  let ?iid = "ir_intent_id r" and ?l = "orders \<noteq> [] \<and> target = FILLED"
  let ?failures = "if ?l then reason_set (facts @ [''REMAINING_ORDER_AFTER_FULL_FILL'']) else facts"
  let ?t = "noted ?iid ?l facts s"
  have fail: "?failures \<noteq> [] \<longleftrightarrow> facts \<noteq> [] \<or> ?l" by auto
  obtain t1 where t1: "act_when (?failures \<noteq> [])
        (latch q (''broker position mismatch for '' @ ?iid @ '': '' @ comma_sep ?failures)) ?t = (Inr (), t1)"
    and t2: "act_bind (act_when (\<not> protected)
         (act_bind (act_modify (\<lambda>s. s\<lparr>rs_protection := rs_protection s @ [?iid]\<rparr>)) (\<lambda>_.
            latch q (''server-side SL/TP missing for intent '' @ ?iid))))
         (\<lambda>_. act_modify (add_uncertain ?iid)) t1 = (Inr (), s')"
    using assms fail
    by (cases ?l) (auto simp: settle_position_def Let_def act_bind_Inr act_modify_def act_when_def act_return_def
        noted_def split: if_splits)
  show ?thesis
  proof (cases protected)
    case True
    then have s': "s' = add_uncertain ?iid t1" and f: "?failures \<noteq> []"
      using t2 assms(2) fail by (auto simp: act_bind_Inr act_when_def act_return_def act_modify_def)
    from t1 f obtain reason where "latch q reason ?t = (Inr (), t1)"
      by (simp only: act_when_def if_True not_False_eq_True)
    from latched_held [OF this, of s ?iid] show ?thesis
      unfolding s' using noted_fields [of ?iid ?l facts s] by auto
  next
    case False
    have j: "only_switch (rs_journal s) (rs_journal t1) \<and> rs_matched t1 = rs_matched s \<and> rs_closed t1 = rs_closed s
        \<and> rs_uncertain t1 = rs_uncertain s \<and> rs_protection t1 = rs_protection s
        \<and> set (rs_volume t1) \<subseteq> set (rs_volume s) \<union> {?iid} \<and> set (rs_binding t1) \<subseteq> set (rs_binding s) \<union> {?iid}"
      using t1 latched_Inr [of q _ ?t "()" t1] noted_fields [of ?iid ?l facts s]
      by (cases "?failures = []") (auto simp: act_when_def act_return_def)
    obtain t3 where "latch q (''server-side SL/TP missing for intent '' @ ?iid)
        (t1\<lparr>rs_protection := rs_protection t1 @ [?iid]\<rparr>) = (Inr (), t3)" "s' = add_uncertain ?iid t3"
      using t2 False by (auto simp: act_bind_Inr act_when_def act_modify_def)
    with j latched_held [OF this(1), of s ?iid] show ?thesis by auto
  qed
qed

lemma evidence_advanced:
  assumes "apply_broker_evidence q r target f s = (Inr u, t)"
  shows "advanced r s (t\<lparr>rs_matched := rs_matched t @ [ir_intent_id r]\<rparr>)"
    "advanced r s (t\<lparr>rs_closed := rs_closed t @ [ir_intent_id r]\<rparr>)"
    "advanced r s (add_uncertain (ir_intent_id r) t)"
  using apply_evidence_Inr [OF assms] by (auto simp: advanced_def add_uncertain_def Let_def)

lemma settle_position_clean:
  assumes "settle_position q r orders pos target True [] volume s = (Inr (), s')"
    and "\<not> (orders \<noteq> [] \<and> target = FILLED)"
  shows "held (ir_intent_id r) s s'
    \<or> (\<exists>t. apply_broker_evidence q r target (position_evidence pos volume True) s = (Inr (), t)
          \<and> s' = t\<lparr>rs_matched := rs_matched t @ [ir_intent_id r]\<rparr>)"
proof -
  let ?iid = "ir_intent_id r"
  let ?f = "position_evidence pos volume True"
  have run: "act_bind
        (act_catch is_invalid_transition (act_bind (apply_broker_evidence q r target ?f) (\<lambda>_. act_return True))
          (act_bind (latch q (''position exists in invalid state '' @ state_name (ir_state r) @ '' for '' @ ?iid))
            (\<lambda>_. act_bind (act_modify (add_uncertain ?iid)) (\<lambda>_. act_return False))))
        (\<lambda>applied. act_when applied (act_modify (\<lambda>s. s\<lparr>rs_matched := rs_matched s @ [?iid]\<rparr>))) s = (Inr (), s')"
    using assms by (simp add: settle_position_def Let_def add_failures_sets(3) act_when_def)
  obtain x t where a: "apply_broker_evidence q r target ?f s = (x, t)" by (cases "apply_broker_evidence q r target ?f s")
  show ?thesis
  proof (cases x)
    case (Inr u)
    then have "s' = t\<lparr>rs_matched := rs_matched t @ [?iid]\<rparr>"
      using run a by (simp add: act_bind_def act_catch_def act_return_def act_when_def act_modify_def)
    then show ?thesis using a Inr by simp
  next
    case (Inl e)
    note frame = apply_evidence_Inl [OF a [unfolded Inl]]
    obtain t' where l: "latch q (''position exists in invalid state '' @ state_name (ir_state r) @ '' for '' @ ?iid) t
        = (Inr (), t')" and s': "s' = add_uncertain ?iid t'"
      using run a Inl
      by (auto simp: act_bind_def act_catch_def act_return_def act_when_def act_modify_def
          split: if_splits prod.splits sum.splits)
    show ?thesis unfolding s' by (rule disjI1, rule latched_held [OF l]) (use frame in auto)
  qed
qed

lemma settle_position_outcome:
  assumes "settle_position q r orders pos target protected facts volume s = (Inr (), s')"
  shows "held (ir_intent_id r) s s' \<or> advanced r s s'"
proof (cases "facts \<noteq> [] \<or> orders \<noteq> [] \<and> target = FILLED \<or> \<not> protected")
  case True
  then show ?thesis using settle_position_held [OF assms] by blast
next
  case False
  then show ?thesis
    using settle_position_clean [of q r orders pos target volume s s'] assms evidence_advanced(1) by auto
qed

lemma settle_exit_outcome:
  assumes "settle_exit q r deals failures vol s = (Inr (), s')"
  shows "held (ir_intent_id r) s s' \<or> advanced r s s'"
  using assms failures_held evidence_advanced(2)
  by (fastforce simp: settle_exit_def Let_def act_bind_Inr act_modify_def split: if_splits)

lemma reconcile_unseen_outcome:
  assumes "reconcile_unseen q r orders s = (Inr (), s')"
  shows "advanced r s s'"
proof -
  have "advanced r s (add_uncertain (ir_intent_id r) s)" by (simp add: advanced_def add_uncertain_def)
  moreover have "advanced r s s" if "ir_state r \<notin> {SUBMITTING, ACKNOWLEDGED, PARTIAL, FILLED, UNCERTAIN}"
    using that by (simp add: advanced_def GLOBAL_EXPOSURE_STATES_def)
  ultimately show ?thesis
    using assms evidence_advanced(1,3)
    by (fastforce simp: reconcile_unseen_def Let_def act_bind_Inr act_modify_def act_when_def act_return_def
        split: if_splits)
qed

lemma lift_bind_Inr: "act_bind (act_lift r) f s = (Inr y, t) \<longleftrightarrow> (\<exists>x. r = Inr x \<and> f x s = (Inr y, t))"
  by (cases r) (simp_all add: act_bind_def act_lift_def)

lemma reconcile_objects_outcome:
  assumes "reconcile_objects q r ps os ds s = (Inr (), s')"
  shows "held (ir_intent_id r) s s' \<or> advanced r s s'"
proof (cases "ps = []")
  case False
  then obtain target protected facts volume where
    "settle_position q r os (hd ps) target protected facts volume s = (Inr (), s')"
    using assms by (auto simp: reconcile_objects_def reconcile_position_def lift_bind_Inr)
  then show ?thesis by (rule settle_position_outcome)
next
  case True
  then obtain deals where
    "(if deals \<noteq> [] \<and> ir_state r \<in> {ACKNOWLEDGED, PARTIAL, FILLED, UNCERTAIN}
      then reconcile_exit q r deals else reconcile_unseen q r os) s = (Inr (), s')"
    using assms by (auto simp: reconcile_objects_def lift_bind_Inr)
  then consider "reconcile_unseen q r os s = (Inr (), s')" | "reconcile_exit q r deals s = (Inr (), s')"
    by (simp split: if_splits)
  then show ?thesis
  proof cases
    case 2
    then show ?thesis by (auto simp: reconcile_exit_def lift_bind_Inr dest: settle_exit_outcome)
  qed (blast dest: reconcile_unseen_outcome)
qed

lemma reconcile_record_outcome:
  assumes "reconcile_record q r s = (Inr (), s')"
  shows "held (ir_intent_id r) s s' \<or> advanced r s s'"
proof -
  let ?os = "filter (matches r) (rq_orders q)"
  consider reason t where "latch q reason s = (Inr (), t)" "s' = add_uncertain (ir_intent_id r) t"
    | reason fs t where "latch q reason (add_failures (ir_intent_id r) fs s) = (Inr (), t)"
        "s' = add_uncertain (ir_intent_id r) t"
    | ps ds where "reconcile_objects q r ps ?os ds s = (Inr (), s')"
    using assms
    by (auto simp: reconcile_record_def Let_def act_bind_Inr act_lift_def act_modify_def split: if_splits)
  then show ?thesis
  proof cases
    case 1
    then show ?thesis using latched_held [OF 1(1), of s] by auto
  next
    case 2
    then show ?thesis using failures_held by blast
  next
    case 3
    then show ?thesis by (rule reconcile_objects_outcome)
  qed
qed

section \<open>The cycle\<close>

definition failed :: "ReconcileState \<Rightarrow> string set" where
  "failed s = set (rs_protection s) \<union> set (rs_volume s) \<union> set (rs_binding s)"

definition accounted :: "ReconcileState \<Rightarrow> string set" where
  "accounted s = set (rs_matched s) \<union> set (rs_uncertain s) \<union> set (rs_closed s)"

abbreviation latched :: "journal \<Rightarrow> bool" where
  "latched st \<equiv> ks_latched (j_kill_switch st)"

lemma outcome_sets:
  assumes "held (ir_intent_id r) s u \<or> advanced r s u"
  shows "accounted s \<subseteq> accounted u" "failed u \<subseteq> failed s \<union> {ir_intent_id r}"
    "ir_state r \<in> set GLOBAL_EXPOSURE_STATES \<Longrightarrow> ir_intent_id r \<in> accounted u"
    "latched (rs_journal s) \<Longrightarrow> latched (rs_journal u)"
    "(failed s \<noteq> {} \<Longrightarrow> latched (rs_journal s)) \<Longrightarrow> failed u \<noteq> {} \<Longrightarrow> latched (rs_journal u)"
  using assms by (auto simp: held_def advanced_def accounted_def failed_def Let_def)

lemma cycle_first:
  assumes "act_each (reconcile_record q) (a # rs) s = (Inr (), s')"
  obtains u where "held (ir_intent_id a) s u \<or> advanced a s u"
    "act_each (reconcile_record q) rs u = (Inr (), s')"
proof -
  obtain u where "reconcile_record q a s = (Inr (), u)" "act_each (reconcile_record q) rs u = (Inr (), s')"
    using assms unfolding act_each_Inr_Cons by blast
  with reconcile_record_outcome that show thesis by blast
qed

text \<open>The relation between the states before and after a run over some records.\<close>

definition covers :: "IntentRecord list \<Rightarrow> ReconcileState \<Rightarrow> ReconcileState \<Rightarrow> bool" where
  "covers rs s s' =
     (accounted s \<subseteq> accounted s' \<and> failed s' \<subseteq> failed s \<union> ir_intent_id ` set rs
      \<and> (\<forall>r \<in> set rs. ir_state r \<in> set GLOBAL_EXPOSURE_STATES \<longrightarrow> ir_intent_id r \<in> accounted s')
      \<and> (latched (rs_journal s) \<longrightarrow> latched (rs_journal s'))
      \<and> ((failed s \<noteq> {} \<longrightarrow> latched (rs_journal s)) \<longrightarrow> failed s' \<noteq> {} \<longrightarrow> latched (rs_journal s')))"

lemma covers_refl: "covers [] s s"
  by (simp add: covers_def)

lemma covers_one: "held (ir_intent_id r) s u \<or> advanced r s u \<Longrightarrow> covers [r] s u"
  using outcome_sets [of r s u] by (simp add: covers_def)

lemma covers_Cons: "covers [r] s u \<Longrightarrow> covers rs u s' \<Longrightarrow> covers (r # rs) s s'"
  unfolding covers_def by simp blast

lemma cycle_covers: "act_each (reconcile_record q) rs s = (Inr (), s') \<Longrightarrow> covers rs s s'"
proof (induction rs arbitrary: s)
  case Nil
  then show ?case by (simp add: act_return_def covers_refl)
next
  case (Cons a rs)
  from Cons.prems obtain u where "held (ir_intent_id a) s u \<or> advanced a s u"
    "act_each (reconcile_record q) rs u = (Inr (), s')" by (rule cycle_first)
  then show ?case using Cons.IH covers_one covers_Cons by blast
qed

lemma cycle_sets:
  assumes "act_each (reconcile_record q) rs s = (Inr (), s')"
  shows "accounted s \<subseteq> accounted s'" "failed s' \<subseteq> failed s \<union> ir_intent_id ` set rs"
    "r \<in> set rs \<Longrightarrow> ir_state r \<in> set GLOBAL_EXPOSURE_STATES \<Longrightarrow> ir_intent_id r \<in> accounted s'"
    "latched (rs_journal s) \<Longrightarrow> latched (rs_journal s')"
    "(failed s \<noteq> {} \<Longrightarrow> latched (rs_journal s)) \<Longrightarrow> failed s' \<noteq> {} \<Longrightarrow> latched (rs_journal s')"
  using cycle_covers [OF assms] by (simp_all add: covers_def)

lemma cycle_keeps_rows:
  assumes "act_each (reconcile_record q) rs s = (Inr (), s')"
    and "distinct (map ir_intent_id rs)" and "\<forall>r \<in> set rs. str_strip (ir_intent_id r) = ir_intent_id r"
    and "failed s \<inter> ir_intent_id ` set rs = {}" and "k \<in> failed s'"
  shows "find_intent k (rs_journal s') = find_intent k (rs_journal s)"
  using assms
proof (induction rs arbitrary: s)
  case Nil
  then show ?case by (simp add: act_return_def)
next
  case (Cons a rs)
  obtain u where u: "held (ir_intent_id a) s u \<or> advanced a s u"
    and rest: "act_each (reconcile_record q) rs u = (Inr (), s')"
    using Cons.prems(1) by (rule cycle_first)
  have fu: "failed u \<subseteq> failed s \<union> {ir_intent_id a}" by (rule outcome_sets(2) [OF u])
  have "failed u \<inter> ir_intent_id ` set rs = {}"
    using fu Cons.prems(2,4) unfolding disjoint_iff by (metis UnE distinct.simps(2) insertI2 list.set(2)
        list.set_map list.simps(9) image_insert singletonD subset_iff)
  then have later: "find_intent k (rs_journal s') = find_intent k (rs_journal u)"
    using Cons.prems by (intro Cons.IH [OF rest]) simp_all
  from u show ?case
  proof
    assume "held (ir_intent_id a) s u"
    then show ?thesis using later only_switch_intent by (simp add: held_def)
  next
    assume adv: "advanced a s u"
    then have "failed u = failed s" by (simp add: advanced_def failed_def)
    then have "k \<noteq> ir_intent_id a"
      using cycle_sets(2) [OF rest] Cons.prems(2,4,5) by auto
    then show ?thesis using later adv Cons.prems(3) by (simp add: advanced_def)
  qed
qed

lemma reconcile_Inr:
  assumes "reconcile_broker_state q st = (Inr res, st')"
  defines "ps \<equiv> orphans (active_intents st) [''ticket'', ''position'', ''position_id''] (rq_positions q)"
    and "os \<equiv> orphans (active_intents st) [''ticket'', ''order'', ''order_id''] (rq_orders q)"
  obtains s s' where "act_each (reconcile_record q) (active_intents st) s = (Inr (), s')"
    "failed s = {}" "only_switch st (rs_journal s)" "ps \<noteq> [] \<or> os \<noteq> [] \<longrightarrow> latched (rs_journal s)"
    "st' = rs_journal s'" "res = cycle_result ps os s'"
proof -
  obtain s' where run: "reconcile_cycle q (active_intents st) ps os (cycle_start st) = (Inr (), s')"
    and res: "st' = rs_journal s'" "res = cycle_result ps os s'"
    using assms(1) unfolding reconcile_broker_state_def Let_def ps_def os_def
    by (auto split: sum.splits prod.splits)
  have start: "failed (cycle_start st) = {}" "rs_journal (cycle_start st) = st"
    by (simp_all add: cycle_start_def failed_def)
  show thesis
  proof (cases "ps \<noteq> [] \<or> os \<noteq> []")
    case True
    with run obtain s reason where l: "latch q reason (cycle_start st) = (Inr (), s)"
      and each: "act_each (reconcile_record q) (active_intents st) s = (Inr (), s')"
      by (auto simp: reconcile_cycle_def act_bind_Inr act_when_def)
    note lf = latched_Inr [OF l]
    show thesis by (rule that [OF each]) (use lf start res in \<open>auto simp: failed_def\<close>)
  next
    case False
    then have each: "act_each (reconcile_record q) (active_intents st) (cycle_start st) = (Inr (), s')"
      using run by (simp add: reconcile_cycle_def act_when_def)
    show thesis by (rule that [OF each]) (use False start res in simp_all)
  qed
qed

lemma orphans_Nil: "orphans active ks items = [] \<longleftrightarrow> (\<forall>it \<in> set items. \<exists>r \<in> set active. matches r it)"
  by (auto simp: orphans_def filter_empty_conv list_ex_iff)

lemma failed_result:
  "set (rn_protection_failures (cycle_result ps os s)) \<union> set (rn_volume_failures (cycle_result ps os s))
     \<union> set (rn_binding_failures (cycle_result ps os s)) = failed s"
  "rn_status (cycle_result ps os s) = ''RECONCILIATION_CRITICAL_HOLD'' \<longleftrightarrow> ps \<noteq> [] \<or> os \<noteq> [] \<or> failed s \<noteq> {}"
  by (auto simp: cycle_result_def failed_def)

lemma active_distinct:
  assumes "distinct (map ir_intent_id (j_intents st))"
  shows "distinct (map ir_intent_id (active_intents st))" "set (active_intents st) \<subseteq> set (j_intents st)"
proof -
  have "distinct (map ir_intent_id (filter P (j_intents st)))" for P using assms by (simp add: distinct_map_filter)
  then show "distinct (map ir_intent_id (active_intents st))"
    unfolding active_intents_def by (simp add: distinct_map)
qed (auto simp: active_intents_def)

end
