(* ===== verification/Reconciliation_Safety.thy ===== *)
theory Reconciliation_Safety
  imports Reconciliation_Outcomes
begin

text \<open>
  What a reconciliation cycle guarantees: every write is a step of the runtime, so the invariants
  of submissions carry over; unexplained or mismatching exposure latches the kill switch and
  leaves the intent's row alone; every exposed intent is accounted for; a matched position was
  verified against the immutable payload.
\<close>

section \<open>Verified positions\<close>

text \<open>
  What a verified position is: symbol, side and magic number are those of the immutable payload,
  the volume is positive and at most the requested lot up to the epsilon, full or partial
  accordingly, and both protective prices are set and within half a tick of the requested ones.
\<close>

definition bound_to_payload :: "item \<Rightarrow> item \<Rightarrow> item \<Rightarrow> int \<Rightarrow> bool" where
  "bound_to_payload intent broker_spec pos m =
     (py_text (item_value pos [''symbol''] (JStr [])) = py_text (dict_get broker_spec ''broker_symbol'')
      \<and> py_text (dict_get broker_spec ''broker_symbol'') \<noteq> []
      \<and> side_of (item_value pos [''type'', ''position_type''] JNull)
            = Inr (Some (str_upper (py_text (dict_get intent ''side''))))
      \<and> magic pos = Inr m)"

definition volume_verified :: "pyfloat \<Rightarrow> execution_state \<Rightarrow> pyfloat \<Rightarrow> bool" where
  "volume_verified lot target v =
     (is_finite v \<and> fl_lt (Fin 0) v \<and> \<not> fl_lt (fl_add lot VOLUME_EPSILON) v
      \<and> target = (if fl_lt v (fl_sub lot VOLUME_EPSILON) then PARTIAL else FILLED))"

definition price_verified :: "json \<Rightarrow> pyfloat \<Rightarrow> pyfloat \<Rightarrow> bool" where
  "price_verified actual expected tolerance =
     (\<exists>x. py_float (py_or actual (JInt 0)) = Inr x \<and> fl_lt (Fin 0) x
        \<and> fl_le (fl_abs (fl_sub x expected)) tolerance)"

definition protection_verified :: "item \<Rightarrow> item \<Rightarrow> item \<Rightarrow> bool" where
  "protection_verified intent broker_spec pos =
     (\<exists>sl tp point tick half. field_float intent ''stop_loss'' = Inr sl \<and> field_float intent ''take_profit'' = Inr tp
        \<and> field_float broker_spec ''point'' = Inr point \<and> field_float broker_spec ''tick_size'' = Inr tick
        \<and> fl_div (fl_max point tick) (Fin 2) = Inr half
        \<and> price_verified (item_value pos [''sl'', ''stop_loss''] (JInt 0)) sl (fl_add half VOLUME_EPSILON)
        \<and> price_verified (item_value pos [''tp'', ''take_profit''] (JInt 0)) tp (fl_add half VOLUME_EPSILON))"

definition position_verified :: "IntentRecord \<Rightarrow> item \<Rightarrow> int \<Rightarrow> execution_state \<Rightarrow> pyfloat \<Rightarrow> bool" where
  "position_verified r pos m target v =
     (\<exists>intent broker_spec lot. expected_payload r = Inr (intent, broker_spec)
        \<and> bound_to_payload intent broker_spec pos m
        \<and> field_float intent ''requested_lot'' = Inr lot
        \<and> py_float (item_value pos [''volume'', ''volume_current''] JNull) = Inr v
        \<and> volume_verified lot target v \<and> protection_verified intent broker_spec pos)"

lemma max_not_below: "\<not> fl_lt (fl_max x y) y"
  by (cases x; cases y) (auto simp: fl_max_def)

lemma res_catch_Inr: "res_catch h r d = Inr x \<longleftrightarrow> r = Inr x \<or> (\<exists>e. r = Inl e \<and> h e \<and> x = d)"
  by (auto simp: res_catch_def split: sum.splits)

lemma protection_verified_if: "protection_of intent spec pos = Inr (True, fs) \<Longrightarrow> protection_verified intent spec pos"
  by (auto simp: protection_of_def has_server_protection_def res_catch_Inr res_bind_Inr_iff protection_verified_def
      price_verified_def)

lemma volume_verified_if:
  assumes "position_volumes intent pos = Inr (lot, v)" and "volume_target lot v = ([], target)"
  shows "field_float intent ''requested_lot'' = Inr lot"
    "py_float (item_value pos [''volume'', ''volume_current''] JNull) = Inr v" "volume_verified lot target v"
proof -
  have pos: "is_finite v" "\<not> fl_le v (Fin 0)"
    using assms(2) by (auto simp: volume_target_def split: if_splits)
  then have "fl_lt (Fin 0) v" by (cases v) (auto simp: fl_le_def)
  then show "volume_verified lot target v"
    using assms(2) pos by (auto simp: volume_verified_def volume_target_def split: if_splits)
  show "field_float intent ''requested_lot'' = Inr lot"
    "py_float (item_value pos [''volume'', ''volume_current''] JNull) = Inr v"
    using assms(1) pos by (auto simp: position_volumes_def res_catch_Inr res_bind_Inr_iff fl_le_def)
qed

lemma position_facts_verified:
  assumes "position_facts r pos m = Inr (target, True, [], v)"
  shows "position_verified r pos m target v"
proof -
  obtain intent spec side mg lot a vf pf where p: "expected_payload r = Inr (intent, spec)"
    and side: "side_of (item_value pos [''type'', ''position_type''] JNull) = Inr side" and mg: "magic pos = Inr mg"
    and vol: "position_volumes intent pos = Inr (lot, a)" and tgt: "volume_target lot a = (vf, target)"
    and prot: "protection_of intent spec pos = Inr (True, pf)"
    and none: "vf = []" "pf = []" "py_text (dict_get spec ''broker_symbol'') \<noteq> []"
      "py_text (item_value pos [''symbol''] (JStr [])) = py_text (dict_get spec ''broker_symbol'')"
      "side = Some (str_upper (py_text (dict_get intent ''side'')))" "mg = m"
    and v: "v = (if is_finite a \<and> fl_lt (Fin 0) a then a else Fin 0)"
    using assms
    by (auto simp: position_facts_def res_bind_Inr_iff Let_def fired_def case_prod_beta prod_eq_iff
        simp del: item_value.simps split: if_splits)
  note vv = volume_verified_if [OF vol tgt [unfolded none(1)]]
  have "v = a" using vv(3) by (simp add: v volume_verified_def)
  then show ?thesis
    using p side mg none vv protection_verified_if [OF prot]
    by (auto simp: position_verified_def bound_to_payload_def)
qed

lemma filter_res_Inr:
  assumes "\<And>x. x \<in> set xs \<Longrightarrow> \<exists>b. p x = Inr b"
  shows "filter_res p xs = Inr (filter (\<lambda>x. p x = Inr True) xs)"
  using assms by (induction xs) force+

section \<open>Sample cycles\<close>

definition cycle_of :: "item list \<Rightarrow> item list \<Rightarrow> ReconcileInput" where
  "cycle_of positions deals =
     \<lparr>rq_orders = [], rq_positions = positions, rq_deals = deals, rq_magic_number = 7,
      rq_occurred_at = run_time, rq_clock = (\<lambda>n. run_time)\<rparr>"

definition cycle_payload :: "(string \<times> json) list" where
  "cycle_payload =
     [(''broker_comment'', JStr ''C1''),
      (''intent'', JDict [(''side'', JStr ''BUY''), (''requested_lot'', JFloat (Fin (1 / 4))),
                         (''stop_loss'', JFloat (Fin 1)), (''take_profit'', JFloat (Fin 2))]),
      (''broker_spec'', JDict [(''broker_symbol'', JStr ''XAUUSD''), (''point'', JFloat (Fin (1 / 4))),
                              (''tick_size'', JFloat (Fin (1 / 4)))])]"

definition cycle_row :: "json \<Rightarrow> IntentRecord" where
  "cycle_row payload = new_row ''i1'' ''d1'' ''XAUUSD'' ACKNOWLEDGED payload run_time None"

definition cycle_journal :: "json \<Rightarrow> journal" where
  "cycle_journal payload = run_start\<lparr>j_intents := [cycle_row payload]\<rparr>"

definition cycle_position :: item where
  "cycle_position =
     [(''ticket'', JStr ''5''), (''comment'', JStr ''C1''), (''symbol'', JStr ''XAUUSD''), (''type'', JInt 0),
      (''magic'', JInt 7), (''volume'', JFloat (Fin (1 / 4))), (''sl'', JFloat (Fin 1)), (''tp'', JFloat (Fin 2))]"

definition cycle_deal :: item where
  "cycle_deal = [(''comment'', JStr ''C1''), (''entry'', JInt 1)]"

lemma eps_evals:
  "VOLUME_EPSILON = Fin (4951760157141521 / 4951760157141521099596496896)"
  "fl_add (Fin (1 / 4)) VOLUME_EPSILON = Fin (2251799813694255 / 9007199254740992)"
  "fl_sub (Fin (1 / 4)) VOLUME_EPSILON = Fin (9007199254704963 / 36028797018963968)"
  "fl_add (Fin (1 / 8)) VOLUME_EPSILON = Fin (4503599627406525 / 36028797018963968)"
proof -
  show eps: "VOLUME_EPSILON = Fin (4951760157141521 / 4951760157141521099596496896)"
    unfolding VOLUME_EPSILON_def
    by (rule fl_of_rat_eval [where e = "- 40" and m = 4951760157141521]) (simp_all add: pow_rat_def)
  show "fl_add (Fin (1 / 4)) VOLUME_EPSILON = Fin (2251799813694255 / 9007199254740992)"
    unfolding eps fl_add.simps
    by (rule fl_of_rat_eval [where e = "- 2" and m = 4503599627388510]) (simp_all add: pow_rat_def)
  show "fl_sub (Fin (1 / 4)) VOLUME_EPSILON = Fin (9007199254704963 / 36028797018963968)"
    unfolding eps fl_sub_Fin
    by (rule fl_of_rat_eval [where e = "- 3" and m = 9007199254704963]) (simp_all add: pow_rat_def)
  show "fl_add (Fin (1 / 8)) VOLUME_EPSILON = Fin (4503599627406525 / 36028797018963968)"
    unfolding eps fl_add.simps
    by (rule fl_of_rat_eval [where e = "- 3" and m = 4503599627406525]) (simp_all add: pow_rat_def)
qed

lemma cycle_tolerance: "fl_of_rat (1 / 8) = Fin (1 / 8)"
  using fl_of_rat_representable [of "1 / 8"] representableI [of "1 / 8" 1 3] by simp

lemmas item_evals = ticket_def comment_def magic_def side_of_def matches_def field_float_def dict_item_def
  dict_get_def py_text_def py_or_def res_catch_def truthy_text_def

lemma strip_prefix: "\<not> is_space c \<Longrightarrow> str_strip (c # cs) \<noteq> []"
  by (simp add: str_strip_def dropWhile_eq_Nil_conv)

lemma cycle_latch: "\<not> is_space c \<Longrightarrow> \<exists>s'. latch (cycle_of ps ds) (c # cs) s = (Inr (), s')"
  by (simp add: latch_def journal_write_def latch_kill_switch_def cycle_of_def strip_prefix)
    (simp add: upper_evals)

lemma cycle_of_simps [simp]:
  "rq_orders (cycle_of ps ds) = []" "rq_positions (cycle_of ps ds) = ps" "rq_deals (cycle_of ps ds) = ds"
  "rq_magic_number (cycle_of ps ds) = 7" "rq_occurred_at (cycle_of ps ds) = run_time"
  "rq_clock (cycle_of ps ds) n = run_time" "require_utc name run_time = Inr run_time"
  by (simp_all add: cycle_of_def require_utc_def run_time_def utc_at_def)

lemma cycle_completes:
  assumes "reconcile_cycle q (active_intents st)
      (orphans (active_intents st) [''ticket'', ''position'', ''position_id''] (rq_positions q))
      (orphans (active_intents st) [''ticket'', ''order'', ''order_id''] (rq_orders q)) (cycle_start st) = (Inr (), s')"
    and "require_utc ''occurred_at'' (rq_occurred_at q) = Inr t"
  shows "\<exists>res st'. reconcile_broker_state q st = (Inr res, st')"
  using assms by (simp add: reconcile_broker_state_def Let_def)

lemma cycle_active: "active_intents (cycle_journal payload) = [cycle_row payload]"
  by (simp add: active_intents_def cycle_journal_def cycle_row_def new_row_def TERMINAL_STATES_def)

lemma cycle_facts:
  "position_facts (cycle_row (JDict cycle_payload)) cycle_position 7 = Inr (FILLED, True, [], Fin (1 / 4))"
  by (simp add: position_facts_def expected_payload_def cycle_row_def new_row_def cycle_payload_def cycle_position_def
      item_evals position_volumes_def volume_target_def protection_of_def has_server_protection_def eps_evals(2-4)
      cycle_tolerance fl_sub_Fin Let_def fired_def upper_evals)

lemma cycle_matches: "matches (cycle_row (JDict cycle_payload)) cycle_position"
  by (simp add: cycle_row_def new_row_def cycle_payload_def cycle_position_def item_evals)

lemma cycle_evidence_built:
  "evidence_of (cycle_of ps ds) (cycle_row p) FILLED (position_evidence cycle_position (Fin (1 / 4)) True) = Inr
     \<lparr>re_intent_id = ''i1'', re_expected_state = ACKNOWLEDGED, re_target_state = FILLED, re_observed_at = run_time,
      re_details = JDict [(''source'', JStr ''BROKER_POSITION_RECONCILIATION'')], re_broker_order_ticket = None,
      re_broker_position_ticket = Some ''5'', re_filled_volume = Some (Fin (1 / 4)),
      re_protective_sl_tp_confirmed = Some True, re_last_error = None\<rparr>"
  by (simp add: evidence_of_def ReconciliationEvidence_init_def cycle_row_def new_row_def position_evidence_def
      broker_facts_def cycle_position_def item_evals checked_def raise_if_def state_of_def EXECUTION_STATES_def upper_evals
      json_str_def str_startswith_def)

lemma cycle_evidence:
  "\<exists>t. apply_broker_evidence (cycle_of ps ds) (cycle_row (JDict cycle_payload)) FILLED
     (position_evidence cycle_position (Fin (1 / 4)) True) (cycle_start (cycle_journal (JDict cycle_payload))) = (Inr (), t)"
  by (simp add: apply_broker_evidence_def act_bind_def act_lift_def cycle_evidence_built)
    (simp add: journal_write_def apply_reconciliation_def cycle_start_def with_intent_def find_intent_def cycle_journal_def cycle_row_def
      new_row_def reconciliation_check_def truthy_text_def reconciliation_payload_def json_text_def jopt_def Let_def
      transition_locked_def evidence_facts_def fl_le_def)

lemma cycle_settles:
  "\<exists>t. reconcile_position (cycle_of ps ds) (cycle_row (JDict cycle_payload)) [] cycle_position
     (cycle_start (cycle_journal (JDict cycle_payload))) = (Inr (), t) \<and> rs_matched t \<noteq> []"
proof -
  let ?r = "cycle_row (JDict cycle_payload)" and ?s = "cycle_start (cycle_journal (JDict cycle_payload))"
  obtain t where "apply_broker_evidence (cycle_of ps ds) ?r FILLED
     (position_evidence cycle_position (Fin (1 / 4)) True) ?s = (Inr (), t)" using cycle_evidence by blast
  moreover have "observed_position ?r cycle_position 7 = Inr (FILLED, True, [], Fin (1 / 4))"
    by (simp add: observed_position_def cycle_facts res_catch_def)
  ultimately show ?thesis
    by (simp add: reconcile_position_def act_bind_def act_lift_def settle_position_def Let_def add_failures_sets(3)
        act_when_def act_return_def act_modify_def act_catch_def)
qed

lemma cycle_matched:
  "\<exists>t. reconcile_cycle (cycle_of [cycle_position] []) [cycle_row (JDict cycle_payload)] [] []
     (cycle_start (cycle_journal (JDict cycle_payload))) = (Inr (), t)"
  using cycle_settles [of "[cycle_position]" "[]"]
  by (auto simp: reconcile_cycle_def act_when_def reconcile_record_def cycle_matches observed_order_failures_def
      reconcile_objects_def act_bind_def act_lift_def act_return_def Let_def)

lemma cycle_refused:
  assumes "matches r pos" and "observed_position r pos 7 = Inr (PARTIAL, False, f # fs, v)"
  shows "\<exists>t. reconcile_cycle (cycle_of [pos] []) [r] [] [] (cycle_start st) = (Inr (), t)
    \<and> rs_protection t = [ir_intent_id r]"
proof -
  let ?q = "cycle_of [pos] []" and ?iid = "ir_intent_id r"
  let ?s = "add_failures ?iid (f # fs) (cycle_start st)"
  obtain t1 where t1: "latch ?q (''broker position mismatch for '' @ ?iid @ '': '' @ comma_sep (f # fs)) ?s = (Inr (), t1)"
    using cycle_latch [of "CHR ''b''"] by (fastforce simp: is_space_def)
  obtain t2 where t2: "latch ?q (''server-side SL/TP missing for intent '' @ ?iid)
      (t1\<lparr>rs_protection := rs_protection t1 @ [?iid]\<rparr>) = (Inr (), t2)"
    using cycle_latch [of "CHR ''s''"] by (fastforce simp: is_space_def)
  have "rs_protection t2 = [?iid]"
    using latched_Inr(6) [OF t1] latched_Inr(6) [OF t2] by (simp add: cycle_start_def)
  moreover have "reconcile_record ?q r (cycle_start st) = (Inr (), add_uncertain ?iid t2)"
    using t1 t2 assms
    by (simp add: reconcile_record_def observed_order_failures_def reconcile_objects_def reconcile_position_def
        settle_position_def act_bind_def act_lift_def act_when_def act_return_def act_modify_def Let_def)
  ultimately show ?thesis
    by (simp add: reconcile_cycle_def act_when_def act_bind_def act_return_def add_uncertain_def)
qed

section \<open>Properties\<close>

text \<open>
  (C16) A reconciliation cycle, on any broker data and also when it raises, changes the journal only by
  steps of the runtime, so that whatever holds of all reachable states (one exposed intent, the
  daily limit, no second send) holds after it.
\<close>

theorem reconcile_is_runtime_run:
  "rt_step\<^sup>*\<^sup>* rt (rt\<lparr>rt_journal := snd (reconcile_broker_state q (rt_journal rt))\<rparr>)"
proof -
  have "rt_step\<^sup>*\<^sup>* (rt\<lparr>rt_journal := rt_journal rt\<rparr>)
      (rt\<lparr>rt_journal := snd (reconcile_broker_state q (rt_journal rt))\<rparr>)"
    using reconcile_runs [of "rt_journal rt" q] unfolding runs_to_def by blast
  then show ?thesis by simp
qed



text \<open>
  (C18) Every active intent that may carry broker exposure is reported matched, uncertain or closed by a
  cycle that returns; a cycle that reports completion leaves none uncertain, found an active
  intent for every position and order, and every check passed.
\<close>

theorem reconcile_accounts_for_exposure:
  assumes "reconcile_broker_state q st = (Inr res, st')"
    and "r \<in> set (active_intents st)" and "ir_state r \<in> set GLOBAL_EXPOSURE_STATES"
  shows "ir_intent_id r \<in> set (rn_matched_intents res) \<union> set (rn_uncertain_intents res) \<union> set (rn_closed_intents res)
    \<and> (rn_status res = ''RECONCILIATION_COMPLETE'' \<longrightarrow>
         ir_intent_id r \<in> set (rn_matched_intents res) \<union> set (rn_closed_intents res)
         \<and> (\<forall>p \<in> set (rq_positions q) \<union> set (rq_orders q). \<exists>r \<in> set (active_intents st). matches r p))"
proof -
  let ?ps = "orphans (active_intents st) [''ticket'', ''position'', ''position_id''] (rq_positions q)"
  let ?os = "orphans (active_intents st) [''ticket'', ''order'', ''order_id''] (rq_orders q)"
  obtain s s' where each: "act_each (reconcile_record q) (active_intents st) s = (Inr (), s')"
    and "failed s = {}" and "only_switch st (rs_journal s)"
    and "?ps \<noteq> [] \<or> ?os \<noteq> [] \<longrightarrow> latched (rs_journal s)"
    and "st' = rs_journal s'" and res: "res = cycle_result ?ps ?os s'"
    using assms(1) by (rule reconcile_Inr)
  have acc: "ir_intent_id r \<in> accounted s'" by (rule cycle_sets(3) [OF each assms(2,3)])
  have complete: "rn_status res = ''RECONCILIATION_COMPLETE'' \<Longrightarrow> ?ps = [] \<and> ?os = [] \<and> rs_uncertain s' = []"
    by (auto simp: res cycle_result_def split: if_splits)
  have "ir_intent_id r \<in> set (rn_matched_intents res) \<union> set (rn_uncertain_intents res) \<union> set (rn_closed_intents res)"
    using acc by (auto simp: res cycle_result_def accounted_def)
  moreover have "ir_intent_id r \<in> set (rn_matched_intents res) \<union> set (rn_closed_intents res)"
    if "rn_status res = ''RECONCILIATION_COMPLETE''"
    using acc complete [OF that] by (auto simp: res cycle_result_def accounted_def)
  ultimately show ?thesis using complete orphans_Nil by blast
qed

theorem reconcile_accounts_for_exposure_witness:
  "\<exists>res st'. reconcile_broker_state (cycle_of [cycle_position] []) (cycle_journal (JDict cycle_payload)) = (Inr res, st')
     \<and> ''i1'' \<in> set (rn_matched_intents res) \<union> set (rn_uncertain_intents res) \<union> set (rn_closed_intents res)"
proof -
  let ?r = "cycle_row (JDict cycle_payload)" and ?st = "cycle_journal (JDict cycle_payload)"
  have none: "orphans [?r] ks [cycle_position] = []" "orphans [?r] ks [] = []" for ks
    by (simp_all add: orphans_def cycle_matches)
  obtain s' where "reconcile_cycle (cycle_of [cycle_position] []) [?r] [] [] (cycle_start ?st) = (Inr (), s')"
    using cycle_matched by blast
  then obtain res st' where run: "reconcile_broker_state (cycle_of [cycle_position] []) ?st = (Inr res, st')"
    using cycle_completes [of "cycle_of [cycle_position] []" ?st s'] by (auto simp: cycle_active none)
  have "ir_intent_id ?r = ''i1''" "ir_state ?r \<in> set GLOBAL_EXPOSURE_STATES"
    by (simp_all add: cycle_row_def new_row_def GLOBAL_EXPOSURE_STATES_def)
  with run reconcile_accounts_for_exposure [OF run, of ?r] show ?thesis by (simp add: cycle_active)
qed

text \<open>
  (C19) In a journal whose intent identifiers are distinct and carry no surrounding blanks, an intent for
  which a cycle reports a protection, volume or binding failure keeps its row: no ticket, volume,
  protection flag or state is taken from a broker object that failed a check.
\<close>

theorem refused_objects_change_nothing:
  assumes "reconcile_broker_state q st = (Inr res, st')"
    and "distinct (map ir_intent_id (j_intents st))"
    and "\<forall>r \<in> set (j_intents st). str_strip (ir_intent_id r) = ir_intent_id r"
    and "k \<in> set (rn_protection_failures res) \<union> set (rn_volume_failures res) \<union> set (rn_binding_failures res)"
  shows "find_intent k st' = find_intent k st"
proof -
  let ?ps = "orphans (active_intents st) [''ticket'', ''position'', ''position_id''] (rq_positions q)"
  let ?os = "orphans (active_intents st) [''ticket'', ''order'', ''order_id''] (rq_orders q)"
  obtain s s' where each: "act_each (reconcile_record q) (active_intents st) s = (Inr (), s')"
    and f: "failed s = {}" and sw: "only_switch st (rs_journal s)"
    and "?ps \<noteq> [] \<or> ?os \<noteq> [] \<longrightarrow> latched (rs_journal s)"
    and res: "st' = rs_journal s'" "res = cycle_result ?ps ?os s'"
    using assms(1) by (rule reconcile_Inr)
  have "k \<in> failed s'" using assms(4) failed_result(1) [of ?ps ?os s'] by (simp add: res)
  then have "find_intent k (rs_journal s') = find_intent k (rs_journal s)"
    using active_distinct [OF assms(2)] assms(3) f by (intro cycle_keeps_rows [OF each]) auto
  then show ?thesis using only_switch_intent [OF sw] by (simp add: res)
qed

theorem refused_objects_change_nothing_witness:
  "\<exists>res st'. reconcile_broker_state (cycle_of [cycle_position] [])
       (cycle_journal (JDict [(''broker_comment'', JStr ''C1'')])) = (Inr res, st')
     \<and> find_intent ''i1'' st' = Some (cycle_row (JDict [(''broker_comment'', JStr ''C1'')]))"
proof -
  let ?p = "JDict [(''broker_comment'', JStr ''C1'')]" and ?q = "cycle_of [cycle_position] []"
  let ?r = "cycle_row ?p" and ?st = "cycle_journal ?p"
  have match: "matches ?r cycle_position" and id: "ir_intent_id ?r = ''i1''"
    by (simp_all add: cycle_row_def new_row_def cycle_position_def item_evals)
  have none: "orphans [?r] ks [cycle_position] = []" "orphans [?r] ks [] = []" for ks
    by (simp_all add: orphans_def match)
  have obs: "observed_position ?r cycle_position 7
      = Inr (PARTIAL, False, [''IMMUTABLE_RECONCILIATION_PAYLOAD_MISSING''], Fin 0)"
    by (simp add: observed_position_def position_facts_def expected_payload_def cycle_row_def new_row_def res_catch_def)
  obtain s' where cycle: "reconcile_cycle ?q [?r] [] [] (cycle_start ?st) = (Inr (), s')"
    and prot: "rs_protection s' = [''i1'']"
    using cycle_refused [OF match obs] id by auto
  then obtain res st' where run: "reconcile_broker_state ?q ?st = (Inr res, st')"
    using cycle_completes [of ?q ?st s'] by (auto simp: cycle_active none)
  then have "res = cycle_result [] [] s'"
    using cycle by (simp add: reconcile_broker_state_def Let_def cycle_active none)
  then have "''i1'' \<in> set (rn_protection_failures res)" by (simp add: cycle_result_def prot)
  then have "find_intent ''i1'' st' = find_intent ''i1'' ?st"
    by (intro refused_objects_change_nothing [OF run])
      (simp_all add: cycle_journal_def id str_strip_def is_space_def)
  with run show ?thesis by (simp add: find_intent_def cycle_journal_def id)
qed

text \<open>
  (C20) A position is reported matched only if it was verified: symbol, side, magic number, volume
  and both protective prices agree with the intent's immutable payload, and no order remains beside
  a full fill. The intent's row then has the verified state, ticket and protection, and at least
  the verified volume; the kill switch is as before.
\<close>

theorem matched_position_verified:
  assumes "reconcile_position q r orders pos s = (Inr (), s')" and "rs_matched s' \<noteq> rs_matched s"
  shows "\<exists>target v row. position_verified r pos (rq_magic_number q) target v
    \<and> (orders = [] \<or> target = PARTIAL)
    \<and> find_intent (str_strip (ir_intent_id r)) (rs_journal s') = Some row
    \<and> ir_state row = target \<and> ir_protective_sl_tp_confirmed row \<and> \<not> fl_lt (ir_filled_volume row) v
    \<and> ir_broker_position_ticket row = ticket pos [''ticket'', ''position'', ''position_id'']
    \<and> ir_broker_position_ticket row \<noteq> None
    \<and> j_kill_switch (rs_journal s') = j_kill_switch (rs_journal s)"
proof -
  obtain target protected facts v where obs: "observed_position r pos (rq_magic_number q) = Inr (target, protected, facts, v)"
    and settle: "settle_position q r orders pos target protected facts v s = (Inr (), s')"
    using assms(1) by (auto simp: reconcile_position_def lift_bind_Inr)
  have clean: "facts = []" "protected" "orders = [] \<or> target \<noteq> FILLED"
    using settle_position_held [OF settle] assms(2) by (auto simp: held_def)
  then have "position_facts r pos (rq_magic_number q) = Inr (target, True, [], v)"
    using obs by (auto simp: observed_position_def res_catch_Inr)
  note facts = position_facts_verified [OF this] position_target [OF this]
  obtain t where t: "apply_broker_evidence q r target (position_evidence pos v True) s = (Inr (), t)"
    and s': "rs_journal s' = rs_journal t"
    using settle_position_clean [of q r orders pos target v s s'] settle clean assms(2) by (auto simp: held_def)
  from t obtain e j row where e: "evidence_of q r target (position_evidence pos v True) = Inr e"
    and j: "apply_reconciliation e (rq_clock q (rs_writes s)) (rs_journal s) = Inr (j, row)"
    and tj: "t = s\<lparr>rs_journal := j, rs_writes := rs_writes s + 1\<rparr>"
    by (rule apply_evidence_cases)
  note ev = evidence_of_Inr [OF e]
  from j obtain row0 now where row: "row = apply_facts (re_target_state e) now (evidence_facts e) row0"
    and found: "find_intent (re_intent_id e) j = Some row" and check: "reconciliation_check row0 e = Inr ()"
    by (rule apply_reconciliation_row)
  have ticket: "truthy_text (re_broker_position_ticket e)"
    using check facts(2) ev by (auto simp: reconciliation_check_def Let_def split: if_splits)
  note ev' = ev(3,7-9) [unfolded position_evidence_def, simplified]
  have row_facts: "ir_state row = target" "ir_protective_sl_tp_confirmed row" "\<not> fl_lt (ir_filled_volume row) v"
    "ir_broker_position_ticket row = ticket pos [''ticket'', ''position'', ''position_id'']"
    using ticket by (simp_all add: row apply_facts_def evidence_facts_def or_else_def next_filled_def ev' max_not_below)
  have known: "ir_broker_position_ticket row \<noteq> None"
    using ticket by (auto simp: row_facts(4) ev' truthy_text_def split: option.splits)
  have "find_intent (str_strip (ir_intent_id r)) (rs_journal s') = Some row"
    "j_kill_switch (rs_journal s') = j_kill_switch (rs_journal s)"
    using found ev(1) apply_reconciliation_frame(1) [OF j] by (simp_all add: s' tj)
  with facts row_facts known clean(3) show ?thesis by blast
qed

theorem matched_position_verified_witness:
  "\<exists>s' target v. reconcile_position (cycle_of [] []) (cycle_row (JDict cycle_payload)) [] cycle_position
       (cycle_start (cycle_journal (JDict cycle_payload))) = (Inr (), s')
     \<and> position_verified (cycle_row (JDict cycle_payload)) cycle_position 7 target v"
proof -
  obtain s' where run: "reconcile_position (cycle_of [] []) (cycle_row (JDict cycle_payload)) [] cycle_position
       (cycle_start (cycle_journal (JDict cycle_payload))) = (Inr (), s')" "rs_matched s' \<noteq> []"
    using cycle_settles by blast
  from matched_position_verified [OF run(1)] run show ?thesis by (auto simp: cycle_start_def)
qed



end
