(* ===== verification/Risk_Ledger.thy ===== *)
theory Risk_Ledger
  imports Contracts Py_Values
begin

text \<open>
  \<open>live_runtime/risk_ledger.py\<close>, first part: the binding of a ledger to an account, the risk events
  (account snapshots, entries, closed trades), the signed source receipt that accompanies an event,
  and \<open>_apply_event\<close>, the state machine a ledger replays. Stored payloads are JSON values; the
  parsers accept exactly what the constructors of the source accept, and a timestamp only in the
  canonical form with microseconds.
\<close>

section \<open>Constants and helpers\<close>

definition LEDGER_SCHEMA_VERSION :: string where
  "LEDGER_SCHEMA_VERSION = ''durable-risk-ledger-v1''"

definition EVENT_SCHEMA_VERSION :: string where
  "EVENT_SCHEMA_VERSION = ''durable-risk-event-v1''"

definition RECEIPT_SCHEMA_VERSION :: string where
  "RECEIPT_SCHEMA_VERSION = ''durable-risk-state-receipt-v1''"

definition CHECKPOINT_CAS_ACK_SCHEMA_VERSION :: string where
  "CHECKPOINT_CAS_ACK_SCHEMA_VERSION = ''durable-risk-checkpoint-cas-ack-v1''"

definition SOURCE_RECEIPT_SCHEMA_VERSION :: string where
  "SOURCE_RECEIPT_SCHEMA_VERSION = ''durable-risk-source-receipt-v1''"

definition ZERO_HMAC_SHA256 :: string where
  "ZERO_HMAC_SHA256 = replicate 64 CHR ''0''"

definition LOSS_LATCH_COUNT :: int where
  "LOSS_LATCH_COUNT = 2"

definition MAX_FUTURE_CLOCK_DRIFT :: int where
  "MAX_FUTURE_CLOCK_DRIFT = seconds 1"

definition MAX_SOURCE_RECEIPT_LIFETIME_SECONDS :: pyfloat where
  "MAX_SOURCE_RECEIPT_LIFETIME_SECONDS = Fin 5"

definition hmac_domain :: "string \<Rightarrow> string" where
  "hmac_domain name = ''AI_SCALPER_DURABLE_RISK_'' @ name @ ''_V1'' @ [CHR 0x00]"

definition is_ascii_alnum :: "char \<Rightarrow> bool" where
  "is_ascii_alnum c =
     (let n = of_char c :: nat in 48 \<le> n \<and> n \<le> 57 \<or> 65 \<le> n \<and> n \<le> 90 \<or> 97 \<le> n \<and> n \<le> 122)"

definition exact_id_text :: "string \<Rightarrow> bool" where
  "exact_id_text s =
     (s \<noteq> [] \<and> is_ascii_alnum (hd s) \<and> length s \<le> 128
      \<and> list_all (\<lambda>c. is_ascii_alnum c \<or> c \<in> set ''._:/@+-'') s)"

definition exact_id :: "string \<Rightarrow> string \<Rightarrow> string res" where
  "exact_id name v =
     (if exact_id_text v then Inr v
      else Inl (ValueError (name @ '' must be an exact session-safe identifier'')))"

definition exact_text :: "string \<Rightarrow> string \<Rightarrow> string res" where
  "exact_text name v =
     (if v = [] \<or> v \<noteq> str_strip v \<or> 255 < length v \<or> list_ex (\<lambda>c. (of_char c :: nat) < 32) v
      then Inl (ValueError (name @ '' must be exact non-empty text'')) else Inr v)"

definition is_upper_or_digit :: "char \<Rightarrow> bool" where
  "is_upper_or_digit c = (is_upper_letter c \<or> is_digit c)"

definition symbol_text :: "string \<Rightarrow> bool" where
  "symbol_text s =
     (s \<noteq> [] \<and> is_upper_or_digit (hd s) \<and> length s \<le> 32
      \<and> list_all (\<lambda>c. is_upper_or_digit c \<or> c \<in> set ''._-'') s)"

definition symbol_of :: "string \<Rightarrow> string res" where
  "symbol_of v =
     res_bind (require_text ''symbol'' v True) (\<lambda>normalized.
       if symbol_text normalized then Inr normalized else Inl (ValueError ''symbol is invalid''))"

definition ledger_key :: "string \<Rightarrow> string res" where
  "ledger_key secret =
     (if length secret < 32 then Inl (RiskLedgerIntegrityError ''risk-ledger HMAC key must contain 32 bytes'')
      else Inr secret)"

definition risk_hmac :: "string \<Rightarrow> string \<Rightarrow> json \<Rightarrow> string" where
  "risk_hmac secret domain v = hmac_sha256_hex secret (domain @ canonical_json v)"

fun strict_object :: "string \<Rightarrow> json \<Rightarrow> item res" where
  "strict_object field (JDict kvs) = Inr kvs"
| "strict_object field v = Inl (RiskLedgerIntegrityError (field @ '' must be an object''))"

definition exact_fields :: "item \<Rightarrow> string list \<Rightarrow> string \<Rightarrow> unit res" where
  "exact_fields d expected field =
     (if set (map fst d) \<noteq> set expected then Inl (RiskLedgerIntegrityError (field @ '' fields are invalid''))
      else Inr ())"

text \<open>An argument that the source requires to be a \<open>str\<close> and checks with a regular expression.\<close>

fun json_exact_id :: "string \<Rightarrow> json \<Rightarrow> string res" where
  "json_exact_id name (JStr s) = exact_id name s"
| "json_exact_id name v = Inl (ValueError (name @ '' must be an exact session-safe identifier''))"

fun json_exact_text :: "string \<Rightarrow> json \<Rightarrow> string res" where
  "json_exact_text name (JStr s) = exact_text name s"
| "json_exact_text name v = Inl (ValueError (name @ '' must be exact non-empty text''))"

fun json_finite_of :: "string \<Rightarrow> json \<Rightarrow> pyfloat res" where
  "json_finite_of name (JBool b) = Inl (TypeError (name @ '' must be numeric, not bool''))"
| "json_finite_of name v =
     (case py_float v of
        Inl (OverflowError m) \<Rightarrow> Inl (OverflowError m)
      | Inl e \<Rightarrow> Inl (TypeError (name @ '' must be numeric''))
      | Inr x \<Rightarrow> Inr x)"

section \<open>Stored timestamps\<close>

definition ymd2days :: "int \<Rightarrow> int \<Rightarrow> int \<Rightarrow> int" where
  "ymd2days y m d =
     (let p = y - 1 in 365 * p + p div 4 - p div 100 + p div 400 + days_before_month y m + d - 1)"

definition days_in_month :: "int \<Rightarrow> int \<Rightarrow> int" where
  "days_in_month y m = (if m = 12 then 31 else days_before_month y (m + 1) - days_before_month y m)"

definition two_digits :: "string \<Rightarrow> nat \<Rightarrow> int" where
  "two_digits s i = digits_value (map (\<lambda>c. of_char c - 48) (take 2 (drop i s)))"

text \<open>
  The instant a text of the shape \<open>YYYY-MM-DDTHH:MM:SS.ffffffZ\<close> denotes, None when a field is out of
  range. Every other text \<open>fromisoformat\<close> accepts is refused by the test for canonical form.
\<close>

definition iso_fields :: "string \<Rightarrow> datetime option" where
  "iso_fields s =
     (let num = two_digits s; y = 100 * num 0 + num 2; m = num 5; d = num 8; h = num 11; mi = num 14; sec = num 17;
          us = 10000 * num 20 + 100 * num 22 + num 24 in
      if length s \<noteq> 27 \<or> \<not> list_all is_digit (map (nth s) [0, 1, 2, 3, 5, 6, 8, 9, 11, 12, 14, 15, 17, 18,
             20, 21, 22, 23, 24, 25])
         \<or> y < 1 \<or> m < 1 \<or> 12 < m \<or> d < 1 \<or> days_in_month y m < d \<or> 23 < h \<or> 59 < mi \<or> 59 < sec
      then None
      else Some (utc_at (ymd2days y m d * day_us + ((h * 60 + mi) * 60 + sec) * 1000000 + us)))"

fun parse_utc :: "json \<Rightarrow> datetime res" where
  "parse_utc (JStr s) =
     (case iso_fields s of
        None \<Rightarrow> Inl (RiskLedgerIntegrityError ''stored timestamp is not aware UTC'')
      | Some d \<Rightarrow> if canonical_datetime d \<noteq> s
                    then Inl (RiskLedgerIntegrityError ''stored timestamp is not canonical UTC'') else Inr d)"
| "parse_utc v = Inl (RiskLedgerIntegrityError ''stored timestamp must be text'')"

section \<open>RiskLedgerBinding\<close>

record RiskLedgerBinding =
  lb_account_id_sha256 :: string
  lb_server :: string
  lb_environment :: string
  lb_journal_sha256 :: string
  lb_broker_spec_sha256 :: string
  lb_account_currency :: string

definition RiskLedgerBinding_init :: "RiskLedgerBinding \<Rightarrow> RiskLedgerBinding res" where
  "RiskLedgerBinding_init b =
     (let environment = norm_text True (lb_environment b) in
      checked
        [err_of (require_hash ''account_id_sha256'' (lb_account_id_sha256 b) 64),
         raise_if (norm_hash (lb_account_id_sha256 b) = ZERO_HMAC_SHA256)
           (ValueError ''account_id_sha256 cannot be the zero hash''),
         err_of (exact_text ''server'' (lb_server b)),
         err_of (require_text ''environment'' (lb_environment b) True),
         raise_if (environment \<notin> {''DEMO'', ''LIVE''}) (ValueError ''environment must be DEMO or LIVE''),
         err_of (require_hash ''journal_sha256'' (lb_journal_sha256 b) 64),
         err_of (require_hash ''broker_spec_sha256'' (lb_broker_spec_sha256 b) 64),
         err_of (require_currency ''account_currency'' (lb_account_currency b))]
        (b\<lparr>lb_account_id_sha256 := norm_hash (lb_account_id_sha256 b), lb_environment := environment,
           lb_journal_sha256 := norm_hash (lb_journal_sha256 b),
           lb_broker_spec_sha256 := norm_hash (lb_broker_spec_sha256 b),
           lb_account_currency := norm_text True (lb_account_currency b)\<rparr>))"

definition RiskLedgerBinding_dict :: "RiskLedgerBinding \<Rightarrow> json" where
  "RiskLedgerBinding_dict b = JDict
     [(''account_id_sha256'', JStr (lb_account_id_sha256 b)),
      (''server'', JStr (lb_server b)),
      (''environment'', JStr (lb_environment b)),
      (''journal_sha256'', JStr (lb_journal_sha256 b)),
      (''broker_spec_sha256'', JStr (lb_broker_spec_sha256 b)),
      (''account_currency'', JStr (lb_account_currency b))]"

definition binding_from_payload :: "json \<Rightarrow> RiskLedgerBinding res" where
  "binding_from_payload v =
     res_bind (strict_object ''binding'' v) (\<lambda>p.
     res_bind (exact_fields p [''account_id_sha256'', ''server'', ''environment'', ''journal_sha256'',
                              ''broker_spec_sha256'', ''account_currency''] ''binding'') (\<lambda>_.
       res_reraise type_or_value_error (RiskLedgerIntegrityError ''stored binding is invalid'')
         (res_bind (json_exact_text ''server'' (dict_get p ''server'')) (\<lambda>server.
            RiskLedgerBinding_init
              \<lparr>lb_account_id_sha256 = py_text (dict_get p ''account_id_sha256''), lb_server = server,
               lb_environment = py_text (dict_get p ''environment''),
               lb_journal_sha256 = py_text (dict_get p ''journal_sha256''),
               lb_broker_spec_sha256 = py_text (dict_get p ''broker_spec_sha256''),
               lb_account_currency = py_text (dict_get p ''account_currency'')\<rparr>))))"

section \<open>Events\<close>

record AccountRiskSnapshot =
  as_snapshot_id :: string
  as_binding :: RiskLedgerBinding
  as_observed_at_utc :: datetime
  as_daily_baseline_id :: string
  as_weekly_baseline_id :: string
  as_equity :: pyfloat
  as_schema_version :: string

record EntryRiskEvent =
  ee_entry_id :: string
  ee_binding :: RiskLedgerBinding
  ee_occurred_at_utc :: datetime
  ee_daily_baseline_id :: string
  ee_weekly_baseline_id :: string
  ee_symbol :: string
  ee_schema_version :: string

record ClosedTradeRiskEvent =
  ct_trade_id :: string
  ct_entry_id :: string
  ct_binding :: RiskLedgerBinding
  ct_occurred_at_utc :: datetime
  ct_daily_baseline_id :: string
  ct_weekly_baseline_id :: string
  ct_symbol :: string
  ct_outcome :: string
  ct_realized_pnl :: pyfloat
  ct_schema_version :: string

definition AccountRiskSnapshot_init :: "AccountRiskSnapshot \<Rightarrow> AccountRiskSnapshot res" where
  "AccountRiskSnapshot_init e =
     checked
       [err_of (exact_id ''snapshot_id'' (as_snapshot_id e)),
        err_of (require_utc ''observed_at_utc'' (as_observed_at_utc e)),
        err_of (exact_id ''daily_baseline_id'' (as_daily_baseline_id e)),
        err_of (exact_id ''weekly_baseline_id'' (as_weekly_baseline_id e)),
        err_of (require_finite ''equity'' (NFloat (as_equity e)) True False),
        raise_if (as_schema_version e \<noteq> EVENT_SCHEMA_VERSION) (ValueError ''snapshot schema version is invalid'')]
       e"

definition EntryRiskEvent_init :: "EntryRiskEvent \<Rightarrow> EntryRiskEvent res" where
  "EntryRiskEvent_init e =
     res_bind (checked
       [err_of (exact_id ''entry_id'' (ee_entry_id e)),
        err_of (require_utc ''occurred_at_utc'' (ee_occurred_at_utc e)),
        err_of (exact_id ''daily_baseline_id'' (ee_daily_baseline_id e)),
        err_of (exact_id ''weekly_baseline_id'' (ee_weekly_baseline_id e))] ()) (\<lambda>_.
     res_bind (symbol_of (ee_symbol e)) (\<lambda>symbol.
       if ee_schema_version e \<noteq> EVENT_SCHEMA_VERSION then Inl (ValueError ''entry schema version is invalid'')
       else Inr (e\<lparr>ee_symbol := symbol\<rparr>)))"

definition pnl_inconsistent :: "string \<Rightarrow> pyfloat \<Rightarrow> bool" where
  "pnl_inconsistent outcome pnl =
     (outcome = ''WIN'' \<and> fl_le pnl (Fin 0) \<or> outcome = ''LOSS'' \<and> fl_le (Fin 0) pnl
      \<or> outcome = ''BREAKEVEN'' \<and> \<not> fl_eq pnl (Fin 0))"

definition ClosedTradeRiskEvent_init :: "ClosedTradeRiskEvent \<Rightarrow> ClosedTradeRiskEvent res" where
  "ClosedTradeRiskEvent_init e =
     res_bind (checked
       [err_of (exact_id ''trade_id'' (ct_trade_id e)), err_of (exact_id ''entry_id'' (ct_entry_id e)),
        err_of (require_utc ''occurred_at_utc'' (ct_occurred_at_utc e)),
        err_of (exact_id ''daily_baseline_id'' (ct_daily_baseline_id e)),
        err_of (exact_id ''weekly_baseline_id'' (ct_weekly_baseline_id e))] ()) (\<lambda>_.
     res_bind (symbol_of (ct_symbol e)) (\<lambda>symbol.
     res_bind (require_text ''outcome'' (ct_outcome e) True) (\<lambda>outcome.
       checked
         [raise_if (outcome \<notin> {''WIN'', ''LOSS'', ''BREAKEVEN''}) (ValueError ''outcome must be WIN, LOSS, or BREAKEVEN''),
          err_of (require_finite ''realized_pnl_account_currency'' (NFloat (ct_realized_pnl e)) False False),
          raise_if (pnl_inconsistent outcome (ct_realized_pnl e))
            (ValueError ''outcome and realized PnL are inconsistent''),
          raise_if (ct_schema_version e \<noteq> EVENT_SCHEMA_VERSION)
            (ValueError ''closed-trade schema version is invalid'')]
         (e\<lparr>ct_symbol := symbol, ct_outcome := outcome\<rparr>))))"

datatype risk_event = Snapshot AccountRiskSnapshot | Entry EntryRiskEvent | Closed ClosedTradeRiskEvent

fun risk_event_dict :: "risk_event \<Rightarrow> json" where
  "risk_event_dict (Snapshot e) = JDict
     [(''snapshot_id'', JStr (as_snapshot_id e)), (''binding'', RiskLedgerBinding_dict (as_binding e)),
      (''observed_at_utc'', jtime (as_observed_at_utc e)), (''daily_baseline_id'', JStr (as_daily_baseline_id e)),
      (''weekly_baseline_id'', JStr (as_weekly_baseline_id e)), (''equity'', JFloat (as_equity e)),
      (''schema_version'', JStr (as_schema_version e))]"
| "risk_event_dict (Entry e) = JDict
     [(''entry_id'', JStr (ee_entry_id e)), (''binding'', RiskLedgerBinding_dict (ee_binding e)),
      (''occurred_at_utc'', jtime (ee_occurred_at_utc e)), (''daily_baseline_id'', JStr (ee_daily_baseline_id e)),
      (''weekly_baseline_id'', JStr (ee_weekly_baseline_id e)), (''symbol'', JStr (ee_symbol e)),
      (''schema_version'', JStr (ee_schema_version e))]"
| "risk_event_dict (Closed e) = JDict
     [(''trade_id'', JStr (ct_trade_id e)), (''entry_id'', JStr (ct_entry_id e)),
      (''binding'', RiskLedgerBinding_dict (ct_binding e)),
      (''occurred_at_utc'', jtime (ct_occurred_at_utc e)), (''daily_baseline_id'', JStr (ct_daily_baseline_id e)),
      (''weekly_baseline_id'', JStr (ct_weekly_baseline_id e)), (''symbol'', JStr (ct_symbol e)),
      (''outcome'', JStr (ct_outcome e)), (''realized_pnl_account_currency'', JFloat (ct_realized_pnl e)),
      (''schema_version'', JStr (ct_schema_version e))]"

definition event_content_sha256 :: "risk_event \<Rightarrow> string" where
  "event_content_sha256 e = canonical_sha256 (risk_event_dict e)"

text \<open>The identifiers and times of an event, as \<open>_event_metadata\<close> returns them.\<close>

record EventMetadata =
  em_event_type :: string
  em_event_id :: string
  em_related_entry_id :: "string option"
  em_occurred_at :: datetime
  em_daily_id :: string
  em_weekly_id :: string

fun event_metadata :: "risk_event \<Rightarrow> EventMetadata" where
  "event_metadata (Snapshot e) =
     \<lparr>em_event_type = ''ACCOUNT_SNAPSHOT'', em_event_id = as_snapshot_id e, em_related_entry_id = None,
      em_occurred_at = as_observed_at_utc e, em_daily_id = as_daily_baseline_id e,
      em_weekly_id = as_weekly_baseline_id e\<rparr>"
| "event_metadata (Entry e) =
     \<lparr>em_event_type = ''ENTRY'', em_event_id = ee_entry_id e, em_related_entry_id = None,
      em_occurred_at = ee_occurred_at_utc e, em_daily_id = ee_daily_baseline_id e,
      em_weekly_id = ee_weekly_baseline_id e\<rparr>"
| "event_metadata (Closed e) =
     \<lparr>em_event_type = ''CLOSED_TRADE'', em_event_id = ct_trade_id e, em_related_entry_id = Some (ct_entry_id e),
      em_occurred_at = ct_occurred_at_utc e, em_daily_id = ct_daily_baseline_id e,
      em_weekly_id = ct_weekly_baseline_id e\<rparr>"

fun event_binding :: "risk_event \<Rightarrow> RiskLedgerBinding" where
  "event_binding (Snapshot e) = as_binding e"
| "event_binding (Entry e) = ee_binding e"
| "event_binding (Closed e) = ct_binding e"

fun json_text_of :: "json \<Rightarrow> string" where
  "json_text_of (JStr s) = s"
| "json_text_of v = []"

definition snapshot_from_payload :: "item \<Rightarrow> risk_event res" where
  "snapshot_from_payload p =
     res_bind (exact_fields p [''snapshot_id'', ''binding'', ''observed_at_utc'', ''daily_baseline_id'',
                              ''weekly_baseline_id'', ''equity'', ''schema_version''] ''account snapshot'') (\<lambda>_.
     res_bind (binding_from_payload (dict_get p ''binding'')) (\<lambda>binding.
     res_bind (parse_utc (dict_get p ''observed_at_utc'')) (\<lambda>observed.
     res_bind (json_exact_id ''snapshot_id'' (dict_get p ''snapshot_id'')) (\<lambda>snapshot_id.
     res_bind (json_exact_id ''daily_baseline_id'' (dict_get p ''daily_baseline_id'')) (\<lambda>daily.
     res_bind (json_exact_id ''weekly_baseline_id'' (dict_get p ''weekly_baseline_id'')) (\<lambda>weekly.
     res_bind (json_finite_of ''equity'' (dict_get p ''equity'')) (\<lambda>equity.
     res_bind (AccountRiskSnapshot_init
       \<lparr>as_snapshot_id = snapshot_id, as_binding = binding, as_observed_at_utc = observed,
        as_daily_baseline_id = daily, as_weekly_baseline_id = weekly, as_equity = equity,
        as_schema_version = json_text_of (dict_get p ''schema_version'')\<rparr>) (\<lambda>e. Inr (Snapshot e)))))))))"

definition entry_from_payload :: "item \<Rightarrow> risk_event res" where
  "entry_from_payload p =
     res_bind (exact_fields p [''entry_id'', ''binding'', ''occurred_at_utc'', ''daily_baseline_id'',
                              ''weekly_baseline_id'', ''symbol'', ''schema_version''] ''entry event'') (\<lambda>_.
     res_bind (binding_from_payload (dict_get p ''binding'')) (\<lambda>binding.
     res_bind (parse_utc (dict_get p ''occurred_at_utc'')) (\<lambda>occurred.
     res_bind (json_exact_id ''entry_id'' (dict_get p ''entry_id'')) (\<lambda>entry_id.
     res_bind (json_exact_id ''daily_baseline_id'' (dict_get p ''daily_baseline_id'')) (\<lambda>daily.
     res_bind (json_exact_id ''weekly_baseline_id'' (dict_get p ''weekly_baseline_id'')) (\<lambda>weekly.
     res_bind (EntryRiskEvent_init
       \<lparr>ee_entry_id = entry_id, ee_binding = binding, ee_occurred_at_utc = occurred,
        ee_daily_baseline_id = daily, ee_weekly_baseline_id = weekly,
        ee_symbol = py_text (dict_get p ''symbol''),
        ee_schema_version = json_text_of (dict_get p ''schema_version'')\<rparr>) (\<lambda>e. Inr (Entry e))))))))"

definition closed_from_payload :: "item \<Rightarrow> risk_event res" where
  "closed_from_payload p =
     res_bind (exact_fields p [''trade_id'', ''entry_id'', ''binding'', ''occurred_at_utc'', ''daily_baseline_id'',
                              ''weekly_baseline_id'', ''symbol'', ''outcome'', ''realized_pnl_account_currency'',
                              ''schema_version''] ''closed-trade event'') (\<lambda>_.
     res_bind (binding_from_payload (dict_get p ''binding'')) (\<lambda>binding.
     res_bind (parse_utc (dict_get p ''occurred_at_utc'')) (\<lambda>occurred.
     res_bind (json_exact_id ''trade_id'' (dict_get p ''trade_id'')) (\<lambda>trade_id.
     res_bind (json_exact_id ''entry_id'' (dict_get p ''entry_id'')) (\<lambda>entry_id.
     res_bind (json_exact_id ''daily_baseline_id'' (dict_get p ''daily_baseline_id'')) (\<lambda>daily.
     res_bind (json_exact_id ''weekly_baseline_id'' (dict_get p ''weekly_baseline_id'')) (\<lambda>weekly.
     res_bind (symbol_of (py_text (dict_get p ''symbol''))) (\<lambda>symbol.
     res_bind (require_text ''outcome'' (py_text (dict_get p ''outcome'')) True) (\<lambda>outcome.
     res_bind (checked [raise_if (outcome \<notin> {''WIN'', ''LOSS'', ''BREAKEVEN''})
       (ValueError ''outcome must be WIN, LOSS, or BREAKEVEN'')] ()) (\<lambda>_.
     res_bind (json_finite_of ''realized_pnl_account_currency'' (dict_get p ''realized_pnl_account_currency'')) (\<lambda>pnl.
     res_bind (ClosedTradeRiskEvent_init
       \<lparr>ct_trade_id = trade_id, ct_entry_id = entry_id, ct_binding = binding, ct_occurred_at_utc = occurred,
        ct_daily_baseline_id = daily, ct_weekly_baseline_id = weekly, ct_symbol = symbol, ct_outcome = outcome,
        ct_realized_pnl = pnl,
        ct_schema_version = json_text_of (dict_get p ''schema_version'')\<rparr>) (\<lambda>e. Inr (Closed e)))))))))))))"

definition event_from_payload :: "string \<Rightarrow> item \<Rightarrow> risk_event res" where
  "event_from_payload event_type p =
     (if event_type \<in> {''ACCOUNT_SNAPSHOT'', ''ENTRY'', ''CLOSED_TRADE''}
      then res_reraise key_type_or_value_error (RiskLedgerIntegrityError ''stored risk event is invalid'')
        (if event_type = ''ACCOUNT_SNAPSHOT'' then snapshot_from_payload p
         else if event_type = ''ENTRY'' then entry_from_payload p else closed_from_payload p)
      else Inl (RiskLedgerIntegrityError ''stored risk event type is invalid''))"

end
