(* ===== verification/Runtime_Facts.thy ===== *)
theory Runtime_Facts
  imports Health Market_Guard Risk_Ledger
begin

text \<open>
  \<open>live_runtime/runtime_fact_collector.py\<close>: the tick, the account and the health facts of one
  collection, the signed receipt that binds them for one second, the collector and the verification of
  a receipt. The adapter, the journal and the host are objects the collector is given: what their
  methods and providers return is an argument, an exception they raise included. A value of unknown
  type is a \<open>json\<close>, a value that should be a \<open>datetime\<close> is \<open>None\<close> when it is not one.
  \<open>runtime_fact_receipt_from_mapping\<close> is not modelled.
\<close>

section \<open>Constants and helpers\<close>

definition RUNTIME_FACT_RECEIPT_SCHEMA_VERSION :: string where
  "RUNTIME_FACT_RECEIPT_SCHEMA_VERSION = ''runtime-fact-receipt-v2''"

definition RUNTIME_TICK_FACT_SCHEMA_VERSION :: string where
  "RUNTIME_TICK_FACT_SCHEMA_VERSION = ''runtime-tick-fact-v1''"

definition RUNTIME_FACT_RECEIPT_MAX_AGE :: int where
  "RUNTIME_FACT_RECEIPT_MAX_AGE = seconds 1"

definition RUNTIME_FACT_HMAC_DOMAIN :: string where
  "RUNTIME_FACT_HMAC_DOMAIN = ''AI_SCALPER_RUNTIME_FACT_RECEIPT_V1'' @ [CHR 0x00]"

definition fact_secret_bytes :: "string \<Rightarrow> string res" where
  "fact_secret_bytes secret =
     (if length secret < 32 then Inl (ValueError ''runtime fact HMAC secret must contain at least 32 bytes'')
      else Inr secret)"

fun is_collection_error :: "exn \<Rightarrow> bool" where
  "is_collection_error (RuntimeFactCollectionError m) = True"
| "is_collection_error e = False"

definition call_required :: "string \<Rightarrow> 'a res \<Rightarrow> 'a res" where
  "call_required reason_code = res_reraise (\<lambda>e. \<not> is_collection_error e) (RuntimeFactCollectionError reason_code)"

fun require_bool :: "string \<Rightarrow> json \<Rightarrow> bool res" where
  "require_bool name (JBool b) = Inr b"
| "require_bool name v = Inl (TypeError (name @ '' must be bool''))"

definition require_datetime :: "string \<Rightarrow> datetime option \<Rightarrow> datetime res" where
  "require_datetime name v =
     (case v of None \<Rightarrow> Inl (TypeError (name @ '' must be a datetime'')) | Some d \<Rightarrow> require_utc name d)"

definition require_finite_json :: "string \<Rightarrow> json \<Rightarrow> bool \<Rightarrow> bool \<Rightarrow> pyfloat res" where
  "require_finite_json name v positive nonnegative =
     res_bind (json_finite_of name v) (\<lambda>x. require_finite name (NFloat x) positive nonnegative)"

fun require_int_json :: "string \<Rightarrow> json \<Rightarrow> int \<Rightarrow> int res" where
  "require_int_json name (JInt i) minimum = require_int name (NInt i) minimum None"
| "require_int_json name v minimum = Inl (TypeError (name @ '' must be an integer''))"

definition account_binding_dict :: "string \<Rightarrow> string \<Rightarrow> string \<Rightarrow> string \<Rightarrow> json" where
  "account_binding_dict account_id server environment identity = JDict
     [(''account_id'', JStr (norm_text False account_id)), (''server'', JStr (norm_text False server)),
      (''environment'', JStr (norm_text True environment)),
      (''account_runtime_identity_sha256'', JStr (norm_hash identity))]"

definition account_binding_sha256 :: "string \<Rightarrow> string \<Rightarrow> string \<Rightarrow> string \<Rightarrow> string res" where
  "account_binding_sha256 account_id server environment identity =
     checked
       [err_of (require_text ''account_id'' account_id False), err_of (require_text ''server'' server False),
        err_of (require_text ''environment'' environment True),
        err_of (require_hash ''account_runtime_identity_sha256'' identity 64)]
       (canonical_sha256 (account_binding_dict account_id server environment identity))"

section \<open>Facts\<close>

record RuntimeTickFact =
  tf_broker_symbol :: string
  tf_bid :: pyfloat
  tf_ask :: pyfloat
  tf_time_utc :: datetime
  tf_age_seconds :: pyfloat
  tf_collected_at_utc :: datetime
  tf_schema_version :: string

definition RuntimeTickFact_init :: "RuntimeTickFact \<Rightarrow> RuntimeTickFact res" where
  "RuntimeTickFact_init t =
     (let observed_age = total_seconds (dt_sub (tf_collected_at_utc t) (tf_time_utc t)) in
      checked
        [err_of (require_text ''broker_symbol'' (tf_broker_symbol t) False),
         err_of (require_finite ''bid'' (NFloat (tf_bid t)) True False),
         err_of (require_finite ''ask'' (NFloat (tf_ask t)) True False),
         raise_if (fl_lt (tf_ask t) (tf_bid t)) (ValueError ''tick ask cannot be below bid''),
         err_of (require_utc ''time_utc'' (tf_time_utc t)),
         err_of (require_utc ''collected_at_utc'' (tf_collected_at_utc t)),
         err_of (require_finite ''age_seconds'' (NFloat (tf_age_seconds t)) False False),
         raise_if (fl_lt (tf_age_seconds t) (Fin (- 1))) (ValueError ''tick is too far in the future''),
         raise_if (fl_lt (fl_of_rat (1 / 10)) (fl_abs (fl_sub observed_age (tf_age_seconds t))))
           (ValueError ''tick age is inconsistent with collection time''),
         err_of (require_text ''schema_version'' (tf_schema_version t) False),
         raise_if (norm_text False (tf_schema_version t) \<noteq> RUNTIME_TICK_FACT_SCHEMA_VERSION)
           (ValueError ''unsupported runtime tick fact schema'')]
        (t\<lparr>tf_broker_symbol := norm_text False (tf_broker_symbol t),
           tf_schema_version := norm_text False (tf_schema_version t)\<rparr>))"

definition RuntimeTickFact_dict :: "RuntimeTickFact \<Rightarrow> json" where
  "RuntimeTickFact_dict t = JDict
     [(''broker_symbol'', JStr (tf_broker_symbol t)), (''bid'', JFloat (tf_bid t)), (''ask'', JFloat (tf_ask t)),
      (''time_utc'', jtime (tf_time_utc t)), (''age_seconds'', JFloat (tf_age_seconds t)),
      (''collected_at_utc'', jtime (tf_collected_at_utc t)), (''schema_version'', JStr (tf_schema_version t))]"

record RuntimeAccountFact =
  af_account_id :: string
  af_server :: string
  af_currency :: string
  af_balance :: pyfloat
  af_equity :: pyfloat
  af_margin :: pyfloat
  af_margin_free :: pyfloat
  af_margin_level :: pyfloat
  af_trade_allowed :: bool
  af_trade_expert :: bool
  af_captured_at_utc :: datetime

definition RuntimeAccountFact_init :: "RuntimeAccountFact \<Rightarrow> RuntimeAccountFact res" where
  "RuntimeAccountFact_init a =
     (let currency = norm_text True (af_currency a) in
      checked
        [err_of (require_text ''account_id'' (af_account_id a) False),
         err_of (require_text ''server'' (af_server a) False),
         err_of (require_text ''currency'' (af_currency a) True),
         raise_if (length currency \<noteq> 3 \<or> \<not> list_all is_alpha currency)
           (ValueError ''account currency must be a three-letter code''),
         err_of (require_finite ''balance'' (NFloat (af_balance a)) False False),
         err_of (require_finite ''equity'' (NFloat (af_equity a)) True False),
         err_of (require_finite ''margin'' (NFloat (af_margin a)) False True),
         err_of (require_finite ''margin_free'' (NFloat (af_margin_free a)) False False),
         err_of (require_finite ''margin_level'' (NFloat (af_margin_level a)) False True),
         err_of (require_utc ''captured_at_utc'' (af_captured_at_utc a))]
        (a\<lparr>af_account_id := norm_text False (af_account_id a), af_server := norm_text False (af_server a),
           af_currency := currency\<rparr>))"

definition RuntimeAccountFact_dict :: "RuntimeAccountFact \<Rightarrow> json" where
  "RuntimeAccountFact_dict a = JDict
     [(''account_id'', JStr (af_account_id a)), (''server'', JStr (af_server a)), (''currency'', JStr (af_currency a)),
      (''balance'', JFloat (af_balance a)), (''equity'', JFloat (af_equity a)), (''margin'', JFloat (af_margin a)),
      (''margin_free'', JFloat (af_margin_free a)), (''margin_level'', JFloat (af_margin_level a)),
      (''trade_allowed'', JBool (af_trade_allowed a)), (''trade_expert'', JBool (af_trade_expert a)),
      (''captured_at_utc'', jtime (af_captured_at_utc a))]"

definition RuntimeHealthFacts_dict :: "RuntimeHealthFacts \<Rightarrow> json" where
  "RuntimeHealthFacts_dict f = JDict
     [(''observed_at'', jtime (hf_observed_at f)), (''heartbeat_at'', jtime (hf_heartbeat_at f)),
      (''clock_drift_seconds'', JFloat (hf_clock_drift_seconds f)), (''free_disk_bytes'', JInt (hf_free_disk_bytes f)),
      (''database_integrity_ok'', JBool (hf_database_integrity_ok f)),
      (''broker_connected'', JBool (hf_broker_connected f)), (''data_feed_fresh'', JBool (hf_data_feed_fresh f)),
      (''audit_export_healthy'', JBool (hf_audit_export_healthy f)), (''backup_recent'', JBool (hf_backup_recent f)),
      (''kill_switch_latched'', JBool (hf_kill_switch_latched f))]"

definition RuntimeHealthDecision_dict :: "RuntimeHealthDecision \<Rightarrow> json" where
  "RuntimeHealthDecision_dict d = JDict
     [(''healthy'', JBool (hd_healthy d)), (''reason_codes'', jstrs (hd_reason_codes d)),
      (''observed_at'', jtime (hd_observed_at d)), (''live_allowed'', JBool (hd_live_allowed d)),
      (''safe_to_demo_auto_order'', JBool (hd_safe_to_demo_auto_order d))]"

section \<open>RuntimeFactReceipt\<close>

record RuntimeFactReceipt =
  rf_account_id :: string
  rf_server :: string
  rf_environment :: string
  rf_symbol :: string
  rf_broker_symbol :: string
  rf_account_runtime_identity_sha256 :: string
  rf_account_binding_sha256 :: string
  rf_account_fact :: RuntimeAccountFact
  rf_account_fact_sha256 :: string
  rf_broker_spec :: BrokerSpec
  rf_broker_spec_sha256 :: string
  rf_tick :: RuntimeTickFact
  rf_tick_sha256 :: string
  rf_health_facts :: RuntimeHealthFacts
  rf_health_facts_sha256 :: string
  rf_health_decision :: RuntimeHealthDecision
  rf_health_decision_sha256 :: string
  rf_health_source_evidence_sha256 :: string
  rf_health_trust_policy_sha256 :: string
  rf_journal_sha256 :: string
  rf_key_id :: string
  rf_observed_at_utc :: datetime
  rf_valid_until_utc :: datetime
  rf_signature :: string
  rf_live_allowed :: bool
  rf_safe_to_demo_auto_order :: bool
  rf_schema_version :: string

definition within_second :: "datetime \<Rightarrow> datetime \<Rightarrow> bool" where
  "within_second later earlier =
     (0 \<le> dt_sub later earlier \<and> dt_sub later earlier \<le> RUNTIME_FACT_RECEIPT_MAX_AGE)"

definition normalize_receipt :: "RuntimeFactReceipt \<Rightarrow> RuntimeFactReceipt" where
  "normalize_receipt r = r
     \<lparr>rf_account_id := norm_text False (rf_account_id r), rf_server := norm_text False (rf_server r),
      rf_environment := norm_text True (rf_environment r), rf_symbol := norm_text True (rf_symbol r),
      rf_broker_symbol := norm_text False (rf_broker_symbol r),
      rf_account_runtime_identity_sha256 := norm_hash (rf_account_runtime_identity_sha256 r),
      rf_account_binding_sha256 := norm_hash (rf_account_binding_sha256 r),
      rf_account_fact_sha256 := norm_hash (rf_account_fact_sha256 r),
      rf_broker_spec_sha256 := norm_hash (rf_broker_spec_sha256 r), rf_tick_sha256 := norm_hash (rf_tick_sha256 r),
      rf_health_facts_sha256 := norm_hash (rf_health_facts_sha256 r),
      rf_health_decision_sha256 := norm_hash (rf_health_decision_sha256 r),
      rf_health_source_evidence_sha256 := norm_hash (rf_health_source_evidence_sha256 r),
      rf_health_trust_policy_sha256 := norm_hash (rf_health_trust_policy_sha256 r),
      rf_journal_sha256 := norm_hash (rf_journal_sha256 r), rf_key_id := norm_text False (rf_key_id r),
      rf_signature := norm_hash (rf_signature r), rf_schema_version := norm_text False (rf_schema_version r)\<rparr>"

definition receipt_field_checks :: "RuntimeFactReceipt \<Rightarrow> exn option list" where
  "receipt_field_checks r =
     (let lifetime = dt_sub (rf_valid_until_utc r) (rf_observed_at_utc r) in
      [err_of (require_text ''account_id'' (rf_account_id r) False),
       err_of (require_text ''server'' (rf_server r) False),
       err_of (require_text ''environment'' (rf_environment r) True),
       err_of (require_text ''symbol'' (rf_symbol r) True),
       err_of (require_text ''broker_symbol'' (rf_broker_symbol r) False),
       raise_if (norm_text True (rf_environment r) \<notin> {''DEMO'', ''LIVE'', ''LIVE_READ_ONLY''})
         (ValueError ''unsupported runtime fact environment''),
       err_of (require_hash ''account_runtime_identity_sha256'' (rf_account_runtime_identity_sha256 r) 64),
       err_of (require_hash ''account_binding_sha256'' (rf_account_binding_sha256 r) 64),
       err_of (require_hash ''account_fact_sha256'' (rf_account_fact_sha256 r) 64),
       err_of (require_hash ''broker_spec_sha256'' (rf_broker_spec_sha256 r) 64),
       err_of (require_hash ''tick_sha256'' (rf_tick_sha256 r) 64),
       err_of (require_hash ''health_facts_sha256'' (rf_health_facts_sha256 r) 64),
       err_of (require_hash ''health_decision_sha256'' (rf_health_decision_sha256 r) 64),
       err_of (require_hash ''health_source_evidence_sha256'' (rf_health_source_evidence_sha256 r) 64),
       err_of (require_hash ''health_trust_policy_sha256'' (rf_health_trust_policy_sha256 r) 64),
       err_of (require_hash ''journal_sha256'' (rf_journal_sha256 r) 64),
       err_of (require_text ''key_id'' (rf_key_id r) False),
       err_of (require_utc ''observed_at_utc'' (rf_observed_at_utc r)),
       err_of (require_utc ''valid_until_utc'' (rf_valid_until_utc r)),
       raise_if (\<not> (0 < lifetime \<and> lifetime \<le> RUNTIME_FACT_RECEIPT_MAX_AGE))
         (ValueError ''runtime fact receipt lifetime exceeds one second'')])"

text \<open>The bindings, on a receipt whose fields are normalised, with its expected account binding hash.\<close>

definition receipt_bound :: "RuntimeFactReceipt \<Rightarrow> string \<Rightarrow> bool" where
  "receipt_bound r binding_sha =
     (let spec = rf_broker_spec r; fact = rf_account_fact r; observed = rf_observed_at_utc r in
      bs_account_id spec = rf_account_id r \<and> bs_server spec = rf_server r
      \<and> bs_environment spec = rf_environment r \<and> bs_symbol spec = rf_symbol r
      \<and> bs_broker_symbol spec = rf_broker_symbol r
      \<and> af_account_id fact = rf_account_id r \<and> af_server fact = rf_server r
      \<and> af_currency fact = bs_account_currency spec
      \<and> rf_account_fact_sha256 r = canonical_sha256 (RuntimeAccountFact_dict fact)
      \<and> tf_broker_symbol (rf_tick r) = rf_broker_symbol r
      \<and> dt_eq (tf_collected_at_utc (rf_tick r)) observed
      \<and> dt_eq (hf_observed_at (rf_health_facts r)) observed
      \<and> dt_eq (hd_observed_at (rf_health_decision r)) observed
      \<and> within_second observed (af_captured_at_utc fact) \<and> within_second observed (bs_captured_at spec)
      \<and> rf_account_binding_sha256 r = binding_sha
      \<and> rf_broker_spec_sha256 r = BrokerSpec_content_sha256 spec
      \<and> rf_tick_sha256 r = canonical_sha256 (RuntimeTickFact_dict (rf_tick r))
      \<and> rf_health_facts_sha256 r = canonical_sha256 (RuntimeHealthFacts_dict (rf_health_facts r))
      \<and> rf_health_decision_sha256 r = canonical_sha256 (RuntimeHealthDecision_dict (rf_health_decision r)))"

definition RuntimeFactReceipt_init :: "RuntimeFactReceipt \<Rightarrow> RuntimeFactReceipt res" where
  "RuntimeFactReceipt_init r =
     res_bind (checked (receipt_field_checks r) ()) (\<lambda>_.
     res_bind (evaluate_runtime_health (rf_health_facts r)) (\<lambda>expected_decision.
     if expected_decision \<noteq> rf_health_decision r
     then Inl (ValueError ''health decision does not match runtime health facts'')
     else let n = normalize_receipt r in
     res_bind (account_binding_sha256 (rf_account_id n) (rf_server n) (rf_environment n)
       (rf_account_runtime_identity_sha256 n)) (\<lambda>binding_sha.
     checked
       [raise_if (\<not> receipt_bound n binding_sha) (ValueError ''runtime fact receipt binding mismatch''),
        (if str_strip (rf_signature r) = [] then None else err_of (require_hash ''signature'' (rf_signature r) 64)),
        raise_if (rf_live_allowed r \<or> rf_safe_to_demo_auto_order r)
          (ValueError ''runtime fact receipts can only deny execution''),
        err_of (require_text ''schema_version'' (rf_schema_version r) False),
        raise_if (rf_schema_version n \<noteq> RUNTIME_FACT_RECEIPT_SCHEMA_VERSION)
          (ValueError ''unsupported runtime fact receipt schema'')]
       n)))"

definition RuntimeFactReceipt_dict :: "RuntimeFactReceipt \<Rightarrow> json" where
  "RuntimeFactReceipt_dict r = JDict
     [(''account_id'', JStr (rf_account_id r)), (''server'', JStr (rf_server r)),
      (''environment'', JStr (rf_environment r)), (''symbol'', JStr (rf_symbol r)),
      (''broker_symbol'', JStr (rf_broker_symbol r)),
      (''account_runtime_identity_sha256'', JStr (rf_account_runtime_identity_sha256 r)),
      (''account_binding_sha256'', JStr (rf_account_binding_sha256 r)),
      (''account_fact'', RuntimeAccountFact_dict (rf_account_fact r)),
      (''account_fact_sha256'', JStr (rf_account_fact_sha256 r)),
      (''broker_spec'', BrokerSpec_dict (rf_broker_spec r)), (''broker_spec_sha256'', JStr (rf_broker_spec_sha256 r)),
      (''tick'', RuntimeTickFact_dict (rf_tick r)), (''tick_sha256'', JStr (rf_tick_sha256 r)),
      (''health_facts'', RuntimeHealthFacts_dict (rf_health_facts r)),
      (''health_facts_sha256'', JStr (rf_health_facts_sha256 r)),
      (''health_decision'', RuntimeHealthDecision_dict (rf_health_decision r)),
      (''health_decision_sha256'', JStr (rf_health_decision_sha256 r)),
      (''health_source_evidence_sha256'', JStr (rf_health_source_evidence_sha256 r)),
      (''health_trust_policy_sha256'', JStr (rf_health_trust_policy_sha256 r)),
      (''journal_sha256'', JStr (rf_journal_sha256 r)), (''key_id'', JStr (rf_key_id r)),
      (''observed_at_utc'', jtime (rf_observed_at_utc r)), (''valid_until_utc'', jtime (rf_valid_until_utc r)),
      (''signature'', JStr (rf_signature r)), (''live_allowed'', JBool (rf_live_allowed r)),
      (''safe_to_demo_auto_order'', JBool (rf_safe_to_demo_auto_order r)),
      (''schema_version'', JStr (rf_schema_version r))]"

definition fact_signing_payload :: "RuntimeFactReceipt \<Rightarrow> string" where
  "fact_signing_payload r = canonical_json (json_pop ''signature'' (RuntimeFactReceipt_dict r))"

definition fact_receipt_id :: "RuntimeFactReceipt \<Rightarrow> string" where
  "fact_receipt_id r = ''runtime_fact_'' @ take 32 (sha256_hex (fact_signing_payload r))"

definition fact_hmac :: "string \<Rightarrow> RuntimeFactReceipt \<Rightarrow> string" where
  "fact_hmac secret r = hmac_sha256_hex secret (RUNTIME_FACT_HMAC_DOMAIN @ fact_signing_payload r)"

definition fact_verify_signature :: "RuntimeFactReceipt \<Rightarrow> string \<Rightarrow> bool res" where
  "fact_verify_signature r secret =
     (if rf_signature r = [] then Inr False
      else res_bind (fact_secret_bytes secret) (\<lambda>k. Inr (rf_signature r = fact_hmac k r)))"

section \<open>RuntimeFactCollector\<close>

text \<open>
  What the objects the collector is given answer, in the order in which it asks: each provider
  returns a value or raises. A payload is None when it is not a mapping; the timestamp of a payload
  stands beside its other items.
\<close>

record account_payload =
  ap_items :: item
  ap_captured_at_utc :: "datetime option"

record tick_payload =
  tp_items :: item
  tp_time_utc :: "datetime option"

record fact_sources =
  fs_started_clock :: "datetime option res"
  fs_account_binding :: "account_payload option res"
  fs_broker_spec :: "string \<Rightarrow> string \<Rightarrow> datetime \<Rightarrow> BrokerSpec option res"
  fs_current_tick :: "string \<Rightarrow> datetime \<Rightarrow> tick_payload option res"
  fs_identity :: "json res"
  fs_integrity_check :: "json res"
  fs_kill_switch_status :: "json res"
  fs_journal_sha256 :: "json res"
  fs_journal_path :: "string res"
  fs_disk_free :: "string \<Rightarrow> json res"
  fs_clock_drift :: "json res"
  fs_heartbeat :: "datetime option res"
  fs_audit_export :: "json res"
  fs_backup :: "json res"
  fs_observed_clock :: "datetime option res"
  fs_max_tick_age_seconds :: "json option res"

record RuntimeFactCollector =
  fc_key_id :: string
  fc_key_provider :: "string \<Rightarrow> string res"
  fc_health_source_evidence_sha256 :: string
  fc_health_trust_policy_sha256 :: string

definition RuntimeFactCollector_init :: "RuntimeFactCollector \<Rightarrow> RuntimeFactCollector res" where
  "RuntimeFactCollector_init c =
     checked
       [err_of (require_text ''key_id'' (fc_key_id c) False),
        err_of (require_hash ''health_source_evidence_sha256'' (fc_health_source_evidence_sha256 c) 64),
        err_of (require_hash ''health_trust_policy_sha256'' (fc_health_trust_policy_sha256 c) 64)]
       (c\<lparr>fc_key_id := norm_text False (fc_key_id c),
          fc_health_source_evidence_sha256 := norm_hash (fc_health_source_evidence_sha256 c),
          fc_health_trust_policy_sha256 := norm_hash (fc_health_trust_policy_sha256 c)\<rparr>)"

definition account_fact_of :: "string \<Rightarrow> string \<Rightarrow> account_payload \<Rightarrow> RuntimeAccountFact res" where
  "account_fact_of account_id server account =
     (let get = dict_get (ap_items account) in
      res_bind (require_text ''currency'' (py_text (get ''currency'')) True) (\<lambda>currency.
      res_bind (require_finite_json ''balance'' (get ''balance'') False False) (\<lambda>balance.
      res_bind (require_finite_json ''equity'' (get ''equity'') True False) (\<lambda>equity.
      res_bind (require_finite_json ''margin'' (get ''margin'') False True) (\<lambda>margin.
      res_bind (require_finite_json ''margin_free'' (get ''margin_free'') False False) (\<lambda>margin_free.
      res_bind (require_finite_json ''margin_level'' (get ''margin_level'') False True) (\<lambda>margin_level.
      res_bind (require_bool ''trade_allowed'' (get ''trade_allowed'')) (\<lambda>trade_allowed.
      res_bind (require_bool ''trade_expert'' (get ''trade_expert'')) (\<lambda>trade_expert.
      res_bind (require_datetime ''captured_at_utc'' (ap_captured_at_utc account)) (\<lambda>captured_at_utc.
      RuntimeAccountFact_init
        \<lparr>af_account_id = account_id, af_server = server, af_currency = currency, af_balance = balance,
         af_equity = equity, af_margin = margin, af_margin_free = margin_free, af_margin_level = margin_level,
         af_trade_allowed = trade_allowed, af_trade_expert = trade_expert,
         af_captured_at_utc = captured_at_utc\<rparr>))))))))))"

definition tick_fact_of :: "string \<Rightarrow> item \<Rightarrow> datetime \<Rightarrow> datetime \<Rightarrow> RuntimeTickFact res" where
  "tick_fact_of broker_symbol tick_items tick_time observed_at =
     res_bind (require_finite_json ''bid'' (dict_get tick_items ''bid'') True False) (\<lambda>bid.
     res_bind (require_finite_json ''ask'' (dict_get tick_items ''ask'') True False) (\<lambda>ask.
     RuntimeTickFact_init
       \<lparr>tf_broker_symbol = broker_symbol, tf_bid = bid, tf_ask = ask, tf_time_utc = tick_time,
        tf_age_seconds = total_seconds (dt_sub observed_at tick_time), tf_collected_at_utc = observed_at,
        tf_schema_version = RUNTIME_TICK_FACT_SCHEMA_VERSION\<rparr>))"

text \<open>The broker's part of a collection: account, symbol and tick as the adapter reports them.\<close>

record broker_facts =
  bf_started_at :: datetime
  bf_account_id :: string
  bf_server :: string
  bf_spec :: BrokerSpec
  bf_tick :: tick_payload
  bf_identity :: string
  bf_account_fact :: RuntimeAccountFact

definition some_or :: "exn \<Rightarrow> 'a option \<Rightarrow> 'a res" where
  "some_or e v = (case v of None \<Rightarrow> Inl e | Some x \<Rightarrow> Inr x)"

definition collect_broker_facts :: "fact_sources \<Rightarrow> string \<Rightarrow> string \<Rightarrow> broker_facts res" where
  "collect_broker_facts src symbol broker_symbol =
     res_bind (call_required ''TRUSTED_CLOCK_PROVIDER_UNAVAILABLE''
       (res_bind (fs_started_clock src) (require_datetime ''trusted clock''))) (\<lambda>started_at.
     res_bind (call_required ''ADAPTER_ACCOUNT_BINDING_UNAVAILABLE'' (fs_account_binding src)) (\<lambda>account_value.
     res_bind (some_or (RuntimeFactCollectionError ''ADAPTER_ACCOUNT_BINDING_INVALID'') account_value) (\<lambda>account.
     res_bind (call_required ''ADAPTER_BROKER_SPEC_UNAVAILABLE''
       (fs_broker_spec src symbol broker_symbol started_at)) (\<lambda>spec_value.
     res_bind (some_or (RuntimeFactCollectionError ''ADAPTER_BROKER_SPEC_INVALID'') spec_value) (\<lambda>spec.
     res_bind (call_required ''ADAPTER_CURRENT_TICK_UNAVAILABLE''
       (fs_current_tick src broker_symbol started_at)) (\<lambda>tick_value.
     res_bind (some_or (RuntimeFactCollectionError ''ADAPTER_CURRENT_TICK_INVALID'') tick_value) (\<lambda>tick.
     res_bind (call_required ''ADAPTER_ACCOUNT_IDENTITY_UNAVAILABLE''
       (res_bind (fs_identity src) (\<lambda>v. require_hash ''account runtime identity'' (py_text v) 64))) (\<lambda>identity.
     res_bind (call_required ''ADAPTER_ACCOUNT_BINDING_INVALID''
       (require_text ''account alias'' (py_text (dict_get (ap_items account) ''account_alias'')) False)) (\<lambda>account_id.
     res_bind (call_required ''ADAPTER_ACCOUNT_BINDING_INVALID''
       (require_text ''account server'' (py_text (dict_get (ap_items account) ''server'')) False)) (\<lambda>server.
     if account_id \<noteq> bs_account_id spec \<or> server \<noteq> bs_server spec \<or> bs_symbol spec \<noteq> symbol
        \<or> bs_broker_symbol spec \<noteq> broker_symbol
     then Inl (RuntimeFactCollectionError ''ADAPTER_ACCOUNT_BINDING_MISMATCH'')
     else res_bind (call_required ''ADAPTER_ACCOUNT_FACT_INVALID''
       (account_fact_of account_id server account)) (\<lambda>account_fact.
     Inr \<lparr>bf_started_at = started_at, bf_account_id = account_id, bf_server = server, bf_spec = spec,
          bf_tick = tick, bf_identity = identity, bf_account_fact = account_fact\<rparr>)))))))))))"

text \<open>The host's part: the journal, the disk, the clock and the off-host services.\<close>

record host_facts =
  hs_database_integrity_ok :: bool
  hs_kill_switch_latched :: bool
  hs_journal_sha256 :: string
  hs_free_disk_bytes :: int
  hs_clock_drift_seconds :: pyfloat
  hs_heartbeat_at :: datetime
  hs_audit_export_healthy :: bool
  hs_backup_recent :: bool
  hs_observed_at :: datetime

definition collect_host_facts :: "fact_sources \<Rightarrow> host_facts res" where
  "collect_host_facts src =
     res_bind (call_required ''JOURNAL_INTEGRITY_PROVIDER_UNAVAILABLE''
       (res_bind (fs_integrity_check src) (require_bool ''journal integrity''))) (\<lambda>integrity.
     res_bind (call_required ''KILL_SWITCH_PROVIDER_UNAVAILABLE'' (fs_kill_switch_status src)) (\<lambda>kill_switch.
     res_bind (some_or (RuntimeFactCollectionError ''KILL_SWITCH_STATUS_INVALID'')
       (json_get kill_switch ''latched'')) (\<lambda>latched_value.
     res_bind (call_required ''KILL_SWITCH_STATUS_INVALID''
       (require_bool ''kill switch latched'' latched_value)) (\<lambda>latched.
     res_bind (call_required ''JOURNAL_IDENTITY_UNAVAILABLE''
       (res_bind (fs_journal_sha256 src) (\<lambda>v. require_hash ''journal_sha256'' (py_text v) 64))) (\<lambda>journal_sha.
     res_bind (call_required ''JOURNAL_PATH_UNAVAILABLE'' (fs_journal_path src)) (\<lambda>path.
     res_bind (call_required ''DISK_FREE_PROVIDER_UNAVAILABLE''
       (res_bind (fs_disk_free src path) (\<lambda>v. require_int_json ''free_disk_bytes'' v 0))) (\<lambda>free_disk.
     res_bind (call_required ''CLOCK_DRIFT_PROVIDER_UNAVAILABLE''
       (res_bind (fs_clock_drift src) (\<lambda>v. require_finite_json ''clock_drift_seconds'' v False True))) (\<lambda>drift.
     res_bind (call_required ''OFF_HOST_HEARTBEAT_PROVIDER_UNAVAILABLE''
       (res_bind (fs_heartbeat src) (require_datetime ''off-host heartbeat''))) (\<lambda>heartbeat_at.
     res_bind (call_required ''AUDIT_EXPORT_PROVIDER_UNAVAILABLE''
       (res_bind (fs_audit_export src) (require_bool ''audit_export_healthy''))) (\<lambda>audit_export.
     res_bind (call_required ''BACKUP_STATUS_PROVIDER_UNAVAILABLE''
       (res_bind (fs_backup src) (require_bool ''backup_recent''))) (\<lambda>backup.
     res_bind (call_required ''TRUSTED_CLOCK_PROVIDER_UNAVAILABLE''
       (res_bind (fs_observed_clock src) (require_datetime ''trusted clock''))) (\<lambda>observed_at.
     Inr \<lparr>hs_database_integrity_ok = integrity, hs_kill_switch_latched = latched, hs_journal_sha256 = journal_sha,
          hs_free_disk_bytes = free_disk, hs_clock_drift_seconds = drift, hs_heartbeat_at = heartbeat_at,
          hs_audit_export_healthy = audit_export, hs_backup_recent = backup, hs_observed_at = observed_at\<rparr>))))))))))))"

definition max_tick_age_of :: "fact_sources \<Rightarrow> pyfloat res" where
  "max_tick_age_of src =
     res_bind (fs_max_tick_age_seconds src) (\<lambda>v.
       require_finite_json ''max_tick_age_seconds'' (case v of None \<Rightarrow> JFloat (Fin 1) | Some x \<Rightarrow> x) True False)"

definition health_facts_of :: "broker_facts \<Rightarrow> host_facts \<Rightarrow> RuntimeTickFact \<Rightarrow> pyfloat \<Rightarrow> RuntimeHealthFacts" where
  "health_facts_of b h tick maximum_tick_age =
     (let observed_at = hs_observed_at h;
          broker_facts_fresh =
            fl_le (Fin 0) (tf_age_seconds tick) \<and> fl_le (tf_age_seconds tick) maximum_tick_age
            \<and> within_second observed_at (af_captured_at_utc (bf_account_fact b))
            \<and> within_second observed_at (bs_captured_at (bf_spec b)) in
      \<lparr>hf_observed_at = observed_at, hf_heartbeat_at = hs_heartbeat_at h,
       hf_clock_drift_seconds = hs_clock_drift_seconds h, hf_free_disk_bytes = hs_free_disk_bytes h,
       hf_database_integrity_ok = hs_database_integrity_ok h, hf_broker_connected = True,
       hf_data_feed_fresh = broker_facts_fresh, hf_audit_export_healthy = hs_audit_export_healthy h,
       hf_backup_recent = hs_backup_recent h, hf_kill_switch_latched = hs_kill_switch_latched h\<rparr>)"

definition unsigned_receipt ::
  "RuntimeFactCollector \<Rightarrow> string \<Rightarrow> string \<Rightarrow> broker_facts \<Rightarrow> host_facts \<Rightarrow> RuntimeTickFact
   \<Rightarrow> RuntimeHealthFacts \<Rightarrow> RuntimeHealthDecision \<Rightarrow> string \<Rightarrow> RuntimeFactReceipt" where
  "unsigned_receipt c symbol broker_symbol b h tick facts decision binding_sha =
     \<lparr>rf_account_id = bf_account_id b, rf_server = bf_server b, rf_environment = bs_environment (bf_spec b),
      rf_symbol = symbol, rf_broker_symbol = broker_symbol,
      rf_account_runtime_identity_sha256 = bf_identity b, rf_account_binding_sha256 = binding_sha,
      rf_account_fact = bf_account_fact b,
      rf_account_fact_sha256 = canonical_sha256 (RuntimeAccountFact_dict (bf_account_fact b)),
      rf_broker_spec = bf_spec b, rf_broker_spec_sha256 = BrokerSpec_content_sha256 (bf_spec b),
      rf_tick = tick, rf_tick_sha256 = canonical_sha256 (RuntimeTickFact_dict tick),
      rf_health_facts = facts, rf_health_facts_sha256 = canonical_sha256 (RuntimeHealthFacts_dict facts),
      rf_health_decision = decision,
      rf_health_decision_sha256 = canonical_sha256 (RuntimeHealthDecision_dict decision),
      rf_health_source_evidence_sha256 = fc_health_source_evidence_sha256 c,
      rf_health_trust_policy_sha256 = fc_health_trust_policy_sha256 c,
      rf_journal_sha256 = hs_journal_sha256 h, rf_key_id = fc_key_id c,
      rf_observed_at_utc = hs_observed_at h,
      rf_valid_until_utc = dt_add (hs_observed_at h) RUNTIME_FACT_RECEIPT_MAX_AGE,
      rf_signature = [], rf_live_allowed = False, rf_safe_to_demo_auto_order = False,
      rf_schema_version = RUNTIME_FACT_RECEIPT_SCHEMA_VERSION\<rparr>"

definition fact_sign :: "RuntimeFactReceipt \<Rightarrow> string \<Rightarrow> RuntimeFactReceipt res" where
  "fact_sign r secret = RuntimeFactReceipt_init (r\<lparr>rf_signature := fact_hmac secret r\<rparr>)"

definition sign_collected :: "RuntimeFactCollector \<Rightarrow> RuntimeFactReceipt \<Rightarrow> RuntimeFactReceipt res" where
  "sign_collected c r =
     res_bind (call_required ''SIGNING_KEY_UNAVAILABLE''
       (res_bind (fc_key_provider c (fc_key_id c)) fact_secret_bytes)) (fact_sign r)"

definition collect :: "RuntimeFactCollector \<Rightarrow> fact_sources \<Rightarrow> string \<Rightarrow> string \<Rightarrow> RuntimeFactReceipt res" where
  "collect c src symbol broker_symbol =
     res_bind (require_text ''symbol'' symbol True) (\<lambda>canonical_symbol.
     res_bind (require_text ''broker_symbol'' broker_symbol False) (\<lambda>exact_broker_symbol.
     res_bind (collect_broker_facts src canonical_symbol exact_broker_symbol) (\<lambda>b.
     res_bind (collect_host_facts src) (\<lambda>h.
     let observed_at = hs_observed_at h; age = total_seconds (dt_sub observed_at (bf_started_at b)) in
     if fl_lt age (Fin 0) \<or> fl_lt (Fin 1) age
     then Inl (RuntimeFactCollectionError ''BROKER_FACT_COLLECTION_EXPIRED'')
     else res_bind (call_required ''ADAPTER_CURRENT_TICK_INVALID''
       (require_datetime ''tick time'' (tp_time_utc (bf_tick b)))) (\<lambda>tick_time.
     res_bind (call_required ''ADAPTER_CURRENT_TICK_INVALID''
       (tick_fact_of exact_broker_symbol (tp_items (bf_tick b)) tick_time observed_at)) (\<lambda>tick.
     res_bind (call_required ''ADAPTER_TICK_AGE_POLICY_INVALID'' (max_tick_age_of src)) (\<lambda>maximum_tick_age.
     res_bind (call_required ''RUNTIME_HEALTH_FACTS_INVALID''
       (RuntimeHealthFacts_init (health_facts_of b h tick maximum_tick_age))) (\<lambda>facts.
     res_bind (evaluate_runtime_health facts) (\<lambda>decision.
     res_bind (account_binding_sha256 (bf_account_id b) (bf_server b) (bs_environment (bf_spec b))
       (bf_identity b)) (\<lambda>binding_sha.
     res_bind (RuntimeFactReceipt_init
       (unsigned_receipt c canonical_symbol exact_broker_symbol b h tick facts decision binding_sha))
       (sign_collected c)))))))))))"

section \<open>verify_runtime_fact_receipt\<close>

record fact_expectation =
  fe_account_id :: string
  fe_server :: string
  fe_environment :: string
  fe_symbol :: string
  fe_broker_symbol :: string
  fe_account_runtime_identity_sha256 :: string
  fe_broker_spec_sha256 :: string
  fe_journal_sha256 :: string
  fe_key_id :: string

definition fact_expectation_checks :: "fact_expectation \<Rightarrow> exn option list" where
  "fact_expectation_checks e =
     [err_of (require_text ''expected_account_id'' (fe_account_id e) False),
      err_of (require_text ''expected_server'' (fe_server e) False),
      err_of (require_text ''expected_environment'' (fe_environment e) True),
      err_of (require_text ''expected_symbol'' (fe_symbol e) True),
      err_of (require_text ''expected_broker_symbol'' (fe_broker_symbol e) False),
      err_of (require_hash ''expected_account_runtime_identity_sha256'' (fe_account_runtime_identity_sha256 e) 64),
      err_of (require_hash ''expected_broker_spec_sha256'' (fe_broker_spec_sha256 e) 64),
      err_of (require_hash ''expected_journal_sha256'' (fe_journal_sha256 e) 64),
      err_of (require_text ''expected_key_id'' (fe_key_id e) False)]"

definition normalize_expectation :: "fact_expectation \<Rightarrow> fact_expectation" where
  "normalize_expectation e =
     \<lparr>fe_account_id = norm_text False (fe_account_id e), fe_server = norm_text False (fe_server e),
      fe_environment = norm_text True (fe_environment e), fe_symbol = norm_text True (fe_symbol e),
      fe_broker_symbol = norm_text False (fe_broker_symbol e),
      fe_account_runtime_identity_sha256 = norm_hash (fe_account_runtime_identity_sha256 e),
      fe_broker_spec_sha256 = norm_hash (fe_broker_spec_sha256 e),
      fe_journal_sha256 = norm_hash (fe_journal_sha256 e), fe_key_id = norm_text False (fe_key_id e)\<rparr>"

definition fact_binding_gates :: "RuntimeFactReceipt \<Rightarrow> fact_expectation \<Rightarrow> string \<Rightarrow> (bool \<times> string) list" where
  "fact_binding_gates r e binding_sha =
     [(rf_account_id r \<noteq> fe_account_id e, ''ACCOUNT_BINDING_MISMATCH''),
      (rf_server r \<noteq> fe_server e, ''SERVER_BINDING_MISMATCH''),
      (rf_environment r \<noteq> fe_environment e, ''ENVIRONMENT_BINDING_MISMATCH''),
      (rf_symbol r \<noteq> fe_symbol e, ''SYMBOL_BINDING_MISMATCH''),
      (rf_broker_symbol r \<noteq> fe_broker_symbol e, ''BROKER_SYMBOL_BINDING_MISMATCH''),
      (rf_account_runtime_identity_sha256 r \<noteq> fe_account_runtime_identity_sha256 e,
        ''ACCOUNT_RUNTIME_IDENTITY_MISMATCH''),
      (rf_account_binding_sha256 r \<noteq> binding_sha, ''ACCOUNT_BINDING_HASH_MISMATCH''),
      (rf_broker_spec_sha256 r \<noteq> fe_broker_spec_sha256 e, ''BROKER_SPEC_BINDING_MISMATCH''),
      (rf_journal_sha256 r \<noteq> fe_journal_sha256 e, ''JOURNAL_BINDING_MISMATCH''),
      (rf_key_id r \<noteq> fe_key_id e, ''KEY_ID_MISMATCH'')]"

definition fact_content_gates ::
  "RuntimeFactReceipt \<Rightarrow> datetime \<Rightarrow> RuntimeHealthDecision \<Rightarrow> (bool \<times> string) list" where
  "fact_content_gates r checked_at expected_decision =
     (let lifetime = dt_sub (rf_valid_until_utc r) (rf_observed_at_utc r) in
      [(\<not> (0 < lifetime \<and> lifetime \<le> RUNTIME_FACT_RECEIPT_MAX_AGE), ''RUNTIME_FACT_RECEIPT_TTL_INVALID''),
       (dt_lt checked_at (rf_observed_at_utc r), ''RUNTIME_FACT_RECEIPT_NOT_YET_VALID''),
       (dt_le (rf_valid_until_utc r) checked_at, ''RUNTIME_FACT_RECEIPT_STALE''),
       (rf_live_allowed r \<or> rf_safe_to_demo_auto_order r, ''RUNTIME_FACT_RECEIPT_UNLOCK_ATTEMPT''),
       (rf_schema_version r \<noteq> RUNTIME_FACT_RECEIPT_SCHEMA_VERSION, ''RUNTIME_FACT_RECEIPT_SCHEMA_MISMATCH''),
       (rf_broker_spec_sha256 r \<noteq> BrokerSpec_content_sha256 (rf_broker_spec r), ''BROKER_SPEC_CONTENT_MISMATCH''),
       (rf_account_fact_sha256 r \<noteq> canonical_sha256 (RuntimeAccountFact_dict (rf_account_fact r)),
         ''ACCOUNT_FACT_CONTENT_MISMATCH''),
       (rf_tick_sha256 r \<noteq> canonical_sha256 (RuntimeTickFact_dict (rf_tick r)), ''TICK_CONTENT_MISMATCH''),
       (rf_health_facts_sha256 r \<noteq> canonical_sha256 (RuntimeHealthFacts_dict (rf_health_facts r)),
         ''HEALTH_FACTS_CONTENT_MISMATCH''),
       (rf_health_decision_sha256 r \<noteq> canonical_sha256 (RuntimeHealthDecision_dict (rf_health_decision r)),
         ''HEALTH_DECISION_CONTENT_MISMATCH''),
       (expected_decision \<noteq> rf_health_decision r, ''HEALTH_DECISION_RECOMPUTE_MISMATCH'')])"

definition fact_signature_gates ::
  "RuntimeFactReceipt \<Rightarrow> (string \<Rightarrow> string res) \<Rightarrow> string \<Rightarrow> (bool \<times> string) list" where
  "fact_signature_gates r key_provider key_id =
     (case res_bind (key_provider key_id) fact_secret_bytes of
        Inl e \<Rightarrow> [(True, ''VERIFICATION_KEY_UNAVAILABLE'')]
      | Inr secret \<Rightarrow> [(fact_verify_signature r secret \<noteq> Inr True, ''INVALID_SIGNATURE'')])"

definition verify_runtime_fact_receipt ::
  "RuntimeFactReceipt \<Rightarrow> fact_expectation \<Rightarrow> (string \<Rightarrow> string res) \<Rightarrow> datetime option res
   \<Rightarrow> RuntimeFactReceipt res" where
  "verify_runtime_fact_receipt r expected key_provider clock =
     res_bind (res_reraise (\<lambda>e. True) (RuntimeFactVerificationError [''TRUSTED_CLOCK_PROVIDER_UNAVAILABLE''])
       (res_bind clock (require_datetime ''trusted verification clock''))) (\<lambda>checked_at.
     res_bind (checked (fact_expectation_checks expected) (normalize_expectation expected)) (\<lambda>e.
     res_bind (account_binding_sha256 (fe_account_id e) (fe_server e) (fe_environment e)
       (fe_account_runtime_identity_sha256 e)) (\<lambda>binding_sha.
     res_bind (evaluate_runtime_health (rf_health_facts r)) (\<lambda>expected_decision.
     let reasons = fired (fact_binding_gates r e binding_sha @ fact_content_gates r checked_at expected_decision
                          @ fact_signature_gates r key_provider (fe_key_id e)) in
     if reasons \<noteq> [] then Inl (RuntimeFactVerificationError (reason_set reasons)) else Inr r))))"

end
