(* ===== verification/Risk_Source.thy ===== *)
theory Risk_Source
  imports Risk_Ledger
begin

text \<open>
  \<open>live_runtime/risk_ledger.py\<close>, second part: the signed source receipt of an event with its issue and
  verification, the derived risk state, and \<open>_apply_event\<close>. The provider of signing keys and the
  clock are parameters. \<open>_strict_object\<close> and the field sets see a raw receipt as a JSON object, in
  which the issuer's datetimes are already text.
\<close>

section \<open>RiskSourceReceipt\<close>

record RiskSourceReceipt =
  src_source_receipt_id :: string
  src_source_kind :: string
  src_issuer_id :: string
  src_key_id :: string
  src_binding :: RiskLedgerBinding
  src_event_sha256 :: string
  src_upstream_receipt_type :: string
  src_upstream_receipt_sha256 :: string
  src_observed_at_utc :: datetime
  src_valid_until_utc :: datetime
  src_signature_hmac_sha256 :: string
  src_schema_version :: string

definition allowed_upstream :: "string \<Rightarrow> string list" where
  "allowed_upstream kind =
     (if kind = ''ACCOUNT_SNAPSHOT'' then [''RUNTIME_FACT_RECEIPT'']
      else if kind = ''ENTRY'' then [''EXECUTION_RECEIPT'']
      else if kind = ''CLOSED_TRADE''
      then [''BROKER_DEAL_RECEIPT'', ''BROKER_RECONCILIATION_RECEIPT'', ''BROKER_CLOSED_TRADE_RECEIPT''] else [])"

definition lifetime_exceeded :: "datetime \<Rightarrow> datetime \<Rightarrow> bool" where
  "lifetime_exceeded later earlier =
     fl_lt MAX_SOURCE_RECEIPT_LIFETIME_SECONDS (total_seconds (dt_sub later earlier))"

definition RiskSourceReceipt_init :: "bool \<Rightarrow> RiskSourceReceipt \<Rightarrow> RiskSourceReceipt res" where
  "RiskSourceReceipt_init sealed r =
     (let kind = norm_text True (src_source_kind r); upstream_type = norm_text True (src_upstream_receipt_type r);
          observed = src_observed_at_utc r; valid_until = src_valid_until_utc r in
      checked
        [raise_if (\<not> sealed) (TypeError ''RiskSourceReceipt can only be created by verify_risk_source_receipt''),
         err_of (exact_id ''source_receipt_id'' (src_source_receipt_id r)),
         err_of (require_text ''source_kind'' (src_source_kind r) True),
         raise_if (kind \<notin> {''ACCOUNT_SNAPSHOT'', ''ENTRY'', ''CLOSED_TRADE''}) (ValueError ''risk source kind is invalid''),
         err_of (exact_id ''issuer_id'' (src_issuer_id r)),
         err_of (exact_id ''key_id'' (src_key_id r)),
         err_of (require_hash ''event_sha256'' (src_event_sha256 r) 64),
         err_of (require_text ''upstream_receipt_type'' (src_upstream_receipt_type r) True),
         raise_if (upstream_type \<notin> set (allowed_upstream kind))
           (ValueError ''upstream receipt type is invalid for risk source kind''),
         err_of (require_hash ''upstream_receipt_sha256'' (src_upstream_receipt_sha256 r) 64),
         err_of (require_utc ''observed_at_utc'' observed),
         err_of (require_utc ''valid_until_utc'' valid_until),
         raise_if (dt_lt valid_until observed) (ValueError ''risk source receipt validity is inverted''),
         raise_if (lifetime_exceeded valid_until observed)
           (ValueError ''risk source receipt lifetime exceeds the maximum''),
         err_of (require_hash ''signature_hmac_sha256'' (src_signature_hmac_sha256 r) 64),
         raise_if (src_schema_version r \<noteq> SOURCE_RECEIPT_SCHEMA_VERSION)
           (ValueError ''risk source receipt schema is invalid'')]
        (r\<lparr>src_source_kind := kind, src_event_sha256 := norm_hash (src_event_sha256 r),
           src_upstream_receipt_type := upstream_type,
           src_upstream_receipt_sha256 := norm_hash (src_upstream_receipt_sha256 r),
           src_signature_hmac_sha256 := norm_hash (src_signature_hmac_sha256 r)\<rparr>))"

definition source_fields :: "RiskSourceReceipt \<Rightarrow> item" where
  "source_fields r =
     [(''source_receipt_id'', JStr (src_source_receipt_id r)), (''source_kind'', JStr (src_source_kind r)),
      (''issuer_id'', JStr (src_issuer_id r)), (''key_id'', JStr (src_key_id r)),
      (''binding'', RiskLedgerBinding_dict (src_binding r)), (''event_sha256'', JStr (src_event_sha256 r)),
      (''upstream_receipt_type'', JStr (src_upstream_receipt_type r)),
      (''upstream_receipt_sha256'', JStr (src_upstream_receipt_sha256 r)),
      (''observed_at_utc'', jtime (src_observed_at_utc r)), (''valid_until_utc'', jtime (src_valid_until_utc r)),
      (''signature_hmac_sha256'', JStr (src_signature_hmac_sha256 r)),
      (''schema_version'', JStr (src_schema_version r))]"

definition RiskSourceReceipt_dict :: "RiskSourceReceipt \<Rightarrow> json" where
  "RiskSourceReceipt_dict r = JDict (source_fields r)"

definition source_content_sha256 :: "RiskSourceReceipt \<Rightarrow> string" where
  "source_content_sha256 r = canonical_sha256 (RiskSourceReceipt_dict r)"

definition source_signing_payload :: "RiskSourceReceipt \<Rightarrow> json" where
  "source_signing_payload r = json_pop ''signature_hmac_sha256'' (RiskSourceReceipt_dict r)"

section \<open>Verification of a source receipt\<close>

definition source_from_raw :: "item \<Rightarrow> RiskSourceReceipt res" where
  "source_from_raw raw =
     res_reraise key_type_or_value_error (RiskLedgerSourceError ''risk source receipt is structurally invalid'')
      (res_bind (binding_from_payload (dict_get raw ''binding'')) (\<lambda>binding.
       res_bind (parse_utc (dict_get raw ''observed_at_utc'')) (\<lambda>observed.
       res_bind (parse_utc (dict_get raw ''valid_until_utc'')) (\<lambda>valid_until.
       res_bind (json_exact_id ''source_receipt_id'' (dict_get raw ''source_receipt_id'')) (\<lambda>receipt_id.
       res_bind (json_exact_id ''issuer_id'' (dict_get raw ''issuer_id'')) (\<lambda>issuer_id.
       res_bind (json_exact_id ''key_id'' (dict_get raw ''key_id'')) (\<lambda>key_id.
         RiskSourceReceipt_init True
           \<lparr>src_source_receipt_id = receipt_id, src_source_kind = py_text (dict_get raw ''source_kind''),
            src_issuer_id = issuer_id, src_key_id = key_id, src_binding = binding,
            src_event_sha256 = py_text (dict_get raw ''event_sha256''),
            src_upstream_receipt_type = py_text (dict_get raw ''upstream_receipt_type''),
            src_upstream_receipt_sha256 = py_text (dict_get raw ''upstream_receipt_sha256''),
            src_observed_at_utc = observed, src_valid_until_utc = valid_until,
            src_signature_hmac_sha256 = py_text (dict_get raw ''signature_hmac_sha256''),
            src_schema_version = json_text_of (dict_get raw ''schema_version'')\<rparr>)))))))"

definition source_secret ::
  "(string \<Rightarrow> string res) \<Rightarrow> string \<Rightarrow> string res" where
  "source_secret provider key_id =
     res_reraise (\<lambda>e. True) (RiskLedgerSourceError ''risk source HMAC key is unavailable'')
       (res_bind (provider key_id) ledger_key)"

text \<open>The instants a receipt is accepted at; \<open>None\<close> stands for \<open>enforce_freshness=False\<close>.\<close>

definition source_time_checks :: "RiskSourceReceipt \<Rightarrow> datetime \<Rightarrow> datetime option \<Rightarrow> exn option list" where
  "source_time_checks r event_time clock =
     [raise_if (dt_lt (src_observed_at_utc r) event_time)
        (RiskLedgerSourceError ''risk source receipt predates its event''),
      raise_if (lifetime_exceeded (src_observed_at_utc r) event_time)
        (RiskLedgerSourceError ''risk source receipt is detached from event time'')]
     @ (case clock of None \<Rightarrow> []
        | Some now \<Rightarrow>
            [err_of (require_utc ''trusted risk source clock'' now),
             raise_if (dt_lt (dt_add now MAX_FUTURE_CLOCK_DRIFT) (src_observed_at_utc r))
               (RiskLedgerSourceError ''risk source receipt is from the future''),
             raise_if (dt_lt (src_valid_until_utc r) now)
               (RiskLedgerSourceError ''risk source receipt is stale'')])"

definition source_binding_checks ::
  "RiskSourceReceipt \<Rightarrow> item \<Rightarrow> risk_event \<Rightarrow> RiskLedgerBinding \<Rightarrow> (string \<times> string list) list
   \<Rightarrow> exn option list" where
  "source_binding_checks r raw event binding trusted =
     [raise_if (canonical_json (JDict raw) \<noteq> canonical_json (RiskSourceReceipt_dict r))
        (RiskLedgerSourceError ''risk source receipt is not canonical''),
      raise_if (src_binding r \<noteq> binding)
        (RiskLedgerBindingError ''risk source receipt exact binding does not match''),
      raise_if (src_source_kind r \<noteq> em_event_type (event_metadata event))
        (RiskLedgerSourceError ''risk source receipt kind does not match event''),
      raise_if (src_event_sha256 r \<noteq> event_content_sha256 event)
        (RiskLedgerSourceError ''risk source receipt event hash does not match''),
      raise_if (case map_of trusted (src_issuer_id r) of None \<Rightarrow> True | Some ks \<Rightarrow> src_key_id r \<notin> set ks)
        (RiskLedgerSourceError ''risk source issuer or key is not trusted'')]"

definition SOURCE_RECEIPT_FIELDS :: "string list" where
  "SOURCE_RECEIPT_FIELDS =
     [''source_receipt_id'', ''source_kind'', ''issuer_id'', ''key_id'', ''binding'', ''event_sha256'',
      ''upstream_receipt_type'', ''upstream_receipt_sha256'', ''observed_at_utc'', ''valid_until_utc'',
      ''signature_hmac_sha256'', ''schema_version'']"

definition verify_risk_source_receipt ::
  "json \<Rightarrow> risk_event \<Rightarrow> RiskLedgerBinding \<Rightarrow> (string \<Rightarrow> string res) \<Rightarrow> (string \<times> string list) list
   \<Rightarrow> datetime option \<Rightarrow> RiskSourceReceipt res" where
  "verify_risk_source_receipt payload event binding key_provider trusted clock =
     res_bind (strict_object ''risk source receipt'' payload) (\<lambda>raw.
     res_bind (exact_fields raw SOURCE_RECEIPT_FIELDS ''risk source receipt'') (\<lambda>_.
     res_bind (source_from_raw raw) (\<lambda>r.
     res_bind (checked (source_binding_checks r raw event binding trusted) ()) (\<lambda>_.
     res_bind (source_secret key_provider (src_key_id r)) (\<lambda>secret.
     res_bind (checked
       [raise_if (src_signature_hmac_sha256 r \<noteq> risk_hmac secret (hmac_domain ''SOURCE'') (source_signing_payload r))
          (RiskLedgerSourceError ''risk source receipt HMAC is invalid'')] ()) (\<lambda>_.
       checked (source_time_checks r (em_occurred_at (event_metadata event)) clock) r))))))"

text \<open>
  The issuer. The upstream receipt enters with its content hash only, \<open>None\<close> for an object that has
  none.
\<close>

definition issue_risk_source_receipt ::
  "risk_event \<Rightarrow> RiskLedgerBinding \<Rightarrow> string \<Rightarrow> string option \<Rightarrow> string \<Rightarrow> string \<Rightarrow> string \<Rightarrow> datetime \<Rightarrow> datetime
   \<Rightarrow> RiskSourceReceipt res" where
  "issue_risk_source_receipt event binding upstream_type upstream_sha256 issuer_id key_id key observed valid_until =
     (if event_binding event \<noteq> binding
      then Inl (RiskLedgerBindingError ''risk source event binding does not match'')
      else case upstream_sha256 of
        None \<Rightarrow> Inl (RiskLedgerSourceError ''canonical upstream receipt is required'')
      | Some raw_sha256 \<Rightarrow>
     res_bind (res_reraise type_or_value_error (RiskLedgerSourceError ''canonical upstream receipt is required'')
       (require_hash ''upstream_receipt_sha256'' raw_sha256 64)) (\<lambda>upstream.
     res_bind (exact_id ''issuer_id'' issuer_id) (\<lambda>issuer.
     res_bind (exact_id ''key_id'' key_id) (\<lambda>kid.
     res_bind (require_utc ''observed_at_utc'' observed) (\<lambda>_.
     res_bind (require_utc ''valid_until_utc'' valid_until) (\<lambda>_.
     res_bind (require_text ''upstream_receipt_type'' upstream_type True) (\<lambda>utype.
     res_bind (ledger_key key) (\<lambda>secret.
       let sha = event_content_sha256 event;
           unsigned = \<lparr>src_source_receipt_id = ''risk-source-'' @ take 24 sha @ ''-'' @ take 24 upstream,
             src_source_kind = em_event_type (event_metadata event), src_issuer_id = issuer, src_key_id = kid,
             src_binding = binding, src_event_sha256 = sha, src_upstream_receipt_type = utype,
             src_upstream_receipt_sha256 = upstream, src_observed_at_utc = observed,
             src_valid_until_utc = valid_until, src_signature_hmac_sha256 = [],
             src_schema_version = SOURCE_RECEIPT_SCHEMA_VERSION\<rparr>;
           signature = risk_hmac secret (hmac_domain ''SOURCE'') (source_signing_payload unsigned) in
       verify_risk_source_receipt
         (RiskSourceReceipt_dict (unsigned\<lparr>src_signature_hmac_sha256 := signature\<rparr>)) event binding
         (\<lambda>requested. if requested = kid then Inr key else Inl (KeyError requested))
         [(issuer, [kid])] (Some observed)))))))))"

section \<open>Derived state\<close>

record DerivedState =
  dv_event_sequence :: int
  dv_head_hmac_sha256 :: string
  dv_latest_event_at_utc :: datetime
  dv_daily_baseline_id :: string
  dv_weekly_baseline_id :: string
  dv_daily_baseline_equity :: pyfloat
  dv_weekly_baseline_equity :: pyfloat
  dv_current_equity :: pyfloat
  dv_high_water_equity :: pyfloat
  dv_entries_today :: int
  dv_consecutive_losses :: int
  dv_loss_latch_active :: bool
  dv_source_verified :: bool
  dv_source_evidence_count :: int
  dv_latest_source_receipt_sha256 :: string
  dv_source_receipt_chain_sha256 :: string
  dv_latest_source_issuer_id :: string
  dv_latest_source_key_id :: string

record ReplayContext =
  rx_state :: "DerivedState option"
  rx_seen_daily :: "string list"
  rx_seen_weekly :: "string list"
  rx_entries :: "(string \<times> string) list"
  rx_closed_entries :: "string list"

definition new_replay :: ReplayContext where
  "new_replay = \<lparr>rx_state = None, rx_seen_daily = [], rx_seen_weekly = [], rx_entries = [], rx_closed_entries = []\<rparr>"

definition source_chain_sha256 :: "string \<Rightarrow> string \<Rightarrow> string" where
  "source_chain_sha256 previous receipt_sha256 =
     canonical_sha256 (JDict [(''previous_source_chain_sha256'', JStr previous), (''source_receipt_sha256'', JStr receipt_sha256)])"

text \<open>The fields every event sets: sequence, head, time and the provenance of the event.\<close>

definition stamp :: "RiskSourceReceipt \<Rightarrow> int \<Rightarrow> string \<Rightarrow> datetime \<Rightarrow> string \<Rightarrow> DerivedState \<Rightarrow> DerivedState" where
  "stamp src sequence head occurred_at previous_chain s =
     s\<lparr>dv_event_sequence := sequence, dv_head_hmac_sha256 := head, dv_latest_event_at_utc := occurred_at,
       dv_source_verified := True, dv_source_evidence_count := sequence,
       dv_latest_source_receipt_sha256 := source_content_sha256 src,
       dv_source_receipt_chain_sha256 := source_chain_sha256 previous_chain (source_content_sha256 src),
       dv_latest_source_issuer_id := src_issuer_id src, dv_latest_source_key_id := src_key_id src\<rparr>"

definition first_state :: "AccountRiskSnapshot \<Rightarrow> DerivedState" where
  "first_state e =
     \<lparr>dv_event_sequence = 0, dv_head_hmac_sha256 = [], dv_latest_event_at_utc = as_observed_at_utc e,
      dv_daily_baseline_id = as_daily_baseline_id e, dv_weekly_baseline_id = as_weekly_baseline_id e,
      dv_daily_baseline_equity = as_equity e, dv_weekly_baseline_equity = as_equity e,
      dv_current_equity = as_equity e, dv_high_water_equity = as_equity e, dv_entries_today = 0,
      dv_consecutive_losses = 0, dv_loss_latch_active = False, dv_source_verified = True,
      dv_source_evidence_count = 0, dv_latest_source_receipt_sha256 = [], dv_source_receipt_chain_sha256 = [],
      dv_latest_source_issuer_id = [], dv_latest_source_key_id = []\<rparr>"

definition apply_snapshot :: "ReplayContext \<Rightarrow> AccountRiskSnapshot \<Rightarrow> DerivedState \<Rightarrow> (ReplayContext \<times> DerivedState) res" where
  "apply_snapshot c e p =
     (let daily_id = as_daily_baseline_id e; weekly_id = as_weekly_baseline_id e;
          new_day = (daily_id \<noteq> dv_daily_baseline_id p); new_week = (weekly_id \<noteq> dv_weekly_baseline_id p) in
      if new_day \<and> daily_id \<in> set (rx_seen_daily c)
      then Inl (RiskLedgerRollbackError ''daily baseline identifier regressed'')
      else if new_week \<and> weekly_id \<in> set (rx_seen_weekly c)
      then Inl (RiskLedgerRollbackError ''weekly baseline identifier regressed'')
      else Inr
        (c\<lparr>rx_seen_daily := (if new_day then daily_id # rx_seen_daily c else rx_seen_daily c),
           rx_seen_weekly := (if new_week then weekly_id # rx_seen_weekly c else rx_seen_weekly c)\<rparr>,
         p\<lparr>dv_daily_baseline_id := daily_id, dv_weekly_baseline_id := weekly_id,
           dv_daily_baseline_equity := (if new_day then as_equity e else dv_daily_baseline_equity p),
           dv_weekly_baseline_equity := (if new_week then as_equity e else dv_weekly_baseline_equity p),
           dv_current_equity := as_equity e, dv_high_water_equity := fl_max (dv_high_water_equity p) (as_equity e),
           dv_entries_today := (if new_day then 0 else dv_entries_today p)\<rparr>))"

definition apply_entry :: "ReplayContext \<Rightarrow> EntryRiskEvent \<Rightarrow> DerivedState \<Rightarrow> (ReplayContext \<times> DerivedState) res" where
  "apply_entry c e p =
     (if map_of (rx_entries c) (ee_entry_id e) \<noteq> None
      then Inl (RiskLedgerDuplicateError ''entry event already exists'')
      else Inr (c\<lparr>rx_entries := (ee_entry_id e, ee_symbol e) # rx_entries c\<rparr>,
                p\<lparr>dv_entries_today := dv_entries_today p + 1\<rparr>))"

definition apply_closed :: "ReplayContext \<Rightarrow> ClosedTradeRiskEvent \<Rightarrow> DerivedState \<Rightarrow> (ReplayContext \<times> DerivedState) res" where
  "apply_closed c e p =
     (case map_of (rx_entries c) (ct_entry_id e) of
        None \<Rightarrow> Inl (RiskLedgerIntegrityError ''closed trade references an unknown entry'')
      | Some entry_symbol \<Rightarrow>
          if ct_entry_id e \<in> set (rx_closed_entries c)
          then Inl (RiskLedgerDuplicateError ''entry already has a closed-trade event'')
          else if entry_symbol \<noteq> ct_symbol e
          then Inl (RiskLedgerIntegrityError ''closed trade symbol does not match its entry'')
          else let losses = (if ct_outcome e = ''LOSS'' then dv_consecutive_losses p + 1 else 0) in
            Inr (c\<lparr>rx_closed_entries := ct_entry_id e # rx_closed_entries c\<rparr>,
                 p\<lparr>dv_consecutive_losses := losses,
                   dv_loss_latch_active :=
                     (dv_loss_latch_active p \<or> ct_outcome e = ''LOSS'' \<and> LOSS_LATCH_COUNT \<le> losses)\<rparr>))"

definition baselines_differ :: "risk_event \<Rightarrow> DerivedState \<Rightarrow> bool" where
  "baselines_differ event p =
     (em_daily_id (event_metadata event) \<noteq> dv_daily_baseline_id p
      \<or> em_weekly_id (event_metadata event) \<noteq> dv_weekly_baseline_id p)"

definition step_event :: "ReplayContext \<Rightarrow> risk_event \<Rightarrow> DerivedState \<Rightarrow> (ReplayContext \<times> DerivedState) res" where
  "step_event c event p =
     (case event of
        Snapshot e \<Rightarrow> apply_snapshot c e p
      | Entry e \<Rightarrow>
          if baselines_differ event p
          then Inl (RiskLedgerRollbackError ''entry and closed-trade events require the current baseline identifiers'')
          else apply_entry c e p
      | Closed e \<Rightarrow>
          if baselines_differ event p
          then Inl (RiskLedgerRollbackError ''entry and closed-trade events require the current baseline identifiers'')
          else apply_closed c e p)"

definition apply_event :: "ReplayContext \<Rightarrow> risk_event \<Rightarrow> RiskSourceReceipt \<Rightarrow> int \<Rightarrow> string \<Rightarrow> ReplayContext res" where
  "apply_event c event src sequence head =
     (let occurred_at = em_occurred_at (event_metadata event) in
      case rx_state c of
        None \<Rightarrow>
          (case event of
             Snapshot e \<Rightarrow>
               Inr (c\<lparr>rx_state := Some (stamp src sequence head occurred_at ZERO_HMAC_SHA256 (first_state e)),
                      rx_seen_daily := as_daily_baseline_id e # rx_seen_daily c,
                      rx_seen_weekly := as_weekly_baseline_id e # rx_seen_weekly c\<rparr>)
           | _ \<Rightarrow> Inl (RiskLedgerIntegrityError ''the first risk event must be an account snapshot''))
      | Some p \<Rightarrow>
          if dt_lt occurred_at (dv_latest_event_at_utc p)
          then Inl (RiskLedgerRollbackError ''risk event timestamp regressed'')
          else res_bind (step_event c event p) (\<lambda>(c', s).
            Inr (c'\<lparr>rx_state :=
              Some (stamp src sequence head occurred_at (dv_source_receipt_chain_sha256 p) s)\<rparr>)))"

end
