(* ===== verification/Risk_Store.thy ===== *)
theory Risk_Store
  imports Risk_Source
begin

text \<open>
  \<open>DurableRiskLedger\<close> of \<open>live_runtime/risk_ledger.py\<close>: the three tables, the verification that every
  operation runs first, the append of an event, and the signed state receipt.

  The event table is the list of its rows by sequence. A JSON text column is the value it encodes,
  with the members of an object in the order of the text: the code accepts only canonical text, which
  is the test \<open>json_sorted\<close>. An operation is one transaction: it returns the new tables or raises
  and leaves them as they were. SQLite's own page checks and pragmas are not modelled. The providers
  of keys, the upstream verifier, the clock readings and the random identifier are parameters.
\<close>

section \<open>Canonical member order\<close>

fun json_sorted :: "json \<Rightarrow> bool" where
  "json_sorted (JList js) = list_all json_sorted js"
| "json_sorted (JDict kvs) = (sorted (map fst kvs) \<and> list_all (\<lambda>(k, v). json_sorted v) kvs)"
| "json_sorted j = True"

fun json_sort :: "json \<Rightarrow> json" where
  "json_sort (JList js) = JList (map json_sort js)"
| "json_sort (JDict kvs) = JDict (sort_key fst (map (\<lambda>(k, v). (k, json_sort v)) kvs))"
| "json_sort j = j"

section \<open>Tables and ledger\<close>

record IdentityRow =
  id_schema_version :: string
  id_ledger_id :: string
  id_binding :: RiskLedgerBinding
  id_key_id :: string
  id_key_fingerprint_sha256 :: string
  id_source_trust_sha256 :: string
  id_created_at_utc :: string
  id_identity_hmac_sha256 :: string

record RiskEventRow =
  ev_sequence :: int
  ev_event_id :: string
  ev_event_type :: string
  ev_related_entry_id :: "string option"
  ev_occurred_at_utc :: string
  ev_daily_baseline_id :: string
  ev_weekly_baseline_id :: string
  ev_payload :: json
  ev_source_receipt_id :: string
  ev_source_payload :: json
  ev_source_receipt_sha256 :: string
  ev_source_issuer_id :: string
  ev_source_key_id :: string
  ev_upstream_receipt_type :: string
  ev_upstream_receipt_sha256 :: string
  ev_previous_hmac_sha256 :: string
  ev_event_hmac_sha256 :: string

text \<open>
  The materialized state: its columns are those of the derived state and an HMAC; the text of its
  timestamp is the instant it denotes.
\<close>

record StateRow =
  sw_state :: DerivedState
  sw_state_hmac_sha256 :: string

record risk_db =
  db_identity :: "IdentityRow option"
  db_events :: "RiskEventRow list"
  db_state :: "StateRow option"

text \<open>An upstream receipt: its object identity and its content hash, if it has one.\<close>

record UpstreamReceipt =
  up_object :: nat
  up_content_sha256 :: "string option"

record RiskLedger =
  rl_binding :: RiskLedgerBinding
  rl_key_id :: string
  rl_key_provider :: "string \<Rightarrow> string res"
  rl_source_key_provider :: "string \<Rightarrow> string res"
  rl_trusted_source_issuer_keys :: "(string \<times> string list) list"
  rl_upstream_receipt_verifier :: "string \<Rightarrow> UpstreamReceipt \<Rightarrow> UpstreamReceipt res"
  rl_ledger_id :: string

fun normalize_issuers :: "string \<Rightarrow> (string \<times> string list) list \<Rightarrow> (string \<times> string list) list res" where
  "normalize_issuers key_id [] = Inr []"
| "normalize_issuers key_id ((raw_issuer, raw_keys) # rest) =
     res_bind (exact_id ''trusted source issuer'' raw_issuer) (\<lambda>issuer.
     res_bind (checked (map (\<lambda>k. err_of (exact_id ''trusted source key'' k)) raw_keys) ()) (\<lambda>_.
       if raw_keys = [] then Inl (ValueError ''trusted source issuer requires at least one key'')
       else if key_id \<in> set raw_keys then Inl (ValueError ''risk source and ledger HMAC keys must be separated'')
       else res_bind (normalize_issuers key_id rest) (\<lambda>issuers. Inr ((issuer, reason_set raw_keys) # issuers))))"

definition ledger_secret :: "RiskLedger \<Rightarrow> string res" where
  "ledger_secret lg =
     res_bind (res_reraise (\<lambda>e. True) (RiskLedgerIntegrityError ''risk-ledger HMAC key is unavailable'')
       (rl_key_provider lg (rl_key_id lg))) ledger_key"

definition trust_secret :: "RiskLedger \<Rightarrow> string \<Rightarrow> string res" where
  "trust_secret lg key_id =
     res_bind (res_reraise (\<lambda>e. True) (RiskLedgerSourceError ''risk source HMAC key is unavailable'')
       (rl_source_key_provider lg key_id)) ledger_key"

fun key_fingerprints :: "RiskLedger \<Rightarrow> string list \<Rightarrow> item res" where
  "key_fingerprints lg [] = Inr []"
| "key_fingerprints lg (k # ks) =
     res_bind (trust_secret lg k) (\<lambda>secret.
     res_bind (key_fingerprints lg ks) (\<lambda>rest. Inr ((k, JStr (sha256_hex secret)) # rest)))"

fun trust_items :: "RiskLedger \<Rightarrow> (string \<times> string list) list \<Rightarrow> item res" where
  "trust_items lg [] = Inr []"
| "trust_items lg ((issuer, ks) # rest) =
     res_bind (key_fingerprints lg ks) (\<lambda>keys.
     res_bind (trust_items lg rest) (\<lambda>items. Inr ((issuer, JDict keys) # items)))"

definition source_trust_sha256 :: "RiskLedger \<Rightarrow> string res" where
  "source_trust_sha256 lg =
     res_bind (trust_items lg (rl_trusted_source_issuer_keys lg)) (\<lambda>items. Inr (canonical_sha256 (JDict items)))"

definition identity_body :: "RiskLedger \<Rightarrow> string \<Rightarrow> string \<Rightarrow> string \<Rightarrow> json" where
  "identity_body lg trust ledger_id created_at = JDict
     [(''schema_version'', JStr LEDGER_SCHEMA_VERSION), (''ledger_id'', JStr ledger_id),
      (''binding'', RiskLedgerBinding_dict (rl_binding lg)), (''key_id'', JStr (rl_key_id lg)),
      (''source_trust_sha256'', JStr trust), (''created_at_utc'', JStr created_at)]"

definition binding_sha256 :: "RiskLedger \<Rightarrow> string" where
  "binding_sha256 lg = canonical_sha256 (RiskLedgerBinding_dict (rl_binding lg))"

section \<open>Authenticated bodies\<close>

definition event_hmac_body :: "RiskLedger \<Rightarrow> int \<Rightarrow> string \<Rightarrow> EventMetadata \<Rightarrow> json \<Rightarrow> json \<Rightarrow> json" where
  "event_hmac_body lg sequence previous_hmac m payload source_payload = JDict
     [(''schema_version'', JStr EVENT_SCHEMA_VERSION), (''ledger_id'', JStr (rl_ledger_id lg)),
      (''binding_sha256'', JStr (binding_sha256 lg)), (''sequence'', JInt sequence),
      (''event_type'', JStr (em_event_type m)), (''event_id'', JStr (em_event_id m)),
      (''related_entry_id'', jopt JStr (em_related_entry_id m)),
      (''occurred_at_utc'', jtime (em_occurred_at m)),
      (''daily_baseline_id'', JStr (em_daily_id m)), (''weekly_baseline_id'', JStr (em_weekly_id m)),
      (''payload'', payload), (''source_payload'', source_payload),
      (''previous_hmac_sha256'', JStr previous_hmac)]"

definition state_body :: "RiskLedger \<Rightarrow> DerivedState \<Rightarrow> json" where
  "state_body lg s = JDict
     [(''schema_version'', JStr LEDGER_SCHEMA_VERSION), (''ledger_id'', JStr (rl_ledger_id lg)),
      (''binding_sha256'', JStr (binding_sha256 lg)), (''event_sequence'', JInt (dv_event_sequence s)),
      (''head_hmac_sha256'', JStr (dv_head_hmac_sha256 s)),
      (''latest_event_at_utc'', jtime (dv_latest_event_at_utc s)),
      (''daily_baseline_id'', JStr (dv_daily_baseline_id s)),
      (''weekly_baseline_id'', JStr (dv_weekly_baseline_id s)),
      (''daily_baseline_equity'', JFloat (dv_daily_baseline_equity s)),
      (''weekly_baseline_equity'', JFloat (dv_weekly_baseline_equity s)),
      (''current_equity'', JFloat (dv_current_equity s)),
      (''high_water_equity'', JFloat (dv_high_water_equity s)),
      (''entries_today'', JInt (dv_entries_today s)),
      (''consecutive_losses'', JInt (dv_consecutive_losses s)),
      (''loss_latch_active'', JBool (dv_loss_latch_active s)),
      (''source_verified'', JBool (dv_source_verified s)),
      (''source_evidence_count'', JInt (dv_source_evidence_count s)),
      (''latest_source_receipt_sha256'', JStr (dv_latest_source_receipt_sha256 s)),
      (''source_receipt_chain_sha256'', JStr (dv_source_receipt_chain_sha256 s)),
      (''latest_source_issuer_id'', JStr (dv_latest_source_issuer_id s)),
      (''latest_source_key_id'', JStr (dv_latest_source_key_id s))]"

section \<open>Verification\<close>

definition verify_identity :: "RiskLedger \<Rightarrow> string \<Rightarrow> risk_db \<Rightarrow> string res" where
  "verify_identity lg secret db =
     (case db_identity db of
        None \<Rightarrow> Inl (RiskLedgerIntegrityError ''risk ledger identity cardinality is invalid'')
      | Some row \<Rightarrow>
        if id_schema_version row \<noteq> LEDGER_SCHEMA_VERSION
        then Inl (RiskLedgerIntegrityError ''risk ledger schema version is invalid'')
        else
     res_bind (res_reraise type_or_value_error (RiskLedgerIntegrityError ''risk ledger identity is invalid'')
       (exact_id ''ledger_id'' (id_ledger_id row))) (\<lambda>ledger_id.
     res_bind (parse_utc (JStr (id_created_at_utc row))) (\<lambda>created_at.
     res_bind (res_reraise type_or_value_error (RiskLedgerIntegrityError ''stored risk-ledger binding is invalid'')
       (RiskLedgerBinding_init (id_binding row))) (\<lambda>observed_binding.
     if observed_binding \<noteq> rl_binding lg \<or> id_key_id row \<noteq> rl_key_id lg
     then Inl (RiskLedgerBindingError ''risk ledger exact binding does not match'')
     else if id_key_fingerprint_sha256 row \<noteq> sha256_hex secret
     then Inl (RiskLedgerIntegrityError ''risk ledger HMAC key does not match'')
     else res_bind (source_trust_sha256 lg) (\<lambda>trust.
     if id_source_trust_sha256 row \<noteq> trust
     then Inl (RiskLedgerBindingError ''risk source trust binding does not match'')
     else if id_identity_hmac_sha256 row \<noteq>
         risk_hmac secret (hmac_domain ''IDENTITY'') (identity_body lg trust ledger_id (canonical_datetime created_at))
     then Inl (RiskLedgerIntegrityError ''risk ledger identity HMAC is invalid'')
     else if rl_ledger_id lg \<noteq> [] \<and> rl_ledger_id lg \<noteq> ledger_id
     then Inl (RiskLedgerIntegrityError ''risk ledger identity changed'')
     else Inr ledger_id)))))"

definition columns_disagree ::
  "RiskEventRow \<Rightarrow> EventMetadata \<Rightarrow> RiskSourceReceipt \<Rightarrow> bool" where
  "columns_disagree row m src =
     (ev_event_type row \<noteq> em_event_type m \<or> ev_event_id row \<noteq> em_event_id m
      \<or> ev_related_entry_id row \<noteq> em_related_entry_id m
      \<or> ev_occurred_at_utc row \<noteq> canonical_datetime (em_occurred_at m)
      \<or> ev_daily_baseline_id row \<noteq> em_daily_id m \<or> ev_weekly_baseline_id row \<noteq> em_weekly_id m
      \<or> \<not> json_sorted (ev_payload row) \<or> \<not> json_sorted (ev_source_payload row)
      \<or> ev_source_receipt_id row \<noteq> src_source_receipt_id src
      \<or> ev_source_receipt_sha256 row \<noteq> source_content_sha256 src
      \<or> ev_source_issuer_id row \<noteq> src_issuer_id src \<or> ev_source_key_id row \<noteq> src_key_id src
      \<or> ev_upstream_receipt_type row \<noteq> src_upstream_receipt_type src
      \<or> ev_upstream_receipt_sha256 row \<noteq> src_upstream_receipt_sha256 src)"

text \<open>The event and the source receipt a row encodes.\<close>

definition row_event :: "RiskLedger \<Rightarrow> RiskEventRow \<Rightarrow> (risk_event \<times> RiskSourceReceipt) res" where
  "row_event lg row =
     res_bind (strict_object ''event payload'' (ev_payload row)) (\<lambda>payload.
     res_bind (strict_object ''risk source payload'' (ev_source_payload row)) (\<lambda>_.
     res_bind (event_from_payload (ev_event_type row) payload) (\<lambda>event.
     res_bind (verify_risk_source_receipt (ev_source_payload row) event (rl_binding lg)
       (rl_source_key_provider lg) (rl_trusted_source_issuer_keys lg) None) (\<lambda>src.
       Inr (event, src)))))"

definition verify_row :: "RiskLedger \<Rightarrow> string \<Rightarrow> int \<Rightarrow> string \<Rightarrow> RiskEventRow \<Rightarrow> ReplayContext \<Rightarrow> ReplayContext res" where
  "verify_row lg secret expected previous_hmac row c =
     (if ev_sequence row \<noteq> expected
      then Inl (RiskLedgerRollbackError ''risk event sequence is not contiguous'')
      else if ev_previous_hmac_sha256 row \<noteq> previous_hmac
      then Inl (RiskLedgerIntegrityError ''risk event chain predecessor is invalid'')
      else res_bind (row_event lg row) (\<lambda>(event, src).
        let m = event_metadata event;
            expected_hmac = risk_hmac secret (hmac_domain ''EVENT'')
              (event_hmac_body lg expected previous_hmac m (ev_payload row) (ev_source_payload row)) in
        if columns_disagree row m src
        then Inl (RiskLedgerIntegrityError ''risk event columns and payload disagree'')
        else if event_binding event \<noteq> rl_binding lg
        then Inl (RiskLedgerBindingError ''stored risk event binding does not match'')
        else if ev_event_hmac_sha256 row \<noteq> expected_hmac
        then Inl (RiskLedgerIntegrityError ''risk event HMAC is invalid'')
        else apply_event c event src expected expected_hmac))"

fun verify_rows ::
  "RiskLedger \<Rightarrow> string \<Rightarrow> int \<Rightarrow> string \<Rightarrow> RiskEventRow list \<Rightarrow> ReplayContext \<Rightarrow> ReplayContext res" where
  "verify_rows lg secret expected previous_hmac [] c = Inr c"
| "verify_rows lg secret expected previous_hmac (row # rows) c =
     res_bind (verify_row lg secret expected previous_hmac row c) (\<lambda>c'.
       verify_rows lg secret (expected + 1) (ev_event_hmac_sha256 row) rows c')"

definition state_from_row :: "StateRow \<Rightarrow> DerivedState res" where
  "state_from_row row =
     (let s = sw_state row in
      res_reraise type_or_value_error (RiskLedgerIntegrityError ''materialized risk state is invalid'')
       (checked
         [raise_if (\<not> dv_source_verified s) (ValueError ''stored source_verified is invalid''),
          err_of (require_int ''stored event_sequence'' (NInt (dv_event_sequence s)) 1 None),
          err_of (require_hash ''stored head_hmac_sha256'' (dv_head_hmac_sha256 s) 64),
          err_of (require_utc ''stored timestamp'' (dv_latest_event_at_utc s)),
          err_of (exact_id ''stored daily_baseline_id'' (dv_daily_baseline_id s)),
          err_of (exact_id ''stored weekly_baseline_id'' (dv_weekly_baseline_id s)),
          err_of (require_finite ''stored daily_baseline_equity'' (NFloat (dv_daily_baseline_equity s)) True False),
          err_of (require_finite ''stored weekly_baseline_equity'' (NFloat (dv_weekly_baseline_equity s)) True False),
          err_of (require_finite ''stored current_equity'' (NFloat (dv_current_equity s)) True False),
          err_of (require_finite ''stored high_water_equity'' (NFloat (dv_high_water_equity s)) True False),
          err_of (require_int ''stored entries_today'' (NInt (dv_entries_today s)) 0 None),
          err_of (require_int ''stored consecutive_losses'' (NInt (dv_consecutive_losses s)) 0 None),
          err_of (require_int ''stored source_evidence_count'' (NInt (dv_source_evidence_count s)) 1 None),
          err_of (require_hash ''stored latest_source_receipt_sha256'' (dv_latest_source_receipt_sha256 s) 64),
          err_of (require_hash ''stored source_receipt_chain_sha256'' (dv_source_receipt_chain_sha256 s) 64),
          err_of (exact_id ''stored latest_source_issuer_id'' (dv_latest_source_issuer_id s)),
          err_of (exact_id ''stored latest_source_key_id'' (dv_latest_source_key_id s))]
         (s\<lparr>dv_head_hmac_sha256 := norm_hash (dv_head_hmac_sha256 s),
            dv_latest_source_receipt_sha256 := norm_hash (dv_latest_source_receipt_sha256 s),
            dv_source_receipt_chain_sha256 := norm_hash (dv_source_receipt_chain_sha256 s)\<rparr>)))"

text \<open>\<open>_verify_connection\<close>: the ledger with its identifier set, and the replayed context.\<close>

definition verify_connection :: "RiskLedger \<Rightarrow> string \<Rightarrow> risk_db \<Rightarrow> (RiskLedger \<times> ReplayContext) res" where
  "verify_connection ledger secret db =
     res_bind (verify_identity ledger secret db) (\<lambda>ledger_id.
     let lg = ledger\<lparr>rl_ledger_id := ledger_id\<rparr> in
     case (db_events db, db_state db) of
       ([], None) \<Rightarrow> Inr (lg, new_replay)
     | ([], Some _) \<Rightarrow> Inl (RiskLedgerIntegrityError ''risk state exists without events'')
     | (_, None) \<Rightarrow> Inl (RiskLedgerIntegrityError ''materialized risk state is missing'')
     | (rows, Some state_row) \<Rightarrow>
         res_bind (verify_rows lg secret 1 ZERO_HMAC_SHA256 rows new_replay) (\<lambda>c.
         res_bind (state_from_row state_row) (\<lambda>stored.
         if rx_state c \<noteq> Some stored
         then Inl (RiskLedgerIntegrityError ''materialized risk state disagrees with event replay'')
         else if sw_state_hmac_sha256 state_row \<noteq> risk_hmac secret (hmac_domain ''STATE'') (state_body lg stored)
         then Inl (RiskLedgerIntegrityError ''materialized risk state HMAC is invalid'')
         else Inr (lg, c))))"

section \<open>State receipts\<close>

text \<open>A receipt carries the fields of the derived state, grouped here in \<open>rr_state\<close>.\<close>

record RiskStateReceipt =
  rr_ledger_id :: string
  rr_binding :: RiskLedgerBinding
  rr_key_id :: string
  rr_issued_at_utc :: datetime
  rr_state :: DerivedState
  rr_receipt_hmac_sha256 :: string
  rr_schema_version :: string

definition RiskStateReceipt_init :: "bool \<Rightarrow> RiskStateReceipt \<Rightarrow> RiskStateReceipt res" where
  "RiskStateReceipt_init sealed r =
     (let s = rr_state r in
      checked
        [raise_if (\<not> sealed) (TypeError ''RiskStateReceipt can only be created by DurableRiskLedger''),
         err_of (exact_id ''ledger_id'' (rr_ledger_id r)),
         err_of (exact_id ''key_id'' (rr_key_id r)),
         err_of (require_utc ''issued_at_utc'' (rr_issued_at_utc r)),
         err_of (require_utc ''latest_event_at_utc'' (dv_latest_event_at_utc s)),
         raise_if (dt_lt (rr_issued_at_utc r) (dv_latest_event_at_utc s))
           (ValueError ''receipt cannot predate the latest event''),
         err_of (require_int ''event_sequence'' (NInt (dv_event_sequence s)) 1 None),
         err_of (require_hash ''head_hmac_sha256'' (dv_head_hmac_sha256 s) 64),
         err_of (exact_id ''daily_baseline_id'' (dv_daily_baseline_id s)),
         err_of (exact_id ''weekly_baseline_id'' (dv_weekly_baseline_id s)),
         err_of (require_finite ''daily_baseline_equity'' (NFloat (dv_daily_baseline_equity s)) True False),
         err_of (require_finite ''weekly_baseline_equity'' (NFloat (dv_weekly_baseline_equity s)) True False),
         err_of (require_finite ''current_equity'' (NFloat (dv_current_equity s)) True False),
         err_of (require_finite ''high_water_equity'' (NFloat (dv_high_water_equity s)) True False),
         raise_if (fl_lt (dv_high_water_equity s) (dv_current_equity s))
           (ValueError ''high-water equity cannot be below current equity''),
         err_of (require_int ''entries_today'' (NInt (dv_entries_today s)) 0 None),
         err_of (require_int ''consecutive_losses'' (NInt (dv_consecutive_losses s)) 0 None),
         raise_if (LOSS_LATCH_COUNT \<le> dv_consecutive_losses s \<and> \<not> dv_loss_latch_active s)
           (ValueError ''two consecutive losses must latch the risk stop''),
         raise_if (\<not> dv_source_verified s)
           (ValueError ''execution-trusted risk receipt requires verified sources''),
         err_of (require_int ''source_evidence_count'' (NInt (dv_source_evidence_count s)) 1 None),
         raise_if (dv_source_evidence_count s \<noteq> dv_event_sequence s)
           (ValueError ''each risk event requires exactly one verified source''),
         err_of (require_hash ''latest_source_receipt_sha256'' (dv_latest_source_receipt_sha256 s) 64),
         err_of (require_hash ''source_receipt_chain_sha256'' (dv_source_receipt_chain_sha256 s) 64),
         err_of (exact_id ''latest_source_issuer_id'' (dv_latest_source_issuer_id s)),
         err_of (exact_id ''latest_source_key_id'' (dv_latest_source_key_id s)),
         err_of (require_hash ''receipt_hmac_sha256'' (rr_receipt_hmac_sha256 r) 64),
         raise_if (rr_schema_version r \<noteq> RECEIPT_SCHEMA_VERSION) (ValueError ''risk-state receipt schema is invalid'')]
        (r\<lparr>rr_state := s\<lparr>dv_head_hmac_sha256 := norm_hash (dv_head_hmac_sha256 s),
             dv_latest_source_receipt_sha256 := norm_hash (dv_latest_source_receipt_sha256 s),
             dv_source_receipt_chain_sha256 := norm_hash (dv_source_receipt_chain_sha256 s)\<rparr>,
           rr_receipt_hmac_sha256 := norm_hash (rr_receipt_hmac_sha256 r)\<rparr>))"

definition RiskStateReceipt_dict :: "RiskStateReceipt \<Rightarrow> json" where
  "RiskStateReceipt_dict r = (let s = rr_state r in JDict
     [(''ledger_id'', JStr (rr_ledger_id r)), (''binding'', RiskLedgerBinding_dict (rr_binding r)),
      (''key_id'', JStr (rr_key_id r)), (''issued_at_utc'', jtime (rr_issued_at_utc r)),
      (''latest_event_at_utc'', jtime (dv_latest_event_at_utc s)), (''event_sequence'', JInt (dv_event_sequence s)),
      (''head_hmac_sha256'', JStr (dv_head_hmac_sha256 s)),
      (''daily_baseline_id'', JStr (dv_daily_baseline_id s)),
      (''weekly_baseline_id'', JStr (dv_weekly_baseline_id s)),
      (''daily_baseline_equity'', JFloat (dv_daily_baseline_equity s)),
      (''weekly_baseline_equity'', JFloat (dv_weekly_baseline_equity s)),
      (''current_equity'', JFloat (dv_current_equity s)),
      (''high_water_equity'', JFloat (dv_high_water_equity s)),
      (''entries_today'', JInt (dv_entries_today s)),
      (''consecutive_losses'', JInt (dv_consecutive_losses s)),
      (''loss_latch_active'', JBool (dv_loss_latch_active s)),
      (''source_verified'', JBool (dv_source_verified s)),
      (''source_evidence_count'', JInt (dv_source_evidence_count s)),
      (''latest_source_receipt_sha256'', JStr (dv_latest_source_receipt_sha256 s)),
      (''source_receipt_chain_sha256'', JStr (dv_source_receipt_chain_sha256 s)),
      (''latest_source_issuer_id'', JStr (dv_latest_source_issuer_id s)),
      (''latest_source_key_id'', JStr (dv_latest_source_key_id s)),
      (''receipt_hmac_sha256'', JStr (rr_receipt_hmac_sha256 r)),
      (''schema_version'', JStr (rr_schema_version r))])"

definition receipt_signing_payload :: "RiskStateReceipt \<Rightarrow> json" where
  "receipt_signing_payload r = json_pop ''receipt_hmac_sha256'' (RiskStateReceipt_dict r)"

definition state_receipt :: "RiskLedger \<Rightarrow> DerivedState \<Rightarrow> datetime \<Rightarrow> string \<Rightarrow> RiskStateReceipt res" where
  "state_receipt lg s issued_at secret =
     (let unsigned = \<lparr>rr_ledger_id = rl_ledger_id lg, rr_binding = rl_binding lg, rr_key_id = rl_key_id lg,
            rr_issued_at_utc = issued_at, rr_state = s, rr_receipt_hmac_sha256 = [],
            rr_schema_version = RECEIPT_SCHEMA_VERSION\<rparr> in
      RiskStateReceipt_init True
        (unsigned\<lparr>rr_receipt_hmac_sha256 :=
           risk_hmac secret (hmac_domain ''RECEIPT'') (receipt_signing_payload unsigned)\<rparr>))"

definition verify_risk_state_receipt :: "RiskStateReceipt \<Rightarrow> (string \<Rightarrow> string res) \<Rightarrow> bool" where
  "verify_risk_state_receipt r key_provider =
     (case res_bind (key_provider (rr_key_id r)) ledger_key of
        Inl e \<Rightarrow> False
      | Inr secret \<Rightarrow>
          rr_receipt_hmac_sha256 r = risk_hmac secret (hmac_domain ''RECEIPT'') (receipt_signing_payload r))"

definition verify_checkpoint :: "RiskLedger \<Rightarrow> risk_db \<Rightarrow> ReplayContext \<Rightarrow> RiskStateReceipt \<Rightarrow> unit res" where
  "verify_checkpoint lg db c r =
     (let sequence = dv_event_sequence (rr_state r) in
      checked
        [raise_if (\<not> verify_risk_state_receipt r (rl_key_provider lg))
           (RiskLedgerRollbackError ''expected risk-state receipt signature is invalid''),
         raise_if (rr_ledger_id r \<noteq> rl_ledger_id lg \<or> rr_binding r \<noteq> rl_binding lg \<or> rr_key_id r \<noteq> rl_key_id lg)
           (RiskLedgerRollbackError ''expected risk-state receipt binding is invalid''),
         raise_if (case rx_state c of None \<Rightarrow> True | Some s \<Rightarrow> dv_event_sequence s < sequence)
           (RiskLedgerRollbackError ''risk ledger is older than the expected receipt''),
         raise_if (case find (\<lambda>row. ev_sequence row = sequence) (db_events db) of
             None \<Rightarrow> True
           | Some row \<Rightarrow> ev_event_hmac_sha256 row \<noteq> dv_head_hmac_sha256 (rr_state r))
           (RiskLedgerRollbackError ''risk ledger forked from the expected receipt'')]
        ())"

definition check_expected :: "RiskLedger \<Rightarrow> risk_db \<Rightarrow> ReplayContext \<Rightarrow> RiskStateReceipt option \<Rightarrow> unit res" where
  "check_expected lg db c expected =
     (case expected of None \<Rightarrow> Inr () | Some r \<Rightarrow> verify_checkpoint lg db c r)"

section \<open>Operations\<close>

definition ledger_now :: "datetime \<Rightarrow> datetime res" where
  "ledger_now clock = require_utc ''trusted risk-ledger clock'' clock"

text \<open>
  Opening a ledger, on an existing or on a new file (all tables empty); \<open>random_hex\<close> is the
  \<open>uuid4().hex\<close> of a new identity.
\<close>

definition new_identity :: "RiskLedger \<Rightarrow> string \<Rightarrow> string \<Rightarrow> string \<Rightarrow> datetime \<Rightarrow> IdentityRow" where
  "new_identity lg secret trust ledger_id now =
     \<lparr>id_schema_version = LEDGER_SCHEMA_VERSION, id_ledger_id = ledger_id, id_binding = rl_binding lg,
      id_key_id = rl_key_id lg, id_key_fingerprint_sha256 = sha256_hex secret, id_source_trust_sha256 = trust,
      id_created_at_utc = canonical_datetime now,
      id_identity_hmac_sha256 =
        risk_hmac secret (hmac_domain ''IDENTITY'') (identity_body lg trust ledger_id (canonical_datetime now))\<rparr>"

definition ensure_identity ::
  "RiskLedger \<Rightarrow> string \<Rightarrow> datetime \<Rightarrow> string \<Rightarrow> risk_db \<Rightarrow> (string \<times> risk_db) res" where
  "ensure_identity lg secret now random_hex db =
     (case db_identity db of
        Some row \<Rightarrow> Inr (id_ledger_id row, db)
      | None \<Rightarrow>
          if db_events db \<noteq> [] \<or> db_state db \<noteq> None
          then Inl (RiskLedgerIntegrityError ''risk ledger identity is missing'')
          else res_bind (source_trust_sha256 lg) (\<lambda>trust.
            let ledger_id = ''risk-'' @ random_hex in
            Inr (ledger_id, db\<lparr>db_identity := Some (new_identity lg secret trust ledger_id now)\<rparr>)))"

definition initialize_ledger ::
  "RiskLedger \<Rightarrow> datetime \<Rightarrow> string \<Rightarrow> RiskStateReceipt option \<Rightarrow> risk_db \<Rightarrow> (RiskLedger \<times> risk_db) res" where
  "initialize_ledger ledger clock random_hex expected db =
     res_bind (ledger_secret ledger) (\<lambda>secret.
     res_bind (ledger_now clock) (\<lambda>now.
     res_bind (ensure_identity ledger secret now random_hex db) (\<lambda>(ledger_id, db').
     res_bind (verify_connection (ledger\<lparr>rl_ledger_id := ledger_id\<rparr>) secret db') (\<lambda>(lg, c).
     res_bind (check_expected lg db' c expected) (\<lambda>_. Inr (lg, db'))))))"

definition DurableRiskLedger_init ::
  "RiskLedger \<Rightarrow> datetime \<Rightarrow> string \<Rightarrow> RiskStateReceipt option \<Rightarrow> risk_db \<Rightarrow> (RiskLedger \<times> risk_db) res" where
  "DurableRiskLedger_init ledger clock random_hex expected db =
     res_bind (exact_id ''key_id'' (rl_key_id ledger)) (\<lambda>key_id.
     res_bind (normalize_issuers key_id (rl_trusted_source_issuer_keys ledger)) (\<lambda>issuers.
     if issuers = [] then Inl (ValueError ''at least one trusted risk source issuer is required'')
     else initialize_ledger (ledger\<lparr>rl_trusted_source_issuer_keys := issuers, rl_ledger_id := []\<rparr>)
            clock random_hex expected db))"

definition verified_source_for_append ::
  "RiskLedger \<Rightarrow> risk_event \<Rightarrow> RiskSourceReceipt \<Rightarrow> UpstreamReceipt \<Rightarrow> datetime \<Rightarrow> RiskSourceReceipt res" where
  "verified_source_for_append lg event src upstream clock =
     res_bind (verify_risk_source_receipt (RiskSourceReceipt_dict src) event (rl_binding lg)
       (rl_source_key_provider lg) (rl_trusted_source_issuer_keys lg) (Some clock)) (\<lambda>verified.
     res_bind (res_reraise (\<lambda>e. True) (RiskLedgerSourceError ''exact upstream receipt verification failed'')
       (rl_upstream_receipt_verifier lg (src_upstream_receipt_type verified) upstream)) (\<lambda>returned.
     if up_object returned \<noteq> up_object upstream
     then Inl (RiskLedgerSourceError ''upstream verifier must return the exact sealed receipt'')
     else case up_content_sha256 returned of
       None \<Rightarrow> Inl (RiskLedgerSourceError ''verified upstream receipt has no canonical hash'')
     | Some raw \<Rightarrow>
         res_bind (res_reraise type_or_value_error
           (RiskLedgerSourceError ''verified upstream receipt has no canonical hash'')
           (require_hash ''verified upstream receipt hash'' raw 64)) (\<lambda>upstream_sha256.
         if upstream_sha256 \<noteq> src_upstream_receipt_sha256 verified
         then Inl (RiskLedgerSourceError ''upstream receipt hash does not match source'')
         else Inr verified)))"

definition event_row ::
  "int \<Rightarrow> string \<Rightarrow> risk_event \<Rightarrow> RiskSourceReceipt \<Rightarrow> string \<Rightarrow> RiskEventRow" where
  "event_row sequence previous_hmac event src event_hmac =
     (let m = event_metadata event in
      \<lparr>ev_sequence = sequence, ev_event_id = em_event_id m, ev_event_type = em_event_type m,
       ev_related_entry_id = em_related_entry_id m, ev_occurred_at_utc = canonical_datetime (em_occurred_at m),
       ev_daily_baseline_id = em_daily_id m, ev_weekly_baseline_id = em_weekly_id m,
       ev_payload = json_sort (risk_event_dict event), ev_source_receipt_id = src_source_receipt_id src,
       ev_source_payload = json_sort (RiskSourceReceipt_dict src),
       ev_source_receipt_sha256 = source_content_sha256 src,
       ev_source_issuer_id = src_issuer_id src, ev_source_key_id = src_key_id src,
       ev_upstream_receipt_type = src_upstream_receipt_type src,
       ev_upstream_receipt_sha256 = src_upstream_receipt_sha256 src,
       ev_previous_hmac_sha256 = previous_hmac, ev_event_hmac_sha256 = event_hmac\<rparr>)"

text \<open>The UNIQUE constraints of the event table, the partial index on closed entries included.\<close>

definition unique_conflict :: "RiskEventRow \<Rightarrow> RiskEventRow \<Rightarrow> bool" where
  "unique_conflict row old =
     (ev_sequence old = ev_sequence row \<or> ev_event_id old = ev_event_id row
      \<or> ev_source_receipt_id old = ev_source_receipt_id row
      \<or> ev_source_receipt_sha256 old = ev_source_receipt_sha256 row
      \<or> ev_upstream_receipt_sha256 old = ev_upstream_receipt_sha256 row
      \<or> ev_event_hmac_sha256 old = ev_event_hmac_sha256 row
      \<or> ev_event_type old = ''CLOSED_TRADE'' \<and> ev_event_type row = ''CLOSED_TRADE''
          \<and> ev_related_entry_id old = ev_related_entry_id row)"

definition insert_event :: "RiskEventRow \<Rightarrow> risk_db \<Rightarrow> risk_db res" where
  "insert_event row db =
     (if list_ex (unique_conflict row) (db_events db) then Inl (IntegrityError ''UNIQUE constraint failed'')
      else Inr (db\<lparr>db_events := db_events db @ [row]\<rparr>))"

definition write_state :: "RiskLedger \<Rightarrow> DerivedState \<Rightarrow> string \<Rightarrow> risk_db \<Rightarrow> risk_db" where
  "write_state lg s secret db =
     db\<lparr>db_state := Some \<lparr>sw_state = s,
         sw_state_hmac_sha256 = risk_hmac secret (hmac_domain ''STATE'') (state_body lg s)\<rparr>\<rparr>"

definition source_consumed :: "RiskSourceReceipt \<Rightarrow> RiskEventRow \<Rightarrow> bool" where
  "source_consumed src row =
     (ev_source_receipt_id row = src_source_receipt_id src
      \<or> ev_source_receipt_sha256 row = source_content_sha256 src
      \<or> ev_upstream_receipt_sha256 row = src_upstream_receipt_sha256 src)"

definition append_locked ::
  "RiskLedger \<Rightarrow> string \<Rightarrow> risk_event \<Rightarrow> RiskSourceReceipt \<Rightarrow> datetime \<Rightarrow> risk_db \<Rightarrow> (risk_db \<times> RiskStateReceipt) res" where
  "append_locked ledger secret event src now db =
     res_bind (verify_connection ledger secret db) (\<lambda>(lg, c).
     if list_ex (\<lambda>row. ev_event_id row = em_event_id (event_metadata event)) (db_events db)
     then Inl (RiskLedgerDuplicateError ''risk event identifier already exists'')
     else if list_ex (source_consumed src) (db_events db)
     then Inl (RiskLedgerDuplicateError ''risk source or upstream receipt was already consumed'')
     else
     let sequence = (case rx_state c of None \<Rightarrow> 1 | Some s \<Rightarrow> dv_event_sequence s + 1);
         previous_hmac = (case rx_state c of None \<Rightarrow> ZERO_HMAC_SHA256 | Some s \<Rightarrow> dv_head_hmac_sha256 s);
         event_hmac = risk_hmac secret (hmac_domain ''EVENT'')
           (event_hmac_body lg sequence previous_hmac (event_metadata event)
              (json_sort (risk_event_dict event)) (json_sort (RiskSourceReceipt_dict src))) in
     res_bind (apply_event c event src sequence event_hmac) (\<lambda>c'.
     res_bind (insert_event (event_row sequence previous_hmac event src event_hmac) db) (\<lambda>db1.
     case rx_state c' of
       None \<Rightarrow> Inl (AssertionError ''event replay did not produce state'')
     | Some s \<Rightarrow>
         let db2 = write_state lg s secret db1 in
         res_bind (verify_connection lg secret db2) (\<lambda>(_, verified).
         if rx_state verified \<noteq> Some s
         then Inl (RiskLedgerIntegrityError ''risk state changed during append'')
         else res_bind (state_receipt lg s now secret) (\<lambda>receipt. Inr (db2, receipt))))))"

definition append_event ::
  "RiskLedger \<Rightarrow> risk_event \<Rightarrow> RiskSourceReceipt \<Rightarrow> UpstreamReceipt \<Rightarrow> datetime \<Rightarrow> datetime \<Rightarrow> risk_db
   \<Rightarrow> (risk_db \<times> RiskStateReceipt) res" where
  "append_event lg event src upstream source_clock clock db =
     (if event_binding event \<noteq> rl_binding lg
      then Inl (RiskLedgerBindingError ''risk event exact binding does not match'')
      else
     res_bind (verified_source_for_append lg event src upstream source_clock) (\<lambda>verified.
     res_bind (ledger_now clock) (\<lambda>now.
     if dt_lt (dt_add now MAX_FUTURE_CLOCK_DRIFT) (em_occurred_at (event_metadata event))
     then Inl (RiskLedgerRollbackError ''risk event timestamp is ahead of trusted UTC'')
     else res_bind (ledger_secret lg) (\<lambda>secret. append_locked lg secret event verified now db))))"

definition current_receipt :: "RiskLedger \<Rightarrow> datetime \<Rightarrow> risk_db \<Rightarrow> RiskStateReceipt res" where
  "current_receipt ledger clock db =
     res_bind (ledger_secret ledger) (\<lambda>secret.
     res_bind (ledger_now clock) (\<lambda>now.
     res_bind (verify_connection ledger secret db) (\<lambda>(lg, c).
     case rx_state c of
       None \<Rightarrow> Inl (RiskLedgerError ''an account snapshot is required before a receipt'')
     | Some s \<Rightarrow> state_receipt lg s now secret)))"

definition verify_integrity :: "RiskLedger \<Rightarrow> RiskStateReceipt option \<Rightarrow> risk_db \<Rightarrow> bool res" where
  "verify_integrity ledger expected db =
     res_bind (ledger_secret ledger) (\<lambda>secret.
     res_bind (verify_connection ledger secret db) (\<lambda>(lg, c).
     res_bind (check_expected lg db c expected) (\<lambda>_. Inr True)))"

section \<open>Checkpoint acknowledgements\<close>

record RiskStateCheckpointCASAcknowledgement =
  ca_expected_current_checkpoint_sha256 :: string
  ca_written_checkpoint_sha256 :: string
  ca_schema_version :: string

definition RiskStateCheckpointCASAcknowledgement_init ::
  "RiskStateCheckpointCASAcknowledgement \<Rightarrow> RiskStateCheckpointCASAcknowledgement res" where
  "RiskStateCheckpointCASAcknowledgement_init a =
     checked
       [err_of (require_hash ''expected_current_checkpoint_sha256'' (ca_expected_current_checkpoint_sha256 a) 64),
        err_of (require_hash ''written_checkpoint_sha256'' (ca_written_checkpoint_sha256 a) 64),
        raise_if (ca_schema_version a \<noteq> CHECKPOINT_CAS_ACK_SCHEMA_VERSION)
          (ValueError ''unsupported risk checkpoint CAS acknowledgement'')]
       (a\<lparr>ca_expected_current_checkpoint_sha256 := norm_hash (ca_expected_current_checkpoint_sha256 a),
          ca_written_checkpoint_sha256 := norm_hash (ca_written_checkpoint_sha256 a)\<rparr>)"

end
