(* ===== verification/Risk_Context.thy ===== *)
theory Risk_Context
  imports Runtime_Facts Risk_Store Permit Market_Guard
begin

text \<open>
  \<open>live_runtime/risk_context_factory.py\<close>: the signed receipts of broker exposure and of spread and
  slippage calibration, the factory that turns a risk-state receipt, a runtime-fact receipt, an
  exposure receipt, a calibration receipt, a market-guard decision, a permit validation and an
  optional currency conversion into one sealed risk context, and the check of that context where it
  is used. The key providers are arguments that return a secret or raise; the seal is a boolean.
\<close>

section \<open>Constants and helpers\<close>

definition EXPOSURE_RECEIPT_SCHEMA_VERSION :: string where
  "EXPOSURE_RECEIPT_SCHEMA_VERSION = ''trusted-exposure-receipt-v1''"

definition CALIBRATION_RECEIPT_SCHEMA_VERSION :: string where
  "CALIBRATION_RECEIPT_SCHEMA_VERSION = ''trusted-risk-calibration-receipt-v1''"

definition VERIFIED_RISK_CONTEXT_SCHEMA_VERSION :: string where
  "VERIFIED_RISK_CONTEXT_SCHEMA_VERSION = ''verified-risk-context-v1''"

definition SHORT_LIVED_RECEIPT_MAX_AGE :: int where
  "SHORT_LIVED_RECEIPT_MAX_AGE = seconds 1"

definition CALIBRATION_RECEIPT_MAX_AGE :: int where
  "CALIBRATION_RECEIPT_MAX_AGE = minutes (24 * 60)"

definition MINIMUM_CALIBRATION_SESSIONS :: int where
  "MINIMUM_CALIBRATION_SESSIONS = 20"

definition MINIMUM_CALIBRATION_WINDOW :: int where
  "MINIMUM_CALIBRATION_WINDOW = minutes (19 * 24 * 60)"

definition EXPOSURE_HMAC_DOMAIN :: string where
  "EXPOSURE_HMAC_DOMAIN = ''AI_SCALPER_TRUSTED_EXPOSURE_RECEIPT_V1'' @ [CHR 0x00]"

definition CALIBRATION_HMAC_DOMAIN :: string where
  "CALIBRATION_HMAC_DOMAIN = ''AI_SCALPER_RISK_CALIBRATION_RECEIPT_V1'' @ [CHR 0x00]"

definition receipt_secret_bytes :: "string \<Rightarrow> string res" where
  "receipt_secret_bytes secret =
     (if length secret < 32 then Inl (ValueError ''receipt HMAC secret must contain at least 32 bytes'')
      else Inr secret)"

definition context_symbols_checks :: "string list \<Rightarrow> exn option list" where
  "context_symbols_checks symbols =
     map (\<lambda>s. err_of (require_text ''canonical symbol'' s True)) symbols
     @ [raise_if (\<not> distinct (map (norm_text True) symbols))
          (ValueError ''canonical symbols cannot contain duplicates'')]"

definition signing_hmac :: "string \<Rightarrow> string \<Rightarrow> json \<Rightarrow> string res" where
  "signing_hmac secret domain payload =
     res_bind (receipt_secret_bytes secret) (\<lambda>k. Inr (hmac_sha256_hex k (domain @ canonical_json payload)))"

definition context_environments :: "string set" where
  "context_environments = {''DEMO'', ''LIVE'', ''LIVE_READ_ONLY''}"

text \<open>The check of an optional signature field.\<close>

definition signature_check :: "string \<Rightarrow> exn option" where
  "signature_check s = (if str_strip s = [] then None else err_of (require_hash ''signature'' s 64))"

section \<open>BrokerExposure and ExposureReceipt\<close>

record BrokerExposure =
  be_exposure_id :: string
  be_kind :: string
  be_canonical_symbol :: string
  be_broker_symbol :: string
  be_side :: string
  be_volume :: pyfloat

definition BrokerExposure_init :: "BrokerExposure \<Rightarrow> BrokerExposure res" where
  "BrokerExposure_init x =
     checked
       [err_of (require_text ''exposure_id'' (be_exposure_id x) False),
        err_of (require_text ''kind'' (be_kind x) True),
        raise_if (norm_text True (be_kind x) \<notin> {''ORDER'', ''POSITION''})
          (ValueError ''kind must be ORDER or POSITION''),
        err_of (require_text ''canonical_symbol'' (be_canonical_symbol x) True),
        err_of (require_text ''broker_symbol'' (be_broker_symbol x) False),
        err_of (require_text ''side'' (be_side x) True),
        raise_if (norm_text True (be_side x) \<notin> {''BUY'', ''SELL''}) (ValueError ''side must be BUY or SELL''),
        err_of (require_finite ''volume'' (NFloat (be_volume x)) True False)]
       (x\<lparr>be_exposure_id := norm_text False (be_exposure_id x), be_kind := norm_text True (be_kind x),
          be_canonical_symbol := norm_text True (be_canonical_symbol x),
          be_broker_symbol := norm_text False (be_broker_symbol x), be_side := norm_text True (be_side x)\<rparr>)"

definition BrokerExposure_dict :: "BrokerExposure \<Rightarrow> json" where
  "BrokerExposure_dict x = JDict
     [(''exposure_id'', JStr (be_exposure_id x)), (''kind'', JStr (be_kind x)),
      (''canonical_symbol'', JStr (be_canonical_symbol x)), (''broker_symbol'', JStr (be_broker_symbol x)),
      (''side'', JStr (be_side x)), (''volume'', JFloat (be_volume x))]"

definition normalize_exposures_checks :: "string \<Rightarrow> BrokerExposure list \<Rightarrow> string \<Rightarrow> exn option list" where
  "normalize_exposures_checks name values kind =
     [raise_if (list_ex (\<lambda>x. be_kind x \<noteq> kind) values) (ValueError (name @ '' contains the wrong exposure kind'')),
      raise_if (\<not> distinct (map be_exposure_id values))
        (ValueError (name @ '' cannot contain duplicate broker identifiers''))]"

definition normalize_exposures :: "BrokerExposure list \<Rightarrow> BrokerExposure list" where
  "normalize_exposures values = sort_key be_exposure_id values"

record ExposureReceipt =
  xr_account_id :: string
  xr_server :: string
  xr_environment :: string
  xr_account_runtime_identity_sha256 :: string
  xr_journal_sha256 :: string
  xr_active_orders :: "BrokerExposure list"
  xr_active_positions :: "BrokerExposure list"
  xr_active_order_count :: int
  xr_active_position_count :: int
  xr_reserved_canonical_symbols :: "string list"
  xr_reconciliation_clean :: bool
  xr_key_id :: string
  xr_observed_at_utc :: datetime
  xr_valid_until_utc :: datetime
  xr_signature :: string
  xr_live_allowed :: bool
  xr_safe_to_demo_auto_order :: bool
  xr_schema_version :: string

definition exposure_identity_checks :: "ExposureReceipt \<Rightarrow> exn option list" where
  "exposure_identity_checks r =
     [err_of (require_text ''account_id'' (xr_account_id r) False),
      err_of (require_text ''server'' (xr_server r) False),
      err_of (require_text ''environment'' (xr_environment r) True),
      raise_if (norm_text True (xr_environment r) \<notin> context_environments)
        (ValueError ''unsupported exposure environment''),
      err_of (require_hash ''account_runtime_identity_sha256'' (xr_account_runtime_identity_sha256 r) 64),
      err_of (require_hash ''journal_sha256'' (xr_journal_sha256 r) 64)]"

definition exposure_inventory_checks :: "ExposureReceipt \<Rightarrow> exn option list" where
  "exposure_inventory_checks r =
     (let active = xr_active_orders r @ xr_active_positions r in
      normalize_exposures_checks ''active_orders'' (xr_active_orders r) ''ORDER''
      @ normalize_exposures_checks ''active_positions'' (xr_active_positions r) ''POSITION''
      @ [raise_if (\<not> distinct (map be_exposure_id active))
           (ValueError ''broker exposure identifiers must be globally unique''),
         err_of (require_int ''active_order_count'' (NInt (xr_active_order_count r)) 0 None),
         err_of (require_int ''active_position_count'' (NInt (xr_active_position_count r)) 0 None),
         raise_if (xr_active_order_count r \<noteq> int (length (xr_active_orders r)))
           (ValueError ''active_order_count does not match active_orders''),
         raise_if (xr_active_position_count r \<noteq> int (length (xr_active_positions r)))
           (ValueError ''active_position_count does not match active_positions'')]
      @ context_symbols_checks (xr_reserved_canonical_symbols r)
      @ [raise_if (\<not> list_all (\<lambda>x. be_canonical_symbol x
                        \<in> set (normalize_symbols (xr_reserved_canonical_symbols r))) active)
           (ValueError ''every broker exposure must have a symbol reservation'')])"

definition exposure_window_checks :: "ExposureReceipt \<Rightarrow> exn option list" where
  "exposure_window_checks r =
     (let lifetime = dt_sub (xr_valid_until_utc r) (xr_observed_at_utc r) in
      [err_of (require_text ''key_id'' (xr_key_id r) False),
       err_of (require_utc ''observed_at_utc'' (xr_observed_at_utc r)),
       err_of (require_utc ''valid_until_utc'' (xr_valid_until_utc r)),
       raise_if (\<not> (0 < lifetime \<and> lifetime \<le> SHORT_LIVED_RECEIPT_MAX_AGE))
         (ValueError ''exposure receipt validity cannot exceed one second''),
       signature_check (xr_signature r),
       raise_if (xr_live_allowed r \<or> xr_safe_to_demo_auto_order r)
         (ValueError ''exposure receipts cannot unlock execution''),
       raise_if (xr_schema_version r \<noteq> EXPOSURE_RECEIPT_SCHEMA_VERSION)
         (ValueError ''unsupported exposure receipt schema'')])"

definition ExposureReceipt_init :: "ExposureReceipt \<Rightarrow> ExposureReceipt res" where
  "ExposureReceipt_init r =
     checked (exposure_identity_checks r @ exposure_inventory_checks r @ exposure_window_checks r)
       (r\<lparr>xr_account_id := norm_text False (xr_account_id r), xr_server := norm_text False (xr_server r),
          xr_environment := norm_text True (xr_environment r),
          xr_account_runtime_identity_sha256 := norm_hash (xr_account_runtime_identity_sha256 r),
          xr_journal_sha256 := norm_hash (xr_journal_sha256 r),
          xr_active_orders := normalize_exposures (xr_active_orders r),
          xr_active_positions := normalize_exposures (xr_active_positions r),
          xr_reserved_canonical_symbols := normalize_symbols (xr_reserved_canonical_symbols r),
          xr_key_id := norm_text False (xr_key_id r), xr_signature := norm_hash (xr_signature r)\<rparr>)"

definition ExposureReceipt_dict :: "ExposureReceipt \<Rightarrow> json" where
  "ExposureReceipt_dict r = JDict
     [(''account_id'', JStr (xr_account_id r)), (''server'', JStr (xr_server r)),
      (''environment'', JStr (xr_environment r)),
      (''account_runtime_identity_sha256'', JStr (xr_account_runtime_identity_sha256 r)),
      (''journal_sha256'', JStr (xr_journal_sha256 r)),
      (''active_orders'', JList (map BrokerExposure_dict (xr_active_orders r))),
      (''active_positions'', JList (map BrokerExposure_dict (xr_active_positions r))),
      (''active_order_count'', JInt (xr_active_order_count r)),
      (''active_position_count'', JInt (xr_active_position_count r)),
      (''reserved_canonical_symbols'', jstrs (xr_reserved_canonical_symbols r)),
      (''reconciliation_clean'', JBool (xr_reconciliation_clean r)), (''key_id'', JStr (xr_key_id r)),
      (''observed_at_utc'', jtime (xr_observed_at_utc r)), (''valid_until_utc'', jtime (xr_valid_until_utc r)),
      (''signature'', JStr (xr_signature r)), (''live_allowed'', JBool (xr_live_allowed r)),
      (''safe_to_demo_auto_order'', JBool (xr_safe_to_demo_auto_order r)),
      (''schema_version'', JStr (xr_schema_version r))]"

definition exposure_signing_payload :: "ExposureReceipt \<Rightarrow> json" where
  "exposure_signing_payload r = json_pop ''signature'' (ExposureReceipt_dict r)"

definition exposure_sign :: "ExposureReceipt \<Rightarrow> string \<Rightarrow> ExposureReceipt res" where
  "exposure_sign r secret =
     res_bind (signing_hmac secret EXPOSURE_HMAC_DOMAIN (exposure_signing_payload r)) (\<lambda>s.
       ExposureReceipt_init (r\<lparr>xr_signature := s\<rparr>))"

definition exposure_verify_signature :: "ExposureReceipt \<Rightarrow> string \<Rightarrow> bool res" where
  "exposure_verify_signature r secret =
     (if xr_signature r = [] then Inr False
      else res_bind (signing_hmac secret EXPOSURE_HMAC_DOMAIN (exposure_signing_payload r))
             (\<lambda>expected. Inr (xr_signature r = expected)))"

section \<open>RiskCalibrationReceipt\<close>

record RiskCalibrationReceipt =
  cr_account_id :: string
  cr_server :: string
  cr_environment :: string
  cr_symbol :: string
  cr_broker_symbol :: string
  cr_account_runtime_identity_sha256 :: string
  cr_broker_spec_sha256 :: string
  cr_config_sha256 :: string
  cr_data_window_sha256 :: string
  cr_data_window_start_utc :: datetime
  cr_data_window_end_utc :: datetime
  cr_session_count :: int
  cr_sample_count :: int
  cr_median_spread_points :: pyfloat
  cr_p95_spread_points :: pyfloat
  cr_p95_slippage_points :: pyfloat
  cr_key_id :: string
  cr_issued_at_utc :: datetime
  cr_valid_until_utc :: datetime
  cr_signature :: string
  cr_live_allowed :: bool
  cr_safe_to_demo_auto_order :: bool
  cr_schema_version :: string

definition calibration_checks :: "RiskCalibrationReceipt \<Rightarrow> exn option list" where
  "calibration_checks r =
     (let lifetime = dt_sub (cr_valid_until_utc r) (cr_issued_at_utc r) in
      [err_of (require_text ''account_id'' (cr_account_id r) False),
       err_of (require_text ''server'' (cr_server r) False),
       err_of (require_text ''environment'' (cr_environment r) True),
       raise_if (norm_text True (cr_environment r) \<notin> context_environments)
         (ValueError ''unsupported calibration environment''),
       err_of (require_text ''symbol'' (cr_symbol r) True),
       err_of (require_text ''broker_symbol'' (cr_broker_symbol r) False),
       err_of (require_hash ''account_runtime_identity_sha256'' (cr_account_runtime_identity_sha256 r) 64),
       err_of (require_hash ''broker_spec_sha256'' (cr_broker_spec_sha256 r) 64),
       err_of (require_hash ''config_sha256'' (cr_config_sha256 r) 64),
       err_of (require_hash ''data_window_sha256'' (cr_data_window_sha256 r) 64),
       err_of (require_utc ''data_window_start_utc'' (cr_data_window_start_utc r)),
       err_of (require_utc ''data_window_end_utc'' (cr_data_window_end_utc r)),
       err_of (require_utc ''issued_at_utc'' (cr_issued_at_utc r)),
       err_of (require_utc ''valid_until_utc'' (cr_valid_until_utc r)),
       raise_if (\<not> (dt_lt (cr_data_window_start_utc r) (cr_data_window_end_utc r)
                    \<and> dt_le (cr_data_window_end_utc r) (cr_issued_at_utc r)))
         (ValueError ''calibration data window is invalid''),
       raise_if (\<not> (0 < lifetime \<and> lifetime \<le> CALIBRATION_RECEIPT_MAX_AGE))
         (ValueError ''calibration receipt validity exceeds 24 hours''),
       err_of (require_int ''session_count'' (NInt (cr_session_count r)) 1 None),
       err_of (require_int ''sample_count'' (NInt (cr_sample_count r)) 1 None),
       raise_if (cr_sample_count r < cr_session_count r) (ValueError ''sample_count cannot be below session_count''),
       err_of (require_finite ''median_spread_points'' (NFloat (cr_median_spread_points r)) True False),
       err_of (require_finite ''p95_spread_points'' (NFloat (cr_p95_spread_points r)) True False),
       err_of (require_finite ''p95_slippage_points'' (NFloat (cr_p95_slippage_points r)) False True),
       raise_if (fl_lt (cr_p95_spread_points r) (cr_median_spread_points r))
         (ValueError ''p95 spread cannot be below median spread''),
       err_of (require_text ''key_id'' (cr_key_id r) False),
       signature_check (cr_signature r),
       raise_if (cr_live_allowed r \<or> cr_safe_to_demo_auto_order r)
         (ValueError ''calibration receipts cannot unlock execution''),
       raise_if (cr_schema_version r \<noteq> CALIBRATION_RECEIPT_SCHEMA_VERSION)
         (ValueError ''unsupported calibration receipt schema'')])"

definition RiskCalibrationReceipt_init :: "RiskCalibrationReceipt \<Rightarrow> RiskCalibrationReceipt res" where
  "RiskCalibrationReceipt_init r =
     checked (calibration_checks r)
       (r\<lparr>cr_account_id := norm_text False (cr_account_id r), cr_server := norm_text False (cr_server r),
          cr_environment := norm_text True (cr_environment r), cr_symbol := norm_text True (cr_symbol r),
          cr_broker_symbol := norm_text False (cr_broker_symbol r),
          cr_account_runtime_identity_sha256 := norm_hash (cr_account_runtime_identity_sha256 r),
          cr_broker_spec_sha256 := norm_hash (cr_broker_spec_sha256 r),
          cr_config_sha256 := norm_hash (cr_config_sha256 r),
          cr_data_window_sha256 := norm_hash (cr_data_window_sha256 r),
          cr_key_id := norm_text False (cr_key_id r), cr_signature := norm_hash (cr_signature r)\<rparr>)"

definition RiskCalibrationReceipt_dict :: "RiskCalibrationReceipt \<Rightarrow> json" where
  "RiskCalibrationReceipt_dict r = JDict
     [(''account_id'', JStr (cr_account_id r)), (''server'', JStr (cr_server r)),
      (''environment'', JStr (cr_environment r)), (''symbol'', JStr (cr_symbol r)),
      (''broker_symbol'', JStr (cr_broker_symbol r)),
      (''account_runtime_identity_sha256'', JStr (cr_account_runtime_identity_sha256 r)),
      (''broker_spec_sha256'', JStr (cr_broker_spec_sha256 r)), (''config_sha256'', JStr (cr_config_sha256 r)),
      (''data_window_sha256'', JStr (cr_data_window_sha256 r)),
      (''data_window_start_utc'', jtime (cr_data_window_start_utc r)),
      (''data_window_end_utc'', jtime (cr_data_window_end_utc r)),
      (''session_count'', JInt (cr_session_count r)), (''sample_count'', JInt (cr_sample_count r)),
      (''median_spread_points'', JFloat (cr_median_spread_points r)),
      (''p95_spread_points'', JFloat (cr_p95_spread_points r)),
      (''p95_slippage_points'', JFloat (cr_p95_slippage_points r)), (''key_id'', JStr (cr_key_id r)),
      (''issued_at_utc'', jtime (cr_issued_at_utc r)), (''valid_until_utc'', jtime (cr_valid_until_utc r)),
      (''signature'', JStr (cr_signature r)), (''live_allowed'', JBool (cr_live_allowed r)),
      (''safe_to_demo_auto_order'', JBool (cr_safe_to_demo_auto_order r)),
      (''schema_version'', JStr (cr_schema_version r))]"

definition calibration_signing_payload :: "RiskCalibrationReceipt \<Rightarrow> json" where
  "calibration_signing_payload r = json_pop ''signature'' (RiskCalibrationReceipt_dict r)"

definition calibration_sign :: "RiskCalibrationReceipt \<Rightarrow> string \<Rightarrow> RiskCalibrationReceipt res" where
  "calibration_sign r secret =
     res_bind (signing_hmac secret CALIBRATION_HMAC_DOMAIN (calibration_signing_payload r)) (\<lambda>s.
       RiskCalibrationReceipt_init (r\<lparr>cr_signature := s\<rparr>))"

definition calibration_verify_signature :: "RiskCalibrationReceipt \<Rightarrow> string \<Rightarrow> bool res" where
  "calibration_verify_signature r secret =
     (if cr_signature r = [] then Inr False
      else res_bind (signing_hmac secret CALIBRATION_HMAC_DOMAIN (calibration_signing_payload r))
             (\<lambda>expected. Inr (cr_signature r = expected)))"

section \<open>Canonical forms of the other proofs\<close>

definition MarketGuardDecision_dict :: "MarketGuardDecision \<Rightarrow> json" where
  "MarketGuardDecision_dict d = JDict
     [(''evaluated_at'', jtime (mg_evaluated_at d)), (''symbol'', JStr (mg_symbol d)),
      (''news_clear'', JBool (mg_news_clear d)), (''rollover_clear'', JBool (mg_rollover_clear d)),
      (''feed_fresh'', JBool (mg_feed_fresh d)), (''reason_codes'', jstrs (mg_reason_codes d)),
      (''news_feed_payload_sha256'', JStr (mg_news_feed_payload_sha256 d)),
      (''news_feed_signature_hmac_sha256'', JStr (mg_news_feed_signature d)),
      (''news_provider_name'', JStr (mg_news_provider_name d)),
      (''news_signing_key_id'', JStr (mg_news_signing_key_id d)),
      (''news_coverage_start_at'', jopt jtime (mg_news_coverage_start_at d)),
      (''news_coverage_end_at'', jopt jtime (mg_news_coverage_end_at d)),
      (''broker_rollover_at'', jtime (mg_broker_rollover_at d))]"

definition PermitValidation_dict :: "PermitValidation \<Rightarrow> json" where
  "PermitValidation_dict v = JDict
     [(''valid'', JBool (pv_valid v)), (''reason_codes'', jstrs (pv_reason_codes v)),
      (''checked_at'', jtime (pv_checked_at v)), (''permit_id'', JStr (pv_permit_id v)),
      (''signature_valid'', JBool (pv_signature_valid v)), (''binding_valid'', JBool (pv_binding_valid v)),
      (''time_valid'', JBool (pv_time_valid v)), (''mode'', JStr (pv_mode v)),
      (''account_alias_sha256'', JStr (pv_account_alias_sha256 v)), (''server'', JStr (pv_server v)),
      (''symbols'', jstrs (pv_symbols v)), (''commit_sha'', JStr (pv_commit_sha v)),
      (''config_sha256'', JStr (pv_config_sha256 v)), (''model_artifact_sha256'', JStr (pv_model_artifact_sha256 v)),
      (''journal_sha256'', JStr (pv_journal_sha256 v)),
      (''promotion_evidence_sha256'', JStr (pv_promotion_evidence_sha256 v)),
      (''schema_version'', JStr (pv_schema_version v)), (''issued_at'', jtime (pv_issued_at v)),
      (''expires_at'', jtime (pv_expires_at v)), (''execution_authorized'', JBool (pv_execution_authorized v)),
      (''can_unlock'', JBool (pv_can_unlock v)), (''live_allowed'', JBool (pv_live_allowed v)),
      (''safe_to_demo_auto_order'', JBool (pv_safe_to_demo_auto_order v))]"

definition RiskContext_dict :: "RiskContext \<Rightarrow> json" where
  "RiskContext_dict c = JDict
     [(''evaluated_at'', jtime (rc_evaluated_at c)), (''mode'', JStr (rc_mode c)),
      (''account_id'', JStr (rc_account_id c)), (''server'', JStr (rc_server c)), (''equity'', JFloat (rc_equity c)),
      (''daily_start_equity'', JFloat (rc_daily_start_equity c)),
      (''weekly_start_equity'', JFloat (rc_weekly_start_equity c)),
      (''high_water_equity'', JFloat (rc_high_water_equity c)),
      (''daily_pnl_cash'', JFloat (rc_daily_pnl_cash c)), (''weekly_pnl_cash'', JFloat (rc_weekly_pnl_cash c)),
      (''open_position_count'', JInt (rc_open_position_count c)), (''entries_today'', JInt (rc_entries_today c)),
      (''consecutive_losses'', JInt (rc_consecutive_losses c)),
      (''loss_latch_active'', JBool (rc_loss_latch_active c)),
      (''reserved_symbols'', jstrs (rc_reserved_symbols c)),
      (''current_spread_points'', JFloat (rc_current_spread_points c)),
      (''median_spread_points'', JFloat (rc_median_spread_points c)),
      (''p95_spread_points'', JFloat (rc_p95_spread_points c)),
      (''estimated_slippage_points'', JFloat (rc_estimated_slippage_points c)),
      (''p95_slippage_points'', JFloat (rc_p95_slippage_points c)), (''news_clear'', JBool (rc_news_clear c)),
      (''rollover_clear'', JBool (rc_rollover_clear c)), (''data_fresh'', JBool (rc_data_fresh c)),
      (''source_aligned'', JBool (rc_source_aligned c)), (''permit_valid'', JBool (rc_permit_valid c)),
      (''usd_risk_cap_conversion'', jopt USDRiskCapConversion_dict (rc_usd_risk_cap_conversion c))]"

section \<open>VerifiedRiskContext\<close>

record VerifiedRiskContext =
  vc_context :: RiskContext
  vc_account_id :: string
  vc_server :: string
  vc_environment :: string
  vc_symbol :: string
  vc_broker_symbol :: string
  vc_mode :: string
  vc_account_runtime_identity_sha256 :: string
  vc_journal_sha256 :: string
  vc_broker_spec_sha256 :: string
  vc_health_facts_sha256 :: string
  vc_health_decision_sha256 :: string
  vc_permit_id :: string
  vc_permit_symbols :: "string list"
  vc_evaluated_at_utc :: datetime
  vc_valid_until_utc :: datetime
  vc_risk_state_receipt_sha256 :: string
  vc_runtime_fact_receipt_sha256 :: string
  vc_exposure_receipt_sha256 :: string
  vc_calibration_receipt_sha256 :: string
  vc_market_guard_decision_sha256 :: string
  vc_permit_validation_sha256 :: string
  vc_conversion_sha256 :: string
  vc_live_allowed :: bool
  vc_safe_to_demo_auto_order :: bool
  vc_schema_version :: string

definition verified_context_checks :: "VerifiedRiskContext \<Rightarrow> exn option list" where
  "verified_context_checks v =
     [err_of (require_text ''account_id'' (vc_account_id v) False),
      err_of (require_text ''server'' (vc_server v) False),
      err_of (require_text ''environment'' (vc_environment v) True),
      err_of (require_text ''symbol'' (vc_symbol v) True),
      err_of (require_text ''broker_symbol'' (vc_broker_symbol v) False),
      err_of (require_text ''mode'' (vc_mode v) True),
      err_of (require_hash ''account_runtime_identity_sha256'' (vc_account_runtime_identity_sha256 v) 64),
      err_of (require_hash ''journal_sha256'' (vc_journal_sha256 v) 64),
      err_of (require_hash ''broker_spec_sha256'' (vc_broker_spec_sha256 v) 64),
      err_of (require_hash ''health_facts_sha256'' (vc_health_facts_sha256 v) 64),
      err_of (require_hash ''health_decision_sha256'' (vc_health_decision_sha256 v) 64),
      err_of (require_text ''permit_id'' (vc_permit_id v) False)]
     @ context_symbols_checks (vc_permit_symbols v)
     @ [raise_if (vc_permit_symbols v = []) (ValueError ''permit_symbols cannot be empty''),
        err_of (require_utc ''evaluated_at_utc'' (vc_evaluated_at_utc v)),
        err_of (require_utc ''valid_until_utc'' (vc_valid_until_utc v)),
        raise_if (dt_le (vc_valid_until_utc v) (vc_evaluated_at_utc v))
          (ValueError ''verified context validity window is empty''),
        err_of (require_hash ''risk_state_receipt_sha256'' (vc_risk_state_receipt_sha256 v) 64),
        err_of (require_hash ''runtime_fact_receipt_sha256'' (vc_runtime_fact_receipt_sha256 v) 64),
        err_of (require_hash ''exposure_receipt_sha256'' (vc_exposure_receipt_sha256 v) 64),
        err_of (require_hash ''calibration_receipt_sha256'' (vc_calibration_receipt_sha256 v) 64),
        err_of (require_hash ''market_guard_decision_sha256'' (vc_market_guard_decision_sha256 v) 64),
        err_of (require_hash ''permit_validation_sha256'' (vc_permit_validation_sha256 v) 64),
        err_of (require_hash ''conversion_sha256'' (vc_conversion_sha256 v) 64),
        raise_if (vc_live_allowed v \<or> vc_safe_to_demo_auto_order v)
          (ValueError ''verified contexts cannot unlock execution''),
        raise_if (vc_schema_version v \<noteq> VERIFIED_RISK_CONTEXT_SCHEMA_VERSION)
          (ValueError ''unsupported verified context schema''),
        raise_if (rc_account_id (vc_context v) \<noteq> norm_text False (vc_account_id v)
                  \<or> rc_server (vc_context v) \<noteq> norm_text False (vc_server v)
                  \<or> rc_mode (vc_context v) \<noteq> norm_text True (vc_mode v)
                  \<or> \<not> dt_eq (rc_evaluated_at (vc_context v)) (vc_evaluated_at_utc v))
          (ValueError ''wrapped context does not match verified binding'')]"

definition VerifiedRiskContext_init :: "bool \<Rightarrow> VerifiedRiskContext \<Rightarrow> VerifiedRiskContext res" where
  "VerifiedRiskContext_init sealed v =
     checked
       (raise_if (\<not> sealed) (TypeError ''VerifiedRiskContext can only be created by its factory'')
        # verified_context_checks v)
       (v\<lparr>vc_account_id := norm_text False (vc_account_id v), vc_server := norm_text False (vc_server v),
          vc_environment := norm_text True (vc_environment v), vc_symbol := norm_text True (vc_symbol v),
          vc_broker_symbol := norm_text False (vc_broker_symbol v), vc_mode := norm_text True (vc_mode v),
          vc_account_runtime_identity_sha256 := norm_hash (vc_account_runtime_identity_sha256 v),
          vc_journal_sha256 := norm_hash (vc_journal_sha256 v),
          vc_broker_spec_sha256 := norm_hash (vc_broker_spec_sha256 v),
          vc_health_facts_sha256 := norm_hash (vc_health_facts_sha256 v),
          vc_health_decision_sha256 := norm_hash (vc_health_decision_sha256 v),
          vc_permit_id := norm_text False (vc_permit_id v),
          vc_permit_symbols := normalize_symbols (vc_permit_symbols v),
          vc_risk_state_receipt_sha256 := norm_hash (vc_risk_state_receipt_sha256 v),
          vc_runtime_fact_receipt_sha256 := norm_hash (vc_runtime_fact_receipt_sha256 v),
          vc_exposure_receipt_sha256 := norm_hash (vc_exposure_receipt_sha256 v),
          vc_calibration_receipt_sha256 := norm_hash (vc_calibration_receipt_sha256 v),
          vc_market_guard_decision_sha256 := norm_hash (vc_market_guard_decision_sha256 v),
          vc_permit_validation_sha256 := norm_hash (vc_permit_validation_sha256 v),
          vc_conversion_sha256 := norm_hash (vc_conversion_sha256 v)\<rparr>)"

definition VerifiedRiskContext_dict :: "VerifiedRiskContext \<Rightarrow> json" where
  "VerifiedRiskContext_dict v = JDict
     [(''context'', RiskContext_dict (vc_context v)), (''account_id'', JStr (vc_account_id v)),
      (''server'', JStr (vc_server v)), (''environment'', JStr (vc_environment v)), (''symbol'', JStr (vc_symbol v)),
      (''broker_symbol'', JStr (vc_broker_symbol v)), (''mode'', JStr (vc_mode v)),
      (''account_runtime_identity_sha256'', JStr (vc_account_runtime_identity_sha256 v)),
      (''journal_sha256'', JStr (vc_journal_sha256 v)), (''broker_spec_sha256'', JStr (vc_broker_spec_sha256 v)),
      (''health_facts_sha256'', JStr (vc_health_facts_sha256 v)),
      (''health_decision_sha256'', JStr (vc_health_decision_sha256 v)), (''permit_id'', JStr (vc_permit_id v)),
      (''permit_symbols'', jstrs (vc_permit_symbols v)), (''evaluated_at_utc'', jtime (vc_evaluated_at_utc v)),
      (''valid_until_utc'', jtime (vc_valid_until_utc v)),
      (''risk_state_receipt_sha256'', JStr (vc_risk_state_receipt_sha256 v)),
      (''runtime_fact_receipt_sha256'', JStr (vc_runtime_fact_receipt_sha256 v)),
      (''exposure_receipt_sha256'', JStr (vc_exposure_receipt_sha256 v)),
      (''calibration_receipt_sha256'', JStr (vc_calibration_receipt_sha256 v)),
      (''market_guard_decision_sha256'', JStr (vc_market_guard_decision_sha256 v)),
      (''permit_validation_sha256'', JStr (vc_permit_validation_sha256 v)),
      (''conversion_sha256'', JStr (vc_conversion_sha256 v)), (''live_allowed'', JBool (vc_live_allowed v)),
      (''safe_to_demo_auto_order'', JBool (vc_safe_to_demo_auto_order v)),
      (''schema_version'', JStr (vc_schema_version v))]"

definition provenance_metadata :: "VerifiedRiskContext \<Rightarrow> json" where
  "provenance_metadata v = JDict
     [(''schema_version'', JStr (vc_schema_version v)),
      (''verified_risk_context_sha256'', JStr (canonical_sha256 (VerifiedRiskContext_dict v))),
      (''account_id'', JStr (vc_account_id v)), (''server'', JStr (vc_server v)),
      (''environment'', JStr (vc_environment v)), (''symbol'', JStr (vc_symbol v)),
      (''broker_symbol'', JStr (vc_broker_symbol v)), (''mode'', JStr (vc_mode v)),
      (''account_runtime_identity_sha256'', JStr (vc_account_runtime_identity_sha256 v)),
      (''journal_sha256'', JStr (vc_journal_sha256 v)), (''broker_spec_sha256'', JStr (vc_broker_spec_sha256 v)),
      (''health_facts_sha256'', JStr (vc_health_facts_sha256 v)),
      (''health_decision_sha256'', JStr (vc_health_decision_sha256 v)), (''permit_id'', JStr (vc_permit_id v)),
      (''permit_symbols'', jstrs (vc_permit_symbols v)), (''evaluated_at_utc'', jtime (vc_evaluated_at_utc v)),
      (''valid_until_utc'', jtime (vc_valid_until_utc v)),
      (''risk_state_receipt_sha256'', JStr (vc_risk_state_receipt_sha256 v)),
      (''runtime_fact_receipt_sha256'', JStr (vc_runtime_fact_receipt_sha256 v)),
      (''exposure_receipt_sha256'', JStr (vc_exposure_receipt_sha256 v)),
      (''calibration_receipt_sha256'', JStr (vc_calibration_receipt_sha256 v)),
      (''market_guard_decision_sha256'', JStr (vc_market_guard_decision_sha256 v)),
      (''permit_validation_sha256'', JStr (vc_permit_validation_sha256 v)),
      (''conversion_sha256'', JStr (vc_conversion_sha256 v)), (''live_allowed'', JBool False),
      (''safe_to_demo_auto_order'', JBool False)]"

section \<open>require_verified_risk_context\<close>

record use_expectation =
  ue_account_id :: string
  ue_server :: string
  ue_environment :: string
  ue_mode :: string
  ue_symbol :: string
  ue_broker_symbol :: string
  ue_account_runtime_identity_sha256 :: string
  ue_journal_sha256 :: string
  ue_permit_id :: string

definition use_expectation_checks :: "use_expectation \<Rightarrow> exn option list" where
  "use_expectation_checks e =
     [err_of (require_text ''expected_account_id'' (ue_account_id e) False),
      err_of (require_text ''expected_server'' (ue_server e) False),
      err_of (require_text ''expected_environment'' (ue_environment e) True),
      err_of (require_text ''expected_mode'' (ue_mode e) True),
      err_of (require_text ''expected_symbol'' (ue_symbol e) True),
      err_of (require_text ''expected_broker_symbol'' (ue_broker_symbol e) False),
      err_of (require_hash ''expected_account_runtime_identity_sha256'' (ue_account_runtime_identity_sha256 e) 64),
      err_of (require_hash ''expected_journal_sha256'' (ue_journal_sha256 e) 64),
      err_of (require_text ''expected_permit_id'' (ue_permit_id e) False)]"

definition normalize_use :: "use_expectation \<Rightarrow> use_expectation" where
  "normalize_use e =
     \<lparr>ue_account_id = norm_text False (ue_account_id e), ue_server = norm_text False (ue_server e),
      ue_environment = norm_text True (ue_environment e), ue_mode = norm_text True (ue_mode e),
      ue_symbol = norm_text True (ue_symbol e), ue_broker_symbol = norm_text False (ue_broker_symbol e),
      ue_account_runtime_identity_sha256 = norm_hash (ue_account_runtime_identity_sha256 e),
      ue_journal_sha256 = norm_hash (ue_journal_sha256 e), ue_permit_id = norm_text False (ue_permit_id e)\<rparr>"

definition use_lane_gates ::
  "VerifiedRiskContext \<Rightarrow> datetime \<Rightarrow> use_expectation \<Rightarrow> BrokerSpec \<Rightarrow> (bool \<times> string) list" where
  "use_lane_gates v checked_at e spec =
     [(dt_lt checked_at (vc_evaluated_at_utc v), ''VERIFIED_RISK_CONTEXT_NOT_YET_VALID''),
      (dt_le (vc_valid_until_utc v) checked_at, ''VERIFIED_RISK_CONTEXT_EXPIRED''),
      (vc_account_id v \<noteq> ue_account_id e \<or> rc_account_id (vc_context v) \<noteq> ue_account_id e
        \<or> vc_server v \<noteq> ue_server e \<or> rc_server (vc_context v) \<noteq> ue_server e
        \<or> vc_environment v \<noteq> ue_environment e \<or> vc_mode v \<noteq> ue_mode e \<or> rc_mode (vc_context v) \<noteq> ue_mode e
        \<or> vc_symbol v \<noteq> ue_symbol e \<or> vc_broker_symbol v \<noteq> ue_broker_symbol e,
        ''VERIFIED_RISK_CONTEXT_LANE_MISMATCH''),
      (vc_account_runtime_identity_sha256 v \<noteq> ue_account_runtime_identity_sha256 e,
        ''VERIFIED_RISK_CONTEXT_ACCOUNT_IDENTITY_MISMATCH''),
      (vc_journal_sha256 v \<noteq> ue_journal_sha256 e, ''VERIFIED_RISK_CONTEXT_JOURNAL_MISMATCH''),
      (vc_permit_id v \<noteq> ue_permit_id e, ''VERIFIED_RISK_CONTEXT_PERMIT_MISMATCH''),
      (ue_symbol e \<notin> set (vc_permit_symbols v), ''VERIFIED_RISK_CONTEXT_PERMIT_SYMBOL_MISMATCH''),
      (BrokerSpec_content_sha256 spec \<noteq> vc_broker_spec_sha256 v \<or> bs_account_id spec \<noteq> ue_account_id e
        \<or> bs_server spec \<noteq> ue_server e \<or> bs_environment spec \<noteq> ue_environment e \<or> bs_symbol spec \<noteq> ue_symbol e
        \<or> bs_broker_symbol spec \<noteq> ue_broker_symbol e,
        ''VERIFIED_RISK_CONTEXT_BROKER_SPEC_MISMATCH'')]"

definition use_health_gates ::
  "VerifiedRiskContext \<Rightarrow> RuntimeHealthFacts \<Rightarrow> RuntimeHealthDecision \<Rightarrow> (bool \<times> string) list" where
  "use_health_gates v facts decision =
     [(canonical_sha256 (RuntimeHealthFacts_dict facts) \<noteq> vc_health_facts_sha256 v
       \<or> canonical_sha256 (RuntimeHealthDecision_dict decision) \<noteq> vc_health_decision_sha256 v
       \<or> \<not> hd_healthy decision, ''VERIFIED_RISK_CONTEXT_HEALTH_MISMATCH'')]"

definition use_guard_gates ::
  "VerifiedRiskContext \<Rightarrow> use_expectation \<Rightarrow> MarketGuardDecision \<Rightarrow> (bool \<times> string) list" where
  "use_guard_gates v e guard =
     [(canonical_sha256 (MarketGuardDecision_dict guard) \<noteq> vc_market_guard_decision_sha256 v
       \<or> mg_symbol guard \<noteq> ue_symbol e \<or> \<not> mg_news_clear guard \<or> \<not> mg_rollover_clear guard \<or> \<not> mg_feed_fresh guard,
       ''VERIFIED_RISK_CONTEXT_MARKET_GUARD_MISMATCH'')]"

definition conversion_sha :: "USDRiskCapConversion option \<Rightarrow> string" where
  "conversion_sha conversion =
     (case conversion of None \<Rightarrow> IDENTITY_CONVERSION_SHA256 | Some c \<Rightarrow> USDRiskCapConversion_content_sha256 c)"

definition use_conversion_gates ::
  "VerifiedRiskContext \<Rightarrow> datetime \<Rightarrow> use_expectation \<Rightarrow> BrokerSpec \<Rightarrow> (bool \<times> string) list" where
  "use_conversion_gates v checked_at e spec =
     (let conversion = rc_usd_risk_cap_conversion (vc_context v) in
      if conversion_sha conversion \<noteq> vc_conversion_sha256 v
      then [(True, ''VERIFIED_RISK_CONTEXT_CONVERSION_MISMATCH'')]
      else case conversion of
        Some c \<Rightarrow>
          (let age = total_seconds (dt_sub checked_at (uc_captured_at_utc c)) in
           [(uc_account_id c \<noteq> ue_account_id e \<or> uc_server c \<noteq> ue_server e
             \<or> bs_account_currency spec \<noteq> uc_account_currency c
             \<or> \<not> (fl_le (Fin 0) age \<and> fl_le age (Fin 1)), ''VERIFIED_RISK_CONTEXT_CONVERSION_MISMATCH'')])
      | None \<Rightarrow> [(bs_account_currency spec \<noteq> ''USD'', ''VERIFIED_RISK_CONTEXT_CONVERSION_MISSING'')])"

definition require_verified_risk_context ::
  "VerifiedRiskContext \<Rightarrow> datetime \<Rightarrow> use_expectation \<Rightarrow> BrokerSpec \<Rightarrow> RuntimeHealthFacts
   \<Rightarrow> MarketGuardDecision \<Rightarrow> RiskContext res" where
  "require_verified_risk_context v now expected spec facts guard =
     res_bind (require_utc ''verified risk context use clock'' now) (\<lambda>checked_at.
     res_bind (checked (use_expectation_checks expected) (normalize_use expected)) (\<lambda>e.
     res_bind (evaluate_runtime_health facts) (\<lambda>decision.
     let reasons = fired (use_lane_gates v checked_at e spec @ use_health_gates v facts decision
                          @ use_guard_gates v e guard @ use_conversion_gates v checked_at e spec) in
     if reasons \<noteq> [] then Inl (RiskContextVerificationError (reason_set reasons)) else Inr (vc_context v))))"

section \<open>create_verified_risk_context\<close>

record context_expectation =
  ce_account_id :: string
  ce_server :: string
  ce_environment :: string
  ce_symbol :: string
  ce_broker_symbol :: string
  ce_mode :: string
  ce_permit_symbols :: "string list"
  ce_account_runtime_identity_sha256 :: string
  ce_broker_spec_sha256 :: string
  ce_journal_sha256 :: string
  ce_commit_sha :: string
  ce_config_sha256 :: string
  ce_model_artifact_sha256 :: string
  ce_promotion_evidence_sha256 :: string
  ce_calibration_data_window_sha256 :: string
  ce_runtime_fact_key_id :: string
  ce_exposure_key_id :: string
  ce_calibration_key_id :: string

definition context_expectation_checks :: "context_expectation \<Rightarrow> exn option list" where
  "context_expectation_checks e =
     [err_of (require_text ''expected_account_id'' (ce_account_id e) False),
      err_of (require_text ''expected_server'' (ce_server e) False),
      err_of (require_text ''expected_environment'' (ce_environment e) True),
      err_of (require_text ''expected_symbol'' (ce_symbol e) True),
      err_of (require_text ''expected_broker_symbol'' (ce_broker_symbol e) False),
      err_of (require_text ''expected_mode'' (ce_mode e) True),
      raise_if (norm_text True (ce_mode e) \<notin> set execution_modes) (ValueError ''expected_mode is unsupported'')]
     @ context_symbols_checks (ce_permit_symbols e)
     @ [err_of (require_hash ''expected_account_runtime_identity_sha256'' (ce_account_runtime_identity_sha256 e) 64),
        err_of (require_hash ''expected_broker_spec_sha256'' (ce_broker_spec_sha256 e) 64),
        err_of (require_hash ''expected_journal_sha256'' (ce_journal_sha256 e) 64),
        err_of (require_hash ''expected_commit_sha'' (ce_commit_sha e) 7),
        err_of (require_hash ''expected_config_sha256'' (ce_config_sha256 e) 64),
        err_of (require_hash ''expected_model_artifact_sha256'' (ce_model_artifact_sha256 e) 64),
        err_of (require_hash ''expected_promotion_evidence_sha256'' (ce_promotion_evidence_sha256 e) 64),
        err_of (require_hash ''expected_calibration_data_window_sha256'' (ce_calibration_data_window_sha256 e) 64),
        err_of (require_text ''expected_runtime_fact_key_id'' (ce_runtime_fact_key_id e) False),
        err_of (require_text ''expected_exposure_key_id'' (ce_exposure_key_id e) False),
        err_of (require_text ''expected_calibration_key_id'' (ce_calibration_key_id e) False)]"

definition normalize_context_expectation :: "context_expectation \<Rightarrow> context_expectation" where
  "normalize_context_expectation e =
     \<lparr>ce_account_id = norm_text False (ce_account_id e), ce_server = norm_text False (ce_server e),
      ce_environment = norm_text True (ce_environment e), ce_symbol = norm_text True (ce_symbol e),
      ce_broker_symbol = norm_text False (ce_broker_symbol e), ce_mode = norm_text True (ce_mode e),
      ce_permit_symbols = normalize_symbols (ce_permit_symbols e),
      ce_account_runtime_identity_sha256 = norm_hash (ce_account_runtime_identity_sha256 e),
      ce_broker_spec_sha256 = norm_hash (ce_broker_spec_sha256 e), ce_journal_sha256 = norm_hash (ce_journal_sha256 e),
      ce_commit_sha = norm_hash (ce_commit_sha e), ce_config_sha256 = norm_hash (ce_config_sha256 e),
      ce_model_artifact_sha256 = norm_hash (ce_model_artifact_sha256 e),
      ce_promotion_evidence_sha256 = norm_hash (ce_promotion_evidence_sha256 e),
      ce_calibration_data_window_sha256 = norm_hash (ce_calibration_data_window_sha256 e),
      ce_runtime_fact_key_id = norm_text False (ce_runtime_fact_key_id e),
      ce_exposure_key_id = norm_text False (ce_exposure_key_id e),
      ce_calibration_key_id = norm_text False (ce_calibration_key_id e)\<rparr>"

text \<open>The proofs handed to the factory.\<close>

record risk_proofs =
  rp_risk_state :: RiskStateReceipt
  rp_runtime_fact :: RuntimeFactReceipt
  rp_exposure :: ExposureReceipt
  rp_calibration :: RiskCalibrationReceipt
  rp_market_guard :: MarketGuardDecision
  rp_permit :: PermitValidation
  rp_conversion :: "USDRiskCapConversion option"

record proof_keys =
  pk_risk_state :: "string \<Rightarrow> string res"
  pk_runtime_fact :: "string \<Rightarrow> string res"
  pk_exposure :: "string \<Rightarrow> string res"
  pk_calibration :: "string \<Rightarrow> string res"

definition age_gates :: "datetime \<Rightarrow> datetime \<Rightarrow> string \<Rightarrow> string \<Rightarrow> (bool \<times> string) list" where
  "age_gates now moment early late =
     (let age = total_seconds (dt_sub now moment) in
      [(fl_lt age (Fin 0), early), (\<not> fl_lt age (Fin 0) \<and> fl_lt (Fin 1) age, late)])"

definition receipt_signature_valid :: "(string \<Rightarrow> bool res) \<Rightarrow> string res \<Rightarrow> bool" where
  "receipt_signature_valid verify key = (res_bind key verify = Inr True)"

definition risk_state_gates :: "RiskStateReceipt \<Rightarrow> (string \<Rightarrow> string res) \<Rightarrow> datetime \<Rightarrow> (bool \<times> string) list" where
  "risk_state_gates r keys now =
     (\<not> verify_risk_state_receipt r keys, ''RISK_STATE_SIGNATURE_INVALID'')
     # age_gates now (rr_issued_at_utc r) ''RISK_STATE_RECEIPT_NOT_YET_VALID'' ''RISK_STATE_RECEIPT_STALE''"

definition fact_expectation_of :: "context_expectation \<Rightarrow> fact_expectation" where
  "fact_expectation_of e =
     \<lparr>fe_account_id = ce_account_id e, fe_server = ce_server e, fe_environment = ce_environment e,
      fe_symbol = ce_symbol e, fe_broker_symbol = ce_broker_symbol e,
      fe_account_runtime_identity_sha256 = ce_account_runtime_identity_sha256 e,
      fe_broker_spec_sha256 = ce_broker_spec_sha256 e, fe_journal_sha256 = ce_journal_sha256 e,
      fe_key_id = ce_runtime_fact_key_id e\<rparr>"

definition runtime_fact_reasons ::
  "RuntimeFactReceipt \<Rightarrow> context_expectation \<Rightarrow> (string \<Rightarrow> string res) \<Rightarrow> datetime \<Rightarrow> string list" where
  "runtime_fact_reasons r e keys now =
     (case verify_runtime_fact_receipt r (fact_expectation_of e) keys (Inr (Some now)) of
        Inr _ \<Rightarrow> []
      | Inl (RuntimeFactVerificationError codes) \<Rightarrow> map (\<lambda>code. ''RUNTIME_FACT_'' @ code) codes
      | Inl _ \<Rightarrow> [''RUNTIME_FACT_RECEIPT_INVALID''])"

definition exposure_gates ::
  "ExposureReceipt \<Rightarrow> context_expectation \<Rightarrow> (string \<Rightarrow> string res) \<Rightarrow> datetime \<Rightarrow> (bool \<times> string) list" where
  "exposure_gates r e keys now =
     (let active = xr_active_orders r @ xr_active_positions r in
      [(xr_account_id r \<noteq> ce_account_id e \<or> xr_server r \<noteq> ce_server e \<or> xr_environment r \<noteq> ce_environment e
        \<or> xr_account_runtime_identity_sha256 r \<noteq> ce_account_runtime_identity_sha256 e
        \<or> xr_journal_sha256 r \<noteq> ce_journal_sha256 e \<or> xr_key_id r \<noteq> ce_exposure_key_id e,
        ''EXPOSURE_BINDING_MISMATCH''),
       (\<not> receipt_signature_valid (exposure_verify_signature r) (keys (xr_key_id r)), ''EXPOSURE_SIGNATURE_INVALID''),
       (\<not> xr_reconciliation_clean r, ''EXPOSURE_RECONCILIATION_NOT_CLEAN''),
       (\<not> (dt_le (xr_observed_at_utc r) now \<and> dt_lt now (xr_valid_until_utc r)), ''EXPOSURE_RECEIPT_STALE_OR_FUTURE''),
       (int (length (remdups (map be_exposure_id active))) \<noteq> xr_active_order_count r + xr_active_position_count r,
        ''EXPOSURE_COUNT_MISMATCH'')]
      @ map (\<lambda>x. (be_canonical_symbol x = ce_symbol e \<and> be_broker_symbol x \<noteq> ce_broker_symbol e,
                   ''EXPOSURE_BROKER_SYMBOL_MISMATCH'')) active)"

definition calibration_gates ::
  "RiskCalibrationReceipt \<Rightarrow> context_expectation \<Rightarrow> (string \<Rightarrow> string res) \<Rightarrow> datetime \<Rightarrow> (bool \<times> string) list" where
  "calibration_gates r e keys now =
     [(cr_account_id r \<noteq> ce_account_id e \<or> cr_server r \<noteq> ce_server e \<or> cr_environment r \<noteq> ce_environment e
       \<or> cr_symbol r \<noteq> ce_symbol e \<or> cr_broker_symbol r \<noteq> ce_broker_symbol e
       \<or> cr_account_runtime_identity_sha256 r \<noteq> ce_account_runtime_identity_sha256 e
       \<or> cr_broker_spec_sha256 r \<noteq> ce_broker_spec_sha256 e \<or> cr_config_sha256 r \<noteq> ce_config_sha256 e
       \<or> cr_data_window_sha256 r \<noteq> ce_calibration_data_window_sha256 e \<or> cr_key_id r \<noteq> ce_calibration_key_id e,
       ''CALIBRATION_BINDING_MISMATCH''),
      (\<not> receipt_signature_valid (calibration_verify_signature r) (keys (cr_key_id r)),
       ''CALIBRATION_SIGNATURE_INVALID''),
      (\<not> (dt_le (cr_issued_at_utc r) now \<and> dt_lt now (cr_valid_until_utc r)),
       ''CALIBRATION_RECEIPT_STALE_OR_FUTURE''),
      (cr_session_count r < MINIMUM_CALIBRATION_SESSIONS, ''CALIBRATION_SESSIONS_INSUFFICIENT''),
      (dt_sub (cr_data_window_end_utc r) (cr_data_window_start_utc r) < MINIMUM_CALIBRATION_WINDOW,
       ''CALIBRATION_WINDOW_INSUFFICIENT''),
      (cr_sample_count r < cr_session_count r, ''CALIBRATION_SAMPLE_COUNT_INVALID''),
      (fl_lt (cr_p95_spread_points r) (cr_median_spread_points r), ''CALIBRATION_PERCENTILES_INVALID'')]"

definition guard_gates :: "MarketGuardDecision \<Rightarrow> context_expectation \<Rightarrow> datetime \<Rightarrow> (bool \<times> string) list" where
  "guard_gates d e now =
     (mg_symbol d \<noteq> ce_symbol e, ''MARKET_GUARD_SYMBOL_MISMATCH'')
     # age_gates now (mg_evaluated_at d) ''MARKET_GUARD_NOT_YET_VALID'' ''MARKET_GUARD_STALE''
     @ [(\<not> mg_news_clear d \<or> \<not> mg_rollover_clear d \<or> \<not> mg_feed_fresh d \<or> mg_reason_codes d \<noteq> []
         \<or> mg_news_feed_signature d = [] \<or> mg_news_provider_name d = [] \<or> mg_news_signing_key_id d = [],
         ''MARKET_GUARD_NOT_CLEAR'')]"

definition permit_bound :: "PermitValidation \<Rightarrow> context_expectation \<Rightarrow> string \<Rightarrow> datetime \<Rightarrow> bool" where
  "permit_bound p e alias_sha now =
     (pv_valid p \<and> pv_signature_valid p \<and> pv_binding_valid p \<and> pv_time_valid p
      \<and> \<not> pv_execution_authorized p \<and> \<not> pv_can_unlock p \<and> \<not> pv_live_allowed p \<and> \<not> pv_safe_to_demo_auto_order p
      \<and> pv_mode p = ce_mode e \<and> pv_account_alias_sha256 p = alias_sha \<and> pv_server p = ce_server e
      \<and> pv_symbols p = ce_permit_symbols e \<and> pv_commit_sha p = ce_commit_sha e
      \<and> pv_config_sha256 p = ce_config_sha256 e \<and> pv_model_artifact_sha256 p = ce_model_artifact_sha256 e
      \<and> pv_journal_sha256 p = ce_journal_sha256 e
      \<and> pv_promotion_evidence_sha256 p = ce_promotion_evidence_sha256 e
      \<and> dt_le (pv_issued_at p) (pv_checked_at p) \<and> dt_lt now (pv_expires_at p))"

definition permit_gates ::
  "PermitValidation \<Rightarrow> context_expectation \<Rightarrow> string \<Rightarrow> datetime \<Rightarrow> (bool \<times> string) list" where
  "permit_gates p e alias_sha now =
     (\<not> permit_bound p e alias_sha now, ''PERMIT_VALIDATION_BINDING_INVALID'')
     # age_gates now (pv_checked_at p) ''PERMIT_VALIDATION_NOT_YET_VALID'' ''PERMIT_VALIDATION_STALE''"

definition risk_binding_gates ::
  "RiskStateReceipt \<Rightarrow> RuntimeFactReceipt \<Rightarrow> context_expectation \<Rightarrow> string \<Rightarrow> (bool \<times> string) list" where
  "risk_binding_gates r f e alias_sha =
     (let spec = rf_broker_spec f; fact = rf_account_fact f; b = rr_binding r in
      [(\<not> (lb_account_id_sha256 b = alias_sha \<and> lb_server b = ce_server e \<and> lb_environment b = ce_environment e
           \<and> lb_journal_sha256 b = ce_journal_sha256 e \<and> lb_broker_spec_sha256 b = BrokerSpec_content_sha256 spec
           \<and> lb_account_currency b = af_currency fact \<and> bs_account_id spec = ce_account_id e
           \<and> bs_server spec = ce_server e \<and> bs_environment spec = ce_environment e \<and> bs_symbol spec = ce_symbol e
           \<and> bs_broker_symbol spec = ce_broker_symbol e
           \<and> BrokerSpec_content_sha256 spec = ce_broker_spec_sha256 e),
        ''RISK_STATE_BINDING_MISMATCH''),
       (\<not> fl_eq (dv_current_equity (rr_state r)) (af_equity fact), ''RISK_STATE_RUNTIME_EQUITY_MISMATCH''),
       (\<not> hd_healthy (rf_health_decision f), ''RUNTIME_HEALTH_NOT_HEALTHY'')])"

definition conversion_gates ::
  "USDRiskCapConversion option \<Rightarrow> RuntimeAccountFact \<Rightarrow> context_expectation \<Rightarrow> datetime \<Rightarrow> (bool \<times> string) list" where
  "conversion_gates conversion account e now =
     (case conversion of
        None \<Rightarrow> [(af_currency account \<noteq> ''USD'', ''USD_CONVERSION_MISSING'')]
      | Some c \<Rightarrow>
          (uc_account_id c \<noteq> ce_account_id e \<or> uc_server c \<noteq> ce_server e \<or> uc_account_currency c \<noteq> af_currency account,
           ''USD_CONVERSION_BINDING_MISMATCH'')
          # age_gates now (uc_captured_at_utc c) ''USD_CONVERSION_NOT_YET_VALID'' ''USD_CONVERSION_STALE'')"

definition conversion_valid_until :: "USDRiskCapConversion option \<Rightarrow> datetime \<Rightarrow> datetime" where
  "conversion_valid_until conversion now =
     (case conversion of None \<Rightarrow> dt_add now SHORT_LIVED_RECEIPT_MAX_AGE
      | Some c \<Rightarrow> dt_add (uc_captured_at_utc c) SHORT_LIVED_RECEIPT_MAX_AGE)"

definition proof_reasons ::
  "risk_proofs \<Rightarrow> proof_keys \<Rightarrow> context_expectation \<Rightarrow> string \<Rightarrow> datetime \<Rightarrow> string list" where
  "proof_reasons p keys e alias_sha now =
     fired (risk_state_gates (rp_risk_state p) (pk_risk_state keys) now)
     @ runtime_fact_reasons (rp_runtime_fact p) e (pk_runtime_fact keys) now
     @ fired (exposure_gates (rp_exposure p) e (pk_exposure keys) now
              @ calibration_gates (rp_calibration p) e (pk_calibration keys) now
              @ guard_gates (rp_market_guard p) e now
              @ permit_gates (rp_permit p) e alias_sha now
              @ risk_binding_gates (rp_risk_state p) (rp_runtime_fact p) e alias_sha
              @ conversion_gates (rp_conversion p) (rf_account_fact (rp_runtime_fact p)) e now)"

definition context_of :: "risk_proofs \<Rightarrow> context_expectation \<Rightarrow> datetime \<Rightarrow> pyfloat \<Rightarrow> RiskContext" where
  "context_of p e now spread_points =
     (let s = rr_state (rp_risk_state p); x = rp_exposure p; cal = rp_calibration p; guard = rp_market_guard p in
      \<lparr>rc_evaluated_at = now, rc_mode = ce_mode e, rc_account_id = ce_account_id e, rc_server = ce_server e,
       rc_equity = dv_current_equity s, rc_daily_start_equity = dv_daily_baseline_equity s,
       rc_weekly_start_equity = dv_weekly_baseline_equity s, rc_high_water_equity = dv_high_water_equity s,
       rc_daily_pnl_cash = fl_sub (dv_current_equity s) (dv_daily_baseline_equity s),
       rc_weekly_pnl_cash = fl_sub (dv_current_equity s) (dv_weekly_baseline_equity s),
       rc_open_position_count = xr_active_order_count x + xr_active_position_count x,
       rc_entries_today = dv_entries_today s, rc_consecutive_losses = dv_consecutive_losses s,
       rc_loss_latch_active = dv_loss_latch_active s, rc_reserved_symbols = xr_reserved_canonical_symbols x,
       rc_current_spread_points = spread_points, rc_median_spread_points = cr_median_spread_points cal,
       rc_p95_spread_points = cr_p95_spread_points cal,
       rc_estimated_slippage_points = cr_p95_slippage_points cal,
       rc_p95_slippage_points = cr_p95_slippage_points cal, rc_news_clear = mg_news_clear guard,
       rc_rollover_clear = mg_rollover_clear guard, rc_data_fresh = True, rc_source_aligned = True,
       rc_permit_valid = True, rc_usd_risk_cap_conversion = rp_conversion p\<rparr>)"

fun dt_earliest :: "datetime \<Rightarrow> datetime list \<Rightarrow> datetime" where
  "dt_earliest d [] = d"
| "dt_earliest d (x # xs) = dt_earliest (if dt_lt x d then x else d) xs"

definition context_valid_until :: "risk_proofs \<Rightarrow> datetime \<Rightarrow> datetime" where
  "context_valid_until p now =
     dt_earliest (dt_add (rr_issued_at_utc (rp_risk_state p)) SHORT_LIVED_RECEIPT_MAX_AGE)
       [rf_valid_until_utc (rp_runtime_fact p), xr_valid_until_utc (rp_exposure p),
        cr_valid_until_utc (rp_calibration p),
        dt_add (mg_evaluated_at (rp_market_guard p)) SHORT_LIVED_RECEIPT_MAX_AGE,
        pv_expires_at (rp_permit p), dt_add (pv_checked_at (rp_permit p)) SHORT_LIVED_RECEIPT_MAX_AGE,
        conversion_valid_until (rp_conversion p) now]"

definition verified_of ::
  "risk_proofs \<Rightarrow> context_expectation \<Rightarrow> datetime \<Rightarrow> datetime \<Rightarrow> RiskContext \<Rightarrow> VerifiedRiskContext" where
  "verified_of p e now valid_until context =
     \<lparr>vc_context = context, vc_account_id = ce_account_id e, vc_server = ce_server e,
      vc_environment = ce_environment e, vc_symbol = ce_symbol e, vc_broker_symbol = ce_broker_symbol e,
      vc_mode = ce_mode e, vc_account_runtime_identity_sha256 = ce_account_runtime_identity_sha256 e,
      vc_journal_sha256 = ce_journal_sha256 e, vc_broker_spec_sha256 = ce_broker_spec_sha256 e,
      vc_health_facts_sha256 = rf_health_facts_sha256 (rp_runtime_fact p),
      vc_health_decision_sha256 = rf_health_decision_sha256 (rp_runtime_fact p),
      vc_permit_id = pv_permit_id (rp_permit p), vc_permit_symbols = pv_symbols (rp_permit p),
      vc_evaluated_at_utc = now, vc_valid_until_utc = valid_until,
      vc_risk_state_receipt_sha256 = canonical_sha256 (RiskStateReceipt_dict (rp_risk_state p)),
      vc_runtime_fact_receipt_sha256 = canonical_sha256 (RuntimeFactReceipt_dict (rp_runtime_fact p)),
      vc_exposure_receipt_sha256 = canonical_sha256 (ExposureReceipt_dict (rp_exposure p)),
      vc_calibration_receipt_sha256 = canonical_sha256 (RiskCalibrationReceipt_dict (rp_calibration p)),
      vc_market_guard_decision_sha256 = canonical_sha256 (MarketGuardDecision_dict (rp_market_guard p)),
      vc_permit_validation_sha256 = canonical_sha256 (PermitValidation_dict (rp_permit p)),
      vc_conversion_sha256 = conversion_sha (rp_conversion p),
      vc_live_allowed = False, vc_safe_to_demo_auto_order = False,
      vc_schema_version = VERIFIED_RISK_CONTEXT_SCHEMA_VERSION\<rparr>"

definition create_verified_risk_context ::
  "risk_proofs \<Rightarrow> context_expectation \<Rightarrow> proof_keys \<Rightarrow> datetime option res \<Rightarrow> VerifiedRiskContext res" where
  "create_verified_risk_context p expected keys clock =
     res_bind (res_reraise (\<lambda>e. True) (RiskContextVerificationError [''TRUSTED_CLOCK_PROVIDER_UNAVAILABLE''])
       (res_bind clock (require_datetime ''trusted clock''))) (\<lambda>now.
     res_bind (checked (context_expectation_checks expected) (normalize_context_expectation expected)) (\<lambda>e.
     res_bind (account_alias_sha256 (ce_account_id e)) (\<lambda>alias_sha.
     let reasons = proof_reasons p keys e alias_sha now; tick = rf_tick (rp_runtime_fact p) in
     if reasons \<noteq> [] then Inl (RiskContextVerificationError (reason_set reasons))
     else res_bind (fl_div (fl_sub (tf_ask tick) (tf_bid tick)) (bs_point (rf_broker_spec (rp_runtime_fact p)))) (\<lambda>spread_points.
     res_bind (RiskContext_init (context_of p e now spread_points)) (\<lambda>context.
     let valid_until = context_valid_until p now in
     if dt_le valid_until now then Inl (RiskContextVerificationError [''VERIFIED_CONTEXT_WINDOW_EMPTY''])
     else VerifiedRiskContext_init True (verified_of p e now valid_until context))))))"

end
