(* ===== verification/Runtime_Facts_Safety.thy ===== *)
theory Runtime_Facts_Safety
  imports Runtime_Facts Permit_Safety
begin

text \<open>
  What the runtime fact collector guarantees: a receipt it mints is a signed record in normal form
  that its verifier accepts for exactly one second, and what the verifier accepts is bound, fresh and
  carries the health decision of its own facts.
\<close>

section \<open>Receipts in normal form\<close>

lemma receipt_init_cases:
  assumes "RuntimeFactReceipt_init r = Inr n"
  obtains binding_sha where "n = normalize_receipt r" "list_all (\<lambda>c. c = None) (receipt_field_checks r)"
    "evaluate_runtime_health (rf_health_facts r) = Inr (rf_health_decision r)"
    "account_binding_sha256 (rf_account_id n) (rf_server n) (rf_environment n) (rf_account_runtime_identity_sha256 n)
       = Inr binding_sha"
    "receipt_bound n binding_sha" "\<not> rf_live_allowed r" "\<not> rf_safe_to_demo_auto_order r"
    "rf_schema_version n = RUNTIME_FACT_RECEIPT_SCHEMA_VERSION" "str_strip (rf_schema_version r) \<noteq> []"
    "str_strip (rf_signature r) = [] \<or> err_of (require_hash ''signature'' (rf_signature r) 64) = None"
  using assms
  by (auto simp: RuntimeFactReceipt_init_def Let_def res_bind_Inr_iff checked_Inr_iff require_text_ok split: if_splits)

lemma receipt_init_ok:
  assumes "list_all (\<lambda>c. c = None) (receipt_field_checks r)" and "n = normalize_receipt r"
    and "evaluate_runtime_health (rf_health_facts r) = Inr (rf_health_decision r)"
    and "account_binding_sha256 (rf_account_id n) (rf_server n) (rf_environment n) (rf_account_runtime_identity_sha256 n)
       = Inr binding_sha"
    and "receipt_bound n binding_sha" and "\<not> rf_live_allowed r" and "\<not> rf_safe_to_demo_auto_order r"
    and "rf_schema_version n = RUNTIME_FACT_RECEIPT_SCHEMA_VERSION" and "str_strip (rf_schema_version r) \<noteq> []"
    and "str_strip (rf_signature r) = [] \<or> err_of (require_hash ''signature'' (rf_signature r) 64) = None"
  shows "RuntimeFactReceipt_init r = Inr n"
  using assms
  by (auto simp: RuntimeFactReceipt_init_def Let_def res_bind_Inr_iff checked_Inr_iff require_text_ok)

lemma normalized_fields [simp]:
  "rf_health_facts (normalize_receipt r) = rf_health_facts r" "rf_health_decision (normalize_receipt r) = rf_health_decision r"
  "rf_live_allowed (normalize_receipt r) = rf_live_allowed r"
  "rf_safe_to_demo_auto_order (normalize_receipt r) = rf_safe_to_demo_auto_order r"
  "rf_observed_at_utc (normalize_receipt r) = rf_observed_at_utc r"
  "rf_valid_until_utc (normalize_receipt r) = rf_valid_until_utc r"
  "rf_signature (normalize_receipt r) = norm_hash (rf_signature r)"
  "rf_schema_version (normalize_receipt r) = norm_text False (rf_schema_version r)"
  by (simp_all add: normalize_receipt_def)

lemma normalize_receipt_idem [simp]: "normalize_receipt (normalize_receipt r) = normalize_receipt r"
  by (simp add: normalize_receipt_def)

lemma receipt_init_idem:
  assumes "RuntimeFactReceipt_init r = Inr n"
  shows "RuntimeFactReceipt_init n = Inr n"
proof -
  obtain binding_sha where n: "n = normalize_receipt r" and fields: "list_all (\<lambda>c. c = None) (receipt_field_checks r)"
    and rest: "evaluate_runtime_health (rf_health_facts r) = Inr (rf_health_decision r)"
    "account_binding_sha256 (rf_account_id n) (rf_server n) (rf_environment n) (rf_account_runtime_identity_sha256 n)
       = Inr binding_sha"
    "receipt_bound n binding_sha" "\<not> rf_live_allowed r" "\<not> rf_safe_to_demo_auto_order r"
    "rf_schema_version n = RUNTIME_FACT_RECEIPT_SCHEMA_VERSION" "str_strip (rf_schema_version r) \<noteq> []"
    "str_strip (rf_signature r) = [] \<or> err_of (require_hash ''signature'' (rf_signature r) 64) = None"
    using assms by (rule receipt_init_cases)
  have "list_all (\<lambda>c. c = None) (receipt_field_checks n)"
    using fields by (simp add: n receipt_field_checks_def normalize_receipt_def Let_def res_simps)
  moreover have "str_strip (rf_signature n) = [] \<or> err_of (require_hash ''signature'' (rf_signature n) 64) = None"
    using rest(8) by (auto simp: n res_simps)
  moreover have "str_strip RUNTIME_FACT_RECEIPT_SCHEMA_VERSION \<noteq> []" "normalize_receipt n = n"
    by (simp_all add: n RUNTIME_FACT_RECEIPT_SCHEMA_VERSION_def upper_evals)
  ultimately show ?thesis
    using rest by (intro receipt_init_ok) (simp_all add: n)
qed

lemma signed_payload [simp]:
  "fact_signing_payload (r\<lparr>rf_signature := s\<rparr>) = fact_signing_payload r"
  by (simp add: fact_signing_payload_def RuntimeFactReceipt_dict_def json_pop_def)

interpretation fact_signing: signed_artifact RuntimeFactReceipt_init "\<lambda>r. RUNTIME_FACT_HMAC_DOMAIN @ fact_signing_payload r"
  rf_signature "\<lambda>s r. r\<lparr>rf_signature := s\<rparr>" "\<lambda>r k. res_bind (fact_secret_bytes k) (fact_sign r)"
  fact_verify_signature "\<lambda>r. True"
proof unfold_locales
  fix a b :: RuntimeFactReceipt and k m
  show "res_bind (fact_secret_bytes k) (fact_sign a) = Inr b \<Longrightarrow> 32 \<le> length k \<and>
      RuntimeFactReceipt_init (a\<lparr>rf_signature := hmac_sha256_hex k (RUNTIME_FACT_HMAC_DOMAIN @ fact_signing_payload a)\<rparr>) = Inr b"
    by (auto simp: fact_sign_def fact_hmac_def fact_secret_bytes_def split: if_splits)
  show "fact_verify_signature a k = Inr (rf_signature a = hmac_sha256_hex k (RUNTIME_FACT_HMAC_DOMAIN @ fact_signing_payload a))"
    if "32 \<le> length k"
    using that hmac_nonempty [THEN not_sym]
    by (auto simp: fact_verify_signature_def fact_secret_bytes_def fact_hmac_def)
  assume a: "RuntimeFactReceipt_init a = Inr a" and b: "RuntimeFactReceipt_init (a\<lparr>rf_signature := hmac_sha256_hex k m\<rparr>) = Inr b"
  have "normalize_receipt a = a" using a by (rule receipt_init_cases) simp
  moreover have "normalize_receipt (a\<lparr>rf_signature := s\<rparr>) = (normalize_receipt a)\<lparr>rf_signature := norm_hash s\<rparr>" for s
    by (simp add: normalize_receipt_def)
  moreover have "b = normalize_receipt (a\<lparr>rf_signature := hmac_sha256_hex k m\<rparr>)" using b by (rule receipt_init_cases)
  ultimately have "b = a\<lparr>rf_signature := hmac_sha256_hex k m\<rparr>" by simp
  then show "RUNTIME_FACT_HMAC_DOMAIN @ fact_signing_payload b = RUNTIME_FACT_HMAC_DOMAIN @ fact_signing_payload a
      \<and> rf_signature b = hmac_sha256_hex k m \<and> (True \<longrightarrow> True)"
    by simp
qed

lemma receipt_signable:
  assumes "RuntimeFactReceipt_init u = Inr u"
  shows "\<exists>r. fact_sign u secret = Inr r"
proof -
  obtain binding_sha where norm: "normalize_receipt u = u" and fields: "list_all (\<lambda>c. c = None) (receipt_field_checks u)"
    and rest: "evaluate_runtime_health (rf_health_facts u) = Inr (rf_health_decision u)"
      "account_binding_sha256 (rf_account_id u) (rf_server u) (rf_environment u) (rf_account_runtime_identity_sha256 u)
         = Inr binding_sha"
      "receipt_bound u binding_sha" "\<not> rf_live_allowed u" "\<not> rf_safe_to_demo_auto_order u"
      "rf_schema_version u = RUNTIME_FACT_RECEIPT_SCHEMA_VERSION" "str_strip (rf_schema_version u) \<noteq> []"
    using receipt_init_cases [OF assms] by metis
  define s where "s = u\<lparr>rf_signature := fact_hmac secret u\<rparr>"
  have "normalize_receipt s = (normalize_receipt u)\<lparr>rf_signature := norm_hash (fact_hmac secret u)\<rparr>"
    by (simp add: s_def normalize_receipt_def)
  then have "normalize_receipt s = s" by (simp add: norm s_def fact_hmac_def)
  moreover have "receipt_field_checks s = receipt_field_checks u" "receipt_bound s = receipt_bound u"
    by (simp_all add: s_def receipt_field_checks_def receipt_bound_def fun_eq_iff)
  ultimately have "RuntimeFactReceipt_init s = Inr s"
    using fields rest by (intro receipt_init_ok [where binding_sha = binding_sha]) (simp_all add: s_def fact_hmac_def)
  then show ?thesis by (auto simp: fact_sign_def s_def)
qed

section \<open>What a collection returns\<close>

lemma call_required_Inr [simp]: "call_required code m = Inr x \<longleftrightarrow> m = Inr x"
  by (simp add: call_required_def)

lemma collect_cases:
  assumes "collect c src symbol broker_symbol = Inr r"
  obtains b h tick facts decision binding_sha unsigned_r secret where
    "collect_broker_facts src (norm_text True symbol) (norm_text False broker_symbol) = Inr b"
    "collect_host_facts src = Inr h"
    "RuntimeHealthFacts_init facts = Inr facts" "evaluate_runtime_health facts = Inr decision"
    "hf_kill_switch_latched facts = hs_kill_switch_latched h"
    "unsigned_r = unsigned_receipt c (norm_text True symbol) (norm_text False broker_symbol) b h tick facts decision binding_sha"
    "RuntimeFactReceipt_init unsigned_r = Inr (normalize_receipt unsigned_r)"
    "fc_key_provider c (fc_key_id c) = Inr secret" "32 \<le> length secret"
    "fact_sign (normalize_receipt unsigned_r) secret = Inr r"
proof -
  obtain b h tick max_age facts decision binding_sha n secret where
    parts: "collect_broker_facts src (norm_text True symbol) (norm_text False broker_symbol) = Inr b"
    "collect_host_facts src = Inr h"
    and facts: "RuntimeHealthFacts_init (health_facts_of b h tick max_age) = Inr facts"
    and decision: "evaluate_runtime_health facts = Inr decision"
    and init: "RuntimeFactReceipt_init (unsigned_receipt c (norm_text True symbol) (norm_text False broker_symbol)
        b h tick facts decision binding_sha) = Inr n"
    and key: "res_bind (fc_key_provider c (fc_key_id c)) fact_secret_bytes = Inr secret" and sign: "fact_sign n secret = Inr r"
    using assms
    by (auto simp: collect_def Let_def res_bind_Inr_iff sign_collected_def require_text_def split: if_splits)
  have "facts = health_facts_of b h tick max_age"
    using facts by (simp add: RuntimeHealthFacts_init_def checked_Inr_iff)
  moreover have "n = normalize_receipt (unsigned_receipt c (norm_text True symbol) (norm_text False broker_symbol)
        b h tick facts decision binding_sha)"
    using init by (rule receipt_init_cases)
  moreover have "fc_key_provider c (fc_key_id c) = Inr secret" "32 \<le> length secret"
    using key by (auto simp: res_bind_Inr_iff fact_secret_bytes_def split: if_splits)
  ultimately show thesis
    using parts facts decision init sign by (intro that) (simp_all add: health_facts_of_def Let_def)
qed

section \<open>What the verifier accepts\<close>

definition expectation_for :: "RuntimeFactReceipt \<Rightarrow> fact_expectation" where
  "expectation_for r =
     \<lparr>fe_account_id = rf_account_id r, fe_server = rf_server r, fe_environment = rf_environment r,
      fe_symbol = rf_symbol r, fe_broker_symbol = rf_broker_symbol r,
      fe_account_runtime_identity_sha256 = rf_account_runtime_identity_sha256 r,
      fe_broker_spec_sha256 = rf_broker_spec_sha256 r, fe_journal_sha256 = rf_journal_sha256 r,
      fe_key_id = rf_key_id r\<rparr>"

lemma require_datetime_Inr: "require_datetime name v = Inr t \<longleftrightarrow> v = Some t \<and> is_utc t"
  by (auto simp: require_datetime_def require_utc_Inr split: option.splits)

lemma verify_fact_cases:
  assumes "verify_runtime_fact_receipt r expected keys clock = Inr r'"
  obtains t secret where "r' = r" "clock = Inr (Some t)" "is_utc t" "normalize_expectation expected = expectation_for r"
    "keys (rf_key_id r) = Inr secret" "fact_verify_signature r secret = Inr True"
    "dt_le (rf_observed_at_utc r) t" "dt_lt t (rf_valid_until_utc r)"
    "dt_sub (rf_valid_until_utc r) (rf_observed_at_utc r) \<le> RUNTIME_FACT_RECEIPT_MAX_AGE"
    "rf_broker_spec_sha256 r = BrokerSpec_content_sha256 (rf_broker_spec r)"
    "rf_health_facts_sha256 r = canonical_sha256 (RuntimeHealthFacts_dict (rf_health_facts r))"
    "rf_health_decision_sha256 r = canonical_sha256 (RuntimeHealthDecision_dict (rf_health_decision r))"
    "evaluate_runtime_health (rf_health_facts r) = Inr (rf_health_decision r)"
    "\<not> rf_live_allowed r" "\<not> rf_safe_to_demo_auto_order r"
proof -
  let ?e = "normalize_expectation expected"
  obtain t binding_sha decision where t: "r' = r" "clock = Inr (Some t)" "is_utc t"
    and decision: "evaluate_runtime_health (rf_health_facts r) = Inr decision"
    and gates: "fired (fact_binding_gates r ?e binding_sha) = []" "fired (fact_content_gates r t decision) = []"
      "fired (fact_signature_gates r keys (fe_key_id ?e)) = []"
    using assms
    by (auto simp: verify_runtime_fact_receipt_def Let_def res_bind_Inr_iff require_datetime_Inr checked_Inr_iff
        split: if_splits)
  have bound: "?e = expectation_for r" using gates(1) by (cases "?e") (simp add: fact_binding_gates_def expectation_for_def)
  moreover obtain secret where "keys (rf_key_id r) = Inr secret" "fact_verify_signature r secret = Inr True"
    using gates(3)
    by (auto simp: fact_signature_gates_def bound expectation_for_def res_bind_Inr_iff fact_secret_bytes_def
        split: sum.splits if_splits)
  ultimately show thesis
    using t decision gates(2)
    by (intro that) (auto simp: fact_content_gates_def Let_def dt_le_def dt_lt_def split: if_splits)
qed

lemma receipt_bound_hashes:
  assumes "receipt_bound r binding_sha"
  shows "rf_account_binding_sha256 r = binding_sha"
    "rf_broker_spec_sha256 r = BrokerSpec_content_sha256 (rf_broker_spec r)"
    "rf_account_fact_sha256 r = canonical_sha256 (RuntimeAccountFact_dict (rf_account_fact r))"
    "rf_tick_sha256 r = canonical_sha256 (RuntimeTickFact_dict (rf_tick r))"
    "rf_health_facts_sha256 r = canonical_sha256 (RuntimeHealthFacts_dict (rf_health_facts r))"
    "rf_health_decision_sha256 r = canonical_sha256 (RuntimeHealthDecision_dict (rf_health_decision r))"
    "af_currency (rf_account_fact r) = bs_account_currency (rf_broker_spec r)"
  using assms by (simp_all add: receipt_bound_def Let_def)

lemma verify_fact_accepts:
  assumes "RuntimeFactReceipt_init r = Inr r" and "keys (rf_key_id r) = Inr secret" and "32 \<le> length secret"
    and "fact_verify_signature r secret = Inr True" and "is_utc t"
    and "dt_le (rf_observed_at_utc r) t" and "dt_lt t (rf_valid_until_utc r)"
  shows "verify_runtime_fact_receipt r (expectation_for r) keys (Inr (Some t)) = Inr r"
proof -
  let ?e = "expectation_for r"
  obtain binding_sha where norm: "normalize_receipt r = r" and fields: "list_all (\<lambda>c. c = None) (receipt_field_checks r)"
    and decision: "evaluate_runtime_health (rf_health_facts r) = Inr (rf_health_decision r)"
    and binding: "account_binding_sha256 (rf_account_id r) (rf_server r) (rf_environment r)
      (rf_account_runtime_identity_sha256 r) = Inr binding_sha"
    and bound: "receipt_bound r binding_sha" and deny: "\<not> rf_live_allowed r" "\<not> rf_safe_to_demo_auto_order r"
    and schema: "rf_schema_version r = RUNTIME_FACT_RECEIPT_SCHEMA_VERSION"
    using receipt_init_cases [OF assms(1)] by metis
  have e: "normalize_expectation ?e = ?e"
  proof -
    have "normalize_expectation (expectation_for r) = expectation_for (normalize_receipt r)"
      by (simp add: normalize_expectation_def expectation_for_def normalize_receipt_def)
    then show ?thesis by (simp add: norm)
  qed
  have "list_all (\<lambda>c. c = None) (fact_expectation_checks ?e)"
    using fields by (simp add: fact_expectation_checks_def expectation_for_def receipt_field_checks_def Let_def res_simps)
  moreover have "fired (fact_binding_gates r ?e binding_sha) = []"
    using receipt_bound_hashes [OF bound] by (simp add: fact_binding_gates_def expectation_for_def)
  moreover have "fired (fact_content_gates r t (rf_health_decision r)) = []"
    using fields receipt_bound_hashes [OF bound] deny schema assms(6,7)
    by (simp add: fact_content_gates_def receipt_field_checks_def Let_def dt_le_def dt_lt_def)
  moreover have "fired (fact_signature_gates r keys (fe_key_id ?e)) = []"
    using assms(2-4) by (simp add: fact_signature_gates_def expectation_for_def fact_secret_bytes_def)
  moreover have "account_binding_sha256 (fe_account_id ?e) (fe_server ?e) (fe_environment ?e)
      (fe_account_runtime_identity_sha256 ?e) = Inr binding_sha"
    using binding by (simp add: expectation_for_def)
  ultimately show ?thesis
    using assms(5) decision e
    by (simp add: verify_runtime_fact_receipt_def res_bind_Inr_iff require_datetime_Inr checked_Inr_iff Let_def)
qed

section \<open>Collected receipts\<close>

lemma collected_receipt:
  assumes "collect c src symbol broker_symbol = Inr r"
  obtains b h secret where "RuntimeFactReceipt_init r = Inr r"
    "collect_broker_facts src (norm_text True symbol) (norm_text False broker_symbol) = Inr b"
    "collect_host_facts src = Inr h"
    "fc_key_provider c (fc_key_id c) = Inr secret" "32 \<le> length secret" "fact_verify_signature r secret = Inr True"
    "rf_observed_at_utc r = hs_observed_at h"
    "rf_valid_until_utc r = dt_add (rf_observed_at_utc r) RUNTIME_FACT_RECEIPT_MAX_AGE"
    "hf_kill_switch_latched (rf_health_facts r) = hs_kill_switch_latched h"
    "evaluate_runtime_health (rf_health_facts r) = Inr (rf_health_decision r)"
    "rf_symbol r = norm_text True symbol" "rf_broker_symbol r = norm_text False broker_symbol"
proof -
  obtain b h tick facts decision binding_sha u secret where
    parts: "collect_broker_facts src (norm_text True symbol) (norm_text False broker_symbol) = Inr b"
      "collect_host_facts src = Inr h"
    and facts: "evaluate_runtime_health facts = Inr decision" "hf_kill_switch_latched facts = hs_kill_switch_latched h"
    and u: "u = unsigned_receipt c (norm_text True symbol) (norm_text False broker_symbol) b h tick facts decision binding_sha"
    and init: "RuntimeFactReceipt_init u = Inr (normalize_receipt u)"
    and secret: "fc_key_provider c (fc_key_id c) = Inr secret" "32 \<le> length secret"
    and sign: "fact_sign (normalize_receipt u) secret = Inr r"
    using assms by (rule collect_cases)
  have u_ok: "RuntimeFactReceipt_init (normalize_receipt u) = Inr (normalize_receipt u)"
    using init by (rule receipt_init_idem)
  have signed: "res_bind (fact_secret_bytes secret) (fact_sign (normalize_receipt u)) = Inr r"
    using sign secret(2) by (simp add: fact_secret_bytes_def)
  have "fact_verify_signature r secret = Inr True" by (rule fact_signing.roundtrip [OF u_ok TrueI signed])
  moreover have r_init: "RuntimeFactReceipt_init r = Inr r" using sign unfolding fact_sign_def by (rule receipt_init_idem)
  moreover have "r = normalize_receipt ((normalize_receipt u)\<lparr>rf_signature := fact_hmac secret (normalize_receipt u)\<rparr>)"
    using sign unfolding fact_sign_def by (rule receipt_init_cases)
  ultimately show thesis
    using parts facts secret by (intro that) (simp_all add: u unsigned_receipt_def normalize_receipt_def)
qed

text \<open>
  (C34) A receipt the collector returns passes its own verifier, under the key it was signed
  with and against the lane it names, exactly while the trusted clock is in the second that starts at
  the observation: never before it and never from its end on. It names the symbols asked for and
  carries the health decision of the facts it binds.
\<close>

theorem collected_fact_verifies:
  assumes "collect c src symbol broker_symbol = Inr r" and "keys (rf_key_id r) = fc_key_provider c (fc_key_id c)"
  shows "(verify_runtime_fact_receipt r (expectation_for r) keys clock = Inr r \<longleftrightarrow>
      (\<exists>t. clock = Inr (Some t) \<and> is_utc t \<and> dt_le (rf_observed_at_utc r) t
         \<and> dt_sub t (rf_observed_at_utc r) < seconds 1))
    \<and> rf_symbol r = norm_text True symbol \<and> rf_broker_symbol r = norm_text False broker_symbol
    \<and> evaluate_runtime_health (rf_health_facts r) = Inr (rf_health_decision r)"
proof -
  obtain secret where init: "RuntimeFactReceipt_init r = Inr r"
    and key: "fc_key_provider c (fc_key_id c) = Inr secret" "32 \<le> length secret" "fact_verify_signature r secret = Inr True"
    and until: "rf_valid_until_utc r = dt_add (rf_observed_at_utc r) RUNTIME_FACT_RECEIPT_MAX_AGE"
    and rest: "evaluate_runtime_health (rf_health_facts r) = Inr (rf_health_decision r)"
      "rf_symbol r = norm_text True symbol" "rf_broker_symbol r = norm_text False broker_symbol"
    using assms(1) by (rule collected_receipt)
  have window: "dt_lt t (rf_valid_until_utc r) \<longleftrightarrow> dt_sub t (rf_observed_at_utc r) < seconds 1" for t
    by (auto simp: until dt_lt_def dt_sub_def dt_add_def instant_def RUNTIME_FACT_RECEIPT_MAX_AGE_def)
  have "verify_runtime_fact_receipt r (expectation_for r) keys clock = Inr r \<longleftrightarrow>
      (\<exists>t. clock = Inr (Some t) \<and> is_utc t \<and> dt_le (rf_observed_at_utc r) t \<and> dt_lt t (rf_valid_until_utc r))"
    using verify_fact_accepts [of r keys secret, OF init _ key(2,3)] key(1) assms(2)
    by (auto elim: verify_fact_cases)
  then show ?thesis using rest by (simp add: window)
qed

section \<open>A sample collection\<close>

definition sample_now :: datetime where
  "sample_now = dt_add sample_bar (seconds 2)"

definition sample_account_payload :: account_payload where
  "sample_account_payload =
     \<lparr>ap_items = [(''account_alias'', JStr ''acct''), (''server'', JStr ''srv''), (''currency'', JStr ''USD''),
        (''balance'', JFloat (Fin 10000)), (''equity'', JFloat (Fin 10000)), (''margin'', JFloat (Fin 0)),
        (''margin_free'', JFloat (Fin 10000)), (''margin_level'', JFloat (Fin 0)), (''trade_allowed'', JBool True),
        (''trade_expert'', JBool True)],
      ap_captured_at_utc = Some sample_now\<rparr>"

definition sample_tick_payload :: tick_payload where
  "sample_tick_payload =
     \<lparr>tp_items = [(''bid'', JFloat (Fin (5 / 4))), (''ask'', JFloat (Fin (5 / 4)))], tp_time_utc = Some sample_now\<rparr>"

definition sample_sources :: "bool \<Rightarrow> fact_sources" where
  "sample_sources latched =
     \<lparr>fs_started_clock = Inr (Some sample_now), fs_account_binding = Inr (Some sample_account_payload),
      fs_broker_spec = (\<lambda>s b t. Inr (Some sample_broker)), fs_current_tick = (\<lambda>b t. Inr (Some sample_tick_payload)),
      fs_identity = Inr (JStr sample_hash), fs_integrity_check = Inr (JBool True),
      fs_kill_switch_status = Inr (JDict [(''latched'', JBool latched)]), fs_journal_sha256 = Inr (JStr sample_hash),
      fs_journal_path = Inr ''/var/lib/journal'', fs_disk_free = (\<lambda>p. Inr (JInt 2000000000)),
      fs_clock_drift = Inr (JFloat (Fin 0)), fs_heartbeat = Inr (Some sample_now), fs_audit_export = Inr (JBool True),
      fs_backup = Inr (JBool True), fs_observed_clock = Inr (Some sample_now), fs_max_tick_age_seconds = Inr None\<rparr>"

definition sample_collector :: RuntimeFactCollector where
  "sample_collector =
     \<lparr>fc_key_id = ''fact-key'', fc_key_provider = (\<lambda>k. Inr sample_secret),
      fc_health_source_evidence_sha256 = sample_hash, fc_health_trust_policy_sha256 = sample_hash\<rparr>"

definition sample_account_fact :: RuntimeAccountFact where
  "sample_account_fact =
     \<lparr>af_account_id = ''acct'', af_server = ''srv'', af_currency = ''USD'', af_balance = Fin 10000, af_equity = Fin 10000,
      af_margin = Fin 0, af_margin_free = Fin 10000, af_margin_level = Fin 0, af_trade_allowed = True,
      af_trade_expert = True, af_captured_at_utc = sample_now\<rparr>"

definition sample_tick_fact :: RuntimeTickFact where
  "sample_tick_fact =
     \<lparr>tf_broker_symbol = ''EURUSD'', tf_bid = Fin (5 / 4), tf_ask = Fin (5 / 4), tf_time_utc = sample_now,
      tf_age_seconds = Fin 0, tf_collected_at_utc = sample_now, tf_schema_version = RUNTIME_TICK_FACT_SCHEMA_VERSION\<rparr>"

definition sample_broker_facts :: broker_facts where
  "sample_broker_facts =
     \<lparr>bf_started_at = sample_now, bf_account_id = ''acct'', bf_server = ''srv'', bf_spec = sample_broker,
      bf_tick = sample_tick_payload, bf_identity = sample_hash, bf_account_fact = sample_account_fact\<rparr>"

definition sample_host_facts :: "bool \<Rightarrow> host_facts" where
  "sample_host_facts latched =
     \<lparr>hs_database_integrity_ok = True, hs_kill_switch_latched = latched, hs_journal_sha256 = sample_hash,
      hs_free_disk_bytes = 2000000000, hs_clock_drift_seconds = Fin 0, hs_heartbeat_at = sample_now,
      hs_audit_export_healthy = True, hs_backup_recent = True, hs_observed_at = sample_now\<rparr>"

lemma sample_now_utc [simp]: "is_utc sample_now"
  by (simp add: sample_now_def sample_bar_def dt_add_def utc_at_def is_utc_def)

lemma sample_now_require [simp]: "require_utc name sample_now = Inr sample_now"
  by (simp add: require_utc_Inr)

lemma sample_words [simp]:
  "require_text name ''acct'' False = Inr ''acct''" "require_text name ''srv'' False = Inr ''srv''"
  "require_text name ''USD'' True = Inr ''USD''" "require_text name ''DEMO'' True = Inr ''DEMO''"
  "require_text name ''EURUSD'' True = Inr ''EURUSD''" "require_text name ''EURUSD'' False = Inr ''EURUSD''"
  "require_text name ''fact-key'' False = Inr ''fact-key''"
  "norm_text False ''acct'' = ''acct''" "norm_text False ''srv'' = ''srv''" "norm_text True ''USD'' = ''USD''"
  "norm_text True ''DEMO'' = ''DEMO''" "norm_text True ''EURUSD'' = ''EURUSD''" "norm_text False ''EURUSD'' = ''EURUSD''"
  "norm_text False ''fact-key'' = ''fact-key''"
  by (simp_all add: require_text_def upper_evals)

lemma sample_account_fact_ok: "account_fact_of ''acct'' ''srv'' sample_account_payload = Inr sample_account_fact"
  by (simp add: account_fact_of_def sample_account_payload_def sample_account_fact_def Let_def dict_get_def py_text_def
      py_or_def require_finite_json_def require_finite.simps finite_bounds_def require_datetime_def RuntimeAccountFact_init_def
      checked_def is_alpha_def raise_if_def fl_le_def)

lemma sample_account_items:
  "dict_get (ap_items sample_account_payload) ''account_alias'' = JStr ''acct''"
  "dict_get (ap_items sample_account_payload) ''server'' = JStr ''srv''"
  by (simp_all add: sample_account_payload_def dict_get_def)

lemma call_required_value [simp]: "call_required code (Inr x) = Inr x"
  by simp

lemma sample_broker_facts_ok:
  "collect_broker_facts (sample_sources latched) ''EURUSD'' ''EURUSD'' = Inr sample_broker_facts"
  using sample_account_fact_ok
  by (simp add: collect_broker_facts_def sample_sources_def require_datetime_def some_or_def
      sample_broker_facts_def py_text_def py_or_def sample_broker_def sample_account_items)

lemma sample_host_facts_ok: "collect_host_facts (sample_sources latched) = Inr (sample_host_facts latched)"
  by (simp add: collect_host_facts_def sample_sources_def some_or_def require_datetime_def py_text_def py_or_def
      sample_host_facts_def require_int.simps require_finite_json_def require_finite.simps finite_bounds_def)

lemma sample_tick_fact_ok:
  "tick_fact_of ''EURUSD'' (tp_items sample_tick_payload) sample_now sample_now = Inr sample_tick_fact"
proof -
  have "norm_text False RUNTIME_TICK_FACT_SCHEMA_VERSION = RUNTIME_TICK_FACT_SCHEMA_VERSION"
    "err_of (require_text ''schema_version'' RUNTIME_TICK_FACT_SCHEMA_VERSION False) = None"
    by (simp_all add: RUNTIME_TICK_FACT_SCHEMA_VERSION_def require_text_def upper_evals)
  moreover have "total_seconds (dt_sub sample_now sample_now) = Fin 0" by (simp add: total_seconds_def dt_sub_def)
  ultimately show ?thesis
    by (simp add: tick_fact_of_def sample_tick_payload_def sample_tick_fact_def dict_get_def require_finite_json_def
        require_finite.simps finite_bounds_def RuntimeTickFact_init_def checked_def raise_if_def fl_le_def sample_floats)
qed

definition sample_health_facts :: "bool \<Rightarrow> RuntimeHealthFacts" where
  "sample_health_facts latched =
     \<lparr>hf_observed_at = sample_now, hf_heartbeat_at = sample_now, hf_clock_drift_seconds = Fin 0,
      hf_free_disk_bytes = 2000000000, hf_database_integrity_ok = True, hf_broker_connected = True,
      hf_data_feed_fresh = True, hf_audit_export_healthy = True, hf_backup_recent = True,
      hf_kill_switch_latched = latched\<rparr>"

lemma sample_health_facts_ok:
  "health_facts_of sample_broker_facts (sample_host_facts latched) sample_tick_fact (Fin 1) = sample_health_facts latched"
  "RuntimeHealthFacts_init (sample_health_facts latched) = Inr (sample_health_facts latched)"
proof -
  have "within_second sample_now sample_now" by (simp add: within_second_def dt_sub_def RUNTIME_FACT_RECEIPT_MAX_AGE_def seconds_def)
  then show "health_facts_of sample_broker_facts (sample_host_facts latched) sample_tick_fact (Fin 1) = sample_health_facts latched"
    by (simp add: health_facts_of_def sample_broker_facts_def sample_host_facts_def sample_tick_fact_def sample_health_facts_def
        sample_account_fact_def sample_broker_def sample_now_def [symmetric] Let_def fl_le_def)
  show "RuntimeHealthFacts_init (sample_health_facts latched) = Inr (sample_health_facts latched)"
    by (simp add: RuntimeHealthFacts_init_def sample_health_facts_def checked_Inr_iff res_simps dt_lt_def)
qed

lemma fact_schema_text [simp]:
  "norm_text False RUNTIME_FACT_RECEIPT_SCHEMA_VERSION = RUNTIME_FACT_RECEIPT_SCHEMA_VERSION"
  "str_strip RUNTIME_FACT_RECEIPT_SCHEMA_VERSION \<noteq> []" "str_strip [] = []"
  by (simp_all add: RUNTIME_FACT_RECEIPT_SCHEMA_VERSION_def upper_evals)

lemma sample_unsigned_ok:
  assumes "evaluate_runtime_health (sample_health_facts latched) = Inr decision"
    and "account_binding_sha256 ''acct'' ''srv'' ''DEMO'' sample_hash = Inr binding_sha"
    and "u = unsigned_receipt sample_collector ''EURUSD'' ''EURUSD'' sample_broker_facts (sample_host_facts latched)
      sample_tick_fact (sample_health_facts latched) decision binding_sha"
  shows "normalize_receipt u = u" "RuntimeFactReceipt_init u = Inr u"
proof -
  have digest: "norm_hash (canonical_sha256 j) = canonical_sha256 j" "require_hash name (canonical_sha256 j) 64 = Inr (canonical_sha256 j)"
    for j name by (simp_all add: canonical_sha256_def)
  obtain j where j: "binding_sha = canonical_sha256 j" using assms(2) by (auto simp: account_binding_sha256_def checked_Inr_iff)
  have observed: "hd_observed_at decision = sample_now" using assms(1) by (simp add: evaluate_health_cases sample_health_facts_def)
  note defs = assms(3) unsigned_receipt_def sample_collector_def sample_broker_facts_def sample_host_facts_def sample_broker_def
    BrokerSpec_content_sha256_def digest j
  show norm: "normalize_receipt u = u" by (simp add: normalize_receipt_def defs)
  have "list_all (\<lambda>c. c = None) (receipt_field_checks u)"
    by (simp add: receipt_field_checks_def Let_def defs dt_add_def dt_sub_def instant_def RUNTIME_FACT_RECEIPT_MAX_AGE_def
        seconds_def sample_now_def sample_bar_def utc_at_def require_utc_def)
  moreover have "within_second sample_now sample_now" by (simp add: within_second_def dt_sub_def RUNTIME_FACT_RECEIPT_MAX_AGE_def seconds_def)
  then have "receipt_bound u binding_sha"
    using observed
    by (simp add: receipt_bound_def Let_def defs sample_account_fact_def sample_tick_fact_def sample_health_facts_def dt_eq_def
        sample_now_def [symmetric])
  ultimately show "RuntimeFactReceipt_init u = Inr u"
    using assms(1,2) by (intro receipt_init_ok [where binding_sha = binding_sha]) (simp_all add: norm, simp_all add: defs)
qed

lemma sample_collects:
  obtains u decision binding_sha where "evaluate_runtime_health (sample_health_facts latched) = Inr decision"
    "u = unsigned_receipt sample_collector ''EURUSD'' ''EURUSD'' sample_broker_facts (sample_host_facts latched)
      sample_tick_fact (sample_health_facts latched) decision binding_sha"
    "collect sample_collector (sample_sources latched) ''EURUSD'' ''EURUSD''
       = Inr (u\<lparr>rf_signature := fact_hmac sample_secret u\<rparr>)"
proof -
  let ?facts = "sample_health_facts latched"
  obtain decision where decision: "evaluate_runtime_health ?facts = Inr decision"
    using evaluate_health_cases [of ?facts] by (simp add: sample_health_facts_def)
  obtain binding_sha where binding: "account_binding_sha256 ''acct'' ''srv'' ''DEMO'' sample_hash = Inr binding_sha"
    by (simp add: account_binding_sha256_def checked_def)
  define u where "u = unsigned_receipt sample_collector ''EURUSD'' ''EURUSD'' sample_broker_facts (sample_host_facts latched)
    sample_tick_fact ?facts decision binding_sha"
  have u: "RuntimeFactReceipt_init u = Inr u" using sample_unsigned_ok(2) [OF decision binding u_def] .
  obtain r where r: "fact_sign u sample_secret = Inr r"
    using receipt_signable [OF u] by blast
  have "max_tick_age_of (sample_sources latched) = Inr (Fin 1)"
    by (simp add: max_tick_age_of_def sample_sources_def require_finite_json_def require_finite.simps finite_bounds_def fl_le_def)
  moreover have "bf_tick sample_broker_facts = sample_tick_payload" "tp_time_utc sample_tick_payload = Some sample_now"
    "bf_account_id sample_broker_facts = ''acct''" "bf_server sample_broker_facts = ''srv''" "bf_started_at sample_broker_facts = sample_now"
    "bs_environment (bf_spec sample_broker_facts) = ''DEMO''" "bf_identity sample_broker_facts = sample_hash"
    "hs_observed_at (sample_host_facts latched) = sample_now"
    by (simp_all add: sample_broker_facts_def sample_tick_payload_def sample_broker_def sample_host_facts_def)
  moreover have "res_bind (fc_key_provider sample_collector (fc_key_id sample_collector)) fact_secret_bytes = Inr sample_secret"
    by (simp add: sample_collector_def fact_secret_bytes_def sample_secret_def)
  ultimately have "collect sample_collector (sample_sources latched) ''EURUSD'' ''EURUSD'' = Inr r"
    using r u binding decision
    by (simp add: collect_def sample_broker_facts_ok sample_host_facts_ok sample_tick_fact_ok sample_health_facts_ok
        require_datetime_def sign_collected_def Let_def dt_sub_def u_def [symmetric])
  moreover have "r = normalize_receipt (u\<lparr>rf_signature := fact_hmac sample_secret u\<rparr>)"
    using r unfolding fact_sign_def by (rule receipt_init_cases)
  then have "r = (normalize_receipt u)\<lparr>rf_signature := norm_hash (fact_hmac sample_secret u)\<rparr>"
    by (simp add: normalize_receipt_def)
  then have "r = u\<lparr>rf_signature := fact_hmac sample_secret u\<rparr>"
    using sample_unsigned_ok(1) [OF decision binding u_def] by (simp add: fact_hmac_def)
  ultimately show thesis using decision by (intro that [OF _ u_def]) simp_all
qed

theorem collected_fact_verifies_witness:
  "\<exists>r. collect sample_collector (sample_sources False) ''EURUSD'' ''EURUSD'' = Inr r
     \<and> verify_runtime_fact_receipt r (expectation_for r) (\<lambda>k. Inr sample_secret) (Inr (Some sample_now)) = Inr r
     \<and> rf_symbol r = ''EURUSD''"
proof -
  obtain r where r: "collect sample_collector (sample_sources False) ''EURUSD'' ''EURUSD'' = Inr r"
    using sample_collects [of False] by metis
  obtain h where "collect_host_facts (sample_sources False) = Inr h" "rf_observed_at_utc r = hs_observed_at h"
    using r by (rule collected_receipt)
  then have "rf_observed_at_utc r = sample_now" by (simp add: sample_host_facts_ok) (auto simp: sample_host_facts_def)
  moreover have "Inr sample_secret = fc_key_provider sample_collector (fc_key_id sample_collector)"
    by (simp add: sample_collector_def)
  ultimately show ?thesis
    using collected_fact_verifies [OF r, of "\<lambda>k. Inr sample_secret" "Inr (Some sample_now)"] r
    by (auto simp: dt_le_def dt_sub_def seconds_def)
qed

end
