(* ===== verification/Risk_Replay.thy ===== *)
theory Risk_Replay
  imports Risk_Store Interfaces
begin

text \<open>
  Lemmas on the risk ledger: a verified event table is an authenticated log (an interpretation of
  \<open>authenticated_log\<close>), and the state a replay derives is a function of the history of events, given
  declaratively.
\<close>

section \<open>The event table as an authenticated log\<close>

text \<open>The authenticated body of a row, from its columns.\<close>

definition row_body :: "RiskLedger \<Rightarrow> int \<Rightarrow> string \<Rightarrow> RiskEventRow \<Rightarrow> json" where
  "row_body lg n p row = JDict
     [(''schema_version'', JStr EVENT_SCHEMA_VERSION), (''ledger_id'', JStr (rl_ledger_id lg)),
      (''binding_sha256'', JStr (binding_sha256 lg)), (''sequence'', JInt n),
      (''event_type'', JStr (ev_event_type row)), (''event_id'', JStr (ev_event_id row)),
      (''related_entry_id'', jopt JStr (ev_related_entry_id row)),
      (''occurred_at_utc'', JStr (ev_occurred_at_utc row)),
      (''daily_baseline_id'', JStr (ev_daily_baseline_id row)),
      (''weekly_baseline_id'', JStr (ev_weekly_baseline_id row)),
      (''payload'', ev_payload row), (''source_payload'', ev_source_payload row),
      (''previous_hmac_sha256'', JStr p)]"

definition row_good :: "RiskLedger \<Rightarrow> int \<Rightarrow> string \<Rightarrow> RiskEventRow \<Rightarrow> bool" where
  "row_good lg n p row =
     (ev_sequence row = n \<and> ev_previous_hmac_sha256 row = p
      \<and> (\<exists>event src. row_event lg row = Inr (event, src) \<and> event_binding event = rl_binding lg
           \<and> \<not> columns_disagree row (event_metadata event) src))"

lemma jopt_str_inject: "jopt JStr a = jopt JStr b \<longleftrightarrow> a = b"
  by (cases a; cases b) simp_all

lemma row_body_inject:
  assumes "row_body lg n p r = row_body lg m q s"
  shows "n = m" "p = q" "ev_event_type r = ev_event_type s" "ev_event_id r = ev_event_id s"
    "ev_related_entry_id r = ev_related_entry_id s" "ev_occurred_at_utc r = ev_occurred_at_utc s"
    "ev_daily_baseline_id r = ev_daily_baseline_id s" "ev_weekly_baseline_id r = ev_weekly_baseline_id s"
    "ev_payload r = ev_payload s" "ev_source_payload r = ev_source_payload s"
  using assms by (simp_all add: row_body_def jopt_str_inject)

lemma row_determined:
  assumes "row_good lg n p r" and "row_good lg n p s" and "ev_event_hmac_sha256 r = ev_event_hmac_sha256 s"
    and "row_body lg n p r = row_body lg n p s"
  shows "r = s"
proof -
  note body = row_body_inject [OF assms(4)]
  have "row_event lg r = row_event lg s" using body by (simp add: row_event_def)
  with assms(1,2) obtain event src where "\<not> columns_disagree r (event_metadata event) src"
    "\<not> columns_disagree s (event_metadata event) src" by (auto simp: row_good_def)
  with assms(1-3) body show ?thesis
    by (intro RiskEventRow.equality) (auto simp: row_good_def columns_disagree_def)
qed

definition event_mac :: "string \<Rightarrow> json \<Rightarrow> string" where
  "event_mac secret = risk_hmac secret (hmac_domain ''EVENT'')"

interpretation risk_log: authenticated_log "event_mac secret" "row_body lg" ev_event_hmac_sha256 "row_good lg"
  for secret lg
  by unfold_locales (auto dest: row_body_inject intro: row_determined)

abbreviation row_chain :: "RiskLedger \<Rightarrow> string \<Rightarrow> int \<Rightarrow> string \<Rightarrow> RiskEventRow list \<Rightarrow> bool" where
  "row_chain lg secret \<equiv> chained (event_mac secret) (row_body lg) ev_event_hmac_sha256 (row_good lg)"

text \<open>What one verified row says.\<close>

lemma verify_row_Inr:
  assumes "verify_row lg secret n p row c = Inr c'"
  obtains event src where "row_event lg row = Inr (event, src)" "row_good lg n p row"
    "ev_event_hmac_sha256 row = event_mac secret (row_body lg n p row)"
    "apply_event c event src n (ev_event_hmac_sha256 row) = Inr c'"
proof -
  from assms obtain event src where row: "row_event lg row = Inr (event, src)" "ev_sequence row = n"
      "ev_previous_hmac_sha256 row = p" "\<not> columns_disagree row (event_metadata event) src"
      "event_binding event = rl_binding lg"
    and tag: "ev_event_hmac_sha256 row = risk_hmac secret (hmac_domain ''EVENT'')
      (event_hmac_body lg n p (event_metadata event) (ev_payload row) (ev_source_payload row))"
    and step: "apply_event c event src n (ev_event_hmac_sha256 row) = Inr c'"
    by (auto simp: verify_row_def res_bind_Inr_iff Let_def split: if_splits prod.splits)
  have "event_hmac_body lg n p (event_metadata event) (ev_payload row) (ev_source_payload row) = row_body lg n p row"
    using row(4) by (simp add: event_hmac_body_def row_body_def columns_disagree_def jtime_def)
  with row tag step show thesis by (intro that) (auto simp: row_good_def event_mac_def)
qed

lemma verify_rows_chain:
  "verify_rows lg secret n p rows c = Inr c' \<Longrightarrow> row_chain lg secret n p rows"
proof (induction rows arbitrary: n p c)
  case (Cons row rows)
  then obtain c1 where c1: "verify_row lg secret n p row c = Inr c1"
    and rest: "verify_rows lg secret (n + 1) (ev_event_hmac_sha256 row) rows c1 = Inr c'"
    by (auto simp: res_bind_Inr_iff)
  from c1 Cons.IH [OF rest] show ?case by (auto elim!: verify_row_Inr)
qed simp

lemma chain_sequence: "row_chain lg secret n p rows \<Longrightarrow> i < length rows \<Longrightarrow> ev_sequence (rows ! i) = n + int i"
proof (induction rows arbitrary: n p i)
  case (Cons row rows)
  then show ?case by (cases i) (auto simp: row_good_def algebra_simps)
qed simp

section \<open>The state as a function of the history\<close>

definition equities :: "risk_event list \<Rightarrow> pyfloat list" where
  "equities evs = concat (map (\<lambda>e. case e of Snapshot x \<Rightarrow> [as_equity x] | _ \<Rightarrow> []) evs)"

definition outcomes :: "risk_event list \<Rightarrow> string list" where
  "outcomes evs = concat (map (\<lambda>e. case e of Closed x \<Rightarrow> [ct_outcome x] | _ \<Rightarrow> []) evs)"

definition opened :: "risk_event list \<Rightarrow> (string \<times> string) list" where
  "opened evs = concat (map (\<lambda>e. case e of Entry x \<Rightarrow> [(ee_entry_id x, ee_symbol x)] | _ \<Rightarrow> []) evs)"

definition closings :: "risk_event list \<Rightarrow> (string \<times> string) list" where
  "closings evs = concat (map (\<lambda>e. case e of Closed x \<Rightarrow> [(ct_entry_id x, ct_symbol x)] | _ \<Rightarrow> []) evs)"

definition entries_on :: "string \<Rightarrow> risk_event list \<Rightarrow> nat" where
  "entries_on day evs = length (filter (\<lambda>e. case e of Entry x \<Rightarrow> ee_daily_baseline_id x = day | _ \<Rightarrow> False) evs)"

definition loss_streak :: "string list \<Rightarrow> nat" where
  "loss_streak os = length (takeWhile (\<lambda>x. x = ''LOSS'') (rev os))"

lemmas history_defs = equities_def outcomes_def opened_def closings_def entries_on_def

lemma history_snoc:
  "equities (evs @ [e]) = equities evs @ (case e of Snapshot x \<Rightarrow> [as_equity x] | _ \<Rightarrow> [])"
  "outcomes (evs @ [e]) = outcomes evs @ (case e of Closed x \<Rightarrow> [ct_outcome x] | _ \<Rightarrow> [])"
  "opened (evs @ [e]) = opened evs @ (case e of Entry x \<Rightarrow> [(ee_entry_id x, ee_symbol x)] | _ \<Rightarrow> [])"
  "closings (evs @ [e]) = closings evs @ (case e of Closed x \<Rightarrow> [(ct_entry_id x, ct_symbol x)] | _ \<Rightarrow> [])"
  "entries_on day (evs @ [e]) =
     entries_on day evs + (case e of Entry x \<Rightarrow> if ee_daily_baseline_id x = day then 1 else 0 | _ \<Rightarrow> 0)"
  by (simp_all add: history_defs split: risk_event.split)

lemma loss_streak_snoc: "loss_streak (os @ [x]) = (if x = ''LOSS'' then loss_streak os + 1 else 0)"
  by (simp add: loss_streak_def)

lemma loss_streak_pos: "0 < loss_streak os \<longleftrightarrow> suffix [''LOSS''] os"
  by (cases os rule: rev_cases) (auto simp: loss_streak_def)

lemma two_losses_snoc:
  "sublist [''LOSS'', ''LOSS''] (os @ [x]) \<longleftrightarrow>
     sublist [''LOSS'', ''LOSS''] os \<or> x = ''LOSS'' \<and> 0 < loss_streak os"
  using snoc_sublist_snoc [of "[''LOSS'']" "''LOSS''" os x] by (auto simp: loss_streak_pos)

text \<open>The parts of the derived state, each as a function of the history.\<close>

definition equity_history :: "risk_event list \<Rightarrow> DerivedState \<Rightarrow> bool" where
  "equity_history evs s =
     (equities evs \<noteq> [] \<and> dv_current_equity s = last (equities evs)
      \<and> dv_high_water_equity s \<in> set (equities evs)
      \<and> (\<forall>x \<in> set (equities evs). is_finite x \<and> fl_le x (dv_high_water_equity s)))"

definition loss_history :: "risk_event list \<Rightarrow> DerivedState \<Rightarrow> bool" where
  "loss_history evs s =
     (dv_consecutive_losses s = int (loss_streak (outcomes evs))
      \<and> (dv_loss_latch_active s \<longleftrightarrow> sublist [''LOSS'', ''LOSS''] (outcomes evs)))"

definition trade_history :: "risk_event list \<Rightarrow> bool" where
  "trade_history evs =
     (distinct (map fst (opened evs)) \<and> distinct (map fst (closings evs)) \<and> set (closings evs) \<subseteq> set (opened evs))"

definition time_history :: "risk_event list \<Rightarrow> DerivedState \<Rightarrow> bool" where
  "time_history evs s =
     (evs \<noteq> [] \<and> dv_latest_event_at_utc s = em_occurred_at (event_metadata (last evs))
      \<and> sorted (map (\<lambda>e. instant (em_occurred_at (event_metadata e))) evs))"

text \<open>What the replay context keeps to be able to continue.\<close>

definition context_history :: "risk_event list \<Rightarrow> ReplayContext \<Rightarrow> DerivedState \<Rightarrow> bool" where
  "context_history evs c s =
     (rx_entries c = rev (opened evs) \<and> rx_closed_entries c = rev (map fst (closings evs))
      \<and> dv_daily_baseline_id s \<in> set (rx_seen_daily c)
      \<and> (\<forall>day. day \<notin> set (rx_seen_daily c) \<longrightarrow> entries_on day evs = 0))"

definition state_history :: "risk_event list \<Rightarrow> DerivedState \<Rightarrow> bool" where
  "state_history evs s =
     (dv_event_sequence s = int (length evs) \<and> equity_history evs s \<and> loss_history evs s \<and> trade_history evs
      \<and> time_history evs s \<and> dv_entries_today s = int (entries_on (dv_daily_baseline_id s) evs))"

definition replays :: "risk_event list \<Rightarrow> ReplayContext \<Rightarrow> bool" where
  "replays evs c =
     (case rx_state c of None \<Rightarrow> evs = [] \<and> c = new_replay
      | Some s \<Rightarrow> state_history evs s \<and> context_history evs c s)"

definition sound_event :: "risk_event \<Rightarrow> bool" where
  "sound_event e = (case e of Snapshot x \<Rightarrow> is_finite (as_equity x) | _ \<Rightarrow> True)"

lemma fl_le_refl_finite: "is_finite x \<Longrightarrow> fl_le x x"
  by (cases x) auto

lemma fl_max_bounds:
  assumes "is_finite x" and "is_finite y"
  shows "fl_le x (fl_max x y)" "fl_le y (fl_max x y)" "fl_max x y \<in> {x, y}" "fl_le z x \<Longrightarrow> fl_le z (fl_max x y)"
proof -
  obtain a b where [simp]: "x = Fin a" "y = Fin b" using assms by (cases x; cases y) auto
  show "fl_le x (fl_max x y)" "fl_le y (fl_max x y)" "fl_max x y \<in> {x, y}" by (auto simp: max_def)
  show "fl_le z x \<Longrightarrow> fl_le z (fl_max x y)" by (cases z) (auto simp: fl_le_def max_def)
qed

lemma first_replays:
  assumes "apply_event c event src n h = Inr c'" and "rx_state c = None" and "replays [] c" and "sound_event event" and "n = 1"
  shows "replays [event] c'"
proof -
  obtain e where e: "event = Snapshot e"
    using assms(1,2) by (cases event) (auto simp: apply_event_def)
  have c: "c = new_replay" using assms(2,3) by (simp add: replays_def)
  show ?thesis
    using assms(1,4,5) unfolding e c
    by (auto simp: apply_event_def new_replay_def replays_def state_history_def equity_history_def loss_history_def
        trade_history_def time_history_def context_history_def history_defs stamp_def first_state_def loss_streak_def
        sound_event_def fl_le_refl_finite)
qed

lemmas history_parts = state_history_def equity_history_def loss_history_def trade_history_def context_history_def

text \<open>One step of the three kinds keeps every part of the history, the time and sequence apart.\<close>

lemma snapshot_step:
  assumes "state_history evs p" and "context_history evs c p" and "apply_snapshot c e p = Inr (c', s)"
    and "is_finite (as_equity e)"
  shows "equity_history (evs @ [Snapshot e]) s" "loss_history (evs @ [Snapshot e]) s" "trade_history (evs @ [Snapshot e])"
    "context_history (evs @ [Snapshot e]) c' s"
    "dv_entries_today s = int (entries_on (dv_daily_baseline_id s) (evs @ [Snapshot e]))"
proof -
  have hw: "is_finite (dv_high_water_equity p)" using assms(1) by (auto simp: history_parts)
  note max = fl_max_bounds [OF hw assms(4)]
  have s: "dv_high_water_equity s = fl_max (dv_high_water_equity p) (as_equity e)" "dv_current_equity s = as_equity e"
    "dv_consecutive_losses s = dv_consecutive_losses p" "dv_loss_latch_active s = dv_loss_latch_active p"
    "dv_daily_baseline_id s = as_daily_baseline_id e" "rx_entries c' = rx_entries c"
    "rx_closed_entries c' = rx_closed_entries c"
    using assms(3) by (auto simp: apply_snapshot_def Let_def split: if_splits)
  show "equity_history (evs @ [Snapshot e]) s"
    using assms(1,4) max s by (auto simp: history_parts history_snoc)
  show "loss_history (evs @ [Snapshot e]) s" "trade_history (evs @ [Snapshot e])"
    using assms(1) s by (simp_all add: history_parts history_snoc)
  show "context_history (evs @ [Snapshot e]) c' s"
    using assms(2,3) s by (auto simp: context_history_def history_snoc apply_snapshot_def Let_def split: if_splits)
  show "dv_entries_today s = int (entries_on (dv_daily_baseline_id s) (evs @ [Snapshot e]))"
    using assms(1-3) by (auto simp: history_parts history_snoc apply_snapshot_def Let_def split: if_splits)
qed

lemma entry_step:
  assumes "state_history evs p" and "context_history evs c p" and "apply_entry c e p = Inr (c', s)"
    and "\<not> baselines_differ (Entry e) p"
  shows "equity_history (evs @ [Entry e]) s" "loss_history (evs @ [Entry e]) s" "trade_history (evs @ [Entry e])"
    "context_history (evs @ [Entry e]) c' s"
    "dv_entries_today s = int (entries_on (dv_daily_baseline_id s) (evs @ [Entry e]))"
proof -
  have day: "ee_daily_baseline_id e = dv_daily_baseline_id p" using assms(4) by (simp add: baselines_differ_def)
  have fresh: "ee_entry_id e \<notin> fst ` set (opened evs)"
    using assms(2,3) by (auto simp: apply_entry_def context_history_def map_of_eq_None_iff split: if_splits)
  show "equity_history (evs @ [Entry e]) s" "loss_history (evs @ [Entry e]) s"
    "dv_entries_today s = int (entries_on (dv_daily_baseline_id s) (evs @ [Entry e]))"
    "context_history (evs @ [Entry e]) c' s" "trade_history (evs @ [Entry e])"
    using assms(1-3) day fresh by (auto simp: apply_entry_def history_parts history_snoc split: if_splits)
qed

lemma closed_step:
  assumes "state_history evs p" and "context_history evs c p" and "apply_closed c e p = Inr (c', s)"
  shows "equity_history (evs @ [Closed e]) s" "loss_history (evs @ [Closed e]) s" "trade_history (evs @ [Closed e])"
    "context_history (evs @ [Closed e]) c' s"
    "dv_entries_today s = int (entries_on (dv_daily_baseline_id s) (evs @ [Closed e]))"
proof -
  let ?losses = "if ct_outcome e = ''LOSS'' then dv_consecutive_losses p + 1 else 0"
  from assms(3) have entry: "map_of (rx_entries c) (ct_entry_id e) = Some (ct_symbol e)"
    and fresh: "ct_entry_id e \<notin> set (rx_closed_entries c)"
    and res: "c' = c\<lparr>rx_closed_entries := ct_entry_id e # rx_closed_entries c\<rparr>"
      "s = p\<lparr>dv_consecutive_losses := ?losses,
             dv_loss_latch_active := (dv_loss_latch_active p \<or> ct_outcome e = ''LOSS'' \<and> LOSS_LATCH_COUNT \<le> ?losses)\<rparr>"
    by (auto simp: apply_closed_def Let_def split: option.splits if_splits)
  have mem: "(ct_entry_id e, ct_symbol e) \<in> set (opened evs)"
    using map_of_SomeD [OF entry] assms(2) by (simp add: context_history_def)
  show "loss_history (evs @ [Closed e]) s"
    using assms(1) by (auto simp: res history_parts history_snoc loss_streak_snoc two_losses_snoc LOSS_LATCH_COUNT_def)
  show "equity_history (evs @ [Closed e]) s" "context_history (evs @ [Closed e]) c' s"
    "dv_entries_today s = int (entries_on (dv_daily_baseline_id s) (evs @ [Closed e]))"
    using assms(1,2) by (auto simp: res history_parts history_snoc)
  show "trade_history (evs @ [Closed e])"
    using assms(1,2) fresh mem by (auto simp: history_parts history_snoc)
qed

lemma context_stamp [simp]:
  "equity_history evs (stamp src n h t ch s) = equity_history evs s"
  "loss_history evs (stamp src n h t ch s) = loss_history evs s"
  "context_history evs (c\<lparr>rx_state := x\<rparr>) (stamp src n h t ch s) = context_history evs c s"
  "dv_event_sequence (stamp src n h t ch s) = n" "dv_latest_event_at_utc (stamp src n h t ch s) = t"
  "dv_entries_today (stamp src n h t ch s) = dv_entries_today s"
  "dv_daily_baseline_id (stamp src n h t ch s) = dv_daily_baseline_id s"
  "dv_head_hmac_sha256 (stamp src n h t ch s) = h" "dv_loss_latch_active (stamp src n h t ch s) = dv_loss_latch_active s"
  "dv_high_water_equity (stamp src n h t ch s) = dv_high_water_equity s"
  by (simp_all add: stamp_def equity_history_def loss_history_def context_history_def)

lemma sorted_instants_snoc:
  assumes "time_history evs p" and "\<not> dt_lt (em_occurred_at (event_metadata e)) (dv_latest_event_at_utc p)"
  shows "sorted (map (\<lambda>e. instant (em_occurred_at (event_metadata e))) (evs @ [e]))"
proof -
  let ?t = "\<lambda>e. instant (em_occurred_at (event_metadata e))"
  obtain xs y where evs: "evs = xs @ [y]" using assms(1) by (metis time_history_def rev_exhaust)
  then show ?thesis
    using assms by (fastforce simp: time_history_def sorted_append dt_lt_def)
qed

lemma step_replays:
  assumes "apply_event c event src n h = Inr c'" and "rx_state c = Some p" and "replays evs c"
    and "sound_event event" and "n = int (length evs) + 1"
  shows "replays (evs @ [event]) c'"
proof -
  from assms(1,2) obtain c1 s where late: "\<not> dt_lt (em_occurred_at (event_metadata event)) (dv_latest_event_at_utc p)"
    and step: "step_event c event p = Inr (c1, s)"
    and c': "c' = c1\<lparr>rx_state := Some (stamp src n h (em_occurred_at (event_metadata event))
                                      (dv_source_receipt_chain_sha256 p) s)\<rparr>"
    by (auto simp: apply_event_def Let_def res_bind_Inr_iff split: if_splits)
  have hist: "state_history evs p" "context_history evs c p" using assms(2,3) by (simp_all add: replays_def)
  have "equity_history (evs @ [event]) s \<and> loss_history (evs @ [event]) s \<and> trade_history (evs @ [event])
      \<and> context_history (evs @ [event]) c1 s
      \<and> dv_entries_today s = int (entries_on (dv_daily_baseline_id s) (evs @ [event]))"
  proof (cases event)
    case (Snapshot e)
    then show ?thesis
      using snapshot_step [OF hist, of e c1 s] step assms(4) by (simp add: step_event_def sound_event_def)
  next
    case (Entry e)
    then show ?thesis using entry_step [OF hist, of e c1 s] step by (simp add: step_event_def split: if_splits)
  next
    case (Closed e)
    then show ?thesis using closed_step [OF hist, of e c1 s] step by (simp add: step_event_def split: if_splits)
  qed
  moreover have "time_history evs p" using hist(1) by (simp add: state_history_def)
  ultimately show ?thesis
    using sorted_instants_snoc [OF _ late] assms(5)
    by (simp add: c' replays_def state_history_def time_history_def)
qed

lemma apply_event_replays:
  assumes "apply_event c event src n h = Inr c'" and "replays evs c" and "sound_event event" and "n = int (length evs) + 1"
  shows "replays (evs @ [event]) c'"
proof (cases "rx_state c")
  case None
  then show ?thesis using assms first_replays [OF assms(1) None] by (auto simp: replays_def)
next
  case (Some p)
  then show ?thesis using assms step_replays by blast
qed

section \<open>The verified table\<close>

definition decodes :: "RiskLedger \<Rightarrow> RiskEventRow list \<Rightarrow> risk_event list \<Rightarrow> bool" where
  "decodes lg rows evs = list_all2 (\<lambda>row event. \<exists>src. row_event lg row = Inr (event, src)) rows evs"

lemma row_event_sound: "row_event lg row = Inr (event, src) \<Longrightarrow> sound_event event"
  by (auto simp: row_event_def res_bind_Inr_iff event_from_payload_def snapshot_from_payload_def entry_from_payload_def
      closed_from_payload_def AccountRiskSnapshot_init_def checked_Inr_iff require_finite_ok sound_event_def
      simp del: require_finite.simps split: if_splits)

lemma verify_rows_replay:
  assumes "verify_rows lg secret n p rows c = Inr c'" and "replays evs c" and "n = int (length evs) + 1"
  shows "\<exists>evs'. decodes lg rows evs' \<and> replays (evs @ evs') c'"
  using assms
proof (induction rows arbitrary: n p c evs)
  case Nil
  then show ?case by (auto simp: decodes_def)
next
  case (Cons row rows)
  then obtain c1 where c1: "verify_row lg secret n p row c = Inr c1"
    and rest: "verify_rows lg secret (n + 1) (ev_event_hmac_sha256 row) rows c1 = Inr c'"
    by (auto simp: res_bind_Inr_iff)
  from c1 obtain event src where ev: "row_event lg row = Inr (event, src)"
    and step: "apply_event c event src n (ev_event_hmac_sha256 row) = Inr c1" by (rule verify_row_Inr)
  have "replays (evs @ [event]) c1"
    using apply_event_replays [OF step Cons.prems(2) row_event_sound [OF ev] Cons.prems(3)] .
  from Cons.IH [OF rest this] Cons.prems(3) obtain evs' where
    "decodes lg rows evs'" "replays (evs @ event # evs') c'" by auto
  with ev show ?case by (intro exI [of _ "event # evs'"]) (auto simp: decodes_def)
qed

end
