(* ===== verification/Risk_Codec.thy ===== *)
theory Risk_Codec
  imports Risk_Replay
begin

text \<open>
  What the risk ledger stores can be read back: canonical timestamps denote the instant they were
  written for, the canonical member order does not change a value's canonical text or its members,
  and the payload of a constructed event, binding or source receipt parses to that object.
\<close>

section \<open>Calendar\<close>

text \<open>Python's \<open>datetime\<close> ranges over the years 1 to 9999.\<close>

definition in_datetime_range :: "datetime \<Rightarrow> bool" where
  "in_datetime_range d = (is_utc d \<and> 0 \<le> dt_us d \<and> dt_us d < 3652059 * day_us)"

lemma month_of_day:
  assumes "0 \<le> r" and "r \<le> 364"
    and "m = int (length (takeWhile (\<lambda>k. days_before_month y k \<le> r) [1, 2, 3, 4, 5, 6, 7, 8, 9, 10, 11, 12]))"
  shows "1 \<le> m" "m \<le> 12" "days_before_month y m \<le> r" "r - days_before_month y m < days_in_month y m"
proof -
  let ?P = "\<lambda>k. days_before_month y k \<le> r" and ?ms = "map int [1..<13]"
  have ms: "[1, 2, 3, 4, 5, 6, 7, 8, 9, 10, 11, 12] = ?ms" by (simp add: upt_rec)
  define n where "n = length (takeWhile ?P ?ms)"
  have m: "m = int n" using assms(3) by (simp add: n_def ms)
  have "?P 1" using assms(1) by (simp add: days_before_month_def)
  then have n1: "1 \<le> n" by (simp add: n_def upt_rec)
  have n12: "n \<le> 12" using length_takeWhile_le [of ?P ?ms] by (simp add: n_def)
  have "takeWhile ?P ?ms ! (n - 1) \<in> set (takeWhile ?P ?ms)" using n1 by (intro nth_mem) (simp add: n_def)
  then have "?P (takeWhile ?P ?ms ! (n - 1))" by (auto dest: set_takeWhileD)
  moreover have "takeWhile ?P ?ms ! (n - 1) = int n"
    using n1 n12 takeWhile_nth [of "n - 1" ?P ?ms] by (simp add: n_def)
  ultimately show before: "days_before_month y m \<le> r" by (simp add: m)
  show "1 \<le> m" "m \<le> 12" using n1 n12 by (simp_all add: m)
  show "r - days_before_month y m < days_in_month y m"
  proof (cases "n = 12")
    case True
    then show ?thesis using assms(2) by (simp add: m days_in_month_def days_before_month_def)
  next
    case False
    then have "\<not> ?P (?ms ! n)" using n12 nth_length_takeWhile [of ?P ?ms] by (simp add: n_def)
    then show ?thesis using False n12 by (simp add: m days_in_month_def add.commute)
  qed
qed

lemma year_days:
  fixes n400 n100 n4 n1 :: int
  assumes "0 \<le> n100" "n100 \<le> 3" "0 \<le> n4" "n4 \<le> 24" "0 \<le> n1" "n1 \<le> 3"
    and "p = n400 * 400 + n100 * 100 + n4 * 4 + n1"
  shows "365 * p + p div 4 - p div 100 + p div 400 = n400 * 146097 + n100 * 36524 + n4 * 1461 + n1 * 365"
proof -
  have "p div 4 = n400 * 100 + n100 * 25 + n4" "p div 100 = n400 * 4 + n100" "p div 400 = n400"
    using assms by linarith+
  then show ?thesis using assms(7) by simp
qed

text \<open>The cycles of the calendar; the last day of a cycle of 4 or 400 years is apart.\<close>

lemma cycles_of_day:
  assumes "0 \<le> days" and "days < 3652059"
  obtains n400 n100 n4 n1 r1 y0 where
    "ord2ymd days =
      (if n1 = 4 \<or> n100 = 4 then (y0 - 1, 12, 31)
       else let m = int (length (takeWhile (\<lambda>k. days_before_month y0 k \<le> r1) [1, 2, 3, 4, 5, 6, 7, 8, 9, 10, 11, 12]))
            in (y0, m, r1 - days_before_month y0 m + 1))"
    "y0 = n400 * 400 + 1 + n100 * 100 + n4 * 4 + n1"
    "days = n400 * 146097 + n100 * 36524 + n4 * 1461 + n1 * 365 + r1"
    "0 \<le> n400" "n400 \<le> 24" "0 \<le> n100" "n100 \<le> 4" "0 \<le> n4" "n4 \<le> 24" "0 \<le> n1" "n1 \<le> 4" "0 \<le> r1" "r1 \<le> 364"
    "n100 = 4 \<longrightarrow> n4 = 0 \<and> n1 = 0 \<and> r1 = 0" "n1 = 4 \<longrightarrow> r1 = 0 \<and> n4 \<le> 23"
proof -
  define n400 r where n400: "n400 = days div 146097" "r = days mod 146097"
  define n100 r100 where n100: "n100 = r div 36524" "r100 = r mod 36524"
  define n4 r4 where n4: "n4 = r100 div 1461" "r4 = r100 mod 1461"
  define n1 r1 where n1: "n1 = r4 div 365" "r1 = r4 mod 365"
  note ns = n400 n100 n4 n1
  have split: "days = n400 * 146097 + r" "r = n100 * 36524 + r100" "r100 = n4 * 1461 + r4" "r4 = n1 * 365 + r1"
    by (simp_all add: ns)
  have outer: "0 \<le> r4" "r4 < 1461" "0 \<le> r100" "r100 < 36524" "r < 146097" by (simp_all add: ns)
  have bounds: "0 \<le> n400" "n400 \<le> 24" "0 \<le> n100" "n100 \<le> 4" "0 \<le> n4" "n4 \<le> 24" "0 \<le> n1" "n1 \<le> 4" "0 \<le> r1" "r1 \<le> 364"
    using assms by (simp_all add: ns)
  have last100: "n4 = 0 \<and> n1 = 0 \<and> r1 = 0" if "n100 = 4"
  proof -
    have "r100 = 0" using that split(2) outer by linarith
    then show ?thesis by (simp add: n4 n1)
  qed
  have last1: "r1 = 0 \<and> n4 \<le> 23" if "n1 = 4" using that split(3,4) outer bounds by linarith
  show thesis
  proof (rule that [OF _ refl _ bounds])
    show "days = n400 * 146097 + n100 * 36524 + n4 * 1461 + n1 * 365 + r1" using split by simp
    show "n100 = 4 \<longrightarrow> n4 = 0 \<and> n1 = 0 \<and> r1 = 0" "n1 = 4 \<longrightarrow> r1 = 0 \<and> n4 \<le> 23" using last100 last1 by blast+
  qed (simp_all only: ord2ymd_def Let_def ns)
qed

lemma last_day_of_cycle:
  fixes n400 n100 n4 :: int
  assumes "y = n400 * 400 + n100 * 100 + n4 * 4 + 4" and "0 \<le> n400" "0 \<le> n100" "n100 \<le> 3" "0 \<le> n4"
    and "n4 \<le> 23 \<or> n4 = 24 \<and> n100 = 3"
  shows "ymd2days y 12 31 = n400 * 146097 + n100 * 36524 + n4 * 1461 + 1460" "is_leap y"
proof -
  have "365 * (y - 1) + (y - 1) div 4 - (y - 1) div 100 + (y - 1) div 400
      = n400 * 146097 + n100 * 36524 + n4 * 1461 + 3 * 365"
    using assms by (intro year_days) auto
  moreover have "y mod 4 = 0" using assms(1) by simp
  moreover have "y mod 100 \<noteq> 0 \<or> y mod 400 = 0"
  proof (cases "n4 \<le> 23")
    case True
    then have "y = (n4 * 4 + 4) + (n400 * 4 + n100) * 100" "0 \<le> n4 * 4 + 4" "n4 * 4 + 4 < 100"
      using assms by simp_all
    then have "y mod 100 = n4 * 4 + 4" by (simp only: mod_mult_self1 mod_pos_pos_trivial)
    then show ?thesis using assms(5) by simp
  next
    case False
    then show ?thesis using assms by simp
  qed
  ultimately show "ymd2days y 12 31 = n400 * 146097 + n100 * 36524 + n4 * 1461 + 1460" "is_leap y"
    by (simp_all add: ymd2days_def days_before_month_def is_leap_def Let_def)
qed

lemma ord2ymd_days:
  assumes "ord2ymd days = (y, m, d)" and "0 \<le> days" and "days < 3652059"
  shows "ymd2days y m d = days \<and> 1 \<le> y \<and> y \<le> 9999 \<and> 1 \<le> m \<and> m \<le> 12 \<and> 1 \<le> d \<and> d \<le> days_in_month y m"
proof -
  obtain n400 n100 n4 n1 r1 y0 where result: "ord2ymd days =
      (if n1 = 4 \<or> n100 = 4 then (y0 - 1, 12, 31)
       else let m = int (length (takeWhile (\<lambda>k. days_before_month y0 k \<le> r1) [1, 2, 3, 4, 5, 6, 7, 8, 9, 10, 11, 12]))
            in (y0, m, r1 - days_before_month y0 m + 1))"
    and y0: "y0 = n400 * 400 + 1 + n100 * 100 + n4 * 4 + n1"
    and days: "days = n400 * 146097 + n100 * 36524 + n4 * 1461 + n1 * 365 + r1"
    and bounds: "0 \<le> n400" "n400 \<le> 24" "0 \<le> n100" "n100 \<le> 4" "0 \<le> n4" "n4 \<le> 24" "0 \<le> n1" "n1 \<le> 4" "0 \<le> r1" "r1 \<le> 364"
    and last: "n100 = 4 \<longrightarrow> n4 = 0 \<and> n1 = 0 \<and> r1 = 0" "n1 = 4 \<longrightarrow> r1 = 0 \<and> n4 \<le> 23"
    by (rule cycles_of_day [OF assms(2,3)])
  consider "n100 = 4" | "n1 = 4" "n100 \<noteq> 4" | "n1 \<noteq> 4" "n100 \<noteq> 4" by blast
  then show ?thesis
  proof cases
    case 1
    have "ymd2days y 12 31 = n400 * 146097 + 3 * 36524 + 24 * 1461 + 1460" "is_leap y"
      using 1 last(1) bounds result assms(1) last_day_of_cycle [of y n400 3 24] by (simp_all add: y0)
    then show ?thesis
      using 1 last(1) bounds days result assms(1,3) by (auto simp: y0 days_in_month_def)
  next
    case 2
    have "ymd2days y 12 31 = n400 * 146097 + n100 * 36524 + n4 * 1461 + 1460" "is_leap y"
      using 2 last(2) bounds result assms(1) last_day_of_cycle [of y n400 n100 n4] by (simp_all add: y0)
    then show ?thesis
      using 2 last(2) bounds days result assms(1,3) by (auto simp: y0 days_in_month_def)
  next
    case 3
    define k where "k = int (length (takeWhile (\<lambda>k. days_before_month y0 k \<le> r1) [1, 2, 3, 4, 5, 6, 7, 8, 9, 10, 11, 12]))"
    have k: "y = y0" "m = k" "d = r1 - days_before_month y0 k + 1"
      using result 3 assms(1) by (simp_all add: Let_def k_def)
    have "365 * (y0 - 1) + (y0 - 1) div 4 - (y0 - 1) div 100 + (y0 - 1) div 400
        = n400 * 146097 + n100 * 36524 + n4 * 1461 + n1 * 365"
      using 3 bounds by (intro year_days) (simp_all add: y0)
    then have "ymd2days y m d = days" using days by (simp add: ymd2days_def Let_def k)
    moreover have "1 \<le> y" "y \<le> 9999" using 3 bounds days assms(3) by (auto simp: k y0)
    ultimately show ?thesis using month_of_day [OF bounds(9,10) k_def] by (simp add: k)
  qed
qed

section \<open>Timestamps\<close>

definition digit_char :: "int \<Rightarrow> char" where
  "digit_char n = char_of (nat (48 + n mod 10))"

lemma digits_of_chars:
  "digits_of 2 n = [digit_char (n div 10), digit_char n]"
  "digits_of 4 n = [digit_char (n div 100 div 10), digit_char (n div 100), digit_char (n div 10), digit_char n]"
  "digits_of 6 n = [digit_char (n div 10000 div 10), digit_char (n div 10000), digit_char (n div 100 div 10),
                    digit_char (n div 100), digit_char (n div 10), digit_char n]"
  by (simp_all add: digit_char_def numeral_eq_Suc zdiv_zmult2_eq [symmetric])

lemma of_digit_char: "of_char (digit_char n) = nat (48 + n mod 10)"
proof -
  have "nat (48 + n mod 10) < 256" by (simp add: nat_less_iff)
  then show ?thesis by (simp add: digit_char_def)
qed

lemma is_digit_char [simp]: "is_digit (digit_char n)"
  using pos_mod_bound [of 10 n] pos_mod_sign [of 10 n] by (simp add: is_digit_def of_digit_char Let_def) linarith

lemma two_digits_value: "digits_value [of_char (digit_char a) - 48, of_char (digit_char b) - 48] = 10 * (a mod 10) + b mod 10"
  by (simp add: digits_value_def of_digit_char)

lemma two_digits_mod: "10 * (n div 10 mod 10) + n mod 10 = n mod (100 :: int)"
  using zmod_zmult2_eq [of 10 n 10] by simp

lemma clock_fields:
  fixes s :: int
  assumes "0 \<le> s" and "s < 86400"
  shows "((s div 3600) * 60 + s div 60 mod 60) * 60 + s mod 60 = s" "0 \<le> s div 3600" "s div 3600 \<le> 23"
  using assms by (auto simp: zdiv_zmult2_eq [of 60 s 60, simplified])

lemma year_fields: "0 \<le> y \<Longrightarrow> y \<le> 9999 \<Longrightarrow> 100 * (y div 100 mod 100) + y mod 100 = (y :: int)"
  by simp

lemma microsecond_fields:
  "0 \<le> u \<Longrightarrow> u < 1000000 \<Longrightarrow> 10000 * (u div 10000 mod 100) + 100 * (u div 100 mod 100) + u mod 100 = (u :: int)"
  using zmod_zmult2_eq [of 100 u 100] mult_div_mod_eq [of 10000 u] by simp

lemma days_in_month_bound:
  assumes "1 \<le> m" and "m \<le> 12"
  shows "days_in_month y m \<le> 31"
proof -
  have "m = 1 \<or> m = 2 \<or> m = 3 \<or> m = 4 \<or> m = 5 \<or> m = 6 \<or> m = 7 \<or> m = 8 \<or> m = 9 \<or> m = 10 \<or> m = 11 \<or> m = 12" using assms by presburger
  then show ?thesis by (auto simp: days_in_month_def days_before_month_def)
qed

lemma iso_fields_text:
  assumes "t = [digit_char (y div 100 div 10), digit_char (y div 100), digit_char (y div 10), digit_char y,
      CHR ''-'', digit_char (m div 10), digit_char m, CHR ''-'', digit_char (dd div 10), digit_char dd, CHR ''T'',
      digit_char (h div 10), digit_char h, CHR '':'', digit_char (mi div 10),
      digit_char mi, CHR '':'', digit_char (sec div 10), digit_char sec, CHR ''.'',
      digit_char (u div 10000 div 10), digit_char (u div 10000), digit_char (u div 100 div 10),
      digit_char (u div 100), digit_char (u div 10), digit_char u, CHR ''Z'']"
    and "1 \<le> y" "y \<le> 9999" "1 \<le> m" "m \<le> 12" "1 \<le> dd" "dd \<le> days_in_month y m"
    and "0 \<le> h" "h \<le> 23" "0 \<le> mi" "mi \<le> 59" "0 \<le> sec" "sec \<le> 59" "0 \<le> u" "u < 1000000"
  shows "iso_fields t = Some (utc_at (ymd2days y m dd * day_us + ((h * 60 + mi) * 60 + sec) * 1000000 + u))"
proof -
  have two: "two_digits t 0 = y div 100 mod 100" "two_digits t 2 = y mod 100" "two_digits t 5 = m mod 100"
    "two_digits t 8 = dd mod 100" "two_digits t 11 = h mod 100" "two_digits t 14 = mi mod 100"
    "two_digits t 17 = sec mod 100" "two_digits t 20 = u div 10000 mod 100" "two_digits t 22 = u div 100 mod 100"
    "two_digits t 24 = u mod 100"
    unfolding assms(1) two_digits_def by (simp_all add: two_digits_value two_digits_mod)
  have small: "m mod 100 = m" "dd mod 100 = dd" "h mod 100 = h" "mi mod 100 = mi" "sec mod 100 = sec"
    using assms(2-13) days_in_month_bound [of m y] by auto
  have year: "100 * (y div 100 mod 100) + y mod 100 = y" using assms(2,3) by (intro year_fields) simp_all
  have digits: "length t = 27" "list_all is_digit (map (nth t) [0, 1, 2, 3, 5, 6, 8, 9, 11, 12, 14, 15, 17, 18,
             20, 21, 22, 23, 24, 25])"
    unfolding assms(1) by simp_all
  have "\<not> (y < 1 \<or> m < 1 \<or> 12 < m \<or> dd < 1 \<or> days_in_month y m < dd \<or> 23 < h \<or> 59 < mi \<or> 59 < sec)"
    using assms(2-13) by linarith
  then show ?thesis
    by (simp only: iso_fields_def Let_def two small year microsecond_fields [OF assms(14,15)] digits if_False
        simp_thms)
qed

lemma iso_fields_canonical:
  assumes "in_datetime_range d"
  shows "iso_fields (canonical_datetime d) = Some d"
proof -
  obtain y m dd where ymd: "ord2ymd (dt_us d div day_us) = (y, m, dd)" by (cases "ord2ymd (dt_us d div day_us)")
  have range: "is_utc d" "0 \<le> dt_us d" "dt_us d < 3652059 * day_us" using assms by (auto simp: in_datetime_range_def)
  have days: "ymd2days y m dd = dt_us d div day_us \<and> 1 \<le> y \<and> y \<le> 9999 \<and> 1 \<le> m \<and> m \<le> 12 \<and> 1 \<le> dd \<and> dd \<le> days_in_month y m"
    using range by (intro ord2ymd_days [OF ymd]) (simp_all add: day_us_def)
  define us s where "us = dt_us d mod day_us" and "s = us div 1000000"
  have s: "0 \<le> s" "s < 86400" by (simp_all add: s_def us_def day_us_def)
  have micro: "dt_us d mod 1000000 = us mod 1000000" by (simp add: us_def day_us_def mod_mod_cancel)
  have "iso_fields (canonical_datetime d) = Some (utc_at (ymd2days y m dd * day_us
      + ((s div 3600 * 60 + s div 60 mod 60) * 60 + s mod 60) * 1000000 + us mod 1000000))"
    using days clock_fields(2,3) [OF s]
    by (intro iso_fields_text)
      (simp_all add: canonical_datetime_def iso_date_time_def ymd Let_def digits_of_chars micro
        us_def [symmetric] s_def [symmetric])
  also have "\<dots> = Some (utc_at (dt_us d))"
    using days unfolding clock_fields(1) [OF s] by (simp add: s_def us_def)
  also have "utc_at (dt_us d) = d" using range(1) by (cases d) (simp add: utc_at_def is_utc_def)
  finally show ?thesis .
qed

lemma parse_jtime: "in_datetime_range d \<Longrightarrow> parse_utc (jtime d) = Inr d"
  by (simp add: jtime_def iso_fields_canonical)

lemma parse_again: "parse_utc v = Inr d \<Longrightarrow> parse_utc (jtime d) = Inr d"
  by (cases v) (auto simp: jtime_def split: option.splits if_splits)

section \<open>Canonical member order\<close>

lemma sort_key_map:
  assumes "\<And>x. k' (f x) = k x"
  shows "sort_key k' (map f xs) = map f (sort_key k xs)"
proof -
  have "insort_key k' (f x) (map f ys) = map f (insort_key k x ys)" for x ys
    by (induction ys) (auto simp: assms)
  then show ?thesis by (induction xs) simp_all
qed

lemma map_of_sort_key: "map_of (sort_key fst kvs) = map_of (kvs :: (string \<times> 'v) list)"
proof -
  have "map_of (insort_key fst kv ys) = map_of (kv # ys)" if "sorted (map fst ys)" for kv :: "string \<times> 'v" and ys
    using that by (induction ys) (auto simp: fun_eq_iff)
  then show ?thesis by (induction kvs) auto
qed

lemma json_dumps_sort: "json_dumps (json_sort j) = json_dumps j"
proof (induction j rule: json_sort.induct)
  case (2 kvs)
  let ?sort = "\<lambda>(k, v). (k, json_sort v)" and ?dump = "\<lambda>(k, v). (k, json_dumps v)"
  have "sort_key fst (map ?dump (sort_key fst (map ?sort kvs))) = map ?dump (sort_key fst (sort_key fst (map ?sort kvs)))"
    by (rule sort_key_map) auto
  also have "\<dots> = map ?dump (sort_key fst (map ?sort kvs))" by (simp add: sort_key_id_if_sorted)
  also have "\<dots> = sort_key fst (map ?dump (map ?sort kvs))" by (rule sort_key_map [symmetric]) auto
  also have "map ?dump (map ?sort kvs) = map ?dump kvs" using 2 by auto
  finally show ?case by simp
qed (auto simp: comp_def cong: map_cong)

lemma json_sorted_sort: "json_sorted (json_sort j)"
proof (induction j rule: json_sort.induct)
  case (2 kvs)
  then show ?case by (auto simp: list.pred_set)
qed (auto simp: list.pred_set)

text \<open>The items of a sorted object, kept folded so that a lookup does not compute the order.\<close>

definition sorted_items :: "item \<Rightarrow> item" where
  "sorted_items kvs = sort_key fst (map (\<lambda>(k, v). (k, json_sort v)) kvs)"

lemma json_sort_dict: "json_sort (JDict kvs) = JDict (sorted_items kvs)"
  by (simp add: sorted_items_def)

lemma dict_get_sorted [simp]: "dict_get (sorted_items kvs) k = json_sort (dict_get kvs k)"
proof -
  have "map_of (map (\<lambda>(k, v). (k, json_sort v)) kvs) k = map_option json_sort (map_of kvs k)"
    by (induction kvs) auto
  then show ?thesis by (simp add: dict_get_def sorted_items_def map_of_sort_key split: option.split)
qed

lemma exact_fields_sorted [simp]: "exact_fields (sorted_items kvs) names field = exact_fields kvs names field"
  by (simp add: exact_fields_def sorted_items_def image_image case_prod_unfold)

declare json_sort.simps(2) [simp del] json_sort_dict [simp]

section \<open>Payloads\<close>

lemma canonical_json_sort [simp]: "canonical_json (json_sort j) = canonical_json j"
  by (simp add: canonical_json_def json_dumps_sort)

lemma py_text_str [simp]: "py_text (JStr s) = s"
  by (simp add: py_text_def py_or_def)

lemma json_sort_jtime [simp]: "json_sort (jtime d) = jtime d"
  by (simp add: jtime_def)

lemma exact_fields_same: "map fst kvs = names \<Longrightarrow> exact_fields kvs names field = Inr ()"
  by (simp add: exact_fields_def del: set_map)

lemma binding_roundtrip:
  assumes "RiskLedgerBinding_init b = Inr b"
  shows "binding_from_payload (RiskLedgerBinding_dict b) = Inr b"
    "binding_from_payload (json_sort (RiskLedgerBinding_dict b)) = Inr b"
proof -
  have "exact_text name (lb_server b) = Inr (lb_server b)" for name
    using assms by (auto simp: RiskLedgerBinding_init_def checked_Inr_iff err_of_None_iff Let_def exact_text_def split: if_splits)
  with assms show "binding_from_payload (RiskLedgerBinding_dict b) = Inr b"
    "binding_from_payload (json_sort (RiskLedgerBinding_dict b)) = Inr b"
    by (cases b; simp add: binding_from_payload_def RiskLedgerBinding_dict_def exact_fields_same; simp add: dict_get_def)+
qed

text \<open>What the constructors of the source leave: every field normalised, every time in range.\<close>

fun event_ok :: "risk_event \<Rightarrow> bool" where
  "event_ok (Snapshot e) = (AccountRiskSnapshot_init e = Inr e)"
| "event_ok (Entry e) = (EntryRiskEvent_init e = Inr e)"
| "event_ok (Closed e) = (ClosedTradeRiskEvent_init e = Inr e)"

definition constructed :: "risk_event \<Rightarrow> bool" where
  "constructed event =
     (event_ok event \<and> RiskLedgerBinding_init (event_binding event) = Inr (event_binding event)
      \<and> in_datetime_range (em_occurred_at (event_metadata event)))"

lemma snapshot_roundtrip:
  assumes "constructed (Snapshot e)"
  shows "\<exists>kvs. json_sort (risk_event_dict (Snapshot e)) = JDict kvs \<and> snapshot_from_payload kvs = Inr (Snapshot e)"
proof -
  have ids: "exact_id name (as_snapshot_id e) = Inr (as_snapshot_id e)"
    "exact_id name (as_daily_baseline_id e) = Inr (as_daily_baseline_id e)"
    "exact_id name (as_weekly_baseline_id e) = Inr (as_weekly_baseline_id e)" for name
    using assms by (auto simp: constructed_def AccountRiskSnapshot_init_def checked_Inr_iff exact_id_def split: if_splits)
  show ?thesis
    using assms binding_roundtrip(2) [of "as_binding e"] parse_jtime [of "as_observed_at_utc e"] ids
    by (cases e; simp add: constructed_def snapshot_from_payload_def exact_fields_same; simp add: dict_get_def)
qed

lemma entry_roundtrip:
  assumes "constructed (Entry e)"
  shows "\<exists>kvs. json_sort (risk_event_dict (Entry e)) = JDict kvs \<and> entry_from_payload kvs = Inr (Entry e)"
proof -
  have ids: "exact_id name (ee_entry_id e) = Inr (ee_entry_id e)"
    "exact_id name (ee_daily_baseline_id e) = Inr (ee_daily_baseline_id e)"
    "exact_id name (ee_weekly_baseline_id e) = Inr (ee_weekly_baseline_id e)" for name
    using assms by (auto simp: constructed_def EntryRiskEvent_init_def checked_Inr_iff res_bind_Inr_iff exact_id_def split: if_splits)
  show ?thesis
    using assms binding_roundtrip(2) [of "ee_binding e"] parse_jtime [of "ee_occurred_at_utc e"] ids
    by (cases e; simp add: constructed_def entry_from_payload_def exact_fields_same; simp add: dict_get_def)
qed

lemma closed_roundtrip:
  assumes "constructed (Closed e)"
  shows "\<exists>kvs. json_sort (risk_event_dict (Closed e)) = JDict kvs \<and> closed_from_payload kvs = Inr (Closed e)"
proof -
  have ids: "exact_id name (ct_trade_id e) = Inr (ct_trade_id e)" "exact_id name (ct_entry_id e) = Inr (ct_entry_id e)"
    "exact_id name (ct_daily_baseline_id e) = Inr (ct_daily_baseline_id e)"
    "exact_id name (ct_weekly_baseline_id e) = Inr (ct_weekly_baseline_id e)" for name
    using assms by (auto simp: constructed_def ClosedTradeRiskEvent_init_def checked_Inr_iff res_bind_Inr_iff exact_id_def split: if_splits)
  obtain symbol outcome where "symbol_of (ct_symbol e) = Inr symbol" "require_text ''outcome'' (ct_outcome e) True = Inr outcome"
      "e\<lparr>ct_symbol := symbol, ct_outcome := outcome\<rparr> = e" "outcome \<in> {''WIN'', ''LOSS'', ''BREAKEVEN''}"
    using assms by (auto simp: constructed_def ClosedTradeRiskEvent_init_def checked_Inr_iff res_bind_Inr_iff split: if_splits)
  then have "symbol_of (ct_symbol e) = Inr (ct_symbol e)" "require_text ''outcome'' (ct_outcome e) True = Inr (ct_outcome e)"
    "ct_outcome e \<in> {''WIN'', ''LOSS'', ''BREAKEVEN''}"
    by (cases e; simp)+
  then show ?thesis
    using assms binding_roundtrip(2) [of "ct_binding e"] parse_jtime [of "ct_occurred_at_utc e"] ids
    by (cases e; simp add: constructed_def closed_from_payload_def exact_fields_same; simp add: dict_get_def checked_def raise_if_def)
qed

lemma event_roundtrip:
  assumes "constructed event"
  obtains kvs where "json_sort (risk_event_dict event) = JDict kvs"
    "event_from_payload (em_event_type (event_metadata event)) kvs = Inr event"
  using assms snapshot_roundtrip entry_roundtrip closed_roundtrip
  by (cases event) (fastforce simp: event_from_payload_def)+

section \<open>Source receipts\<close>

lemma binding_init_idem: "RiskLedgerBinding_init b = Inr b' \<Longrightarrow> RiskLedgerBinding_init b' = Inr b'"
  by (simp add: RiskLedgerBinding_init_def Let_def res_simps)

lemma source_init_idem: "RiskSourceReceipt_init True r = Inr r' \<Longrightarrow> RiskSourceReceipt_init True r' = Inr r'"
  by (simp add: RiskSourceReceipt_init_def Let_def res_simps)

lemma binding_from_payload_ok: "binding_from_payload v = Inr b \<Longrightarrow> RiskLedgerBinding_init b = Inr b"
  by (auto simp: binding_from_payload_def res_bind_Inr_iff intro: binding_init_idem)

lemma source_fields_read:
  assumes init: "RiskSourceReceipt_init True r = Inr r" and binding: "RiskLedgerBinding_init (src_binding r) = Inr (src_binding r)"
    and time: "parse_utc (jtime (src_observed_at_utc r)) = Inr (src_observed_at_utc r)"
      "parse_utc (jtime (src_valid_until_utc r)) = Inr (src_valid_until_utc r)"
  shows "source_from_raw (source_fields r) = Inr r" "source_from_raw (sorted_items (source_fields r)) = Inr r"
proof -
  have ids: "exact_id name (src_source_receipt_id r) = Inr (src_source_receipt_id r)"
    "exact_id name (src_issuer_id r) = Inr (src_issuer_id r)" "exact_id name (src_key_id r) = Inr (src_key_id r)" for name
    using init by (auto simp: RiskSourceReceipt_init_def checked_Inr_iff Let_def exact_id_def split: if_splits)
  show "source_from_raw (source_fields r) = Inr r" "source_from_raw (sorted_items (source_fields r)) = Inr r"
    using init time ids binding_roundtrip [OF binding]
    by (cases r; simp add: source_from_raw_def; simp add: source_fields_def dict_get_def)+
qed

lemma source_raw_roundtrip:
  assumes "source_from_raw raw = Inr r"
  shows "source_from_raw (sorted_items (source_fields r)) = Inr r"
proof -
  from assms obtain r0 where "RiskSourceReceipt_init True r0 = Inr r"
    by (auto simp: source_from_raw_def res_bind_Inr_iff)
  then have "RiskSourceReceipt_init True r = Inr r" by (rule source_init_idem)
  moreover have "RiskLedgerBinding_init (src_binding r) = Inr (src_binding r)"
    "parse_utc (jtime (src_observed_at_utc r)) = Inr (src_observed_at_utc r)"
    "parse_utc (jtime (src_valid_until_utc r)) = Inr (src_valid_until_utc r)"
    using assms by (auto simp: source_from_raw_def res_bind_Inr_iff RiskSourceReceipt_init_def checked_Inr_iff Let_def
        intro: binding_from_payload_ok parse_again)
  ultimately show ?thesis by (rule source_fields_read)
qed

lemma exact_source_fields: "exact_fields (source_fields r) SOURCE_RECEIPT_FIELDS field = Inr ()"
  by (rule exact_fields_same) (simp add: source_fields_def SOURCE_RECEIPT_FIELDS_def)

text \<open>A verified source receipt is verified again from what the ledger stores of it.\<close>

lemma verify_source_cases:
  assumes "verify_risk_source_receipt payload event binding provider trusted clock = Inr r"
  obtains raw secret where "payload = JDict raw" "source_from_raw raw = Inr r"
    "checked (source_binding_checks r raw event binding trusted) () = Inr ()"
    "source_secret provider (src_key_id r) = Inr secret"
    "src_signature_hmac_sha256 r = risk_hmac secret (hmac_domain ''SOURCE'') (source_signing_payload r)"
    "checked (source_time_checks r (em_occurred_at (event_metadata event)) clock) r = Inr r"
  using assms
  by (cases payload) (auto simp: verify_risk_source_receipt_def res_bind_Inr_iff checked_Inr_iff)

lemma verify_source_again:
  assumes "verify_risk_source_receipt payload event binding provider trusted clock = Inr r"
  shows "verify_risk_source_receipt (json_sort (RiskSourceReceipt_dict r)) event binding provider trusted None = Inr r"
proof -
  obtain raw secret where v: "source_from_raw raw = Inr r"
    "checked (source_binding_checks r raw event binding trusted) () = Inr ()"
    "source_secret provider (src_key_id r) = Inr secret"
    "src_signature_hmac_sha256 r = risk_hmac secret (hmac_domain ''SOURCE'') (source_signing_payload r)"
    "checked (source_time_checks r (em_occurred_at (event_metadata event)) clock) r = Inr r"
    using assms by (rule verify_source_cases)
  have "canonical_json (JDict (sorted_items (source_fields r))) = canonical_json (RiskSourceReceipt_dict r)"
    unfolding RiskSourceReceipt_dict_def json_sort_dict [symmetric] by (rule canonical_json_sort)
  then have "checked (source_binding_checks r (sorted_items (source_fields r)) event binding trusted) () = Inr ()"
    using v(2) by (simp add: source_binding_checks_def checked_Inr_iff)
  moreover have "checked (source_time_checks r (em_occurred_at (event_metadata event)) None) r = Inr r"
    using v(5) by (auto simp: source_time_checks_def checked_Inr_iff)
  ultimately show ?thesis
    using v source_raw_roundtrip [OF v(1)]
    by (simp add: verify_risk_source_receipt_def RiskSourceReceipt_dict_def exact_source_fields checked_def raise_if_def)
qed

end
