(* ===== verification/Risk_Append.thy ===== *)
theory Risk_Append
  imports Risk_Codec Permit_Safety
begin

text \<open>
  Lemmas on the operations of the durable risk ledger: what a verified connection and a successful
  append consist of, that an admissible event is appended, and that the receipt of a verified state
  verifies.
\<close>

section \<open>Connections\<close>

lemma verify_connection_cases:
  assumes "verify_connection ledger secret db = Inr (lg, c)"
  obtains ledger_id where "verify_identity ledger secret db = Inr ledger_id" "lg = ledger\<lparr>rl_ledger_id := ledger_id\<rparr>"
    "verify_rows lg secret 1 ZERO_HMAC_SHA256 (db_events db) new_replay = Inr c"
proof (cases "db_events db")
  case Nil
  then show thesis
    using assms by (intro that [of "rl_ledger_id lg"])
      (auto simp: verify_connection_def res_bind_Inr_iff Let_def split: option.splits)
next
  case (Cons row rows)
  then show thesis
    using assms by (intro that [of "rl_ledger_id lg"])
      (auto simp: verify_connection_def res_bind_Inr_iff Let_def split: option.splits if_splits)
qed

lemma apply_event_state:
  assumes "apply_event c event src n h = Inr c'"
  obtains s where "rx_state c' = Some s" "dv_head_hmac_sha256 s = h" "dv_event_sequence s = n"
  using assms
  by (auto simp: apply_event_def Let_def res_bind_Inr_iff split: option.splits risk_event.splits if_splits)

lemma verify_rows_head:
  assumes "verify_rows lg secret n p rows c = Inr c'" and "rows \<noteq> []"
  shows "\<exists>s. rx_state c' = Some s \<and> dv_head_hmac_sha256 s = log_head ev_event_hmac_sha256 p rows"
  using assms
proof (induction rows arbitrary: n p c)
  case (Cons row rows)
  then obtain c1 where c1: "verify_row lg secret n p row c = Inr c1"
    and rest: "verify_rows lg secret (n + 1) (ev_event_hmac_sha256 row) rows c1 = Inr c'"
    by (auto simp: res_bind_Inr_iff)
  show ?case
  proof (cases "rows = []")
    case True
    from c1 obtain event src where "apply_event c event src n (ev_event_hmac_sha256 row) = Inr c1"
      by (rule verify_row_Inr)
    then show ?thesis using rest True by (auto elim!: apply_event_state)
  next
    case False
    then show ?thesis using Cons.IH [OF rest] by simp
  qed
qed simp

lemma verified_history:
  assumes "verify_connection ledger secret db = Inr (lg, c)"
  obtains evs where "decodes lg (db_events db) evs" "replays evs c"
proof -
  have "replays [] new_replay" by (simp add: replays_def new_replay_def)
  moreover obtain i where "verify_rows lg secret 1 ZERO_HMAC_SHA256 (db_events db) new_replay = Inr c"
    using assms by (rule verify_connection_cases)
  ultimately show thesis using verify_rows_replay [of lg secret 1 _ _ _ c "[]"] that by force
qed

lemma verified_length:
  assumes "verify_connection ledger secret db = Inr (lg, c)" and "rx_state c = Some s"
  shows "dv_event_sequence s = int (length (db_events db))" "db_events db \<noteq> []"
proof -
  obtain evs where evs: "decodes lg (db_events db) evs" "replays evs c" using assms(1) by (rule verified_history)
  then have "length evs = length (db_events db)" by (simp add: decodes_def list_all2_lengthD)
  moreover have "dv_event_sequence s = int (length evs)" "evs \<noteq> []"
    using evs(2) assms(2) by (auto simp: replays_def state_history_def time_history_def)
  ultimately show "dv_event_sequence s = int (length (db_events db))" "db_events db \<noteq> []" by auto
qed

section \<open>Appending\<close>

lemma insert_event_Inr: "insert_event row db = Inr db' \<longleftrightarrow>
    db' = db\<lparr>db_events := db_events db @ [row]\<rparr> \<and> \<not> list_ex (unique_conflict row) (db_events db)"
  by (auto simp: insert_event_def)

lemma append_locked_cases:
  assumes "append_locked ledger secret event src now db = Inr (db', receipt)"
  obtains lg c c' s n p h where "verify_connection ledger secret db = Inr (lg, c)"
    "apply_event c event src n h = Inr c'" "rx_state c' = Some s"
    "\<not> list_ex (source_consumed src) (db_events db)"
    "db_events db' = db_events db @ [event_row n p event src h]" "db_identity db' = db_identity db"
    "\<exists>c2. verify_connection lg secret db' = Inr (lg, c2) \<and> rx_state c2 = Some s"
    "state_receipt lg s now secret = Inr receipt"
proof -
  from assms obtain lg c where conn: "verify_connection ledger secret db = Inr (lg, c)"
    by (auto simp: append_locked_def res_bind_Inr_iff)
  let ?n = "case rx_state c of None \<Rightarrow> 1 | Some s \<Rightarrow> dv_event_sequence s + 1"
  let ?p = "case rx_state c of None \<Rightarrow> ZERO_HMAC_SHA256 | Some s \<Rightarrow> dv_head_hmac_sha256 s"
  let ?h = "risk_hmac secret (hmac_domain ''EVENT'')
      (event_hmac_body lg ?n ?p (event_metadata event) (json_sort (risk_event_dict event))
        (json_sort (RiskSourceReceipt_dict src)))"
  from assms conn obtain c' s lg2 c2 where step: "apply_event c event src ?n ?h = Inr c'" "rx_state c' = Some s"
    and new: "\<not> list_ex (source_consumed src) (db_events db)"
    and db': "db' = write_state lg s secret (db\<lparr>db_events := db_events db @ [event_row ?n ?p event src ?h]\<rparr>)"
    and again: "verify_connection lg secret db' = Inr (lg2, c2)" "rx_state c2 = Some s"
    and receipt: "state_receipt lg s now secret = Inr receipt"
    by (auto simp: append_locked_def res_bind_Inr_iff Let_def insert_event_Inr split: if_splits option.splits)
  have "lg2 = lg"
  proof -
    obtain i where i: "verify_identity ledger secret db = Inr i" "lg = ledger\<lparr>rl_ledger_id := i\<rparr>"
      using conn by (rule verify_connection_cases)
    obtain k where "verify_identity lg secret db' = Inr k" "lg2 = lg\<lparr>rl_ledger_id := k\<rparr>"
      using again(1) by (rule verify_connection_cases)
    moreover have "i = id_ledger_id (the (db_identity db))" "k = id_ledger_id (the (db_identity db'))"
      using i(1) calculation(1)
      by (auto simp: verify_identity_def res_bind_Inr_iff exact_id_def split: option.splits if_splits)
    ultimately show ?thesis by (simp add: db' write_state_def i(2))
  qed
  with again have ex: "\<exists>c2. verify_connection lg secret db' = Inr (lg, c2) \<and> rx_state c2 = Some s" by blast
  show thesis
    by (rule that [OF conn step new _ _ ex receipt]) (simp_all add: db' write_state_def)
qed

lemma append_event_cases:
  assumes "append_event lg event src upstream source_clock clock db = Inr (db', receipt)"
  obtains verified now secret where "event_binding event = rl_binding lg"
    "verified_source_for_append lg event src upstream source_clock = Inr verified"
    "ledger_now clock = Inr now" "ledger_secret lg = Inr secret"
    "append_locked lg secret event verified now db = Inr (db', receipt)"
  using assms by (auto simp: append_event_def res_bind_Inr_iff split: if_splits)

section \<open>Stored states\<close>

definition state_ok :: "DerivedState \<Rightarrow> bool" where
  "state_ok s = (state_from_row \<lparr>sw_state = s, sw_state_hmac_sha256 = []\<rparr> = Inr s)"

lemma state_from_row_ok: "state_ok (sw_state row) \<Longrightarrow> state_from_row row = Inr (sw_state row)"
  by (simp add: state_ok_def state_from_row_def)

lemma state_from_row_idem: "state_from_row row = Inr s \<Longrightarrow> state_ok s"
  by (simp add: state_ok_def state_from_row_def Let_def res_simps)

lemma verified_state_ok:
  assumes "verify_connection ledger secret db = Inr (lg, c)" and "rx_state c = Some s"
  shows "state_ok s"
  using assms
  by (auto simp: verify_connection_def res_bind_Inr_iff Let_def new_replay_def
      split: option.splits list.splits if_splits intro: state_from_row_idem)

lemma exact_id_ok: "err_of (exact_id name i) = None \<longleftrightarrow> exact_id_text i"
  by (simp add: exact_id_def)

lemmas state_ok_simps = state_ok_def state_from_row_def Let_def res_simps exact_id_ok

text \<open>The part of it the events change; the stamp adds the rest.\<close>

definition positive_figure :: "pyfloat \<Rightarrow> bool" where
  "positive_figure x = (is_finite x \<and> \<not> fl_le x (Fin 0))"

definition figures_ok :: "DerivedState \<Rightarrow> bool" where
  "figures_ok s =
     (exact_id_text (dv_daily_baseline_id s) \<and> exact_id_text (dv_weekly_baseline_id s)
      \<and> positive_figure (dv_daily_baseline_equity s) \<and> positive_figure (dv_weekly_baseline_equity s)
      \<and> positive_figure (dv_current_equity s) \<and> positive_figure (dv_high_water_equity s)
      \<and> 0 \<le> dv_entries_today s \<and> 0 \<le> dv_consecutive_losses s)"

lemma state_ok_figures: "state_ok s \<Longrightarrow> figures_ok s"
  by (simp add: figures_ok_def positive_figure_def state_ok_simps)

lemma stamp_ok:
  assumes "1 \<le> n" and "is_utc t" and "exact_id_text (src_issuer_id src)" and "exact_id_text (src_key_id src)"
    and "figures_ok s"
  shows "state_ok (stamp src n (risk_hmac k dm v) t ch s)"
proof -
  have "err_of (require_hash name (sha256_hex m) 64) = None" "err_of (require_hash name (hmac_sha256_hex k m) 64) = None"
    for name k m using require_hash_digest [of 64] by simp_all
  then show ?thesis
    using assms
    by (simp add: stamp_def state_ok_def state_from_row_def Let_def checked_Inr_iff exact_id_ok is_utc_require require_int_ok
        require_finite_ok risk_hmac_def source_content_sha256_def canonical_sha256_def source_chain_sha256_def
        figures_ok_def positive_figure_def)
qed

lemma event_ok_utc: "event_ok event \<Longrightarrow> is_utc (em_occurred_at (event_metadata event))"
  by (cases event) (auto simp: AccountRiskSnapshot_init_def EntryRiskEvent_init_def ClosedTradeRiskEvent_init_def res_simps)

lemma snapshot_figures:
  assumes "AccountRiskSnapshot_init e = Inr e"
  shows "exact_id_text (as_daily_baseline_id e)" "exact_id_text (as_weekly_baseline_id e)" "positive_figure (as_equity e)"
  using assms by (simp_all add: AccountRiskSnapshot_init_def res_simps exact_id_ok positive_figure_def)

lemma fl_max_positive: "positive_figure x \<Longrightarrow> positive_figure y \<Longrightarrow> positive_figure (fl_max x y)"
  using fl_max_bounds(3) [of x y] by (auto simp: positive_figure_def)

lemma step_figures:
  assumes "step_event c event p = Inr (c', s)" and "figures_ok p" and "event_ok event"
  shows "figures_ok s"
proof (cases event)
  case (Snapshot e)
  with assms snapshot_figures [of e] fl_max_positive [of "dv_high_water_equity p" "as_equity e"] show ?thesis
    by (auto simp: step_event_def apply_snapshot_def Let_def figures_ok_def split: if_splits)
next
  case (Entry e)
  with assms(1,2) show ?thesis
    by (auto simp: step_event_def apply_entry_def figures_ok_def split: if_splits)
next
  case (Closed e)
  with assms(1,2) show ?thesis
    by (auto simp: step_event_def apply_closed_def Let_def figures_ok_def split: if_splits option.splits)
qed

lemma apply_event_ok:
  assumes "apply_event c event src n (risk_hmac k dm v) = Inr c'" and "rx_state c' = Some s"
    and "\<And>p. rx_state c = Some p \<Longrightarrow> state_ok p" and "event_ok event" and "1 \<le> n"
    and "exact_id_text (src_issuer_id src)" and "exact_id_text (src_key_id src)"
  shows "state_ok s"
proof (cases "rx_state c")
  case None
  then obtain e where e: "event = Snapshot e"
    and s: "s = stamp src n (risk_hmac k dm v) (as_observed_at_utc e) ZERO_HMAC_SHA256 (first_state e)"
    using assms(1,2) by (auto simp: apply_event_def Let_def split: risk_event.splits)
  have "figures_ok (first_state e)"
    using assms(4) snapshot_figures [of e] by (simp add: e figures_ok_def first_state_def)
  then show ?thesis using stamp_ok [OF assms(5) _ assms(6,7)] event_ok_utc [OF assms(4)] by (simp add: s e)
next
  case (Some p)
  then obtain c1 s1 where step: "step_event c event p = Inr (c1, s1)"
    and s: "s = stamp src n (risk_hmac k dm v) (em_occurred_at (event_metadata event)) (dv_source_receipt_chain_sha256 p) s1"
    using assms(1,2) by (auto simp: apply_event_def Let_def res_bind_Inr_iff split: if_splits)
  have "figures_ok s1" using step_figures [OF step] state_ok_figures [OF assms(3) [OF Some]] assms(4) by blast
  then show ?thesis using stamp_ok [OF assms(5) _ assms(6,7)] event_ok_utc [OF assms(4)] by (simp add: s)
qed

section \<open>The extended table\<close>

lemma trust_ledger_id [simp]:
  "key_fingerprints (lg\<lparr>rl_ledger_id := i\<rparr>) ks = key_fingerprints lg ks"
  "trust_items (lg\<lparr>rl_ledger_id := i\<rparr>) issuers = trust_items lg issuers"
  "source_trust_sha256 (lg\<lparr>rl_ledger_id := i\<rparr>) = source_trust_sha256 lg"
  "identity_body (lg\<lparr>rl_ledger_id := i\<rparr>) trust n t = identity_body lg trust n t"
proof -
  show keys: "key_fingerprints (lg\<lparr>rl_ledger_id := i\<rparr>) ks = key_fingerprints lg ks" for ks
    by (induction ks) (simp_all add: trust_secret_def)
  show items: "trust_items (lg\<lparr>rl_ledger_id := i\<rparr>) issuers = trust_items lg issuers" for issuers
    by (induction issuers) (simp_all add: keys split_paired_all)
  show "source_trust_sha256 (lg\<lparr>rl_ledger_id := i\<rparr>) = source_trust_sha256 lg"
    by (simp add: source_trust_sha256_def items)
qed (simp add: identity_body_def)

lemma verify_identity_again:
  assumes "verify_identity ledger secret db = Inr i" and "db_identity db' = db_identity db"
  shows "verify_identity (ledger\<lparr>rl_ledger_id := i\<rparr>) secret db' = Inr i"
proof -
  from assms(1) obtain row created where row: "db_identity db = Some row" "exact_id ''ledger_id'' (id_ledger_id row) = Inr i"
    "id_schema_version row = LEDGER_SCHEMA_VERSION" "parse_utc (JStr (id_created_at_utc row)) = Inr created"
    "RiskLedgerBinding_init (id_binding row) = Inr (rl_binding ledger)" "id_key_id row = rl_key_id ledger"
    "id_key_fingerprint_sha256 row = sha256_hex secret" "source_trust_sha256 ledger = Inr (id_source_trust_sha256 row)"
    "id_identity_hmac_sha256 row = risk_hmac secret (hmac_domain ''IDENTITY'')
       (identity_body ledger (id_source_trust_sha256 row) i (canonical_datetime created))"
    by (auto simp: verify_identity_def res_bind_Inr_iff split: option.splits if_splits)
  show ?thesis using row assms(2) by (simp add: verify_identity_def res_reraise_def del: parse_utc.simps)
qed

lemma verify_rows_snoc:
  assumes "verify_rows lg secret n p rows c = Inr c1"
    and "verify_row lg secret (n + int (length rows)) (log_head ev_event_hmac_sha256 p rows) row c1 = Inr c2"
  shows "verify_rows lg secret n p (rows @ [row]) c = Inr c2"
  using assms
proof (induction rows arbitrary: n p c)
  case Nil
  then show ?case by (simp add: log_head_def)
next
  case (Cons r rows)
  then obtain c0 where c0: "verify_row lg secret n p r c = Inr c0"
    and rest: "verify_rows lg secret (n + 1) (ev_event_hmac_sha256 r) rows c0 = Inr c1"
    by (auto simp: res_bind_Inr_iff)
  have "log_head ev_event_hmac_sha256 p (r # rows) = log_head ev_event_hmac_sha256 (ev_event_hmac_sha256 r) rows"
    by (simp add: log_head_def)
  then show ?case using Cons.IH [OF rest] Cons.prems(2) c0 by (simp add: algebra_simps)
qed

text \<open>The row an append writes is read back as the event and the receipt it was made of.\<close>

lemma event_row_reads_back:
  assumes "constructed event" and "event_binding event = rl_binding lg"
    and "verify_risk_source_receipt payload event (rl_binding lg) (rl_source_key_provider lg)
      (rl_trusted_source_issuer_keys lg) clock = Inr src"
  shows "row_event lg (event_row n p event src h) = Inr (event, src)"
    "\<not> columns_disagree (event_row n p event src h) (event_metadata event) src"
proof -
  obtain kvs where kvs: "json_sort (risk_event_dict event) = JDict kvs"
    "event_from_payload (em_event_type (event_metadata event)) kvs = Inr event"
    using assms(1) by (rule event_roundtrip)
  have "strict_object field (json_sort (RiskSourceReceipt_dict src)) = Inr (sorted_items (source_fields src))" for field
    by (simp add: RiskSourceReceipt_dict_def)
  then show "row_event lg (event_row n p event src h) = Inr (event, src)"
    using kvs verify_source_again [OF assms(3)] by (simp add: row_event_def event_row_def Let_def)
  show "\<not> columns_disagree (event_row n p event src h) (event_metadata event) src"
    by (simp add: columns_disagree_def event_row_def Let_def json_sorted_sort)
qed

abbreviation new_sequence :: "ReplayContext \<Rightarrow> int" where
  "new_sequence c \<equiv> (case rx_state c of None \<Rightarrow> 1 | Some s \<Rightarrow> dv_event_sequence s + 1)"

abbreviation new_previous :: "ReplayContext \<Rightarrow> string" where
  "new_previous c \<equiv> (case rx_state c of None \<Rightarrow> ZERO_HMAC_SHA256 | Some s \<Rightarrow> dv_head_hmac_sha256 s)"

lemma verified_position:
  assumes "verify_connection ledger secret db = Inr (lg, c)"
  shows "new_sequence c = 1 + int (length (db_events db))"
    "new_previous c = log_head ev_event_hmac_sha256 ZERO_HMAC_SHA256 (db_events db)"
proof -
  obtain i where rows: "verify_rows lg secret 1 ZERO_HMAC_SHA256 (db_events db) new_replay = Inr c"
    using assms by (rule verify_connection_cases)
  have "rx_state c = None \<longleftrightarrow> db_events db = []"
    using rows verify_rows_head [OF rows] verified_length [OF assms] by (cases "db_events db") (auto simp: new_replay_def)
  then show "new_sequence c = 1 + int (length (db_events db))"
    "new_previous c = log_head ev_event_hmac_sha256 ZERO_HMAC_SHA256 (db_events db)"
    using verified_length [OF assms] verify_rows_head [OF rows] by (auto simp: log_head_def split: option.splits)
qed


lemma chain_member:
  assumes "row_chain lg secret n p rows" and "row \<in> set rows"
  shows "\<exists>m q. row_good lg m q row \<and> ev_event_hmac_sha256 row = event_mac secret (row_body lg m q row)
    \<and> m < n + int (length rows) \<and> row_body lg m q row \<in> set (log_bodies (row_body lg) ev_event_hmac_sha256 n p rows)"
  using assms
proof (induction rows arbitrary: n p)
  case (Cons r rows)
  then show ?case
  proof (cases "row = r")
    case True
    then show ?thesis using Cons.prems(1) by (intro exI [of _ n] exI [of _ p]) auto
  next
    case False
    then have "\<exists>m q. row_good lg m q row \<and> ev_event_hmac_sha256 row = event_mac secret (row_body lg m q row)
      \<and> m < n + 1 + int (length rows)
      \<and> row_body lg m q row \<in> set (log_bodies (row_body lg) ev_event_hmac_sha256 (n + 1) (ev_event_hmac_sha256 r) rows)"
      using Cons.prems Cons.IH [of "n + 1" "ev_event_hmac_sha256 r"] by auto
    then show ?thesis by (auto simp: algebra_simps)
  qed
qed simp

lemma closed_row_recorded:
  assumes "verify_connection ledger secret db = Inr (lg, c)" and "row \<in> set (db_events db)"
    and "ev_event_type row = ''CLOSED_TRADE''"
  shows "\<exists>i \<in> set (rx_closed_entries c). ev_related_entry_id row = Some i"
proof -
  obtain evs where evs: "decodes lg (db_events db) evs" "replays evs c" using assms(1) by (rule verified_history)
  obtain i where "verify_rows lg secret 1 ZERO_HMAC_SHA256 (db_events db) new_replay = Inr c"
    using assms(1) by (rule verify_connection_cases)
  then obtain m q where "row_good lg m q row" using chain_member [OF verify_rows_chain assms(2)] by blast
  then obtain event src where row: "row_event lg row = Inr (event, src)" "\<not> columns_disagree row (event_metadata event) src"
    by (auto simp: row_good_def)
  then have "event \<in> set evs"
    using evs(1) assms(2) by (auto simp: decodes_def in_set_conv_nth list_all2_conv_all_nth) (metis Inr_inject prod.inject)
  moreover obtain e where "event = Closed e" "ev_related_entry_id row = Some (ct_entry_id e)"
    using row(2) assms(3) by (cases event) (auto simp: columns_disagree_def)
  moreover have "ct_entry_id e \<in> set (map fst (closings evs))" if "Closed e \<in> set evs" for e
    using that by (force simp: closings_def)
  moreover have "rx_state c \<noteq> None" using evs(2) calculation(1) by (cases "rx_state c") (auto simp: replays_def)
  ultimately show ?thesis using evs(2) by (auto simp: replays_def context_history_def)
qed

text \<open>Only a collision of the event HMAC can make an admissible row break a UNIQUE constraint.\<close>

lemma no_unique_conflict:
  assumes "verify_connection ledger secret db = Inr (lg, c)" and "apply_event c event src (new_sequence c) h = Inr c'"
    and "\<not> list_ex (\<lambda>row. ev_event_id row = em_event_id (event_metadata event)) (db_events db)"
    and "\<not> list_ex (source_consumed src) (db_events db)"
    and "\<And>row. row \<in> set (db_events db) \<Longrightarrow> ev_event_hmac_sha256 row \<noteq> h"
  shows "\<not> list_ex (unique_conflict (event_row (new_sequence c) p event src h)) (db_events db)"
proof
  assume "list_ex (unique_conflict (event_row (new_sequence c) p event src h)) (db_events db)"
  then obtain old where old: "old \<in> set (db_events db)" "unique_conflict (event_row (new_sequence c) p event src h) old"
    by (auto simp: list_ex_iff)
  obtain i where rows: "verify_rows lg secret 1 ZERO_HMAC_SHA256 (db_events db) new_replay = Inr c"
    using assms(1) by (rule verify_connection_cases)
  then have "ev_sequence old < 1 + int (length (db_events db))"
    using chain_member [OF verify_rows_chain old(1)] by (auto simp: row_good_def)
  then have "ev_sequence old \<noteq> new_sequence c" using verified_position(1) [OF assms(1)] by simp
  then have closed: "ev_event_type old = ''CLOSED_TRADE''" "em_event_type (event_metadata event) = ''CLOSED_TRADE''"
    "ev_related_entry_id old = em_related_entry_id (event_metadata event)"
    using old assms(3-5) by (auto simp: unique_conflict_def event_row_def Let_def list_ex_iff source_consumed_def)
  then obtain e where e: "event = Closed e" by (cases event) auto
  obtain j where "j \<in> set (rx_closed_entries c)" "ev_related_entry_id old = Some j"
    using closed_row_recorded [OF assms(1) old(1) closed(1)] by blast
  then show False
    using assms(2) closed(3)
    by (auto simp: e apply_event_def step_event_def apply_closed_def Let_def res_bind_Inr_iff split: option.splits if_splits)
qed

section \<open>Receipts\<close>

lemma two_losses_latch: "2 \<le> loss_streak os \<Longrightarrow> sublist [''LOSS'', ''LOSS''] os"
proof (induction os rule: rev_induct)
  case (snoc x os)
  then show ?case by (auto simp: loss_streak_snoc two_losses_snoc split: if_splits)
qed (simp add: loss_streak_def)

lemma history_receipt_checks:
  assumes "state_history evs s"
  shows "\<not> fl_lt (dv_high_water_equity s) (dv_current_equity s)"
    "\<not> (Risk_Ledger.LOSS_LATCH_COUNT \<le> dv_consecutive_losses s \<and> \<not> dv_loss_latch_active s)"
proof -
  have "last (equities evs) \<in> set (equities evs)" using assms by (auto simp: history_parts)
  then have "fl_le (dv_current_equity s) (dv_high_water_equity s)" using assms by (auto simp: history_parts)
  then show "\<not> fl_lt (dv_high_water_equity s) (dv_current_equity s)"
    by (cases "dv_current_equity s"; cases "dv_high_water_equity s") (auto simp: fl_le_def)
  show "\<not> (Risk_Ledger.LOSS_LATCH_COUNT \<le> dv_consecutive_losses s \<and> \<not> dv_loss_latch_active s)"
    using assms two_losses_latch [of "outcomes evs"] by (auto simp: history_parts Risk_Ledger.LOSS_LATCH_COUNT_def)
qed

lemma receipt_issued:
  assumes "state_ok s" and "state_history evs s" and "dv_source_evidence_count s = dv_event_sequence s"
    and "is_utc now" and "dt_le (dv_latest_event_at_utc s) now"
    and "exact_id_text (rl_ledger_id lg)" and "exact_id_text (rl_key_id lg)"
  shows "\<exists>receipt. state_receipt lg s now secret = Inr receipt"
proof -
  have digest: "err_of (require_hash [] (hmac_sha256_hex k m) 64) = None" for k m
    using require_hash_digest [of 64] by simp
  have "\<not> dt_lt now (dv_latest_event_at_utc s)" using assms(5) by (simp add: dt_lt_def dt_le_def)
  with assms digest [unfolded require_hash_ok] history_receipt_checks [OF assms(2)] show ?thesis
    by (simp add: state_receipt_def RiskStateReceipt_init_def state_ok_simps risk_hmac_def)
qed

text \<open>The receipt of a verified state carries that state and verifies under the ledger's key.\<close>

lemma state_receipt_verifies:
  assumes "state_receipt lg s now secret = Inr receipt" and "state_ok s" and "ledger_secret lg = Inr secret"
  shows "rr_state receipt = s" "rr_ledger_id receipt = rl_ledger_id lg" "rr_binding receipt = rl_binding lg"
    "rr_key_id receipt = rl_key_id lg" "verify_risk_state_receipt receipt (rl_key_provider lg)"
    "\<not> dt_lt now (dv_latest_event_at_utc s)"
proof -
  have key: "res_bind (rl_key_provider lg (rl_key_id lg)) ledger_key = Inr secret"
    using assms(3) by (auto simp: ledger_secret_def res_bind_Inr_iff)
  have norm: "norm_hash (dv_head_hmac_sha256 s) = dv_head_hmac_sha256 s"
    "norm_hash (dv_latest_source_receipt_sha256 s) = dv_latest_source_receipt_sha256 s"
    "norm_hash (dv_source_receipt_chain_sha256 s) = dv_source_receipt_chain_sha256 s"
    using assms(2) by (cases s; simp add: state_ok_def state_from_row_def Let_def checked_Inr_iff)+
  then have s: "s\<lparr>dv_head_hmac_sha256 := norm_hash (dv_head_hmac_sha256 s),
      dv_latest_source_receipt_sha256 := norm_hash (dv_latest_source_receipt_sha256 s),
      dv_source_receipt_chain_sha256 := norm_hash (dv_source_receipt_chain_sha256 s)\<rparr> = s" by simp
  let ?u = "\<lparr>rr_ledger_id = rl_ledger_id lg, rr_binding = rl_binding lg, rr_key_id = rl_key_id lg,
            rr_issued_at_utc = now, rr_state = s, rr_receipt_hmac_sha256 = [],
            rr_schema_version = RECEIPT_SCHEMA_VERSION\<rparr>"
  have receipt: "receipt = ?u\<lparr>rr_receipt_hmac_sha256 :=
      risk_hmac secret (hmac_domain ''RECEIPT'') (receipt_signing_payload ?u)\<rparr>"
    using assms(1) s by (simp add: state_receipt_def RiskStateReceipt_init_def Let_def checked_Inr_iff risk_hmac_def)
  show fields: "rr_state receipt = s" "rr_ledger_id receipt = rl_ledger_id lg" "rr_binding receipt = rl_binding lg"
    "rr_key_id receipt = rl_key_id lg" by (simp_all add: receipt)
  have "receipt_signing_payload receipt = receipt_signing_payload ?u"
    by (simp add: receipt receipt_signing_payload_def RiskStateReceipt_dict_def json_pop_def)
  moreover have "rr_receipt_hmac_sha256 receipt = risk_hmac secret (hmac_domain ''RECEIPT'') (receipt_signing_payload ?u)"
    by (simp add: receipt)
  ultimately show "verify_risk_state_receipt receipt (rl_key_provider lg)"
    using key by (simp add: verify_risk_state_receipt_def fields)
  show "\<not> dt_lt now (dv_latest_event_at_utc s)"
    using assms(1) by (simp add: state_receipt_def RiskStateReceipt_init_def Let_def checked_Inr_iff)
qed

section \<open>Admissible events are appended\<close>

definition admissible :: "ReplayContext \<Rightarrow> risk_event \<Rightarrow> bool" where
  "admissible c event =
     (case rx_state c of
        None \<Rightarrow> (case event of Snapshot e \<Rightarrow> True | _ \<Rightarrow> False)
      | Some p \<Rightarrow> \<not> dt_lt (em_occurred_at (event_metadata event)) (dv_latest_event_at_utc p) \<and> \<not> isl (step_event c event p))"

lemma admissible_applies:
  assumes "admissible c event"
  obtains c' s where "apply_event c event src n h = Inr c'" "rx_state c' = Some s"
    "dv_latest_event_at_utc s = em_occurred_at (event_metadata event)" "dv_source_evidence_count s = dv_event_sequence s"
proof (cases "rx_state c")
  case None
  then show thesis
    using assms that by (auto simp: admissible_def apply_event_def stamp_def split: risk_event.splits)
next
  case (Some p)
  then obtain c1 s1 where "step_event c event p = Inr (c1, s1)"
    using assms by (cases "step_event c event p") (auto simp: admissible_def)
  then show thesis
    using assms Some that by (auto simp: admissible_def apply_event_def stamp_def)
qed

abbreviation new_hmac :: "RiskLedger \<Rightarrow> string \<Rightarrow> ReplayContext \<Rightarrow> risk_event \<Rightarrow> RiskSourceReceipt \<Rightarrow> string" where
  "new_hmac lg secret c event src \<equiv>
     risk_hmac secret (hmac_domain ''EVENT'')
       (event_hmac_body lg (new_sequence c) (new_previous c) (event_metadata event)
          (json_sort (risk_event_dict event)) (json_sort (RiskSourceReceipt_dict src)))"

lemma extended_verifies:
  assumes conn: "verify_connection ledger secret db = Inr (lg, c)"
    and event: "constructed event" "event_binding event = rl_binding ledger"
    and src: "verify_risk_source_receipt payload event (rl_binding ledger) (rl_source_key_provider ledger)
      (rl_trusted_source_issuer_keys ledger) clock = Inr src"
    and step: "apply_event c event src (new_sequence c) (new_hmac lg secret c event src) = Inr c'"
      "rx_state c' = Some s" "state_ok s"
  defines "row \<equiv> event_row (new_sequence c) (new_previous c) event src (new_hmac lg secret c event src)"
  shows "verify_connection lg secret (write_state lg s secret (db\<lparr>db_events := db_events db @ [row]\<rparr>)) = Inr (lg, c')"
proof -
  obtain i where i: "verify_identity ledger secret db = Inr i" "lg = ledger\<lparr>rl_ledger_id := i\<rparr>"
    and rows: "verify_rows lg secret 1 ZERO_HMAC_SHA256 (db_events db) new_replay = Inr c"
    using conn by (rule verify_connection_cases)
  have lg: "event_binding event = rl_binding lg" "verify_risk_source_receipt payload event (rl_binding lg)
      (rl_source_key_provider lg) (rl_trusted_source_issuer_keys lg) clock = Inr src"
    using event(2) src by (simp_all add: i(2))
  have "row_event lg row = Inr (event, src)" "\<not> columns_disagree row (event_metadata event) src"
    unfolding row_def using event_row_reads_back [OF event(1) lg] by simp_all
  then have "verify_row lg secret (new_sequence c) (new_previous c) row c = Inr c'"
    using step(1) lg(1) by (simp add: verify_row_def row_def event_row_def Let_def)
  then have all: "verify_rows lg secret 1 ZERO_HMAC_SHA256 (db_events db @ [row]) new_replay = Inr c'"
    using verify_rows_snoc [OF rows] verified_position [OF conn] by simp
  let ?db = "write_state lg s secret (db\<lparr>db_events := db_events db @ [row]\<rparr>)"
  have "verify_identity lg secret ?db = Inr i"
    unfolding i(2) by (rule verify_identity_again [OF i(1)]) (simp add: write_state_def)
  moreover obtain r rs where "db_events db @ [row] = r # rs" by (cases "db_events db @ [row]") auto
  ultimately show ?thesis
    using all step(2) state_from_row_ok [of "the (db_state ?db)"] step(3)
    by (simp add: verify_connection_def write_state_def i(2))
qed

lemma source_init_ids:
  "RiskSourceReceipt_init True r = Inr r' \<Longrightarrow> exact_id_text (src_issuer_id r') \<and> exact_id_text (src_key_id r')"
  by (simp add: RiskSourceReceipt_init_def Let_def checked_Inr_iff exact_id_ok)

lemma verified_source_ids:
  assumes "verify_risk_source_receipt payload event binding provider trusted clock = Inr r"
  shows "exact_id_text (src_issuer_id r)" "exact_id_text (src_key_id r)"
proof -
  obtain raw where "source_from_raw raw = Inr r" using assms by (rule verify_source_cases)
  then obtain r0 where "RiskSourceReceipt_init True r0 = Inr r" by (auto simp: source_from_raw_def res_bind_Inr_iff)
  then show "exact_id_text (src_issuer_id r)" "exact_id_text (src_key_id r)" by (auto dest: source_init_ids)
qed

lemma append_locked_succeeds:
  assumes conn: "verify_connection ledger secret db = Inr (lg, c)"
    and event: "constructed event" "event_binding event = rl_binding ledger" "admissible c event"
    and src: "verify_risk_source_receipt payload event (rl_binding ledger) (rl_source_key_provider ledger)
      (rl_trusted_source_issuer_keys ledger) clock = Inr src"
    and fresh: "\<not> list_ex (\<lambda>row. ev_event_id row = em_event_id (event_metadata event)) (db_events db)"
      "\<not> list_ex (source_consumed src) (db_events db)"
    and now: "is_utc now" "dt_le (em_occurred_at (event_metadata event)) now" and key: "exact_id_text (rl_key_id ledger)"
    and hmac: "\<And>row. row \<in> set (db_events db) \<Longrightarrow> ev_event_hmac_sha256 row \<noteq> new_hmac lg secret c event src"
  shows "\<exists>db' receipt. append_locked ledger secret event src now db = Inr (db', receipt)"
proof -
  let ?h = "new_hmac lg secret c event src"
  let ?row = "event_row (new_sequence c) (new_previous c) event src ?h"
  obtain c' s where step: "apply_event c event src (new_sequence c) ?h = Inr c'" "rx_state c' = Some s"
    "dv_latest_event_at_utc s = em_occurred_at (event_metadata event)" "dv_source_evidence_count s = dv_event_sequence s"
    using event(3) by (rule admissible_applies)
  have ids: "exact_id_text (src_issuer_id src)" "exact_id_text (src_key_id src)"
    using verified_source_ids [OF src] by simp_all
  have "event_ok event" using event(1) by (simp add: constructed_def)
  moreover have "1 \<le> new_sequence c" unfolding verified_position(1) [OF conn] by simp
  ultimately have "state_ok s" using apply_event_ok [OF step(1,2) verified_state_ok [OF conn]] ids by blast
  note ext = extended_verifies [OF conn event(1,2) src step(1,2) this]
  obtain evs where "replays evs c'" using ext by (rule verified_history)
  then have "state_history evs s" using step(2) by (simp add: replays_def)
  moreover obtain i where "verify_identity ledger secret db = Inr i" "lg = ledger\<lparr>rl_ledger_id := i\<rparr>"
    using conn by (rule verify_connection_cases)
  then have "exact_id_text (rl_ledger_id lg)" "exact_id_text (rl_key_id lg)"
    using key by (auto simp: verify_identity_def res_bind_Inr_iff exact_id_def split: option.splits if_splits)
  ultimately obtain receipt where "state_receipt lg s now secret = Inr receipt"
    using receipt_issued [OF \<open>state_ok s\<close> _ step(4) now(1)] now(2) unfolding step(3) by blast
  with ext step conn fresh no_unique_conflict [OF conn step(1) fresh hmac] show ?thesis
    by (simp add: append_locked_def insert_event_def Let_def)
qed

section \<open>Checkpoints\<close>

lemma find_sequence:
  assumes "row_chain lg secret 1 p rows" and "k < length rows"
  shows "find (\<lambda>row. ev_sequence row = int k + 1) rows = Some (rows ! k)"
  using chain_sequence [OF assms(1)] assms(2) unfolding find_Some_iff by (intro exI [of _ k]) auto

lemma checkpoint_accepts:
  assumes "verify_connection ledger secret db = Inr (lg, c)" and "rx_state c = Some (rr_state r)"
    and "verify_risk_state_receipt r (rl_key_provider lg)"
    and "rr_ledger_id r = rl_ledger_id lg" and "rr_binding r = rl_binding lg" and "rr_key_id r = rl_key_id lg"
  shows "verify_checkpoint lg db c r = Inr ()"
proof -
  obtain i where rows: "verify_rows lg secret 1 ZERO_HMAC_SHA256 (db_events db) new_replay = Inr c"
    using assms(1) by (rule verify_connection_cases)
  have ne: "db_events db \<noteq> []" using verified_length(2) [OF assms(1,2)] .
  let ?k = "length (db_events db) - 1"
  have seq: "dv_event_sequence (rr_state r) = int ?k + 1"
    using verified_length [OF assms(1,2)] by (cases "db_events db") auto
  have "find (\<lambda>row. ev_sequence row = dv_event_sequence (rr_state r)) (db_events db) = Some (last (db_events db))"
    using find_sequence [OF verify_rows_chain [OF rows], of ?k] ne by (simp add: seq last_conv_nth)
  moreover have "ev_event_hmac_sha256 (last (db_events db)) = dv_head_hmac_sha256 (rr_state r)"
    using verify_rows_head [OF rows ne] assms(2) ne by (simp add: log_head_def)
  ultimately show ?thesis
    using assms(2-6) by (simp add: verify_checkpoint_def checked_Inr_iff)
qed

lemma checkpoint_row:
  assumes "verify_checkpoint lg db c r = Inr ()" and "row_chain lg secret 1 p (db_events db)"
    and "dv_event_sequence (rr_state r) = int k + 1"
    and "\<And>s. rx_state c = Some s \<Longrightarrow> dv_event_sequence s = int (length (db_events db))"
  shows "k < length (db_events db)" "ev_event_hmac_sha256 (db_events db ! k) = dv_head_hmac_sha256 (rr_state r)"
proof -
  show k: "k < length (db_events db)"
    using assms(1,3,4) by (auto simp: verify_checkpoint_def Let_def checked_Inr_iff split: option.splits)
  show "ev_event_hmac_sha256 (db_events db ! k) = dv_head_hmac_sha256 (rr_state r)"
    using assms(1,3) find_sequence [OF assms(2) k] by (simp add: verify_checkpoint_def checked_Inr_iff)
qed

text \<open>What an append leaves: a ledger that verifies, whose current receipt is the one returned.\<close>

lemma ledger_secret_id [simp]: "ledger_secret (lg\<lparr>rl_ledger_id := i\<rparr>) = ledger_secret lg"
  by (simp add: ledger_secret_def)

lemma appended_receipt:
  assumes "append_locked ledger secret event src now db = Inr (db', receipt)"
    and "ledger_secret ledger = Inr secret" and "is_utc now"
  obtains lg c c' i where "verify_connection ledger secret db = Inr (lg, c)" "verify_connection lg secret db' = Inr (lg, c')"
    "lg = ledger\<lparr>rl_ledger_id := i\<rparr>" "rx_state c' = Some (rr_state receipt)"
    "current_receipt lg now db' = Inr receipt" "verify_integrity lg (Some receipt) db' = Inr True"
    "verify_risk_state_receipt receipt (rl_key_provider ledger)"
    "\<not> dt_lt now (dv_latest_event_at_utc (rr_state receipt))"
proof -
  obtain lg c s where conn: "verify_connection ledger secret db = Inr (lg, c)"
    and again: "\<exists>c2. verify_connection lg secret db' = Inr (lg, c2) \<and> rx_state c2 = Some s"
    and receipt: "state_receipt lg s now secret = Inr receipt"
    using assms(1) by (rule append_locked_cases)
  then obtain c2 where c2: "verify_connection lg secret db' = Inr (lg, c2)" "rx_state c2 = Some s" by blast
  obtain i where lg: "lg = ledger\<lparr>rl_ledger_id := i\<rparr>" using conn by (rule verify_connection_cases)
  have secret: "ledger_secret lg = Inr secret" using assms(2) by (simp add: lg)
  note verifies = state_receipt_verifies [OF receipt verified_state_ok [OF c2] secret]
  have "verify_checkpoint lg db' c2 receipt = Inr ()"
    using c2 verifies by (intro checkpoint_accepts) simp_all
  then have "verify_integrity lg (Some receipt) db' = Inr True"
    using secret c2(1) by (simp add: verify_integrity_def check_expected_def)
  moreover have "current_receipt lg now db' = Inr receipt"
    using secret c2 receipt assms(3) by (simp add: current_receipt_def ledger_now_def require_utc_Inr res_bind_Inr_iff)
  ultimately show thesis
    using that [OF conn c2(1) lg] c2(2) verifies by (simp add: lg)
qed

lemma append_locked_row:
  assumes "append_locked ledger secret event src now db = Inr (db', receipt)" and "ledger_secret ledger = Inr secret"
  shows "\<exists>row. db_events db' = db_events db @ [row] \<and> db_identity db' = db_identity db
    \<and> dv_latest_event_at_utc (rr_state receipt) = em_occurred_at (event_metadata event)"
proof -
  obtain lg c c' s n p h where conn: "verify_connection ledger secret db = Inr (lg, c)"
    and step: "apply_event c event src n h = Inr c'" "rx_state c' = Some s"
    and db': "db_events db' = db_events db @ [event_row n p event src h]" "db_identity db' = db_identity db"
    and again: "\<exists>c2. verify_connection lg secret db' = Inr (lg, c2) \<and> rx_state c2 = Some s"
    and receipt: "state_receipt lg s now secret = Inr receipt"
    using assms(1) by (rule append_locked_cases)
  obtain i where lg: "lg = ledger\<lparr>rl_ledger_id := i\<rparr>" using conn by (rule verify_connection_cases)
  obtain c2 where "verify_connection lg secret db' = Inr (lg, c2)" "rx_state c2 = Some s" using again by blast
  then have "rr_state receipt = s" using state_receipt_verifies(1) [OF receipt verified_state_ok] assms(2) by (simp add: lg)
  moreover have "dv_latest_event_at_utc s = em_occurred_at (event_metadata event)"
    using step by (auto simp: apply_event_def Let_def res_bind_Inr_iff stamp_def split: option.splits risk_event.splits if_splits)
  ultimately show ?thesis using db' by simp
qed

section \<open>Histories grow\<close>

lemma decodes_snoc:
  assumes "decodes lg rows evs" and "decodes lg (rows @ [row]) evs'"
  shows "\<exists>e. evs' = evs @ [e]"
proof -
  obtain es e where evs': "evs' = es @ [e]" "decodes lg rows es"
    using assms(2) by (auto simp: decodes_def list_all2_append1 list_all2_Cons1)
  have "es = evs"
    using assms(1) evs'(2) by (auto simp: decodes_def list_all2_conv_all_nth intro!: nth_equalityI) (metis Inr_inject prod.inject)
  then show ?thesis using evs' by blast
qed

lemma history_monotone:
  assumes "state_history evs p" and "state_history (evs @ [e]) s"
  shows "dv_loss_latch_active p \<Longrightarrow> dv_loss_latch_active s" "fl_le (dv_high_water_equity p) (dv_high_water_equity s)"
    "dt_le (dv_latest_event_at_utc p) (dv_latest_event_at_utc s)"
proof -
  show "dv_loss_latch_active p \<Longrightarrow> dv_loss_latch_active s"
    using assms by (cases e) (auto simp: history_parts history_snoc two_losses_snoc)
  show "fl_le (dv_high_water_equity p) (dv_high_water_equity s)"
    using assms by (auto simp: history_parts history_snoc)
  have "last evs \<in> set evs" "dv_latest_event_at_utc p = em_occurred_at (event_metadata (last evs))"
    "dv_latest_event_at_utc s = em_occurred_at (event_metadata e)"
    "sorted (map (\<lambda>e. instant (em_occurred_at (event_metadata e))) (evs @ [e]))"
    using assms by (auto simp: state_history_def time_history_def)
  then show "dt_le (dv_latest_event_at_utc p) (dv_latest_event_at_utc s)"
    by (auto simp: dt_le_def sorted_append)
qed

end
