(* ===== verification/Py_Hash_Vectors.thy ===== *)
theory Py_Hash_Vectors
  imports Py_Hash
begin

unbundle bit_operations_syntax

text \<open>
  The hash of \<open>Py_Hash\<close> evaluated in the logic: its constants are those FIPS 180-4 prints, and the digest of the name
  \<open>acct\<close> is the one \<open>hashlib\<close> computes.
\<close>

section \<open>The constants\<close>

lemma int_root_step:
  "r ^ k \<le> n \<Longrightarrow> n < (r + 2 ^ j) ^ k \<Longrightarrow>
     (let s = fold (\<lambda>b r. if (r + 2 ^ b) ^ k \<le> n then r + 2 ^ b else r) (rev [0..<j]) r in s ^ k \<le> n \<and> n < (Suc s) ^ k)"
proof (induction j arbitrary: r)
  case (Suc j)
  have "r + 2 ^ j + 2 ^ j = r + 2 ^ Suc j" by simp
  with Suc.IH [of r] Suc.IH [of "r + 2 ^ j"] Suc.prems show ?case by (simp add: Let_def not_le)
qed simp

lemma int_root_eq:
  assumes "r ^ k \<le> n" and "n < Suc r ^ k" and "n < (2 ^ 40) ^ k"
  shows "int_root k n = r"
proof -
  let ?s = "int_root k n"
  have "0 < k" using assms(1,2) by (cases k) simp_all
  then have "?s ^ k \<le> n" "n < Suc ?s ^ k"
    using int_root_step [of 0 k n 40] assms(3) by (simp_all add: int_root_def Let_def zero_power)
  then have "r ^ k < Suc ?s ^ k" "?s ^ k < Suc r ^ k" using assms(1,2) by linarith+
  then have "r < Suc ?s" "?s < Suc r" by (auto dest: power_less_imp_less_base)
  then show ?thesis by simp
qed

lemma int_roots:
  "list_all2 (\<lambda>p r. r ^ k \<le> p * 2 ^ (32 * k) \<and> p * 2 ^ (32 * k) < Suc r ^ k \<and> p * 2 ^ (32 * k) < (2 ^ 40) ^ k) ps rs
   \<Longrightarrow> map (root_fraction k) ps = map (\<lambda>r. of_nat (r mod 2 ^ 32)) rs"
  by (induction ps rs rule: list_all2_induct) (auto simp: root_fraction_def int_root_eq)

lemma trial_division:
  assumes "n < 324"
  shows "list_all (\<lambda>d. n mod d \<noteq> 0) [2..<n] \<longleftrightarrow> list_all (\<lambda>d. n \<le> d \<or> n mod d \<noteq> 0) [2..<18]"
proof -
  have "\<exists>d'. 2 \<le> d' \<and> d' < 18 \<and> d' < n \<and> n mod d' = 0" if d: "2 \<le> d" "d < n" "n mod d = 0" for d
  proof (cases "d < 18")
    case False
    obtain e where e: "n = d * e" using d(3) by (auto simp: mod_eq_0_iff_dvd dvd_def)
    have "e < 18"
    proof (rule ccontr)
      assume "\<not> e < 18"
      then have "18 * 18 \<le> d * e" using False by (intro mult_le_mono) simp_all
      then show False using assms e by simp
    qed
    moreover have "2 \<le> e" using d e by (cases "e = 0 \<or> e = 1") auto
    ultimately show ?thesis using e False by (intro exI [of _ e]) auto
  qed (rule exI [of _ d], use d in simp)
  then have "(\<forall>d. 2 \<le> d \<and> d < n \<longrightarrow> n mod d \<noteq> 0) \<longleftrightarrow> (\<forall>d. 2 \<le> d \<and> d < 18 \<longrightarrow> n \<le> d \<or> n mod d \<noteq> 0)"
    by (meson not_le)
  then show ?thesis by (simp only: list.pred_set set_upt Ball_def atLeastLessThan_iff)
qed

lemma upt_split: "i \<le> j \<Longrightarrow> j \<le> k \<Longrightarrow> [i..<k] = [i..<j] @ [j..<k]"
  by (metis le_add_diff_inverse upt_add_eq_append)

lemma first_primes_64:
  "first_primes 64 = [2, 3, 5, 7, 11, 13, 17, 19, 23, 29, 31, 37, 41, 43, 47, 53, 59, 61, 67, 71, 73, 79, 83, 89,
    97, 101, 103, 107, 109, 113, 127, 131, 137, 139, 149, 151, 157, 163, 167, 173, 179, 181, 191, 193, 197, 199,
    211, 223, 227, 229, 233, 239, 241, 251, 257, 263, 269, 271, 277, 281, 283, 293, 307, 311]"
proof -
  let ?P = "\<lambda>n. list_all (\<lambda>d. n mod d \<noteq> 0) [2..<n]" and ?Q = "\<lambda>n::nat. list_all (\<lambda>d. n \<le> d \<or> n mod d \<noteq> 0) [2..<18]"
  have "filter ?P [2..<312] = filter ?Q [2..<312]"
    by (intro filter_cong refl trial_division) (simp only: set_upt atLeastLessThan_iff, linarith)
  moreover have "[2..<312] = [2..<60] @ [60..<110] @ [110..<160] @ [160..<210] @ [210..<260] @ [260..<312]"
    using upt_split [of 2 60 312] upt_split [of 60 110 312] upt_split [of 110 160 312] upt_split [of 160 210 312]
      upt_split [of 210 260 312] by simp
  moreover have "filter ?Q [2..<60] = [2, 3, 5, 7, 11, 13, 17, 19, 23, 29, 31, 37, 41, 43, 47, 53, 59]"
    by (simp add: upt_rec_numeral)
  moreover have "filter ?Q [60..<110] = [61, 67, 71, 73, 79, 83, 89, 97, 101, 103, 107, 109]"
    by (simp add: upt_rec_numeral)
  moreover have "filter ?Q [110..<160] = [113, 127, 131, 137, 139, 149, 151, 157]"
    by (simp add: upt_rec_numeral)
  moreover have "filter ?Q [160..<210] = [163, 167, 173, 179, 181, 191, 193, 197, 199]"
    by (simp add: upt_rec_numeral)
  moreover have "filter ?Q [210..<260] = [211, 223, 227, 229, 233, 239, 241, 251, 257]"
    by (simp add: upt_rec_numeral)
  moreover have "filter ?Q [260..<312] = [263, 269, 271, 277, 281, 283, 293, 307, 311]"
    by (simp add: upt_rec_numeral)
  ultimately have primes: "filter ?P [2..<312] = [2, 3, 5, 7, 11, 13, 17, 19, 23, 29, 31, 37, 41, 43, 47, 53, 59, 61, 67, 71, 73, 79, 83, 89, 97, 101, 103, 107, 109, 113, 127, 131, 137, 139, 149, 151, 157, 163, 167, 173, 179, 181, 191, 193, 197, 199, 211, 223, 227, 229, 233, 239, 241, 251, 257, 263, 269, 271, 277, 281, 283, 293, 307, 311]"
    by (simp only: filter_append append.simps)
  show ?thesis unfolding first_primes_def primes by simp
qed

lemma sha_K_values:
  "sha_K = [1116352408, 1899447441, 3049323471, 3921009573, 961987163, 1508970993, 2453635748, 2870763221,
    3624381080, 310598401, 607225278, 1426881987, 1925078388, 2162078206, 2614888103, 3248222580, 3835390401,
    4022224774, 264347078, 604807628, 770255983, 1249150122, 1555081692, 1996064986, 2554220882, 2821834349,
    2952996808, 3210313671, 3336571891, 3584528711, 113926993, 338241895, 666307205, 773529912, 1294757372,
    1396182291, 1695183700, 1986661051, 2177026350, 2456956037, 2730485921, 2820302411, 3259730800, 3345764771,
    3516065817, 3600352804, 4094571909, 275423344, 430227734, 506948616, 659060556, 883997877, 958139571,
    1322822218, 1537002063, 1747873779, 1955562222, 2024104815, 2227730452, 2361852424, 2428436474, 2756734187,
    3204031479, 3329325298]"
  unfolding sha_K_def first_primes_64
  by (subst int_roots [where rs =
  "[5411319704, 6194414737, 7344290767, 8215976869, 9551921755, 10098905585, 11043570340, 11460697813, 12214315672,
    13195500289, 13492127166, 14311783875, 14809980276, 15046980094, 15499789991, 16133124468, 16720292289,
    16907126662, 17444216262, 17784676812, 17950125167, 18429019306, 18734950876, 19175934170, 19734090066,
    20001703533, 20132865992, 20390182855, 20516441075, 20764397895, 21588763473, 21813078375, 22141143685,
    22248366392, 22769593852, 22871018771, 23170020180, 23461497531, 23651862830, 23931792517, 24205322401,
    24295138891, 24734567280, 24820601251, 24990902297, 25075189284, 25569408389, 26045227120, 26200031510,
    26276752392, 26428864332, 26653801653, 26727943347, 27092625994, 27306805839, 27517677555, 27725365998,
    27793908591, 27997534228, 28131656200, 28198240250, 28526537963, 28973835255, 29099129074]"]) simp_all

lemma sha_H0_values:
  "sha_H0 = [1779033703, 3144134277, 1013904242, 2773480762, 1359893119, 2600822924, 528734635, 1541459225]"
  unfolding sha_H0_def
  by (subst int_roots [where rs =
  "[6074000999, 7439101573, 9603838834, 11363415354, 14244795007, 15485724812, 17708603819, 18721328409]"]) simp_all

section \<open>One block\<close>

lemma rotr_shifts: "0 < n \<Longrightarrow> n < 32 \<Longrightarrow> word_rotr n (w :: w32) = drop_bit n w OR push_bit (32 - n) w"
proof (rule bit_word_eqI)
  fix k assume n: "0 < n" "n < 32" and "k < LENGTH(32)"
  then have k: "k < 32" by simp
  show "bit (word_rotr n w) k = bit (drop_bit n w OR push_bit (32 - n) w) k"
  proof (cases "k + n < 32")
    case True
    then show ?thesis using n k by (auto simp: bit_simps ac_simps)
  next
    case False
    then have "(k + n) mod 32 = k + n - 32" using n k by (simp add: mod_if)
    moreover have "\<not> bit w (n + k)" using False by (auto dest: bit_imp_le_length)
    ultimately show ?thesis using n k False by (auto simp: bit_simps ac_simps)
  qed
qed

lemma padding_chars: "char_of (128::nat) = CHR 0x80" "char_of (0::nat) = CHR 0x00"
  by (code_simp, code_simp)

lemma length_field: "be_bytes 8 32 = [CHR 0x00, CHR 0x00, CHR 0x00, CHR 0x00, CHR 0x00, CHR 0x00, CHR 0x00, CHR 0x20]"
proof -
  have "[0..<8] = [0, 1, 2, 3, 4, 5, 6, 7::nat]" by code_simp
  moreover have "char_of (32::nat) = CHR 0x20" by code_simp
  ultimately show ?thesis by (simp add: be_bytes_def padding_chars)
qed

lemma acct_words:
  "map word_of_bytes (chunks 16 4 (sha_pad ''acct''))
     = [1633903476, 2147483648, 0, 0, 0, 0, 0, 0, 0, 0, 0, 0, 0, 0, 0, 32]"
proof -
  have zeros: "replicate 51 (CHR 0x00) =
      [CHR 0x00, CHR 0x00, CHR 0x00, CHR 0x00, CHR 0x00, CHR 0x00, CHR 0x00, CHR 0x00, CHR 0x00, CHR 0x00, CHR 0x00, CHR
        0x00, CHR 0x00, CHR 0x00, CHR 0x00, CHR 0x00, CHR 0x00, CHR 0x00, CHR 0x00, CHR 0x00, CHR 0x00, CHR 0x00, CHR
        0x00, CHR 0x00, CHR 0x00, CHR 0x00, CHR 0x00, CHR 0x00, CHR 0x00, CHR 0x00, CHR 0x00, CHR 0x00, CHR 0x00, CHR
        0x00, CHR 0x00, CHR 0x00, CHR 0x00, CHR 0x00, CHR 0x00, CHR 0x00, CHR 0x00, CHR 0x00, CHR 0x00, CHR 0x00, CHR
        0x00, CHR 0x00, CHR 0x00, CHR 0x00, CHR 0x00, CHR 0x00, CHR 0x00]" by code_simp
  have "chunks 16 4 xs = [take 4 xs, take 4 (drop 4 xs), take 4 (drop 8 xs), take 4 (drop 12 xs), take 4 (drop 16 xs),
      take 4 (drop 20 xs), take 4 (drop 24 xs), take 4 (drop 28 xs), take 4 (drop 32 xs), take 4 (drop 36 xs),
      take 4 (drop 40 xs), take 4 (drop 44 xs), take 4 (drop 48 xs), take 4 (drop 52 xs), take 4 (drop 56 xs),
      take 4 (drop 60 xs)]" for xs :: string
    by (simp add: eval_nat_numeral(3) numeral_eq_Suc)
  then show ?thesis by (simp add: sha_pad_def padding_chars length_field zeros word_of_bytes_def)
qed

lemma funpow_step: "(f ^^ numeral k) x = (f ^^ pred_numeral k) (f x)"
  by (simp add: numeral_eq_Suc funpow_swap1)

lemma acct_schedule_1:
  "(sha_sched_step ^^ 12) [1633903476, 2147483648, 0, 0, 0, 0, 0, 0, 0, 0, 0, 0, 0, 0, 0, 32] = [1633903476,
    2147483648, 0, 0, 0, 0, 0, 0, 0, 0, 0, 0, 0, 0, 0, 32, 1919124340, 2148794368, 2982686621, 2149602568,
    303111382, 537221121, 2918534957, 2037135560, 2389450263, 1294702642, 218825476, 3508355756]"
  by (simp add: funpow_step sha_sched_step_def Let_def rotr_shifts)

lemma acct_schedule_2:
  "(sha_sched_step ^^ 12) [1633903476, 2147483648, 0, 0, 0, 0, 0, 0, 0, 0, 0, 0, 0, 0, 0, 32, 1919124340,
    2148794368, 2982686621, 2149602568, 303111382, 537221121, 2918534957, 2037135560, 2389450263, 1294702642,
    218825476, 3508355756] = [1633903476, 2147483648, 0, 0, 0, 0, 0, 0, 0, 0, 0, 0, 0, 0, 0, 32, 1919124340,
    2148794368, 2982686621, 2149602568, 303111382, 537221121, 2918534957, 2037135560, 2389450263, 1294702642,
    218825476, 3508355756, 31923685, 3073180970, 650285524, 3070201945, 3949644488, 3991359270, 3543371446,
    3114781360, 3493366477, 2148938736, 1257078002, 2110919034]"
  by (simp add: funpow_step sha_sched_step_def Let_def rotr_shifts)

lemma acct_schedule_3:
  "(sha_sched_step ^^ 12) [1633903476, 2147483648, 0, 0, 0, 0, 0, 0, 0, 0, 0, 0, 0, 0, 0, 32, 1919124340,
    2148794368, 2982686621, 2149602568, 303111382, 537221121, 2918534957, 2037135560, 2389450263, 1294702642,
    218825476, 3508355756, 31923685, 3073180970, 650285524, 3070201945, 3949644488, 3991359270, 3543371446,
    3114781360, 3493366477, 2148938736, 1257078002, 2110919034] = [1633903476, 2147483648, 0, 0, 0, 0, 0, 0, 0, 0,
    0, 0, 0, 0, 0, 32, 1919124340, 2148794368, 2982686621, 2149602568, 303111382, 537221121, 2918534957, 2037135560,
    2389450263, 1294702642, 218825476, 3508355756, 31923685, 3073180970, 650285524, 3070201945, 3949644488,
    3991359270, 3543371446, 3114781360, 3493366477, 2148938736, 1257078002, 2110919034, 427621421, 879141347,
    3144869113, 861741198, 3012288423, 1062562130, 2051330341, 672321462, 2519239692, 2079304670, 3810434016,
    819054585]"
  by (simp add: funpow_step sha_sched_step_def Let_def rotr_shifts)

lemma acct_schedule_4:
  "(sha_sched_step ^^ 12) [1633903476, 2147483648, 0, 0, 0, 0, 0, 0, 0, 0, 0, 0, 0, 0, 0, 32, 1919124340,
    2148794368, 2982686621, 2149602568, 303111382, 537221121, 2918534957, 2037135560, 2389450263, 1294702642,
    218825476, 3508355756, 31923685, 3073180970, 650285524, 3070201945, 3949644488, 3991359270, 3543371446,
    3114781360, 3493366477, 2148938736, 1257078002, 2110919034, 427621421, 879141347, 3144869113, 861741198,
    3012288423, 1062562130, 2051330341, 672321462, 2519239692, 2079304670, 3810434016, 819054585] = [1633903476,
    2147483648, 0, 0, 0, 0, 0, 0, 0, 0, 0, 0, 0, 0, 0, 32, 1919124340, 2148794368, 2982686621, 2149602568,
    303111382, 537221121, 2918534957, 2037135560, 2389450263, 1294702642, 218825476, 3508355756, 31923685,
    3073180970, 650285524, 3070201945, 3949644488, 3991359270, 3543371446, 3114781360, 3493366477, 2148938736,
    1257078002, 2110919034, 427621421, 879141347, 3144869113, 861741198, 3012288423, 1062562130, 2051330341,
    672321462, 2519239692, 2079304670, 3810434016, 819054585, 742484101, 2287957748, 2339957267, 3482812577,
    1718806362, 2770555174, 1842553543, 3510425757, 718016099, 875347467, 2878573423, 2151289823]"
  by (simp add: funpow_step sha_sched_step_def Let_def rotr_shifts)

lemma acct_rounds_1:
  "foldl sha_round [1779033703, 3144134277, 1013904242, 2773480762, 1359893119, 2600822924, 528734635, 1541459225]
    [(1116352408, 1633903476), (1899447441, 2147483648), (3049323471, 0), (3921009573, 0), (961987163, 0),
    (1508970993, 0), (2453635748, 0), (2870763221, 0), (3624381080, 0), (310598401, 0), (607225278, 0), (1426881987,
    0), (1925078388, 0), (2162078206, 0), (2614888103, 0), (3248222580, 32)] = [1163805854, 2778100511, 2589876848,
    785722177, 388154379, 335829733, 2224192550, 928801209]"
  by (simp add: Let_def rotr_shifts)

lemma acct_rounds_2:
  "foldl sha_round [1163805854, 2778100511, 2589876848, 785722177, 388154379, 335829733, 2224192550, 928801209]
    [(3835390401, 1919124340), (4022224774, 2148794368), (264347078, 2982686621), (604807628, 2149602568),
    (770255983, 303111382), (1249150122, 537221121), (1555081692, 2918534957), (1996064986, 2037135560),
    (2554220882, 2389450263), (2821834349, 1294702642), (2952996808, 218825476), (3210313671, 3508355756),
    (3336571891, 31923685), (3584528711, 3073180970), (113926993, 650285524), (338241895, 3070201945)] =
    [1430384506, 1840018497, 3151725388, 4156585136, 248261335, 2471435606, 2633081417, 2359883675]"
  by (simp add: Let_def rotr_shifts)

lemma acct_rounds_3:
  "foldl sha_round [1430384506, 1840018497, 3151725388, 4156585136, 248261335, 2471435606, 2633081417, 2359883675]
    [(666307205, 3949644488), (773529912, 3991359270), (1294757372, 3543371446), (1396182291, 3114781360),
    (1695183700, 3493366477), (1986661051, 2148938736), (2177026350, 1257078002), (2456956037, 2110919034),
    (2730485921, 427621421), (2820302411, 879141347), (3259730800, 3144869113), (3345764771, 861741198),
    (3516065817, 3012288423), (3600352804, 1062562130), (4094571909, 2051330341), (275423344, 672321462)] =
    [2706397510, 3891949494, 3753146734, 2898146772, 112815133, 3963711386, 1782868229, 2041515972]"
  by (simp add: Let_def rotr_shifts)

lemma acct_rounds_4:
  "foldl sha_round [2706397510, 3891949494, 3753146734, 2898146772, 112815133, 3963711386, 1782868229, 2041515972]
    [(430227734, 2519239692), (506948616, 2079304670), (659060556, 3810434016), (883997877, 819054585), (958139571,
    742484101), (1322822218, 2287957748), (1537002063, 2339957267), (1747873779, 3482812577), (1955562222,
    1718806362), (2024104815, 2770555174), (2227730452, 1842553543), (2361852424, 3510425757), (2428436474,
    718016099), (2756734187, 875347467), (3204031479, 2878573423), (3329325298, 2151289823)] = [1961282328,
    2764756842, 113771377, 1049419522, 2155971850, 2356498762, 3238190650, 192073996]"
  by (simp add: Let_def rotr_shifts)

lemma acct_schedule:
  "sha_schedule (sha_pad ''acct'') = [1633903476, 2147483648, 0, 0, 0, 0, 0, 0, 0, 0, 0, 0, 0, 0, 0, 32, 1919124340,
    2148794368, 2982686621, 2149602568, 303111382, 537221121, 2918534957, 2037135560, 2389450263, 1294702642,
    218825476, 3508355756, 31923685, 3073180970, 650285524, 3070201945, 3949644488, 3991359270, 3543371446,
    3114781360, 3493366477, 2148938736, 1257078002, 2110919034, 427621421, 879141347, 3144869113, 861741198,
    3012288423, 1062562130, 2051330341, 672321462, 2519239692, 2079304670, 3810434016, 819054585, 742484101,
    2287957748, 2339957267, 3482812577, 1718806362, 2770555174, 1842553543, 3510425757, 718016099, 875347467,
    2878573423, 2151289823]"
proof -
  have "sha_sched_step ^^ 48 = (sha_sched_step ^^ 12) \<circ> (sha_sched_step ^^ 12) \<circ> (sha_sched_step ^^ 12) \<circ> (sha_sched_step ^^ 12)"
    by (simp only: funpow_add [symmetric]) simp
  then show ?thesis
    by (simp only: sha_schedule_def acct_words comp_apply acct_schedule_1 acct_schedule_2 acct_schedule_3 acct_schedule_4)
qed

lemma acct_state: "sha_state ''acct'' = [3740316031, 1613923823, 1127675619, 3822900284, 3515864969, 662354390, 3766925285, 1733533221]"
proof -
  have "length (sha_pad ''acct'') = 64" by (simp add: sha_pad_def be_bytes_def)
  moreover from this have "chunks 1 64 (sha_pad ''acct'') = [sha_pad ''acct'']" by simp
  ultimately have "sha_state ''acct'' = sha_compress sha_H0 (sha_pad ''acct'')" by (simp add: sha_state_def Let_def)
  moreover have "zip sha_K (sha_schedule (sha_pad ''acct'')) =
      [(1116352408, 1633903476), (1899447441, 2147483648), (3049323471, 0), (3921009573, 0), (961987163, 0),
    (1508970993, 0), (2453635748, 0), (2870763221, 0), (3624381080, 0), (310598401, 0), (607225278, 0), (1426881987,
    0), (1925078388, 0), (2162078206, 0), (2614888103, 0), (3248222580, 32)]
      @ [(3835390401, 1919124340), (4022224774, 2148794368), (264347078, 2982686621), (604807628, 2149602568), (770255983,
    303111382), (1249150122, 537221121), (1555081692, 2918534957), (1996064986, 2037135560), (2554220882,
    2389450263), (2821834349, 1294702642), (2952996808, 218825476), (3210313671, 3508355756), (3336571891,
    31923685), (3584528711, 3073180970), (113926993, 650285524), (338241895, 3070201945)]
      @ [(666307205, 3949644488), (773529912, 3991359270), (1294757372, 3543371446), (1396182291, 3114781360),
    (1695183700, 3493366477), (1986661051, 2148938736), (2177026350, 1257078002), (2456956037, 2110919034),
    (2730485921, 427621421), (2820302411, 879141347), (3259730800, 3144869113), (3345764771, 861741198),
    (3516065817, 3012288423), (3600352804, 1062562130), (4094571909, 2051330341), (275423344, 672321462)]
      @ [(430227734, 2519239692), (506948616, 2079304670), (659060556, 3810434016), (883997877, 819054585), (958139571,
    742484101), (1322822218, 2287957748), (1537002063, 2339957267), (1747873779, 3482812577), (1955562222,
    1718806362), (2024104815, 2770555174), (2227730452, 1842553543), (2361852424, 3510425757), (2428436474,
    718016099), (2756734187, 875347467), (3204031479, 2878573423), (3329325298, 2151289823)]"
    by (simp only: sha_K_values acct_schedule zip_Cons_Cons zip_Nil append.simps)
  ultimately show ?thesis
    by (simp only: sha_compress_def sha_H0_values foldl_append acct_rounds_1 acct_rounds_2 acct_rounds_3 acct_rounds_4) simp
qed

lemma sha256_acct: "sha256_hex ''acct'' = ''def0b17f603285ef4336f6e3e3dcd43cd18fd789277ab9d6e086b7e567539e25''"
  
proof -
  have bytes: "bytes_of_word w = map (\<lambda>i. char_of (unat w div 256 ^ i mod 256)) [3, 2, 1, 0]" for w
  proof -
    have "[0..<4] = [0, 1, 2, 3::nat]" by code_simp
    then show ?thesis by (simp add: bytes_of_word_def be_bytes_def)
  qed
  have hex: "hex_byte (char_of n) = [hex_char (n mod 256 div 16), hex_char (n mod 16)]" for n :: nat
    by (simp add: hex_byte_def mod_mod_cancel)
  have digits: "map hex_char [0, 1, 2, 3, 4, 5, 6, 7, 8, 9, 10, 11, 12, 13, 14, 15] = ''0123456789abcdef''" by code_simp
  then have "hex_char 1 = CHR ''1''" by simp
  with digits show ?thesis
    by (simp add: sha256_hex_def sha_digest_def acct_state bytes hex)
qed

end
