(* ===== verification/Risk_Ledger_Safety.thy ===== *)
theory Risk_Ledger_Safety
  imports Risk_Append Py_Hash_Vectors
begin

text \<open>
  What the durable risk ledger guarantees: the state it certifies is the declared function of the
  recorded history; an append extends the history by one authenticated row with verified and unused
  provenance and never releases the loss latch; an admissible event is appended; a ledger that was
  rolled back or rewritten does not pass a checkpoint, unless two different event bodies have the
  same HMAC.
\<close>

section \<open>Opening a new ledger\<close>

lemma new_identity_verifies:
  assumes "source_trust_sha256 ledger = Inr trust" and "exact_id_text i" and "in_datetime_range now"
    and "RiskLedgerBinding_init (rl_binding ledger) = Inr (rl_binding ledger)" and "rl_ledger_id ledger \<in> {[], i}"
    and "db_identity db = Some (new_identity ledger secret trust i now)"
  shows "verify_identity ledger secret db = Inr i"
proof -
  have "parse_utc (JStr (canonical_datetime now)) = Inr now" using parse_jtime [OF assms(3)] by (simp add: jtime_def)
  then show ?thesis
    using assms by (auto simp: verify_identity_def new_identity_def exact_id_def res_reraise_def simp del: parse_utc.simps)
qed

lemma lifetime_exceeded_iff [simp]: "lifetime_exceeded later earlier \<longleftrightarrow> seconds 5 < dt_sub later earlier"
  using total_seconds_gt_iff [of 5 "dt_sub later earlier"]
  by (simp add: lifetime_exceeded_def MAX_SOURCE_RECEIPT_LIFETIME_SECONDS_def seconds_def)

section \<open>A sample ledger\<close>

definition sample_ledger_binding :: RiskLedgerBinding where
  "sample_ledger_binding =
     \<lparr>lb_account_id_sha256 = sha256_hex ''acct'', lb_server = ''srv'', lb_environment = ''DEMO'',
      lb_journal_sha256 = sample_hash, lb_broker_spec_sha256 = BrokerSpec_content_sha256 sample_broker,
      lb_account_currency = ''USD''\<rparr>"

definition sample_ledger :: RiskLedger where
  "sample_ledger =
     \<lparr>rl_binding = sample_ledger_binding, rl_key_id = ''ledger-key'', rl_key_provider = (\<lambda>k. Inr sample_secret),
      rl_source_key_provider = (\<lambda>k. Inr sample_secret),
      rl_trusted_source_issuer_keys = [(''issuer'', [''source-key''])],
      rl_upstream_receipt_verifier = (\<lambda>t u. Inr u), rl_ledger_id = []\<rparr>"

definition sample_trust :: string where
  "sample_trust = canonical_sha256 (JDict [(''issuer'', JDict [(''source-key'', JStr (sha256_hex sample_secret))])])"

definition sample_ledger_db :: risk_db where
  "sample_ledger_db =
     \<lparr>db_identity = Some (new_identity sample_ledger sample_secret sample_trust ''risk-0'' sample_bar),
      db_events = [], db_state = None\<rparr>"

definition sample_snapshot :: risk_event where
  "sample_snapshot = Snapshot
     \<lparr>as_snapshot_id = ''snap-1'', as_binding = sample_ledger_binding, as_observed_at_utc = sample_bar,
      as_daily_baseline_id = ''day-1'', as_weekly_baseline_id = ''week-1'', as_equity = Fin 10000,
      as_schema_version = EVENT_SCHEMA_VERSION\<rparr>"

definition unsigned_source :: RiskSourceReceipt where
  "unsigned_source =
     \<lparr>src_source_receipt_id = ''receipt-1'', src_source_kind = ''ACCOUNT_SNAPSHOT'', src_issuer_id = ''issuer'',
      src_key_id = ''source-key'', src_binding = sample_ledger_binding,
      src_event_sha256 = event_content_sha256 sample_snapshot,
      src_upstream_receipt_type = ''RUNTIME_FACT_RECEIPT'', src_upstream_receipt_sha256 = sample_hash,
      src_observed_at_utc = sample_bar, src_valid_until_utc = sample_bar, src_signature_hmac_sha256 = [],
      src_schema_version = SOURCE_RECEIPT_SCHEMA_VERSION\<rparr>"

definition sample_source :: RiskSourceReceipt where
  "sample_source = unsigned_source
     \<lparr>src_signature_hmac_sha256 := risk_hmac sample_secret (hmac_domain ''SOURCE'') (source_signing_payload unsigned_source)\<rparr>"

definition sample_upstream :: UpstreamReceipt where
  "sample_upstream = \<lparr>up_object = 0, up_content_sha256 = Some sample_hash\<rparr>"

lemma sample_bar_range: "in_datetime_range sample_bar" "is_utc sample_bar"
  by (simp_all add: in_datetime_range_def sample_bar_def utc_at_def is_utc_def epoch_seconds_def day_us_def)

lemmas id_evals = exact_id_text_def is_ascii_alnum_def Let_def

lemma sample_ledger_binding_ok: "RiskLedgerBinding_init sample_ledger_binding = Inr sample_ledger_binding"
proof -
  have "sha256_hex ''acct'' \<noteq> ZERO_HMAC_SHA256" unfolding sha256_acct ZERO_HMAC_SHA256_def by code_simp
  moreover have "exact_text name ''srv'' = Inr ''srv''" for name
    by (simp add: exact_text_def str_strip_def is_space_def)
  moreover have "norm_text True ''DEMO'' = ''DEMO''" "norm_text True ''USD'' = ''USD''" by (simp_all add: upper_evals)
  moreover have "require_currency name ''USD'' = Inr ''USD''" "require_text name ''DEMO'' True = Inr ''DEMO''" for name
    using calculation(3,4) by (simp_all add: require_currency_def require_text_def str_strip_def is_space_def is_upper_letter_def)
  ultimately show ?thesis
    by (simp add: RiskLedgerBinding_init_def sample_ledger_binding_def checked_Inr_iff BrokerSpec_content_sha256_def
        canonical_sha256_def)
qed

lemma sample_ledger_secret: "ledger_secret sample_ledger = Inr sample_secret"
  by (simp add: ledger_secret_def sample_ledger_def ledger_key_def sample_secret_def res_reraise_def)

lemma sample_ledger_opens:
  "verify_connection sample_ledger sample_secret sample_ledger_db = Inr (sample_ledger\<lparr>rl_ledger_id := ''risk-0''\<rparr>, new_replay)"
proof -
  have "source_trust_sha256 sample_ledger = Inr sample_trust"
    by (simp add: source_trust_sha256_def sample_ledger_def trust_secret_def ledger_key_def sample_trust_def res_reraise_def
        sample_secret_def)
  moreover have "exact_id_text ''risk-0''" by (simp add: id_evals)
  ultimately have "verify_identity sample_ledger sample_secret sample_ledger_db = Inr ''risk-0''"
    using sample_bar_range(1) sample_ledger_binding_ok
    by (intro new_identity_verifies [where now = sample_bar and trust = sample_trust])
      (simp_all add: sample_ledger_def sample_ledger_db_def)
  then show ?thesis by (simp add: verify_connection_def sample_ledger_db_def)
qed

lemma sample_snapshot_constructed: "constructed sample_snapshot"
  using sample_bar_range sample_ledger_binding_ok
  by (simp add: constructed_def sample_snapshot_def AccountRiskSnapshot_init_def res_simps exact_id_def id_evals fl_le_def)

lemma sample_source_ok: "RiskSourceReceipt_init True sample_source = Inr sample_source"
proof -
  have digest: "require_hash name (risk_hmac k d v) 64 = Inr (risk_hmac k d v)" "norm_hash (risk_hmac k d v) = risk_hmac k d v"
    "require_hash name (event_content_sha256 e) 64 = Inr (event_content_sha256 e)"
    "norm_hash (event_content_sha256 e) = event_content_sha256 e" for name k d v e
    by (simp_all add: risk_hmac_def event_content_sha256_def canonical_sha256_def)
  have words: "norm_text True ''ACCOUNT_SNAPSHOT'' = ''ACCOUNT_SNAPSHOT''" "str_strip ''ACCOUNT_SNAPSHOT'' \<noteq> []"
    "norm_text True ''RUNTIME_FACT_RECEIPT'' = ''RUNTIME_FACT_RECEIPT''" "str_strip ''RUNTIME_FACT_RECEIPT'' \<noteq> []"
    by (simp_all add: upper_evals)
  have ids: "exact_id_text ''receipt-1''" "exact_id_text ''issuer''" "exact_id_text ''source-key''" by (simp_all add: id_evals)
  show ?thesis
    using sample_bar_range(2)
    by (simp add: RiskSourceReceipt_init_def sample_source_def unsigned_source_def Let_def checked_Inr_iff digest words ids
        require_text_ok exact_id_ok is_utc_require allowed_upstream_def dt_lt_def dt_sub_def seconds_def)
qed

lemma sample_source_verified:
  "verify_risk_source_receipt (RiskSourceReceipt_dict sample_source) sample_snapshot sample_ledger_binding
     (rl_source_key_provider sample_ledger) (rl_trusted_source_issuer_keys sample_ledger) (Some sample_bar) = Inr sample_source"
proof -
  have "src_binding sample_source = sample_ledger_binding" "src_observed_at_utc sample_source = sample_bar"
    "src_valid_until_utc sample_source = sample_bar"
    by (simp_all add: sample_source_def unsigned_source_def)
  then have "source_from_raw (source_fields sample_source) = Inr sample_source"
    using source_fields_read(1) [OF sample_source_ok] sample_ledger_binding_ok parse_jtime [OF sample_bar_range(1)] by simp
  moreover have "source_signing_payload sample_source = source_signing_payload unsigned_source"
    by (simp add: source_signing_payload_def RiskSourceReceipt_dict_def source_fields_def sample_source_def json_pop_def)
  moreover have "source_secret (rl_source_key_provider sample_ledger) (src_key_id sample_source) = Inr sample_secret"
    by (simp add: source_secret_def sample_ledger_def ledger_key_def sample_secret_def res_reraise_def)
  moreover have "src_signature_hmac_sha256 sample_source
      = risk_hmac sample_secret (hmac_domain ''SOURCE'') (source_signing_payload unsigned_source)"
    by (simp add: sample_source_def)
  moreover have "checked (source_binding_checks sample_source (source_fields sample_source) sample_snapshot
      sample_ledger_binding (rl_trusted_source_issuer_keys sample_ledger)) () = Inr ()"
    by (simp add: source_binding_checks_def checked_Inr_iff RiskSourceReceipt_dict_def)
      (simp add: sample_source_def unsigned_source_def sample_snapshot_def sample_ledger_def)
  moreover have "checked (source_time_checks sample_source (em_occurred_at (event_metadata sample_snapshot))
      (Some sample_bar)) sample_source = Inr sample_source"
    using sample_bar_range(2)
    by (simp add: source_time_checks_def checked_Inr_iff sample_source_def unsigned_source_def sample_snapshot_def
        dt_sub_def dt_lt_def is_utc_require MAX_FUTURE_CLOCK_DRIFT_def seconds_def)
  ultimately show ?thesis
    by (simp add: verify_risk_source_receipt_def RiskSourceReceipt_dict_def exact_source_fields checked_def raise_if_def)
qed

lemma sample_source_accepted:
  "verified_source_for_append sample_ledger sample_snapshot sample_source sample_upstream sample_bar = Inr sample_source"
proof -
  have "src_upstream_receipt_sha256 sample_source = sample_hash" by (simp add: sample_source_def unsigned_source_def)
  moreover have "rl_binding sample_ledger = sample_ledger_binding" "rl_upstream_receipt_verifier sample_ledger t u = Inr u" for t u
    by (simp_all add: sample_ledger_def)
  ultimately show ?thesis
    using sample_source_verified
    by (simp add: verified_source_for_append_def sample_upstream_def res_reraise_def)
qed

section \<open>Appending an admissible event\<close>

text \<open>Two rows of one ledger have the same event HMAC only if their bodies collide.\<close>

lemma fresh_hmac_or_collision:
  assumes "verify_connection ledger secret db = Inr (lg, c)" and "row \<in> set (db_events db)"
    and "ev_event_hmac_sha256 row = new_hmac lg secret c event src"
  shows "tag_collision (event_mac secret) (log_bodies (row_body lg) ev_event_hmac_sha256 1 ZERO_HMAC_SHA256 (db_events db))
    [event_hmac_body lg (new_sequence c) (new_previous c) (event_metadata event) (json_sort (risk_event_dict event))
       (json_sort (RiskSourceReceipt_dict src))]"
proof -
  obtain i where "verify_rows lg secret 1 ZERO_HMAC_SHA256 (db_events db) new_replay = Inr c"
    using assms(1) by (rule verify_connection_cases)
  from chain_member [OF verify_rows_chain [OF this] assms(2)] obtain m q where
    tag: "ev_event_hmac_sha256 row = event_mac secret (row_body lg m q row)" and m: "m < 1 + int (length (db_events db))"
    and body: "row_body lg m q row \<in> set (log_bodies (row_body lg) ev_event_hmac_sha256 1 ZERO_HMAC_SHA256 (db_events db))"
    by blast
  have "m \<noteq> new_sequence c" using m verified_position(1) [OF assms(1)] by simp
  then have "row_body lg m q row \<noteq> event_hmac_body lg (new_sequence c) (new_previous c) (event_metadata event)
      (json_sort (risk_event_dict event)) (json_sort (RiskSourceReceipt_dict src))"
    by (simp add: row_body_def event_hmac_body_def)
  with tag body assms(3) show ?thesis by (auto simp: tag_collision_def event_mac_def)
qed

text \<open>
  (C23) Liveness of \<open>DurableRiskLedger._append\<close>: on a ledger that verifies, an event that
  passed its constructor and carries a source receipt that verifies, that the state machine admits
  after the recorded history, whose identifier and source are unused and that is not ahead of the
  trusted clock, is appended and a receipt is issued. The ledger can always read back what it writes.
  The only other possibility is that the new event's HMAC equals one already in the table, for a
  different body.
\<close>

theorem ledger_append_live:
  assumes "verify_connection ledger secret db = Inr (lg, c)" and "ledger_secret ledger = Inr secret"
    and "exact_id_text (rl_key_id ledger)"
    and "constructed event" and "event_binding event = rl_binding ledger" and "admissible c event"
    and "verified_source_for_append ledger event src upstream source_clock = Inr verified"
    and "\<not> list_ex (\<lambda>row. ev_event_id row = em_event_id (event_metadata event)) (db_events db)"
    and "\<not> list_ex (source_consumed verified) (db_events db)"
    and "is_utc clock" and "dt_le (em_occurred_at (event_metadata event)) clock"
  shows "(\<exists>db' receipt. append_event ledger event src upstream source_clock clock db = Inr (db', receipt))
    \<or> tag_collision (event_mac secret) (log_bodies (row_body lg) ev_event_hmac_sha256 1 ZERO_HMAC_SHA256 (db_events db))
        [event_hmac_body lg (new_sequence c) (new_previous c) (event_metadata event) (json_sort (risk_event_dict event))
           (json_sort (RiskSourceReceipt_dict verified))]"
proof (cases "\<exists>row \<in> set (db_events db). ev_event_hmac_sha256 row = new_hmac lg secret c event verified")
  case True
  then show ?thesis using fresh_hmac_or_collision [OF assms(1)] by blast
next
  case False
  obtain payload where source: "verify_risk_source_receipt payload event (rl_binding ledger) (rl_source_key_provider ledger)
      (rl_trusted_source_issuer_keys ledger) (Some source_clock) = Inr verified"
    using assms(7) by (auto simp: verified_source_for_append_def res_bind_Inr_iff split: if_splits option.splits)
  have "\<exists>db' receipt. append_locked ledger secret event verified clock db = Inr (db', receipt)"
    using False by (intro append_locked_succeeds [OF assms(1,4,5,6) source assms(8-11,3)]) blast
  moreover have "ledger_now clock = Inr clock" using assms(10) by (simp add: ledger_now_def require_utc_Inr)
  moreover have "\<not> dt_lt (dt_add clock MAX_FUTURE_CLOCK_DRIFT) (em_occurred_at (event_metadata event))"
    using assms(11) by (simp add: dt_lt_def dt_le_def MAX_FUTURE_CLOCK_DRIFT_def seconds_def)
  ultimately show ?thesis using assms(2,5,7) by (simp add: append_event_def)
qed

lemma sample_live_inputs:
  "exact_id_text (rl_key_id sample_ledger)" "event_binding sample_snapshot = rl_binding sample_ledger"
  "admissible new_replay sample_snapshot" "db_events sample_ledger_db = []"
  "dt_le (em_occurred_at (event_metadata sample_snapshot)) sample_bar"
  by (simp_all add: sample_ledger_def sample_snapshot_def sample_ledger_db_def admissible_def new_replay_def id_evals dt_le_def)

theorem ledger_append_live_witness:
  "\<exists>db' receipt. append_event sample_ledger sample_snapshot sample_source sample_upstream sample_bar sample_bar sample_ledger_db
     = Inr (db', receipt)"
  using ledger_append_live [OF sample_ledger_opens sample_ledger_secret sample_live_inputs(1) sample_snapshot_constructed
      sample_live_inputs(2,3) sample_source_accepted _ _ sample_bar_range(2) sample_live_inputs(5)]
  by (simp add: sample_live_inputs(4) tag_collision_def)

section \<open>What an append records\<close>

text \<open>What the receipt of a ledger with the one sample snapshot states.\<close>

definition states_sample :: "RiskStateReceipt \<Rightarrow> bool" where
  "states_sample r =
     (rr_binding r = sample_ledger_binding \<and> dv_current_equity (rr_state r) = Fin 10000
      \<and> dv_daily_baseline_equity (rr_state r) = Fin 10000 \<and> dv_weekly_baseline_equity (rr_state r) = Fin 10000
      \<and> dv_high_water_equity (rr_state r) = Fin 10000 \<and> dv_entries_today (rr_state r) = 0
      \<and> dv_consecutive_losses (rr_state r) = 0 \<and> \<not> dv_loss_latch_active (rr_state r))"

lemma sample_receipt_state:
  assumes "append_locked sample_ledger sample_secret sample_snapshot sample_source sample_bar sample_ledger_db = Inr (db', receipt)"
  shows "states_sample receipt"
proof -
  obtain lg c n h c' s where conn: "verify_connection sample_ledger sample_secret sample_ledger_db = Inr (lg, c)"
    and applied: "apply_event c sample_snapshot sample_source n h = Inr c'" "rx_state c' = Some s"
    and issued: "state_receipt lg s sample_bar sample_secret = Inr receipt"
    using assms by (rule append_locked_cases)
  have lg: "lg = sample_ledger\<lparr>rl_ledger_id := ''risk-0''\<rparr>" "c = new_replay" using conn sample_ledger_opens by simp_all
  note step = applied [unfolded lg] and receipt = issued [unfolded lg]
  have "rr_binding receipt = rl_binding sample_ledger" "rr_state receipt = s\<lparr>dv_head_hmac_sha256 := norm_hash (dv_head_hmac_sha256 s),
      dv_latest_source_receipt_sha256 := norm_hash (dv_latest_source_receipt_sha256 s),
      dv_source_receipt_chain_sha256 := norm_hash (dv_source_receipt_chain_sha256 s)\<rparr>"
    using receipt by (simp_all add: state_receipt_def RiskStateReceipt_init_def Let_def checked_Inr_iff)
  moreover have "rl_binding sample_ledger = sample_ledger_binding" by (simp add: sample_ledger_def)
  moreover have "s = stamp sample_source n h sample_bar ZERO_HMAC_SHA256 (first_state (case sample_snapshot of Snapshot e \<Rightarrow> e))"
    using step by (auto simp: apply_event_def new_replay_def sample_snapshot_def)
  ultimately show ?thesis by (simp add: states_sample_def stamp_def first_state_def sample_snapshot_def)
qed

lemma sample_appends:
  obtains db' receipt lg row c' where
    "append_event sample_ledger sample_snapshot sample_source sample_upstream sample_bar sample_bar sample_ledger_db
       = Inr (db', receipt)"
    "current_receipt lg sample_bar db' = Inr receipt" "verify_integrity lg (Some receipt) db' = Inr True"
    "db_events db' = [row]" "verify_connection lg sample_secret db' = Inr (lg, c')" "rx_state c' = Some (rr_state receipt)"
    "ledger_secret lg = Inr sample_secret" "states_sample receipt" "verify_risk_state_receipt receipt (\<lambda>k. Inr sample_secret)"
proof -
  have binding: "rl_binding sample_ledger = sample_ledger_binding" by (simp add: sample_ledger_def)
  obtain db' receipt where locked:
    "append_locked sample_ledger sample_secret sample_snapshot sample_source sample_bar sample_ledger_db = Inr (db', receipt)"
    using append_locked_succeeds [OF sample_ledger_opens sample_snapshot_constructed sample_live_inputs(2,3)
        sample_source_verified [folded binding] _ _ sample_bar_range(2) sample_live_inputs(5,1)]
    by (auto simp: sample_live_inputs(4))
  obtain lg c' i where lg: "lg = sample_ledger\<lparr>rl_ledger_id := i\<rparr>"
    and "current_receipt lg sample_bar db' = Inr receipt" "verify_integrity lg (Some receipt) db' = Inr True"
    "verify_connection lg sample_secret db' = Inr (lg, c')" "rx_state c' = Some (rr_state receipt)"
    "verify_risk_state_receipt receipt (rl_key_provider sample_ledger)"
    using locked sample_ledger_secret sample_bar_range(2) by (rule appended_receipt)
  moreover obtain row where "db_events db' = [row]"
    using append_locked_cases [OF locked] sample_live_inputs(4) by (metis append_Nil)
  moreover have "ledger_secret lg = Inr sample_secret" using sample_ledger_secret by (simp add: lg)
  moreover have "states_sample receipt" using locked by (rule sample_receipt_state)
  moreover have "rl_key_provider sample_ledger = (\<lambda>k. Inr sample_secret)" by (simp add: sample_ledger_def)
  moreover have "ledger_now sample_bar = Inr sample_bar" by (simp add: ledger_now_def require_utc_Inr sample_bar_range(2))
  then have "append_event sample_ledger sample_snapshot sample_source sample_upstream sample_bar sample_bar sample_ledger_db
      = Inr (db', receipt)"
    using locked sample_live_inputs(2,5) sample_source_accepted sample_ledger_secret
    by (simp add: append_event_def dt_lt_def dt_le_def MAX_FUTURE_CLOCK_DRIFT_def seconds_def)
  ultimately show thesis by (intro that [of db' receipt lg row c']) simp_all
qed

text \<open>The receipt of a ledger can be issued again at any later instant.\<close>

lemma receipt_init_later:
  assumes "RiskStateReceipt_init True r = Inr n" and "is_utc t" and "dt_le (rr_issued_at_utc r) t"
  shows "RiskStateReceipt_init True (r\<lparr>rr_issued_at_utc := t, rr_receipt_hmac_sha256 := risk_hmac k d v\<rparr>)
    = Inr (n\<lparr>rr_issued_at_utc := t, rr_receipt_hmac_sha256 := risk_hmac k d v\<rparr>)"
proof -
  have "require_hash name (risk_hmac k d v) 64 = Inr (risk_hmac k d v)" "norm_hash (risk_hmac k d v) = risk_hmac k d v" for name
    by (simp_all add: risk_hmac_def)
  then show ?thesis
    using assms by (clarsimp simp: RiskStateReceipt_init_def Let_def checked_Inr_iff is_utc_require dt_lt_def dt_le_def)
qed

lemma receipt_issued_later:
  assumes "current_receipt lg now db = Inr receipt" and "is_utc t" and "dt_le now t"
  obtains later where "current_receipt lg t db = Inr later" "rr_issued_at_utc later = t" "rr_state later = rr_state receipt"
    "rr_binding later = rr_binding receipt"
proof -
  obtain secret verified c x where secret: "ledger_secret lg = Inr secret" and conn: "verify_connection lg secret db = Inr (verified, c)"
    and x: "rx_state c = Some x" and receipt: "state_receipt verified x now secret = Inr receipt"
    using assms(1) by (auto simp: current_receipt_def ledger_now_def require_utc_Inr res_bind_Inr_iff split: option.splits)
  obtain h where "state_receipt verified x t secret = Inr (receipt\<lparr>rr_issued_at_utc := t, rr_receipt_hmac_sha256 := h\<rparr>)"
    using receipt_init_later [OF receipt [unfolded state_receipt_def Let_def] assms(2)] assms(3) by (simp add: state_receipt_def Let_def)
  then show thesis
    using secret conn x assms(2)
    by (intro that [of "receipt\<lparr>rr_issued_at_utc := t, rr_receipt_hmac_sha256 := h\<rparr>"]) (simp_all add: current_receipt_def ledger_now_def require_utc_Inr res_bind_Inr_iff)
qed

text \<open>
  (C21) The state a verified ledger holds is the declared function of the events its rows
  encode: the current equity is the last snapshot's and the high-water mark the greatest of all; the
  entries of today are those recorded under the current daily baseline; the consecutive losses are the
  losses since the last trade that was not one, and the loss latch is active exactly if two losses ever
  followed one another; every closed trade closes an entry with its symbol, at most once; event times
  never decrease.
\<close>

theorem ledger_state_is_history:
  assumes "verify_connection ledger secret db = Inr (lg, c)"
  shows "\<exists>evs. decodes lg (db_events db) evs
    \<and> (case rx_state c of None \<Rightarrow> evs = [] | Some s \<Rightarrow> state_history evs s)"
proof -
  obtain evs where "decodes lg (db_events db) evs" "replays evs c" using assms by (rule verified_history)
  then show ?thesis by (auto simp: replays_def split: option.splits)
qed

theorem ledger_state_is_history_witness:
  "\<exists>db lg c evs s. verify_connection lg sample_secret db = Inr (lg, c) \<and> length (db_events db) = 1
     \<and> decodes lg (db_events db) evs \<and> rx_state c = Some s \<and> state_history evs s"
proof -
  obtain db' lg row c' s where db': "db_events db' = [row]" "verify_connection lg sample_secret db' = Inr (lg, c')"
    "rx_state c' = Some s"
    by (rule sample_appends)
  from ledger_state_is_history [OF db'(2)] db' show ?thesis
    by (intro exI [of _ db'] exI [of _ lg] exI [of _ c']) auto
qed

text \<open>
  (C22) A successful append adds exactly one row, after the recorded ones, and leaves the
  identity of the ledger. Before and after, the ledger verifies under its key. The receipt it returns
  carries the new state, with as many events as rows, verifies under the key, is the current receipt
  at that instant and passes as a checkpoint; it is never dated before the event, so an event ahead of
  the trusted clock is refused although the code allows a drift of one second. The loss latch is not
  released, the high-water mark does not fall and time does not go back.
\<close>

theorem ledger_append_extends:
  assumes "append_event ledger event src upstream source_clock clock db = Inr (db', receipt)"
  shows "\<exists>row lg c c' secret i. db_events db' = db_events db @ [row] \<and> db_identity db' = db_identity db
    \<and> ledger_secret ledger = Inr secret \<and> lg = ledger\<lparr>rl_ledger_id := i\<rparr>
    \<and> verify_connection ledger secret db = Inr (lg, c) \<and> verify_connection lg secret db' = Inr (lg, c')
    \<and> rx_state c' = Some (rr_state receipt) \<and> dv_event_sequence (rr_state receipt) = int (length (db_events db'))
    \<and> verify_risk_state_receipt receipt (rl_key_provider ledger)
    \<and> current_receipt lg clock db' = Inr receipt \<and> verify_integrity lg (Some receipt) db' = Inr True
    \<and> dt_le (em_occurred_at (event_metadata event)) clock
    \<and> (case rx_state c of None \<Rightarrow> True
       | Some p \<Rightarrow> (dv_loss_latch_active p \<longrightarrow> dv_loss_latch_active (rr_state receipt))
           \<and> fl_le (dv_high_water_equity p) (dv_high_water_equity (rr_state receipt))
           \<and> dt_le (dv_latest_event_at_utc p) (dv_latest_event_at_utc (rr_state receipt)))"
proof -
  obtain verified secret where secret: "ledger_secret ledger = Inr secret" and utc: "is_utc clock"
    and locked: "append_locked ledger secret event verified clock db = Inr (db', receipt)"
    using assms by (auto elim!: append_event_cases simp: ledger_now_def require_utc_Inr)
  obtain lg c c' i where conn: "verify_connection ledger secret db = Inr (lg, c)" "verify_connection lg secret db' = Inr (lg, c')"
    and lg: "lg = ledger\<lparr>rl_ledger_id := i\<rparr>" and state: "rx_state c' = Some (rr_state receipt)"
    and receipt: "current_receipt lg clock db' = Inr receipt" "verify_integrity lg (Some receipt) db' = Inr True"
      "verify_risk_state_receipt receipt (rl_key_provider ledger)" "\<not> dt_lt clock (dv_latest_event_at_utc (rr_state receipt))"
    using locked secret utc by (rule appended_receipt)
  obtain row where row: "db_events db' = db_events db @ [row]" "db_identity db' = db_identity db"
    and time: "dv_latest_event_at_utc (rr_state receipt) = em_occurred_at (event_metadata event)"
    using append_locked_row [OF locked secret] by blast
  obtain evs where evs: "decodes lg (db_events db) evs" "replays evs c" using conn(1) by (rule verified_history)
  obtain evs' where evs': "decodes lg (db_events db') evs'" "replays evs' c'" using conn(2) by (rule verified_history)
  obtain e where "evs' = evs @ [e]" using decodes_snoc [OF evs(1)] evs'(1) row(1) by metis
  then have "case rx_state c of None \<Rightarrow> True
       | Some p \<Rightarrow> (dv_loss_latch_active p \<longrightarrow> dv_loss_latch_active (rr_state receipt))
           \<and> fl_le (dv_high_water_equity p) (dv_high_water_equity (rr_state receipt))
           \<and> dt_le (dv_latest_event_at_utc p) (dv_latest_event_at_utc (rr_state receipt))"
    using evs(2) evs'(2) state history_monotone by (auto simp: replays_def split: option.splits)
  moreover have "dt_le (em_occurred_at (event_metadata event)) clock" using receipt(4) time by (simp add: dt_le_def dt_lt_def)
  ultimately show ?thesis
    using row secret lg conn state receipt verified_length(1) [OF conn(2) state] by blast
qed

theorem ledger_append_extends_witness:
  "\<exists>db' receipt. append_event sample_ledger sample_snapshot sample_source sample_upstream sample_bar sample_bar sample_ledger_db
     = Inr (db', receipt) \<and> length (db_events db') = 1 \<and> dv_event_sequence (rr_state receipt) = 1
     \<and> verify_risk_state_receipt receipt (rl_key_provider sample_ledger)"
proof -
  obtain db' receipt where append: "append_event sample_ledger sample_snapshot sample_source sample_upstream sample_bar sample_bar
      sample_ledger_db = Inr (db', receipt)"
    by (rule sample_appends)
  from ledger_append_extends [OF this] append sample_live_inputs(4) show ?thesis
    by (intro exI [of _ db'] exI [of _ receipt]) auto
qed

text \<open>
  (C24) An append is accepted only with a source receipt that is canonical, bound to
  the account and to this event (its kind and its content hash), issued under a key the ledger trusts
  for its issuer and carrying that key's HMAC, observed at most five seconds after the event and not
  expired, for an upstream receipt that the verifier returned and whose hash it states; and only if no
  earlier row used the receipt, its content or the upstream receipt.
\<close>

theorem ledger_source_provenance:
  assumes "append_event ledger event src upstream source_clock clock db = Inr (db', receipt)"
  shows "\<exists>v secret u raw. canonical_json (RiskSourceReceipt_dict src) = canonical_json (RiskSourceReceipt_dict v)
    \<and> src_binding v = rl_binding ledger \<and> event_binding event = rl_binding ledger
    \<and> src_source_kind v = em_event_type (event_metadata event) \<and> src_event_sha256 v = event_content_sha256 event
    \<and> (\<exists>keys. map_of (rl_trusted_source_issuer_keys ledger) (src_issuer_id v) = Some keys \<and> src_key_id v \<in> set keys)
    \<and> source_secret (rl_source_key_provider ledger) (src_key_id v) = Inr secret
    \<and> src_signature_hmac_sha256 v = risk_hmac secret (hmac_domain ''SOURCE'') (source_signing_payload v)
    \<and> dt_le (em_occurred_at (event_metadata event)) (src_observed_at_utc v)
    \<and> dt_sub (src_observed_at_utc v) (em_occurred_at (event_metadata event)) \<le> seconds 5
    \<and> dt_le source_clock (src_valid_until_utc v)
    \<and> rl_upstream_receipt_verifier ledger (src_upstream_receipt_type v) upstream = Inr u
    \<and> up_object u = up_object upstream \<and> up_content_sha256 u = Some raw \<and> norm_hash raw = src_upstream_receipt_sha256 v
    \<and> list_all (\<lambda>row. ev_source_receipt_id row \<noteq> src_source_receipt_id v
         \<and> ev_source_receipt_sha256 row \<noteq> source_content_sha256 v
         \<and> ev_upstream_receipt_sha256 row \<noteq> src_upstream_receipt_sha256 v) (db_events db)"
proof -
  obtain v now secret where bound: "event_binding event = rl_binding ledger"
    and source: "verified_source_for_append ledger event src upstream source_clock = Inr v"
    and locked: "append_locked ledger secret event v now db = Inr (db', receipt)"
    using assms by (rule append_event_cases)
  have fresh: "\<not> list_ex (source_consumed v) (db_events db)" using locked by (rule append_locked_cases)
  obtain u raw where verify: "verify_risk_source_receipt (RiskSourceReceipt_dict src) event (rl_binding ledger)
      (rl_source_key_provider ledger) (rl_trusted_source_issuer_keys ledger) (Some source_clock) = Inr v"
    and up: "rl_upstream_receipt_verifier ledger (src_upstream_receipt_type v) upstream = Inr u"
      "up_object u = up_object upstream" "up_content_sha256 u = Some raw" "norm_hash raw = src_upstream_receipt_sha256 v"
    using source by (auto simp: verified_source_for_append_def res_bind_Inr_iff require_hash_Inr split: if_splits option.splits)
  obtain fields key where raw: "RiskSourceReceipt_dict src = JDict fields"
    and checks: "checked (source_binding_checks v fields event (rl_binding ledger) (rl_trusted_source_issuer_keys ledger)) () = Inr ()"
    and signed: "source_secret (rl_source_key_provider ledger) (src_key_id v) = Inr key"
      "src_signature_hmac_sha256 v = risk_hmac key (hmac_domain ''SOURCE'') (source_signing_payload v)"
    and times: "checked (source_time_checks v (em_occurred_at (event_metadata event)) (Some source_clock)) v = Inr v"
    using verify by (rule verify_source_cases)
  have "list_all (\<lambda>row. ev_source_receipt_id row \<noteq> src_source_receipt_id v
         \<and> ev_source_receipt_sha256 row \<noteq> source_content_sha256 v
         \<and> ev_upstream_receipt_sha256 row \<noteq> src_upstream_receipt_sha256 v) (db_events db)"
    using fresh by (auto simp: list_ex_iff list.pred_set source_consumed_def)
  moreover have "dt_le (em_occurred_at (event_metadata event)) (src_observed_at_utc v)"
    "dt_sub (src_observed_at_utc v) (em_occurred_at (event_metadata event)) \<le> seconds 5"
    "dt_le source_clock (src_valid_until_utc v)"
    using times by (simp_all add: source_time_checks_def checked_Inr_iff dt_le_def dt_lt_def)
  moreover have "canonical_json (RiskSourceReceipt_dict src) = canonical_json (RiskSourceReceipt_dict v)"
    "src_binding v = rl_binding ledger" "src_source_kind v = em_event_type (event_metadata event)"
    "src_event_sha256 v = event_content_sha256 event"
    "\<exists>keys. map_of (rl_trusted_source_issuer_keys ledger) (src_issuer_id v) = Some keys \<and> src_key_id v \<in> set keys"
    using checks by (simp_all add: source_binding_checks_def checked_Inr_iff raw split: option.splits)
  ultimately show ?thesis using bound signed up by blast
qed

theorem ledger_source_provenance_witness:
  "\<exists>v. canonical_json (RiskSourceReceipt_dict sample_source) = canonical_json (RiskSourceReceipt_dict v)
     \<and> src_event_sha256 v = event_content_sha256 sample_snapshot \<and> src_binding v = rl_binding sample_ledger"
proof -
  obtain db' receipt where "append_event sample_ledger sample_snapshot sample_source sample_upstream sample_bar sample_bar
      sample_ledger_db = Inr (db', receipt)"
    by (rule sample_appends)
  from ledger_source_provenance [OF this] show ?thesis by blast
qed

text \<open>
  (C25) A receipt is a checkpoint against rollback and forks: if a database passes
  \<open>verify_integrity\<close> with a receipt that the same ledger once issued, then the events recorded when the
  receipt was issued are the first events of that database, unchanged and in order, unless two
  different event bodies of the two databases have the same HMAC under the ledger's key.
\<close>

theorem ledger_fork_detected:
  assumes "current_receipt ledger clock old = Inr receipt" and "verify_integrity ledger (Some receipt) db = Inr True"
    and "ledger_secret ledger = Inr secret"
  shows "prefix (db_events old) (db_events db)
    \<or> (\<exists>i. let body = row_body (ledger\<lparr>rl_ledger_id := i\<rparr>) in tag_collision (event_mac secret)
          (log_bodies body ev_event_hmac_sha256 1 ZERO_HMAC_SHA256 (db_events old))
          (log_bodies body ev_event_hmac_sha256 1 ZERO_HMAC_SHA256 (db_events db)))"
proof -
  obtain lg c s now where conn: "verify_connection ledger secret old = Inr (lg, c)" and s: "rx_state c = Some s"
    and receipt: "state_receipt lg s now secret = Inr receipt"
    using assms(1,3) by (auto simp: current_receipt_def res_bind_Inr_iff split: option.splits)
  obtain lg2 c2 where conn2: "verify_connection ledger secret db = Inr (lg2, c2)"
    and check: "verify_checkpoint lg2 db c2 receipt = Inr ()"
    using assms(2,3) by (auto simp: verify_integrity_def check_expected_def res_bind_Inr_iff)
  obtain i where lg: "lg = ledger\<lparr>rl_ledger_id := i\<rparr>"
    and rows: "verify_rows lg secret 1 ZERO_HMAC_SHA256 (db_events old) new_replay = Inr c"
    using conn by (rule verify_connection_cases)
  obtain j where lg2: "lg2 = ledger\<lparr>rl_ledger_id := j\<rparr>"
    and rows2: "verify_rows lg2 secret 1 ZERO_HMAC_SHA256 (db_events db) new_replay = Inr c2"
    using conn2 by (rule verify_connection_cases)
  note verifies = state_receipt_verifies [OF receipt verified_state_ok [OF conn s]]
  have state: "rr_state receipt = s" "rr_ledger_id receipt = rl_ledger_id lg" using verifies assms(3) by (simp_all add: lg)
  then have same: "lg2 = lg" using check by (simp add: verify_checkpoint_def Let_def checked_Inr_iff lg lg2)
  have ne: "db_events old \<noteq> []" and len: "dv_event_sequence s = int (length (db_events old) - 1) + 1"
    using verified_length [OF conn s] by (cases "db_events old"; simp)+
  note row = checkpoint_row [OF check verify_rows_chain [OF rows2] len [folded state(1)] verified_length(1) [OF conn2]]
  have "ev_event_hmac_sha256 (db_events db ! (length (db_events old) - 1)) = log_head ev_event_hmac_sha256 ZERO_HMAC_SHA256 (db_events old)"
    using row(2) verify_rows_head [OF rows ne] s state(1) by simp
  moreover have "length (db_events old) \<le> length (db_events db)" using row(1) ne by simp
  ultimately show ?thesis
    using risk_log.known_head_prefix [OF verify_rows_chain [OF rows] verify_rows_chain [OF rows2 [unfolded same]] ne]
    unfolding lg Let_def by blast
qed

theorem ledger_fork_detected_witness:
  "\<exists>lg receipt db. current_receipt lg sample_bar db = Inr receipt \<and> verify_integrity lg (Some receipt) db = Inr True
     \<and> length (db_events db) = 1
     \<and> (prefix (db_events db) (db_events db)
        \<or> (\<exists>i. let body = row_body (lg\<lparr>rl_ledger_id := i\<rparr>) in tag_collision (event_mac sample_secret)
             (log_bodies body ev_event_hmac_sha256 1 ZERO_HMAC_SHA256 (db_events db))
             (log_bodies body ev_event_hmac_sha256 1 ZERO_HMAC_SHA256 (db_events db))))"
proof -
  obtain db' receipt lg row c' where db': "current_receipt lg sample_bar db' = Inr receipt"
    "verify_integrity lg (Some receipt) db' = Inr True" "db_events db' = [row]" "ledger_secret lg = Inr sample_secret"
    by (rule sample_appends)
  from ledger_fork_detected [OF db'(1,2,4)] db' show ?thesis
    by (intro exI [of _ lg] exI [of _ receipt] exI [of _ db']) simp
qed

end
