(* ===== verification/Risk_Context_Safety.thy ===== *)
theory Risk_Context_Safety
  imports Risk_Context Runtime_Facts_Safety Risk_Ledger_Safety
begin

text \<open>
  What the risk context factory guarantees: a context exists only when every proof it rests on is
  signed, bound to the same lane and fresh; it can be used while all of them are, and no longer; and
  what the ledger and the kill switch record reaches the risk governor through it.
\<close>

section \<open>Signed receipts\<close>

lemma exposure_init_fields:
  assumes "ExposureReceipt_init r = Inr n"
  shows "n = r\<lparr>xr_account_id := norm_text False (xr_account_id r), xr_server := norm_text False (xr_server r),
          xr_environment := norm_text True (xr_environment r),
          xr_account_runtime_identity_sha256 := norm_hash (xr_account_runtime_identity_sha256 r),
          xr_journal_sha256 := norm_hash (xr_journal_sha256 r),
          xr_active_orders := normalize_exposures (xr_active_orders r),
          xr_active_positions := normalize_exposures (xr_active_positions r),
          xr_reserved_canonical_symbols := normalize_symbols (xr_reserved_canonical_symbols r),
          xr_key_id := norm_text False (xr_key_id r), xr_signature := norm_hash (xr_signature r)\<rparr>"
  using assms by (simp add: ExposureReceipt_init_def checked_Inr_iff)

lemma signing_hmac_Inr:
  "signing_hmac secret domain payload = Inr s \<longleftrightarrow>
     32 \<le> length secret \<and> s = hmac_sha256_hex secret (domain @ canonical_json payload)"
  by (auto simp: signing_hmac_def receipt_secret_bytes_def)

interpretation exposure_signing: signed_artifact ExposureReceipt_init
  "\<lambda>r. EXPOSURE_HMAC_DOMAIN @ canonical_json (exposure_signing_payload r)" xr_signature
  "\<lambda>s r. r\<lparr>xr_signature := s\<rparr>" exposure_sign exposure_verify_signature "\<lambda>r. True"
proof unfold_locales
  fix a b :: ExposureReceipt and k m
  show "exposure_sign a k = Inr b \<Longrightarrow> 32 \<le> length k \<and> ExposureReceipt_init (a\<lparr>xr_signature :=
      hmac_sha256_hex k (EXPOSURE_HMAC_DOMAIN @ canonical_json (exposure_signing_payload a))\<rparr>) = Inr b"
    by (auto simp: exposure_sign_def res_bind_Inr_iff signing_hmac_Inr)
  show "exposure_verify_signature a k
      = Inr (xr_signature a = hmac_sha256_hex k (EXPOSURE_HMAC_DOMAIN @ canonical_json (exposure_signing_payload a)))"
    if "32 \<le> length k"
    using that hmac_nonempty [THEN not_sym]
    by (auto simp: exposure_verify_signature_def signing_hmac_def receipt_secret_bytes_def)
  assume a: "ExposureReceipt_init a = Inr a" and b: "ExposureReceipt_init (a\<lparr>xr_signature := hmac_sha256_hex k m\<rparr>) = Inr b"
  have "b = a\<lparr>xr_signature := hmac_sha256_hex k m\<rparr>"
    using exposure_init_fields [OF a] exposure_init_fields [OF b] by (cases a) simp
  then show "EXPOSURE_HMAC_DOMAIN @ canonical_json (exposure_signing_payload b)
        = EXPOSURE_HMAC_DOMAIN @ canonical_json (exposure_signing_payload a)
      \<and> xr_signature b = hmac_sha256_hex k m \<and> (True \<longrightarrow> True)"
    by (simp add: exposure_signing_payload_def ExposureReceipt_dict_def json_pop_def)
qed

lemma calibration_init_fields:
  assumes "RiskCalibrationReceipt_init r = Inr n"
  shows "n = r\<lparr>cr_account_id := norm_text False (cr_account_id r), cr_server := norm_text False (cr_server r),
          cr_environment := norm_text True (cr_environment r), cr_symbol := norm_text True (cr_symbol r),
          cr_broker_symbol := norm_text False (cr_broker_symbol r),
          cr_account_runtime_identity_sha256 := norm_hash (cr_account_runtime_identity_sha256 r),
          cr_broker_spec_sha256 := norm_hash (cr_broker_spec_sha256 r),
          cr_config_sha256 := norm_hash (cr_config_sha256 r),
          cr_data_window_sha256 := norm_hash (cr_data_window_sha256 r),
          cr_key_id := norm_text False (cr_key_id r), cr_signature := norm_hash (cr_signature r)\<rparr>"
  using assms by (simp add: RiskCalibrationReceipt_init_def checked_Inr_iff)

interpretation calibration_signing: signed_artifact RiskCalibrationReceipt_init
  "\<lambda>r. CALIBRATION_HMAC_DOMAIN @ canonical_json (calibration_signing_payload r)" cr_signature
  "\<lambda>s r. r\<lparr>cr_signature := s\<rparr>" calibration_sign calibration_verify_signature "\<lambda>r. True"
proof unfold_locales
  fix a b :: RiskCalibrationReceipt and k m
  show "calibration_sign a k = Inr b \<Longrightarrow> 32 \<le> length k \<and> RiskCalibrationReceipt_init (a\<lparr>cr_signature :=
      hmac_sha256_hex k (CALIBRATION_HMAC_DOMAIN @ canonical_json (calibration_signing_payload a))\<rparr>) = Inr b"
    by (auto simp: calibration_sign_def res_bind_Inr_iff signing_hmac_Inr)
  show "calibration_verify_signature a k
      = Inr (cr_signature a = hmac_sha256_hex k (CALIBRATION_HMAC_DOMAIN @ canonical_json (calibration_signing_payload a)))"
    if "32 \<le> length k"
    using that hmac_nonempty [THEN not_sym]
    by (auto simp: calibration_verify_signature_def signing_hmac_def receipt_secret_bytes_def)
  assume a: "RiskCalibrationReceipt_init a = Inr a"
    and b: "RiskCalibrationReceipt_init (a\<lparr>cr_signature := hmac_sha256_hex k m\<rparr>) = Inr b"
  have "b = a\<lparr>cr_signature := hmac_sha256_hex k m\<rparr>"
    using calibration_init_fields [OF a] calibration_init_fields [OF b] by (cases a) simp
  then show "CALIBRATION_HMAC_DOMAIN @ canonical_json (calibration_signing_payload b)
        = CALIBRATION_HMAC_DOMAIN @ canonical_json (calibration_signing_payload a)
      \<and> cr_signature b = hmac_sha256_hex k m \<and> (True \<longrightarrow> True)"
    by (simp add: calibration_signing_payload_def RiskCalibrationReceipt_dict_def json_pop_def)
qed

section \<open>What a successful factory call establishes\<close>

lemma age_gates_clear [simp]:
  "list_all (\<lambda>(c, code). \<not> c) (age_gates now moment early late) \<longleftrightarrow>
     0 \<le> dt_sub now moment \<and> dt_sub now moment \<le> seconds 1"
  by (auto simp: age_gates_def Let_def seconds_def)

lemma dt_earliest_le: "instant (dt_earliest d xs) \<le> instant d" "x \<in> set xs \<Longrightarrow> instant (dt_earliest d xs) \<le> instant x"
proof -
  have "instant (dt_earliest d xs) \<le> instant d \<and> (\<forall>x \<in> set xs. instant (dt_earliest d xs) \<le> instant x)"
    by (induction d xs rule: dt_earliest.induct) (fastforce simp: dt_lt_def split: if_splits)+
  then show "instant (dt_earliest d xs) \<le> instant d" "x \<in> set xs \<Longrightarrow> instant (dt_earliest d xs) \<le> instant x" by auto
qed

lemma dt_earliest_mem: "dt_earliest d xs \<in> set (d # xs)"
  by (induction d xs rule: dt_earliest.induct) (auto split: if_splits)

lemma create_cases:
  assumes "create_verified_risk_context p expected keys clock = Inr v"
  obtains now e alias_sha spread ctx where "e = normalize_context_expectation expected"
    "clock = Inr (Some now)" "is_utc now" "list_all (\<lambda>c. c = None) (context_expectation_checks expected)"
    "account_alias_sha256 (ce_account_id e) = Inr alias_sha" "proof_reasons p keys e alias_sha now = []"
    "RiskContext_init (context_of p e now spread) = Inr ctx" "dt_lt now (context_valid_until p now)"
    "VerifiedRiskContext_init True (verified_of p e now (context_valid_until p now) ctx) = Inr v"
  using assms
  by (auto simp: create_verified_risk_context_def Let_def res_bind_Inr_iff require_datetime_Inr checked_Inr_iff
      dt_le_def dt_lt_def not_le split: if_splits)

lemma create_ok:
  assumes "e = normalize_context_expectation expected" and "is_utc now"
    and "list_all (\<lambda>c. c = None) (context_expectation_checks expected)"
    and "account_alias_sha256 (ce_account_id e) = Inr alias_sha" and "proof_reasons p keys e alias_sha now = []"
    and "fl_div (fl_sub (tf_ask (rf_tick (rp_runtime_fact p))) (tf_bid (rf_tick (rp_runtime_fact p))))
      (bs_point (rf_broker_spec (rp_runtime_fact p))) = Inr spread"
    and "RiskContext_init (context_of p e now spread) = Inr ctx" and "dt_lt now (context_valid_until p now)"
    and "VerifiedRiskContext_init True (verified_of p e now (context_valid_until p now) ctx) = Inr v"
  shows "create_verified_risk_context p expected keys (Inr (Some now)) = Inr v"
  using assms
  by (simp add: create_verified_risk_context_def res_bind_Inr_iff require_datetime_Inr checked_Inr_iff Let_def dt_le_def dt_lt_def)

text \<open>A refusal by the verifier of runtime facts always carries a reason code.\<close>

lemma first_error_mem: "first_error cs = Some e \<Longrightarrow> Some e \<in> set cs"
  by (induction cs rule: first_error.induct) auto

lemma err_of_Some [simp]: "err_of m = Some e \<longleftrightarrow> m = Inl e" "Some e = err_of m \<longleftrightarrow> m = Inl e"
  by (cases m; auto)+

lemma res_bind_Inl_iff: "res_bind m f = Inl e \<longleftrightarrow> m = Inl e \<or> (\<exists>x. m = Inr x \<and> f x = Inl e)"
  by (cases m) auto

lemma require_errors:
  "require_text name v u = Inl e \<Longrightarrow> \<exists>m. e = ValueError m" "require_hash name v n = Inl e \<Longrightarrow> \<exists>m. e = ValueError m"
  by (auto simp: require_hash_def require_text_def res_bind_Inl_iff Let_def split: if_splits)

lemma raise_if_Some [simp]: "raise_if c x = Some e \<longleftrightarrow> c \<and> x = e" "Some e = raise_if c x \<longleftrightarrow> c \<and> x = e"
  by (auto simp: raise_if_def)

lemma verify_fact_codes:
  assumes "verify_runtime_fact_receipt r expected keys clock = Inl (RuntimeFactVerificationError codes)"
  shows "codes \<noteq> []"
proof -
  let ?err = "RuntimeFactVerificationError codes"
  have "checked (fact_expectation_checks expected) x \<noteq> Inl ?err" for x :: fact_expectation
    by (auto simp: checked_Inl_iff fact_expectation_checks_def dest!: first_error_mem require_errors)
  moreover have "account_binding_sha256 a s e i \<noteq> Inl ?err" for a s e i
    by (auto simp: checked_Inl_iff account_binding_sha256_def dest!: first_error_mem require_errors)
  moreover have "evaluate_runtime_health facts \<noteq> Inl ?err" for facts
    by (auto simp: evaluate_runtime_health_def RuntimeHealthDecision_init_def Let_def checked_Inl_iff require_utc_def
        dest!: first_error_mem split: if_splits option.splits)
  moreover have "reason_set xs = [] \<longleftrightarrow> xs = []" for xs by (metis set_empty set_reason_set)
  ultimately show ?thesis
    using assms
    by (auto simp: verify_runtime_fact_receipt_def res_bind_Inl_iff Let_def res_reraise_def simp del: fired_append fired_Nil_iff
        split: if_splits sum.splits)
qed

lemma runtime_fact_clear:
  "runtime_fact_reasons r e keys now = [] \<longleftrightarrow>
     verify_runtime_fact_receipt r (fact_expectation_of e) keys (Inr (Some now)) = Inr r"
proof -
  have "verify_runtime_fact_receipt r (fact_expectation_of e) keys (Inr (Some now)) = Inr r' \<Longrightarrow> r' = r" for r'
    by (auto elim: verify_fact_cases)
  then show ?thesis
    using verify_fact_codes
    by (auto simp: runtime_fact_reasons_def split: sum.splits exn.splits)
qed

abbreviation clear_gates :: "(bool \<times> string) list \<Rightarrow> bool" where
  "clear_gates \<equiv> list_all (\<lambda>(c, code). \<not> c)"

lemma proof_reasons_Nil:
  "proof_reasons p keys e alias_sha now = [] \<longleftrightarrow>
     clear_gates (risk_state_gates (rp_risk_state p) (pk_risk_state keys) now)
     \<and> verify_runtime_fact_receipt (rp_runtime_fact p) (fact_expectation_of e) (pk_runtime_fact keys) (Inr (Some now))
         = Inr (rp_runtime_fact p)
     \<and> clear_gates (exposure_gates (rp_exposure p) e (pk_exposure keys) now)
     \<and> clear_gates (calibration_gates (rp_calibration p) e (pk_calibration keys) now)
     \<and> clear_gates (guard_gates (rp_market_guard p) e now)
     \<and> clear_gates (permit_gates (rp_permit p) e alias_sha now)
     \<and> clear_gates (risk_binding_gates (rp_risk_state p) (rp_runtime_fact p) e alias_sha)
     \<and> clear_gates (conversion_gates (rp_conversion p) (rf_account_fact (rp_runtime_fact p)) e now)"
  by (simp add: proof_reasons_def runtime_fact_clear conj_assoc)

lemma signature_valid_iff: "receipt_signature_valid verify key \<longleftrightarrow> (\<exists>k. key = Inr k \<and> verify k = Inr True)"
  by (simp add: receipt_signature_valid_def res_bind_Inr_iff)

lemma verified_context_fields:
  assumes "RiskContext_init (context_of p e now spread) = Inr ctx"
  shows "ctx = (context_of p e now spread)\<lparr>rc_mode := norm_text True (ce_mode e),
      rc_account_id := norm_text False (ce_account_id e), rc_server := norm_text False (ce_server e),
      rc_reserved_symbols := normalize_symbols (xr_reserved_canonical_symbols (rp_exposure p))\<rparr>"
  using assms by (simp add: RiskContext_init_def Let_def checked_Inr_iff context_of_def)

lemma verified_fields:
  assumes "VerifiedRiskContext_init True (verified_of p e now until ctx) = Inr v"
  shows "vc_context v = ctx" "vc_evaluated_at_utc v = now" "vc_valid_until_utc v = until"
    "v = (verified_of p e now until ctx)\<lparr>
       vc_account_id := norm_text False (ce_account_id e), vc_server := norm_text False (ce_server e),
       vc_environment := norm_text True (ce_environment e), vc_symbol := norm_text True (ce_symbol e),
       vc_broker_symbol := norm_text False (ce_broker_symbol e), vc_mode := norm_text True (ce_mode e),
       vc_account_runtime_identity_sha256 := norm_hash (ce_account_runtime_identity_sha256 e),
       vc_journal_sha256 := norm_hash (ce_journal_sha256 e), vc_broker_spec_sha256 := norm_hash (ce_broker_spec_sha256 e),
       vc_health_facts_sha256 := norm_hash (rf_health_facts_sha256 (rp_runtime_fact p)),
       vc_health_decision_sha256 := norm_hash (rf_health_decision_sha256 (rp_runtime_fact p)),
       vc_permit_id := norm_text False (pv_permit_id (rp_permit p)),
       vc_permit_symbols := normalize_symbols (pv_symbols (rp_permit p)),
       vc_conversion_sha256 := norm_hash (conversion_sha (rp_conversion p))\<rparr>"
  using assms by (simp_all add: VerifiedRiskContext_init_def checked_Inr_iff verified_of_def canonical_sha256_def)


section \<open>Using a verified context\<close>

text \<open>The expectation of a caller that works on the lane and under the permit of the context.\<close>

definition use_for :: "VerifiedRiskContext \<Rightarrow> use_expectation" where
  "use_for v =
     \<lparr>ue_account_id = vc_account_id v, ue_server = vc_server v, ue_environment = vc_environment v, ue_mode = vc_mode v,
      ue_symbol = vc_symbol v, ue_broker_symbol = vc_broker_symbol v,
      ue_account_runtime_identity_sha256 = vc_account_runtime_identity_sha256 v, ue_journal_sha256 = vc_journal_sha256 v,
      ue_permit_id = vc_permit_id v\<rparr>"

lemma use_cases:
  assumes "require_verified_risk_context v t expected spec facts guard = Inr ctx"
  obtains decision where "ctx = vc_context v" "is_utc t" "evaluate_runtime_health facts = Inr decision" "hd_healthy decision"
    "dt_le (vc_evaluated_at_utc v) t" "dt_lt t (vc_valid_until_utc v)"
    "BrokerSpec_content_sha256 spec = vc_broker_spec_sha256 v" "normalize_use expected = use_for v"
    "canonical_sha256 (RuntimeHealthFacts_dict facts) = vc_health_facts_sha256 v"
    "canonical_sha256 (MarketGuardDecision_dict guard) = vc_market_guard_decision_sha256 v"
proof -
  let ?e = "normalize_use expected"
  obtain decision where "ctx = vc_context v" "is_utc t" and decision: "evaluate_runtime_health facts = Inr decision"
    and gates: "clear_gates (use_lane_gates v t ?e spec)" "clear_gates (use_health_gates v facts decision)"
      "clear_gates (use_guard_gates v ?e guard)"
    using assms
    by (auto simp: require_verified_risk_context_def Let_def res_bind_Inr_iff checked_Inr_iff require_utc_Inr split: if_splits)
  moreover have "?e = use_for v" using gates(1) by (cases "?e") (simp add: use_lane_gates_def use_for_def)
  ultimately show thesis
    by (intro that) (auto simp: use_lane_gates_def use_health_gates_def use_guard_gates_def dt_le_def dt_lt_def)
qed

lemma verified_window:
  assumes "create_verified_risk_context p expected keys clock = Inr v"
  shows "dt_lt (vc_evaluated_at_utc v) (vc_valid_until_utc v)"
    "vc_valid_until_utc v = context_valid_until p (vc_evaluated_at_utc v)" "clock = Inr (Some (vc_evaluated_at_utc v))"
proof -
  obtain now e ctx where "clock = Inr (Some now)" "dt_lt now (context_valid_until p now)"
    "VerifiedRiskContext_init True (verified_of p e now (context_valid_until p now) ctx) = Inr v"
    using assms by (rule create_cases)
  then show "dt_lt (vc_evaluated_at_utc v) (vc_valid_until_utc v)"
    "vc_valid_until_utc v = context_valid_until p (vc_evaluated_at_utc v)" "clock = Inr (Some (vc_evaluated_at_utc v))"
    by (simp_all add: verified_fields(2,3))
qed

lemma context_valid_until_le:
  "instant (context_valid_until p now) \<le> instant (rr_issued_at_utc (rp_risk_state p)) + seconds 1"
  "instant (context_valid_until p now) \<le> instant (rf_valid_until_utc (rp_runtime_fact p))"
  "instant (context_valid_until p now) \<le> instant (xr_valid_until_utc (rp_exposure p))"
  "instant (context_valid_until p now) \<le> instant (cr_valid_until_utc (rp_calibration p))"
  "instant (context_valid_until p now) \<le> instant (mg_evaluated_at (rp_market_guard p)) + seconds 1"
  "instant (context_valid_until p now) \<le> instant (pv_expires_at (rp_permit p))"
  "instant (context_valid_until p now) \<le> instant (pv_checked_at (rp_permit p)) + seconds 1"
  "instant (context_valid_until p now) \<le> instant (conversion_valid_until (rp_conversion p) now)"
proof -
  define d where "d = dt_add (rr_issued_at_utc (rp_risk_state p)) SHORT_LIVED_RECEIPT_MAX_AGE"
  define xs where "xs = [rf_valid_until_utc (rp_runtime_fact p), xr_valid_until_utc (rp_exposure p),
        cr_valid_until_utc (rp_calibration p), dt_add (mg_evaluated_at (rp_market_guard p)) SHORT_LIVED_RECEIPT_MAX_AGE,
        pv_expires_at (rp_permit p), dt_add (pv_checked_at (rp_permit p)) SHORT_LIVED_RECEIPT_MAX_AGE,
        conversion_valid_until (rp_conversion p) now]"
  have "context_valid_until p now = dt_earliest d xs" by (simp only: context_valid_until_def d_def xs_def)
  then have "instant (context_valid_until p now) \<le> instant d" "\<forall>x \<in> set xs. instant (context_valid_until p now) \<le> instant x"
    by (simp_all add: dt_earliest_le)
  then show "instant (context_valid_until p now) \<le> instant (rr_issued_at_utc (rp_risk_state p)) + seconds 1"
    "instant (context_valid_until p now) \<le> instant (rf_valid_until_utc (rp_runtime_fact p))"
    "instant (context_valid_until p now) \<le> instant (xr_valid_until_utc (rp_exposure p))"
    "instant (context_valid_until p now) \<le> instant (cr_valid_until_utc (rp_calibration p))"
    "instant (context_valid_until p now) \<le> instant (mg_evaluated_at (rp_market_guard p)) + seconds 1"
    "instant (context_valid_until p now) \<le> instant (pv_expires_at (rp_permit p))"
    "instant (context_valid_until p now) \<le> instant (pv_checked_at (rp_permit p)) + seconds 1"
    "instant (context_valid_until p now) \<le> instant (conversion_valid_until (rp_conversion p) now)"
    by (simp_all add: d_def xs_def SHORT_LIVED_RECEIPT_MAX_AGE_def)
qed

text \<open>
  Wherever a verified context is accepted for use, no proof behind it has expired: the risk
  state, the market guard and the permit validation are less than a second old, the runtime facts, the
  exposure and the calibration receipt are in force and the permit has not expired. The caller's lane
  and permit are those of the context, its broker specification and market guard have the recorded
  hashes, and its health facts evaluate to healthy.
\<close>

theorem context_use_fresh:
  assumes "create_verified_risk_context p expected keys clock = Inr v"
    and "require_verified_risk_context v t use spec facts guard = Inr ctx"
  shows "ctx = vc_context v \<and> dt_le (vc_evaluated_at_utc v) t \<and> normalize_use use = use_for v
    \<and> (\<forall>m \<in> {rr_issued_at_utc (rp_risk_state p), mg_evaluated_at (rp_market_guard p), pv_checked_at (rp_permit p)}.
         0 \<le> dt_sub t m \<and> dt_sub t m < seconds 1)
    \<and> dt_le (rf_observed_at_utc (rp_runtime_fact p)) t \<and> dt_lt t (rf_valid_until_utc (rp_runtime_fact p))
    \<and> dt_lt t (xr_valid_until_utc (rp_exposure p)) \<and> dt_lt t (cr_valid_until_utc (rp_calibration p))
    \<and> dt_lt t (pv_expires_at (rp_permit p))
    \<and> BrokerSpec_content_sha256 spec = BrokerSpec_content_sha256 (rf_broker_spec (rp_runtime_fact p))
    \<and> canonical_sha256 (MarketGuardDecision_dict guard) = canonical_sha256 (MarketGuardDecision_dict (rp_market_guard p))
    \<and> (\<exists>decision. evaluate_runtime_health facts = Inr decision \<and> hd_healthy decision)"
proof -
  obtain now e alias_sha ctx' where clock: "clock = Inr (Some now)" and proofs: "proof_reasons p keys e alias_sha now = []"
    and v: "VerifiedRiskContext_init True (verified_of p e now (context_valid_until p now) ctx') = Inr v"
    using assms(1) by (rule create_cases)
  note gates = proofs [unfolded proof_reasons_Nil]
  have now: "vc_evaluated_at_utc v = now" using verified_fields(2) [OF v] .
  obtain decision where use: "ctx = vc_context v" "evaluate_runtime_health facts = Inr decision" "hd_healthy decision"
    "dt_le now t" "dt_lt t (vc_valid_until_utc v)" "BrokerSpec_content_sha256 spec = vc_broker_spec_sha256 v"
    "normalize_use use = use_for v" "canonical_sha256 (MarketGuardDecision_dict guard) = vc_market_guard_decision_sha256 v"
    using assms(2) by (rule use_cases) (simp add: now)
  have before: "instant t < instant (context_valid_until p now)"
    using use(5) verified_fields(3) [OF v] by (simp add: dt_lt_def)
  note ends = order_less_le_trans [OF before context_valid_until_le(1)] order_less_le_trans [OF before context_valid_until_le(2)]
    order_less_le_trans [OF before context_valid_until_le(3)] order_less_le_trans [OF before context_valid_until_le(4)]
    order_less_le_trans [OF before context_valid_until_le(5)] order_less_le_trans [OF before context_valid_until_le(6)]
    order_less_le_trans [OF before context_valid_until_le(7)]
  have "0 \<le> dt_sub now (rr_issued_at_utc (rp_risk_state p))" "0 \<le> dt_sub now (mg_evaluated_at (rp_market_guard p))"
    "0 \<le> dt_sub now (pv_checked_at (rp_permit p))"
    using gates by (simp_all add: risk_state_gates_def guard_gates_def permit_gates_def)
  moreover have "dt_le (rf_observed_at_utc (rp_runtime_fact p)) now"
    using gates by (auto elim: verify_fact_cases)
  moreover have "ce_broker_spec_sha256 e = BrokerSpec_content_sha256 (rf_broker_spec (rp_runtime_fact p))"
    using gates by (simp add: risk_binding_gates_def Let_def)
  then have "vc_broker_spec_sha256 v = BrokerSpec_content_sha256 (rf_broker_spec (rp_runtime_fact p))"
    by (subst verified_fields(4) [OF v]) (simp add: BrokerSpec_content_sha256_def canonical_sha256_def)
  moreover have "vc_market_guard_decision_sha256 v = canonical_sha256 (MarketGuardDecision_dict (rp_market_guard p))"
    by (subst verified_fields(4) [OF v]) (simp add: verified_of_def)
  ultimately show ?thesis
    using use ends now by (auto simp: dt_le_def dt_lt_def dt_sub_def)
qed

lemma normalized_expectation_fields:
  assumes "e = normalize_context_expectation expected"
  shows "norm_text False (ce_account_id e) = ce_account_id e" "norm_text False (ce_server e) = ce_server e"
    "norm_text True (ce_environment e) = ce_environment e" "norm_text True (ce_symbol e) = ce_symbol e"
    "norm_text False (ce_broker_symbol e) = ce_broker_symbol e" "norm_text True (ce_mode e) = ce_mode e"
    "norm_hash (ce_account_runtime_identity_sha256 e) = ce_account_runtime_identity_sha256 e"
    "norm_hash (ce_journal_sha256 e) = ce_journal_sha256 e" "norm_hash (ce_broker_spec_sha256 e) = ce_broker_spec_sha256 e"
  using assms by (simp_all add: normalize_context_expectation_def)

lemma conversion_sha_norm: "norm_hash (conversion_sha conversion) = conversion_sha conversion"
  by (simp add: conversion_sha_def USDRiskCapConversion_content_sha256_def canonical_sha256_def IDENTITY_CONVERSION_SHA256_def
      norm_hash_hex list.pred_set is_hex_lower_def split: option.split)

lemma not_less_le:
  "\<not> fl_lt (total_seconds d) (Fin a) \<Longrightarrow> fl_le (Fin a) (total_seconds d)"
  "\<not> fl_lt (Fin a) (total_seconds d) \<Longrightarrow> fl_le (total_seconds d) (Fin a)"
proof -
  have "total_seconds d \<noteq> NaN" by (simp add: total_seconds_def fl_of_rat_def Let_def)
  then show "\<not> fl_lt (total_seconds d) (Fin a) \<Longrightarrow> fl_le (Fin a) (total_seconds d)"
    "\<not> fl_lt (Fin a) (total_seconds d) \<Longrightarrow> fl_le (total_seconds d) (Fin a)"
    by (cases "total_seconds d"; auto simp: fl_le_def)+
qed

lemma use_for_checks:
  assumes "VerifiedRiskContext_init sealed w = Inr v"
  shows "list_all (\<lambda>c. c = None) (use_expectation_checks (use_for v))" "normalize_use (use_for v) = use_for v"
  using assms
  by (auto simp: VerifiedRiskContext_init_def verified_context_checks_def use_expectation_checks_def use_for_def
      normalize_use_def res_simps)

lemma verified_lane:
  assumes "e = normalize_context_expectation expected"
    and "VerifiedRiskContext_init True (verified_of p e now until ctx) = Inr v"
  shows "vc_account_id v = ce_account_id e" "vc_server v = ce_server e" "vc_environment v = ce_environment e"
    "vc_mode v = ce_mode e" "vc_symbol v = ce_symbol e" "vc_broker_symbol v = ce_broker_symbol e"
    "vc_broker_spec_sha256 v = ce_broker_spec_sha256 e" "vc_conversion_sha256 v = conversion_sha (rp_conversion p)"
    "vc_health_facts_sha256 v = norm_hash (rf_health_facts_sha256 (rp_runtime_fact p))"
    "vc_health_decision_sha256 v = norm_hash (rf_health_decision_sha256 (rp_runtime_fact p))"
    "vc_market_guard_decision_sha256 v = canonical_sha256 (MarketGuardDecision_dict (rp_market_guard p))"
  by (subst verified_fields(4) [OF assms(2)];
      simp add: verified_of_def normalized_expectation_fields [OF assms(1)] conversion_sha_norm)+

lemma wrapped_fields:
  assumes "e = normalize_context_expectation expected" and "RiskContext_init (context_of p e now spread) = Inr ctx"
  shows "rc_account_id ctx = ce_account_id e" "rc_server ctx = ce_server e" "rc_mode ctx = ce_mode e"
    "rc_usd_risk_cap_conversion ctx = rp_conversion p"
  unfolding verified_context_fields [OF assms(2)]
  by (simp_all add: context_of_def Let_def normalized_expectation_fields [OF assms(1)])

lemma conversion_stays_usable:
  assumes "clear_gates (conversion_gates (rp_conversion p) account e now)" and "af_currency account = bs_account_currency spec"
    and "rc_usd_risk_cap_conversion (vc_context v) = rp_conversion p" and "vc_conversion_sha256 v = conversion_sha (rp_conversion p)"
    and "vc_account_id v = ce_account_id e" and "vc_server v = ce_server e"
    and "dt_le now t" and "dt_lt t (context_valid_until p now)"
  shows "clear_gates (use_conversion_gates v t (use_for v) spec)"
proof (cases "rp_conversion p")
  case None
  then show ?thesis using assms(1-4) by (simp add: use_conversion_gates_def conversion_gates_def)
next
  case (Some c)
  have captured: "0 \<le> dt_sub now (uc_captured_at_utc c)" "uc_account_id c = ce_account_id e" "uc_server c = ce_server e"
    "uc_account_currency c = af_currency account"
    using assms(1) by (simp_all add: conversion_gates_def Some)
  have "instant t < instant (uc_captured_at_utc c) + seconds 1"
    using assms(8) context_valid_until_le(8) [of p now] Some
    by (simp add: dt_lt_def conversion_valid_until_def SHORT_LIVED_RECEIPT_MAX_AGE_def)
  then have "\<not> fl_lt (total_seconds (dt_sub t (uc_captured_at_utc c))) (Fin 0)"
    "\<not> fl_lt (Fin 1) (total_seconds (dt_sub t (uc_captured_at_utc c)))"
    using captured(1) assms(7) by (simp_all add: dt_sub_def dt_le_def seconds_def)
  then have "fl_le (Fin 0) (total_seconds (dt_sub t (uc_captured_at_utc c)))"
    "fl_le (total_seconds (dt_sub t (uc_captured_at_utc c))) (Fin 1)"
    by (simp_all add: not_less_le)
  then show ?thesis
    using assms(2-6) captured by (simp add: use_conversion_gates_def use_for_def Some Let_def)
qed

lemma created_context_accepted:
  assumes "create_verified_risk_context p expected keys clock = Inr v"
    and "RuntimeFactReceipt_init (rp_runtime_fact p) = Inr (rp_runtime_fact p)" and "vc_symbol v \<in> set (vc_permit_symbols v)"
    and "is_utc t" and "dt_le (vc_evaluated_at_utc v) t" and "dt_lt t (vc_valid_until_utc v)"
  shows "require_verified_risk_context v t (use_for v) (rf_broker_spec (rp_runtime_fact p)) (rf_health_facts (rp_runtime_fact p))
        (rp_market_guard p) = Inr (vc_context v)"
proof -
  let ?f = "rp_runtime_fact p"
  obtain now e alias_sha spread ctx where e: "e = normalize_context_expectation expected"
    and proofs: "proof_reasons p keys e alias_sha now = []"
    and ctx: "RiskContext_init (context_of p e now spread) = Inr ctx"
    and v: "VerifiedRiskContext_init True (verified_of p e now (context_valid_until p now) ctx) = Inr v"
    using assms(1) by (rule create_cases)
  note gates = proofs [unfolded proof_reasons_Nil] and lane = verified_lane [OF e v] and wrapped = wrapped_fields [OF e ctx]
  have now: "vc_evaluated_at_utc v = now" "vc_valid_until_utc v = context_valid_until p now" "vc_context v = ctx"
    using verified_fields [OF v] by simp_all
  obtain binding_sha where decision: "evaluate_runtime_health (rf_health_facts ?f) = Inr (rf_health_decision ?f)"
    and bound: "receipt_bound ?f binding_sha"
    using receipt_init_cases [OF assms(2)] by metis
  have spec: "BrokerSpec_content_sha256 (rf_broker_spec ?f) = ce_broker_spec_sha256 e"
    "bs_account_id (rf_broker_spec ?f) = ce_account_id e" "bs_server (rf_broker_spec ?f) = ce_server e"
    "bs_environment (rf_broker_spec ?f) = ce_environment e" "bs_symbol (rf_broker_spec ?f) = ce_symbol e"
    "bs_broker_symbol (rf_broker_spec ?f) = ce_broker_symbol e" "hd_healthy (rf_health_decision ?f)"
    using gates by (simp_all add: risk_binding_gates_def Let_def)
  have "clear_gates (use_lane_gates v t (use_for v) (rf_broker_spec ?f))"
    using assms(3,5,6) lane wrapped spec now by (simp add: use_lane_gates_def use_for_def dt_le_def dt_lt_def)
  moreover have "clear_gates (use_health_gates v (rf_health_facts ?f) (rf_health_decision ?f))"
    using spec(7) receipt_bound_hashes(5,6) [OF bound] lane(9,10) by (simp add: use_health_gates_def canonical_sha256_def)
  moreover have "clear_gates (use_guard_gates v (use_for v) (rp_market_guard p))"
    using gates lane by (simp add: use_guard_gates_def use_for_def guard_gates_def)
  moreover have "clear_gates (use_conversion_gates v t (use_for v) (rf_broker_spec ?f))"
    using gates receipt_bound_hashes(7) [OF bound] wrapped(4) now assms(5,6) lane(1,2,8)
    by (intro conversion_stays_usable [of p "rf_account_fact ?f" e now]) simp_all
  ultimately show ?thesis
    using use_for_checks [OF v] decision assms(4)
    by (simp add: require_verified_risk_context_def res_bind_Inr_iff checked_Inr_iff require_utc_Inr Let_def)
qed


section \<open>What reaches the risk governor\<close>

lemma current_receipt_state:
  assumes "current_receipt ledger clock db = Inr receipt"
  obtains lg evs where "decodes lg (db_events db) evs" "state_history evs (rr_state receipt)"
proof -
  obtain secret now lg c s where conn: "verify_connection ledger secret db = Inr (lg, c)" and s: "rx_state c = Some s"
    and receipt: "state_receipt lg s now secret = Inr receipt"
    using assms by (auto simp: current_receipt_def res_bind_Inr_iff split: option.splits)
  obtain evs where evs: "decodes lg (db_events db) evs" "replays evs c" using conn by (rule verified_history)
  have "rr_state receipt = s\<lparr>dv_head_hmac_sha256 := norm_hash (dv_head_hmac_sha256 s),
      dv_latest_source_receipt_sha256 := norm_hash (dv_latest_source_receipt_sha256 s),
      dv_source_receipt_chain_sha256 := norm_hash (dv_source_receipt_chain_sha256 s)\<rparr>"
    using receipt by (simp add: state_receipt_def RiskStateReceipt_init_def Let_def checked_Inr_iff)
  then have "state_history evs (rr_state receipt)"
    using evs(2) s by (simp add: replays_def history_parts time_history_def)
  with evs(1) show thesis by (rule that)
qed

lemma allowed_context:
  assumes "evaluate_risk intent broker ctx = Inr d" and "rd_allowed d"
  shows "rc_open_position_count ctx < 1" "rc_entries_today ctx < 4" "rc_consecutive_losses ctx < 2" "\<not> rc_loss_latch_active ctx"
proof -
  obtain drawdown stop_points where "clear_gates (risk_gates intent broker ctx drawdown stop_points)"
    using assms by (rule evaluate_risk_allowed)
  then show "rc_open_position_count ctx < 1" "rc_entries_today ctx < 4" "rc_consecutive_losses ctx < 2" "\<not> rc_loss_latch_active ctx"
    by (simp_all add: risk_gates_def session_gates_def loss_gates_def MAX_OPEN_POSITIONS_def MAX_ENTRIES_PER_DAY_def
        Risk.LOSS_LATCH_COUNT_def)
qed



section \<open>A sample context\<close>

definition sample_lane :: context_expectation where
  "sample_lane =
     \<lparr>ce_account_id = ''acct'', ce_server = ''srv'', ce_environment = ''DEMO'', ce_symbol = ''EURUSD'',
      ce_broker_symbol = ''EURUSD'', ce_mode = ''DEMO'', ce_permit_symbols = [''EURUSD''],
      ce_account_runtime_identity_sha256 = sample_hash, ce_broker_spec_sha256 = BrokerSpec_content_sha256 sample_broker,
      ce_journal_sha256 = sample_hash, ce_commit_sha = sample_hash, ce_config_sha256 = sample_hash,
      ce_model_artifact_sha256 = sample_hash, ce_promotion_evidence_sha256 = sample_hash,
      ce_calibration_data_window_sha256 = sample_hash, ce_runtime_fact_key_id = ''fact-key'',
      ce_exposure_key_id = ''exposure-key'', ce_calibration_key_id = ''calibration-key''\<rparr>"

definition sample_keys :: proof_keys where
  "sample_keys =
     \<lparr>pk_risk_state = (\<lambda>k. Inr sample_secret), pk_runtime_fact = (\<lambda>k. Inr sample_secret),
      pk_exposure = (\<lambda>k. Inr sample_secret), pk_calibration = (\<lambda>k. Inr sample_secret)\<rparr>"

definition sample_state :: DerivedState where
  "sample_state =
     \<lparr>dv_event_sequence = 1, dv_head_hmac_sha256 = sample_hash, dv_latest_event_at_utc = sample_bar,
      dv_daily_baseline_id = ''day-1'', dv_weekly_baseline_id = ''week-1'', dv_daily_baseline_equity = Fin 10000,
      dv_weekly_baseline_equity = Fin 10000, dv_current_equity = Fin 10000, dv_high_water_equity = Fin 10000,
      dv_entries_today = 0, dv_consecutive_losses = 0, dv_loss_latch_active = False, dv_source_verified = True,
      dv_source_evidence_count = 1, dv_latest_source_receipt_sha256 = sample_hash,
      dv_source_receipt_chain_sha256 = sample_hash, dv_latest_source_issuer_id = ''issuer'',
      dv_latest_source_key_id = ''source-key''\<rparr>"

definition unsigned_state_receipt :: RiskStateReceipt where
  "unsigned_state_receipt =
     \<lparr>rr_ledger_id = ''risk-0'', rr_binding = \<lparr>lb_account_id_sha256 = sha256_hex ''acct'', lb_server = ''srv'',
        lb_environment = ''DEMO'', lb_journal_sha256 = sample_hash,
        lb_broker_spec_sha256 = BrokerSpec_content_sha256 sample_broker, lb_account_currency = ''USD''\<rparr>,
      rr_key_id = ''ledger-key'', rr_issued_at_utc = sample_now, rr_state = sample_state,
      rr_receipt_hmac_sha256 = [], rr_schema_version = RECEIPT_SCHEMA_VERSION\<rparr>"

definition sample_state_receipt :: RiskStateReceipt where
  "sample_state_receipt = unsigned_state_receipt
     \<lparr>rr_receipt_hmac_sha256 := risk_hmac sample_secret (hmac_domain ''RECEIPT'') (receipt_signing_payload unsigned_state_receipt)\<rparr>"

definition unsigned_exposure :: ExposureReceipt where
  "unsigned_exposure =
     \<lparr>xr_account_id = ''acct'', xr_server = ''srv'', xr_environment = ''DEMO'',
      xr_account_runtime_identity_sha256 = sample_hash, xr_journal_sha256 = sample_hash, xr_active_orders = [],
      xr_active_positions = [], xr_active_order_count = 0, xr_active_position_count = 0, xr_reserved_canonical_symbols = [],
      xr_reconciliation_clean = True, xr_key_id = ''exposure-key'', xr_observed_at_utc = sample_now,
      xr_valid_until_utc = dt_add sample_now (seconds 1), xr_signature = [], xr_live_allowed = False,
      xr_safe_to_demo_auto_order = False, xr_schema_version = EXPOSURE_RECEIPT_SCHEMA_VERSION\<rparr>"

definition unsigned_calibration :: RiskCalibrationReceipt where
  "unsigned_calibration =
     \<lparr>cr_account_id = ''acct'', cr_server = ''srv'', cr_environment = ''DEMO'', cr_symbol = ''EURUSD'',
      cr_broker_symbol = ''EURUSD'', cr_account_runtime_identity_sha256 = sample_hash,
      cr_broker_spec_sha256 = BrokerSpec_content_sha256 sample_broker, cr_config_sha256 = sample_hash,
      cr_data_window_sha256 = sample_hash, cr_data_window_start_utc = dt_add sample_now (- minutes (19 * 24 * 60)),
      cr_data_window_end_utc = sample_now, cr_session_count = 20, cr_sample_count = 20, cr_median_spread_points = Fin 8,
      cr_p95_spread_points = Fin 16, cr_p95_slippage_points = Fin 0, cr_key_id = ''calibration-key'',
      cr_issued_at_utc = sample_now, cr_valid_until_utc = dt_add sample_now (seconds 1), cr_signature = [],
      cr_live_allowed = False, cr_safe_to_demo_auto_order = False, cr_schema_version = CALIBRATION_RECEIPT_SCHEMA_VERSION\<rparr>"

definition sample_guard :: MarketGuardDecision where
  "sample_guard =
     \<lparr>mg_evaluated_at = sample_now, mg_symbol = ''EURUSD'', mg_news_clear = True, mg_rollover_clear = True,
      mg_feed_fresh = True, mg_reason_codes = [], mg_news_feed_payload_sha256 = sample_hash,
      mg_news_feed_signature = sample_hash, mg_news_provider_name = ''news'', mg_news_signing_key_id = ''news-key'',
      mg_news_coverage_start_at = None, mg_news_coverage_end_at = None, mg_broker_rollover_at = sample_bar\<rparr>"

definition sample_validation :: PermitValidation where
  "sample_validation =
     \<lparr>pv_valid = True, pv_reason_codes = [], pv_checked_at = sample_now, pv_permit_id = ''permit'',
      pv_signature_valid = True, pv_binding_valid = True, pv_time_valid = True, pv_mode = ''DEMO'',
      pv_account_alias_sha256 = sha256_hex ''acct'', pv_server = ''srv'', pv_symbols = [''EURUSD''],
      pv_commit_sha = sample_hash, pv_config_sha256 = sample_hash, pv_model_artifact_sha256 = sample_hash,
      pv_journal_sha256 = sample_hash, pv_promotion_evidence_sha256 = sample_hash, pv_schema_version = ''permit-v1'',
      pv_issued_at = sample_now, pv_expires_at = dt_add sample_now (seconds 1), pv_execution_authorized = False,
      pv_can_unlock = False, pv_live_allowed = False, pv_safe_to_demo_auto_order = False\<rparr>"

lemma more_sample_words [simp]:
  "require_text name ''exposure-key'' False = Inr ''exposure-key''" "norm_text False ''exposure-key'' = ''exposure-key''"
  "require_text name ''calibration-key'' False = Inr ''calibration-key''" "norm_text False ''calibration-key'' = ''calibration-key''"
  "require_text name ''permit'' False = Inr ''permit''" "norm_text False ''permit'' = ''permit''"
  by (simp_all add: require_text_def upper_evals)

lemma sample_later [simp]:
  "require_utc name (dt_add sample_now x) = Inr (dt_add sample_now x)" "is_utc (dt_add sample_now x)"
  by (simp_all add: require_utc_Inr sample_now_def sample_bar_def dt_add_def utc_at_def is_utc_def)

lemma sample_exposure_built:
  assumes "norm_hash s = s" and "signature_check s = None"
  shows "ExposureReceipt_init (unsigned_exposure\<lparr>xr_signature := s\<rparr>) = Inr (unsigned_exposure\<lparr>xr_signature := s\<rparr>)"
  using assms
  by (simp add: ExposureReceipt_init_def unsigned_exposure_def checked_Inr_iff exposure_identity_checks_def
      exposure_inventory_checks_def exposure_window_checks_def normalize_exposures_checks_def context_symbols_checks_def
      context_environments_def normalize_exposures_def normalize_symbols_def
      require_int.simps dt_sub_def SHORT_LIVED_RECEIPT_MAX_AGE_def seconds_def Let_def)

lemma sample_calibration_built:
  assumes "norm_hash s = s" and "signature_check s = None"
  shows "RiskCalibrationReceipt_init (unsigned_calibration\<lparr>cr_signature := s\<rparr>) = Inr (unsigned_calibration\<lparr>cr_signature := s\<rparr>)"
  using assms
  by (simp add: RiskCalibrationReceipt_init_def unsigned_calibration_def checked_Inr_iff calibration_checks_def
      context_environments_def require_int.simps require_finite.simps finite_bounds_def dt_sub_def dt_lt_def dt_le_def
      CALIBRATION_RECEIPT_MAX_AGE_def seconds_def minutes_def Let_def fl_le_def BrokerSpec_content_sha256_def canonical_sha256_def)

lemma signature_checks [simp]: "signature_check (hmac_sha256_hex k m) = None" "signature_check [] = None" "norm_hash [] = []"
  by (simp_all add: signature_check_def)

lemma sample_exposure_signed:
  obtains x where "exposure_sign unsigned_exposure sample_secret = Inr x"
    "exposure_verify_signature x sample_secret = Inr True" "x = unsigned_exposure\<lparr>xr_signature := xr_signature x\<rparr>"
proof -
  have built: "ExposureReceipt_init unsigned_exposure = Inr unsigned_exposure"
    using sample_exposure_built [of "[]"] by (simp add: unsigned_exposure_def)
  obtain x where x: "exposure_sign unsigned_exposure sample_secret = Inr x" "x = unsigned_exposure\<lparr>xr_signature := xr_signature x\<rparr>"
    using sample_exposure_built
    by (simp add: exposure_sign_def signing_hmac_def receipt_secret_bytes_def sample_secret_def)
  then show thesis using exposure_signing.roundtrip [OF built TrueI x(1)] by (intro that)
qed

lemma sample_calibration_signed:
  obtains x where "calibration_sign unsigned_calibration sample_secret = Inr x"
    "calibration_verify_signature x sample_secret = Inr True" "x = unsigned_calibration\<lparr>cr_signature := cr_signature x\<rparr>"
proof -
  have built: "RiskCalibrationReceipt_init unsigned_calibration = Inr unsigned_calibration"
    using sample_calibration_built [of "[]"] by (simp add: unsigned_calibration_def)
  obtain x where x: "calibration_sign unsigned_calibration sample_secret = Inr x"
    "x = unsigned_calibration\<lparr>cr_signature := cr_signature x\<rparr>"
    using sample_calibration_built
    by (simp add: calibration_sign_def signing_hmac_def receipt_secret_bytes_def sample_secret_def)
  then show thesis using calibration_signing.roundtrip [OF built TrueI x(1)] by (intro that)
qed

lemma sample_state_verified: "verify_risk_state_receipt sample_state_receipt (pk_risk_state sample_keys)"
proof -
  have "receipt_signing_payload sample_state_receipt = receipt_signing_payload unsigned_state_receipt"
    by (simp add: receipt_signing_payload_def RiskStateReceipt_dict_def sample_state_receipt_def json_pop_def Let_def)
  then show ?thesis
    by (simp add: verify_risk_state_receipt_def sample_keys_def ledger_key_def sample_secret_def)
      (simp add: sample_state_receipt_def sample_secret_def)
qed

lemma sample_lane_ok:
  "list_all (\<lambda>c. c = None) (context_expectation_checks sample_lane)" "normalize_context_expectation sample_lane = sample_lane"
  by (simp_all add: context_expectation_checks_def normalize_context_expectation_def sample_lane_def context_symbols_checks_def
      normalize_symbols_def execution_modes_def BrokerSpec_content_sha256_def canonical_sha256_def)

lemma sample_fact:
  obtains r where "collect sample_collector (sample_sources False) ''EURUSD'' ''EURUSD'' = Inr r"
    "RuntimeFactReceipt_init r = Inr r" "hd_healthy (rf_health_decision r)"
    "verify_runtime_fact_receipt r (fact_expectation_of sample_lane) (pk_runtime_fact sample_keys) (Inr (Some sample_now)) = Inr r"
    "rf_broker_spec r = sample_broker" "rf_account_fact r = sample_account_fact" "rf_tick r = sample_tick_fact"
    "rf_valid_until_utc r = dt_add sample_now (seconds 1)"
    "rf_health_facts_sha256 r = sha256_hex (canonical_json (RuntimeHealthFacts_dict (rf_health_facts r)))"
    "rf_health_decision_sha256 r = sha256_hex (canonical_json (RuntimeHealthDecision_dict (rf_health_decision r)))"
proof -
  obtain u decision binding_sha where decision: "evaluate_runtime_health (sample_health_facts False) = Inr decision"
    and u: "u = unsigned_receipt sample_collector ''EURUSD'' ''EURUSD'' sample_broker_facts (sample_host_facts False)
      sample_tick_fact (sample_health_facts False) decision binding_sha"
    and collected: "collect sample_collector (sample_sources False) ''EURUSD'' ''EURUSD'' = Inr (u\<lparr>rf_signature := fact_hmac sample_secret u\<rparr>)"
    by (rule sample_collects)
  define r where "r = u\<lparr>rf_signature := fact_hmac sample_secret u\<rparr>"
  have r: "collect sample_collector (sample_sources False) ''EURUSD'' ''EURUSD'' = Inr r" using collected by (simp add: r_def)
  obtain secret where built: "RuntimeFactReceipt_init r = Inr r"
    and key: "fc_key_provider sample_collector (fc_key_id sample_collector) = Inr secret" "32 \<le> length secret"
      "fact_verify_signature r secret = Inr True"
    using r by (rule collected_receipt)
  note defs = r_def u unsigned_receipt_def sample_broker_facts_def sample_host_facts_def sample_collector_def
  have fields: "rf_broker_spec r = sample_broker" "rf_account_fact r = sample_account_fact" "rf_tick r = sample_tick_fact"
    "rf_observed_at_utc r = sample_now" "rf_valid_until_utc r = dt_add sample_now (seconds 1)" "rf_health_decision r = decision"
    "rf_health_facts_sha256 r = sha256_hex (canonical_json (RuntimeHealthFacts_dict (rf_health_facts r)))"
    "rf_health_decision_sha256 r = sha256_hex (canonical_json (RuntimeHealthDecision_dict (rf_health_decision r)))"
    by (simp_all add: defs RUNTIME_FACT_RECEIPT_MAX_AGE_def canonical_sha256_def)
  have "fact_expectation_of sample_lane = expectation_for r"
    by (simp add: fact_expectation_of_def sample_lane_def expectation_for_def defs) (simp add: sample_broker_def)
  moreover have "pk_runtime_fact sample_keys (rf_key_id r) = Inr secret"
    using key(1) by (simp add: sample_keys_def sample_collector_def)
  then have "verify_runtime_fact_receipt r (expectation_for r) (pk_runtime_fact sample_keys) (Inr (Some sample_now)) = Inr r"
    using verify_fact_accepts [OF built _ key(2,3)] fields(4,5) by (simp add: dt_le_def dt_lt_def seconds_def)
  moreover have "hd_healthy decision"
    using decision
    by (simp add: evaluate_health_cases health_clear_iff) (simp add: sample_health_facts_def dt_sub_def seconds_def)
  ultimately show thesis using r built fields by (intro that [of r]) simp_all
qed

definition sample_proof_set :: "RuntimeFactReceipt \<Rightarrow> ExposureReceipt \<Rightarrow> RiskCalibrationReceipt \<Rightarrow> risk_proofs" where
  "sample_proof_set r x y =
     \<lparr>rp_risk_state = sample_state_receipt, rp_runtime_fact = r, rp_exposure = x, rp_calibration = y,
      rp_market_guard = sample_guard, rp_permit = sample_validation, rp_conversion = None\<rparr>"

lemma sample_alias: "account_alias_sha256 (ce_account_id sample_lane) = Inr (sha256_hex ''acct'')"
  by (simp add: account_alias_sha256_def sample_lane_def)

lemma sample_gates_clear:
  assumes "verify_runtime_fact_receipt r (fact_expectation_of sample_lane) (pk_runtime_fact sample_keys) (Inr (Some sample_now)) = Inr r"
    and "rf_broker_spec r = sample_broker" and "rf_account_fact r = sample_account_fact" and "hd_healthy (rf_health_decision r)"
    and "exposure_verify_signature x sample_secret = Inr True" and "x = unsigned_exposure\<lparr>xr_signature := xr_signature x\<rparr>"
    and "calibration_verify_signature y sample_secret = Inr True" and "y = unsigned_calibration\<lparr>cr_signature := cr_signature y\<rparr>"
  shows "proof_reasons (sample_proof_set r x y) sample_keys sample_lane (sha256_hex ''acct'') sample_now = []"
proof -
  have x: "xr_account_id x = ''acct''" "xr_server x = ''srv''" "xr_environment x = ''DEMO''" "xr_journal_sha256 x = sample_hash"
    "xr_account_runtime_identity_sha256 x = sample_hash" "xr_key_id x = ''exposure-key''" "xr_reconciliation_clean x"
    "xr_active_orders x = []" "xr_active_positions x = []" "xr_active_order_count x = 0" "xr_active_position_count x = 0"
    "xr_observed_at_utc x = sample_now" "xr_valid_until_utc x = dt_add sample_now (seconds 1)"
    by (subst assms(6), simp add: unsigned_exposure_def)+
  have y: "cr_account_id y = ''acct''" "cr_server y = ''srv''" "cr_environment y = ''DEMO''" "cr_symbol y = ''EURUSD''"
    "cr_broker_symbol y = ''EURUSD''" "cr_account_runtime_identity_sha256 y = sample_hash"
    "cr_broker_spec_sha256 y = BrokerSpec_content_sha256 sample_broker" "cr_config_sha256 y = sample_hash"
    "cr_data_window_sha256 y = sample_hash" "cr_key_id y = ''calibration-key''" "cr_issued_at_utc y = sample_now"
    "cr_valid_until_utc y = dt_add sample_now (seconds 1)" "cr_session_count y = 20" "cr_sample_count y = 20"
    "cr_data_window_start_utc y = dt_add sample_now (- minutes (19 * 24 * 60))" "cr_data_window_end_utc y = sample_now"
    "cr_median_spread_points y = Fin 8" "cr_p95_spread_points y = Fin 16"
    by (subst assms(8), simp add: unsigned_calibration_def)+
  note evals = sample_keys_def sample_lane_def dt_le_def dt_lt_def dt_sub_def seconds_def Let_def
  have "clear_gates (risk_state_gates sample_state_receipt (pk_risk_state sample_keys) sample_now)"
    using sample_state_verified
    by (simp add: risk_state_gates_def) (simp add: sample_state_receipt_def unsigned_state_receipt_def dt_sub_def seconds_def)
  moreover have "clear_gates (exposure_gates x sample_lane (pk_exposure sample_keys) sample_now)"
    using assms(5) by (simp add: exposure_gates_def signature_valid_iff x evals)
  moreover have "clear_gates (calibration_gates y sample_lane (pk_calibration sample_keys) sample_now)"
    using assms(7)
    by (simp add: calibration_gates_def signature_valid_iff y evals MINIMUM_CALIBRATION_SESSIONS_def MINIMUM_CALIBRATION_WINDOW_def)
  moreover have "clear_gates (guard_gates sample_guard sample_lane sample_now)"
    by (simp add: guard_gates_def sample_guard_def evals)
  moreover have "clear_gates (permit_gates sample_validation sample_lane (sha256_hex ''acct'') sample_now)"
    by (simp add: permit_gates_def permit_bound_def sample_validation_def evals)
  moreover have "clear_gates (risk_binding_gates sample_state_receipt r sample_lane (sha256_hex ''acct''))"
    using assms(2-4)
    by (simp add: risk_binding_gates_def sample_state_receipt_def unsigned_state_receipt_def sample_state_def
        sample_account_fact_def sample_lane_def Let_def) (simp add: sample_broker_def)
  moreover have "clear_gates (conversion_gates None (rf_account_fact r) sample_lane sample_now)"
    using assms(3) by (simp add: conversion_gates_def sample_account_fact_def)
  ultimately show ?thesis using assms(1) by (simp add: proof_reasons_Nil sample_proof_set_def)
qed

lemma sample_context_built:
  assumes "p = sample_proof_set r x y" and "x = unsigned_exposure\<lparr>xr_signature := xr_signature x\<rparr>"
    and "y = unsigned_calibration\<lparr>cr_signature := cr_signature y\<rparr>"
  shows "RiskContext_init (context_of p sample_lane sample_now (Fin 0)) = Inr (context_of p sample_lane sample_now (Fin 0))"
proof -
  have "xr_active_order_count x = 0" "xr_active_position_count x = 0" "xr_reserved_canonical_symbols x = []"
    by (subst assms(2), simp add: unsigned_exposure_def)+
  moreover have "cr_median_spread_points y = Fin 8" "cr_p95_spread_points y = Fin 16" "cr_p95_slippage_points y = Fin 0"
    by (subst assms(3), simp add: unsigned_calibration_def)+
  ultimately show ?thesis
    by (simp add: RiskContext_init_def context_of_def assms(1) sample_proof_set_def sample_state_receipt_def
        unsigned_state_receipt_def sample_state_def sample_lane_def sample_guard_def Let_def checked_Inr_iff execution_modes_def
        normalize_symbols_checks_def normalize_symbols_def res_simps fl_le_def)
qed

lemma sample_window:
  assumes "p = sample_proof_set r x y" and "x = unsigned_exposure\<lparr>xr_signature := xr_signature x\<rparr>"
    and "y = unsigned_calibration\<lparr>cr_signature := cr_signature y\<rparr>" and "rf_valid_until_utc r = dt_add sample_now (seconds 1)"
  shows "context_valid_until p sample_now = dt_add sample_now (seconds 1)"
proof -
  have "xr_valid_until_utc x = dt_add sample_now (seconds 1)" "cr_valid_until_utc y = dt_add sample_now (seconds 1)"
    by (subst assms(2), simp add: unsigned_exposure_def) (subst assms(3), simp add: unsigned_calibration_def)
  then show ?thesis
    using assms(4)
    by (simp add: context_valid_until_def assms(1) sample_proof_set_def sample_state_receipt_def unsigned_state_receipt_def
        sample_guard_def sample_validation_def conversion_valid_until_def SHORT_LIVED_RECEIPT_MAX_AGE_def dt_lt_def)
qed

lemma identity_conversion_hash [simp]:
  "require_hash name IDENTITY_CONVERSION_SHA256 64 = Inr IDENTITY_CONVERSION_SHA256"
  "norm_hash IDENTITY_CONVERSION_SHA256 = IDENTITY_CONVERSION_SHA256"
  by (simp_all add: IDENTITY_CONVERSION_SHA256_def require_hash_hex norm_hash_hex list.pred_set is_hex_lower_def)

lemma sample_proofs:
  obtains p v where "create_verified_risk_context p sample_lane sample_keys (Inr (Some sample_now)) = Inr v"
    "RuntimeFactReceipt_init (rp_runtime_fact p) = Inr (rp_runtime_fact p)" "vc_symbol v = ''EURUSD''"
    "vc_permit_symbols v = [''EURUSD'']" "vc_evaluated_at_utc v = sample_now"
    "vc_valid_until_utc v = dt_add sample_now (seconds 1)" "rc_equity (vc_context v) = Fin 10000"
proof -
  obtain r where r: "RuntimeFactReceipt_init r = Inr r" "hd_healthy (rf_health_decision r)"
    "verify_runtime_fact_receipt r (fact_expectation_of sample_lane) (pk_runtime_fact sample_keys) (Inr (Some sample_now)) = Inr r"
    "rf_broker_spec r = sample_broker" "rf_account_fact r = sample_account_fact" "rf_tick r = sample_tick_fact"
    "rf_valid_until_utc r = dt_add sample_now (seconds 1)"
    "rf_health_facts_sha256 r = sha256_hex (canonical_json (RuntimeHealthFacts_dict (rf_health_facts r)))"
    "rf_health_decision_sha256 r = sha256_hex (canonical_json (RuntimeHealthDecision_dict (rf_health_decision r)))"
    by (rule sample_fact)
  obtain x where x: "exposure_verify_signature x sample_secret = Inr True" "x = unsigned_exposure\<lparr>xr_signature := xr_signature x\<rparr>"
    by (rule sample_exposure_signed)
  obtain y where y: "calibration_verify_signature y sample_secret = Inr True" "y = unsigned_calibration\<lparr>cr_signature := cr_signature y\<rparr>"
    by (rule sample_calibration_signed)
  define p where "p = sample_proof_set r x y"
  define ctx where "ctx = context_of p sample_lane sample_now (Fin 0)"
  define v where "v = verified_of p sample_lane sample_now (dt_add sample_now (seconds 1)) ctx"
  have p: "rp_runtime_fact p = r" "rp_permit p = sample_validation" "rp_conversion p = None"
    by (simp_all add: p_def sample_proof_set_def)
  have "VerifiedRiskContext_init True v = Inr v"
    by (simp add: VerifiedRiskContext_init_def verified_context_checks_def v_def verified_of_def checked_Inr_iff p r(8,9)
        canonical_sha256_def conversion_sha_def context_symbols_checks_def normalize_symbols_def
        sample_validation_def ctx_def context_of_def Let_def dt_le_def dt_eq_def seconds_def)
      (simp add: sample_lane_def BrokerSpec_content_sha256_def canonical_sha256_def)
  moreover have "fl_div (fl_sub (tf_ask (rf_tick r)) (tf_bid (rf_tick r))) (bs_point (rf_broker_spec r)) = Inr (Fin 0)"
    by (simp add: r(4,6) sample_tick_fact_def sample_broker_def)
  moreover have "dt_lt sample_now (dt_add sample_now (seconds 1))" by (simp add: dt_lt_def seconds_def)
  ultimately have "create_verified_risk_context p sample_lane sample_keys (Inr (Some sample_now)) = Inr v"
    using sample_gates_clear [OF r(3,4,5,2) x y] sample_context_built [OF p_def x(2) y(2)] sample_window [OF p_def x(2) y(2) r(7)]
      sample_lane_ok sample_alias
    by (intro create_ok [where spread = "Fin 0" and ctx = ctx and e = sample_lane])
      (simp_all add: p p_def [symmetric] ctx_def [symmetric] v_def [symmetric])
  then show thesis
    by (rule that)
      (simp_all add: p r v_def verified_of_def sample_lane_def sample_validation_def ctx_def context_of_def p_def sample_proof_set_def
        sample_state_receipt_def unsigned_state_receipt_def sample_state_def Let_def)
qed



theorem context_use_fresh_witness:
  "\<exists>p v ctx. create_verified_risk_context p sample_lane sample_keys (Inr (Some sample_now)) = Inr v
     \<and> require_verified_risk_context v sample_now (use_for v) (rf_broker_spec (rp_runtime_fact p))
         (rf_health_facts (rp_runtime_fact p)) (rp_market_guard p) = Inr ctx
     \<and> ctx = vc_context v \<and> dt_lt sample_now (pv_expires_at (rp_permit p))"
proof -
  obtain p v where v: "create_verified_risk_context p sample_lane sample_keys (Inr (Some sample_now)) = Inr v"
    "RuntimeFactReceipt_init (rp_runtime_fact p) = Inr (rp_runtime_fact p)" "vc_symbol v = ''EURUSD''"
    "vc_permit_symbols v = [''EURUSD'']" "vc_evaluated_at_utc v = sample_now" "vc_valid_until_utc v = dt_add sample_now (seconds 1)"
    by (rule sample_proofs)
  have "require_verified_risk_context v sample_now (use_for v) (rf_broker_spec (rp_runtime_fact p))
      (rf_health_facts (rp_runtime_fact p)) (rp_market_guard p) = Inr (vc_context v)"
    using v by (intro created_context_accepted [OF v(1,2)]) (simp_all add: dt_le_def dt_lt_def seconds_def)
  with context_use_fresh [OF v(1) this] v(1) show ?thesis by blast
qed

end
