(* ===== verification/Account_Fence.thy ===== *)
theory Account_Fence
  imports Mt5_Contracts Interfaces
begin

text \<open>
  \<open>live_runtime/account_fence.py\<close>: the account-wide fence that lets at most one runtime act on a broker
  account, whatever journal each runtime is configured with.

  The state is what the operating system and the processes hold: the fences of every process (a fence is
  named by its process and its object, which is also its \<open>_owner_token\<close>), the \<open>_PROCESS_OWNERS\<close> of each
  process, the lock files locked by an open file (\<open>fcntl.flock\<close>) and the open handles of named mutexes
  (\<open>CreateMutexW\<close>). \<open>_PROCESS_LOCK\<close> makes one call of \<open>acquire\<close> or \<open>close\<close> a step. How the operating
  system answers a call (\<open>os_reply\<close>) is an argument; a crash closes the files and handles of a process.
\<close>

section \<open>Identity\<close>

text \<open>\<open>broker_login\<close> is the text of the login; a missing login or the number 0 is the empty text.\<close>

definition account_runtime_identity :: "string \<Rightarrow> string \<Rightarrow> string \<Rightarrow> string res" where
  "account_runtime_identity broker_login server environment =
     (let account = str_strip broker_login; broker_server = str_strip server;
          broker_environment = str_upper (str_strip environment); nul = char_of (0::nat) in
      if account = [] \<or> broker_server = [] \<or> broker_environment \<notin> {''DEMO'', ''LIVE'', ''LIVE_READ_ONLY''}
      then Inl (ValueError ''broker login, server, and environment are required'')
      else Inr (sha256_hex (account @ [nul] @ broker_server @ [nul] @ broker_environment)))"

section \<open>The fence\<close>

type_synonym process = nat
type_synonym fence_id = "process \<times> nat"
type_synonym handle = nat

record AccountRuntimeFence =
  fe_identity_sha256 :: string
  fe_file :: "handle option"
  fe_windows_handle :: "handle option"
  fe_acquired :: bool

definition AccountRuntimeFence_init :: "string \<Rightarrow> AccountRuntimeFence res" where
  "AccountRuntimeFence_init identity_sha256 =
     (let normalized = str_lower (str_strip identity_sha256) in
      if \<not> is_sha256_hex normalized then Inl (ValueError ''account runtime identity must be SHA-256'')
      else Inr \<lparr>fe_identity_sha256 = normalized, fe_file = None, fe_windows_handle = None, fe_acquired = False\<rparr>)"

record fence_host =
  fh_nt :: bool
  fh_tempdir :: "process \<Rightarrow> string"

record fence_world =
  fw_fences :: "fence_id \<Rightarrow> AccountRuntimeFence option"
  fw_owners :: "process \<Rightarrow> string \<Rightarrow> fence_id option"
  fw_flocks :: "string \<Rightarrow> handle option"
  fw_mutexes :: "handle \<Rightarrow> string option"
  fw_next :: handle

definition lock_path :: "string \<Rightarrow> string \<Rightarrow> string" where
  "lock_path tempdir identity = tempdir @ ''/ai_scalper_account_runtime_locks/'' @ identity @ ''.lock''"

definition mutex_name :: "string \<Rightarrow> string" where
  "mutex_name identity = ''Global'' @ [char_of (92::nat)] @ ''AI_SCALPER_ACCOUNT_'' @ str_upper identity"

text \<open>
  The answer of the operating system: the call works as documented, the mutex, directory or file cannot
  be created, or locking the file fails for another reason than contention.
\<close>

datatype os_reply = OsGrants | OsRefuses | OsLockFails

definition acquire_os_lock ::
  "fence_host \<Rightarrow> os_reply \<Rightarrow> process \<Rightarrow> AccountRuntimeFence \<Rightarrow> fence_world \<Rightarrow> (fence_world \<times> AccountRuntimeFence) res" where
  "acquire_os_lock host reply p f w =
     (let h = fw_next w; name = mutex_name (fe_identity_sha256 f);
          path = lock_path (fh_tempdir host p) (fe_identity_sha256 f) in
      if fh_nt host
      then if reply \<noteq> OsGrants then Inl (AccountRuntimeFenceError ''cannot create Windows account mutex'')
           else if \<exists>k<h. fw_mutexes w k = Some name
           then Inl (AccountRuntimeFenceError ''another Windows runtime owns this broker account/server'')
           else Inr (w\<lparr>fw_mutexes := (fw_mutexes w)(h \<mapsto> name), fw_next := Suc h\<rparr>, f\<lparr>fe_windows_handle := Some h\<rparr>)
      else if reply = OsRefuses then Inl (OSError ''cannot open the lock file'')
      else if reply = OsLockFails \<or> fw_flocks w path \<noteq> None
      then Inl (AccountRuntimeFenceError ''another runtime owns this broker account/server'')
      else Inr (w\<lparr>fw_flocks := (fw_flocks w)(path \<mapsto> h), fw_next := Suc h\<rparr>, f\<lparr>fe_file := Some h\<rparr>))"

text \<open>A call that raises leaves the state alone: what it opened it closed.\<close>

definition fence_acquire :: "fence_host \<Rightarrow> os_reply \<Rightarrow> fence_id \<Rightarrow> fence_world \<Rightarrow> fence_world res" where
  "fence_acquire host reply i w =
     (case fw_fences w i of
        None \<Rightarrow> Inl (AttributeError ''no such fence'')
      | Some f \<Rightarrow>
          if fe_acquired f then Inr w
          else if fw_owners w (fst i) (fe_identity_sha256 f) \<noteq> None
          then Inl (AccountRuntimeFenceError ''another runtime owns this broker account/server'')
          else res_bind (acquire_os_lock host reply (fst i) f w) (\<lambda>(w', f').
            Inr (w'\<lparr>fw_owners := (fw_owners w')(fst i := (fw_owners w' (fst i))(fe_identity_sha256 f \<mapsto> i)),
                    fw_fences := (fw_fences w')(i \<mapsto> f'\<lparr>fe_acquired := True\<rparr>)\<rparr>)))"

definition release_handles :: "(handle \<Rightarrow> bool) \<Rightarrow> fence_world \<Rightarrow> fence_world" where
  "release_handles mine w =
     w\<lparr>fw_flocks := (\<lambda>path. case fw_flocks w path of Some h \<Rightarrow> if mine h then None else Some h | None \<Rightarrow> None),
       fw_mutexes := (\<lambda>h. if mine h then None else fw_mutexes w h)\<rparr>"

definition fence_handles :: "AccountRuntimeFence \<Rightarrow> handle set" where
  "fence_handles f = set_option (fe_file f) \<union> set_option (fe_windows_handle f)"

text \<open>
  \<open>unlock_raises\<close>: \<open>flock(LOCK_UN)\<close> raises; \<open>finally\<close> still closes the file, which releases the lock, and
  the fence keeps its \<open>_acquired\<close> flag.
\<close>

definition fence_close :: "bool \<Rightarrow> fence_id \<Rightarrow> fence_world \<Rightarrow> unit res \<times> fence_world" where
  "fence_close unlock_raises i w =
     (case fw_fences w i of
        None \<Rightarrow> (Inl (AttributeError ''no such fence''), w)
      | Some f \<Rightarrow>
          if \<not> fe_acquired f then (Inr (), w)
          else let p = fst i; identity = fe_identity_sha256 f;
                   owners = (if fw_owners w p identity = Some i then (fw_owners w p)(identity := None) else fw_owners w p);
                   raised = unlock_raises \<and> fe_file f \<noteq> None;
                   w' = release_handles (\<lambda>h. h \<in> fence_handles f) w in
               (if raised then Inl (OSError ''flock'') else Inr (),
                w'\<lparr>fw_owners := (fw_owners w')(p := owners),
                   fw_fences := (fw_fences w')(i \<mapsto> f\<lparr>fe_file := None, fe_windows_handle := None,
                                                      fe_acquired := raised\<rparr>)\<rparr>))"

definition process_crash :: "process \<Rightarrow> fence_world \<Rightarrow> fence_world" where
  "process_crash p w =
     (let w' = release_handles (\<lambda>h. \<exists>n f. fw_fences w (p, n) = Some f \<and> h \<in> fence_handles f) w in
      w'\<lparr>fw_fences := (\<lambda>i. if fst i = p then None else fw_fences w i),
         fw_owners := (fw_owners w)(p := Map.empty)\<rparr>)"

inductive fence_step :: "fence_host \<Rightarrow> fence_world \<Rightarrow> fence_world \<Rightarrow> bool" for host where
  fs_new: "AccountRuntimeFence_init identity = Inr f \<Longrightarrow> fw_fences w i = None
    \<Longrightarrow> fence_step host w (w\<lparr>fw_fences := (fw_fences w)(i \<mapsto> f)\<rparr>)"
| fs_acquire: "fence_acquire host reply i w = Inr w' \<Longrightarrow> fence_step host w w'"
| fs_close: "fence_close unlock_raises i w = (r, w') \<Longrightarrow> fence_step host w w'"
| fs_crash: "fence_step host w (process_crash p w)"

inductive_cases fence_stepE: "fence_step host w w'"

definition fence_start :: "fence_world \<Rightarrow> bool" where
  "fence_start w =
     (fw_fences w = Map.empty \<and> fw_owners w = (\<lambda>p. Map.empty) \<and> fw_flocks w = Map.empty
      \<and> fw_mutexes w = Map.empty)"

definition holds_account :: "AccountRuntimeFence \<Rightarrow> bool" where
  "holds_account f = (fe_file f \<noteq> None \<or> fe_windows_handle f \<noteq> None)"

interpretation fence: transition_system fence_start "fence_step host"
  for host .

section \<open>The invariant\<close>

text \<open>A handle in use names the lock of its own fence, is below the next one and belongs to one fence.\<close>

definition lock_recorded :: "fence_host \<Rightarrow> fence_world \<Rightarrow> fence_id \<Rightarrow> AccountRuntimeFence \<Rightarrow> bool" where
  "lock_recorded host w i f =
     (is_sha256_hex (fe_identity_sha256 f)
      \<and> (\<forall>h. fe_file f = Some h \<longrightarrow> \<not> fh_nt host
           \<and> fw_flocks w (lock_path (fh_tempdir host (fst i)) (fe_identity_sha256 f)) = Some h)
      \<and> (\<forall>h. fe_windows_handle f = Some h \<longrightarrow> fh_nt host \<and> fw_mutexes w h = Some (mutex_name (fe_identity_sha256 f))))"

definition fence_inv :: "fence_host \<Rightarrow> fence_world \<Rightarrow> bool" where
  "fence_inv host w =
     ((\<forall>i f. fw_fences w i = Some f \<longrightarrow> lock_recorded host w i f)
      \<and> (\<forall>i j f g. fw_fences w i = Some f \<longrightarrow> fw_fences w j = Some g \<longrightarrow> i \<noteq> j
           \<longrightarrow> fence_handles f \<inter> fence_handles g = {})
      \<and> (\<forall>i f. fw_fences w i = Some f \<longrightarrow> (\<forall>h\<in>fence_handles f. h < fw_next w))
      \<and> (\<forall>h name. fw_mutexes w h = Some name \<longrightarrow> h < fw_next w)
      \<and> (\<forall>h k name. fw_mutexes w h = Some name \<longrightarrow> fw_mutexes w k = Some name \<longrightarrow> h = k))"

lemma fence_invI:
  assumes "\<And>i f. fw_fences w i = Some f \<Longrightarrow> lock_recorded host w i f"
    and "\<And>i j f g. fw_fences w i = Some f \<Longrightarrow> fw_fences w j = Some g \<Longrightarrow> i \<noteq> j \<Longrightarrow> fence_handles f \<inter> fence_handles g = {}"
    and "\<And>i f h. fw_fences w i = Some f \<Longrightarrow> h \<in> fence_handles f \<Longrightarrow> h < fw_next w"
    and "\<And>h name. fw_mutexes w h = Some name \<Longrightarrow> h < fw_next w"
    and "\<And>h k name. fw_mutexes w h = Some name \<Longrightarrow> fw_mutexes w k = Some name \<Longrightarrow> h = k"
  shows "fence_inv host w"
  using assms unfolding fence_inv_def by blast

lemma fence_invD:
  assumes "fence_inv host w"
  shows "fw_fences w i = Some f \<Longrightarrow> lock_recorded host w i f"
    and "fw_fences w i = Some f \<Longrightarrow> fw_fences w j = Some g \<Longrightarrow> i \<noteq> j \<Longrightarrow> fence_handles f \<inter> fence_handles g = {}"
    and "fw_fences w i = Some f \<Longrightarrow> h \<in> fence_handles f \<Longrightarrow> h < fw_next w"
    and "fw_mutexes w h = Some name \<Longrightarrow> h < fw_next w"
    and "fw_mutexes w h = Some name \<Longrightarrow> fw_mutexes w k = Some name \<Longrightarrow> h = k"
  using assms unfolding fence_inv_def by blast+

text \<open>A fence that is not acquired holds nothing.\<close>

definition idle_free :: "fence_world \<Rightarrow> bool" where
  "idle_free w = (\<forall>i f. fw_fences w i = Some f \<longrightarrow> \<not> fe_acquired f \<longrightarrow> fence_handles f = {})"

lemma idle_freeD: "idle_free w \<Longrightarrow> fw_fences w i = Some f \<Longrightarrow> \<not> fe_acquired f \<Longrightarrow> fence_handles f = {}"
  unfolding idle_free_def by blast

lemma fence_acquire_fences:
  assumes "fence_acquire host reply i w = Inr w'" and "fw_fences w' j = Some g"
  shows "fw_fences w j = Some g \<or> fe_acquired g"
  using assms
  by (auto simp: fence_acquire_def acquire_os_lock_def Let_def res_bind_Inr_iff split: option.splits if_splits)

lemma fence_close_fences:
  assumes "fence_close unlock_raises i w = (r, w')" and "fw_fences w' j = Some g"
  shows "fw_fences w j = Some g \<or> fence_handles g = {}"
  using assms
  by (auto simp: fence_close_def release_handles_def fence_handles_def Let_def split: option.splits if_splits)

lemma idle_free_step: "fence_step host w w' \<Longrightarrow> idle_free w \<Longrightarrow> idle_free w'"
proof (induction rule: fence_step.induct)
  case (fs_new identity f w i)
  then have "fence_handles f = {}"
    by (auto simp: AccountRuntimeFence_init_def fence_handles_def Let_def split: if_splits)
  with fs_new show ?case by (simp add: idle_free_def)
next
  case (fs_acquire reply i w w')
  then show ?case using fence_acquire_fences [OF fs_acquire(1)] unfolding idle_free_def by blast
next
  case (fs_close unlock_raises i w r w')
  then show ?case using fence_close_fences [OF fs_close(1)] unfolding idle_free_def by blast
next
  case (fs_crash w p)
  then show ?case by (simp add: idle_free_def process_crash_def Let_def)
qed

lemma fence_inv_start: "fence_start w \<Longrightarrow> fence_inv host w"
  by (simp add: fence_start_def fence_inv_def)

lemma fence_inv_new:
  assumes inv: "fence_inv host w" and "AccountRuntimeFence_init identity = Inr f"
  shows "fence_inv host (w\<lparr>fw_fences := (fw_fences w)(i \<mapsto> f)\<rparr>)" (is "fence_inv host ?w")
proof -
  have f: "fe_file f = None" "fe_windows_handle f = None" "is_sha256_hex (fe_identity_sha256 f)"
    using assms(2) by (auto simp: AccountRuntimeFence_init_def Let_def split: if_splits)
  have none: "fence_handles f = {}" by (simp add: fence_handles_def f)
  have old: "fw_fences w j = Some g \<or> g = f" if "fw_fences ?w j = Some g" for j g
    using that by (simp split: if_splits)
  show ?thesis
  proof (rule fence_invI)
    show "lock_recorded host ?w j g" if "fw_fences ?w j = Some g" for j g
      using old [OF that] fence_invD(1) [OF inv, of j g] f by (auto simp: lock_recorded_def)
    show "fence_handles g \<inter> fence_handles k = {}" if "fw_fences ?w j = Some g" "fw_fences ?w l = Some k" "j \<noteq> l" for j l g k
      using old [OF that(1)] old [OF that(2)] that(3) fence_invD(2) [OF inv] none by blast
    show "h < fw_next ?w" if "fw_fences ?w j = Some g" "h \<in> fence_handles g" for j g h
      using old [OF that(1)] that(2) fence_invD(3) [OF inv, of j g h] none by auto
  qed (use fence_invD(4,5) [OF inv] in simp_all)
qed

text \<open>Handles are released, and fences only lose handles: those that were released.\<close>

definition loses_handles :: "AccountRuntimeFence \<Rightarrow> AccountRuntimeFence \<Rightarrow> bool" where
  "loses_handles f g =
     (fe_identity_sha256 g = fe_identity_sha256 f \<and> (fe_file g = None \<or> fe_file g = fe_file f)
      \<and> (fe_windows_handle g = None \<or> fe_windows_handle g = fe_windows_handle f))"

lemma loses_subset: "loses_handles f g \<Longrightarrow> fence_handles g \<subseteq> fence_handles f"
  by (auto simp: loses_handles_def fence_handles_def)

lemma lock_recorded_release:
  assumes "lock_recorded host w i f" and "loses_handles f g" and "\<And>h. h \<in> fence_handles g \<Longrightarrow> \<not> mine h"
  shows "lock_recorded host ((release_handles mine w)\<lparr>fw_fences := fences, fw_owners := owners\<rparr>) i g"
  using assms
  by (cases "fe_file g"; cases "fe_windows_handle g")
    (auto simp: lock_recorded_def loses_handles_def release_handles_def fence_handles_def)

lemma fence_inv_release:
  assumes inv: "fence_inv host w"
    and keep: "\<And>i g. fences i = Some g \<Longrightarrow>
      \<exists>f. fw_fences w i = Some f \<and> loses_handles f g \<and> (\<forall>h\<in>fence_handles g. \<not> mine h)"
  shows "fence_inv host ((release_handles mine w)\<lparr>fw_fences := fences, fw_owners := owners\<rparr>)" (is "fence_inv host ?w")
proof -
  have "lock_recorded host ?w i g" if "fences i = Some g" for i g
    using keep [OF that] fence_invD(1) [OF inv] lock_recorded_release by metis
  moreover have "fence_handles f \<inter> fence_handles g = {}"
    if fg: "fences i = Some f" "fences j = Some g" "i \<noteq> j" for i j f g
  proof -
    obtain f' g' where "fw_fences w i = Some f'" "loses_handles f' f" "fw_fences w j = Some g'" "loses_handles g' g"
      using keep fg(1,2) by blast
    moreover from this have "fence_handles f' \<inter> fence_handles g' = {}"
      using fence_invD(2) [OF inv] fg(3) by blast
    ultimately show ?thesis using loses_subset by blast
  qed
  moreover have "h < fw_next w" if "fences i = Some g" "h \<in> fence_handles g" for i g h
    using keep [OF that(1)] that(2) fence_invD(3) [OF inv] loses_subset by blast
  moreover have mutex: "fw_mutexes w h = Some name" if "fw_mutexes ?w h = Some name" for h name
    using that by (simp add: release_handles_def split: if_splits)
  moreover have "fw_fences ?w = fences" "fw_next ?w = fw_next w" by (simp_all add: release_handles_def)
  ultimately show ?thesis using fence_invD(4,5) [OF inv] mutex by (intro fence_invI) (simp, simp, simp, force, blast)
qed

lemma fence_inv_close:
  assumes "fence_inv host w" and "fence_close unlock_raises i w = (r, w')"
  shows "fence_inv host w'"
proof (cases "fw_fences w i")
  case None
  then show ?thesis using assms by (simp add: fence_close_def)
next
  case (Some f)
  show ?thesis
  proof (cases "fe_acquired f")
    case False
    then show ?thesis using assms Some by (simp add: fence_close_def)
  next
    case True
    let ?g = "f\<lparr>fe_file := None, fe_windows_handle := None, fe_acquired := unlock_raises \<and> fe_file f \<noteq> None\<rparr>"
    have w': "w' = (release_handles (\<lambda>h. h \<in> fence_handles f) w)
        \<lparr>fw_fences := (fw_fences w)(i \<mapsto> ?g), fw_owners := fw_owners w'\<rparr>"
      using assms(2) Some True by (simp add: fence_close_def Let_def release_handles_def) auto
    have "\<exists>f'. fw_fences w j = Some f' \<and> loses_handles f' g \<and> (\<forall>h\<in>fence_handles g. \<not> h \<in> fence_handles f)"
      if "((fw_fences w)(i \<mapsto> ?g)) j = Some g" for j g
    proof (cases "j = i")
      case True
      then show ?thesis using that Some by (auto simp: loses_handles_def fence_handles_def)
    next
      case False
      then have "fence_handles g \<inter> fence_handles f = {}"
        using that Some fence_invD(2) [OF assms(1)] by simp
      then show ?thesis using that False by (auto simp: loses_handles_def)
    qed
    then show ?thesis by (subst w') (rule fence_inv_release [OF assms(1)])
  qed
qed

lemma fence_inv_crash:
  assumes "fence_inv host w"
  shows "fence_inv host (process_crash p w)"
proof -
  let ?mine = "\<lambda>h. \<exists>n f. fw_fences w (p, n) = Some f \<and> h \<in> fence_handles f"
  have "\<exists>f. fw_fences w i = Some f \<and> loses_handles f g \<and> (\<forall>h\<in>fence_handles g. \<not> ?mine h)"
    if "(if fst i = p then None else fw_fences w i) = Some g" for i g
  proof -
    have "fst i \<noteq> p" "fw_fences w i = Some g" using that by (auto split: if_splits)
    moreover have "fence_handles g \<inter> fence_handles f = {}" if "fw_fences w (p, n) = Some f" for n f
      using fence_invD(2) [OF assms \<open>fw_fences w i = Some g\<close> that] \<open>fst i \<noteq> p\<close> by fastforce
    ultimately show ?thesis by (auto simp: loses_handles_def)
  qed
  then have "fence_inv host ((release_handles ?mine w)
      \<lparr>fw_fences := \<lambda>i. if fst i = p then None else fw_fences w i, fw_owners := (fw_owners w)(p := Map.empty)\<rparr>)"
    by (rule fence_inv_release [OF assms])
  then show ?thesis by (simp add: process_crash_def Let_def release_handles_def)
qed

lemma mutex_name_inj:
  assumes "is_sha256_hex a" and "is_sha256_hex b" and "mutex_name a = mutex_name b"
  shows "a = b"
proof -
  have lower: "str_lower (str_upper c) = c" if "is_sha256_hex c" for c
  proof -
    have "lower_char (upper_char x) = x" if "is_hex_lower x" for x
      using that by (auto simp: is_hex_lower_def lower_char_def upper_char_def Let_def)
    then show ?thesis using that
      by (auto simp: is_sha256_hex_def str_lower_def str_upper_def list.pred_set intro: map_idI)
  qed
  from assms(3) have "str_upper a = str_upper b" by (simp add: mutex_name_def)
  then show ?thesis using lower assms(1,2) by metis
qed

text \<open>What a successful \<open>acquire\<close> of a free fence does, on either platform.\<close>

lemma acquire_os_lock_Inr:
  assumes "acquire_os_lock host reply p f w = Inr (w', f')" and "fence_handles f = {}"
  shows "fence_handles f' = {fw_next w}" "fe_identity_sha256 f' = fe_identity_sha256 f"
    "fw_next w' = Suc (fw_next w)" "fw_fences w' = fw_fences w"
    "is_sha256_hex (fe_identity_sha256 f) \<Longrightarrow> lock_recorded host w' (p, n) f'"
    "\<And>path h. fw_flocks w path = Some h \<Longrightarrow> fw_flocks w' path = Some h"
    "\<And>h name. h < fw_next w \<Longrightarrow> fw_mutexes w' h = fw_mutexes w h"
    "\<And>h name. fw_mutexes w' h = Some name \<Longrightarrow> fw_mutexes w h = Some name
       \<or> h = fw_next w \<and> name = mutex_name (fe_identity_sha256 f) \<and> (\<forall>k<fw_next w. fw_mutexes w k \<noteq> Some name)"
  using assms
  by (auto simp: acquire_os_lock_def Let_def lock_recorded_def fence_handles_def split: if_splits)

lemma lock_recorded_keep:
  assumes "lock_recorded host w i f" and "\<And>path h. fw_flocks w path = Some h \<Longrightarrow> fw_flocks w' path = Some h"
    and "\<And>h. h \<in> fence_handles f \<Longrightarrow> fw_mutexes w' h = fw_mutexes w h"
  shows "lock_recorded host (w'\<lparr>fw_owners := owners, fw_fences := fences\<rparr>) i f"
  using assms by (auto simp: lock_recorded_def fence_handles_def)

lemma fence_inv_acquire:
  assumes inv: "fence_inv host w" and idle: "idle_free w" and acq: "fence_acquire host reply i w = Inr w'"
  shows "fence_inv host w'"
proof (cases "fw_fences w i")
  case None
  then show ?thesis using acq by (simp add: fence_acquire_def)
next
  case (Some f)
  show ?thesis
  proof (cases "fe_acquired f")
    case True
    then show ?thesis using assms Some by (simp add: fence_acquire_def)
  next
    case False
    then have free: "fence_handles f = {}" using idle_freeD [OF idle Some] by simp
    from acq Some False obtain u g where u: "acquire_os_lock host reply (fst i) f w = Inr (u, g)"
      and w': "w' = u\<lparr>fw_owners := fw_owners w', fw_fences := (fw_fences w)(i \<mapsto> g\<lparr>fe_acquired := True\<rparr>)\<rparr>"
      by (auto simp: fence_acquire_def res_bind_Inr_iff acquire_os_lock_Inr(4) [OF _ free] split: if_splits)
    note A = acquire_os_lock_Inr [OF u free]
    let ?fences = "(fw_fences w)(i \<mapsto> g\<lparr>fe_acquired := True\<rparr>)"
    have hex: "is_sha256_hex (fe_identity_sha256 f)" using fence_invD(1) [OF inv Some] by (simp add: lock_recorded_def)
    have G: "lock_recorded host (u\<lparr>fw_owners := fw_owners w', fw_fences := ?fences\<rparr>) i (g\<lparr>fe_acquired := True\<rparr>)"
      using A(5) [OF hex, of "snd i"] by (simp add: lock_recorded_def)
    have below: "h < fw_next w" if "fw_fences w j = Some k" "h \<in> fence_handles k" for j k h
      using fence_invD(3) [OF inv] that by blast
    have "lock_recorded host (u\<lparr>fw_owners := fw_owners w', fw_fences := ?fences\<rparr>) j k" if "?fences j = Some k" for j k
    proof (cases "j = i")
      case False
      then have "lock_recorded host w j k" "fw_fences w j = Some k" using that fence_invD(1) [OF inv] by simp_all
      then show ?thesis using A(6,7) below by (intro lock_recorded_keep [of host w]) auto
    qed (use that G in auto)
    moreover have "fence_handles (g\<lparr>fe_acquired := True\<rparr>) = {fw_next w}" using A(1) by (simp add: fence_handles_def)
    moreover have "h = k" if "fw_mutexes u h = Some name" "fw_mutexes u k = Some name" for h k name
      using A(8) [OF that(1)] A(8) [OF that(2)] fence_invD(4,5) [OF inv] by blast
    moreover have "h < Suc (fw_next w)" if "fw_mutexes u h = Some name" for h name
      using A(8) [OF that] fence_invD(4) [OF inv] by (auto intro: less_SucI)
    ultimately have "fence_inv host (u\<lparr>fw_owners := fw_owners w', fw_fences := ?fences\<rparr>)"
      using fence_invD(2) [OF inv] below A(3)
      by (intro fence_invI) (simp_all split: if_splits, blast+, auto intro: less_SucI)
    then show ?thesis using w' by simp
  qed
qed

lemma fence_inv_reachable:
  assumes "fence_start w0" and "(fence_step host)\<^sup>*\<^sup>* w0 w"
  shows "fence_inv host w" "idle_free w"
proof -
  have "fence_inv host w \<and> idle_free w"
  proof (rule fence.reachable_invariant [OF assms])
    show "fence_inv host s \<and> idle_free s" if "fence_start s" for s
      using that fence_inv_start [OF that] by (simp add: idle_free_def fence_start_def)
    show "fence_inv host s' \<and> idle_free s'" if "fence_inv host s \<and> idle_free s" "fence_step host s s'" for s s'
      using that idle_free_step
      by (auto elim!: fence_stepE intro: fence_inv_new fence_inv_acquire fence_inv_close fence_inv_crash)
  qed
  then show "fence_inv host w" "idle_free w" by simp_all
qed

section \<open>What the fence guarantees\<close>

lemma holder_unique:
  assumes "fence_inv host w" and "fw_fences w i = Some f" and "fw_fences w j = Some g"
    and "holds_account f" and "holds_account g" and "fe_identity_sha256 f = fe_identity_sha256 g"
    and "fh_nt host \<or> fh_tempdir host (fst i) = fh_tempdir host (fst j)"
  shows "i = j"
proof (rule ccontr)
  assume "i \<noteq> j"
  have f: "lock_recorded host w i f" and g: "lock_recorded host w j g"
    using fence_invD(1) [OF assms(1)] assms(2,3) by simp_all
  have "fence_handles f \<inter> fence_handles g \<noteq> {}"
  proof (cases "fh_nt host")
    case True
    then obtain h k where "fe_windows_handle f = Some h" "fe_windows_handle g = Some k"
      using assms(4,5) f g by (auto simp: holds_account_def lock_recorded_def)
    moreover from this have "h = k"
      using f g assms(6) by (auto simp: lock_recorded_def intro: fence_invD(5) [OF assms(1)])
    ultimately show ?thesis by (auto simp: fence_handles_def)
  next
    case False
    then obtain h k where "fe_file f = Some h" "fe_file g = Some k"
      using assms(4,5) f g by (auto simp: holds_account_def lock_recorded_def)
    moreover from this have "h = k" using f g assms(6,7) False by (auto simp: lock_recorded_def)
    ultimately show ?thesis by (auto simp: fence_handles_def)
  qed
  then show False using fence_invD(2) [OF assms(1-3) \<open>i \<noteq> j\<close>] by simp
qed


text \<open>A free fence whose account nobody holds can be acquired, and then holds the account.\<close>

definition account_free :: "fence_host \<Rightarrow> process \<Rightarrow> string \<Rightarrow> fence_world \<Rightarrow> bool" where
  "account_free host p identity w =
     (fw_owners w p identity = None
      \<and> (if fh_nt host then \<forall>h. fw_mutexes w h \<noteq> Some (mutex_name identity)
         else fw_flocks w (lock_path (fh_tempdir host p) identity) = None))"

lemma free_account_acquired:
  assumes "fw_fences w i = Some f" and "\<not> fe_acquired f" and "account_free host (fst i) (fe_identity_sha256 f) w"
  shows "\<exists>w' g. fence_acquire host OsGrants i w = Inr w' \<and> fw_fences w' i = Some g \<and> fe_acquired g \<and> holds_account g"
  using assms
  by (auto simp: fence_acquire_def acquire_os_lock_def account_free_def holds_account_def Let_def)

section \<open>Two runtimes on one host\<close>

definition sample_identity :: string where
  "sample_identity = replicate 64 (CHR ''a'')"

definition sample_fence :: AccountRuntimeFence where
  "sample_fence = \<lparr>fe_identity_sha256 = sample_identity, fe_file = None, fe_windows_handle = None, fe_acquired = False\<rparr>"

definition quiet_world :: fence_world where
  "quiet_world = \<lparr>fw_fences = Map.empty, fw_owners = (\<lambda>p. Map.empty), fw_flocks = Map.empty,
     fw_mutexes = Map.empty, fw_next = 0\<rparr>"

definition two_fences :: fence_world where
  "two_fences = quiet_world\<lparr>fw_fences := [(1, 0) \<mapsto> sample_fence, (2, 0) \<mapsto> sample_fence]\<rparr>"

definition posix_host :: "(process \<Rightarrow> string) \<Rightarrow> fence_host" where
  "posix_host tempdirs = \<lparr>fh_nt = False, fh_tempdir = tempdirs\<rparr>"

definition first_holds :: "(process \<Rightarrow> string) \<Rightarrow> fence_world" where
  "first_holds tempdirs =
     two_fences\<lparr>fw_flocks := [lock_path (tempdirs 1) sample_identity \<mapsto> 0], fw_next := 1,
       fw_owners := (fw_owners two_fences)(1 := [sample_identity \<mapsto> (1, 0)]),
       fw_fences := (fw_fences two_fences)((1, 0) \<mapsto> sample_fence\<lparr>fe_file := Some 0, fe_acquired := True\<rparr>)\<rparr>"

lemma sample_fence_built: "AccountRuntimeFence_init sample_identity = Inr sample_fence"
proof -
  have "str_lower (str_strip sample_identity) = sample_identity" "is_sha256_hex sample_identity"
    by (code_simp, code_simp)
  then show ?thesis by (simp add: AccountRuntimeFence_init_def sample_fence_def)
qed

lemma two_fences_reachable: "(fence_step host)\<^sup>*\<^sup>* quiet_world two_fences"
proof -
  let ?one = "quiet_world\<lparr>fw_fences := (fw_fences quiet_world)((1, 0) \<mapsto> sample_fence)\<rparr>"
  have "fence_step host quiet_world ?one"
    by (rule fs_new [OF sample_fence_built]) (simp add: quiet_world_def)
  moreover have "fence_step host ?one (?one\<lparr>fw_fences := (fw_fences ?one)((2, 0) \<mapsto> sample_fence)\<rparr>)"
    by (rule fs_new [OF sample_fence_built]) (simp add: quiet_world_def)
  moreover have "?one\<lparr>fw_fences := (fw_fences ?one)((2, 0) \<mapsto> sample_fence)\<rparr> = two_fences"
    by (simp add: two_fences_def quiet_world_def)
  ultimately show ?thesis by (metis converse_rtranclp_into_rtranclp r_into_rtranclp)
qed

lemma first_acquires: "fence_acquire (posix_host tempdirs) OsGrants (1, 0) two_fences = Inr (first_holds tempdirs)"
  by (simp add: fence_acquire_def acquire_os_lock_def two_fences_def quiet_world_def posix_host_def first_holds_def
      sample_fence_def Let_def)

lemma first_holds_reachable: "(fence_step (posix_host tempdirs))\<^sup>*\<^sup>* quiet_world (first_holds tempdirs)"
  using two_fences_reachable fs_acquire [OF first_acquires] by (rule rtranclp.rtrancl_into_rtrancl)


text \<open>
  The condition on the temporary directory is needed: \<open>tempfile.gettempdir()\<close> follows the environment of
  the process, and two runtimes that differ in it both acquire the account.
\<close>

lemma split_tempdir_admits_two:
  assumes "tempdirs 1 \<noteq> tempdirs 2"
  shows "\<exists>w f g. (fence_step (posix_host tempdirs))\<^sup>*\<^sup>* quiet_world w
     \<and> fw_fences w (1, 0) = Some f \<and> fw_fences w (2, 0) = Some g
     \<and> holds_account f \<and> holds_account g \<and> fe_identity_sha256 f = fe_identity_sha256 g"
proof -
  have path: "lock_path (tempdirs 2) sample_identity \<noteq> lock_path (tempdirs 1) sample_identity"
    using assms by (simp add: lock_path_def)
  obtain w where w: "fence_acquire (posix_host tempdirs) OsGrants (2, 0) (first_holds tempdirs) = Inr w"
    and g: "\<exists>f g. fw_fences w (1, 0) = Some f \<and> fw_fences w (2, 0) = Some g
      \<and> holds_account f \<and> holds_account g \<and> fe_identity_sha256 f = fe_identity_sha256 g"
    using path by (simp add: fence_acquire_def acquire_os_lock_def first_holds_def two_fences_def quiet_world_def
        posix_host_def sample_fence_def holds_account_def Let_def)
  from first_holds_reachable fs_acquire [OF w] have "(fence_step (posix_host tempdirs))\<^sup>*\<^sup>* quiet_world w"
    by (rule rtranclp.rtrancl_into_rtrancl)
  with g show ?thesis by blast
qed

end
