(* ===== verification/Mt5_Session.thy ===== *)
theory Mt5_Session
  imports Account_Fence Reconciliation Execution_Policy
begin

text \<open>
  \<open>MT5Adapter\<close> of \<open>live_runtime/mt5_adapter.py\<close>, first part: its configuration, the account binding,
  the broker specification, ticks, conversion quotes and the readers of orders, positions and deals.

  The \<open>MetaTrader5\<close> package is not part of the repository: what its functions return is a parameter
  (\<open>mt5\<close>), together with the adapter's clock. Every such call is a procedure on an arbitrary state (\<open>act\<close>), so it may
  answer differently each time, raise, and let anything happen outside. What a call returns is the
  dictionary \<open>_asdict\<close> makes of it, \<open>None\<close> for Python's \<open>None\<close>. \<open>m5_verify_module\<close> stands for \<open>verify_module_attestation\<close>,
  which hashes the files of the installed package. Messages of exceptions omit interpolated values.
\<close>

unbundle bit_operations_syntax

section \<open>The broker package\<close>

record 's mt5 =
  m5_clock :: "('s, datetime) act"
  m5_verify_module :: "('s, unit) act"
  m5_initialize :: "('s, json) act"
  m5_shutdown :: "('s, unit) act"
  m5_last_error :: "('s, string) act"
  m5_account_info :: "('s, item option) act"
  m5_symbol_info :: "string \<Rightarrow> ('s, item option) act"
  m5_symbol_info_tick :: "string \<Rightarrow> ('s, item option) act"
  m5_order_calc_margin :: "int \<Rightarrow> string \<Rightarrow> pyfloat \<Rightarrow> pyfloat \<Rightarrow> ('s, json) act"
  m5_order_calc_profit :: "int \<Rightarrow> string \<Rightarrow> pyfloat \<Rightarrow> pyfloat \<Rightarrow> pyfloat \<Rightarrow> ('s, json) act"
  m5_copy_ticks_range :: "string \<Rightarrow> datetime \<Rightarrow> datetime \<Rightarrow> int \<Rightarrow> ('s, item list option) act"
  m5_order_check :: "item \<Rightarrow> ('s, item option) act"
  m5_order_send :: "item \<Rightarrow> ('s, item option) act"
  m5_orders_get :: "('s, item list option) act"
  m5_positions_get :: "('s, item list option) act"
  m5_history_deals_get :: "datetime \<Rightarrow> datetime \<Rightarrow> ('s, item list option) act"
  m5_constants :: "string \<Rightarrow> int option"

definition asdict :: "item option \<Rightarrow> item" where
  "asdict v = (case v of None \<Rightarrow> [] | Some d \<Rightarrow> d)"

definition act_raise :: "exn \<Rightarrow> ('s, 'a) act" where
  "act_raise e = act_lift (Inl e)"

definition act_require :: "exn option list \<Rightarrow> ('s, unit) act" where
  "act_require cs = act_lift (checked cs ())"

definition mt5_attr :: "'s mt5 \<Rightarrow> string \<Rightarrow> ('s, int) act" where
  "mt5_attr m name =
     act_lift (case m5_constants m name of None \<Rightarrow> Inl (AttributeError name) | Some v \<Rightarrow> Inr v)"

definition mt5_attr_or :: "'s mt5 \<Rightarrow> string \<Rightarrow> int \<Rightarrow> int" where
  "mt5_attr_or m name d = (case m5_constants m name of None \<Rightarrow> d | Some v \<Rightarrow> v)"

definition dict_get_or :: "item \<Rightarrow> string \<Rightarrow> json \<Rightarrow> json" where
  "dict_get_or d k v = (case map_of d k of None \<Rightarrow> v | Some x \<Rightarrow> x)"

definition mt5_finite :: "json \<Rightarrow> string \<Rightarrow> bool \<Rightarrow> pyfloat res" where
  "mt5_finite v field positive =
     res_bind (res_reraise type_or_value_error (MT5AdapterError (field @ '' is not numeric'')) (py_float v)) (\<lambda>x.
       if \<not> is_finite x \<or> positive \<and> fl_le x (Fin 0) then Inl (MT5AdapterError (field @ '' is invalid'')) else Inr x)"

text \<open>\<open>f"{x:.kf}"\<close> of a finite number.\<close>

definition fixed_point :: "nat \<Rightarrow> pyfloat \<Rightarrow> string" where
  "fixed_point k x =
     (let n = round_half_even (\<bar>fl_value x\<bar> * 10 ^ k) in
      (if fl_lt x (Fin 0) then ''-'' else []) @ int_repr (n div 10 ^ k) @ ''.'' @ digits_of k (n mod 10 ^ k))"

section \<open>The adapter\<close>

definition DEFAULT_MAX_TICK_AGE_SECONDS :: int where
  "DEFAULT_MAX_TICK_AGE_SECONDS = 10"

definition DEFAULT_PREFLIGHT_TTL :: int where
  "DEFAULT_PREFLIGHT_TTL = seconds 3"

definition CLOCK_OVERRIDE_TOLERANCE_SECONDS :: pyfloat where
  "CLOCK_OVERRIDE_TOLERANCE_SECONDS = fl_of_rat (5 / 100)"

definition CONTRACT_SCHEMA_VERSION :: string where
  "CONTRACT_SCHEMA_VERSION = ''1.0''"

record MT5Adapter =
  ad_account_alias :: string
  ad_broker_legal_name :: string
  ad_expected_login :: int
  ad_expected_server :: string
  ad_environment :: string
  ad_session_calendar_sha256 :: string
  ad_symbol_map :: "(string \<times> string) list"
  ad_usd_account_currency_symbols :: "(string \<times> string) list"
  ad_max_tick_age_seconds :: int
  ad_magic_number :: int
  ad_deviation_points :: int
  ad_initialized :: bool

text \<open>A dictionary built item by item: a repeated key keeps its place and takes the new value.\<close>

definition dict_put :: "string \<Rightarrow> 'v \<Rightarrow> (string \<times> 'v) list \<Rightarrow> (string \<times> 'v) list" where
  "dict_put k v d =
     (if k \<in> fst ` set d then map (\<lambda>(k', v'). if k' = k then (k, v) else (k', v')) d else d @ [(k, v)])"

fun normalized_symbol_map ::
  "(string \<times> string) list \<Rightarrow> (string \<times> string) list \<Rightarrow> (string \<times> string) list res" where
  "normalized_symbol_map [] acc = Inr acc"
| "normalized_symbol_map ((canonical, broker_symbol) # items) acc =
     (let canonical_name = str_upper (str_strip canonical); broker_name = str_strip broker_symbol in
      if canonical_name = [] \<or> broker_name = [] then Inl (ValueError ''symbol_map cannot contain empty symbols'')
      else normalized_symbol_map items (dict_put canonical_name broker_name acc))"

definition is_currency_pair :: "string \<Rightarrow> bool" where
  "is_currency_pair p =
     (length p = 6 \<and> list_all is_upper_letter p \<and> (str_startswith p ''USD'' \<or> drop 3 p = ''USD''))"

fun normalized_conversion_symbols ::
  "(string \<times> string) list \<Rightarrow> (string \<times> string) list \<Rightarrow> (string \<times> string) list res" where
  "normalized_conversion_symbols [] acc = Inr acc"
| "normalized_conversion_symbols ((canonical, broker_symbol) # items) acc =
     (let canonical_pair = str_upper (str_strip canonical); broker_name = str_strip broker_symbol in
      if \<not> is_currency_pair canonical_pair \<or> broker_name = []
      then Inl (ValueError ''USD conversion mappings require an exact six-letter currency pair'')
      else normalized_conversion_symbols items (dict_put canonical_pair broker_name acc))"

text \<open>The constructor, without the module attestation; a fresh adapter is not initialized.\<close>

definition MT5Adapter_init :: "MT5Adapter \<Rightarrow> MT5Adapter res" where
  "MT5Adapter_init a =
     (let environment = str_upper (str_strip (ad_environment a)) in
      res_bind (checked
        [raise_if (str_strip (ad_account_alias a) = [] \<or> str_strip (ad_broker_legal_name a) = []
                   \<or> str_strip (ad_expected_server a) = [])
           (ValueError ''account_alias, broker_legal_name, and expected_server are required''),
         raise_if (environment \<notin> {''DEMO'', ''LIVE'', ''LIVE_READ_ONLY''}) (ValueError ''unsupported broker environment''),
         raise_if (length (ad_session_calendar_sha256 a) \<noteq> 64 \<or> \<not> list_all is_hex (ad_session_calendar_sha256 a))
           (ValueError ''session_calendar_sha256 must be a SHA-256 hash''),
         raise_if (ad_expected_login a \<le> 0) (ValueError ''expected_login must be a positive integer''),
         raise_if (ad_max_tick_age_seconds a \<le> 0) (ValueError ''max_tick_age_seconds must be positive''),
         raise_if (ad_symbol_map a = []) (ValueError ''a non-empty canonical-to-broker symbol_map is required'')] ()) (\<lambda>_.
      res_bind (normalized_symbol_map (ad_symbol_map a) []) (\<lambda>symbols.
      if \<not> distinct (map snd symbols)
      then Inl (ValueError ''one broker symbol cannot map to multiple canonical symbols'')
      else res_bind (normalized_conversion_symbols (ad_usd_account_currency_symbols a) []) (\<lambda>conversions.
      Inr (a\<lparr>ad_account_alias := str_strip (ad_account_alias a),
             ad_broker_legal_name := str_strip (ad_broker_legal_name a),
             ad_expected_server := str_strip (ad_expected_server a),
             ad_environment := environment,
             ad_session_calendar_sha256 := str_lower (ad_session_calendar_sha256 a),
             ad_symbol_map := symbols,
             ad_usd_account_currency_symbols := conversions,
             ad_initialized := False\<rparr>)))))"

definition execution_fence_identity :: "MT5Adapter \<Rightarrow> string res" where
  "execution_fence_identity a =
     account_runtime_identity (int_repr (ad_expected_login a)) (ad_expected_server a) (ad_environment a)"

text \<open>A caller's timestamp is an assertion about the trusted clock, within 50 ms.\<close>

definition asserted_now :: "datetime \<Rightarrow> datetime option \<Rightarrow> datetime res" where
  "asserted_now clock requested =
     res_bind (require_utc ''trusted clock'' clock) (\<lambda>trusted.
     case requested of None \<Rightarrow> Inr trusted
     | Some r \<Rightarrow> res_bind (require_utc ''now'' r) (\<lambda>now.
         if fl_lt CLOCK_OVERRIDE_TOLERANCE_SECONDS (fl_abs (total_seconds (dt_sub now trusted)))
         then Inl (ValueError ''caller timestamp disagrees with trusted clock'') else Inr trusted))"

definition adapter_now :: "'s mt5 \<Rightarrow> datetime option \<Rightarrow> ('s, datetime) act" where
  "adapter_now m requested = act_bind (m5_clock m) (\<lambda>t. act_lift (asserted_now t requested))"

definition assert_symbol_binding :: "MT5Adapter \<Rightarrow> string \<Rightarrow> string \<Rightarrow> exn option" where
  "assert_symbol_binding a canonical_symbol broker_symbol =
     raise_if (map_of (ad_symbol_map a) (str_upper (str_strip canonical_symbol)) \<noteq> Some (str_strip broker_symbol))
       (AccountBindingError ''canonical/broker symbol is not adapter-allowlisted'')"

definition require_initialized :: "'s mt5 \<Rightarrow> MT5Adapter \<Rightarrow> ('s, unit) act" where
  "require_initialized m a =
     (if \<not> ad_initialized a then act_raise (MT5UnavailableError ''MT5 adapter is not initialized'')
      else m5_verify_module m)"

section \<open>Account binding\<close>

record AccountBinding =
  acc_account_alias :: string
  acc_server :: string
  acc_currency :: string
  acc_balance :: pyfloat
  acc_equity :: pyfloat
  acc_margin :: pyfloat
  acc_margin_free :: pyfloat
  acc_margin_level :: pyfloat
  acc_trade_allowed :: bool
  acc_trade_expert :: bool
  acc_captured_at_utc :: datetime

definition expected_trade_mode :: "'s mt5 \<Rightarrow> MT5Adapter \<Rightarrow> int" where
  "expected_trade_mode m a =
     (if ad_environment a = ''DEMO'' then mt5_attr_or m ''ACCOUNT_TRADE_MODE_DEMO'' 0
      else mt5_attr_or m ''ACCOUNT_TRADE_MODE_REAL'' 2)"

definition account_is_bound :: "'s mt5 \<Rightarrow> MT5Adapter \<Rightarrow> item \<Rightarrow> unit res" where
  "account_is_bound m a account =
     (if account = [] then Inl (AccountBindingError ''MT5 account_info is unavailable'')
      else res_bind (py_int (py_or (dict_get account ''login'') (JInt 0))) (\<lambda>actual_login.
      if actual_login \<noteq> ad_expected_login a \<or> py_text (dict_get account ''server'') \<noteq> ad_expected_server a
      then Inl (AccountBindingError ''MT5 account login/server does not match allowlist'')
      else res_bind (res_reraise key_type_or_value_error (AccountBindingError ''MT5 account trade_mode is unavailable'')
             (res_bind (dict_item account ''trade_mode'') py_int)) (\<lambda>trade_mode.
      if trade_mode \<noteq> expected_trade_mode m a
      then Inl (AccountBindingError ''MT5 account environment does not match adapter binding'') else Inr ())))"

definition account_amount :: "item \<Rightarrow> string \<Rightarrow> pyfloat res" where
  "account_amount account field = mt5_finite (dict_get_or account field (JInt 0)) field False"

definition assert_account_binding :: "'s mt5 \<Rightarrow> MT5Adapter \<Rightarrow> ('s, AccountBinding) act" where
  "assert_account_binding m a =
     act_bind (require_initialized m a) (\<lambda>_.
     act_bind (m5_account_info m) (\<lambda>info.
     let account = asdict info in
     act_bind (act_lift (account_is_bound m a account)) (\<lambda>_.
     act_bind (act_lift (account_amount account ''balance'')) (\<lambda>balance.
     act_bind (act_lift (account_amount account ''equity'')) (\<lambda>equity.
     act_bind (act_lift (account_amount account ''margin'')) (\<lambda>margin.
     act_bind (act_lift (account_amount account ''margin_free'')) (\<lambda>margin_free.
     act_bind (act_lift (account_amount account ''margin_level'')) (\<lambda>margin_level.
     act_bind (adapter_now m None) (\<lambda>captured_at.
     act_return
       \<lparr>acc_account_alias = ad_account_alias a, acc_server = py_text (dict_get account ''server''),
        acc_currency = py_text (dict_get account ''currency''), acc_balance = balance, acc_equity = equity,
        acc_margin = margin, acc_margin_free = margin_free, acc_margin_level = margin_level,
        acc_trade_allowed = (map_of account ''trade_allowed'' = Some (JBool True)),
        acc_trade_expert = (map_of account ''trade_expert'' = Some (JBool True)),
        acc_captured_at_utc = captured_at\<rparr>)))))))))"

text \<open>\<open>initialize\<close> returns the adapter it leaves; \<open>load_and_attest_module\<close> is \<open>m5_verify_module\<close>.\<close>

definition adapter_initialize :: "'s mt5 \<Rightarrow> MT5Adapter \<Rightarrow> ('s, MT5Adapter) act" where
  "adapter_initialize m a =
     act_bind (m5_verify_module m) (\<lambda>_.
     act_bind (m5_initialize m) (\<lambda>ok.
     if \<not> py_truthy ok
     then act_bind (m5_last_error m) (\<lambda>err. act_raise (MT5UnavailableError (''MT5 initialize failed: '' @ err)))
     else (\<lambda>s. case assert_account_binding m (a\<lparr>ad_initialized := True\<rparr>) s of
            (Inr _, s') \<Rightarrow> (Inr (a\<lparr>ad_initialized := True\<rparr>), s')
          | (Inl e, s') \<Rightarrow> (case m5_shutdown m s' of (Inl e', s'') \<Rightarrow> (Inl e', s'') | (Inr _, s'') \<Rightarrow> (Inl e, s'')))))"

definition adapter_shutdown :: "'s mt5 \<Rightarrow> MT5Adapter \<Rightarrow> ('s, MT5Adapter) act" where
  "adapter_shutdown m a =
     act_bind (act_when (ad_initialized a) (m5_shutdown m)) (\<lambda>_. act_return (a\<lparr>ad_initialized := False\<rparr>))"

section \<open>Ticks and the broker specification\<close>

record broker_tick =
  tk_bid :: pyfloat
  tk_ask :: pyfloat
  tk_time_utc :: datetime
  tk_age_seconds :: pyfloat

definition tick_prices :: "item \<Rightarrow> string \<Rightarrow> (pyfloat \<times> pyfloat) res" where
  "tick_prices raw crossed =
     res_bind (mt5_finite (dict_get raw ''bid'') ''bid'' True) (\<lambda>bid.
     res_bind (mt5_finite (dict_get raw ''ask'') ''ask'' True) (\<lambda>ask.
       if fl_lt ask bid then Inl (MT5AdapterError crossed) else Inr (bid, ask)))"

definition time_of_msc :: "int \<Rightarrow> datetime res" where
  "time_of_msc i = res_bind (py_float (JInt i)) (\<lambda>x. res_bind (fl_div x (Fin 1000)) from_timestamp)"

definition current_tick :: "'s mt5 \<Rightarrow> MT5Adapter \<Rightarrow> string \<Rightarrow> datetime option \<Rightarrow> ('s, broker_tick) act" where
  "current_tick m a broker_symbol requested =
     act_bind (require_initialized m a) (\<lambda>_.
     act_bind (m5_symbol_info_tick m broker_symbol) (\<lambda>value.
     let raw = asdict value in
     act_bind (act_require [raise_if (raw = []) (MT5AdapterError (''tick unavailable for '' @ broker_symbol))]) (\<lambda>_.
     act_bind (act_lift (tick_prices raw ''ask is below bid'')) (\<lambda>(bid, ask).
     act_bind (act_lift (res_bind (py_int (py_or (dict_get raw ''time_msc'') (JInt 0))) time_of_msc)) (\<lambda>tick_at.
     act_bind (adapter_now m requested) (\<lambda>now.
     let age = total_seconds (dt_sub now tick_at) in
     if fl_lt age (Fin (- 1)) \<or> fl_lt (Fin (of_int (ad_max_tick_age_seconds a))) age
     then act_raise (MT5AdapterError (''tick is stale or future-dated: age='' @ fixed_point 3 age @ ''s''))
     else act_return \<lparr>tk_bid = bid, tk_ask = ask, tk_time_utc = tick_at, tk_age_seconds = age\<rparr>))))))"

definition broker_spec_of ::
  "MT5Adapter \<Rightarrow> string \<Rightarrow> string \<Rightarrow> AccountBinding \<Rightarrow> item \<Rightarrow> pyfloat \<Rightarrow> pyfloat \<Rightarrow> json \<Rightarrow> datetime \<Rightarrow> BrokerSpec res" where
  "broker_spec_of a canonical_symbol broker_symbol account info tick_size tick_value margin captured_at =
     res_bind (py_int (dict_get_or info ''digits'' (JInt 0))) (\<lambda>digits.
     res_bind (mt5_finite (dict_get info ''point'') ''point'' True) (\<lambda>point.
     res_bind (mt5_finite (dict_get info ''trade_contract_size'') ''contract_size'' True) (\<lambda>contract_size.
     res_bind (mt5_finite (dict_get info ''volume_min'') ''volume_min'' True) (\<lambda>volume_min.
     res_bind (mt5_finite (dict_get info ''volume_max'') ''volume_max'' True) (\<lambda>volume_max.
     res_bind (mt5_finite (dict_get info ''volume_step'') ''volume_step'' True) (\<lambda>volume_step.
     res_bind (py_int (py_or (dict_get info ''trade_stops_level'') (JInt 0))) (\<lambda>stops_level.
     res_bind (py_int (py_or (dict_get info ''trade_freeze_level'') (JInt 0))) (\<lambda>freeze_level.
     res_bind (mt5_finite margin ''margin_per_lot'' True) (\<lambda>margin_per_lot.
     BrokerSpec_init
       \<lparr>bs_account_id = ad_account_alias a, bs_broker_legal_name = ad_broker_legal_name a,
        bs_server = ad_expected_server a, bs_environment = ad_environment a, bs_symbol = canonical_symbol,
        bs_broker_symbol = broker_symbol, bs_account_currency = acc_currency account, bs_digits = digits,
        bs_point = point, bs_tick_size = tick_size, bs_tick_value = tick_value, bs_contract_size = contract_size,
        bs_volume_min = volume_min, bs_volume_max = volume_max, bs_volume_step = volume_step,
        bs_stops_level_points = stops_level, bs_freeze_level_points = freeze_level,
        bs_margin_per_lot = margin_per_lot, bs_session_calendar_sha256 = ad_session_calendar_sha256 a,
        bs_captured_at = captured_at, bs_schema_version = CONTRACT_SCHEMA_VERSION\<rparr>)))))))))"

definition get_broker_spec ::
  "'s mt5 \<Rightarrow> MT5Adapter \<Rightarrow> string \<Rightarrow> string \<Rightarrow> datetime option \<Rightarrow> ('s, BrokerSpec) act" where
  "get_broker_spec m a canonical_symbol broker_symbol requested =
     act_bind (require_initialized m a) (\<lambda>_.
     act_bind (adapter_now m requested) (\<lambda>captured_at.
     act_bind (act_require [assert_symbol_binding a canonical_symbol broker_symbol]) (\<lambda>_.
     act_bind (assert_account_binding m a) (\<lambda>account.
     act_bind (m5_symbol_info m broker_symbol) (\<lambda>value.
     let info = asdict value in
     act_bind (act_require [raise_if (info = []) (MT5AdapterError (''symbol_info unavailable for '' @ broker_symbol))]) (\<lambda>_.
     act_bind (act_lift (mt5_finite (dict_get_or info ''trade_tick_size'' (dict_get info ''point''))
       ''trade_tick_size'' True)) (\<lambda>tick_size.
     act_bind (act_lift (mt5_finite (dict_get_or info ''trade_tick_value'' (dict_get info ''trade_tick_value_profit''))
       ''trade_tick_value'' True)) (\<lambda>tick_value.
     act_bind (mt5_attr m ''ORDER_TYPE_BUY'') (\<lambda>buy.
     act_bind (current_tick m a broker_symbol (Some captured_at)) (\<lambda>tick.
     act_bind (m5_order_calc_margin m buy broker_symbol (Fin 1) (tk_ask tick)) (\<lambda>margin.
     act_lift (broker_spec_of a canonical_symbol broker_symbol account info tick_size tick_value margin captured_at))))))))))))"

section \<open>Orders, positions and deals\<close>

definition adapter_list :: "'s mt5 \<Rightarrow> string \<Rightarrow> item list option \<Rightarrow> ('s, item list) act" where
  "adapter_list m failure result =
     (case result of
        None \<Rightarrow> act_bind (m5_last_error m) (\<lambda>err. act_raise (MT5AdapterError (failure @ '' failed: '' @ err)))
      | Some items \<Rightarrow> act_return items)"

definition adapter_orders :: "'s mt5 \<Rightarrow> MT5Adapter \<Rightarrow> ('s, item list) act" where
  "adapter_orders m a =
     act_bind (require_initialized m a) (\<lambda>_. act_bind (assert_account_binding m a) (\<lambda>_.
     act_bind (m5_orders_get m) (adapter_list m ''orders_get'')))"

definition adapter_positions :: "'s mt5 \<Rightarrow> MT5Adapter \<Rightarrow> ('s, item list) act" where
  "adapter_positions m a =
     act_bind (require_initialized m a) (\<lambda>_. act_bind (assert_account_binding m a) (\<lambda>_.
     act_bind (m5_positions_get m) (adapter_list m ''positions_get'')))"

definition adapter_deals :: "'s mt5 \<Rightarrow> MT5Adapter \<Rightarrow> datetime \<Rightarrow> datetime \<Rightarrow> ('s, item list) act" where
  "adapter_deals m a start_utc end_utc =
     act_bind (require_initialized m a) (\<lambda>_. act_bind (assert_account_binding m a) (\<lambda>_.
     act_bind (act_require
       [err_of (require_utc ''start_utc'' start_utc), err_of (require_utc ''end_utc'' end_utc),
        raise_if (dt_le end_utc start_utc) (ValueError ''history end must be after start'')]) (\<lambda>_.
     act_bind (m5_history_deals_get m start_utc end_utc) (adapter_list m ''history_deals_get''))))"

end
