(* ===== verification/Mt5_Preflight.thy ===== *)
theory Mt5_Preflight
  imports Mt5_Session
begin

text \<open>
  \<open>MT5Adapter\<close> of \<open>live_runtime/mt5_adapter.py\<close>, second part: the stop risk the broker computes, the first
  tick after a bar's close, the order request, the pre-trade check and the last-moment exposure guard.
\<close>

section \<open>Conversion quote\<close>

definition identity_conversion :: "MT5Adapter \<Rightarrow> datetime \<Rightarrow> USDRiskCapConversion" where
  "identity_conversion a captured_at =
     \<lparr>uc_account_id = ad_account_alias a, uc_server = ad_expected_server a, uc_account_currency = ''USD'',
      uc_account_currency_per_usd = Fin 1, uc_source = ''ACCOUNT_CURRENCY_IDENTITY'', uc_broker_symbol = ''USD'',
      uc_direction = ''IDENTITY'', uc_bid = Fin 1, uc_ask = Fin 1, uc_captured_at_utc = captured_at\<rparr>"

definition conversion_pair :: "MT5Adapter \<Rightarrow> string \<Rightarrow> (string \<times> string) res" where
  "conversion_pair a currency =
     (let configured = filter (\<lambda>pair. pair \<in> fst ` set (ad_usd_account_currency_symbols a))
                         [''USD'' @ currency, currency @ ''USD''] in
      case configured of
        [] \<Rightarrow> Inl (MT5AdapterError (''no USD risk-cap conversion symbol is configured for '' @ currency))
      | [pair] \<Rightarrow> (case map_of (ad_usd_account_currency_symbols a) pair of
                     Some broker_symbol \<Rightarrow> Inr (pair, broker_symbol) | None \<Rightarrow> Inl (KeyError pair))
      | _ \<Rightarrow> Inl (MT5AdapterError (''ambiguous USD risk-cap conversion symbols for '' @ currency)))"

definition bid_ask_conversion ::
  "MT5Adapter \<Rightarrow> string \<Rightarrow> string \<Rightarrow> string \<Rightarrow> broker_tick \<Rightarrow> USDRiskCapConversion res" where
  "bid_ask_conversion a currency pair broker_symbol tick =
     (let direction = (if pair = ''USD'' @ currency then ''DIRECT'' else ''INVERSE'') in
      res_bind (if direction = ''DIRECT'' then Inr (tk_bid tick) else fl_div (Fin 1) (tk_ask tick)) (\<lambda>rate.
      mint_usd_risk_cap_conversion
        \<lparr>uc_account_id = ad_account_alias a, uc_server = ad_expected_server a, uc_account_currency = currency,
         uc_account_currency_per_usd = rate, uc_source = ''MT5_BID_ASK'', uc_broker_symbol = broker_symbol,
         uc_direction = direction, uc_bid = tk_bid tick, uc_ask = tk_ask tick,
         uc_captured_at_utc = tk_time_utc tick\<rparr>))"

fun is_value_error :: "exn \<Rightarrow> bool" where
  "is_value_error (ValueError msg) = True"
| "is_value_error e = False"

definition quote_usd_risk_cap_conversion ::
  "'s mt5 \<Rightarrow> MT5Adapter \<Rightarrow> datetime option \<Rightarrow> ('s, USDRiskCapConversion) act" where
  "quote_usd_risk_cap_conversion m a requested =
     act_bind (require_initialized m a) (\<lambda>_.
     act_bind (adapter_now m requested) (\<lambda>captured_at.
     act_bind (assert_account_binding m a) (\<lambda>account.
     act_bind (act_lift (res_reraise is_value_error
       (AccountBindingError ''MT5 account currency is not a three-letter currency code'')
       (require_currency ''MT5 account currency'' (acc_currency account)))) (\<lambda>currency.
     if currency = ''USD'' then act_lift (mint_usd_risk_cap_conversion (identity_conversion a captured_at))
     else act_bind (act_lift (conversion_pair a currency)) (\<lambda>(pair, broker_symbol).
     act_bind (m5_symbol_info m broker_symbol) (\<lambda>value.
     let info = asdict value in
     act_bind (act_require
       [raise_if (info = []) (MT5AdapterError (''conversion symbol_info unavailable for '' @ broker_symbol)),
        raise_if (str_upper (str_strip (py_text (dict_get info ''currency_base''))) \<noteq> take 3 pair
                  \<or> str_upper (str_strip (py_text (dict_get info ''currency_profit''))) \<noteq> drop 3 pair)
          (MT5AdapterError ''conversion symbol currency metadata does not match configured pair'')]) (\<lambda>_.
     act_bind (current_tick m a broker_symbol (Some captured_at)) (\<lambda>tick.
     if fl_lt (tk_age_seconds tick) (Fin 0) \<or> fl_lt MAX_RISK_CONVERSION_AGE_SECONDS (tk_age_seconds tick)
     then act_raise (MT5AdapterError ''USD risk-cap conversion tick is stale or future-dated'')
     else act_lift (bid_ask_conversion a currency pair broker_symbol tick)))))))))"

section \<open>Stop risk\<close>

definition order_type_of :: "'s mt5 \<Rightarrow> string \<Rightarrow> ('s, int) act" where
  "order_type_of m side = (if side = ''BUY'' then mt5_attr m ''ORDER_TYPE_BUY'' else mt5_attr m ''ORDER_TYPE_SELL'')"

definition estimate_stop_risk_cash ::
  "'s mt5 \<Rightarrow> MT5Adapter \<Rightarrow> TradeIntent \<Rightarrow> string \<Rightarrow> pyfloat option \<Rightarrow> ('s, pyfloat) act" where
  "estimate_stop_risk_cash m a t broker_symbol entry_price =
     act_bind (require_initialized m a) (\<lambda>_.
     act_bind (order_type_of m (ti_side t)) (\<lambda>order_type.
     act_bind (m5_order_calc_profit m order_type broker_symbol (ti_requested_lot t)
       (case entry_price of None \<Rightarrow> ti_entry_reference t | Some p \<Rightarrow> p) (ti_stop_loss t)) (\<lambda>value.
     act_lift (res_bind (mt5_finite value ''order_calc_profit'' False) (\<lambda>x. Inr (fl_abs x))))))"

text \<open>\<open>points * point\<close>, added to the price of a BUY and subtracted from that of a SELL.\<close>

definition adverse_price :: "string \<Rightarrow> pyfloat \<Rightarrow> int \<Rightarrow> pyfloat \<Rightarrow> pyfloat" where
  "adverse_price side price points point =
     (if side = ''BUY'' then fl_add price (fl_mul (fl_of_rat (of_int points)) point)
      else fl_add price (fl_mul (fl_of_rat (of_int (- points))) point))"

section \<open>The first tick after the close\<close>

record eligible_tick =
  et_bid :: pyfloat
  et_ask :: pyfloat
  et_time_msc :: int
  et_time_utc :: datetime

definition msc_of :: "datetime \<Rightarrow> int res" where
  "msc_of d = py_int (JFloat (fl_mul (total_seconds (timestamp_us d)) (Fin 1000)))"

fun eligible_ticks :: "int \<Rightarrow> int \<Rightarrow> item list \<Rightarrow> eligible_tick list res" where
  "eligible_ticks close_msc last_msc [] = Inr []"
| "eligible_ticks close_msc last_msc (tick # ticks) =
     res_bind (py_int (py_or (dict_get tick ''time_msc'') (JInt 0))) (\<lambda>time_msc.
     if close_msc < time_msc \<and> time_msc \<le> last_msc
     then res_bind (tick_prices tick ''ask is below bid in tick history'') (\<lambda>(bid, ask).
          res_bind (time_of_msc time_msc) (\<lambda>time_utc.
          res_bind (eligible_ticks close_msc last_msc ticks) (\<lambda>rest.
            Inr (\<lparr>et_bid = bid, et_ask = ask, et_time_msc = time_msc, et_time_utc = time_utc\<rparr> # rest))))
     else eligible_ticks close_msc last_msc ticks)"

fun earliest_tick :: "eligible_tick list \<Rightarrow> eligible_tick option" where
  "earliest_tick [] = None"
| "earliest_tick (t # ts) =
     (case earliest_tick ts of None \<Rightarrow> Some t
      | Some u \<Rightarrow> Some (if et_time_msc u < et_time_msc t then u else t))"

definition first_eligible_tick ::
  "'s mt5 \<Rightarrow> MT5Adapter \<Rightarrow> string \<Rightarrow> datetime \<Rightarrow> datetime \<Rightarrow> ('s, eligible_tick) act" where
  "first_eligible_tick m a broker_symbol bar_closed_at now =
     act_bind (require_initialized m a) (\<lambda>_.
     act_bind (act_require
       [err_of (require_utc ''bar_closed_at'' bar_closed_at), err_of (require_utc ''now'' now),
        raise_if (dt_le now bar_closed_at) (PreflightRejectedError ''no post-candle interval is available'')]) (\<lambda>_.
     act_bind (mt5_attr m ''COPY_TICKS_ALL'') (\<lambda>flag.
     act_bind (m5_copy_ticks_range m broker_symbol bar_closed_at now flag) (\<lambda>result.
     act_bind (adapter_list m ''copy_ticks_range'' result) (\<lambda>raw_ticks.
     act_lift (res_bind (msc_of bar_closed_at) (\<lambda>close_msc.
       res_bind (msc_of now) (\<lambda>end_msc.
       res_bind (eligible_ticks close_msc (min (close_msc + DEFAULT_MAX_TICK_AGE_SECONDS * 1000) end_msc) raw_ticks)
         (\<lambda>eligible. case earliest_tick eligible of
            None \<Rightarrow> Inl (PreflightRejectedError ''no eligible broker tick exists after candle close'')
          | Some t \<Rightarrow> Inr t)))))))))"

section \<open>The request\<close>

definition filling_policy :: "'s mt5 \<Rightarrow> item \<Rightarrow> ('s, int) act" where
  "filling_policy m info =
     act_bind (act_lift (py_int (dict_get_or info ''filling_mode'' (JInt (- 1))))) (\<lambda>flags.
     if 0 \<le> flags \<and> flags AND mt5_attr_or m ''SYMBOL_FILLING_FOK'' 1 \<noteq> 0 then mt5_attr m ''ORDER_FILLING_FOK''
     else if 0 \<le> flags \<and> flags AND mt5_attr_or m ''SYMBOL_FILLING_IOC'' 2 \<noteq> 0 then mt5_attr m ''ORDER_FILLING_IOC''
     else act_raise (PreflightRejectedError ''broker exposes no supported FOK/IOC filling policy''))"

record order_request =
  rq_action :: int
  rq_symbol :: string
  rq_volume :: pyfloat
  rq_type :: int
  rq_price :: pyfloat
  rq_sl :: pyfloat
  rq_tp :: pyfloat
  rq_deviation :: int
  rq_magic :: int
  rq_comment :: string
  rq_type_time :: int
  rq_type_filling :: int

definition request_dict :: "order_request \<Rightarrow> item" where
  "request_dict r =
     [(''action'', JInt (rq_action r)), (''symbol'', JStr (rq_symbol r)), (''volume'', JFloat (rq_volume r)),
      (''type'', JInt (rq_type r)), (''price'', JFloat (rq_price r)), (''sl'', JFloat (rq_sl r)),
      (''tp'', JFloat (rq_tp r)), (''deviation'', JInt (rq_deviation r)), (''magic'', JInt (rq_magic r)),
      (''comment'', JStr (rq_comment r)), (''type_time'', JInt (rq_type_time r)),
      (''type_filling'', JInt (rq_type_filling r))]"

definition broker_comment :: "TradeIntent \<Rightarrow> string" where
  "broker_comment t = ''AIS:'' @ take 20 (TradeIntent_content_sha256 t)"

definition request_for ::
  "'s mt5 \<Rightarrow> MT5Adapter \<Rightarrow> TradeIntent \<Rightarrow> string \<Rightarrow> pyfloat \<Rightarrow> pyfloat \<Rightarrow> int \<Rightarrow> ('s, order_request) act" where
  "request_for m a t broker_symbol bid ask allowed_deviation_points =
     act_bind (require_initialized m a) (\<lambda>_.
     act_bind (m5_symbol_info m broker_symbol) (\<lambda>value.
     let info = asdict value in
     act_bind (act_require [raise_if (info = []) (MT5AdapterError (''symbol_info unavailable for '' @ broker_symbol))]) (\<lambda>_.
     act_bind (order_type_of m (ti_side t)) (\<lambda>order_type.
     act_bind (mt5_attr m ''TRADE_ACTION_DEAL'') (\<lambda>action.
     act_bind (mt5_attr m ''ORDER_TIME_GTC'') (\<lambda>type_time.
     act_bind (filling_policy m info) (\<lambda>type_filling.
     act_return
       \<lparr>rq_action = action, rq_symbol = broker_symbol, rq_volume = ti_requested_lot t, rq_type = order_type,
        rq_price = (if ti_side t = ''BUY'' then ask else bid), rq_sl = ti_stop_loss t, rq_tp = ti_take_profit t,
        rq_deviation = min (ad_deviation_points a) allowed_deviation_points, rq_magic = ad_magic_number a,
        rq_comment = broker_comment t, rq_type_time = type_time, rq_type_filling = type_filling\<rparr>)))))))"

section \<open>preflight\<close>

definition preflight_scope :: "MT5Adapter \<Rightarrow> TradeIntent \<Rightarrow> string \<Rightarrow> int \<Rightarrow> datetime \<Rightarrow> unit res" where
  "preflight_scope a t broker_symbol allowed_deviation_points started_at =
     (let (symbol_allowed, symbol_reason) = validate_execution_symbol (Some (ti_symbol t)) None False (ModeStr (ti_mode t)) in
      res_bind (checked
        [raise_if (allowed_deviation_points < 0)
           (ValueError ''allowed_deviation_points must be a nonnegative integer''),
         raise_if (ti_account_id t \<noteq> ad_account_alias a \<or> ti_server t \<noteq> ad_expected_server a)
           (AccountBindingError ''intent account/server does not match adapter binding''),
         assert_symbol_binding a (ti_symbol t) broker_symbol,
         raise_if (\<not> symbol_allowed) (ExecutionLockedError symbol_reason)] ()) (\<lambda>_.
      res_bind (validate_execution_lot (NFloat (ti_requested_lot t))) (\<lambda>(lot_allowed, lot_reason).
      checked
        [raise_if (\<not> lot_allowed) (ExecutionLockedError lot_reason),
         raise_if (ti_mode t \<notin> {''DEMO'', ''DEMO_AUTO'', ''LIVE''})
           (ExecutionLockedError ''MT5 execution adapter rejects non-order modes''),
         raise_if (ad_environment a \<noteq> (if ti_mode t = ''LIVE'' then ''LIVE'' else ''DEMO''))
           (AccountBindingError ''intent mode does not match broker environment''),
         raise_if (dt_le (ti_expires_at t) started_at) (PreflightRejectedError ''intent is expired'')] ())))"

text \<open>\<open>round(x)\<close>: the nearest integer, ties to even.\<close>

fun py_round :: "pyfloat \<Rightarrow> int res" where
  "py_round (Fin q) = Inr (round_half_even q)"
| "py_round NaN = Inl (ValueError ''cannot convert float NaN to integer'')"
| "py_round x = Inl (OverflowError ''cannot convert float infinity to integer'')"

definition preflight_volume :: "TradeIntent \<Rightarrow> BrokerSpec \<Rightarrow> unit res" where
  "preflight_volume t spec =
     (if fl_lt (ti_requested_lot t) (bs_volume_min spec)
         \<or> fl_lt (fl_min (bs_volume_max spec) (fl_of_rat (1 / 100))) (ti_requested_lot t)
      then Inl (PreflightRejectedError ''requested lot violates broker or canary bounds'')
      else res_bind (fl_div (ti_requested_lot t) (bs_volume_step spec)) (\<lambda>steps.
      res_bind (py_round steps) (\<lambda>n.
      checked
        [raise_if (fl_lt (fl_of_rat (1 / 10 ^ 9)) (fl_abs (fl_sub steps (fl_of_rat (of_int n)))))
           (PreflightRejectedError ''requested lot is not aligned to broker volume_step''),
         raise_if (fl_lt (fl_add (stop_distance t) (fl_of_rat (1 / 10 ^ 12)))
                     (fl_mul (fl_of_rat (of_int (bs_stops_level_points spec))) (bs_point spec)))
           (PreflightRejectedError ''stop distance violates broker stops level'')] ())))"

definition preflight_tick_check :: "TradeIntent \<Rightarrow> eligible_tick \<Rightarrow> exn option list" where
  "preflight_tick_check t tick =
     [raise_if (\<not> dt_eq (et_time_utc tick) (ds_created_at (ti_decision t)))
        (PreflightRejectedError ''first eligible broker tick time does not match decision snapshot''),
      raise_if (\<not> fl_eq (if ti_side t = ''BUY'' then et_ask tick else et_bid tick) (ti_entry_reference t))
        (PreflightRejectedError ''first eligible broker tick price does not match entry reference'')]"

text \<open>What \<open>order_check\<close> answered: the code as text, whether it passed, and the broker's comment.\<close>

definition check_verdict :: "item option \<Rightarrow> (string \<times> bool \<times> string) res" where
  "check_verdict check =
     (let d = asdict check; retcode = py_str (dict_get_or d ''retcode'' (JStr ''MISSING'')) in
      res_bind (if check = None then Inr False
                else res_bind (py_int (dict_get_or d ''retcode'' (JInt (- 1)))) (\<lambda>code. Inr (code = 0))) (\<lambda>passed.
      Inr (retcode, passed, py_text (dict_get d ''comment''))))"

definition preflight_of ::
  "TradeIntent \<Rightarrow> string \<Rightarrow> BrokerSpec \<Rightarrow> order_request \<Rightarrow> eligible_tick \<Rightarrow> int \<Rightarrow> string \<times> bool \<times> string
   \<Rightarrow> pyfloat \<Rightarrow> pyfloat \<Rightarrow> datetime \<Rightarrow> MT5Preflight" where
  "preflight_of t broker_symbol spec request tick deviation verdict risk margin completed_at =
     (case verdict of (retcode, passed, reason) \<Rightarrow>
      \<lparr>mp_intent_id = intent_id t, mp_passed = passed,
       mp_reason = (if reason \<noteq> [] then reason else if passed then ''PREFLIGHT_PASSED'' else ''PREFLIGHT_REJECTED''),
       mp_broker_symbol = broker_symbol, mp_intent_sha256 = TradeIntent_content_sha256 t,
       mp_broker_spec_sha256 = BrokerSpec_content_sha256 spec, mp_request = JDict (request_dict request),
       mp_request_sha256 = canonical_sha256 (JDict (request_dict request)), mp_broker_retcode = retcode,
       mp_checked_at_utc = completed_at,
       mp_valid_until_utc = dt_min (ti_expires_at t) (dt_add completed_at DEFAULT_PREFLIGHT_TTL),
       mp_current_bid = et_bid tick, mp_current_ask = et_ask tick, mp_tick_time_utc = et_time_utc tick,
       mp_allowed_deviation_points = deviation, mp_estimated_stop_risk_cash = risk,
       mp_estimated_margin_cash = margin\<rparr>)"

definition preflight ::
  "'s mt5 \<Rightarrow> MT5Adapter \<Rightarrow> TradeIntent \<Rightarrow> string \<Rightarrow> int \<Rightarrow> datetime option \<Rightarrow> ('s, MT5Preflight) act" where
  "preflight m a t broker_symbol allowed_deviation_points requested =
     act_bind (require_initialized m a) (\<lambda>_.
     act_bind (adapter_now m requested) (\<lambda>started_at.
     act_bind (act_lift (preflight_scope a t broker_symbol allowed_deviation_points started_at)) (\<lambda>_.
     act_bind (assert_account_binding m a) (\<lambda>_.
     act_bind (get_broker_spec m a (ti_symbol t) broker_symbol (Some started_at)) (\<lambda>spec.
     act_bind (act_lift (preflight_volume t spec)) (\<lambda>_.
     act_bind (first_eligible_tick m a broker_symbol (ds_bar_closed_at (ti_decision t)) started_at) (\<lambda>tick.
     act_bind (act_require (preflight_tick_check t tick)) (\<lambda>_.
     act_bind (request_for m a t broker_symbol (et_bid tick) (et_ask tick) allowed_deviation_points) (\<lambda>request.
     act_bind (m5_order_check m (request_dict request)) (\<lambda>check.
     act_bind (act_lift (check_verdict check)) (\<lambda>verdict.
     act_bind (m5_order_calc_margin m (rq_type request) broker_symbol (ti_requested_lot t) (rq_price request)) (\<lambda>margin.
     act_bind (estimate_stop_risk_cash m a t broker_symbol
       (Some (adverse_price (ti_side t) (rq_price request) (rq_deviation request) (bs_point spec)))) (\<lambda>risk.
     act_bind (adapter_now m None) (\<lambda>completed_at.
     act_bind (act_require [raise_if (dt_le (ti_expires_at t) completed_at)
       (PreflightRejectedError ''intent expired during broker preflight'')]) (\<lambda>_.
     act_lift (res_bind (mt5_finite margin ''order_calc_margin'' True) (\<lambda>margin_cash.
       mint_mt5_preflight (preflight_of t broker_symbol spec request tick allowed_deviation_points verdict risk
         margin_cash completed_at))))))))))))))))))"

section \<open>submission\_guard\<close>

definition bound_fields :: "string list" where
  "bound_fields =
     [''account_id'', ''broker_legal_name'', ''server'', ''environment'', ''symbol'', ''broker_symbol'',
      ''account_currency'', ''digits'', ''point'', ''tick_size'', ''tick_value'', ''contract_size'', ''volume_min'',
      ''volume_max'', ''volume_step'', ''stops_level_points'', ''freeze_level_points'', ''margin_per_lot'',
      ''session_calendar_sha256'']"

definition spec_drifted :: "BrokerSpec \<Rightarrow> BrokerSpec \<Rightarrow> string list" where
  "spec_drifted current spec =
     filter (\<lambda>field. json_get (BrokerSpec_dict current) field \<noteq> json_get (BrokerSpec_dict spec) field) bound_fields"

definition submission_guard ::
  "'s mt5 \<Rightarrow> MT5Adapter \<Rightarrow> TradeIntent \<Rightarrow> BrokerSpec \<Rightarrow> pyfloat \<Rightarrow> datetime \<Rightarrow> ('s, MT5SubmissionGuard) act" where
  "submission_guard m a t spec expected_equity now =
     act_bind (adapter_now m (Some now)) (\<lambda>started_at.
     act_bind (act_require [assert_symbol_binding a (ti_symbol t) (bs_broker_symbol spec)]) (\<lambda>_.
     act_bind (assert_account_binding m a) (\<lambda>account.
     act_bind (act_require [raise_if (\<not> acc_trade_allowed account \<or> \<not> acc_trade_expert account)
       (PreflightRejectedError ''broker account does not allow expert trading'')]) (\<lambda>_.
     act_bind (adapter_orders m a) (\<lambda>active_orders.
     act_bind (adapter_positions m a) (\<lambda>active_positions.
     act_bind (act_require
       [raise_if (active_orders \<noteq> [] \<or> active_positions \<noteq> [])
          (PreflightRejectedError ''global exposure guard requires no active broker order or position''),
        raise_if (fl_lt (fl_of_rat (1 / 100)) (fl_abs (fl_sub (acc_equity account) expected_equity)))
          (PreflightRejectedError ''account equity changed after risk evaluation'')]) (\<lambda>_.
     act_bind (get_broker_spec m a (ti_symbol t) (bs_broker_symbol spec) (Some started_at)) (\<lambda>current_spec.
     act_bind (act_require [raise_if (spec_drifted current_spec spec \<noteq> [])
       (PreflightRejectedError (''broker specification drifted: '' @ joined (spec_drifted current_spec spec)))]) (\<lambda>_.
     act_bind (adapter_now m None) (\<lambda>completed_at.
     act_lift (mint_mt5_submission_guard
       \<lparr>mg_intent_id = intent_id t, mg_account_id = ti_account_id t, mg_server = ti_server t, mg_symbol = ti_symbol t,
        mg_account_equity = acc_equity account, mg_active_order_count = 0, mg_active_position_count = 0,
        mg_broker_spec_sha256 = BrokerSpec_content_sha256 spec, mg_checked_at_utc = completed_at\<rparr>)))))))))))"

end
