(* ===== verification/Model_Governance.thy ===== *)
theory Model_Governance
  imports Contracts Interfaces
begin

text \<open>
  \<open>live_runtime/model_governance.py\<close>: the manifest of a model artifact, the digest of the rule core's
  sources, and the sealed decision that binds one decision snapshot to the registered champion.
\<close>

section \<open>The rule core\<close>

definition RULE_CORE_MODEL_SOURCE_PATHS :: "string list" where
  "RULE_CORE_MODEL_SOURCE_PATHS =
     [''agents/market_status.py'', ''agents/supervisor_agent.py'', ''live_runtime/decision_core.py'',
      ''market_data_quality.py'', ''market_regime_filter.py'', ''strategy/strategy_profiles.py'',
      ''strategy/strategy_selector.py'', ''strategy/trend_analyzer.py'']"

text \<open>A dictionary of file contents; bytes are characters.\<close>

fun rule_core_bytes :: "(string \<times> string) list \<Rightarrow> string list \<Rightarrow> string res" where
  "rule_core_bytes members [] = Inr []"
| "rule_core_bytes members (path # paths) =
     (case map_of members path of
        None \<Rightarrow> Inl (KeyError path)
      | Some data \<Rightarrow>
          if data = [] then Inl (TypeError ''rule-core source members must be non-empty bytes'')
          else res_bind (rule_core_bytes members paths)
                 (\<lambda>rest. Inr (path @ [char_of (0::nat)] @ data @ [char_of (0::nat)] @ rest)))"

definition rule_core_model_artifact_sha256 :: "(string \<times> string) list \<Rightarrow> string res" where
  "rule_core_model_artifact_sha256 members =
     (if fst ` set members \<noteq> set RULE_CORE_MODEL_SOURCE_PATHS
      then Inl (ValueError ''rule-core source inventory is not exact'')
      else res_bind (rule_core_bytes members RULE_CORE_MODEL_SOURCE_PATHS) (\<lambda>bytes. Inr (sha256_hex bytes)))"

section \<open>The manifest\<close>

record ModelArtifactManifest =
  mm_role :: string
  mm_model_version :: string
  mm_artifact_sha256 :: string
  mm_training_snapshot_sha256 :: string
  mm_commit_sha :: string
  mm_config_sha256 :: string
  mm_training_cutoff_at :: datetime
  mm_registered_at :: datetime
  mm_immutable :: bool
  mm_online_learning_enabled :: bool
  mm_credential_access :: bool
  mm_self_promotion_allowed :: bool

definition ModelArtifactManifest_init :: "ModelArtifactManifest \<Rightarrow> ModelArtifactManifest res" where
  "ModelArtifactManifest_init m =
     checked
       [err_of (require_text ''role'' (mm_role m) True),
        raise_if (norm_text True (mm_role m) \<notin> {''CHAMPION'', ''CHALLENGER''})
          (ValueError ''role must be CHAMPION or CHALLENGER''),
        err_of (require_text ''model_version'' (mm_model_version m) False),
        err_of (require_hash ''artifact_sha256'' (mm_artifact_sha256 m) 64),
        err_of (require_hash ''training_snapshot_sha256'' (mm_training_snapshot_sha256 m) 64),
        err_of (require_hash ''config_sha256'' (mm_config_sha256 m) 64),
        err_of (require_hash ''commit_sha'' (mm_commit_sha m) 7),
        err_of (require_utc ''training_cutoff_at'' (mm_training_cutoff_at m)),
        err_of (require_utc ''registered_at'' (mm_registered_at m)),
        raise_if (dt_lt (mm_registered_at m) (mm_training_cutoff_at m))
          (ValueError ''registered_at cannot precede training cutoff''),
        raise_if (\<not> mm_immutable m) (ValueError ''model artifacts must be immutable''),
        raise_if (mm_online_learning_enabled m \<or> mm_credential_access m \<or> mm_self_promotion_allowed m)
          (ValueError ''models cannot learn online, access credentials, or self-promote'')]
       (m\<lparr>mm_role := norm_text True (mm_role m),
          mm_model_version := norm_text False (mm_model_version m),
          mm_artifact_sha256 := norm_hash (mm_artifact_sha256 m),
          mm_training_snapshot_sha256 := norm_hash (mm_training_snapshot_sha256 m),
          mm_config_sha256 := norm_hash (mm_config_sha256 m),
          mm_commit_sha := norm_hash (mm_commit_sha m)\<rparr>)"

definition ModelArtifactManifest_dict :: "ModelArtifactManifest \<Rightarrow> json" where
  "ModelArtifactManifest_dict m = JDict
     [(''role'', JStr (mm_role m)),
      (''model_version'', JStr (mm_model_version m)),
      (''artifact_sha256'', JStr (mm_artifact_sha256 m)),
      (''training_snapshot_sha256'', JStr (mm_training_snapshot_sha256 m)),
      (''commit_sha'', JStr (mm_commit_sha m)),
      (''config_sha256'', JStr (mm_config_sha256 m)),
      (''training_cutoff_at'', jtime (mm_training_cutoff_at m)),
      (''registered_at'', jtime (mm_registered_at m)),
      (''immutable'', JBool (mm_immutable m)),
      (''online_learning_enabled'', JBool (mm_online_learning_enabled m)),
      (''credential_access'', JBool (mm_credential_access m)),
      (''self_promotion_allowed'', JBool (mm_self_promotion_allowed m))]"

section \<open>The binding decision\<close>

definition MODEL_BINDING_TTL :: int where
  "MODEL_BINDING_TTL = seconds 1"

record ModelBindingDecision =
  mb_bound :: bool
  mb_role :: string
  mb_model_version :: string
  mb_model_artifact_sha256 :: string
  mb_decision_snapshot_id :: string
  mb_reason_codes :: "string list"
  mb_checked_at :: datetime
  mb_valid_until :: datetime
  mb_execution_authorized :: bool

definition ModelBindingDecision_init :: "bool \<Rightarrow> ModelBindingDecision \<Rightarrow> ModelBindingDecision res" where
  "ModelBindingDecision_init sealed d =
     (let reasons = reason_set (mb_reason_codes d) in
      checked
        [raise_if (\<not> sealed) (ValueError ''model binding decisions must come from verify_decision_model''),
         err_of (require_utc ''checked_at'' (mb_checked_at d)),
         err_of (require_utc ''valid_until'' (mb_valid_until d)),
         raise_if (dt_le (mb_valid_until d) (mb_checked_at d)) (ValueError ''model binding validity window is empty''),
         err_of (require_text ''role'' (mb_role d) True),
         err_of (require_text ''model_version'' (mb_model_version d) False),
         err_of (require_hash ''model_artifact_sha256'' (mb_model_artifact_sha256 d) 64),
         err_of (require_text ''decision_snapshot_id'' (mb_decision_snapshot_id d) False),
         raise_if (mb_bound d = (reasons \<noteq> []))
           (ValueError ''bound must be true exactly when there are no reasons''),
         raise_if (mb_execution_authorized d) (ValueError ''a model binding can never authorize execution'')]
        (d\<lparr>mb_role := norm_text True (mb_role d),
           mb_model_version := norm_text False (mb_model_version d),
           mb_model_artifact_sha256 := norm_hash (mb_model_artifact_sha256 d),
           mb_decision_snapshot_id := norm_text False (mb_decision_snapshot_id d),
           mb_reason_codes := reasons\<rparr>))"

definition ModelBindingDecision_dict :: "ModelBindingDecision \<Rightarrow> json" where
  "ModelBindingDecision_dict d = JDict
     [(''bound'', JBool (mb_bound d)),
      (''role'', JStr (mb_role d)),
      (''model_version'', JStr (mb_model_version d)),
      (''model_artifact_sha256'', JStr (mb_model_artifact_sha256 d)),
      (''decision_snapshot_id'', JStr (mb_decision_snapshot_id d)),
      (''reason_codes'', jstrs (mb_reason_codes d)),
      (''checked_at'', jtime (mb_checked_at d)),
      (''valid_until'', jtime (mb_valid_until d)),
      (''execution_authorized'', JBool (mb_execution_authorized d))]"

definition model_gates :: "DecisionSnapshot \<Rightarrow> ModelArtifactManifest \<Rightarrow> (bool \<times> string) list" where
  "model_gates decision artifact =
     [(mm_role artifact \<noteq> ''CHAMPION'', ''CHALLENGER_SHADOW_ONLY''),
      (ds_model_version decision \<noteq> mm_model_version artifact, ''MODEL_VERSION_MISMATCH''),
      (ds_model_artifact_sha256 decision \<noteq> mm_artifact_sha256 artifact, ''MODEL_ARTIFACT_MISMATCH''),
      (ds_commit_sha decision \<noteq> mm_commit_sha artifact, ''MODEL_COMMIT_MISMATCH''),
      (ds_config_sha256 decision \<noteq> mm_config_sha256 artifact, ''MODEL_CONFIG_MISMATCH''),
      (dt_le (ds_bar_closed_at decision) (mm_training_cutoff_at artifact), ''DECISION_NOT_POST_TRAINING_CUTOFF''),
      (dt_lt (ds_created_at decision) (mm_registered_at artifact), ''MODEL_NOT_REGISTERED_AT_DECISION_TIME'')]"

definition verify_decision_model ::
  "DecisionSnapshot \<Rightarrow> ModelArtifactManifest \<Rightarrow> datetime \<Rightarrow> ModelBindingDecision res" where
  "verify_decision_model decision artifact checked_at =
     res_bind (require_utc ''checked_at'' checked_at) (\<lambda>_.
     let reasons = fired (model_gates decision artifact) in
     ModelBindingDecision_init True
       \<lparr>mb_bound = (reasons = []), mb_role = mm_role artifact, mb_model_version = mm_model_version artifact,
        mb_model_artifact_sha256 = mm_artifact_sha256 artifact, mb_decision_snapshot_id = snapshot_id decision,
        mb_reason_codes = reasons, mb_checked_at = checked_at,
        mb_valid_until = dt_add checked_at MODEL_BINDING_TTL, mb_execution_authorized = False\<rparr>)"

section \<open>Behaviour\<close>

lemma model_binding_cases:
  assumes "verify_decision_model decision artifact t = Inr d"
  shows "mb_reason_codes d = reason_set (fired (model_gates decision artifact))"
    "mb_bound d \<longleftrightarrow> list_all (\<lambda>(c, code). \<not> c) (model_gates decision artifact)"
    "mb_role d = norm_text True (mm_role artifact)" "mb_checked_at d = t" "mb_valid_until d = dt_add t (seconds 1)"
    "mb_decision_snapshot_id d = str_strip (snapshot_id decision)"
    "mb_model_artifact_sha256 d = norm_hash (mm_artifact_sha256 artifact)" "\<not> mb_execution_authorized d" "is_utc t"
  using assms
  by (auto simp: verify_decision_model_def ModelBindingDecision_init_def Let_def res_bind_Inr_iff checked_Inr_iff
      is_utc_require MODEL_BINDING_TTL_def norm_text_def)

interpretation model_gate: reason_gate "\<lambda>(decision, artifact, t). verify_decision_model decision artifact t"
  mb_bound mb_reason_codes
  by unfold_locales (auto simp: model_binding_cases)

text \<open>
  A decision is bound exactly to the registered champion it names: same version, artifact, commit and
  configuration, decided on a bar that closed after the training data ended, by a model that was
  registered when it decided.
\<close>

lemma bound_iff_champion:
  assumes "verify_decision_model decision artifact t = Inr d"
  shows "mb_bound d \<longleftrightarrow>
    mm_role artifact = ''CHAMPION'' \<and> ds_model_version decision = mm_model_version artifact
    \<and> ds_model_artifact_sha256 decision = mm_artifact_sha256 artifact
    \<and> ds_commit_sha decision = mm_commit_sha artifact \<and> ds_config_sha256 decision = mm_config_sha256 artifact
    \<and> dt_lt (mm_training_cutoff_at artifact) (ds_bar_closed_at decision)
    \<and> dt_le (mm_registered_at artifact) (ds_created_at decision)"
  using model_binding_cases(2) [OF assms]
  by (auto simp: model_gates_def dt_le_def dt_lt_def)

end
