(* ===== verification/Mt5_Authorization.thy ===== *)
theory Mt5_Authorization
  imports Mt5_Preflight Model_Governance Controls Risk_Context
begin

text \<open>
  The capabilities of \<open>live_runtime/mt5_adapter.py\<close>: \<open>ExecutionGateCapability\<close>, which joins the outputs of
  the independent gates for one reserved intent, and \<open>RuntimeAuthorization\<close>, which is minted from it and a
  verified permit, lives at most one second and is what the adapter asks for before it sends an order.
\<close>

definition MAX_AUTHORIZATION_AGE_SECONDS :: pyfloat where
  "MAX_AUTHORIZATION_AGE_SECONDS = Fin 1"

definition ZERO_HASH :: string where
  "ZERO_HASH = replicate 64 (CHR ''0'')"

text \<open>\<open>a and b\<close>, where evaluating the second operand may raise.\<close>

definition res_and :: "bool res \<Rightarrow> bool res \<Rightarrow> bool res" where
  "res_and x y = res_bind x (\<lambda>b. if b then y else Inr False)"

lemma res_and_True [simp]: "res_and x y = Inr True \<longleftrightarrow> x = Inr True \<and> y = Inr True"
  by (auto simp: res_and_def res_bind_Inr_iff split: if_splits)

text \<open>The age of evidence at \<open>now\<close> is between zero and one second.\<close>

definition within_authorization_age :: "datetime \<Rightarrow> datetime \<Rightarrow> bool" where
  "within_authorization_age now t =
     (let age = total_seconds (dt_sub now t) in fl_le (Fin 0) age \<and> fl_le age MAX_AUTHORIZATION_AGE_SECONDS)"

section \<open>RuntimeAuthorization\<close>

record RuntimeAuthorization =
  ra_mode :: string
  ra_intent_id :: string
  ra_permit_id :: string
  ra_risk_decision_id :: string
  ra_journal_sha256 :: string
  ra_broker_spec_sha256 :: string
  ra_verified_risk_context_sha256 :: string
  ra_verified_risk_context_valid_until_utc :: datetime
  ra_preflight_sha256 :: string
  ra_execution_gate_sha256 :: string
  ra_environment_arm_sha256 :: string
  ra_manual_demo_approval_sha256 :: string
  ra_max_risk_cash :: pyfloat
  ra_max_margin_cash :: pyfloat
  ra_spread_limit_points :: pyfloat
  ra_spread_p95_points :: pyfloat
  ra_spread_median_multiple_limit_points :: pyfloat
  ra_broker_point :: pyfloat
  ra_checked_at_utc :: datetime
  ra_valid_until_utc :: datetime

definition hash_field_check :: "string \<times> string \<Rightarrow> exn option" where
  "hash_field_check nv =
     raise_if (\<not> is_sha256_hex (str_lower (snd nv))) (ValueError (fst nv @ '' must be a SHA-256 hash''))"

definition RuntimeAuthorization_init :: "bool \<Rightarrow> RuntimeAuthorization \<Rightarrow> RuntimeAuthorization res" where
  "RuntimeAuthorization_init sealed r =
     checked
       ([raise_if (\<not> sealed) (TypeError ''RuntimeAuthorization can only be minted from a verified signed permit''),
         err_of (require_utc ''checked_at_utc'' (ra_checked_at_utc r)),
         err_of (require_utc ''valid_until_utc'' (ra_valid_until_utc r)),
         err_of (require_utc ''verified_risk_context_valid_until_utc'' (ra_verified_risk_context_valid_until_utc r)),
         raise_if (dt_le (ra_valid_until_utc r) (ra_checked_at_utc r))
           (ValueError ''authorization validity window is empty''),
         raise_if (dt_lt (ra_verified_risk_context_valid_until_utc r) (ra_valid_until_utc r))
           (ValueError ''authorization outlives verified risk context''),
         err_of (mt5_finite (JFloat (ra_max_risk_cash r)) ''max_risk_cash'' True),
         err_of (mt5_finite (JFloat (ra_max_margin_cash r)) ''max_margin_cash'' True),
         err_of (mt5_finite (JFloat (ra_spread_limit_points r)) ''spread_limit_points'' False),
         err_of (mt5_finite (JFloat (ra_spread_p95_points r)) ''spread_p95_points'' True),
         err_of (mt5_finite (JFloat (ra_spread_median_multiple_limit_points r)) ''spread_median_multiple_limit_points'' True),
         err_of (mt5_finite (JFloat (ra_broker_point r)) ''broker_point'' True)]
        @ map hash_field_check
            [(''journal_sha256'', ra_journal_sha256 r), (''broker_spec_sha256'', ra_broker_spec_sha256 r),
             (''verified_risk_context_sha256'', ra_verified_risk_context_sha256 r),
             (''preflight_sha256'', ra_preflight_sha256 r), (''execution_gate_sha256'', ra_execution_gate_sha256 r),
             (''environment_arm_sha256'', ra_environment_arm_sha256 r),
             (''manual_demo_approval_sha256'', ra_manual_demo_approval_sha256 r)]
        @ [raise_if (fl_lt (ra_spread_limit_points r) (Fin 0)) (ValueError ''spread_limit_points must be nonnegative''),
           raise_if (\<not> fl_eq (ra_spread_limit_points r)
                       (fl_min (ra_spread_p95_points r) (ra_spread_median_multiple_limit_points r)))
             (ValueError ''spread limit provenance is inconsistent'')])
       (r\<lparr>ra_journal_sha256 := str_lower (ra_journal_sha256 r),
          ra_broker_spec_sha256 := str_lower (ra_broker_spec_sha256 r),
          ra_verified_risk_context_sha256 := str_lower (ra_verified_risk_context_sha256 r),
          ra_preflight_sha256 := str_lower (ra_preflight_sha256 r),
          ra_execution_gate_sha256 := str_lower (ra_execution_gate_sha256 r),
          ra_environment_arm_sha256 := str_lower (ra_environment_arm_sha256 r),
          ra_manual_demo_approval_sha256 := str_lower (ra_manual_demo_approval_sha256 r)\<rparr>)"

definition RuntimeAuthorization_dict :: "RuntimeAuthorization \<Rightarrow> json" where
  "RuntimeAuthorization_dict r = JDict
     [(''mode'', JStr (ra_mode r)), (''intent_id'', JStr (ra_intent_id r)), (''permit_id'', JStr (ra_permit_id r)),
      (''risk_decision_id'', JStr (ra_risk_decision_id r)), (''journal_sha256'', JStr (ra_journal_sha256 r)),
      (''broker_spec_sha256'', JStr (ra_broker_spec_sha256 r)),
      (''verified_risk_context_sha256'', JStr (ra_verified_risk_context_sha256 r)),
      (''verified_risk_context_valid_until_utc'', jtime (ra_verified_risk_context_valid_until_utc r)),
      (''preflight_sha256'', JStr (ra_preflight_sha256 r)),
      (''execution_gate_sha256'', JStr (ra_execution_gate_sha256 r)),
      (''environment_arm_sha256'', JStr (ra_environment_arm_sha256 r)),
      (''manual_demo_approval_sha256'', JStr (ra_manual_demo_approval_sha256 r)),
      (''max_risk_cash'', JFloat (ra_max_risk_cash r)), (''max_margin_cash'', JFloat (ra_max_margin_cash r)),
      (''spread_limit_points'', JFloat (ra_spread_limit_points r)),
      (''spread_p95_points'', JFloat (ra_spread_p95_points r)),
      (''spread_median_multiple_limit_points'', JFloat (ra_spread_median_multiple_limit_points r)),
      (''broker_point'', JFloat (ra_broker_point r)), (''checked_at_utc'', jtime (ra_checked_at_utc r)),
      (''valid_until_utc'', jtime (ra_valid_until_utc r))]"

definition authorization_sha256 :: "RuntimeAuthorization \<Rightarrow> string" where
  "authorization_sha256 r = canonical_sha256 (RuntimeAuthorization_dict r)"

definition allows_order_send :: "RuntimeAuthorization \<Rightarrow> datetime \<Rightarrow> bool res" where
  "allows_order_send r now =
     res_bind (require_utc ''now'' now) (\<lambda>t.
     let mode = str_upper (str_strip (ra_mode r)) in
     Inr (if dt_le (ra_valid_until_utc r) t then False
          else if mode \<in> {''LIVE'', ''DEMO_AUTO''}
          then fst (execution_mode_policy_decision mode)
               \<and> (mode = ''LIVE'' \<longrightarrow> ra_manual_demo_approval_sha256 r \<noteq> ZERO_HASH)
          else mode = ''DEMO'' \<and> ra_manual_demo_approval_sha256 r \<noteq> ZERO_HASH))"

section \<open>ExecutionGateCapability\<close>

record ExecutionGateCapability =
  eg_intent_id :: string
  eg_reservation_intent_id :: string
  eg_journal_sha256 :: string
  eg_risk_decision_sha256 :: string
  eg_health_decision_sha256 :: string
  eg_market_guard_decision_sha256 :: string
  eg_model_binding_decision_sha256 :: string
  eg_preflight_sha256 :: string
  eg_guard_sha256 :: string
  eg_broker_spec_sha256 :: string
  eg_checked_at_utc :: datetime

definition ExecutionGateCapability_init :: "bool \<Rightarrow> ExecutionGateCapability \<Rightarrow> ExecutionGateCapability res" where
  "ExecutionGateCapability_init sealed g =
     checked
       ([raise_if (\<not> sealed)
           (TypeError ''ExecutionGateCapability can only be minted by the runtime coordinator''),
         err_of (require_utc ''checked_at_utc'' (eg_checked_at_utc g))]
        @ map hash_field_check
            [(''risk_decision_sha256'', eg_risk_decision_sha256 g), (''health_decision_sha256'', eg_health_decision_sha256 g),
             (''market_guard_decision_sha256'', eg_market_guard_decision_sha256 g),
             (''model_binding_decision_sha256'', eg_model_binding_decision_sha256 g),
             (''preflight_sha256'', eg_preflight_sha256 g), (''guard_sha256'', eg_guard_sha256 g),
             (''broker_spec_sha256'', eg_broker_spec_sha256 g), (''journal_sha256'', eg_journal_sha256 g)])
       (g\<lparr>eg_risk_decision_sha256 := str_lower (eg_risk_decision_sha256 g),
          eg_health_decision_sha256 := str_lower (eg_health_decision_sha256 g),
          eg_market_guard_decision_sha256 := str_lower (eg_market_guard_decision_sha256 g),
          eg_model_binding_decision_sha256 := str_lower (eg_model_binding_decision_sha256 g),
          eg_preflight_sha256 := str_lower (eg_preflight_sha256 g),
          eg_guard_sha256 := str_lower (eg_guard_sha256 g),
          eg_broker_spec_sha256 := str_lower (eg_broker_spec_sha256 g),
          eg_journal_sha256 := str_lower (eg_journal_sha256 g)\<rparr>)"

definition ExecutionGateCapability_dict :: "ExecutionGateCapability \<Rightarrow> json" where
  "ExecutionGateCapability_dict g = JDict
     [(''intent_id'', JStr (eg_intent_id g)), (''reservation_intent_id'', JStr (eg_reservation_intent_id g)),
      (''journal_sha256'', JStr (eg_journal_sha256 g)), (''risk_decision_sha256'', JStr (eg_risk_decision_sha256 g)),
      (''health_decision_sha256'', JStr (eg_health_decision_sha256 g)),
      (''market_guard_decision_sha256'', JStr (eg_market_guard_decision_sha256 g)),
      (''model_binding_decision_sha256'', JStr (eg_model_binding_decision_sha256 g)),
      (''preflight_sha256'', JStr (eg_preflight_sha256 g)), (''guard_sha256'', JStr (eg_guard_sha256 g)),
      (''broker_spec_sha256'', JStr (eg_broker_spec_sha256 g)), (''checked_at_utc'', jtime (eg_checked_at_utc g))]"

definition ExecutionGateCapability_content_sha256 :: "ExecutionGateCapability \<Rightarrow> string" where
  "ExecutionGateCapability_content_sha256 g = canonical_sha256 (ExecutionGateCapability_dict g)"

text \<open>The outputs of the gates that one execution joins.\<close>

record gate_outputs =
  go_risk :: RiskDecision
  go_health :: RuntimeHealthDecision
  go_market :: MarketGuardDecision
  go_model :: ModelBindingDecision
  go_preflight :: MT5Preflight
  go_guard :: MT5SubmissionGuard
  go_broker_spec :: BrokerSpec

definition gate_output_checks ::
  "TradeIntent \<Rightarrow> gate_outputs \<Rightarrow> IntentRecord \<Rightarrow> string \<Rightarrow> datetime \<Rightarrow> exn option list" where
  "gate_output_checks t g reservation jsha now =
     [raise_if (\<not> rd_allowed (go_risk g)) (ExecutionLockedError ''approved risk evaluator output is required''),
      raise_if (\<not> hd_healthy (go_health g)) (ExecutionLockedError ''healthy runtime evaluator output is required''),
      raise_if (\<not> mg_news_clear (go_market g) \<or> \<not> mg_rollover_clear (go_market g) \<or> MarketGuardDecision.mg_symbol (go_market g) \<noteq> ti_symbol t)
        (ExecutionLockedError ''clear sealed market guard output is required''),
      raise_if (\<not> mb_bound (go_model g) \<or> mb_role (go_model g) \<noteq> ''CHAMPION''
                \<or> mb_decision_snapshot_id (go_model g) \<noteq> snapshot_id (ti_decision t)
                \<or> mb_model_artifact_sha256 (go_model g) \<noteq> ds_model_artifact_sha256 (ti_decision t))
        (ExecutionLockedError ''exact sealed champion binding is required''),
      raise_if (\<not> mp_passed (go_preflight g)) (ExecutionLockedError ''sealed passed MT5 preflight is required''),
      raise_if (ir_state reservation \<noteq> SUBMITTING) (ExecutionLockedError ''durable SUBMITTING reservation is required''),
      raise_if (\<not> is_sha256_hex (str_lower jsha)) (ExecutionLockedError ''durable journal identity is invalid''),
      raise_if (list_ex (\<lambda>t. \<not> within_authorization_age now t)
                  [rd_evaluated_at (go_risk g), hd_observed_at (go_health g), mg_evaluated_at (go_market g),
                   mb_checked_at (go_model g), mp_checked_at_utc (go_preflight g)])
        (ExecutionLockedError ''execution gate evidence is stale''),
      raise_if (dt_le (mb_valid_until (go_model g)) now) (ExecutionLockedError ''champion binding expired''),
      err_of (require_utc ''guard checked_at_utc'' (mg_checked_at_utc (go_guard g)))]"

definition guard_matches :: "TradeIntent \<Rightarrow> gate_outputs \<Rightarrow> datetime \<Rightarrow> bool" where
  "guard_matches t g now =
     (within_authorization_age now (mg_checked_at_utc (go_guard g))
      \<and> mg_intent_id (go_guard g) = intent_id t \<and> mg_account_id (go_guard g) = ti_account_id t
      \<and> mg_server (go_guard g) = ti_server t \<and> MT5SubmissionGuard.mg_symbol (go_guard g) = ti_symbol t
      \<and> mg_active_order_count (go_guard g) = 0 \<and> mg_active_position_count (go_guard g) = 0
      \<and> mg_broker_spec_sha256 (go_guard g) = BrokerSpec_content_sha256 (go_broker_spec g))"

definition mint_execution_gate_capability ::
  "TradeIntent \<Rightarrow> gate_outputs \<Rightarrow> IntentRecord \<Rightarrow> string \<Rightarrow> datetime \<Rightarrow> ExecutionGateCapability res" where
  "mint_execution_gate_capability t g reservation jsha requested =
     res_bind (require_utc ''now'' requested) (\<lambda>now.
     res_bind (checked (gate_output_checks t g reservation jsha now) ()) (\<lambda>_.
     if \<not> guard_matches t g now \<or> mp_intent_id (go_preflight g) \<noteq> intent_id t
        \<or> ir_intent_id reservation \<noteq> intent_id t
        \<or> mp_broker_spec_sha256 (go_preflight g) \<noteq> BrokerSpec_content_sha256 (go_broker_spec g)
     then Inl (ExecutionLockedError ''execution gate evidence binding failed'')
     else ExecutionGateCapability_init True
       \<lparr>eg_intent_id = intent_id t, eg_reservation_intent_id = ir_intent_id reservation,
        eg_journal_sha256 = str_lower jsha,
        eg_risk_decision_sha256 = RiskDecision_content_sha256 (go_risk g),
        eg_health_decision_sha256 = canonical_sha256 (RuntimeHealthDecision_dict (go_health g)),
        eg_market_guard_decision_sha256 = canonical_sha256 (MarketGuardDecision_dict (go_market g)),
        eg_model_binding_decision_sha256 = canonical_sha256 (ModelBindingDecision_dict (go_model g)),
        eg_preflight_sha256 = MT5Preflight_content_sha256 (go_preflight g),
        eg_guard_sha256 = MT5SubmissionGuard_content_sha256 (go_guard g),
        eg_broker_spec_sha256 = BrokerSpec_content_sha256 (go_broker_spec g), eg_checked_at_utc = now\<rparr>))"

section \<open>build\_runtime\_authorization\<close>

definition EnvironmentArmDecision_dict :: "EnvironmentArmDecision \<Rightarrow> json" where
  "EnvironmentArmDecision_dict d = JDict
     [(''armed'', JBool (ed_armed d)), (''reason_codes'', jstrs (ed_reason_codes d)),
      (''checked_at_utc'', jtime (ed_checked_at_utc d)), (''valid_until_utc'', jtime (ed_valid_until_utc d)),
      (''env_var_name'', JStr (ed_env_var_name d)), (''binding_sha256'', JStr (ed_binding_sha256 d)),
      (''journal_sha256'', JStr (ed_journal_sha256 d)),
      (''observed_value_sha256'', jopt JStr (ed_observed_value_sha256 d)),
      (''schema_version'', JStr (ed_schema_version d))]"

definition ManualDemoApprovalValidation_dict :: "ManualDemoApprovalValidation \<Rightarrow> json" where
  "ManualDemoApprovalValidation_dict v = JDict
     [(''valid'', JBool (mv_valid v)), (''reason_codes'', jstrs (mv_reason_codes v)),
      (''signature_valid'', JBool (mv_signature_valid v)), (''binding_valid'', JBool (mv_binding_valid v)),
      (''time_valid'', JBool (mv_time_valid v)), (''checked_at_utc'', jtime (mv_checked_at_utc v)),
      (''issued_at_utc'', jtime (mv_issued_at_utc v)), (''valid_until_utc'', jtime (mv_valid_until_utc v)),
      (''approval_id'', JStr (mv_approval_id v)), (''binding_sha256'', JStr (mv_binding_sha256 v)),
      (''intent_id'', JStr (mv_intent_id v)), (''account_id_sha256'', JStr (mv_account_id_sha256 v)),
      (''server'', JStr (mv_server v)), (''approver_id'', JStr (mv_approver_id v)), (''key_id'', JStr (mv_key_id v)),
      (''journal_sha256'', JStr (mv_journal_sha256 v)), (''mode'', JStr (mv_mode v)),
      (''schema_version'', JStr (mv_schema_version v))]"

text \<open>The keyword arguments that come from other components.\<close>

record authorization_inputs =
  ai_permit_validation :: PermitValidation
  ai_risk_decision :: RiskDecision
  ai_broker_spec :: BrokerSpec
  ai_verified_risk_context :: VerifiedRiskContext
  ai_reservation :: IntentRecord
  ai_gate_capability :: ExecutionGateCapability
  ai_environment_arm_decision :: EnvironmentArmDecision
  ai_manual_demo_approval_validation :: "ManualDemoApprovalValidation option"
  ai_live_canary_order_authorization_sha256 :: "string option"
  ai_additional_valid_until_utc :: "datetime option"

definition arm_valid :: "TradeIntent \<Rightarrow> EnvironmentArmDecision \<Rightarrow> string \<Rightarrow> datetime \<Rightarrow> bool res" where
  "arm_valid t arm jsha now =
     res_bind (environment_arm_binding_sha256 (ti_account_id t) (ti_server t) (ti_mode t) jsha) (\<lambda>expected.
     res_and (arm_is_fresh arm now) (Inr (ed_binding_sha256 arm = expected \<and> ed_journal_sha256 arm = jsha)))"

definition manual_validation_bound ::
  "TradeIntent \<Rightarrow> ManualDemoApprovalValidation \<Rightarrow> string \<Rightarrow> datetime \<Rightarrow> bool res" where
  "manual_validation_bound t v jsha now =
     res_and (approval_is_fresh v now)
       (res_and (Inr (mv_intent_id v = intent_id t))
         (res_bind (manual_demo_account_sha256 (ti_account_id t)) (\<lambda>account.
           Inr (mv_account_id_sha256 v = account \<and> mv_server v = ti_server t \<and> mv_journal_sha256 v = jsha
                \<and> mv_mode v = ''DEMO''))))"

text \<open>The hash of the per-order authority: the manual approval, the live authorization, or zeros.\<close>

definition order_authority ::
  "TradeIntent \<Rightarrow> ManualDemoApprovalValidation option \<Rightarrow> string option \<Rightarrow> string \<Rightarrow> datetime \<Rightarrow> string res" where
  "order_authority t manual live_sha256 jsha now =
     (let locked = (\<lambda>msg. Inl (ExecutionLockedError msg)) in
      res_bind (if ti_mode t = ''DEMO''
                then res_bind (case manual of None \<Rightarrow> Inr False
                               | Some v \<Rightarrow> manual_validation_bound t v jsha now) (\<lambda>bound.
                     if \<not> bound then locked ''manual demo approval is stale or mismatched''
                     else Inr (canonical_sha256 (ManualDemoApprovalValidation_dict (the manual))))
                else Inr ZERO_HASH) (\<lambda>approval.
      if ti_mode t = ''LIVE''
      then res_bind (res_reraise type_or_value_error
             (ExecutionLockedError ''LIVE runtime authorization requires per-order authority'')
             (case live_sha256 of None \<Rightarrow> Inl (TypeError ''live_canary_order_authorization_sha256 must be text'')
              | Some h \<Rightarrow> require_hash ''live_canary_order_authorization_sha256'' h 64)) (\<lambda>live.
             if live = ZERO_HASH then locked ''LIVE per-order authority hash cannot be zero'' else Inr live)
      else if live_sha256 \<noteq> None then locked ''LIVE per-order authority is forbidden for non-LIVE mode''
      else Inr approval))"

definition permit_bindings_match :: "TradeIntent \<Rightarrow> PermitValidation \<Rightarrow> string \<Rightarrow> bool res" where
  "permit_bindings_match t p jsha =
     res_and (Inr (pv_valid p \<and> ti_permit_id t = pv_permit_id p \<and> ti_mode t = pv_mode p))
       (res_bind (account_alias_sha256 (ti_account_id t)) (\<lambda>account.
         Inr (account = pv_account_alias_sha256 p \<and> ti_server t = pv_server p \<and> ti_symbol t \<in> set (pv_symbols p)
              \<and> ds_commit_sha (ti_decision t) = pv_commit_sha p \<and> ds_config_sha256 (ti_decision t) = pv_config_sha256 p
              \<and> ds_model_artifact_sha256 (ti_decision t) = pv_model_artifact_sha256 p
              \<and> pv_journal_sha256 p = jsha)))"

definition reservation_matches ::
  "TradeIntent \<Rightarrow> IntentRecord \<Rightarrow> BrokerSpec \<Rightarrow> VerifiedRiskContext \<Rightarrow> string \<Rightarrow> bool" where
  "reservation_matches t r spec v authority =
     (ir_intent_id r = intent_id t \<and> ir_state r = SUBMITTING
      \<and> (case json_get (ir_payload r) ''intent'' of
           Some (JDict d) \<Rightarrow> json_same (JDict d) (TradeIntent_dict t) | _ \<Rightarrow> False)
      \<and> json_get (ir_payload r) ''broker_spec_sha256'' = Some (JStr (BrokerSpec_content_sha256 spec))
      \<and> json_get (ir_payload r) ''verified_risk_context_sha256''
          = Some (JStr (canonical_sha256 (VerifiedRiskContext_dict v)))
      \<and> (ti_mode t \<noteq> ''LIVE'' \<or> json_get (ir_payload r) ''live_canary_order_authorization_sha256'' = Some (JStr authority)))"

definition risk_matches :: "TradeIntent \<Rightarrow> RiskDecision \<Rightarrow> ExecutionGateCapability \<Rightarrow> datetime \<Rightarrow> bool" where
  "risk_matches t d g now =
     (rd_symbol d = ti_symbol t
      \<and> fl_le (fl_abs (fl_sub (rd_normalized_lot d) (ti_requested_lot t))) cash_tolerance
      \<and> within_authorization_age now (rd_evaluated_at d)
      \<and> eg_risk_decision_sha256 g = RiskDecision_content_sha256 d)"

definition context_mismatch ::
  "TradeIntent \<Rightarrow> VerifiedRiskContext \<Rightarrow> BrokerSpec \<Rightarrow> PermitValidation \<Rightarrow> string \<Rightarrow> datetime \<Rightarrow> bool" where
  "context_mismatch t v spec p jsha now =
     (dt_lt now (vc_evaluated_at_utc v) \<or> dt_le (vc_valid_until_utc v) now
      \<or> vc_account_id v \<noteq> ti_account_id t \<or> vc_server v \<noteq> ti_server t \<or> vc_environment v \<noteq> bs_environment spec
      \<or> vc_symbol v \<noteq> ti_symbol t \<or> vc_broker_symbol v \<noteq> bs_broker_symbol spec \<or> vc_mode v \<noteq> ti_mode t
      \<or> vc_broker_spec_sha256 v \<noteq> BrokerSpec_content_sha256 spec \<or> vc_journal_sha256 v \<noteq> jsha
      \<or> vc_permit_id v \<noteq> pv_permit_id p)"

definition authorization_checks ::
  "TradeIntent \<Rightarrow> authorization_inputs \<Rightarrow> string \<Rightarrow> datetime \<Rightarrow> string \<Rightarrow> bool \<Rightarrow> exn option list" where
  "authorization_checks t i jsha now authority permit_ok =
     (let p = ai_permit_validation i; spec = ai_broker_spec i; g = ai_gate_capability i in
      [raise_if (\<not> permit_ok \<or> \<not> within_authorization_age now (pv_checked_at p))
         (ExecutionLockedError ''signed permit validation is stale or mismatched''),
       raise_if (\<not> (dt_le (pv_issued_at p) now \<and> dt_lt now (pv_expires_at p)))
         (ExecutionLockedError ''signed permit is outside its validity window''),
       raise_if (\<not> risk_matches t (ai_risk_decision i) g now
                 \<or> bs_account_id spec \<noteq> ti_account_id t \<or> bs_server spec \<noteq> ti_server t \<or> bs_symbol spec \<noteq> ti_symbol t
                 \<or> \<not> reservation_matches t (ai_reservation i) spec (ai_verified_risk_context i) authority)
         (ExecutionLockedError ''risk, broker, or journal reservation binding failed''),
       raise_if (eg_intent_id g \<noteq> intent_id t \<or> eg_reservation_intent_id g \<noteq> ir_intent_id (ai_reservation i)
                 \<or> eg_journal_sha256 g \<noteq> jsha \<or> eg_broker_spec_sha256 g \<noteq> BrokerSpec_content_sha256 spec
                 \<or> \<not> within_authorization_age now (eg_checked_at_utc g))
         (ExecutionLockedError ''execution gate capability is stale or mismatched''),
       raise_if (context_mismatch t (ai_verified_risk_context i) spec p jsha now)
         (ExecutionLockedError ''verified risk context is stale or mismatched'')])"

definition authorization_expiry :: "TradeIntent \<Rightarrow> authorization_inputs \<Rightarrow> datetime \<Rightarrow> datetime res" where
  "authorization_expiry t i now =
     (let base = dt_min (dt_min (dt_min (pv_expires_at (ai_permit_validation i))
                    (ed_valid_until_utc (ai_environment_arm_decision i)))
                    (vc_valid_until_utc (ai_verified_risk_context i))) (dt_add now (seconds 1)) in
      res_bind (if ti_mode t \<in> {''DEMO_AUTO'', ''LIVE''}
                then case ai_additional_valid_until_utc i of
                    None \<Rightarrow> Inl (ExecutionLockedError (ti_mode t @ '' authorization requires the aggregate control expiry''))
                  | Some u \<Rightarrow> res_bind (require_utc ''additional_valid_until_utc'' u) (\<lambda>aggregate.
                      if dt_le aggregate now
                      then Inl (ExecutionLockedError (ti_mode t @ '' aggregate control expiry is stale''))
                      else Inr (dt_min base aggregate))
                else Inr base) (\<lambda>expiry.
      Inr (case ai_manual_demo_approval_validation i of
             Some v \<Rightarrow> if ti_mode t = ''DEMO'' then dt_min expiry (mv_valid_until_utc v) else expiry
           | None \<Rightarrow> expiry)))"

definition build_runtime_authorization ::
  "TradeIntent \<Rightarrow> authorization_inputs \<Rightarrow> string \<Rightarrow> datetime \<Rightarrow> RuntimeAuthorization res" where
  "build_runtime_authorization t i journal requested =
     (let jsha = str_lower journal; d = ai_risk_decision i; spec = ai_broker_spec i in
      res_bind (checked
        [raise_if (\<not> rd_allowed d) (ExecutionLockedError ''an approved independent risk decision is required''),
         raise_if (\<not> is_sha256_hex jsha) (ValueError ''journal_sha256 must be a lowercase SHA-256 hash'')] ()) (\<lambda>_.
      res_bind (require_utc ''now'' requested) (\<lambda>now.
      res_bind (arm_valid t (ai_environment_arm_decision i) jsha now) (\<lambda>armed.
      if \<not> armed then Inl (ExecutionLockedError ''environment arm is stale or mismatched'')
      else res_bind (order_authority t (ai_manual_demo_approval_validation i)
             (ai_live_canary_order_authorization_sha256 i) jsha now) (\<lambda>authority.
      res_bind (permit_bindings_match t (ai_permit_validation i) jsha) (\<lambda>permit_ok.
      res_bind (checked (authorization_checks t i jsha now authority permit_ok) ()) (\<lambda>_.
      res_bind (authorization_expiry t i now) (\<lambda>expiry.
      RuntimeAuthorization_init True
        \<lparr>ra_mode = ti_mode t, ra_intent_id = intent_id t, ra_permit_id = pv_permit_id (ai_permit_validation i),
         ra_risk_decision_id = decision_id d, ra_journal_sha256 = jsha,
         ra_broker_spec_sha256 = BrokerSpec_content_sha256 spec,
         ra_verified_risk_context_sha256 = canonical_sha256 (VerifiedRiskContext_dict (ai_verified_risk_context i)),
         ra_verified_risk_context_valid_until_utc = vc_valid_until_utc (ai_verified_risk_context i),
         ra_preflight_sha256 = eg_preflight_sha256 (ai_gate_capability i),
         ra_execution_gate_sha256 = ExecutionGateCapability_content_sha256 (ai_gate_capability i),
         ra_environment_arm_sha256 = canonical_sha256 (EnvironmentArmDecision_dict (ai_environment_arm_decision i)),
         ra_manual_demo_approval_sha256 = authority, ra_max_risk_cash = rd_max_risk_cash d,
         ra_max_margin_cash = rd_margin_limit_cash d, ra_spread_limit_points = rd_spread_limit_points d,
         ra_spread_p95_points = rd_spread_p95_points d,
         ra_spread_median_multiple_limit_points = rd_spread_median_multiple_limit_points d,
         ra_broker_point = bs_point spec, ra_checked_at_utc = now, ra_valid_until_utc = expiry\<rparr>))))))))"

end
