(* ===== verification/Mt5_Submit.thy ===== *)
theory Mt5_Submit
  imports Mt5_Authorization Submission_Runtime
begin

text \<open>
  \<open>MT5Adapter.submit\<close> of \<open>live_runtime/mt5_adapter.py\<close>: every check is repeated against fresh broker facts,
  the one-use lease of the journal is consumed, and only then \<open>order_send\<close> is called; what the broker answers
  becomes a sealed receipt.

  The state holds the runtime of the journal, the requests handed to \<open>order_send\<close> (with their intents, for
  the statements below), the account fences with the one the coordinator holds, and the outside world. The lease is the \<open>i\<close>-th of the runtime. The per-order authority of LIVE mode
  (\<open>live_canary_order_authorization.py\<close>) is a parameter: whether it was supplied, and its verification at an
  instant, which returns the hash of the authority or raises.
\<close>

section \<open>State\<close>

record 'w exec_state =
  ex_world :: 'w
  ex_rt :: runtime
  ex_sends :: "(string \<times> item) list"
  ex_fences :: fence_world
  ex_fence :: "fence_id option"

record 's live_authority =
  lv_supplied :: bool
  lv_verify :: "datetime \<Rightarrow> ('s, string) act"

fun live_authority_error :: "exn \<Rightarrow> bool" where
  "live_authority_error (LiveCanaryOrderAuthorizationError code) = True"
| "live_authority_error e = type_or_value_error e"

definition act_reraise :: "(exn \<Rightarrow> bool) \<Rightarrow> exn \<Rightarrow> ('s, 'a) act \<Rightarrow> ('s, 'a) act" where
  "act_reraise handles e m = (\<lambda>s. case m s of (r, s') \<Rightarrow> (res_reraise handles e r, s'))"

definition consume_lease ::
  "('w exec_state, datetime) act \<Rightarrow> nat \<Rightarrow> string \<Rightarrow> string \<Rightarrow> SubmissionBinding
   \<Rightarrow> ('w exec_state, SubmissionConsumptionProof) act" where
  "consume_lease journal_clock i jsha iid b =
     act_bind journal_clock (\<lambda>clock s.
       let rt = ex_rt s in
       if length (rt_leases rt) \<le> i then (Inl (SubmissionLimitError ''AUTHORIZATION_ALREADY_CONSUMED''), s)
       else case lease_consume (rt_leases rt ! i) jsha iid b clock (rt_journal rt) of
           (l', Inr proof) \<Rightarrow>
             (Inr proof, s\<lparr>ex_rt := rt\<lparr>rt_leases := (rt_leases rt)[i := l'], rt_sent := rt_sent rt @ [(iid, proof)]\<rparr>\<rparr>)
         | (l', Inl e) \<Rightarrow> (Inl e, s\<lparr>ex_rt := rt\<lparr>rt_leases := (rt_leases rt)[i := l']\<rparr>\<rparr>))"

definition send_order :: "'w exec_state mt5 \<Rightarrow> string \<Rightarrow> item \<Rightarrow> ('w exec_state, item option) act" where
  "send_order m iid request = (\<lambda>s. m5_order_send m request (s\<lparr>ex_sends := ex_sends s @ [(iid, request)]\<rparr>))"

section \<open>Checks before the send\<close>

definition live_submission_check ::
  "'s live_authority \<Rightarrow> TradeIntent \<Rightarrow> RuntimeAuthorization \<Rightarrow> datetime \<Rightarrow> ('s, unit) act" where
  "live_submission_check lv t r now =
     (if ti_mode t = ''LIVE''
      then act_bind (act_reraise live_authority_error
             (ExecutionLockedError ''LIVE per-order authorization is stale or mismatched'') (lv_verify lv now)) (\<lambda>authority.
           act_require [raise_if (ra_manual_demo_approval_sha256 r \<noteq> authority)
             (ExecutionLockedError ''runtime authorization does not bind LIVE per-order authority'')])
      else act_require [raise_if (lv_supplied lv)
             (ExecutionLockedError ''LIVE-only authority is forbidden for non-LIVE submission'')])"

definition live_boundary_check :: "'s live_authority \<Rightarrow> TradeIntent \<Rightarrow> string \<Rightarrow> datetime \<Rightarrow> ('s, unit) act" where
  "live_boundary_check lv t msg now =
     (if ti_mode t = ''LIVE''
      then act_bind (act_reraise live_authority_error (PreflightRejectedError msg) (lv_verify lv now)) (\<lambda>_. act_return ())
      else act_return ())"

definition submission_bindings ::
  "MT5Adapter \<Rightarrow> TradeIntent \<Rightarrow> MT5Preflight \<Rightarrow> RuntimeAuthorization \<Rightarrow> string \<Rightarrow> datetime \<Rightarrow> unit res" where
  "submission_bindings a t p r lease_journal now =
     res_bind (allows_order_send r now) (\<lambda>allowed.
     let (symbol_allowed, symbol_reason) = validate_execution_symbol (Some (ti_symbol t)) None False (ModeStr (ti_mode t)) in
     res_bind (checked
       [raise_if (\<not> allowed \<or> str_upper (ra_mode r) \<noteq> ti_mode t \<or> ra_intent_id r \<noteq> intent_id t
                  \<or> ra_permit_id r \<noteq> ti_permit_id t)
          (ExecutionLockedError ''runtime authorization does not allow order_send''),
        raise_if (\<not> mp_passed p \<or> mp_intent_id p \<noteq> intent_id t \<or> mp_intent_sha256 p \<noteq> TradeIntent_content_sha256 t
                  \<or> ra_broker_spec_sha256 r \<noteq> mp_broker_spec_sha256 p \<or> ra_preflight_sha256 r \<noteq> MT5Preflight_content_sha256 p)
          (PreflightRejectedError ''valid matching preflight is required''),
        raise_if (lease_journal \<noteq> ra_journal_sha256 r)
          (ExecutionLockedError ''submission lease journal does not match runtime authorization''),
        raise_if (dt_le (mp_valid_until_utc p) now \<or> dt_le (ti_expires_at t) now)
          (PreflightRejectedError ''preflight or intent expired before submission''),
        assert_symbol_binding a (ti_symbol t) (mp_broker_symbol p)] ()) (\<lambda>_.
     res_bind (validate_execution_lot (NFloat (ti_requested_lot t))) (\<lambda>(lot_allowed, lot_reason).
     checked
       [raise_if (\<not> symbol_allowed) (ExecutionLockedError symbol_reason),
        raise_if (\<not> lot_allowed) (ExecutionLockedError lot_reason),
        raise_if (ad_environment a \<noteq> (if ti_mode t = ''LIVE'' then ''LIVE'' else ''DEMO''))
          (AccountBindingError ''intent mode does not match broker environment'')] ())))"

definition boundary_open :: "TradeIntent \<Rightarrow> MT5Preflight \<Rightarrow> RuntimeAuthorization \<Rightarrow> string \<Rightarrow> datetime \<Rightarrow> unit res" where
  "boundary_open t p r msg now =
     res_bind (allows_order_send r now) (\<lambda>allowed.
     checked [raise_if (\<not> allowed \<or> dt_le (mp_valid_until_utc p) now \<or> dt_le (ti_expires_at t) now)
       (PreflightRejectedError msg)] ())"

text \<open>\<open>preflight.request[key]\<close> as a number.\<close>

definition request_value :: "MT5Preflight \<Rightarrow> string \<Rightarrow> json res" where
  "request_value p k = (case json_get (mp_request p) k of None \<Rightarrow> Inl (KeyError k) | Some v \<Rightarrow> Inr v)"

definition final_adverse_entry ::
  "TradeIntent \<Rightarrow> MT5Preflight \<Rightarrow> RuntimeAuthorization \<Rightarrow> broker_tick \<Rightarrow> pyfloat res" where
  "final_adverse_entry t p r tick =
     (let current_entry = (if ti_side t = ''BUY'' then tk_ask tick else tk_bid tick) in
      res_bind (res_bind (request_value p ''price'') py_float) (\<lambda>requested_entry.
      res_bind (res_bind (request_value p ''deviation'') py_float) (\<lambda>deviation.
      let slip = fl_mul deviation (ra_broker_point r) in
      Inr (if ti_side t = ''BUY'' then fl_add (fl_max requested_entry current_entry) slip
           else fl_sub (fl_min requested_entry current_entry) slip))))"

definition spread_check :: "RuntimeAuthorization \<Rightarrow> broker_tick \<Rightarrow> unit res" where
  "spread_check r tick =
     res_bind (fl_div (fl_sub (tk_ask tick) (tk_bid tick)) (ra_broker_point r)) (\<lambda>spread_points.
     checked [raise_if (fl_le (ra_spread_p95_points r) spread_points
                        \<or> fl_lt (ra_spread_median_multiple_limit_points r) spread_points)
       (PreflightRejectedError ''actual broker spread exceeds risk-governor limit'')] ())"

definition cash_checks :: "RuntimeAuthorization \<Rightarrow> pyfloat \<Rightarrow> pyfloat \<Rightarrow> exn option list" where
  "cash_checks r stop_risk margin =
     [raise_if (fl_lt (fl_add (ra_max_risk_cash r) cash_tolerance) stop_risk)
        (PreflightRejectedError ''actual stop risk exceeds risk-governor limit''),
      raise_if (fl_lt (fl_add (ra_max_margin_cash r) cash_tolerance) margin)
        (PreflightRejectedError ''actual margin exceeds risk-governor limit'')]"

definition final_facts_fresh :: "MT5Adapter \<Rightarrow> AccountBinding \<Rightarrow> broker_tick \<Rightarrow> datetime \<Rightarrow> exn option list" where
  "final_facts_fresh a account tick now =
     (let tick_age = total_seconds (dt_sub now (tk_time_utc tick)) in
      [err_of (require_utc ''final account fact captured_at_utc'' (acc_captured_at_utc account)),
       err_of (require_utc ''final tick time_utc'' (tk_time_utc tick)),
       raise_if (\<not> within_authorization_age now (acc_captured_at_utc account)
                 \<or> fl_lt tick_age (Fin 0) \<or> fl_lt (Fin (of_int (ad_max_tick_age_seconds a))) tick_age)
         (PreflightRejectedError ''final account or tick facts are stale at send boundary'')])"

text \<open>
  From the account binding to the send boundary: the broker's answers are taken afresh, in this order,
  and the stop risk computed from them is what the receipt will report.
\<close>

definition final_broker_checks ::
  "'s mt5 \<Rightarrow> MT5Adapter \<Rightarrow> 's live_authority \<Rightarrow> TradeIntent \<Rightarrow> MT5Preflight \<Rightarrow> RuntimeAuthorization \<Rightarrow> ('s, pyfloat) act" where
  "final_broker_checks m a lv t p r =
     act_bind (adapter_now m None) (\<lambda>final_now.
     act_bind (live_boundary_check lv t ''LIVE authority expired at order_send boundary'' final_now) (\<lambda>_.
     act_bind (act_lift (boundary_open t p r
       ''authorization, preflight, or intent expired at order_send boundary'' final_now)) (\<lambda>_.
     act_bind (assert_account_binding m a) (\<lambda>account.
     act_bind (act_require [raise_if (\<not> acc_trade_allowed account \<or> \<not> acc_trade_expert account)
       (PreflightRejectedError ''broker account no longer allows expert trading'')]) (\<lambda>_.
     act_bind (adapter_orders m a) (\<lambda>orders.
     act_bind (if orders \<noteq> [] then act_return [] else adapter_positions m a) (\<lambda>positions.
     act_bind (act_require [raise_if (orders \<noteq> [] \<or> positions \<noteq> [])
       (PreflightRejectedError ''global exposure appeared at final order_send boundary'')]) (\<lambda>_.
     act_bind (current_tick m a (mp_broker_symbol p) (Some final_now)) (\<lambda>tick.
     act_bind (act_lift (spread_check r tick)) (\<lambda>_.
     act_bind (act_lift (final_adverse_entry t p r tick)) (\<lambda>adverse_entry.
     act_bind (estimate_stop_risk_cash m a t (mp_broker_symbol p) (Some adverse_entry)) (\<lambda>stop_risk.
     act_bind (act_lift (res_bind (request_value p ''type'') py_int)) (\<lambda>order_type.
     act_bind (m5_order_calc_margin m order_type (mp_broker_symbol p) (ti_requested_lot t) adverse_entry) (\<lambda>margin_value.
     act_bind (act_lift (mt5_finite margin_value ''final order_calc_margin'' True)) (\<lambda>margin.
     act_bind (act_require (cash_checks r stop_risk margin)) (\<lambda>_.
     act_bind (adapter_now m None) (\<lambda>send_boundary_now.
     act_bind (live_boundary_check lv t ''LIVE authority expired at final send boundary'' send_boundary_now) (\<lambda>_.
     act_bind (act_lift (boundary_open t p r
       ''authorization, preflight, or intent expired at final send boundary'' send_boundary_now)) (\<lambda>_.
     act_bind (act_require (final_facts_fresh a account tick send_boundary_now)) (\<lambda>_.
     act_return stop_risk))))))))))))))))))))"

section \<open>The broker's answer\<close>

definition definitive_reject_codes :: "(string \<times> int) list" where
  "definitive_reject_codes =
     [(''TRADE_RETCODE_REQUOTE'', 10004), (''TRADE_RETCODE_REJECT'', 10006), (''TRADE_RETCODE_CANCEL'', 10007),
      (''TRADE_RETCODE_INVALID'', 10013), (''TRADE_RETCODE_INVALID_VOLUME'', 10014),
      (''TRADE_RETCODE_INVALID_PRICE'', 10015), (''TRADE_RETCODE_INVALID_STOPS'', 10016),
      (''TRADE_RETCODE_TRADE_DISABLED'', 10017), (''TRADE_RETCODE_MARKET_CLOSED'', 10018),
      (''TRADE_RETCODE_NO_MONEY'', 10019), (''TRADE_RETCODE_PRICE_CHANGED'', 10020),
      (''TRADE_RETCODE_PRICE_OFF'', 10021), (''TRADE_RETCODE_INVALID_EXPIRATION'', 10022),
      (''TRADE_RETCODE_ORDER_CHANGED'', 10023), (''TRADE_RETCODE_TOO_MANY_REQUESTS'', 10024),
      (''TRADE_RETCODE_INVALID_ORDER'', 10035), (''TRADE_RETCODE_LIMIT_ORDERS'', 10033),
      (''TRADE_RETCODE_LIMIT_VOLUME'', 10034)]"

definition receipt_state_of :: "'s mt5 \<Rightarrow> int \<Rightarrow> pyfloat \<Rightarrow> string" where
  "receipt_state_of m retcode filled =
     (let done_code = mt5_attr_or m ''TRADE_RETCODE_DONE'' 10009;
          placed_code = mt5_attr_or m ''TRADE_RETCODE_PLACED'' 10008;
          partial_code = mt5_attr_or m ''TRADE_RETCODE_DONE_PARTIAL'' 10010 in
      if retcode = partial_code then ''PARTIAL''
      else if retcode = done_code \<and> fl_lt (Fin 0) filled then ''FILLED''
      else if retcode \<in> {done_code, placed_code} then ''ACKNOWLEDGED''
      else if retcode \<in> set (map (\<lambda>(name, d). mt5_attr_or m name d) definitive_reject_codes) then ''REJECTED''
      else ''UNCERTAIN'')"

definition optional_text :: "json \<Rightarrow> string option" where
  "optional_text v = (if py_truthy v then Some (py_str v) else None)"

definition optional_value :: "(json \<Rightarrow> 'a res) \<Rightarrow> json \<Rightarrow> 'a option res" where
  "optional_value conv v = (if py_truthy v then res_bind (conv v) (\<lambda>x. Inr (Some x)) else Inr None)"

definition broker_receipt ::
  "'s mt5 \<Rightarrow> MT5Adapter \<Rightarrow> TradeIntent \<Rightarrow> SubmissionConsumptionProof \<Rightarrow> pyfloat \<Rightarrow> pyfloat \<Rightarrow> datetime \<Rightarrow> item
   \<Rightarrow> ExecutionReceipt res" where
  "broker_receipt m a t proof requested_price stop_risk received_at payload =
     res_bind (py_int (dict_get_or payload ''retcode'' (JInt (- 1)))) (\<lambda>retcode.
     res_bind (py_float (py_or (dict_get payload ''volume'') (JFloat (Fin 0)))) (\<lambda>filled.
     if \<not> is_finite filled \<or> fl_lt filled (Fin 0) \<or> fl_lt (fl_add (ti_requested_lot t) cash_tolerance) filled
     then Inl (SubmissionUncertainError ''broker returned an impossible filled volume'')
     else res_bind (optional_value py_float (dict_get payload ''price'')) (\<lambda>fill_price.
     if fl_lt (Fin 0) filled \<and> (case fill_price of None \<Rightarrow> True | Some x \<Rightarrow> \<not> is_finite x)
     then Inl (SubmissionUncertainError ''broker omitted fill price for nonzero volume'')
     else res_bind (optional_value py_int (dict_get payload ''time_msc'')) (\<lambda>time_msc.
     mint_execution_receipt proof []
       \<lparr>er_intent_id = intent_id t, er_state = receipt_state_of m retcode filled, er_account_id = ad_account_alias a,
        er_server = ad_expected_server a, er_symbol = ti_symbol t, er_requested_volume = ti_requested_lot t,
        er_filled_volume = filled, er_received_at = received_at, er_broker_retcode = int_repr retcode,
        er_message = py_text (dict_get payload ''comment''), er_journal_sha256 = sp_journal_sha256 proof,
        er_execution_gate_sha256 = sp_execution_gate_sha256 proof,
        er_authorization_sha256 = sp_authorization_sha256 proof,
        er_broker_request_sha256 = sp_broker_request_sha256 proof, er_submission_consumed_at = sp_consumed_at proof,
        er_order_ticket = optional_text (dict_get payload ''order''),
        er_deal_ticket = optional_text (dict_get payload ''deal''), er_requested_price = Some requested_price,
        er_fill_price = fill_price,
        er_slippage_price = map_option (\<lambda>x. if ti_side t = ''BUY'' then fl_sub x requested_price
                                            else fl_sub requested_price x) fill_price,
        er_broker_time_msc = time_msc, er_stop_loss = Some (ti_stop_loss t),
        er_take_profit = Some (ti_take_profit t), er_actual_risk_cash = Some stop_risk,
        er_schema_version = CONTRACT_SCHEMA_VERSION\<rparr>))))"

section \<open>submit\<close>

definition submission_binding_of :: "MT5Preflight \<Rightarrow> RuntimeAuthorization \<Rightarrow> SubmissionBinding" where
  "submission_binding_of p r =
     \<lparr>sb_execution_gate_sha256 = ra_execution_gate_sha256 r, sb_authorization_sha256 = authorization_sha256 r,
      sb_broker_request_sha256 = mp_request_sha256 p\<rparr>"

text \<open>After the lease is consumed every failure is uncertain, and \<open>order_send\<close> is called once.\<close>

definition send_consumed ::
  "'w exec_state mt5 \<Rightarrow> MT5Adapter \<Rightarrow> TradeIntent \<Rightarrow> order_request \<Rightarrow> pyfloat \<Rightarrow> SubmissionConsumptionProof
   \<Rightarrow> ('w exec_state, ExecutionReceipt) act" where
  "send_consumed m a t request stop_risk proof =
     act_bind (act_reraise (\<lambda>e. True) (SubmissionUncertainError ''order_send raised after submission began'')
       (send_order m (intent_id t) (request_dict request))) (\<lambda>result.
     act_bind (adapter_now m None) (\<lambda>received_at.
     case result of
       None \<Rightarrow> act_raise (SubmissionUncertainError ''order_send returned no result'')
     | Some payload \<Rightarrow> act_lift (broker_receipt m a t proof (rq_price request) stop_risk received_at payload)))"

definition submit ::
  "'w exec_state mt5 \<Rightarrow> ('w exec_state, datetime) act \<Rightarrow> MT5Adapter \<Rightarrow> 'w exec_state live_authority \<Rightarrow> TradeIntent
   \<Rightarrow> MT5Preflight \<Rightarrow> RuntimeAuthorization \<Rightarrow> nat \<Rightarrow> string \<Rightarrow> datetime option \<Rightarrow> ('w exec_state, ExecutionReceipt) act" where
  "submit m journal_clock a lv t p r lease lease_journal requested =
     act_bind (require_initialized m a) (\<lambda>_.
     act_bind (adapter_now m requested) (\<lambda>now.
     act_bind (live_submission_check lv t r now) (\<lambda>_.
     act_bind (act_lift (submission_bindings a t p r lease_journal now)) (\<lambda>_.
     act_bind (assert_account_binding m a) (\<lambda>_.
     act_bind (request_for m a t (mp_broker_symbol p) (mp_current_bid p) (mp_current_ask p)
       (mp_allowed_deviation_points p)) (\<lambda>request.
     act_bind (act_require [raise_if (canonical_sha256 (mp_request p) \<noteq> mp_request_sha256 p
         \<or> canonical_sha256 (JDict (request_dict request)) \<noteq> mp_request_sha256 p)
       (PreflightRejectedError ''preflight request no longer matches immutable intent'')]) (\<lambda>_.
     act_bind (final_broker_checks m a lv t p r) (\<lambda>stop_risk.
     act_bind (consume_lease journal_clock lease (ra_journal_sha256 r) (intent_id t) (submission_binding_of p r))
       (send_consumed m a t request stop_risk)))))))))"

end
