(* ===== verification/Executor.thy ===== *)
theory Executor
  imports Mt5_Submit
begin

text \<open>
  \<open>ExecutionCoordinator\<close> of \<open>live_runtime/executor.py\<close>: one intent is evaluated, checked with the broker,
  reserved in the journal and submitted at most once.

  What the coordinator is given is an argument: its adapter and providers (\<open>coordinator\<close>), the keyword
  arguments of \<open>execute_once\<close> (\<open>execution_request\<close>) and the environment it calls into (\<open>executor_env\<close>), as
  procedures on the state. Before each access to the journal the environment may let other processes
  run (\<open>xe_yield\<close>). The evidence that only DEMO_AUTO and LIVE need comes from components outside the model: its validation is a
  procedure of the environment, and the hashes it contributes to the journal payload are arguments. The release locks of the
  execution policy reject both modes at the safety gate (\<open>locked_mode_gate\<close> in \<open>Executor_Gates\<close>), so the
  branches those modes take behind the gate are not part of the definitions.
\<close>

section \<open>Names and texts\<close>

fun exn_name :: "exn \<Rightarrow> string" where
  "exn_name (TypeError e) = ''TypeError''"
| "exn_name (ValueError e) = ''ValueError''"
| "exn_name (KeyError e) = ''KeyError''"
| "exn_name (PermissionError e) = ''PermissionError''"
| "exn_name (OverflowError e) = ''OverflowError''"
| "exn_name (AssertionError e) = ''AssertionError''"
| "exn_name (ZeroDivisionError e) = ''ZeroDivisionError''"
| "exn_name (DecimalInvalidOperation e) = ''InvalidOperation''"
| "exn_name (JournalError e) = ''JournalError''"
| "exn_name (DuplicateIntentError e) = ''DuplicateIntentError''"
| "exn_name (InvalidTransitionError e) = ''InvalidTransitionError''"
| "exn_name (ExecutorFenceError e) = ''ExecutorFenceError''"
| "exn_name (KillSwitchLatchedError e) = ''KillSwitchLatchedError''"
| "exn_name (SubmissionLimitError e) = ''SubmissionLimitError''"
| "exn_name (IntegrityError e) = ''IntegrityError''"
| "exn_name (MT5AdapterError e) = ''MT5AdapterError''"
| "exn_name (RiskLedgerError e) = ''RiskLedgerError''"
| "exn_name (RiskLedgerBindingError e) = ''RiskLedgerBindingError''"
| "exn_name (RiskLedgerIntegrityError e) = ''RiskLedgerIntegrityError''"
| "exn_name (RiskLedgerDuplicateError e) = ''RiskLedgerDuplicateError''"
| "exn_name (RiskLedgerRollbackError e) = ''RiskLedgerRollbackError''"
| "exn_name (RiskLedgerSourceError e) = ''RiskLedgerSourceError''"
| "exn_name (RuntimeFactCollectionError e) = ''RuntimeFactCollectionError''"
| "exn_name (RuntimeFactVerificationError e) = ''RuntimeFactVerificationError''"
| "exn_name (RiskContextVerificationError e) = ''RiskContextVerificationError''"
| "exn_name (AttributeError e) = ''AttributeError''"
| "exn_name (OSError e) = ''OSError''"
| "exn_name (RuntimeError e) = ''RuntimeError''"
| "exn_name (MT5UnavailableError e) = ''MT5UnavailableError''"
| "exn_name (AccountBindingError e) = ''AccountBindingError''"
| "exn_name (PreflightRejectedError e) = ''PreflightRejectedError''"
| "exn_name (ExecutionLockedError e) = ''ExecutionLockedError''"
| "exn_name (SubmissionUncertainError e) = ''SubmissionUncertainError''"
| "exn_name (AccountRuntimeFenceError e) = ''AccountRuntimeFenceError''"
| "exn_name (LiveCanaryOrderAuthorizationError e) = ''LiveCanaryOrderAuthorizationError''"

text \<open>\<open>str(exc)\<close>: the message.\<close>

fun exn_text :: "exn \<Rightarrow> string" where
  "exn_text (TypeError e) = e"
| "exn_text (ValueError e) = e"
| "exn_text (KeyError e) = str_repr e"
| "exn_text (PermissionError e) = e"
| "exn_text (OverflowError e) = e"
| "exn_text (AssertionError e) = e"
| "exn_text (ZeroDivisionError e) = e"
| "exn_text (DecimalInvalidOperation e) = e"
| "exn_text (JournalError e) = e"
| "exn_text (DuplicateIntentError e) = e"
| "exn_text (InvalidTransitionError e) = e"
| "exn_text (ExecutorFenceError e) = e"
| "exn_text (KillSwitchLatchedError e) = e"
| "exn_text (SubmissionLimitError e) = e"
| "exn_text (IntegrityError e) = e"
| "exn_text (MT5AdapterError e) = e"
| "exn_text (RiskLedgerError e) = e"
| "exn_text (RiskLedgerBindingError e) = e"
| "exn_text (RiskLedgerIntegrityError e) = e"
| "exn_text (RiskLedgerDuplicateError e) = e"
| "exn_text (RiskLedgerRollbackError e) = e"
| "exn_text (RiskLedgerSourceError e) = e"
| "exn_text (RuntimeFactCollectionError e) = e"
| "exn_text (RuntimeFactVerificationError es) = joined es"
| "exn_text (RiskContextVerificationError es) = joined es"
| "exn_text (AttributeError e) = e"
| "exn_text (OSError e) = e"
| "exn_text (RuntimeError e) = e"
| "exn_text (MT5UnavailableError e) = e"
| "exn_text (AccountBindingError e) = e"
| "exn_text (PreflightRejectedError e) = e"
| "exn_text (ExecutionLockedError e) = e"
| "exn_text (SubmissionUncertainError e) = e"
| "exn_text (AccountRuntimeFenceError e) = e"
| "exn_text (LiveCanaryOrderAuthorizationError e) = e"

text \<open>\<open>MT5AdapterError\<close> and its subclasses.\<close>

fun is_adapter_error :: "exn \<Rightarrow> bool" where
  "is_adapter_error (MT5AdapterError e) = True"
| "is_adapter_error (MT5UnavailableError e) = True"
| "is_adapter_error (AccountBindingError e) = True"
| "is_adapter_error (PreflightRejectedError e) = True"
| "is_adapter_error (ExecutionLockedError e) = True"
| "is_adapter_error (SubmissionUncertainError e) = True"
| "is_adapter_error e = False"

fun is_held_before_send :: "exn \<Rightarrow> bool" where
  "is_held_before_send (ExecutionLockedError e) = True"
| "is_held_before_send (PreflightRejectedError e) = True"
| "is_held_before_send (AccountBindingError e) = True"
| "is_held_before_send e = False"

fun is_invalid_evidence :: "exn \<Rightarrow> bool" where
  "is_invalid_evidence (InvalidTransitionError e) = True"
| "is_invalid_evidence e = type_or_value_error e"

fun is_capability_error :: "exn \<Rightarrow> bool" where
  "is_capability_error (ExecutionLockedError e) = True"
| "is_capability_error e = type_or_value_error e"

fun is_fence_unavailable :: "exn \<Rightarrow> bool" where
  "is_fence_unavailable (AccountRuntimeFenceError e) = True"
| "is_fence_unavailable e = False"

fun is_duplicate :: "exn \<Rightarrow> bool" where
  "is_duplicate (DuplicateIntentError e) = True"
| "is_duplicate e = False"

section \<open>Environment, coordinator, request\<close>

text \<open>What \<open>validate_promotion_evidence_receipt\<close> returns, as far as the coordinator reads it.\<close>

record promotion_outcome =
  po_valid :: bool
  po_reason_codes :: "string list"
  po_receipt_sha256 :: string

record 's executor_env =
  xe_mt5 :: "'s mt5"
  xe_clock :: "('s, datetime) act"
  xe_journal_clock :: "('s, datetime) act"
  xe_yield :: "('s, unit) act"
  xe_permit_secret :: "('s, string) act"
  xe_environ :: "('s, string \<Rightarrow> string option) act"
  xe_validate_promotion :: "datetime \<Rightarrow> ('s, promotion_outcome) act"
  xe_os_reply :: "('s, os_reply) act"
  xe_new_object :: "('s, nat) act"

record coordinator =
  co_adapter :: MT5Adapter
  co_account_runtime_identity_sha256 :: string
  co_promotion_evidence_key_provider :: bool
  co_manual_approval_key_provider :: "(string \<Rightarrow> string res) option"
  co_expected_manual_approver_id :: string
  co_expected_manual_approval_key_id :: string
  co_host :: fence_host
  co_process :: process

definition ExecutionCoordinator_init :: "coordinator \<Rightarrow> coordinator res" where
  "ExecutionCoordinator_init c =
     res_bind (execution_fence_identity (co_adapter c)) (\<lambda>identity.
     let runtime_identity = str_lower identity in
     if \<not> is_sha256_hex runtime_identity then Inl (TypeError ''adapter execution fence identity must be SHA-256'')
     else Inr (c\<lparr>co_account_runtime_identity_sha256 := runtime_identity,
                 co_expected_manual_approver_id := str_strip (co_expected_manual_approver_id c),
                 co_expected_manual_approval_key_id := str_strip (co_expected_manual_approval_key_id c)\<rparr>))"

text \<open>The hashes of the DEMO_AUTO capabilities, \<open>None\<close> where the capability is not supplied.\<close>

record demo_auto_hashes =
  dh_ipc_input_sha256 :: "string option"
  dh_ipc_consumption_hmac_sha256 :: "string option"
  dh_ipc_post_checkpoint_sha256 :: "string option"
  dh_session_lease_sha256 :: "string option"
  dh_session_store_binding_sha256 :: "string option"
  dh_session_dispatch_verification_sha256 :: "string option"

record 's execution_request =
  xq_intent :: TradeIntent
  xq_broker_symbol :: string
  xq_broker_spec :: BrokerSpec
  xq_risk_context :: VerifiedRiskContext
  xq_permit :: PromotionPermit
  xq_health_facts :: RuntimeHealthFacts
  xq_market_guard :: MarketGuardDecision
  xq_model_artifact :: ModelArtifactManifest
  xq_owner_id :: string
  xq_fence_token :: int
  xq_manual_demo_approval :: "ManualDemoApproval option"
  xq_promotion_evidence :: "json option"
  xq_demo_auto :: demo_auto_hashes
  xq_live :: "'s live_authority"
  xq_live_authorization_sha256 :: "string option"
  xq_now :: "datetime option"

section \<open>ExecutionOutcome\<close>

record ExecutionOutcome =
  xo_intent_id :: string
  xo_state :: string
  xo_status :: string
  xo_reason_codes :: "string list"
  xo_execution_sent :: bool
  xo_reconciliation_required :: bool
  xo_risk_decision_id :: "string option"
  xo_receipt_id :: "string option"
  xo_live_allowed :: bool
  xo_safe_to_demo_auto_order :: bool

definition ExecutionOutcome_init :: "ExecutionOutcome \<Rightarrow> ExecutionOutcome res" where
  "ExecutionOutcome_init x =
     checked
       [raise_if (xo_intent_id x = [] \<or> xo_state x = [] \<or> xo_status x = [])
          (ValueError ''intent_id, state, and status are required''),
        raise_if (xo_live_allowed x \<or> xo_safe_to_demo_auto_order x)
          (ValueError ''execution outcome cannot change hard policy locks'')]
       (x\<lparr>xo_reason_codes := reason_set (map str_upper (xo_reason_codes x))\<rparr>)"

definition RECONCILIATION_STATES :: "execution_state list" where
  "RECONCILIATION_STATES = [SUBMITTING, ACKNOWLEDGED, PARTIAL, FILLED, UNCERTAIN]"

definition outcome ::
  "IntentRecord \<Rightarrow> string \<Rightarrow> string list \<Rightarrow> bool \<Rightarrow> RiskDecision option \<Rightarrow> string option \<Rightarrow> ('s, ExecutionOutcome) act" where
  "outcome r text reasons called risk receipt =
     act_lift (ExecutionOutcome_init
       \<lparr>xo_intent_id = ir_intent_id r, xo_state = state_name (ir_state r), xo_status = text,
        xo_reason_codes = reasons, xo_execution_sent = called,
        xo_reconciliation_required = (ir_state r \<in> set RECONCILIATION_STATES),
        xo_risk_decision_id = map_option decision_id risk, xo_receipt_id = receipt,
        xo_live_allowed = False, xo_safe_to_demo_auto_order = False\<rparr>)"

section \<open>Access to the journal\<close>

definition journal_get :: "'w exec_state executor_env \<Rightarrow> (journal \<Rightarrow> 'a) \<Rightarrow> ('w exec_state, 'a) act" where
  "journal_get env f = act_bind (xe_yield env) (\<lambda>_ s. (Inr (f (rt_journal (ex_rt s))), s))"

definition journal_check ::
  "'w exec_state executor_env \<Rightarrow> (datetime \<Rightarrow> journal \<Rightarrow> 'a res) \<Rightarrow> ('w exec_state, 'a) act" where
  "journal_check env f =
     act_bind (xe_yield env) (\<lambda>_. act_bind (xe_journal_clock env) (\<lambda>clock s. (f clock (rt_journal (ex_rt s)), s)))"

definition journal_call ::
  "'w exec_state executor_env \<Rightarrow> (datetime \<Rightarrow> journal \<Rightarrow> (journal \<times> 'a) res) \<Rightarrow> ('w exec_state, 'a) act" where
  "journal_call env f =
     act_bind (xe_yield env) (\<lambda>_. act_bind (xe_journal_clock env) (\<lambda>clock s.
       case f clock (rt_journal (ex_rt s)) of
         Inl e \<Rightarrow> (Inl e, s)
       | Inr (st', x) \<Rightarrow> (Inr x, s\<lparr>ex_rt := (ex_rt s)\<lparr>rt_journal := st'\<rparr>\<rparr>)))"

text \<open>A call that returns nothing.\<close>

definition journal_do ::
  "'w exec_state executor_env \<Rightarrow> (datetime \<Rightarrow> journal \<Rightarrow> journal res) \<Rightarrow> ('w exec_state, unit) act" where
  "journal_do env f = journal_call env (\<lambda>clock st. res_bind (f clock st) (\<lambda>st'. Inr (st', ())))"

definition coordinator_now :: "'w exec_state executor_env \<Rightarrow> datetime option \<Rightarrow> ('w exec_state, datetime) act" where
  "coordinator_now env requested = act_bind (xe_clock env) (\<lambda>t. act_lift (asserted_now t requested))"

definition reject ::
  "'w exec_state executor_env \<Rightarrow> IntentRecord \<Rightarrow> string list \<Rightarrow> datetime \<Rightarrow> RiskDecision option
   \<Rightarrow> ('w exec_state, ExecutionOutcome) act" where
  "reject env r reasons now risk =
     act_bind (journal_call env (transition (ir_intent_id r)
         (if ir_state r = CREATED then ''RISK_REJECTED'' else ''REJECTED'') (Some (state_name (ir_state r)))
         (no_facts (JDict [(''reason_codes'', jstrs reasons)]) (Some (joined reasons))) (Some now)))
       (\<lambda>updated. outcome updated ''EXECUTION_REJECTED'' reasons False risk None)"

definition existing_intent_outcome ::
  "'w exec_state executor_env \<Rightarrow> TradeIntent \<Rightarrow> IntentRecord \<Rightarrow> datetime \<Rightarrow> ('w exec_state, ExecutionOutcome) act" where
  "existing_intent_outcome env t r now =
     (if \<not> (ir_intent_id r = intent_id t \<and> ir_decision_id r = snapshot_id (ti_decision t) \<and> ir_symbol r = ti_symbol t
             \<and> (case json_get (ir_payload r) ''intent'' of
                  Some (JDict d) \<Rightarrow> json_same (JDict d) (TradeIntent_dict t) | _ \<Rightarrow> False))
      then act_bind (journal_do env (latch_kill_switch (''journal intent binding mismatch for '' @ intent_id t)
             ''EXECUTION'' (Some now)))
             (\<lambda>_. outcome r ''JOURNAL_INTENT_BINDING_REJECTED'' [''JOURNAL_INTENT_BINDING_MISMATCH''] False None None)
      else if ir_state r \<in> set RECONCILIATION_STATES then outcome r ''RECONCILIATION_REQUIRED'' [] False None None
      else if ir_state r \<in> set TERMINAL_STATES then outcome r ''IDEMPOTENT_TERMINAL'' [] False None None
      else outcome r ''IDEMPOTENT_INCOMPLETE_INTENT_REQUIRES_REVIEW'' [''INTENT_ALREADY_DURABLE''] False None None)"

section \<open>The account fence\<close>

text \<open>A new fence object is acquired and kept; a coordinator keeps one fence.\<close>

definition claim_new_fence ::
  "coordinator \<Rightarrow> AccountRuntimeFence \<Rightarrow> nat \<Rightarrow> os_reply \<Rightarrow> ('w exec_state, unit) act" where
  "claim_new_fence c f n reply =
     (\<lambda>s. let i = (co_process c, n); w = ex_fences s; created = w\<lparr>fw_fences := (fw_fences w)(i \<mapsto> f)\<rparr> in
          if fw_fences w i \<noteq> None then (Inl (RuntimeError ''object identity is in use''), s)
          else case fence_acquire (co_host c) reply i created of
                 Inl e \<Rightarrow> (Inl e, s\<lparr>ex_fences := created\<rparr>)
               | Inr w' \<Rightarrow> (Inr (), s\<lparr>ex_fences := w', ex_fence := Some i\<rparr>))"

definition claim_account_runtime_fence ::
  "'w exec_state executor_env \<Rightarrow> coordinator \<Rightarrow> ('w exec_state, unit) act" where
  "claim_account_runtime_fence env c =
     (\<lambda>s. case ex_fence s of
        Some i \<Rightarrow>
          (case fw_fences (ex_fences s) i of
             Some f \<Rightarrow> if fe_identity_sha256 f \<noteq> co_account_runtime_identity_sha256 c
                       then (Inl (AccountRuntimeFenceError
                               ''one coordinator cannot cross broker account/server boundaries''), s)
                       else (Inr (), s)
           | None \<Rightarrow> (Inl (AttributeError ''identity_sha256''), s))
      | None \<Rightarrow>
          act_bind (act_lift (AccountRuntimeFence_init (co_account_runtime_identity_sha256 c))) (\<lambda>f.
          act_bind (xe_new_object env) (\<lambda>n.
          act_bind (xe_os_reply env) (claim_new_fence c f n))) s)"

definition coordinator_close :: "bool \<Rightarrow> ('w exec_state, unit) act" where
  "coordinator_close unlock_raises =
     (\<lambda>s. case ex_fence s of
        None \<Rightarrow> (Inr (), s)
      | Some i \<Rightarrow> (case fence_close unlock_raises i (ex_fences s) of
                     (Inl e, w') \<Rightarrow> (Inl e, s\<lparr>ex_fences := w'\<rparr>)
                   | (Inr _, w') \<Rightarrow> (Inr (), s\<lparr>ex_fences := w', ex_fence := None\<rparr>)))"

section \<open>Evidence at an instant\<close>

definition DEFAULT_ENVIRONMENT_ARM_VARIABLE :: string where
  "DEFAULT_ENVIRONMENT_ARM_VARIABLE = ''AI_SCALPER_EXECUTION_ARM''"

definition read_arm ::
  "'w exec_state executor_env \<Rightarrow> TradeIntent \<Rightarrow> datetime \<Rightarrow> string \<Rightarrow> ('w exec_state, EnvironmentArmDecision) act" where
  "read_arm env t now jsha =
     act_bind (xe_environ env) (\<lambda>environ.
     act_lift (read_environment_arm environ (ti_account_id t) (ti_server t) (ti_mode t) now jsha
       DEFAULT_ENVIRONMENT_ARM_VARIABLE))"

definition manual_validation ::
  "coordinator \<Rightarrow> TradeIntent \<Rightarrow> ManualDemoApproval option \<Rightarrow> datetime \<Rightarrow> string
   \<Rightarrow> ManualDemoApprovalValidation option res" where
  "manual_validation c t approval now jsha =
     (case (approval, co_manual_approval_key_provider c) of
        (Some a, Some key_provider) \<Rightarrow>
          if ti_mode t = ''DEMO'' \<and> co_expected_manual_approver_id c \<noteq> [] \<and> co_expected_manual_approval_key_id c \<noteq> []
          then res_bind (validate_manual_demo_approval a
                 \<lparr>ax_intent_id = intent_id t, ax_account_id = ti_account_id t, ax_server = ti_server t,
                  ax_approver_id = co_expected_manual_approver_id c, ax_key_id = co_expected_manual_approval_key_id c,
                  ax_journal_sha256 = jsha\<rparr> key_provider now) (\<lambda>v. Inr (Some v))
          else Inr None
      | _ \<Rightarrow> Inr None)"

definition promotion_required :: "TradeIntent \<Rightarrow> bool" where
  "promotion_required t = (ti_mode t \<in> {''DEMO_AUTO'', ''LIVE''})"

definition promotion_validation ::
  "'w exec_state executor_env \<Rightarrow> coordinator \<Rightarrow> 'w exec_state execution_request \<Rightarrow> datetime
   \<Rightarrow> ('w exec_state, promotion_outcome option) act" where
  "promotion_validation env c q now =
     (if promotion_required (xq_intent q) \<and> xq_promotion_evidence q \<noteq> None \<and> co_promotion_evidence_key_provider c
      then act_bind (xe_validate_promotion env now) (\<lambda>v. act_return (Some v)) else act_return None)"

definition promotion_sha256 :: "promotion_outcome option \<Rightarrow> string option" where
  "promotion_sha256 v = (case v of Some p \<Rightarrow> if po_valid p then Some (po_receipt_sha256 p) else None | None \<Rightarrow> None)"

text \<open>A missing or invalid credential is a denial (\<open>None\<close>).\<close>

definition permit_validation_at ::
  "'w exec_state executor_env \<Rightarrow> 'w exec_state execution_request \<Rightarrow> datetime \<Rightarrow> string \<Rightarrow> string option
   \<Rightarrow> ('w exec_state, PermitValidation option) act" where
  "permit_validation_at env q now jsha promotion =
     (let t = xq_intent q; d = ti_decision t in
      act_catch type_or_value_error
        (act_bind (xe_permit_secret env) (\<lambda>secret.
         act_lift (res_bind (validate_permit (xq_permit q) secret
           \<lparr>px_now = now, px_mode = ti_mode t, px_account_alias = ti_account_id t, px_server = ti_server t,
            px_symbols = [ti_symbol t], px_commit_sha = ds_commit_sha d, px_config_sha256 = ds_config_sha256 d,
            px_model_artifact_sha256 = ds_model_artifact_sha256 d, px_journal_sha256 = Some jsha,
            px_promotion_evidence_sha256 = promotion\<rparr>) (\<lambda>v. Inr (Some v)))))
        (act_return None))"

definition context_at :: "coordinator \<Rightarrow> 's execution_request \<Rightarrow> string \<Rightarrow> datetime \<Rightarrow> RiskContext res" where
  "context_at c q jsha now =
     (let t = xq_intent q in
      require_verified_risk_context (xq_risk_context q) now
        \<lparr>ue_account_id = ti_account_id t, ue_server = ti_server t, ue_environment = bs_environment (xq_broker_spec q),
         ue_mode = ti_mode t, ue_symbol = ti_symbol t, ue_broker_symbol = xq_broker_symbol q,
         ue_account_runtime_identity_sha256 = co_account_runtime_identity_sha256 c, ue_journal_sha256 = jsha,
         ue_permit_id = permit_id (xq_permit q)\<rparr>
        (xq_broker_spec q) (xq_health_facts q) (xq_market_guard q))"

section \<open>The payload\<close>

definition demo_auto_payload :: "demo_auto_hashes \<Rightarrow> item" where
  "demo_auto_payload h =
     [(''demo_auto_ipc_input_sha256'', jopt JStr (dh_ipc_input_sha256 h)),
      (''demo_auto_ipc_consumption_hmac_sha256'', jopt JStr (dh_ipc_consumption_hmac_sha256 h)),
      (''demo_auto_ipc_post_checkpoint_sha256'', jopt JStr (dh_ipc_post_checkpoint_sha256 h)),
      (''demo_auto_session_lease_sha256'', jopt JStr (dh_session_lease_sha256 h)),
      (''demo_auto_session_store_binding_sha256'', jopt JStr (dh_session_store_binding_sha256 h)),
      (''demo_auto_session_dispatch_verification_sha256'', jopt JStr (dh_session_dispatch_verification_sha256 h))]"

definition intent_payload :: "'s execution_request \<Rightarrow> string option \<Rightarrow> json" where
  "intent_payload q promotion =
     (let t = xq_intent q; spec = xq_broker_spec q; v = xq_risk_context q; artifact = xq_model_artifact q in
      JDict
        ([(''intent'', TradeIntent_dict t), (''broker_spec'', BrokerSpec_dict spec),
          (''broker_spec_sha256'', JStr (BrokerSpec_content_sha256 spec)), (''broker_symbol'', JStr (xq_broker_symbol q)),
          (''broker_comment'', JStr (broker_comment t)), (''permit_id'', JStr (permit_id (xq_permit q))),
          (''permit_journal_sha256'', JStr (pp_journal_sha256 (xq_permit q))),
          (''model_artifact'', ModelArtifactManifest_dict artifact),
          (''model_artifact_manifest_sha256'', JStr (canonical_sha256 (ModelArtifactManifest_dict artifact))),
          (''promotion_evidence'', jopt id (xq_promotion_evidence q)),
          (''promotion_evidence_sha256'', jopt JStr promotion),
          (''verified_risk_context_sha256'', JStr (canonical_sha256 (VerifiedRiskContext_dict v))),
          (''verified_risk_context'', provenance_metadata v)]
         @ demo_auto_payload (xq_demo_auto q)
         @ [(''live_canary_order_authorization_sha256'', jopt JStr (xq_live_authorization_sha256 q))]))"

section \<open>The safety gate\<close>

text \<open>What the coordinator knows when it decides whether to go on.\<close>

record gate_facts =
  gf_now :: datetime
  gf_context :: RiskContext
  gf_health :: RuntimeHealthDecision
  gf_model :: ModelBindingDecision
  gf_arm :: EnvironmentArmDecision
  gf_manual :: "ManualDemoApprovalValidation option"
  gf_promotion :: "promotion_outcome option"
  gf_permit :: "PermitValidation option"

definition evidence_stale :: "datetime \<Rightarrow> datetime \<Rightarrow> bool" where
  "evidence_stale now observed_at =
     (let age = total_seconds (dt_sub now observed_at) in fl_lt age (Fin 0) \<or> fl_lt (Fin 1) age)"

definition authority_reasons :: "'s execution_request \<Rightarrow> gate_facts \<Rightarrow> string list" where
  "authority_reasons q g =
     (let t = xq_intent q; (allowed, mode_reasons) = execution_mode_policy_decision (ti_mode t) in
      (if \<not> allowed then mode_reasons else [])
      @ (if \<not> ed_armed (gf_arm g) then ed_reason_codes (gf_arm g) else [])
      @ (if ti_mode t = ''DEMO''
         then case gf_manual g of None \<Rightarrow> [''MANUAL_DEMO_APPROVAL_REQUIRED'']
              | Some v \<Rightarrow> if \<not> mv_valid v then mv_reason_codes v else []
         else [])
      @ (if promotion_required t
         then (case gf_promotion g of None \<Rightarrow> [''PROMOTION_EVIDENCE_REQUIRED'']
               | Some v \<Rightarrow> if \<not> po_valid v then po_reason_codes v else [])
              @ fired [(pp_symbols (xq_permit q) \<noteq> [ti_symbol t], ''PROMOTION_PERMIT_MUST_BIND_ONE_LANE'')]
         else []))"

definition lane_gates :: "'s execution_request \<Rightarrow> (bool \<times> string) list" where
  "lane_gates q =
     (let t = xq_intent q; spec = xq_broker_spec q in
      [(\<not> fst (validate_execution_symbol (Some (ti_symbol t)) None False (ModeStr (ti_mode t))),
        ''SYMBOL_EXECUTION_POLICY_BLOCKED''),
       (xq_broker_symbol q \<noteq> bs_broker_symbol spec, ''BROKER_SYMBOL_BINDING_MISMATCH''),
       (ti_mode t \<in> {''DEMO'', ''DEMO_AUTO'', ''LIVE''}
        \<and> bs_environment spec \<noteq> (if ti_mode t = ''LIVE'' then ''LIVE'' else ''DEMO''), ''BROKER_ENVIRONMENT_MISMATCH'')])"

definition switch_gates :: "'s execution_request \<Rightarrow> bool \<Rightarrow> bool \<Rightarrow> (bool \<times> string) list" where
  "switch_gates q latched latched_again =
     [(latched, ''KILL_SWITCH_LATCHED''),
      (hf_kill_switch_latched (xq_health_facts q) \<noteq> latched_again, ''HEALTH_KILL_SWITCH_STATE_MISMATCH'')]"

definition market_reasons :: "'s execution_request \<Rightarrow> gate_facts \<Rightarrow> string list" where
  "market_reasons q g =
     (let m = xq_market_guard q; codes = mg_reason_codes m in
      fired [(MarketGuardDecision.mg_symbol m \<noteq> ti_symbol (xq_intent q), ''MARKET_GUARD_SYMBOL_MISMATCH'')]
      @ (if \<not> mg_news_clear m then if codes \<noteq> [] then codes else [''NEWS_WINDOW_BLOCKED''] else [])
      @ (if \<not> mg_rollover_clear m then if codes \<noteq> [] then codes else [''ROLLOVER_WINDOW_BLOCKED''] else [])
      @ fired [(rc_news_clear (gf_context g) \<noteq> mg_news_clear m, ''RISK_NEWS_GUARD_MISMATCH''),
               (rc_rollover_clear (gf_context g) \<noteq> mg_rollover_clear m, ''RISK_ROLLOVER_GUARD_MISMATCH'')])"

definition evidence_reasons :: "'s execution_request \<Rightarrow> gate_facts \<Rightarrow> string list" where
  "evidence_reasons q g =
     (let stale = evidence_stale (gf_now g) in
      (if \<not> mb_bound (gf_model g) then mb_reason_codes (gf_model g) else [])
      @ fired [(stale (hd_observed_at (gf_health g)), ''HEALTH_DECISION_STALE''),
               (stale (rc_evaluated_at (gf_context g)), ''RISK_CONTEXT_STALE''),
               (stale (bs_captured_at (xq_broker_spec q)), ''BROKER_SPEC_STALE''),
               (stale (mg_evaluated_at (xq_market_guard q)), ''MARKET_GUARD_STALE''),
               (stale (mb_checked_at (gf_model g)), ''MODEL_BINDING_STALE'')]
      @ (if \<not> hd_healthy (gf_health g) then hd_reason_codes (gf_health g) else []))"

definition permit_gate_reasons :: "'s execution_request \<Rightarrow> gate_facts \<Rightarrow> string list" where
  "permit_gate_reasons q g =
     (case gf_permit g of
        None \<Rightarrow> [''PERMIT_VALIDATION_FAILED''] @ fired [(rc_permit_valid (gf_context g), ''PERMIT_CONTEXT_MISMATCH'')]
      | Some v \<Rightarrow>
          fired [(ti_permit_id (xq_intent q) \<noteq> pv_permit_id v, ''PERMIT_ID_MISMATCH'')]
          @ (if \<not> pv_valid v then pv_reason_codes v else [])
          @ fired [(rc_permit_valid (gf_context g) \<noteq> pv_valid v, ''PERMIT_CONTEXT_MISMATCH'')])"

definition safety_reasons :: "'s execution_request \<Rightarrow> gate_facts \<Rightarrow> bool \<Rightarrow> bool \<Rightarrow> string list" where
  "safety_reasons q g latched latched_again =
     authority_reasons q g @ fired (lane_gates q) @ fired (switch_gates q latched latched_again)
     @ market_reasons q g @ evidence_reasons q g @ permit_gate_reasons q g"

section \<open>Sending\<close>

definition act_try :: "('s, 'a) act \<Rightarrow> ('s, 'a res) act" where
  "act_try m = (\<lambda>s. case m s of (r, s') \<Rightarrow> (Inr r, s'))"

text \<open>\<open>with journal.final_submission_guard(...) as lease\<close>: entering, and leaving on every path.\<close>

definition guard_enter ::
  "'w exec_state executor_env \<Rightarrow> string \<Rightarrow> string \<Rightarrow> int \<Rightarrow> SubmissionBinding \<Rightarrow> datetime
   \<Rightarrow> ('w exec_state, nat \<times> string) act" where
  "guard_enter env iid owner token b occurred_at =
     act_bind (xe_yield env) (\<lambda>_. act_bind (xe_journal_clock env) (\<lambda>clock s.
       let rt = ex_rt s in
       case final_submission_guard_enter iid owner token b occurred_at clock (rt_journal rt) of
         Inl e \<Rightarrow> (Inl e, s)
       | Inr (st', l) \<Rightarrow> (Inr (length (rt_leases rt), dl_journal_sha256 l),
           s\<lparr>ex_rt := rt\<lparr>rt_journal := st', rt_leases := rt_leases rt @ [l]\<rparr>\<rparr>)))"

text \<open>
  A consumed lease is only deactivated; for an unused one a receipt is written, and a failure there replaces the
  result of the body.
\<close>

definition guard_close :: "nat \<Rightarrow> datetime res \<Rightarrow> ('w exec_state, unit) act" where
  "guard_close i clock =
     (\<lambda>s. let rt = ex_rt s; l = rt_leases rt ! i; leases = (rt_leases rt)[i := fst (lease_deactivate l)] in
          if length (rt_leases rt) \<le> i then (Inr (), s)
          else case res_bind clock (\<lambda>t. final_submission_guard_exit l t (rt_journal rt)) of
                 Inl e \<Rightarrow> (Inl e, s\<lparr>ex_rt := rt\<lparr>rt_leases := leases\<rparr>\<rparr>)
               | Inr st' \<Rightarrow> (Inr (), s\<lparr>ex_rt := rt\<lparr>rt_journal := st', rt_leases := leases\<rparr>\<rparr>))"

definition lease_used :: "nat \<Rightarrow> 'w exec_state \<Rightarrow> bool" where
  "lease_used i s = (i < length (rt_leases (ex_rt s)) \<and> dl_used (rt_leases (ex_rt s) ! i))"

definition guard_leave :: "'w exec_state executor_env \<Rightarrow> nat \<Rightarrow> ('w exec_state, unit) act" where
  "guard_leave env i =
     (\<lambda>s. if lease_used i s then guard_close i (Inr (utc_at 0)) s
          else act_bind (act_try (act_bind (xe_yield env) (\<lambda>_. xe_journal_clock env))) (guard_close i) s)"

definition guarded_submit ::
  "'w exec_state executor_env \<Rightarrow> coordinator \<Rightarrow> 'w exec_state execution_request \<Rightarrow> MT5Preflight \<Rightarrow> RuntimeAuthorization
   \<Rightarrow> datetime \<Rightarrow> ('w exec_state, ExecutionReceipt) act" where
  "guarded_submit env c q p a submission_now =
     (let t = xq_intent q in
      act_bind (guard_enter env (intent_id t) (xq_owner_id q) (xq_fence_token q) (submission_binding_of p a) submission_now)
        (\<lambda>(lease, lease_journal).
      act_bind (act_try (submit (xe_mt5 env) (xe_journal_clock env) (co_adapter c) ((xq_live q)\<lparr>lv_supplied := False\<rparr>)
        t p a lease lease_journal (Some submission_now))) (\<lambda>result.
      act_bind (guard_leave env lease) (\<lambda>_. act_lift result))))"

section \<open>The stages of \<open>execute_once\<close>\<close>

text \<open>A stage returns an outcome, which ends the call, or what the next stage needs.\<close>

definition act_then :: "('s, ExecutionOutcome + 'a) act \<Rightarrow> ('a \<Rightarrow> ('s, ExecutionOutcome + 'b) act) \<Rightarrow> ('s, ExecutionOutcome + 'b) act" where
  "act_then m f = act_bind m (\<lambda>r. case r of Inl x \<Rightarrow> act_return (Inl x) | Inr y \<Rightarrow> f y)"

definition ends :: "('s, ExecutionOutcome) act \<Rightarrow> ('s, ExecutionOutcome + 'a) act" where
  "ends m = act_bind m (\<lambda>x. act_return (Inl x))"

definition goes_on :: "'a \<Rightarrow> ('s, ExecutionOutcome + 'a) act" where
  "goes_on x = act_return (Inr x)"

definition result_of :: "('s, ExecutionOutcome + ExecutionOutcome) act \<Rightarrow> ('s, ExecutionOutcome) act" where
  "result_of m = act_bind m (\<lambda>r. act_return (case r of Inl x \<Rightarrow> x | Inr x \<Rightarrow> x))"

subsection \<open>Evidence and the durable intent\<close>

definition collect_gate_facts ::
  "'w exec_state executor_env \<Rightarrow> coordinator \<Rightarrow> 'w exec_state execution_request \<Rightarrow> string \<Rightarrow> datetime \<Rightarrow> RiskContext
   \<Rightarrow> ('w exec_state, gate_facts) act" where
  "collect_gate_facts env c q jsha now ctx =
     (let t = xq_intent q in
      act_bind (act_lift (evaluate_runtime_health (xq_health_facts q))) (\<lambda>health.
      act_bind (act_lift (verify_decision_model (ti_decision t) (xq_model_artifact q) now)) (\<lambda>model.
      act_bind (read_arm env t now jsha) (\<lambda>arm.
      act_bind (act_lift (manual_validation c t (xq_manual_demo_approval q) now jsha)) (\<lambda>manual.
      act_bind (promotion_validation env c q now) (\<lambda>promotion.
      act_bind (permit_validation_at env q now jsha (promotion_sha256 promotion)) (\<lambda>permit.
      act_return \<lparr>gf_now = now, gf_context = ctx, gf_health = health, gf_model = model, gf_arm = arm,
                  gf_manual = manual, gf_promotion = promotion, gf_permit = permit\<rparr>)))))))"

definition intent_stage ::
  "'w exec_state executor_env \<Rightarrow> 'w exec_state execution_request \<Rightarrow> gate_facts
   \<Rightarrow> ('w exec_state, ExecutionOutcome + IntentRecord) act" where
  "intent_stage env q g =
     (let t = xq_intent q; iid = intent_id t in
      act_bind (act_try (journal_call env (create_intent iid (snapshot_id (ti_decision t)) (ti_symbol t)
        (intent_payload q (promotion_sha256 (gf_promotion g))) (Some (ti_created_at t))))) (\<lambda>created.
      case created of
        Inl e \<Rightarrow>
          if is_duplicate e
          then act_bind (journal_get env (get_intent iid)) (\<lambda>raced.
                 case raced of None \<Rightarrow> act_raise e
                 | Some r \<Rightarrow> ends (existing_intent_outcome env t r (gf_now g)))
          else act_raise e
      | Inr r \<Rightarrow>
          if ir_intent_id r \<noteq> iid
          then ends (outcome r ''DECISION_ALREADY_HAS_DURABLE_INTENT'' [''DECISION_IDEMPOTENCY_LOCKED''] False None None)
          else if ir_state r \<noteq> CREATED then ends (existing_intent_outcome env t r (gf_now g))
          else goes_on r))"

definition safety_stage ::
  "'w exec_state executor_env \<Rightarrow> 'w exec_state execution_request \<Rightarrow> gate_facts \<Rightarrow> IntentRecord
   \<Rightarrow> ('w exec_state, ExecutionOutcome + unit) act" where
  "safety_stage env q g r =
     act_bind (journal_get env (\<lambda>st. ks_latched (kill_switch_status st))) (\<lambda>latched.
     act_bind (journal_get env (\<lambda>st. ks_latched (kill_switch_status st))) (\<lambda>latched_again.
     let reasons = safety_reasons q g latched latched_again in
     if reasons \<noteq> [] then ends (reject env r (reason_set reasons) (gf_now g) None) else goes_on ()))"

subsection \<open>Account fence, receipts and risk\<close>

definition fence_stage ::
  "'w exec_state executor_env \<Rightarrow> coordinator \<Rightarrow> gate_facts \<Rightarrow> IntentRecord
   \<Rightarrow> ('w exec_state, ExecutionOutcome + unit) act" where
  "fence_stage env c g r =
     act_bind (act_try (claim_account_runtime_fence env c)) (\<lambda>claimed.
     case claimed of
       Inl e \<Rightarrow> if is_fence_unavailable e
                then ends (reject env r [''ACCOUNT_RUNTIME_FENCE_UNAVAILABLE''] (gf_now g) None) else act_raise e
     | Inr _ \<Rightarrow> goes_on ())"

definition gate_receipts :: "'s execution_request \<Rightarrow> gate_facts \<Rightarrow> (string \<times> json) list" where
  "gate_receipts q g =
     [(''MARKET_GUARD'', MarketGuardDecision_dict (xq_market_guard q)),
      (''MODEL_BINDING'', ModelBindingDecision_dict (gf_model g)),
      (''ENVIRONMENT_ARM_DECISION'', EnvironmentArmDecision_dict (gf_arm g))]
     @ (case gf_manual g of None \<Rightarrow> []
        | Some v \<Rightarrow> [(''MANUAL_DEMO_APPROVAL_VALIDATION'', ManualDemoApprovalValidation_dict v)])"

definition LATCHING_REASONS :: "string list" where
  "LATCHING_REASONS = [''DAILY_LOSS_LIMIT'', ''WEEKLY_LOSS_LIMIT'', ''DRAWDOWN_LIMIT'', ''LOSS_LATCH_ACTIVE'']"

definition risk_stage ::
  "'w exec_state executor_env \<Rightarrow> 'w exec_state execution_request \<Rightarrow> gate_facts \<Rightarrow> IntentRecord
   \<Rightarrow> ('w exec_state, ExecutionOutcome + IntentRecord \<times> RiskDecision) act" where
  "risk_stage env q g r =
     (let iid = intent_id (xq_intent q); now = gf_now g in
      act_bind (act_each (\<lambda>(kind, payload). journal_do env (append_receipt iid kind payload (Some now))) (gate_receipts q g)) (\<lambda>_.
      act_bind (act_lift (evaluate_risk (xq_intent q) (xq_broker_spec q) (gf_context g))) (\<lambda>risk.
      act_bind (journal_do env (record_risk_decision iid risk (Some now))) (\<lambda>_.
      if \<not> rd_allowed risk
      then let latching = reason_set (filter (\<lambda>x. x \<in> set LATCHING_REASONS) (rd_reason_codes risk)) in
           act_bind (act_when (latching \<noteq> []) (journal_do env (latch_kill_switch (''risk stop: '' @ joined latching)
             ''RISK_GOVERNOR'' (Some now)))) (\<lambda>_.
           ends (reject env r (rd_reason_codes risk) now (Some risk)))
      else act_bind (if ir_state r = CREATED
             then journal_call env (transition iid ''RISK_APPROVED'' (Some ''CREATED'')
               (no_facts (JDict [(''risk_decision_id'', JStr (decision_id risk))]) None) (Some now))
             else act_return r) (\<lambda>approved. goes_on (approved, risk))))))"

subsection \<open>Preflight\<close>

fun py_floor :: "pyfloat \<Rightarrow> int res" where
  "py_floor (Fin x) = Inr \<lfloor>x\<rfloor>"
| "py_floor NaN = Inl (ValueError ''cannot convert float NaN to integer'')"
| "py_floor x = Inl (OverflowError ''cannot convert float infinity to integer'')"

definition preflight_payload :: "'s execution_request \<Rightarrow> (string \<times> json) list" where
  "preflight_payload q =
     (let t = xq_intent q in
      [(''symbol'', JStr (xq_broker_symbol q)), (''volume'', JFloat (ti_requested_lot t)),
       (''price'', JFloat (ti_entry_reference t)), (''sl'', JFloat (ti_stop_loss t)),
       (''tp'', JFloat (ti_take_profit t))])"

definition preflight_reasons ::
  "'s execution_request \<Rightarrow> gate_facts \<Rightarrow> RiskDecision \<Rightarrow> MT5Preflight \<Rightarrow> string list res" where
  "preflight_reasons q g risk p =
     (let spec = xq_broker_spec q in
      res_bind (fl_div (fl_sub (mp_current_ask p) (mp_current_bid p)) (bs_point spec)) (\<lambda>spread.
      Inr (fired
        [(\<not> mp_passed p, ''BROKER_ORDER_CHECK_REJECTED''),
         (fl_lt (fl_add (rd_max_risk_cash risk) cash_tolerance) (mp_estimated_stop_risk_cash p),
          ''BROKER_CALCULATED_RISK_EXCEEDED''),
         (fl_lt (fl_mul MAX_MARGIN_FRACTION (rc_equity (gf_context g))) (mp_estimated_margin_cash p),
          ''BROKER_CALCULATED_MARGIN_EXCEEDED''),
         (fl_le (rd_spread_p95_points risk) spread \<or> fl_lt (rd_spread_median_multiple_limit_points risk) spread,
          ''ACTUAL_BROKER_SPREAD_EXCEEDED''),
         (mp_broker_spec_sha256 p \<noteq> BrokerSpec_content_sha256 spec, ''BROKER_SPEC_PREFLIGHT_MISMATCH''),
         (\<not> list_all (\<lambda>(k, v). json_get (mp_request p) k = Some v) (preflight_payload q),
          ''PREFLIGHT_PAYLOAD_MISMATCH'')])))"

definition preflight_stage ::
  "'w exec_state executor_env \<Rightarrow> coordinator \<Rightarrow> 'w exec_state execution_request \<Rightarrow> gate_facts \<Rightarrow> IntentRecord \<times> RiskDecision
   \<Rightarrow> ('w exec_state, ExecutionOutcome + IntentRecord \<times> RiskDecision \<times> MT5Preflight) act" where
  "preflight_stage env c q g = (\<lambda>(r, risk).
     let t = xq_intent q; iid = intent_id t; now = gf_now g in
     act_bind (coordinator_now env None) (\<lambda>preflight_now.
     act_bind (act_lift (py_floor (rd_slippage_limit_points risk))) (\<lambda>deviation.
     act_bind (act_try (preflight (xe_mt5 env) (co_adapter c) t (xq_broker_symbol q) (max 0 deviation) (Some preflight_now)))
       (\<lambda>checked_with_broker.
     case checked_with_broker of
       Inl e \<Rightarrow>
         if is_adapter_error e
         then ends (reject env r [str_upper (''PREFLIGHT_EXCEPTION_'' @ exn_name e)] now (Some risk)) else act_raise e
     | Inr p \<Rightarrow>
         act_bind (journal_do env (record_mt5_preflight iid p (Some now))) (\<lambda>_.
         act_bind (act_lift (preflight_reasons q g risk p)) (\<lambda>reasons.
         if reasons \<noteq> [] then ends (reject env r reasons now (Some risk))
         else act_bind (if ir_state r = RISK_APPROVED
                then journal_call env (transition iid ''PREFLIGHT_PASSED'' (Some ''RISK_APPROVED'')
                  (no_facts (JDict [(''broker_retcode'', JStr (mp_broker_retcode p))]) None) (Some now))
                else act_return r) (\<lambda>passed. goes_on (passed, risk, p))))))))"

definition mode_policy_allows :: "'s execution_request \<Rightarrow> gate_facts \<Rightarrow> bool" where
  "mode_policy_allows q g =
     (let mode = ti_mode (xq_intent q) in
      ed_armed (gf_arm g)
      \<and> (mode = ''DEMO'' \<and> (case gf_manual g of None \<Rightarrow> False | Some v \<Rightarrow> mv_valid v)
         \<or> mode \<in> {''LIVE'', ''DEMO_AUTO''} \<and> fst (execution_mode_policy_decision mode)))"

definition policy_stage ::
  "'w exec_state executor_env \<Rightarrow> 'w exec_state execution_request \<Rightarrow> gate_facts \<Rightarrow> IntentRecord \<times> RiskDecision \<times> MT5Preflight
   \<Rightarrow> ('w exec_state, ExecutionOutcome + unit) act" where
  "policy_stage env q g = (\<lambda>(r, risk, p).
     if \<not> mode_policy_allows q g
     then ends (reject env r [''EXECUTION_POLICY_LOCKED''] (gf_now g) (Some risk)) else goes_on ())"

subsection \<open>Everything again at the reservation\<close>

record reservation_facts =
  rf_now :: datetime
  rf_guard :: MT5SubmissionGuard
  rf_arm :: EnvironmentArmDecision
  rf_manual :: "ManualDemoApprovalValidation option"
  rf_permit :: "PermitValidation option"

definition refreshed_authority_reasons :: "'s execution_request \<Rightarrow> reservation_facts \<Rightarrow> string list" where
  "refreshed_authority_reasons q f =
     (let t = xq_intent q; (allowed, mode_reasons) = execution_mode_policy_decision (ti_mode t) in
      (if \<not> allowed then mode_reasons else [])
      @ (if \<not> ed_armed (rf_arm f) then ed_reason_codes (rf_arm f) else [])
      @ fired [(ti_mode t = ''DEMO'' \<and> (case rf_manual f of None \<Rightarrow> True | Some v \<Rightarrow> \<not> mv_valid v),
                ''MANUAL_DEMO_APPROVAL_STALE_AT_RESERVATION'')]
      @ (case rf_permit f of
           None \<Rightarrow> [''PERMIT_STALE_AT_RESERVATION'']
         | Some v \<Rightarrow> if \<not> pv_valid v then [''PERMIT_STALE_AT_RESERVATION'']
                     else fired [(pv_permit_id v \<noteq> ti_permit_id t, ''PERMIT_ID_MISMATCH_AT_RESERVATION'')]))"

definition refreshed_window_gates ::
  "'s execution_request \<Rightarrow> gate_facts \<Rightarrow> RiskDecision \<Rightarrow> MT5Preflight \<Rightarrow> reservation_facts \<Rightarrow> (bool \<times> string) list" where
  "refreshed_window_gates q g risk p f =
     (let now = rf_now f; stale = evidence_stale now in
      [(dt_le (ti_expires_at (xq_intent q)) now, ''INTENT_EXPIRED_AT_RESERVATION''),
       (stale (hd_observed_at (gf_health g)), ''HEALTH_DECISION_STALE_AT_RESERVATION''),
       (stale (rd_evaluated_at risk), ''RISK_DECISION_STALE_AT_RESERVATION''),
       (stale (bs_captured_at (xq_broker_spec q)), ''BROKER_SPEC_STALE_AT_RESERVATION''),
       (stale (mg_evaluated_at (xq_market_guard q)), ''MARKET_GUARD_STALE_AT_RESERVATION''),
       (stale (mb_checked_at (gf_model g)), ''MODEL_BINDING_STALE_AT_RESERVATION''),
       (stale (mp_checked_at_utc p), ''PREFLIGHT_STALE_AT_RESERVATION''),
       (dt_le (mp_valid_until_utc p) now, ''PREFLIGHT_EXPIRED_AT_RESERVATION''),
       (dt_le (mb_valid_until (gf_model g)) now, ''MODEL_BINDING_EXPIRED_AT_RESERVATION''),
       (stale (mg_checked_at_utc (rf_guard f)), ''SUBMISSION_GUARD_STALE_AT_RESERVATION'')])"

definition refreshed_reasons ::
  "'s execution_request \<Rightarrow> gate_facts \<Rightarrow> RiskDecision \<Rightarrow> MT5Preflight \<Rightarrow> reservation_facts \<Rightarrow> string list res" where
  "refreshed_reasons q g risk p f =
     res_bind (require_utc ''submission guard checked_at'' (mg_checked_at_utc (rf_guard f))) (\<lambda>_.
     Inr (refreshed_authority_reasons q f @ fired (refreshed_window_gates q g risk p f)))"

fun context_failure :: "exn \<Rightarrow> string list option" where
  "context_failure (RiskContextVerificationError codes) = Some codes"
| "context_failure e = None"

definition refresh_stage ::
  "'w exec_state executor_env \<Rightarrow> coordinator \<Rightarrow> 'w exec_state execution_request \<Rightarrow> string \<Rightarrow> gate_facts
   \<Rightarrow> IntentRecord \<times> RiskDecision \<times> MT5Preflight \<Rightarrow> ('w exec_state, ExecutionOutcome + reservation_facts) act" where
  "refresh_stage env c q jsha g = (\<lambda>(r, risk, p).
     let t = xq_intent q in
     act_bind (coordinator_now env None) (\<lambda>guard_now.
     act_bind (act_try (submission_guard (xe_mt5 env) (co_adapter c) t (xq_broker_spec q) (rc_equity (gf_context g)) guard_now))
       (\<lambda>guarded.
     case guarded of
       Inl e \<Rightarrow>
         if is_adapter_error e
         then ends (reject env r [str_upper (''SUBMISSION_GUARD_'' @ exn_name e)] (gf_now g) (Some risk)) else act_raise e
     | Inr guard \<Rightarrow>
         act_bind (coordinator_now env None) (\<lambda>reserve_now.
         case context_at c q jsha reserve_now of
           Inl e \<Rightarrow> (case context_failure e of
                      Some codes \<Rightarrow> ends (reject env r codes reserve_now (Some risk)) | None \<Rightarrow> act_raise e)
         | Inr _ \<Rightarrow>
             act_bind (read_arm env t reserve_now jsha) (\<lambda>arm.
             act_bind (act_lift (manual_validation c t (xq_manual_demo_approval q) reserve_now jsha)) (\<lambda>manual.
             act_bind (permit_validation_at env q reserve_now jsha (promotion_sha256 (gf_promotion g))) (\<lambda>permit.
             let f = \<lparr>rf_now = reserve_now, rf_guard = guard, rf_arm = arm, rf_manual = manual, rf_permit = permit\<rparr> in
             act_bind (act_lift (refreshed_reasons q g risk p f)) (\<lambda>reasons.
             if reasons \<noteq> [] then ends (reject env r (reason_set reasons) reserve_now (Some risk))
             else goes_on f))))))))"

subsection \<open>Reservation and authorization\<close>

fun reservation_failure :: "exn \<Rightarrow> string" where
  "reservation_failure (KillSwitchLatchedError e) = ''KILL_SWITCH_LATCHED_AT_SUBMISSION''"
| "reservation_failure (SubmissionLimitError code) = code"
| "reservation_failure (ExecutorFenceError e) = ''EXECUTOR_FENCE_LOST''"
| "reservation_failure e = ''SUBMISSION_RESERVATION_'' @ str_upper (exn_name e)"

definition reserve_stage ::
  "'w exec_state executor_env \<Rightarrow> 'w exec_state execution_request \<Rightarrow> IntentRecord \<times> RiskDecision \<times> MT5Preflight
   \<Rightarrow> reservation_facts \<Rightarrow> ('w exec_state, ExecutionOutcome + IntentRecord) act" where
  "reserve_stage env q = (\<lambda>(r, risk, p) f.
     let iid = intent_id (xq_intent q); now = rf_now f; owner = xq_owner_id q; token = xq_fence_token q in
     act_bind (act_try (journal_call env
       (authorize_submission_evidence iid risk p (rf_guard f) (xq_broker_spec q) (Some now)))) (\<lambda>evidence.
     case evidence of
       Inl e \<Rightarrow> if is_invalid_evidence e
                then ends (reject env r [''SUBMISSION_EVIDENCE_BINDING_FAILED''] now (Some risk)) else act_raise e
     | Inr ev \<Rightarrow>
         act_bind (act_try (journal_call env (reserve_submission iid owner token ev (Some now)
           (JDict [(''fence_token'', JInt token), (''owner_id'', JStr owner)])))) (\<lambda>reserved.
         case reserved of
           Inr row \<Rightarrow> goes_on row
         | Inl e \<Rightarrow>
             let reasons = [reservation_failure e] in
             if reasons = [''EXECUTOR_FENCE_LOST'']
             then ends (outcome r ''EXECUTOR_FENCE_LOST_BEFORE_SUBMISSION'' reasons False (Some risk) None)
             else ends (reject env r reasons now (Some risk)))))"

text \<open>A reserved intent that cannot be sent is held as \<open>UNCERTAIN\<close>.\<close>

definition hold_uncertain ::
  "'w exec_state executor_env \<Rightarrow> string \<Rightarrow> item \<Rightarrow> datetime option \<Rightarrow> string \<Rightarrow> ('w exec_state, IntentRecord) act" where
  "hold_uncertain env iid details occurred_at last_error =
     journal_call env (transition iid ''UNCERTAIN'' (Some ''SUBMITTING'')
       (no_facts (JDict details) (Some last_error)) occurred_at)"

definition authorization_of ::
  "'s execution_request \<Rightarrow> string \<Rightarrow> gate_facts \<Rightarrow> RiskDecision \<Rightarrow> MT5Preflight \<Rightarrow> reservation_facts \<Rightarrow> IntentRecord
   \<Rightarrow> RuntimeAuthorization res" where
  "authorization_of q jsha g risk p f row =
     (let t = xq_intent q; spec = xq_broker_spec q; now = rf_now f in
      res_bind (mint_execution_gate_capability t
        \<lparr>go_risk = risk, go_health = gf_health g, go_market = xq_market_guard q, go_model = gf_model g,
         go_preflight = p, go_guard = rf_guard f, go_broker_spec = spec\<rparr> row jsha now) (\<lambda>capability.
      case rf_permit f of
        None \<Rightarrow> Inl (TypeError ''permit_validation must come from validate_permit'')
      | Some permit \<Rightarrow>
          build_runtime_authorization t
            \<lparr>ai_permit_validation = permit, ai_risk_decision = risk, ai_broker_spec = spec,
             ai_verified_risk_context = xq_risk_context q, ai_reservation = row, ai_gate_capability = capability,
             ai_environment_arm_decision = rf_arm f, ai_manual_demo_approval_validation = rf_manual f,
             ai_live_canary_order_authorization_sha256 = None, ai_additional_valid_until_utc = None\<rparr> jsha now))"

definition authorization_stage ::
  "'w exec_state executor_env \<Rightarrow> 'w exec_state execution_request \<Rightarrow> string \<Rightarrow> gate_facts \<Rightarrow> RiskDecision \<Rightarrow> MT5Preflight
   \<Rightarrow> reservation_facts \<Rightarrow> IntentRecord \<Rightarrow> ('w exec_state, ExecutionOutcome + RuntimeAuthorization) act" where
  "authorization_stage env q jsha g risk p f row =
     (case authorization_of q jsha g risk p f row of
        Inr a \<Rightarrow> goes_on a
      | Inl e \<Rightarrow>
          let code = ''EXECUTION_CAPABILITY_BINDING_FAILED'' in
          if is_capability_error e
          then ends (act_bind (hold_uncertain env (intent_id (xq_intent q))
                 [(''reason_codes'', jstrs [code]), (''error'', JStr (exn_name e)), (''retry_allowed'', JBool False)]
                 (Some (rf_now f)) code)
                 (\<lambda>held. outcome held ''SUBMISSION_HELD_BEFORE_SEND'' [code] False (Some risk) None))
          else act_raise e)"

definition expiry_stage ::
  "'w exec_state executor_env \<Rightarrow> 'w exec_state execution_request \<Rightarrow> RiskDecision \<Rightarrow> MT5Preflight \<Rightarrow> RuntimeAuthorization
   \<Rightarrow> ('w exec_state, ExecutionOutcome + datetime) act" where
  "expiry_stage env q risk p a =
     (let t = xq_intent q; code = ''EXECUTION_EVIDENCE_EXPIRED_BEFORE_SEND'' in
      act_bind (coordinator_now env None) (\<lambda>submission_now.
      act_bind (act_lift (allows_order_send a submission_now)) (\<lambda>allowed.
      if \<not> allowed \<or> dt_le (mp_valid_until_utc p) submission_now \<or> dt_le (ti_expires_at t) submission_now
      then ends (act_bind (hold_uncertain env (intent_id t)
             [(''reason_codes'', jstrs [code]), (''retry_allowed'', JBool False)] None code)
             (\<lambda>held. outcome held ''SUBMISSION_HELD_BEFORE_SEND'' [code] False (Some risk) None))
      else goes_on submission_now)))"

subsection \<open>The submission and its outcome\<close>

definition held_outcome ::
  "'w exec_state executor_env \<Rightarrow> 'w exec_state execution_request \<Rightarrow> RiskDecision \<Rightarrow> exn \<Rightarrow> item \<Rightarrow> string \<Rightarrow> string \<Rightarrow> bool
   \<Rightarrow> ('w exec_state, ExecutionOutcome) act" where
  "held_outcome env q risk e extra text code called =
     act_bind (coordinator_now env None) (\<lambda>event_now.
     act_bind (hold_uncertain env (intent_id (xq_intent q))
       ([(''error'', JStr (exn_name e))] @ extra @ [(''retry_allowed'', JBool False)]) (Some event_now) (exn_text e))
       (\<lambda>held. outcome held text [code] called (Some risk) None))"

definition refused_outcome ::
  "'w exec_state executor_env \<Rightarrow> 'w exec_state execution_request \<Rightarrow> RiskDecision \<Rightarrow> string \<Rightarrow> ('w exec_state, ExecutionOutcome) act" where
  "refused_outcome env q risk code =
     act_bind (journal_get env (get_intent (intent_id (xq_intent q)))) (\<lambda>found.
     case found of
       None \<Rightarrow> act_raise (AttributeError ''intent_id'')
     | Some r \<Rightarrow> outcome r ''FINAL_SUBMISSION_GUARD_REJECTED'' [code] False (Some risk) None)"

fun failed_submission ::
  "'w exec_state executor_env \<Rightarrow> 'w exec_state execution_request \<Rightarrow> RiskDecision \<Rightarrow> exn \<Rightarrow> ('w exec_state, ExecutionOutcome) act" where
  "failed_submission env q risk (KillSwitchLatchedError e) =
     held_outcome env q risk (KillSwitchLatchedError e) [] ''FINAL_SUBMISSION_GUARD_HOLD'' ''KILL_SWITCH_LATCHED_AT_FINAL_GUARD'' False"
| "failed_submission env q risk (ExecutorFenceError e) = refused_outcome env q risk ''EXECUTOR_FENCE_LOST_AT_FINAL_GUARD''"
| "failed_submission env q risk (SubmissionLimitError code) = refused_outcome env q risk code"
| "failed_submission env q risk (SubmissionUncertainError e) =
     held_outcome env q risk (SubmissionUncertainError e) [] ''SUBMISSION_UNCERTAIN'' ''RECONCILIATION_REQUIRED_BEFORE_RETRY'' True"
| "failed_submission env q risk e =
     (if is_held_before_send e
      then held_outcome env q risk e
             [(''broker_submit_called'', JBool False), (''reconciliation_required'', JBool True)]
             ''SUBMISSION_HELD_BEFORE_SEND'' (str_upper (exn_name e)) False
      else held_outcome env q risk e [] ''SUBMISSION_UNCERTAIN'' ''UNKNOWN_SUBMISSION_OUTCOME'' True)"

definition realized_slippage_points :: "'s execution_request \<Rightarrow> ExecutionReceipt \<Rightarrow> pyfloat res" where
  "realized_slippage_points q receipt =
     fl_div (fl_max (Fin 0) (case er_slippage_price receipt of None \<Rightarrow> Fin 0 | Some x \<Rightarrow> x)) (bs_point (xq_broker_spec q))"

definition receipt_stage ::
  "'w exec_state executor_env \<Rightarrow> 'w exec_state execution_request \<Rightarrow> RiskDecision \<Rightarrow> ExecutionReceipt
   \<Rightarrow> ('w exec_state, ExecutionOutcome) act" where
  "receipt_stage env q risk receipt =
     act_bind (journal_call env (record_execution_receipt receipt None)) (\<lambda>updated.
     act_bind (act_lift (realized_slippage_points q receipt)) (\<lambda>slippage.
     let breach = fl_lt (fl_add (rd_slippage_limit_points risk) cash_tolerance) slippage in
     act_bind (act_when breach (act_bind (coordinator_now env None) (\<lambda>event_now.
       journal_do env (latch_kill_switch (''realized slippage '' @ fixed_point 6 slippage @ '' exceeded limit ''
         @ fixed_point 6 (rd_slippage_limit_points risk) @ '' for '' @ intent_id (xq_intent q)) ''EXECUTION'' (Some event_now))))) (\<lambda>_.
     outcome updated
       (if ir_state updated \<noteq> REJECTED then ''BROKER_RESPONSE_REQUIRES_RECONCILIATION'' else ''BROKER_REJECTED'')
       (fired [(breach, ''REALIZED_SLIPPAGE_LIMIT_BREACH'')]) True (Some risk) (Some (receipt_id receipt)))))"

definition submit_stage ::
  "'w exec_state executor_env \<Rightarrow> coordinator \<Rightarrow> 'w exec_state execution_request \<Rightarrow> RiskDecision \<Rightarrow> MT5Preflight
   \<Rightarrow> RuntimeAuthorization \<Rightarrow> datetime \<Rightarrow> ('w exec_state, ExecutionOutcome) act" where
  "submit_stage env c q risk p a submission_now =
     act_bind (act_try (guarded_submit env c q p a submission_now)) (\<lambda>result.
     case result of Inl e \<Rightarrow> failed_submission env q risk e | Inr receipt \<Rightarrow> receipt_stage env q risk receipt)"

section \<open>\<open>execute_once\<close>\<close>

definition live_inputs_check :: "'s execution_request \<Rightarrow> datetime \<Rightarrow> ('s, unit) act" where
  "live_inputs_check q now =
     (if ti_mode (xq_intent q) = ''LIVE''
      then act_bind (act_reraise live_authority_error
             (TypeError ''LIVE execution requires exact current per-order authority'') (lv_verify (xq_live q) now))
             (\<lambda>_. act_return ())
      else act_require [raise_if (lv_supplied (xq_live q))
             (TypeError ''LIVE authority is forbidden for non-LIVE execution'')])"

text \<open>Everything behind the account fence.\<close>

definition send_stages ::
  "'w exec_state executor_env \<Rightarrow> coordinator \<Rightarrow> 'w exec_state execution_request \<Rightarrow> string \<Rightarrow> gate_facts \<Rightarrow> IntentRecord
   \<Rightarrow> ('w exec_state, ExecutionOutcome + ExecutionOutcome) act" where
  "send_stages env c q jsha g created =
     act_then (risk_stage env q g created) (\<lambda>(r, risk).
     act_then (preflight_stage env c q g (r, risk)) (\<lambda>(r, risk, p).
     act_then (policy_stage env q g (r, risk, p)) (\<lambda>_.
     act_then (refresh_stage env c q jsha g (r, risk, p)) (\<lambda>f.
     act_then (reserve_stage env q (r, risk, p) f) (\<lambda>row.
     act_then (authorization_stage env q jsha g risk p f row) (\<lambda>a.
     act_then (expiry_stage env q risk p a) (\<lambda>submission_now.
     ends (submit_stage env c q risk p a submission_now))))))))"

definition fresh_intent ::
  "'w exec_state executor_env \<Rightarrow> coordinator \<Rightarrow> 'w exec_state execution_request \<Rightarrow> string \<Rightarrow> datetime \<Rightarrow> RiskContext
   \<Rightarrow> ('w exec_state, ExecutionOutcome + ExecutionOutcome) act" where
  "fresh_intent env c q jsha now ctx =
     act_bind (collect_gate_facts env c q jsha now ctx) (\<lambda>g.
     act_then (intent_stage env q g) (\<lambda>created.
     act_then (safety_stage env q g created) (\<lambda>_.
     act_then (fence_stage env c g created) (\<lambda>_.
     send_stages env c q jsha g created))))"

definition execute_once ::
  "'w exec_state executor_env \<Rightarrow> coordinator \<Rightarrow> 'w exec_state execution_request \<Rightarrow> ('w exec_state, ExecutionOutcome) act" where
  "execute_once env c q =
     (let t = xq_intent q in
      act_bind (coordinator_now env (xq_now q)) (\<lambda>now.
      act_bind (live_inputs_check q now) (\<lambda>_.
      act_bind (journal_get env j_sha256) (\<lambda>jsha.
      act_bind (act_lift (context_at c q jsha now)) (\<lambda>ctx.
      act_bind (journal_check env (assert_executor_fence (xq_owner_id q) (xq_fence_token q) (Some now))) (\<lambda>_.
      act_bind (journal_get env (get_intent (intent_id t))) (\<lambda>existing.
      case existing of
        Some r \<Rightarrow> existing_intent_outcome env t r now
      | None \<Rightarrow> result_of (fresh_intent env c q jsha now ctx))))))))"

end
