(* ===== verification/Executor_Contract.thy ===== *)
theory Executor_Contract
  imports Executor Reconciliation_Outcomes
begin

text \<open>
  The contracts of the broker session and of the coordinator, in the style of rely and guarantee: a reflexive
  and transitive relation on states that the environment keeps and that every write of the coordinator keeps is kept by
  \<open>execute_once\<close>, on every path. \<open>broker_session\<close> does this for the adapter, \<open>stage_contract\<close> for the stages before
  the submission and \<open>send_contract\<close> for the whole call. \<open>Executor_Safety\<close> interprets them.
\<close>

section \<open>Rules\<close>

lemma keeps_try: "act_keeps R m \<Longrightarrow> act_keeps R (act_try m)"
  by (simp add: act_keeps_def act_try_def split: prod.splits) (metis snd_conv)

lemma keeps_reraise: "act_keeps R m \<Longrightarrow> act_keeps R (act_reraise h e m)"
  by (simp add: act_keeps_def act_reraise_def split: prod.splits) (metis snd_conv)

lemma keeps_if: "act_keeps R m \<Longrightarrow> act_keeps R n \<Longrightarrow> act_keeps R (if b then m else n)"
  by simp

lemma keeps_sum: "(\<And>x. act_keeps R (f x)) \<Longrightarrow> (\<And>y. act_keeps R (g y)) \<Longrightarrow> act_keeps R (case r of Inl x \<Rightarrow> f x | Inr y \<Rightarrow> g y)"
  by (cases r) simp_all

lemma keeps_option: "act_keeps R m \<Longrightarrow> (\<And>x. act_keeps R (f x)) \<Longrightarrow> act_keeps R (case r of None \<Rightarrow> m | Some x \<Rightarrow> f x)"
  by (cases r) simp_all

lemma keeps_pair: "(\<And>x y. act_keeps R (f x y)) \<Longrightarrow> act_keeps R (case r of (x, y) \<Rightarrow> f x y)"
  by (cases r) simp

lemma keeps_let: "(\<And>x. act_keeps R (f x)) \<Longrightarrow> act_keeps R (let x = v in f x)"
  by simp

lemmas keeps_cases = keeps_try keeps_reraise keeps_if keeps_sum keeps_option keeps_pair keeps_let

section \<open>The adapter\<close>

text \<open>Every procedure of the broker package except \<open>order_send\<close> keeps \<open>R\<close>.\<close>

definition mt5_keeps :: "('s \<Rightarrow> 's \<Rightarrow> bool) \<Rightarrow> 's mt5 \<Rightarrow> bool" where
  "mt5_keeps R m =
     (act_keeps R (m5_clock m) \<and> act_keeps R (m5_verify_module m) \<and> act_keeps R (m5_initialize m)
      \<and> act_keeps R (m5_shutdown m) \<and> act_keeps R (m5_last_error m) \<and> act_keeps R (m5_account_info m)
      \<and> (\<forall>x. act_keeps R (m5_symbol_info m x)) \<and> (\<forall>x. act_keeps R (m5_symbol_info_tick m x))
      \<and> (\<forall>x y z w. act_keeps R (m5_order_calc_margin m x y z w))
      \<and> (\<forall>x y z w v. act_keeps R (m5_order_calc_profit m x y z w v))
      \<and> (\<forall>x y z w. act_keeps R (m5_copy_ticks_range m x y z w)) \<and> (\<forall>x. act_keeps R (m5_order_check m x))
      \<and> act_keeps R (m5_orders_get m) \<and> act_keeps R (m5_positions_get m)
      \<and> (\<forall>x y. act_keeps R (m5_history_deals_get m x y)))"

locale broker_session =
  fixes R :: "'s \<Rightarrow> 's \<Rightarrow> bool" and m :: "'s mt5"
  assumes R_refl: "reflp R" and R_trans: "transp R" and session: "mt5_keeps R m"
begin

lemmas mt5_procedures = session [unfolded mt5_keeps_def]

lemma raise_keeps: "act_keeps R (act_raise e)" and require_keeps: "act_keeps R (act_require cs)"
  and attr_keeps: "act_keeps R (mt5_attr m name)"
  using R_refl by (simp_all add: act_raise_def act_require_def mt5_attr_def keeps_lift)

lemmas keeps_rules = keeps_bind [OF R_trans] keeps_catch [OF R_trans] keeps_return [OF R_refl] keeps_lift [OF R_refl]
  keeps_when [OF R_refl] keeps_each [OF R_refl R_trans] keeps_cases raise_keeps require_keeps attr_keeps

lemma adapter_now_keeps: "act_keeps R (adapter_now m t)"
  and require_initialized_keeps: "act_keeps R (require_initialized m a)"
  unfolding adapter_now_def require_initialized_def by (intro keeps_rules; simp add: mt5_procedures)+

lemma account_binding_keeps: "act_keeps R (assert_account_binding m a)"
  unfolding assert_account_binding_def Let_def
  by (intro keeps_rules adapter_now_keeps require_initialized_keeps) (simp_all add: mt5_procedures)

lemmas session_keeps = adapter_now_keeps require_initialized_keeps account_binding_keeps

lemma current_tick_keeps: "act_keeps R (current_tick m a x t)"
  unfolding current_tick_def Let_def by (intro keeps_rules session_keeps) (simp_all add: mt5_procedures)

lemma broker_spec_keeps: "act_keeps R (get_broker_spec m a x y t)"
  unfolding get_broker_spec_def Let_def
  by (intro keeps_rules session_keeps current_tick_keeps) (simp_all add: mt5_procedures)

lemma inventory_keeps: "act_keeps R (adapter_orders m a)" "act_keeps R (adapter_positions m a)"
  unfolding adapter_orders_def adapter_positions_def adapter_list_def
  by (intro keeps_rules session_keeps; simp add: mt5_procedures)+

lemma stop_risk_keeps: "act_keeps R (estimate_stop_risk_cash m a t x y)"
  unfolding estimate_stop_risk_cash_def order_type_of_def
  by (intro keeps_rules session_keeps) (simp_all add: mt5_procedures)

lemma request_keeps: "act_keeps R (request_for m a t x bid ask d)"
  unfolding request_for_def order_type_of_def filling_policy_def Let_def
  by (intro keeps_rules session_keeps) (simp_all add: mt5_procedures)

lemma first_tick_keeps: "act_keeps R (first_eligible_tick m a x y z)"
  unfolding first_eligible_tick_def adapter_list_def Let_def
  by (intro keeps_rules session_keeps) (simp_all add: mt5_procedures)

lemma preflight_keeps: "act_keeps R (preflight m a t x d n)"
  unfolding preflight_def Let_def
  by (intro keeps_rules session_keeps broker_spec_keeps stop_risk_keeps request_keeps first_tick_keeps)
    (simp_all add: mt5_procedures)

lemma submission_guard_keeps: "act_keeps R (submission_guard m a t spec equity n)"
  unfolding submission_guard_def Let_def
  by (intro keeps_rules session_keeps broker_spec_keeps inventory_keeps)

end

section \<open>The coordinator\<close>

text \<open>Every procedure of the environment, with the broker package.\<close>

definition env_keeps :: "('w exec_state \<Rightarrow> 'w exec_state \<Rightarrow> bool) \<Rightarrow> 'w exec_state executor_env \<Rightarrow> bool" where
  "env_keeps R env =
     (mt5_keeps R (xe_mt5 env) \<and> act_keeps R (xe_clock env) \<and> act_keeps R (xe_journal_clock env) \<and> act_keeps R (xe_yield env)
      \<and> act_keeps R (xe_permit_secret env) \<and> act_keeps R (xe_environ env)
      \<and> (\<forall>t. act_keeps R (xe_validate_promotion env t)) \<and> act_keeps R (xe_os_reply env) \<and> act_keeps R (xe_new_object env))"

locale stage_contract = broker_session R "xe_mt5 env"
  for R :: "'w exec_state \<Rightarrow> 'w exec_state \<Rightarrow> bool" and env :: "'w exec_state executor_env" +
  fixes c :: coordinator and q :: "'w exec_state execution_request"
  assumes environment: "env_keeps R env" and live: "act_keeps R (lv_verify (xq_live q) t)"
    and op_kept: "run_op op clock (rt_journal (ex_rt s)) = Inr st' \<Longrightarrow> sealed_op op
      \<Longrightarrow> R s (s\<lparr>ex_rt := (ex_rt s)\<lparr>rt_journal := st'\<rparr>\<rparr>)"
    and claim: "act_keeps R (claim_account_runtime_fence env c)"
begin

lemmas env_procedures = environment [unfolded env_keeps_def]

lemma journal_get_keeps: "act_keeps R (journal_get env f)"
proof -
  have "act_keeps R (\<lambda>s. (Inr (f (rt_journal (ex_rt s))), s))" for f :: "journal \<Rightarrow> 'x"
    using R_refl by (simp add: act_keeps_def reflp_def)
  then show ?thesis unfolding journal_get_def by (intro keeps_rules) (simp_all add: env_procedures)
qed

lemma journal_check_keeps: "act_keeps R (journal_check env f)"
proof -
  have "act_keeps R (\<lambda>s. (f clock (rt_journal (ex_rt s)), s))" for f :: "datetime \<Rightarrow> journal \<Rightarrow> 'x res" and clock
    using R_refl by (simp add: act_keeps_def reflp_def)
  then show ?thesis unfolding journal_check_def by (intro keeps_rules) (simp_all add: env_procedures)
qed

text \<open>A journal call that is an operation of the runtime keeps \<open>R\<close>.\<close>

lemma journal_call_keeps:
  assumes "\<And>clock st st' x. f clock st = Inr (st', x) \<Longrightarrow> \<exists>op. run_op op clock st = Inr st' \<and> sealed_op op"
  shows "act_keeps R (journal_call env f)"
proof -
  have "act_keeps R (\<lambda>s. case f clock (rt_journal (ex_rt s)) of Inl e \<Rightarrow> (Inl e, s)
      | Inr (st', x) \<Rightarrow> (Inr x, s\<lparr>ex_rt := (ex_rt s)\<lparr>rt_journal := st'\<rparr>\<rparr>))" for clock
    unfolding act_keeps_def
  proof
    fix s
    show "R s (snd (case f clock (rt_journal (ex_rt s)) of Inl e \<Rightarrow> (Inl e, s)
      | Inr (st', x) \<Rightarrow> (Inr x, s\<lparr>ex_rt := (ex_rt s)\<lparr>rt_journal := st'\<rparr>\<rparr>)))"
    proof (cases "f clock (rt_journal (ex_rt s))")
      case (Inl e)
      then show ?thesis using R_refl by (simp add: reflp_def)
    next
      case (Inr y)
      obtain st' x where y: "y = (st', x)" by (cases y)
      show ?thesis using assms [OF Inr [unfolded y]] op_kept by (auto simp: Inr y)
    qed
  qed
  then show ?thesis unfolding journal_call_def by (intro keeps_rules) (simp_all add: env_procedures)
qed

lemma journal_do_keeps:
  assumes "\<And>clock st st'. f clock st = Inr st' \<Longrightarrow> \<exists>op. run_op op clock st = Inr st' \<and> sealed_op op"
  shows "act_keeps R (journal_do env f)"
  unfolding journal_do_def by (rule journal_call_keeps) (use assms in \<open>auto simp: res_bind_Inr_iff\<close>)

lemma transition_keeps: "act_keeps R (journal_call env (transition iid to_state expected facts t))"
  by (rule journal_call_keeps, rule exI [of _ "Transition iid to_state expected facts t"]) simp

lemma create_keeps: "act_keeps R (journal_call env (create_intent iid did symb payload t))"
  by (rule journal_call_keeps, rule exI [of _ "CreateIntent iid did symb payload t"]) simp

lemma evidence_keeps: "act_keeps R (journal_call env (authorize_submission_evidence iid d p g spec t))"
  by (rule journal_call_keeps, rule exI [of _ "AuthorizeEvidence iid d p g spec t"]) simp

lemma reserve_keeps: "act_keeps R (journal_call env (reserve_submission iid owner fence ev t details))"
  by (rule journal_call_keeps, rule exI [of _ "Reserve iid owner fence ev t details"]) simp

lemma receipt_keeps: "act_keeps R (journal_call env (record_execution_receipt r t))"
  by (rule journal_call_keeps, rule exI [of _ "RecordReceipt r t"]) simp

lemma latch_keeps: "act_keeps R (journal_do env (latch_kill_switch reason source t))"
  by (rule journal_do_keeps, rule exI [of _ "LatchKillSwitch reason source t"]) simp

lemma append_keeps: "act_keeps R (journal_do env (append_receipt iid kind payload t))"
  by (rule journal_do_keeps, rule exI [of _ "AppendReceipt iid kind payload t"]) simp

lemma record_risk_keeps: "act_keeps R (journal_do env (record_risk_decision iid d t))"
  by (rule journal_do_keeps, rule exI [of _ "RecordRisk iid d t"]) simp

lemma record_preflight_keeps: "act_keeps R (journal_do env (record_mt5_preflight iid p t))"
  by (rule journal_do_keeps, rule exI [of _ "RecordPreflight iid p t"]) simp

lemmas journal_keeps = journal_get_keeps journal_check_keeps transition_keeps create_keeps evidence_keeps reserve_keeps
  receipt_keeps latch_keeps append_keeps record_risk_keeps record_preflight_keeps

lemma now_keeps: "act_keeps R (coordinator_now env t)" and outcome_keeps: "act_keeps R (outcome r text reasons called risk receipt)"
  unfolding coordinator_now_def outcome_def by (intro keeps_rules; simp add: env_procedures)+

lemma reject_keeps: "act_keeps R (reject env r reasons now risk)"
  unfolding reject_def by (intro keeps_rules journal_keeps outcome_keeps)

lemma existing_keeps: "act_keeps R (existing_intent_outcome env t r now)"
  unfolding existing_intent_outcome_def by (intro keeps_rules journal_keeps outcome_keeps)

lemma then_keeps: "act_keeps R m \<Longrightarrow> (\<And>x. act_keeps R (f x)) \<Longrightarrow> act_keeps R (act_then m f)"
  and ends_keeps: "act_keeps R n \<Longrightarrow> act_keeps R (ends n)" and goes_on_keeps: "act_keeps R (goes_on x)"
  unfolding act_then_def ends_def goes_on_def by (intro keeps_rules; simp)+

lemmas stage_rules = keeps_rules now_keeps outcome_keeps reject_keeps existing_keeps then_keeps ends_keeps goes_on_keeps journal_keeps

lemma gate_facts_keeps: "act_keeps R (collect_gate_facts env c q jsha now ctx)"
  unfolding collect_gate_facts_def read_arm_def promotion_validation_def permit_validation_at_def Let_def
  by (intro stage_rules) (simp_all add: env_procedures)

lemma intent_stage_keeps: "act_keeps R (intent_stage env q g)"
  unfolding intent_stage_def Let_def by (intro stage_rules)

lemma safety_stage_keeps: "act_keeps R (safety_stage env q g r)"
  unfolding safety_stage_def Let_def by (intro stage_rules)

lemma fence_stage_keeps: "act_keeps R (fence_stage env c g r)"
  unfolding fence_stage_def by (intro stage_rules claim)

lemma risk_stage_keeps: "act_keeps R (risk_stage env q g r)"
  unfolding risk_stage_def Let_def by (intro stage_rules)

lemma preflight_stage_keeps: "act_keeps R (preflight_stage env c q g x)"
  unfolding preflight_stage_def Let_def by (intro stage_rules preflight_keeps)

lemma policy_stage_keeps: "act_keeps R (policy_stage env q g x)"
  unfolding policy_stage_def by (intro stage_rules)

lemma refresh_stage_keeps: "act_keeps R (refresh_stage env c q jsha g x)"
  unfolding refresh_stage_def read_arm_def permit_validation_at_def Let_def
  by (intro stage_rules submission_guard_keeps) (simp_all add: env_procedures)

lemma reserve_stage_keeps: "act_keeps R (reserve_stage env q x f)"
  by (cases x) (simp only: reserve_stage_def Let_def prod.case, intro stage_rules)

lemma authorization_stage_keeps: "act_keeps R (authorization_stage env q jsha g risk p f row)"
  unfolding authorization_stage_def hold_uncertain_def Let_def by (intro stage_rules)

lemma expiry_stage_keeps: "act_keeps R (expiry_stage env q risk p a)"
  unfolding expiry_stage_def hold_uncertain_def Let_def by (intro stage_rules)

lemma held_keeps: "act_keeps R (held_outcome env q risk e extra text code called)"
  and refused_keeps: "act_keeps R (refused_outcome env q risk code)"
  unfolding held_outcome_def hold_uncertain_def refused_outcome_def by (intro stage_rules)+

lemma failed_submission_keeps: "act_keeps R (failed_submission env q risk e)"
  by (cases e) (simp_all add: held_keeps refused_keeps)

lemma receipt_stage_keeps: "act_keeps R (receipt_stage env q risk receipt)"
  unfolding receipt_stage_def Let_def by (intro stage_rules)

lemma live_inputs_keeps: "act_keeps R (live_inputs_check q now)"
  unfolding live_inputs_check_def by (intro stage_rules live)

lemma final_checks_keeps:
  assumes "\<And>n. act_keeps R (lv_verify lv n)"
  shows "act_keeps R (final_broker_checks (xe_mt5 env) a lv t p r)"
  unfolding final_broker_checks_def live_boundary_check_def
  by (intro keeps_rules session_keeps inventory_keeps current_tick_keeps stop_risk_keeps)
    (simp_all add: mt5_procedures assms)

lemma live_check_keeps:
  assumes "\<And>n. act_keeps R (lv_verify lv n)"
  shows "act_keeps R (live_submission_check lv t r n)"
  unfolding live_submission_check_def by (intro keeps_rules assms)

end

text \<open>
  The whole call: the steps of the final guard keep \<open>R\<close>, and so does the consumption of a lease together with the send that
  follows it.
\<close>

locale send_contract = stage_contract R env c q for R env c q +
  assumes enter: "act_keeps R (guard_enter env iid owner fence b n)"
    and close: "act_keeps R (guard_close i clock)"
    and consume_send: "act_keeps R (act_bind (consume_lease (xe_journal_clock env) i jsha (intent_id t) b)
      (send_consumed (xe_mt5 env) a t request stop_risk))"
begin

lemma submit_keeps:
  assumes "\<And>n. act_keeps R (lv_verify lv n)"
  shows "act_keeps R (submit (xe_mt5 env) (xe_journal_clock env) a lv t p r i jsha n)"
  unfolding submit_def
  by (intro keeps_rules session_keeps request_keeps final_checks_keeps live_check_keeps consume_send assms)

lemma leave_keeps: "act_keeps R (guard_leave env i)"
proof -
  have waits: "act_keeps R (act_bind (act_try (act_bind (xe_yield env) (\<lambda>_. xe_journal_clock env))) (guard_close i))"
    by (intro keeps_rules close) (simp_all add: env_procedures)
  show ?thesis
    unfolding act_keeps_def guard_leave_def using waits close by (simp add: act_keeps_def)
qed

lemma guarded_submit_keeps: "act_keeps R (guarded_submit env c q p a n)"
  unfolding guarded_submit_def Let_def
  by (intro keeps_rules enter submit_keeps leave_keeps) (simp add: live)

lemma submit_stage_keeps: "act_keeps R (submit_stage env c q risk p a n)"
  unfolding submit_stage_def by (intro keeps_rules guarded_submit_keeps failed_submission_keeps receipt_stage_keeps)

lemma send_stages_keeps: "act_keeps R (send_stages env c q jsha g created)"
  unfolding send_stages_def
  by (intro keeps_rules then_keeps ends_keeps risk_stage_keeps preflight_stage_keeps policy_stage_keeps refresh_stage_keeps
      reserve_stage_keeps authorization_stage_keeps expiry_stage_keeps submit_stage_keeps)

lemma execute_once_keeps: "act_keeps R (execute_once env c q)"
  unfolding execute_once_def result_of_def fresh_intent_def Let_def
  by (intro stage_rules live_inputs_keeps gate_facts_keeps intent_stage_keeps safety_stage_keeps fence_stage_keeps
      send_stages_keeps)

end

end
