(* ===== verification/Executor_Safety.thy ===== *)
theory Executor_Safety
  imports Executor_Contract Journal_Safety
begin

text \<open>
  What the coordinator guarantees: \<open>execute_once\<close> is a run of the submission runtime, so the properties of the journal hold
  across executions; the broker receives an order only behind every gate, and only for the intent of the call; and
  the process that sends holds the fence of the account.

  The contracts of \<open>Executor_Contract\<close> are interpreted for three relations. Each relation is weakened by what is assumed of
  the environment (\<open>relying\<close>), so that the interpretations hold for every environment, coordinator and request.
\<close>

section \<open>Assumptions on the environment\<close>

definition relying :: "bool \<Rightarrow> ('s \<Rightarrow> 's \<Rightarrow> bool) \<Rightarrow> 's \<Rightarrow> 's \<Rightarrow> bool" where
  "relying b R s s' = (b \<longrightarrow> R s s')"

lemma relying_refl: "reflp R \<Longrightarrow> reflp (relying b R)" and relying_trans: "transp R \<Longrightarrow> transp (relying b R)"
  by (auto simp: relying_def reflp_def transp_def)

lemma relying_keeps: "act_keeps (relying b R) m \<longleftrightarrow> (b \<longrightarrow> act_keeps R m)"
  by (auto simp: act_keeps_def relying_def)

lemma relying_keepsI: "(b \<Longrightarrow> act_keeps R m) \<Longrightarrow> act_keeps (relying b R) m"
  by (simp add: relying_keeps)

text \<open>The environment and the authority of the request keep \<open>R\<close>; \<open>order_send\<close> too.\<close>

definition quiet :: "('w exec_state \<Rightarrow> 'w exec_state \<Rightarrow> bool) \<Rightarrow> 'w exec_state executor_env \<Rightarrow> 'w exec_state execution_request \<Rightarrow> bool" where
  "quiet R env q =
     (env_keeps R env \<and> (\<forall>t. act_keeps R (lv_verify (xq_live q) t)) \<and> (\<forall>x. act_keeps R (m5_order_send (xe_mt5 env) x)))"

lemma quiet_relying: "env_keeps (relying (quiet R env q) R) env" "mt5_keeps (relying (quiet R env q) R) (xe_mt5 env)"
  "act_keeps (relying (quiet R env q) R) (lv_verify (xq_live q) t)"
  "act_keeps (relying (quiet R env q) R) (m5_order_send (xe_mt5 env) x)"
  by (auto simp: relying_keeps quiet_def env_keeps_def mt5_keeps_def)

section \<open>Rules for the claim and the send\<close>

lemma claim_frame:
  assumes "reflp R" and "transp R" and "env_keeps R env" and "\<And>s w f. R s (s\<lparr>ex_fences := w, ex_fence := f\<rparr>)"
  shows "act_keeps R (claim_account_runtime_fence env c)"
proof -
  have fences: "R s (s\<lparr>ex_fences := w\<rparr>)" for s w
    using assms(4) [where s = s and w = w and f = "ex_fence s"] by simp
  have "act_keeps R (claim_new_fence c f n reply)" for f n reply
    using assms(1,4) fences by (auto simp: act_keeps_def claim_new_fence_def reflp_def Let_def split: sum.splits)
  then have "act_keeps R (act_bind (act_lift (AccountRuntimeFence_init (co_account_runtime_identity_sha256 c))) (\<lambda>f.
          act_bind (xe_new_object env) (\<lambda>n. act_bind (xe_os_reply env) (claim_new_fence c f n))))"
    using assms(3) by (intro keeps_bind [OF assms(2)] keeps_lift [OF assms(1)]) (simp_all add: env_keeps_def)
  then show ?thesis
    using assms(1) by (auto simp: act_keeps_def claim_account_runtime_fence_def reflp_def split: option.splits)
qed

lemma consume_send_rule:
  fixes env :: "'w exec_state executor_env"
  assumes "reflp R" and "transp R" and "mt5_keeps R (xe_mt5 env)" and "\<And>x. act_keeps R (m5_order_send (xe_mt5 env) x)"
    and failed: "\<And>s s' e. consume_lease jc i jsha (intent_id t) b s = (Inl e, s') \<Longrightarrow> R s s'"
    and consumed: "\<And>s s' proof x. consume_lease jc i jsha (intent_id t) b s = (Inr proof, s')
      \<Longrightarrow> R s (s'\<lparr>ex_sends := ex_sends s' @ [(intent_id t, x)]\<rparr>)"
  shows "act_keeps R (act_bind (consume_lease jc i jsha (intent_id t) b) (send_consumed (xe_mt5 env) a t request stop_risk))"
proof -
  let ?m = "xe_mt5 env"
  let ?rest = "\<lambda>proof result. act_bind (adapter_now ?m None) (\<lambda>received_at.
     case result of None \<Rightarrow> act_raise (SubmissionUncertainError ''order_send returned no result'')
     | Some payload \<Rightarrow> act_lift (broker_receipt ?m a t proof (rq_price request) stop_risk received_at payload))"
  let ?called = "\<lambda>proof. act_bind (act_reraise (\<lambda>e. True) (SubmissionUncertainError ''order_send raised after submission began'')
     (m5_order_send ?m (request_dict request))) (?rest proof)"
  have called: "act_keeps R (?called pr)" for pr
    unfolding act_raise_def adapter_now_def using assms(3)
    by (intro keeps_bind [OF assms(2)] keeps_reraise assms(4) keeps_option keeps_lift [OF assms(1)]) (simp add: mt5_keeps_def)
  have sends: "send_consumed ?m a t request stop_risk pr s
      = ?called pr (s\<lparr>ex_sends := ex_sends s @ [(intent_id t, request_dict request)]\<rparr>)" for pr s
    by (simp add: send_consumed_def send_order_def act_bind_def act_reraise_def)
  show ?thesis unfolding act_keeps_def
  proof
    fix s
    obtain r s' where step: "consume_lease jc i jsha (intent_id t) b s = (r, s')" by (cases "consume_lease jc i jsha (intent_id t) b s")
    show "R s (snd (act_bind (consume_lease jc i jsha (intent_id t) b) (send_consumed ?m a t request stop_risk) s))"
    proof (cases r)
      case (Inl e)
      then show ?thesis using failed step by (simp add: act_bind_def)
    next
      case (Inr pr)
      let ?s = "s'\<lparr>ex_sends := ex_sends s' @ [(intent_id t, request_dict request)]\<rparr>"
      have "R s ?s" using consumed step Inr by simp
      moreover have "R ?s (snd (?called pr ?s))" using called by (simp add: act_keeps_def)
      ultimately have "R s (snd (?called pr ?s))" using assms(2) by (rule transpD [rotated])
      moreover have "act_bind (consume_lease jc i jsha (intent_id t) b) (send_consumed ?m a t request stop_risk) s
          = ?called pr ?s"
        unfolding sends [symmetric] by (simp add: act_bind_def step Inr)
      ultimately show ?thesis by simp
    qed
  qed
qed

section \<open>An execution is a run of the runtime\<close>

definition sends_of :: "string \<Rightarrow> 'w exec_state \<Rightarrow> nat" where
  "sends_of iid s = length (filter (\<lambda>(k, _). k = iid) (ex_sends s))"

definition proofs_of :: "string \<Rightarrow> runtime \<Rightarrow> nat" where
  "proofs_of iid rt = length (filter (\<lambda>(k, _). k = iid) (rt_sent rt))"

text \<open>The runtime makes steps, and every new \<open>order_send\<close> of an intent is matched by a new consumption proof.\<close>

definition runtime_run :: "'w exec_state \<Rightarrow> 'w exec_state \<Rightarrow> bool" where
  "runtime_run s s' =
     (rt_step\<^sup>*\<^sup>* (ex_rt s) (ex_rt s')
      \<and> (\<forall>iid. sends_of iid s' + proofs_of iid (ex_rt s) \<le> sends_of iid s + proofs_of iid (ex_rt s')))"

lemma runtime_run_refl: "reflp runtime_run"
  by (simp add: reflp_def runtime_run_def)

lemma runtime_run_trans: "transp runtime_run"
proof (rule transpI)
  fix s u v :: "'w exec_state"
  assume su: "runtime_run s u" and uv: "runtime_run u v"
  have "sends_of iid v + proofs_of iid (ex_rt s) \<le> sends_of iid s + proofs_of iid (ex_rt v)" for iid
  proof -
    have "sends_of iid u + proofs_of iid (ex_rt s) \<le> sends_of iid s + proofs_of iid (ex_rt u)"
      "sends_of iid v + proofs_of iid (ex_rt u) \<le> sends_of iid u + proofs_of iid (ex_rt v)"
      using su uv by (simp_all add: runtime_run_def)
    then show ?thesis by linarith
  qed
  then show "runtime_run s v" using su uv by (auto simp: runtime_run_def)
qed

lemma runtime_step:
  "rt_step (ex_rt s) rt' \<Longrightarrow> rt_sent rt' = rt_sent (ex_rt s) \<Longrightarrow> runtime_run s (s\<lparr>ex_rt := rt'\<rparr>)"
  by (simp add: runtime_run_def sends_of_def proofs_of_def r_into_rtranclp)

lemma consume_cases:
  assumes "consume_lease jc i jsha iid b s = (r, s')"
  obtains (clock) e where "jc s = (Inl e, s')" "r = Inl e"
  | (gone) clock s1 where "jc s = (Inr clock, s1)" "s' = s1" "\<exists>e. r = Inl e"
  | (failed) clock s1 l' e where "jc s = (Inr clock, s1)" "r = Inl e" "i < length (rt_leases (ex_rt s1))"
      "lease_consume (rt_leases (ex_rt s1) ! i) jsha iid b clock (rt_journal (ex_rt s1)) = (l', Inl e)"
      "s' = s1\<lparr>ex_rt := (ex_rt s1)\<lparr>rt_leases := (rt_leases (ex_rt s1))[i := l']\<rparr>\<rparr>"
  | (consumed) clock s1 l' pr where "jc s = (Inr clock, s1)" "r = Inr pr" "i < length (rt_leases (ex_rt s1))"
      "lease_consume (rt_leases (ex_rt s1) ! i) jsha iid b clock (rt_journal (ex_rt s1)) = (l', Inr pr)"
      "s' = s1\<lparr>ex_rt := (ex_rt s1)\<lparr>rt_leases := (rt_leases (ex_rt s1))[i := l'],
                 rt_sent := rt_sent (ex_rt s1) @ [(iid, pr)]\<rparr>\<rparr>"
proof (cases "jc s")
  case (Pair rc s1)
  show thesis
  proof (cases rc)
    case (Inl e)
    then show thesis using assms clock [of e] by (simp add: consume_lease_def act_bind_def Pair)
  next
    case (Inr clock)
    let ?rt = "ex_rt s1"
    have jc: "jc s = (Inr clock, s1)" using Pair Inr by simp
    obtain l' res where l': "lease_consume (rt_leases ?rt ! i) jsha iid b clock (rt_journal ?rt) = (l', res)"
      by (cases "lease_consume (rt_leases ?rt ! i) jsha iid b clock (rt_journal ?rt)")
    consider "length (rt_leases ?rt) \<le> i" | "i < length (rt_leases ?rt)" by linarith
    then show thesis
    proof cases
      case 1
      then have "consume_lease jc i jsha iid b s = (Inl (SubmissionLimitError ''AUTHORIZATION_ALREADY_CONSUMED''), s1)"
        by (simp add: consume_lease_def act_bind_def Let_def jc)
      with assms show thesis using gone [OF jc] by (metis prod.inject)
    next
      case 2
      show thesis
      proof (cases res)
        case (Inl e)
        have "consume_lease jc i jsha iid b s =
            (Inl e, s1\<lparr>ex_rt := ?rt\<lparr>rt_leases := (rt_leases ?rt)[i := l']\<rparr>\<rparr>)"
          using 2 by (simp add: consume_lease_def act_bind_def Let_def jc l' Inl)
        with assms show thesis using failed [OF jc _ 2] l' Inl by (metis prod.inject)
      next
        case (Inr pr)
        have "consume_lease jc i jsha iid b s = (Inr pr, s1\<lparr>ex_rt := ?rt\<lparr>rt_leases := (rt_leases ?rt)[i := l'],
            rt_sent := rt_sent ?rt @ [(iid, pr)]\<rparr>\<rparr>)"
          using 2 by (simp add: consume_lease_def act_bind_def Let_def jc l' Inr)
        with assms show thesis using consumed [OF jc _ 2] l' Inr by (metis prod.inject)
      qed
    qed
  qed
qed

lemma runtime_consume_failed:
  assumes "act_keeps runtime_run jc" and "consume_lease jc i jsha iid b s = (Inl e, s')"
  shows "runtime_run s s'"
  using assms(2)
proof (cases rule: consume_cases)
  case (clock e')
  then show ?thesis using assms(1) by (metis act_keeps_def snd_conv)
next
  case (gone clock s1)
  then show ?thesis using assms(1) by (metis act_keeps_def snd_conv)
next
  case (failed clock s1 l' e')
  have "runtime_run s s1" using failed(1) assms(1) by (metis act_keeps_def snd_conv)
  moreover have "runtime_run s1 s'"
    unfolding failed(5) by (rule runtime_step [OF rt_consume_failed [OF failed(3,4)]]) simp
  ultimately show ?thesis using runtime_run_trans by (metis transpD)
qed simp

lemma runtime_consume_send:
  assumes "act_keeps runtime_run jc" and "consume_lease jc i jsha iid b s = (Inr pr, s')"
  shows "runtime_run s (s'\<lparr>ex_sends := ex_sends s' @ [(iid, x)]\<rparr>)"
  using assms(2)
proof (cases rule: consume_cases)
  case (consumed clock s1 l' pr')
  have "runtime_run s s1" using consumed(1) assms(1) by (metis act_keeps_def snd_conv)
  moreover have "runtime_run s1 (s'\<lparr>ex_sends := ex_sends s' @ [(iid, x)]\<rparr>)"
    using r_into_rtranclp [of rt_step, OF rt_consume [OF consumed(3,4)]]
    by (auto simp: runtime_run_def consumed(5) sends_of_def proofs_of_def)
  ultimately show ?thesis using runtime_run_trans by (metis transpD)
qed auto

lemma runtime_enter:
  assumes "env_keeps runtime_run env"
  shows "act_keeps runtime_run (guard_enter env iid owner token b n)"
proof -
  have "act_keeps runtime_run (\<lambda>s. let rt = ex_rt s in
       case final_submission_guard_enter iid owner token b n clock (rt_journal rt) of
         Inl e \<Rightarrow> (Inl e, s)
       | Inr (st', l) \<Rightarrow> (Inr (length (rt_leases rt), dl_journal_sha256 l),
           s\<lparr>ex_rt := rt\<lparr>rt_journal := st', rt_leases := rt_leases rt @ [l]\<rparr>\<rparr>))" for clock
    using runtime_run_refl
    by (auto simp: act_keeps_def reflp_def Let_def split: sum.splits intro!: runtime_step rt_enter)
  then show ?thesis
    unfolding guard_enter_def using assms by (intro keeps_bind [OF runtime_run_trans]) (simp_all add: env_keeps_def)
qed

text \<open>Deactivating a lease is a step of the runtime also when the clock could not be read.\<close>

lemma deactivate_step:
  assumes "i < length (rt_leases rt)"
  shows "rt_step rt (rt\<lparr>rt_leases := (rt_leases rt)[i := fst (lease_deactivate (rt_leases rt ! i))]\<rparr>)"
proof (cases "dl_used (rt_leases rt ! i)")
  case True
  then have "final_submission_guard_exit (rt_leases rt ! i) clock (rt_journal rt) = Inr (rt_journal rt)" for clock
    by (simp add: final_submission_guard_exit_def lease_deactivate_def)
  from rt_exit [OF assms this] show ?thesis by simp
next
  case False
  have "\<exists>e. final_submission_guard_exit (rt_leases rt ! i) (DT 0 None) (rt_journal rt) = Inl e"
    using False by (simp add: final_submission_guard_exit_def lease_deactivate_def trusted_now_def require_aware_utc_def is_utc_def)
  then show ?thesis using rt_exit_failed [OF assms] by blast
qed

lemma runtime_close: "act_keeps runtime_run (guard_close i clock)"
  unfolding act_keeps_def
proof
  fix s :: "'w exec_state"
  show "runtime_run s (snd (guard_close i clock s))"
  proof (cases "i < length (rt_leases (ex_rt s))")
    case True
    then show ?thesis
      by (cases clock) (auto simp: guard_close_def Let_def not_le split: sum.splits
          intro!: runtime_step deactivate_step intro: rt_exit rt_exit_failed)
  qed (simp add: guard_close_def Let_def runtime_run_def)
qed

abbreviation run_rel :: "'w exec_state executor_env \<Rightarrow> 'w exec_state execution_request \<Rightarrow> 'w exec_state \<Rightarrow> 'w exec_state \<Rightarrow> bool" where
  "run_rel env q \<equiv> relying (quiet runtime_run env q) runtime_run"

interpretation run: send_contract "run_rel env q" env c q for env c q
proof unfold_locales
  show "reflp (run_rel env q)" "transp (run_rel env q)"
    by (rule relying_refl relying_trans runtime_run_refl runtime_run_trans)+
  show "mt5_keeps (run_rel env q) (xe_mt5 env)" "env_keeps (run_rel env q) env"
    "act_keeps (run_rel env q) (lv_verify (xq_live q) t)" for t
    by (rule quiet_relying)+
  show "run_rel env q s (s\<lparr>ex_rt := (ex_rt s)\<lparr>rt_journal := st'\<rparr>\<rparr>)"
    if "run_op op clock (rt_journal (ex_rt s)) = Inr st'" "sealed_op op" for op clock s st'
    unfolding relying_def by (intro impI runtime_step rt_op [OF that]) simp
  show "act_keeps (run_rel env q) (claim_account_runtime_fence env c)"
    by (intro relying_keepsI claim_frame runtime_run_refl runtime_run_trans)
      (simp_all add: quiet_def runtime_run_def sends_of_def)
  show "act_keeps (run_rel env q) (guard_enter env iid owner fence b n)" for iid owner fence b n
    by (intro relying_keepsI runtime_enter) (simp add: quiet_def)
  show "act_keeps (run_rel env q) (guard_close i clock)" for i clock
    by (intro relying_keepsI runtime_close)
  show "act_keeps (run_rel env q) (act_bind (consume_lease (xe_journal_clock env) i jsha (intent_id t) b)
      (send_consumed (xe_mt5 env) a t request stop_risk))" for i jsha t b a request stop_risk
  proof (intro relying_keepsI consume_send_rule runtime_run_refl runtime_run_trans)
    assume q: "quiet runtime_run env q"
    then have jc: "act_keeps runtime_run (xe_journal_clock env)" by (simp add: quiet_def env_keeps_def)
    show "mt5_keeps runtime_run (xe_mt5 env)" "act_keeps runtime_run (m5_order_send (xe_mt5 env) x)" for x
      using q by (simp_all add: quiet_def env_keeps_def)
    show "runtime_run s s'" if "consume_lease (xe_journal_clock env) i jsha (intent_id t) b s = (Inl e, s')" for s s' e
      using runtime_consume_failed [OF jc that] .
    show "runtime_run s (s'\<lparr>ex_sends := ex_sends s' @ [(intent_id t, x)]\<rparr>)"
      if "consume_lease (xe_journal_clock env) i jsha (intent_id t) b s = (Inr pr, s')" for s s' pr x
      using runtime_consume_send [OF jc that] .
  qed
qed

text \<open>
  (C4) Whatever the broker, the clocks and other processes do, as long as their own effects are runs of the
  runtime in which every \<open>order_send\<close> is matched by a consumption proof, \<open>execute_once\<close> is such a run too, on every path
  and also when it raises.
\<close>

theorem execute_is_runtime_run:
  assumes "quiet runtime_run env q"
  shows "rt_step\<^sup>*\<^sup>* (ex_rt s) (ex_rt (snd (execute_once env c q s)))
    \<and> (\<forall>iid. sends_of iid (snd (execute_once env c q s)) + proofs_of iid (ex_rt s)
         \<le> sends_of iid s + proofs_of iid (ex_rt (snd (execute_once env c q s))))"
  using run.execute_once_keeps [of env q c] assms by (simp add: relying_keeps) (simp add: act_keeps_def runtime_run_def)

text \<open>
  An environment that answers from a table: every call returns a fixed answer and leaves the state to the coordinator.
\<close>

record answers =
  an_clock :: datetime
  an_account_info :: "item option"
  an_symbol_info :: "string \<Rightarrow> item option"
  an_symbol_info_tick :: "string \<Rightarrow> item option"
  an_order_calc_margin :: "int \<Rightarrow> string \<Rightarrow> pyfloat \<Rightarrow> pyfloat \<Rightarrow> json"
  an_order_calc_profit :: "int \<Rightarrow> string \<Rightarrow> pyfloat \<Rightarrow> pyfloat \<Rightarrow> pyfloat \<Rightarrow> json"
  an_copy_ticks_range :: "string \<Rightarrow> datetime \<Rightarrow> datetime \<Rightarrow> int \<Rightarrow> item list option"
  an_order_check :: "item \<Rightarrow> item option"
  an_order_send :: "item \<Rightarrow> item option"
  an_inventory :: "item list option"
  an_constants :: "string \<Rightarrow> int option"
  an_permit_secret :: string
  an_environ :: "string \<Rightarrow> string option"
  an_promotion :: promotion_outcome
  an_os_reply :: os_reply
  an_new_object :: nat

definition table_mt5 :: "answers \<Rightarrow> 's mt5" where
  "table_mt5 b =
     \<lparr>m5_clock = act_return (an_clock b), m5_verify_module = act_return (), m5_initialize = act_return (JBool True),
      m5_shutdown = act_return (), m5_last_error = act_return [], m5_account_info = act_return (an_account_info b),
      m5_symbol_info = (\<lambda>x. act_return (an_symbol_info b x)), m5_symbol_info_tick = (\<lambda>x. act_return (an_symbol_info_tick b x)),
      m5_order_calc_margin = (\<lambda>x y z w. act_return (an_order_calc_margin b x y z w)),
      m5_order_calc_profit = (\<lambda>x y z w v. act_return (an_order_calc_profit b x y z w v)),
      m5_copy_ticks_range = (\<lambda>x y z w. act_return (an_copy_ticks_range b x y z w)),
      m5_order_check = (\<lambda>x. act_return (an_order_check b x)), m5_order_send = (\<lambda>x. act_return (an_order_send b x)),
      m5_orders_get = act_return (an_inventory b), m5_positions_get = act_return (an_inventory b),
      m5_history_deals_get = (\<lambda>x y. act_return (an_inventory b)), m5_constants = an_constants b\<rparr>"

definition table_env :: "answers \<Rightarrow> 'w exec_state executor_env" where
  "table_env b =
     \<lparr>xe_mt5 = table_mt5 b, xe_clock = act_return (an_clock b), xe_journal_clock = act_return (an_clock b),
      xe_yield = act_return (), xe_permit_secret = act_return (an_permit_secret b), xe_environ = act_return (an_environ b),
      xe_validate_promotion = (\<lambda>t. act_return (an_promotion b)), xe_os_reply = act_return (an_os_reply b),
      xe_new_object = act_return (an_new_object b)\<rparr>"

definition without_live_authority :: "'s execution_request \<Rightarrow> 's execution_request" where
  "without_live_authority q =
     q\<lparr>xq_live := \<lparr>lv_supplied = False, lv_verify = (\<lambda>t. act_raise (LiveCanaryOrderAuthorizationError ''absent''))\<rparr>\<rparr>"

lemma table_quiet: "reflp R \<Longrightarrow> quiet R (table_env b) (without_live_authority q)"
  by (simp add: quiet_def env_keeps_def mt5_keeps_def table_env_def table_mt5_def without_live_authority_def
      keeps_return keeps_lift act_raise_def)

theorem execute_is_runtime_run_witness:
  "\<forall>b c q s. rt_step\<^sup>*\<^sup>* (ex_rt s) (ex_rt (snd (execute_once (table_env b) c (without_live_authority q) s)))"
  using execute_is_runtime_run [OF table_quiet [OF runtime_run_refl]] by blast

section \<open>Orders of a platform\<close>

text \<open>
  Executions of any coordinator on any request, between other runs of the runtime: other coordinators, reconciliation,
  operators and crashes.
\<close>

inductive platform_step :: "'w exec_state \<Rightarrow> 'w exec_state \<Rightarrow> bool" where
  ps_execute: "quiet runtime_run env q \<Longrightarrow> platform_step s (snd (execute_once env c q s))"
| ps_other: "runtime_run s s' \<Longrightarrow> platform_step s s'"

definition platform_start :: "'w exec_state \<Rightarrow> bool" where
  "platform_start s = (rt_start (ex_rt s) \<and> ex_sends s = [])"

interpretation platform: transition_system platform_start platform_step .

lemma platform_runs: "platform_step s s' \<Longrightarrow> runtime_run s s'"
proof (induction rule: platform_step.induct)
  case (ps_execute env q s c)
  then show ?case
    using run.execute_once_keeps [of env q c] by (simp add: relying_keeps) (simp add: act_keeps_def)
qed

definition sends_backed :: "'w exec_state \<Rightarrow> bool" where
  "sends_backed s = ((\<exists>rt0. rt_start rt0 \<and> rt_step\<^sup>*\<^sup>* rt0 (ex_rt s)) \<and> (\<forall>iid. sends_of iid s \<le> proofs_of iid (ex_rt s)))"

lemma sends_backed_run: "sends_backed s \<Longrightarrow> runtime_run s s' \<Longrightarrow> sends_backed s'"
  unfolding sends_backed_def runtime_run_def
proof (elim conjE exE, intro conjI allI)
  fix rt0 iid
  assume "rt_start rt0" "rt_step\<^sup>*\<^sup>* rt0 (ex_rt s)" "rt_step\<^sup>*\<^sup>* (ex_rt s) (ex_rt s')"
  then show "\<exists>rt0. rt_start rt0 \<and> rt_step\<^sup>*\<^sup>* rt0 (ex_rt s')" by (meson rtranclp_trans)
  assume "\<forall>iid. sends_of iid s \<le> proofs_of iid (ex_rt s)"
    "\<forall>iid. sends_of iid s' + proofs_of iid (ex_rt s) \<le> sends_of iid s + proofs_of iid (ex_rt s')"
  then have "sends_of iid s \<le> proofs_of iid (ex_rt s)"
    "sends_of iid s' + proofs_of iid (ex_rt s) \<le> sends_of iid s + proofs_of iid (ex_rt s')" by simp_all
  then show "sends_of iid s' \<le> proofs_of iid (ex_rt s')" by linarith
qed

lemma platform_backed: "platform_start s0 \<Longrightarrow> platform_step\<^sup>*\<^sup>* s0 s \<Longrightarrow> sends_backed s"
proof (rule platform.reachable_invariant [of s0 s sends_backed])
  show "sends_backed s" if "platform_start s" for s :: "'w exec_state"
    using that by (auto simp: sends_backed_def platform_start_def sends_of_def)
qed (auto intro: sends_backed_run platform_runs)

lemma filter_key_Nil: "filter (\<lambda>(x, _). x = k) xs = [] \<longleftrightarrow> k \<notin> fst ` set xs"
  by (force simp: filter_empty_conv)

lemma count_le_one: "distinct (map fst xs) \<Longrightarrow> length (filter (\<lambda>(x, _). x = k) xs) \<le> 1"
proof (induction xs)
  case (Cons x xs)
  then show ?case using filter_key_Nil [of k xs] by (cases x) auto
qed simp

lemma distinct_if_counts: "(\<And>k. length (filter (\<lambda>(x, _). x = k) xs) \<le> 1) \<Longrightarrow> distinct (map fst xs)"
proof (induction xs)
  case (Cons x xs)
  have all: "length (filter (\<lambda>(y, _). y = k) (x # xs)) \<le> 1" for k by (rule Cons(2))
  have "length (filter (\<lambda>(y, _). y = k) xs) \<le> 1" for k
    using all [of k] by (cases x) (simp split: if_splits)
  moreover have "filter (\<lambda>(y, _). y = fst x) xs = []" using all [of "fst x"] by (cases x) simp
  ultimately show ?case using Cons(1) filter_key_Nil [of "fst x" xs] by simp
qed simp

lemma counted_proof: "0 < proofs_of iid rt \<Longrightarrow> iid \<in> sent rt"
  using filter_key_Nil [of iid "rt_sent rt"] by (simp add: proofs_of_def sent_def)

text \<open>
  (C2) Over any number of executions, of any coordinators, interleaved with anything else that is a run of
  the runtime: \<open>order_send\<close> is called at most once for an intent, and only for an intent whose one-use authorization is
  committed as consumed in the journal.
\<close>

theorem order_sent_at_most_once:
  assumes "platform_start s0" and "platform_step\<^sup>*\<^sup>* s0 s"
  shows "distinct (map fst (ex_sends s))
    \<and> fst ` set (ex_sends s) \<subseteq> ac_intent_id ` set (j_consumptions (rt_journal (ex_rt s)))"
proof -
  have backed: "sends_backed s" using platform_backed [OF assms] .
  then obtain rt0 where "rt_start rt0" "rt_step\<^sup>*\<^sup>* rt0 (ex_rt s)" by (auto simp: sends_backed_def)
  then have "consistent (ex_rt s)" by (rule reachable_consistent)
  then have once: "distinct (map fst (rt_sent (ex_rt s)))"
    and committed: "sent (ex_rt s) \<subseteq> ac_intent_id ` set (j_consumptions (rt_journal (ex_rt s)))"
    by (simp_all add: consistent_def Let_def)
  have le: "sends_of iid s \<le> proofs_of iid (ex_rt s)" for iid using backed by (simp add: sends_backed_def)
  have "sends_of iid s \<le> 1" for iid
    using le [of iid] count_le_one [OF once, of iid] by (simp add: proofs_of_def)
  then have "distinct (map fst (ex_sends s))" unfolding sends_of_def by (rule distinct_if_counts)
  moreover have "iid \<in> sent (ex_rt s)" if "(iid, x) \<in> set (ex_sends s)" for iid x
  proof -
    have "iid \<in> fst ` set (ex_sends s)" using that by force
    then have "0 < sends_of iid s" using filter_key_Nil [of iid "ex_sends s"] by (simp add: sends_of_def)
    then show ?thesis using le [of iid] counted_proof by (metis order_less_le_trans)
  qed
  ultimately show ?thesis using committed by auto
qed

text \<open>The run of \<open>Journal_Sample\<close>, in which one order was sent, goes on with any execution.\<close>

definition platform_of :: "runtime \<Rightarrow> (string \<times> item) list \<Rightarrow> unit exec_state" where
  "platform_of rt sends =
     \<lparr>ex_world = (), ex_rt = rt, ex_sends = sends, ex_fences = quiet_world, ex_fence = None\<rparr>"

theorem order_sent_at_most_once_witness:
  "\<forall>b c q. let s = snd (execute_once (table_env b) c (without_live_authority q) (platform_of run_sent [(''i1'', [])]))
     in distinct (map fst (ex_sends s))"
proof (intro allI)
  fix b c and q :: "unit exec_state execution_request"
  let ?s0 = "platform_of (run_rt run_start) []" and ?s1 = "platform_of run_sent [(''i1'', [])]"
  have start: "platform_start ?s0" using run_rt_start by (simp add: platform_start_def platform_of_def)
  have "runtime_run ?s0 ?s1"
    using run_reaches_sent by (simp add: runtime_run_def platform_of_def sends_of_def proofs_of_def run_sent_def run_rt_def)
  then have "platform_step ?s0 ?s1" by (rule ps_other)
  then have "platform_step\<^sup>*\<^sup>* ?s0 (snd (execute_once (table_env b) c (without_live_authority q) ?s1))"
    using ps_execute [OF table_quiet [OF runtime_run_refl]] by (rule rtranclp.rtrancl_into_rtrancl [OF r_into_rtranclp])
  then show "let s = snd (execute_once (table_env b) c (without_live_authority q) ?s1) in distinct (map fst (ex_sends s))"
    using order_sent_at_most_once [OF start] by (simp add: Let_def)
qed

end
