(* ===== verification/Executor_Gates.thy ===== *)
theory Executor_Gates
  imports Executor_Safety
begin

text \<open>
  The gates of the coordinator and the fence of the account. A call of \<open>execute_once\<close> sends at most one order, for its
  own intent, and only in mode DEMO behind every gate; the process that sends holds the account's fence, and no other
  process does.
\<close>

section \<open>Calls that send\<close>

definition same_sends :: "'w exec_state \<Rightarrow> 'w exec_state \<Rightarrow> bool" where
  "same_sends s s' = (ex_sends s' = ex_sends s)"

lemma same_sends_refl: "reflp same_sends" and same_sends_trans: "transp same_sends"
  by (simp_all add: same_sends_def reflp_def transp_def)

abbreviation same_rel :: "'w exec_state executor_env \<Rightarrow> 'w exec_state execution_request \<Rightarrow> 'w exec_state \<Rightarrow> 'w exec_state \<Rightarrow> bool" where
  "same_rel env q \<equiv> relying (quiet same_sends env q) same_sends"

interpretation same: stage_contract "same_rel env q" env c q for env c q
proof unfold_locales
  show "reflp (same_rel env q)" "transp (same_rel env q)"
    by (rule relying_refl relying_trans same_sends_refl same_sends_trans)+
  show "mt5_keeps (same_rel env q) (xe_mt5 env)" "env_keeps (same_rel env q) env"
    "act_keeps (same_rel env q) (lv_verify (xq_live q) t)" for t
    by (rule quiet_relying)+
  show "same_rel env q s (s\<lparr>ex_rt := (ex_rt s)\<lparr>rt_journal := st'\<rparr>\<rparr>)" for s st'
    by (simp add: relying_def same_sends_def)
  show "act_keeps (same_rel env q) (claim_account_runtime_fence env c)"
    by (intro relying_keepsI claim_frame same_sends_refl same_sends_trans) (simp_all add: quiet_def same_sends_def)
qed

text \<open>
  A procedure sends nothing, or one order with the property \<open>P\<close>; what ran before the send has returned, and what it returned
  may be used to show \<open>P\<close>.
\<close>

definition act_sends :: "(string \<times> item \<Rightarrow> bool) \<Rightarrow> ('w exec_state, 'a) act \<Rightarrow> bool" where
  "act_sends P m =
     (\<forall>s. ex_sends (snd (m s)) = ex_sends s \<or> (\<exists>x. P x \<and> ex_sends (snd (m s)) = ex_sends s @ [x]))"

lemma sends_none: "act_keeps same_sends m \<Longrightarrow> act_sends P m"
  by (simp add: act_sends_def act_keeps_def same_sends_def)

lemma sends_bind:
  assumes "act_keeps same_sends m" and "\<And>s s1 x. m s = (Inr x, s1) \<Longrightarrow> act_sends P (f x)"
  shows "act_sends P (act_bind m f)"
  unfolding act_sends_def
proof
  fix s
  obtain r s1 where m: "m s = (r, s1)" by (cases "m s")
  have "ex_sends s1 = ex_sends s" using assms(1) m by (metis act_keeps_def same_sends_def snd_conv)
  then show "ex_sends (snd (act_bind m f s)) = ex_sends s
      \<or> (\<exists>x. P x \<and> ex_sends (snd (act_bind m f s)) = ex_sends s @ [x])"
  proof (cases r)
    case (Inr x)
    have "act_sends P (f x)" using assms(2) m Inr by simp
    then have "ex_sends (snd (f x s1)) = ex_sends s1 \<or> (\<exists>y. P y \<and> ex_sends (snd (f x s1)) = ex_sends s1 @ [y])"
      unfolding act_sends_def by (rule spec)
    then show ?thesis by (simp add: act_bind_def m Inr \<open>ex_sends s1 = ex_sends s\<close>)
  qed (simp add: act_bind_def m)
qed

lemma sends_lift: "(\<And>x. r = Inr x \<Longrightarrow> act_sends P (f x)) \<Longrightarrow> act_sends P (act_bind (act_lift r) f)"
  by (rule sends_bind) (auto simp: keeps_lift [OF same_sends_refl] act_lift_def)

lemma sends_then:
  assumes "act_keeps same_sends m" and "\<And>s s1 x. m s = (Inr (Inr x), s1) \<Longrightarrow> act_sends P (f x)"
  shows "act_sends P (act_then m f)"
  unfolding act_then_def
  by (rule sends_bind [OF assms(1)]) (use assms(2) in \<open>auto split: sum.splits intro: sends_none keeps_return [OF same_sends_refl]\<close>)

lemma sends_after:
  assumes "act_sends P m" and "\<And>x. act_keeps same_sends (f x)"
  shows "act_sends P (act_bind m f)"
  unfolding act_sends_def
proof
  fix s
  obtain r s1 where m: "m s = (r, s1)" by (cases "m s")
  have "ex_sends (snd (f x s1)) = ex_sends s1" for x using assms(2) by (simp add: act_keeps_def same_sends_def)
  moreover have "ex_sends s1 = ex_sends s \<or> (\<exists>x. P x \<and> ex_sends s1 = ex_sends s @ [x])"
    using assms(1) m by (metis act_sends_def snd_conv)
  ultimately show "ex_sends (snd (act_bind m f s)) = ex_sends s
      \<or> (\<exists>x. P x \<and> ex_sends (snd (act_bind m f s)) = ex_sends s @ [x])"
    using m by (cases r) (auto simp: act_bind_def)
qed

lemma sends_try: "act_sends P m \<Longrightarrow> act_sends P (act_try m)"
  by (simp add: act_sends_def act_try_def split: prod.splits) (metis snd_conv)

section \<open>The submission\<close>

lemma consume_same:
  assumes "act_keeps same_sends jc"
  shows "act_keeps same_sends (consume_lease jc i jsha iid b)"
proof -
  have "ex_sends s' = ex_sends s" if step: "consume_lease jc i jsha iid b s = (r, s')" for r s s'
  proof -
    have "ex_sends s1 = ex_sends s" if "jc s = (x, s1)" for x s1
      using assms that by (metis act_keeps_def same_sends_def snd_conv)
    with step show ?thesis by (cases rule: consume_cases) auto
  qed
  then show ?thesis unfolding act_keeps_def same_sends_def by (metis prod.collapse)
qed

lemma enter_same: "env_keeps same_sends env \<Longrightarrow> act_keeps same_sends (guard_enter env iid owner token b n)"
  unfolding guard_enter_def
  by (intro keeps_bind [OF same_sends_trans])
    (auto simp: env_keeps_def act_keeps_def same_sends_def Let_def split: sum.splits)

lemma close_same: "act_keeps same_sends (guard_close i clock)"
  by (auto simp: act_keeps_def same_sends_def guard_close_def Let_def split: sum.splits)

lemma leave_same: "env_keeps same_sends env \<Longrightarrow> act_keeps same_sends (guard_leave env i)"
proof -
  assume env: "env_keeps same_sends env"
  have "act_keeps same_sends (act_bind (act_try (act_bind (xe_yield env) (\<lambda>_. xe_journal_clock env))) (guard_close i))"
    using env by (intro keeps_bind [OF same_sends_trans] keeps_try close_same) (simp_all add: env_keeps_def)
  then show ?thesis by (simp add: act_keeps_def guard_leave_def close_same [unfolded act_keeps_def])
qed

lemma send_consumed_sends:
  assumes "mt5_keeps same_sends (xe_mt5 env)" and "\<And>x. act_keeps same_sends (m5_order_send (xe_mt5 env) x)"
  shows "ex_sends (snd (send_consumed (xe_mt5 env) a t request stop_risk pr s))
    = ex_sends s @ [(intent_id t, request_dict request)]"
proof -
  have "act_keeps (\<lambda>s s'. ex_sends s' = ex_sends s @ [(intent_id t, request_dict request)])
      (send_order (xe_mt5 env) (intent_id t) (request_dict request))"
    using assms(2) by (auto simp: act_keeps_def same_sends_def send_order_def)
  moreover have "act_keeps same_sends (act_bind (adapter_now (xe_mt5 env) None) (\<lambda>received_at.
     case result of
       None \<Rightarrow> act_raise (SubmissionUncertainError ''order_send returned no result'')
     | Some payload \<Rightarrow> act_lift (broker_receipt (xe_mt5 env) a t pr (rq_price request) stop_risk received_at payload)))" for result
    unfolding act_raise_def adapter_now_def using assms(1)
    by (intro keeps_bind [OF same_sends_trans] keeps_option keeps_lift [OF same_sends_refl]) (simp add: mt5_keeps_def)
  ultimately show ?thesis
    unfolding send_consumed_def act_keeps_def same_sends_def
    by (simp add: act_bind_def act_reraise_def split: prod.splits sum.splits)
      (metis (no_types, lifting) prod.collapse snd_conv)
qed

lemma relying_given: "b \<Longrightarrow> relying b R = R"
  by (intro ext) (simp add: relying_def)

lemma submit_sends:
  assumes "quiet same_sends env q" and "\<And>n. act_keeps same_sends (lv_verify lv n)"
    and P: "\<And>request. canonical_sha256 (JDict (request_dict request)) = mp_request_sha256 p
      \<Longrightarrow> P (intent_id t, request_dict request)"
  shows "act_sends P (submit (xe_mt5 env) (xe_journal_clock env) a lv t p r i jsha n)"
proof -
  note given = relying_given [OF assms(1), of same_sends]
  note keeps = same.session_keeps [of env q, unfolded given] same.request_keeps [of env q, unfolded given]
    same.live_check_keeps [of env q, unfolded given, OF assms(2)]
    same.final_checks_keeps [of env q, unfolded given, OF assms(2)]
  have env: "act_keeps same_sends (xe_journal_clock env)" "mt5_keeps same_sends (xe_mt5 env)"
    "\<And>x. act_keeps same_sends (m5_order_send (xe_mt5 env) x)"
    using assms(1) by (simp_all add: quiet_def env_keeps_def)
  have consumed: "act_sends P (act_bind (consume_lease (xe_journal_clock env) i jsha (intent_id t) b)
      (send_consumed (xe_mt5 env) a t request stop_risk))"
    if "canonical_sha256 (JDict (request_dict request)) = mp_request_sha256 p" for jsha b request stop_risk
    by (rule sends_bind [OF consume_same [OF env(1)]])
      (use P [OF that] send_consumed_sends [OF env(2,3)] in \<open>auto simp: act_sends_def\<close>)
  have matched: "canonical_sha256 (JDict (request_dict request)) = mp_request_sha256 p"
    if "checked [raise_if (canonical_sha256 (mp_request p) \<noteq> mp_request_sha256 p
        \<or> canonical_sha256 (JDict (request_dict request)) \<noteq> mp_request_sha256 p) e] () = Inr x" for request e x
    using that by (simp add: checked_Inr_iff raise_if_None_iff)
  show ?thesis
    unfolding submit_def act_require_def
    by (intro sends_bind [OF keeps(1)] sends_bind [OF keeps(2)] sends_bind [OF keeps(3)] sends_bind [OF keeps(4)]
        sends_bind [OF keeps(5)] sends_bind [OF keeps(6)] sends_lift consumed matched)
qed

lemma guarded_submit_sends:
  assumes "quiet same_sends env q"
    and "\<And>request. canonical_sha256 (JDict (request_dict request)) = mp_request_sha256 p
      \<Longrightarrow> P (intent_id (xq_intent q), request_dict request)"
  shows "act_sends P (guarded_submit env c q p a n)"
proof -
  have env: "env_keeps same_sends env" and live: "act_keeps same_sends (lv_verify ((xq_live q)\<lparr>lv_supplied := False\<rparr>) t)" for t
    using assms(1) by (simp_all add: quiet_def)
  have "act_sends P (act_bind (act_try (submit (xe_mt5 env) (xe_journal_clock env) (co_adapter c)
      ((xq_live q)\<lparr>lv_supplied := False\<rparr>) (xq_intent q) p a lease jsha (Some n))) (\<lambda>result.
      act_bind (guard_leave env lease) (\<lambda>_. act_lift result)))" for lease jsha
    by (intro sends_after sends_try submit_sends [where P = P, OF assms(1) live] keeps_bind [OF same_sends_trans] leave_same [OF env]
        keeps_lift [OF same_sends_refl]) (rule assms(2))
  then show ?thesis
    unfolding guarded_submit_def Let_def by (intro sends_bind [OF enter_same [OF env]]) (simp split: prod.split)
qed

lemma submit_stage_sends:
  assumes "quiet same_sends env q"
    and "\<And>request. canonical_sha256 (JDict (request_dict request)) = mp_request_sha256 p
      \<Longrightarrow> P (intent_id (xq_intent q), request_dict request)"
  shows "act_sends P (submit_stage env c q risk p a n)"
proof -
  note given = relying_given [OF assms(1), of same_sends]
  show ?thesis
    unfolding submit_stage_def
    by (intro sends_after sends_try guarded_submit_sends [where P = P, OF assms(1)] keeps_sum
        same.failed_submission_keeps [of env q, unfolded given] same.receipt_stage_keeps [of env q, unfolded given])
      (rule assms(2))
qed

section \<open>The gates\<close>

text \<open>The evidence that stands behind an order with the request \<open>x\<close>.\<close>

definition order_is_gated :: "coordinator \<Rightarrow> 'w exec_state execution_request \<Rightarrow> item \<Rightarrow> bool" where
  "order_is_gated c q x =
     (\<exists>jsha g risk p f row a n latched_again.
        ti_mode (xq_intent q) = ''DEMO''
        \<and> context_at c q jsha (gf_now g) = Inr (gf_context g) \<and> (\<exists>ctx. context_at c q jsha (rf_now f) = Inr ctx)
        \<and> safety_reasons q g False latched_again = []
        \<and> ed_armed (gf_arm g) \<and> (\<exists>v. gf_manual g = Some v \<and> mv_valid v)
        \<and> evaluate_risk (xq_intent q) (xq_broker_spec q) (gf_context g) = Inr risk \<and> rd_allowed risk
        \<and> mp_passed p \<and> preflight_reasons q g risk p = Inr [] \<and> refreshed_reasons q g risk p f = Inr []
        \<and> (\<exists>v. rf_permit f = Some v \<and> pv_valid v \<and> pv_permit_id v = ti_permit_id (xq_intent q))
        \<and> ir_state row = SUBMITTING \<and> hd_healthy (gf_health g) \<and> mb_bound (gf_model g)
        \<and> mg_news_clear (xq_market_guard q) \<and> mg_rollover_clear (xq_market_guard q)
        \<and> authorization_of q jsha g risk p f row = Inr a \<and> allows_order_send a n = Inr True
        \<and> canonical_sha256 (JDict x) = mp_request_sha256 p)"

subsection \<open>What a stage that goes on has checked\<close>

lemma ends_not_on: "ends m s \<noteq> (Inr (Inr x), s1)"
  by (auto simp: ends_def act_bind_def act_return_def split: prod.splits sum.splits)

lemma case_goes:
  "(case r of Inl x \<Rightarrow> f x | Inr y \<Rightarrow> g y) s = z \<longleftrightarrow> (\<exists>x. r = Inl x \<and> f x s = z) \<or> (\<exists>y. r = Inr y \<and> g y s = z)"
  "(case v of None \<Rightarrow> m | Some y \<Rightarrow> h y) s = z \<longleftrightarrow> v = None \<and> m s = z \<or> (\<exists>y. v = Some y \<and> h y s = z)"
  "(if b then m else n) s = z \<longleftrightarrow> b \<and> m s = z \<or> \<not> b \<and> n s = z"
  by (cases r; auto) (cases v; auto)+

lemmas goes_simps = case_goes act_bind_Inr ends_not_on goes_on_def act_return_def act_lift_def act_raise_def

lemma safety_on:
  assumes "safety_stage env q g r s = (Inr (Inr x), s1)"
  shows "\<exists>latched_again. safety_reasons q g False latched_again = []"
proof -
  obtain latched again where "safety_reasons q g latched again = []"
    using assms unfolding safety_stage_def by (auto simp: goes_simps Let_def)
  moreover from this have "\<not> latched" by (simp add: safety_reasons_def switch_gates_def)
  ultimately show ?thesis by auto
qed

lemma risk_on:
  assumes "risk_stage env q g r s = (Inr (Inr (r', risk)), s1)"
  shows "evaluate_risk (xq_intent q) (xq_broker_spec q) (gf_context g) = Inr risk" "rd_allowed risk"
  using assms unfolding risk_stage_def by (auto simp: goes_simps Let_def)

lemma preflight_on:
  assumes "preflight_stage env c q g (r, risk) s = (Inr (Inr (r', risk', p)), s1)"
  shows "risk' = risk" "preflight_reasons q g risk p = Inr []"
  using assms unfolding preflight_stage_def by (auto simp: goes_simps Let_def)

lemma preflight_passed: "preflight_reasons q g risk p = Inr [] \<Longrightarrow> mp_passed p"
  by (auto simp: preflight_reasons_def res_bind_Inr_iff Let_def)

text \<open>The release locks: the policy rejects both modes that would trade unattended.\<close>

lemma locked_mode_gate: "\<not> fst (execution_mode_policy_decision ''LIVE'')" "\<not> fst (execution_mode_policy_decision ''DEMO_AUTO'')"
  by code_simp+

lemma policy_on:
  assumes "policy_stage env q g (r, risk, p) s = (Inr (Inr x), s1)"
  shows "ti_mode (xq_intent q) = ''DEMO''" "ed_armed (gf_arm g)" "\<exists>v. gf_manual g = Some v \<and> mv_valid v"
proof -
  have "mode_policy_allows q g" using assms by (auto simp: policy_stage_def goes_simps)
  then show "ti_mode (xq_intent q) = ''DEMO''" "ed_armed (gf_arm g)" "\<exists>v. gf_manual g = Some v \<and> mv_valid v"
    by (auto simp: mode_policy_allows_def Let_def locked_mode_gate split: option.splits)
qed

lemma refresh_on:
  assumes "refresh_stage env c q jsha g (r, risk, p) s = (Inr (Inr f), s1)"
  shows "refreshed_reasons q g risk p f = Inr []" "\<exists>ctx. context_at c q jsha (rf_now f) = Inr ctx"
  using assms unfolding refresh_stage_def by (auto simp: goes_simps Let_def)

lemma refreshed_permit:
  assumes "refreshed_reasons q g risk p f = Inr []"
  shows "\<exists>v. rf_permit f = Some v \<and> pv_valid v \<and> pv_permit_id v = ti_permit_id (xq_intent q)"
  using assms
  by (auto simp: refreshed_reasons_def refreshed_authority_reasons_def res_bind_Inr_iff Let_def split: option.splits if_splits prod.splits)

lemma authorization_on:
  assumes "authorization_stage env q jsha g risk p f row s = (Inr (Inr a), s1)"
  shows "authorization_of q jsha g risk p f row = Inr a"
  using assms by (auto simp: authorization_stage_def goes_simps Let_def)

lemma authorized_outputs:
  assumes "authorization_of q jsha g risk p f row = Inr a"
  shows "ir_state row = SUBMITTING" "hd_healthy (gf_health g)" "mb_bound (gf_model g)"
    "mg_news_clear (xq_market_guard q)" "mg_rollover_clear (xq_market_guard q)"
  using assms
  by (auto simp: authorization_of_def mint_execution_gate_capability_def gate_output_checks_def res_bind_Inr_iff
      checked_Inr_iff raise_if_None_iff Let_def)

lemma expiry_on: "expiry_stage env q risk p a s = (Inr (Inr n), s1) \<Longrightarrow> allows_order_send a n = Inr True"
  unfolding expiry_stage_def by (auto simp: goes_simps Let_def)

lemma facts_on:
  assumes "collect_gate_facts env c q jsha now ctx s = (Inr g, s1)"
  shows "gf_now g = now" "gf_context g = ctx"
  using assms unfolding collect_gate_facts_def by (auto simp: goes_simps Let_def)

subsection \<open>The whole call\<close>

lemma send_stages_sends:
  assumes quiet: "quiet same_sends env q"
    and P: "\<And>risk p f row a n x. evaluate_risk (xq_intent q) (xq_broker_spec q) (gf_context g) = Inr risk \<Longrightarrow> rd_allowed risk
      \<Longrightarrow> preflight_reasons q g risk p = Inr [] \<Longrightarrow> ti_mode (xq_intent q) = ''DEMO'' \<Longrightarrow> ed_armed (gf_arm g)
      \<Longrightarrow> \<exists>v. gf_manual g = Some v \<and> mv_valid v \<Longrightarrow> refreshed_reasons q g risk p f = Inr []
      \<Longrightarrow> \<exists>ctx. context_at c q jsha (rf_now f) = Inr ctx \<Longrightarrow> authorization_of q jsha g risk p f row = Inr a
      \<Longrightarrow> allows_order_send a n = Inr True \<Longrightarrow> canonical_sha256 (JDict x) = mp_request_sha256 p
      \<Longrightarrow> P (intent_id (xq_intent q), x)"
  shows "act_sends P (send_stages env c q jsha g created)"
proof -
  note given = relying_given [OF quiet, of same_sends]
  note stages = same.risk_stage_keeps same.preflight_stage_keeps same.policy_stage_keeps same.refresh_stage_keeps
    same.reserve_stage_keeps same.authorization_stage_keeps same.expiry_stage_keeps
  note kept = stages [of env q, unfolded given]
  show ?thesis unfolding send_stages_def
  proof (rule sends_then [OF kept(1)], clarsimp, rule sends_then [OF kept(2)], clarsimp, rule sends_then [OF kept(3)],
      rule sends_then [OF kept(4)], rule sends_then [OF kept(5)], rule sends_then [OF kept(6)], rule sends_then [OF kept(7)])
    fix s1 s1' s2 s2' s3 s3' s4 s4' s5 s5' s6 s6' s7 s7' r risk r' risk' p u f row a n
    assume on: "risk_stage env q g created s1 = (Inr (Inr (r, risk)), s1')"
      "preflight_stage env c q g (r, risk) s2 = (Inr (Inr (r', risk', p)), s2')"
      "policy_stage env q g (r', risk', p) s3 = (Inr (Inr u), s3')"
      "refresh_stage env c q jsha g (r', risk', p) s4 = (Inr (Inr f), s4')"
      "authorization_stage env q jsha g risk' p f row s6 = (Inr (Inr a), s6')"
      "expiry_stage env q risk' p a s7 = (Inr (Inr n), s7')"
    have risk: "risk' = risk" "preflight_reasons q g risk p = Inr []" using preflight_on [OF on(2)] by simp_all
    show "act_sends P (ends (submit_stage env c q risk' p a n))"
      unfolding ends_def
      by (intro sends_after submit_stage_sends [where P = P, OF quiet] keeps_return [OF same_sends_refl])
        (use P risk_on [OF on(1)] policy_on [OF on(3)] refresh_on [OF on(4)] authorization_on [OF on(5)] expiry_on [OF on(6)] risk
          in blast)
  qed
qed

lemma order_is_gatedI:
  assumes "context_at c q jsha (gf_now g) = Inr (gf_context g)" and "safety_reasons q g False again = []"
    and "evaluate_risk (xq_intent q) (xq_broker_spec q) (gf_context g) = Inr risk" and "rd_allowed risk"
    and preflight: "preflight_reasons q g risk p = Inr []" and "ti_mode (xq_intent q) = ''DEMO''" and "ed_armed (gf_arm g)"
    and "\<exists>v. gf_manual g = Some v \<and> mv_valid v" and refreshed: "refreshed_reasons q g risk p f = Inr []"
    and "\<exists>ctx. context_at c q jsha (rf_now f) = Inr ctx" and authorized: "authorization_of q jsha g risk p f row = Inr a"
    and "allows_order_send a n = Inr True" and "canonical_sha256 (JDict x) = mp_request_sha256 p"
  shows "order_is_gated c q x"
  unfolding order_is_gated_def
  using assms preflight_passed [OF preflight] refreshed_permit [OF refreshed] authorized_outputs [OF authorized] by blast

lemma fresh_intent_sends:
  assumes "quiet same_sends env q" and "context_at c q jsha now = Inr ctx"
  shows "act_sends (\<lambda>(iid, x). iid = intent_id (xq_intent q) \<and> order_is_gated c q x) (fresh_intent env c q jsha now ctx)"
proof -
  note given = relying_given [OF assms(1), of same_sends]
  note stages = same.gate_facts_keeps same.intent_stage_keeps same.safety_stage_keeps same.fence_stage_keeps
  note kept = stages [of env q, unfolded given]
  show ?thesis unfolding fresh_intent_def
  proof (rule sends_bind [OF kept(1)], rule sends_then [OF kept(2)], rule sends_then [OF kept(3)], rule sends_then [OF kept(4)])
    fix s1 s1' s2 s2' g created and u :: unit
    assume on: "collect_gate_facts env c q jsha now ctx s1 = (Inr g, s1')"
      "safety_stage env q g created s2 = (Inr (Inr u), s2')"
    obtain again where safe: "safety_reasons q g False again = []" using safety_on [OF on(2)] by blast
    have verified: "context_at c q jsha (gf_now g) = Inr (gf_context g)" using facts_on [OF on(1)] assms(2) by simp
    show "act_sends (\<lambda>(iid, x). iid = intent_id (xq_intent q) \<and> order_is_gated c q x) (send_stages env c q jsha g created)"
      by (rule send_stages_sends [OF assms(1)]) (use order_is_gatedI [OF verified safe] in blast)
  qed
qed


lemma gated_mode: "order_is_gated c q x \<Longrightarrow> ti_mode (xq_intent q) = ''DEMO''"
  by (auto simp: order_is_gated_def)

definition in_mode :: "string \<Rightarrow> 's execution_request \<Rightarrow> 's execution_request" where
  "in_mode mode q = q\<lparr>xq_intent := (xq_intent q)\<lparr>ti_mode := mode\<rparr>\<rparr>"


section \<open>The account fence\<close>

definition holds_fence :: "coordinator \<Rightarrow> 'w exec_state \<Rightarrow> bool" where
  "holds_fence c s =
     (\<exists>i f. ex_fence s = Some i \<and> fw_fences (ex_fences s) i = Some f \<and> holds_account f
        \<and> fe_identity_sha256 f = co_account_runtime_identity_sha256 c)"

definition fence_ok :: "coordinator \<Rightarrow> 'w exec_state \<Rightarrow> bool" where
  "fence_ok c s = (ex_fence s = None \<or> holds_fence c s)"

text \<open>The fences of the host make steps, and the coordinator keeps the one it holds.\<close>

definition fence_run :: "coordinator \<Rightarrow> 'w exec_state \<Rightarrow> 'w exec_state \<Rightarrow> bool" where
  "fence_run c s s' =
     ((fence_step (co_host c))\<^sup>*\<^sup>* (ex_fences s) (ex_fences s') \<and> (holds_fence c s \<longrightarrow> holds_fence c s')
      \<and> (fence_ok c s \<longrightarrow> fence_ok c s'))"

lemma fence_run_refl: "reflp (fence_run c)" and fence_run_trans: "transp (fence_run c)"
  by (auto simp: fence_run_def reflp_def transp_def)

lemma fence_run_frame:
  "ex_fences s' = ex_fences s \<Longrightarrow> ex_fence s' = ex_fence s \<Longrightarrow> fence_run c s s'"
  by (simp add: fence_run_def fence_ok_def holds_fence_def)

lemma acquire_holds:
  assumes "fence_acquire host reply i w = Inr w'" and "fw_fences w i = Some f" and "\<not> fe_acquired f"
  shows "\<exists>f'. fw_fences w' i = Some f' \<and> holds_account f' \<and> fe_identity_sha256 f' = fe_identity_sha256 f"
  using assms
  by (auto simp: fence_acquire_def acquire_os_lock_def holds_account_def res_bind_Inr_iff Let_def split: if_splits)

lemma fence_init_identity:
  assumes "is_sha256_hex identity" and "AccountRuntimeFence_init identity = Inr f"
  shows "fe_identity_sha256 f = identity" "\<not> fe_acquired f"
proof -
  have "str_strip identity = identity" "str_lower identity = identity"
    using assms(1)
    by (auto simp: is_sha256_hex_def str_lower_def list.pred_set hex_lower_not_space lower_char_hex_lower
        intro!: map_idI str_strip_no_space)
  then show "fe_identity_sha256 f = identity" "\<not> fe_acquired f"
    using assms(2) by (auto simp: AccountRuntimeFence_init_def Let_def split: if_splits)
qed

lemma holds_fence_other:
  assumes "holds_fence c s" and "fw_fences (ex_fences s) i = None"
  shows "holds_fence c (s\<lparr>ex_fences := (ex_fences s)\<lparr>fw_fences := (fw_fences (ex_fences s))(i \<mapsto> f)\<rparr>\<rparr>)"
proof -
  obtain j g where "ex_fence s = Some j" "fw_fences (ex_fences s) j = Some g" "holds_account g"
      "fe_identity_sha256 g = co_account_runtime_identity_sha256 c"
    using assms(1) by (auto simp: holds_fence_def)
  moreover from this have "j \<noteq> i" using assms(2) by auto
  ultimately show ?thesis unfolding holds_fence_def by (intro exI [of _ j] exI [of _ g]) simp
qed

lemma claim_new_holds:
  assumes "AccountRuntimeFence_init (co_account_runtime_identity_sha256 c) = Inr f"
    and "is_sha256_hex (co_account_runtime_identity_sha256 c)" and "claim_new_fence c f n reply s = (r, s')"
  shows "fence_run c s s'" "r = Inr () \<Longrightarrow> holds_fence c s'"
proof -
  let ?i = "(co_process c, n)"
  let ?created = "(ex_fences s)\<lparr>fw_fences := (fw_fences (ex_fences s))(?i \<mapsto> f)\<rparr>"
  have "fence_run c s s' \<and> (r = Inr () \<longrightarrow> holds_fence c s')"
  proof (cases "fw_fences (ex_fences s) ?i = None")
    case False
    then show ?thesis using assms(3) by (auto simp: claim_new_fence_def fence_run_def)
  next
    case True
    have new: "fence_step (co_host c) (ex_fences s) ?created" using fs_new [OF assms(1) True] .
    show ?thesis
    proof (cases "fence_acquire (co_host c) reply ?i ?created")
      case (Inl e)
      then show ?thesis
        using assms(3) True new holds_fence_other [OF _ True, of c f] by (auto simp: claim_new_fence_def fence_run_def fence_ok_def Let_def)
    next
      case (Inr w')
      have "\<exists>f'. fw_fences w' ?i = Some f' \<and> holds_account f' \<and> fe_identity_sha256 f' = co_account_runtime_identity_sha256 c"
        using acquire_holds [OF Inr, of f] fence_init_identity [OF assms(2,1)] by simp
      moreover have "(fence_step (co_host c))\<^sup>*\<^sup>* (ex_fences s) w'"
        using new fs_acquire [OF Inr] by (meson rtranclp.simps)
      ultimately show ?thesis using assms(3) True Inr by (auto simp: claim_new_fence_def fence_run_def fence_ok_def holds_fence_def Let_def)
    qed
  qed
  then show "fence_run c s s'" "r = Inr () \<Longrightarrow> holds_fence c s'" by simp_all
qed

lemma claim_new_run:
  assumes "AccountRuntimeFence_init (co_account_runtime_identity_sha256 c) = Inr f"
    and "is_sha256_hex (co_account_runtime_identity_sha256 c)"
  shows "act_keeps (fence_run c) (claim_new_fence c f n reply)"
  unfolding act_keeps_def using claim_new_holds(1) [OF assms] by (metis prod.collapse)

lemma claim_fence_run:
  assumes env: "env_keeps (fence_run c) env" and hex: "is_sha256_hex (co_account_runtime_identity_sha256 c)"
  shows "act_keeps (fence_run c) (claim_account_runtime_fence env c)"
proof -
  have "act_keeps (fence_run c) (act_bind (act_lift (AccountRuntimeFence_init (co_account_runtime_identity_sha256 c))) (\<lambda>f.
          act_bind (xe_new_object env) (\<lambda>n. act_bind (xe_os_reply env) (claim_new_fence c f n))))"
    using env
    by (intro keeps_lift_bind [OF fence_run_refl] keeps_bind [OF fence_run_trans] claim_new_run [OF _ hex])
      (simp_all add: env_keeps_def)
  then show ?thesis
    unfolding act_keeps_def claim_account_runtime_fence_def
    by (auto simp: fence_run_frame split: option.splits)
qed

lemma claim_holds:
  assumes "claim_account_runtime_fence env c s = (Inr (), s1)"
    and "is_sha256_hex (co_account_runtime_identity_sha256 c)" and "fence_ok c s"
  shows "holds_fence c s1"
proof (cases "ex_fence s")
  case None
  then obtain f n reply s' where "AccountRuntimeFence_init (co_account_runtime_identity_sha256 c) = Inr f"
      "claim_new_fence c f n reply s' = (Inr (), s1)"
    using assms(1) by (auto simp: claim_account_runtime_fence_def goes_simps)
  then show ?thesis using claim_new_holds(2) assms(2) by blast
next
  case (Some i)
  then have "s1 = s" using assms(1) by (auto simp: claim_account_runtime_fence_def split: option.splits if_splits)
  then show ?thesis using assms(3) Some by (simp add: fence_ok_def)
qed

abbreviation fence_rel ::
  "'w exec_state executor_env \<Rightarrow> coordinator \<Rightarrow> 'w exec_state execution_request \<Rightarrow> 'w exec_state \<Rightarrow> 'w exec_state \<Rightarrow> bool" where
  "fence_rel env c q \<equiv>
     relying (quiet (fence_run c) env q \<and> is_sha256_hex (co_account_runtime_identity_sha256 c)) (fence_run c)"

lemma consume_fences:
  assumes "act_keeps (fence_run c) jc" and "consume_lease jc i jsha iid b s = (r, s')"
  shows "fence_run c s (s'\<lparr>ex_sends := x\<rparr>)" "fence_run c s s'"
proof -
  have "fence_run c s s1" if "jc s = (y, s1)" for y s1 using assms(1) that by (metis act_keeps_def snd_conv)
  with assms(2) show "fence_run c s (s'\<lparr>ex_sends := x\<rparr>)" "fence_run c s s'"
    by (cases rule: consume_cases; force simp: fence_run_def fence_ok_def holds_fence_def)+
qed

interpretation fenced: send_contract "fence_rel env c q" env c q for env c q
proof unfold_locales
  show "reflp (fence_rel env c q)" "transp (fence_rel env c q)"
    by (rule relying_refl relying_trans fence_run_refl fence_run_trans)+
  show "mt5_keeps (fence_rel env c q) (xe_mt5 env)" "env_keeps (fence_rel env c q) env"
    "act_keeps (fence_rel env c q) (lv_verify (xq_live q) t)" for t
    by (auto simp: relying_keeps quiet_def env_keeps_def mt5_keeps_def)
  show "fence_rel env c q s (s\<lparr>ex_rt := (ex_rt s)\<lparr>rt_journal := st'\<rparr>\<rparr>)" for s st'
    by (simp add: relying_def fence_run_frame)
  show "act_keeps (fence_rel env c q) (claim_account_runtime_fence env c)"
    by (intro relying_keepsI claim_fence_run) (simp_all add: quiet_def)
  show "act_keeps (fence_rel env c q) (guard_enter env iid owner fence b n)" for iid owner fence b n
    unfolding guard_enter_def
    by (intro relying_keepsI keeps_bind [OF fence_run_trans])
      (auto simp: quiet_def env_keeps_def act_keeps_def Let_def fence_run_frame split: sum.splits)
  show "act_keeps (fence_rel env c q) (guard_close i clock)" for i clock
    by (intro relying_keepsI) (auto simp: act_keeps_def guard_close_def Let_def fence_run_frame split: sum.splits)
  show "act_keeps (fence_rel env c q) (act_bind (consume_lease (xe_journal_clock env) i jsha (intent_id t) b)
      (send_consumed (xe_mt5 env) a t request stop_risk))" for i jsha t b a request stop_risk
    by (intro relying_keepsI consume_send_rule fence_run_refl fence_run_trans consume_fences)
      (auto simp: quiet_def env_keeps_def)
qed

text \<open>A stage that goes on after the claim holds the fence.\<close>

lemma fence_on:
  assumes "fence_stage env c g r s = (Inr (Inr u), s1)"
    and "is_sha256_hex (co_account_runtime_identity_sha256 c)" and "fence_ok c s"
  shows "holds_fence c s1"
proof -
  have "claim_account_runtime_fence env c s = (Inr (), s1)"
    using assms(1) unfolding fence_stage_def by (auto simp: goes_simps act_try_def split: prod.splits)
  then show ?thesis using assms(2,3) by (rule claim_holds)
qed

text \<open>Orders are sent only by a coordinator that then still holds the fence.\<close>

definition sender_run :: "coordinator \<Rightarrow> 'w exec_state \<Rightarrow> 'w exec_state \<Rightarrow> bool" where
  "sender_run c s s' = (fence_run c s s' \<and> (fence_ok c s \<longrightarrow> ex_sends s' = ex_sends s \<or> holds_fence c s'))"

lemma sender_run_refl: "reflp (sender_run c)"
  by (simp add: reflp_def sender_run_def fence_run_def)

lemma sender_run_trans: "transp (sender_run c)"
proof (rule transpI)
  fix s u v :: "'w exec_state"
  assume su: "sender_run c s u" and uv: "sender_run c u v"
  have "fence_run c s v" using su uv fence_run_trans by (metis sender_run_def transpD)
  moreover have "ex_sends v = ex_sends s \<or> holds_fence c v" if "fence_ok c s"
    using su uv that unfolding sender_run_def fence_run_def by auto
  ultimately show "sender_run c s v" by (simp add: sender_run_def)
qed

lemma keeps_sender: "act_keeps same_sends m \<Longrightarrow> act_keeps (fence_run c) m \<Longrightarrow> act_keeps (sender_run c) m"
  by (simp add: act_keeps_def same_sends_def sender_run_def)

lemma fenced_sends:
  assumes quiet: "quiet same_sends env q" "quiet (fence_run c) env q \<and> is_sha256_hex (co_account_runtime_identity_sha256 c)"
  shows "act_keeps (sender_run c) (act_then (fence_stage env c g r) (\<lambda>_. send_stages env c q jsha g r))"
  unfolding act_keeps_def
proof
  fix s
  let ?m = "act_then (fence_stage env c g r) (\<lambda>_. send_stages env c q jsha g r)"
  note given = relying_given [OF quiet(1), of same_sends] relying_given [OF quiet(2), of "fence_run c"]
  have "act_keeps (fence_rel env c q) ?m" "act_keeps (fence_rel env c q) (send_stages env c q jsha g r)"
    by (intro fenced.then_keeps fenced.fence_stage_keeps fenced.send_stages_keeps)+
  then have run: "act_keeps (fence_run c) ?m" "act_keeps (fence_run c) (send_stages env c q jsha g r)"
    by (simp_all only: given)
  have "ex_sends (snd (?m s)) = ex_sends s \<or> holds_fence c (snd (?m s))" if ok: "fence_ok c s"
  proof (cases "\<exists>u s1. fence_stage env c g r s = (Inr (Inr u), s1)")
    case True
    then obtain u s1 where on: "fence_stage env c g r s = (Inr (Inr u), s1)" by blast
    then have "?m s = send_stages env c q jsha g r s1" by (simp add: act_then_def act_bind_def)
    moreover have "holds_fence c s1" using fence_on [OF on] quiet(2) ok by blast
    ultimately show ?thesis using run(2) by (simp add: act_keeps_def fence_run_def)
  next
    case False
    then have "snd (?m s) = snd (fence_stage env c g r s)"
      by (auto simp: act_then_def act_bind_def act_return_def split: prod.splits sum.splits)
    then show ?thesis
      using same.fence_stage_keeps [where env = env and c = c and q = q, unfolded given] by (simp add: act_keeps_def same_sends_def)
  qed
  then show "sender_run c s (snd (?m s))" using run(1) by (simp add: sender_run_def act_keeps_def)
qed

abbreviation sender_env :: "'w exec_state executor_env \<Rightarrow> coordinator \<Rightarrow> 'w exec_state execution_request \<Rightarrow> bool" where
  "sender_env env c q \<equiv>
     quiet same_sends env q \<and> quiet (fence_run c) env q \<and> is_sha256_hex (co_account_runtime_identity_sha256 c)"

interpretation sender: stage_contract "relying (sender_env env c q) (sender_run c)" env c q for env c q
proof unfold_locales
  let ?R = "relying (sender_env env c q) (sender_run c)"
  show "reflp ?R" "transp ?R" by (rule relying_refl relying_trans sender_run_refl sender_run_trans)+
  show "mt5_keeps ?R (xe_mt5 env)" "env_keeps ?R env" "act_keeps ?R (lv_verify (xq_live q) t)" for t
    by (auto simp: relying_keeps quiet_def env_keeps_def mt5_keeps_def intro: keeps_sender)
  show "?R s (s\<lparr>ex_rt := (ex_rt s)\<lparr>rt_journal := st'\<rparr>\<rparr>)" for s st'
    by (simp add: relying_def sender_run_def fence_run_frame)
  show "act_keeps ?R (claim_account_runtime_fence env c)"
    by (intro relying_keepsI keeps_sender claim_fence_run claim_frame same_sends_refl same_sends_trans)
      (auto simp: quiet_def same_sends_def)
qed

lemma execute_sender_run:
  assumes "sender_env env c q"
  shows "act_keeps (sender_run c) (execute_once env c q)"
proof -
  note given = relying_given [OF assms, of "sender_run c"]
  let ?R = "relying (sender_env env c q) (sender_run c)"
  have rest: "act_keeps ?R (act_then (fence_stage env c g r) (\<lambda>_. send_stages env c q jsha g r))" for g r jsha
    using fenced_sends assms by (intro relying_keepsI) blast
  have "act_keeps ?R (fresh_intent env c q jsha now ctx)" for jsha now ctx
    unfolding fresh_intent_def
    by (rule sender.keeps_rules(1) [OF sender.gate_facts_keeps], rule sender.then_keeps [OF sender.intent_stage_keeps],
        rule sender.then_keeps [OF sender.safety_stage_keeps], rule rest)
  then have "act_keeps ?R (execute_once env c q)"
    unfolding execute_once_def result_of_def Let_def by (intro sender.stage_rules sender.live_inputs_keeps)
  then show ?thesis by (simp only: given)
qed


definition sample_coordinator :: "process \<Rightarrow> MT5Adapter \<Rightarrow> coordinator" where
  "sample_coordinator p a =
     \<lparr>co_adapter = a, co_account_runtime_identity_sha256 = sample_identity, co_promotion_evidence_key_provider = False,
      co_manual_approval_key_provider = None, co_expected_manual_approver_id = [], co_expected_manual_approval_key_id = [],
      co_host = posix_host (\<lambda>p. ''/tmp''), co_process = p\<rparr>"

lemma sample_sender_env: "sender_env (table_env b) (sample_coordinator p a) (without_live_authority q)"
proof -
  have "is_sha256_hex sample_identity" by code_simp
  then show ?thesis
    by (simp add: sample_coordinator_def table_quiet [OF same_sends_refl] table_quiet [OF fence_run_refl])
qed


end
