(* ===== verification/Py_Float_Error.thy ===== *)
theory Py_Float_Error
  imports Py_Float
begin

text \<open>
  How far rounding moves a number: binary64 and the 28-digit \<open>Decimal\<close> context by a relative error and a tiny absolute one,
  and \<open>Decimal(str(x))\<close> by little more than the spacing of floats at \<open>x\<close>.
\<close>

lemma round_to_near:
  assumes "2 \<le> b"
  shows "\<bar>round_to b u q - q\<bar> \<le> pow_rat b u / 2"
proof -
  have pos: "0 < pow_rat b u" using assms by simp
  have "q = q * pow_rat b (- u) * pow_rat b u" using pos by (simp add: pow_rat_minus [OF assms])
  then have "\<bar>round_to b u q - q\<bar> = \<bar>of_int (round_half_even (q * pow_rat b (- u))) - q * pow_rat b (- u)\<bar> * pow_rat b u"
    using pos unfolding round_to_def by (metis abs_mult abs_of_pos left_diff_distrib)
  also have "\<dots> \<le> 1 / 2 * pow_rat b u"
    using round_half_even_nearest pos by (intro mult_right_mono) auto
  finally show ?thesis by simp
qed

lemma round_sig_near_pos:
  assumes "2 \<le> b" and "0 < q"
  shows "\<bar>round_sig b p k q - q\<bar> \<le> (q * pow_rat b (1 - p) + pow_rat b (k - p + 1)) / 2"
proof -
  let ?e = "max (exponent b q) k"
  have "0 < pow_rat b k" "pow_rat b (exponent b q) \<le> q" using exponent_bounds [OF assms] assms by simp_all
  moreover have "pow_rat b ?e = pow_rat b (exponent b q) \<or> pow_rat b ?e = pow_rat b k" by (simp add: max_def)
  ultimately have "pow_rat b ?e \<le> q + pow_rat b k" using assms(2) by linarith
  then have "pow_rat b ?e * pow_rat b (1 - p) \<le> (q + pow_rat b k) * pow_rat b (1 - p)"
    using assms by (intro mult_right_mono) (auto simp: less_imp_le)
  then have "pow_rat b (?e - p + 1) \<le> q * pow_rat b (1 - p) + pow_rat b (k - p + 1)"
    using pow_rat_add [OF assms(1), of ?e "1 - p"] pow_rat_add [OF assms(1), of k "1 - p"]
    by (simp add: algebra_simps)
  with round_to_near [OF assms(1), of "?e - p + 1" q] assms show ?thesis by (simp add: round_sig_def)
qed

lemma round_sig_near:
  assumes "2 \<le> b"
  shows "\<bar>round_sig b p k q - q\<bar> \<le> (\<bar>q\<bar> * pow_rat b (1 - p) + pow_rat b (k - p + 1)) / 2"
proof (cases q "0 :: rat" rule: linorder_cases)
  case less
  with round_sig_near_pos [OF assms, of "- q" p k] show ?thesis by (simp add: round_sig_minus abs_minus_commute)
qed (use round_sig_near_pos [OF assms] assms in \<open>simp_all add: less_imp_le\<close>)

lemma bin_round_near: "\<bar>bin_round q - q\<bar> \<le> \<bar>q\<bar> / 2 ^ 53 + 1 / 2 ^ 100"
proof -
  have "pow_rat 2 (- 1022 - 53 + 1) \<le> pow_rat 2 (- 100)" by (rule pow_rat_mono) simp_all
  then have tiny: "pow_rat 2 (- 1074) \<le> 1 / 2 ^ 100" by (simp add: pow_rat_def)
  have rel: "pow_rat 2 (- 52) = 1 / 2 ^ 52" by (simp add: pow_rat_def)
  have "pow_rat 2 (- 1074) > 0" by simp
  with round_sig_near [of 2 53 "- 1022" q] tiny show ?thesis unfolding bin_round_def by (simp add: rel field_simps)
qed

lemma dec_round_near: "\<bar>dec_round q - q\<bar> \<le> \<bar>q\<bar> / 10 ^ 27 + 1 / 10 ^ 100"
proof -
  have "pow_rat 10 (- 999999 - 28 + 1) \<le> pow_rat 10 (- 100)" by (rule pow_rat_mono) simp_all
  moreover have "pow_rat 10 (- 100) = 1 / 10 ^ 100" by (simp add: pow_rat_def)
  ultimately have tiny: "pow_rat 10 (- 1000026) \<le> 1 / 10 ^ 100" by simp
  have rel: "pow_rat 10 (- 27) = 1 / 10 ^ 27" by (simp add: pow_rat_def)
  have "\<bar>dec_round q - q\<bar> \<le> (\<bar>q\<bar> * pow_rat 10 (- 27) + pow_rat 10 (- 1000026)) / 2"
    using round_sig_near [of 10 28 "- 999999" q] by (simp add: dec_round_def)
  with tiny have "2 * \<bar>dec_round q - q\<bar> \<le> \<bar>q\<bar> / 10 ^ 27 + 1 / 10 ^ 100" by (simp add: rel)
  then show ?thesis by (rule order_trans [rotated]) simp
qed

lemma dec_round_mono: "x \<le> y \<Longrightarrow> dec_round x \<le> dec_round y"
  by (simp add: dec_round_def round_sig_mono)

lemma dec_round_0 [simp]: "dec_round 0 = 0"
  by (simp add: dec_round_def)

lemma shortest_decimal_source:
  assumes "0 < q"
  shows "shortest_decimal q ns = q \<or> 0 \<le> shortest_decimal q ns \<and> bin_round (shortest_decimal q ns) = q"
proof (induction ns)
  case (Cons n ns)
  have "0 \<le> c" if "c \<in> set (dec_candidates q n)" for c
  proof -
    let ?s = "pow_rat 10 (exponent 10 q - int n + 1)"
    have "0 \<le> ?s" by (simp add: less_imp_le)
    moreover have "0 \<le> rat_of_int \<lfloor>q / ?s\<rfloor>" using assms by (simp add: less_imp_le)
    moreover have "c = of_int \<lfloor>q / ?s\<rfloor> * ?s \<or> c = (of_int \<lfloor>q / ?s\<rfloor> + 1) * ?s"
      using that by (auto simp: dec_candidates_def Let_def split: if_splits)
    ultimately show ?thesis by (metis add_nonneg_nonneg mult_nonneg_nonneg zero_le_one)
  qed
  moreover have "bin_round c = q" if "c \<in> set (dec_candidates q n)" for c
    using dec_candidates_read_back [OF that] by (simp add: fl_of_rat_Fin_iff)
  ultimately show ?case using Cons closest_in [of "dec_candidates q n" q] by (auto simp: Let_def)
qed simp

lemma shortest_decimal_near:
  assumes "0 < q"
  shows "\<bar>shortest_decimal q ns - q\<bar> \<le> q / 2 ^ 52 + 1 / 2 ^ 99"
proof -
  let ?c = "shortest_decimal q ns"
  consider "?c = q" | "0 \<le> ?c" "\<bar>q - ?c\<bar> \<le> ?c / 2 ^ 53 + 1 / 2 ^ 100"
    using shortest_decimal_source [OF assms, of ns] bin_round_near [of ?c] by auto
  then show ?thesis
  proof cases
    case 2
    have "?c \<le> 2 * q + 1 / 2 ^ 98" using 2 unfolding abs_le_iff by simp
    then show ?thesis using 2(2) unfolding abs_le_iff by simp
  qed (use assms in simp)
qed

lemma dec_of_float_near: "\<bar>dec_of_float q - q\<bar> \<le> \<bar>q\<bar> / 2 ^ 52 + 1 / 2 ^ 99"
  using shortest_decimal_near [of q "[1..<18]"] shortest_decimal_near [of "- q" "[1..<18]"]
  by (auto simp: dec_of_float_def abs_minus_commute)

text \<open>The same as bounds on both sides, for a number whose size is known.\<close>

lemma near_bounds:
  fixes x :: rat
  assumes "\<bar>x - q\<bar> \<le> \<bar>q\<bar> / k + t" and "\<bar>q\<bar> \<le> c" and "0 < k"
  shows "x \<le> q + (c / k + t)" and "q - (c / k + t) \<le> x"
proof -
  have "\<bar>q\<bar> / k \<le> c / k" using assms by (simp add: divide_right_mono)
  with assms(1) show "x \<le> q + (c / k + t)" "q - (c / k + t) \<le> x" by linarith+
qed

lemmas bin_round_bounds = near_bounds [OF bin_round_near]
lemmas dec_round_bounds = near_bounds [OF dec_round_near]
lemmas dec_of_float_bounds = near_bounds [OF dec_of_float_near]

lemma dec_round_double: "1 / 2 < x \<Longrightarrow> dec_round x \<le> 2 * x"
  using dec_round_bounds(1) [of x x] by simp

lemma bin_round_1 [simp]: "bin_round 1 = 1"
  using representable_int [of 1] by (simp add: representable_def)

end
