(* ===== verification/Mt5_Sizing.thy ===== *)
theory Mt5_Sizing
  imports Mt5_Preflight Risk_Safety Py_Float_Error
begin

text \<open>
  \<open>MT5Adapter\<close> of \<open>live_runtime/mt5_adapter.py\<close>, the sizing quote: \<open>calculate_broker_sized_lot\<close> derives a lot from the
  risk the broker computes for one lot, then lowers it step by step until the broker's own figures for that very lot are
  inside the caps.

  The loop asks the broker anew in every turn, and its end depends on the broker's volume step. It is defined by
  \<open>partial_function\<close>, so that not returning is the value \<open>None\<close>: it always returns for a step of at least 1e-12
  (\<open>sizing_terminates\<close>), and need not below the resolution of floats (\<open>tiny_step_never_returns\<close>).
\<close>

section \<open>BrokerSizingQuote\<close>

record BrokerSizingQuote =
  sq_symbol :: string
  sq_broker_symbol :: string
  sq_evaluated_at_utc :: datetime
  sq_normalized_lot :: pyfloat
  sq_max_risk_cash :: pyfloat
  sq_actual_stop_risk_cash :: pyfloat
  sq_margin_cash :: pyfloat
  sq_status :: string
  sq_account_currency :: string
  sq_absolute_risk_cap_usd :: pyfloat
  sq_usd_to_account_currency_rate :: pyfloat
  sq_absolute_risk_cap_account_currency :: pyfloat
  sq_conversion_quote_sha256 :: string

definition finite_field :: "pyfloat \<Rightarrow> string \<Rightarrow> bool \<Rightarrow> exn option" where
  "finite_field x field positive = err_of (mt5_finite (JFloat x) field positive)"

lemma finite_field_ok [res_simps]: "finite_field x field positive = None \<longleftrightarrow> is_finite x \<and> (positive \<longrightarrow> \<not> fl_le x (Fin 0))"
  by (simp add: finite_field_def mt5_finite_def res_reraise_def)

definition sizing_cash_checks :: "BrokerSizingQuote \<Rightarrow> exn option list" where
  "sizing_cash_checks z =
     [finite_field (sq_normalized_lot z) ''normalized_lot'' False,
      finite_field (sq_max_risk_cash z) ''max_risk_cash'' False,
      finite_field (sq_actual_stop_risk_cash z) ''actual_stop_risk_cash'' False,
      finite_field (sq_margin_cash z) ''margin_cash'' False,
      raise_if (fl_lt (sq_normalized_lot z) (Fin 0) \<or> fl_lt GLOBAL_MAX_LOT (sq_normalized_lot z))
        (ValueError ''normalized_lot is outside the canary boundary''),
      raise_if (fl_lt (fl_min (fl_min (sq_max_risk_cash z) (sq_actual_stop_risk_cash z)) (sq_margin_cash z)) (Fin 0))
        (ValueError ''sizing cash values must be nonnegative''),
      raise_if (fl_lt (fl_add (sq_max_risk_cash z) cash_tolerance) (sq_actual_stop_risk_cash z))
        (ValueError ''sizing quote exceeds its cash risk cap''),
      raise_if (sq_status z \<notin> {''SIZED'', ''WAIT_MINIMUM_LOT_EXCEEDS_RISK_CAP''}) (ValueError ''unsupported sizing status'')]"

definition sizing_cap_checks :: "BrokerSizingQuote \<Rightarrow> exn option list" where
  "sizing_cap_checks z =
     [err_of (require_currency ''account_currency'' (sq_account_currency z)),
      finite_field (sq_absolute_risk_cap_usd z) ''absolute_risk_cap_usd'' True,
      finite_field (sq_usd_to_account_currency_rate z) ''usd_to_account_currency_rate'' True,
      finite_field (sq_absolute_risk_cap_account_currency z) ''absolute_risk_cap_account_currency'' True,
      raise_if (\<not> isclose_abs cash_tolerance (sq_absolute_risk_cap_account_currency z)
                  (fl_mul (sq_absolute_risk_cap_usd z) (sq_usd_to_account_currency_rate z)))
        (ValueError ''converted absolute risk cap is inconsistent''),
      raise_if (fl_lt (fl_add (sq_absolute_risk_cap_account_currency z) cash_tolerance) (sq_max_risk_cash z))
        (ValueError ''max_risk_cash exceeds the converted absolute cap''),
      err_of (require_hash ''conversion_quote_sha256'' (sq_conversion_quote_sha256 z) 64)]"

definition BrokerSizingQuote_init :: "BrokerSizingQuote \<Rightarrow> BrokerSizingQuote res" where
  "BrokerSizingQuote_init z =
     checked (err_of (require_utc ''evaluated_at_utc'' (sq_evaluated_at_utc z)) # sizing_cash_checks z @ sizing_cap_checks z)
       (z\<lparr>sq_account_currency := norm_text True (sq_account_currency z),
          sq_conversion_quote_sha256 := norm_hash (sq_conversion_quote_sha256 z)\<rparr>)"

section \<open>The request\<close>

record sizing_request =
  sr_canonical_symbol :: string
  sr_broker_symbol :: string
  sr_side :: string
  sr_entry_price :: pyfloat
  sr_stop_loss :: pyfloat
  sr_equity :: pyfloat
  sr_allowed_slippage_points :: int
  sr_usd_risk_cap_conversion :: "USDRiskCapConversion option"
  sr_now :: "datetime option"

definition sizing_side :: "sizing_request \<Rightarrow> string" where
  "sizing_side q = str_upper (str_strip (sr_side q))"

definition sizing_input_checks :: "sizing_request \<Rightarrow> exn option list" where
  "sizing_input_checks q =
     [raise_if (sizing_side q \<notin> {''BUY'', ''SELL''}) (ValueError ''side must be BUY or SELL''),
      raise_if (sr_allowed_slippage_points q < 0) (ValueError ''allowed_slippage_points must be a nonnegative integer''),
      finite_field (sr_entry_price q) ''entry_price'' True,
      finite_field (sr_stop_loss q) ''stop_loss'' True,
      finite_field (sr_equity q) ''equity'' True,
      raise_if (sizing_side q = ''BUY'' \<and> fl_le (sr_entry_price q) (sr_stop_loss q)
                \<or> sizing_side q = ''SELL'' \<and> fl_le (sr_stop_loss q) (sr_entry_price q))
        (ValueError ''stop geometry does not match side'')]"

text \<open>The rate and the digest of the conversion; only an account in USD does without one.\<close>

definition sizing_conversion_checks ::
  "MT5Adapter \<Rightarrow> BrokerSpec \<Rightarrow> string \<Rightarrow> USDRiskCapConversion \<Rightarrow> datetime \<Rightarrow> exn option list" where
  "sizing_conversion_checks a spec currency conv now =
     (let age = total_seconds (dt_sub now (uc_captured_at_utc conv));
          pair = (if uc_direction conv = ''DIRECT'' then ''USD'' @ currency else currency @ ''USD'') in
      [raise_if (uc_account_id conv \<noteq> bs_account_id spec \<or> uc_server conv \<noteq> bs_server spec)
         (MT5AdapterError ''USD risk-cap conversion account or server mismatch''),
       raise_if (uc_account_currency conv \<noteq> currency) (MT5AdapterError ''USD risk-cap conversion account currency mismatch''),
       raise_if (fl_lt age (Fin 0) \<or> fl_lt MAX_RISK_CONVERSION_AGE_SECONDS age)
         (MT5AdapterError ''USD risk-cap conversion is stale or future-dated''),
       raise_if (currency = ''USD'' \<and> \<not> (uc_source conv = ''ACCOUNT_CURRENCY_IDENTITY'' \<and> uc_direction conv = ''IDENTITY''
                   \<and> fl_eq (uc_account_currency_per_usd conv) (Fin 1)))
         (MT5AdapterError ''USD account conversion is not identity''),
       raise_if (currency \<noteq> ''USD'' \<and> \<not> (uc_source conv = ''MT5_BID_ASK'' \<and> uc_direction conv \<in> {''DIRECT'', ''INVERSE''}))
         (MT5AdapterError ''non-USD conversion source is invalid''),
       raise_if (currency \<noteq> ''USD'' \<and> map_of (ad_usd_account_currency_symbols a) pair \<noteq> Some (uc_broker_symbol conv))
         (MT5AdapterError ''USD risk-cap conversion symbol binding mismatch'')])"

definition sizing_conversion ::
  "MT5Adapter \<Rightarrow> BrokerSpec \<Rightarrow> USDRiskCapConversion option \<Rightarrow> datetime \<Rightarrow> (pyfloat \<times> string) res" where
  "sizing_conversion a spec supplied now =
     (let currency = str_upper (str_strip (bs_account_currency spec)) in
      case supplied of
        None \<Rightarrow> if currency = ''USD'' then Inr (Fin 1, IDENTITY_CONVERSION_SHA256)
                else Inl (MT5AdapterError ''a sealed USD risk-cap conversion is required for non-USD sizing'')
      | Some conv \<Rightarrow> checked (sizing_conversion_checks a spec currency conv now)
                       (uc_account_currency_per_usd conv, USDRiskCapConversion_content_sha256 conv))"

section \<open>The first lot\<close>

definition sizing_limit :: "BrokerSpec \<Rightarrow> pyfloat \<Rightarrow> pyfloat \<Rightarrow> pyfloat \<Rightarrow> pyfloat res" where
  "sizing_limit spec equity max_risk one_lot_risk =
     res_bind (fl_div max_risk one_lot_risk) (\<lambda>by_risk.
     res_bind (fl_div (fl_mul MAX_MARGIN_FRACTION equity) (bs_margin_per_lot spec)) (\<lambda>by_margin.
       Inr (fl_min (fl_min (fl_min GLOBAL_MAX_LOT (bs_volume_max spec)) by_risk) by_margin)))"

text \<open>\<open>Decimal(str(limit))\<close> floored to the broker's volume grid.\<close>

definition first_lot :: "BrokerSpec \<Rightarrow> pyfloat \<Rightarrow> pyfloat res" where
  "first_lot spec limit =
     (let minimum_d = dec_str (bs_volume_min spec); step_d = dec_str (bs_volume_step spec) in
      case limit of
        NaN \<Rightarrow> Inl (DecimalInvalidOperation ''comparison involving NaN'')
      | NInf \<Rightarrow> Inr (Fin 0)
      | PInf \<Rightarrow> Inr PInf
      | Fin q \<Rightarrow>
          if dec_of_float q < minimum_d then Inr (Fin 0)
          else if step_d = 0 then Inl (ZeroDivisionError ''decimal division by zero'')
          else Inr (fl_of_rat (volume_grid (dec_of_float q) minimum_d step_d)))"

section \<open>The loop\<close>

text \<open>What the loop reads and does not change.\<close>

record sizing_frame =
  zf_order_type :: int
  zf_broker_symbol :: string
  zf_adverse_entry :: pyfloat
  zf_stop :: pyfloat
  zf_equity :: pyfloat
  zf_max_risk :: pyfloat
  zf_volume_min :: pyfloat
  zf_volume_step :: pyfloat

fun smaller_lot :: "pyfloat \<Rightarrow> pyfloat \<Rightarrow> pyfloat" where
  "smaller_lot (Fin q) step = fl_of_rat (dec_round (dec_of_float q - dec_str step))"
| "smaller_lot lot step = lot"

definition lot_large_enough :: "sizing_frame \<Rightarrow> pyfloat \<Rightarrow> bool" where
  "lot_large_enough z lot = fl_le (fl_sub (zf_volume_min z) cash_tolerance) lot"

definition sizing_figures :: "'s mt5 \<Rightarrow> sizing_frame \<Rightarrow> pyfloat \<Rightarrow> ('s, pyfloat \<times> pyfloat) act" where
  "sizing_figures m z lot =
     act_bind (m5_order_calc_profit m (zf_order_type z) (zf_broker_symbol z) lot (zf_adverse_entry z) (zf_stop z)) (\<lambda>profit.
     act_bind (act_lift (mt5_finite profit ''order_calc_profit'' False)) (\<lambda>actual_risk.
     act_bind (m5_order_calc_margin m (zf_order_type z) (zf_broker_symbol z) lot (zf_adverse_entry z)) (\<lambda>margin_value.
     act_bind (act_lift (mt5_finite margin_value ''order_calc_margin'' True)) (\<lambda>margin.
     act_return (fl_abs actual_risk, margin)))))"

definition within_caps :: "sizing_frame \<Rightarrow> pyfloat \<Rightarrow> pyfloat \<Rightarrow> bool" where
  "within_caps z actual_risk margin =
     (fl_le actual_risk (fl_add (zf_max_risk z) cash_tolerance)
      \<and> fl_le margin (fl_add (fl_mul MAX_MARGIN_FRACTION (zf_equity z)) cash_tolerance))"

partial_function (option) sizing_loop ::
  "'s mt5 \<Rightarrow> sizing_frame \<Rightarrow> pyfloat \<Rightarrow> pyfloat \<Rightarrow> pyfloat \<Rightarrow> 's \<Rightarrow> ((pyfloat \<times> pyfloat \<times> pyfloat) res \<times> 's) option" where
  "sizing_loop m z lot actual_risk margin s =
     (if \<not> lot_large_enough z lot then Some (Inr (lot, actual_risk, margin), s)
      else case sizing_figures m z lot s of
             (Inl e, s1) \<Rightarrow> Some (Inl e, s1)
           | (Inr (actual_risk', margin'), s1) \<Rightarrow>
               if within_caps z actual_risk' margin' then Some (Inr (lot, actual_risk', margin'), s1)
               else sizing_loop m z (smaller_lot lot (zf_volume_step z)) actual_risk' margin' s1)"

section \<open>\<open>calculate_broker_sized_lot\<close>\<close>

record sizing_start =
  zs_now :: datetime
  zs_account_currency :: string
  zs_conversion_rate :: pyfloat
  zs_conversion_sha256 :: string
  zs_cap_usd :: pyfloat
  zs_frame :: sizing_frame
  zs_lot :: pyfloat

text \<open>Everything in front of the loop.\<close>

definition sizing_setup :: "'s mt5 \<Rightarrow> MT5Adapter \<Rightarrow> sizing_request \<Rightarrow> ('s, sizing_start) act" where
  "sizing_setup m a q =
     act_bind (require_initialized m a) (\<lambda>_.
     act_bind (adapter_now m (sr_now q)) (\<lambda>now.
     act_bind (act_require (sizing_input_checks q)) (\<lambda>_.
     act_bind (get_broker_spec m a (sr_canonical_symbol q) (sr_broker_symbol q) (Some now)) (\<lambda>spec.
     act_bind (act_lift (sizing_conversion a spec (sr_usd_risk_cap_conversion q) now)) (\<lambda>(rate, sha256).
     act_bind (order_type_of m (sizing_side q)) (\<lambda>order_type.
     act_bind (act_require [err_of (py_float (JInt (sr_allowed_slippage_points q)))]) (\<lambda>_.
     let adverse = adverse_price (sizing_side q) (sr_entry_price q) (sr_allowed_slippage_points q) (bs_point spec) in
     act_bind (m5_order_calc_profit m order_type (sr_broker_symbol q) (Fin 1) adverse (sr_stop_loss q)) (\<lambda>value.
     act_bind (act_lift (mt5_finite value ''order_calc_profit'' False)) (\<lambda>one_lot.
     act_bind (act_require [raise_if (fl_le (fl_abs one_lot) (Fin 0)) (MT5AdapterError ''broker returned zero stop risk'')]) (\<lambda>_.
     act_bind (act_lift (absolute_risk_cap_usd (sr_canonical_symbol q))) (\<lambda>cap_usd.
     let max_risk = fl_min (fl_mul RISK_PERCENT_CAP (sr_equity q)) (fl_mul cap_usd rate) in
     act_bind (act_lift (sizing_limit spec (sr_equity q) max_risk (fl_abs one_lot))) (\<lambda>limit.
     act_bind (act_lift (first_lot spec limit)) (\<lambda>lot.
     act_return
       \<lparr>zs_now = now, zs_account_currency = str_upper (str_strip (bs_account_currency spec)), zs_conversion_rate = rate,
        zs_conversion_sha256 = sha256, zs_cap_usd = cap_usd,
        zs_frame = \<lparr>zf_order_type = order_type, zf_broker_symbol = sr_broker_symbol q, zf_adverse_entry = adverse,
                    zf_stop = sr_stop_loss q, zf_equity = sr_equity q, zf_max_risk = max_risk,
                    zf_volume_min = bs_volume_min spec, zf_volume_step = bs_volume_step spec\<rparr>,
        zs_lot = lot\<rparr>)))))))))))))"

definition sizing_quote :: "sizing_request \<Rightarrow> sizing_start \<Rightarrow> pyfloat \<times> pyfloat \<times> pyfloat \<Rightarrow> BrokerSizingQuote res" where
  "sizing_quote q z figures =
     (let (lot, actual_risk, margin) =
        (if fl_lt (fst figures) (fl_sub (zf_volume_min (zs_frame z)) cash_tolerance) then (Fin 0, Fin 0, Fin 0) else figures) in
      BrokerSizingQuote_init
        \<lparr>sq_symbol = str_upper (sr_canonical_symbol q), sq_broker_symbol = sr_broker_symbol q, sq_evaluated_at_utc = zs_now z,
         sq_normalized_lot = lot, sq_max_risk_cash = zf_max_risk (zs_frame z), sq_actual_stop_risk_cash = actual_risk,
         sq_margin_cash = margin,
         sq_status = (if fl_lt (Fin 0) lot then ''SIZED'' else ''WAIT_MINIMUM_LOT_EXCEEDS_RISK_CAP''),
         sq_account_currency = zs_account_currency z, sq_absolute_risk_cap_usd = zs_cap_usd z,
         sq_usd_to_account_currency_rate = zs_conversion_rate z,
         sq_absolute_risk_cap_account_currency = fl_mul (zs_cap_usd z) (zs_conversion_rate z),
         sq_conversion_quote_sha256 = zs_conversion_sha256 z\<rparr>)"

definition calculate_broker_sized_lot ::
  "'s mt5 \<Rightarrow> MT5Adapter \<Rightarrow> sizing_request \<Rightarrow> 's \<Rightarrow> (BrokerSizingQuote res \<times> 's) option" where
  "calculate_broker_sized_lot m a q s =
     (case sizing_setup m a q s of
        (Inl e, s1) \<Rightarrow> Some (Inl e, s1)
      | (Inr z, s1) \<Rightarrow>
          (case sizing_loop m (zs_frame z) (zs_lot z) (Fin 0) (Fin 0) s1 of
             None \<Rightarrow> None
           | Some (Inl e, s2) \<Rightarrow> Some (Inl e, s2)
           | Some (Inr figures, s2) \<Rightarrow> Some (sizing_quote q z figures, s2)))"

section \<open>The loop returns\<close>

text \<open>One turn takes at least half a volume step off the lot.\<close>

lemma smaller_lot_rounds:
  assumes "\<bar>q\<bar> \<le> 1" and "1 / 10 ^ 12 \<le> v"
  shows "bin_round (dec_round (dec_of_float q - dec_of_float v)) \<le> q - min v 1 / 2"
proof -
  define u where "u = min v 1"
  have u: "1 / 10 ^ 12 \<le> u" "u \<le> 1" "u \<le> v" using assms(2) by (simp_all add: u_def)
  define d where "d = q - u + 1 / 2 ^ 50"
  have "dec_of_float q \<le> q + 1 / 2 ^ 52 + 1 / 2 ^ 99"
    using dec_of_float_bounds(1) [OF assms(1)] by simp
  moreover have "v - v / 2 ^ 52 - 1 / 2 ^ 99 \<le> dec_of_float v"
    using dec_of_float_bounds(2) [of v v] assms(2) by simp
  ultimately have "dec_of_float q - dec_of_float v \<le> d" using u unfolding d_def by simp
  then have "dec_round (dec_of_float q - dec_of_float v) \<le> dec_round d" by (rule dec_round_mono)
  also have d: "\<bar>d\<bar> \<le> 3" using assms(1) u unfolding d_def abs_le_iff by simp
  have "dec_round d \<le> d + 1 / 2 ^ 50"
    using dec_round_bounds(1) [OF d] by simp
  finally have "bin_round (dec_round (dec_of_float q - dec_of_float v)) \<le> bin_round (d + 1 / 2 ^ 50)"
    by (rule bin_round_mono)
  also have "\<bar>d + 1 / 2 ^ 50\<bar> \<le> 4" using d unfolding abs_le_iff by simp
  then have "bin_round (d + 1 / 2 ^ 50) \<le> d + 1 / 2 ^ 49"
    using bin_round_bounds(1) [of "d + 1 / 2 ^ 50" 4] by simp
  also have "\<dots> \<le> q - u / 2" using u unfolding d_def by simp
  finally show ?thesis by (simp add: u_def)
qed

lemma fl_of_rat_at_most:
  assumes "bin_round q \<le> c" and "c < fl_overflow"
  shows "fl_le (fl_of_rat q) (Fin c)"
  using assms by (auto simp: fl_of_rat_def Let_def fl_le_def)

lemma fl_of_rat_at_least:
  assumes "representable c" and "c \<le> q"
  shows "fl_le (Fin c) (fl_of_rat q)"
proof -
  have "c \<le> bin_round q" "\<bar>c\<bar> < fl_overflow"
    using bin_round_mono [OF assms(2)] assms(1) by (simp_all add: representable_def)
  then show ?thesis by (auto simp: fl_of_rat_def Let_def fl_le_def)
qed

lemma fl_le_Fin_cases:
  assumes "fl_le x (Fin c)"
  obtains "x = NInf" | q where "x = Fin q" and "q \<le> c"
  using assms by (cases x) (auto simp: fl_le_def)

lemma small_no_overflow: "c \<le> 1 \<Longrightarrow> c < fl_overflow"
  unfolding fl_overflow_def by (rule le_less_trans [of c 1]) (simp_all add: one_less_power)

lemma smaller_lot_at_most:
  assumes "\<bar>q\<bar> \<le> 1" and "1 / 10 ^ 12 \<le> fl_value step"
  shows "fl_le (smaller_lot (Fin q) step) (Fin (q - min (fl_value step) 1 / 2))"
  using smaller_lot_rounds [OF assms] assms
  by (auto intro!: fl_of_rat_at_most small_no_overflow simp: dec_str_def min_def)

text \<open>A number of at most one is rounded to a float of at most one.\<close>

lemma fl_of_rat_unit: "0 \<le> q \<Longrightarrow> q \<le> 1 \<Longrightarrow> fl_of_rat q = Fin (bin_round q) \<and> 0 \<le> bin_round q \<and> bin_round q \<le> 1"
  using bin_round_mono [of 0 q] bin_round_mono [of q 1] small_no_overflow [of "bin_round q"] by (auto simp: fl_of_rat_Fin_iff)

lemma fl_of_rat_not_NaN [simp]: "fl_of_rat q \<noteq> NaN"
  by (simp add: fl_of_rat_def Let_def)

lemma fl_min_le: "x \<noteq> NaN \<Longrightarrow> fl_le (fl_min x y) x"
  by (cases x; cases y) (auto simp: fl_min_def fl_le_def)

lemma large_enough_bound:
  assumes "zf_volume_min z = Fin a" and "0 < a" and "lot_large_enough z (Fin q)"
  shows "- 1 \<le> q"
proof -
  have tol: "cash_tolerance = Fin (bin_round (1 / 10 ^ 12))" "bin_round (1 / 10 ^ 12) \<le> 1"
    using fl_of_rat_unit [of "1 / 10 ^ 12"] by (auto simp: cash_tolerance_def)
  let ?d = "a - bin_round (1 / 10 ^ 12)"
  have "- 1 \<le> ?d" using assms(2) tol(2) by linarith
  then have "- 1 \<le> bin_round ?d" using bin_round_mono [of "- 1" ?d] bin_round_minus [of 1] by simp
  moreover have "fl_le (fl_of_rat ?d) (Fin q)"
    using assms(1,3) by (simp add: lot_large_enough_def tol(1))
  ultimately show ?thesis
    by (auto simp: fl_of_rat_def Let_def fl_le_def fl_overflow_def split: if_splits)
qed

lemma NInf_not_large_enough:
  assumes "zf_volume_min z = Fin a" and "0 < a"
  shows "\<not> lot_large_enough z NInf"
proof
  assume "lot_large_enough z NInf"
  then have "lot_large_enough z (Fin (- 2))"
    unfolding lot_large_enough_def by (cases "fl_sub (zf_volume_min z) cash_tolerance") (auto simp: fl_le_def)
  then show False using large_enough_bound [OF assms] by fastforce
qed

lemma sizing_loop_returns_within:
  assumes "zf_volume_min z = Fin a" and "0 < a" and step: "1 / 10 ^ 12 \<le> fl_value (zf_volume_step z)"
    and "q \<le> 1" and "q + 1 < of_nat n * (min (fl_value (zf_volume_step z)) 1 / 2)"
  shows "\<exists>r. sizing_loop m z (Fin q) actual_risk margin s = Some r"
  using assms(4,5)
proof (induction n arbitrary: q actual_risk margin s)
  case 0
  then have "\<not> lot_large_enough z (Fin q)" using large_enough_bound [OF assms(1,2)] by fastforce
  then show ?case by (simp add: sizing_loop.simps)
next
  case (Suc n)
  let ?d = "min (fl_value (zf_volume_step z)) 1 / 2" and ?next = "smaller_lot (Fin q) (zf_volume_step z)"
  show ?case
  proof (cases "lot_large_enough z (Fin q)")
    case True
    then have "\<bar>q\<bar> \<le> 1" using large_enough_bound [OF assms(1,2) True] Suc.prems(1) by simp
    then have "fl_le ?next (Fin (q - ?d))" by (rule smaller_lot_at_most [OF _ step])
    then have "\<exists>r. sizing_loop m z ?next x y t = Some r" for x y t
    proof (cases rule: fl_le_Fin_cases)
      case 1
      then show ?thesis using NInf_not_large_enough [OF assms(1,2)] by (simp add: sizing_loop.simps)
    next
      case (2 r)
      have "0 < ?d" using step by simp
      with 2 Suc.prems have "r \<le> 1" "r + 1 < of_nat n * ?d" by (simp_all add: algebra_simps)
      then show ?thesis unfolding 2(1) by (rule Suc.IH)
    qed
    with True show ?thesis by (auto simp: sizing_loop.simps [of m z "Fin q"] split: prod.split sum.split)
  qed (simp add: sizing_loop.simps)
qed

lemma sizing_loop_returns:
  assumes "zf_volume_min z = Fin a" and "0 < a" and "1 / 10 ^ 12 \<le> fl_value (zf_volume_step z)" and "fl_le lot (Fin 1)"
  shows "\<exists>r. sizing_loop m z lot actual_risk margin s = Some r"
  using assms(4)
proof (cases rule: fl_le_Fin_cases)
  case 1
  then show ?thesis using NInf_not_large_enough [OF assms(1,2)] by (simp add: sizing_loop.simps)
next
  case (2 q)
  have "0 < min (fl_value (zf_volume_step z)) 1 / 2" using assms(3) by simp
  then obtain n where "q + 1 < of_nat n * (min (fl_value (zf_volume_step z)) 1 / 2)"
    using reals_Archimedean3 ex_less_of_nat_mult by blast
  then show ?thesis unfolding 2(1) by (rule sizing_loop_returns_within [OF assms(1-3) 2(2)])
qed

section \<open>The first lot is small\<close>

lemma fl_min_at_most: "fl_le x (Fin c) \<Longrightarrow> fl_le (fl_min x y) (Fin c)"
  by (cases x; cases y) (auto simp: fl_min_def fl_le_def)

lemma sizing_limit_at_most: "sizing_limit spec equity max_risk one = Inr limit \<Longrightarrow> fl_le limit GLOBAL_MAX_LOT"
  by (auto simp: sizing_limit_def res_simps GLOBAL_MAX_LOT_def fl_001 intro!: fl_min_at_most)

lemma volume_grid_small:
  assumes "0 \<le> minimum" and "minimum \<le> limit" and "limit \<le> 1 / 50" and "0 < step"
  shows "volume_grid limit minimum step \<le> 1 / 2"
proof -
  define room where "room = dec_round (limit - minimum)"
  have "room \<le> 1 / 25"
    using dec_round_mono [of "limit - minimum" "1 / 50"] dec_round_bounds(1) [of "1 / 50" 1] assms
    unfolding room_def by simp
  define n where "n = \<lfloor>dec_round (room / step)\<rfloor>"
  have "of_int n * step \<le> 1 / 5"
  proof (cases "room / step \<le> 1 / 2")
    case True
    then have "dec_round (room / step) < 1"
      using dec_round_mono [OF True] dec_round_bounds(1) [of "1 / 2" 1] by simp
    then have "n \<le> 0" unfolding n_def by linarith
    then have "of_int n * step \<le> 0" using assms(4) by (simp add: mult_nonpos_nonneg)
    then show ?thesis by simp
  next
    case False
    then have "dec_round (room / step) \<le> 2 * (room / step)" by (intro dec_round_double) simp
    then have "of_int n \<le> 2 * (room / step)" unfolding n_def by linarith
    then have "of_int n * step \<le> 2 * room" using assms(4) by (simp add: field_simps)
    with \<open>room \<le> 1 / 25\<close> show ?thesis by simp
  qed
  then have "dec_round (of_int n * step) \<le> 1 / 4"
    using dec_round_mono [of "of_int n * step" "1 / 5"] dec_round_bounds(1) [of "1 / 5" 1] by simp
  then have "minimum + dec_round (of_int n * step) \<le> 3 / 10" using assms by simp
  then show ?thesis
    using dec_round_mono [of "minimum + dec_round (of_int n * step)" "3 / 10"] dec_round_bounds(1) [of "3 / 10" 1]
    unfolding volume_grid_def Let_def room_def [symmetric] n_def [symmetric] by simp
qed

lemma first_lot_at_most:
  assumes "first_lot spec limit = Inr lot" and "fl_le limit GLOBAL_MAX_LOT"
    and "bs_volume_min spec = Fin a" and "0 < a" and "0 < dec_str (bs_volume_step spec)"
  shows "fl_le lot (Fin 1)"
  using assms(2) [unfolded GLOBAL_MAX_LOT_def fl_001]
proof (cases rule: fl_le_Fin_cases)
  case (2 q)
  let ?min = "dec_str (bs_volume_min spec)"
  have "0 \<le> ?min"
    using shortest_decimal_source [OF assms(4), of "[1..<18]"] assms(4) by (auto simp: dec_str_def assms(3) dec_of_float_def)
  show ?thesis
  proof (cases "dec_of_float q < ?min")
    case False
    have "q \<le> 1 / 99" using 2(2) by simp
    have "dec_of_float q \<le> 1 / 50"
    proof (cases "q \<le> 0")
      case True
      then show ?thesis using shortest_decimal_source [of "- q" "[1..<18]"] by (auto simp: dec_of_float_def)
    next
      case pos: False
      then show ?thesis using dec_of_float_bounds(1) [of q 1] \<open>q \<le> 1 / 99\<close> by simp
    qed
    then have "volume_grid (dec_of_float q) ?min (dec_str (bs_volume_step spec)) \<le> 1 / 2"
      using False \<open>0 \<le> ?min\<close> assms(5) by (intro volume_grid_small) auto
    then have "bin_round (volume_grid (dec_of_float q) ?min (dec_str (bs_volume_step spec))) \<le> 1"
      using bin_round_mono [of "volume_grid (dec_of_float q) ?min (dec_str (bs_volume_step spec))" 1] by simp
    then have "fl_le (fl_of_rat (volume_grid (dec_of_float q) ?min (dec_str (bs_volume_step spec)))) (Fin 1)"
      by (rule fl_of_rat_at_most [OF _ small_no_overflow]) simp
    then show ?thesis using assms(1,5) False 2(1) by (simp add: first_lot_def Let_def)
  qed (use assms(1) 2(1) in \<open>auto simp: first_lot_def Let_def\<close>)
qed (use assms(1) in \<open>auto simp: first_lot_def Let_def\<close>)

section \<open>The quote\<close>

lemma get_broker_spec_volumes:
  assumes "get_broker_spec m a x y t s = (Inr spec, s1)"
  obtains low step where "bs_volume_min spec = Fin low" and "0 < low" and "bs_volume_step spec = Fin step" and "0 < step"
proof -
  obtain b where "BrokerSpec_init b = Inr spec"
    using assms by (auto simp: get_broker_spec_def broker_spec_of_def act_bind_Inr act_lift_def res_simps Let_def)
  then have "is_finite (bs_volume_min spec)" "\<not> fl_le (bs_volume_min spec) (Fin 0)"
    "is_finite (bs_volume_step spec)" "\<not> fl_le (bs_volume_step spec) (Fin 0)"
    by (auto simp: BrokerSpec_init_def Let_def res_simps simp del: require_finite.simps)
  then show ?thesis using that by (cases "bs_volume_min spec"; cases "bs_volume_step spec") simp_all
qed

lemma sizing_setup_spec:
  assumes "sizing_setup m a q s = (Inr z, s1)"
  obtains now s2 spec s3 limit where
    "get_broker_spec m a (sr_canonical_symbol q) (sr_broker_symbol q) (Some now) s2 = (Inr spec, s3)"
    and "zf_volume_min (zs_frame z) = bs_volume_min spec" and "zf_volume_step (zs_frame z) = bs_volume_step spec"
    and "fl_le limit GLOBAL_MAX_LOT" and "first_lot spec limit = Inr (zs_lot z)"
  using assms
  by (auto simp: sizing_setup_def act_bind_Inr act_lift_def act_return_def Let_def dest!: sizing_limit_at_most)

text \<open>
  (C28) Whatever the broker answers, also when its answers change from call to call, the sizing of a lot
  returns a quote or raises, provided the volume step of the specification it reads is at least 1e-12.
\<close>

theorem sizing_terminates:
  assumes "\<And>now s1 spec s2. get_broker_spec m a (sr_canonical_symbol q) (sr_broker_symbol q) now s1 = (Inr spec, s2)
      \<Longrightarrow> 1 / 10 ^ 12 \<le> fl_value (bs_volume_step spec)"
  shows "\<exists>r s'. calculate_broker_sized_lot m a q s = Some (r, s')"
proof (cases "sizing_setup m a q s")
  case (Pair r s1)
  show ?thesis
  proof (cases r)
    case (Inr z)
    from Pair Inr obtain now s2 spec s3 limit where
      spec: "get_broker_spec m a (sr_canonical_symbol q) (sr_broker_symbol q) (Some now) s2 = (Inr spec, s3)"
      and frame: "zf_volume_min (zs_frame z) = bs_volume_min spec" "zf_volume_step (zs_frame z) = bs_volume_step spec"
      and lot: "fl_le limit GLOBAL_MAX_LOT" "first_lot spec limit = Inr (zs_lot z)"
      by (auto elim: sizing_setup_spec)
    from spec obtain low step where vol: "bs_volume_min spec = Fin low" "0 < low" "bs_volume_step spec = Fin step" "0 < step"
      by (rule get_broker_spec_volumes)
    have large: "1 / 10 ^ 12 \<le> fl_value (bs_volume_step spec)" using assms [OF spec] .
    have "0 < dec_str (bs_volume_step spec)"
      using dec_of_float_bounds(2) [of step step] large by (simp add: dec_str_def vol)
    then have "fl_le (zs_lot z) (Fin 1)" by (rule first_lot_at_most [OF lot(2,1) vol(1,2)])
    then obtain out where "sizing_loop m (zs_frame z) (zs_lot z) (Fin 0) (Fin 0) s1 = Some out"
      using sizing_loop_returns [of "zs_frame z" low "zs_lot z" m "Fin 0" "Fin 0" s1] frame vol large by auto
    then show ?thesis by (auto simp: calculate_broker_sized_lot_def Pair Inr split: prod.split sum.split)
  qed (simp add: calculate_broker_sized_lot_def Pair)
qed

text \<open>A lot the loop settles on was accepted on the broker's figures for that lot.\<close>

definition settled :: "'s mt5 \<Rightarrow> sizing_frame \<Rightarrow> (pyfloat \<times> pyfloat \<times> pyfloat) res \<times> 's \<Rightarrow> bool" where
  "settled m z out =
     (\<forall>l actual_risk margin. fst out = Inr (l, actual_risk, margin) \<longrightarrow> \<not> lot_large_enough z l
        \<or> (\<exists>s1. sizing_figures m z l s1 = (Inr (actual_risk, margin), snd out) \<and> within_caps z actual_risk margin))"

lemma settledI:
  "settled m z (Inl e, s)"
  "\<not> lot_large_enough z lot \<Longrightarrow> settled m z (Inr (lot, x, y), s)"
  "sizing_figures m z lot t = (Inr (x, y), s) \<Longrightarrow> within_caps z x y \<Longrightarrow> settled m z (Inr (lot, x, y), s)"
  by (auto simp: settled_def)

lemma sizing_loop_settled:
  fixes m :: "'s mt5"
  assumes "sizing_loop m z lot x y s = Some out"
  shows "settled m z out"
proof (rule sizing_loop.raw_induct [where P = "\<lambda>m z lot x y s out. settled m z out", OF _ assms])
  fix f :: "'s mt5 \<Rightarrow> sizing_frame \<Rightarrow> pyfloat \<Rightarrow> pyfloat \<Rightarrow> pyfloat \<Rightarrow> 's \<Rightarrow> ((pyfloat \<times> pyfloat \<times> pyfloat) res \<times> 's) option"
    and m z lot x y s out
  assume IH: "\<And>m z lot x y s out. f m z lot x y s = Some out \<Longrightarrow> settled m z out"
    and eq: "(if \<not> lot_large_enough z lot then Some (Inr (lot, x, y), s)
      else case sizing_figures m z lot s of
             (Inl e, s1) \<Rightarrow> Some (Inl e, s1)
           | (Inr (actual_risk', margin'), s1) \<Rightarrow>
               if within_caps z actual_risk' margin' then Some (Inr (lot, actual_risk', margin'), s1)
               else f m z (smaller_lot lot (zf_volume_step z)) actual_risk' margin' s1) = Some out"
  show "settled m z out"
    using eq by (cases "sizing_figures m z lot s") (auto intro: settledI IH split: if_splits sum.splits)
qed

lemma sizing_setup_frame:
  assumes "sizing_setup m a q s = (Inr z, s1)"
  shows "zf_broker_symbol (zs_frame z) = sr_broker_symbol q" and "zf_stop (zs_frame z) = sr_stop_loss q"
    and "zf_equity (zs_frame z) = sr_equity q"
    and "fl_le (zf_max_risk (zs_frame z)) (fl_mul RISK_PERCENT_CAP (sr_equity q))"
proof -
  obtain cap where max: "zf_max_risk (zs_frame z) = fl_min (fl_mul RISK_PERCENT_CAP (sr_equity q)) cap"
    and frame: "zf_broker_symbol (zs_frame z) = sr_broker_symbol q" "zf_stop (zs_frame z) = sr_stop_loss q"
      "zf_equity (zs_frame z) = sr_equity q"
    and checks: "is_finite (sr_equity q)"
    using assms
    by (auto simp: sizing_setup_def sizing_input_checks_def act_require_def act_bind_Inr act_lift_def
        act_return_def Let_def res_simps)
  obtain e where "sr_equity q = Fin e" using checks by (cases "sr_equity q") auto
  then show "fl_le (zf_max_risk (zs_frame z)) (fl_mul RISK_PERCENT_CAP (sr_equity q))"
    using fl_of_rat_unit [of "25 / 10000"] by (auto simp: max RISK_PERCENT_CAP_def intro!: fl_min_le)
  show "zf_broker_symbol (zs_frame z) = sr_broker_symbol q" "zf_stop (zs_frame z) = sr_stop_loss q"
    "zf_equity (zs_frame z) = sr_equity q" by (fact frame)+
qed

lemma sizing_quote_fields:
  assumes "sizing_quote q z figures = Inr w" and "zf_volume_min (zs_frame z) = Fin low"
  shows "fl_le (Fin 0) (sq_normalized_lot w)" and "fl_le (sq_normalized_lot w) GLOBAL_MAX_LOT"
    and "sq_status w = ''SIZED'' \<longleftrightarrow> fl_lt (Fin 0) (sq_normalized_lot w)"
    and "sq_max_risk_cash w = zf_max_risk (zs_frame z)"
    and "fl_lt (Fin 0) (sq_normalized_lot w) \<Longrightarrow> lot_large_enough (zs_frame z) (sq_normalized_lot w)
      \<and> figures = (sq_normalized_lot w, sq_actual_stop_risk_cash w, sq_margin_cash w)"
proof -
  obtain lot x y where figures: "figures = (lot, x, y)" by (cases figures)
  let ?small = "fl_lt lot (fl_sub (zf_volume_min (zs_frame z)) cash_tolerance)"
  have lot: "sq_normalized_lot w = (if ?small then Fin 0 else lot)" and risk: "sq_max_risk_cash w = zf_max_risk (zs_frame z)"
    and shown: "\<not> ?small \<longrightarrow> sq_actual_stop_risk_cash w = x \<and> sq_margin_cash w = y"
    and sized: "sq_status w = (if fl_lt (Fin 0) (sq_normalized_lot w) then ''SIZED'' else ''WAIT_MINIMUM_LOT_EXCEEDS_RISK_CAP'')"
    and sane: "is_finite (sq_normalized_lot w)"
    and bounds: "\<not> fl_lt (sq_normalized_lot w) (Fin 0)" "\<not> fl_lt GLOBAL_MAX_LOT (sq_normalized_lot w)"
    using assms(1)
    by (auto simp: sizing_quote_def figures BrokerSizingQuote_init_def sizing_cash_checks_def Let_def res_simps
        split: if_splits)
  obtain l where l: "sq_normalized_lot w = Fin l" using sane by (cases "sq_normalized_lot w") auto
  show "fl_le (Fin 0) (sq_normalized_lot w)" "fl_le (sq_normalized_lot w) GLOBAL_MAX_LOT"
    using bounds by (auto simp: l GLOBAL_MAX_LOT_def fl_001)
  show "sq_status w = ''SIZED'' \<longleftrightarrow> fl_lt (Fin 0) (sq_normalized_lot w)" by (simp add: sized)
  show "sq_max_risk_cash w = zf_max_risk (zs_frame z)" by (fact risk)
  show "lot_large_enough (zs_frame z) (sq_normalized_lot w)
      \<and> figures = (sq_normalized_lot w, sq_actual_stop_risk_cash w, sq_margin_cash w)"
    if "fl_lt (Fin 0) (sq_normalized_lot w)"
  proof -
    have "\<not> ?small" using that lot by (auto split: if_splits)
    moreover have "fl_sub (zf_volume_min (zs_frame z)) cash_tolerance \<noteq> NaN"
      using fl_of_rat_unit [of "1 / 10 ^ 12"] by (auto simp: assms(2) cash_tolerance_def)
    ultimately show ?thesis using lot l shown figures
      by (cases "fl_sub (zf_volume_min (zs_frame z)) cash_tolerance") (auto simp: lot_large_enough_def fl_le_def)
  qed
qed

text \<open>The broker computed these figures for this lot and stop, at one adverse entry.\<close>

definition broker_computed :: "'s mt5 \<Rightarrow> string \<Rightarrow> pyfloat \<Rightarrow> pyfloat \<Rightarrow> pyfloat \<Rightarrow> pyfloat \<Rightarrow> bool" where
  "broker_computed m broker_symbol lot stop actual_risk margin =
     (\<exists>order_type adverse s1 s2 s3 profit cash value.
        m5_order_calc_profit m order_type broker_symbol lot adverse stop s1 = (Inr profit, s2)
        \<and> mt5_finite profit ''order_calc_profit'' False = Inr cash \<and> actual_risk = fl_abs cash
        \<and> m5_order_calc_margin m order_type broker_symbol lot adverse s2 = (Inr value, s3)
        \<and> mt5_finite value ''order_calc_margin'' True = Inr margin)"

lemma figures_computed:
  "sizing_figures m z lot s = (Inr (x, y), t) \<Longrightarrow> broker_computed m (zf_broker_symbol z) lot (zf_stop z) x y"
  by (auto simp: sizing_figures_def broker_computed_def act_bind_Inr act_lift_def act_return_def) blast


section \<open>A sized lot, and a loop that stays\<close>

definition sizing_clock :: datetime where
  "sizing_clock = utc_at (epoch_seconds * 1000000 + 1000000)"

definition sizing_info :: item where
  "sizing_info =
     [(''point'', JFloat (Fin (1 / 8))), (''trade_tick_value'', JFloat (Fin 1)), (''digits'', JInt 5),
      (''trade_contract_size'', JFloat (Fin 1)), (''volume_min'', JFloat GLOBAL_MAX_LOT),
      (''volume_max'', JFloat (Fin 1)), (''volume_step'', JFloat GLOBAL_MAX_LOT)]"

text \<open>A broker that answers the risk of a lot with a fixed amount.\<close>

definition sizing_mt5 :: "pyfloat \<Rightarrow> unit mt5" where
  "sizing_mt5 profit =
     \<lparr>m5_clock = act_return sizing_clock, m5_verify_module = act_return (), m5_initialize = act_return (JBool True),
      m5_shutdown = act_return (), m5_last_error = act_return [],
      m5_account_info = act_return (Some [(''login'', JInt 7), (''server'', JStr ''Demo''), (''trade_mode'', JInt 0),
        (''currency'', JStr ''USD'')]),
      m5_symbol_info = (\<lambda>x. act_return (Some sizing_info)),
      m5_symbol_info_tick = (\<lambda>x. act_return (Some [(''bid'', JFloat (Fin 1)), (''ask'', JFloat (Fin 1)), (''time_msc'', JInt 1000)])),
      m5_order_calc_margin = (\<lambda>x y z w. act_return (JFloat (Fin 1))),
      m5_order_calc_profit = (\<lambda>x y z w v. act_return (JFloat profit)),
      m5_copy_ticks_range = (\<lambda>x y z w. act_return None),
      m5_order_check = (\<lambda>x. act_return None), m5_order_send = (\<lambda>x. act_return None),
      m5_orders_get = act_return None, m5_positions_get = act_return None, m5_history_deals_get = (\<lambda>x y. act_return None),
      m5_constants = (\<lambda>name. Some 0)\<rparr>"

definition sizing_adapter :: MT5Adapter where
  "sizing_adapter =
     \<lparr>ad_account_alias = ''A'', ad_broker_legal_name = ''B'', ad_expected_login = 7, ad_expected_server = ''Demo'',
      ad_environment = ''DEMO'', ad_session_calendar_sha256 = replicate 64 (CHR ''a''),
      ad_symbol_map = [(''EURUSD'', ''EURUSD'')], ad_usd_account_currency_symbols = [], ad_max_tick_age_seconds = 10,
      ad_magic_number = 1, ad_deviation_points = 1, ad_initialized = True\<rparr>"

definition sizing_sample :: sizing_request where
  "sizing_sample =
     \<lparr>sr_canonical_symbol = ''EURUSD'', sr_broker_symbol = ''EURUSD'', sr_side = ''BUY'', sr_entry_price = Fin 2,
      sr_stop_loss = Fin 1, sr_equity = Fin 10000, sr_allowed_slippage_points = 0, sr_usd_risk_cap_conversion = None,
      sr_now = None\<rparr>"


definition sizing_spec :: BrokerSpec where
  "sizing_spec =
     \<lparr>bs_account_id = ''A'', bs_broker_legal_name = ''B'', bs_server = ''Demo'', bs_environment = ''DEMO'',
      bs_symbol = ''EURUSD'', bs_broker_symbol = ''EURUSD'', bs_account_currency = ''USD'', bs_digits = 5,
      bs_point = Fin (1 / 8), bs_tick_size = Fin (1 / 8), bs_tick_value = Fin 1, bs_contract_size = Fin 1,
      bs_volume_min = GLOBAL_MAX_LOT, bs_volume_max = Fin 1, bs_volume_step = GLOBAL_MAX_LOT,
      bs_stops_level_points = 0, bs_freeze_level_points = 0, bs_margin_per_lot = Fin 1,
      bs_session_calendar_sha256 = replicate 64 (CHR ''a''), bs_captured_at = sizing_clock,
      bs_schema_version = ''1.0''\<rparr>"

lemma fl_of_int_small: "\<bar>m\<bar> < 2 ^ 53 \<Longrightarrow> fl_of_rat (of_int m) = Fin (of_int m)"
  by (rule fl_of_rat_representable) (rule representable_int)

lemma sizing_spec_built: "BrokerSpec_init sizing_spec = Inr sizing_spec"
proof -
  have chars: "list_all is_hex (replicate 64 (CHR ''a''))" "str_lower (replicate 64 (CHR ''a'')) = replicate 64 (CHR ''a'')"
    "is_upper_letter (CHR ''U'')" "is_upper_letter (CHR ''S'')" "is_upper_letter (CHR ''D'')"
    by (code_simp, code_simp, code_simp, code_simp, code_simp)
  show ?thesis
  by (simp add: BrokerSpec_init_def sizing_spec_def Let_def checked_def raise_if_def require_text_def norm_text_def
      require_currency_def require_hash_def norm_hash_def GLOBAL_MAX_LOT_def fl_001 require_finite.simps finite_bounds_def
      require_int.simps require_utc_def sizing_clock_def utc_at_def upper_evals chars)
qed

lemma sizing_spec_read:
  "get_broker_spec (sizing_mt5 p) sizing_adapter ''EURUSD'' ''EURUSD'' (Some sizing_clock) () = (Inr sizing_spec, ())"
proof -
  have n: "round_half_even 0 = 0" "fl_of_rat 1000 = Fin 1000" "fl_of_rat 1 = Fin 1" "fl_of_rat 0 = Fin 0"
    using round_half_even_of_int [of 0] fl_of_int_small [of 1000] fl_of_int_small [of 1] by simp_all
  have tol: "\<not> fl_lt CLOCK_OVERRIDE_TOLERANCE_SECONDS (Fin 0)"
    using fl_of_rat_unit [of "5 / 100"] by (auto simp: CLOCK_OVERRIDE_TOLERANCE_SECONDS_def)
  show ?thesis
    by (simp add: get_broker_spec_def require_initialized_def adapter_now_def asserted_now_def assert_symbol_binding_def
      assert_account_binding_def account_is_bound_def account_amount_def current_tick_def tick_prices_def time_of_msc_def
      broker_spec_of_def mt5_finite_def mt5_attr_def mt5_attr_or_def expected_trade_mode_def asdict_def
      sizing_mt5_def sizing_adapter_def sizing_info_def sizing_clock_def sizing_spec_def CONTRACT_SCHEMA_VERSION_def
      act_bind_def act_return_def act_lift_def act_raise_def act_require_def raise_if_def Let_def res_reraise_def
      dict_get_or_def dict_get_def dict_item_def py_or_def py_text_def checked_def require_utc_def utc_at_def is_utc_def dt_sub_def instant_def
      total_seconds_def from_seconds_def n tol epoch_seconds_def upper_evals GLOBAL_MAX_LOT_def fl_001)
      (use sizing_spec_built in \<open>simp add: sizing_spec_def GLOBAL_MAX_LOT_def fl_001 sizing_clock_def utc_at_def epoch_seconds_def\<close>)
qed

lemma sizing_step_read:
  assumes "get_broker_spec (sizing_mt5 p) sizing_adapter x y now s = (Inr spec, t)"
  shows "bs_volume_step spec = GLOBAL_MAX_LOT"
  using assms
  by (auto simp: get_broker_spec_def broker_spec_of_def act_bind_Inr act_lift_def act_return_def res_simps Let_def
      sizing_mt5_def asdict_def sizing_info_def dict_get_def mt5_finite_def BrokerSpec_init_def
      GLOBAL_MAX_LOT_def fl_001 simp del: require_finite.simps)

text \<open>The broker refuses every lot, or accepts the first: the call returns either way.\<close>

theorem sizing_terminates_witness:
  "\<forall>p. \<exists>r s'. calculate_broker_sized_lot (sizing_mt5 p) sizing_adapter sizing_sample () = Some (r, s')"
proof
  fix p
  show "\<exists>r s'. calculate_broker_sized_lot (sizing_mt5 p) sizing_adapter sizing_sample () = Some (r, s')"
    by (rule sizing_terminates) (simp add: sizing_step_read GLOBAL_MAX_LOT_def fl_001)
qed

definition sample_start :: sizing_start where
  "sample_start =
     \<lparr>zs_now = sizing_clock, zs_account_currency = ''USD'', zs_conversion_rate = Fin 1,
      zs_conversion_sha256 = IDENTITY_CONVERSION_SHA256, zs_cap_usd = Fin (1 / 4),
      zs_frame = \<lparr>zf_order_type = 0, zf_broker_symbol = ''EURUSD'', zf_adverse_entry = Fin 2, zf_stop = Fin 1,
                  zf_equity = Fin 10000, zf_max_risk = Fin (1 / 4), zf_volume_min = GLOBAL_MAX_LOT,
                  zf_volume_step = GLOBAL_MAX_LOT\<rparr>,
      zs_lot = GLOBAL_MAX_LOT\<rparr>"

lemma sample_first_lot: "first_lot sizing_spec GLOBAL_MAX_LOT = Inr GLOBAL_MAX_LOT"
  by (simp add: first_lot_def volume_grid_def sizing_spec_def Let_def dec_str_def GLOBAL_MAX_LOT_def fl_001 dec_round_001)

lemma sample_small_ints: "fl_of_rat 0 = Fin 0" "fl_of_rat 1 = Fin 1" "fl_of_rat 2 = Fin 2" "fl_of_rat 1000 = Fin 1000"
  using fl_of_int_small [of 1] fl_of_int_small [of 2] fl_of_int_small [of 1000] by simp_all

lemma sample_setup: "sizing_setup (sizing_mt5 (Fin (- (1 / 4)))) sizing_adapter sizing_sample () = (Inr sample_start, ())"
proof -
  have limit: "sizing_limit sizing_spec (Fin 10000) (Fin (1 / 4)) (Fin (1 / 4)) = Inr GLOBAL_MAX_LOT"
    by (simp add: sizing_limit_def sizing_spec_def risk_constants sample_floats sample_small_ints)
  have "sizing_conversion sizing_adapter sizing_spec None sizing_clock = Inr (Fin 1, IDENTITY_CONVERSION_SHA256)"
    by (simp add: sizing_conversion_def sizing_spec_def upper_evals)
  moreover have "m5_clock (sizing_mt5 p) = act_return sizing_clock" "m5_verify_module (sizing_mt5 p) = act_return ()"
    "m5_order_calc_profit (sizing_mt5 p) = (\<lambda>x y z w v. act_return (JFloat p))" "m5_constants (sizing_mt5 p) n = Some 0"
    "ad_initialized sizing_adapter" "bs_account_currency sizing_spec = ''USD''" "bs_point sizing_spec = Fin (1 / 8)"
    "bs_volume_min sizing_spec = GLOBAL_MAX_LOT" "bs_volume_step sizing_spec = GLOBAL_MAX_LOT" for p n
    by (simp_all add: sizing_mt5_def sizing_adapter_def sizing_spec_def)
  moreover have "fl_min (fl_mul RISK_PERCENT_CAP (Fin 10000)) (Fin (1 / 4)) = Fin (1 / 4)"
    "absolute_risk_cap_usd ''EURUSD'' = Inr (Fin (1 / 4))"
    by (simp_all add: absolute_risk_cap_usd_def sample_text risk_constants sample_floats sample_dyadic)
  ultimately show ?thesis
    using sizing_spec_read [of "Fin (- (1 / 4))"] limit sample_first_lot
    by (simp add: sizing_setup_def require_initialized_def adapter_now_def asserted_now_def act_bind_def act_return_def act_lift_def
        act_require_def sizing_input_checks_def sizing_side_def sizing_sample_def finite_field_def order_type_of_def mt5_attr_def
        adverse_price_def mt5_finite_def res_reraise_def require_utc_def sizing_clock_def utc_at_def
        checked_def raise_if_def sample_small_ints sample_dyadic sample_start_def Let_def upper_evals)
qed


definition sample_quote :: BrokerSizingQuote where
  "sample_quote =
     \<lparr>sq_symbol = ''EURUSD'', sq_broker_symbol = ''EURUSD'', sq_evaluated_at_utc = sizing_clock,
      sq_normalized_lot = GLOBAL_MAX_LOT, sq_max_risk_cash = Fin (1 / 4), sq_actual_stop_risk_cash = Fin (1 / 4),
      sq_margin_cash = Fin 1, sq_status = ''SIZED'', sq_account_currency = ''USD'', sq_absolute_risk_cap_usd = Fin (1 / 4),
      sq_usd_to_account_currency_rate = Fin 1, sq_absolute_risk_cap_account_currency = Fin (1 / 4),
      sq_conversion_quote_sha256 = IDENTITY_CONVERSION_SHA256\<rparr>"

lemma sample_within: 
  "lot_large_enough (zs_frame sample_start) GLOBAL_MAX_LOT" "\<not> fl_lt GLOBAL_MAX_LOT (fl_sub GLOBAL_MAX_LOT cash_tolerance)"
  "within_caps (zs_frame sample_start) (Fin (1 / 4)) (Fin 1)"
proof -
  show less: "\<not> fl_lt GLOBAL_MAX_LOT (fl_sub GLOBAL_MAX_LOT cash_tolerance)"
    by (simp add: GLOBAL_MAX_LOT_def cash_tolerance_def sample_floats fl_of_rat_not_gt [OF representable_001])
  then show "lot_large_enough (zs_frame sample_start) GLOBAL_MAX_LOT"
    unfolding lot_large_enough_def sample_start_def
    by (cases "fl_sub GLOBAL_MAX_LOT cash_tolerance")
       (auto simp: fl_le_def GLOBAL_MAX_LOT_def cash_tolerance_def sample_floats)
  have "representable (1 / 4)" "representable 1" using representableI [of "1 / 4" 1 2] representable_int [of 1] by simp_all
  then show "within_caps (zs_frame sample_start) (Fin (1 / 4)) (Fin 1)"
    by (simp add: within_caps_def sample_start_def cash_tolerance_def MAX_MARGIN_FRACTION_def sample_floats fl_of_rat_at_least)
qed

lemma sample_quote_made:
  "calculate_broker_sized_lot (sizing_mt5 (Fin (- (1 / 4)))) sizing_adapter sizing_sample () = Some (Inr sample_quote, ())"
proof -
  have figures: "sizing_figures (sizing_mt5 (Fin (- (1 / 4)))) z lot () = (Inr (Fin (1 / 4), Fin 1), ())" for z lot
    by (simp add: sizing_figures_def sizing_mt5_def act_bind_def act_return_def act_lift_def mt5_finite_def res_reraise_def)
  have "require_hash ''conversion_quote_sha256'' IDENTITY_CONVERSION_SHA256 64 = Inr IDENTITY_CONVERSION_SHA256"
    "norm_hash IDENTITY_CONVERSION_SHA256 = IDENTITY_CONVERSION_SHA256" by (code_simp, code_simp)
  then have "sizing_quote sizing_sample sample_start (GLOBAL_MAX_LOT, Fin (1 / 4), Fin 1) = Inr sample_quote"
    using sample_within(2)
    by (simp add: sizing_quote_def sample_start_def sizing_sample_def sample_quote_def BrokerSizingQuote_init_def sizing_cash_checks_def
        sizing_cap_checks_def finite_field_def mt5_finite_def res_reraise_def checked_def raise_if_def cash_tolerance_def GLOBAL_MAX_LOT_def
        sample_floats sample_dyadic sample_text fl_of_rat_not_lt isclose_abs_def require_utc_def sizing_clock_def utc_at_def
        upper_evals Let_def)
  moreover have "zs_lot sample_start = GLOBAL_MAX_LOT" by (simp add: sample_start_def)
  ultimately show ?thesis
    using sample_within
    by (simp add: calculate_broker_sized_lot_def sample_setup sizing_loop.simps [of _ _ GLOBAL_MAX_LOT] figures)
qed


lemma fl_lt_not_le: "fl_lt x y \<Longrightarrow> \<not> fl_le y x"
  by (cases x; cases y) (auto simp: fl_le_def)

text \<open>A step the subtraction does not notice keeps a broker that refuses the lot in the loop forever.\<close>

lemma unnoticed_step_never_returns:
  fixes m :: "'s mt5"
  assumes "smaller_lot lot (zf_volume_step z) = lot" and "lot_large_enough z lot"
    and refused: "\<And>s. \<exists>x y t. sizing_figures m z lot s = (Inr (x, y), t) \<and> \<not> within_caps z x y"
  shows "sizing_loop m z lot x y s = None"
proof (rule ccontr)
  assume "sizing_loop m z lot x y s \<noteq> None"
  then obtain out where returns: "sizing_loop m z lot x y s = Some out" by auto
  have "\<not> (m = m \<and> z = z \<and> lot = lot)"
  proof (rule sizing_loop.raw_induct [where P = "\<lambda>m' z' lot' x y s out. \<not> (m' = m \<and> z' = z \<and> lot' = lot)", OF _ returns])
    fix f m' z' lot' x y s out
    assume IH: "\<And>m' z' lot' x y s out. f m' z' lot' x y s = Some out \<Longrightarrow> \<not> (m' = m \<and> z' = z \<and> lot' = lot)"
      and eq: "(if \<not> lot_large_enough z' lot' then Some (Inr (lot', x, y), s)
        else case sizing_figures m' z' lot' s of
               (Inl e, s1) \<Rightarrow> Some (Inl e, s1)
             | (Inr (actual_risk', margin'), s1) \<Rightarrow>
                 if within_caps z' actual_risk' margin' then Some (Inr (lot', actual_risk', margin'), s1)
                 else f m' z' (smaller_lot lot' (zf_volume_step z')) actual_risk' margin' s1) = Some out"
    show "\<not> (m' = m \<and> z' = z \<and> lot' = lot)"
    proof
      assume same: "m' = m \<and> z' = z \<and> lot' = lot"
      with refused [of s] eq assms(1,2) obtain x' y' t where "f m' z' lot' x' y' t = Some out" by auto
      with IH same show False by blast
    qed
  qed
  then show False by simp
qed

lemma tiny_step_unnoticed: "smaller_lot GLOBAL_MAX_LOT (Fin (1 / 2 ^ 100)) = GLOBAL_MAX_LOT"
proof -
  define d where "d = 1 / 100 - dec_of_float (1 / 2 ^ 100)"
  have "\<bar>dec_of_float (1 / 2 ^ 100)\<bar> \<le> 1 / 2 ^ 98"
    using dec_of_float_bounds [of "1 / 2 ^ 100" "1 / 2 ^ 100"] unfolding abs_le_iff by simp
  then have d: "\<bar>d - 1 / 100\<bar> \<le> 1 / 2 ^ 98" "\<bar>d\<bar> \<le> 1" unfolding d_def abs_le_iff by simp_all
  have "\<bar>dec_round d - 1 / 100\<bar> \<le> 1 / 2 ^ 80"
    using dec_round_bounds [OF d(2)] d(1) unfolding abs_le_iff by simp
  then have near: "1 / 100 - 1 / 2 ^ 80 \<le> dec_round d" "dec_round d \<le> 1 / 100 + 1 / 2 ^ 80"
    unfolding abs_le_iff by simp_all
  have "fl_of_rat (dec_round d) = Fin (5764607523034235 / 576460752303423488)"
    using near by (intro fl_of_rat_eval [where e = "- 7" and m = 5764607523034235]) (simp_all add: pow_rat_def abs_less_iff)
  then show ?thesis by (simp add: GLOBAL_MAX_LOT_def fl_001 dec_str_def d_def)
qed

lemma tiny_step_never_returns:
  "sizing_loop (sizing_mt5 (Fin (- 1))) (zs_frame sample_start\<lparr>zf_volume_step := Fin (1 / 2 ^ 100)\<rparr>) GLOBAL_MAX_LOT x y () = None"
proof (rule unnoticed_step_never_returns)
  let ?z = "zs_frame sample_start\<lparr>zf_volume_step := Fin (1 / 2 ^ 100)\<rparr>"
  show "smaller_lot GLOBAL_MAX_LOT (zf_volume_step ?z) = GLOBAL_MAX_LOT" using tiny_step_unnoticed by simp
  show "lot_large_enough ?z GLOBAL_MAX_LOT" using sample_within(1) by (simp add: lot_large_enough_def)
  have "fl_lt (fl_add (Fin (1 / 4)) cash_tolerance) (Fin 1)"
    using fl_of_rat_lt [of "1 / 2" _ 1] representableI [of "1 / 2" 1 1] by (simp add: cash_tolerance_def fl_tolerance)
  then have "\<not> within_caps ?z (Fin 1) (Fin 1)" by (simp add: within_caps_def sample_start_def fl_lt_not_le)
  then show "\<exists>x y t. sizing_figures (sizing_mt5 (Fin (- 1))) ?z GLOBAL_MAX_LOT s = (Inr (x, y), t) \<and> \<not> within_caps ?z x y" for s
    by (simp add: sizing_figures_def sizing_mt5_def act_bind_def act_return_def act_lift_def mt5_finite_def res_reraise_def)
qed

end
