(* ===== verification/Spec2Isabelle.thy ===== *)
theory Spec2Isabelle
  imports Permit_Safety Journal_Controls Execution_Policy Health Market_Guard Controls_Safety Reconciliation_Safety Risk_Context_Safety
    Executor_Gates Mt5_Sizing
begin

text \<open>
  A verification library of the trading safety runtime: the Python package \<open>src/live_runtime\<close> and
  the static envelope \<open>src/execution_policy.py\<close>.

  \<^bold>\<open>The program.\<close> A signal becomes a broker order only by passing through a chain of components that
  each may refuse. A decision is sealed into a \<open>DecisionSnapshot\<close> and a \<open>TradeIntent\<close> (contracts); a
  collector reads tick, account and health facts and signs them into a receipt that lives one second
  (runtime facts); a durable ledger derives the loss counters of the account from an authenticated
  history (risk ledger); a factory joins both with exposure and calibration receipts into the context
  the risk governor evaluates (risk context, risk); a promotion permit, an environment arm, a manual
  approval, the market guard and the health monitor are further gates (permit, controls, market guard,
  health). The execution journal records the intent's life from creation to reconciliation, with the
  executor's fence, the daily and exposure limits, the kill switch and the one-use submission lease
  that the final guard consumes immediately before the broker is called (journal). After a send, or a
  crash, reconciliation compares the broker's orders, positions and deals with the journal and moves
  intents on or latches the kill switch (reconciliation). The broker is reached through one adapter, which
  binds the account, checks an order before and at the moment of sending, and sends only against the lease
  (MT5 adapter). The coordinator puts the chain together: it holds the account's fence, so that one
  runtime of the host trades an account, and takes one intent through every gate (executor).

  \<^bold>\<open>The language.\<close>
  \<^item> \<open>AS_Prelude\<close>: results of calls that may raise (\<open>'a res\<close>), the checks of \<open>__post_init__\<close> methods,
    lemmas on lists and strings, the collections \<open>res_simps\<close> and the like.
  \<^item> \<open>Py_Float\<close>, \<open>Py_Float_Error\<close>, \<open>Py_Time\<close>: binary64 numbers with correct rounding and bounds on its error,
    \<open>Decimal\<close> where the source uses it; \<open>datetime\<close> with its offset, \<open>timedelta\<close>, ISO text and \<open>timestamp()\<close>.
  \<^item> \<open>Py_Values\<close>, \<open>Py_Json\<close>, \<open>Py_Hash\<close>: untyped values, the canonical JSON text, SHA-256 and HMAC
    written out on 32-bit words.

  \<^bold>\<open>The contracts\<close> are locales of \<open>Interfaces\<close>, \<open>Lifecycle\<close> and \<open>Executor_Contract\<close>, each interpreted on the model's own
  definitions in the theory that provides them.
  \<^item> \<open>reason_gate\<close>: a verdict that is positive exactly when no reason is published, with canonical
    reasons. Interpreted for the risk governor, permits, health, the market guard, the model binding, the arm and the
    manual approval.
  \<^item> \<open>signed_artifact\<close>: a record in normal form, its signing payload and its HMAC. Interpreted for
    permits, news feeds, manual approvals, fact receipts, exposure and calibration receipts.
  \<^item> \<open>authenticated_log\<close>: a hash chain; a second log that ends in the same head is the same log, or two
    bodies collide. Interpreted for the event table of the risk ledger.
  \<^item> \<open>transition_system\<close> and \<open>exposure_lifecycle\<close>: reachability, and the abstract life cycle of intents
    that the runtime refines. Interpreted for the runtime's step relation, the fences of a host and the platform.
  \<^item> \<open>broker_session\<close>, \<open>stage_contract\<close>, \<open>send_contract\<close>: a relation on states that the calls of the environment
    keep is kept by every adapter call, every stage of the coordinator and the guarded send, on all paths.
    Interpreted four times: as a run of the runtime with a proof for each send, as no send at all, as
    steps of the fences, and as holding the fence while sending.

  \<^bold>\<open>The components\<close>, by theory and source file.
  \<^item> \<open>Contracts\<close> (\<open>contracts.py\<close>): validators, canonical hashing, every sealed record and its minting.
    Constructors are idempotent on what they accept.
  \<^item> \<open>Execution_Policy\<close> (\<open>execution_policy.py\<close>): symbols, modes and lots; the envelope is exact.
  \<^item> \<open>Risk\<close>, \<open>Risk_Safety\<close> (\<open>risk.py\<close>): sizing and all gates of \<open>evaluate_risk\<close>; an allowed trade is
    inside every cap, a locked mode is never allowed.
  \<^item> \<open>Permit\<close>, \<open>Permit_Safety\<close> (\<open>permit.py\<close>): the signed permit, its validation, and the reset of the
    kill switch under dual control.
  \<^item> \<open>Health\<close> (\<open>health.py\<close>), \<open>Market_Guard\<close> (\<open>market_guard.py\<close>), \<open>Controls\<close> and \<open>Controls_Safety\<close>
    (\<open>controls.py\<close>): each gate's verdict is characterised exactly.
  \<^item> \<open>Mt5_Contracts\<close>, \<open>Mt5_Session\<close>, \<open>Mt5_Preflight\<close>, \<open>Mt5_Authorization\<close>, \<open>Mt5_Submit\<close> (\<open>mt5_adapter.py\<close>): sealed
    records, the session and its readers, preflight and submission guard, the capability and authorization,
    and \<open>submit\<close>. A call of the \<open>MetaTrader5\<close> package is a procedure on an arbitrary state: it may answer
    differently each time, raise, and let anything happen outside. \<open>Mt5_Sizing\<close>: the sizing quote, whose loop
    returns for every broker with a volume step of at least 1e-12 and stays within the caps.
  \<^item> \<open>Account_Fence\<close> (\<open>account_fence.py\<close>): the lock of an account, over processes, crashes and both operating
    systems; one account has one holder. \<open>Model_Governance\<close> (\<open>model_governance.py\<close>): the artifact's digest and
    the binding decision.
  \<^item> \<open>Journal_State\<close>, \<open>Journal\<close> (\<open>journal.py\<close>): the tables and every operation. \<open>Journal_Effects\<close>,
    \<open>Journal_Runtime\<close>, \<open>Submission_Runtime\<close>: what an operation may change, one committed transaction
    (\<open>run_op\<close>), and the step relation \<open>rt_step\<close> that interleaves transactions, leases held in memory,
    the final guard and crashes. \<open>Lifecycle\<close> is the abstract specification. \<open>Journal_Safety\<close> and
    \<open>Journal_Controls\<close> prove, over all interleavings: one exposed intent, a send at most once, no send
    without guard or against a latched switch, a daily limit, the fence, single-use resets, replayable
    transition logs and immutable bindings. \<open>Journal_Sample\<close> is a run that shows the hypotheses hold.
  \<^item> \<open>Reconciliation\<close>, \<open>Reconciliation_Outcomes\<close>, \<open>Reconciliation_Safety\<close> (\<open>reconciliation.py\<close>, the cycle):
    every write is a step of the runtime, unexplained exposure latches the switch, every exposed
    intent is accounted for.
  \<^item> \<open>Risk_Ledger\<close>, \<open>Risk_Source\<close>, \<open>Risk_Store\<close> (\<open>risk_ledger.py\<close>): bindings, events, source receipts,
    replay, verification, append, receipts, checkpoints. \<open>Risk_Codec\<close>, \<open>Risk_Replay\<close>, \<open>Risk_Append\<close>,
    \<open>Risk_Ledger_Safety\<close>: stored rows parse back, the certified state is the declared function of the
    history, an admissible event is appended, a fork is detected.
  \<^item> \<open>Runtime_Facts\<close>, \<open>Runtime_Facts_Safety\<close> (\<open>runtime_fact_collector.py\<close>): a collected receipt verifies
    for exactly one second.
  \<^item> \<open>Risk_Context\<close>, \<open>Risk_Context_Safety\<close> (\<open>risk_context_factory.py\<close>): a context exists only when all
    proofs are signed, bound to one lane and fresh, and is usable while they are.
  \<^item> \<open>Executor\<close> (\<open>executor.py\<close>): \<open>execute_once\<close>, stage by stage, with other processes allowed to run before each
    access to the journal. \<open>Executor_Contract\<close> holds the contracts, \<open>Executor_Safety\<close> shows that an execution is
    a run of the runtime and that, over all interleavings of executions, \<open>order_send\<close> is called at most once per
    intent; \<open>Executor_Gates\<close> that an order is sent only behind every gate, by the holder of the account's fence.
  \<^item> This theory: the properties that span components (the latched switch reaching the governor through
    the context) and the envelope.

  \<^bold>\<open>Bounds and choices.\<close>
  \<^item> Instants are microseconds with an offset; where Python would raise \<open>OverflowError\<close> outside the years
    1 to 9999 the hypothesis \<open>in_datetime_range\<close> is stated. Facts that depend on float timestamps are
    stated within 136 years of the epoch, where \<open>timestamp()\<close> is monotone to the microsecond.
  \<^item> Text is ASCII where the source calls \<open>upper\<close>, \<open>strip\<close> or \<open>casefold\<close> or encodes to UTF-8.
  \<^item> An SQLite transaction is one step: \<open>BEGIN IMMEDIATE\<close> serialises writers and an exception rolls back.
    JSON columns are values in text order. The clock is an argument of each operation.
  \<^item> SHA-256 and HMAC are concrete; a theorem that needs them injective names the collision.
  \<^item> Providers the deployment supplies (keys, clocks, host probes, the broker) are arguments, and what a
    theorem relies on is a hypothesis of it.
  \<^item> No definition of the model uses fuel: the loops of the source run over finite collections, except
    the sizing loop, which is a \<open>partial_function\<close> into \<open>option\<close> where \<open>None\<close> means that it does not return.

  \<^bold>\<open>Not modelled.\<close>
  \<^item> The branches of \<open>executor.py\<close> that only DEMO_AUTO and LIVE take behind the safety gate (session settlement,
    canary authority, champion expectations): the release locks of the policy reject both modes at the
    gate. What those modes need in front of it is a procedure of the environment.
  \<^item> The attestation of the installed \<open>MetaTrader5\<close> files (\<open>mt5_module_attestation.py\<close>): a procedure of the
    environment that may raise.
  \<^item> \<open>runtime_supervisor.py\<close>, \<open>runtime_service.py\<close>: start-up, heartbeats and restarts over threads, sockets and
    files. The step relation admits every order of the modelled operations, so the safety properties do
    not depend on it; that an execution reaches the broker is not claimed.
  \<^item> The signed receipts of \<open>reconciliation.py\<close> (the completion record after the cycle), the staged
    promotion evidence (\<open>stage_authorization.py\<close>, \<open>promotion_*.py\<close>, the soak and demo trackers), the
    canary and Windows packaging families: release evidence about artefacts on disk, not the order path.
  \<^item> \<open>decision_engine.py\<close> and the strategies: scoring heuristics over \<open>pandas\<close> frames.
  \<^item> The dashboards, command-line runners, operator packs, research scripts and tests.
\<close>

section \<open>The execution envelope\<close>



text \<open>
  An intent that its constructor accepts, on a decision that its constructor accepts, is created after
  the decision's bar closed and expires at most ten seconds after that close, to the microsecond,
  although the code compares floating-point timestamps. Instants are within 136 years of the epoch.
\<close>

theorem intent_entry_window:
  assumes "DecisionSnapshot_init sealed d raw = Inr (ti_decision t)" and "TradeIntent_init t = Inr t'"
    and "\<bar>timestamp_us (ds_bar_closed_at (ti_decision t))\<bar> < 4294967000 * 1000000"
  shows "dt_lt (ds_bar_closed_at (ti_decision t')) (ti_created_at t')
    \<and> dt_lt (ti_created_at t') (ti_expires_at t')
    \<and> dt_le (ti_expires_at t') (dt_add (ds_bar_closed_at (ti_decision t')) (seconds 10))
    \<and> TradeIntent_init t' = Inr t'"
  using TradeIntent_in_window [OF assms(2) _ assms(3)] DecisionSnapshot_init_wf [OF assms(1)]
    TradeIntent_init_idem [OF assms(2)] by blast

lemma sample_decision_built: "DecisionSnapshot_init True sample_decision [(''trend'', ScorePoints 7)] = Inr sample_decision"
  by (simp add: DecisionSnapshot_init_def sample_decision_def Let_def checked_def raise_if_def
      normalize_score_components_def require_text_def decision_price_checks_def decision_time_checks_def
      require_finite.simps require_int.simps finite_bounds_def prices_ordered_def require_utc_def
      require_decision_timeframe_def decision_timeframe_seconds_def sample_bar_def utc_at_def dt_add_def
      dt_lt_def dt_le_def instant_def seconds_def entry_window_seconds_def timestamp_us_def epoch_seconds_def
      upper_evals)

lemma sample_intent_built: "TradeIntent_init (sample_intent ''PAPER'') = Inr (sample_intent ''PAPER'')"
proof -
  have aligned: "bar_aligned sample_decision" "\<bar>timestamp_us (ds_bar_closed_at sample_decision)\<bar> < 4294967000 * 1000000"
    by (simp_all add: bar_aligned_def sample_decision_def sample_bar_def timestamp_us_def epoch_seconds_def)
  note deadline = entry_deadline_exact [OF aligned]
  have sides: "ds_timeframe sample_decision = ''M15''" "ds_symbol sample_decision = ''EURUSD''"
    "ds_side sample_decision = ''BUY''" "ds_entry_reference sample_decision = Some (Fin (5 / 4))"
    "ds_stop_loss sample_decision = Some (Fin (19 / 16))" "ds_take_profit sample_decision = Some (Fin (11 / 8))"
    "ds_created_at sample_decision = dt_add sample_bar (seconds 1)" "ds_bar_closed_at sample_decision = sample_bar"
    by (simp_all add: sample_decision_def)
  show ?thesis
    by (simp add: TradeIntent_init_def sample_intent_def Let_def checked_def raise_if_def require_text_def
      deadline sides fl_001 fl_eq_opt_def prices_ordered_def require_finite.simps finite_bounds_def require_utc_def
      sample_bar_def utc_at_def dt_add_def dt_lt_def dt_le_def instant_def seconds_def timestamp_us_def
      epoch_seconds_def execution_modes_def upper_evals)
qed

theorem intent_entry_window_witness:
  "dt_le (ti_expires_at (sample_intent ''PAPER'')) (dt_add sample_bar (seconds 10))"
proof -
  have "ti_decision (sample_intent ''PAPER'') = sample_decision" "ds_bar_closed_at sample_decision = sample_bar"
    "\<bar>timestamp_us (ds_bar_closed_at sample_decision)\<bar> < 4294967000 * 1000000"
    by (simp_all add: sample_intent_def sample_decision_def sample_bar_def timestamp_us_def epoch_seconds_def)
  with intent_entry_window [of True sample_decision "[(''trend'', ScorePoints 7)]" "sample_intent ''PAPER''",
      OF _ sample_intent_built] sample_decision_built show ?thesis by simp
qed

section \<open>The kill switch and the risk context\<close>

text \<open>
  (C32) The kill switch reaches the risk context: runtime facts collected while the journal's
  switch is latched carry an unhealthy decision that names it, and no risk context is ever created
  from them, whatever the other proofs, keys and expectations are.
\<close>

theorem latched_switch_denies_context:
  assumes "collect c src symbol broker_symbol = Inr r"
    and "fs_kill_switch_status src = Inr (kill_switch_mapping (kill_switch_status st))" and "ks_latched (kill_switch_status st)"
  shows "\<not> hd_healthy (rf_health_decision r) \<and> ''KILL_SWITCH_LATCHED'' \<in> set (hd_reason_codes (rf_health_decision r))
    \<and> (\<forall>p expected keys clock v. rp_runtime_fact p = r \<longrightarrow> create_verified_risk_context p expected keys clock \<noteq> Inr v)"
proof -
  obtain h where host: "collect_host_facts src = Inr h"
    and latched: "hf_kill_switch_latched (rf_health_facts r) = hs_kill_switch_latched h"
    and decision: "evaluate_runtime_health (rf_health_facts r) = Inr (rf_health_decision r)"
    using assms(1) by (rule collected_receipt)
  have "hs_kill_switch_latched h"
    using host assms(2,3)
    by (auto simp: collect_host_facts_def res_bind_Inr_iff some_or_def kill_switch_mapping_def split: option.splits)
  then have fired: "(True, ''KILL_SWITCH_LATCHED'') \<in> set (health_checks (rf_health_facts r))"
    by (simp add: health_checks_def Let_def latched)
  then have code: "''KILL_SWITCH_LATCHED'' \<in> set (hd_reason_codes (rf_health_decision r))"
    using decision by (simp add: evaluate_health_cases fired_mem)
  have unhealthy: "\<not> hd_healthy (rf_health_decision r)"
    using decision fired by (auto simp: evaluate_health_cases list.pred_set)
  have "create_verified_risk_context p expected keys clock \<noteq> Inr v" if "rp_runtime_fact p = r" for p expected keys clock v
  proof
    assume "create_verified_risk_context p expected keys clock = Inr v"
    then obtain now e alias_sha where "proof_reasons p keys e alias_sha now = []" by (rule create_cases)
    then show False using unhealthy that by (simp add: proof_reasons_Nil risk_binding_gates_def Let_def)
  qed
  with code unhealthy show ?thesis by blast
qed

lemma stopped_collects:
  assumes "src = (sample_sources True)\<lparr>fs_kill_switch_status := Inr (kill_switch_mapping (kill_switch_status run_stopped))\<rparr>"
  shows "\<exists>r. collect sample_collector src ''EURUSD'' ''EURUSD'' = Inr r"
proof -
  have host: "collect_host_facts src = collect_host_facts (sample_sources True)"
    by (simp add: assms collect_host_facts_def sample_sources_def kill_switch_mapping_def kill_switch_status_def run_stopped_def
        some_or_def)
  have broker: "collect_broker_facts src = collect_broker_facts (sample_sources True)"
    "max_tick_age_of src = max_tick_age_of (sample_sources True)"
    by (simp_all add: assms collect_broker_facts_def max_tick_age_of_def fun_eq_iff)
  have "collect sample_collector src ''EURUSD'' ''EURUSD''
      = collect sample_collector (sample_sources True) ''EURUSD'' ''EURUSD''"
    unfolding collect_def host broker ..
  then show ?thesis using sample_collects [of True] by metis
qed

theorem latched_switch_denies_context_witness:
  "\<exists>src r. collect sample_collector src ''EURUSD'' ''EURUSD'' = Inr r \<and> \<not> hd_healthy (rf_health_decision r)"
proof -
  define src where "src = (sample_sources True)\<lparr>fs_kill_switch_status := Inr (kill_switch_mapping (kill_switch_status run_stopped))\<rparr>"
  obtain r where r: "collect sample_collector src ''EURUSD'' ''EURUSD'' = Inr r" using stopped_collects [OF src_def] by blast
  have "fs_kill_switch_status src = Inr (kill_switch_mapping (kill_switch_status run_stopped))"
    "ks_latched (kill_switch_status run_stopped)"
    by (simp_all add: src_def kill_switch_status_def run_stopped_def)
  from latched_switch_denies_context [OF r this] r show ?thesis by blast
qed

end
